(* ===== verification/Prelude.thy ===== *)
theory Prelude
  imports Complex_Main
begin

text \<open>
  The vocabulary every component shares.

  \<^item> Values of Python's standard library: instants and dates (UTC, in microseconds and
    days), \<open>timedelta\<close>, the string methods the sources call, and JSON payloads (columns
    of type \<open>dict[str, Any]\<close>).
  \<^item> Tables: a mapped class is a record, a table is the list of its rows in insertion
    order, and the session calls of the sources (\<open>session.get\<close>, \<open>select ... where ...
    order_by ... limit\<close>, attribute assignment on a loaded row, \<open>session.add\<close>) are the
    functions \<open>tget\<close>, \<open>select_first\<close>, \<open>tupd\<close> and \<open>next_id\<close> below.
  \<^item> Results: an operation that can raise returns a value of \<open>'e + 'a\<close>, \<open>Inl\<close> of the
    exception. A raised exception carries no database: the request and worker sessions
    roll back on every exception (\<open>db/base.py\<close>, \<open>get_session\<close> and \<open>worker_session\<close>).

  Amounts in US dollars and every other Python \<open>float\<close> are rationals here, so binary
  rounding of floating-point sums is outside the model.
\<close>

named_theorems table_simps
named_theorems row_defs

type_synonym instant = int   \<comment> \<open>an aware UTC datetime: microseconds since the epoch\<close>
type_synonym calendar_date = int      \<comment> \<open>a date: days since the epoch\<close>
type_synonym usd = rat

section \<open>Instants\<close>

definition round_half_even :: "rat \<Rightarrow> int" where
  "round_half_even x =
     (let f = floor x; d = x - of_int f
      in if d < 1 / 2 then f
         else if 1 / 2 < d then f + 1
         else if even f then f else f + 1)"

definition timedelta_seconds :: "rat \<Rightarrow> int" where
  "timedelta_seconds s = round_half_even (s * 1000000)"

definition timedelta_minutes :: "int \<Rightarrow> int" where
  "timedelta_minutes m = m * 60000000"

definition timedelta_hours :: "int \<Rightarrow> int" where
  "timedelta_hours h = h * 3600000000"

definition timedelta_days :: "int \<Rightarrow> int" where
  "timedelta_days d = d * 86400000000"

definition date_of :: "instant \<Rightarrow> calendar_date" where
  "date_of t = t div 86400000000"

section \<open>Strings\<close>

definition is_py_space :: "char \<Rightarrow> bool" where
  "is_py_space c =
     (let n = (of_char c :: nat)
      in (9 \<le> n \<and> n \<le> 13) \<or> (28 \<le> n \<and> n \<le> 32) \<or> n = 133 \<or> n = 160)"

definition py_lstrip :: "string \<Rightarrow> string" where
  "py_lstrip s = dropWhile is_py_space s"

definition py_strip :: "string \<Rightarrow> string" where
  "py_strip s = rev (dropWhile is_py_space (rev (py_lstrip s)))"

definition char_lower :: "char \<Rightarrow> char" where
  "char_lower c =
     (let n = (of_char c :: nat)
      in if (65 \<le> n \<and> n \<le> 90) \<or> (192 \<le> n \<and> n \<le> 222 \<and> n \<noteq> 215)
         then char_of (n + 32) else c)"

definition py_lower :: "string \<Rightarrow> string" where
  "py_lower s = map char_lower s"

definition is_py_digit :: "char \<Rightarrow> bool" where
  "is_py_digit c =
     (let n = (of_char c :: nat)
      in (48 \<le> n \<and> n \<le> 57) \<or> n = 178 \<or> n = 179 \<or> n = 185)"

text \<open>\<open>str(n)\<close> of an integer, in decimal.\<close>

fun nat_digits :: "nat \<Rightarrow> string" where
  "nat_digits n =
     (if n < 10 then [char_of (48 + n)]
      else nat_digits (n div 10) @ [char_of (48 + n mod 10)])"

declare nat_digits.simps [simp del]

definition py_str_int :: "int \<Rightarrow> string" where
  "py_str_int i = (if i < 0 then CHR ''-'' # nat_digits (nat (- i)) else nat_digits (nat i))"

text \<open>Python's \<open>value or default\<close> on an optional string: empty strings are falsy.\<close>

definition truthy_str :: "string option \<Rightarrow> bool" where
  "truthy_str s = (case s of None \<Rightarrow> False | Some t \<Rightarrow> t \<noteq> [])"

definition str_or :: "string option \<Rightarrow> string option \<Rightarrow> string option" where
  "str_or s d = (if truthy_str s then s else d)"

text \<open>\<open>s.split()\<close> and \<open>" ".join(words)\<close>.\<close>

definition split_words :: "string \<Rightarrow> string list" where
  "split_words s = filter (\<lambda>w. w \<noteq> [])
     (foldr (\<lambda>c ws. if is_py_space c then [] # ws
        else (case ws of [] \<Rightarrow> [[c]] | w # rest \<Rightarrow> (c # w) # rest)) s [[]])"

fun join_words :: "string list \<Rightarrow> string" where
  "join_words [] = []"
| "join_words [w] = w"
| "join_words (w # ws) = w @ '' '' @ join_words ws"

section \<open>JSON payloads\<close>

text \<open>
  \<open>JTime\<close> is the ISO-8601 text that \<open>datetime.isoformat()\<close> stores in a payload; the
  model keeps the instant and not its spelling.
\<close>

datatype json =
  JNull | JBool bool | JNum rat | JStr string | JTime instant
| JList "json list" | JObj "(string \<times> json) list"

type_synonym jobj = "(string \<times> json) list"

definition jget :: "jobj \<Rightarrow> string \<Rightarrow> json option" where
  "jget d k = map_of d k"

fun jset :: "string \<Rightarrow> json \<Rightarrow> jobj \<Rightarrow> jobj" where
  "jset k v [] = [(k, v)]"
| "jset k v ((k', v') # d) = (if k' = k then (k, v) # d else (k', v') # jset k v d)"

text \<open>\<open>{**d, k1: v1, ...}\<close>: the entries of the literal are stored from left to right.\<close>

definition jmerge :: "jobj \<Rightarrow> jobj \<Rightarrow> jobj" where
  "jmerge d e = fold (\<lambda>(k, v). jset k v) e d"

definition opt_num :: "int option \<Rightarrow> json" where
  "opt_num i = (case i of None \<Rightarrow> JNull | Some n \<Rightarrow> JNum (of_int n))"

definition opt_str :: "string option \<Rightarrow> json" where
  "opt_str s = (case s of None \<Rightarrow> JNull | Some t \<Rightarrow> JStr t)"

definition opt_time :: "instant option \<Rightarrow> json" where
  "opt_time t = (case t of None \<Rightarrow> JNull | Some i \<Rightarrow> JTime i)"

section \<open>Tables\<close>

definition tget :: "('r \<Rightarrow> 'k) \<Rightarrow> 'k \<Rightarrow> 'r list \<Rightarrow> 'r option" where
  "tget key k rows = find (\<lambda>r. key r = k) rows"

definition tupd :: "('r \<Rightarrow> 'k) \<Rightarrow> 'k \<Rightarrow> ('r \<Rightarrow> 'r) \<Rightarrow> 'r list \<Rightarrow> 'r list" where
  "tupd key k f rows = map (\<lambda>r. if key r = k then f r else r) rows"

text \<open>Primary keys are allocated above every key in use.\<close>

definition next_id :: "('r \<Rightarrow> int) \<Rightarrow> 'r list \<Rightarrow> int" where
  "next_id key rows = 1 + foldr max (map key rows) 0"

definition select_first :: "('r \<Rightarrow> bool) \<Rightarrow> 'r list \<Rightarrow> 'r option" where
  "select_first P rows = find P rows"

text \<open>\<open>order_by(column.desc()).limit(1)\<close>: the selected row with the greatest key.\<close>

fun greatest_row :: "('r \<Rightarrow> 'k::linorder) \<Rightarrow> 'r list \<Rightarrow> 'r option" where
  "greatest_row key [] = None"
| "greatest_row key (r # rs) =
     (case greatest_row key rs of
        None \<Rightarrow> Some r
      | Some b \<Rightarrow> if key r < key b then Some b else Some r)"

definition select_latest :: "('r \<Rightarrow> 'k::linorder) \<Rightarrow> ('r \<Rightarrow> bool) \<Rightarrow> 'r list \<Rightarrow> 'r option" where
  "select_latest key P rows = greatest_row key (filter P rows)"

definition keys_distinct :: "('r \<Rightarrow> 'k) \<Rightarrow> 'r list \<Rightarrow> bool" where
  "keys_distinct key rows = distinct (map key rows)"

text \<open>The rows that satisfy a condition are at most one per group.\<close>

definition at_most_one :: "('r \<Rightarrow> 'g) \<Rightarrow> ('r \<Rightarrow> bool) \<Rightarrow> 'r list \<Rightarrow> bool" where
  "at_most_one grp P rows = distinct (map grp (filter P rows))"

section \<open>Dictionaries and aggregates\<close>

text \<open>
  A dict in insertion order: storing under a key that is present replaces the value in
  place. \<open>dict_of\<close> is a dict comprehension over its items, where a later item wins.
\<close>

fun dict_put :: "'k \<Rightarrow> 'v \<Rightarrow> ('k \<times> 'v) list \<Rightarrow> ('k \<times> 'v) list" where
  "dict_put k v [] = [(k, v)]"
| "dict_put k v ((k', v') # d) = (if k' = k then (k, v) # d else (k', v') # dict_put k v d)"

definition dict_of :: "('k \<times> 'v) list \<Rightarrow> ('k \<times> 'v) list" where
  "dict_of items = fold (\<lambda>(k, v). dict_put k v) items []"

definition list_min :: "'a::linorder list \<Rightarrow> 'a option" where
  "list_min xs = (case xs of [] \<Rightarrow> None | x # ys \<Rightarrow> Some (fold min ys x))"

definition list_max :: "'a::linorder list \<Rightarrow> 'a option" where
  "list_max xs = (case xs of [] \<Rightarrow> None | x # ys \<Rightarrow> Some (fold max ys x))"

text \<open>\<open>round(x, n)\<close> on a float: to \<open>n\<close> decimals, ties to even.\<close>

definition py_round :: "nat \<Rightarrow> rat \<Rightarrow> rat" where
  "py_round n x = of_int (round_half_even (x * 10 ^ n)) / 10 ^ n"

section \<open>Guards\<close>

text \<open>
  A sequence of \<open>if condition: raise error\<close> statements is a list of \<open>raise_if\<close> values;
  \<open>guarded\<close> raises the first of them, in order, or runs the body. \<open>and_then\<close> runs a call
  that may raise and goes on with its result; \<open>require_some\<close> raises when a looked-up row
  is missing.
\<close>

definition raise_if :: "bool \<Rightarrow> 'e \<Rightarrow> 'e option" where
  "raise_if b e = (if b then Some e else None)"

fun first_error :: "'e option list \<Rightarrow> 'e option" where
  "first_error [] = None"
| "first_error (None # gs) = first_error gs"
| "first_error (Some e # gs) = Some e"

definition guarded :: "'e option list \<Rightarrow> 'e + 'a \<Rightarrow> 'e + 'a" where
  "guarded gs body = (case first_error gs of Some e \<Rightarrow> Inl e | None \<Rightarrow> body)"

definition and_then :: "'e + 'a \<Rightarrow> ('a \<Rightarrow> 'e + 'b) \<Rightarrow> 'e + 'b" where
  "and_then m f = (case m of Inl e \<Rightarrow> Inl e | Inr x \<Rightarrow> f x)"

definition require_some :: "'e \<Rightarrow> 'a option \<Rightarrow> 'e + 'a" where
  "require_some e x = (case x of None \<Rightarrow> Inl e | Some a \<Rightarrow> Inr a)"

definition map_result :: "('a \<Rightarrow> 'b) \<Rightarrow> 'e + 'a \<Rightarrow> 'e + 'b" where
  "map_result f m = (case m of Inl e \<Rightarrow> Inl e | Inr x \<Rightarrow> Inr (f x))"

lemma raise_if_None [simp]: "raise_if b e = None \<longleftrightarrow> \<not> b"
  by (simp add: raise_if_def)

lemma raise_if_Some [simp]: "raise_if b e = Some e' \<longleftrightarrow> b \<and> e' = e"
  by (auto simp: raise_if_def)

lemma first_error_Cons:
  "first_error (g # gs) = (case g of Some e \<Rightarrow> Some e | None \<Rightarrow> first_error gs)"
  by (cases g) auto

lemma first_error_Cons_None [simp]:
  "first_error (g # gs) = None \<longleftrightarrow> g = None \<and> first_error gs = None"
  by (cases g) auto

lemma guarded_Inr [simp]:
  "guarded gs body = Inr x \<longleftrightarrow> first_error gs = None \<and> body = Inr x"
  by (auto simp: guarded_def split: option.splits)

lemma and_then_Inr [simp]:
  "and_then m f = Inr y \<longleftrightarrow> (\<exists>x. m = Inr x \<and> f x = Inr y)"
  by (cases m) (auto simp: and_then_def)

lemma and_then_simps [simp]: "and_then (Inl e) f = Inl e" "and_then (Inr x) f = f x"
  by (auto simp: and_then_def)

lemma require_some_Inr [simp]: "require_some e x = Inr y \<longleftrightarrow> x = Some y"
  by (cases x) (auto simp: require_some_def)

lemma require_some_simps [simp]:
  "require_some e None = Inl e" "require_some e (Some a) = Inr a"
  by (auto simp: require_some_def)

lemma map_result_Inr [simp]: "map_result f m = Inr y \<longleftrightarrow> (\<exists>x. m = Inr x \<and> y = f x)"
  by (cases m) (auto simp: map_result_def)

lemma not_isl_Inr: "\<not> isl m \<Longrightarrow> \<exists>x. m = Inr x"
  by (cases m) auto

lemma not_isl_Inr_pair: "\<not> isl m \<Longrightarrow> \<exists>x y. m = Inr (x, y)"
  by (cases m) auto

lemma raise_if_eval:
  "raise_if True e = Some e" "raise_if False e = None"
  by (simp_all add: raise_if_def)

lemmas guard_eval = guarded_def first_error_Cons raise_if_def

section \<open>Lemmas on instants\<close>

lemma round_half_even_nonneg: "0 \<le> x \<Longrightarrow> 0 \<le> round_half_even x"
  by (auto simp: round_half_even_def Let_def)

lemma timedelta_seconds_nonneg: "0 \<le> s \<Longrightarrow> 0 \<le> timedelta_seconds s"
  by (simp add: timedelta_seconds_def round_half_even_nonneg)

lemma round_half_even_of_int [simp]: "round_half_even (of_int n) = n"
  by (simp add: round_half_even_def Let_def)

lemma timedelta_seconds_of_int [simp]: "timedelta_seconds (of_int n) = n * 1000000"
proof -
  have "rat_of_int n * 1000000 = of_int (n * 1000000)" by simp
  then show ?thesis
    unfolding timedelta_seconds_def by (simp only: round_half_even_of_int)
qed

lemma timedelta_seconds_numeral [simp]: "timedelta_seconds (numeral n) = numeral n * 1000000"
  using timedelta_seconds_of_int [of "numeral n"] by simp

lemma timedelta_seconds_0_1 [simp]:
  "timedelta_seconds 0 = 0" "timedelta_seconds 1 = 1000000"
  using timedelta_seconds_of_int [of 0] timedelta_seconds_of_int [of 1] by simp_all

lemma round_half_even_mono: "x \<le> y \<Longrightarrow> round_half_even x \<le> round_half_even y"
proof -
  assume le: "x \<le> y"
  then have fl: "floor x \<le> floor y" by (rule floor_mono)
  show ?thesis
  proof (cases "floor x = floor y")
    case True
    with le show ?thesis by (auto simp: round_half_even_def Let_def)
  next
    case False
    with fl have "floor x + 1 \<le> floor y" by simp
    then show ?thesis by (auto simp: round_half_even_def Let_def)
  qed
qed

lemma timedelta_seconds_mono: "s \<le> t \<Longrightarrow> timedelta_seconds s \<le> timedelta_seconds t"
  by (simp add: timedelta_seconds_def round_half_even_mono)

section \<open>Lemmas on dictionaries and aggregates\<close>

lemma map_of_dict_put [simp]:
  "map_of (dict_put k v d) = (map_of d)(k \<mapsto> v)"
  by (induction k v d rule: dict_put.induct) (auto simp: fun_upd_twist)

lemma map_fst_dict_put:
  "map fst (dict_put k v d) = (if k \<in> fst ` set d then map fst d else map fst d @ [k])"
  by (induction d) force+

lemma keys_dict_put: "fst ` set (dict_put k v d) = insert k (fst ` set d)"
  using arg_cong [OF map_fst_dict_put [of k v d], of set] by (auto split: if_splits)

lemma distinct_keys_dict_put: "distinct (map fst d) \<Longrightarrow> distinct (map fst (dict_put k v d))"
  by (auto simp: map_fst_dict_put)

lemma find_append_case:
  "find P (xs @ ys) = (case find P xs of Some r \<Rightarrow> Some r | None \<Rightarrow> find P ys)"
  by (induction xs) auto

lemma fold_max_ge: "x \<le> fold max ys (x::'a::linorder)" "y \<in> set ys \<Longrightarrow> y \<le> fold max ys x"
  by (induction ys arbitrary: x)
    (auto intro: order_trans [OF max.cobounded1] order_trans [OF max.cobounded2])

lemma fold_min_le: "fold min ys x \<le> (x::'a::linorder)" "y \<in> set ys \<Longrightarrow> fold min ys x \<le> y"
  by (induction ys arbitrary: x)
    (auto intro: order_trans [OF _ min.cobounded1] order_trans [OF _ min.cobounded2])

lemma list_max_ge: "list_max xs = Some m \<Longrightarrow> x \<in> set xs \<Longrightarrow> x \<le> m"
  by (cases xs) (auto simp: list_max_def fold_max_ge)

lemma list_min_le: "list_min xs = Some m \<Longrightarrow> x \<in> set xs \<Longrightarrow> m \<le> x"
  by (cases xs) (auto simp: list_min_def fold_min_le)

lemma list_min_None [simp]: "list_min xs = None \<longleftrightarrow> xs = []"
  by (cases xs) (auto simp: list_min_def)

lemma list_max_None [simp]: "list_max xs = None \<longleftrightarrow> xs = []"
  by (cases xs) (auto simp: list_max_def)

section \<open>Lemmas on payloads\<close>

lemma jget_jset [simp]: "jget (jset k v d) k' = (if k' = k then Some v else jget d k')"
  by (induction k v d rule: jset.induct) (auto simp: jget_def)

lemma jget_Nil [simp]: "jget [] k = None"
  by (simp add: jget_def)

lemma jget_Cons [simp]: "jget ((k, v) # d) k' = (if k' = k then Some v else jget d k')"
  by (simp add: jget_def)

lemma jmerge_Nil [simp]: "jmerge d [] = d"
  by (simp add: jmerge_def)

lemma jget_jmerge_Cons: "jmerge d ((k, v) # e) = jmerge (jset k v d) e"
  by (simp add: jmerge_def)

lemma jget_rev_Cons:
  "jget (rev e @ [(k, v)]) k' =
     (case jget (rev e) k' of None \<Rightarrow> if k' = k then Some v else None | Some w \<Rightarrow> Some w)"
  by (auto simp: jget_def map_add_def split: option.splits)

lemma jget_jmerge: "jget (jmerge d e) k =
  (case jget (rev e) k of None \<Rightarrow> jget d k | Some v \<Rightarrow> Some v)"
proof (induction e arbitrary: d)
  case Nil
  then show ?case by simp
next
  case (Cons x e)
  obtain k' v where "x = (k', v)" by (cases x)
  with Cons show ?case
    by (simp add: jget_jmerge_Cons jget_rev_Cons split: option.splits)
qed

section \<open>Lemmas on tables\<close>

lemma map_key_tupd [table_simps]:
  "(\<And>r. key (f r) = key r) \<Longrightarrow> map key (tupd key k f rows) = map key rows"
  by (simp add: tupd_def)

lemma length_tupd [simp]: "length (tupd key k f rows) = length rows"
  by (simp add: tupd_def)

lemma tget_Some_key: "tget key k rows = Some r \<Longrightarrow> key r = k \<and> r \<in> set rows"
  by (auto simp: tget_def find_Some_iff)

lemma tget_None_iff: "tget key k rows = None \<longleftrightarrow> k \<notin> key ` set rows"
  by (auto simp: tget_def find_None_iff)

lemma tget_Nil [simp]: "tget key k [] = None"
  by (simp add: tget_def)

lemma tget_Cons [simp]:
  "tget key k (r # rows) = (if key r = k then Some r else tget key k rows)"
  by (simp add: tget_def)

lemma tget_append:
  "tget key k (xs @ ys) = (case tget key k xs of None \<Rightarrow> tget key k ys | Some r \<Rightarrow> Some r)"
  by (induction xs) auto

lemma tget_tupd:
  assumes "\<And>r. key (f r) = key r"
  shows "tget key k' (tupd key k f rows) =
    map_option (\<lambda>r. if key r = k then f r else r) (tget key k' rows)"
  using assms by (induction rows) (auto simp: tupd_def)

lemma tget_tupd_same:
  "(\<And>r. key (f r) = key r) \<Longrightarrow> tget key k rows = Some r \<Longrightarrow>
   tget key k (tupd key k f rows) = Some (f r)"
  by (auto simp: tget_tupd dest: tget_Some_key)

lemma tget_tupd_other:
  "(\<And>r. key (f r) = key r) \<Longrightarrow> k' \<noteq> k \<Longrightarrow> tget key k' (tupd key k f rows) = tget key k' rows"
  by (cases "tget key k' rows") (auto simp: tget_tupd dest: tget_Some_key)

lemma tget_tupd_if:
  assumes "\<And>r. key (f r) = key r"
  shows "tget key k (tupd key i f rows) =
    (if k = i then map_option f (tget key i rows) else tget key k rows)"
proof (cases "k = i")
  case True
  with assms show ?thesis
    by (cases "tget key i rows") (auto simp: tget_tupd dest: tget_Some_key)
next
  case False
  with assms show ?thesis by (simp add: tget_tupd_other)
qed

lemma set_tupd:
  "set (tupd key k f rows) = {r \<in> set rows. key r \<noteq> k} \<union> f ` {r \<in> set rows. key r = k}"
  by (auto simp: tupd_def)

lemma tupd_id: "(\<And>r. r \<in> set rows \<Longrightarrow> key r = k \<Longrightarrow> f r = r) \<Longrightarrow> tupd key k f rows = rows"
  by (auto simp: tupd_def intro: map_idI)

lemma tget_in_set: "keys_distinct key rows \<Longrightarrow> r \<in> set rows \<Longrightarrow> tget key (key r) rows = Some r"
  by (induction rows) (auto simp: keys_distinct_def)

lemma select_first_Some: "select_first P rows = Some r \<Longrightarrow> P r \<and> r \<in> set rows"
  by (auto simp: select_first_def find_Some_iff)

lemma select_first_None: "select_first P rows = None \<longleftrightarrow> (\<forall>r \<in> set rows. \<not> P r)"
  by (auto simp: select_first_def find_None_iff)

lemma greatest_row_None: "greatest_row key rows = None \<longleftrightarrow> rows = []"
  by (induction rows) (auto split: option.splits)

lemma greatest_row_Some:
  "greatest_row key rows = Some r \<Longrightarrow> r \<in> set rows \<and> (\<forall>x \<in> set rows. key x \<le> key r)"
proof (induction rows arbitrary: r)
  case Nil
  then show ?case by simp
next
  case (Cons a rows)
  then show ?case
    by (fastforce simp: greatest_row_None split: option.splits if_splits)
qed

lemma select_latest_Some:
  "select_latest key P rows = Some r \<Longrightarrow>
   P r \<and> r \<in> set rows \<and> (\<forall>x \<in> set rows. P x \<longrightarrow> key x \<le> key r)"
  by (auto simp: select_latest_def dest!: greatest_row_Some)

lemma select_latest_None: "select_latest key P rows = None \<longleftrightarrow> (\<forall>r \<in> set rows. \<not> P r)"
  by (auto simp: select_latest_def greatest_row_None filter_empty_conv)

lemma next_id_greater: "r \<in> set rows \<Longrightarrow> key r < next_id key rows"
proof -
  assume "r \<in> set rows"
  then have "key r \<le> foldr max (map key rows) 0"
    by (induction rows) auto
  then show ?thesis by (simp add: next_id_def)
qed

lemma next_id_fresh: "next_id key rows \<notin> key ` set rows"
proof
  assume "next_id key rows \<in> key ` set rows"
  then obtain r where "r \<in> set rows" "next_id key rows = key r" by auto
  with next_id_greater [of r rows key] show False by simp
qed

lemma next_id_positive: "0 < next_id key rows"
proof -
  have "0 \<le> foldr max (map key rows) 0" by (induction rows) auto
  then show ?thesis by (simp add: next_id_def)
qed

lemma keys_distinct_tupd:
  "(\<And>r. key (f r) = key r) \<Longrightarrow> keys_distinct key (tupd key k f rows) = keys_distinct key rows"
  by (simp add: keys_distinct_def map_key_tupd)

lemma keys_distinct_append:
  "keys_distinct key (rows @ [r]) \<longleftrightarrow> keys_distinct key rows \<and> key r \<notin> key ` set rows"
  by (auto simp: keys_distinct_def)

lemma at_most_one_Nil [simp]: "at_most_one grp P []"
  by (simp add: at_most_one_def)

lemma at_most_one_Cons:
  "at_most_one grp P (r # rows) \<longleftrightarrow>
   at_most_one grp P rows \<and> (P r \<longrightarrow> (\<forall>x \<in> set rows. P x \<longrightarrow> grp x \<noteq> grp r))"
  by (auto simp: at_most_one_def image_iff)

lemma at_most_one_append:
  "at_most_one grp P (rows @ [r]) \<longleftrightarrow>
   at_most_one grp P rows \<and> (P r \<longrightarrow> (\<forall>x \<in> set rows. P x \<longrightarrow> grp x \<noteq> grp r))"
  by (auto simp: at_most_one_def image_iff)

lemma at_most_one_unique:
  assumes "at_most_one grp P rows" and "x \<in> set rows" "y \<in> set rows" "P x" "P y" "grp x = grp y"
  shows "x = y"
  using assms by (induction rows) (auto simp: at_most_one_Cons)

text \<open>An update that takes no row into the condition keeps the bound.\<close>

lemma at_most_one_shrink:
  assumes "at_most_one grp P rows"
    and "\<And>r. r \<in> set rows \<Longrightarrow> grp (f r) = grp r"
    and "\<And>r. r \<in> set rows \<Longrightarrow> P (f r) \<Longrightarrow> P r"
  shows "at_most_one grp P (map f rows)"
  using assms by (induction rows) (auto simp: at_most_one_Cons)

text \<open>
  An update of one row keeps it when the row may enter the condition only while no other
  row of its group satisfies it.
\<close>

lemma at_most_one_map_enter:
  assumes amo: "at_most_one grp P rows" and kd: "keys_distinct key rows"
    and grp: "\<And>r. r \<in> set rows \<Longrightarrow> key r = k \<Longrightarrow> grp (f r) = grp r"
    and enter: "\<And>r x. r \<in> set rows \<Longrightarrow> key r = k \<Longrightarrow> P (f r) \<Longrightarrow> x \<in> set rows \<Longrightarrow>
        key x \<noteq> k \<Longrightarrow> P x \<Longrightarrow> grp x \<noteq> grp r"
  shows "at_most_one grp P (tupd key k f rows)"
  using assms
proof (induction rows)
  case Nil
  then show ?case by (simp add: tupd_def)
next
  case (Cons a rows)
  have tl: "at_most_one grp P (tupd key k f rows)"
    by (rule Cons.IH) (use Cons.prems in \<open>auto simp: at_most_one_Cons keys_distinct_def\<close>)
  show ?case
  proof (cases "key a = k")
    case True
    have nk: "key x \<noteq> k" if "x \<in> set rows" for x
      using Cons.prems(2) True that by (auto simp: keys_distinct_def image_iff)
    then have same: "tupd key k f rows = rows" by (auto intro: tupd_id)
    have "grp x \<noteq> grp (f a)" if "P (f a)" "x \<in> set rows" "P x" for x
      using Cons.prems(3) [of a] Cons.prems(4) [of a x] True that nk by auto
    with tl True same show ?thesis by (auto simp: at_most_one_Cons tupd_def)
  next
    case False
    have "grp x \<noteq> grp a" if pa: "P a" and x: "x \<in> set (tupd key k f rows)" "P x" for x
    proof -
      from x(1) consider "x \<in> set rows" "key x \<noteq> k" | y where "y \<in> set rows" "key y = k" "x = f y"
        by (auto simp: set_tupd)
      then show ?thesis
      proof cases
        case 1
        with Cons.prems(1) pa x show ?thesis by (auto simp: at_most_one_Cons)
      next
        case 2
        have "grp a \<noteq> grp y" using Cons.prems(4) [of y a] 2 pa x False by auto
        with Cons.prems(3) [of y] 2 show ?thesis by auto
      qed
    qed
    moreover have "tupd key k f (a # rows) = a # tupd key k f rows"
      using False by (simp add: tupd_def)
    ultimately show ?thesis using tl by (simp add: at_most_one_Cons)
  qed
qed

section \<open>Sums over tables\<close>

definition sum_rows :: "('r \<Rightarrow> bool) \<Rightarrow> ('r \<Rightarrow> rat) \<Rightarrow> 'r list \<Rightarrow> rat" where
  "sum_rows P v rows = sum_list (map v (filter P rows))"

lemma sum_rows_Nil [simp]: "sum_rows P v [] = 0"
  by (simp add: sum_rows_def)

lemma sum_rows_Cons [simp]:
  "sum_rows P v (r # rows) = (if P r then v r else 0) + sum_rows P v rows"
  by (simp add: sum_rows_def)

lemma sum_rows_append [simp]: "sum_rows P v (xs @ ys) = sum_rows P v xs + sum_rows P v ys"
  by (induction xs) auto

lemma sum_rows_nonneg: "(\<And>r. r \<in> set rows \<Longrightarrow> P r \<Longrightarrow> 0 \<le> v r) \<Longrightarrow> 0 \<le> sum_rows P v rows"
  by (induction rows) (auto simp: add_nonneg_nonneg)

lemma sum_rows_cong:
  "(\<And>r. r \<in> set rows \<Longrightarrow> P r = Q r) \<Longrightarrow> (\<And>r. r \<in> set rows \<Longrightarrow> P r \<Longrightarrow> v r = w r) \<Longrightarrow>
   sum_rows P v rows = sum_rows Q w rows"
  by (induction rows) auto

text \<open>The sum after one row is rewritten: its old share leaves, its new share enters.\<close>

lemma sum_rows_tupd:
  assumes "keys_distinct key rows" "tget key k rows = Some r" "\<And>r. key (f r) = key r"
  shows "sum_rows P v (tupd key k f rows) =
    sum_rows P v rows - (if P r then v r else 0) + (if P (f r) then v (f r) else 0)"
  using assms
proof (induction rows)
  case Nil
  then show ?case by simp
next
  case (Cons a rows)
  show ?case
  proof (cases "key a = k")
    case True
    then have "tupd key k f rows = rows"
      using Cons.prems(1) by (intro tupd_id) (auto simp: keys_distinct_def image_iff)
    with True Cons.prems show ?thesis by (simp add: tupd_def)
  next
    case False
    with Cons show ?thesis by (simp add: tupd_def keys_distinct_def)
  qed
qed

lemma sum_rows_member_le:
  assumes "\<And>r. r \<in> set rows \<Longrightarrow> P r \<Longrightarrow> 0 \<le> v r" "r \<in> set rows" "P r"
  shows "v r \<le> sum_rows P v rows"
  using assms
proof (induction rows)
  case Nil
  then show ?case by simp
next
  case (Cons a rows)
  have "0 \<le> sum_rows P v rows" using Cons.prems(1) by (intro sum_rows_nonneg) auto
  with Cons show ?case by (cases "r = a") (auto intro: add_increasing)
qed

end
