(* ===== verification/Schema.thy ===== *)
theory Schema
  imports Prelude
begin

text \<open>
  The mapped classes of \<open>db/orm.py\<close>, \<open>lead_routing/orm.py\<close>,
  \<open>opportunity_review/orm.py\<close>, \<open>property_workflow/orm.py\<close> and \<open>outcomes/orm.py\<close>, one
  record per class with one field per column, and the enumerations of the \<open>models.py\<close>
  files, one datatype per \<open>StrEnum\<close> with its members as constructors. A column that holds
  the values of a \<open>StrEnum\<close> has the datatype as its type; a column that holds free text or
  string literals has type \<open>string\<close>. The columns \<open>created_at\<close> and \<open>updated_at\<close> of
  \<open>TimestampMixin\<close> appear only where an operation reads them.

  \<open>database\<close> is the state every operation reads and writes: one field per table.
\<close>

section \<open>Enumerations\<close>

datatype review_role = RR_operator | RR_reviewer | RR_admin | RR_system

datatype evidence_override_kind =
  OK_serp_classification | OK_provider_suitability | OK_geographic_interpretation
| OK_data_quality_warning

datatype provider_assignment_status =
  PA_candidate | PA_pilot | PA_active | PA_paused | PA_terminated | PA_replaced

datatype lead_channel = LC_form | LC_phone

datatype delivery_channel = DC_email | DC_phone

datatype lead_status =
  LS_received | LS_spam | LS_routing | LS_delivered | LS_delivery_failed | LS_deleted

datatype delivery_status =
  DS_pending | DS_leased | DS_delivering | DS_retrying | DS_delivered | DS_failed
| DS_cancelled | DS_outcome_unknown

datatype truth_basis = TB_observed | TB_provider_reported | TB_operator_verified | TB_estimated

datatype analytics_source_type =
  AS_web_analytics | AS_form | AS_call_tracking | AS_provider | AS_operator | AS_system

datatype analytics_event_type =
  AE_organic_landing | AE_form_start | AE_form_submit | AE_qualified_lead | AE_call
| AE_answered_call | AE_missed_call | AE_provider_delivery | AE_provider_acceptance
| AE_appointment | AE_won_job | AE_lost_job | AE_revenue

datatype outcome_source_type =
  OS_search_console | OS_web_analytics | OS_call_tracking | OS_form_submission | OS_provider
| OS_operator

datatype property_status = PS_draft | PS_staging | PS_production | PS_archived

datatype domain_candidate_status = CS_generated | CS_shortlisted | CS_rejected

datatype domain_availability = DA_unchecked | DA_available | DA_unavailable | DA_unknown

datatype domain_registration_status =
  RS_purchase_approved | RS_manually_registered | RS_dns_verified

datatype site_config_status = SC_draft | SC_approved | SC_superseded

datatype build_environment = BE_preview | BE_staging | BE_production

datatype deployment_status = DP_deployed | DP_rolled_back | DP_failed

datatype compliance_status = CM_approved | CM_rejected

section \<open>Mapped classes\<close>

record service_family =
  sf_id :: int
  sf_slug :: string
  sf_display_name :: string
  sf_description :: string
  sf_seed_queries :: "string list"
  sf_negative_terms :: "string list"
  sf_intent_modifiers :: "string list"
  sf_negative_product_terms :: "string list"
  sf_provider_categories :: "string list"
  sf_regulated :: bool
  sf_enabled :: bool

record market =
  mk_id :: int
  mk_slug :: string
  mk_display_name :: string
  mk_type :: string
  mk_country_code :: string
  mk_state :: "string option"
  mk_cities :: "string list"
  mk_postal_codes :: "string list"
  mk_county :: "string option"
  mk_county_fips :: "string option"
  mk_metro :: "string option"
  mk_metro_code :: "string option"
  mk_latitude :: "rat option"
  mk_longitude :: "rat option"
  mk_population :: "int option"
  mk_reference_population :: "int option"
  mk_aliases :: "string list"
  mk_boundary_radius_km :: "rat option"
  mk_geography_id :: "string option"
  mk_geography_dataset_version :: "string option"
  mk_provider_location_code :: "string option"
  mk_provider_location_name :: "string option"
  mk_resolution_metadata :: jobj

record opportunity =
  op_id :: int
  op_service_family_id :: int
  op_market_id :: int
  op_status :: string
  op_latest_score :: "rat option"
  op_score_version :: "string option"
  op_confidence :: "string option"
  op_missing_data_flags :: "string list"
  op_approved_at :: "instant option"
  op_owner_user_id :: "string option"
  op_review_version :: int

record scan_run =
  sr_id :: int
  sr_opportunity_id :: "int option"
  sr_source :: string
  sr_status :: string
  sr_estimated_cost_usd :: rat
  sr_actual_cost_usd :: rat
  sr_started_at :: "instant option"
  sr_completed_at :: "instant option"
  sr_error_summary :: "string option"
  sr_integration_versions :: jobj
  sr_request_parameters :: jobj
  sr_data_mode :: string
  sr_scan_profile :: string
  sr_adapter_names :: jobj
  sr_adapter_versions :: jobj
  sr_normalization_version :: string
  sr_scoring_version :: "string option"
  sr_cache_policy_version :: string
  sr_planned_cost_usd :: rat
  sr_source_scan_run_id :: "int option"
  sr_progress_stage :: string
  sr_partial_outputs :: jobj
  sr_retry_count :: int
  sr_max_attempts :: int
  sr_next_attempt_at :: "instant option"
  sr_cancel_requested :: bool
  sr_worker_id :: "string option"
  sr_lease_token :: "string option"
  sr_claimed_at :: "instant option"
  sr_heartbeat_at :: "instant option"
  sr_lease_expires_at :: "instant option"
  sr_quarantined_at :: "instant option"
  sr_quarantine_reason :: "string option"

record worker_heartbeat =
  wh_worker_id :: string
  wh_status :: string
  wh_started_at :: instant
  wh_last_seen_at :: instant
  wh_release_version :: string
  wh_metadata_payload :: jobj

record scan_plan_call =
  spc_id :: int
  spc_scan_run_id :: int
  spc_planned_request_id :: "string option"
  spc_provider :: string
  spc_endpoint :: string
  spc_stage :: string
  spc_request_parameters :: jobj
  spc_cache_key :: string
  spc_cache_hit :: bool
  spc_request_known :: bool
  spc_estimated_cost_usd :: rat
  spc_required :: bool

record api_call =
  ac_id :: int
  ac_scan_run_id :: "int option"
  ac_planned_request_id :: "string option"
  ac_raw_api_response_id :: "int option"
  ac_provider :: string
  ac_endpoint :: string
  ac_stage :: string
  ac_cache_key :: string
  ac_cache_hit :: bool
  ac_force_refresh :: bool
  ac_estimated_cost_usd :: rat
  ac_actual_cost_usd :: rat
  ac_status :: string
  ac_error_type :: "string option"
  ac_error_summary :: "string option"
  ac_started_at :: "instant option"
  ac_completed_at :: "instant option"
  ac_provider_task_id :: "string option"
  ac_provider_request_id :: "string option"
  ac_attempt_token :: "string option"
  ac_attempt_state :: string
  ac_provider_outcome :: string
  ac_reservation_state :: string
  ac_reservation_usage_date :: "calendar_date option"
  ac_reservation_usage_class :: "string option"
  ac_reservation_estimated_cost_usd :: rat
  ac_network_started_at :: "instant option"
  ac_reconciled_at :: "instant option"
  ac_execution_worker_id :: "string option"
  ac_execution_lease_token :: "string option"

record daily_usage_row =
  du_id :: int
  du_usage_date :: calendar_date
  du_usage_class :: string
  du_provider :: string
  du_endpoint :: string
  du_request_count :: int
  du_spend_usd :: rat
  du_reserved_spend_usd :: rat
  du_unreconciled_spend_usd :: rat
  du_cache_miss_count :: int
  du_unexpected_call_count :: int
  du_abnormal_cost_count :: int
  du_provider_failure_count :: int
  du_schema_drift_count :: int

record provider_qualification =
  pq_id :: int
  pq_provider :: string
  pq_environment :: string
  pq_adapter_version :: string
  pq_status :: string
  pq_qualified_at :: instant
  pq_expires_at :: instant
  pq_checks :: jobj
  pq_notes :: string
  pq_execution_method :: string
  pq_gate_eligible :: bool
  pq_evidence_sha256 :: "string option"
  pq_executed_by :: string
  pq_override_reason :: string

record billing_reconciliation =
  br_id :: int
  br_provider :: string
  br_environment :: string
  br_period_start :: calendar_date
  br_period_end :: calendar_date
  br_reconciled_at :: instant
  br_status :: string
  br_internal_call_count :: int
  br_provider_call_count :: int
  br_internal_cost_usd :: rat
  br_provider_cost_usd :: rat
  br_unmatched_provider_charges :: "jobj list"
  br_unmatched_internal_calls :: "jobj list"
  br_difference_usd :: rat
  br_source_filename :: string

record keyword_decision =
  kd_id :: int
  kd_scan_run_id :: int
  kd_keyword :: string
  kd_canonical_keyword :: string
  kd_decision :: string
  kd_reason :: "string option"
  kd_rank :: "int option"
  kd_representative :: bool
  kd_cluster_id :: "string option"
  kd_intent :: "string option"
  kd_search_volume :: "int option"
  kd_cpc :: "rat option"
  kd_granularity :: "string option"
  kd_ranking_score :: "rat option"

record json_artifact =
  ja_id :: int
  ja_opportunity_id :: "int option"
  ja_scan_run_id :: "int option"
  ja_kind :: string
  ja_payload :: jobj

record serp_snapshot =
  ss_id :: int
  ss_scan_run_id :: int
  ss_opportunity_id :: "int option"
  ss_query :: string
  ss_market_id :: string
  ss_device :: string
  ss_captured_at :: instant
  ss_features_present :: "string list"
  ss_raw_response_ref :: "string option"

record serp_result =
  sres_id :: int
  sres_serp_snapshot_id :: int
  sres_order :: int
  sres_result_type :: string
  sres_url :: string
  sres_domain :: string
  sres_title :: string
  sres_description :: string
  sres_classification :: string
  sres_is_local_provider :: bool
  sres_is_directory :: bool
  sres_is_national_brand :: bool
  sres_is_lead_generation_site :: bool
  sres_classification_confidence :: "rat option"
  sres_classifier_version :: string
  sres_matched_rules :: "string list"
  sres_classification_evidence :: jobj
  sres_manual_override :: "string option"
  sres_override_reason :: "string option"

record competitor_metric =
  cmet_id :: int
  cmet_scan_run_id :: int
  cmet_opportunity_id :: "int option"
  cmet_url :: string
  cmet_domain :: string
  cmet_page_url :: "string option"
  cmet_normalized_domain :: "string option"
  cmet_referring_domains :: "int option"
  cmet_backlinks :: "int option"
  cmet_authority :: "rat option"
  cmet_page_referring_domains :: "int option"
  cmet_page_backlinks :: "int option"
  cmet_page_authority :: "rat option"
  cmet_domain_referring_domains :: "int option"
  cmet_domain_backlinks :: "int option"
  cmet_domain_authority :: "rat option"
  cmet_page_metrics_available :: bool
  cmet_domain_metrics_available :: bool
  cmet_page_relevance_score :: "rat option"
  cmet_local_relevance :: "rat option"
  cmet_page_type :: string
  cmet_relevance_signals :: jobj
  cmet_representative_query :: "string option"
  cmet_serp_position :: "int option"
  cmet_serp_observations :: "jobj list"
  cmet_serp_observation_records :: "jobj list"
  cmet_captured_at :: instant

record provider_candidate =
  pc_id :: int
  pc_scan_run_id :: int
  pc_opportunity_id :: "int option"
  pc_name :: string
  pc_website :: "string option"
  pc_phone :: "string option"
  pc_email :: "string option"
  pc_contact_form_url :: "string option"
  pc_address :: "string option"
  pc_service_area :: "string option"
  pc_category :: "string option"
  pc_categories :: "string list"
  pc_latitude :: "rat option"
  pc_longitude :: "rat option"
  pc_rating :: "rat option"
  pc_review_count :: "int option"
  pc_business_status :: string
  pc_contact_confidence :: "rat option"
  pc_source :: string
  pc_source_timestamp :: instant
  pc_raw_response_ref :: "string option"
  pc_outreach_status :: string
  pc_suitability_score :: "rat option"
  pc_suitability_reasons :: "string list"
  pc_suitability_signals :: jobj

record full_opportunity_score =
  fs_id :: int
  fs_scan_run_id :: int
  fs_opportunity_id :: int
  fs_scoring_version :: string
  fs_total_score :: rat
  fs_confidence :: string
  fs_explanation :: string
  fs_payload :: jobj
  fs_created_at :: instant

record opportunity_review =
  rv_id :: int
  rv_opportunity_id :: int
  rv_prior_state :: "string option"
  rv_review_state :: string
  rv_owner_user_id :: "string option"
  rv_reviewer_user_id :: string
  rv_reviewer_role :: review_role
  rv_decision :: string
  rv_decision_reason :: string
  rv_notes :: string
  rv_tags :: "string list"
  rv_review_version :: int
  rv_approved_at :: "instant option"
  rv_rejected_at :: "instant option"

record evidence_override =
  eo_id :: int
  eo_opportunity_id :: int
  eo_override_kind :: evidence_override_kind
  eo_target_record_id :: int
  eo_field_name :: string
  eo_action :: string
  eo_original_value :: json
  eo_new_value :: json
  eo_actor_user_id :: string
  eo_actor_role :: review_role
  eo_reason :: string
  eo_score_impact :: rat
  eo_score_impact_explanation :: string
  eo_reverses_override_id :: "int option"

record discovery_template =
  dt_id :: int
  dt_name :: string
  dt_owner_user_id :: string
  dt_service_family_id :: int
  dt_market_filters :: jobj
  dt_prefilter_profile :: string
  dt_testing_profile :: string
  dt_full_profile :: string
  dt_budget_usd :: rat
  dt_freshness_requirements :: jobj
  dt_active :: bool

record batch_scan_plan =
  bp_id :: int
  bp_name :: string
  bp_template_id :: "int option"
  bp_created_by :: string
  bp_scan_profile :: string
  bp_data_mode :: string
  bp_status :: string
  bp_aggregate_budget_usd :: rat
  bp_aggregate_estimated_cost_usd :: rat
  bp_approved_max_cost_usd :: "rat option"
  bp_confirmed_by :: "string option"
  bp_confirmation_reason :: "string option"
  bp_confirmed_at :: "instant option"
  bp_queued_at :: "instant option"

record batch_scan_plan_item =
  bi_id :: int
  bi_batch_plan_id :: int
  bi_opportunity_id :: int
  bi_status :: string
  bi_estimated_cost_usd :: rat
  bi_scan_plan_payload :: jobj
  bi_scan_run_id :: "int option"

record routing_profile =
  rp_id :: int
  rp_property_id :: string
  rp_opportunity_id :: int
  rp_public_tracking_number :: "string option"
  rp_public_contact_email :: "string option"
  rp_recording_approved :: bool
  rp_recording_retention_days :: "int option"
  rp_call_adapter_name :: "string option"
  rp_call_provider_route_id :: "string option"
  rp_routing_health_status :: "string option"
  rp_routing_health_checked_at :: "instant option"
  rp_active :: bool

record provider_assignment =
  pa_id :: int
  pa_property_id :: string
  pa_provider_candidate_id :: "int option"
  pa_status :: provider_assignment_status
  pa_public_business_name :: string
  pa_destination_phone :: "string option"
  pa_destination_email :: "string option"
  pa_coverage :: jobj
  pa_response_expectation_minutes :: "int option"
  pa_lead_acceptance_required :: bool
  pa_agreement_started_at :: "instant option"
  pa_agreement_ended_at :: "instant option"
  pa_active_from :: "instant option"
  pa_active_until :: "instant option"
  pa_termination_reason :: "string option"
  pa_replaced_assignment_id :: "int option"
  pa_logo_asset_id :: "int option"
  pa_hours :: jobj
  pa_service_radius :: jobj
  pa_credentials :: "jobj list"
  pa_license_numbers :: "jobj list"
  pa_approved_claims :: "jobj list"
  pa_attributed_testimonials :: "jobj list"
  pa_provider_photos :: "int list"
  pa_claims_reviewed_by :: "string option"
  pa_claims_reviewed_at :: "instant option"
  pa_claims_review_reason :: "string option"
  pa_activation_approved_by :: "string option"
  pa_activation_reason :: "string option"
  pa_replacement_approved_by :: "string option"

record lead =
  ld_id :: string
  ld_property_id :: string
  ld_opportunity_id :: int
  ld_provider_assignment_id :: "int option"
  ld_channel :: lead_channel
  ld_status :: lead_status
  ld_name :: string
  ld_email :: "string option"
  ld_phone :: "string option"
  ld_postal_code :: "string option"
  ld_message :: "string option"
  ld_idempotency_key :: string
  ld_dedupe_hash :: string
  ld_subject_hash :: string
  ld_received_at :: instant
  ld_pii_deleted_at :: "instant option"
  ld_retention_expires_at :: instant

record lead_event =
  le_id :: int
  le_lead_id :: string
  le_event_type :: string
  le_event_key :: string
  le_truth_basis :: string
  le_source_type :: string
  le_source_name :: string
  le_occurred_at :: instant
  le_payload :: jobj

record consent_record =
  cr_id :: int
  cr_lead_id :: string
  cr_consent_granted :: bool
  cr_consent_text :: string
  cr_consent_text_version :: string
  cr_referral_disclosure_acknowledged :: bool
  cr_referral_disclosure_text :: string
  cr_referral_disclosure_version :: string
  cr_captured_at :: instant
  cr_request_fingerprint :: string
  cr_proof_metadata :: jobj

record spam_assessment =
  sa_id :: int
  sa_lead_id :: string
  sa_score :: rat
  sa_disposition :: string
  sa_signals :: "string list"
  sa_assessor_version :: string

record routing_attempt =
  ra_id :: int
  ra_lead_id :: string
  ra_provider_assignment_id :: int
  ra_channel :: delivery_channel
  ra_delivery_key :: string
  ra_attempt_number :: int
  ra_status :: string
  ra_error_code :: "string option"
  ra_error_summary :: "string option"
  ra_started_at :: instant
  ra_completed_at :: "instant option"

record provider_delivery =
  pd_id :: string
  pd_lead_id :: string
  pd_provider_assignment_id :: int
  pd_delivery_key :: string
  pd_channel :: delivery_channel
  pd_destination_reference :: string
  pd_adapter_name :: string
  pd_provider_message_id :: "string option"
  pd_status :: delivery_status
  pd_attempt_count :: int
  pd_max_attempts :: int
  pd_next_attempt_at :: "instant option"
  pd_worker_id :: "string option"
  pd_lease_token :: "string option"
  pd_claimed_at :: "instant option"
  pd_heartbeat_at :: "instant option"
  pd_lease_expires_at :: "instant option"
  pd_last_error_code :: "string option"
  pd_last_error_summary :: "string option"
  pd_delivered_at :: "instant option"
  pd_completed_at :: "instant option"

record lead_outcome =
  lo_id :: int
  lo_lead_id :: string
  lo_outcome_type :: analytics_event_type
  lo_truth_basis :: truth_basis
  lo_source_type :: analytics_source_type
  lo_source_name :: string
  lo_source_event_id :: string
  lo_occurred_at :: instant
  lo_value_usd :: "rat option"
  lo_notes :: "string option"

record analytics_event =
  ae_id :: int
  ae_property_id :: string
  ae_lead_id :: "string option"
  ae_event_type :: analytics_event_type
  ae_truth_basis :: truth_basis
  ae_source_type :: analytics_source_type
  ae_source_name :: string
  ae_source_event_id :: string
  ae_occurred_at :: instant
  ae_value_usd :: "rat option"
  ae_payload :: jobj

record property_row =
  pr_id :: string
  pr_opportunity_id :: int
  pr_neutral_brand :: string
  pr_domain :: "string option"
  pr_service_family_id :: int
  pr_market_id :: int
  pr_public_tracking_number :: "string option"
  pr_public_contact_email :: "string option"
  pr_status :: property_status
  pr_active_site_config_version :: "int option"
  pr_analytics_config :: jobj
  pr_current_version :: int

record property_version =
  pv_id :: int
  pv_property_id :: string
  pv_version :: int
  pv_snapshot :: jobj
  pv_snapshot_sha256 :: string
  pv_changed_by :: string
  pv_change_reason :: string

record domain_candidate =
  dc_id :: int
  dc_property_id :: string
  dc_domain :: string
  dc_status :: domain_candidate_status
  dc_generation_method :: string
  dc_availability_status :: domain_availability
  dc_availability_checked_at :: "instant option"
  dc_availability_evidence :: jobj
  dc_decision_by :: "string option"
  dc_decision_reason :: "string option"
  dc_decided_at :: "instant option"

record domain_registration =
  dr_id :: int
  dr_property_id :: string
  dr_domain_candidate_id :: int
  dr_domain :: string
  dr_registrar_name :: string
  dr_status :: domain_registration_status
  dr_purchase_approved :: bool
  dr_purchase_approved_by :: string
  dr_purchase_approval_reason :: string
  dr_purchase_approved_at :: instant
  dr_external_reference :: "string option"
  dr_registered_at :: "instant option"
  dr_expected_dns_records :: "(string \<times> string) list"
  dr_observed_dns_records :: "(string \<times> string) list"
  dr_dns_evidence_reference :: "string option"
  dr_dns_verified_at :: "instant option"
  dr_dns_verified_by :: "string option"

record asset =
  ast_id :: int
  ast_property_id :: string
  ast_asset_type :: string
  ast_local_path :: "string option"
  ast_source_provider :: string
  ast_source_url :: "string option"
  ast_attribution :: "string option"
  ast_license_metadata :: jobj
  ast_alt_text :: string
  ast_content_sha256 :: "string option"
  ast_approved :: bool
  ast_approved_by :: "string option"
  ast_approval_reason :: "string option"
  ast_approved_at :: "instant option"

record site_config =
  sc_id :: int
  sc_property_id :: string
  sc_version :: int
  sc_status :: site_config_status
  sc_schema_version :: string
  sc_config_payload :: jobj
  sc_config_sha256 :: string
  sc_created_by :: string
  sc_change_reason :: string
  sc_approved_by :: "string option"
  sc_approval_reason :: "string option"
  sc_approved_at :: "instant option"

record site_build =
  sb_id :: int
  sb_property_id :: string
  sb_site_config_id :: int
  sb_environment :: build_environment
  sb_builder_version :: string
  sb_build_sha256 :: string
  sb_output_path :: string
  sb_status :: string
  sb_file_count :: int
  sb_total_bytes :: int
  sb_validation_report :: jobj
  sb_manifest :: "(string \<times> string) list"

record compliance_review =
  cm_id :: int
  cm_property_id :: string
  cm_site_config_id :: int
  cm_site_build_id :: int
  cm_status :: compliance_status
  cm_checklist :: "(string \<times> bool) list"
  cm_validation_snapshot :: jobj
  cm_reviewer_user_id :: string
  cm_notes :: string
  cm_reviewed_at :: instant

record deployment =
  dp_id :: int
  dp_property_id :: string
  dp_site_build_id :: int
  dp_domain_registration_id :: "int option"
  dp_provider_assignment_id :: "int option"
  dp_compliance_review_id :: "int option"
  dp_previous_deployment_id :: "int option"
  dp_rollback_of_deployment_id :: "int option"
  dp_environment :: build_environment
  dp_adapter_name :: string
  dp_status :: deployment_status
  dp_url :: string
  dp_local_only :: bool
  dp_operator_user_id :: string
  dp_operator_confirmation :: bool
  dp_confirmation_reason :: string
  dp_neutral_pilot_mode :: bool
  dp_gate_snapshot :: jobj
  dp_deployed_at :: instant

record property_decision =
  dn_id :: int
  dn_property_id :: string
  dn_opportunity_id :: int
  dn_scan_run_id :: int
  dn_full_score_id :: int
  dn_evidence_snapshot_id :: int
  dn_score_version_at_selection :: string
  dn_selected_at :: instant
  dn_service_family_slug :: string
  dn_market_size_band :: string
  dn_evidence_quality :: string
  dn_validated_opportunity_cost_usd :: rat
  dn_selection_context :: jobj

record property_outcome =
  oc_id :: int
  oc_property_decision_id :: int
  oc_period_date :: calendar_date
  oc_source_type :: outcome_source_type
  oc_source_name :: string
  oc_source_record_id :: string
  oc_truth_basis :: truth_basis
  oc_confidence :: string
  oc_impressions :: int
  oc_clicks :: int
  oc_average_position :: "rat option"
  oc_organic_sessions :: int
  oc_calls :: int
  oc_forms :: int
  oc_qualified_leads :: int
  oc_appointments :: int
  oc_won_jobs :: int
  oc_reported_revenue :: rat
  oc_indexed_at :: "instant option"
  oc_provider_suitability_score :: "rat option"
  oc_addressable_market_score :: "rat option"
  oc_metadata_payload :: jobj
  oc_imported_at :: instant

record calibration_report =
  cb_id :: int
  cb_report_version :: string
  cb_start_date :: calendar_date
  cb_end_date :: calendar_date
  cb_property_count :: int
  cb_payload :: jobj
  cb_generated_at :: instant

record scoring_change_review =
  sg_id :: int
  sg_proposal_id :: string
  sg_current_version :: string
  sg_proposed_version :: string
  sg_initiated_by :: string
  sg_reviewer_id :: string
  sg_benchmark_run_id :: string
  sg_benchmark_passed :: bool
  sg_rationale :: string
  sg_authorized_for_manual_application :: bool
  sg_applied_automatically :: bool

section \<open>The database\<close>

record database =
  service_families :: "service_family list"
  markets :: "market list"
  opportunities :: "opportunity list"
  scan_runs :: "scan_run list"
  worker_heartbeats :: "worker_heartbeat list"
  scan_plan_calls :: "scan_plan_call list"
  api_calls :: "api_call list"
  provider_daily_usage :: "daily_usage_row list"
  provider_qualifications :: "provider_qualification list"
  billing_reconciliations :: "billing_reconciliation list"
  keyword_decisions :: "keyword_decision list"
  json_artifacts :: "json_artifact list"
  serp_snapshots :: "serp_snapshot list"
  serp_results :: "serp_result list"
  competitor_metrics :: "competitor_metric list"
  provider_candidates :: "provider_candidate list"
  full_opportunity_scores :: "full_opportunity_score list"
  opportunity_reviews :: "opportunity_review list"
  evidence_overrides :: "evidence_override list"
  discovery_templates :: "discovery_template list"
  batch_scan_plans :: "batch_scan_plan list"
  batch_scan_plan_items :: "batch_scan_plan_item list"
  routing_profiles :: "routing_profile list"
  provider_assignments :: "provider_assignment list"
  leads :: "lead list"
  lead_events :: "lead_event list"
  consent_records :: "consent_record list"
  spam_assessments :: "spam_assessment list"
  routing_attempts :: "routing_attempt list"
  provider_deliveries :: "provider_delivery list"
  lead_outcomes :: "lead_outcome list"
  analytics_events :: "analytics_event list"
  properties_tbl :: "property_row list"
  property_versions :: "property_version list"
  domain_candidates :: "domain_candidate list"
  domain_registrations :: "domain_registration list"
  assets :: "asset list"
  site_configs :: "site_config list"
  site_builds :: "site_build list"
  compliance_reviews :: "compliance_review list"
  deployments :: "deployment list"
  property_decisions :: "property_decision list"
  property_outcomes :: "property_outcome list"
  calibration_reports :: "calibration_report list"
  scoring_change_reviews :: "scoring_change_review list"

definition empty_db :: database where
  "empty_db =
     \<lparr>service_families = [],
       markets = [],
       opportunities = [],
       scan_runs = [],
       worker_heartbeats = [],
       scan_plan_calls = [],
       api_calls = [],
       provider_daily_usage = [],
       provider_qualifications = [],
       billing_reconciliations = [],
       keyword_decisions = [],
       json_artifacts = [],
       serp_snapshots = [],
       serp_results = [],
       competitor_metrics = [],
       provider_candidates = [],
       full_opportunity_scores = [],
       opportunity_reviews = [],
       evidence_overrides = [],
       discovery_templates = [],
       batch_scan_plans = [],
       batch_scan_plan_items = [],
       routing_profiles = [],
       provider_assignments = [],
       leads = [],
       lead_events = [],
       consent_records = [],
       spam_assessments = [],
       routing_attempts = [],
       provider_deliveries = [],
       lead_outcomes = [],
       analytics_events = [],
       properties_tbl = [],
       property_versions = [],
       domain_candidates = [],
       domain_registrations = [],
       assets = [],
       site_configs = [],
       site_builds = [],
       compliance_reviews = [],
       deployments = [],
       property_decisions = [],
       property_outcomes = [],
       calibration_reports = [],
       scoring_change_reviews = []\<rparr>"

end
