(* ===== verification/Samples.thy ===== *)
theory Samples
  imports Schema
begin

text \<open>
  Rows with every column empty, from which the concrete inputs of the witness theorems are
  built by record update.
\<close>

definition blank_service_family :: service_family where
  "blank_service_family =
     \<lparr>sf_id = 0, sf_slug = [], sf_display_name = [], sf_description = [], sf_seed_queries =
      [], sf_negative_terms = [], sf_intent_modifiers = [], sf_negative_product_terms = [],
      sf_provider_categories = [], sf_regulated = False, sf_enabled = False\<rparr>"

definition blank_market :: market where
  "blank_market =
     \<lparr>mk_id = 0, mk_slug = [], mk_display_name = [], mk_type = [], mk_country_code = [],
      mk_state = None, mk_cities = [], mk_postal_codes = [], mk_county = None, mk_county_fips
      = None, mk_metro = None, mk_metro_code = None, mk_latitude = None, mk_longitude = None,
      mk_population = None, mk_reference_population = None, mk_aliases = [],
      mk_boundary_radius_km = None, mk_geography_id = None, mk_geography_dataset_version =
      None, mk_provider_location_code = None, mk_provider_location_name = None,
      mk_resolution_metadata = []\<rparr>"

definition blank_opportunity :: opportunity where
  "blank_opportunity =
     \<lparr>op_id = 0, op_service_family_id = 0, op_market_id = 0, op_status = [], op_latest_score =
      None, op_score_version = None, op_confidence = None, op_missing_data_flags = [],
      op_approved_at = None, op_owner_user_id = None, op_review_version = 0\<rparr>"

definition blank_scan_run :: scan_run where
  "blank_scan_run =
     \<lparr>sr_id = 0, sr_opportunity_id = None, sr_source = [], sr_status = [],
      sr_estimated_cost_usd = 0, sr_actual_cost_usd = 0, sr_started_at = None, sr_completed_at
      = None, sr_error_summary = None, sr_integration_versions = [], sr_request_parameters =
      [], sr_data_mode = [], sr_scan_profile = [], sr_adapter_names = [], sr_adapter_versions
      = [], sr_normalization_version = [], sr_scoring_version = None, sr_cache_policy_version
      = [], sr_planned_cost_usd = 0, sr_source_scan_run_id = None, sr_progress_stage = [],
      sr_partial_outputs = [], sr_retry_count = 0, sr_max_attempts = 0, sr_next_attempt_at =
      None, sr_cancel_requested = False, sr_worker_id = None, sr_lease_token = None,
      sr_claimed_at = None, sr_heartbeat_at = None, sr_lease_expires_at = None,
      sr_quarantined_at = None, sr_quarantine_reason = None\<rparr>"

definition blank_worker_heartbeat :: worker_heartbeat where
  "blank_worker_heartbeat =
     \<lparr>wh_worker_id = [], wh_status = [], wh_started_at = 0, wh_last_seen_at = 0,
      wh_release_version = [], wh_metadata_payload = []\<rparr>"

definition blank_scan_plan_call :: scan_plan_call where
  "blank_scan_plan_call =
     \<lparr>spc_id = 0, spc_scan_run_id = 0, spc_planned_request_id = None, spc_provider = [],
      spc_endpoint = [], spc_stage = [], spc_request_parameters = [], spc_cache_key = [],
      spc_cache_hit = False, spc_request_known = False, spc_estimated_cost_usd = 0,
      spc_required = False\<rparr>"

definition blank_api_call :: api_call where
  "blank_api_call =
     \<lparr>ac_id = 0, ac_scan_run_id = None, ac_planned_request_id = None, ac_raw_api_response_id =
      None, ac_provider = [], ac_endpoint = [], ac_stage = [], ac_cache_key = [], ac_cache_hit
      = False, ac_force_refresh = False, ac_estimated_cost_usd = 0, ac_actual_cost_usd = 0,
      ac_status = [], ac_error_type = None, ac_error_summary = None, ac_started_at = None,
      ac_completed_at = None, ac_provider_task_id = None, ac_provider_request_id = None,
      ac_attempt_token = None, ac_attempt_state = [], ac_provider_outcome = [],
      ac_reservation_state = [], ac_reservation_usage_date = None, ac_reservation_usage_class
      = None, ac_reservation_estimated_cost_usd = 0, ac_network_started_at = None,
      ac_reconciled_at = None, ac_execution_worker_id = None, ac_execution_lease_token = None\<rparr>"

definition blank_daily_usage_row :: daily_usage_row where
  "blank_daily_usage_row =
     \<lparr>du_id = 0, du_usage_date = 0, du_usage_class = [], du_provider = [], du_endpoint = [],
      du_request_count = 0, du_spend_usd = 0, du_reserved_spend_usd = 0,
      du_unreconciled_spend_usd = 0, du_cache_miss_count = 0, du_unexpected_call_count = 0,
      du_abnormal_cost_count = 0, du_provider_failure_count = 0, du_schema_drift_count = 0\<rparr>"

definition blank_provider_qualification :: provider_qualification where
  "blank_provider_qualification =
     \<lparr>pq_id = 0, pq_provider = [], pq_environment = [], pq_adapter_version = [], pq_status =
      [], pq_qualified_at = 0, pq_expires_at = 0, pq_checks = [], pq_notes = [],
      pq_execution_method = [], pq_gate_eligible = False, pq_evidence_sha256 = None,
      pq_executed_by = [], pq_override_reason = []\<rparr>"

definition blank_billing_reconciliation :: billing_reconciliation where
  "blank_billing_reconciliation =
     \<lparr>br_id = 0, br_provider = [], br_environment = [], br_period_start = 0, br_period_end =
      0, br_reconciled_at = 0, br_status = [], br_internal_call_count = 0,
      br_provider_call_count = 0, br_internal_cost_usd = 0, br_provider_cost_usd = 0,
      br_unmatched_provider_charges = [], br_unmatched_internal_calls = [], br_difference_usd
      = 0, br_source_filename = []\<rparr>"

definition blank_keyword_decision :: keyword_decision where
  "blank_keyword_decision =
     \<lparr>kd_id = 0, kd_scan_run_id = 0, kd_keyword = [], kd_canonical_keyword = [], kd_decision =
      [], kd_reason = None, kd_rank = None, kd_representative = False, kd_cluster_id = None,
      kd_intent = None, kd_search_volume = None, kd_cpc = None, kd_granularity = None,
      kd_ranking_score = None\<rparr>"

definition blank_json_artifact :: json_artifact where
  "blank_json_artifact =
     \<lparr>ja_id = 0, ja_opportunity_id = None, ja_scan_run_id = None, ja_kind = [], ja_payload =
      []\<rparr>"

definition blank_serp_snapshot :: serp_snapshot where
  "blank_serp_snapshot =
     \<lparr>ss_id = 0, ss_scan_run_id = 0, ss_opportunity_id = None, ss_query = [], ss_market_id =
      [], ss_device = [], ss_captured_at = 0, ss_features_present = [], ss_raw_response_ref =
      None\<rparr>"

definition blank_serp_result :: serp_result where
  "blank_serp_result =
     \<lparr>sres_id = 0, sres_serp_snapshot_id = 0, sres_order = 0, sres_result_type = [], sres_url
      = [], sres_domain = [], sres_title = [], sres_description = [], sres_classification =
      [], sres_is_local_provider = False, sres_is_directory = False, sres_is_national_brand =
      False, sres_is_lead_generation_site = False, sres_classification_confidence = None,
      sres_classifier_version = [], sres_matched_rules = [], sres_classification_evidence =
      [], sres_manual_override = None, sres_override_reason = None\<rparr>"

definition blank_competitor_metric :: competitor_metric where
  "blank_competitor_metric =
     \<lparr>cmet_id = 0, cmet_scan_run_id = 0, cmet_opportunity_id = None, cmet_url = [],
      cmet_domain = [], cmet_page_url = None, cmet_normalized_domain = None,
      cmet_referring_domains = None, cmet_backlinks = None, cmet_authority = None,
      cmet_page_referring_domains = None, cmet_page_backlinks = None, cmet_page_authority =
      None, cmet_domain_referring_domains = None, cmet_domain_backlinks = None,
      cmet_domain_authority = None, cmet_page_metrics_available = False,
      cmet_domain_metrics_available = False, cmet_page_relevance_score = None,
      cmet_local_relevance = None, cmet_page_type = [], cmet_relevance_signals = [],
      cmet_representative_query = None, cmet_serp_position = None, cmet_serp_observations =
      [], cmet_serp_observation_records = [], cmet_captured_at = 0\<rparr>"

definition blank_provider_candidate :: provider_candidate where
  "blank_provider_candidate =
     \<lparr>pc_id = 0, pc_scan_run_id = 0, pc_opportunity_id = None, pc_name = [], pc_website =
      None, pc_phone = None, pc_email = None, pc_contact_form_url = None, pc_address = None,
      pc_service_area = None, pc_category = None, pc_categories = [], pc_latitude = None,
      pc_longitude = None, pc_rating = None, pc_review_count = None, pc_business_status = [],
      pc_contact_confidence = None, pc_source = [], pc_source_timestamp = 0,
      pc_raw_response_ref = None, pc_outreach_status = [], pc_suitability_score = None,
      pc_suitability_reasons = [], pc_suitability_signals = []\<rparr>"

definition blank_full_opportunity_score :: full_opportunity_score where
  "blank_full_opportunity_score =
     \<lparr>fs_id = 0, fs_scan_run_id = 0, fs_opportunity_id = 0, fs_scoring_version = [],
      fs_total_score = 0, fs_confidence = [], fs_explanation = [], fs_payload = [],
      fs_created_at = 0\<rparr>"

definition blank_opportunity_review :: opportunity_review where
  "blank_opportunity_review =
     \<lparr>rv_id = 0, rv_opportunity_id = 0, rv_prior_state = None, rv_review_state = [],
      rv_owner_user_id = None, rv_reviewer_user_id = [], rv_reviewer_role = RR_operator,
      rv_decision = [], rv_decision_reason = [], rv_notes = [], rv_tags = [],
      rv_review_version = 0, rv_approved_at = None, rv_rejected_at = None\<rparr>"

definition blank_evidence_override :: evidence_override where
  "blank_evidence_override =
     \<lparr>eo_id = 0, eo_opportunity_id = 0, eo_override_kind = OK_serp_classification,
      eo_target_record_id = 0, eo_field_name = [], eo_action = [], eo_original_value = JNull,
      eo_new_value = JNull, eo_actor_user_id = [], eo_actor_role = RR_operator, eo_reason =
      [], eo_score_impact = 0, eo_score_impact_explanation = [], eo_reverses_override_id =
      None\<rparr>"

definition blank_discovery_template :: discovery_template where
  "blank_discovery_template =
     \<lparr>dt_id = 0, dt_name = [], dt_owner_user_id = [], dt_service_family_id = 0,
      dt_market_filters = [], dt_prefilter_profile = [], dt_testing_profile = [],
      dt_full_profile = [], dt_budget_usd = 0, dt_freshness_requirements = [], dt_active =
      False\<rparr>"

definition blank_batch_scan_plan :: batch_scan_plan where
  "blank_batch_scan_plan =
     \<lparr>bp_id = 0, bp_name = [], bp_template_id = None, bp_created_by = [], bp_scan_profile =
      [], bp_data_mode = [], bp_status = [], bp_aggregate_budget_usd = 0,
      bp_aggregate_estimated_cost_usd = 0, bp_approved_max_cost_usd = None, bp_confirmed_by =
      None, bp_confirmation_reason = None, bp_confirmed_at = None, bp_queued_at = None\<rparr>"

definition blank_batch_scan_plan_item :: batch_scan_plan_item where
  "blank_batch_scan_plan_item =
     \<lparr>bi_id = 0, bi_batch_plan_id = 0, bi_opportunity_id = 0, bi_status = [],
      bi_estimated_cost_usd = 0, bi_scan_plan_payload = [], bi_scan_run_id = None\<rparr>"

definition blank_routing_profile :: routing_profile where
  "blank_routing_profile =
     \<lparr>rp_id = 0, rp_property_id = [], rp_opportunity_id = 0, rp_public_tracking_number = None,
      rp_public_contact_email = None, rp_recording_approved = False,
      rp_recording_retention_days = None, rp_call_adapter_name = None,
      rp_call_provider_route_id = None, rp_routing_health_status = None,
      rp_routing_health_checked_at = None, rp_active = False\<rparr>"

definition blank_provider_assignment :: provider_assignment where
  "blank_provider_assignment =
     \<lparr>pa_id = 0, pa_property_id = [], pa_provider_candidate_id = None, pa_status =
      PA_candidate, pa_public_business_name = [], pa_destination_phone = None,
      pa_destination_email = None, pa_coverage = [], pa_response_expectation_minutes = None,
      pa_lead_acceptance_required = False, pa_agreement_started_at = None,
      pa_agreement_ended_at = None, pa_active_from = None, pa_active_until = None,
      pa_termination_reason = None, pa_replaced_assignment_id = None, pa_logo_asset_id = None,
      pa_hours = [], pa_service_radius = [], pa_credentials = [], pa_license_numbers = [],
      pa_approved_claims = [], pa_attributed_testimonials = [], pa_provider_photos = [],
      pa_claims_reviewed_by = None, pa_claims_reviewed_at = None, pa_claims_review_reason =
      None, pa_activation_approved_by = None, pa_activation_reason = None,
      pa_replacement_approved_by = None\<rparr>"

definition blank_lead :: lead where
  "blank_lead =
     \<lparr>ld_id = [], ld_property_id = [], ld_opportunity_id = 0, ld_provider_assignment_id =
      None, ld_channel = LC_form, ld_status = LS_received, ld_name = [], ld_email = None,
      ld_phone = None, ld_postal_code = None, ld_message = None, ld_idempotency_key = [],
      ld_dedupe_hash = [], ld_subject_hash = [], ld_received_at = 0, ld_pii_deleted_at = None,
      ld_retention_expires_at = 0\<rparr>"

definition blank_lead_event :: lead_event where
  "blank_lead_event =
     \<lparr>le_id = 0, le_lead_id = [], le_event_type = [], le_event_key = [], le_truth_basis = [],
      le_source_type = [], le_source_name = [], le_occurred_at = 0, le_payload = []\<rparr>"

definition blank_consent_record :: consent_record where
  "blank_consent_record =
     \<lparr>cr_id = 0, cr_lead_id = [], cr_consent_granted = False, cr_consent_text = [],
      cr_consent_text_version = [], cr_referral_disclosure_acknowledged = False,
      cr_referral_disclosure_text = [], cr_referral_disclosure_version = [], cr_captured_at =
      0, cr_request_fingerprint = [], cr_proof_metadata = []\<rparr>"

definition blank_spam_assessment :: spam_assessment where
  "blank_spam_assessment =
     \<lparr>sa_id = 0, sa_lead_id = [], sa_score = 0, sa_disposition = [], sa_signals = [],
      sa_assessor_version = []\<rparr>"

definition blank_routing_attempt :: routing_attempt where
  "blank_routing_attempt =
     \<lparr>ra_id = 0, ra_lead_id = [], ra_provider_assignment_id = 0, ra_channel = DC_email,
      ra_delivery_key = [], ra_attempt_number = 0, ra_status = [], ra_error_code = None,
      ra_error_summary = None, ra_started_at = 0, ra_completed_at = None\<rparr>"

definition blank_provider_delivery :: provider_delivery where
  "blank_provider_delivery =
     \<lparr>pd_id = [], pd_lead_id = [], pd_provider_assignment_id = 0, pd_delivery_key = [],
      pd_channel = DC_email, pd_destination_reference = [], pd_adapter_name = [],
      pd_provider_message_id = None, pd_status = DS_pending, pd_attempt_count = 0,
      pd_max_attempts = 0, pd_next_attempt_at = None, pd_worker_id = None, pd_lease_token =
      None, pd_claimed_at = None, pd_heartbeat_at = None, pd_lease_expires_at = None,
      pd_last_error_code = None, pd_last_error_summary = None, pd_delivered_at = None,
      pd_completed_at = None\<rparr>"

definition blank_lead_outcome :: lead_outcome where
  "blank_lead_outcome =
     \<lparr>lo_id = 0, lo_lead_id = [], lo_outcome_type = AE_organic_landing, lo_truth_basis =
      TB_observed, lo_source_type = AS_web_analytics, lo_source_name = [], lo_source_event_id
      = [], lo_occurred_at = 0, lo_value_usd = None, lo_notes = None\<rparr>"

definition blank_analytics_event :: analytics_event where
  "blank_analytics_event =
     \<lparr>ae_id = 0, ae_property_id = [], ae_lead_id = None, ae_event_type = AE_organic_landing,
      ae_truth_basis = TB_observed, ae_source_type = AS_web_analytics, ae_source_name = [],
      ae_source_event_id = [], ae_occurred_at = 0, ae_value_usd = None, ae_payload = []\<rparr>"

definition blank_property_row :: property_row where
  "blank_property_row =
     \<lparr>pr_id = [], pr_opportunity_id = 0, pr_neutral_brand = [], pr_domain = None,
      pr_service_family_id = 0, pr_market_id = 0, pr_public_tracking_number = None,
      pr_public_contact_email = None, pr_status = PS_draft, pr_active_site_config_version =
      None, pr_analytics_config = [], pr_current_version = 0\<rparr>"

definition blank_property_version :: property_version where
  "blank_property_version =
     \<lparr>pv_id = 0, pv_property_id = [], pv_version = 0, pv_snapshot = [], pv_snapshot_sha256 =
      [], pv_changed_by = [], pv_change_reason = []\<rparr>"

definition blank_domain_candidate :: domain_candidate where
  "blank_domain_candidate =
     \<lparr>dc_id = 0, dc_property_id = [], dc_domain = [], dc_status = CS_generated,
      dc_generation_method = [], dc_availability_status = DA_unchecked,
      dc_availability_checked_at = None, dc_availability_evidence = [], dc_decision_by = None,
      dc_decision_reason = None, dc_decided_at = None\<rparr>"

definition blank_domain_registration :: domain_registration where
  "blank_domain_registration =
     \<lparr>dr_id = 0, dr_property_id = [], dr_domain_candidate_id = 0, dr_domain = [],
      dr_registrar_name = [], dr_status = RS_purchase_approved, dr_purchase_approved = False,
      dr_purchase_approved_by = [], dr_purchase_approval_reason = [], dr_purchase_approved_at
      = 0, dr_external_reference = None, dr_registered_at = None, dr_expected_dns_records =
      [], dr_observed_dns_records = [], dr_dns_evidence_reference = None, dr_dns_verified_at =
      None, dr_dns_verified_by = None\<rparr>"

definition blank_asset :: asset where
  "blank_asset =
     \<lparr>ast_id = 0, ast_property_id = [], ast_asset_type = [], ast_local_path = None,
      ast_source_provider = [], ast_source_url = None, ast_attribution = None,
      ast_license_metadata = [], ast_alt_text = [], ast_content_sha256 = None, ast_approved =
      False, ast_approved_by = None, ast_approval_reason = None, ast_approved_at = None\<rparr>"

definition blank_site_config :: site_config where
  "blank_site_config =
     \<lparr>sc_id = 0, sc_property_id = [], sc_version = 0, sc_status = SC_draft, sc_schema_version
      = [], sc_config_payload = [], sc_config_sha256 = [], sc_created_by = [],
      sc_change_reason = [], sc_approved_by = None, sc_approval_reason = None, sc_approved_at
      = None\<rparr>"

definition blank_site_build :: site_build where
  "blank_site_build =
     \<lparr>sb_id = 0, sb_property_id = [], sb_site_config_id = 0, sb_environment = BE_preview,
      sb_builder_version = [], sb_build_sha256 = [], sb_output_path = [], sb_status = [],
      sb_file_count = 0, sb_total_bytes = 0, sb_validation_report = [], sb_manifest = []\<rparr>"

definition blank_compliance_review :: compliance_review where
  "blank_compliance_review =
     \<lparr>cm_id = 0, cm_property_id = [], cm_site_config_id = 0, cm_site_build_id = 0, cm_status =
      CM_approved, cm_checklist = [], cm_validation_snapshot = [], cm_reviewer_user_id = [],
      cm_notes = [], cm_reviewed_at = 0\<rparr>"

definition blank_deployment :: deployment where
  "blank_deployment =
     \<lparr>dp_id = 0, dp_property_id = [], dp_site_build_id = 0, dp_domain_registration_id = None,
      dp_provider_assignment_id = None, dp_compliance_review_id = None,
      dp_previous_deployment_id = None, dp_rollback_of_deployment_id = None, dp_environment =
      BE_preview, dp_adapter_name = [], dp_status = DP_deployed, dp_url = [], dp_local_only =
      False, dp_operator_user_id = [], dp_operator_confirmation = False,
      dp_confirmation_reason = [], dp_neutral_pilot_mode = False, dp_gate_snapshot = [],
      dp_deployed_at = 0\<rparr>"

definition blank_property_decision :: property_decision where
  "blank_property_decision =
     \<lparr>dn_id = 0, dn_property_id = [], dn_opportunity_id = 0, dn_scan_run_id = 0,
      dn_full_score_id = 0, dn_evidence_snapshot_id = 0, dn_score_version_at_selection = [],
      dn_selected_at = 0, dn_service_family_slug = [], dn_market_size_band = [],
      dn_evidence_quality = [], dn_validated_opportunity_cost_usd = 0, dn_selection_context =
      []\<rparr>"

definition blank_property_outcome :: property_outcome where
  "blank_property_outcome =
     \<lparr>oc_id = 0, oc_property_decision_id = 0, oc_period_date = 0, oc_source_type =
      OS_search_console, oc_source_name = [], oc_source_record_id = [], oc_truth_basis =
      TB_observed, oc_confidence = [], oc_impressions = 0, oc_clicks = 0, oc_average_position
      = None, oc_organic_sessions = 0, oc_calls = 0, oc_forms = 0, oc_qualified_leads = 0,
      oc_appointments = 0, oc_won_jobs = 0, oc_reported_revenue = 0, oc_indexed_at = None,
      oc_provider_suitability_score = None, oc_addressable_market_score = None,
      oc_metadata_payload = [], oc_imported_at = 0\<rparr>"

definition blank_calibration_report :: calibration_report where
  "blank_calibration_report =
     \<lparr>cb_id = 0, cb_report_version = [], cb_start_date = 0, cb_end_date = 0, cb_property_count
      = 0, cb_payload = [], cb_generated_at = 0\<rparr>"

definition blank_scoring_change_review :: scoring_change_review where
  "blank_scoring_change_review =
     \<lparr>sg_id = 0, sg_proposal_id = [], sg_current_version = [], sg_proposed_version = [],
      sg_initiated_by = [], sg_reviewer_id = [], sg_benchmark_run_id = [], sg_benchmark_passed
      = False, sg_rationale = [], sg_authorized_for_manual_application = False,
      sg_applied_automatically = False\<rparr>"

lemmas blank_defs [row_defs] =
  blank_service_family_def blank_market_def blank_opportunity_def blank_scan_run_def
  blank_worker_heartbeat_def blank_scan_plan_call_def blank_api_call_def blank_daily_usage_row_def
  blank_provider_qualification_def blank_billing_reconciliation_def blank_keyword_decision_def blank_json_artifact_def
  blank_serp_snapshot_def blank_serp_result_def blank_competitor_metric_def blank_provider_candidate_def
  blank_full_opportunity_score_def blank_opportunity_review_def blank_evidence_override_def blank_discovery_template_def
  blank_batch_scan_plan_def blank_batch_scan_plan_item_def blank_routing_profile_def blank_provider_assignment_def
  blank_lead_def blank_lead_event_def blank_consent_record_def blank_spam_assessment_def
  blank_routing_attempt_def blank_provider_delivery_def blank_lead_outcome_def blank_analytics_event_def
  blank_property_row_def blank_property_version_def blank_domain_candidate_def blank_domain_registration_def
  blank_asset_def blank_site_config_def blank_site_build_def blank_compliance_review_def
  blank_deployment_def blank_property_decision_def blank_property_outcome_def blank_calibration_report_def
  blank_scoring_change_review_def

end
