(* ===== verification/Billing.thy ===== *)
theory Billing
  imports Samples "HOL-Library.Multiset"
begin

text \<open>
  \<open>services/billing.py\<close>: reconciliation of the provider's charges with the recorded calls.
  The charges are the parsed rows of the CSV file (\<open>_read_charges\<close>, file input, is not
  modelled); the result row is the state the paid-call gate of \<open>Cost_Controls\<close> reads.
\<close>

record provider_charge =
  ch_provider_request_id :: "string option"
  ch_provider_task_id :: "string option"
  ch_endpoint :: string
  ch_cost_usd :: usd
  ch_billed_at :: instant

definition billing_matches :: "api_call \<Rightarrow> provider_charge \<Rightarrow> bool" where
  "billing_matches call charge \<longleftrightarrow>
     (truthy_str (ch_provider_request_id charge) \<and>
        ac_provider_request_id call = ch_provider_request_id charge) \<or>
     (truthy_str (ch_provider_task_id charge) \<and>
        ac_provider_task_id call = ch_provider_task_id charge)"

definition charge_payload :: "provider_charge \<Rightarrow> jobj" where
  "charge_payload charge =
     [(''provider_request_id'', opt_str (ch_provider_request_id charge)),
      (''provider_task_id'', opt_str (ch_provider_task_id charge)),
      (''endpoint'', JStr (ch_endpoint charge)),
      (''cost_usd'', JNum (ch_cost_usd charge)),
      (''billed_at'', JTime (ch_billed_at charge))]"

definition call_payload :: "api_call \<Rightarrow> jobj" where
  "call_payload call =
     [(''api_call_id'', JNum (of_int (ac_id call))),
      (''provider_request_id'', opt_str (ac_provider_request_id call)),
      (''provider_task_id'', opt_str (ac_provider_task_id call)),
      (''endpoint'', JStr (ac_endpoint call)),
      (''cost_usd'', JNum (ac_actual_cost_usd call))]"

definition billed_calls ::
  "database \<Rightarrow> string \<Rightarrow> calendar_date \<Rightarrow> calendar_date \<Rightarrow> api_call list" where
  "billed_calls d provider period_start period_end =
     filter (\<lambda>c. ac_provider c = provider \<and> ac_status c = ''completed'' \<and>
       (case ac_completed_at c of None \<Rightarrow> False
        | Some t \<Rightarrow> timedelta_days period_start \<le> t \<and>
            t < timedelta_days period_end + timedelta_days 1)) (api_calls d)"

text \<open>The loop over the charges: the calls still unmatched and the unmatched charges.\<close>

fun match_charges ::
  "provider_charge list \<Rightarrow> api_call list \<Rightarrow> api_call list \<times> provider_charge list" where
  "match_charges [] calls = (calls, [])"
| "match_charges (charge # charges) calls =
     (case find (\<lambda>call. billing_matches call charge) calls of
        None \<Rightarrow> (let (cs, us) = match_charges charges calls in (cs, charge # us))
      | Some m \<Rightarrow> match_charges charges (filter (\<lambda>c. ac_id c \<noteq> ac_id m) calls))"

datatype billing_error = EmptyBillingCsv

definition reconcile_billing ::
  "database \<Rightarrow> provider_charge list \<Rightarrow> string \<Rightarrow> string \<Rightarrow> string \<Rightarrow> usd \<Rightarrow> instant \<Rightarrow>
   billing_error + (billing_reconciliation \<times> database)" where
  "reconcile_billing d charges filename provider environment tolerance reconciled_at =
     (case (list_min (map (date_of \<circ> ch_billed_at) charges),
            list_max (map (date_of \<circ> ch_billed_at) charges)) of
        (Some period_start, Some period_end) \<Rightarrow>
          (let calls = billed_calls d provider period_start period_end;
               (unmatched_calls, unmatched_charges) = match_charges charges calls;
               internal_cost = py_round 6 (sum_list (map ac_actual_cost_usd calls));
               provider_cost = py_round 6 (sum_list (map ch_cost_usd charges));
               difference = py_round 6 (provider_cost - internal_cost);
               clean = (unmatched_charges = [] \<and> unmatched_calls = [] \<and>
                  abs difference \<le> tolerance);
               row = \<lparr>br_id = next_id br_id (billing_reconciliations d),
                  br_provider = provider, br_environment = environment,
                  br_period_start = period_start, br_period_end = period_end,
                  br_reconciled_at = reconciled_at,
                  br_status = (if clean then ''clean'' else ''mismatch''),
                  br_internal_call_count = int (length calls),
                  br_provider_call_count = int (length charges),
                  br_internal_cost_usd = internal_cost,
                  br_provider_cost_usd = provider_cost,
                  br_unmatched_provider_charges = map charge_payload unmatched_charges,
                  br_unmatched_internal_calls = map call_payload unmatched_calls,
                  br_difference_usd = difference,
                  br_source_filename = filename\<rparr>
           in Inr (row, d\<lparr>billing_reconciliations := billing_reconciliations d @ [row]\<rparr>))
      | _ \<Rightarrow> Inl EmptyBillingCsv)"

section \<open>Lemmas\<close>

text \<open>
  The matching is one to one: the matched calls pair off, in order, with the matched
  charges, and together with the leftovers they are all the calls and all the charges.
\<close>

lemma filter_drop_one:
  "keys_distinct key xs \<Longrightarrow> m \<in> set xs \<Longrightarrow>
   mset xs = add_mset m (mset (filter (\<lambda>c. key c \<noteq> key m) xs))"
proof (induction xs)
  case Nil
  then show ?case by simp
next
  case (Cons a xs)
  show ?case
  proof (cases "a = m")
    case True
    with Cons.prems(1) have "filter (\<lambda>c. key c \<noteq> key m) xs = xs"
      by (auto simp: keys_distinct_def image_iff intro!: filter_True)
    with True show ?thesis by simp
  next
    case False
    with Cons.prems have "m \<in> set xs" "key a \<noteq> key m" "keys_distinct key xs"
      by (auto simp: keys_distinct_def image_iff)
    with Cons.IH show ?thesis by simp
  qed
qed

lemma keys_distinct_filter: "keys_distinct key xs \<Longrightarrow> keys_distinct key (filter P xs)"
  by (simp add: keys_distinct_def distinct_map_filter)

lemma match_charges_pairing:
  assumes "keys_distinct ac_id calls" "match_charges charges calls = (cs, us)"
  shows "\<exists>pairs. (\<forall>(call, charge) \<in> set pairs. billing_matches call charge) \<and>
    mset calls = mset (map fst pairs) + mset cs \<and>
    mset charges = mset (map snd pairs) + mset us"
  using assms
proof (induction charges arbitrary: calls us)
  case Nil
  then show ?case by (intro exI [of _ "[]"]) auto
next
  case (Cons charge charges)
  show ?case
  proof (cases "find (\<lambda>call. billing_matches call charge) calls")
    case None
    with Cons.prems obtain us' where
      "match_charges charges calls = (cs, us')" "us = charge # us'"
      by (auto split: prod.splits)
    with Cons.IH [OF Cons.prems(1), of us'] show ?thesis by auto
  next
    case (Some m)
    then have m: "m \<in> set calls" "billing_matches m charge" by (auto simp: find_Some_iff)
    let ?calls = "filter (\<lambda>c. ac_id c \<noteq> ac_id m) calls"
    from Cons.prems(2) Some have rest: "match_charges charges ?calls = (cs, us)" by simp
    obtain pairs where p: "\<forall>(call, charge) \<in> set pairs. billing_matches call charge"
      "mset ?calls = mset (map fst pairs) + mset cs"
      "mset charges = mset (map snd pairs) + mset us"
      using Cons.IH [OF keys_distinct_filter [OF Cons.prems(1)] rest] by blast
    have "mset calls = add_mset m (mset ?calls)"
      by (rule filter_drop_one [OF Cons.prems(1) m(1)])
    also have "\<dots> = add_mset m (mset (map fst pairs) + mset cs)" by (simp only: p(2))
    also have "\<dots> = mset (map fst ((m, charge) # pairs)) + mset cs" by simp
    finally have "mset calls = mset (map fst ((m, charge) # pairs)) + mset cs" .
    moreover from p(3)
    have "mset (charge # charges) = mset (map snd ((m, charge) # pairs)) + mset us" by simp
    moreover from p(1) m(2)
    have "\<forall>(call, charge) \<in> set ((m, charge) # pairs). billing_matches call charge" by simp
    ultimately show ?thesis by blast
  qed
qed

lemma reconcile_billing_clean:
  assumes "reconcile_billing d charges f p env tol now = Inr (row, d')"
    and "br_status row = ''clean''"
  shows "match_charges charges (billed_calls d p (br_period_start row) (br_period_end row))
      = ([], []) \<and> abs (br_difference_usd row) \<le> tol"
  using assms
  by (auto simp: reconcile_billing_def Let_def split: option.splits prod.splits if_splits)

text \<open>
  A clean reconciliation pairs the provider's charges with the recorded completed calls
  of the period one to one, and the totals differ by at most the tolerance.
\<close>

theorem clean_reconciliation_pairs:
  assumes "keys_distinct ac_id (api_calls d)"
    and "reconcile_billing d charges filename provider environment tolerance now = Inr (row, d')"
    and "br_status row = ''clean''"
  shows "\<exists>pairs. (\<forall>(call, charge) \<in> set pairs. billing_matches call charge) \<and>
      mset (map fst pairs) =
        mset (billed_calls d provider (br_period_start row) (br_period_end row)) \<and>
      mset (map snd pairs) = mset charges \<and>
      abs (br_difference_usd row) \<le> tolerance"
proof -
  let ?calls = "billed_calls d provider (br_period_start row) (br_period_end row)"
  from reconcile_billing_clean [OF assms(2,3)] have
    m: "match_charges charges ?calls = ([], [])" "abs (br_difference_usd row) \<le> tolerance"
    by auto
  have "keys_distinct ac_id ?calls"
    using assms(1) unfolding billed_calls_def by (rule keys_distinct_filter)
  from match_charges_pairing [OF this m(1)] obtain pairs where
    "\<forall>(call, charge) \<in> set pairs. billing_matches call charge"
    "mset ?calls = mset (map fst pairs)" "mset charges = mset (map snd pairs)" by auto
  with m(2) show ?thesis by metis
qed

definition sample_billed_db :: database where
  "sample_billed_db = empty_db\<lparr>api_calls := [blank_api_call\<lparr>ac_id := 1,
     ac_provider := ''dataforseo-live'', ac_status := ''completed'', ac_actual_cost_usd := 1 / 4,
     ac_completed_at := Some 5, ac_provider_task_id := Some ''t1''\<rparr>]\<rparr>"

definition sample_charges :: "provider_charge list" where
  "sample_charges = [\<lparr>ch_provider_request_id = None, ch_provider_task_id = Some ''t1'',
     ch_endpoint = ''/v3/serp'', ch_cost_usd = 1 / 4, ch_billed_at = 7\<rparr>]"

theorem clean_reconciliation_pairs_witness:
  "\<exists>row d' pairs. reconcile_billing sample_billed_db sample_charges ''b.csv'' ''dataforseo-live''
      ''production'' (1 / 100) 9 = Inr (row, d') \<and> mset (map snd pairs) = mset sample_charges \<and>
    (\<forall>(call, charge) \<in> set pairs. billing_matches call charge)"
proof -
  let ?r = "reconcile_billing sample_billed_db sample_charges ''b.csv'' ''dataforseo-live''
      ''production'' (1 / 100) 9"
  have ok: "\<not> isl ?r \<and> br_status (fst (projr ?r)) = ''clean''" by code_simp
  then obtain row d' where r: "?r = Inr (row, d')" by (cases ?r) auto
  with ok have clean: "br_status row = ''clean''" by simp
  have "keys_distinct ac_id (api_calls sample_billed_db)"
    by (simp add: sample_billed_db_def keys_distinct_def)
  from clean_reconciliation_pairs [OF this r clean] r show ?thesis by blast
qed

end
