(* ===== verification/Interfaces.thy ===== *)
theory Interfaces
  imports Prelude
begin

text \<open>
  The contracts that several components share, each as a locale whose \<open>fixes\<close> are the
  operations and whose \<open>assumes\<close> are the laws a provider keeps; the component theories
  interpret them on their own definitions.

  \<^item> \<open>request_machine\<close>: a service whose requests keep an invariant of the database.
  \<^item> \<open>lifecycle\<close>: a service whose requests move rows along the edges of a state graph
    (\<open>ALLOWED_TRANSITIONS\<close> of the review workflow, \<open>_ALLOWED_TRANSITIONS\<close> of provider
    assignments), and \<open>invariant_lifecycle\<close>, where they do so under an invariant
    (delivery jobs).
  \<^item> \<open>leases\<close>: rows leased to workers by token (scan runs, provider deliveries).
  \<^item> \<open>idempotent_store\<close>: inserts keyed by a unique key, where a replay returns the stored
    row (analytics events, outcomes, decisions, routing profiles).
\<close>

section \<open>Sequences of requests\<close>

text \<open>
  Requests run one after the other, each in its own transaction; a request that raises is
  rolled back and leaves the database as it was.
\<close>

fun run_requests :: "('d \<Rightarrow> 'o \<Rightarrow> 'e + 'd) \<Rightarrow> 'd \<Rightarrow> 'o list \<Rightarrow> 'd" where
  "run_requests step d [] = d"
| "run_requests step d (opn # ops) =
     (case step d opn of Inl e \<Rightarrow> run_requests step d ops
                       | Inr d' \<Rightarrow> run_requests step d' ops)"

lemma run_requests_append:
  "run_requests step d (xs @ ys) = run_requests step (run_requests step d xs) ys"
  by (induction xs arbitrary: d) (auto split: sum.splits)

lemma run_requests_two:
  "run_requests step d [x, y] = run_requests step (run_requests step d [x]) [y]"
  using run_requests_append [of step d "[x]" "[y]"] by simp

locale request_machine =
  fixes step :: "'d \<Rightarrow> 'o \<Rightarrow> 'e + 'd"
    and inv :: "'d \<Rightarrow> bool"
  assumes step_inv: "inv d \<Longrightarrow> step d opn = Inr d' \<Longrightarrow> inv d'"
begin

lemma run_inv: "inv d \<Longrightarrow> inv (run_requests step d ops)"
  by (induction ops arbitrary: d) (auto split: sum.splits intro: step_inv)

end

section \<open>State graphs\<close>

definition graph_edges :: "('s \<Rightarrow> 's list) \<Rightarrow> ('s \<times> 's) set" where
  "graph_edges allowed = {(a, b). b \<in> set (allowed a)}"

lemma graph_edges_iff [simp]: "(a, b) \<in> graph_edges allowed \<longleftrightarrow> b \<in> set (allowed a)"
  by (simp add: graph_edges_def)

lemma graph_edgesI: "b \<in> set (allowed a) \<Longrightarrow> (a, b) \<in> (graph_edges allowed)\<^sup>*"
  by (rule r_into_rtrancl) simp

text \<open>
  The steps need only follow the graph from databases that keep the invariant; \<open>lifecycle\<close>
  is the case where they always do.
\<close>

locale invariant_lifecycle = request_machine step inv
  for step :: "'d \<Rightarrow> 'o \<Rightarrow> 'e + 'd" and inv :: "'d \<Rightarrow> bool" +
  fixes state_of :: "'d \<Rightarrow> 'k \<Rightarrow> 's option"
    and allowed :: "'s \<Rightarrow> 's list"
  assumes step_path:
    "inv d \<Longrightarrow> step d opn = Inr d' \<Longrightarrow> state_of d k = Some s \<Longrightarrow>
     \<exists>s'. state_of d' k = Some s' \<and> (s, s') \<in> (graph_edges allowed)\<^sup>*"
begin

lemma run_path:
  "inv d \<Longrightarrow> state_of d k = Some s \<Longrightarrow>
   \<exists>s'. state_of (run_requests step d ops) k = Some s' \<and> (s, s') \<in> (graph_edges allowed)\<^sup>*"
proof (induction ops arbitrary: d s)
  case Nil
  then show ?case by auto
next
  case (Cons opn ops)
  show ?case
  proof (cases "step d opn")
    case (Inl e)
    with Cons show ?thesis by simp
  next
    case (Inr d')
    with step_path Cons.prems obtain s1 where
      s1: "state_of d' k = Some s1" "(s, s1) \<in> (graph_edges allowed)\<^sup>*" by blast
    from Cons.IH [OF step_inv [OF Cons.prems(1) Inr] s1(1)] obtain s2 where
      "state_of (run_requests step d' ops) k = Some s2" "(s1, s2) \<in> (graph_edges allowed)\<^sup>*"
      by blast
    with s1 Inr show ?thesis by (auto intro: rtrancl_trans)
  qed
qed

lemma closed_region:
  assumes "\<And>a b. a \<in> R \<Longrightarrow> b \<in> set (allowed a) \<Longrightarrow> b \<in> R"
    and "inv d" "state_of d k = Some s" "s \<in> R"
  shows "\<exists>s' \<in> R. state_of (run_requests step d ops) k = Some s'"
proof -
  from run_path [OF assms(2,3)] obtain s' where
    s': "state_of (run_requests step d ops) k = Some s'" "(s, s') \<in> (graph_edges allowed)\<^sup>*"
    by blast
  from s'(2) assms(4) have "s' \<in> R"
    by (induction rule: rtrancl_induct) (auto intro: assms(1))
  with s' show ?thesis by blast
qed

lemma terminal_absorbing:
  "inv d \<Longrightarrow> state_of d k = Some s \<Longrightarrow> allowed s = [] \<Longrightarrow>
   state_of (run_requests step d ops) k = Some s"
  using closed_region [of "{s}" d k s ops] by auto

end

locale lifecycle =
  fixes step :: "'d \<Rightarrow> 'o \<Rightarrow> 'e + 'd"
    and state_of :: "'d \<Rightarrow> 'k \<Rightarrow> 's option"
    and allowed :: "'s \<Rightarrow> 's list"
  assumes always_path:
    "step d opn = Inr d' \<Longrightarrow> state_of d k = Some s \<Longrightarrow>
     \<exists>s'. state_of d' k = Some s' \<and> (s, s') \<in> (graph_edges allowed)\<^sup>*"

sublocale lifecycle \<subseteq> unguarded: invariant_lifecycle step "\<lambda>_. True" state_of allowed
  by unfold_locales (simp_all add: always_path)

context lifecycle
begin

lemmas always_run_path = unguarded.run_path [OF TrueI]

lemmas always_closed_region = unguarded.closed_region [OF _ TrueI]

lemmas always_terminal = unguarded.terminal_absorbing [OF TrueI]

end

section \<open>Leases\<close>

text \<open>
  A service that leases rows to workers: \<open>owns d l\<close> says that the lease \<open>l\<close> is the current
  one of its resource, \<open>grants opn l\<close> that the request asks for this lease. The provider
  promises that a resource has one owner and that a lease is only granted by a request that
  asks for it, while nobody owns the resource.
\<close>

locale leases =
  fixes step :: "'d \<Rightarrow> 'o \<Rightarrow> 'e + 'd"
    and owns :: "'d \<Rightarrow> 'l \<Rightarrow> bool"
    and resource :: "'l \<Rightarrow> 'r"
    and grants :: "'o \<Rightarrow> 'l \<Rightarrow> bool"
  assumes exclusive: "owns d l \<Longrightarrow> owns d l' \<Longrightarrow> resource l = resource l' \<Longrightarrow> l = l'"
    and grant: "step d opn = Inr d' \<Longrightarrow> owns d' l \<Longrightarrow>
      owns d l \<or> (grants opn l \<and> (\<forall>l'. resource l' = resource l \<longrightarrow> \<not> owns d l'))"
begin

text \<open>
  Fencing: a worker without the lease never owns the resource again unless a request asks
  for exactly its lease.
\<close>

lemma fenced:
  assumes "\<not> owns d l" and "\<And>opn. opn \<in> set ops \<Longrightarrow> \<not> grants opn l"
  shows "\<not> owns (run_requests step d ops) l"
  using assms
proof (induction ops arbitrary: d)
  case Nil
  then show ?case by simp
next
  case (Cons opn ops)
  show ?case
  proof (cases "step d opn")
    case (Inl e)
    with Cons show ?thesis by simp
  next
    case (Inr d')
    with Cons.prems grant [OF Inr, of l] have "\<not> owns d' l" by auto
    with Cons Inr show ?thesis by simp
  qed
qed

lemma no_theft:
  assumes "owns d l" "step d opn = Inr d'" "owns d' l'" "resource l' = resource l"
  shows "l' = l"
  using grant [OF assms(2,3)] exclusive [of d l' l] assms by auto

text \<open>
  Hand-over: a resource passes from one owner to another only through a moment at which
  nobody owns it.
\<close>

lemma handover:
  assumes "owns d l" "owns (run_requests step d ops) l'" "resource l' = resource l" "l' \<noteq> l"
  shows "\<exists>xs ys. ops = xs @ ys \<and>
    (\<forall>l''. resource l'' = resource l \<longrightarrow> \<not> owns (run_requests step d xs) l'')"
  using assms
proof (induction ops arbitrary: d)
  case Nil
  then show ?case using exclusive by auto
next
  case (Cons opn ops)
  show ?case
  proof (cases "step d opn")
    case (Inl e)
    with Cons.prems have "owns (run_requests step d ops) l'" by simp
    from Cons.IH [OF Cons.prems(1) this Cons.prems(3,4)] obtain xs ys where "ops = xs @ ys"
      "\<forall>l''. resource l'' = resource l \<longrightarrow> \<not> owns (run_requests step d xs) l''" by blast
    with Inl show ?thesis by (intro exI [of _ "opn # xs"] exI [of _ ys]) simp
  next
    case (Inr d')
    show ?thesis
    proof (cases "\<exists>l1. resource l1 = resource l \<and> owns d' l1")
      case False
      with Inr show ?thesis by (intro exI [of _ "[opn]"] exI [of _ ops]) simp
    next
      case True
      then obtain l1 where l1: "resource l1 = resource l" "owns d' l1" by auto
      with no_theft [OF Cons.prems(1) Inr l1(2) l1(1)] have "owns d' l" by simp
      moreover have "owns (run_requests step d' ops) l'" using Cons.prems(2) Inr by simp
      ultimately obtain xs ys where "ops = xs @ ys"
        "\<forall>l''. resource l'' = resource l \<longrightarrow> \<not> owns (run_requests step d' xs) l''"
        using Cons.IH [OF _ _ Cons.prems(3,4)] by blast
      with Inr show ?thesis by (intro exI [of _ "opn # xs"] exI [of _ ys]) simp
    qed
  qed
qed

end

section \<open>Idempotent inserts\<close>

locale idempotent_store =
  fixes put :: "'d \<Rightarrow> 'x \<Rightarrow> 'e + ('r \<times> 'd)"
    and stored :: "'d \<Rightarrow> 'x \<Rightarrow> 'r \<Rightarrow> bool"
  assumes put_stored: "put d x = Inr (r, d') \<Longrightarrow> stored d' x r"
    and put_replay: "stored d x r \<Longrightarrow> put d x = Inr (r, d)"
    and put_frame: "put d y = Inr (r', d') \<Longrightarrow> stored d x r \<Longrightarrow> stored d' x r"
begin

lemma run_stored:
  "stored d x r \<Longrightarrow> stored (run_requests (\<lambda>d y. map_result snd (put d y)) d ys) x r"
  by (induction ys arbitrary: d) (auto split: sum.splits intro: put_frame)

text \<open>A replay returns the row of the first submission, whatever was submitted between.\<close>

lemma replay_after:
  assumes "put d x = Inr (r, d')"
  shows "put (run_requests (\<lambda>d y. map_result snd (put d y)) d' ys) x =
    Inr (r, run_requests (\<lambda>d y. map_result snd (put d y)) d' ys)"
  by (rule put_replay, rule run_stored, rule put_stored, rule assms)

end

end
