(* ===== verification/App_Settings.thy ===== *)
theory App_Settings
  imports Prelude
begin

text \<open>
  The configuration object of \<open>settings.py\<close>: the fields the modelled services read, with
  their declared bounds (\<open>settings_valid\<close>), their defaults (\<open>default_settings\<close>) and the
  validators that normalise or refuse a value.
\<close>

record settings =
  app_env :: string
  database_url :: string
  blob_store_backend :: string
  blob_store_s3_bucket :: string
  dataforseo_environment :: string
  max_scan_cost_usd :: usd
  max_scan_requests :: int
  allow_live_api_calls :: bool
  allow_production_dataforseo :: bool
  paid_call_kill_switch :: bool
  allow_full_scans :: bool
  live_scan_depth :: string
  scan_worker_heartbeat_seconds :: rat
  scan_worker_stale_after_seconds :: rat
  scan_worker_long_running_seconds :: rat
  scan_worker_max_attempts :: int
  scan_worker_retry_base_seconds :: rat
  scan_worker_retry_max_seconds :: rat
  production_daily_request_limit :: int
  production_daily_spend_usd :: usd
  testing_daily_spend_usd :: usd
  single_call_abnormal_cost_usd :: usd
  unexpected_call_breaker_threshold :: int
  provider_failure_rate_threshold :: rat
  schema_drift_rate_threshold :: rat
  circuit_breaker_minimum_requests :: int
  qualification_ttl_hours :: int
  billing_reconciliation_max_age_hours :: int
  billing_reconciliation_tolerance_usd :: usd
  auth_mode :: string
  rate_limit_backend :: string

definition default_settings :: settings where
  "default_settings =
     \<lparr>app_env = ''development'',
      database_url = ''sqlite:///./rank_rent.db'',
      blob_store_backend = ''filesystem'',
      blob_store_s3_bucket = '''',
      dataforseo_environment = ''sandbox'',
      max_scan_cost_usd = 10,
      max_scan_requests = 15,
      allow_live_api_calls = False,
      allow_production_dataforseo = False,
      paid_call_kill_switch = False,
      allow_full_scans = False,
      live_scan_depth = ''testing'',
      scan_worker_heartbeat_seconds = 5,
      scan_worker_stale_after_seconds = 30,
      scan_worker_long_running_seconds = 3600,
      scan_worker_max_attempts = 4,
      scan_worker_retry_base_seconds = 2,
      scan_worker_retry_max_seconds = 300,
      production_daily_request_limit = 100,
      production_daily_spend_usd = 25,
      testing_daily_spend_usd = 2,
      single_call_abnormal_cost_usd = 1,
      unexpected_call_breaker_threshold = 3,
      provider_failure_rate_threshold = 1 / 2,
      schema_drift_rate_threshold = 1 / 10,
      circuit_breaker_minimum_requests = 5,
      qualification_ttl_hours = 168,
      billing_reconciliation_max_age_hours = 48,
      billing_reconciliation_tolerance_usd = 1 / 100,
      auth_mode = ''local'',
      rate_limit_backend = ''memory''\<rparr>"

text \<open>The \<open>Field(ge=..., le=...)\<close> bounds of the numeric fields.\<close>

definition settings_valid :: "settings \<Rightarrow> bool" where
  "settings_valid s \<longleftrightarrow>
     0 \<le> max_scan_cost_usd s \<and> 0 \<le> max_scan_requests s \<and>
     1 / 2 \<le> scan_worker_heartbeat_seconds s \<and>
     1 \<le> scan_worker_stale_after_seconds s \<and>
     1 \<le> scan_worker_long_running_seconds s \<and>
     1 \<le> scan_worker_max_attempts s \<and> scan_worker_max_attempts s \<le> 20 \<and>
     1 / 10 \<le> scan_worker_retry_base_seconds s \<and>
     1 \<le> scan_worker_retry_max_seconds s \<and>
     0 \<le> production_daily_request_limit s \<and>
     0 \<le> production_daily_spend_usd s \<and> 0 \<le> testing_daily_spend_usd s \<and>
     0 \<le> single_call_abnormal_cost_usd s \<and>
     1 \<le> unexpected_call_breaker_threshold s \<and>
     0 \<le> provider_failure_rate_threshold s \<and> provider_failure_rate_threshold s \<le> 1 \<and>
     0 \<le> schema_drift_rate_threshold s \<and> schema_drift_rate_threshold s \<le> 1 \<and>
     1 \<le> circuit_breaker_minimum_requests s \<and>
     1 \<le> qualification_ttl_hours s \<and>
     1 \<le> billing_reconciliation_max_age_hours s \<and>
     0 \<le> billing_reconciliation_tolerance_usd s"

datatype settings_error =
  UnknownAppEnv | UnknownAuthMode | UnknownRateLimitBackend
| ProductionNeedsPostgres | S3NeedsBucket

definition validate_app_env :: "string \<Rightarrow> settings_error + string" where
  "validate_app_env v =
     (let n = py_lower (py_strip v)
      in guarded [raise_if (n \<notin> set [''development'', ''local'', ''test'', ''staging'', ''production''])
            UnknownAppEnv] (Inr n))"

definition validate_auth_mode :: "string \<Rightarrow> settings_error + string" where
  "validate_auth_mode v =
     (let n = py_lower (py_strip v)
      in guarded [raise_if (n \<notin> set [''local'', ''oidc'']) UnknownAuthMode] (Inr n))"

definition validate_rate_limit_backend :: "string \<Rightarrow> settings_error + string" where
  "validate_rate_limit_backend v =
     (let n = py_lower (py_strip v)
      in guarded [raise_if (n \<notin> set [''memory'', ''redis'']) UnknownRateLimitBackend] (Inr n))"

definition py_startswith :: "string \<Rightarrow> string \<Rightarrow> bool" where
  "py_startswith s p = (take (length p) s = p)"

definition validate_production_storage :: "settings \<Rightarrow> settings_error + settings" where
  "validate_production_storage s =
     guarded
       [raise_if (app_env s = ''production'' \<and>
          \<not> (py_startswith (database_url s) ''postgresql://'' \<or>
             py_startswith (database_url s) ''postgresql+'')) ProductionNeedsPostgres,
        raise_if (blob_store_backend s = ''s3'' \<and> py_strip (blob_store_s3_bucket s) = [])
          S3NeedsBucket]
       (Inr s)"

definition worker_stale_after :: "settings \<Rightarrow> int" where
  "worker_stale_after s = timedelta_seconds (scan_worker_stale_after_seconds s)"

lemma default_settings_valid: "settings_valid default_settings"
  by (simp add: settings_valid_def default_settings_def)

lemma worker_stale_after_positive: "settings_valid s \<Longrightarrow> 1000000 \<le> worker_stale_after s"
  using timedelta_seconds_mono [of 1 "scan_worker_stale_after_seconds s"]
  by (simp add: settings_valid_def worker_stale_after_def)

end
