(* ===== verification/Scan_Leases.thy ===== *)
theory Scan_Leases
  imports Schema App_Settings
begin

text \<open>
  \<open>services/scan_leases.py\<close>: the durable lease a scan worker holds and the check that
  guards every paid call and every settlement.
\<close>

record scan_execution_lease =
  lease_scan_id :: int
  lease_worker_id :: string
  lease_token_of :: string

datatype scan_lease_error = ScanNoLongerExists int | LeaseNotOwned string int

text \<open>\<open>None\<close>: the check passes.\<close>

definition assert_current_scan_lease ::
  "database \<Rightarrow> scan_execution_lease \<Rightarrow> instant \<Rightarrow> scan_lease_error option" where
  "assert_current_scan_lease d lease checked_at =
     (case tget sr_id (lease_scan_id lease) (scan_runs d) of
        None \<Rightarrow> Some (ScanNoLongerExists (lease_scan_id lease))
      | Some row \<Rightarrow>
          raise_if
            (sr_status row \<noteq> ''running'' \<or>
             sr_worker_id row \<noteq> Some (lease_worker_id lease) \<or>
             sr_lease_token row \<noteq> Some (lease_token_of lease) \<or>
             (case sr_lease_expires_at row of None \<Rightarrow> True | Some e \<Rightarrow> e \<le> checked_at))
            (LeaseNotOwned (lease_worker_id lease) (lease_scan_id lease)))"

lemma assert_current_scan_lease_None:
  "assert_current_scan_lease d lease now = None \<longleftrightarrow>
   (\<exists>row e. tget sr_id (lease_scan_id lease) (scan_runs d) = Some row \<and>
      sr_status row = ''running'' \<and> sr_worker_id row = Some (lease_worker_id lease) \<and>
      sr_lease_token row = Some (lease_token_of lease) \<and>
      sr_lease_expires_at row = Some e \<and> now < e)"
  by (auto simp: assert_current_scan_lease_def split: option.splits)

text \<open>Two leases that pass on the same scan name the same worker and the same token.\<close>

lemma current_scan_lease_unique:
  assumes "assert_current_scan_lease d l t = None" "assert_current_scan_lease d l' t' = None"
    and "lease_scan_id l = lease_scan_id l'"
  shows "lease_worker_id l = lease_worker_id l' \<and> lease_token_of l = lease_token_of l'"
  using assms by (auto simp: assert_current_scan_lease_None)

end
