(* ===== verification/Qualification.thy ===== *)
theory Qualification
  imports Samples "HOL-Library.Product_Lexorder"
begin

text \<open>
  \<open>services/qualification.py\<close>: executed and manually imported provider qualifications and
  the lookup that gates production calls. \<open>hashlib.sha256\<close> over the canonical JSON text is
  the argument \<open>sha\<close>; the executor of a check is the argument \<open>execute_check\<close>, whose left
  value is the exception it raised (type name and text).
\<close>

definition DATAFORSEO_ADAPTER_VERSION :: string where
  "DATAFORSEO_ADAPTER_VERSION = ''dataforseo-v3-workstream-d-2''"

definition REQUIRED_QUALIFICATION_CHECKS :: "string list" where
  "REQUIRED_QUALIFICATION_CHECKS =
     [''account_access'', ''location_lookup'', ''keyword_suggestions'', ''keyword_metrics'',
      ''serps'', ''serp_features'', ''backlinks'', ''business_listings'', ''partial_tasks'',
      ''rate_limits'', ''billing_errors'', ''authentication_errors'', ''schema_drift'']"

definition json_is_true :: "json option \<Rightarrow> bool" where
  "json_is_true v = (v = Some (JBool True))"

definition passed_value :: "json option \<Rightarrow> bool" where
  "passed_value v =
     (case v of Some (JObj o') \<Rightarrow> json_is_true (jget o' ''passed'') | _ \<Rightarrow> json_is_true v)"

definition normalize_executed_check :: "json option \<Rightarrow> jobj" where
  "normalize_executed_check v =
     (case v of
        Some (JObj o') \<Rightarrow> jset ''passed'' (JBool (json_is_true (jget o' ''passed''))) o'
      | _ \<Rightarrow> [(''passed'', JBool False), (''error'', JStr ''Missing executable evidence.'')])"

definition normalize_executed_checks :: "jobj \<Rightarrow> (string \<times> jobj) list" where
  "normalize_executed_checks checks =
     map (\<lambda>name. (name, normalize_executed_check (jget checks name)))
       REQUIRED_QUALIFICATION_CHECKS"

definition all_passed :: "(string \<times> jobj) list \<Rightarrow> bool" where
  "all_passed items = list_all (\<lambda>(name, item). json_is_true (jget item ''passed'')) items"

definition checks_json :: "(string \<times> jobj) list \<Rightarrow> jobj" where
  "checks_json items = map (\<lambda>(name, item). (name, JObj item)) items"

record qualification_args =
  qa_provider :: string
  qa_environment :: string
  qa_adapter_version :: string
  qa_checks :: jobj
  qa_ttl_hours :: int
  qa_notes :: string
  qa_executed_by :: string

definition add_qualification ::
  "database \<Rightarrow> (int \<Rightarrow> provider_qualification) \<Rightarrow> provider_qualification \<times> database" where
  "add_qualification d mk =
     (let row = mk (next_id pq_id (provider_qualifications d))
      in (row, d\<lparr>provider_qualifications := provider_qualifications d @ [row]\<rparr>))"

definition record_executed_qualification ::
  "(jobj \<Rightarrow> string) \<Rightarrow> database \<Rightarrow> qualification_args \<Rightarrow> instant \<Rightarrow>
   provider_qualification \<times> database" where
  "record_executed_qualification sha d a now =
     (let normalized = normalize_executed_checks (qa_checks a);
          status = (if all_passed normalized then ''passed'' else ''failed'');
          evidence = sha [(''provider'', JStr (qa_provider a)),
            (''environment'', JStr (qa_environment a)),
            (''adapter_version'', JStr (qa_adapter_version a)),
            (''checks'', JObj (checks_json normalized))]
      in add_qualification d (\<lambda>i.
           \<lparr>pq_id = i, pq_provider = qa_provider a, pq_environment = qa_environment a,
            pq_adapter_version = qa_adapter_version a, pq_status = status,
            pq_qualified_at = now, pq_expires_at = now + timedelta_hours (qa_ttl_hours a),
            pq_checks = checks_json normalized, pq_notes = qa_notes a,
            pq_execution_method = ''executable_runner'',
            pq_gate_eligible = (status = ''passed''), pq_evidence_sha256 = Some evidence,
            pq_executed_by = qa_executed_by a, pq_override_reason = ''''\<rparr>))"

datatype qualification_error = OverrideReasonRequired

definition manual_checks :: "jobj \<Rightarrow> (string \<times> jobj) list" where
  "manual_checks checks =
     map (\<lambda>name. (name, [(''passed'', JBool (passed_value (jget checks name))),
            (''detail'', (case jget checks name of None \<Rightarrow> JNull | Some v \<Rightarrow> v))]))
       REQUIRED_QUALIFICATION_CHECKS"

definition record_qualification ::
  "(jobj \<Rightarrow> string) \<Rightarrow> database \<Rightarrow> qualification_args \<Rightarrow> string \<Rightarrow> instant \<Rightarrow>
   qualification_error + (provider_qualification \<times> database)" where
  "record_qualification sha d a override_reason now =
     guarded [raise_if (py_strip override_reason = []) OverrideReasonRequired]
       (let normalized = manual_checks (qa_checks a);
            status = (if all_passed normalized then ''passed'' else ''failed'')
        in Inr (add_qualification d (\<lambda>i.
             \<lparr>pq_id = i, pq_provider = qa_provider a, pq_environment = qa_environment a,
              pq_adapter_version = qa_adapter_version a, pq_status = status,
              pq_qualified_at = now, pq_expires_at = now + timedelta_hours (qa_ttl_hours a),
              pq_checks = checks_json normalized, pq_notes = qa_notes a,
              pq_execution_method = ''manual_import'', pq_gate_eligible = False,
              pq_evidence_sha256 = Some (sha (checks_json normalized)),
              pq_executed_by = qa_executed_by a, pq_override_reason = override_reason\<rparr>)))"

text \<open>
  \<open>clock name\<close> gives the instants at which the check starts and ends.
\<close>

definition executed_evidence ::
  "(string \<Rightarrow> (string \<times> string) + jobj) \<Rightarrow> (string \<Rightarrow> instant \<times> instant) \<Rightarrow> string \<Rightarrow> jobj" where
  "executed_evidence execute_check clock name =
     (case execute_check name of
        Inr detail \<Rightarrow>
          [(''passed'', JBool (json_is_true (jget detail ''passed''))),
           (''started_at'', JTime (fst (clock name))), (''completed_at'', JTime (snd (clock name))),
           (''evidence'', JObj detail), (''error'', JNull)]
      | Inl (type_name, summary) \<Rightarrow>
          [(''passed'', JBool False),
           (''started_at'', JTime (fst (clock name))), (''completed_at'', JTime (snd (clock name))),
           (''evidence'', JObj []),
           (''error'', JObj [(''type'', JStr type_name), (''summary'', JStr summary)])])"

definition execute_qualification ::
  "(jobj \<Rightarrow> string) \<Rightarrow> database \<Rightarrow> qualification_args \<Rightarrow>
   (string \<Rightarrow> (string \<times> string) + jobj) \<Rightarrow> (string \<Rightarrow> instant \<times> instant) \<Rightarrow> instant \<Rightarrow>
   provider_qualification \<times> database" where
  "execute_qualification sha d a execute_check clock now =
     record_executed_qualification sha d
       (a\<lparr>qa_checks := map (\<lambda>name. (name, JObj (executed_evidence execute_check clock name)))
            REQUIRED_QUALIFICATION_CHECKS\<rparr>) now"

definition latest_qualification ::
  "database \<Rightarrow> string \<Rightarrow> string \<Rightarrow> string \<Rightarrow> provider_qualification option" where
  "latest_qualification d provider environment adapter_version =
     select_latest (\<lambda>q. (pq_qualified_at q, pq_id q))
       (\<lambda>q. pq_provider q = provider \<and> pq_environment q = environment \<and>
            pq_adapter_version q = adapter_version \<and>
            pq_execution_method q = ''executable_runner'')
       (provider_qualifications d)"

definition current_qualification ::
  "database \<Rightarrow> string \<Rightarrow> string \<Rightarrow> string \<Rightarrow> instant \<Rightarrow> provider_qualification option" where
  "current_qualification d provider environment adapter_version checked_at =
     (case latest_qualification d provider environment adapter_version of
        None \<Rightarrow> None
      | Some latest \<Rightarrow>
          if pq_status latest \<noteq> ''passed'' \<or> \<not> pq_gate_eligible latest \<or>
             pq_expires_at latest \<le> checked_at
          then None else Some latest)"

section \<open>Lemmas\<close>

lemma current_qualification_Some:
  "current_qualification d p e v now = Some q \<Longrightarrow>
   q \<in> set (provider_qualifications d) \<and> pq_provider q = p \<and> pq_environment q = e \<and>
   pq_adapter_version q = v \<and> pq_execution_method q = ''executable_runner'' \<and>
   pq_status q = ''passed'' \<and> pq_gate_eligible q \<and> now < pq_expires_at q \<and>
   (\<forall>x \<in> set (provider_qualifications d). pq_provider x = p \<longrightarrow> pq_environment x = e \<longrightarrow>
      pq_adapter_version x = v \<longrightarrow> pq_execution_method x = ''executable_runner'' \<longrightarrow>
      pq_qualified_at x \<le> pq_qualified_at q)"
  by (fastforce simp: current_qualification_def latest_qualification_def less_eq_prod_def
      split: option.splits if_splits dest!: select_latest_Some)

lemma record_qualification_rows:
  "record_qualification sha d a reason now = Inr (row, d') \<Longrightarrow>
   provider_qualifications d' = provider_qualifications d @ [row] \<and>
   pq_execution_method row = ''manual_import'' \<and> \<not> pq_gate_eligible row"
  by (auto simp: record_qualification_def add_qualification_def Let_def)

lemma select_latest_append_other:
  "\<not> P r \<Longrightarrow> select_latest key P (rows @ [r]) = select_latest key P rows"
  by (simp add: select_latest_def)

lemma record_qualification_current:
  assumes "record_qualification sha d a reason now = Inr (row, d')"
  shows "current_qualification d' p e v t = current_qualification d p e v t"
  using record_qualification_rows [OF assms]
  by (simp add: current_qualification_def latest_qualification_def select_latest_append_other)

lemma normalize_executed_check_passed:
  "json_is_true (jget (normalize_executed_check v) ''passed'') \<longleftrightarrow>
   (\<exists>o'. v = Some (JObj o') \<and> json_is_true (jget o' ''passed''))"
  by (auto simp: normalize_executed_check_def json_is_true_def
      split: option.splits json.splits)

lemma all_passed_normalized:
  "all_passed (normalize_executed_checks checks) \<longleftrightarrow>
   (\<forall>name \<in> set REQUIRED_QUALIFICATION_CHECKS.
      \<exists>o'. jget checks name = Some (JObj o') \<and> json_is_true (jget o' ''passed''))"
  by (simp add: all_passed_def normalize_executed_checks_def list_all_iff
      normalize_executed_check_passed)

lemma jget_map_name: "jget (map (\<lambda>n. (n, f n)) ns) k = (if k \<in> set ns then Some (f k) else None)"
  by (induction ns) auto

lemma executed_evidence_passed:
  "json_is_true (jget (executed_evidence ex clock n) ''passed'') \<longleftrightarrow>
   (\<exists>detail. ex n = Inr detail \<and> json_is_true (jget detail ''passed''))"
  by (auto simp: executed_evidence_def json_is_true_def split: sum.splits prod.splits)

section \<open>Properties\<close>

text \<open>
  Only executed checks open the production gate. A manual import never changes which
  qualification is current, for any provider, environment, adapter version and instant, even
  when every imported check is marked passed; and an executed qualification is gate-eligible
  exactly when the executor returned \<open>passed: true\<close> for every required check without raising.
\<close>

theorem qualification_gate_sources:
  assumes "record_qualification sha d a reason now = Inr (row, d')"
  shows "current_qualification d' p e v t = current_qualification d p e v t \<and>
    pq_gate_eligible (fst (execute_qualification sha d2 a2 execute_check clock now2)) =
      (\<forall>name \<in> set REQUIRED_QUALIFICATION_CHECKS. \<exists>detail.
         execute_check name = Inr detail \<and> jget detail ''passed'' = Some (JBool True))"
proof -
  have "pq_gate_eligible (fst (execute_qualification sha d2 a2 execute_check clock now2)) =
      (\<forall>name \<in> set REQUIRED_QUALIFICATION_CHECKS.
         json_is_true (jget (executed_evidence execute_check clock name) ''passed''))"
    by (simp add: execute_qualification_def record_executed_qualification_def add_qualification_def
        Let_def all_passed_normalized jget_map_name)
  then show ?thesis
    using record_qualification_current [OF assms]
    unfolding executed_evidence_passed by (simp add: json_is_true_def)
qed

definition sample_import :: qualification_args where
  "sample_import = \<lparr>qa_provider = ''dataforseo-live'', qa_environment = ''production'',
     qa_adapter_version = ''v1'',
     qa_checks = map (\<lambda>n. (n, JBool True)) REQUIRED_QUALIFICATION_CHECKS,
     qa_ttl_hours = 1, qa_notes = '''', qa_executed_by = ''ops''\<rparr>"

theorem qualification_gate_sources_witness:
  "\<exists>row d'. record_qualification (\<lambda>_. ''h'') empty_db sample_import ''audit'' 5 = Inr (row, d') \<and>
     pq_status row = ''passed'' \<and>
     current_qualification d' ''dataforseo-live'' ''production'' ''v1'' 6 = None"
proof -
  let ?r = "record_qualification (\<lambda>_. ''h'') empty_db sample_import ''audit'' 5"
  have ok: "\<not> isl ?r \<and> pq_status (fst (projr ?r)) = ''passed''" by code_simp
  then obtain row d' where r: "?r = Inr (row, d')" by (cases ?r) auto
  have "current_qualification empty_db ''dataforseo-live'' ''production'' ''v1'' 6 = None"
    by (simp add: current_qualification_def latest_qualification_def select_latest_def empty_db_def)
  with qualification_gate_sources [OF r, of "''dataforseo-live''" "''production''" "''v1''" 6] r ok
  show ?thesis by auto
qed

end
