(* ===== verification/Cost_Controls.thy ===== *)
theory Cost_Controls
  imports Interfaces Samples Scan_Leases Qualification "HOL-Library.List_Lexorder" "HOL-Library.Char_ord"
begin

text \<open>
  \<open>services/cost_controls.py\<close>: the durable circuit breaker in front of every paid provider
  call. A usage bucket is the row of \<open>provider_daily_usage\<close> with a given
  (date, class, provider, endpoint), unique in the table; the bucket with the empty endpoint
  is the provider's summary. An attempt is a row of \<open>api_calls\<close>; its reservation moves money
  from estimate to \<open>reserved_spend_usd\<close>, then to \<open>spend_usd\<close> or \<open>unreconciled_spend_usd\<close>.

  A raising reservation leaves the tables as they were; the source may still commit the empty
  bucket rows it created on the way, which read as the absent bucket does (all counters 0).
\<close>

section \<open>Usage buckets\<close>

type_synonym usage_key = "calendar_date \<times> string \<times> string \<times> string"

definition bucket_key :: "daily_usage_row \<Rightarrow> usage_key" where
  "bucket_key b = (du_usage_date b, du_usage_class b, du_provider b, du_endpoint b)"

definition new_bucket :: "int \<Rightarrow> usage_key \<Rightarrow> daily_usage_row" where
  "new_bucket i k =
     (case k of (usage_date, usage_class, provider, endpoint) \<Rightarrow>
        \<lparr>du_id = i, du_usage_date = usage_date, du_usage_class = usage_class,
         du_provider = provider, du_endpoint = endpoint, du_request_count = 0,
         du_spend_usd = 0, du_reserved_spend_usd = 0, du_unreconciled_spend_usd = 0,
         du_cache_miss_count = 0, du_unexpected_call_count = 0, du_abnormal_cost_count = 0,
         du_provider_failure_count = 0, du_schema_drift_count = 0\<rparr>)"

text \<open>Insert on conflict do nothing, then select.\<close>

definition locked_bucket :: "usage_key \<Rightarrow> database \<Rightarrow> daily_usage_row \<times> database" where
  "locked_bucket k d =
     (case tget bucket_key k (provider_daily_usage d) of
        Some b \<Rightarrow> (b, d)
      | None \<Rightarrow>
          (let b = new_bucket (next_id du_id (provider_daily_usage d)) k
           in (b, d\<lparr>provider_daily_usage := provider_daily_usage d @ [b]\<rparr>)))"

definition update_bucket ::
  "usage_key \<Rightarrow> (daily_usage_row \<Rightarrow> daily_usage_row) \<Rightarrow> database \<Rightarrow> database" where
  "update_bucket k f d =
     (let d1 = snd (locked_bucket k d)
      in d1\<lparr>provider_daily_usage := tupd bucket_key k f (provider_daily_usage d1)\<rparr>)"

text \<open>\<open>for endpoint in ("", endpoint): bucket = _locked_bucket(...); ...\<close>\<close>

definition update_buckets ::
  "calendar_date \<Rightarrow> string \<Rightarrow> string \<Rightarrow> string \<Rightarrow> (daily_usage_row \<Rightarrow> daily_usage_row) \<Rightarrow>
   database \<Rightarrow> database" where
  "update_buckets usage_date usage_class provider endpoint f d =
     update_bucket (usage_date, usage_class, provider, endpoint) f
       (update_bucket (usage_date, usage_class, provider, '''') f d)"

definition update_call :: "int \<Rightarrow> (api_call \<Rightarrow> api_call) \<Rightarrow> database \<Rightarrow> database" where
  "update_call i f d = d\<lparr>api_calls := tupd ac_id i f (api_calls d)\<rparr>"

definition usage_class_of :: "string \<Rightarrow> string" where
  "usage_class_of environment =
     (if py_lower (py_strip environment) = ''production'' then ''production'' else ''testing'')"

section \<open>Reservation\<close>

datatype circuit_reason =
  LiveCallsDisabled | KillSwitchActive | ProductionDisabled | FullScansDisabled
| AbnormalEstimate usd usd | AttemptMissing int | AttemptNotEligible int
| ProductionRequestLimit | ProductionSpendLimit | TestingSpendLimit
| UnexpectedCallsBreaker | FailureRateBreaker | SchemaDriftBreaker
| QualificationMissing | BillingNotReconciled | AttemptNotReserved

datatype cost_error =
  CircuitOpenError circuit_reason | ScanLeaseLost scan_lease_error | CostValueError string

record usage_reservation =
  ur_usage_date :: calendar_date
  ur_usage_class :: string
  ur_provider :: string
  ur_endpoint :: string
  ur_estimated_cost_usd :: usd
  ur_api_call_id :: "int option"

record reserve_args =
  rq_provider :: string
  rq_environment :: string
  rq_adapter_version :: string
  rq_endpoint :: string
  rq_estimated_cost_usd :: usd
  rq_scan_profile :: string
  rq_cache_miss :: bool
  rq_require_current_qualification :: bool
  rq_api_call_id :: "int option"
  rq_execution_lease :: "scan_execution_lease option"

definition assert_switches :: "settings \<Rightarrow> string \<Rightarrow> string \<Rightarrow> circuit_reason option" where
  "assert_switches s environment scan_profile =
     first_error
       [raise_if (\<not> allow_live_api_calls s) LiveCallsDisabled,
        raise_if (paid_call_kill_switch s) KillSwitchActive,
        raise_if (environment = ''production'' \<and> \<not> allow_production_dataforseo s)
          ProductionDisabled,
        raise_if (scan_profile = ''full'' \<and> \<not> allow_full_scans s) FullScansDisabled]"

definition latest_reconciliation ::
  "database \<Rightarrow> string \<Rightarrow> string \<Rightarrow> billing_reconciliation option" where
  "latest_reconciliation d provider environment =
     select_latest br_reconciled_at
       (\<lambda>r. br_provider r = provider \<and> br_environment r = environment)
       (billing_reconciliations d)"

definition oldest_paid_call :: "database \<Rightarrow> string \<Rightarrow> instant option" where
  "oldest_paid_call d provider =
     list_min (List.map_filter ac_completed_at
       (filter (\<lambda>c. ac_provider c = provider \<and> ac_status c = ''completed'' \<and>
          0 < ac_actual_cost_usd c) (api_calls d)))"

definition billing_current :: "settings \<Rightarrow> database \<Rightarrow> string \<Rightarrow> string \<Rightarrow> instant \<Rightarrow> bool" where
  "billing_current s d provider environment now =
     (let cutoff = now - timedelta_hours (billing_reconciliation_max_age_hours s)
      in case latest_reconciliation d provider environment of
           Some r \<Rightarrow> br_status r = ''clean'' \<and> cutoff \<le> br_reconciled_at r
         | None \<Rightarrow>
             (case oldest_paid_call d provider of None \<Rightarrow> True | Some t \<Rightarrow> cutoff \<le> t))"

definition assert_durable_breakers ::
  "settings \<Rightarrow> database \<Rightarrow> daily_usage_row \<Rightarrow> reserve_args \<Rightarrow> string \<Rightarrow> instant \<Rightarrow>
   circuit_reason option" where
  "assert_durable_breakers s d summary a usage_class now =
     (let projected = du_spend_usd summary + du_reserved_spend_usd summary
            + du_unreconciled_spend_usd summary + rq_estimated_cost_usd a;
          failure_rate = of_int (du_provider_failure_count summary)
            / of_int (max 1 (du_request_count summary));
          drift_rate = of_int (du_schema_drift_count summary)
            / of_int (max 1 (du_request_count summary));
          enough = circuit_breaker_minimum_requests s \<le> du_request_count summary;
          production = (rq_environment a = ''production'' \<and> usage_class = ''production'')
      in first_error
          [raise_if (usage_class = ''production'' \<and>
             production_daily_request_limit s \<le> du_request_count summary) ProductionRequestLimit,
           raise_if (usage_class = ''production'' \<and> production_daily_spend_usd s < projected)
             ProductionSpendLimit,
           raise_if (usage_class \<noteq> ''production'' \<and> testing_daily_spend_usd s < projected)
             TestingSpendLimit,
           raise_if (unexpected_call_breaker_threshold s \<le> du_unexpected_call_count summary)
             UnexpectedCallsBreaker,
           raise_if (enough \<and> provider_failure_rate_threshold s < failure_rate)
             FailureRateBreaker,
           raise_if (enough \<and> schema_drift_rate_threshold s < drift_rate) SchemaDriftBreaker,
           raise_if (production \<and> rq_require_current_qualification a \<and>
             current_qualification d (rq_provider a) (rq_environment a) (rq_adapter_version a) now
               = None) QualificationMissing,
           raise_if (production \<and>
             \<not> billing_current s d (rq_provider a) (rq_environment a) now) BillingNotReconciled])"

definition assert_attempt_eligible :: "database \<Rightarrow> int option \<Rightarrow> circuit_reason option" where
  "assert_attempt_eligible d call_id =
     (case call_id of
        None \<Rightarrow> None
      | Some i \<Rightarrow>
          (case tget ac_id i (api_calls d) of
             None \<Rightarrow> Some (AttemptMissing i)
           | Some c \<Rightarrow> raise_if (ac_reservation_state c \<noteq> ''none'' \<or>
                 ac_attempt_state c \<noteq> ''prepared'') (AttemptNotEligible i)))"

definition assert_lease ::
  "database \<Rightarrow> scan_execution_lease option \<Rightarrow> instant \<Rightarrow> cost_error option" where
  "assert_lease d lease now =
     (case lease of None \<Rightarrow> None
      | Some l \<Rightarrow> map_option ScanLeaseLost (assert_current_scan_lease d l now))"

definition reserve_bucket :: "usd \<Rightarrow> bool \<Rightarrow> daily_usage_row \<Rightarrow> daily_usage_row" where
  "reserve_bucket estimated cache_miss b =
     b\<lparr>du_request_count := du_request_count b + 1,
       du_reserved_spend_usd := du_reserved_spend_usd b + estimated,
       du_cache_miss_count := du_cache_miss_count b + (if cache_miss then 1 else 0)\<rparr>"

definition reserve_attempt ::
  "calendar_date \<Rightarrow> string \<Rightarrow> usd \<Rightarrow> api_call \<Rightarrow> api_call" where
  "reserve_attempt usage_date usage_class estimated c =
     c\<lparr>ac_reservation_state := ''reserved'',
       ac_reservation_usage_date := Some usage_date,
       ac_reservation_usage_class := Some usage_class,
       ac_reservation_estimated_cost_usd := estimated,
       ac_attempt_state := ''reserved''\<rparr>"

definition reserve_provider_call ::
  "settings \<Rightarrow> database \<Rightarrow> reserve_args \<Rightarrow> instant \<Rightarrow>
   cost_error + (usage_reservation \<times> database)" where
  "reserve_provider_call s d a called_at =
     (let usage_class = usage_class_of (rq_environment a);
          usage_date = date_of called_at;
          (summary, d1) = locked_bucket (usage_date, usage_class, rq_provider a, '''') d;
          circuit = map_option CircuitOpenError
      in guarded
          [assert_lease d (rq_execution_lease a) called_at,
           circuit (assert_switches s (rq_environment a) (rq_scan_profile a)),
           circuit (raise_if (single_call_abnormal_cost_usd s < rq_estimated_cost_usd a)
             (AbnormalEstimate (rq_estimated_cost_usd a) (single_call_abnormal_cost_usd s))),
           circuit (assert_attempt_eligible d (rq_api_call_id a)),
           circuit (assert_durable_breakers s d1 summary a usage_class called_at)]
          (let d2 = update_buckets usage_date usage_class (rq_provider a) (rq_endpoint a)
                 (reserve_bucket (rq_estimated_cost_usd a) (rq_cache_miss a)) d1;
               d3 = (case rq_api_call_id a of None \<Rightarrow> d2
                 | Some i \<Rightarrow> update_call i
                     (reserve_attempt usage_date usage_class (rq_estimated_cost_usd a)) d2)
           in Inr (\<lparr>ur_usage_date = usage_date, ur_usage_class = usage_class,
                ur_provider = rq_provider a, ur_endpoint = rq_endpoint a,
                ur_estimated_cost_usd = rq_estimated_cost_usd a,
                ur_api_call_id = rq_api_call_id a\<rparr>, d3)))"

definition mark_provider_call_submitted ::
  "database \<Rightarrow> usage_reservation \<Rightarrow> scan_execution_lease option \<Rightarrow> instant \<Rightarrow>
   cost_error + database" where
  "mark_provider_call_submitted d reservation lease submitted_at =
     guarded [assert_lease d lease submitted_at]
       (case ur_api_call_id reservation of
          None \<Rightarrow> Inr d
        | Some i \<Rightarrow>
            (case tget ac_id i (api_calls d) of
               None \<Rightarrow> Inl (CircuitOpenError AttemptNotReserved)
             | Some c \<Rightarrow>
                 guarded [raise_if (ac_reservation_state c \<noteq> ''reserved'' \<or>
                     ac_attempt_state c \<noteq> ''reserved'') (CircuitOpenError AttemptNotReserved)]
                   (Inr (update_call i (\<lambda>c. c\<lparr>ac_attempt_state := ''in_flight'',
                       ac_provider_outcome := ''submitted'',
                       ac_network_started_at := Some submitted_at,
                       ac_status := ''in_flight''\<rparr>) d))))"

section \<open>Settlement\<close>

record finish_args =
  fa_actual_cost_usd :: usd
  fa_failed :: bool
  fa_schema_drift :: bool
  fa_abnormal_cost :: bool
  fa_outcome_unknown :: bool

definition settled_states :: "string list" where
  "settled_states = [''finalized'', ''released'', ''reconciled_unknown'']"

definition finish_bucket :: "usd \<Rightarrow> finish_args \<Rightarrow> daily_usage_row \<Rightarrow> daily_usage_row" where
  "finish_bucket estimated a b =
     b\<lparr>du_reserved_spend_usd := max 0 (du_reserved_spend_usd b - estimated),
       du_unreconciled_spend_usd :=
         du_unreconciled_spend_usd b + (if fa_outcome_unknown a then estimated else 0),
       du_spend_usd := du_spend_usd b
         + (if fa_outcome_unknown a then 0 else max 0 (fa_actual_cost_usd a)),
       du_provider_failure_count := du_provider_failure_count b + (if fa_failed a then 1 else 0),
       du_schema_drift_count := du_schema_drift_count b + (if fa_schema_drift a then 1 else 0),
       du_abnormal_cost_count :=
         du_abnormal_cost_count b + (if fa_abnormal_cost a then 1 else 0)\<rparr>"

definition finish_attempt :: "bool \<Rightarrow> instant \<Rightarrow> api_call \<Rightarrow> api_call" where
  "finish_attempt unknown finished_at c =
     (let c1 = c\<lparr>ac_reservation_state := (if unknown then ''reconciled_unknown'' else ''finalized''),
          ac_reconciled_at := Some finished_at\<rparr>
      in if unknown
         then c1\<lparr>ac_attempt_state := ''provider_outcome_unknown'',
            ac_provider_outcome := ''unknown'', ac_status := ''provider_outcome_unknown''\<rparr>
         else c1)"

definition finish_provider_call ::
  "database \<Rightarrow> usage_reservation \<Rightarrow> finish_args \<Rightarrow> instant \<Rightarrow> database" where
  "finish_provider_call d reservation a finished_at =
     (let api_call = (case ur_api_call_id reservation of None \<Rightarrow> None
            | Some i \<Rightarrow> tget ac_id i (api_calls d));
          charge = update_buckets (ur_usage_date reservation) (ur_usage_class reservation)
            (ur_provider reservation) (ur_endpoint reservation)
            (finish_bucket (ur_estimated_cost_usd reservation) a)
      in case api_call of
           None \<Rightarrow> charge d
         | Some c \<Rightarrow>
             if ac_reservation_state c \<in> set settled_states then d
             else update_call (ac_id c) (finish_attempt (fa_outcome_unknown a) finished_at)
                    (charge d))"

definition release_bucket :: "usd \<Rightarrow> bool \<Rightarrow> daily_usage_row \<Rightarrow> daily_usage_row" where
  "release_bucket estimated unknown b =
     b\<lparr>du_reserved_spend_usd := max 0 (du_reserved_spend_usd b - estimated),
       du_unreconciled_spend_usd :=
         du_unreconciled_spend_usd b + (if unknown then estimated else 0)\<rparr>"

definition reconcile_attempt_reservation ::
  "api_call \<Rightarrow> bool \<Rightarrow> instant \<Rightarrow> database \<Rightarrow> database" where
  "reconcile_attempt_reservation c unknown reconciled_at d =
     (case ac_reservation_usage_date c of
        None \<Rightarrow> d
      | Some usage_date \<Rightarrow>
          if ac_reservation_state c \<noteq> ''reserved'' then d
          else update_call (ac_id c)
                 (\<lambda>c. c\<lparr>ac_reservation_state :=
                      (if unknown then ''reconciled_unknown'' else ''released''),
                    ac_reconciled_at := Some reconciled_at\<rparr>)
                 (update_buckets usage_date
                   (the (str_or (ac_reservation_usage_class c) (Some ''testing'')))
                   (ac_provider c) (ac_endpoint c)
                   (release_bucket (ac_reservation_estimated_cost_usd c) unknown) d))"

definition stale_attempt :: "instant \<Rightarrow> int option \<Rightarrow> api_call \<Rightarrow> bool" where
  "stale_attempt stale_before scan_run_id c \<longleftrightarrow>
     ac_attempt_state c \<in> set [''prepared'', ''reserved'', ''in_flight''] \<and>
     (case ac_started_at c of None \<Rightarrow> False | Some t \<Rightarrow> t < stale_before) \<and>
     (scan_run_id = None \<or> ac_scan_run_id c = scan_run_id)"

definition was_submitted :: "api_call \<Rightarrow> bool" where
  "was_submitted c \<longleftrightarrow> ac_network_started_at c \<noteq> None \<or> ac_attempt_state c = ''in_flight''"

definition close_stale_attempt :: "bool \<Rightarrow> instant \<Rightarrow> api_call \<Rightarrow> api_call" where
  "close_stale_attempt submitted reconciled_at c =
     (if submitted
      then c\<lparr>ac_status := ''provider_outcome_unknown'',
        ac_attempt_state := ''provider_outcome_unknown'', ac_provider_outcome := ''unknown'',
        ac_error_type := Some ''StaleProviderAttempt'',
        ac_error_summary := Some (''Worker stopped after provider submission; outcome requires ''
          @ ''billing or provider-side reconciliation and will not be retried automatically.''),
        ac_completed_at := Some reconciled_at, ac_reconciled_at := Some reconciled_at\<rparr>
      else c\<lparr>ac_status := ''failed_before_network'',
        ac_attempt_state := ''failed_before_network'', ac_provider_outcome := ''not_sent'',
        ac_error_type := Some ''StaleProviderAttempt'',
        ac_error_summary :=
          Some ''Worker stopped before provider submission; reservation released.'',
        ac_completed_at := Some reconciled_at, ac_reconciled_at := Some reconciled_at\<rparr>)"

definition reconcile_stale_row :: "instant \<Rightarrow> api_call \<Rightarrow> database \<Rightarrow> database" where
  "reconcile_stale_row reconciled_at c d =
     update_call (ac_id c) (close_stale_attempt (was_submitted c) reconciled_at)
       (reconcile_attempt_reservation c (was_submitted c) reconciled_at d)"

definition reconcile_stale_api_call_attempts ::
  "database \<Rightarrow> instant \<Rightarrow> int option \<Rightarrow> instant \<Rightarrow> nat \<times> database" where
  "reconcile_stale_api_call_attempts d stale_before scan_run_id reconciled_at =
     (let rows = sort_key ac_id (filter (stale_attempt stale_before scan_run_id) (api_calls d))
      in (length rows, fold (reconcile_stale_row reconciled_at) rows d))"

definition resolve_bucket :: "usd \<Rightarrow> usd \<Rightarrow> daily_usage_row \<Rightarrow> daily_usage_row" where
  "resolve_bucket estimated actual b =
     b\<lparr>du_unreconciled_spend_usd := max 0 (du_unreconciled_spend_usd b - estimated),
       du_spend_usd := du_spend_usd b + actual\<rparr>"

definition resolve_attempt :: "string \<Rightarrow> usd \<Rightarrow> string \<Rightarrow> instant \<Rightarrow> api_call \<Rightarrow> api_call" where
  "resolve_attempt outcome actual note resolved_at c =
     c\<lparr>ac_actual_cost_usd := actual, ac_attempt_state := ''reconciled'',
       ac_provider_outcome := outcome, ac_reservation_state := ''finalized'',
       ac_status := (if outcome = ''billed'' then ''completed'' else ''provider_confirmed_not_billed''),
       ac_reconciled_at := Some resolved_at, ac_completed_at := Some resolved_at,
       ac_error_summary := Some (py_strip ((case ac_error_summary c of None \<Rightarrow> [] | Some e \<Rightarrow> e)
         @ [CHR 0x0A] @ ''Resolution: '' @ note))\<rparr>"

definition resolve_unknown_provider_call ::
  "database \<Rightarrow> int \<Rightarrow> string \<Rightarrow> usd \<Rightarrow> string \<Rightarrow> instant \<Rightarrow> cost_error + database" where
  "resolve_unknown_provider_call d call_id outcome actual note resolved_at =
     guarded
       [raise_if (outcome \<notin> set [''billed'', ''not_billed'']) (CostValueError ''outcome''),
        raise_if (actual < 0) (CostValueError ''actual_cost_usd''),
        raise_if (py_strip note = []) (CostValueError ''resolution_note'')]
       (case tget ac_id call_id (api_calls d) of
          None \<Rightarrow> Inl (CostValueError ''not awaiting reconciliation'')
        | Some c \<Rightarrow>
            guarded [raise_if (ac_attempt_state c \<noteq> ''provider_outcome_unknown'' \<or>
                ac_reservation_state c \<notin> set [''none'', ''reconciled_unknown''])
              (CostValueError ''not awaiting reconciliation'')]
              (let d1 = (case ac_reservation_usage_date c of
                     None \<Rightarrow> d
                   | Some usage_date \<Rightarrow>
                       update_buckets usage_date
                         (the (str_or (ac_reservation_usage_class c) (Some ''testing'')))
                         (ac_provider c) (ac_endpoint c)
                         (resolve_bucket (ac_reservation_estimated_cost_usd c) actual) d)
               in Inr (update_call call_id (resolve_attempt outcome actual note resolved_at) d1)))"

definition record_unexpected_call ::
  "database \<Rightarrow> string \<Rightarrow> string \<Rightarrow> string \<Rightarrow> instant \<Rightarrow> database" where
  "record_unexpected_call d provider environment endpoint called_at =
     update_buckets (date_of called_at) (usage_class_of environment) provider endpoint
       (\<lambda>b. b\<lparr>du_unexpected_call_count := du_unexpected_call_count b + 1\<rparr>) d"

section \<open>Reports\<close>

record usage_report =
  production_requests_today :: int
  production_spend_today :: usd
  production_unreconciled_spend_today :: usd
  testing_requests_today :: int
  testing_spend_today :: usd
  testing_unreconciled_spend_today :: usd
  cache_misses :: int
  unexpected_calls :: int
  abnormal_cost_calls :: int
  provider_endpoint_spend :: "(string \<times> usd) list"

definition usage_rows :: "database \<Rightarrow> string \<Rightarrow> calendar_date \<Rightarrow> daily_usage_row list" where
  "usage_rows d provider usage_date =
     filter (\<lambda>b. du_provider b = provider \<and> du_usage_date b = usage_date)
       (provider_daily_usage d)"

definition daily_usage :: "database \<Rightarrow> string \<Rightarrow> calendar_date \<Rightarrow> usage_report" where
  "daily_usage d provider usage_date =
     (let rows = usage_rows d provider usage_date;
          summaries = dict_of (map (\<lambda>b. (du_usage_class b, b))
            (filter (\<lambda>b. du_endpoint b = '''') rows));
          endpoints = filter (\<lambda>b. du_endpoint b \<noteq> '''') rows;
          production = map_of summaries ''production'';
          testing = map_of summaries ''testing'';
          values = map snd summaries
      in \<lparr>production_requests_today = (case production of None \<Rightarrow> 0 | Some b \<Rightarrow> du_request_count b),
          production_spend_today = (case production of None \<Rightarrow> 0 | Some b \<Rightarrow> du_spend_usd b),
          production_unreconciled_spend_today =
            (case production of None \<Rightarrow> 0 | Some b \<Rightarrow> du_unreconciled_spend_usd b),
          testing_requests_today = (case testing of None \<Rightarrow> 0 | Some b \<Rightarrow> du_request_count b),
          testing_spend_today = (case testing of None \<Rightarrow> 0 | Some b \<Rightarrow> du_spend_usd b),
          testing_unreconciled_spend_today =
            (case testing of None \<Rightarrow> 0 | Some b \<Rightarrow> du_unreconciled_spend_usd b),
          cache_misses = sum_list (map du_cache_miss_count values),
          unexpected_calls = sum_list (map du_unexpected_call_count values),
          abnormal_cost_calls = sum_list (map du_abnormal_cost_count values),
          provider_endpoint_spend =
            dict_of (map (\<lambda>b. (du_usage_class b @ '':'' @ du_endpoint b,
              du_spend_usd b + du_unreconciled_spend_usd b)) endpoints)\<rparr>)"

definition bucket_alerts :: "settings \<Rightarrow> daily_usage_row \<Rightarrow> string list" where
  "bucket_alerts s row =
     (let limit = (if du_usage_class row = ''production'' then production_daily_spend_usd s
            else testing_daily_spend_usd s);
          spend = du_spend_usd row + du_reserved_spend_usd row + du_unreconciled_spend_usd row;
          ratio = spend / limit;
          requests = of_int (max 1 (du_request_count row));
          enough = circuit_breaker_minimum_requests s \<le> du_request_count row
      in (if du_unexpected_call_count row \<noteq> 0 then [''unexpected_paid_call''] else [])
       @ (if du_abnormal_cost_count row \<noteq> 0 then [''abnormal_endpoint_cost''] else [])
       @ (if unexpected_call_breaker_threshold s \<le> du_cache_miss_count row
          then [''repeated_cache_misses''] else [])
       @ (if du_usage_class row = ''testing'' \<and> 0 < du_spend_usd row
          then [''paid_testing_response''] else [])
       @ (if 0 < limit
          then if 1 \<le> ratio then [''daily_spend_100_percent'']
               else if 4 / 5 \<le> ratio then [''daily_spend_80_percent'']
               else if 1 / 2 \<le> ratio then [''daily_spend_50_percent''] else []
          else [])
       @ (if enough \<and> provider_failure_rate_threshold s
              < of_int (du_provider_failure_count row) / requests
          then [''high_provider_error_rate''] else [])
       @ (if enough \<and> schema_drift_rate_threshold s
              < of_int (du_schema_drift_count row) / requests
          then [''schema_drift_rate''] else []))"

definition evaluate_alerts ::
  "settings \<Rightarrow> database \<Rightarrow> string \<Rightarrow> calendar_date \<Rightarrow> instant \<Rightarrow> string list" where
  "evaluate_alerts s d provider usage_date checked_at =
     (let summaries = filter (\<lambda>b. du_endpoint b = '''') (usage_rows d provider usage_date);
          stale_cutoff = checked_at - timedelta_seconds (scan_worker_stale_after_seconds s);
          long_cutoff = checked_at - timedelta_seconds (scan_worker_long_running_seconds s);
          day_start = timedelta_days usage_date;
          day_end = day_start + timedelta_days 1;
          alerts = concat (map (bucket_alerts s) summaries)
           @ (if list_ex (\<lambda>r. sr_status r = ''running'' \<and>
                 (case sr_heartbeat_at r of None \<Rightarrow> True | Some t \<Rightarrow> t < stale_cutoff)) (scan_runs d)
              then [''stale_worker''] else [])
           @ (if list_ex (\<lambda>r. sr_status r = ''running'' \<and>
                 (case sr_started_at r of None \<Rightarrow> False | Some t \<Rightarrow> t < long_cutoff)) (scan_runs d)
              then [''long_running_scan''] else [])
           @ (if list_ex (\<lambda>r. sr_status r = ''quarantined'') (scan_runs d)
              then [''poison_job''] else [])
           @ (if list_ex (\<lambda>c. ac_provider c = provider \<and> ac_status c = ''completed'' \<and>
                 0 < ac_actual_cost_usd c \<and> ac_planned_request_id c = None \<and>
                 (case ac_completed_at c of None \<Rightarrow> False
                  | Some t \<Rightarrow> day_start \<le> t \<and> t < day_end)) (api_calls d)
              then [''paid_call_without_plan''] else [])
           @ (if list_ex (\<lambda>c. ac_provider c = provider \<and>
                 ac_status c = ''provider_outcome_unknown'') (api_calls d)
              then [''provider_outcome_unknown''] else [])
           @ (case select_latest br_reconciled_at (\<lambda>r. br_provider r = provider)
                    (billing_reconciliations d) of
                None \<Rightarrow> []
              | Some r \<Rightarrow> if br_status r \<noteq> ''clean''
                  then [''provider_internal_cost_mismatch''] else [])
      in sort (remdups alerts))"

section \<open>Bucket lemmas\<close>

text \<open>The bucket as a reader sees it: an absent one reads as a row of zeros.\<close>

definition bucket :: "database \<Rightarrow> usage_key \<Rightarrow> daily_usage_row" where
  "bucket d k =
     (case tget bucket_key k (provider_daily_usage d) of Some b \<Rightarrow> b | None \<Rightarrow> new_bucket 0 k)"

definition keeps_key :: "(daily_usage_row \<Rightarrow> daily_usage_row) \<Rightarrow> bool" where
  "keeps_key f \<longleftrightarrow> (\<forall>b. bucket_key (f b) = bucket_key b)"

lemma bucket_key_new [simp]: "bucket_key (new_bucket i k) = k"
  by (cases k) (simp add: bucket_key_def new_bucket_def)

lemma new_bucket_zero [simp]:
  "du_request_count (new_bucket i k) = 0" "du_spend_usd (new_bucket i k) = 0"
  "du_reserved_spend_usd (new_bucket i k) = 0" "du_unreconciled_spend_usd (new_bucket i k) = 0"
  "du_unexpected_call_count (new_bucket i k) = 0" "du_provider_failure_count (new_bucket i k) = 0"
  "du_schema_drift_count (new_bucket i k) = 0" "du_cache_miss_count (new_bucket i k) = 0"
  "du_abnormal_cost_count (new_bucket i k) = 0"
  by (cases k; simp add: new_bucket_def)+

lemma keeps_key_updates [simp]:
  "keeps_key (reserve_bucket e m)" "keeps_key (finish_bucket e a)"
  "keeps_key (release_bucket e u)" "keeps_key (resolve_bucket e c)"
  "keeps_key (\<lambda>b. b\<lparr>du_unexpected_call_count := du_unexpected_call_count b + 1\<rparr>)"
  by (simp_all add: keeps_key_def bucket_key_def reserve_bucket_def finish_bucket_def
      release_bucket_def resolve_bucket_def)

lemma locked_bucket_other_tables [table_simps]:
  "api_calls (snd (locked_bucket k d)) = api_calls d"
  "scan_runs (snd (locked_bucket k d)) = scan_runs d"
  "provider_qualifications (snd (locked_bucket k d)) = provider_qualifications d"
  "billing_reconciliations (snd (locked_bucket k d)) = billing_reconciliations d"
  by (simp_all add: locked_bucket_def Let_def split: option.splits)

lemma update_bucket_other_tables [table_simps]:
  "api_calls (update_bucket k f d) = api_calls d"
  "scan_runs (update_bucket k f d) = scan_runs d"
  "provider_qualifications (update_bucket k f d) = provider_qualifications d"
  "billing_reconciliations (update_bucket k f d) = billing_reconciliations d"
  by (simp_all add: update_bucket_def Let_def table_simps)

lemma update_call_tables [table_simps]:
  "provider_daily_usage (update_call i f d) = provider_daily_usage d"
  "api_calls (update_call i f d) = tupd ac_id i f (api_calls d)"
  "scan_runs (update_call i f d) = scan_runs d"
  "bucket (update_call i f d) k = bucket d k"
  by (simp_all add: update_call_def bucket_def)

lemma update_buckets_other_tables [table_simps]:
  "api_calls (update_buckets t c p e f d) = api_calls d"
  "scan_runs (update_buckets t c p e f d) = scan_runs d"
  by (simp_all add: update_buckets_def table_simps)

lemma tget_locked_bucket:
  "tget bucket_key k (provider_daily_usage (snd (locked_bucket k d))) =
   Some (fst (locked_bucket k d))"
  by (auto simp: locked_bucket_def Let_def tget_append split: option.splits)

lemma bucket_locked [simp]: "bucket (snd (locked_bucket k d)) k' =
    (if k' = k then fst (locked_bucket k d) else bucket d k')"
  by (auto simp: bucket_def locked_bucket_def Let_def tget_append split: option.splits)

lemma locked_bucket_fields [table_simps]:
  "du_request_count (fst (locked_bucket k d)) = du_request_count (bucket d k)"
  "du_spend_usd (fst (locked_bucket k d)) = du_spend_usd (bucket d k)"
  "du_reserved_spend_usd (fst (locked_bucket k d)) = du_reserved_spend_usd (bucket d k)"
  "du_unreconciled_spend_usd (fst (locked_bucket k d)) = du_unreconciled_spend_usd (bucket d k)"
  "du_unexpected_call_count (fst (locked_bucket k d)) = du_unexpected_call_count (bucket d k)"
  "du_provider_failure_count (fst (locked_bucket k d)) = du_provider_failure_count (bucket d k)"
  "du_schema_drift_count (fst (locked_bucket k d)) = du_schema_drift_count (bucket d k)"
  by (simp_all add: locked_bucket_def bucket_def Let_def split: option.splits)

lemma bucket_update_bucket:
  "keeps_key f \<Longrightarrow> bucket (update_bucket k f d) k' =
     (if k' = k then f (fst (locked_bucket k d)) else bucket d k')"
proof -
  assume f: "keeps_key f"
  let ?d = "snd (locked_bucket k d)"
  have "bucket (update_bucket k f d) k' = (if k' = k then f (bucket ?d k) else bucket ?d k')"
    using f tget_locked_bucket [of k d]
    by (auto simp: bucket_def update_bucket_def Let_def keeps_key_def tget_tupd_same tget_tupd_other)
  then show ?thesis by simp
qed

text \<open>Writing a bucket twice, once as the summary and once as the endpoint's own.\<close>

lemma bucket_update_buckets:
  assumes "keeps_key f" "e \<noteq> ''''"
  shows "bucket (update_buckets t c p e f d) k =
    (if k = (t, c, p, '''') then f (fst (locked_bucket (t, c, p, '''') d))
     else if k = (t, c, p, e)
       then f (fst (locked_bucket (t, c, p, e) (update_bucket (t, c, p, '''') f d)))
     else bucket d k)"
  using assms by (simp add: update_buckets_def bucket_update_bucket)

section \<open>The reservation ledger\<close>

text \<open>
  What the buckets must hold, read off the attempts: the bucket's reserved (unreconciled)
  spend is the sum of the estimates of the attempts that are reserved (of unknown outcome)
  under the bucket's key; the summary bucket collects every endpoint.
\<close>

definition in_bucket :: "usage_key \<Rightarrow> api_call \<Rightarrow> bool" where
  "in_bucket k c =
     (case k of (usage_date, usage_class, provider, endpoint) \<Rightarrow>
        ac_reservation_usage_date c = Some usage_date \<and>
        ac_reservation_usage_class c = Some usage_class \<and>
        ac_provider c = provider \<and> (endpoint = '''' \<or> ac_endpoint c = endpoint))"

definition outstanding :: "string \<Rightarrow> usage_key \<Rightarrow> api_call list \<Rightarrow> usd" where
  "outstanding st k calls =
     sum_rows (\<lambda>c. ac_reservation_state c = st \<and> in_bucket k c)
       ac_reservation_estimated_cost_usd calls"

definition attempt_ok :: "api_call \<Rightarrow> bool" where
  "attempt_ok c \<longleftrightarrow>
     ac_endpoint c \<noteq> '''' \<and> 0 \<le> ac_estimated_cost_usd c \<and>
     0 \<le> ac_reservation_estimated_cost_usd c \<and>
     (ac_reservation_state c = ''none'' \<longrightarrow> ac_reservation_usage_date c = None) \<and>
     (ac_reservation_state c \<in> set [''reserved'', ''reconciled_unknown''] \<longrightarrow>
        ac_reservation_usage_date c \<noteq> None \<and> truthy_str (ac_reservation_usage_class c))"

definition ledger_ok :: "database \<Rightarrow> bool" where
  "ledger_ok d \<longleftrightarrow>
     keys_distinct ac_id (api_calls d) \<and>
     keys_distinct bucket_key (provider_daily_usage d) \<and>
     (\<forall>c \<in> set (api_calls d). attempt_ok c) \<and>
     (\<forall>k. du_reserved_spend_usd (bucket d k) = outstanding ''reserved'' k (api_calls d)) \<and>
     (\<forall>k. du_unreconciled_spend_usd (bucket d k) =
        outstanding ''reconciled_unknown'' k (api_calls d))"

definition share :: "string \<Rightarrow> usage_key \<Rightarrow> api_call \<Rightarrow> usd" where
  "share st k c =
     (if ac_reservation_state c = st \<and> in_bucket k c
      then ac_reservation_estimated_cost_usd c else 0)"

lemma keys_distinct_locked_bucket:
  "keys_distinct bucket_key (provider_daily_usage d) \<Longrightarrow>
   keys_distinct bucket_key (provider_daily_usage (snd (locked_bucket k d)))"
  by (auto simp: locked_bucket_def Let_def keys_distinct_append tget_None_iff
      split: option.splits)

lemma keys_distinct_update_buckets:
  assumes "keeps_key f" "keys_distinct bucket_key (provider_daily_usage d)"
  shows "keys_distinct bucket_key (provider_daily_usage (update_buckets t c p e f d))"
proof -
  have one: "keys_distinct bucket_key (provider_daily_usage (update_bucket k f d))"
    if "keys_distinct bucket_key (provider_daily_usage d)" for k d
    using keys_distinct_locked_bucket [OF that] assms(1)
    by (simp add: update_bucket_def Let_def keeps_key_def keys_distinct_tupd)
  show ?thesis unfolding update_buckets_def by (intro one assms(2))
qed

lemma in_bucket_cases:
  assumes "ac_reservation_usage_date c = Some t" "ac_reservation_usage_class c = Some cl"
  shows "in_bucket k c \<longleftrightarrow>
    k = (t, cl, ac_provider c, '''') \<or> k = (t, cl, ac_provider c, ac_endpoint c)"
  using assms by (cases k) (auto simp: in_bucket_def)

lemma outstanding_tupd:
  assumes "keys_distinct ac_id calls" "tget ac_id i calls = Some c" "\<And>c. ac_id (f c) = ac_id c"
  shows "outstanding st k (tupd ac_id i f calls) =
    outstanding st k calls - share st k c + share st k (f c)"
  using assms by (simp add: outstanding_def share_def sum_rows_tupd)

lemma share_le_outstanding:
  assumes "\<And>c. c \<in> set calls \<Longrightarrow> attempt_ok c" "c \<in> set calls"
  shows "share st k c \<le> outstanding st k calls"
proof (cases "ac_reservation_state c = st \<and> in_bucket k c")
  case True
  then show ?thesis
    unfolding share_def outstanding_def
    using assms by (auto simp: attempt_ok_def intro!: sum_rows_member_le)
next
  case False
  have "0 \<le> outstanding st k calls"
    unfolding outstanding_def using assms(1) by (auto simp: attempt_ok_def intro: sum_rows_nonneg)
  with False show ?thesis by (auto simp: share_def)
qed

text \<open>
  One settlement step: an attempt is rewritten by \<open>f\<close> and its two buckets by \<open>g\<close>. The ledger
  is kept when \<open>g\<close> moves in the two buckets what \<open>f\<close> moves in the attempt.
\<close>

lemma ledger_transfer:
  assumes ok: "ledger_ok d" and c: "tget ac_id i (api_calls d) = Some c"
    and f: "\<And>c. ac_id (f c) = ac_id c" "attempt_ok (f c)"
    and g: "keeps_key g" and e: "e \<noteq> ''''"
    and reserved: "\<And>k b. k = (t, cl, p, '''') \<or> k = (t, cl, p, e) \<Longrightarrow>
      share ''reserved'' k c \<le> du_reserved_spend_usd b \<Longrightarrow>
      du_reserved_spend_usd (g b) =
        du_reserved_spend_usd b - share ''reserved'' k c + share ''reserved'' k (f c)"
    and unrec: "\<And>k b. k = (t, cl, p, '''') \<or> k = (t, cl, p, e) \<Longrightarrow>
      share ''reconciled_unknown'' k c \<le> du_unreconciled_spend_usd b \<Longrightarrow>
      du_unreconciled_spend_usd (g b) = du_unreconciled_spend_usd b
        - share ''reconciled_unknown'' k c + share ''reconciled_unknown'' k (f c)"
    and frame: "\<And>k st. k \<noteq> (t, cl, p, '''') \<Longrightarrow> k \<noteq> (t, cl, p, e) \<Longrightarrow>
      st \<in> {''reserved'', ''reconciled_unknown''} \<Longrightarrow> share st k (f c) = share st k c"
  shows "ledger_ok (update_call i f (update_buckets t cl p e g d))"
proof -
  let ?d = "update_call i f (update_buckets t cl p e g d)"
  note ok' = ok [unfolded ledger_ok_def]
  have cin: "c \<in> set (api_calls d)" using c by (auto dest: tget_Some_key)
  have sum: "outstanding st k (api_calls ?d) =
      outstanding st k (api_calls d) - share st k c + share st k (f c)" for st k
    using ok' c f(1) by (simp add: table_simps outstanding_tupd)
  have le: "share st k c \<le> outstanding st k (api_calls d)" for st k
    using ok' cin by (intro share_le_outstanding) auto
  have r: "du_reserved_spend_usd (bucket d k) = outstanding ''reserved'' k (api_calls d)"
    and u: "du_unreconciled_spend_usd (bucket d k) =
      outstanding ''reconciled_unknown'' k (api_calls d)" for k
    using ok' by blast+
  have "attempt_ok x" if "x \<in> set (api_calls ?d)" for x
  proof -
    from that have "x \<in> set (api_calls d) \<or> x = f c"
      using ok' c by (auto simp: table_simps set_tupd dest: tget_in_set)
    with ok' f(2) show ?thesis by auto
  qed
  moreover have "du_reserved_spend_usd (bucket ?d k) = outstanding ''reserved'' k (api_calls ?d)"
    for k
    using r [of k] le [of "''reserved''" k] reserved [of k] frame [of k "''reserved''"] unfolding sum
    by (auto simp: table_simps bucket_update_buckets [OF g e] bucket_update_bucket [OF g] e)
  moreover have "du_unreconciled_spend_usd (bucket ?d k) =
      outstanding ''reconciled_unknown'' k (api_calls ?d)" for k
    using u [of k] le [of "''reconciled_unknown''" k] unrec [of k] frame [of k "''reconciled_unknown''"]
    unfolding sum
    by (auto simp: table_simps bucket_update_buckets [OF g e] bucket_update_bucket [OF g] e)
  ultimately show ?thesis
    unfolding ledger_ok_def using ok' f(1) g
    by (auto simp: table_simps keys_distinct_tupd keys_distinct_update_buckets)
qed

text \<open>A step that changes neither the money in the buckets nor the reservations keeps it.\<close>

lemma ledger_frame:
  assumes ok: "ledger_ok d"
    and calls: "map ac_id (api_calls d') = map ac_id (api_calls d)"
      "\<And>c. c \<in> set (api_calls d') \<Longrightarrow> attempt_ok c"
      "\<And>st k. st \<in> {''reserved'', ''reconciled_unknown''} \<Longrightarrow>
        outstanding st k (api_calls d') = outstanding st k (api_calls d)"
    and buckets: "keys_distinct bucket_key (provider_daily_usage d')"
      "\<And>k. du_reserved_spend_usd (bucket d' k) = du_reserved_spend_usd (bucket d k)"
      "\<And>k. du_unreconciled_spend_usd (bucket d' k) = du_unreconciled_spend_usd (bucket d k)"
  shows "ledger_ok d'"
  using assms unfolding ledger_ok_def keys_distinct_def by simp

lemma ledger_update_call:
  assumes ok: "ledger_ok d"
    and f: "\<And>c. ac_id (f c) = ac_id c"
      "\<And>c. tget ac_id i (api_calls d) = Some c \<Longrightarrow> attempt_ok c \<Longrightarrow> attempt_ok (f c)"
      "\<And>c st k. tget ac_id i (api_calls d) = Some c \<Longrightarrow>
        st \<in> {''reserved'', ''reconciled_unknown''} \<Longrightarrow> share st k (f c) = share st k c"
  shows "ledger_ok (update_call i f d)"
proof (rule ledger_frame [OF ok])
  note ok' = ok [unfolded ledger_ok_def]
  show "outstanding st k (api_calls (update_call i f d)) = outstanding st k (api_calls d)"
    if "st \<in> {''reserved'', ''reconciled_unknown''}" for st k
  proof (cases "tget ac_id i (api_calls d)")
    case None
    then have "tupd ac_id i f (api_calls d) = api_calls d"
      by (intro tupd_id) (auto simp: tget_None_iff)
    then show ?thesis by (simp add: table_simps)
  next
    case (Some c)
    with ok' f that show ?thesis by (simp add: table_simps outstanding_tupd)
  qed
  show "attempt_ok c" if "c \<in> set (api_calls (update_call i f d))" for c
  proof -
    from that consider "c \<in> set (api_calls d)"
      | x where "x \<in> set (api_calls d)" "ac_id x = i" "c = f x"
      by (auto simp: table_simps set_tupd)
    then show ?thesis using ok' f(2) tget_in_set [of ac_id "api_calls d"] by cases auto
  qed
qed (use ok f(1) in \<open>auto simp: table_simps map_key_tupd ledger_ok_def\<close>)

lemma locked_bucket_again [simp]:
  "locked_bucket k (snd (locked_bucket k d)) = locked_bucket k d"
  using tget_locked_bucket [of k d] by (simp add: locked_bucket_def [of k "snd (locked_bucket k d)"])

lemma update_buckets_after_lock [simp]:
  "update_buckets t c p e f (snd (locked_bucket (t, c, p, '''') d)) = update_buckets t c p e f d"
  by (simp add: update_buckets_def update_bucket_def)

section \<open>What a successful reservation has checked\<close>

lemma reserve_provider_call_Inr:
  "reserve_provider_call s d a now = Inr (res, d') \<longleftrightarrow>
   (let cl = usage_class_of (rq_environment a); t = date_of now;
        k = (t, cl, rq_provider a, '''') in
    assert_lease d (rq_execution_lease a) now = None \<and>
    assert_switches s (rq_environment a) (rq_scan_profile a) = None \<and>
    rq_estimated_cost_usd a \<le> single_call_abnormal_cost_usd s \<and>
    assert_attempt_eligible d (rq_api_call_id a) = None \<and>
    assert_durable_breakers s (snd (locked_bucket k d)) (fst (locked_bucket k d)) a cl now = None \<and>
    res = \<lparr>ur_usage_date = t, ur_usage_class = cl, ur_provider = rq_provider a,
       ur_endpoint = rq_endpoint a, ur_estimated_cost_usd = rq_estimated_cost_usd a,
       ur_api_call_id = rq_api_call_id a\<rparr> \<and>
    (let d2 = update_buckets t cl (rq_provider a) (rq_endpoint a)
           (reserve_bucket (rq_estimated_cost_usd a) (rq_cache_miss a)) d
     in d' = (case rq_api_call_id a of None \<Rightarrow> d2
          | Some i \<Rightarrow> update_call i (reserve_attempt t cl (rq_estimated_cost_usd a)) d2)))"
  by (cases "rq_api_call_id a") (auto simp: reserve_provider_call_def Let_def case_prod_beta)

lemma usage_class_of_cases: "usage_class_of e = ''production'' \<or> usage_class_of e = ''testing''"
  by (simp add: usage_class_of_def)

lemma usage_class_of_production [simp]: "usage_class_of ''production'' = ''production''"
  by (simp add: usage_class_of_def py_strip_def py_lstrip_def py_lower_def is_py_space_def
      char_lower_def)

lemma current_qualification_locked [simp]:
  "current_qualification (snd (locked_bucket k d)) p e v t = current_qualification d p e v t"
  by (simp add: current_qualification_def latest_qualification_def table_simps)

lemma billing_current_locked [simp]:
  "billing_current s (snd (locked_bucket k d)) p e t = billing_current s d p e t"
proof -
  have "oldest_paid_call (snd (locked_bucket k d)) p = oldest_paid_call d p"
    by (simp add: oldest_paid_call_def table_simps)
  then show ?thesis
    by (simp add: billing_current_def latest_reconciliation_def table_simps Let_def
        split: option.splits)
qed

lemma reserve_bucket_fields [simp]:
  "du_reserved_spend_usd (reserve_bucket e m b) = du_reserved_spend_usd b + e"
  "du_unreconciled_spend_usd (reserve_bucket e m b) = du_unreconciled_spend_usd b"
  "du_spend_usd (reserve_bucket e m b) = du_spend_usd b"
  "du_request_count (reserve_bucket e m b) = du_request_count b + 1"
  by (simp_all add: reserve_bucket_def)

lemma assert_attempt_eligible_Some:
  "assert_attempt_eligible d (Some i) = None \<longleftrightarrow>
   (\<exists>c. tget ac_id i (api_calls d) = Some c \<and> ac_reservation_state c = ''none'' \<and>
      ac_attempt_state c = ''prepared'')"
  by (auto simp: assert_attempt_eligible_def split: option.splits)

section \<open>The ledger is kept by every operation\<close>

lemma reserve_keeps_ledger:
  assumes ok: "ledger_ok d"
    and res: "reserve_provider_call s d a now = Inr (r, d')"
    and a: "rq_api_call_id a = Some i" "tget ac_id i (api_calls d) = Some c"
      "rq_provider a = ac_provider c" "rq_endpoint a = ac_endpoint c"
      "0 \<le> rq_estimated_cost_usd a"
  shows "ledger_ok d'"
proof -
  let ?t = "date_of now" and ?cl = "usage_class_of (rq_environment a)"
  let ?e = "rq_estimated_cost_usd a"
  let ?f = "reserve_attempt ?t ?cl ?e"
  have c: "ac_reservation_state c = ''none''" "attempt_ok c"
    using res a ok by (auto simp: reserve_provider_call_Inr Let_def assert_attempt_eligible_Some
        ledger_ok_def dest: tget_Some_key)
  then have old: "share st k c = 0" if "st \<in> {''reserved'', ''reconciled_unknown''}" for st k
    using that by (auto simp: share_def)
  have new: "in_bucket k (?f c) \<longleftrightarrow>
      k = (?t, ?cl, rq_provider a, '''') \<or> k = (?t, ?cl, rq_provider a, rq_endpoint a)" for k
    using a by (subst in_bucket_cases [of _ ?t ?cl]) (auto simp: reserve_attempt_def)
  have "truthy_str (Some ?cl)" using usage_class_of_cases [of "rq_environment a"]
    by (auto simp: truthy_str_def)
  with c a have "attempt_ok (?f c)" by (simp add: attempt_ok_def reserve_attempt_def)
  moreover have "rq_endpoint a \<noteq> ''''" using c a by (simp add: attempt_ok_def)
  ultimately have "ledger_ok (update_call i ?f (update_buckets ?t ?cl (rq_provider a)
      (rq_endpoint a) (reserve_bucket ?e (rq_cache_miss a)) d))"
    by (intro ledger_transfer [OF ok a(2)])
      (auto simp: old share_def [of _ _ "?f c"] new, auto simp: reserve_attempt_def)
  then show ?thesis using res a by (simp add: reserve_provider_call_Inr Let_def)
qed

lemma submit_keeps_ledger:
  assumes "ledger_ok d" "mark_provider_call_submitted d r lease now = Inr d'"
  shows "ledger_ok d'"
proof -
  have "ledger_ok (update_call i (\<lambda>c. c\<lparr>ac_attempt_state := ''in_flight'',
      ac_provider_outcome := ''submitted'', ac_network_started_at := Some now,
      ac_status := ''in_flight''\<rparr>) d)" for i
    by (rule ledger_update_call [OF assms(1)])
      (auto simp: attempt_ok_def share_def in_bucket_def)
  with assms show ?thesis
    by (auto simp: mark_provider_call_submitted_def split: option.splits)
qed

text \<open>
  The reservation a client settles is the one recorded on the attempt: \<open>_request\<close> passes on
  what \<open>reserve_provider_call\<close> returned for the same row.
\<close>

definition reservation_of :: "api_call \<Rightarrow> usage_reservation" where
  "reservation_of c =
     \<lparr>ur_usage_date = the (ac_reservation_usage_date c),
      ur_usage_class = the (ac_reservation_usage_class c),
      ur_provider = ac_provider c, ur_endpoint = ac_endpoint c,
      ur_estimated_cost_usd = ac_reservation_estimated_cost_usd c,
      ur_api_call_id = Some (ac_id c)\<rparr>"

lemma attempt_ok_reserved:
  assumes "attempt_ok c" "ac_reservation_state c \<in> {''reserved'', ''reconciled_unknown''}"
  obtains t cl where "ac_reservation_usage_date c = Some t"
    "ac_reservation_usage_class c = Some cl" "cl \<noteq> ''''"
    "the (str_or (ac_reservation_usage_class c) (Some ''testing'')) = cl"
  using assms by (auto simp: attempt_ok_def truthy_str_def str_or_def split: option.splits)

lemma finish_attempt_share:
  "share ''reserved'' k (finish_attempt u t c) = 0"
  "share ''reconciled_unknown'' k (finish_attempt u t c) =
     (if u \<and> in_bucket k c then ac_reservation_estimated_cost_usd c else 0)"
  by (auto simp: share_def finish_attempt_def Let_def in_bucket_def)

lemma finish_keeps_ledger:
  assumes ok: "ledger_ok d" and c: "tget ac_id i (api_calls d) = Some c"
    and st: "ac_reservation_state c \<in> set (''reserved'' # settled_states)"
  shows "ledger_ok (finish_provider_call d (reservation_of c) a now)"
proof (cases "ac_reservation_state c \<in> set settled_states")
  case True
  have "ac_id c = i" using c by (auto dest: tget_Some_key)
  with True c ok show ?thesis by (simp add: finish_provider_call_def reservation_of_def Let_def)
next
  case False
  with st have res: "ac_reservation_state c = ''reserved''" by auto
  have ci: "ac_id c = i" "attempt_ok c" using c ok by (auto simp: ledger_ok_def dest: tget_Some_key)
  from ci(2) res obtain t cl where tc: "ac_reservation_usage_date c = Some t"
    "ac_reservation_usage_class c = Some cl" by (auto elim: attempt_ok_reserved)
  let ?f = "finish_attempt (fa_outcome_unknown a) now"
  let ?g = "finish_bucket (ac_reservation_estimated_cost_usd c) a"
  note inb = in_bucket_cases [OF tc]
  have old: "share ''reserved'' k c =
      (if in_bucket k c then ac_reservation_estimated_cost_usd c else 0)"
    "share ''reconciled_unknown'' k c = 0" for k
    using res by (simp_all add: share_def)
  have "ledger_ok (update_call i ?f (update_buckets t cl (ac_provider c) (ac_endpoint c) ?g d))"
  proof (rule ledger_transfer [OF ok c])
    show "attempt_ok (?f c)"
      using ci(2) tc res by (auto simp: attempt_ok_def finish_attempt_def Let_def truthy_str_def)
    show "ac_endpoint c \<noteq> ''''" using ci(2) by (simp add: attempt_ok_def)
  qed (auto simp: old finish_attempt_share inb, auto simp: finish_bucket_def finish_attempt_def Let_def
      split: if_splits)
  with False c ci(1) tc show ?thesis
    by (simp add: finish_provider_call_def reservation_of_def)
qed

definition release_attempt :: "bool \<Rightarrow> instant \<Rightarrow> api_call \<Rightarrow> api_call" where
  "release_attempt unknown t c =
     c\<lparr>ac_reservation_state := (if unknown then ''reconciled_unknown'' else ''released''),
       ac_reconciled_at := Some t\<rparr>"

lemma reconcile_attempt_keeps_ledger:
  assumes ok: "ledger_ok d" and c: "tget ac_id (ac_id c) (api_calls d) = Some c"
  shows "ledger_ok (reconcile_attempt_reservation c unknown now d)"
proof (cases "ac_reservation_state c = ''reserved''")
  case False
  with ok show ?thesis by (simp add: reconcile_attempt_reservation_def split: option.splits)
next
  case res: True
  have aok: "attempt_ok c" using c ok by (auto simp: ledger_ok_def dest: tget_Some_key)
  from aok res obtain t cl where tc: "ac_reservation_usage_date c = Some t"
    "ac_reservation_usage_class c = Some cl" "cl \<noteq> ''''"
    "the (str_or (ac_reservation_usage_class c) (Some ''testing'')) = cl"
    by (auto elim: attempt_ok_reserved)
  let ?f = "release_attempt unknown now"
  let ?g = "release_bucket (ac_reservation_estimated_cost_usd c) unknown"
  note inb = in_bucket_cases [OF tc(1,2)]
  have old: "share ''reserved'' k c =
      (if in_bucket k c then ac_reservation_estimated_cost_usd c else 0)"
    "share ''reconciled_unknown'' k c = 0" for k
    using res by (simp_all add: share_def)
  have new: "share ''reserved'' k (?f c) = 0" "share ''reconciled_unknown'' k (?f c) =
      (if unknown \<and> in_bucket k c then ac_reservation_estimated_cost_usd c else 0)" for k
    by (auto simp: share_def release_attempt_def in_bucket_def)
  have "ledger_ok (update_call (ac_id c) ?f
      (update_buckets t cl (ac_provider c) (ac_endpoint c) ?g d))"
  proof (rule ledger_transfer [OF ok c])
    show "attempt_ok (?f c)"
      using aok tc by (auto simp: attempt_ok_def release_attempt_def truthy_str_def)
    show "ac_endpoint c \<noteq> ''''" using aok by (simp add: attempt_ok_def)
  qed (auto simp: old new inb, auto simp: release_bucket_def release_attempt_def
      split: if_splits)
  with res tc show ?thesis
    by (simp add: reconcile_attempt_reservation_def release_attempt_def [abs_def])
qed

lemma close_stale_attempt_frame [simp]:
  "ac_id (close_stale_attempt u t c) = ac_id c"
  "attempt_ok (close_stale_attempt u t c) = attempt_ok c"
  "share st k (close_stale_attempt u t c) = share st k c"
  by (auto simp: close_stale_attempt_def attempt_ok_def share_def in_bucket_def split: prod.splits)

lemma reconcile_attempt_other_calls:
  "ac_id x \<noteq> ac_id c \<Longrightarrow>
   tget ac_id (ac_id x) (api_calls (reconcile_attempt_reservation c u t d)) =
   tget ac_id (ac_id x) (api_calls d)"
  by (simp add: reconcile_attempt_reservation_def table_simps tget_tupd_other split: option.splits)

lemma reconcile_stale_row_other_calls:
  "ac_id x \<noteq> ac_id c \<Longrightarrow>
   tget ac_id (ac_id x) (api_calls (reconcile_stale_row t c d)) = tget ac_id (ac_id x) (api_calls d)"
  by (simp add: reconcile_stale_row_def table_simps tget_tupd_other reconcile_attempt_other_calls)

lemma reconcile_stale_row_keeps_ledger:
  "ledger_ok d \<Longrightarrow> tget ac_id (ac_id c) (api_calls d) = Some c \<Longrightarrow>
   ledger_ok (reconcile_stale_row t c d)"
  unfolding reconcile_stale_row_def
  by (rule ledger_update_call) (simp_all add: reconcile_attempt_keeps_ledger)

lemma reconcile_stale_rows_keep_ledger:
  assumes "ledger_ok d" "distinct (map ac_id rows)"
    and "\<And>c. c \<in> set rows \<Longrightarrow> tget ac_id (ac_id c) (api_calls d) = Some c"
  shows "ledger_ok (fold (reconcile_stale_row t) rows d)"
  using assms
proof (induction rows arbitrary: d)
  case Nil
  then show ?case by simp
next
  case (Cons c rows)
  have "tget ac_id (ac_id x) (api_calls (reconcile_stale_row t c d)) = Some x"
    if "x \<in> set rows" for x
  proof -
    have "ac_id x \<noteq> ac_id c" using Cons.prems(2) that by (auto simp: image_iff)
    with Cons.prems(3) [of x] that show ?thesis by (simp add: reconcile_stale_row_other_calls)
  qed
  then show ?case
    using Cons by (simp add: reconcile_stale_row_keeps_ledger)
qed

lemma distinct_map_sort_key: "distinct (map f xs) \<Longrightarrow> distinct (map f (sort_key g xs))"
  by (simp add: distinct_map)

lemma reconcile_stale_keeps_ledger:
  assumes "ledger_ok d"
  shows "ledger_ok (snd (reconcile_stale_api_call_attempts d stale_before scan_id now))"
proof -
  note ok' = assms [unfolded ledger_ok_def]
  have "distinct (map ac_id (sort_key ac_id (filter (stale_attempt stale_before scan_id) (api_calls d))))"
    using ok' by (intro distinct_map_sort_key) (simp add: keys_distinct_def distinct_map_filter)
  with ok' show ?thesis
    unfolding reconcile_stale_api_call_attempts_def Let_def snd_conv
    by (intro reconcile_stale_rows_keep_ledger assms) (auto intro: tget_in_set)
qed

lemma resolve_keeps_ledger:
  assumes ok: "ledger_ok d"
    and res: "resolve_unknown_provider_call d i outcome actual note now = Inr d'"
  shows "ledger_ok d'"
proof -
  from res obtain c where c: "tget ac_id i (api_calls d) = Some c"
    and st: "ac_reservation_state c \<in> {''none'', ''reconciled_unknown''}"
    by (auto simp: resolve_unknown_provider_call_def split: option.splits)
  let ?f = "resolve_attempt outcome actual note now"
  have aok: "attempt_ok c" using c ok by (auto simp: ledger_ok_def dest: tget_Some_key)
  have new: "share ''reserved'' k (?f x) = 0" "share ''reconciled_unknown'' k (?f x) = 0" for k x
    by (simp_all add: share_def resolve_attempt_def)
  have old: "share ''reserved'' k c = 0" for k using st by (auto simp: share_def)
  have fok: "attempt_ok (?f c)" using aok by (simp add: attempt_ok_def resolve_attempt_def)
  show ?thesis
  proof (cases "ac_reservation_usage_date c")
    case None
    with aok st have none: "ac_reservation_state c = ''none''" by (auto simp: attempt_ok_def)
    have "ledger_ok (update_call i ?f d)"
      using c fok none by (intro ledger_update_call [OF ok])
        (auto simp: new, auto simp: share_def resolve_attempt_def)
    with res c None show ?thesis by (simp add: resolve_unknown_provider_call_def)
  next
    case (Some t)
    with aok st have unk: "ac_reservation_state c = ''reconciled_unknown''"
      by (auto simp: attempt_ok_def)
    from aok unk Some obtain cl where tc: "ac_reservation_usage_class c = Some cl"
      "the (str_or (ac_reservation_usage_class c) (Some ''testing'')) = cl"
      by (auto elim: attempt_ok_reserved)
    let ?g = "resolve_bucket (ac_reservation_estimated_cost_usd c) actual"
    note inb = in_bucket_cases [OF Some tc(1)]
    have oldu: "share ''reconciled_unknown'' k c =
        (if in_bucket k c then ac_reservation_estimated_cost_usd c else 0)" for k
      using unk by (simp add: share_def)
    have "ledger_ok (update_call i ?f (update_buckets t cl (ac_provider c) (ac_endpoint c) ?g d))"
    proof (rule ledger_transfer [OF ok c])
      show "attempt_ok (?f c)" by (rule fok)
      show "ac_endpoint c \<noteq> []" using aok by (simp add: attempt_ok_def)
    qed (auto simp: old oldu new inb, auto simp: resolve_bucket_def resolve_attempt_def
      split: if_splits)
    with res c Some tc show ?thesis by (simp add: resolve_unknown_provider_call_def)
  qed
qed

lemma unexpected_keeps_ledger:
  assumes ok: "ledger_ok d"
  shows "ledger_ok (record_unexpected_call d p env e now)"
proof (rule ledger_frame [OF ok])
  let ?f = "\<lambda>b. b\<lparr>du_unexpected_call_count := du_unexpected_call_count b + 1\<rparr>"
  have "du_reserved_spend_usd (bucket (update_bucket k' ?f d) k) = du_reserved_spend_usd (bucket d k)"
    "du_unreconciled_spend_usd (bucket (update_bucket k' ?f d) k) =
     du_unreconciled_spend_usd (bucket d k)" for k k' d
    by (simp_all add: bucket_update_bucket table_simps)
  then show
    "du_reserved_spend_usd (bucket (record_unexpected_call d p env e now) k) =
     du_reserved_spend_usd (bucket d k)"
    "du_unreconciled_spend_usd (bucket (record_unexpected_call d p env e now) k) =
     du_unreconciled_spend_usd (bucket d k)" for k
    by (simp_all add: record_unexpected_call_def update_buckets_def)
qed (use ok in \<open>auto simp: record_unexpected_call_def table_simps ledger_ok_def
      intro: keys_distinct_update_buckets\<close>)

section \<open>Properties\<close>

definition daily_spend_limit :: "settings \<Rightarrow> string \<Rightarrow> usd" where
  "daily_spend_limit s usage_class =
     (if usage_class = ''production'' then production_daily_spend_usd s
      else testing_daily_spend_usd s)"

definition committed_spend :: "daily_usage_row \<Rightarrow> usd" where
  "committed_spend b = du_spend_usd b + du_reserved_spend_usd b + du_unreconciled_spend_usd b"

lemma bucket_after_reserve:
  assumes "reserve_provider_call s d a now = Inr (r, d')" "rq_endpoint a \<noteq> ''''"
  shows "bucket d' (date_of now, usage_class_of (rq_environment a), rq_provider a, '''') =
    reserve_bucket (rq_estimated_cost_usd a) (rq_cache_miss a)
      (fst (locked_bucket (date_of now, usage_class_of (rq_environment a), rq_provider a, '''') d))"
  using assms
  by (cases "rq_api_call_id a")
    (auto simp: reserve_provider_call_Inr Let_def table_simps bucket_update_buckets)

lemma durable_breakers_limits:
  "assert_durable_breakers s d b a cl now = None \<Longrightarrow>
   committed_spend b + rq_estimated_cost_usd a \<le> daily_spend_limit s cl \<and>
   (cl = ''production'' \<longrightarrow> du_request_count b < production_daily_request_limit s)"
  by (cases "cl = ''production''")
    (simp_all add: assert_durable_breakers_def Let_def committed_spend_def daily_spend_limit_def
      not_le not_less)

lemma committed_spend_reserve [simp]:
  "committed_spend (reserve_bucket e m b) = committed_spend b + e"
  by (simp add: committed_spend_def)

text \<open>
  C2: A reservation never takes a provider past its daily budget. After
  \<open>reserve_provider_call\<close> succeeds, the day's settled, reserved and unreconciled spend of
  the provider's summary bucket is within the daily spend limit of its usage class, the
  production request count is within the daily request limit, and the single call is within
  the abnormal-call limit.
\<close>

theorem reserve_within_limits:
  assumes "reserve_provider_call s d a now = Inr (r, d')" and "rq_endpoint a \<noteq> ''''"
  shows "committed_spend (bucket d' (date_of now, usage_class_of (rq_environment a),
        rq_provider a, '''')) \<le> daily_spend_limit s (usage_class_of (rq_environment a)) \<and>
    (usage_class_of (rq_environment a) = ''production'' \<longrightarrow>
       du_request_count (bucket d' (date_of now, usage_class_of (rq_environment a),
         rq_provider a, '''')) \<le> production_daily_request_limit s) \<and>
    rq_estimated_cost_usd a \<le> single_call_abnormal_cost_usd s"
proof -
  let ?cl = "usage_class_of (rq_environment a)"
  let ?k = "(date_of now, ?cl, rq_provider a, [])"
  from assms(1) have
    "assert_durable_breakers s (snd (locked_bucket ?k d)) (fst (locked_bucket ?k d)) a ?cl now
       = None" "rq_estimated_cost_usd a \<le> single_call_abnormal_cost_usd s"
    by (simp_all add: reserve_provider_call_Inr Let_def)
  then show ?thesis
    unfolding bucket_after_reserve [OF assms] using durable_breakers_limits by fastforce
qed

lemma billing_current_cases:
  assumes "billing_current s d provider environment now"
  shows "let cutoff = now - timedelta_hours (billing_reconciliation_max_age_hours s) in
     case latest_reconciliation d provider environment of
       Some r \<Rightarrow> br_status r = ''clean'' \<and> cutoff \<le> br_reconciled_at r
     | None \<Rightarrow> \<forall>c \<in> set (api_calls d). ac_provider c = provider \<and> ac_status c = ''completed'' \<and>
         0 < ac_actual_cost_usd c \<longrightarrow> (\<forall>t. ac_completed_at c = Some t \<longrightarrow> cutoff \<le> t)"
proof (cases "latest_reconciliation d provider environment")
  case None
  let ?cutoff = "now - timedelta_hours (billing_reconciliation_max_age_hours s)"
  have "?cutoff \<le> t" if c: "c \<in> set (api_calls d)" "ac_provider c = provider \<and> ac_status c = ''completed'' \<and>
      0 < ac_actual_cost_usd c" "ac_completed_at c = Some t" for c t
  proof -
    let ?times = "List.map_filter ac_completed_at (filter (\<lambda>c. ac_provider c = provider \<and>
      ac_status c = ''completed'' \<and> 0 < ac_actual_cost_usd c) (api_calls d))"
    have t: "t \<in> set ?times" using c by (force simp: List.map_filter_def)
    then obtain m where m: "list_min ?times = Some m" by (cases ?times) (auto simp: list_min_def)
    with assms None have "?cutoff \<le> m" by (simp add: billing_current_def oldest_paid_call_def Let_def)
    with list_min_le [OF m t] show ?thesis by simp
  qed
  with None show ?thesis by (simp add: Let_def)
qed (use assms in \<open>simp add: billing_current_def Let_def\<close>)

text \<open>
  C5: No production call is reserved behind a closed gate. A successful reservation in the
  production environment means that live calls and production calls are switched on, the
  kill switch is off, the attempt was freshly prepared and its worker still held the scan
  lease; that the latest billing reconciliation, if there is one, was clean and is not older than
  the maximum age, and that without any reconciliation no completed paid call of the provider is
  older than that; and, where the caller requires a current qualification (requests outside a plan
  do not), that an executed qualification of this adapter version passed, is gate-eligible and has
  not expired.
\<close>

theorem production_reservation_gate:
  assumes "reserve_provider_call s d a now = Inr (r, d')" and "rq_environment a = ''production''"
  shows "allow_live_api_calls s \<and> \<not> paid_call_kill_switch s \<and> allow_production_dataforseo s \<and>
    (rq_scan_profile a = ''full'' \<longrightarrow> allow_full_scans s) \<and>
    (\<forall>l. rq_execution_lease a = Some l \<longrightarrow> assert_current_scan_lease d l now = None) \<and>
    (\<forall>i. rq_api_call_id a = Some i \<longrightarrow> (\<exists>c. tget ac_id i (api_calls d) = Some c \<and>
       ac_reservation_state c = ''none'' \<and> ac_attempt_state c = ''prepared'')) \<and>
    (let cutoff = now - timedelta_hours (billing_reconciliation_max_age_hours s) in
       case latest_reconciliation d (rq_provider a) ''production'' of
         Some r \<Rightarrow> br_status r = ''clean'' \<and> cutoff \<le> br_reconciled_at r
       | None \<Rightarrow> \<forall>c \<in> set (api_calls d). ac_provider c = rq_provider a \<and> ac_status c = ''completed'' \<and>
           0 < ac_actual_cost_usd c \<longrightarrow> (\<forall>t. ac_completed_at c = Some t \<longrightarrow> cutoff \<le> t)) \<and>
    (rq_require_current_qualification a \<longrightarrow>
       (\<exists>q \<in> set (provider_qualifications d).
          pq_provider q = rq_provider a \<and> pq_environment q = ''production'' \<and>
          pq_adapter_version q = rq_adapter_version a \<and>
          pq_execution_method q = ''executable_runner'' \<and>
          pq_status q = ''passed'' \<and> pq_gate_eligible q \<and> now < pq_expires_at q))"
proof -
  from assms have checks: "assert_lease d (rq_execution_lease a) now = None"
    "assert_switches s ''production'' (rq_scan_profile a) = None"
    "assert_attempt_eligible d (rq_api_call_id a) = None"
    "billing_current s d (rq_provider a) ''production'' now"
    "rq_require_current_qualification a \<Longrightarrow> current_qualification d (rq_provider a)
       ''production'' (rq_adapter_version a) now \<noteq> None"
    by (auto simp: reserve_provider_call_Inr assert_durable_breakers_def Let_def)
  note billing = billing_current_cases [OF checks(4)]
  from checks(1-3,5) show ?thesis unfolding Let_def
    by (intro conjI billing [unfolded Let_def])
      (auto simp: assert_lease_def assert_switches_def assert_attempt_eligible_Some
        dest!: current_qualification_Some split: option.splits)
qed

text \<open>
  C36: Settling the reservation of a recorded attempt twice charges it once. Once
  \<open>finish_provider_call\<close> has run for a reservation that names a stored attempt, a second settlement
  of it on the database it left, with whatever costs and flags, changes nothing. (A reservation
  without an attempt has nothing to remember its settlement and is charged each time, and a session
  whose row is no longer the stored one does not see an earlier settlement by someone else:
  \<open>Call_Sessions\<close>.)
\<close>

theorem finish_provider_call_once:
  assumes "ur_api_call_id r = Some i" and "tget ac_id i (api_calls d) \<noteq> None"
  shows "finish_provider_call (finish_provider_call d r a t) r a' t' =
    finish_provider_call d r a t"
proof -
  from assms(2) obtain c where c: "tget ac_id i (api_calls d) = Some c" by auto
  then have ci: "ac_id c = i" by (auto dest: tget_Some_key)
  let ?d = "finish_provider_call d r a t"
  have "\<exists>c'. tget ac_id i (api_calls ?d) = Some c' \<and> ac_reservation_state c' \<in> set settled_states"
  proof (cases "ac_reservation_state c \<in> set settled_states")
    case True
    with assms c show ?thesis by (simp add: finish_provider_call_def)
  next
    case False
    have "tget ac_id i (api_calls ?d) = Some (finish_attempt (fa_outcome_unknown a) t c)"
      using False assms(1) c ci
      by (simp add: finish_provider_call_def Let_def table_simps tget_tupd finish_attempt_def)
    then show ?thesis by (simp add: finish_attempt_def settled_states_def Let_def)
  qed
  then show ?thesis using assms(1) by (auto simp: finish_provider_call_def [of ?d] Let_def)
qed

definition settle_stale :: "instant \<Rightarrow> api_call \<Rightarrow> api_call" where
  "settle_stale t c =
     close_stale_attempt (was_submitted c) t
       (if ac_reservation_state c = ''reserved'' \<and> ac_reservation_usage_date c \<noteq> None
        then release_attempt (was_submitted c) t c else c)"

lemma tget_reconcile_stale_row:
  assumes "tget ac_id (ac_id c) (api_calls d) = Some c"
  shows "tget ac_id (ac_id c) (api_calls (reconcile_stale_row t c d)) = Some (settle_stale t c)"
  using assms
  by (cases "ac_reservation_usage_date c"; cases "ac_reservation_state c = ''reserved''")
    (simp_all add: reconcile_stale_row_def reconcile_attempt_reservation_def settle_stale_def
      release_attempt_def table_simps tget_tupd)

lemma tget_reconcile_stale_rows_other:
  "i \<notin> ac_id ` set rows \<Longrightarrow>
   tget ac_id i (api_calls (fold (reconcile_stale_row t) rows d)) = tget ac_id i (api_calls d)"
proof (induction rows arbitrary: d)
  case (Cons c rows)
  then have "tget ac_id i (api_calls (reconcile_stale_row t c d)) = tget ac_id i (api_calls d)"
    by (simp add: reconcile_stale_row_def reconcile_attempt_reservation_def table_simps
        tget_tupd_other split: option.splits)
  with Cons show ?case by simp
qed simp

lemma tget_reconcile_stale_rows:
  assumes "distinct (map ac_id rows)" "c \<in> set rows"
    and "\<And>c. c \<in> set rows \<Longrightarrow> tget ac_id (ac_id c) (api_calls d) = Some c"
  shows "tget ac_id (ac_id c) (api_calls (fold (reconcile_stale_row t) rows d)) =
    Some (settle_stale t c)"
  using assms
proof (induction rows arbitrary: d)
  case (Cons x rows)
  show ?case
  proof (cases "c = x")
    case True
    with Cons.prems have "ac_id c \<notin> ac_id ` set rows" by simp
    then show ?thesis
      using Cons.prems(3) [of c] True
      by (simp add: tget_reconcile_stale_rows_other tget_reconcile_stale_row)
  next
    case False
    have "tget ac_id (ac_id y) (api_calls (reconcile_stale_row t x d)) = Some y"
      if "y \<in> set rows" for y
    proof -
      have "ac_id y \<noteq> ac_id x" using Cons.prems(1) that by (auto simp: image_iff)
      with Cons.prems(3) [of y] that show ?thesis by (simp add: reconcile_stale_row_other_calls)
    qed
    with Cons False show ?thesis by simp
  qed
qed simp

lemma settle_stale_states:
  "ac_attempt_state (settle_stale t c) =
     (if was_submitted c then ''provider_outcome_unknown'' else ''failed_before_network'')"
  "ac_status (settle_stale t c) = ac_attempt_state (settle_stale t c)"
  "ac_id (settle_stale t c) = ac_id c"
  by (simp_all add: settle_stale_def close_stale_attempt_def release_attempt_def)

lemma settled_not_stale: "\<not> stale_attempt before i (settle_stale t c)"
  by (simp add: stale_attempt_def settle_stale_states)

lemma settle_stale_reservation:
  "attempt_ok c \<Longrightarrow> ac_reservation_state (settle_stale t c) \<noteq> ''reserved''"
  by (auto simp: settle_stale_def close_stale_attempt_def release_attempt_def attempt_ok_def)

lemma map_ac_id_reconcile_stale_rows:
  "map ac_id (api_calls (fold (reconcile_stale_row t) rows d)) = map ac_id (api_calls d)"
proof (induction rows arbitrary: d)
  case (Cons c rows)
  have "map ac_id (api_calls (reconcile_stale_row t c d)) = map ac_id (api_calls d)"
    by (simp add: reconcile_stale_row_def reconcile_attempt_reservation_def table_simps
        map_key_tupd split: option.splits)
  with Cons show ?case by simp
qed simp

lemma reconcile_stale_calls:
  assumes "ledger_ok d" and c: "c \<in> set (api_calls d)"
  shows "tget ac_id (ac_id c)
      (api_calls (snd (reconcile_stale_api_call_attempts d before i now))) =
    Some (if stale_attempt before i c then settle_stale now c else c)"
proof -
  let ?stale = "stale_attempt before i"
  define rows where "rows = sort_key ac_id (filter ?stale (api_calls d))"
  have dist: "distinct (map ac_id (api_calls d))"
    using assms by (simp add: ledger_ok_def keys_distinct_def)
  have rows: "distinct (map ac_id rows)" "set rows = {c \<in> set (api_calls d). ?stale c}"
    using dist by (auto simp: rows_def distinct_map_filter intro!: distinct_map_sort_key)
  have get: "tget ac_id (ac_id c) (api_calls d) = Some c" if "c \<in> set (api_calls d)" for c
    using that dist by (intro tget_in_set) (auto simp: keys_distinct_def)
  have "tget ac_id (ac_id c) (api_calls (fold (reconcile_stale_row now) rows d)) =
    Some (if ?stale c then settle_stale now c else c)"
  proof (cases "?stale c")
    case True
    then have "tget ac_id (ac_id c) (api_calls (fold (reconcile_stale_row now) rows d)) =
        Some (settle_stale now c)"
      using c rows get by (intro tget_reconcile_stale_rows) auto
    with True show ?thesis by simp
  next
    case False
    have "ac_id c \<notin> ac_id ` set rows"
      using False rows(2) dist c by (auto simp: distinct_map dest: inj_onD)
    with False c get show ?thesis by (simp add: tget_reconcile_stale_rows_other)
  qed
  then show ?thesis by (simp add: reconcile_stale_api_call_attempts_def Let_def rows_def)
qed

lemma reconcile_stale_origin:
  assumes ok: "ledger_ok d"
    and c': "c' \<in> set (api_calls (snd (reconcile_stale_api_call_attempts d before i now)))"
  obtains c where "c \<in> set (api_calls d)"
    "c' = (if stale_attempt before i c then settle_stale now c else c)"
proof -
  let ?d = "snd (reconcile_stale_api_call_attempts d before i now)"
  have ids: "map ac_id (api_calls ?d) = map ac_id (api_calls d)"
    by (simp add: reconcile_stale_api_call_attempts_def Let_def map_ac_id_reconcile_stale_rows)
  then have "ac_id c' \<in> ac_id ` set (api_calls d)"
    using c' by (metis image_eqI list.set_map)
  then obtain c where c: "c \<in> set (api_calls d)" "ac_id c = ac_id c'" by auto
  have "tget ac_id (ac_id c') (api_calls ?d) = Some c'"
    using c' ids ok by (intro tget_in_set) (simp_all add: keys_distinct_def ledger_ok_def)
  then have "c' = (if stale_attempt before i c then settle_stale now c else c)"
    using reconcile_stale_calls [OF ok c(1), of before i now] unfolding c(2)
    by (simp only: option.inject)
  with c(1) that show ?thesis by blast
qed

text \<open>
  Recovery of stale attempts is complete and never guesses. Afterwards no attempt older
  than the cutoff is still prepared, reserved or in flight; an attempt that had been
  submitted to the provider has the status \<open>provider_outcome_unknown\<close> (which no retry picks
  up), one that had not is \<open>failed_before_network\<close>, neither still holds a reservation, and
  every other attempt is untouched.
\<close>

theorem stale_attempts_settled:
  assumes "ledger_ok d"
  shows "let d' = snd (reconcile_stale_api_call_attempts d stale_before scan_id now) in
    (\<forall>c \<in> set (api_calls d'). \<not> stale_attempt stale_before scan_id c) \<and>
    (\<forall>c \<in> set (api_calls d). \<exists>c'. tget ac_id (ac_id c) (api_calls d') = Some c' \<and>
       (if stale_attempt stale_before scan_id c
        then ac_reservation_state c' \<noteq> ''reserved'' \<and>
          ac_status c' = (if was_submitted c then ''provider_outcome_unknown''
                          else ''failed_before_network'') \<and>
          ac_attempt_state c' = ac_status c'
        else c' = c))"
proof -
  let ?d = "snd (reconcile_stale_api_call_attempts d stale_before scan_id now)"
  have "\<not> stale_attempt stale_before scan_id c'" if "c' \<in> set (api_calls ?d)" for c'
    using that by (auto elim!: reconcile_stale_origin [OF assms] simp: settled_not_stale
        split: if_splits)
  moreover have "\<forall>c \<in> set (api_calls d). attempt_ok c" using assms by (simp add: ledger_ok_def)
  ultimately show ?thesis
    using reconcile_stale_calls [OF assms]
    by (simp add: Let_def settle_stale_states settle_stale_reservation)
qed

section \<open>Witnesses\<close>

definition sample_settings :: settings where
  "sample_settings = default_settings\<lparr>allow_live_api_calls := True,
     allow_production_dataforseo := True\<rparr>"

definition sample_attempt :: api_call where
  "sample_attempt = blank_api_call\<lparr>ac_id := 1, ac_provider := ''dataforseo-live'',
     ac_endpoint := ''/v3/serp'', ac_estimated_cost_usd := 1 / 2, ac_attempt_state := ''prepared'',
     ac_reservation_state := ''none'', ac_status := ''prepared'', ac_started_at := Some 0\<rparr>"

definition sample_paid_db :: database where
  "sample_paid_db = empty_db\<lparr>api_calls := [sample_attempt],
     provider_qualifications := [blank_provider_qualification\<lparr>pq_id := 1,
       pq_provider := ''dataforseo-live'', pq_environment := ''production'',
       pq_adapter_version := ''v1'', pq_status := ''passed'', pq_expires_at := 1000,
       pq_gate_eligible := True, pq_execution_method := ''executable_runner''\<rparr>]\<rparr>"

definition sample_reserve :: reserve_args where
  "sample_reserve = \<lparr>rq_provider = ''dataforseo-live'', rq_environment = ''production'',
     rq_adapter_version = ''v1'', rq_endpoint = ''/v3/serp'', rq_estimated_cost_usd = 1 / 2,
     rq_scan_profile = ''testing'', rq_cache_miss = True, rq_require_current_qualification = True,
     rq_api_call_id = Some 1, rq_execution_lease = None\<rparr>"

lemma sample_reserve_succeeds:
  "\<exists>r d'. reserve_provider_call sample_settings sample_paid_db sample_reserve 10 = Inr (r, d')"
  by (rule not_isl_Inr_pair) code_simp

theorem reserve_within_limits_witness:
  "\<exists>r d'. reserve_provider_call sample_settings sample_paid_db sample_reserve 10 = Inr (r, d') \<and>
     committed_spend (bucket d' (date_of 10, ''production'', ''dataforseo-live'', '''')) \<le> 25"
proof -
  from sample_reserve_succeeds obtain r d' where
    r: "reserve_provider_call sample_settings sample_paid_db sample_reserve 10 = Inr (r, d')"
    by blast
  have ep: "rq_endpoint sample_reserve \<noteq> ''''" by (simp add: sample_reserve_def)
  from reserve_within_limits [OF r ep] r show ?thesis
    by (auto simp: sample_reserve_def daily_spend_limit_def sample_settings_def default_settings_def)
qed

theorem production_reservation_gate_witness:
  "\<exists>r d'. reserve_provider_call sample_settings sample_paid_db sample_reserve 10 = Inr (r, d') \<and>
     (\<exists>q \<in> set (provider_qualifications sample_paid_db). pq_status q = ''passed'' \<and>
        pq_gate_eligible q \<and> 10 < pq_expires_at q)"
proof -
  from sample_reserve_succeeds obtain r d' where
    r: "reserve_provider_call sample_settings sample_paid_db sample_reserve 10 = Inr (r, d')"
    by blast
  have "rq_environment sample_reserve = ''production''" by (simp add: sample_reserve_def)
  from production_reservation_gate [OF r this] r show ?thesis
    by (auto simp: sample_reserve_def)
qed

theorem finish_provider_call_once_witness:
  "let r = \<lparr>ur_usage_date = 0, ur_usage_class = ''production'', ur_provider = ''dataforseo-live'',
         ur_endpoint = ''/v3/serp'', ur_estimated_cost_usd = 1 / 2, ur_api_call_id = Some 1\<rparr>;
       a = \<lparr>fa_actual_cost_usd = 1 / 4, fa_failed = False, fa_schema_drift = False,
         fa_abnormal_cost = False, fa_outcome_unknown = False\<rparr>
   in finish_provider_call (finish_provider_call sample_paid_db r a 20) r a 30 =
      finish_provider_call sample_paid_db r a 20"
  unfolding Let_def
  by (rule finish_provider_call_once [of _ 1])
    (simp_all add: sample_paid_db_def sample_attempt_def blank_api_call_def)

lemma sample_paid_db_ledger: "ledger_ok sample_paid_db"
  by (simp add: ledger_ok_def sample_paid_db_def sample_attempt_def blank_api_call_def empty_db_def
      keys_distinct_def bucket_def outstanding_def attempt_ok_def)

theorem stale_attempts_settled_witness:
  "\<exists>c'. tget ac_id 1 (api_calls (snd (reconcile_stale_api_call_attempts sample_paid_db 5 None 9)))
       = Some c' \<and> ac_status c' = ''failed_before_network''"
proof -
  have "sample_attempt \<in> set (api_calls sample_paid_db)" by (simp add: sample_paid_db_def)
  moreover have "stale_attempt 5 None sample_attempt" "\<not> was_submitted sample_attempt"
    "ac_id sample_attempt = 1"
    by (simp_all add: stale_attempt_def was_submitted_def sample_attempt_def blank_api_call_def)
  ultimately show ?thesis
    using stale_attempts_settled [OF sample_paid_db_ledger, of 5 None 9]
    unfolding Let_def by fastforce
qed

end
