(* ===== verification/Live_Client.thy ===== *)
theory Live_Client
  imports Cost_Controls
begin

text \<open>
  \<open>integrations/dataforseo/live.py\<close>, the part that spends money: matching a request to the
  scan's plan, recording the attempt, reserving, submitting and settling it, and the whole
  \<open>_request\<close>.

  What comes from outside is an argument: the valid entry of the raw-response cache, if any
  (\<open>cached\<close>), the key and row of the entry stored after a response (\<open>stored\<close>), the request
  token (\<open>uuid4\<close>), the instants, and the provider's reply. Of a reply the model keeps what
  the bookkeeping reads (\<open>reply_payload\<close>): the first task's cost and the identifiers that
  \<open>_first_task\<close>, \<open>_to_float\<close> and \<open>_clean_optional_str\<close> read out of the JSON body.
\<close>

record live_client =
  lc_provider_name :: string
  lc_api_environment :: string
  lc_adapter_version :: string
  lc_scan_depth :: string
  lc_force_refresh :: bool
  lc_allow_unplanned_requests :: bool
  lc_current_scan_run_id :: "int option"
  lc_execution_lease :: "scan_execution_lease option"

definition normalize_dataforseo_environment :: "settings \<Rightarrow> string" where
  "normalize_dataforseo_environment s =
     (if py_lower (py_strip (dataforseo_environment s)) = ''production''
      then ''production'' else ''sandbox'')"

definition dataforseo_provider_name :: "settings \<Rightarrow> string" where
  "dataforseo_provider_name s =
     (if normalize_dataforseo_environment s = ''production''
      then ''dataforseo-live'' else ''dataforseo-sandbox'')"

definition make_live_client :: "settings \<Rightarrow> bool \<Rightarrow> bool \<Rightarrow> live_client" where
  "make_live_client s force_refresh allow_unplanned =
     \<lparr>lc_provider_name = dataforseo_provider_name s,
      lc_api_environment = normalize_dataforseo_environment s,
      lc_adapter_version = DATAFORSEO_ADAPTER_VERSION,
      lc_scan_depth = py_strip (py_lower (live_scan_depth s)),
      lc_force_refresh = force_refresh,
      lc_allow_unplanned_requests = allow_unplanned,
      lc_current_scan_run_id = None,
      lc_execution_lease = None\<rparr>"

record raw_response =
  raw_id :: int
  raw_cache_key :: string
  raw_provider_task_id :: "string option"
  raw_provider_request_id :: "string option"

record reply_payload =
  rp_task_cost :: usd
  rp_task_id :: "string option"
  rp_request_id :: "string option"

datatype live_error =
  DataForSEOPlanError | DataForSEOAuthenticationError | DataForSEORateLimitError
| DataForSEOSchemaError | DataForSEOError | TransportError | CancelledError
| CostControlError cost_error

fun error_type_name :: "live_error \<Rightarrow> string" where
  "error_type_name DataForSEOPlanError = ''DataForSEOPlanError''"
| "error_type_name DataForSEOAuthenticationError = ''DataForSEOAuthenticationError''"
| "error_type_name DataForSEORateLimitError = ''DataForSEORateLimitError''"
| "error_type_name DataForSEOSchemaError = ''DataForSEOSchemaError''"
| "error_type_name DataForSEOError = ''DataForSEOError''"
| "error_type_name TransportError = ''TransportError''"
| "error_type_name CancelledError = ''CancelledError''"
| "error_type_name (CostControlError (CircuitOpenError r)) = ''CircuitOpenError''"
| "error_type_name (CostControlError (ScanLeaseLost r)) = ''ScanLeaseLost''"
| "error_type_name (CostControlError (CostValueError r)) = ''ValueError''"

fun is_circuit_open :: "live_error \<Rightarrow> bool" where
  "is_circuit_open (CostControlError (CircuitOpenError r)) = True"
| "is_circuit_open _ = False"

fun is_lease_lost :: "live_error \<Rightarrow> bool" where
  "is_lease_lost (CostControlError (ScanLeaseLost r)) = True"
| "is_lease_lost _ = False"

text \<open>The endpoints of a response: parsed, refused by \<open>_parse_response\<close>, or none at all.\<close>

datatype provider_reply = Parsed reply_payload | Refused live_error | NoResponse | Cancelled

section \<open>Matching a request to the plan\<close>

definition retryable_statuses :: "string list" where
  "retryable_statuses = [''failed'', ''failed_before_network'', ''blocked'']"

definition consumed_ids :: "database \<Rightarrow> int \<Rightarrow> string option list" where
  "consumed_ids d scan_id =
     map ac_planned_request_id
       (filter (\<lambda>c. ac_scan_run_id c = Some scan_id \<and> ac_planned_request_id c \<noteq> None \<and>
          ac_status c \<notin> set retryable_statuses) (api_calls d))"

definition planned_call ::
  "database \<Rightarrow> live_client \<Rightarrow> string \<Rightarrow> string \<Rightarrow> scan_plan_call option" where
  "planned_call d cl path request_key =
     (case lc_current_scan_run_id cl of
        None \<Rightarrow> None
      | Some scan_id \<Rightarrow>
          (let matching = sort_key spc_id (filter (\<lambda>p. spc_scan_run_id p = scan_id \<and>
                 spc_provider p = lc_provider_name cl \<and> spc_endpoint p = path)
                 (scan_plan_calls d));
               unused = filter (\<lambda>p. spc_planned_request_id p \<noteq> None \<and>
                 spc_planned_request_id p \<notin> set (consumed_ids d scan_id)) matching;
               exact = filter (\<lambda>p. spc_request_known p \<and> spc_cache_key p = request_key) unused;
               unknown = filter (\<lambda>p. \<not> spc_request_known p) unused
           in case exact of
                p # ps \<Rightarrow> Some p
              | [] \<Rightarrow>
                  if list_ex spc_request_known matching then None
                  else (case unknown of [] \<Rightarrow> None | p # ps \<Rightarrow> Some p)))"

definition contains :: "string \<Rightarrow> string \<Rightarrow> bool" where
  "contains sub s = list_ex (\<lambda>n. take (length sub) (drop n s) = sub) [0..<Suc (length s)]"

definition stage_for_endpoint :: "string \<Rightarrow> string" where
  "stage_for_endpoint path =
     (if contains ''locations'' path then ''location_resolution''
      else if contains ''keyword_suggestions'' path then ''keyword_discovery''
      else if contains ''historical_search_volume'' path then ''keyword_metrics''
      else if contains ''/serp/'' path then ''serp''
      else if contains ''backlinks'' path then ''competitors''
      else if contains ''business_listings'' path then ''provider_discovery''
      else ''unknown'')"

definition unplanned_estimated_cost :: "live_client \<Rightarrow> string \<Rightarrow> usd" where
  "unplanned_estimated_cost cl path =
     (if \<not> lc_allow_unplanned_requests cl \<or> lc_api_environment cl \<noteq> ''production'' then 0
      else if path = ''/v3/dataforseo_labs/google/keyword_suggestions/live'' then 12 / 1000
      else if path = ''/v3/dataforseo_labs/google/historical_search_volume/live'' then 12 / 1000
      else if path = ''/v3/serp/google/organic/live/advanced'' then 2 / 1000
      else if path = ''/v3/backlinks/summary/live'' then 2 / 100
      else if path = ''/v3/business_data/business_listings/search/live'' then 1 / 100
      else 0)"

section \<open>Recording the attempt\<close>

definition reset_attempt ::
  "live_client \<Rightarrow> bool \<Rightarrow> bool \<Rightarrow> string \<Rightarrow> raw_response option \<Rightarrow> string \<Rightarrow> instant \<Rightarrow>
   api_call \<Rightarrow> api_call" where
  "reset_attempt cl hit force status raw token now c =
     (let c1 = c\<lparr>ac_status := status,
            ac_attempt_state := (if status = ''cache_hit'' then ''cache_hit'' else ''prepared''),
            ac_provider_outcome := ''not_sent'', ac_reservation_state := ''none'',
            ac_reservation_usage_date := None, ac_reservation_usage_class := None,
            ac_reservation_estimated_cost_usd := 0, ac_network_started_at := None,
            ac_reconciled_at := None, ac_attempt_token := Some token,
            ac_execution_worker_id := map_option lease_worker_id (lc_execution_lease cl),
            ac_execution_lease_token := map_option lease_token_of (lc_execution_lease cl),
            ac_started_at := Some now,
            ac_completed_at := (if status = ''cache_hit'' then Some now else None),
            ac_error_type := None, ac_error_summary := None,
            ac_cache_hit := hit, ac_force_refresh := force\<rparr>
      in case raw of None \<Rightarrow> c1
         | Some r \<Rightarrow> c1\<lparr>ac_raw_api_response_id := Some (raw_id r),
             ac_provider_task_id := raw_provider_task_id r,
             ac_provider_request_id := raw_provider_request_id r\<rparr>)"

definition new_attempt ::
  "live_client \<Rightarrow> string \<Rightarrow> string \<Rightarrow> scan_plan_call option \<Rightarrow> bool \<Rightarrow> bool \<Rightarrow> string \<Rightarrow>
   raw_response option \<Rightarrow> string \<Rightarrow> instant \<Rightarrow> int \<Rightarrow> api_call" where
  "new_attempt cl path request_key plan hit force status raw token now i =
     \<lparr>ac_id = i, ac_scan_run_id = lc_current_scan_run_id cl,
      ac_planned_request_id = Option.bind plan spc_planned_request_id,
      ac_raw_api_response_id = map_option raw_id raw,
      ac_provider = lc_provider_name cl, ac_endpoint = path,
      ac_stage = (case plan of Some p \<Rightarrow> if spc_stage p = [] then stage_for_endpoint path else spc_stage p
                  | None \<Rightarrow> stage_for_endpoint path),
      ac_cache_key = (case raw of Some r \<Rightarrow> raw_cache_key r | None \<Rightarrow> request_key),
      ac_cache_hit = hit, ac_force_refresh = force,
      ac_estimated_cost_usd = (case plan of
          Some p \<Rightarrow> if spc_estimated_cost_usd p = 0 then unplanned_estimated_cost cl path
                     else spc_estimated_cost_usd p
        | None \<Rightarrow> unplanned_estimated_cost cl path),
      ac_actual_cost_usd = 0, ac_status = status, ac_error_type = None, ac_error_summary = None,
      ac_started_at = Some now,
      ac_completed_at = (if status = ''cache_hit'' then Some now else None),
      ac_provider_task_id = Option.bind raw raw_provider_task_id,
      ac_provider_request_id = Option.bind raw raw_provider_request_id,
      ac_attempt_token = Some token,
      ac_attempt_state = (if status = ''cache_hit'' then ''cache_hit'' else ''prepared''),
      ac_provider_outcome = ''not_sent'', ac_reservation_state = ''none'',
      ac_reservation_usage_date = None, ac_reservation_usage_class = None,
      ac_reservation_estimated_cost_usd = 0, ac_network_started_at = None,
      ac_reconciled_at = None,
      ac_execution_worker_id = map_option lease_worker_id (lc_execution_lease cl),
      ac_execution_lease_token = map_option lease_token_of (lc_execution_lease cl)\<rparr>"

text \<open>
  The result is the attempt's id or the exception, with the database as committed: an
  unplanned request is counted before the exception is raised.
\<close>

definition reserve_api_call ::
  "database \<Rightarrow> live_client \<Rightarrow> string \<Rightarrow> string \<Rightarrow> bool \<Rightarrow> bool \<Rightarrow> string \<Rightarrow> raw_response option \<Rightarrow>
   string \<Rightarrow> instant \<Rightarrow> (live_error + int) \<times> database" where
  "reserve_api_call d cl path request_key hit force status raw token now =
     (let plan = planned_call d cl path request_key;
          scan_id = lc_current_scan_run_id cl;
          existing = (if hit \<and> scan_id \<noteq> None \<and> plan = None
            then greatest_row (\<lambda>c. - ac_id c) (filter (\<lambda>c. ac_scan_run_id c = scan_id \<and>
                   ac_endpoint c = path \<and> ac_cache_key c = request_key \<and>
                   ac_status c \<in> set [''completed'', ''cache_hit'']) (api_calls d))
            else None);
          planned_id = Option.bind plan spc_planned_request_id;
          retry_row = (if planned_id \<noteq> None \<and> scan_id \<noteq> None
            then select_first (\<lambda>c. ac_scan_run_id c = scan_id \<and>
                   ac_planned_request_id c = planned_id \<and> ac_status c \<in> set retryable_statuses)
                 (api_calls d)
            else None)
      in case existing of
           Some c \<Rightarrow> (Inr (ac_id c), d)
         | None \<Rightarrow>
             if scan_id \<noteq> None \<and> plan = None \<and> \<not> lc_allow_unplanned_requests cl
             then (Inl DataForSEOPlanError,
               record_unexpected_call d (lc_provider_name cl) (lc_api_environment cl) path now)
             else (case retry_row of
               Some c \<Rightarrow> (Inr (ac_id c),
                 update_call (ac_id c) (reset_attempt cl hit force status raw token now) d)
             | None \<Rightarrow>
                 if planned_id \<noteq> None \<and> scan_id \<noteq> None \<and>
                    list_ex (\<lambda>c. ac_scan_run_id c = scan_id \<and>
                      ac_planned_request_id c = planned_id) (api_calls d)
                 then (Inl DataForSEOPlanError, d)
                 else (let i = next_id ac_id (api_calls d) in
                   (Inr i, d\<lparr>api_calls := api_calls d @
                      [new_attempt cl path request_key plan hit force status raw token now i]\<rparr>))))"

definition start_api_call ::
  "database \<Rightarrow> live_client \<Rightarrow> string \<Rightarrow> string \<Rightarrow> string \<Rightarrow> instant \<Rightarrow>
   (live_error + int) \<times> database" where
  "start_api_call d cl path request_key token now =
     reserve_api_call d cl path request_key False (lc_force_refresh cl) ''prepared'' None token now"

definition record_cache_hit ::
  "database \<Rightarrow> live_client \<Rightarrow> string \<Rightarrow> string \<Rightarrow> raw_response \<Rightarrow> string \<Rightarrow> instant \<Rightarrow>
   (live_error + int) \<times> database" where
  "record_cache_hit d cl path request_key raw token now =
     reserve_api_call d cl path request_key True False ''cache_hit'' (Some raw) token now"

section \<open>Settling the attempt\<close>

definition payload_cost :: "live_client \<Rightarrow> reply_payload \<Rightarrow> usd" where
  "payload_cost cl p = (if lc_api_environment cl = ''sandbox'' then 0 else rp_task_cost p)"

definition finish_api_call_row ::
  "live_client \<Rightarrow> string \<Rightarrow> reply_payload option \<Rightarrow> int option \<Rightarrow> string option \<Rightarrow>
   (string \<times> string) option \<Rightarrow> instant \<Rightarrow> api_call \<Rightarrow> api_call" where
  "finish_api_call_row cl status payload raw_id' key_override err now c =
     (if ac_status c = ''provider_outcome_unknown'' \<and> status \<noteq> ''provider_outcome_unknown'' then c
      else
       (let c1 = c\<lparr>ac_status := status, ac_completed_at := Some now\<rparr>;
            c2 = (if truthy_str key_override then c1\<lparr>ac_cache_key := the key_override\<rparr> else c1);
            c3 = (if raw_id' \<noteq> None then c2\<lparr>ac_raw_api_response_id := raw_id'\<rparr> else c2);
            c4 = (case payload of None \<Rightarrow> c3
              | Some p \<Rightarrow> c3\<lparr>ac_actual_cost_usd := payload_cost cl p,
                  ac_provider_task_id := rp_task_id p, ac_provider_request_id := rp_request_id p\<rparr>);
            c5 = (case err of None \<Rightarrow> c4
              | Some (ty, summary) \<Rightarrow> c4\<lparr>ac_error_type := Some ty, ac_error_summary := Some summary\<rparr>)
        in if status = ''completed''
             then c5\<lparr>ac_attempt_state := ''completed'', ac_provider_outcome := ''completed''\<rparr>
           else if status = ''cache_hit''
             then c5\<lparr>ac_attempt_state := ''cache_hit'', ac_provider_outcome := ''not_sent''\<rparr>
           else if status = ''provider_outcome_unknown''
             then c5\<lparr>ac_attempt_state := ''provider_outcome_unknown'', ac_provider_outcome := ''unknown''\<rparr>
           else if status \<in> set [''failed_before_network'', ''blocked'']
             then c5\<lparr>ac_attempt_state := status, ac_provider_outcome := ''not_sent''\<rparr>
           else if status = ''failed''
             then c5\<lparr>ac_attempt_state := ''failed'', ac_provider_outcome := ''failed''\<rparr>
           else c5))"

definition complete_call ::
  "settings \<Rightarrow> live_client \<Rightarrow> database \<Rightarrow> int \<Rightarrow> usage_reservation \<Rightarrow> reply_payload \<Rightarrow>
   string \<times> int option \<Rightarrow> instant \<Rightarrow> database" where
  "complete_call s cl d i reservation payload stored now =
     (let d1 = update_call i (finish_api_call_row cl ''completed'' (Some payload) (snd stored)
            (Some (fst stored)) None now) d;
          actual = payload_cost cl payload
      in finish_provider_call d1 reservation
           \<lparr>fa_actual_cost_usd = actual, fa_failed = False, fa_schema_drift = False,
            fa_abnormal_cost = (single_call_abnormal_cost_usd s < actual),
            fa_outcome_unknown = False\<rparr> now)"

text \<open>The exception handler of \<open>_request\<close>; \<open>text_of\<close> gives \<open>str(exc)\<close>.\<close>

definition fail_call ::
  "(live_error \<Rightarrow> string) \<Rightarrow> live_client \<Rightarrow> database \<Rightarrow> int \<Rightarrow> usage_reservation option \<Rightarrow>
   live_error \<Rightarrow> bool \<Rightarrow> instant \<Rightarrow> database" where
  "fail_call text_of cl d i reservation exc responded now =
     (let sent = (case tget ac_id i (api_calls d) of None \<Rightarrow> False
            | Some c \<Rightarrow> ac_network_started_at c \<noteq> None);
          ambiguous = (reservation \<noteq> None \<and> sent \<and> (\<not> responded \<or> is_lease_lost exc));
          status = (if ambiguous then ''provider_outcome_unknown''
            else if is_circuit_open exc then ''blocked''
            else if \<not> sent then ''failed_before_network'' else ''failed'');
          d1 = update_call i (finish_api_call_row cl status None None None
            (Some (error_type_name exc, text_of exc)) now) d
      in case reservation of
           None \<Rightarrow> d1
         | Some r \<Rightarrow> finish_provider_call d1 r
             \<lparr>fa_actual_cost_usd = 0, fa_failed = (\<not> is_circuit_open exc),
              fa_schema_drift = (exc = DataForSEOSchemaError), fa_abnormal_cost = False,
              fa_outcome_unknown = ambiguous\<rparr> now)"

definition finish_unknown_attempt ::
  "live_client \<Rightarrow> database \<Rightarrow> int \<Rightarrow> usage_reservation option \<Rightarrow> instant \<Rightarrow> database" where
  "finish_unknown_attempt cl d i reservation now =
     (case reservation of
        None \<Rightarrow> d
      | Some r \<Rightarrow>
          (let ambiguous = (case tget ac_id i (api_calls d) of None \<Rightarrow> False
                 | Some c \<Rightarrow> ac_network_started_at c \<noteq> None);
               d1 = update_call i (finish_api_call_row cl
                 (if ambiguous then ''provider_outcome_unknown'' else ''failed_before_network'')
                 None None None (Some (''ScanLeaseLost'',
                   ''Provider request interrupted after scan lease loss.'')) now) d
           in finish_provider_call d1 r
                \<lparr>fa_actual_cost_usd = 0, fa_failed = (\<not> ambiguous), fa_schema_drift = False,
                 fa_abnormal_cost = False, fa_outcome_unknown = ambiguous\<rparr> now))"

definition reserve_call_args :: "live_client \<Rightarrow> string \<Rightarrow> api_call \<Rightarrow> reserve_args" where
  "reserve_call_args cl path c =
     \<lparr>rq_provider = lc_provider_name cl, rq_environment = lc_api_environment cl,
      rq_adapter_version = lc_adapter_version cl, rq_endpoint = path,
      rq_estimated_cost_usd = ac_estimated_cost_usd c,
      rq_scan_profile = (if lc_allow_unplanned_requests cl then ''testing'' else lc_scan_depth cl),
      rq_cache_miss = True,
      rq_require_current_qualification = (\<not> lc_allow_unplanned_requests cl),
      rq_api_call_id = Some (ac_id c), rq_execution_lease = lc_execution_lease cl\<rparr>"

section \<open>The whole request\<close>

record request_clock =
  rc_started :: instant
  rc_reserved :: instant
  rc_submitted :: instant
  rc_before_send :: instant
  rc_after_reply :: instant
  rc_finished :: instant

datatype request_result = FromCache raw_response | FromProvider reply_payload

text \<open>
  \<open>_request\<close>: no other transaction touches the attempt while it runs. The database returned
  beside an exception is what the handler committed.
\<close>

definition send_and_settle ::
  "settings \<Rightarrow> (live_error \<Rightarrow> string) \<Rightarrow> live_client \<Rightarrow> database \<Rightarrow> int \<Rightarrow> usage_reservation \<Rightarrow>
   provider_reply \<Rightarrow> string \<times> int option \<Rightarrow> request_clock \<Rightarrow>
   (live_error + request_result) \<times> database" where
  "send_and_settle s text_of cl d i r reply stored clock =
     (let raise_with = (\<lambda>exc responded. (Inl exc,
            fail_call text_of cl d i (Some r) exc responded (rc_finished clock)))
      in case assert_lease d (lc_execution_lease cl) (rc_before_send clock) of
           Some e \<Rightarrow> raise_with (CostControlError e) False
         | None \<Rightarrow>
             (case reply of
                Cancelled \<Rightarrow> (Inl CancelledError,
                  finish_unknown_attempt cl d i (Some r) (rc_finished clock))
              | NoResponse \<Rightarrow> raise_with TransportError False
              | Refused exc \<Rightarrow>
                  (case assert_lease d (lc_execution_lease cl) (rc_after_reply clock) of
                     Some e \<Rightarrow> raise_with (CostControlError e) True
                   | None \<Rightarrow> raise_with exc True)
              | Parsed payload \<Rightarrow>
                  (case assert_lease d (lc_execution_lease cl) (rc_after_reply clock) of
                     Some e \<Rightarrow> raise_with (CostControlError e) True
                   | None \<Rightarrow> (Inr (FromProvider payload),
                       complete_call s cl d i r payload stored (rc_finished clock)))))"

definition provider_request ::
  "settings \<Rightarrow> (live_error \<Rightarrow> string) \<Rightarrow> live_client \<Rightarrow> database \<Rightarrow> string \<Rightarrow> string \<Rightarrow>
   raw_response option \<Rightarrow> provider_reply \<Rightarrow> string \<times> int option \<Rightarrow> string \<Rightarrow> request_clock \<Rightarrow>
   (live_error + request_result) \<times> database" where
  "provider_request s text_of cl d path request_key cached reply stored token clock =
     (case (if lc_force_refresh cl then None else cached) of
        Some raw \<Rightarrow>
          (case record_cache_hit d cl path request_key raw token (rc_started clock) of
             (Inl e, d') \<Rightarrow> (Inl e, d')
           | (Inr i, d') \<Rightarrow> (Inr (FromCache raw), d'))
      | None \<Rightarrow>
          (case start_api_call d cl path request_key token (rc_started clock) of
             (Inl e, d1) \<Rightarrow> (Inl e, d1)
           | (Inr i, d1) \<Rightarrow>
               (case tget ac_id i (api_calls d1) of
                  None \<Rightarrow> (Inl DataForSEOError, d1)
                | Some c \<Rightarrow>
                    (case reserve_provider_call s d1 (reserve_call_args cl path c)
                            (rc_reserved clock) of
                       Inl e \<Rightarrow> (Inl (CostControlError e),
                         fail_call text_of cl d1 i None (CostControlError e) False
                           (rc_finished clock))
                     | Inr (r, d2) \<Rightarrow>
                         (case mark_provider_call_submitted d2 r (lc_execution_lease cl)
                                 (rc_submitted clock) of
                            Inl e \<Rightarrow> (Inl (CostControlError e),
                              fail_call text_of cl d2 i (Some r) (CostControlError e) False
                                (rc_finished clock))
                          | Inr d3 \<Rightarrow>
                              send_and_settle s text_of cl d3 i r reply stored clock)))))"

section \<open>Histories of attempts\<close>

text \<open>
  Everything that can happen to attempts, one transaction at a time and on the attempt as it is
  stored: a client starts an attempt, reserves it, submits it, completes it, fails it or is
  cancelled; a client that dies simply takes no further step; the recovery of stale attempts and
  the operator's resolution of unknown outcomes run in between. An attempt is settled with the
  reservation recorded on it (\<open>reservation_of\<close>), and reserved under the provider and endpoint it was
  recorded with. This is what the clients' steps amount to while their rows in memory are current;
  \<open>Call_Sessions\<close> has the sessions themselves.
\<close>

datatype attempt_op =
  StartAttempt live_client string string string instant
| CacheHitAttempt live_client string string raw_response string instant
| ReserveAttempt settings live_client string int instant
| SubmitAttempt live_client int instant
| CompleteAttempt settings live_client int reply_payload "string \<times> int option" instant
| FailAttempt "live_error \<Rightarrow> string" live_client int live_error bool instant
| CancelAttempt live_client int instant
| RecoverAttempts instant "int option" instant
| ResolveAttempt int string usd string instant

datatype call_refusal = NotThisAttempt | Refusal cost_error

definition held_reservation :: "api_call \<Rightarrow> usage_reservation option" where
  "held_reservation c =
     (if ac_reservation_state c = ''none'' then None else Some (reservation_of c))"

fun attempt_step :: "database \<Rightarrow> attempt_op \<Rightarrow> call_refusal + database" where
  "attempt_step d (StartAttempt cl path key token now) =
     (if path = [] then Inl NotThisAttempt else Inr (snd (start_api_call d cl path key token now)))"
| "attempt_step d (CacheHitAttempt cl path key raw token now) =
     (if path = [] then Inl NotThisAttempt
      else Inr (snd (record_cache_hit d cl path key raw token now)))"
| "attempt_step d (ReserveAttempt s cl path i now) =
     (case tget ac_id i (api_calls d) of
        None \<Rightarrow> Inl NotThisAttempt
      | Some c \<Rightarrow>
          if ac_provider c \<noteq> lc_provider_name cl \<or> ac_endpoint c \<noteq> path then Inl NotThisAttempt
          else (case reserve_provider_call s d (reserve_call_args cl path c) now of
                  Inl e \<Rightarrow> Inl (Refusal e) | Inr (r, d') \<Rightarrow> Inr d'))"
| "attempt_step d (SubmitAttempt cl i now) =
     (case tget ac_id i (api_calls d) of
        None \<Rightarrow> Inl NotThisAttempt
      | Some c \<Rightarrow>
          (case mark_provider_call_submitted d (reservation_of c) (lc_execution_lease cl) now of
             Inl e \<Rightarrow> Inl (Refusal e) | Inr d' \<Rightarrow> Inr d'))"
| "attempt_step d (CompleteAttempt s cl i payload stored now) =
     (case tget ac_id i (api_calls d) of
        None \<Rightarrow> Inl NotThisAttempt
      | Some c \<Rightarrow>
          if ac_reservation_state c = ''none'' then Inl NotThisAttempt
          else Inr (complete_call s cl d i (reservation_of c) payload stored now))"
| "attempt_step d (FailAttempt text_of cl i exc responded now) =
     (case tget ac_id i (api_calls d) of
        None \<Rightarrow> Inl NotThisAttempt
      | Some c \<Rightarrow> Inr (fail_call text_of cl d i (held_reservation c) exc responded now))"
| "attempt_step d (CancelAttempt cl i now) =
     (case tget ac_id i (api_calls d) of
        None \<Rightarrow> Inl NotThisAttempt
      | Some c \<Rightarrow> Inr (finish_unknown_attempt cl d i (held_reservation c) now))"
| "attempt_step d (RecoverAttempts before scan_id now) =
     Inr (snd (reconcile_stale_api_call_attempts d before scan_id now))"
| "attempt_step d (ResolveAttempt i outcome actual note now) =
     (case resolve_unknown_provider_call d i outcome actual note now of
        Inl e \<Rightarrow> Inl (Refusal e) | Inr d' \<Rightarrow> Inr d')"

definition attempt_lifecycle :: "api_call \<Rightarrow> bool" where
  "attempt_lifecycle c \<longleftrightarrow>
     ac_reservation_state c \<in> set (''none'' # ''reserved'' # settled_states) \<and>
     (ac_attempt_state c = ''prepared'' \<longrightarrow>
        ac_reservation_state c = ''none'' \<and> ac_status c = ''prepared'') \<and>
     (ac_attempt_state c \<in> set [''reserved'', ''in_flight''] \<longleftrightarrow>
        ac_reservation_state c = ''reserved'') \<and>
     (ac_reservation_state c = ''reserved'' \<longrightarrow>
        ac_status c \<in> set [''prepared'', ''in_flight'']) \<and>
     (ac_reservation_state c = ''reconciled_unknown'' \<longrightarrow>
        ac_status c = ''provider_outcome_unknown'')"

definition paid_calls_ok :: "database \<Rightarrow> bool" where
  "paid_calls_ok d \<longleftrightarrow> ledger_ok d \<and> (\<forall>c \<in> set (api_calls d). attempt_lifecycle c) \<and>
     (\<forall>p \<in> set (scan_plan_calls d). 0 \<le> spc_estimated_cost_usd p)"

subsection \<open>Frames\<close>

lemma finish_api_call_row_frame [simp]:
  "ac_id (finish_api_call_row cl st p r k e t c) = ac_id c"
  "ac_provider (finish_api_call_row cl st p r k e t c) = ac_provider c"
  "ac_endpoint (finish_api_call_row cl st p r k e t c) = ac_endpoint c"
  "ac_estimated_cost_usd (finish_api_call_row cl st p r k e t c) = ac_estimated_cost_usd c"
  "ac_reservation_state (finish_api_call_row cl st p r k e t c) = ac_reservation_state c"
  "ac_reservation_usage_date (finish_api_call_row cl st p r k e t c) = ac_reservation_usage_date c"
  "ac_reservation_usage_class (finish_api_call_row cl st p r k e t c) = ac_reservation_usage_class c"
  "ac_reservation_estimated_cost_usd (finish_api_call_row cl st p r k e t c) =
   ac_reservation_estimated_cost_usd c"
  by (simp_all add: finish_api_call_row_def Let_def split: option.splits prod.splits)

lemma finish_api_call_row_states:
  assumes "ac_status c \<noteq> ''provider_outcome_unknown'' \<or> st = ''provider_outcome_unknown''"
    and "st \<in> set [''completed'', ''provider_outcome_unknown'', ''failed_before_network'',
      ''blocked'', ''failed'']"
  shows "ac_status (finish_api_call_row cl st p r k e t c) = st"
    "ac_attempt_state (finish_api_call_row cl st p r k e t c) = st"
  using assms by (auto simp: finish_api_call_row_def Let_def split: option.splits prod.splits)

lemma finish_api_call_row_skip:
  "ac_status c = ''provider_outcome_unknown'' \<Longrightarrow> st \<noteq> ''provider_outcome_unknown'' \<Longrightarrow>
   finish_api_call_row cl st p r k e t c = c"
  by (simp add: finish_api_call_row_def)

lemma reservation_of_finish_row [simp]:
  "reservation_of (finish_api_call_row cl st p r k e t c) = reservation_of c"
  by (simp add: reservation_of_def)

lemma ledger_finish_row:
  "ledger_ok d \<Longrightarrow> ledger_ok (update_call i (finish_api_call_row cl st p r k e t) d)"
  by (rule ledger_update_call) (auto simp: attempt_ok_def share_def in_bucket_def)

lemma scan_plan_calls_frames [table_simps]:
  "scan_plan_calls (update_call i f d) = scan_plan_calls d"
  "scan_plan_calls (snd (locked_bucket k d)) = scan_plan_calls d"
  "scan_plan_calls (update_bucket k g d) = scan_plan_calls d"
  "scan_plan_calls (update_buckets t c p e g d) = scan_plan_calls d"
  by (simp_all add: update_call_def locked_bucket_def update_bucket_def update_buckets_def Let_def
      split: option.splits)

lemma api_calls_finish:
  assumes "tget ac_id i (api_calls d) = Some c" "ur_api_call_id r = Some i"
  shows "api_calls (finish_provider_call d r a t) =
    (if ac_reservation_state c \<in> set settled_states then api_calls d
     else tupd ac_id i (finish_attempt (fa_outcome_unknown a) t) (api_calls d))"
    "scan_plan_calls (finish_provider_call d r a t) = scan_plan_calls d"
  using assms by (auto simp: finish_provider_call_def Let_def table_simps dest: tget_Some_key)

lemma attempt_lifecycle_settled:
  "ac_reservation_state c \<in> set settled_states \<Longrightarrow>
   ac_attempt_state c \<notin> {''prepared'', ''reserved'', ''in_flight''} \<Longrightarrow>
   (ac_reservation_state c = ''reconciled_unknown'' \<Longrightarrow>
      ac_status c = ''provider_outcome_unknown'') \<Longrightarrow> attempt_lifecycle c"
  by (auto simp: attempt_lifecycle_def settled_states_def)

lemma finish_attempt_fields [simp]:
  "ac_id (finish_attempt u t c) = ac_id c"
  "ac_reservation_state (finish_attempt u t c) = (if u then ''reconciled_unknown'' else ''finalized'')"
  "ac_status (finish_attempt u t c) = (if u then ''provider_outcome_unknown'' else ac_status c)"
  "ac_attempt_state (finish_attempt u t c) =
     (if u then ''provider_outcome_unknown'' else ac_attempt_state c)"
  by (simp_all add: finish_attempt_def Let_def)

lemma settled_row_lifecycle:
  assumes life: "attempt_lifecycle c" and held: "ac_reservation_state c \<noteq> ''none''"
    and st: "st \<in> set [''completed'', ''provider_outcome_unknown'', ''failed_before_network'',
      ''blocked'', ''failed'']"
  shows "attempt_lifecycle (if ac_reservation_state c \<in> set settled_states
    then finish_api_call_row cl st p r k e t c
    else finish_attempt u t' (finish_api_call_row cl st p r k e t c))"
proof (cases "ac_status c = ''provider_outcome_unknown'' \<and> st \<noteq> ''provider_outcome_unknown''")
  case True
  with life held have "ac_reservation_state c \<in> set settled_states"
    by (auto simp: attempt_lifecycle_def)
  with True life show ?thesis by (simp add: finish_api_call_row_skip)
next
  case False
  let ?row = "finish_api_call_row cl st p r k e t c"
  from False have new: "ac_status ?row = st" "ac_attempt_state ?row = st"
    using finish_api_call_row_states [OF _ st] by blast+
  have open_st: "st \<notin> {''prepared'', ''reserved'', ''in_flight''}" using st by auto
  have "ac_reservation_state c = ''reconciled_unknown'' \<Longrightarrow>
      ac_status c = ''provider_outcome_unknown''"
    using life by (simp add: attempt_lifecycle_def)
  then have "ac_reservation_state c \<in> set settled_states \<Longrightarrow> attempt_lifecycle ?row"
    using open_st new False by (intro attempt_lifecycle_settled) auto
  moreover have "attempt_lifecycle (finish_attempt u t' ?row)"
    by (rule attempt_lifecycle_settled)
      (use open_st new in \<open>simp_all add: settled_states_def split: if_splits\<close>)
  ultimately show ?thesis by simp
qed

text \<open>
  Settlement by a client: the attempt row is closed with a status and the reservation is
  finished, as one transaction.
\<close>

lemma settle_keeps_paid_calls:
  assumes ok: "paid_calls_ok d" and c: "tget ac_id i (api_calls d) = Some c"
    and held: "ac_reservation_state c \<noteq> ''none''"
    and st: "st \<in> set [''completed'', ''provider_outcome_unknown'', ''failed_before_network'',
      ''blocked'', ''failed'']"
  shows "paid_calls_ok (finish_provider_call
    (update_call i (finish_api_call_row cl st p r k e t) d) (reservation_of c) a t')"
proof -
  let ?row = "finish_api_call_row cl st p r k e t"
  let ?d = "update_call i ?row d"
  have ci: "ac_id c = i" and life: "attempt_lifecycle c"
    using c ok by (auto simp: paid_calls_ok_def dest: tget_Some_key)
  have c1: "tget ac_id i (api_calls ?d) = Some (?row c)"
    using c ci by (simp add: table_simps tget_tupd)
  have led: "ledger_ok ?d" using ok by (auto simp: paid_calls_ok_def intro: ledger_finish_row)
  have sts: "ac_reservation_state c \<in> set (''reserved'' # settled_states)"
    using life held by (auto simp: attempt_lifecycle_def)
  have "ledger_ok (finish_provider_call ?d (reservation_of (?row c)) a t')"
    by (rule finish_keeps_ledger [OF led c1]) (use sts in simp)
  moreover have "attempt_lifecycle x"
    if x: "x \<in> set (api_calls (finish_provider_call ?d (reservation_of c) a t'))" for x
  proof -
    have dist: "keys_distinct ac_id (api_calls d)" using ok by (simp add: paid_calls_ok_def ledger_ok_def)
    have one: "y = c" if "y \<in> set (api_calls d)" "ac_id y = i" for y
      using tget_in_set [OF dist that(1)] that(2) c by simp
    let ?new = "if ac_reservation_state c \<in> set settled_states then ?row c
      else finish_attempt (fa_outcome_unknown a) t' (?row c)"
    have rid: "ur_api_call_id (reservation_of c) = Some i" using ci by (simp add: reservation_of_def)
    have "x \<in> set (api_calls d) \<or> x = ?new"
      using x one unfolding api_calls_finish(1) [OF c1 rid]
      by (auto simp: table_simps set_tupd finish_attempt_def Let_def split: if_splits)
    moreover have "attempt_lifecycle ?new" by (rule settled_row_lifecycle [OF life held st])
    ultimately show ?thesis using ok by (auto simp: paid_calls_ok_def)
  qed
  moreover have "scan_plan_calls (finish_provider_call ?d (reservation_of c) a t') = scan_plan_calls d"
    using api_calls_finish(2) [OF c1, of "reservation_of c"] ci
    by (simp add: reservation_of_def table_simps)
  ultimately show ?thesis using ok by (simp add: paid_calls_ok_def)
qed

subsection \<open>Every step keeps the invariant\<close>

lemma paid_calls_frame:
  assumes "paid_calls_ok d" "ledger_ok d'" "scan_plan_calls d' = scan_plan_calls d"
    and "\<And>c. c \<in> set (api_calls d') \<Longrightarrow> attempt_lifecycle c"
  shows "paid_calls_ok d'"
  using assms by (simp add: paid_calls_ok_def)

lemma in_api_calls_update_call:
  assumes "keys_distinct ac_id (api_calls d)" "tget ac_id i (api_calls d) = Some c"
    and "x \<in> set (tupd ac_id i f (api_calls d))"
  shows "x \<in> set (api_calls d) \<or> x = f c"
  using assms tget_in_set [OF assms(1)] by (fastforce simp: set_tupd)

lemma new_attempt_ok:
  assumes "\<forall>p. plan = Some p \<longrightarrow> 0 \<le> spc_estimated_cost_usd p" "path \<noteq> []"
    and "st \<in> {''prepared'', ''cache_hit''}"
  shows "attempt_ok (new_attempt cl path key plan hit force st raw token now i)"
    "attempt_lifecycle (new_attempt cl path key plan hit force st raw token now i)"
  using assms by (auto simp: new_attempt_def attempt_ok_def attempt_lifecycle_def
      unplanned_estimated_cost_def truthy_str_def settled_states_def split: option.splits)

lemma reset_attempt_ok:
  assumes "attempt_ok c" "st \<in> {''prepared'', ''cache_hit''}"
  shows "attempt_ok (reset_attempt cl hit force st raw token now c)"
    "attempt_lifecycle (reset_attempt cl hit force st raw token now c)"
    "share s' k (reset_attempt cl hit force st raw token now c) = 0"
  using assms by (auto simp: reset_attempt_def attempt_ok_def attempt_lifecycle_def
      settled_states_def share_def in_bucket_def Let_def split: option.splits prod.splits)

lemma reset_attempt_id [simp]:
  "ac_id (reset_attempt cl hit force st raw token now c) = ac_id c"
  by (simp add: reset_attempt_def Let_def split: option.splits)

lemma filter_hd: "filter P xs = x # ys \<Longrightarrow> x \<in> set xs \<and> P x"
  by (auto dest: filter_eq_ConsD)

lemma planned_call_member:
  assumes "planned_call d cl path key = Some p"
  obtains sid where "lc_current_scan_run_id cl = Some sid" "p \<in> set (scan_plan_calls d)"
    "spc_scan_run_id p = sid" "spc_provider p = lc_provider_name cl" "spc_endpoint p = path"
    "spc_planned_request_id p \<noteq> None" "spc_planned_request_id p \<notin> set (consumed_ids d sid)"
proof (cases "lc_current_scan_run_id cl")
  case (Some sid)
  define matching where "matching = sort_key spc_id (filter (\<lambda>p. spc_scan_run_id p = sid \<and>
      spc_provider p = lc_provider_name cl \<and> spc_endpoint p = path) (scan_plan_calls d))"
  have "p \<in> set matching \<and> spc_planned_request_id p \<noteq> None \<and>
      spc_planned_request_id p \<notin> set (consumed_ids d sid)"
    using assms Some unfolding planned_call_def Let_def
    by (auto simp: matching_def simp del: filter_filter split: list.splits if_splits
        dest!: filter_hd)
  with Some that show ?thesis by (auto simp: matching_def)
qed (use assms in \<open>simp add: planned_call_def\<close>)

lemma add_attempt_keeps_ledger:
  assumes ok: "ledger_ok d" and c: "attempt_ok c" "ac_reservation_state c = ''none''"
    "ac_id c = next_id ac_id (api_calls d)"
  shows "ledger_ok (d\<lparr>api_calls := api_calls d @ [c]\<rparr>)"
proof -
  have "outstanding st k (api_calls d @ [c]) = outstanding st k (api_calls d)"
    if "st \<in> {''reserved'', ''reconciled_unknown''}" for st k
    using that c(2) by (auto simp: outstanding_def)
  moreover have "bucket (d\<lparr>api_calls := x\<rparr>) k = bucket d k" for x k by (simp add: bucket_def)
  ultimately show ?thesis
    using ok c next_id_fresh [of ac_id "api_calls d"]
    by (auto simp: ledger_ok_def keys_distinct_append)
qed

lemma reset_keeps_ledger:
  assumes ok: "paid_calls_ok d" and c: "tget ac_id i (api_calls d) = Some c"
    "ac_status c \<in> set retryable_statuses" and st: "st \<in> {''prepared'', ''cache_hit''}"
  shows "ledger_ok (update_call i (reset_attempt cl hit force st raw token now) d)"
proof (rule ledger_update_call)
  show "ledger_ok d" using ok by (simp add: paid_calls_ok_def)
  have cs: "attempt_ok c" "attempt_lifecycle c"
    using ok c by (auto simp: paid_calls_ok_def ledger_ok_def dest: tget_Some_key)
  show "attempt_ok (reset_attempt cl hit force st raw token now x)"
    if "tget ac_id i (api_calls d) = Some x" "attempt_ok x" for x
    using that st by (simp add: reset_attempt_ok)
  show "share s' k (reset_attempt cl hit force st raw token now x) = share s' k x"
    if "tget ac_id i (api_calls d) = Some x" "s' \<in> {''reserved'', ''reconciled_unknown''}" for x s' k
  proof -
    have "x = c" using that c by simp
    moreover have "ac_reservation_state c \<notin> {''reserved'', ''reconciled_unknown''}"
      using cs(2) c(2) by (auto simp: attempt_lifecycle_def retryable_statuses_def)
    ultimately have "share s' k x = 0" using that by (auto simp: share_def)
    with \<open>x = c\<close> cs(1) st show ?thesis by (simp add: reset_attempt_ok)
  qed
qed simp

lemma scan_plan_unexpected [table_simps]:
  "scan_plan_calls (record_unexpected_call d p env e t) = scan_plan_calls d"
  "api_calls (record_unexpected_call d p env e t) = api_calls d"
  by (simp_all add: record_unexpected_call_def table_simps)

lemma reserve_api_call_cases:
  obtains (same) "snd (reserve_api_call d cl path key hit force st raw token now) = d"
  | (unexpected) "snd (reserve_api_call d cl path key hit force st raw token now) =
      record_unexpected_call d (lc_provider_name cl) (lc_api_environment cl) path now"
  | (retry) c where "c \<in> set (api_calls d)" "ac_status c \<in> set retryable_statuses"
      "snd (reserve_api_call d cl path key hit force st raw token now) =
       update_call (ac_id c) (reset_attempt cl hit force st raw token now) d"
  | (new) pid where "pid = Option.bind (planned_call d cl path key) spc_planned_request_id"
      "\<not> (pid \<noteq> None \<and> lc_current_scan_run_id cl \<noteq> None \<and>
         list_ex (\<lambda>c. ac_scan_run_id c = lc_current_scan_run_id cl \<and>
           ac_planned_request_id c = pid) (api_calls d))"
      "snd (reserve_api_call d cl path key hit force st raw token now) =
       d\<lparr>api_calls := api_calls d @ [new_attempt cl path key (planned_call d cl path key) hit force
         st raw token now (next_id ac_id (api_calls d))]\<rparr>"
proof -
  define pid where "pid = Option.bind (planned_call d cl path key) spc_planned_request_id"
  define existing where "existing = (if hit \<and> lc_current_scan_run_id cl \<noteq> None \<and>
      planned_call d cl path key = None
    then greatest_row (\<lambda>c. - ac_id c) (filter (\<lambda>c. ac_scan_run_id c = lc_current_scan_run_id cl \<and>
      ac_endpoint c = path \<and> ac_cache_key c = key \<and>
      ac_status c \<in> set [''completed'', ''cache_hit'']) (api_calls d)) else None)"
  define retry_row where "retry_row = (if pid \<noteq> None \<and> lc_current_scan_run_id cl \<noteq> None
    then select_first (\<lambda>c. ac_scan_run_id c = lc_current_scan_run_id cl \<and>
      ac_planned_request_id c = pid \<and> ac_status c \<in> set retryable_statuses) (api_calls d)
    else None)"
  have row: "c \<in> set (api_calls d) \<and> ac_status c \<in> set retryable_statuses"
    if "retry_row = Some c" for c
    using that by (auto simp: retry_row_def split: if_splits dest: select_first_Some)
  note eq = reserve_api_call_def [of d cl path key hit force st raw token now, unfolded Let_def,
      folded pid_def, folded existing_def retry_row_def]
  let ?unplanned = "lc_current_scan_run_id cl \<noteq> None \<and> planned_call d cl path key = None \<and>
      \<not> lc_allow_unplanned_requests cl"
  let ?consumed = "pid \<noteq> None \<and> lc_current_scan_run_id cl \<noteq> None \<and>
      list_ex (\<lambda>c. ac_scan_run_id c = lc_current_scan_run_id cl \<and>
        ac_planned_request_id c = pid) (api_calls d)"
  consider "existing \<noteq> None" | "existing = None" "?unplanned"
    | c where "existing = None" "\<not> ?unplanned" "retry_row = Some c"
    | "existing = None" "\<not> ?unplanned" "retry_row = None" "?consumed"
    | "existing = None" "\<not> ?unplanned" "retry_row = None" "\<not> ?consumed"
    by (cases retry_row) blast+
  then show thesis
  proof cases
    case 1
    then show ?thesis by (intro same) (auto simp: eq)
  next
    case 2
    then show ?thesis by (intro unexpected) (simp add: eq)
  next
    case 3
    then show ?thesis using row by (intro retry [of c]) (simp_all only: eq option.case if_False snd_conv)
  next
    case 4
    then show ?thesis by (intro same) (simp only: eq option.case if_False if_True snd_conv simp_thms)
  next
    case 5
    then show ?thesis
      by (intro new [OF pid_def]) (simp_all only: eq option.case if_False snd_conv simp_thms)
  qed
qed

lemma reserve_api_call_keeps_paid_calls:
  assumes ok: "paid_calls_ok d" and st: "st \<in> {''prepared'', ''cache_hit''}" and path: "path \<noteq> []"
  shows "paid_calls_ok (snd (reserve_api_call d cl path key hit force st raw token now))"
proof -
  note ok' = ok [unfolded paid_calls_ok_def]
  let ?plan = "planned_call d cl path key"
  have new: "paid_calls_ok (d\<lparr>api_calls := api_calls d @
      [new_attempt cl path key ?plan hit force st raw token now (next_id ac_id (api_calls d))]\<rparr>)"
  proof -
    have "\<forall>p. ?plan = Some p \<longrightarrow> 0 \<le> spc_estimated_cost_usd p"
      using ok' by (metis planned_call_member)
    from new_attempt_ok [OF this path st] ok' show ?thesis
      by (auto simp: paid_calls_ok_def intro!: add_attempt_keeps_ledger)
        (auto simp: new_attempt_def)
  qed
  have retry: "paid_calls_ok (update_call (ac_id c) (reset_attempt cl hit force st raw token now) d)"
    if "c \<in> set (api_calls d)" "ac_status c \<in> set retryable_statuses" for c
  proof (rule paid_calls_frame [OF ok])
    have dist: "keys_distinct ac_id (api_calls d)" and aok: "attempt_ok c"
      using ok' that by (auto simp: ledger_ok_def)
    have c: "tget ac_id (ac_id c) (api_calls d) = Some c"
      by (rule tget_in_set [OF dist that(1)])
    show "ledger_ok (update_call (ac_id c) (reset_attempt cl hit force st raw token now) d)"
      by (rule reset_keeps_ledger [OF ok c that(2) st])
    show "attempt_lifecycle x"
      if "x \<in> set (api_calls (update_call (ac_id c) (reset_attempt cl hit force st raw token now) d))"
      for x
      using in_api_calls_update_call [OF dist c that [unfolded update_call_tables]] ok' aok st
      by (auto simp: reset_attempt_ok)
  qed (simp add: table_simps)
  have unexpected: "paid_calls_ok (record_unexpected_call d p env e t)" for p env e t
    using ok' by (intro paid_calls_frame [OF ok])
      (auto simp: table_simps unexpected_keeps_ledger)
  show ?thesis
    by (cases rule: reserve_api_call_cases [of d cl path key hit force st raw token now])
      (use new retry unexpected ok in simp_all)
qed

lemma reserve_keeps_paid_calls:
  assumes ok: "paid_calls_ok d" and c: "tget ac_id i (api_calls d) = Some c"
    and cl: "ac_provider c = lc_provider_name cl" "ac_endpoint c = path"
    and res: "reserve_provider_call s d (reserve_call_args cl path c) now = Inr (r, d')"
  shows "paid_calls_ok d'"
proof -
  have ci: "ac_id c = i" and cok: "attempt_ok c" "attempt_lifecycle c"
    and dist: "keys_distinct ac_id (api_calls d)"
    using ok c by (auto simp: paid_calls_ok_def ledger_ok_def dest: tget_Some_key)
  let ?t = "date_of now" and ?cl = "usage_class_of (lc_api_environment cl)"
  let ?f = "reserve_attempt ?t ?cl (ac_estimated_cost_usd c)"
  have prep: "ac_attempt_state c = ''prepared''" and calls: "api_calls d' = tupd ac_id i ?f (api_calls d)"
    and plan: "scan_plan_calls d' = scan_plan_calls d"
    using res c ci by (auto simp: reserve_provider_call_Inr Let_def reserve_call_args_def
        assert_attempt_eligible_Some table_simps)
  have led: "ledger_ok d'"
    by (rule reserve_keeps_ledger [OF _ res _ c])
      (use ok cl ci cok in \<open>auto simp: paid_calls_ok_def reserve_call_args_def attempt_ok_def\<close>)
  have "attempt_lifecycle (?f c)"
    using cok(2) prep by (simp add: attempt_lifecycle_def reserve_attempt_def)
  then show ?thesis
    using in_api_calls_update_call [OF dist c, of _ ?f] ok calls
    by (intro paid_calls_frame [OF ok led plan]) (auto simp: paid_calls_ok_def)
qed

lemma submit_keeps_paid_calls:
  assumes ok: "paid_calls_ok d"
    and res: "mark_provider_call_submitted d r lease now = Inr d'"
  shows "paid_calls_ok d'"
proof (cases "ur_api_call_id r")
  case None
  with ok res show ?thesis by (simp add: mark_provider_call_submitted_def)
next
  case (Some i)
  let ?f = "\<lambda>c. c\<lparr>ac_attempt_state := ''in_flight'', ac_provider_outcome := ''submitted'',
      ac_network_started_at := Some now, ac_status := ''in_flight''\<rparr>"
  from Some res obtain c where c: "tget ac_id i (api_calls d) = Some c"
    "ac_reservation_state c = ''reserved''" and d': "d' = update_call i ?f d"
    by (auto simp: mark_provider_call_submitted_def split: option.splits)
  have dist: "keys_distinct ac_id (api_calls d)"
    using ok by (simp add: paid_calls_ok_def ledger_ok_def)
  have led: "ledger_ok d'"
    using ok res by (auto simp: paid_calls_ok_def intro: submit_keeps_ledger)
  have "attempt_lifecycle (?f c)" using c(2) by (simp add: attempt_lifecycle_def)
  then show ?thesis
    using in_api_calls_update_call [OF dist c(1), of _ ?f] ok led
    by (intro paid_calls_frame [OF ok]) (auto simp: paid_calls_ok_def d' table_simps)
qed

lemma fail_call_keeps_paid_calls:
  assumes ok: "paid_calls_ok d" and c: "tget ac_id i (api_calls d) = Some c"
  shows "paid_calls_ok (fail_call text_of cl d i (held_reservation c) exc responded now)"
proof (cases "ac_reservation_state c = ''none''")
  case False
  then show ?thesis
    unfolding fail_call_def held_reservation_def Let_def
    by (auto intro!: settle_keeps_paid_calls [OF ok c])
next
  case True
  have dist: "keys_distinct ac_id (api_calls d)" and life: "attempt_lifecycle c"
    using ok c by (auto simp: paid_calls_ok_def ledger_ok_def dest: tget_Some_key)
  have "paid_calls_ok (update_call i (finish_api_call_row cl st None None None e now) d)"
    if st: "st \<in> set [''blocked'', ''failed_before_network'', ''failed'']" for st e
  proof (rule paid_calls_frame [OF ok])
    let ?f = "finish_api_call_row cl st None None None e now"
    have "attempt_lifecycle (?f c)"
    proof (cases "ac_status c = ''provider_outcome_unknown''")
      case True
      with st life show ?thesis by (auto simp: finish_api_call_row_skip)
    next
      case False
      with st have "ac_status (?f c) = st" "ac_attempt_state (?f c) = st"
        by (auto simp: finish_api_call_row_states)
      with st True show ?thesis by (auto simp: attempt_lifecycle_def)
    qed
    then show "attempt_lifecycle x" if "x \<in> set (api_calls (update_call i ?f d))" for x
      using in_api_calls_update_call [OF dist c that [unfolded update_call_tables]] ok
      by (auto simp: paid_calls_ok_def)
  qed (use ok in \<open>auto simp: paid_calls_ok_def table_simps intro: ledger_finish_row\<close>)
  with True show ?thesis by (simp add: fail_call_def held_reservation_def Let_def)
qed

lemma stale_settled_lifecycle:
  assumes "attempt_ok c" "attempt_lifecycle c"
    and "ac_attempt_state c \<in> {''prepared'', ''reserved'', ''in_flight''}"
  shows "attempt_lifecycle (settle_stale now c)"
proof -
  from assms(2,3) consider "ac_reservation_state c = ''none''"
    | "ac_reservation_state c = ''reserved''" "ac_reservation_usage_date c \<noteq> None"
    using assms(1) by (auto simp: attempt_lifecycle_def attempt_ok_def)
  then show ?thesis
  proof cases
    case 1
    then show ?thesis
      by (simp add: attempt_lifecycle_def settle_stale_def close_stale_attempt_def)
  next
    case 2
    then show ?thesis
      by (intro attempt_lifecycle_settled)
        (simp_all add: settle_stale_def close_stale_attempt_def release_attempt_def
          settled_states_def split: if_splits)
  qed
qed

lemma recover_keeps_paid_calls:
  assumes ok: "paid_calls_ok d"
  shows "paid_calls_ok (snd (reconcile_stale_api_call_attempts d before sid now))"
proof (rule paid_calls_frame [OF ok])
  let ?d = "snd (reconcile_stale_api_call_attempts d before sid now)"
  have led: "ledger_ok d" using ok by (simp add: paid_calls_ok_def)
  then show "ledger_ok ?d" by (rule reconcile_stale_keeps_ledger)
  have "scan_plan_calls (fold (reconcile_stale_row t) rows d) = scan_plan_calls d" for t rows
  proof (induction rows arbitrary: d)
    case (Cons c rows)
    have "scan_plan_calls (reconcile_stale_row t c d) = scan_plan_calls d" for d
      by (simp add: reconcile_stale_row_def reconcile_attempt_reservation_def table_simps
          split: option.splits)
    with Cons show ?case by simp
  qed simp
  then show "scan_plan_calls ?d = scan_plan_calls d"
    by (simp add: reconcile_stale_api_call_attempts_def Let_def)
  show "attempt_lifecycle x" if x: "x \<in> set (api_calls ?d)" for x
  proof -
    from reconcile_stale_origin [OF led x] obtain c where c: "c \<in> set (api_calls d)"
      "x = (if stale_attempt before sid c then settle_stale now c else c)" .
    have cok: "attempt_ok c" "attempt_lifecycle c"
      using ok c(1) by (auto simp: paid_calls_ok_def ledger_ok_def)
    have "attempt_lifecycle (settle_stale now c)" if "stale_attempt before sid c"
      using that cok by (intro stale_settled_lifecycle) (auto simp: stale_attempt_def)
    with c(2) cok show ?thesis by simp
  qed
qed

lemma resolve_keeps_paid_calls:
  assumes ok: "paid_calls_ok d"
    and res: "resolve_unknown_provider_call d i outcome actual note now = Inr d'"
  shows "paid_calls_ok d'"
proof (rule paid_calls_frame [OF ok])
  have led: "ledger_ok d" and dist: "keys_distinct ac_id (api_calls d)"
    using ok by (auto simp: paid_calls_ok_def ledger_ok_def)
  then show "ledger_ok d'" using res by (auto intro: resolve_keeps_ledger)
  let ?f = "resolve_attempt outcome actual note now"
  from res obtain c where c: "tget ac_id i (api_calls d) = Some c"
    and calls: "api_calls d' = tupd ac_id i ?f (api_calls d)"
    and plan: "scan_plan_calls d' = scan_plan_calls d"
    by (auto simp: resolve_unknown_provider_call_def Let_def table_simps split: option.splits)
  show "scan_plan_calls d' = scan_plan_calls d" by (rule plan)
  have "attempt_lifecycle (?f c)"
    by (simp add: attempt_lifecycle_def resolve_attempt_def settled_states_def)
  then show "attempt_lifecycle x" if "x \<in> set (api_calls d')" for x
    using in_api_calls_update_call [OF dist c that [unfolded calls]] ok
    by (auto simp: paid_calls_ok_def)
qed

lemma attempt_step_keeps_paid_calls:
  assumes ok: "paid_calls_ok d" and step: "attempt_step d opn = Inr d'"
  shows "paid_calls_ok d'"
proof (cases opn)
  case (CompleteAttempt s cl i payload stored now)
  with ok step show ?thesis
    by (auto simp: complete_call_def Let_def split: option.splits if_splits
        intro!: settle_keeps_paid_calls)
next
  case (CancelAttempt cl i now)
  with ok step show ?thesis
    by (auto simp: finish_unknown_attempt_def held_reservation_def Let_def
        split: option.splits if_splits intro!: settle_keeps_paid_calls)
qed (use ok step in \<open>auto simp: start_api_call_def record_cache_hit_def
      reserve_api_call_keeps_paid_calls recover_keeps_paid_calls fail_call_keeps_paid_calls
      split: option.splits if_splits sum.splits prod.splits
      intro: reserve_keeps_paid_calls submit_keeps_paid_calls resolve_keeps_paid_calls\<close>)

interpretation paid_calls: request_machine attempt_step paid_calls_ok
  by unfold_locales (rule attempt_step_keeps_paid_calls)

section \<open>Properties\<close>

text \<open>At most one attempt row per planned request of a scan.\<close>

definition planned_attempt :: "api_call \<Rightarrow> bool" where
  "planned_attempt c \<longleftrightarrow> ac_scan_run_id c \<noteq> None \<and> ac_planned_request_id c \<noteq> None"

definition plan_slot :: "api_call \<Rightarrow> int option \<times> string option" where
  "plan_slot c = (ac_scan_run_id c, ac_planned_request_id c)"

definition plan_slots_unique :: "database \<Rightarrow> bool" where
  "plan_slots_unique d = at_most_one plan_slot planned_attempt (api_calls d)"

lemma plan_slots_tupd:
  assumes "\<And>c. ac_scan_run_id (f c) = ac_scan_run_id c"
    "\<And>c. ac_planned_request_id (f c) = ac_planned_request_id c"
  shows "at_most_one plan_slot planned_attempt (tupd ac_id i f calls) =
    at_most_one plan_slot planned_attempt calls"
proof -
  have same: "plan_slot (f c) = plan_slot c" "planned_attempt (f c) = planned_attempt c" for c
    using assms by (simp_all add: plan_slot_def planned_attempt_def)
  have eq: "map plan_slot (filter planned_attempt (tupd ac_id i f calls)) =
      map plan_slot (filter planned_attempt calls)"
    by (induction calls) (auto simp: tupd_def same)
  show ?thesis unfolding at_most_one_def eq ..
qed

lemma plan_frames [simp]:
  "ac_scan_run_id (finish_api_call_row cl st p r k e t c) = ac_scan_run_id c"
  "ac_planned_request_id (finish_api_call_row cl st p r k e t c) = ac_planned_request_id c"
  "ac_scan_run_id (finish_attempt u t c) = ac_scan_run_id c"
  "ac_planned_request_id (finish_attempt u t c) = ac_planned_request_id c"
  "ac_scan_run_id (reset_attempt cl hit force st raw token now c) = ac_scan_run_id c"
  "ac_planned_request_id (reset_attempt cl hit force st raw token now c) = ac_planned_request_id c"
  "ac_scan_run_id (reserve_attempt t' cl' e' c) = ac_scan_run_id c"
  "ac_planned_request_id (reserve_attempt t' cl' e' c) = ac_planned_request_id c"
  "ac_scan_run_id (close_stale_attempt u t c) = ac_scan_run_id c"
  "ac_planned_request_id (close_stale_attempt u t c) = ac_planned_request_id c"
  "ac_scan_run_id (resolve_attempt o' a n t c) = ac_scan_run_id c"
  "ac_planned_request_id (resolve_attempt o' a n t c) = ac_planned_request_id c"
  by (simp_all add: finish_api_call_row_def finish_attempt_def reset_attempt_def
      reserve_attempt_def close_stale_attempt_def resolve_attempt_def Let_def
      split: option.splits prod.splits)

lemma plan_slots_finish:
  "plan_slots_unique (finish_provider_call d r a t) = plan_slots_unique d"
  by (simp add: finish_provider_call_def plan_slots_unique_def Let_def table_simps plan_slots_tupd
      split: option.splits)

lemma plan_slots_update_call:
  "(\<And>c. ac_scan_run_id (f c) = ac_scan_run_id c) \<Longrightarrow>
   (\<And>c. ac_planned_request_id (f c) = ac_planned_request_id c) \<Longrightarrow>
   plan_slots_unique (update_call i f d) = plan_slots_unique d"
  by (simp add: plan_slots_unique_def table_simps plan_slots_tupd)

lemma plan_slots_buckets [simp]:
  "plan_slots_unique (update_buckets t c p e g d) = plan_slots_unique d"
  by (simp add: plan_slots_unique_def table_simps)

lemma plan_slots_stale:
  "plan_slots_unique (fold (reconcile_stale_row t) rows d) = plan_slots_unique d"
proof (induction rows arbitrary: d)
  case (Cons c rows)
  have "plan_slots_unique (reconcile_stale_row t c d) = plan_slots_unique d"
    by (simp add: reconcile_stale_row_def reconcile_attempt_reservation_def
        plan_slots_update_call split: option.splits)
  with Cons show ?case by simp
qed simp

lemma plan_slots_reserve_api_call:
  assumes "plan_slots_unique d"
  shows "plan_slots_unique (snd (reserve_api_call d cl path key hit force st raw token now))"
proof -
  let ?plan = "planned_call d cl path key"
  let ?pid = "Option.bind ?plan spc_planned_request_id"
  let ?new = "new_attempt cl path key ?plan hit force st raw token now (next_id ac_id (api_calls d))"
  have "plan_slots_unique (d\<lparr>api_calls := api_calls d @ [?new]\<rparr>)"
    if "\<not> (?pid \<noteq> None \<and> lc_current_scan_run_id cl \<noteq> None \<and>
      list_ex (\<lambda>c. ac_scan_run_id c = lc_current_scan_run_id cl \<and>
        ac_planned_request_id c = ?pid) (api_calls d))"
  proof -
    have "plan_slot x \<noteq> plan_slot ?new" if "planned_attempt ?new" "x \<in> set (api_calls d)" for x
      using that \<open>\<not> (?pid \<noteq> None \<and> _)\<close>
      by (auto simp: plan_slot_def planned_attempt_def new_attempt_def list_ex_iff)
    with assms show ?thesis by (simp add: plan_slots_unique_def at_most_one_append)
  qed
  then show ?thesis
    by (cases rule: reserve_api_call_cases [of d cl path key hit force st raw token now])
      (use assms in \<open>simp_all add: plan_slots_update_call record_unexpected_call_def\<close>)
qed

lemma attempt_step_plan_slots:
  assumes "plan_slots_unique d" "attempt_step d opn = Inr d'"
  shows "plan_slots_unique d'"
proof (cases opn)
  case (ReserveAttempt s cl path i now)
  with assms show ?thesis
    by (auto simp: reserve_provider_call_Inr reserve_call_args_def Let_def plan_slots_update_call
        split: option.splits if_splits sum.splits prod.splits)
next
  case (SubmitAttempt cl i now)
  with assms show ?thesis
    by (auto simp: mark_provider_call_submitted_def plan_slots_update_call
        split: option.splits sum.splits)
next
  case (CompleteAttempt s cl i payload stored now)
  with assms show ?thesis
    by (auto simp: complete_call_def Let_def plan_slots_finish plan_slots_update_call
        split: option.splits if_splits)
next
  case (FailAttempt text_of cl i exc responded now)
  with assms show ?thesis
    by (auto simp: fail_call_def Let_def plan_slots_finish plan_slots_update_call
        split: option.splits)
next
  case (CancelAttempt cl i now)
  with assms show ?thesis
    by (auto simp: finish_unknown_attempt_def Let_def plan_slots_finish plan_slots_update_call
        split: option.splits)
next
  case (ResolveAttempt i outcome actual remark now)
  with assms show ?thesis
    by (auto simp: resolve_unknown_provider_call_def Let_def plan_slots_update_call
        split: option.splits sum.splits)
qed (use assms in \<open>auto simp: start_api_call_def record_cache_hit_def
      plan_slots_reserve_api_call plan_slots_stale reconcile_stale_api_call_attempts_def Let_def
      split: if_splits\<close>)

interpretation plan_slots: request_machine attempt_step plan_slots_unique
  by unfold_locales (rule attempt_step_plan_slots)

text \<open>
  A planned request is spent once. Whatever the clients of a scan do, its attempts never
  hold two rows for one planned request: a failed attempt is reused for the retry and a
  consumed one is refused, so the number of paid calls of a scan is bounded by its plan.
\<close>

theorem planned_request_single_attempt:
  assumes "api_calls d = []"
    and "c1 \<in> set (api_calls (run_requests attempt_step d ops))"
    and "c2 \<in> set (api_calls (run_requests attempt_step d ops))"
    and "ac_scan_run_id c1 = Some sid" "ac_scan_run_id c2 = Some sid"
    and "ac_planned_request_id c1 = Some pid" "ac_planned_request_id c2 = Some pid"
  shows "c1 = c2"
proof -
  have "plan_slots_unique d" using assms(1) by (simp add: plan_slots_unique_def)
  then have "plan_slots_unique (run_requests attempt_step d ops)" by (rule plan_slots.run_inv)
  then show ?thesis
    unfolding plan_slots_unique_def
    by (rule at_most_one_unique) (use assms in \<open>auto simp: plan_slot_def planned_attempt_def\<close>)
qed

section \<open>Witnesses\<close>

definition sample_plan :: scan_plan_call where
  "sample_plan = blank_scan_plan_call\<lparr>spc_id := 1, spc_scan_run_id := 7,
     spc_planned_request_id := Some ''p1'', spc_provider := ''dataforseo-sandbox'',
     spc_endpoint := ''/v3/serp'', spc_cache_key := ''k'', spc_request_known := True,
     spc_estimated_cost_usd := 1 / 2\<rparr>"

definition sample_plan_db :: database where
  "sample_plan_db = empty_db\<lparr>scan_plan_calls := [sample_plan]\<rparr>"

definition sample_client :: live_client where
  "sample_client = (make_live_client sample_settings False False)\<lparr>lc_current_scan_run_id := Some 7\<rparr>"

definition sample_ops :: "attempt_op list" where
  "sample_ops = [StartAttempt sample_client ''/v3/serp'' ''k'' ''tok'' 10,
     ReserveAttempt sample_settings sample_client ''/v3/serp'' 1 11]"

theorem planned_request_single_attempt_witness:
  "\<exists>c. set (api_calls (run_requests attempt_step sample_plan_db sample_ops)) = {c} \<and>
     ac_planned_request_id c = Some ''p1''"
proof -
  let ?calls = "api_calls (run_requests attempt_step sample_plan_db sample_ops)"
  have ex: "length ?calls = 1 \<and> ac_scan_run_id (hd ?calls) = Some 7 \<and>
      ac_planned_request_id (hd ?calls) = Some ''p1''" by code_simp
  then have hd: "hd ?calls \<in> set ?calls" by (intro list.set_sel) auto
  have all: "ac_scan_run_id c = Some 7 \<and> ac_planned_request_id c = Some ''p1''"
    if "c \<in> set ?calls" for c
    using that ex by (cases ?calls) auto
  have "api_calls sample_plan_db = []" by (simp add: sample_plan_db_def empty_db_def)
  from planned_request_single_attempt [OF this] hd all ex
  have "set ?calls = {hd ?calls}" by blast
  with ex show ?thesis by blast
qed

end
