(* ===== verification/Call_Sessions.thy ===== *)
theory Call_Sessions
  imports Live_Client "HOL-Library.AList"
begin

text \<open>
  The database sessions in which the clients of \<open>integrations/dataforseo/live.py\<close> make their paid
  calls, and the histories in which clients, the recovery of stale attempts and the operator
  interleave. Sessions are made with \<open>expire_on_commit=False\<close> (\<open>db/base.py\<close>): from the start of an
  attempt until it is settled a session works on the row and the reservation it holds in memory,
  and \<open>SELECT ... FOR UPDATE\<close> does not refresh a row that is already loaded. What another
  transaction commits to that row in the meantime is not seen, and a flush writes the columns the
  session itself has changed. Usage buckets are not held between statements and are read afresh.
\<close>

section \<open>What a session sees and writes\<close>

definition session_view :: "api_call \<Rightarrow> database \<Rightarrow> database" where
  "session_view c d = update_call (ac_id c) (\<lambda>_. c) d"

definition written :: "'a \<Rightarrow> 'a \<Rightarrow> 'a \<Rightarrow> 'a" where
  "written before after stored = (if after = before then stored else after)"

text \<open>The row \<open>row\<close> after an \<open>UPDATE\<close> of the columns in which the row in memory went from \<open>c\<close> to \<open>c'\<close>.\<close>

definition flush_row :: "api_call \<Rightarrow> api_call \<Rightarrow> api_call \<Rightarrow> api_call" where
  "flush_row c c' row = row\<lparr>
     ac_scan_run_id := written (ac_scan_run_id c) (ac_scan_run_id c') (ac_scan_run_id row),
     ac_planned_request_id := written (ac_planned_request_id c) (ac_planned_request_id c') (ac_planned_request_id row),
     ac_raw_api_response_id := written (ac_raw_api_response_id c) (ac_raw_api_response_id c') (ac_raw_api_response_id row),
     ac_provider := written (ac_provider c) (ac_provider c') (ac_provider row),
     ac_endpoint := written (ac_endpoint c) (ac_endpoint c') (ac_endpoint row),
     ac_stage := written (ac_stage c) (ac_stage c') (ac_stage row),
     ac_cache_key := written (ac_cache_key c) (ac_cache_key c') (ac_cache_key row),
     ac_cache_hit := written (ac_cache_hit c) (ac_cache_hit c') (ac_cache_hit row),
     ac_force_refresh := written (ac_force_refresh c) (ac_force_refresh c') (ac_force_refresh row),
     ac_estimated_cost_usd := written (ac_estimated_cost_usd c) (ac_estimated_cost_usd c') (ac_estimated_cost_usd row),
     ac_actual_cost_usd := written (ac_actual_cost_usd c) (ac_actual_cost_usd c') (ac_actual_cost_usd row),
     ac_status := written (ac_status c) (ac_status c') (ac_status row),
     ac_error_type := written (ac_error_type c) (ac_error_type c') (ac_error_type row),
     ac_error_summary := written (ac_error_summary c) (ac_error_summary c') (ac_error_summary row),
     ac_started_at := written (ac_started_at c) (ac_started_at c') (ac_started_at row),
     ac_completed_at := written (ac_completed_at c) (ac_completed_at c') (ac_completed_at row),
     ac_provider_task_id := written (ac_provider_task_id c) (ac_provider_task_id c') (ac_provider_task_id row),
     ac_provider_request_id := written (ac_provider_request_id c) (ac_provider_request_id c') (ac_provider_request_id row),
     ac_attempt_token := written (ac_attempt_token c) (ac_attempt_token c') (ac_attempt_token row),
     ac_attempt_state := written (ac_attempt_state c) (ac_attempt_state c') (ac_attempt_state row),
     ac_provider_outcome := written (ac_provider_outcome c) (ac_provider_outcome c') (ac_provider_outcome row),
     ac_reservation_state := written (ac_reservation_state c) (ac_reservation_state c') (ac_reservation_state row),
     ac_reservation_usage_date := written (ac_reservation_usage_date c) (ac_reservation_usage_date c') (ac_reservation_usage_date row),
     ac_reservation_usage_class := written (ac_reservation_usage_class c) (ac_reservation_usage_class c') (ac_reservation_usage_class row),
     ac_reservation_estimated_cost_usd := written (ac_reservation_estimated_cost_usd c) (ac_reservation_estimated_cost_usd c') (ac_reservation_estimated_cost_usd row),
     ac_network_started_at := written (ac_network_started_at c) (ac_network_started_at c') (ac_network_started_at row),
     ac_reconciled_at := written (ac_reconciled_at c) (ac_reconciled_at c') (ac_reconciled_at row),
     ac_execution_worker_id := written (ac_execution_worker_id c) (ac_execution_worker_id c') (ac_execution_worker_id row),
     ac_execution_lease_token := written (ac_execution_lease_token c) (ac_execution_lease_token c') (ac_execution_lease_token row)\<rparr>"

text \<open>The row in memory after an operation that led from \<open>session_view c d\<close> to \<open>d'\<close>, and what is stored.\<close>

definition session_row :: "api_call \<Rightarrow> database \<Rightarrow> api_call" where
  "session_row c d' = (case tget ac_id (ac_id c) (api_calls d') of None \<Rightarrow> c | Some c' \<Rightarrow> c')"

definition flush_session :: "api_call \<Rightarrow> database \<Rightarrow> database \<Rightarrow> database" where
  "flush_session c d d' =
     (case tget ac_id (ac_id c) (api_calls d) of
        None \<Rightarrow> d'
      | Some row \<Rightarrow> update_call (ac_id c) (\<lambda>_. flush_row c (session_row c d') row) d')"

section \<open>Histories\<close>

text \<open>
  A session makes one request at a time: it holds the attempt it started, and its reservation once
  it has one, until the request is completed, fails or is cancelled, or the worker dies.
\<close>

record call_session =
  ks_client :: live_client
  ks_path :: string
  ks_attempt :: api_call
  ks_reservation :: "usage_reservation option"

record call_state =
  kt_db :: database
  kt_sessions :: "(nat \<times> call_session) list"

datatype call_op =
  StartCall nat live_client string string string instant
| CacheHitCall live_client string string raw_response string instant
| ReserveCall nat settings instant
| SubmitCall nat instant
| CompleteCall nat settings reply_payload "string \<times> int option" instant
| FailCall nat "live_error \<Rightarrow> string" live_error bool instant
| CancelCall nat instant
| WorkerDies nat
| RecoverStale instant "int option" instant
| ResolveUnknown int string usd string instant

definition keep_session :: "nat \<Rightarrow> call_session \<Rightarrow> usage_reservation option \<Rightarrow> database \<Rightarrow> call_state \<Rightarrow> call_state" where
  "keep_session sid k reservation d' st =
     \<lparr>kt_db = flush_session (ks_attempt k) (kt_db st) d',
      kt_sessions = dict_put sid (k\<lparr>ks_attempt := session_row (ks_attempt k) d', ks_reservation := reservation\<rparr>)
        (kt_sessions st)\<rparr>"

definition end_session :: "nat \<Rightarrow> call_session \<Rightarrow> database \<Rightarrow> call_state \<Rightarrow> call_state" where
  "end_session sid k d' st =
     \<lparr>kt_db = flush_session (ks_attempt k) (kt_db st) d', kt_sessions = AList.delete sid (kt_sessions st)\<rparr>"

text \<open>
  A client reserves under the provider and the endpoint its attempt was recorded with.
\<close>

fun session_step :: "nat \<Rightarrow> call_session \<Rightarrow> call_state \<Rightarrow> call_op \<Rightarrow> call_refusal + call_state" where
  "session_step sid k st (ReserveCall _ s now) =
     (let c = ks_attempt k in
      if ac_provider c \<noteq> lc_provider_name (ks_client k) \<or> ac_endpoint c \<noteq> ks_path k then Inl NotThisAttempt
      else (case reserve_provider_call s (session_view c (kt_db st)) (reserve_call_args (ks_client k) (ks_path k) c) now of
              Inl e \<Rightarrow> Inl (Refusal e)
            | Inr (r, d') \<Rightarrow> Inr (keep_session sid k (Some r) d' st)))"
| "session_step sid k st (SubmitCall _ now) =
     (case ks_reservation k of
        None \<Rightarrow> Inl NotThisAttempt
      | Some r \<Rightarrow>
          (case mark_provider_call_submitted (session_view (ks_attempt k) (kt_db st)) r
                  (lc_execution_lease (ks_client k)) now of
             Inl e \<Rightarrow> Inl (Refusal e)
           | Inr d' \<Rightarrow> Inr (keep_session sid k (Some r) d' st)))"
| "session_step sid k st (CompleteCall _ s payload stored now) =
     (case ks_reservation k of
        None \<Rightarrow> Inl NotThisAttempt
      | Some r \<Rightarrow> Inr (end_session sid k
          (complete_call s (ks_client k) (session_view (ks_attempt k) (kt_db st)) (ac_id (ks_attempt k)) r payload stored now) st))"
| "session_step sid k st (FailCall _ text_of exc responded now) =
     Inr (end_session sid k
       (fail_call text_of (ks_client k) (session_view (ks_attempt k) (kt_db st)) (ac_id (ks_attempt k))
          (ks_reservation k) exc responded now) st)"
| "session_step sid k st (CancelCall _ now) =
     Inr (end_session sid k
       (finish_unknown_attempt (ks_client k) (session_view (ks_attempt k) (kt_db st)) (ac_id (ks_attempt k))
          (ks_reservation k) now) st)"
| "session_step sid k st _ = Inl NotThisAttempt"

definition in_session :: "nat \<Rightarrow> call_state \<Rightarrow> call_op \<Rightarrow> call_refusal + call_state" where
  "in_session sid st opn =
     (case map_of (kt_sessions st) sid of None \<Rightarrow> Inl NotThisAttempt | Some k \<Rightarrow> session_step sid k st opn)"

fun call_step :: "call_state \<Rightarrow> call_op \<Rightarrow> call_refusal + call_state" where
  "call_step st (StartCall sid cl path key token now) =
     (if path = [] \<or> map_of (kt_sessions st) sid \<noteq> None then Inl NotThisAttempt
      else (case start_api_call (kt_db st) cl path key token now of
              (Inl e, d') \<Rightarrow> Inr (st\<lparr>kt_db := d'\<rparr>)
            | (Inr i, d') \<Rightarrow>
                (case tget ac_id i (api_calls d') of
                   None \<Rightarrow> Inl NotThisAttempt
                 | Some c \<Rightarrow> Inr \<lparr>kt_db = d', kt_sessions = dict_put sid
                     \<lparr>ks_client = cl, ks_path = path, ks_attempt = c, ks_reservation = None\<rparr> (kt_sessions st)\<rparr>)))"
| "call_step st (CacheHitCall cl path key raw token now) =
     (if path = [] then Inl NotThisAttempt
      else Inr (st\<lparr>kt_db := snd (record_cache_hit (kt_db st) cl path key raw token now)\<rparr>))"
| "call_step st (WorkerDies sid) = Inr (st\<lparr>kt_sessions := AList.delete sid (kt_sessions st)\<rparr>)"
| "call_step st (RecoverStale before scan_id now) =
     Inr (st\<lparr>kt_db := snd (reconcile_stale_api_call_attempts (kt_db st) before scan_id now)\<rparr>)"
| "call_step st (ResolveUnknown i outcome actual note now) =
     (case resolve_unknown_provider_call (kt_db st) i outcome actual note now of
        Inl e \<Rightarrow> Inl (Refusal e) | Inr d' \<Rightarrow> Inr (st\<lparr>kt_db := d'\<rparr>))"
| "call_step st (ReserveCall sid s now) = in_session sid st (ReserveCall sid s now)"
| "call_step st (SubmitCall sid now) = in_session sid st (SubmitCall sid now)"
| "call_step st (CompleteCall sid s payload stored now) = in_session sid st (CompleteCall sid s payload stored now)"
| "call_step st (FailCall sid text_of exc responded now) = in_session sid st (FailCall sid text_of exc responded now)"
| "call_step st (CancelCall sid now) = in_session sid st (CancelCall sid now)"

text \<open>
  A history in which recovery only settles attempts no session holds any more: its cutoff lies
  before the start of every attempt a live session works on.
\<close>

definition recovery_waits :: "call_state \<Rightarrow> call_op \<Rightarrow> bool" where
  "recovery_waits st opn =
     (case opn of
        RecoverStale before scan_id _ \<Rightarrow>
          list_all (\<lambda>(_, k). \<not> stale_attempt before scan_id (ks_attempt k)) (kt_sessions st)
      | _ \<Rightarrow> True)"

fun undisturbed :: "call_state \<Rightarrow> call_op list \<Rightarrow> bool" where
  "undisturbed st [] = True"
| "undisturbed st (opn # ops) =
     (recovery_waits st opn \<and>
      undisturbed (case call_step st opn of Inl _ \<Rightarrow> st | Inr st' \<Rightarrow> st') ops)"

section \<open>Current sessions\<close>

text \<open>
  While every session's row is the stored one, a session step is the step of \<open>attempt_step\<close> on the
  database itself.
\<close>

definition session_ok :: "database \<Rightarrow> call_session \<Rightarrow> bool" where
  "session_ok d k \<longleftrightarrow> tget ac_id (ac_id (ks_attempt k)) (api_calls d) = Some (ks_attempt k) \<and>
     ks_reservation k = held_reservation (ks_attempt k) \<and>
     ac_attempt_state (ks_attempt k) \<in> {''prepared'', ''reserved'', ''in_flight''}"

definition sessions_ok :: "call_state \<Rightarrow> bool" where
  "sessions_ok st \<longleftrightarrow>
     (\<forall>sid k. map_of (kt_sessions st) sid = Some k \<longrightarrow> session_ok (kt_db st) k) \<and>
     (\<forall>sid sid' k k'. map_of (kt_sessions st) sid = Some k \<longrightarrow> map_of (kt_sessions st) sid' = Some k' \<longrightarrow>
        ac_id (ks_attempt k) = ac_id (ks_attempt k') \<longrightarrow> sid = sid')"

definition other_calls_kept :: "int \<Rightarrow> database \<Rightarrow> database \<Rightarrow> bool" where
  "other_calls_kept i d d' \<longleftrightarrow> (\<forall>j. j \<noteq> i \<longrightarrow> tget ac_id j (api_calls d') = tget ac_id j (api_calls d))"

lemma tupd_const: "keys_distinct key rows \<Longrightarrow> tget key i rows = Some x \<Longrightarrow> tupd key i (\<lambda>_. x) rows = rows"
  using tget_in_set [of key rows] by (fastforce simp: tupd_def intro!: map_idI)

lemma update_call_const:
  "keys_distinct ac_id (api_calls d) \<Longrightarrow> tget ac_id i (api_calls d) = Some c \<Longrightarrow> update_call i (\<lambda>_. c) d = d"
  by (simp add: update_call_def tupd_const)

lemma flush_row_same: "ac_id c' = ac_id c \<Longrightarrow> flush_row c c' c = c'"
  by (simp add: flush_row_def written_def)

lemma session_view_current:
  "keys_distinct ac_id (api_calls d) \<Longrightarrow> session_ok d k \<Longrightarrow> session_view (ks_attempt k) d = d"
  by (simp add: session_view_def session_ok_def update_call_const)

lemma flush_current:
  assumes "session_ok d k" "keys_distinct ac_id (api_calls d')"
    and "tget ac_id (ac_id (ks_attempt k)) (api_calls d') = Some c'"
  shows "flush_session (ks_attempt k) d d' = d'" "session_row (ks_attempt k) d' = c'"
  using assms tget_Some_key [OF assms(3)]
  by (simp_all add: flush_session_def session_row_def session_ok_def flush_row_same update_call_const)

lemma map_of_delete [simp]: "map_of (AList.delete sid sessions) = (map_of sessions)(sid := None)"
  by (rule delete_conv')

lemma session_ok_kept:
  "session_ok d k \<Longrightarrow> other_calls_kept i d d' \<Longrightarrow> ac_id (ks_attempt k) \<noteq> i \<Longrightarrow> session_ok d' k"
  by (simp add: session_ok_def other_calls_kept_def)

lemma keep_session_ok:
  assumes "sessions_ok st" "map_of (kt_sessions st) sid = Some k" "keys_distinct ac_id (api_calls d')"
    and "tget ac_id (ac_id (ks_attempt k)) (api_calls d') = Some c'" "other_calls_kept (ac_id (ks_attempt k)) (kt_db st) d'"
    and "reservation = held_reservation c'" "ac_attempt_state c' \<in> {''prepared'', ''reserved'', ''in_flight''}"
  shows "kt_db (keep_session sid k reservation d' st) = d' \<and> sessions_ok (keep_session sid k reservation d' st)"
proof -
  have k: "session_ok (kt_db st) k" using assms(1,2) by (simp add: sessions_ok_def)
  note flush = flush_current [OF k assms(3,4)]
  have id: "ac_id c' = ac_id (ks_attempt k)" using tget_Some_key [OF assms(4)] by simp
  have "session_ok d' k'" if "map_of (kt_sessions st) sid' = Some k'" "sid' \<noteq> sid" for sid' k'
    using that assms(1,2,5) by (intro session_ok_kept [OF _ assms(5)]) (auto simp: sessions_ok_def)
  moreover have "session_ok d' (k\<lparr>ks_attempt := c', ks_reservation := reservation\<rparr>)"
    using assms(4,6,7) id by (simp add: session_ok_def)
  ultimately show ?thesis
    using assms(1,2) id by (auto simp: keep_session_def flush sessions_ok_def split: if_splits)
qed

lemma end_session_ok:
  assumes "sessions_ok st" "map_of (kt_sessions st) sid = Some k" "keys_distinct ac_id (api_calls d')"
    and "tget ac_id (ac_id (ks_attempt k)) (api_calls d') = Some c'" "other_calls_kept (ac_id (ks_attempt k)) (kt_db st) d'"
  shows "kt_db (end_session sid k d' st) = d' \<and> sessions_ok (end_session sid k d' st)"
proof -
  have k: "session_ok (kt_db st) k" using assms(1,2) by (simp add: sessions_ok_def)
  note flush = flush_current [OF k assms(3,4)]
  have "session_ok d' k'" if "map_of (kt_sessions st) sid' = Some k'" "sid' \<noteq> sid" for sid' k'
    using that assms(1,2,5) by (intro session_ok_kept [OF _ assms(5)]) (auto simp: sessions_ok_def)
  then show ?thesis
    using assms(1,2) by (auto simp: end_session_def flush sessions_ok_def split: if_splits)
qed

lemma other_calls_update [simp]: "(\<And>c. ac_id (f c) = ac_id c) \<Longrightarrow> other_calls_kept i d (update_call i f d)"
  by (simp add: other_calls_kept_def update_call_def tget_tupd_other)

lemma other_calls_trans: "other_calls_kept i d d1 \<Longrightarrow> other_calls_kept i d1 d2 \<Longrightarrow> other_calls_kept i d d2"
  by (simp add: other_calls_kept_def)

lemma other_calls_refl [simp]: "other_calls_kept i d d"
  by (simp add: other_calls_kept_def)

lemma other_calls_finish:
  assumes "tget ac_id i (api_calls d) = Some c" "ur_api_call_id r = Some i"
  shows "other_calls_kept i d (finish_provider_call d r a t)"
  using api_calls_finish(1) [OF assms, of a t] by (simp add: other_calls_kept_def tget_tupd_other)

section \<open>Session steps as steps of the attempts\<close>

lemma settle_session:
  assumes "tget ac_id i (api_calls d) = Some c" "ur_api_call_id r = Some i" "\<And>x. ac_id (f x) = ac_id x"
  shows "other_calls_kept i d (finish_provider_call (update_call i f d) r a t) \<and>
    (\<exists>c'. tget ac_id i (api_calls (finish_provider_call (update_call i f d) r a t)) = Some c')"
proof -
  have c: "tget ac_id i (api_calls (update_call i f d)) = Some (f c)"
    using assms(1,3) by (auto simp: table_simps tget_tupd dest: tget_Some_key)
  show ?thesis
    using other_calls_trans [OF other_calls_update other_calls_finish [OF c assms(2), of a t]] assms(3) c
      api_calls_finish(1) [OF c assms(2), of a t]
    by (auto simp: tget_tupd assms(3))
qed

lemma complete_call_session:
  assumes "tget ac_id i (api_calls d) = Some c"
  shows "other_calls_kept i d (complete_call s cl d i (reservation_of c) payload stored now) \<and>
    (\<exists>c'. tget ac_id i (api_calls (complete_call s cl d i (reservation_of c) payload stored now)) = Some c')"
  unfolding complete_call_def Let_def
  by (rule settle_session [OF assms]) (use tget_Some_key [OF assms] in \<open>simp_all add: reservation_of_def\<close>)

lemma update_call_session:
  assumes "tget ac_id i (api_calls d) = Some c" "\<And>x. ac_id (f x) = ac_id x"
  shows "other_calls_kept i d (update_call i f d) \<and> (\<exists>c'. tget ac_id i (api_calls (update_call i f d)) = Some c')"
  using assms by (simp add: table_simps tget_tupd)

lemma fail_call_session:
  assumes "tget ac_id i (api_calls d) = Some c"
  shows "other_calls_kept i d (fail_call text_of cl d i (held_reservation c) exc responded now) \<and>
    (\<exists>c'. tget ac_id i (api_calls (fail_call text_of cl d i (held_reservation c) exc responded now)) = Some c')"
proof (cases "held_reservation c")
  case None
  show ?thesis unfolding fail_call_def None Let_def option.case by (rule update_call_session [OF assms]) simp
next
  case (Some r)
  then have "ur_api_call_id r = Some i"
    using tget_Some_key [OF assms] by (auto simp: held_reservation_def reservation_of_def split: if_splits)
  then show ?thesis unfolding fail_call_def Some Let_def option.case by (intro settle_session [OF assms]) simp_all
qed

lemma cancel_call_session:
  assumes "tget ac_id i (api_calls d) = Some c"
  shows "other_calls_kept i d (finish_unknown_attempt cl d i (held_reservation c) now) \<and>
    (\<exists>c'. tget ac_id i (api_calls (finish_unknown_attempt cl d i (held_reservation c) now)) = Some c')"
proof (cases "held_reservation c")
  case None
  then show ?thesis using assms by (simp add: finish_unknown_attempt_def)
next
  case (Some r)
  then have "ur_api_call_id r = Some i"
    using tget_Some_key [OF assms] by (auto simp: held_reservation_def reservation_of_def split: if_splits)
  then show ?thesis unfolding finish_unknown_attempt_def Some Let_def option.case by (intro settle_session [OF assms]) simp_all
qed

lemma reserve_session:
  assumes c: "tget ac_id i (api_calls d) = Some c" "ac_provider c = lc_provider_name cl" "ac_endpoint c = path"
    and r: "reserve_provider_call s d (reserve_call_args cl path c) now = Inr (r, d')"
  shows "other_calls_kept i d d'"
    "\<exists>c'. tget ac_id i (api_calls d') = Some c' \<and> held_reservation c' = Some r \<and> ac_attempt_state c' = ''reserved''"
proof -
  let ?f = "reserve_attempt (date_of now) (usage_class_of (lc_api_environment cl)) (ac_estimated_cost_usd c)"
  have i: "ac_id c = i" using tget_Some_key [OF c(1)] by simp
  have calls: "api_calls d' = tupd ac_id i ?f (api_calls d)"
    and res: "r = \<lparr>ur_usage_date = date_of now, ur_usage_class = usage_class_of (lc_api_environment cl),
       ur_provider = lc_provider_name cl, ur_endpoint = path, ur_estimated_cost_usd = ac_estimated_cost_usd c,
       ur_api_call_id = Some i\<rparr>"
    using r i by (auto simp: reserve_provider_call_Inr Let_def reserve_call_args_def table_simps)
  show "other_calls_kept i d d'" using calls by (simp add: other_calls_kept_def tget_tupd_other reserve_attempt_def)
  have "tget ac_id i (api_calls d') = Some (?f c)" using c(1) i by (simp add: calls tget_tupd reserve_attempt_def)
  then show "\<exists>c'. tget ac_id i (api_calls d') = Some c' \<and> held_reservation c' = Some r \<and> ac_attempt_state c' = ''reserved''"
    using res c(2,3) i by (simp add: held_reservation_def reservation_of_def reserve_attempt_def)
qed

lemma submit_session:
  assumes c: "tget ac_id i (api_calls d) = Some c" and r: "ur_api_call_id r = Some i"
    and s: "mark_provider_call_submitted d r lease now = Inr d'"
  shows "other_calls_kept i d d'"
    "\<exists>c'. tget ac_id i (api_calls d') = Some c' \<and> held_reservation c' = held_reservation c \<and> ac_attempt_state c' = ''in_flight''"
proof -
  let ?f = "\<lambda>c. c\<lparr>ac_attempt_state := ''in_flight'', ac_provider_outcome := ''submitted'',
      ac_network_started_at := Some now, ac_status := ''in_flight''\<rparr>"
  have d': "d' = update_call i ?f d" using s c r by (auto simp: mark_provider_call_submitted_def split: option.splits)
  show "other_calls_kept i d d'" by (simp add: d')
  have "tget ac_id i (api_calls d') = Some (?f c)" using c tget_Some_key [OF c] by (simp add: d' table_simps tget_tupd)
  then show "\<exists>c'. tget ac_id i (api_calls d') = Some c' \<and> held_reservation c' = held_reservation c \<and> ac_attempt_state c' = ''in_flight''"
    by (simp add: held_reservation_def reservation_of_def)
qed

lemma live_not_retryable:
  assumes "paid_calls_ok d" "session_ok d k"
  shows "ac_status (ks_attempt k) \<notin> set retryable_statuses"
proof -
  have "attempt_lifecycle (ks_attempt k)"
    using assms by (auto simp: paid_calls_ok_def session_ok_def dest!: tget_Some_key)
  with assms(2) show ?thesis
    by (auto simp: attempt_lifecycle_def session_ok_def retryable_statuses_def)
qed

lemma tget_append_some: "tget key i rows = Some x \<Longrightarrow> tget key i (rows @ ys) = Some x"
  by (induction rows) (auto simp: tget_def select_first_def)

lemma record_attempt_live:
  assumes ok: "paid_calls_ok d" and k: "session_ok d k"
  shows "session_ok (snd (reserve_api_call d cl path key hit force st raw token now)) k"
proof (cases rule: reserve_api_call_cases [of d cl path key hit force st raw token now])
  case (retry c)
  have "ac_id c \<noteq> ac_id (ks_attempt k)"
  proof
    assume same: "ac_id c = ac_id (ks_attempt k)"
    have "keys_distinct ac_id (api_calls d)" using ok by (simp add: paid_calls_ok_def ledger_ok_def)
    from tget_in_set [OF this retry(1)] k same have "c = ks_attempt k" by (simp add: session_ok_def)
    with retry(2) live_not_retryable [OF ok k] show False by simp
  qed
  then show ?thesis
    by (simp only: retry(3)) (rule session_ok_kept [OF k other_calls_update], simp_all)
next
  case (new pid)
  then show ?thesis using k by (simp add: session_ok_def tget_append_some)
qed (use k in \<open>simp_all add: session_ok_def table_simps\<close>)

lemma started_attempt:
  assumes "start_api_call d cl path key token now = (Inr i, d')" "keys_distinct ac_id (api_calls d)"
  shows "\<exists>c. tget ac_id i (api_calls d') = Some c \<and> held_reservation c = None \<and> ac_attempt_state c = ''prepared'' \<and>
    (\<forall>c0. tget ac_id i (api_calls d) = Some c0 \<longrightarrow> ac_status c0 \<in> set retryable_statuses)"
proof -
  define plan where "plan = planned_call d cl path key"
  define pid where "pid = Option.bind plan spc_planned_request_id"
  define retry_row where "retry_row = (if pid \<noteq> None \<and> lc_current_scan_run_id cl \<noteq> None
    then select_first (\<lambda>c. ac_scan_run_id c = lc_current_scan_run_id cl \<and>
      ac_planned_request_id c = pid \<and> ac_status c \<in> set retryable_statuses) (api_calls d)
    else None)"
  note eq = assms(1) [unfolded start_api_call_def reserve_api_call_def Let_def, folded plan_def, folded pid_def,
      folded retry_row_def]
  show ?thesis
  proof (cases retry_row)
    case (Some c)
    then have c: "c \<in> set (api_calls d)" "ac_status c \<in> set retryable_statuses"
      by (auto simp: retry_row_def split: if_splits dest: select_first_Some)
    have t: "tget ac_id (ac_id c) (api_calls d) = Some c" by (rule tget_in_set [OF assms(2) c(1)])
    from eq Some have "i = ac_id c" "d' = update_call i (reset_attempt cl False (lc_force_refresh cl) ''prepared'' None token now) d"
      by (auto split: if_splits)
    with t c(2) show ?thesis
      by (simp add: table_simps tget_tupd held_reservation_def reset_attempt_def Let_def split: option.splits)
  next
    case None
    with eq obtain row where "i = next_id ac_id (api_calls d)" "api_calls d' = api_calls d @ [row]"
      "row = new_attempt cl path key plan False (lc_force_refresh cl) ''prepared'' None token now i"
      by (auto split: if_splits)
    moreover have "tget ac_id (next_id ac_id (api_calls d)) (api_calls d) = None"
    proof (cases "tget ac_id (next_id ac_id (api_calls d)) (api_calls d)")
      case (Some c)
      from tget_Some_key [OF this] next_id_fresh [of ac_id "api_calls d"] show ?thesis by force
    qed
    ultimately show ?thesis
      by (simp add: tget_append new_attempt_def held_reservation_def)
  qed
qed

lemma sessions_ok_db:
  assumes "sessions_ok st" "\<And>k. k \<in> snd ` set (kt_sessions st) \<Longrightarrow> session_ok (kt_db st) k \<Longrightarrow> session_ok d' k"
  shows "sessions_ok (st\<lparr>kt_db := d'\<rparr>)"
proof -
  have "session_ok d' k" if "map_of (kt_sessions st) sid = Some k" for sid k
    using assms(1) that map_of_SomeD [OF that] by (intro assms(2)) (force simp: sessions_ok_def)+
  with assms(1) show ?thesis by (simp add: sessions_ok_def)
qed

lemma reserve_step_simulated:
  assumes ok: "paid_calls_ok (kt_db st)" "sessions_ok st" and k: "map_of (kt_sessions st) sid = Some k"
    and step: "session_step sid k st (ReserveCall sid' s now) = Inr st'"
  shows "(\<exists>aop. attempt_step (kt_db st) aop = Inr (kt_db st')) \<and> sessions_ok st'"
proof -
  let ?d = "kt_db st" let ?c = "ks_attempt k" let ?cl = "ks_client k"
  let ?args = "reserve_call_args ?cl (ks_path k) ?c"
  have live: "session_ok ?d k" using ok(2) k by (simp add: sessions_ok_def)
  then have c: "tget ac_id (ac_id ?c) (api_calls ?d) = Some ?c" by (simp add: session_ok_def)
  have view: "session_view ?c ?d = ?d"
    using ok(1) by (intro session_view_current [OF _ live]) (simp add: paid_calls_ok_def ledger_ok_def)
  have same: "ac_provider ?c = lc_provider_name ?cl" "ac_endpoint ?c = ks_path k"
    using step by (simp_all add: Let_def split: if_splits)
  show ?thesis
  proof (cases "reserve_provider_call s ?d ?args now")
    case (Inl e)
    then show ?thesis using step by (simp add: Let_def view same)
  next
    case (Inr p)
    obtain r d' where p: "p = (r, d')" by (cases p)
    note res = Inr [unfolded p]
    have st': "st' = keep_session sid k (Some r) d' st" using step by (simp add: Let_def view same res)
    have a: "attempt_step ?d (ReserveAttempt s ?cl (ks_path k) (ac_id ?c) now) = Inr d'"
      by (simp add: c same res)
    have dist': "keys_distinct ac_id (api_calls d')"
      using attempt_step_keeps_paid_calls [OF ok(1) a] by (simp add: paid_calls_ok_def ledger_ok_def)
    from reserve_session(2) [OF c same res] obtain c' where
      c': "tget ac_id (ac_id ?c) (api_calls d') = Some c'" "held_reservation c' = Some r" "ac_attempt_state c' = ''reserved''"
      by blast
    have "kt_db st' = d' \<and> sessions_ok st'"
      unfolding st' by (rule keep_session_ok [OF ok(2) k dist' c'(1) reserve_session(1) [OF c same res]]) (simp_all add: c'(2,3))
    with a show ?thesis by blast
  qed
qed

lemma submit_step_simulated:
  assumes ok: "paid_calls_ok (kt_db st)" "sessions_ok st" and k: "map_of (kt_sessions st) sid = Some k"
    and step: "session_step sid k st (SubmitCall sid' now) = Inr st'"
  shows "(\<exists>aop. attempt_step (kt_db st) aop = Inr (kt_db st')) \<and> sessions_ok st'"
proof -
  let ?d = "kt_db st" let ?c = "ks_attempt k" let ?cl = "ks_client k"
  have live: "session_ok ?d k" using ok(2) k by (simp add: sessions_ok_def)
  then have c: "tget ac_id (ac_id ?c) (api_calls ?d) = Some ?c" and h: "ks_reservation k = held_reservation ?c"
    by (simp_all add: session_ok_def)
  have view: "session_view ?c ?d = ?d"
    using ok(1) by (intro session_view_current [OF _ live]) (simp add: paid_calls_ok_def ledger_ok_def)
  obtain r where r: "held_reservation ?c = Some r" using step h by (cases "held_reservation ?c") simp_all
  then have res: "r = reservation_of ?c" by (simp add: held_reservation_def split: if_splits)
  then have rid: "ur_api_call_id r = Some (ac_id ?c)" by (simp add: reservation_of_def)
  show ?thesis
  proof (cases "mark_provider_call_submitted ?d r (lc_execution_lease ?cl) now")
    case (Inl e)
    then show ?thesis using step by (simp add: h r view)
  next
    case (Inr d')
    have st': "st' = keep_session sid k (Some r) d' st" using step by (simp add: h r view Inr)
    have a: "attempt_step ?d (SubmitAttempt ?cl (ac_id ?c) now) = Inr d'" by (simp add: c Inr [unfolded res])
    have dist': "keys_distinct ac_id (api_calls d')"
      using attempt_step_keeps_paid_calls [OF ok(1) a] by (simp add: paid_calls_ok_def ledger_ok_def)
    from submit_session(2) [OF c rid Inr] r obtain c' where
      c': "tget ac_id (ac_id ?c) (api_calls d') = Some c'" "held_reservation c' = Some r" "ac_attempt_state c' = ''in_flight''"
      by metis
    have "kt_db st' = d' \<and> sessions_ok st'"
      unfolding st' by (rule keep_session_ok [OF ok(2) k dist' c'(1) submit_session(1) [OF c rid Inr]]) (simp_all add: c'(2,3))
    with a show ?thesis by blast
  qed
qed

text \<open>The three ways to end a request.\<close>

lemma end_step_simulated:
  assumes ok: "paid_calls_ok (kt_db st)" "sessions_ok st" and k: "map_of (kt_sessions st) sid = Some k"
    and a: "attempt_step (kt_db st) aop = Inr d'"
    and kept: "other_calls_kept (ac_id (ks_attempt k)) (kt_db st) d' \<and>
      (\<exists>c'. tget ac_id (ac_id (ks_attempt k)) (api_calls d') = Some c')"
  shows "(\<exists>aop. attempt_step (kt_db st) aop = Inr (kt_db (end_session sid k d' st))) \<and> sessions_ok (end_session sid k d' st)"
proof -
  have dist': "keys_distinct ac_id (api_calls d')"
    using attempt_step_keeps_paid_calls [OF ok(1) a] by (simp add: paid_calls_ok_def ledger_ok_def)
  from kept obtain c' where "tget ac_id (ac_id (ks_attempt k)) (api_calls d') = Some c'" by blast
  from end_session_ok [OF ok(2) k dist' this] kept a show ?thesis by metis
qed

lemma session_step_simulated:
  assumes ok: "paid_calls_ok (kt_db st)" "sessions_ok st" and k: "map_of (kt_sessions st) sid = Some k"
    and step: "session_step sid k st opn = Inr st'"
  shows "(\<exists>aop. attempt_step (kt_db st) aop = Inr (kt_db st')) \<and> sessions_ok st'"
proof -
  let ?d = "kt_db st" let ?c = "ks_attempt k" let ?cl = "ks_client k"
  have live: "session_ok ?d k" using ok(2) k by (simp add: sessions_ok_def)
  then have c: "tget ac_id (ac_id ?c) (api_calls ?d) = Some ?c" and h: "ks_reservation k = held_reservation ?c"
    by (simp_all add: session_ok_def)
  have view: "session_view ?c ?d = ?d"
    using ok(1) by (intro session_view_current [OF _ live]) (simp add: paid_calls_ok_def ledger_ok_def)
  note finish = end_step_simulated [OF ok k]
  show ?thesis
  proof (cases opn)
    case (ReserveCall sid' s now)
    show ?thesis by (rule reserve_step_simulated [OF ok k step [unfolded ReserveCall]])
  next
    case (SubmitCall sid' now)
    show ?thesis by (rule submit_step_simulated [OF ok k step [unfolded SubmitCall]])
  next
    case (CompleteCall sid' s payload stored now)
    obtain r where r: "held_reservation ?c = Some r"
      using step h by (cases "held_reservation ?c") (simp_all add: CompleteCall)
    then have res: "r = reservation_of ?c" "ac_reservation_state ?c \<noteq> ''none''"
      by (auto simp: held_reservation_def split: if_splits)
    let ?d' = "complete_call s ?cl ?d (ac_id ?c) r payload stored now"
    have st': "st' = end_session sid k ?d' st" using step by (simp add: CompleteCall h r view)
    have a: "attempt_step ?d (CompleteAttempt s ?cl (ac_id ?c) payload stored now) = Inr ?d'"
      using res(2) by (simp add: c res(1) [symmetric])
    show ?thesis unfolding st' by (rule finish [OF a]) (rule complete_call_session [OF c, folded res(1)])
  next
    case (FailCall sid' text_of exc responded now)
    let ?d' = "fail_call text_of ?cl ?d (ac_id ?c) (held_reservation ?c) exc responded now"
    have st': "st' = end_session sid k ?d' st" using step by (simp add: FailCall h view)
    have a: "attempt_step ?d (FailAttempt text_of ?cl (ac_id ?c) exc responded now) = Inr ?d'" by (simp add: c)
    show ?thesis unfolding st' by (rule finish [OF a]) (rule fail_call_session [OF c])
  next
    case (CancelCall sid' now)
    let ?d' = "finish_unknown_attempt ?cl ?d (ac_id ?c) (held_reservation ?c) now"
    have st': "st' = end_session sid k ?d' st" using step by (simp add: CancelCall h view)
    have a: "attempt_step ?d (CancelAttempt ?cl (ac_id ?c) now) = Inr ?d'" by (simp add: c)
    show ?thesis unfolding st' by (rule finish [OF a]) (rule cancel_call_session [OF c])
  qed (use step in simp_all)
qed

lemma start_step_simulated:
  assumes ok: "paid_calls_ok (kt_db st)" "sessions_ok st"
    and step: "call_step st (StartCall sid cl path key token now) = Inr st'"
  shows "attempt_step (kt_db st) (StartAttempt cl path key token now) = Inr (kt_db st') \<and> sessions_ok st'"
proof -
  let ?d = "kt_db st"
  have path: "path \<noteq> []" and free: "map_of (kt_sessions st) sid = None"
    using step by (auto split: if_splits)
  obtain result d' where start: "start_api_call ?d cl path key token now = (result, d')" by fastforce
  have a: "attempt_step ?d (StartAttempt cl path key token now) = Inr d'" using path by (simp add: start)
  have others: "session_ok d' k" if "session_ok ?d k" for k
    using record_attempt_live [OF ok(1) that, of cl path key False "lc_force_refresh cl" "''prepared''" None token now] start
    by (simp add: start_api_call_def)
  note kept = sessions_ok_db [OF ok(2), of d', OF others]
  show ?thesis
  proof (cases result)
    case (Inl e)
    then have st': "st' = st\<lparr>kt_db := d'\<rparr>" using step start path free by simp
    with a kept show ?thesis by simp
  next
    case (Inr i)
    have dist: "keys_distinct ac_id (api_calls ?d)" using ok(1) by (simp add: paid_calls_ok_def ledger_ok_def)
    from started_attempt [OF start [unfolded Inr] dist] obtain c where
      c: "tget ac_id i (api_calls d') = Some c" "held_reservation c = None" "ac_attempt_state c = ''prepared''"
      "\<And>c0. tget ac_id i (api_calls ?d) = Some c0 \<Longrightarrow> ac_status c0 \<in> set retryable_statuses" by blast
    let ?k = "\<lparr>ks_client = cl, ks_path = path, ks_attempt = c, ks_reservation = None\<rparr>"
    have st': "st' = \<lparr>kt_db = d', kt_sessions = dict_put sid ?k (kt_sessions st)\<rparr>"
      using step start path free Inr c(1) by simp
    have id: "ac_id c = i" using tget_Some_key [OF c(1)] by simp
    have new: "session_ok d' ?k" using c(1-3) id by (simp add: session_ok_def)
    have fresh: "ac_id (ks_attempt k) \<noteq> i" if "map_of (kt_sessions st) sid' = Some k" for sid' k
    proof
      assume same: "ac_id (ks_attempt k) = i"
      have "session_ok ?d k" using ok(2) that by (simp add: sessions_ok_def)
      with live_not_retryable [OF ok(1) this] c(4) same show False by (simp add: session_ok_def)
    qed
    have "sessions_ok st'"
      unfolding sessions_ok_def st' call_state.simps map_of_dict_put
      using ok(2) others new fresh id unfolding sessions_ok_def by (auto split: if_splits) blast+
    with a show ?thesis by (simp add: st')
  qed
qed

lemma recover_sessions:
  assumes ok: "paid_calls_ok d" and k: "session_ok d k" and waits: "\<not> stale_attempt before scan_id (ks_attempt k)"
  shows "session_ok (snd (reconcile_stale_api_call_attempts d before scan_id now)) k"
proof -
  have "ledger_ok d" using ok by (simp add: paid_calls_ok_def)
  moreover have "ks_attempt k \<in> set (api_calls d)" using k by (auto simp: session_ok_def dest: tget_Some_key)
  ultimately have "tget ac_id (ac_id (ks_attempt k))
      (api_calls (snd (reconcile_stale_api_call_attempts d before scan_id now))) = Some (ks_attempt k)"
    using waits by (simp add: reconcile_stale_calls)
  with k show ?thesis by (simp add: session_ok_def)
qed

lemma resolve_sessions:
  assumes res: "resolve_unknown_provider_call d i outcome actual note now = Inr d'" and k: "session_ok d k"
  shows "session_ok d' k"
proof -
  let ?f = "resolve_attempt outcome actual note now"
  from res obtain c where c: "tget ac_id i (api_calls d) = Some c" "ac_attempt_state c = ''provider_outcome_unknown''"
    and calls: "api_calls d' = tupd ac_id i ?f (api_calls d)"
    by (auto simp: resolve_unknown_provider_call_def Let_def table_simps split: option.splits)
  have "ac_id (ks_attempt k) \<noteq> i" using k c by (auto simp: session_ok_def)
  moreover have "other_calls_kept i d d'"
    by (simp add: other_calls_kept_def calls tget_tupd_other resolve_attempt_def)
  ultimately show ?thesis using session_ok_kept [OF k] by blast
qed

lemma cache_hit_sessions:
  "paid_calls_ok d \<Longrightarrow> session_ok d k \<Longrightarrow> session_ok (snd (record_cache_hit d cl path key raw token now)) k"
  unfolding record_cache_hit_def by (rule record_attempt_live)

lemma sessions_ok_delete:
  "sessions_ok st \<Longrightarrow> sessions_ok (st\<lparr>kt_sessions := AList.delete sid (kt_sessions st)\<rparr>)"
  by (simp add: sessions_ok_def)

section \<open>Undisturbed histories\<close>

lemma call_step_simulated:
  assumes ok: "paid_calls_ok (kt_db st)" "sessions_ok st" and waits: "recovery_waits st opn"
    and step: "call_step st opn = Inr st'"
  shows "(kt_db st' = kt_db st \<or> (\<exists>aop. attempt_step (kt_db st) aop = Inr (kt_db st'))) \<and> sessions_ok st'"
proof -
  let ?d = "kt_db st"
  have session: ?thesis if "in_session sid st opn' = Inr st'" for sid opn'
  proof (cases "map_of (kt_sessions st) sid")
    case (Some k)
    with that have "session_step sid k st opn' = Inr st'" by (simp add: in_session_def)
    from session_step_simulated [OF ok Some this] show ?thesis by blast
  qed (use that in \<open>simp add: in_session_def\<close>)
  have on_db: ?thesis if st': "st' = st\<lparr>kt_db := d'\<rparr>" and a: "attempt_step ?d aop = Inr d'"
    and kept: "\<And>k. k \<in> snd ` set (kt_sessions st) \<Longrightarrow> session_ok ?d k \<Longrightarrow> session_ok d' k" for d' aop
  proof -
    have "sessions_ok st'" unfolding st' by (rule sessions_ok_db [OF ok(2) kept])
    moreover have "attempt_step ?d aop = Inr (kt_db st')" using a st' by simp
    ultimately show ?thesis by blast
  qed
  show ?thesis
  proof (cases opn)
    case (StartCall sid cl path key token now)
    from start_step_simulated [OF ok step [unfolded StartCall]] show ?thesis by blast
  next
    case (CacheHitCall cl path key raw token now)
    with step have "path \<noteq> []" "st' = st\<lparr>kt_db := snd (record_cache_hit ?d cl path key raw token now)\<rparr>"
      by (simp_all split: if_splits)
    note hit = this
    show ?thesis
      by (rule on_db [OF hit(2), of "CacheHitAttempt cl path key raw token now"])
        (simp_all add: hit(1) cache_hit_sessions [OF ok(1)])
  next
    case (WorkerDies sid)
    with step ok(2) show ?thesis by (auto intro: sessions_ok_delete)
  next
    case (RecoverStale before scan_id now)
    have waiting: "\<not> stale_attempt before scan_id (ks_attempt k)" if "k \<in> snd ` set (kt_sessions st)" for k
      using waits that by (auto simp: RecoverStale recovery_waits_def list_all_iff)
    have st': "st' = st\<lparr>kt_db := snd (reconcile_stale_api_call_attempts ?d before scan_id now)\<rparr>"
      using step by (simp add: RecoverStale)
    show ?thesis
      by (rule on_db [OF st', of "RecoverAttempts before scan_id now"]) (simp_all add: recover_sessions [OF ok(1)] waiting)
  next
    case (ResolveUnknown i outcome actual remark now)
    then obtain d' where d': "resolve_unknown_provider_call ?d i outcome actual remark now = Inr d'"
      "st' = st\<lparr>kt_db := d'\<rparr>"
      using step by (auto split: sum.splits)
    show ?thesis
      by (rule on_db [OF d'(2), of "ResolveAttempt i outcome actual remark now"])
        (simp_all add: d'(1) resolve_sessions [OF d'(1)])
  qed (use step session in \<open>simp_all\<close>)
qed

lemma call_step_keeps:
  assumes "paid_calls_ok (kt_db st)" "sessions_ok st" "recovery_waits st opn" "call_step st opn = Inr st'"
  shows "paid_calls_ok (kt_db st')" "sessions_ok st'"
  using call_step_simulated [OF assms] attempt_step_keeps_paid_calls [OF assms(1)] assms(1) by auto

lemma undisturbed_run:
  "paid_calls_ok (kt_db st) \<Longrightarrow> sessions_ok st \<Longrightarrow> undisturbed st ops \<Longrightarrow>
   paid_calls_ok (kt_db (run_requests call_step st ops)) \<and> sessions_ok (run_requests call_step st ops)"
proof (induction ops arbitrary: st)
  case (Cons opn ops)
  then show ?case by (cases "call_step st opn") (auto dest: call_step_keeps)
qed simp

section \<open>Properties\<close>

text \<open>
  C1: The money ledger balances while nobody settles behind a client's back. Start with no attempts,
  no usage buckets and no session, and any plan of non-negative cost. Let clients, each in its own
  database session and working on the row it holds in memory, start, reserve, submit, complete, fail
  or abandon attempts or die, let stale attempts be recovered and let the operator resolve unknown
  outcomes, in any order and with every refused step rolled back, where recovery settles only
  attempts that no live session works on (\<open>undisturbed\<close>). Then each usage bucket's reserved spend is
  exactly the sum of the estimates of the attempts that hold a reservation in it, its unreconciled
  spend is exactly the sum of the estimates of its attempts with an unknown outcome, and what every
  session holds in memory is what is stored. Without the restriction the balance fails, as
  \<open>late_settlement_unbalances\<close> shows.
\<close>

theorem paid_call_ledger_balances:
  assumes "api_calls (kt_db st) = []" and "provider_daily_usage (kt_db st) = []" and "kt_sessions st = []"
    and "\<forall>p \<in> set (scan_plan_calls (kt_db st)). 0 \<le> spc_estimated_cost_usd p"
    and "undisturbed st ops"
  shows "let st' = run_requests call_step st ops; d' = kt_db st' in
    (\<forall>k. du_reserved_spend_usd (bucket d' k) = outstanding ''reserved'' k (api_calls d')) \<and>
    (\<forall>k. du_unreconciled_spend_usd (bucket d' k) = outstanding ''reconciled_unknown'' k (api_calls d')) \<and>
    (\<forall>sid s. map_of (kt_sessions st') sid = Some s \<longrightarrow>
       tget ac_id (ac_id (ks_attempt s)) (api_calls d') = Some (ks_attempt s) \<and>
       ks_reservation s = held_reservation (ks_attempt s))"
proof -
  have "paid_calls_ok (kt_db st)" "sessions_ok st"
    using assms by (simp_all add: paid_calls_ok_def ledger_ok_def keys_distinct_def bucket_def outstanding_def sessions_ok_def)
  from undisturbed_run [OF this assms(5)] show ?thesis
    by (simp add: paid_calls_ok_def ledger_ok_def Let_def sessions_ok_def session_ok_def)
qed

section \<open>Witnesses\<close>

definition sample_calls :: call_state where
  "sample_calls = \<lparr>kt_db = sample_plan_db, kt_sessions = []\<rparr>"

definition sample_sends :: "call_op list" where
  "sample_sends = [StartCall 0 sample_client ''/v3/serp'' ''k'' ''tok'' 10, ReserveCall 0 sample_settings 11,
     SubmitCall 0 12]"

theorem paid_call_ledger_balances_witness:
  "let d' = kt_db (run_requests call_step sample_calls (sample_sends @ [RecoverStale 5 None 20])) in
     du_reserved_spend_usd (bucket d' (0, ''testing'', ''dataforseo-sandbox'', '''')) =
       outstanding ''reserved'' (0, ''testing'', ''dataforseo-sandbox'', '''') (api_calls d') \<and>
     outstanding ''reserved'' (0, ''testing'', ''dataforseo-sandbox'', '''') (api_calls d') = 1 / 2"
proof -
  let ?ops = "sample_sends @ [RecoverStale 5 None 20]"
  have held: "outstanding ''reserved'' (0, ''testing'', ''dataforseo-sandbox'', '''')
      (api_calls (kt_db (run_requests call_step sample_calls ?ops))) = 1 / 2" by code_simp
  have start: "api_calls (kt_db sample_calls) = []" "provider_daily_usage (kt_db sample_calls) = []"
    "kt_sessions sample_calls = []" "\<forall>p \<in> set (scan_plan_calls (kt_db sample_calls)). 0 \<le> spc_estimated_cost_usd p"
    by (simp_all add: sample_calls_def sample_plan_db_def empty_db_def sample_plan_def)
  have quiet: "undisturbed sample_calls ?ops" by code_simp
  from paid_call_ledger_balances [OF start quiet] held show ?thesis by (simp add: Let_def)
qed

text \<open>
  A client whose attempt is recovered while it waits for its response settles it again: its row in
  memory still says \<open>reserved\<close>, and its reservation is a value of its own. The recovery has moved the
  estimate to the unreconciled spend; the late settlement leaves it there, while the attempt ends as
  completed, so that no resolution of an unknown outcome will ever take it out again.
\<close>

theorem late_settlement_unbalances:
  "let k = (0, ''testing'', ''dataforseo-sandbox'', '''');
     st = run_requests call_step sample_calls (sample_sends @ [RecoverStale 20 None 30,
       CompleteCall 0 sample_settings \<lparr>rp_task_cost = 1 / 4, rp_task_id = None, rp_request_id = None\<rparr> (''k'', None) 40]);
     d = kt_db st in
   du_unreconciled_spend_usd (bucket d k) = 1 / 2 \<and> outstanding ''reconciled_unknown'' k (api_calls d) = 0 \<and>
   map (\<lambda>c. (ac_reservation_state c, ac_attempt_state c)) (api_calls d) = [(''finalized'', ''completed'')]"
  by code_simp

end
