(* ===== verification/Opportunity_Review.thy ===== *)
theory Opportunity_Review
  imports Interfaces Samples App_Settings "HOL-Library.Product_Lexorder"
    "HOL-Library.List_Lexorder" "HOL-Library.Char_ord"
begin

text \<open>
  \<open>opportunity_review/services.py\<close> (state machine, ownership, evidence overrides and the
  approval gate), with the request models of \<open>opportunity_review/models.py\<close> and the cost
  ledger of \<open>services/discovery_report.py\<close> that the gate reads. The column
  \<open>opportunities.status\<close> is a string that may still hold a legacy value; \<open>canonical_state\<close>
  reads it. \<open>datetime.now(UTC)\<close> is the argument \<open>now\<close>.
\<close>

section \<open>States\<close>

datatype opportunity_state =
  discovered | prefilter_review | testing_planned | testing_running | preliminary_review
| full_scan_approved | full_running | full_review | needs_more_evidence
| approved_for_property | rejected | archived

fun state_value :: "opportunity_state \<Rightarrow> string" where
  "state_value discovered = ''discovered''"
| "state_value prefilter_review = ''prefilter_review''"
| "state_value testing_planned = ''testing_planned''"
| "state_value testing_running = ''testing_running''"
| "state_value preliminary_review = ''preliminary_review''"
| "state_value full_scan_approved = ''full_scan_approved''"
| "state_value full_running = ''full_running''"
| "state_value full_review = ''full_review''"
| "state_value needs_more_evidence = ''needs_more_evidence''"
| "state_value approved_for_property = ''approved_for_property''"
| "state_value rejected = ''rejected''"
| "state_value archived = ''archived''"

definition all_states :: "opportunity_state list" where
  "all_states = [discovered, prefilter_review, testing_planned, testing_running,
     preliminary_review, full_scan_approved, full_running, full_review, needs_more_evidence,
     approved_for_property, rejected, archived]"

definition LEGACY_STATE_MAP :: "(string \<times> opportunity_state) list" where
  "LEGACY_STATE_MAP =
     [(''approved'', approved_for_property), (''evidence_rejected'', needs_more_evidence),
      (''scan_failed'', needs_more_evidence), (''partial_review'', needs_more_evidence),
      (''unusable_review'', needs_more_evidence)]"

fun ALLOWED_TRANSITIONS :: "opportunity_state \<Rightarrow> opportunity_state list" where
  "ALLOWED_TRANSITIONS discovered =
     [prefilter_review, testing_planned, testing_running, preliminary_review, full_running,
      full_review, needs_more_evidence, rejected, archived]"
| "ALLOWED_TRANSITIONS prefilter_review =
     [testing_planned, testing_running, full_running, needs_more_evidence, rejected, archived]"
| "ALLOWED_TRANSITIONS testing_planned =
     [testing_running, needs_more_evidence, rejected, archived]"
| "ALLOWED_TRANSITIONS testing_running =
     [preliminary_review, needs_more_evidence, testing_planned]"
| "ALLOWED_TRANSITIONS preliminary_review =
     [testing_planned, full_scan_approved, needs_more_evidence, rejected, archived]"
| "ALLOWED_TRANSITIONS full_scan_approved =
     [full_running, preliminary_review, needs_more_evidence, rejected]"
| "ALLOWED_TRANSITIONS full_running = [full_review, needs_more_evidence, full_scan_approved]"
| "ALLOWED_TRANSITIONS full_review =
     [approved_for_property, full_scan_approved, needs_more_evidence, rejected, archived]"
| "ALLOWED_TRANSITIONS needs_more_evidence =
     [testing_planned, testing_running, preliminary_review, full_scan_approved, full_running,
      full_review, rejected, archived]"
| "ALLOWED_TRANSITIONS approved_for_property =
     [full_running, full_review, needs_more_evidence, archived]"
| "ALLOWED_TRANSITIONS rejected = [prefilter_review, preliminary_review, full_review, archived]"
| "ALLOWED_TRANSITIONS archived = []"

datatype review_error = OpportunityReviewError string | RequestValidationError string

definition canonical_state :: "string \<Rightarrow> review_error + opportunity_state" where
  "canonical_state v =
     (case map_of LEGACY_STATE_MAP v of
        Some s \<Rightarrow> Inr s
      | None \<Rightarrow> require_some (OpportunityReviewError ''unknown_opportunity_state'')
          (find (\<lambda>s. state_value s = v) all_states))"

definition opportunity_of :: "database \<Rightarrow> int \<Rightarrow> review_error + opportunity" where
  "opportunity_of d oid =
     require_some (OpportunityReviewError ''opportunity_not_found'')
       (tget op_id oid (opportunities d))"

definition require_property_approval :: "database \<Rightarrow> int \<Rightarrow> review_error + opportunity" where
  "require_property_approval d oid =
     and_then (opportunity_of d oid) (\<lambda>op.
     and_then (canonical_state (op_status op)) (\<lambda>st.
     guarded [raise_if (st \<noteq> approved_for_property)
         (OpportunityReviewError ''property_action_requires_approved_opportunity'')]
       (Inr op)))"

section \<open>Requests\<close>

record review_actor =
  actor_id :: string
  actor_role :: review_role

record transition_request =
  tr_target_state :: opportunity_state
  tr_decision :: string
  tr_decision_reason :: string
  tr_notes :: string
  tr_tags :: "string list"
  tr_owner_user_id :: "string option"
  tr_expected_review_version :: "int option"

definition len_between :: "nat \<Rightarrow> nat \<Rightarrow> string \<Rightarrow> bool" where
  "len_between lo hi s \<longleftrightarrow> lo \<le> length s \<and> length s \<le> hi"

text \<open>\<open>normalize_tags\<close>: the sorted set of the non-blank tags, spaces collapsed, lower case.\<close>

definition normalize_tags :: "string list \<Rightarrow> string list" where
  "normalize_tags tags =
     sort (remdups (map (\<lambda>t. py_lower (join_words (split_words t)))
       (filter (\<lambda>t. py_strip t \<noteq> []) tags)))"

definition validate_transition_request ::
  "transition_request \<Rightarrow> review_error + transition_request" where
  "validate_transition_request r =
     guarded
       [raise_if (\<not> len_between 2 80 (tr_decision r)) (RequestValidationError ''decision''),
        raise_if (\<not> len_between 5 2000 (tr_decision_reason r))
          (RequestValidationError ''decision_reason''),
        raise_if (5000 < length (tr_notes r)) (RequestValidationError ''notes''),
        raise_if (30 < length (tr_tags r)) (RequestValidationError ''tags''),
        raise_if (case tr_owner_user_id r of None \<Rightarrow> False | Some u \<Rightarrow> \<not> len_between 1 120 u)
          (RequestValidationError ''owner_user_id''),
        raise_if (case tr_expected_review_version r of None \<Rightarrow> False | Some v \<Rightarrow> v < 0)
          (RequestValidationError ''expected_review_version'')]
       (Inr (r\<lparr>tr_tags := normalize_tags (tr_tags r)\<rparr>))"

section \<open>The API cost ledger\<close>

record api_cost_ledger =
  al_ledger_complete :: bool
  al_call_count :: nat
  al_planned_call_count :: nat
  al_network_call_count :: nat
  al_cache_hit_count :: nat
  al_failed_call_count :: nat
  al_unexecuted_call_count :: nat
  al_unexpected_call_count :: nat
  al_estimated_cost_usd :: usd
  al_actual_cost_usd :: usd

definition build_api_cost_ledger :: "database \<Rightarrow> int option \<Rightarrow> api_cost_ledger" where
  "build_api_cost_ledger d scan_id =
     (let rows = (case scan_id of None \<Rightarrow> []
            | Some i \<Rightarrow> sort_key ac_id (filter (\<lambda>c. ac_scan_run_id c = Some i) (api_calls d)));
          planned = (case scan_id of None \<Rightarrow> []
            | Some i \<Rightarrow> sort_key spc_id (filter (\<lambda>p. spc_scan_run_id p = i) (scan_plan_calls d)));
          executed_ids = filter (\<lambda>p. p \<noteq> None) (map ac_planned_request_id rows);
          planned_ids = filter (\<lambda>p. p \<noteq> None) (map spc_planned_request_id planned);
          unexecuted = filter (\<lambda>p. spc_planned_request_id p \<notin> set executed_ids) planned;
          unexpected = (if planned = [] then []
            else filter (\<lambda>c. ac_planned_request_id c \<notin> set planned_ids) rows);
          terminal = [''cache_hit'', ''completed'', ''failed'']
      in \<lparr>al_ledger_complete = (unexecuted = [] \<and> unexpected = [] \<and>
            list_all (\<lambda>c. ac_status c \<in> set terminal) rows),
          al_call_count = length rows,
          al_planned_call_count = length planned,
          al_network_call_count = length (filter (\<lambda>c. \<not> ac_cache_hit c \<and>
            ac_status c \<in> set [''completed'', ''failed'']) rows),
          al_cache_hit_count = length (filter ac_cache_hit rows),
          al_failed_call_count = length (filter (\<lambda>c. ac_status c = ''failed'') rows),
          al_unexecuted_call_count = length unexecuted,
          al_unexpected_call_count = length unexpected,
          al_estimated_cost_usd = py_round 6 (if planned = []
            then sum_list (map ac_estimated_cost_usd rows)
            else sum_list (map spc_estimated_cost_usd planned)),
          al_actual_cost_usd = py_round 6 (sum_list (map ac_actual_cost_usd rows))\<rparr>)"

section \<open>The approval gate\<close>

text \<open>
  \<open>order_by(completed_at.desc())\<close>: a missing value sorts below every instant (SQLite); a
  completed scan has one.
\<close>

definition null_low :: "int option \<Rightarrow> int \<times> int" where
  "null_low t = (case t of None \<Rightarrow> (0, 0) | Some i \<Rightarrow> (1, i))"

definition latest_full_scan :: "database \<Rightarrow> int \<Rightarrow> scan_run option" where
  "latest_full_scan d oid =
     select_latest (\<lambda>s. (null_low (sr_completed_at s), sr_id s))
       (\<lambda>s. sr_opportunity_id s = Some oid \<and> sr_scan_profile s = ''full'' \<and>
            sr_status s = ''completed'') (scan_runs d)"

definition full_score_of :: "database \<Rightarrow> int \<Rightarrow> int \<Rightarrow> full_opportunity_score option" where
  "full_score_of d oid scan_id =
     select_latest fs_created_at
       (\<lambda>f. fs_opportunity_id f = oid \<and> fs_scan_run_id f = scan_id) (full_opportunity_scores d)"

definition evidence_quality_status :: "scan_run \<Rightarrow> json option" where
  "evidence_quality_status scan =
     (case jget (sr_partial_outputs scan) ''evidence_quality'' of
        Some (JObj q) \<Rightarrow> jget q ''status'' | _ \<Rightarrow> None)"

record evidence_counts =
  ec_keyword_decisions :: nat
  ec_serp_snapshots :: nat
  ec_competitor_metrics :: nat
  ec_provider_candidates :: nat

definition evidence_counts_of :: "database \<Rightarrow> int \<Rightarrow> evidence_counts" where
  "evidence_counts_of d scan_id =
     \<lparr>ec_keyword_decisions = length (filter (\<lambda>r. kd_scan_run_id r = scan_id) (keyword_decisions d)),
      ec_serp_snapshots = length (filter (\<lambda>r. ss_scan_run_id r = scan_id) (serp_snapshots d)),
      ec_competitor_metrics =
        length (filter (\<lambda>r. cmet_scan_run_id r = scan_id) (competitor_metrics d)),
      ec_provider_candidates =
        length (filter (\<lambda>r. pc_scan_run_id r = scan_id) (provider_candidates d))\<rparr>"

record approval_completeness =
  apc_complete :: bool
  apc_full_scan_run_id :: "int option"
  apc_full_score_id :: "int option"
  apc_checks :: "(string \<times> bool) list"
  apc_failures :: "string list"
  apc_warnings :: "string list"

definition approval_checks ::
  "database \<Rightarrow> opportunity \<Rightarrow> int \<Rightarrow> instant \<Rightarrow> (string \<times> bool) list" where
  "approval_checks d op maximum_age_days now =
     (let scan = latest_full_scan d (op_id op);
          score = Option.bind scan (\<lambda>s. full_score_of d (op_id op) (sr_id s));
          quality = Option.bind scan evidence_quality_status;
          counts = map_option (\<lambda>s. evidence_counts_of d (sr_id s)) scan;
          present = (\<lambda>f. case counts of None \<Rightarrow> False | Some c \<Rightarrow> 0 < f c);
          cutoff = now - timedelta_days maximum_age_days
      in [(''owner_assigned'', truthy_str (op_owner_user_id op)),
          (''completed_full_scan'', scan \<noteq> None),
          (''full_score_matches_scan'', score \<noteq> None),
          (''full_score_is_complete'', (case score of None \<Rightarrow> False
             | Some f \<Rightarrow> (case jget (fs_payload f) ''evidence_status'' of
                 None \<Rightarrow> True | Some v \<Rightarrow> v = JStr ''complete''))),
          (''evidence_quality_passes'', quality \<in> set [Some (JStr ''pass''), Some (JStr ''warning'')]),
          (''keyword_decisions_present'', present ec_keyword_decisions),
          (''serp_snapshots_present'', present ec_serp_snapshots),
          (''competitor_metrics_present'', present ec_competitor_metrics),
          (''provider_candidates_present'', present ec_provider_candidates),
          (''cost_ledger_complete'', (case scan of None \<Rightarrow> False
             | Some s \<Rightarrow> al_ledger_complete (build_api_cost_ledger d (Some (sr_id s))))),
          (''evidence_is_fresh'', (case Option.bind scan sr_completed_at of
             None \<Rightarrow> False | Some t \<Rightarrow> cutoff \<le> t))])"

definition failure_labels :: "int \<Rightarrow> (string \<times> string) list" where
  "failure_labels maximum_age_days =
     [(''owner_assigned'', ''Assign an opportunity owner.''),
      (''completed_full_scan'', ''A completed full scan is required.''),
      (''full_score_matches_scan'', ''The completed full scan needs a matching full score.''),
      (''full_score_is_complete'', ''The full score is partial or unusable.''),
      (''evidence_quality_passes'', ''Evidence quality must pass or contain warnings only.''),
      (''keyword_decisions_present'', ''Keyword decisions are missing.''),
      (''serp_snapshots_present'', ''SERP evidence is missing.''),
      (''competitor_metrics_present'', ''Competitor evidence is missing.''),
      (''provider_candidates_present'', ''Provider evidence is missing.''),
      (''cost_ledger_complete'', ''The API cost ledger is incomplete.''),
      (''evidence_is_fresh'', ''Full evidence must be no more than '' @
         py_str_int maximum_age_days @ '' days old.'')]"

fun join_comma :: "string list \<Rightarrow> string" where
  "join_comma [] = []"
| "join_comma [w] = w"
| "join_comma (w # ws) = w @ '', '' @ join_comma ws"

definition approval_completeness_of ::
  "database \<Rightarrow> opportunity \<Rightarrow> int \<Rightarrow> instant \<Rightarrow> approval_completeness" where
  "approval_completeness_of d op maximum_age_days now =
     (let scan = latest_full_scan d (op_id op);
          checks = approval_checks d op maximum_age_days now;
          failures = map (\<lambda>(k, passed). the (map_of (failure_labels maximum_age_days) k))
            (filter (\<lambda>(k, passed). \<not> passed) checks)
      in \<lparr>apc_complete = (failures = []),
          apc_full_scan_run_id = map_option sr_id scan,
          apc_full_score_id = map_option fs_id
            (Option.bind scan (\<lambda>s. full_score_of d (op_id op) (sr_id s))),
          apc_checks = checks,
          apc_failures = failures,
          apc_warnings =
            (if op_missing_data_flags op = [] then []
             else [''Score reports missing data: '' @ join_comma (sort (op_missing_data_flags op))])
            @ (if Option.bind scan evidence_quality_status = Some (JStr ''warning'')
               then [''Evidence quality passed with warnings.''] else [])\<rparr>)"

section \<open>Transitions\<close>

definition check_version :: "opportunity \<Rightarrow> int option \<Rightarrow> review_error option" where
  "check_version op expected =
     raise_if (expected \<noteq> None \<and> Some (op_review_version op) \<noteq> expected)
       (OpportunityReviewError ''opportunity_review_version_conflict'')"

definition update_opportunity ::
  "int \<Rightarrow> (opportunity \<Rightarrow> opportunity) \<Rightarrow> database \<Rightarrow> database" where
  "update_opportunity i f d = d\<lparr>opportunities := tupd op_id i f (opportunities d)\<rparr>"

definition add_review :: "database \<Rightarrow> (int \<Rightarrow> opportunity_review) \<Rightarrow> opportunity_review \<times> database" where
  "add_review d mk =
     (let row = mk (next_id rv_id (opportunity_reviews d))
      in (row, d\<lparr>opportunity_reviews := opportunity_reviews d @ [row]\<rparr>))"

definition transition ::
  "database \<Rightarrow> int \<Rightarrow> transition_request \<Rightarrow> review_actor \<Rightarrow> instant \<Rightarrow>
   review_error + (opportunity_review \<times> database)" where
  "transition d oid request actor now =
     and_then (opportunity_of d oid) (\<lambda>op.
     and_then (canonical_state (op_status op)) (\<lambda>current.
     guarded
       [check_version op (tr_expected_review_version request),
        raise_if (tr_target_state request \<notin> set (ALLOWED_TRANSITIONS current))
          (OpportunityReviewError ''invalid_opportunity_transition''),
        raise_if (tr_target_state request \<in> set [approved_for_property, rejected] \<and>
            actor_role actor = RR_system)
          (OpportunityReviewError ''human_reviewer_required''),
        raise_if (tr_target_state request = approved_for_property \<and>
            \<not> apc_complete (approval_completeness_of d op 90 now))
          (OpportunityReviewError ''approval_evidence_incomplete'')]
       (let target = tr_target_state request;
            owner = str_or (tr_owner_user_id request) (op_owner_user_id op);
            version = op_review_version op + 1;
            d1 = update_opportunity oid (\<lambda>o'. o'\<lparr>op_status := state_value target,
              op_owner_user_id := owner, op_review_version := version,
              op_approved_at := (if target = approved_for_property then Some now
                else if current = approved_for_property then None else op_approved_at o')\<rparr>) d
        in Inr (add_review d1 (\<lambda>i.
             \<lparr>rv_id = i, rv_opportunity_id = op_id op,
              rv_prior_state = Some (state_value current), rv_review_state = state_value target,
              rv_owner_user_id = owner, rv_reviewer_user_id = actor_id actor,
              rv_reviewer_role = actor_role actor, rv_decision = tr_decision request,
              rv_decision_reason = tr_decision_reason request, rv_notes = tr_notes request,
              rv_tags = tr_tags request, rv_review_version = version,
              rv_approved_at = (if target = approved_for_property then Some now else None),
              rv_rejected_at = (if target = rejected then Some now else None)\<rparr>)))))"

definition system_actor :: review_actor where
  "system_actor = \<lparr>actor_id = ''system:scan-pipeline'', actor_role = RR_system\<rparr>"

definition transition_system ::
  "database \<Rightarrow> int \<Rightarrow> opportunity_state \<Rightarrow> string \<Rightarrow> string \<Rightarrow> instant \<Rightarrow>
   review_error + (opportunity_review option \<times> database)" where
  "transition_system d oid target decision reason now =
     and_then (opportunity_of d oid) (\<lambda>op.
     and_then (canonical_state (op_status op)) (\<lambda>current.
     if current = target then Inr (None, d)
     else guarded [raise_if (target \<notin> set (ALLOWED_TRANSITIONS current))
           (OpportunityReviewError ''invalid_system_opportunity_transition'')]
         (and_then (validate_transition_request
            \<lparr>tr_target_state = target, tr_decision = decision, tr_decision_reason = reason,
             tr_notes = [], tr_tags = [], tr_owner_user_id = op_owner_user_id op,
             tr_expected_review_version = None\<rparr>) (\<lambda>request.
          map_result (\<lambda>(row, d'). (Some row, d')) (transition d oid request system_actor now)))))"

record ownership_request =
  or_owner_user_id :: string
  or_reason :: string
  or_expected_review_version :: "int option"

definition assign_owner ::
  "database \<Rightarrow> int \<Rightarrow> ownership_request \<Rightarrow> review_actor \<Rightarrow>
   review_error + (opportunity_review \<times> database)" where
  "assign_owner d oid request actor =
     and_then (opportunity_of d oid) (\<lambda>op.
     guarded [check_version op (or_expected_review_version request)]
     (and_then (canonical_state (op_status op)) (\<lambda>state.
       (let version = op_review_version op + 1;
            d1 = update_opportunity oid (\<lambda>o'. o'\<lparr>op_owner_user_id := Some (or_owner_user_id request),
              op_review_version := version\<rparr>) d
        in Inr (add_review d1 (\<lambda>i.
             \<lparr>rv_id = i, rv_opportunity_id = op_id op,
              rv_prior_state = Some (state_value state), rv_review_state = state_value state,
              rv_owner_user_id = Some (or_owner_user_id request),
              rv_reviewer_user_id = actor_id actor, rv_reviewer_role = actor_role actor,
              rv_decision = ''owner_assigned'', rv_decision_reason = or_reason request,
              rv_notes = [], rv_tags = [''ownership''], rv_review_version = version,
              rv_approved_at = None, rv_rejected_at = None\<rparr>))))))"

section \<open>Evidence overrides\<close>

record override_request =
  er_override_kind :: evidence_override_kind
  er_target_record_id :: int
  er_field_name :: string
  er_new_value :: json
  er_expected_original_value :: json
  er_reason :: string
  er_score_impact :: rat
  er_score_impact_explanation :: string

record reversal_request =
  rr_reason :: string
  rr_score_impact :: rat
  rr_score_impact_explanation :: string

text \<open>Python's \<open>==\<close> on payload values: \<open>True == 1\<close> and \<open>False == 0\<close>.\<close>

fun json_norm :: "json \<Rightarrow> json" where
  "json_norm (JBool b) = JNum (if b then 1 else 0)"
| "json_norm (JList vs) = JList (map json_norm vs)"
| "json_norm v = v"

definition json_eq :: "json \<Rightarrow> json \<Rightarrow> bool" where
  "json_eq a b = (json_norm a = json_norm b)"

definition opt_rat :: "rat option \<Rightarrow> json" where
  "opt_rat x = (case x of None \<Rightarrow> JNull | Some r \<Rightarrow> JNum r)"

definition provider_field :: "provider_candidate \<Rightarrow> string \<Rightarrow> json" where
  "provider_field p name =
     (if name = ''suitability_score'' then opt_rat (pc_suitability_score p)
      else if name = ''business_status'' then JStr (pc_business_status p)
      else JList (map JStr (pc_categories p)))"

definition market_field :: "market \<Rightarrow> string \<Rightarrow> json" where
  "market_field m name =
     (if name = ''display_name'' then JStr (mk_display_name m)
      else if name = ''state'' then opt_str (mk_state m)
      else if name = ''county'' then opt_str (mk_county m)
      else if name = ''metro'' then opt_str (mk_metro m)
      else if name = ''latitude'' then opt_rat (mk_latitude m)
      else if name = ''longitude'' then opt_rat (mk_longitude m)
      else if name = ''boundary_radius_km'' then opt_rat (mk_boundary_radius_km m)
      else opt_str (mk_geography_id m))"

definition json_items :: "json option \<Rightarrow> json list" where
  "json_items v = (case v of Some (JList vs) \<Rightarrow> vs | _ \<Rightarrow> [])"

definition original_evidence_value ::
  "database \<Rightarrow> int \<Rightarrow> override_request \<Rightarrow> review_error + json" where
  "original_evidence_value d oid r =
     (let err = (\<lambda>code. Inl (OpportunityReviewError code)) in
      case er_override_kind r of
        OK_serp_classification \<Rightarrow>
          if er_field_name r \<noteq> ''classification'' then err ''unsupported_serp_override_field''
          else (case select_first (\<lambda>x. sres_id x = er_target_record_id r \<and>
                  list_ex (\<lambda>s. ss_id s = sres_serp_snapshot_id x \<and> ss_opportunity_id s = Some oid)
                    (serp_snapshots d)) (serp_results d) of
                  None \<Rightarrow> err ''serp_result_not_found''
                | Some x \<Rightarrow> Inr (JStr (sres_classification x)))
      | OK_provider_suitability \<Rightarrow>
          if er_field_name r \<notin> set [''suitability_score'', ''business_status'', ''categories'']
          then err ''unsupported_provider_override_field''
          else (case select_first (\<lambda>p. pc_id p = er_target_record_id r \<and>
                  pc_opportunity_id p = Some oid) (provider_candidates d) of
                  None \<Rightarrow> err ''provider_candidate_not_found''
                | Some p \<Rightarrow> Inr (provider_field p (er_field_name r)))
      | OK_geographic_interpretation \<Rightarrow>
          if er_field_name r \<notin> set [''display_name'', ''state'', ''county'', ''metro'', ''latitude'',
               ''longitude'', ''boundary_radius_km'', ''geography_id'']
          then err ''unsupported_geography_override_field''
          else and_then (opportunity_of d oid) (\<lambda>op.
            if op_market_id op \<noteq> er_target_record_id r
            then err ''market_does_not_match_opportunity''
            else (case tget mk_id (op_market_id op) (markets d) of
                    None \<Rightarrow> err ''market_does_not_match_opportunity''
                  | Some m \<Rightarrow> Inr (market_field m (er_field_name r))))
      | OK_data_quality_warning \<Rightarrow>
          (case tget sr_id (er_target_record_id r) (scan_runs d) of
             None \<Rightarrow> err ''scan_run_not_found''
           | Some scan \<Rightarrow>
               if sr_opportunity_id scan \<noteq> Some oid then err ''scan_run_not_found''
               else (case jget (sr_partial_outputs scan) ''evidence_quality'' of
                       Some (JObj q) \<Rightarrow> Inr (JBool (JStr (er_field_name r) \<in>
                         set (json_items (jget q ''warnings'') @ json_items (jget q ''errors''))))
                     | _ \<Rightarrow> Inr (JBool False))))"

definition override_reversed :: "database \<Rightarrow> int \<Rightarrow> bool" where
  "override_reversed d i = list_ex (\<lambda>o'. eo_reverses_override_id o' = Some i) (evidence_overrides d)"

definition active_override ::
  "database \<Rightarrow> int \<Rightarrow> evidence_override_kind \<Rightarrow> int \<Rightarrow> string \<Rightarrow> evidence_override option" where
  "active_override d oid kind target field =
     select_latest eo_id (\<lambda>o'. eo_opportunity_id o' = oid \<and> eo_override_kind o' = kind \<and>
       eo_target_record_id o' = target \<and> eo_field_name o' = field \<and> eo_action o' = ''apply'' \<and>
       \<not> override_reversed d (eo_id o')) (evidence_overrides d)"

definition add_override ::
  "database \<Rightarrow> (int \<Rightarrow> evidence_override) \<Rightarrow> evidence_override \<times> database" where
  "add_override d mk =
     (let row = mk (next_id eo_id (evidence_overrides d))
      in (row, d\<lparr>evidence_overrides := evidence_overrides d @ [row]\<rparr>))"

definition apply_override ::
  "database \<Rightarrow> int \<Rightarrow> override_request \<Rightarrow> review_actor \<Rightarrow>
   review_error + (evidence_override \<times> database)" where
  "apply_override d oid r actor =
     and_then (opportunity_of d oid) (\<lambda>op.
     and_then (original_evidence_value d oid r) (\<lambda>original.
     guarded
       [raise_if (er_expected_original_value r \<noteq> JNull \<and>
            \<not> json_eq (er_expected_original_value r) original)
          (OpportunityReviewError ''evidence_override_original_mismatch''),
        raise_if (json_eq original (er_new_value r))
          (OpportunityReviewError ''evidence_override_has_no_effect''),
        raise_if (active_override d oid (er_override_kind r) (er_target_record_id r)
            (er_field_name r) \<noteq> None)
          (OpportunityReviewError ''active_evidence_override_exists'')]
       (Inr (add_override d (\<lambda>i.
          \<lparr>eo_id = i, eo_opportunity_id = oid, eo_override_kind = er_override_kind r,
           eo_target_record_id = er_target_record_id r, eo_field_name = er_field_name r,
           eo_action = ''apply'', eo_original_value = original, eo_new_value = er_new_value r,
           eo_actor_user_id = actor_id actor, eo_actor_role = actor_role actor,
           eo_reason = er_reason r, eo_score_impact = er_score_impact r,
           eo_score_impact_explanation = er_score_impact_explanation r,
           eo_reverses_override_id = None\<rparr>)))))"

definition reverse_override ::
  "database \<Rightarrow> int \<Rightarrow> int \<Rightarrow> reversal_request \<Rightarrow> review_actor \<Rightarrow>
   review_error + (evidence_override \<times> database)" where
  "reverse_override d oid override_id r actor =
     (case tget eo_id override_id (evidence_overrides d) of
        None \<Rightarrow> Inl (OpportunityReviewError ''evidence_override_not_found'')
      | Some original \<Rightarrow>
          guarded
            [raise_if (eo_opportunity_id original \<noteq> oid \<or> eo_action original \<noteq> ''apply'')
               (OpportunityReviewError ''evidence_override_not_found''),
             raise_if (override_reversed d override_id)
               (OpportunityReviewError ''evidence_override_already_reversed'')]
            (Inr (add_override d (\<lambda>i.
               \<lparr>eo_id = i, eo_opportunity_id = oid, eo_override_kind = eo_override_kind original,
                eo_target_record_id = eo_target_record_id original,
                eo_field_name = eo_field_name original, eo_action = ''revert'',
                eo_original_value = eo_new_value original,
                eo_new_value = eo_original_value original,
                eo_actor_user_id = actor_id actor, eo_actor_role = actor_role actor,
                eo_reason = rr_reason r, eo_score_impact = rr_score_impact r,
                eo_score_impact_explanation = rr_score_impact_explanation r,
                eo_reverses_override_id = Some (eo_id original)\<rparr>))))"

definition list_overrides :: "database \<Rightarrow> int \<Rightarrow> (evidence_override \<times> bool) list" where
  "list_overrides d oid =
     (let rows = sort_key eo_id (filter (\<lambda>o'. eo_opportunity_id o' = oid) (evidence_overrides d));
          reversed = map eo_reverses_override_id rows
      in map (\<lambda>o'. (o', eo_action o' = ''apply'' \<and> Some (eo_id o') \<notin> set reversed)) rows)"

section \<open>Histories of review requests\<close>

datatype review_op =
  Transition int transition_request review_actor instant
| TransitionSystem int opportunity_state string string instant
| AssignOwner int ownership_request review_actor
| ApplyOverride int override_request review_actor
| ReverseOverride int int reversal_request review_actor

fun review_step :: "database \<Rightarrow> review_op \<Rightarrow> review_error + database" where
  "review_step d (Transition oid request actor now) =
     and_then (validate_transition_request request) (\<lambda>r.
       map_result snd (transition d oid r actor now))"
| "review_step d (TransitionSystem oid target decision reason now) =
     map_result snd (transition_system d oid target decision reason now)"
| "review_step d (AssignOwner oid request actor) =
     map_result snd (assign_owner d oid request actor)"
| "review_step d (ApplyOverride oid request actor) =
     map_result snd (apply_override d oid request actor)"
| "review_step d (ReverseOverride oid i request actor) =
     map_result snd (reverse_override d oid i request actor)"

definition review_state_of :: "database \<Rightarrow> int \<Rightarrow> opportunity_state option" where
  "review_state_of d oid =
     (case tget op_id oid (opportunities d) of
        None \<Rightarrow> None
      | Some op \<Rightarrow> (case canonical_state (op_status op) of Inl e \<Rightarrow> None | Inr s \<Rightarrow> Some s))"

subsection \<open>Lemmas\<close>

lemma state_value_inj [simp]: "state_value s = state_value t \<longleftrightarrow> s = t"
  by (cases s; cases t) simp_all

lemma canonical_state_value [simp]: "canonical_state (state_value s) = Inr s"
  by (cases s) (simp_all add: canonical_state_def LEGACY_STATE_MAP_def all_states_def)

lemma opportunity_of_Inr: "opportunity_of d oid = Inr op \<longleftrightarrow> tget op_id oid (opportunities d) = Some op"
  by (simp add: opportunity_of_def)

definition approved_stamp :: "opportunity_state \<Rightarrow> opportunity_state \<Rightarrow> instant \<Rightarrow> instant option \<Rightarrow>
    instant option" where
  "approved_stamp current target now old =
     (if target = approved_for_property then Some now
      else if current = approved_for_property then None else old)"

definition move_opportunity ::
  "opportunity_state \<Rightarrow> opportunity_state \<Rightarrow> string option \<Rightarrow> int \<Rightarrow> instant \<Rightarrow> opportunity \<Rightarrow> opportunity"
  where
  "move_opportunity current target owner version now o' =
     o'\<lparr>op_status := state_value target, op_owner_user_id := owner, op_review_version := version,
        op_approved_at := approved_stamp current target now (op_approved_at o')\<rparr>"

text \<open>What a successful transition has checked and done.\<close>

lemma transition_Inr:
  assumes "transition d oid r actor now = Inr (row, d')"
  obtains op current where
    "tget op_id oid (opportunities d) = Some op" "canonical_state (op_status op) = Inr current"
    "check_version op (tr_expected_review_version r) = None"
    "tr_target_state r \<in> set (ALLOWED_TRANSITIONS current)"
    "tr_target_state r \<in> {approved_for_property, rejected} \<Longrightarrow> actor_role actor \<noteq> RR_system"
    "tr_target_state r = approved_for_property \<Longrightarrow>
       apc_complete (approval_completeness_of d op 90 now)"
    "opportunities d' = tupd op_id oid (move_opportunity current (tr_target_state r)
       (str_or (tr_owner_user_id r) (op_owner_user_id op)) (op_review_version op + 1) now)
       (opportunities d)"
    "opportunity_reviews d' = opportunity_reviews d @ [row]"
    "rv_opportunity_id row = oid" "rv_review_version row = op_review_version op + 1"
    "rv_review_state row = state_value (tr_target_state r)"
    "rv_reviewer_role row = actor_role actor" "rv_reviewer_user_id row = actor_id actor"
    "evidence_overrides d' = evidence_overrides d"
proof -
  from assms obtain op current where
    op: "tget op_id oid (opportunities d) = Some op" "canonical_state (op_status op) = Inr current"
    by (auto simp: transition_def opportunity_of_Inr)
  have "op_id op = oid" using op(1) by (auto dest: tget_Some_key)
  with assms op show thesis
    by (intro that [OF op])
      (auto simp: transition_def opportunity_of_Inr add_review_def update_opportunity_def
        move_opportunity_def [abs_def] approved_stamp_def Let_def)
qed

lemma transition_system_Inr:
  assumes "transition_system d oid target dec reason now = Inr (row, d')"
  obtains "d' = d" "review_state_of d oid = Some target"
  | r row' where "transition d oid r system_actor now = Inr (row', d')" "tr_target_state r = target"
  using assms
  by (auto simp: transition_system_def review_state_of_def opportunity_of_Inr
      validate_transition_request_def split: if_splits)

lemma assign_owner_Inr:
  assumes "assign_owner d oid r actor = Inr (row, d')"
  obtains op state where
    "tget op_id oid (opportunities d) = Some op" "canonical_state (op_status op) = Inr state"
    "opportunities d' = tupd op_id oid (\<lambda>o'. o'\<lparr>op_owner_user_id := Some (or_owner_user_id r),
       op_review_version := op_review_version op + 1\<rparr>) (opportunities d)"
    "opportunity_reviews d' = opportunity_reviews d @ [row]"
    "rv_opportunity_id row = oid" "rv_review_version row = op_review_version op + 1"
    "rv_review_state row = state_value state" "evidence_overrides d' = evidence_overrides d"
proof -
  from assms obtain op state where
    op: "tget op_id oid (opportunities d) = Some op" "canonical_state (op_status op) = Inr state"
    by (auto simp: assign_owner_def opportunity_of_Inr)
  have "op_id op = oid" using op(1) by (auto dest: tget_Some_key)
  with assms op show thesis
    by (intro that [OF op]) (auto simp: assign_owner_def opportunity_of_Inr add_review_def update_opportunity_def Let_def)
qed

lemma apply_override_Inr:
  assumes "apply_override d oid r actor = Inr (row, d')"
  shows "opportunities d' = opportunities d" "opportunity_reviews d' = opportunity_reviews d"
    "evidence_overrides d' = evidence_overrides d @ [row]"
    "eo_id row = next_id eo_id (evidence_overrides d)" "eo_action row = ''apply''"
    "eo_reverses_override_id row = None" "eo_opportunity_id row = oid"
    "eo_override_kind row = er_override_kind r" "eo_target_record_id row = er_target_record_id r"
    "eo_field_name row = er_field_name r"
    "active_override d oid (er_override_kind r) (er_target_record_id r) (er_field_name r) = None"
    "original_evidence_value d oid r = Inr (eo_original_value row)"
    "eo_new_value row = er_new_value r"
    "\<not> json_eq (eo_original_value row) (eo_new_value row)"
  using assms by (auto simp: apply_override_def add_override_def Let_def)

lemma reverse_override_Inr:
  assumes "reverse_override d oid i r actor = Inr (row, d')"
  obtains orig where "tget eo_id i (evidence_overrides d) = Some orig" "eo_action orig = ''apply''"
    "\<not> override_reversed d i" "opportunities d' = opportunities d"
    "opportunity_reviews d' = opportunity_reviews d"
    "evidence_overrides d' = evidence_overrides d @ [row]"
    "eo_id row = next_id eo_id (evidence_overrides d)" "eo_action row = ''revert''"
    "eo_reverses_override_id row = Some i" "eo_new_value row = eo_original_value orig"
    "eo_original_value row = eo_new_value orig" "eo_opportunity_id orig = oid"
proof -
  from assms obtain orig where o: "tget eo_id i (evidence_overrides d) = Some orig"
    by (auto simp: reverse_override_def split: option.splits)
  have "eo_id orig = i" using o by (auto dest: tget_Some_key)
  with assms o show thesis
    by (intro that [OF o]) (auto simp: reverse_override_def add_override_def Let_def)
qed

text \<open>Transitions move exactly the named opportunity along one edge.\<close>

lemma transition_path:
  assumes "transition d oid r actor now = Inr (row, d')" "review_state_of d k = Some s"
  shows "\<exists>s'. review_state_of d' k = Some s' \<and> (s, s') \<in> (graph_edges ALLOWED_TRANSITIONS)\<^sup>*"
  using assms(1)
proof (rule transition_Inr)
  fix op current
  assume op: "tget op_id oid (opportunities d) = Some op" "canonical_state (op_status op) = Inr current"
    and edge: "tr_target_state r \<in> set (ALLOWED_TRANSITIONS current)"
    and d': "opportunities d' = tupd op_id oid (move_opportunity current (tr_target_state r)
       (str_or (tr_owner_user_id r) (op_owner_user_id op)) (op_review_version op + 1) now)
       (opportunities d)"
  show ?thesis
  proof (cases "k = oid")
    case True
    with assms(2) op have "s = current" by (simp add: review_state_of_def)
    moreover have "review_state_of d' k = Some (tr_target_state r)"
      using True op d' by (simp add: review_state_of_def tget_tupd_same move_opportunity_def)
    ultimately show ?thesis using graph_edgesI [of "tr_target_state r" ALLOWED_TRANSITIONS, OF edge]
      by auto
  next
    case False
    then have "review_state_of d' k = review_state_of d k"
      using d' by (simp add: review_state_of_def tget_tupd_other move_opportunity_def)
    with assms(2) show ?thesis by auto
  qed
qed

lemma review_step_path:
  assumes "review_step d opn = Inr d'" "review_state_of d k = Some s"
  shows "\<exists>s'. review_state_of d' k = Some s' \<and> (s, s') \<in> (graph_edges ALLOWED_TRANSITIONS)\<^sup>*"
proof (cases opn)
  case (Transition oid r actor now)
  with assms transition_path [of d oid _ actor now] show ?thesis by auto
next
  case (TransitionSystem oid target dec reason now)
  with assms obtain row where "transition_system d oid target dec reason now = Inr (row, d')"
    by auto
  then show ?thesis
    by (rule transition_system_Inr) (use assms(2) transition_path in \<open>blast+\<close>)
next
  case (AssignOwner oid r actor)
  with assms obtain row where "assign_owner d oid r actor = Inr (row, d')" by auto
  then have "review_state_of d' k = review_state_of d k"
    by (rule assign_owner_Inr)
      (auto simp: review_state_of_def tget_tupd option.map_comp comp_def split: option.splits)
  with assms(2) show ?thesis by auto
next
  case (ApplyOverride oid r actor)
  with assms have "opportunities d' = opportunities d" by (auto simp: apply_override_Inr)
  with assms(2) show ?thesis by (auto simp: review_state_of_def)
next
  case (ReverseOverride oid i r actor)
  with assms have "opportunities d' = opportunities d" by (auto elim: reverse_override_Inr)
  with assms(2) show ?thesis by (auto simp: review_state_of_def)
qed

interpretation review: lifecycle review_step review_state_of ALLOWED_TRANSITIONS
  by unfold_locales (rule review_step_path)

section \<open>Review history\<close>

definition reviews_of :: "database \<Rightarrow> int \<Rightarrow> opportunity_review list" where
  "reviews_of d oid = filter (\<lambda>r. rv_opportunity_id r = oid) (opportunity_reviews d)"

definition human_approval :: "database \<Rightarrow> int \<Rightarrow> bool" where
  "human_approval d oid \<longleftrightarrow> (\<exists>r \<in> set (reviews_of d oid).
     rv_review_state r = ''approved_for_property'' \<and> rv_reviewer_role r \<noteq> RR_system)"

definition opportunity_history_ok :: "database \<Rightarrow> opportunity \<Rightarrow> bool" where
  "opportunity_history_ok d op \<longleftrightarrow>
     0 \<le> op_review_version op \<and>
     map rv_review_version (reviews_of d (op_id op)) = [1..op_review_version op] \<and>
     (op_status op = ''approved_for_property'' \<longrightarrow> human_approval d (op_id op))"

definition review_history_ok :: "database \<Rightarrow> bool" where
  "review_history_ok d \<longleftrightarrow> keys_distinct op_id (opportunities d) \<and>
     (\<forall>op \<in> set (opportunities d). opportunity_history_ok d op)"

lemma upto_snoc: "0 \<le> v \<Longrightarrow> [1..v] @ [v + 1] = [1..v + 1]"
  using upto_rec2 [of 1 "v + 1"] by simp

lemma reviews_of_snoc:
  assumes "opportunity_reviews d' = opportunity_reviews d @ [row]"
  shows "reviews_of d' k = reviews_of d k @ (if rv_opportunity_id row = k then [row] else [])"
  using assms by (simp add: reviews_of_def)

lemma human_approval_snoc:
  "opportunity_reviews d' = opportunity_reviews d @ [row] \<Longrightarrow> human_approval d k \<Longrightarrow>
   human_approval d' k"
  by (auto simp: human_approval_def reviews_of_snoc)

lemma opportunity_status_approved:
  "state_value s = ''approved_for_property'' \<longleftrightarrow> s = approved_for_property"
  using state_value_inj [of s approved_for_property] by simp

text \<open>
  One audited change: a review row is appended and the opportunity takes its version.
\<close>

lemma audited_change_keeps_history:
  assumes ok: "review_history_ok d" and op: "tget op_id oid (opportunities d) = Some op"
    and f: "opportunities d' = tupd op_id oid f (opportunities d)" "\<And>x. op_id (f x) = op_id x"
      "op_review_version (f op) = op_review_version op + 1"
    and row: "opportunity_reviews d' = opportunity_reviews d @ [row]"
      "rv_opportunity_id row = oid" "rv_review_version row = op_review_version op + 1"
    and approved: "op_status (f op) = ''approved_for_property'' \<Longrightarrow>
      op_status op = ''approved_for_property'' \<or>
      (rv_review_state row = ''approved_for_property'' \<and> rv_reviewer_role row \<noteq> RR_system)"
  shows "review_history_ok d'"
proof -
  have dist: "keys_distinct op_id (opportunities d)" using ok by (simp add: review_history_ok_def)
  have opin: "op \<in> set (opportunities d)" "op_id op = oid" using op by (auto dest: tget_Some_key)
  have old: "opportunity_history_ok d x" if "x \<in> set (opportunities d)" for x
    using ok that by (simp add: review_history_ok_def)
  have "opportunity_history_ok d' x" if x: "x \<in> set (opportunities d')" for x
  proof -
    from x f(1) consider "x \<in> set (opportunities d)" "op_id x \<noteq> oid"
      | y where "y \<in> set (opportunities d)" "op_id y = oid" "x = f y"
      by (auto simp: set_tupd)
    then show ?thesis
    proof cases
      case 1
      with old [of x] row show ?thesis
        by (auto simp: opportunity_history_ok_def reviews_of_snoc [OF row(1)]
            intro: human_approval_snoc [OF row(1)])
    next
      case 2
      have "y = op" using tget_in_set [OF dist 2(1)] 2(2) op by simp
      with 2 have xf: "x = f op" "op_id x = oid" using f(2) by auto
      from old [OF opin(1)] have v: "0 \<le> op_review_version op"
        "map rv_review_version (reviews_of d oid) = [1..op_review_version op]"
        "op_status op = ''approved_for_property'' \<Longrightarrow> human_approval d oid"
        by (auto simp: opportunity_history_ok_def opin(2))
      have "human_approval d' oid" if "op_status x = ''approved_for_property''"
        using approved that xf v(3) row
        by (auto simp: human_approval_def reviews_of_snoc [OF row(1)])
      with v xf f(3) row show ?thesis
        by (simp add: opportunity_history_ok_def reviews_of_snoc [OF row(1)] upto_snoc)
    qed
  qed
  with dist f show ?thesis by (simp add: review_history_ok_def keys_distinct_tupd)
qed

lemma transition_keeps_history:
  assumes "review_history_ok d" "transition d oid r actor now = Inr (row, d')"
  shows "review_history_ok d'"
  using assms(2)
  by (rule transition_Inr)
    (rule audited_change_keeps_history [OF assms(1)], assumption+,
      auto simp: move_opportunity_def opportunity_status_approved)

lemma history_frame:
  "review_history_ok d \<Longrightarrow> opportunities d' = opportunities d \<Longrightarrow>
   opportunity_reviews d' = opportunity_reviews d \<Longrightarrow> review_history_ok d'"
  by (simp add: review_history_ok_def opportunity_history_ok_def human_approval_def reviews_of_def)

lemma review_step_keeps_history:
  assumes ok: "review_history_ok d" and step: "review_step d opn = Inr d'"
  shows "review_history_ok d'"
proof (cases opn)
  case (Transition oid r actor now)
  with step ok show ?thesis by (auto intro: transition_keeps_history)
next
  case (TransitionSystem oid target dec reason now)
  with step obtain row where "transition_system d oid target dec reason now = Inr (row, d')"
    by auto
  then show ?thesis
    by (rule transition_system_Inr) (use ok transition_keeps_history in \<open>blast+\<close>)
next
  case (AssignOwner oid r actor)
  with step obtain row where "assign_owner d oid r actor = Inr (row, d')" by auto
  then show ?thesis
    by (rule assign_owner_Inr)
      (rule audited_change_keeps_history [OF ok], assumption+, auto)
next
  case (ApplyOverride oid r actor)
  with step ok show ?thesis by (auto intro: history_frame simp: apply_override_Inr)
next
  case (ReverseOverride oid i r actor)
  with step ok show ?thesis by (auto elim!: reverse_override_Inr intro: history_frame)
qed

interpretation review_history: request_machine review_step review_history_ok
  by unfold_locales (rule review_step_keeps_history)

section \<open>Active overrides\<close>

definition override_slot :: "evidence_override \<Rightarrow> int \<times> evidence_override_kind \<times> int \<times> string" where
  "override_slot o' = (eo_opportunity_id o', eo_override_kind o', eo_target_record_id o', eo_field_name o')"

definition override_active :: "database \<Rightarrow> evidence_override \<Rightarrow> bool" where
  "override_active d o' \<longleftrightarrow> eo_action o' = ''apply'' \<and> \<not> override_reversed d (eo_id o')"

definition overrides_ok :: "database \<Rightarrow> bool" where
  "overrides_ok d \<longleftrightarrow> keys_distinct eo_id (evidence_overrides d) \<and>
     (\<forall>a \<in> set (evidence_overrides d). \<forall>b \<in> set (evidence_overrides d).
        override_active d a \<longrightarrow> override_active d b \<longrightarrow> override_slot a = override_slot b \<longrightarrow> a = b) \<and>
     (\<forall>a \<in> set (evidence_overrides d). \<forall>i. eo_reverses_override_id a = Some i \<longrightarrow>
        i \<in> eo_id ` set (evidence_overrides d))"

lemma override_reversed_snoc:
  "evidence_overrides d' = evidence_overrides d @ [row] \<Longrightarrow>
   override_reversed d' i \<longleftrightarrow> override_reversed d i \<or> eo_reverses_override_id row = Some i"
  by (auto simp: override_reversed_def)

lemma active_override_None:
  "active_override d oid kind target field = None \<longleftrightarrow>
   (\<forall>a \<in> set (evidence_overrides d). override_active d a \<longrightarrow>
      override_slot a \<noteq> (oid, kind, target, field))"
  by (auto simp: active_override_def select_latest_None override_active_def override_slot_def)

lemma apply_keeps_overrides:
  assumes ok: "overrides_ok d" and res: "apply_override d oid r actor = Inr (row, d')"
  shows "overrides_ok d'"
proof -
  note row = apply_override_Inr [OF res]
  have act: "override_active d' a \<longleftrightarrow> override_active d a" for a
    using override_reversed_snoc [OF row(3)] row(6) by (simp add: override_active_def)
  have slot: "override_slot row = (oid, er_override_kind r, er_target_record_id r, er_field_name r)"
    by (simp add: override_slot_def row)
  have free: "override_slot a \<noteq> override_slot row"
    if "a \<in> set (evidence_overrides d)" "override_active d a" for a
    using that row(11) unfolding slot active_override_None by blast
  have fresh: "eo_id row \<notin> eo_id ` set (evidence_overrides d)"
    using row(4) next_id_fresh [of eo_id "evidence_overrides d"] by simp
  have uniq: "a = b" if "a \<in> set (evidence_overrides d')" "b \<in> set (evidence_overrides d')"
      "override_active d' a" "override_active d' b" "override_slot a = override_slot b" for a b
  proof -
    have "a = row \<or> a \<in> set (evidence_overrides d)" "b = row \<or> b \<in> set (evidence_overrides d)"
      using that(1,2) by (auto simp: row(3))
    with that(3-5) ok free [of a] free [of b] show ?thesis unfolding act overrides_ok_def by metis
  qed
  with ok fresh row(3,6) show ?thesis by (auto simp: overrides_ok_def keys_distinct_append)
qed

lemma reverse_keeps_overrides:
  assumes ok: "overrides_ok d" and res: "reverse_override d oid i r actor = Inr (row, d')"
  shows "overrides_ok d'"
  using res
proof (rule reverse_override_Inr)
  fix orig
  assume o: "tget eo_id i (evidence_overrides d) = Some orig"
    and row: "evidence_overrides d' = evidence_overrides d @ [row]"
      "eo_id row = next_id eo_id (evidence_overrides d)" "eo_action row = ''revert''"
      "eo_reverses_override_id row = Some i"
  have act: "override_active d' a \<Longrightarrow> override_active d a" for a
    using override_reversed_snoc [OF row(1)] by (simp add: override_active_def)
  have nrow: "\<not> override_active d' row" using row(3) by (simp add: override_active_def)
  have fresh: "eo_id row \<notin> eo_id ` set (evidence_overrides d)"
    using row(2) next_id_fresh [of eo_id "evidence_overrides d"] by simp
  have i: "i \<in> eo_id ` set (evidence_overrides d)" using o by (auto dest: tget_Some_key)
  have uniq: "a = b" if "a \<in> set (evidence_overrides d')" "b \<in> set (evidence_overrides d')"
      "override_active d' a" "override_active d' b" "override_slot a = override_slot b" for a b
    using that ok nrow act [of a] act [of b] unfolding row(1) overrides_ok_def by auto
  with ok fresh row i show ?thesis by (auto simp: overrides_ok_def keys_distinct_append)
qed

lemma overrides_frame:
  "overrides_ok d \<Longrightarrow> evidence_overrides d' = evidence_overrides d \<Longrightarrow> overrides_ok d'"
  by (simp add: overrides_ok_def override_active_def override_reversed_def)

lemma review_step_keeps_overrides:
  assumes ok: "overrides_ok d" and step: "review_step d opn = Inr d'"
  shows "overrides_ok d'"
proof (cases opn)
  case (Transition oid r actor now)
  with step ok show ?thesis by (auto elim!: transition_Inr intro: overrides_frame)
next
  case (TransitionSystem oid target dec reason now)
  with step obtain row where "transition_system d oid target dec reason now = Inr (row, d')"
    by auto
  then show ?thesis
    by (rule transition_system_Inr) (use ok in \<open>auto elim!: transition_Inr intro: overrides_frame\<close>)
next
  case (AssignOwner oid r actor)
  with step ok show ?thesis by (auto elim!: assign_owner_Inr intro: overrides_frame)
next
  case (ApplyOverride oid r actor)
  with step ok show ?thesis by (auto intro: apply_keeps_overrides)
next
  case (ReverseOverride oid i r actor)
  with step ok show ?thesis by (auto intro: reverse_keeps_overrides)
qed

interpretation override_history: request_machine review_step overrides_ok
  by unfold_locales (rule review_step_keeps_overrides)

section \<open>Properties\<close>

text \<open>
  The review workflow never leaves its state graph. Through any sequence of review
  requests (human and system transitions, ownership changes, overrides, refused requests
  included), an opportunity's state moves only along \<open>ALLOWED_TRANSITIONS\<close>, and an archived
  opportunity stays archived for ever.
\<close>

theorem review_states_follow_graph:
  assumes "review_state_of d oid = Some s"
  shows "\<exists>s'. review_state_of (run_requests review_step d ops) oid = Some s' \<and>
    (s, s') \<in> (graph_edges ALLOWED_TRANSITIONS)\<^sup>* \<and> (s = archived \<longrightarrow> s' = archived)"
  using review.always_run_path [OF assms, of ops] review.always_terminal [OF assms, of ops] by force

text \<open>
  C3: Approval is a human decision on complete evidence. When a transition to
  \<open>approved_for_property\<close> succeeds, the opportunity was in full review, the reviewer is not
  the system actor, an owner is assigned, and the newest completed full scan is at most 90
  days old, has a matching score whose evidence is complete, passed the quality check
  (possibly with warnings), has keyword, SERP, competitor and provider evidence, and a
  complete cost ledger.
\<close>

theorem approval_requires_evidence:
  assumes "transition d oid r actor now = Inr (row, d')"
    and "tr_target_state r = approved_for_property"
  shows "review_state_of d oid = Some full_review \<and> actor_role actor \<noteq> RR_system \<and>
    (\<exists>op scan score t.
       tget op_id oid (opportunities d) = Some op \<and> truthy_str (op_owner_user_id op) \<and>
       latest_full_scan d oid = Some scan \<and>
       sr_completed_at scan = Some t \<and> now - timedelta_days 90 \<le> t \<and>
       full_score_of d oid (sr_id scan) = Some score \<and>
       jget (fs_payload score) ''evidence_status'' \<in> {None, Some (JStr ''complete'')} \<and>
       evidence_quality_status scan \<in> {Some (JStr ''pass''), Some (JStr ''warning'')} \<and>
       0 < ec_keyword_decisions (evidence_counts_of d (sr_id scan)) \<and>
       0 < ec_serp_snapshots (evidence_counts_of d (sr_id scan)) \<and>
       0 < ec_competitor_metrics (evidence_counts_of d (sr_id scan)) \<and>
       0 < ec_provider_candidates (evidence_counts_of d (sr_id scan)) \<and>
       al_ledger_complete (build_api_cost_ledger d (Some (sr_id scan))))"
  using assms(1)
proof (rule transition_Inr)
  fix op current
  assume op: "tget op_id oid (opportunities d) = Some op" "canonical_state (op_status op) = Inr current"
    and edge: "tr_target_state r \<in> set (ALLOWED_TRANSITIONS current)"
    and human: "tr_target_state r \<in> {approved_for_property, rejected} \<Longrightarrow>
      actor_role actor \<noteq> RR_system"
    and complete: "tr_target_state r = approved_for_property \<Longrightarrow>
      apc_complete (approval_completeness_of d op 90 now)"
  have id: "op_id op = oid" using op(1) by (auto dest: tget_Some_key)
  have "current = full_review" using edge assms(2) by (cases current) auto
  then have "review_state_of d oid = Some full_review" using op by (simp add: review_state_of_def)
  moreover have "list_all snd (approval_checks d op 90 now)"
    using complete assms(2)
    by (auto simp: approval_completeness_of_def Let_def list_all_iff filter_empty_conv)
  ultimately show ?thesis
    using human assms(2) op id
    by (auto simp: approval_checks_def Let_def split: option.splits)
qed

text \<open>
  The audit trail is gapless. From opportunities whose history is consistent, any sequence
  of review requests keeps it so: the review rows of each opportunity carry the versions
  \<open>1, 2, ..., review_version\<close> in order, one per change, and an opportunity whose status is
  \<open>approved_for_property\<close> has a review row in which a human approved it.
\<close>

theorem review_history_gapless:
  assumes "review_history_ok d" and "op \<in> set (opportunities (run_requests review_step d ops))"
  shows "map rv_review_version (reviews_of (run_requests review_step d ops) (op_id op)) =
      [1..op_review_version op] \<and>
    (op_status op = ''approved_for_property'' \<longrightarrow>
       (\<exists>r \<in> set (reviews_of (run_requests review_step d ops) (op_id op)).
          rv_review_state r = ''approved_for_property'' \<and> rv_reviewer_role r \<noteq> RR_system))"
  using review_history.run_inv [OF assms(1), of ops] assms(2)
  by (auto simp: review_history_ok_def opportunity_history_ok_def human_approval_def)

text \<open>
  Overrides are exclusive and reversible. Through any sequence of review requests at most
  one override is active per opportunity, kind, target record and field; and reversing an
  override that was just applied leaves no active override in its slot, restores the
  original value in the reversal row, and makes a second reversal fail.
\<close>

theorem override_exclusive_and_reversible:
  assumes "overrides_ok d"
    and "apply_override (run_requests review_step d ops) oid r actor = Inr (row, d1)"
    and "reverse_override d1 oid (eo_id row) rr actor' = Inr (row', d2)"
  shows "(\<forall>a \<in> set (evidence_overrides d1). \<forall>b \<in> set (evidence_overrides d1).
      override_active d1 a \<and> override_active d1 b \<and> override_slot a = override_slot b \<longrightarrow> a = b) \<and>
    active_override d2 oid (er_override_kind r) (er_target_record_id r) (er_field_name r) = None \<and>
    eo_new_value row' = eo_original_value row \<and>
    reverse_override d2 oid (eo_id row) rr2 actor2 =
      Inl (OpportunityReviewError ''evidence_override_already_reversed'')"
proof -
  let ?d = "run_requests review_step d ops"
  have ok: "overrides_ok ?d" by (rule override_history.run_inv [OF assms(1)])
  have ok1: "overrides_ok d1" by (rule apply_keeps_overrides [OF ok assms(2)])
  note row = apply_override_Inr [OF assms(2)]
  have fresh: "eo_id row \<notin> eo_id ` set (evidence_overrides ?d)"
    using row(4) next_id_fresh [of eo_id "evidence_overrides ?d"] by simp
  have get: "tget eo_id (eo_id row) (evidence_overrides d1) = Some row"
    using ok1 row(3) by (intro tget_in_set) (auto simp: overrides_ok_def)
  from assms(3) have rev: "evidence_overrides d2 = evidence_overrides d1 @ [row']"
    "eo_reverses_override_id row' = Some (eo_id row)" "eo_new_value row' = eo_original_value row"
    "eo_action row' = ''revert''"
    using get by (auto elim!: reverse_override_Inr)
  have "active_override d2 oid (er_override_kind r) (er_target_record_id r) (er_field_name r) = None"
    unfolding active_override_None
  proof (intro ballI impI)
    fix a
    assume a: "a \<in> set (evidence_overrides d2)" "override_active d2 a"
    with rev(2,4) have "a \<noteq> row'" "a \<noteq> row" "override_active d1 a"
      by (auto simp: override_active_def override_reversed_snoc [OF rev(1)])
    with a rev(1) row(3) have old: "a \<in> set (evidence_overrides ?d)" "override_active ?d a"
      using override_reversed_snoc [OF row(3)] by (auto simp: override_active_def)
    then show "override_slot a \<noteq> (oid, er_override_kind r, er_target_record_id r, er_field_name r)"
      using row(11) unfolding active_override_None by blast
  qed
  moreover have "reverse_override d2 oid (eo_id row) rr2 actor2 =
      Inl (OpportunityReviewError ''evidence_override_already_reversed'')"
    using get rev(1,2) row(5,7) override_reversed_snoc [OF rev(1)]
    by (simp add: reverse_override_def tget_append guard_eval)
  ultimately show ?thesis using ok1 rev(3) by (simp add: overrides_ok_def)
qed

section \<open>Witnesses\<close>

definition sample_actor :: review_actor where
  "sample_actor = \<lparr>actor_id = ''ana'', actor_role = RR_reviewer\<rparr>"

definition sample_review_db :: database where
  "sample_review_db = empty_db\<lparr>
     opportunities := [blank_opportunity\<lparr>op_id := 1, op_status := ''full_review'',
       op_owner_user_id := Some ''ana''\<rparr>],
     scan_runs := [blank_scan_run\<lparr>sr_id := 5, sr_opportunity_id := Some 1,
       sr_scan_profile := ''full'', sr_status := ''completed'', sr_completed_at := Some 100,
       sr_partial_outputs := [(''evidence_quality'', JObj [(''status'', JStr ''pass'')])]\<rparr>],
     full_opportunity_scores := [blank_full_opportunity_score\<lparr>fs_id := 3, fs_scan_run_id := 5,
       fs_opportunity_id := 1\<rparr>],
     keyword_decisions := [blank_keyword_decision\<lparr>kd_scan_run_id := 5\<rparr>],
     serp_snapshots := [blank_serp_snapshot\<lparr>ss_id := 8, ss_scan_run_id := 5,
       ss_opportunity_id := Some 1\<rparr>],
     serp_results := [blank_serp_result\<lparr>sres_id := 9, sres_serp_snapshot_id := 8,
       sres_classification := ''directory''\<rparr>],
     competitor_metrics := [blank_competitor_metric\<lparr>cmet_scan_run_id := 5\<rparr>],
     provider_candidates := [blank_provider_candidate\<lparr>pc_id := 4, pc_scan_run_id := 5\<rparr>]\<rparr>"

definition sample_approval :: transition_request where
  "sample_approval = \<lparr>tr_target_state = approved_for_property, tr_decision = ''approve'',
     tr_decision_reason = ''complete evidence'', tr_notes = [], tr_tags = [],
     tr_owner_user_id = None, tr_expected_review_version = Some 0\<rparr>"

definition sample_override :: override_request where
  "sample_override = \<lparr>er_override_kind = OK_serp_classification, er_target_record_id = 9,
     er_field_name = ''classification'', er_new_value = JStr ''local'',
     er_expected_original_value = JNull, er_reason = ''it is a local provider'',
     er_score_impact = 1, er_score_impact_explanation = ''weaker rival''\<rparr>"

definition sample_reversal :: reversal_request where
  "sample_reversal = \<lparr>rr_reason = ''was right before'', rr_score_impact = 0,
     rr_score_impact_explanation = ''none left''\<rparr>"

theorem review_states_follow_graph_witness:
  "review_state_of (run_requests review_step sample_review_db
     [Transition 1 (sample_approval\<lparr>tr_target_state := archived\<rparr>) sample_actor 101,
      Transition 1 sample_approval sample_actor 102]) 1 = Some archived"
proof -
  let ?d = "run_requests review_step sample_review_db
      [Transition 1 (sample_approval\<lparr>tr_target_state := archived\<rparr>) sample_actor 101]"
  have "review_state_of ?d 1 = Some archived" by code_simp
  from review_states_follow_graph [OF this, of "[Transition 1 sample_approval sample_actor 102]"]
  have "review_state_of (run_requests review_step ?d
      [Transition 1 sample_approval sample_actor 102]) 1 = Some archived" by auto
  then show ?thesis by (simp only: run_requests_two)
qed

theorem approval_requires_evidence_witness:
  "\<exists>row d'. transition sample_review_db 1 sample_approval sample_actor 101 = Inr (row, d') \<and>
     review_state_of sample_review_db 1 = Some full_review"
proof -
  have "\<exists>row d'. transition sample_review_db 1 sample_approval sample_actor 101 = Inr (row, d')"
    by (rule not_isl_Inr_pair) code_simp
  then obtain row d' where
    t: "transition sample_review_db 1 sample_approval sample_actor 101 = Inr (row, d')" by blast
  have "tr_target_state sample_approval = approved_for_property" by (simp add: sample_approval_def)
  from approval_requires_evidence [OF t this] t show ?thesis by blast
qed

theorem review_history_gapless_witness:
  "\<exists>op \<in> set (opportunities (run_requests review_step sample_review_db
       [Transition 1 sample_approval sample_actor 101])).
     op_status op = ''approved_for_property'' \<and> op_review_version op = 1 \<and>
     map rv_review_version (reviews_of (run_requests review_step sample_review_db
       [Transition 1 sample_approval sample_actor 101]) (op_id op)) = [1..1]"
proof -
  let ?d = "run_requests review_step sample_review_db [Transition 1 sample_approval sample_actor 101]"
  have ok: "review_history_ok sample_review_db"
    by (simp add: review_history_ok_def opportunity_history_ok_def sample_review_db_def
        reviews_of_def keys_distinct_def row_defs empty_db_def)
  have ev: "length (opportunities ?d) = 1 \<and> op_status (hd (opportunities ?d)) = ''approved_for_property''
      \<and> op_review_version (hd (opportunities ?d)) = 1" by code_simp
  then have "hd (opportunities ?d) \<in> set (opportunities ?d)" by (intro list.set_sel) auto
  with review_history_gapless [OF ok this] ev show ?thesis by auto
qed

theorem override_exclusive_and_reversible_witness:
  "\<exists>row d1 row' d2. apply_override sample_review_db 1 sample_override sample_actor = Inr (row, d1) \<and>
     reverse_override d1 1 (eo_id row) sample_reversal sample_actor = Inr (row', d2) \<and>
     active_override d2 1 OK_serp_classification 9 ''classification'' = None"
proof -
  let ?a = "apply_override sample_review_db 1 sample_override sample_actor"
  let ?r = "reverse_override (snd (projr ?a)) 1 (eo_id (fst (projr ?a))) sample_reversal sample_actor"
  have ok: "overrides_ok sample_review_db"
    by (simp add: overrides_ok_def sample_review_db_def keys_distinct_def empty_db_def)
  have "\<not> isl ?a" "\<not> isl ?r" by code_simp+
  then obtain row d1 row' d2 where r: "?a = Inr (row, d1)"
    "reverse_override d1 1 (eo_id row) sample_reversal sample_actor = Inr (row', d2)"
    by (cases ?a; cases ?r) auto
  have a: "apply_override (run_requests review_step sample_review_db []) 1 sample_override
      sample_actor = Inr (row, d1)" using r(1) by simp
  from override_exclusive_and_reversible [OF ok a r(2)] r show ?thesis
    by (auto simp: sample_override_def)
qed

end
