(* ===== verification/Batch_Plans.thy ===== *)
theory Batch_Plans
  imports Opportunity_Review
begin

text \<open>
  Discovery templates and bounded batch scan plans of \<open>opportunity_review/services.py\<close>, with
  \<open>save_scan_plan_calls\<close> of \<open>services/records.py\<close>. The planner (\<open>planning.build_scan_plan\<close>)
  is the argument \<open>plan_of\<close> and the parser of a stored plan (\<open>ScanPlan.model_validate\<close>) is
  the argument \<open>parse_plan\<close>: every statement holds for whatever they return. Budgets and
  costs, \<open>Decimal\<close> in the source and \<open>float\<close> in the tables, are rationals.
\<close>

section \<open>Templates\<close>

record template_input =
  ti_name :: string
  ti_service_family_id :: int
  ti_market_filters :: jobj
  ti_prefilter_profile :: string
  ti_testing_profile :: string
  ti_full_profile :: string
  ti_budget_usd :: usd
  ti_freshness_requirements :: jobj

definition owned_template ::
  "database \<Rightarrow> int \<Rightarrow> review_actor \<Rightarrow> review_error + discovery_template" where
  "owned_template d tid actor =
     and_then (require_some (OpportunityReviewError ''discovery_template_not_found'')
       (tget dt_id tid (discovery_templates d))) (\<lambda>row.
     guarded
       [raise_if (dt_owner_user_id row \<noteq> actor_id actor \<and> actor_role actor \<noteq> RR_admin)
          (OpportunityReviewError ''discovery_template_access_denied''),
        raise_if (\<not> dt_active row) (OpportunityReviewError ''discovery_template_is_archived'')]
       (Inr row))"

definition create_template ::
  "database \<Rightarrow> template_input \<Rightarrow> review_actor \<Rightarrow>
   review_error + (discovery_template \<times> database)" where
  "create_template d r actor =
     guarded
       [raise_if (tget sf_id (ti_service_family_id r) (service_families d) = None)
          (OpportunityReviewError ''service_family_not_found''),
        raise_if (list_ex (\<lambda>t. dt_owner_user_id t = actor_id actor \<and> dt_name t = ti_name r)
            (discovery_templates d))
          (OpportunityReviewError ''discovery_template_name_exists'')]
       (let row = \<lparr>dt_id = next_id dt_id (discovery_templates d), dt_name = ti_name r,
              dt_owner_user_id = actor_id actor,
              dt_service_family_id = ti_service_family_id r,
              dt_market_filters = ti_market_filters r,
              dt_prefilter_profile = ti_prefilter_profile r,
              dt_testing_profile = ti_testing_profile r, dt_full_profile = ti_full_profile r,
              dt_budget_usd = ti_budget_usd r,
              dt_freshness_requirements = ti_freshness_requirements r, dt_active = True\<rparr>
        in Inr (row, d\<lparr>discovery_templates := discovery_templates d @ [row]\<rparr>))"

definition update_template ::
  "database \<Rightarrow> int \<Rightarrow> template_input \<Rightarrow> review_actor \<Rightarrow> review_error + database" where
  "update_template d tid r actor =
     and_then (owned_template d tid actor) (\<lambda>row.
     guarded
       [raise_if (tget sf_id (ti_service_family_id r) (service_families d) = None)
          (OpportunityReviewError ''service_family_not_found'')]
       (Inr (d\<lparr>discovery_templates := tupd dt_id tid (\<lambda>t. t\<lparr>dt_name := ti_name r,
            dt_service_family_id := ti_service_family_id r,
            dt_market_filters := ti_market_filters r,
            dt_prefilter_profile := ti_prefilter_profile r,
            dt_testing_profile := ti_testing_profile r, dt_full_profile := ti_full_profile r,
            dt_budget_usd := ti_budget_usd r,
            dt_freshness_requirements := ti_freshness_requirements r\<rparr>)
          (discovery_templates d)\<rparr>)))"

definition archive_template ::
  "database \<Rightarrow> int \<Rightarrow> review_actor \<Rightarrow> review_error + database" where
  "archive_template d tid actor =
     and_then (owned_template d tid actor) (\<lambda>row.
       Inr (d\<lparr>discovery_templates :=
         tupd dt_id tid (\<lambda>t. t\<lparr>dt_active := False\<rparr>) (discovery_templates d)\<rparr>))"

definition list_templates :: "database \<Rightarrow> review_actor \<Rightarrow> discovery_template list" where
  "list_templates d actor =
     sort_key dt_name (filter (\<lambda>t. dt_owner_user_id t = actor_id actor \<and> dt_active t)
       (discovery_templates d))"

section \<open>Batch plans\<close>

record scan_plan =
  sp_blocked :: bool
  sp_estimated_uncached_cost_usd :: usd
  sp_payload :: jobj

record batch_request =
  bq_name :: string
  bq_opportunity_ids :: "int list"
  bq_scan_profile :: string
  bq_data_mode :: string
  bq_aggregate_budget_usd :: usd
  bq_template_id :: "int option"

definition validate_batch_request :: "batch_request \<Rightarrow> review_error + batch_request" where
  "validate_batch_request r =
     guarded
       [raise_if (\<not> len_between 2 160 (bq_name r)) (RequestValidationError ''name''),
        raise_if (bq_opportunity_ids r = [] \<or> 100 < length (bq_opportunity_ids r))
          (RequestValidationError ''opportunity_ids''),
        raise_if (bq_scan_profile r \<notin> set [''testing'', ''full''])
          (RequestValidationError ''scan_profile''),
        raise_if (bq_data_mode r \<notin> set [''fixture'', ''replay'', ''live''])
          (RequestValidationError ''data_mode''),
        raise_if (bq_aggregate_budget_usd r < 0) (RequestValidationError ''aggregate_budget_usd''),
        raise_if (list_ex (\<lambda>i. i \<le> 0) (bq_opportunity_ids r))
          (RequestValidationError ''opportunity_ids must contain positive integers.''),
        raise_if (\<not> distinct (bq_opportunity_ids r))
          (RequestValidationError ''opportunity_ids must not contain duplicates.'')]
       (Inr r)"

definition batch_eligible_states :: "string \<Rightarrow> opportunity_state list" where
  "batch_eligible_states profile =
     (if profile = ''testing''
      then [discovered, prefilter_review, preliminary_review, needs_more_evidence]
      else [preliminary_review, needs_more_evidence])"

type_synonym planner = "database \<Rightarrow> string \<Rightarrow> string \<Rightarrow> opportunity \<Rightarrow> scan_plan"

text \<open>The planning loop over the selected opportunities, in the order of their ids.\<close>

fun plan_opportunities ::
  "planner \<Rightarrow> database \<Rightarrow> discovery_template option \<Rightarrow> batch_request \<Rightarrow> opportunity list \<Rightarrow>
   review_error + (opportunity \<times> scan_plan) list" where
  "plan_opportunities plan_of d template r [] = Inr []"
| "plan_opportunities plan_of d template r (op # ops) =
     guarded
       [raise_if (case template of None \<Rightarrow> False
          | Some t \<Rightarrow> op_service_family_id op \<noteq> dt_service_family_id t)
          (OpportunityReviewError ''batch_opportunity_service_does_not_match_template'')]
     (and_then (canonical_state (op_status op)) (\<lambda>state.
      guarded
       [raise_if (state \<notin> set (batch_eligible_states (bq_scan_profile r)))
          (OpportunityReviewError ''opportunity_not_eligible_for_batch_plan''),
        raise_if (sp_blocked (plan_of d (bq_data_mode r) (bq_scan_profile r) op))
          (OpportunityReviewError ''batch_item_blocked_by_scan_policy'')]
      (map_result (\<lambda>rest. (op, plan_of d (bq_data_mode r) (bq_scan_profile r) op) # rest)
        (plan_opportunities plan_of d template r ops))))"

definition new_batch_item :: "int \<Rightarrow> int \<Rightarrow> opportunity \<times> scan_plan \<Rightarrow> batch_scan_plan_item" where
  "new_batch_item i batch_id p =
     \<lparr>bi_id = i, bi_batch_plan_id = batch_id, bi_opportunity_id = op_id (fst p),
      bi_status = ''planned'',
      bi_estimated_cost_usd = sp_estimated_uncached_cost_usd (snd p),
      bi_scan_plan_payload = sp_payload (snd p), bi_scan_run_id = None\<rparr>"

fun add_batch_items ::
  "string \<Rightarrow> int \<Rightarrow> instant \<Rightarrow> (opportunity \<times> scan_plan) list \<Rightarrow> database \<Rightarrow>
   review_error + database" where
  "add_batch_items profile batch_id now [] d = Inr d"
| "add_batch_items profile batch_id now (p # ps) d =
     (let d1 = d\<lparr>batch_scan_plan_items := batch_scan_plan_items d @
            [new_batch_item (next_id bi_id (batch_scan_plan_items d)) batch_id p]\<rparr>
      in and_then (if profile = ''testing''
           then map_result snd (transition_system d1 (op_id (fst p)) testing_planned
             ''batch_testing_planned''
             (''Included in bounded testing batch '' @ py_str_int batch_id @ ''.'') now)
           else Inr d1) (add_batch_items profile batch_id now ps))"

definition total_planned_cost :: "(opportunity \<times> scan_plan) list \<Rightarrow> usd" where
  "total_planned_cost plans = sum_list (map (sp_estimated_uncached_cost_usd \<circ> snd) plans)"

definition new_batch :: "int \<Rightarrow> batch_request \<Rightarrow> review_actor \<Rightarrow> usd \<Rightarrow> batch_scan_plan" where
  "new_batch i r actor cost =
     \<lparr>bp_id = i, bp_name = bq_name r, bp_template_id = bq_template_id r,
      bp_created_by = actor_id actor, bp_scan_profile = bq_scan_profile r,
      bp_data_mode = bq_data_mode r, bp_status = ''planned'',
      bp_aggregate_budget_usd = bq_aggregate_budget_usd r,
      bp_aggregate_estimated_cost_usd = cost, bp_approved_max_cost_usd = None,
      bp_confirmed_by = None, bp_confirmation_reason = None, bp_confirmed_at = None,
      bp_queued_at = None\<rparr>"

definition create_batch_plan ::
  "planner \<Rightarrow> database \<Rightarrow> batch_request \<Rightarrow> review_actor \<Rightarrow> instant \<Rightarrow>
   review_error + (int \<times> database)" where
  "create_batch_plan plan_of d r actor now =
     and_then (case bq_template_id r of
         None \<Rightarrow> Inr None
       | Some tid \<Rightarrow> and_then (owned_template d tid actor) (\<lambda>t.
           guarded [raise_if (dt_budget_usd t < bq_aggregate_budget_usd r)
               (OpportunityReviewError ''batch_budget_exceeds_template_budget'')]
             (Inr (Some t)))) (\<lambda>template.
     let rows = sort_key op_id (filter (\<lambda>o'. op_id o' \<in> set (bq_opportunity_ids r)) (opportunities d))
     in guarded [raise_if (length rows \<noteq> length (bq_opportunity_ids r))
           (OpportunityReviewError ''batch_opportunity_not_found'')]
       (and_then (plan_opportunities plan_of d template r rows) (\<lambda>plans.
        guarded [raise_if (bq_aggregate_budget_usd r < total_planned_cost plans)
            (OpportunityReviewError ''batch_aggregate_cost_exceeds_budget'')]
        (let batch_id = next_id bp_id (batch_scan_plans d);
             batch = new_batch batch_id r actor (total_planned_cost plans)
         in map_result (\<lambda>d'. (batch_id, d'))
              (add_batch_items (bq_scan_profile r) batch_id now plans
                (d\<lparr>batch_scan_plans := batch_scan_plans d @ [batch]\<rparr>))))))"

definition batch_of :: "database \<Rightarrow> int \<Rightarrow> review_error + batch_scan_plan" where
  "batch_of d bid =
     require_some (OpportunityReviewError ''batch_plan_not_found'')
       (tget bp_id bid (batch_scan_plans d))"

definition batch_items :: "database \<Rightarrow> int \<Rightarrow> batch_scan_plan_item list" where
  "batch_items d bid =
     sort_key bi_id (filter (\<lambda>i. bi_batch_plan_id i = bid) (batch_scan_plan_items d))"

record confirmation_request =
  cf_approved_max_cost_usd :: usd
  cf_reason :: string

fun approve_full_scans ::
  "string \<Rightarrow> review_actor \<Rightarrow> instant \<Rightarrow> batch_scan_plan_item list \<Rightarrow> database \<Rightarrow>
   review_error + database" where
  "approve_full_scans reason actor now [] d = Inr d"
| "approve_full_scans reason actor now (item # items) d =
     and_then (validate_transition_request
       \<lparr>tr_target_state = full_scan_approved, tr_decision = ''bounded_batch_full_scan_approval'',
        tr_decision_reason = reason, tr_notes = [], tr_tags = [], tr_owner_user_id = None,
        tr_expected_review_version = None\<rparr>) (\<lambda>request.
     and_then (transition d (bi_opportunity_id item) request actor now) (\<lambda>(row, d').
       approve_full_scans reason actor now items d'))"

definition confirm_batch ::
  "database \<Rightarrow> int \<Rightarrow> confirmation_request \<Rightarrow> review_actor \<Rightarrow> instant \<Rightarrow>
   review_error + database" where
  "confirm_batch d bid r actor now =
     and_then (batch_of d bid) (\<lambda>batch.
     guarded
       [raise_if (bp_status batch \<noteq> ''planned'')
          (OpportunityReviewError ''batch_plan_not_awaiting_confirmation''),
        raise_if (cf_approved_max_cost_usd r < bp_aggregate_estimated_cost_usd batch)
          (OpportunityReviewError ''approved_batch_cost_below_estimate''),
        raise_if (bp_aggregate_budget_usd batch < cf_approved_max_cost_usd r)
          (OpportunityReviewError ''approved_batch_cost_exceeds_plan_budget'')]
       (let d1 = d\<lparr>batch_scan_plans := tupd bp_id bid (\<lambda>b. b\<lparr>bp_status := ''confirmed'',
              bp_approved_max_cost_usd := Some (cf_approved_max_cost_usd r),
              bp_confirmed_by := Some (actor_id actor),
              bp_confirmation_reason := Some (cf_reason r),
              bp_confirmed_at := Some now\<rparr>) (batch_scan_plans d)\<rparr>
        in if bp_scan_profile batch = ''full''
           then approve_full_scans (cf_reason r) actor now (batch_items d1 bid) d1
           else Inr d1))"

section \<open>Queueing\<close>

definition service_json :: "service_family \<Rightarrow> jobj" where
  "service_json s =
     (let strs = (\<lambda>xs. JList (map JStr xs)) in
      [(''id'', JStr (sf_slug s)), (''slug'', JStr (sf_slug s)),
       (''display_name'', JStr (sf_display_name s)), (''description'', JStr (sf_description s)),
       (''seed_queries'', strs (sf_seed_queries s)), (''negative_terms'', strs (sf_negative_terms s)),
       (''intent_modifiers'', strs (sf_intent_modifiers s)),
       (''negative_product_terms'', strs (sf_negative_product_terms s)),
       (''provider_categories'', strs (sf_provider_categories s)),
       (''regulated'', JBool (sf_regulated s)), (''enabled'', JBool (sf_enabled s))])"

definition market_json :: "market \<Rightarrow> jobj" where
  "market_json m =
     (let strs = (\<lambda>xs. JList (map JStr xs)) in
      [(''id'', JStr (mk_slug m)), (''slug'', JStr (mk_slug m)),
       (''display_name'', JStr (mk_display_name m)), (''type'', JStr (mk_type m)),
       (''country_code'', JStr (mk_country_code m)), (''state'', opt_str (mk_state m)),
       (''cities'', strs (mk_cities m)), (''postal_codes'', strs (mk_postal_codes m)),
       (''county'', opt_str (mk_county m)), (''county_fips'', opt_str (mk_county_fips m)),
       (''metro'', opt_str (mk_metro m)), (''metro_code'', opt_str (mk_metro_code m)),
       (''latitude'', opt_rat (mk_latitude m)), (''longitude'', opt_rat (mk_longitude m)),
       (''population'', opt_num (mk_population m)),
       (''reference_population'', opt_num (mk_reference_population m)),
       (''aliases'', strs (mk_aliases m)),
       (''boundary_radius_km'', opt_rat (mk_boundary_radius_km m)),
       (''geography_id'', opt_str (mk_geography_id m)),
       (''geography_dataset_version'', opt_str (mk_geography_dataset_version m)),
       (''provider_location_code'', opt_str (mk_provider_location_code m)),
       (''provider_location_name'', opt_str (mk_provider_location_name m)),
       (''resolution_metadata'', JObj (mk_resolution_metadata m))])"

text \<open>
  \<open>save_scan_plan_calls\<close>: the plan's calls replace those of the scan. The summary row of
  \<open>scan_plans\<close> is read only by reports and is left out.
\<close>

fun add_plan_calls :: "int \<Rightarrow> scan_plan_call list \<Rightarrow> scan_plan_call list \<Rightarrow> scan_plan_call list" where
  "add_plan_calls scan_id [] rows = rows"
| "add_plan_calls scan_id (c # cs) rows =
     add_plan_calls scan_id cs
       (rows @ [c\<lparr>spc_id := next_id spc_id rows, spc_scan_run_id := scan_id\<rparr>])"

definition save_scan_plan_calls :: "database \<Rightarrow> int \<Rightarrow> scan_plan_call list \<Rightarrow> database" where
  "save_scan_plan_calls d scan_id calls =
     d\<lparr>scan_plan_calls := add_plan_calls scan_id calls
         (filter (\<lambda>p. spc_scan_run_id p \<noteq> scan_id) (scan_plan_calls d))\<rparr>"

definition batch_scan_run ::
  "int \<Rightarrow> batch_scan_plan \<Rightarrow> batch_scan_plan_item \<Rightarrow> opportunity \<Rightarrow> service_family \<Rightarrow> market \<Rightarrow>
   scan_run" where
  "batch_scan_run i batch item op service mk =
     \<lparr>sr_id = i, sr_opportunity_id = Some (op_id op), sr_source = ''batch_review_async'',
      sr_status = ''queued'', sr_estimated_cost_usd = bi_estimated_cost_usd item,
      sr_actual_cost_usd = 0, sr_started_at = None, sr_completed_at = None,
      sr_error_summary = None,
      sr_integration_versions = [(''data_mode'', JStr (bp_data_mode batch)),
        (''queued'', JBool True), (''batch_plan_id'', JNum (of_int (bp_id batch)))],
      sr_request_parameters =
        [(''service'', JStr (sf_slug service)), (''market'', JStr (mk_slug mk)),
         (''data_mode'', JStr (bp_data_mode batch)),
         (''scan_profile'', JStr (bp_scan_profile batch)),
         (''scan_plan'', JObj (bi_scan_plan_payload item)),
         (''service_payload'', JObj (service_json service)),
         (''market_payload'', JObj (market_json mk)),
         (''final_market_payload'', JObj (market_json mk)),
         (''batch_plan_id'', JNum (of_int (bp_id batch))),
         (''batch_confirmed_by'', opt_str (bp_confirmed_by batch)),
         (''batch_approved_max_cost_usd'', opt_rat (bp_approved_max_cost_usd batch))],
      sr_data_mode = bp_data_mode batch, sr_scan_profile = bp_scan_profile batch,
      sr_adapter_names = [], sr_adapter_versions = [], sr_normalization_version = ''v1'',
      sr_scoring_version = None, sr_cache_policy_version = ''v2'',
      sr_planned_cost_usd = bi_estimated_cost_usd item, sr_source_scan_run_id = None,
      sr_progress_stage = ''queued'', sr_partial_outputs = [], sr_retry_count = 0,
      sr_max_attempts = 4, sr_next_attempt_at = None, sr_cancel_requested = False,
      sr_worker_id = None, sr_lease_token = None, sr_claimed_at = None, sr_heartbeat_at = None,
      sr_lease_expires_at = None, sr_quarantined_at = None, sr_quarantine_reason = None\<rparr>"

fun queue_items ::
  "(jobj \<Rightarrow> scan_plan_call list) \<Rightarrow> batch_scan_plan \<Rightarrow> batch_scan_plan_item list \<Rightarrow> database \<Rightarrow>
   review_error + (int list \<times> database)" where
  "queue_items parse_plan batch [] d = Inr ([], d)"
| "queue_items parse_plan batch (item # items) d =
     and_then (opportunity_of d (bi_opportunity_id item)) (\<lambda>op.
     and_then (require_some (OpportunityReviewError ''service_family_not_found'')
       (tget sf_id (op_service_family_id op) (service_families d))) (\<lambda>service.
     and_then (require_some (OpportunityReviewError ''market_not_found'')
       (tget mk_id (op_market_id op) (markets d))) (\<lambda>mk.
     let scan_id = next_id sr_id (scan_runs d);
         d1 = d\<lparr>scan_runs := scan_runs d @ [batch_scan_run scan_id batch item op service mk]\<rparr>;
         d2 = save_scan_plan_calls d1 scan_id (parse_plan (bi_scan_plan_payload item));
         d3 = d2\<lparr>batch_scan_plan_items := tupd bi_id (bi_id item)
                (\<lambda>i. i\<lparr>bi_scan_run_id := Some scan_id, bi_status := ''queued''\<rparr>)
                (batch_scan_plan_items d2)\<rparr>
     in map_result (\<lambda>(ids, d'). (scan_id # ids, d')) (queue_items parse_plan batch items d3))))"

record batch_queue_result =
  bqr_batch_plan_id :: int
  bqr_queued_scan_ids :: "int list"
  bqr_aggregate_planned_cost_usd :: usd
  bqr_approved_max_cost_usd :: usd

definition queue_batch ::
  "(jobj \<Rightarrow> scan_plan_call list) \<Rightarrow> database \<Rightarrow> int \<Rightarrow> instant \<Rightarrow>
   review_error + (batch_queue_result \<times> database)" where
  "queue_batch parse_plan d bid now =
     and_then (batch_of d bid) (\<lambda>batch.
     (case bp_approved_max_cost_usd batch of
        None \<Rightarrow> Inl (OpportunityReviewError ''batch_plan_requires_confirmation'')
      | Some approved \<Rightarrow>
          (let items = batch_items d bid;
               planned_total = sum_list (map bi_estimated_cost_usd items)
           in guarded
             [raise_if (bp_status batch \<noteq> ''confirmed'')
                (OpportunityReviewError ''batch_plan_requires_confirmation''),
              raise_if (approved < planned_total)
                (OpportunityReviewError ''batch_plan_exceeds_confirmed_cost_bound''),
              raise_if (list_ex (\<lambda>s. sr_opportunity_id s \<in> set (map (Some \<circ> bi_opportunity_id) items) \<and>
                  sr_status s \<in> set [''queued'', ''running'']) (scan_runs d))
                (OpportunityReviewError ''batch_opportunity_already_has_active_scan'')]
             (map_result (\<lambda>(ids, d').
                (\<lparr>bqr_batch_plan_id = bid, bqr_queued_scan_ids = ids,
                  bqr_aggregate_planned_cost_usd = planned_total,
                  bqr_approved_max_cost_usd = approved\<rparr>,
                 d'\<lparr>batch_scan_plans := tupd bp_id bid
                     (\<lambda>b. b\<lparr>bp_status := ''queued'', bp_queued_at := Some now\<rparr>)
                     (batch_scan_plans d')\<rparr>))
               (queue_items parse_plan batch items d)))))"

section \<open>Cost bounds of batches\<close>

definition batch_estimate :: "database \<Rightarrow> int \<Rightarrow> usd" where
  "batch_estimate d bid =
     sum_rows (\<lambda>i. bi_batch_plan_id i = bid) bi_estimated_cost_usd (batch_scan_plan_items d)"

definition batch_bounded :: "database \<Rightarrow> batch_scan_plan \<Rightarrow> bool" where
  "batch_bounded d b \<longleftrightarrow>
     batch_estimate d (bp_id b) = bp_aggregate_estimated_cost_usd b \<and>
     bp_aggregate_estimated_cost_usd b \<le> bp_aggregate_budget_usd b \<and>
     (bp_status b \<in> set [''confirmed'', ''queued''] \<longrightarrow>
        (\<exists>a. bp_approved_max_cost_usd b = Some a \<and> bp_aggregate_estimated_cost_usd b \<le> a \<and>
           a \<le> bp_aggregate_budget_usd b))"

definition batches_ok :: "database \<Rightarrow> bool" where
  "batches_ok d \<longleftrightarrow>
     keys_distinct bp_id (batch_scan_plans d) \<and> keys_distinct bi_id (batch_scan_plan_items d) \<and>
     (\<forall>i \<in> set (batch_scan_plan_items d). bi_batch_plan_id i \<in> bp_id ` set (batch_scan_plans d)) \<and>
     (\<forall>b \<in> set (batch_scan_plans d). batch_bounded d b)"

datatype batch_op =
  CreateBatch planner batch_request review_actor instant
| ConfirmBatch int confirmation_request review_actor instant
| QueueBatch "jobj \<Rightarrow> scan_plan_call list" int instant

fun batch_step :: "database \<Rightarrow> batch_op \<Rightarrow> review_error + database" where
  "batch_step d (CreateBatch plan_of r actor now) =
     and_then (validate_batch_request r) (\<lambda>r. map_result snd (create_batch_plan plan_of d r actor now))"
| "batch_step d (ConfirmBatch bid r actor now) = confirm_batch d bid r actor now"
| "batch_step d (QueueBatch parse_plan bid now) = map_result snd (queue_batch parse_plan d bid now)"

lemma transition_batch_frame:
  assumes "transition d oid r actor now = Inr (row, d')"
  shows "batch_scan_plans d' = batch_scan_plans d"
    "batch_scan_plan_items d' = batch_scan_plan_items d"
  using assms by (auto simp: transition_def add_review_def update_opportunity_def Let_def)

lemma transition_system_batch_frame:
  assumes "transition_system d oid target dec reason now = Inr (row, d')"
  shows "batch_scan_plans d' = batch_scan_plans d"
    "batch_scan_plan_items d' = batch_scan_plan_items d"
  using transition_system_Inr [OF assms] by (metis transition_batch_frame)+

lemma batches_ok_frame:
  "batches_ok d \<Longrightarrow> batch_scan_plans d' = batch_scan_plans d \<Longrightarrow>
   batch_scan_plan_items d' = batch_scan_plan_items d \<Longrightarrow> batches_ok d'"
  by (simp add: batches_ok_def batch_bounded_def batch_estimate_def)

text \<open>Adding the items of a batch adds their costs to it and to no other batch.\<close>

lemma add_batch_items_effect:
  assumes "add_batch_items profile bid now plans d = Inr d'"
    and "keys_distinct bi_id (batch_scan_plan_items d)"
  shows "batch_scan_plans d' = batch_scan_plans d \<and>
    keys_distinct bi_id (batch_scan_plan_items d') \<and>
    (\<forall>i \<in> set (batch_scan_plan_items d'). i \<in> set (batch_scan_plan_items d) \<or> bi_batch_plan_id i = bid) \<and>
    (\<forall>k. batch_estimate d' k = batch_estimate d k + (if k = bid then total_planned_cost plans else 0))"
  using assms
proof (induction plans arbitrary: d)
  case Nil
  then show ?case by (simp add: total_planned_cost_def)
next
  case (Cons p plans)
  let ?item = "new_batch_item (next_id bi_id (batch_scan_plan_items d)) bid p"
  let ?d1 = "d\<lparr>batch_scan_plan_items := batch_scan_plan_items d @ [?item]\<rparr>"
  from Cons.prems(1) obtain d2 where d2: "add_batch_items profile bid now plans d2 = Inr d'"
    "batch_scan_plans d2 = batch_scan_plans ?d1" "batch_scan_plan_items d2 = batch_scan_plan_items ?d1"
    by (auto simp: Let_def transition_system_batch_frame split: if_splits)
  have dist: "keys_distinct bi_id (batch_scan_plan_items d2)"
    using Cons.prems(2) next_id_fresh [of bi_id "batch_scan_plan_items d"] d2(3)
    by (simp add: keys_distinct_append new_batch_item_def)
  have est: "batch_estimate d2 k = batch_estimate d k +
      (if k = bid then sp_estimated_uncached_cost_usd (snd p) else 0)" for k
    using d2(3) by (simp add: batch_estimate_def new_batch_item_def)
  from Cons.IH [OF d2(1) dist] d2(2,3) est show ?case
    by (auto simp: total_planned_cost_def new_batch_item_def)
qed

lemma approve_full_scans_batch_frame:
  "approve_full_scans reason actor now items d = Inr d' \<Longrightarrow>
   batch_scan_plans d' = batch_scan_plans d \<and> batch_scan_plan_items d' = batch_scan_plan_items d"
proof (induction items arbitrary: d)
  case (Cons item items)
  then obtain r row d1 where "transition d (bi_opportunity_id item) r actor now = Inr (row, d1)"
    "approve_full_scans reason actor now items d1 = Inr d'" by auto
  with Cons.IH [of d1] transition_batch_frame show ?case by metis
qed simp

lemma create_batch_plan_Inr:
  assumes "create_batch_plan plan_of d r actor now = Inr (bid, d')"
  obtains plans where "bid = next_id bp_id (batch_scan_plans d)"
    "total_planned_cost plans \<le> bq_aggregate_budget_usd r"
    "add_batch_items (bq_scan_profile r) bid now plans (d\<lparr>batch_scan_plans :=
       batch_scan_plans d @ [new_batch bid r actor (total_planned_cost plans)]\<rparr>) = Inr d'"
  using assms by (auto simp: create_batch_plan_def Let_def not_less)

lemma create_keeps_batches:
  assumes ok: "batches_ok d" and res: "create_batch_plan plan_of d r actor now = Inr (bid, d')"
  shows "batches_ok d'"
  using res
proof (rule create_batch_plan_Inr)
  fix plans
  define batch where "batch = new_batch bid r actor (total_planned_cost plans)"
  assume bid: "bid = next_id bp_id (batch_scan_plans d)"
    and le: "total_planned_cost plans \<le> bq_aggregate_budget_usd r"
    and "add_batch_items (bq_scan_profile r) bid now plans (d\<lparr>batch_scan_plans :=
       batch_scan_plans d @ [new_batch bid r actor (total_planned_cost plans)]\<rparr>) = Inr d'"
  then have add: "add_batch_items (bq_scan_profile r) bid now plans
       (d\<lparr>batch_scan_plans := batch_scan_plans d @ [batch]\<rparr>) = Inr d'"
    by (simp add: batch_def)
  have b: "bid = next_id bp_id (batch_scan_plans d)" "bp_id batch = bid"
      "bp_aggregate_estimated_cost_usd batch = total_planned_cost plans"
      "bp_aggregate_budget_usd batch = bq_aggregate_budget_usd r" "bp_status batch = ''planned''"
      "total_planned_cost plans \<le> bq_aggregate_budget_usd r"
    using bid le by (simp_all add: batch_def new_batch_def)
  have ok': "keys_distinct bp_id (batch_scan_plans d)" "keys_distinct bi_id (batch_scan_plan_items d)"
    "\<And>i. i \<in> set (batch_scan_plan_items d) \<Longrightarrow> bi_batch_plan_id i \<in> bp_id ` set (batch_scan_plans d)"
    "\<And>x. x \<in> set (batch_scan_plans d) \<Longrightarrow> batch_bounded d x"
    using ok by (auto simp: batches_ok_def)
  have fresh: "bid \<notin> bp_id ` set (batch_scan_plans d)" unfolding b(1) by (rule next_id_fresh)
  have none: "batch_estimate d bid = 0"
  proof -
    have "filter (\<lambda>i. bi_batch_plan_id i = bid) (batch_scan_plan_items d) = []"
      using ok'(3) fresh by (auto simp: filter_empty_conv)
    then show ?thesis by (simp add: batch_estimate_def sum_rows_def)
  qed
  note eff = add_batch_items_effect [OF add, simplified, OF ok'(2)]
  have est: "batch_estimate d' k = batch_estimate d k +
      (if k = bid then total_planned_cost plans else 0)" for k
    using eff by (simp add: batch_estimate_def)
  have "batch_bounded d' x" if "x \<in> set (batch_scan_plans d')" for x
  proof (cases "x = batch")
    case True
    then show ?thesis using b none by (simp add: batch_bounded_def est)
  next
    case False
    with that eff have x: "x \<in> set (batch_scan_plans d)" by auto
    then have "bp_id x \<noteq> bid" using fresh by auto
    with ok'(4) [OF x] show ?thesis by (simp add: batch_bounded_def est)
  qed
  with eff ok'(1,3) b(2) fresh show ?thesis
    by (auto simp: batches_ok_def keys_distinct_append)
qed

lemma tupd_batches_keep:
  assumes ok: "batches_ok d" and f: "\<And>b. bp_id (f b) = bp_id b"
    and bounded: "\<And>b. tget bp_id bid (batch_scan_plans d) = Some b \<Longrightarrow> batch_bounded d b \<Longrightarrow>
      batch_bounded d (f b)"
    and d': "batch_scan_plans d' = tupd bp_id bid f (batch_scan_plans d)"
    and items: "map (\<lambda>i. (bi_id i, bi_batch_plan_id i, bi_estimated_cost_usd i)) (batch_scan_plan_items d') =
      map (\<lambda>i. (bi_id i, bi_batch_plan_id i, bi_estimated_cost_usd i)) (batch_scan_plan_items d)"
  shows "batches_ok d'"
proof -
  let ?key = "\<lambda>i. (bi_id i, bi_batch_plan_id i, bi_estimated_cost_usd i)"
  have sum: "sum_rows (\<lambda>i. bi_batch_plan_id i = k) bi_estimated_cost_usd xs =
      sum_list (map (snd \<circ> snd) (filter (\<lambda>t. fst (snd t) = k) (map ?key xs)))" for k xs
    by (induction xs) auto
  have est: "batch_estimate d' k = batch_estimate d k" for k
    unfolding batch_estimate_def sum items ..
  have ids: "map bi_id (batch_scan_plan_items d') = map bi_id (batch_scan_plan_items d)"
    "map bi_batch_plan_id (batch_scan_plan_items d') = map bi_batch_plan_id (batch_scan_plan_items d)"
    using arg_cong [OF items, of "map fst"] arg_cong [OF items, of "map (fst \<circ> snd)"]
    by (simp_all add: comp_def)
  have ok': "keys_distinct bp_id (batch_scan_plans d)" "keys_distinct bi_id (batch_scan_plan_items d)"
    "set (map bi_batch_plan_id (batch_scan_plan_items d)) \<subseteq> bp_id ` set (batch_scan_plans d)"
    "\<And>x. x \<in> set (batch_scan_plans d) \<Longrightarrow> batch_bounded d x"
    using ok by (auto simp: batches_ok_def)
  have "batch_bounded d' x" if "x \<in> set (batch_scan_plans d')" for x
  proof -
    from that d' consider "x \<in> set (batch_scan_plans d)"
      | y where "y \<in> set (batch_scan_plans d)" "bp_id y = bid" "x = f y" by (auto simp: set_tupd)
    then have "batch_bounded d x"
      using ok'(4) bounded tget_in_set [OF ok'(1)] by cases auto
    then show ?thesis by (simp add: batch_bounded_def est)
  qed
  moreover have "bp_id ` set (batch_scan_plans d') = bp_id ` set (batch_scan_plans d)"
    using arg_cong [OF map_key_tupd [of bp_id f bid "batch_scan_plans d", OF f], of set] d' by simp
  moreover have "keys_distinct bi_id (batch_scan_plan_items d')"
    using ok'(2) ids(1) by (simp add: keys_distinct_def)
  moreover have "\<forall>i \<in> set (batch_scan_plan_items d'). bi_batch_plan_id i \<in> bp_id ` set (batch_scan_plans d)"
    using ok'(3) unfolding ids(2) [symmetric] by auto
  ultimately show ?thesis using ok'(1) d' f by (simp add: batches_ok_def keys_distinct_tupd)
qed

lemma queue_items_frame:
  assumes "queue_items parse_plan batch items d = Inr (ids, d')"
  shows "batch_scan_plans d' = batch_scan_plans d \<and>
    map (\<lambda>i. (bi_id i, bi_batch_plan_id i, bi_estimated_cost_usd i)) (batch_scan_plan_items d') =
    map (\<lambda>i. (bi_id i, bi_batch_plan_id i, bi_estimated_cost_usd i)) (batch_scan_plan_items d)"
  using assms
proof (induction items arbitrary: d ids)
  case Nil
  then show ?case by simp
next
  case (Cons item items)
  then obtain d3 ids' where d3: "queue_items parse_plan batch items d3 = Inr (ids', d')"
    "batch_scan_plans d3 = batch_scan_plans d"
    "batch_scan_plan_items d3 = tupd bi_id (bi_id item)
       (\<lambda>i. i\<lparr>bi_scan_run_id := Some (next_id sr_id (scan_runs d)), bi_status := ''queued''\<rparr>)
       (batch_scan_plan_items d)"
    by (auto simp: Let_def save_scan_plan_calls_def)
  have "map (\<lambda>i. (bi_id i, bi_batch_plan_id i, bi_estimated_cost_usd i)) (batch_scan_plan_items d3) =
      map (\<lambda>i. (bi_id i, bi_batch_plan_id i, bi_estimated_cost_usd i)) (batch_scan_plan_items d)"
    unfolding d3(3) tupd_def by simp
  with Cons.IH [OF d3(1)] d3(2) show ?case by simp
qed

lemma batch_step_keeps_batches:
  assumes ok: "batches_ok d" and step: "batch_step d opn = Inr d'"
  shows "batches_ok d'"
proof (cases opn)
  case (CreateBatch plan_of r actor now)
  with step ok show ?thesis by (auto intro: create_keeps_batches)
next
  case (ConfirmBatch bid r actor now)
  let ?f = "\<lambda>b. b\<lparr>bp_status := ''confirmed'',
      bp_approved_max_cost_usd := Some (cf_approved_max_cost_usd r),
      bp_confirmed_by := Some (actor_id actor), bp_confirmation_reason := Some (cf_reason r),
      bp_confirmed_at := Some now\<rparr>"
  from step ConfirmBatch obtain b where b: "tget bp_id bid (batch_scan_plans d) = Some b"
    "bp_aggregate_estimated_cost_usd b \<le> cf_approved_max_cost_usd r"
    "cf_approved_max_cost_usd r \<le> bp_aggregate_budget_usd b"
    "batch_scan_plans d' = tupd bp_id bid ?f (batch_scan_plans d)"
    "batch_scan_plan_items d' = batch_scan_plan_items d"
    by (auto simp: confirm_batch_def batch_of_def Let_def split: if_splits
        dest!: approve_full_scans_batch_frame)
  show ?thesis
    by (rule tupd_batches_keep [OF ok _ _ b(4)]) (use b in \<open>auto simp: batch_bounded_def\<close>)
next
  case (QueueBatch parse_plan bid now)
  with step obtain b ids d1 where
    b: "tget bp_id bid (batch_scan_plans d) = Some b" "bp_status b = ''confirmed''"
    and q: "queue_items parse_plan b (batch_items d bid) d = Inr (ids, d1)"
    and d': "d' = d1\<lparr>batch_scan_plans := tupd bp_id bid
        (\<lambda>b. b\<lparr>bp_status := ''queued'', bp_queued_at := Some now\<rparr>) (batch_scan_plans d1)\<rparr>"
    by (auto simp: queue_batch_def batch_of_def Let_def split: option.splits)
  show ?thesis
    by (rule tupd_batches_keep [OF ok, where bid = bid
          and f = "\<lambda>b. b\<lparr>bp_status := ''queued'', bp_queued_at := Some now\<rparr>"])
      (use b d' queue_items_frame [OF q] in \<open>auto simp: batch_bounded_def\<close>)
qed

interpretation batches: request_machine batch_step batches_ok
  by unfold_locales (rule batch_step_keeps_batches)

lemma queue_items_scans:
  assumes "queue_items parse_plan batch items d = Inr (ids, d')"
  shows "\<exists>new. scan_runs d' = scan_runs d @ new \<and> map sr_id new = ids \<and>
    map sr_planned_cost_usd new = map bi_estimated_cost_usd items \<and>
    map sr_opportunity_id new = map (Some \<circ> bi_opportunity_id) items \<and>
    list_all (\<lambda>s. sr_status s = ''queued'' \<and> sr_lease_token s = None) new"
  using assms
proof (induction items arbitrary: d ids)
  case Nil
  then show ?case by simp
next
  case (Cons item items)
  from Cons.prems obtain op service mk d3 ids' where
    op: "tget op_id (bi_opportunity_id item) (opportunities d) = Some op"
    and d3: "queue_items parse_plan batch items d3 = Inr (ids', d')"
      "scan_runs d3 = scan_runs d @ [batch_scan_run (next_id sr_id (scan_runs d)) batch item op service mk]"
      "ids = next_id sr_id (scan_runs d) # ids'"
    by (auto simp: Let_def save_scan_plan_calls_def opportunity_of_Inr)
  have "op_id op = bi_opportunity_id item" using op by (auto dest: tget_Some_key)
  with Cons.IH [OF d3(1)] d3(2,3) show ?case by (auto simp: batch_scan_run_def)
qed

section \<open>Properties\<close>

text \<open>
  C32: Batch spending stays inside what was approved. Through any sequence of batch requests,
  the items of every batch sum to its recorded estimate, the estimate is within the batch
  budget, and a confirmed or queued batch carries an approved maximum that lies between the
  estimate and the budget.
\<close>

theorem batch_costs_bounded:
  assumes "batches_ok d" and "b \<in> set (batch_scan_plans (run_requests batch_step d ops))"
  shows "batch_estimate (run_requests batch_step d ops) (bp_id b) = bp_aggregate_estimated_cost_usd b \<and>
    bp_aggregate_estimated_cost_usd b \<le> bp_aggregate_budget_usd b \<and>
    (bp_status b \<in> {''confirmed'', ''queued''} \<longrightarrow>
       (\<exists>a. bp_approved_max_cost_usd b = Some a \<and> bp_aggregate_estimated_cost_usd b \<le> a \<and>
          a \<le> bp_aggregate_budget_usd b))"
  using batches.run_inv [OF assms(1), of ops] assms(2)
  by (auto simp: batches_ok_def batch_bounded_def)

text \<open>
  Queueing a batch creates exactly the approved work, once. A successful \<open>queue_batch\<close>
  appends one queued, unleased scan per item, in order, with the item's opportunity and
  planned cost; the planned costs sum to the reported total, which is within the approved
  maximum; none of the opportunities had an active scan; and queueing the batch a second time
  is refused.
\<close>

theorem queue_batch_once:
  assumes "queue_batch parse_plan d bid now = Inr (res, d')"
  shows "(\<exists>new. scan_runs d' = scan_runs d @ new \<and> map sr_id new = bqr_queued_scan_ids res \<and>
      map sr_opportunity_id new = map (Some \<circ> bi_opportunity_id) (batch_items d bid) \<and>
      list_all (\<lambda>s. sr_status s = ''queued'' \<and> sr_lease_token s = None) new \<and>
      sum_list (map sr_planned_cost_usd new) = bqr_aggregate_planned_cost_usd res) \<and>
    bqr_aggregate_planned_cost_usd res \<le> bqr_approved_max_cost_usd res \<and>
    (\<forall>i \<in> set (batch_items d bid). \<forall>s \<in> set (scan_runs d).
       sr_opportunity_id s = Some (bi_opportunity_id i) \<longrightarrow> sr_status s \<notin> {''queued'', ''running''}) \<and>
    queue_batch parse_plan d' bid now' =
      Inl (OpportunityReviewError ''batch_plan_requires_confirmation'')"
proof -
  from assms obtain b approved ids d1 where
    b: "tget bp_id bid (batch_scan_plans d) = Some b" "bp_approved_max_cost_usd b = Some approved"
    and le: "sum_list (map bi_estimated_cost_usd (batch_items d bid)) \<le> approved"
    and act: "\<not> list_ex (\<lambda>s. sr_opportunity_id s \<in> set (map (Some \<circ> bi_opportunity_id) (batch_items d bid)) \<and>
      sr_status s \<in> set [''queued'', ''running'']) (scan_runs d)"
    and q: "queue_items parse_plan b (batch_items d bid) d = Inr (ids, d1)"
    and res: "res = \<lparr>bqr_batch_plan_id = bid, bqr_queued_scan_ids = ids,
      bqr_aggregate_planned_cost_usd = sum_list (map bi_estimated_cost_usd (batch_items d bid)),
      bqr_approved_max_cost_usd = approved\<rparr>"
    and d': "d' = d1\<lparr>batch_scan_plans := tupd bp_id bid
        (\<lambda>b. b\<lparr>bp_status := ''queued'', bp_queued_at := Some now\<rparr>) (batch_scan_plans d1)\<rparr>"
    by (auto simp: queue_batch_def batch_of_def Let_def not_less split: option.splits)
  from queue_items_scans [OF q] obtain new where new: "scan_runs d1 = scan_runs d @ new"
    "map sr_id new = ids" "map sr_planned_cost_usd new = map bi_estimated_cost_usd (batch_items d bid)"
    "map sr_opportunity_id new = map (Some \<circ> bi_opportunity_id) (batch_items d bid)"
    "list_all (\<lambda>s. sr_status s = ''queued'' \<and> sr_lease_token s = None) new" by blast
  have "tget bp_id bid (batch_scan_plans d') =
      Some (b\<lparr>bp_status := ''queued'', bp_queued_at := Some now\<rparr>)"
    using b(1) d' queue_items_frame [OF q] by (simp add: tget_tupd_same)
  then have "queue_batch parse_plan d' bid now' =
      Inl (OpportunityReviewError ''batch_plan_requires_confirmation'')"
    using b(2) by (simp add: queue_batch_def batch_of_def Let_def guard_eval)
  moreover have "\<exists>new. scan_runs d' = scan_runs d @ new \<and> map sr_id new = bqr_queued_scan_ids res \<and>
      map sr_opportunity_id new = map (Some \<circ> bi_opportunity_id) (batch_items d bid) \<and>
      list_all (\<lambda>s. sr_status s = ''queued'' \<and> sr_lease_token s = None) new \<and>
      sum_list (map sr_planned_cost_usd new) = bqr_aggregate_planned_cost_usd res"
    using new d' res by (intro exI [of _ new]) simp
  ultimately show ?thesis using le act res by (auto simp: list_ex_iff)
qed

section \<open>Witnesses\<close>

definition sample_planner :: planner where
  "sample_planner d mode profile op =
     \<lparr>sp_blocked = False, sp_estimated_uncached_cost_usd = 1 / 2, sp_payload = []\<rparr>"

definition sample_batch_db :: database where
  "sample_batch_db = empty_db\<lparr>
     service_families := [blank_service_family\<lparr>sf_id := 2\<rparr>],
     markets := [blank_market\<lparr>mk_id := 3\<rparr>],
     opportunities := [blank_opportunity\<lparr>op_id := 1, op_status := ''discovered'',
       op_service_family_id := 2, op_market_id := 3\<rparr>]\<rparr>"

definition sample_batch_request :: batch_request where
  "sample_batch_request = \<lparr>bq_name = ''north'', bq_opportunity_ids = [1],
     bq_scan_profile = ''testing'', bq_data_mode = ''fixture'', bq_aggregate_budget_usd = 2,
     bq_template_id = None\<rparr>"

definition sample_batch_ops :: "batch_op list" where
  "sample_batch_ops = [CreateBatch sample_planner sample_batch_request sample_actor 10,
     ConfirmBatch 1 \<lparr>cf_approved_max_cost_usd = 1, cf_reason = ''within the budget''\<rparr> sample_actor 11]"

lemma sample_batches_ok: "batches_ok sample_batch_db"
  by (simp add: batches_ok_def sample_batch_db_def empty_db_def keys_distinct_def)

theorem batch_costs_bounded_witness:
  "\<exists>b \<in> set (batch_scan_plans (run_requests batch_step sample_batch_db sample_batch_ops)).
     bp_status b = ''confirmed'' \<and> bp_approved_max_cost_usd b = Some 1 \<and>
     bp_aggregate_estimated_cost_usd b \<le> 1"
proof -
  let ?d = "run_requests batch_step sample_batch_db sample_batch_ops"
  have ev: "length (batch_scan_plans ?d) = 1 \<and> bp_status (hd (batch_scan_plans ?d)) = ''confirmed'' \<and>
      bp_approved_max_cost_usd (hd (batch_scan_plans ?d)) = Some 1" by code_simp
  then have "hd (batch_scan_plans ?d) \<in> set (batch_scan_plans ?d)" by (intro list.set_sel) auto
  with batch_costs_bounded [OF sample_batches_ok this] ev show ?thesis by auto
qed

theorem queue_batch_once_witness:
  "\<exists>res d'. queue_batch (\<lambda>_. []) (run_requests batch_step sample_batch_db sample_batch_ops) 1 20
       = Inr (res, d') \<and> bqr_aggregate_planned_cost_usd res \<le> bqr_approved_max_cost_usd res"
proof -
  let ?d = "run_requests batch_step sample_batch_db sample_batch_ops"
  have "\<exists>res d'. queue_batch (\<lambda>_. []) ?d 1 20 = Inr (res, d')"
    by (rule not_isl_Inr_pair) code_simp
  then obtain res d' where q: "queue_batch (\<lambda>_. []) ?d 1 20 = Inr (res, d')" by blast
  from queue_batch_once [OF q] q show ?thesis by blast
qed

end
