(* ===== verification/Scan_Worker.thy ===== *)
theory Scan_Worker
  imports Cost_Controls Opportunity_Review
begin

text \<open>
  \<open>services/scan_worker.py\<close>: durable scan workers that claim queued scans under a lease, send
  heartbeats, recover the scans of dead workers, and retry or quarantine failures; with the
  cancel request of \<open>main.py\<close> (\<open>api_cancel_scan\<close>). The scan pipeline itself
  (\<open>services/scanner.py\<close>) appears only through the terminal status it writes to the scan
  row. Lease tokens (\<open>uuid4\<close>), the clock and \<open>random.random()\<close> are arguments.
\<close>

type_synonym worker_lease = scan_execution_lease

definition WORKER_SCAN_SOURCES :: "string list" where
  "WORKER_SCAN_SOURCES = [''manual_async'', ''promotion_async'', ''batch_review_async'']"

definition ACTIVE_SCAN_STATUSES :: "string list" where
  "ACTIVE_SCAN_STATUSES = [''queued'', ''running'']"

definition TERMINAL_SCAN_STATUSES :: "string list" where
  "TERMINAL_SCAN_STATUSES = [''completed'', ''failed'', ''cancelled'', ''quarantined'']"

definition active_retry_for_scan :: "database \<Rightarrow> int \<Rightarrow> scan_run option" where
  "active_retry_for_scan d source_id =
     select_latest sr_id (\<lambda>s. (sr_id s = source_id \<or> sr_source_scan_run_id s = Some source_id) \<and>
       sr_status s \<in> set ACTIVE_SCAN_STATUSES) (scan_runs d)"

text \<open>\<open>random_value\<close> given: clamped to \<open>[0, 1]\<close>; otherwise the draw \<open>rnd\<close> of \<open>random.random()\<close>.\<close>

definition retry_delay_seconds :: "int \<Rightarrow> rat \<Rightarrow> rat \<Rightarrow> rat option \<Rightarrow> rat \<Rightarrow> rat" where
  "retry_delay_seconds retry_count base_seconds maximum_seconds random_value rnd =
     (let capped = min maximum_seconds (base_seconds * 2 ^ nat (max 0 (retry_count - 1)));
          jitter = (case random_value of None \<Rightarrow> rnd | Some r \<Rightarrow> min (max r 0) 1)
      in capped * (1 / 2 + jitter * (1 / 2)))"

section \<open>Row operations\<close>

definition lease_matches :: "scan_run \<Rightarrow> worker_lease \<Rightarrow> bool" where
  "lease_matches scan lease \<longleftrightarrow> sr_worker_id scan = Some (lease_worker_id lease) \<and>
     sr_lease_token scan = Some (lease_token_of lease)"

definition owns_scan :: "scan_run \<Rightarrow> worker_lease \<Rightarrow> bool" where
  "owns_scan scan lease \<longleftrightarrow> sr_status scan = ''running'' \<and> lease_matches scan lease"

definition clear_scan_lease :: "scan_run \<Rightarrow> scan_run" where
  "clear_scan_lease scan =
     scan\<lparr>sr_worker_id := None, sr_lease_token := None, sr_claimed_at := None,
       sr_heartbeat_at := None, sr_lease_expires_at := None\<rparr>"

definition cancel_scan_row :: "instant \<Rightarrow> bool \<Rightarrow> scan_run \<Rightarrow> scan_run" where
  "cancel_scan_row now timed_out scan =
     scan\<lparr>sr_status := ''cancelled'', sr_progress_stage := ''cancelled'',
       sr_completed_at := Some now,
       sr_partial_outputs := jmerge (sr_partial_outputs scan)
         [(''cancelled'', JBool True), (''cancelled_after_worker_timeout'', JBool timed_out),
          (''cancelled_at'', JTime now)]\<rparr>"

definition effective_max_attempts :: "settings \<Rightarrow> scan_run \<Rightarrow> int" where
  "effective_max_attempts s scan =
     (if sr_max_attempts scan = 0 then scan_worker_max_attempts s else sr_max_attempts scan)"

definition retry_or_quarantine ::
  "settings \<Rightarrow> string \<Rightarrow> instant \<Rightarrow> string \<Rightarrow> rat \<Rightarrow> scan_run \<Rightarrow> scan_run" where
  "retry_or_quarantine s error_summary now failed_stage rnd scan =
     (let retry_count = sr_retry_count scan + 1;
          scan1 = scan\<lparr>sr_retry_count := retry_count, sr_error_summary := Some error_summary\<rparr>
      in if effective_max_attempts s scan \<le> retry_count
         then scan1\<lparr>sr_status := ''quarantined'', sr_progress_stage := ''quarantined'',
           sr_completed_at := Some now, sr_quarantined_at := Some now,
           sr_quarantine_reason := Some error_summary,
           sr_partial_outputs := jmerge (sr_partial_outputs scan)
             [(''poison_job'', JBool True), (''failed_stage'', JStr failed_stage),
              (''attempts'', JNum (of_int retry_count))]\<rparr>
         else (let delay = retry_delay_seconds retry_count (scan_worker_retry_base_seconds s)
                     (scan_worker_retry_max_seconds s) None rnd;
                   next_attempt = now + timedelta_seconds delay
               in scan1\<lparr>sr_status := ''queued'', sr_progress_stage := ''queued'',
                 sr_started_at := None, sr_completed_at := None,
                 sr_next_attempt_at := Some next_attempt,
                 sr_partial_outputs := jmerge (sr_partial_outputs scan)
                   [(''retry_classification'', JStr ''retryable''),
                    (''failed_stage'', JStr failed_stage),
                    (''retry_count'', JNum (of_int retry_count)),
                    (''retry_delay_seconds'', JNum delay),
                    (''next_attempt_at'', JTime next_attempt)]\<rparr>))"

definition update_scan :: "int \<Rightarrow> (scan_run \<Rightarrow> scan_run) \<Rightarrow> database \<Rightarrow> database" where
  "update_scan i f d = d\<lparr>scan_runs := tupd sr_id i f (scan_runs d)\<rparr>"

section \<open>Recovery\<close>

definition stale_scan :: "instant \<Rightarrow> instant \<Rightarrow> scan_run \<Rightarrow> bool" where
  "stale_scan recovered_at cutoff scan \<longleftrightarrow>
     sr_source scan \<in> set WORKER_SCAN_SOURCES \<and> sr_status scan = ''running'' \<and>
     sr_completed_at scan = None \<and>
     ((case sr_lease_expires_at scan of None \<Rightarrow> True | Some t \<Rightarrow> t < recovered_at) \<or>
      (case sr_heartbeat_at scan of None \<Rightarrow> True | Some t \<Rightarrow> t < cutoff))"

definition recover_row :: "settings \<Rightarrow> instant \<Rightarrow> rat \<Rightarrow> scan_run \<Rightarrow> scan_run" where
  "recover_row s recovered_at rnd scan =
     clear_scan_lease
       (if sr_cancel_requested scan then cancel_scan_row recovered_at True scan
        else retry_or_quarantine s ''Worker lease expired before completion.'' recovered_at
               (sr_progress_stage scan) rnd scan)"

definition recover_scan ::
  "settings \<Rightarrow> instant \<Rightarrow> (int \<Rightarrow> rat) \<Rightarrow> scan_run \<Rightarrow> database \<Rightarrow> database" where
  "recover_scan s recovered_at rnd scan d =
     update_scan (sr_id scan) (recover_row s recovered_at (rnd (sr_id scan)))
       (snd (reconcile_stale_api_call_attempts d (recovered_at + 1) (Some (sr_id scan)) recovered_at))"

definition recover_stale_scans ::
  "settings \<Rightarrow> database \<Rightarrow> rat \<Rightarrow> instant \<Rightarrow> (int \<Rightarrow> rat) \<Rightarrow> nat \<times> database" where
  "recover_stale_scans s d stale_after_seconds recovered_at rnd =
     (let cutoff = recovered_at - timedelta_seconds stale_after_seconds;
          d1 = snd (reconcile_stale_api_call_attempts d cutoff None recovered_at);
          stale = sort_key sr_id (filter (stale_scan recovered_at cutoff) (scan_runs d1))
      in (length stale, fold (recover_scan s recovered_at rnd) stale d1))"

section \<open>Claiming\<close>

definition due :: "instant \<Rightarrow> scan_run \<Rightarrow> bool" where
  "due now scan = (case sr_next_attempt_at scan of None \<Rightarrow> True | Some t \<Rightarrow> t \<le> now)"

definition queued_ids :: "database \<Rightarrow> instant \<Rightarrow> int list" where
  "queued_ids d now =
     take 10 (map sr_id (sort_key sr_id (filter (\<lambda>s. sr_source s \<in> set WORKER_SCAN_SOURCES \<and>
       sr_status s = ''queued'' \<and> due now s) (scan_runs d))))"

definition claim_row :: "worker_lease \<Rightarrow> rat \<Rightarrow> instant \<Rightarrow> scan_run \<Rightarrow> scan_run" where
  "claim_row lease lease_seconds claimed_at scan =
     scan\<lparr>sr_status := ''running'', sr_progress_stage := ''planning'',
       sr_started_at := Some claimed_at, sr_completed_at := None, sr_error_summary := None,
       sr_worker_id := Some (lease_worker_id lease), sr_lease_token := Some (lease_token_of lease),
       sr_claimed_at := Some claimed_at, sr_heartbeat_at := Some claimed_at,
       sr_lease_expires_at := Some (claimed_at + timedelta_seconds lease_seconds),
       sr_next_attempt_at := None,
       sr_partial_outputs := jmerge (sr_partial_outputs scan)
         [(''claimed_by'', JStr (lease_worker_id lease)), (''claimed_at'', JTime claimed_at),
          (''lease_token'', JStr (lease_token_of lease))]\<rparr>"

definition cancel_queued_row :: "instant \<Rightarrow> scan_run \<Rightarrow> scan_run" where
  "cancel_queued_row now scan =
     scan\<lparr>sr_status := ''cancelled'', sr_progress_stage := ''cancelled'',
       sr_completed_at := Some now, sr_worker_id := None, sr_heartbeat_at := None,
       sr_lease_token := None, sr_lease_expires_at := None\<rparr>"

datatype claim_result = ClaimCancelled | ClaimMissed | Claimed

text \<open>
  One candidate of the claim loop: the conditional updates match on the row as it is now, so
  another worker's claim in between is a miss.
\<close>

definition try_claim ::
  "database \<Rightarrow> worker_lease \<Rightarrow> rat \<Rightarrow> instant \<Rightarrow> claim_result \<times> database" where
  "try_claim d lease lease_seconds claimed_at =
     (case tget sr_id (lease_scan_id lease) (scan_runs d) of
        None \<Rightarrow> (ClaimMissed, d)
      | Some scan \<Rightarrow>
          if sr_status scan = ''queued'' \<and> sr_cancel_requested scan
          then (ClaimCancelled, update_scan (lease_scan_id lease) (cancel_queued_row claimed_at) d)
          else if sr_status scan = ''queued'' \<and> \<not> sr_cancel_requested scan \<and> due claimed_at scan
          then (Claimed, update_scan (lease_scan_id lease) (claim_row lease lease_seconds claimed_at) d)
          else (ClaimMissed, d))"

fun claim_from ::
  "int list \<Rightarrow> database \<Rightarrow> string \<Rightarrow> string \<Rightarrow> rat \<Rightarrow> instant \<Rightarrow> worker_lease option \<times> database" where
  "claim_from [] d worker_id token lease_seconds now = (None, d)"
| "claim_from (i # ids) d worker_id token lease_seconds now =
     (let lease = \<lparr>lease_scan_id = i, lease_worker_id = worker_id, lease_token_of = token\<rparr>
      in case try_claim d lease lease_seconds now of
           (Claimed, d') \<Rightarrow> (Some lease, d')
         | (_, d') \<Rightarrow> claim_from ids d' worker_id token lease_seconds now)"

definition claim_next_scan ::
  "database \<Rightarrow> string \<Rightarrow> string \<Rightarrow> rat \<Rightarrow> instant \<Rightarrow> worker_lease option \<times> database" where
  "claim_next_scan d worker_id token lease_seconds now =
     claim_from (queued_ids d now) d worker_id token lease_seconds now"

section \<open>Heartbeats and settlement\<close>

definition heartbeat_scan :: "database \<Rightarrow> worker_lease \<Rightarrow> rat \<Rightarrow> instant \<Rightarrow> bool \<times> database" where
  "heartbeat_scan d lease lease_seconds now =
     (case tget sr_id (lease_scan_id lease) (scan_runs d) of
        None \<Rightarrow> (False, d)
      | Some scan \<Rightarrow>
          if owns_scan scan lease
          then (True, update_scan (lease_scan_id lease) (\<lambda>r. r\<lparr>sr_heartbeat_at := Some now,
                 sr_lease_expires_at := Some (now + timedelta_seconds lease_seconds)\<rparr>) d)
          else (False, d))"

datatype scan_exception =
  SE_CircuitOpen | SE_Configuration | SE_Authentication | SE_Plan | SE_Schema | SE_ValueError
| SE_Timeout | SE_HttpTimeout | SE_OperationalError | SE_RateLimit | SE_DataForSEO string | SE_Other

definition str_contains :: "string \<Rightarrow> string \<Rightarrow> bool" where
  "str_contains sub s = list_ex (\<lambda>n. take (length sub) (drop n s) = sub) [0..<Suc (length s)]"

fun is_retryable_error :: "scan_exception \<Rightarrow> bool" where
  "is_retryable_error SE_CircuitOpen = False"
| "is_retryable_error SE_Configuration = False"
| "is_retryable_error SE_Authentication = False"
| "is_retryable_error SE_Plan = False"
| "is_retryable_error SE_Schema = False"
| "is_retryable_error SE_ValueError = False"
| "is_retryable_error SE_Timeout = True"
| "is_retryable_error SE_HttpTimeout = True"
| "is_retryable_error SE_OperationalError = True"
| "is_retryable_error SE_RateLimit = True"
| "is_retryable_error (SE_DataForSEO message) =
     list_ex (\<lambda>token. str_contains token (py_lower message))
       [''transient'', ''timeout'', ''rate limit'', ''temporar'', ''http 5'']"
| "is_retryable_error SE_Other = False"

definition json_text_or :: "json option \<Rightarrow> string \<Rightarrow> string" where
  "json_text_or v other = (case v of Some (JStr s) \<Rightarrow> if s = [] then other else s | _ \<Rightarrow> other)"

text \<open>The \<open>finally\<close> block of \<open>run_scan_by_id\<close>; \<open>error\<close> is the caught exception and its text.\<close>

definition settle_row ::
  "settings \<Rightarrow> (scan_exception \<times> string) option \<Rightarrow> instant \<Rightarrow> rat \<Rightarrow> scan_run \<Rightarrow> scan_run" where
  "settle_row s error now rnd scan =
     (let scan1 = (case error of
            Some (exc, message) \<Rightarrow>
              if sr_status scan = ''failed'' then
                if is_retryable_error exc
                then retry_or_quarantine s message now
                  (json_text_or (jget (sr_partial_outputs scan) ''failed_stage'') ''unknown'') rnd scan
                else scan\<lparr>sr_partial_outputs := jset ''retry_classification''
                  (JStr ''non_retryable'') (sr_partial_outputs scan)\<rparr>
              else scan
          | None \<Rightarrow> scan)
      in if sr_status scan1 \<in> set TERMINAL_SCAN_STATUSES \<or> sr_status scan1 = ''queued''
         then clear_scan_lease scan1 else scan1)"

definition settle_scan ::
  "settings \<Rightarrow> database \<Rightarrow> worker_lease \<Rightarrow> (scan_exception \<times> string) option \<Rightarrow> instant \<Rightarrow> rat \<Rightarrow>
   database" where
  "settle_scan s d lease error now rnd =
     (case tget sr_id (lease_scan_id lease) (scan_runs d) of
        None \<Rightarrow> d
      | Some scan \<Rightarrow>
          if lease_matches scan lease
          then update_scan (lease_scan_id lease) (settle_row s error now rnd) d else d)"

definition fail_without_retry ::
  "database \<Rightarrow> worker_lease \<Rightarrow> string \<Rightarrow> instant \<Rightarrow> review_error + database" where
  "fail_without_retry d lease error_summary now =
     (case tget sr_id (lease_scan_id lease) (scan_runs d) of
        None \<Rightarrow> Inr d
      | Some scan \<Rightarrow>
          if \<not> owns_scan scan lease then Inr d
          else (let d1 = update_scan (lease_scan_id lease) (\<lambda>r. clear_scan_lease
                    (r\<lparr>sr_status := ''failed'', sr_progress_stage := ''failed'',
                       sr_error_summary := Some error_summary, sr_completed_at := Some now,
                       sr_partial_outputs := jmerge (sr_partial_outputs r)
                         [(''worker_error'', JStr error_summary),
                          (''retry_classification'', JStr ''non_retryable''),
                          (''failed_at'', JTime now)]\<rparr>)) d
                in case sr_opportunity_id scan of
                     None \<Rightarrow> Inr d1
                   | Some oid \<Rightarrow> map_result snd (transition_system d1 oid needs_more_evidence
                       ''worker_scan_failed'' error_summary now)))"

datatype start_result = StartSkipped | StartRejected | StartReady

text \<open>
  The first session of \<open>run_scan_by_id\<close>: skip a scan whose lease is not current, fail one
  without structured metadata, otherwise hand it to the pipeline.
\<close>

definition start_scan ::
  "database \<Rightarrow> worker_lease \<Rightarrow> instant \<Rightarrow> review_error + (start_result \<times> database)" where
  "start_scan d lease now =
     (case tget sr_id (lease_scan_id lease) (scan_runs d) of
        None \<Rightarrow> Inr (StartSkipped, d)
      | Some scan \<Rightarrow>
          if \<not> owns_scan scan lease then Inr (StartSkipped, d)
          else (case (jget (sr_request_parameters scan) ''service_payload'',
                      jget (sr_request_parameters scan) ''market_payload'') of
                  (Some (JObj sp), Some (JObj mp)) \<Rightarrow> Inr (StartReady, d)
                | _ \<Rightarrow> map_result (\<lambda>d'. (StartRejected, d')) (fail_without_retry d lease
                    ''Queued scan is missing structured service or market metadata.'' now)))"

definition write_worker_heartbeat ::
  "database \<Rightarrow> string \<Rightarrow> string \<Rightarrow> string \<Rightarrow> jobj \<Rightarrow> instant \<Rightarrow> database" where
  "write_worker_heartbeat d worker_id status release metadata now =
     (if tget wh_worker_id worker_id (worker_heartbeats d) = None
      then d\<lparr>worker_heartbeats := worker_heartbeats d @
        [\<lparr>wh_worker_id = worker_id, wh_status = status, wh_started_at = now,
          wh_last_seen_at = now, wh_release_version = release, wh_metadata_payload = metadata\<rparr>]\<rparr>
      else d\<lparr>worker_heartbeats := tupd wh_worker_id worker_id
        (\<lambda>w. w\<lparr>wh_status := status, wh_last_seen_at := now\<rparr>) (worker_heartbeats d)\<rparr>)"

text \<open>One turn of \<open>scan_worker_loop\<close> up to the claimed lease.\<close>

definition worker_poll ::
  "settings \<Rightarrow> database \<Rightarrow> string \<Rightarrow> string \<Rightarrow> string \<Rightarrow> jobj \<Rightarrow> rat \<Rightarrow> (int \<Rightarrow> rat) \<Rightarrow> instant \<Rightarrow>
   worker_lease option \<times> database" where
  "worker_poll s d worker_id token release metadata stale_after_seconds rnd now =
     (let d1 = write_worker_heartbeat d worker_id ''running'' release metadata now;
          d2 = snd (recover_stale_scans s d1 stale_after_seconds now rnd)
      in claim_next_scan d2 worker_id token stale_after_seconds now)"

definition api_cancel_scan :: "database \<Rightarrow> int \<Rightarrow> instant \<Rightarrow> review_error + (bool \<times> database)" where
  "api_cancel_scan d scan_id now =
     and_then (require_some (OpportunityReviewError ''Scan not found'')
       (tget sr_id scan_id (scan_runs d))) (\<lambda>scan.
     if sr_status scan \<in> set [''completed'', ''failed'', ''cancelled'']
     then Inr (sr_status scan = ''cancelled'', d)
     else if sr_status scan \<noteq> ''queued''
     then Inr (True, update_scan scan_id (\<lambda>r. r\<lparr>sr_cancel_requested := True\<rparr>) d)
     else (let d1 = update_scan scan_id (\<lambda>r. cancel_queued_row now (r\<lparr>sr_cancel_requested := True\<rparr>)) d
           in case sr_opportunity_id scan of
                None \<Rightarrow> Inr (True, d1)
              | Some oid \<Rightarrow> map_result (\<lambda>(row, d'). (True, d')) (transition_system d1 oid
                  needs_more_evidence ''queued_scan_cancelled''
                  (''Queued scan '' @ py_str_int scan_id @ '' was cancelled before execution.'') now)))"

section \<open>Histories of worker requests\<close>

text \<open>
  Every transaction that can touch a scan row: the candidates of a claim loop, heartbeats,
  recovery, settlement and rejection by a worker, cancel requests, and the terminal status a
  pipeline writes (\<open>PipelineStatus\<close>, which the pipeline's error handlers do without
  looking at the lease).
\<close>

datatype scan_op =
  ClaimScan worker_lease rat instant
| HeartbeatScan worker_lease rat instant
| RecoverScans settings rat instant "int \<Rightarrow> rat"
| SettleScan settings worker_lease "(scan_exception \<times> string) option" instant rat
| FailScan worker_lease string instant
| CancelScan int instant
| PipelineStatus int string instant

definition pipeline_status_row :: "string \<Rightarrow> instant \<Rightarrow> scan_run \<Rightarrow> scan_run" where
  "pipeline_status_row st now scan =
     scan\<lparr>sr_status := st, sr_progress_stage := st, sr_completed_at := Some now\<rparr>"

fun scan_step :: "database \<Rightarrow> scan_op \<Rightarrow> review_error + database" where
  "scan_step d (ClaimScan lease secs now) = Inr (snd (try_claim d lease secs now))"
| "scan_step d (HeartbeatScan lease secs now) = Inr (snd (heartbeat_scan d lease secs now))"
| "scan_step d (RecoverScans s secs now rnd) = Inr (snd (recover_stale_scans s d secs now rnd))"
| "scan_step d (SettleScan s lease error now rnd) = Inr (settle_scan s d lease error now rnd)"
| "scan_step d (FailScan lease message now) = fail_without_retry d lease message now"
| "scan_step d (CancelScan i now) = map_result snd (api_cancel_scan d i now)"
| "scan_step d (PipelineStatus i st now) =
     (if st \<in> set [''completed'', ''failed'', ''cancelled'']
      then Inr (update_scan i (pipeline_status_row st now) d)
      else Inl (OpportunityReviewError ''not a terminal pipeline status''))"

definition owns_lease :: "database \<Rightarrow> worker_lease \<Rightarrow> bool" where
  "owns_lease d l \<longleftrightarrow>
     (case tget sr_id (lease_scan_id l) (scan_runs d) of None \<Rightarrow> False | Some scan \<Rightarrow> owns_scan scan l)"

fun grants_scan :: "scan_op \<Rightarrow> worker_lease \<Rightarrow> bool" where
  "grants_scan (ClaimScan lease secs now) l \<longleftrightarrow> lease = l"
| "grants_scan _ l \<longleftrightarrow> False"

subsection \<open>Lease lemmas\<close>

definition no_gain :: "database \<Rightarrow> database \<Rightarrow> bool" where
  "no_gain d d' \<longleftrightarrow> (\<forall>l. owns_lease d' l \<longrightarrow> owns_lease d l)"

lemma no_gain_same: "scan_runs d' = scan_runs d \<Longrightarrow> no_gain d d'"
  by (simp add: no_gain_def owns_lease_def)

lemma no_gain_refl [simp]: "no_gain d d"
  by (simp add: no_gain_def)

lemma no_gain_trans: "no_gain d d1 \<Longrightarrow> no_gain d1 d2 \<Longrightarrow> no_gain d d2"
  by (simp add: no_gain_def)

lemma no_gain_update:
  assumes "\<And>r. sr_id (f r) = sr_id r" "\<And>r l. owns_scan (f r) l \<Longrightarrow> owns_scan r l"
  shows "no_gain d (update_scan i f d)"
  using assms by (auto simp: no_gain_def owns_lease_def update_scan_def tget_tupd split: option.splits
      if_splits)

lemma clear_scan_lease_simps [simp]:
  "sr_id (clear_scan_lease r) = sr_id r" "sr_status (clear_scan_lease r) = sr_status r"
  "sr_lease_token (clear_scan_lease r) = None" "sr_retry_count (clear_scan_lease r) = sr_retry_count r"
  "sr_max_attempts (clear_scan_lease r) = sr_max_attempts r"
  "sr_next_attempt_at (clear_scan_lease r) = sr_next_attempt_at r"
  "\<not> owns_scan (clear_scan_lease r) l"
  by (simp_all add: clear_scan_lease_def owns_scan_def lease_matches_def)

lemma retry_or_quarantine_simps [simp]:
  "sr_id (retry_or_quarantine s e t st rnd r) = sr_id r"
  "sr_retry_count (retry_or_quarantine s e t st rnd r) = sr_retry_count r + 1"
  "sr_max_attempts (retry_or_quarantine s e t st rnd r) = sr_max_attempts r"
  "sr_status (retry_or_quarantine s e t st rnd r) =
     (if effective_max_attempts s r \<le> sr_retry_count r + 1 then ''quarantined'' else ''queued'')"
  by (simp_all add: retry_or_quarantine_def Let_def)

lemma cancel_scan_row_simps [simp]:
  "sr_id (cancel_scan_row t b r) = sr_id r" "sr_status (cancel_scan_row t b r) = ''cancelled''"
  "sr_retry_count (cancel_scan_row t b r) = sr_retry_count r"
  "sr_max_attempts (cancel_scan_row t b r) = sr_max_attempts r"
  by (simp_all add: cancel_scan_row_def)

lemma recover_row_simps [simp]:
  "sr_id (recover_row s t rnd r) = sr_id r" "sr_lease_token (recover_row s t rnd r) = None"
  "\<not> owns_scan (recover_row s t rnd r) l"
  by (simp_all add: recover_row_def)

lemma settle_row_id [simp]: "sr_id (settle_row s e t rnd r) = sr_id r"
  by (simp add: settle_row_def Let_def split: option.splits)

lemma settle_row_owns: "owns_scan (settle_row s e t rnd r) l \<Longrightarrow> owns_scan r l"
  by (auto simp: settle_row_def Let_def TERMINAL_SCAN_STATUSES_def owns_scan_def lease_matches_def
      split: option.splits if_splits)

lemma scan_runs_transition_system:
  assumes "transition_system d oid target dec reason now = Inr (row, d')"
  shows "scan_runs d' = scan_runs d"
proof -
  have "scan_runs d1 = scan_runs d" if "transition d oid r actor now = Inr (row', d1)" for r actor row' d1
    using that by (auto simp: transition_def add_review_def update_opportunity_def Let_def)
  with transition_system_Inr [OF assms] show ?thesis by metis
qed

lemma scan_runs_reconcile [table_simps]:
  "scan_runs (snd (reconcile_stale_api_call_attempts d before i now)) = scan_runs d"
proof -
  have "scan_runs (fold (reconcile_stale_row t) rows d) = scan_runs d" for t rows
  proof (induction rows arbitrary: d)
    case (Cons c rows)
    have "scan_runs (reconcile_stale_row t c d) = scan_runs d"
      by (simp add: reconcile_stale_row_def reconcile_attempt_reservation_def table_simps
          split: option.splits)
    with Cons show ?case by simp
  qed simp
  then show ?thesis by (simp add: reconcile_stale_api_call_attempts_def Let_def)
qed

lemma recover_scan_runs:
  "scan_runs (recover_scan s t rnd scan d) =
   tupd sr_id (sr_id scan) (recover_row s t (rnd (sr_id scan))) (scan_runs d)"
  by (simp add: recover_scan_def update_scan_def table_simps)

lemma no_gain_recover_scan: "no_gain d (recover_scan s t rnd scan d)"
  unfolding recover_scan_def
  by (rule no_gain_trans [OF no_gain_same no_gain_update]) (simp_all add: table_simps)

lemma no_gain_recover: "no_gain d (snd (recover_stale_scans s d secs t rnd))"
proof -
  have all: "no_gain d (fold (recover_scan s t rnd) scans d)" for scans d
  proof (induction scans arbitrary: d)
    case Nil
    then show ?case by (simp add: no_gain_def)
  next
    case (Cons scan scans)
    then show ?case by (auto intro: no_gain_trans [OF no_gain_recover_scan])
  qed
  show ?thesis
    unfolding recover_stale_scans_def Let_def snd_conv
    by (rule no_gain_trans [OF no_gain_same all]) (simp add: table_simps)
qed

lemma no_gain_fail:
  assumes "fail_without_retry d lease message now = Inr d'"
  shows "no_gain d d'"
proof -
  let ?f = "\<lambda>r. clear_scan_lease
      (r\<lparr>sr_status := ''failed'', sr_progress_stage := ''failed'', sr_error_summary := Some message,
         sr_completed_at := Some now, sr_partial_outputs := jmerge (sr_partial_outputs r)
           [(''worker_error'', JStr message), (''retry_classification'', JStr ''non_retryable''),
            (''failed_at'', JTime now)]\<rparr>)"
  have g: "no_gain d (update_scan (lease_scan_id lease) ?f d)" by (rule no_gain_update) simp_all
  show ?thesis
    using assms
    by (auto simp: fail_without_retry_def Let_def split: option.splits if_splits
        intro: g no_gain_same no_gain_trans [OF g] dest: scan_runs_transition_system)
qed

lemma no_gain_cancel:
  assumes "api_cancel_scan d i now = Inr (b, d')"
  shows "no_gain d d'"
proof -
  have g1: "no_gain d (update_scan i (\<lambda>r. r\<lparr>sr_cancel_requested := True\<rparr>) d)"
    by (rule no_gain_update) (simp_all add: owns_scan_def lease_matches_def)
  have g2: "no_gain d (update_scan i (\<lambda>r. cancel_queued_row now (r\<lparr>sr_cancel_requested := True\<rparr>)) d)"
    by (rule no_gain_update) (simp_all add: owns_scan_def lease_matches_def cancel_queued_row_def)
  show ?thesis
    using assms
    by (auto simp: api_cancel_scan_def Let_def split: option.splits if_splits
        intro: g1 g2 no_gain_same no_gain_trans [OF g2] dest: scan_runs_transition_system)
qed

lemma no_gain_settle: "no_gain d (settle_scan s d lease e t rnd)"
proof -
  have "no_gain d (update_scan (lease_scan_id lease) (settle_row s e t rnd) d)"
    by (rule no_gain_update) (auto dest: settle_row_owns)
  then show ?thesis by (simp add: settle_scan_def split: option.splits)
qed

lemma no_gain_heartbeat: "no_gain d (snd (heartbeat_scan d lease secs now))"
proof -
  have "no_gain d (update_scan (lease_scan_id lease) (\<lambda>r. r\<lparr>sr_heartbeat_at := Some now,
      sr_lease_expires_at := Some (now + timedelta_seconds secs)\<rparr>) d)"
    by (rule no_gain_update) (simp_all add: owns_scan_def lease_matches_def)
  then show ?thesis by (simp add: heartbeat_scan_def split: option.splits)
qed

lemma no_gain_pipeline:
  "st \<in> {''completed'', ''failed'', ''cancelled''} \<Longrightarrow>
   no_gain d (update_scan i (pipeline_status_row st now) d)"
  by (rule no_gain_update) (auto simp: pipeline_status_row_def owns_scan_def lease_matches_def)

lemma try_claim_grant:
  assumes "owns_lease (snd (try_claim d lease secs now)) l"
  shows "owns_lease d l \<or> (lease = l \<and> (\<forall>l'. lease_scan_id l' = lease_scan_id l \<longrightarrow> \<not> owns_lease d l'))"
proof (cases "fst (try_claim d lease secs now)")
  case Claimed
  let ?i = "lease_scan_id lease"
  from Claimed obtain scan where scan: "tget sr_id ?i (scan_runs d) = Some scan"
    "sr_status scan = ''queued''"
    and d': "snd (try_claim d lease secs now) = update_scan ?i (claim_row lease secs now) d"
    by (auto simp: try_claim_def split: option.splits if_splits)
  have free: "\<not> owns_lease d l'" if "lease_scan_id l' = ?i" for l'
    using that scan by (simp add: owns_lease_def owns_scan_def)
  show ?thesis
  proof (cases "lease_scan_id l = ?i")
    case True
    then have "owns_scan (claim_row lease secs now scan) l"
      using assms scan unfolding d'
      by (simp add: owns_lease_def update_scan_def tget_tupd_same claim_row_def)
    then have "lease_worker_id lease = lease_worker_id l" "lease_token_of lease = lease_token_of l"
      by (simp_all add: owns_scan_def lease_matches_def claim_row_def)
    with True have eq: "lease = l" by (cases lease; cases l) simp
    show ?thesis using free unfolding eq by blast
  next
    case False
    then show ?thesis
      using assms unfolding d'
      by (simp add: owns_lease_def update_scan_def tget_tupd_other claim_row_def)
  qed
next
  case ClaimCancelled
  then have "no_gain d (snd (try_claim d lease secs now))"
    by (auto simp: try_claim_def cancel_queued_row_def owns_scan_def split: option.splits if_splits
        intro!: no_gain_update)
  with assms show ?thesis by (simp add: no_gain_def)
next
  case ClaimMissed
  with assms show ?thesis by (auto simp: try_claim_def split: option.splits if_splits)
qed

lemma scan_step_grant:
  assumes "scan_step d opn = Inr d'" "owns_lease d' l"
  shows "owns_lease d l \<or>
    (grants_scan opn l \<and> (\<forall>l'. lease_scan_id l' = lease_scan_id l \<longrightarrow> \<not> owns_lease d l'))"
proof (cases opn)
  case (ClaimScan lease secs now)
  with assms try_claim_grant [of d lease secs now l] show ?thesis by auto
next
  case (HeartbeatScan lease secs now)
  with assms no_gain_heartbeat show ?thesis by (auto simp: no_gain_def)
next
  case (RecoverScans s secs now rnd)
  with assms no_gain_recover show ?thesis by (auto simp: no_gain_def)
next
  case (SettleScan s lease error now rnd)
  with assms no_gain_settle show ?thesis by (auto simp: no_gain_def)
next
  case (FailScan lease message now)
  with assms no_gain_fail show ?thesis by (auto simp: no_gain_def)
next
  case (CancelScan i now)
  with assms no_gain_cancel show ?thesis by (auto simp: no_gain_def)
next
  case (PipelineStatus i st now)
  with assms(1) have "no_gain d d'" by (auto intro: no_gain_pipeline split: if_splits)
  with assms(2) show ?thesis by (simp add: no_gain_def)
qed

lemma owns_lease_exclusive:
  "owns_lease d l \<Longrightarrow> owns_lease d l' \<Longrightarrow> lease_scan_id l = lease_scan_id l' \<Longrightarrow> l = l'"
  by (auto simp: owns_lease_def owns_scan_def lease_matches_def split: option.splits)

interpretation scan_leases: leases scan_step owns_lease lease_scan_id grants_scan
  by unfold_locales (auto intro: owns_lease_exclusive dest: scan_step_grant)

section \<open>Attempts are bounded\<close>

definition attempts_ok :: "scan_run \<Rightarrow> bool" where
  "attempts_ok r \<longleftrightarrow> 0 < sr_max_attempts r \<and> sr_retry_count r \<le> sr_max_attempts r \<and>
     (sr_status r \<in> set ACTIVE_SCAN_STATUSES \<or> sr_lease_token r \<noteq> None \<longrightarrow>
        sr_retry_count r < sr_max_attempts r)"

definition all_attempts_ok :: "database \<Rightarrow> bool" where
  "all_attempts_ok d \<longleftrightarrow> (\<forall>r \<in> set (scan_runs d). attempts_ok r)"

lemma attempts_update:
  assumes "all_attempts_ok d"
    and "\<And>r. r \<in> set (scan_runs d) \<Longrightarrow> sr_id r = i \<Longrightarrow> attempts_ok r \<Longrightarrow> attempts_ok (f r)"
  shows "all_attempts_ok (update_scan i f d)"
  using assms by (auto simp: all_attempts_ok_def update_scan_def set_tupd)

lemma attempts_same: "all_attempts_ok d \<Longrightarrow> scan_runs d' = scan_runs d \<Longrightarrow> all_attempts_ok d'"
  by (simp add: all_attempts_ok_def)

lemma retry_attempts:
  assumes "attempts_ok r" "sr_retry_count r < sr_max_attempts r"
  shows "attempts_ok (clear_scan_lease (retry_or_quarantine s e t st rnd r))"
  using assms by (auto simp: attempts_ok_def effective_max_attempts_def ACTIVE_SCAN_STATUSES_def)

lemma recover_row_attempts:
  "attempts_ok r \<Longrightarrow> sr_status r = ''running'' \<Longrightarrow> attempts_ok (recover_row s t rnd r)"
  unfolding recover_row_def
  by (auto simp: retry_attempts attempts_ok_def ACTIVE_SCAN_STATUSES_def effective_max_attempts_def)

lemma settle_row_attempts:
  assumes "attempts_ok r" "sr_lease_token r \<noteq> None"
  shows "attempts_ok (settle_row s e t rnd r)"
proof -
  have lt: "sr_retry_count r < sr_max_attempts r" using assms by (simp add: attempts_ok_def)
  have keep: "attempts_ok (clear_scan_lease x)"
    if "sr_retry_count x = sr_retry_count r" "sr_max_attempts x = sr_max_attempts r" for x
    using that assms lt by (simp add: attempts_ok_def)
  show ?thesis
    using assms lt retry_attempts [OF assms(1) lt]
    by (auto simp: settle_row_def Let_def keep TERMINAL_SCAN_STATUSES_def split: option.splits)
qed

lemma recover_scans_map:
  "distinct (map sr_id scans) \<Longrightarrow>
   scan_runs (fold (recover_scan s t rnd) scans d) =
   map (\<lambda>r. if sr_id r \<in> sr_id ` set scans then recover_row s t (rnd (sr_id r)) r else r) (scan_runs d)"
proof (induction scans arbitrary: d)
  case Nil
  then show ?case by simp
next
  case (Cons x scans)
  then show ?case by (auto simp: recover_scan_runs tupd_def)
qed

lemma scan_runs_recover:
  assumes "keys_distinct sr_id (scan_runs d)"
  shows "scan_runs (snd (recover_stale_scans s d secs t rnd)) =
    map (\<lambda>r. if stale_scan t (t - timedelta_seconds secs) r
      then recover_row s t (rnd (sr_id r)) r else r) (scan_runs d)"
proof -
  let ?stale = "stale_scan t (t - timedelta_seconds secs)"
  let ?scans = "sort_key sr_id (filter ?stale (scan_runs d))"
  have "distinct (map sr_id ?scans)"
    using assms by (intro distinct_map_sort_key) (simp add: keys_distinct_def distinct_map_filter)
  moreover have "sr_id r \<in> sr_id ` set ?scans \<longleftrightarrow> ?stale r" if "r \<in> set (scan_runs d)" for r
    using that assms by (auto simp: keys_distinct_def distinct_map dest: inj_onD)
  ultimately show ?thesis
    by (simp add: recover_stale_scans_def Let_def table_simps recover_scans_map cong: map_cong)
qed

definition scans_ok :: "database \<Rightarrow> bool" where
  "scans_ok d \<longleftrightarrow> keys_distinct sr_id (scan_runs d) \<and> all_attempts_ok d"

lemma scans_ok_update:
  assumes "scans_ok d" "\<And>r. sr_id (f r) = sr_id r"
    and "\<And>r. tget sr_id i (scan_runs d) = Some r \<Longrightarrow> attempts_ok r \<Longrightarrow> attempts_ok (f r)"
  shows "scans_ok (update_scan i f d)"
proof -
  have dist: "keys_distinct sr_id (scan_runs d)" using assms(1) by (simp add: scans_ok_def)
  have "all_attempts_ok (update_scan i f d)"
    using assms(1,3) tget_in_set [OF dist] by (intro attempts_update) (auto simp: scans_ok_def)
  with dist assms(2) show ?thesis by (simp add: scans_ok_def update_scan_def keys_distinct_tupd)
qed

lemma scans_ok_same: "scans_ok d \<Longrightarrow> scan_runs d' = scan_runs d \<Longrightarrow> scans_ok d'"
  by (simp add: scans_ok_def all_attempts_ok_def)

lemma scans_ok_recover:
  assumes "scans_ok d"
  shows "scans_ok (snd (recover_stale_scans s d secs t rnd))"
proof -
  have dist: "keys_distinct sr_id (scan_runs d)" using assms by (simp add: scans_ok_def)
  have "map sr_id (scan_runs (snd (recover_stale_scans s d secs t rnd))) = map sr_id (scan_runs d)"
    unfolding scan_runs_recover [OF dist] by (induction "scan_runs d") auto
  moreover have "all_attempts_ok (snd (recover_stale_scans s d secs t rnd))"
    using assms unfolding all_attempts_ok_def scan_runs_recover [OF dist] scans_ok_def
    by (auto intro: recover_row_attempts simp: stale_scan_def)
  ultimately show ?thesis using dist by (simp add: scans_ok_def keys_distinct_def)
qed

lemma scans_ok_fail:
  assumes "scans_ok d" "fail_without_retry d lease message now = Inr d'"
  shows "scans_ok d'"
proof -
  let ?f = "\<lambda>r. clear_scan_lease
      (r\<lparr>sr_status := ''failed'', sr_progress_stage := ''failed'', sr_error_summary := Some message,
         sr_completed_at := Some now, sr_partial_outputs := jmerge (sr_partial_outputs r)
           [(''worker_error'', JStr message), (''retry_classification'', JStr ''non_retryable''),
            (''failed_at'', JTime now)]\<rparr>)"
  have g: "scans_ok (update_scan (lease_scan_id lease) ?f d)"
    by (rule scans_ok_update [OF assms(1)]) (auto simp: attempts_ok_def ACTIVE_SCAN_STATUSES_def)
  show ?thesis
    using assms
    by (auto simp: fail_without_retry_def Let_def split: option.splits if_splits
        intro: g scans_ok_same [OF g] dest: scan_runs_transition_system)
qed

lemma scans_ok_cancel:
  assumes "scans_ok d" "api_cancel_scan d i now = Inr (b, d')"
  shows "scans_ok d'"
proof -
  have g1: "scans_ok (update_scan i (\<lambda>r. r\<lparr>sr_cancel_requested := True\<rparr>) d)"
    by (rule scans_ok_update [OF assms(1)]) (auto simp: attempts_ok_def)
  have g2: "scans_ok (update_scan i (\<lambda>r. cancel_queued_row now (r\<lparr>sr_cancel_requested := True\<rparr>)) d)"
    by (rule scans_ok_update [OF assms(1)])
      (auto simp: attempts_ok_def cancel_queued_row_def ACTIVE_SCAN_STATUSES_def)
  show ?thesis
    using assms
    by (auto simp: api_cancel_scan_def Let_def split: option.splits if_splits
        intro: g1 g2 scans_ok_same [OF g2] dest: scan_runs_transition_system)
qed

lemma scan_step_attempts:
  assumes ok: "scans_ok d" and step: "scan_step d opn = Inr d'"
  shows "scans_ok d'"
proof (cases opn)
  case (ClaimScan lease secs now)
  have "scans_ok (update_scan (lease_scan_id lease) (claim_row lease secs now) d)"
    if "tget sr_id (lease_scan_id lease) (scan_runs d) = Some r" "sr_status r = ''queued''" for r
    using that by (intro scans_ok_update [OF ok])
      (auto simp: claim_row_def attempts_ok_def ACTIVE_SCAN_STATUSES_def)
  moreover have "scans_ok (update_scan (lease_scan_id lease) (cancel_queued_row now) d)"
    by (intro scans_ok_update [OF ok])
      (auto simp: cancel_queued_row_def attempts_ok_def ACTIVE_SCAN_STATUSES_def)
  ultimately show ?thesis
    using ok step ClaimScan by (auto simp: try_claim_def split: option.splits if_splits)
next
  case (HeartbeatScan lease secs now)
  have "scans_ok (update_scan (lease_scan_id lease) (\<lambda>r. r\<lparr>sr_heartbeat_at := Some now,
      sr_lease_expires_at := Some (now + timedelta_seconds secs)\<rparr>) d)"
    by (intro scans_ok_update [OF ok]) (auto simp: attempts_ok_def)
  with ok step HeartbeatScan show ?thesis
    by (auto simp: heartbeat_scan_def split: option.splits if_splits)
next
  case (SettleScan s lease error now rnd)
  have "scans_ok (update_scan (lease_scan_id lease) (settle_row s error now rnd) d)"
    if "tget sr_id (lease_scan_id lease) (scan_runs d) = Some r" "lease_matches r lease" for r
    using that by (intro scans_ok_update [OF ok])
      (auto simp: lease_matches_def intro: settle_row_attempts)
  with ok step SettleScan show ?thesis by (auto simp: settle_scan_def split: option.splits if_splits)
next
  case (PipelineStatus i st now)
  have "scans_ok (update_scan i (pipeline_status_row st now) d)"
    if "st \<in> {''completed'', ''failed'', ''cancelled''}"
    using that by (intro scans_ok_update [OF ok])
      (auto simp: pipeline_status_row_def attempts_ok_def ACTIVE_SCAN_STATUSES_def)
  with step PipelineStatus show ?thesis by (auto split: if_splits)
qed (use ok step in \<open>auto intro: scans_ok_recover scans_ok_fail scans_ok_cancel\<close>)


section \<open>Properties of the worker\<close>

lemma fenced_worker_skipped:
  assumes "\<not> owns_lease d l"
  shows "heartbeat_scan d l secs now = (False, d)" "start_scan d l now = Inr (StartSkipped, d)"
    "fail_without_retry d l message now = Inr d"
  using assms
  by (auto simp: owns_lease_def heartbeat_scan_def start_scan_def fail_without_retry_def split: option.splits)

text \<open>
  C4: lease fencing. A worker that does not hold a scan's lease, be it that it never had it or that
  it lost it to recovery, a cancellation, the end of the scan or another worker, does not hold it
  after any history of worker, recovery, cancel and pipeline transactions without a claim of its
  own; its heartbeat is refused, its start is skipped and its final failure is dropped, changing
  nothing. Whenever a scan has passed from one lease to another, there was a moment in between at
  which no lease on it was current.
\<close>

theorem scan_lease_fencing:
  assumes "\<not> owns_lease d l" "\<And>opn. opn \<in> set ops \<Longrightarrow> \<not> grants_scan opn l"
  shows "let d' = run_requests scan_step d ops in
    \<not> owns_lease d' l \<and> heartbeat_scan d' l secs now = (False, d') \<and>
    start_scan d' l now = Inr (StartSkipped, d') \<and> fail_without_retry d' l message now = Inr d' \<and>
    (\<forall>l1 l2. owns_lease d l1 \<longrightarrow> owns_lease d' l2 \<longrightarrow> lease_scan_id l2 = lease_scan_id l1 \<longrightarrow> l2 \<noteq> l1 \<longrightarrow>
       (\<exists>xs ys. ops = xs @ ys \<and>
          (\<forall>l'. lease_scan_id l' = lease_scan_id l1 \<longrightarrow> \<not> owns_lease (run_requests scan_step d xs) l')))"
proof -
  have "\<not> owns_lease (run_requests scan_step d ops) l" using assms by (rule scan_leases.fenced)
  then show ?thesis unfolding Let_def using scan_leases.handover by (simp add: fenced_worker_skipped)
qed


text \<open>
  retry delays. With a non-negative base and cap, the delay before the next attempt is
  between half of and the whole of the exponential backoff, and the backoff is capped; it
  doubles with every failure until the cap.
\<close>

theorem retry_delay_bounds:
  assumes "0 \<le> base" "0 \<le> cap" "0 \<le> rnd" "rnd \<le> 1" "1 \<le> n"
  shows "let full = min cap (base * 2 ^ nat (n - 1)); delay = retry_delay_seconds n base cap rv rnd in
    full / 2 \<le> delay \<and> delay \<le> full \<and> 0 \<le> delay \<and> delay \<le> cap \<and>
    min cap (2 * full) = min cap (base * 2 ^ nat (n + 1 - 1))"
proof -
  let ?full = "min cap (base * 2 ^ nat (n - 1))"
  obtain j where j: "0 \<le> j" "j \<le> 1"
    and d: "retry_delay_seconds n base cap rv rnd = ?full * (1 / 2 + j * (1 / 2))"
  proof (cases rv)
    case None
    with assms that [of rnd] show ?thesis by (simp add: retry_delay_seconds_def)
  next
    case (Some r)
    with assms that [of "min (max r 0) 1"] show ?thesis by (simp add: retry_delay_seconds_def)
  qed
  have full: "0 \<le> ?full" using assms by simp
  have "?full * (1 / 2) \<le> ?full * (1 / 2 + j * (1 / 2))"
    "?full * (1 / 2 + j * (1 / 2)) \<le> ?full * 1"
    using j full by (intro mult_left_mono; simp)+
  moreover have "nat (n + 1 - 1) = Suc (nat (n - 1))" using assms(5) by simp
  ultimately show ?thesis
    using full assms(2) unfolding Let_def d by (auto simp: min_def mult.left_commute)
qed

lemma ledger_ok_update_scan: "ledger_ok (update_scan i f d) = ledger_ok d"
  by (simp add: update_scan_def ledger_ok_def bucket_def)

lemma recover_keeps_ledger:
  assumes "ledger_ok d"
  shows "ledger_ok (snd (recover_stale_scans s d secs t rnd))"
proof -
  have "ledger_ok (fold (recover_scan s t rnd) scans d)" if "ledger_ok d" for scans d
    using that
    by (induction scans arbitrary: d)
      (auto simp: recover_scan_def ledger_ok_update_scan reconcile_stale_keeps_ledger)
  with assms show ?thesis
    by (simp add: recover_stale_scans_def Let_def reconcile_stale_keeps_ledger)
qed

lemma retry_next_attempt:
  assumes "0 \<le> scan_worker_retry_base_seconds s" "0 \<le> scan_worker_retry_max_seconds s" "0 \<le> rnd"
    and "sr_status (retry_or_quarantine s e t st rnd r) = ''queued''"
  shows "\<exists>n. sr_next_attempt_at (retry_or_quarantine s e t st rnd r) = Some n \<and> t \<le> n"
proof -
  have "0 \<le> retry_delay_seconds k (scan_worker_retry_base_seconds s)
      (scan_worker_retry_max_seconds s) None rnd" for k
    using assms by (simp add: retry_delay_seconds_def Let_def)
  with assms(4) show ?thesis
    by (auto simp: retry_or_quarantine_def Let_def timedelta_seconds_nonneg split: if_splits)
qed

text \<open>
  C35: recovery of dead workers. After \<open>recover_stale_scans\<close> no stale scan remains: each one
  has lost its lease and is cancelled (when a cancel was requested), quarantined, or queued
  again for an instant that is not in the past; every other scan is unchanged, and the
  spend ledger still balances.
\<close>

theorem stale_scans_recovered:
  assumes "keys_distinct sr_id (scan_runs d)" "ledger_ok d"
    and "0 \<le> scan_worker_retry_base_seconds s" "0 \<le> scan_worker_retry_max_seconds s"
    and "\<And>i. 0 \<le> rnd i"
  shows "let d' = snd (recover_stale_scans s d secs t rnd); cutoff = t - timedelta_seconds secs in
    ledger_ok d' \<and> (\<forall>r \<in> set (scan_runs d'). \<not> stale_scan t cutoff r) \<and>
    fst (recover_stale_scans s d secs t rnd) = length (filter (stale_scan t cutoff) (scan_runs d)) \<and>
    (\<forall>k < length (scan_runs d). let r = scan_runs d ! k; r' = scan_runs d' ! k in
       if stale_scan t cutoff r
       then sr_lease_token r' = None \<and>
         (if sr_cancel_requested r then sr_status r' = ''cancelled''
          else sr_status r' = ''quarantined'' \<or>
            (sr_status r' = ''queued'' \<and> (\<exists>n. sr_next_attempt_at r' = Some n \<and> t \<le> n)))
       else r' = r)"
proof -
  let ?st = "stale_scan t (t - timedelta_seconds secs)"
  have gone: "\<not> ?st (recover_row s t x r)" for x r
    by (auto simp: stale_scan_def recover_row_def)
  have queued: "sr_status (recover_row s t (rnd (sr_id r)) r) = ''quarantined'' \<or>
      (sr_status (recover_row s t (rnd (sr_id r)) r) = ''queued'' \<and>
       (\<exists>n. sr_next_attempt_at (recover_row s t (rnd (sr_id r)) r) = Some n \<and> t \<le> n))"
    if "\<not> sr_cancel_requested r" for r
    using that retry_next_attempt [OF assms(3,4,5)] by (auto simp: recover_row_def)
  have "fst (recover_stale_scans s d secs t rnd) = length (filter ?st (scan_runs d))"
    by (simp add: recover_stale_scans_def Let_def table_simps)
  moreover have "sr_status (recover_row s t x r) = ''cancelled''" if "sr_cancel_requested r" for x r
    using that by (simp add: recover_row_def)
  ultimately show ?thesis
    using recover_keeps_ledger [OF assms(2)] gone queued
    unfolding Let_def scan_runs_recover [OF assms(1)] by auto
qed

section \<open>Concrete histories\<close>

definition sample_lease :: "int \<Rightarrow> worker_lease" where
  "sample_lease k = \<lparr>lease_scan_id = 1, lease_worker_id = ''w'' @ py_str_int k,
     lease_token_of = ''t'' @ py_str_int k\<rparr>"

definition sample_scan :: scan_run where
  "sample_scan = blank_scan_run\<lparr>sr_id := 1, sr_source := ''manual_async'', sr_status := ''queued'',
     sr_max_attempts := 3\<rparr>"

definition sample_scan_db :: database where
  "sample_scan_db = empty_db\<lparr>scan_runs := [sample_scan]\<rparr>"

definition sample_claimed_db :: database where
  "sample_claimed_db = snd (try_claim sample_scan_db (sample_lease 1) 30 0)"


text \<open>A worker that recovery took the lease from, with and without a new owner.\<close>

definition sample_recovery :: "scan_op list" where
  "sample_recovery = [RecoverScans default_settings 30 40000000 (\<lambda>_. 0)]"

theorem scan_lease_fencing_witness:
  "owns_lease sample_claimed_db (sample_lease 1) \<and>
   (let d = run_requests scan_step sample_claimed_db sample_recovery;
        d' = run_requests scan_step d [ClaimScan (sample_lease 2) 30 90000000] in
    \<not> owns_lease d (sample_lease 2) \<and> owns_lease d' (sample_lease 2) \<and> \<not> owns_lease d' (sample_lease 1) \<and>
    heartbeat_scan d (sample_lease 1) 30 50000000 = (False, d) \<and>
    heartbeat_scan d' (sample_lease 1) 30 95000000 = (False, d'))"
proof -
  let ?d = "run_requests scan_step sample_claimed_db sample_recovery"
  let ?claim = "[ClaimScan (sample_lease 2) 30 90000000]"
  have lost: "\<not> owns_lease ?d (sample_lease 1)" "\<not> owns_lease ?d (sample_lease 2)" by code_simp+
  have first: "owns_lease sample_claimed_db (sample_lease 1)" by code_simp
  have second: "owns_lease (run_requests scan_step ?d ?claim) (sample_lease 2)" by code_simp
  have differ: "sample_lease 2 \<noteq> sample_lease 1" by code_simp
  have none: "\<not> grants_scan opn (sample_lease 1)" if "opn \<in> set ?claim" for opn
    using that differ by auto
  have free: "\<not> grants_scan opn (sample_lease 1)" if "opn \<in> set []" for opn :: scan_op
    using that by simp
  have refused: "heartbeat_scan ?d (sample_lease 1) 30 50000000 = (False, ?d)"
    using scan_lease_fencing [where ops = "[]", OF lost(1) free, where secs = 30 and now = 50000000] by (simp only: run_requests.simps Let_def)
  show ?thesis
    using scan_lease_fencing [OF lost(1) none, where secs = 30 and now = 95000000] first second lost(2) refused
    unfolding Let_def by blast
qed

lemma sample_claimed_scans_ok: "scans_ok sample_claimed_db"
proof -
  have "scans_ok sample_scan_db"
    by (simp add: scans_ok_def sample_scan_db_def all_attempts_ok_def attempts_ok_def sample_scan_def
        keys_distinct_def blank_scan_run_def ACTIVE_SCAN_STATUSES_def)
  from scan_step_attempts [OF this, of "ClaimScan (sample_lease 1) 30 0"] show ?thesis
    by (simp add: sample_claimed_db_def)
qed


theorem retry_delay_bounds_witness:
  "retry_delay_seconds 3 5 60 None (1 / 4) \<le> 20 \<and> 10 \<le> retry_delay_seconds 3 5 60 None (1 / 4)"
  using retry_delay_bounds [of 5 60 "1 / 4" 3 None] by (simp add: Let_def)

lemma sample_claimed_ledger: "ledger_ok sample_claimed_db"
  by (simp add: sample_claimed_db_def try_claim_def sample_scan_db_def ledger_ok_update_scan)
    (simp add: ledger_ok_def empty_db_def keys_distinct_def bucket_def outstanding_def)

theorem stale_scans_recovered_witness:
  "let d' = snd (recover_stale_scans default_settings sample_claimed_db 30 40000000 (\<lambda>_. 0)) in
   ledger_ok d' \<and> (\<forall>r \<in> set (scan_runs d'). \<not> stale_scan 40000000 (40000000 - timedelta_seconds 30) r)"
proof -
  have "keys_distinct sr_id (scan_runs sample_claimed_db)"
    using sample_claimed_scans_ok by (simp add: scans_ok_def)
  from stale_scans_recovered [OF this sample_claimed_ledger, of default_settings "\<lambda>_. 0" 30 40000000]
  show ?thesis unfolding Let_def by (simp add: default_settings_def)
qed

section \<open>Behaviours worth knowing\<close>

text \<open>
  Recovery closes every paid attempt older than the stale period, whatever lease its scan has:
  a worker whose lease is fresh and whose provider request is still in flight loses the
  attempt, which is recorded with an unknown outcome.
\<close>

definition sample_inflight_db :: database where
  "sample_inflight_db = sample_claimed_db\<lparr>api_calls := [blank_api_call\<lparr>ac_id := 1,
     ac_scan_run_id := Some 1, ac_attempt_state := ''in_flight'', ac_reservation_state := ''reserved'',
     ac_status := ''in_flight'', ac_started_at := Some 0\<rparr>]\<rparr>"

lemma recovery_closes_live_attempt:
  "let d = snd (heartbeat_scan sample_inflight_db (sample_lease 1) 30 35000000);
       d' = snd (recover_stale_scans default_settings d 30 40000000 (\<lambda>_. 0))
   in owns_lease d' (sample_lease 1) \<and> map ac_status (api_calls d') = [''provider_outcome_unknown'']"
  by code_simp

text \<open>
  A cancel request for a quarantined scan answers that it was cancelled, and sets the flag,
  but the scan stays quarantined: \<open>quarantined\<close> is missing from the terminal statuses the
  request checks.
\<close>

lemma cancel_of_quarantined_scan:
  "api_cancel_scan (empty_db\<lparr>scan_runs := [sample_scan\<lparr>sr_status := ''quarantined''\<rparr>]\<rparr>) 1 5 =
   Inr (True, empty_db\<lparr>scan_runs :=
     [sample_scan\<lparr>sr_status := ''quarantined'', sr_cancel_requested := True\<rparr>]\<rparr>)"
  by (simp add: api_cancel_scan_def sample_scan_def blank_scan_run_def update_scan_def tupd_def)

end
