(* ===== verification/Provider_Operations.thy ===== *)
theory Provider_Operations
  imports Opportunity_Review Samples
begin

text \<open>
  \<open>ProviderOperationsService\<close> of \<open>lead_routing/services.py\<close>: routing profiles of
  properties, the lifecycle of provider assignments, replacement of an active provider, and
  the configuration of call routing. The call-tracking adapter is a protocol of the code
  (\<open>CallTrackingAdapter\<close>); it is an argument here.
\<close>

datatype routing_error =
  ProviderAssignmentError string | LeadRoutingError string | RateLimitExceeded string
| LeadAccessDenied string | LeadLookupError string | RoutingValidationError string
| RoutingIntegrityError

text \<open>The \<open>code\<close> of an \<open>OpportunityReviewError\<close>.\<close>

fun review_error_code :: "review_error \<Rightarrow> string" where
  "review_error_code (OpportunityReviewError c) = c"
| "review_error_code (RequestValidationError c) = c"

fun assignment_status_value :: "provider_assignment_status \<Rightarrow> string" where
  "assignment_status_value PA_candidate = ''candidate''"
| "assignment_status_value PA_pilot = ''pilot''"
| "assignment_status_value PA_active = ''active''"
| "assignment_status_value PA_paused = ''paused''"
| "assignment_status_value PA_terminated = ''terminated''"
| "assignment_status_value PA_replaced = ''replaced''"

fun ALLOWED_ASSIGNMENT_TRANSITIONS ::
  "provider_assignment_status \<Rightarrow> provider_assignment_status list" where
  "ALLOWED_ASSIGNMENT_TRANSITIONS PA_candidate = [PA_pilot, PA_terminated]"
| "ALLOWED_ASSIGNMENT_TRANSITIONS PA_pilot = [PA_active, PA_paused, PA_terminated]"
| "ALLOWED_ASSIGNMENT_TRANSITIONS PA_active = [PA_paused, PA_terminated, PA_replaced]"
| "ALLOWED_ASSIGNMENT_TRANSITIONS PA_paused = [PA_active, PA_terminated, PA_replaced]"
| "ALLOWED_ASSIGNMENT_TRANSITIONS PA_terminated = []"
| "ALLOWED_ASSIGNMENT_TRANSITIONS PA_replaced = []"

definition profile_of :: "database \<Rightarrow> string \<Rightarrow> routing_profile option" where
  "profile_of d property_id = tget rp_property_id property_id (routing_profiles d)"

definition active_assignment :: "database \<Rightarrow> string \<Rightarrow> provider_assignment option" where
  "active_assignment d property_id =
     select_first (\<lambda>a. pa_property_id a = property_id \<and> pa_status a = PA_active)
       (provider_assignments d)"

section \<open>Routing profiles\<close>

record profile_args =
  pf_property_id :: string
  pf_opportunity_id :: int
  pf_public_tracking_number :: "string option"
  pf_public_contact_email :: "string option"
  pf_recording_approved :: bool
  pf_recording_retention_days :: "int option"

definition new_profile :: "database \<Rightarrow> profile_args \<Rightarrow> routing_profile" where
  "new_profile d x =
     \<lparr>rp_id = next_id rp_id (routing_profiles d), rp_property_id = pf_property_id x,
       rp_opportunity_id = pf_opportunity_id x,
       rp_public_tracking_number = pf_public_tracking_number x,
       rp_public_contact_email = pf_public_contact_email x,
       rp_recording_approved = pf_recording_approved x,
       rp_recording_retention_days = pf_recording_retention_days x,
       rp_call_adapter_name = None, rp_call_provider_route_id = None,
       rp_routing_health_status = None, rp_routing_health_checked_at = None, rp_active = True\<rparr>"

definition create_routing_profile ::
  "database \<Rightarrow> profile_args \<Rightarrow> routing_error + (routing_profile \<times> database)" where
  "create_routing_profile d x =
     (case profile_of d (pf_property_id x) of
        Some existing \<Rightarrow>
          guarded [raise_if (rp_opportunity_id existing \<noteq> pf_opportunity_id x)
              (ProviderAssignmentError ''property_opportunity_is_immutable'')]
            (Inr (existing, d))
      | None \<Rightarrow>
          (case require_property_approval d (pf_opportunity_id x) of
             Inl e \<Rightarrow> Inl (ProviderAssignmentError (review_error_code e))
           | Inr op \<Rightarrow>
               guarded [raise_if (pf_recording_approved x \<and> pf_recording_retention_days x = None)
                   (ProviderAssignmentError ''recording_requires_retention'')]
                 (Inr (new_profile d x,
                    d\<lparr>routing_profiles := routing_profiles d @ [new_profile d x]\<rparr>))))"

section \<open>Assignments\<close>

record assignment_args =
  ag_property_id :: string
  ag_public_business_name :: string
  ag_provider_candidate_id :: "int option"
  ag_destination_phone :: "string option"
  ag_destination_email :: "string option"
  ag_coverage :: jobj
  ag_response_expectation_minutes :: "int option"
  ag_lead_acceptance_required :: bool

definition new_assignment :: "database \<Rightarrow> assignment_args \<Rightarrow> provider_assignment" where
  "new_assignment d x =
     \<lparr>pa_id = next_id pa_id (provider_assignments d), pa_property_id = ag_property_id x,
       pa_provider_candidate_id = ag_provider_candidate_id x, pa_status = PA_candidate,
       pa_public_business_name = ag_public_business_name x,
       pa_destination_phone = ag_destination_phone x, pa_destination_email = ag_destination_email x,
       pa_coverage = ag_coverage x,
       pa_response_expectation_minutes = ag_response_expectation_minutes x,
       pa_lead_acceptance_required = ag_lead_acceptance_required x,
       pa_agreement_started_at = None, pa_agreement_ended_at = None, pa_active_from = None,
       pa_active_until = None, pa_termination_reason = None, pa_replaced_assignment_id = None,
       pa_logo_asset_id = None, pa_hours = [], pa_service_radius = [], pa_credentials = [],
       pa_license_numbers = [], pa_approved_claims = [], pa_attributed_testimonials = [],
       pa_provider_photos = [], pa_claims_reviewed_by = None, pa_claims_reviewed_at = None,
       pa_claims_review_reason = None, pa_activation_approved_by = None,
       pa_activation_reason = None, pa_replacement_approved_by = None\<rparr>"

definition create_assignment ::
  "database \<Rightarrow> assignment_args \<Rightarrow> routing_error + (provider_assignment \<times> database)" where
  "create_assignment d x =
     guarded [
       raise_if (ag_destination_phone x = None \<and> ag_destination_email x = None)
         (ProviderAssignmentError ''assignment_requires_destination''),
       raise_if (profile_of d (ag_property_id x) = None)
         (ProviderAssignmentError ''routing_profile_not_found'')]
     (Inr (new_assignment d x,
        d\<lparr>provider_assignments := provider_assignments d @ [new_assignment d x]\<rparr>))"

definition or_now :: "instant option \<Rightarrow> instant \<Rightarrow> instant option" where
  "or_now t now = (case t of None \<Rightarrow> Some now | Some _ \<Rightarrow> t)"

definition enter_assignment_status ::
  "provider_assignment_status \<Rightarrow> string option \<Rightarrow> instant \<Rightarrow> provider_assignment \<Rightarrow>
   provider_assignment" where
  "enter_assignment_status target reason timestamp a =
     (let a1 = (if target = PA_active
                then a\<lparr>pa_active_from := or_now (pa_active_from a) timestamp,
                       pa_agreement_started_at := or_now (pa_agreement_started_at a) timestamp\<rparr>
                else a);
          a2 = (if target \<in> set [PA_terminated, PA_replaced]
                then a1\<lparr>pa_termination_reason := reason, pa_active_until := Some timestamp,
                        pa_agreement_ended_at := Some timestamp\<rparr>
                else a1)
      in a2\<lparr>pa_status := target\<rparr>)"

definition update_assignment ::
  "int \<Rightarrow> (provider_assignment \<Rightarrow> provider_assignment) \<Rightarrow> database \<Rightarrow> database" where
  "update_assignment i f d =
     d\<lparr>provider_assignments := tupd pa_id i f (provider_assignments d)\<rparr>"

definition assignment_of :: "database \<Rightarrow> int \<Rightarrow> routing_error + provider_assignment" where
  "assignment_of d i =
     require_some (ProviderAssignmentError ''assignment_not_found'')
       (tget pa_id i (provider_assignments d))"

text \<open>\<open>at\<close> is the timestamp argument or the clock.\<close>

definition transition_assignment ::
  "database \<Rightarrow> int \<Rightarrow> provider_assignment_status \<Rightarrow> string option \<Rightarrow> instant \<Rightarrow>
   routing_error + database" where
  "transition_assignment d i target reason timestamp =
     and_then (assignment_of d i) (\<lambda>a.
     if target = pa_status a then Inr d
     else guarded [
       raise_if (target \<notin> set (ALLOWED_ASSIGNMENT_TRANSITIONS (pa_status a)))
         (ProviderAssignmentError (''invalid_assignment_transition:'' @
            assignment_status_value (pa_status a) @ '':'' @ assignment_status_value target)),
       raise_if (target = PA_active \<and>
           (case active_assignment d (pa_property_id a) of
              None \<Rightarrow> False | Some active \<Rightarrow> pa_id active \<noteq> pa_id a))
         (ProviderAssignmentError ''property_already_has_active_assignment''),
       raise_if (target \<in> set [PA_terminated, PA_replaced] \<and> \<not> truthy_str reason)
         (ProviderAssignmentError ''terminal_transition_requires_reason'')]
     (Inr (update_assignment i (enter_assignment_status target reason timestamp) d)))"

definition replace_assignment ::
  "database \<Rightarrow> int \<Rightarrow> int \<Rightarrow> string \<Rightarrow> instant \<Rightarrow> routing_error + database" where
  "replace_assignment d current_id replacement_id reason timestamp =
     and_then (assignment_of d current_id) (\<lambda>current.
     and_then (assignment_of d replacement_id) (\<lambda>replacement.
     guarded [
       raise_if (pa_property_id current \<noteq> pa_property_id replacement)
         (ProviderAssignmentError ''replacement_property_mismatch''),
       raise_if (pa_status current \<noteq> PA_active)
         (ProviderAssignmentError ''replacement_requires_active_assignment'')]
     (and_then (transition_assignment d current_id PA_replaced (Some reason) timestamp) (\<lambda>d1.
      let d2 = update_assignment replacement_id
                 (\<lambda>a. a\<lparr>pa_replaced_assignment_id := Some current_id\<rparr>) d1
      in and_then (assignment_of d2 replacement_id) (\<lambda>a.
         and_then (if pa_status a = PA_candidate
                   then transition_assignment d2 replacement_id PA_pilot None timestamp
                   else Inr d2)
           (\<lambda>d3. transition_assignment d3 replacement_id PA_active None timestamp))))))"

section \<open>Call routing\<close>

record call_route_request =
  crq_property_id :: string
  crq_public_number :: string
  crq_destination_number :: string
  crq_recording_enabled :: bool
  crq_recording_retention_days :: "int option"

record call_route_result =
  crr_provider_route_id :: string
  crr_public_number :: string
  crr_status :: string

record routing_health =
  rh_healthy :: bool
  rh_status :: string
  rh_checked_at :: instant

definition valid_call_route_request :: "call_route_request \<Rightarrow> bool" where
  "valid_call_route_request q \<longleftrightarrow>
     (case crq_recording_retention_days q of None \<Rightarrow> True | Some n \<Rightarrow> 1 \<le> n \<and> n \<le> 3650)"

definition update_profile ::
  "string \<Rightarrow> (routing_profile \<Rightarrow> routing_profile) \<Rightarrow> database \<Rightarrow> database" where
  "update_profile property_id f d =
     d\<lparr>routing_profiles := tupd rp_property_id property_id f (routing_profiles d)\<rparr>"

text \<open>The adapter's \<open>name\<close> and its \<open>configure_route\<close> are arguments.\<close>

definition configure_call_routing ::
  "database \<Rightarrow> string \<Rightarrow> string \<Rightarrow> (call_route_request \<Rightarrow> call_route_result) \<Rightarrow> instant \<Rightarrow>
   routing_error + (string \<times> database)" where
  "configure_call_routing d property_id adapter_name configure_route now =
     (case (profile_of d property_id, active_assignment d property_id) of
        (Some profile, Some assignment) \<Rightarrow>
          (case (rp_public_tracking_number profile, pa_destination_phone assignment) of
             (Some public, Some destination) \<Rightarrow>
               (let q = \<lparr>crq_property_id = property_id, crq_public_number = public,
                          crq_destination_number = destination,
                          crq_recording_enabled = rp_recording_approved profile,
                          crq_recording_retention_days = rp_recording_retention_days profile\<rparr>;
                    r = configure_route q
                in guarded [raise_if (\<not> valid_call_route_request q)
                      (RoutingValidationError ''recording_retention_days'')]
                   (Inr (crr_provider_route_id r,
                      update_profile property_id
                        (\<lambda>p. p\<lparr>rp_call_adapter_name := Some adapter_name,
                           rp_call_provider_route_id := Some (crr_provider_route_id r),
                           rp_routing_health_status := Some (crr_status r),
                           rp_routing_health_checked_at := Some now\<rparr>) d)))
           | _ \<Rightarrow> Inl (ProviderAssignmentError ''phone_route_not_configured''))
      | _ \<Rightarrow> Inl (ProviderAssignmentError ''active_route_not_found''))"

definition check_call_routing_health ::
  "database \<Rightarrow> string \<Rightarrow> (string \<Rightarrow> routing_health) \<Rightarrow> routing_error + (bool \<times> database)" where
  "check_call_routing_health d property_id health_check =
     and_then (require_some (ProviderAssignmentError ''routing_profile_not_found'')
       (profile_of d property_id)) (\<lambda>profile.
     Inr (rh_healthy (health_check property_id),
       update_profile property_id
         (\<lambda>p. p\<lparr>rp_routing_health_status := Some (rh_status (health_check property_id)),
            rp_routing_health_checked_at := Some (rh_checked_at (health_check property_id))\<rparr>) d))"

section \<open>Histories of provider operations\<close>

datatype provider_op =
  CreateProfile profile_args
| CreateAssignment assignment_args
| TransitionAssignment int provider_assignment_status "string option" instant
| ReplaceAssignment int int string instant
| ConfigureCallRouting string string "call_route_request \<Rightarrow> call_route_result" instant
| CheckCallRouting string "string \<Rightarrow> routing_health"

fun provider_step :: "database \<Rightarrow> provider_op \<Rightarrow> routing_error + database" where
  "provider_step d (CreateProfile x) = map_result snd (create_routing_profile d x)"
| "provider_step d (CreateAssignment x) = map_result snd (create_assignment d x)"
| "provider_step d (TransitionAssignment i target reason now) =
     transition_assignment d i target reason now"
| "provider_step d (ReplaceAssignment i j reason now) = replace_assignment d i j reason now"
| "provider_step d (ConfigureCallRouting pid name conf now) =
     map_result snd (configure_call_routing d pid name conf now)"
| "provider_step d (CheckCallRouting pid health) =
     map_result snd (check_call_routing_health d pid health)"

definition assignment_ok :: "provider_assignment \<Rightarrow> bool" where
  "assignment_ok a \<longleftrightarrow>
     (pa_status a \<in> {PA_terminated, PA_replaced} \<longrightarrow>
        truthy_str (pa_termination_reason a) \<and> pa_agreement_ended_at a \<noteq> None) \<and>
     (pa_status a = PA_active \<longrightarrow> pa_active_from a \<noteq> None \<and> pa_agreement_started_at a \<noteq> None)"

definition is_active :: "provider_assignment \<Rightarrow> bool" where
  "is_active a \<longleftrightarrow> pa_status a = PA_active"

definition assignments_ok :: "database \<Rightarrow> bool" where
  "assignments_ok d \<longleftrightarrow> keys_distinct pa_id (provider_assignments d) \<and>
     at_most_one pa_property_id is_active (provider_assignments d) \<and>
     (\<forall>a \<in> set (provider_assignments d). assignment_ok a)"

definition assignment_state :: "database \<Rightarrow> int \<Rightarrow> provider_assignment_status option" where
  "assignment_state d i = map_option pa_status (tget pa_id i (provider_assignments d))"

lemma enter_status_simps [simp]:
  "pa_id (enter_assignment_status t r now a) = pa_id a"
  "pa_property_id (enter_assignment_status t r now a) = pa_property_id a"
  "pa_status (enter_assignment_status t r now a) = t"
  "pa_replaced_assignment_id (enter_assignment_status t r now a) = pa_replaced_assignment_id a"
  "pa_destination_email (enter_assignment_status t r now a) = pa_destination_email a"
  "pa_destination_phone (enter_assignment_status t r now a) = pa_destination_phone a"
  "t \<in> {PA_terminated, PA_replaced} \<Longrightarrow>
     pa_termination_reason (enter_assignment_status t r now a) = r"
  "t \<notin> {PA_terminated, PA_replaced} \<Longrightarrow>
     pa_termination_reason (enter_assignment_status t r now a) = pa_termination_reason a"
  by (auto simp: enter_assignment_status_def Let_def)

lemma enter_status_ok:
  "(t \<in> {PA_terminated, PA_replaced} \<Longrightarrow> truthy_str r) \<Longrightarrow>
   assignment_ok (enter_assignment_status t r now a)"
  by (auto simp: assignment_ok_def enter_assignment_status_def Let_def or_now_def split: option.splits)

lemma transition_cases:
  assumes "transition_assignment d i target reason now = Inr d'"
  obtains (same) "d' = d"
  | (moved) a where "tget pa_id i (provider_assignments d) = Some a"
      "target \<in> set (ALLOWED_ASSIGNMENT_TRANSITIONS (pa_status a))"
      "target = PA_active \<Longrightarrow> active_assignment d (pa_property_id a) = None \<or>
         (\<exists>x. active_assignment d (pa_property_id a) = Some x \<and> pa_id x = pa_id a)"
      "target \<in> {PA_terminated, PA_replaced} \<Longrightarrow> truthy_str reason"
      "d' = update_assignment i (enter_assignment_status target reason now) d"
  using assms
  by (auto simp: transition_assignment_def assignment_of_def split: if_splits option.splits)

lemma update_assignment_ok:
  assumes "assignments_ok d" "\<And>a. pa_id (f a) = pa_id a"
    and "\<And>a. pa_property_id (f a) = pa_property_id a"
    and "\<And>a. tget pa_id i (provider_assignments d) = Some a \<Longrightarrow> assignment_ok a \<Longrightarrow> assignment_ok (f a)"
    and "\<And>a x. tget pa_id i (provider_assignments d) = Some a \<Longrightarrow> is_active (f a) \<Longrightarrow>
      \<not> is_active a \<Longrightarrow> x \<in> set (provider_assignments d) \<Longrightarrow> is_active x \<Longrightarrow>
      pa_property_id x \<noteq> pa_property_id a"
  shows "assignments_ok (update_assignment i f d)"
proof -
  note ok = assms(1) [unfolded assignments_ok_def]
  have row: "tget pa_id i (provider_assignments d) = Some a"
    if "a \<in> set (provider_assignments d)" "pa_id a = i" for a
    using that ok tget_in_set [of pa_id "provider_assignments d" a] by simp
  have "at_most_one pa_property_id is_active (tupd pa_id i f (provider_assignments d))"
  proof (rule at_most_one_map_enter)
    fix a x
    assume a: "a \<in> set (provider_assignments d)" "pa_id a = i" "is_active (f a)"
      and x: "x \<in> set (provider_assignments d)" "pa_id x \<noteq> i" "is_active x"
    show "pa_property_id x \<noteq> pa_property_id a"
    proof (cases "is_active a")
      case True
      with ok a x at_most_one_unique [of pa_property_id is_active _ x a] show ?thesis by auto
    next
      case False
      then show ?thesis using assms(5) [OF row [OF a(1,2)] a(3) False x(1,3)] by simp
    qed
  qed (use ok assms in auto)
  moreover have "\<forall>a \<in> set (tupd pa_id i f (provider_assignments d)). assignment_ok a"
    using ok row assms(4) by (auto simp: set_tupd)
  ultimately show ?thesis
    using ok assms(2) by (simp add: assignments_ok_def update_assignment_def keys_distinct_tupd)
qed

lemma transition_keeps_ok:
  assumes ok: "assignments_ok d" and t: "transition_assignment d i target reason now = Inr d'"
  shows "assignments_ok d'"
  using t
proof (cases rule: transition_cases)
  case same
  with ok show ?thesis by simp
next
  case (moved a)
  have none: "pa_property_id x \<noteq> pa_property_id a"
    if "target = PA_active" "\<not> is_active a" "x \<in> set (provider_assignments d)" "is_active x" for x
  proof
    assume p: "pa_property_id x = pa_property_id a"
    with that have "active_assignment d (pa_property_id a) \<noteq> None"
      by (auto simp: active_assignment_def select_first_None is_active_def)
    with moved(3) [OF that(1)] obtain y where
      y: "active_assignment d (pa_property_id a) = Some y" "pa_id y = pa_id a" by auto
    then have "y \<in> set (provider_assignments d)" "is_active y"
      by (auto simp: active_assignment_def is_active_def dest: select_first_Some)
    moreover have "a \<in> set (provider_assignments d)" using tget_Some_key [OF moved(1)] by simp
    ultimately have "y = a"
      using ok y(2) by (auto simp: assignments_ok_def keys_distinct_def distinct_map dest: inj_onD)
    with that(2) \<open>is_active y\<close> show False by simp
  qed
  show ?thesis unfolding moved(5)
  proof (rule update_assignment_ok [OF ok])
    fix b x
    assume "tget pa_id i (provider_assignments d) = Some b"
      "is_active (enter_assignment_status target reason now b)" "\<not> is_active b"
      "x \<in> set (provider_assignments d)" "is_active x"
    with moved(1) none show "pa_property_id x \<noteq> pa_property_id b" by (auto simp: is_active_def)
  qed (use moved(4) in \<open>auto intro: enter_status_ok\<close>)
qed

lemma link_keeps_ok:
  "assignments_ok d \<Longrightarrow>
   assignments_ok (update_assignment j (\<lambda>a. a\<lparr>pa_replaced_assignment_id := Some i\<rparr>) d)"
  by (erule update_assignment_ok) (auto simp: assignment_ok_def is_active_def)

text \<open>A replacement as its steps: the current provider leaves, the new one is linked and enters.\<close>

lemma replace_cases:
  assumes "replace_assignment d i j reason now = Inr d'"
  obtains (steps) a b c d1 d2 d3 where
    "tget pa_id i (provider_assignments d) = Some a" "tget pa_id j (provider_assignments d) = Some b"
    "pa_property_id a = pa_property_id b" "pa_status a = PA_active"
    "transition_assignment d i PA_replaced (Some reason) now = Inr d1"
    "d2 = update_assignment j (\<lambda>a. a\<lparr>pa_replaced_assignment_id := Some i\<rparr>) d1"
    "tget pa_id j (provider_assignments d2) = Some c"
    "(if pa_status c = PA_candidate then transition_assignment d2 j PA_pilot None now else Inr d2) = Inr d3"
    "transition_assignment d3 j PA_active None now = Inr d'"
proof -
  from assms show ?thesis
    unfolding replace_assignment_def assignment_of_def Let_def and_then_Inr guarded_Inr require_some_Inr
      first_error_Cons_None raise_if_None
    by (elim exE conjE) (rule that, assumption+, simp_all)
qed

lemma replace_keeps_ok:
  assumes "assignments_ok d" "replace_assignment d i j reason now = Inr d'"
  shows "assignments_ok d'"
  using assms(2)
proof (cases rule: replace_cases)
  case (steps a b c d1 d2 d3)
  have "assignments_ok d2"
    unfolding steps(6) by (rule link_keeps_ok) (rule transition_keeps_ok [OF assms(1) steps(5)])
  then have "assignments_ok d3"
    using steps(8) by (cases "pa_status c = PA_candidate") (auto intro: transition_keeps_ok)
  then show ?thesis by (rule transition_keeps_ok [OF _ steps(9)])
qed

lemma provider_step_ok:
  assumes "assignments_ok d" "provider_step d opn = Inr d'"
  shows "assignments_ok d'"
proof (cases opn)
  case (CreateAssignment x)
  then have d': "d' = d\<lparr>provider_assignments := provider_assignments d @ [new_assignment d x]\<rparr>"
    using assms(2) by (auto simp: create_assignment_def)
  have "pa_id (new_assignment d x) \<notin> pa_id ` set (provider_assignments d)"
    using next_id_fresh by (simp add: new_assignment_def)
  with assms(1) show ?thesis unfolding d'
    by (auto simp: assignments_ok_def keys_distinct_append at_most_one_append)
      (simp_all add: is_active_def new_assignment_def assignment_ok_def)
next
  case (TransitionAssignment i target reason now)
  with assms show ?thesis by (auto intro: transition_keeps_ok)
next
  case (ReplaceAssignment i j reason now)
  with assms show ?thesis by (auto intro: replace_keeps_ok)
next
  case (CreateProfile x)
  with assms have "provider_assignments d' = provider_assignments d"
    by (auto simp: create_routing_profile_def split: option.splits sum.splits)
  with assms(1) show ?thesis by (simp add: assignments_ok_def)
next
  case (ConfigureCallRouting pid name conf now)
  with assms have "provider_assignments d' = provider_assignments d"
    by (auto simp: configure_call_routing_def Let_def update_profile_def split: option.splits)
  with assms(1) show ?thesis by (simp add: assignments_ok_def)
next
  case (CheckCallRouting pid health)
  with assms have "provider_assignments d' = provider_assignments d"
    by (auto simp: check_call_routing_health_def update_profile_def)
  with assms(1) show ?thesis by (simp add: assignments_ok_def)
qed

interpretation provider_ops: request_machine provider_step assignments_ok
  by unfold_locales (rule provider_step_ok)

lemma state_update:
  assumes "\<And>a. pa_id (f a) = pa_id a"
  shows "assignment_state (update_assignment i f d) k =
    (if k = i then map_option (pa_status \<circ> f) (tget pa_id i (provider_assignments d))
     else assignment_state d k)"
proof (cases "k = i")
  case True
  then show ?thesis
    using assms by (cases "tget pa_id i (provider_assignments d)")
      (auto simp: assignment_state_def update_assignment_def tget_tupd dest: tget_Some_key)
next
  case False
  then show ?thesis
    using assms by (simp add: assignment_state_def update_assignment_def tget_tupd_other)
qed

lemma link_state: "assignment_state (update_assignment j (\<lambda>a. a\<lparr>pa_replaced_assignment_id := x\<rparr>) d) k =
  assignment_state d k"
  by (subst state_update) (auto simp: assignment_state_def comp_def)

lemma assignment_transition_path:
  assumes "transition_assignment d i target reason now = Inr d'" "assignment_state d k = Some s"
  shows "\<exists>s'. assignment_state d' k = Some s' \<and> (s, s') \<in> (graph_edges ALLOWED_ASSIGNMENT_TRANSITIONS)\<^sup>*"
  using assms(1)
proof (cases rule: transition_cases)
  case same
  with assms(2) show ?thesis by auto
next
  case (moved a)
  with assms(2) show ?thesis
    by (auto simp: state_update comp_def) (auto simp: assignment_state_def intro: graph_edgesI)
qed

lemma replace_path:
  assumes "replace_assignment d i j reason now = Inr d'" "assignment_state d k = Some s"
  shows "\<exists>s'. assignment_state d' k = Some s' \<and> (s, s') \<in> (graph_edges ALLOWED_ASSIGNMENT_TRANSITIONS)\<^sup>*"
  using assms(1)
proof (cases rule: replace_cases)
  case (steps a b c d1 d2 d3)
  let ?E = "(graph_edges ALLOWED_ASSIGNMENT_TRANSITIONS)\<^sup>*"
  from assignment_transition_path [OF steps(5) assms(2)] obtain s1 where
    s1: "assignment_state d2 k = Some s1" "(s, s1) \<in> ?E" unfolding steps(6) link_state by blast
  have "\<exists>s2. assignment_state d3 k = Some s2 \<and> (s1, s2) \<in> ?E"
    using steps(8) s1(1) assignment_transition_path [of d2 j PA_pilot None now d3 k s1]
    by (cases "pa_status c = PA_candidate") auto
  then obtain s2 where s2: "assignment_state d3 k = Some s2" "(s1, s2) \<in> ?E" by blast
  from assignment_transition_path [OF steps(9) s2(1)] s1(2) s2(2) show ?thesis
    by (blast intro: rtrancl_trans)
qed

lemma provider_step_path:
  assumes "provider_step d opn = Inr d'" "assignment_state d k = Some s"
  shows "\<exists>s'. assignment_state d' k = Some s' \<and> (s, s') \<in> (graph_edges ALLOWED_ASSIGNMENT_TRANSITIONS)\<^sup>*"
proof (cases opn)
  case (TransitionAssignment i target reason now)
  with assms show ?thesis by (auto intro: assignment_transition_path)
next
  case (ReplaceAssignment i j reason now)
  with assms show ?thesis by (auto intro: replace_path)
next
  case (CreateAssignment x)
  with assms show ?thesis
    by (auto simp: create_assignment_def assignment_state_def tget_append)
next
  case (CreateProfile x)
  with assms show ?thesis
    by (auto simp: create_routing_profile_def assignment_state_def split: option.splits sum.splits)
next
  case (ConfigureCallRouting pid name conf now)
  with assms show ?thesis
    by (auto simp: configure_call_routing_def assignment_state_def Let_def update_profile_def
        split: option.splits)
next
  case (CheckCallRouting pid health)
  with assms show ?thesis
    by (auto simp: check_call_routing_health_def assignment_state_def update_profile_def)
qed

interpretation assignments: lifecycle provider_step assignment_state ALLOWED_ASSIGNMENT_TRANSITIONS
  by unfold_locales (rule provider_step_path)

definition profile_stored :: "database \<Rightarrow> profile_args \<Rightarrow> routing_profile \<Rightarrow> bool" where
  "profile_stored d x r \<longleftrightarrow>
     profile_of d (pf_property_id x) = Some r \<and> rp_opportunity_id r = pf_opportunity_id x"

lemma create_profile_Inr:
  assumes "create_routing_profile d x = Inr (r, d')"
  shows "(profile_stored d x r \<and> d' = d) \<or>
    (profile_of d (pf_property_id x) = None \<and> r = new_profile d x \<and>
     d' = d\<lparr>routing_profiles := routing_profiles d @ [r]\<rparr> \<and>
     (\<exists>op. require_property_approval d (pf_opportunity_id x) = Inr op))"
  using assms
  by (auto simp: create_routing_profile_def profile_stored_def split: option.splits sum.splits)

lemma profile_of_append:
  "profile_of (d\<lparr>routing_profiles := routing_profiles d @ [r]\<rparr>) p =
   (case profile_of d p of Some q \<Rightarrow> Some q
    | None \<Rightarrow> if rp_property_id r = p then Some r else None)"
  by (simp add: profile_of_def tget_append split: option.splits)

lemma create_profile_stored:
  assumes "create_routing_profile d x = Inr (r, d')"
  shows "profile_stored d' x r"
  using create_profile_Inr [OF assms]
  by (elim disjE) (simp_all add: profile_stored_def profile_of_append new_profile_def)

lemma create_profile_frame:
  assumes "create_routing_profile d y = Inr (r', d')" "profile_stored d x r"
  shows "profile_stored d' x r"
  using create_profile_Inr [OF assms(1)] assms(2)
  by (elim disjE) (simp_all add: profile_stored_def profile_of_append)

interpretation profiles: idempotent_store create_routing_profile profile_stored
proof
  fix d x r
  assume "profile_stored d x r"
  then show "create_routing_profile d x = Inr (r, d)"
    by (simp add: create_routing_profile_def profile_stored_def guard_eval)
qed (fact create_profile_stored create_profile_frame)+

section \<open>Properties of provider operations\<close>

text \<open>
  C33: one active provider. In every history of provider operations each property has at
  most one active assignment; an active one has an agreement start, and one that was
  terminated or replaced has a recorded reason and an agreement end.
\<close>

theorem one_active_assignment:
  assumes "assignments_ok d"
  shows "let rows = provider_assignments (run_requests provider_step d ops) in
    at_most_one pa_property_id is_active rows \<and>
    (\<forall>a \<in> set rows.
       (pa_status a = PA_active \<longrightarrow> pa_active_from a \<noteq> None \<and> pa_agreement_started_at a \<noteq> None) \<and>
       (pa_status a \<in> {PA_terminated, PA_replaced} \<longrightarrow>
          truthy_str (pa_termination_reason a) \<and> pa_agreement_ended_at a \<noteq> None))"
  using provider_ops.run_inv [OF assms, of ops]
  by (simp add: Let_def assignments_ok_def assignment_ok_def)

text \<open>
  assignment lifecycle. Every history moves an assignment along
  \<open>_ALLOWED_TRANSITIONS\<close>; a terminated or replaced assignment keeps its status for ever, and
  an assignment that has left \<open>candidate\<close> never returns to it.
\<close>

theorem assignment_lifecycle:
  assumes "assignment_state d i = Some st"
  shows "(\<exists>st'. assignment_state (run_requests provider_step d ops) i = Some st' \<and>
            (st, st') \<in> (graph_edges ALLOWED_ASSIGNMENT_TRANSITIONS)\<^sup>*) \<and>
    (st \<in> {PA_terminated, PA_replaced} \<longrightarrow>
       assignment_state (run_requests provider_step d ops) i = Some st) \<and>
    (st \<noteq> PA_candidate \<longrightarrow>
       assignment_state (run_requests provider_step d ops) i \<noteq> Some PA_candidate)"
proof -
  have "b \<noteq> PA_candidate" if "b \<in> set (ALLOWED_ASSIGNMENT_TRANSITIONS a)" for a b
    using that by (cases a) auto
  then have "st \<noteq> PA_candidate \<longrightarrow>
      assignment_state (run_requests provider_step d ops) i \<noteq> Some PA_candidate"
    using assignments.always_closed_region [of "- {PA_candidate}" d i st ops] assms by auto
  moreover have "st \<in> {PA_terminated, PA_replaced} \<longrightarrow>
      assignment_state (run_requests provider_step d ops) i = Some st"
    using assignments.always_terminal [OF assms, of ops] by auto
  ultimately show ?thesis using assignments.always_run_path [OF assms, of ops] by blast
qed

text \<open>
  Routing profiles are idempotent and gated. Creating a profile for a new property
  requires an opportunity whose canonical review state is \<open>approved_for_property\<close>; after
  any further creations, repeating the request returns the first row and changes nothing.
\<close>

theorem routing_profile_idempotent:
  assumes "create_routing_profile d x = Inr (r, d')"
  shows "(profile_of d (pf_property_id x) = None \<longrightarrow>
      (\<exists>op. require_property_approval d (pf_opportunity_id x) = Inr op \<and>
         canonical_state (op_status op) = Inr approved_for_property)) \<and>
    rp_opportunity_id r = pf_opportunity_id x \<and>
    (let d'' = run_requests (\<lambda>d y. map_result snd (create_routing_profile d y)) d' ys
     in create_routing_profile d'' x = Inr (r, d''))"
proof -
  have "canonical_state (op_status op) = Inr approved_for_property"
    if "require_property_approval d i = Inr op" for i op
    using that by (auto simp: require_property_approval_def)
  moreover have "rp_opportunity_id r = pf_opportunity_id x"
    using create_profile_stored [OF assms] by (simp add: profile_stored_def)
  moreover have "profile_of d (pf_property_id x) = None \<longrightarrow>
      (\<exists>op. require_property_approval d (pf_opportunity_id x) = Inr op)"
    using create_profile_Inr [OF assms] by (auto simp: profile_stored_def)
  ultimately show ?thesis using profiles.replay_after [OF assms, of ys] unfolding Let_def by blast
qed

lemma transition_row:
  assumes "transition_assignment d i target reason now = Inr d'"
    "tget pa_id i (provider_assignments d) = Some a" "target \<noteq> pa_status a"
  shows "target \<in> set (ALLOWED_ASSIGNMENT_TRANSITIONS (pa_status a)) \<and>
    d' = update_assignment i (enter_assignment_status target reason now) d"
  using assms by (auto simp: transition_assignment_def assignment_of_def)

lemma tget_update_assignment:
  assumes "\<And>a. pa_id (f a) = pa_id a"
  shows "tget pa_id k (provider_assignments (update_assignment i f d)) =
    (if k = i then map_option f (tget pa_id i (provider_assignments d))
     else tget pa_id k (provider_assignments d))"
  using assms by (simp add: update_assignment_def tget_tupd_if)

lemma replace_rows:
  assumes "replace_assignment d i j reason now = Inr d'"
  obtains (rows) a b b' where "i \<noteq> j"
    "tget pa_id i (provider_assignments d) = Some a" "pa_status a = PA_active"
    "tget pa_id j (provider_assignments d) = Some b" "pa_property_id b = pa_property_id a"
    "tget pa_id i (provider_assignments d') =
       Some (enter_assignment_status PA_replaced (Some reason) now a)"
    "tget pa_id j (provider_assignments d') = Some b'" "pa_status b' = PA_active"
    "pa_replaced_assignment_id b' = Some i" "pa_property_id b' = pa_property_id a"
    "\<And>k. k \<noteq> i \<Longrightarrow> k \<noteq> j \<Longrightarrow>
       tget pa_id k (provider_assignments d') = tget pa_id k (provider_assignments d)"
  using assms
proof (cases rule: replace_cases)
  case (steps a b c d1 d2 d3)
  let ?out = "enter_assignment_status PA_replaced (Some reason) now"
  have d1: "d1 = update_assignment i ?out d"
    using transition_row [OF steps(5,1)] steps(4) by simp
  have get2: "tget pa_id k (provider_assignments d2) =
      (if k = j then map_option (\<lambda>x. x\<lparr>pa_replaced_assignment_id := Some i\<rparr>)
         (if j = i then Some (?out a) else Some b)
       else if k = i then Some (?out a) else tget pa_id k (provider_assignments d))" for k
    unfolding steps(6) d1 using steps(1,2) by (auto simp: tget_update_assignment)
  have ij: "i \<noteq> j"
  proof
    assume eq: "i = j"
    with get2 [of j] steps(7) have "pa_status c = PA_replaced" by auto
    with steps(8) eq have "d3 = d2" by simp
    with transition_row [OF steps(9)] steps(7) \<open>pa_status c = PA_replaced\<close> show False by simp
  qed
  define mid where "mid = (if pa_status c = PA_candidate
    then enter_assignment_status PA_pilot None now else (\<lambda>x. x))"
  have c: "pa_replaced_assignment_id c = Some i" "pa_property_id c = pa_property_id a"
    using get2 [of j] steps(3,7) ij by auto
  have get3: "tget pa_id k (provider_assignments d3) =
      (if k = j then Some (mid c) else tget pa_id k (provider_assignments d2))" for k
    using steps(7,8) transition_row [OF _ steps(7), of PA_pilot None now d3]
    by (cases "pa_status c = PA_candidate") (simp_all add: mid_def tget_update_assignment)
  have mid: "pa_replaced_assignment_id (mid c) = Some i" "pa_property_id (mid c) = pa_property_id a"
    using c by (simp_all add: mid_def)
  have j3: "tget pa_id j (provider_assignments d3) = Some (mid c)" by (simp add: get3)
  obtain b' where d': "\<And>k. tget pa_id k (provider_assignments d') =
      (if k = j then Some b' else tget pa_id k (provider_assignments d3))"
    and b': "pa_status b' = PA_active" "pa_replaced_assignment_id b' = Some i"
      "pa_property_id b' = pa_property_id a"
  proof (cases "pa_status (mid c) = PA_active")
    case True
    then have "d' = d3" using steps(9) j3 by (auto simp: transition_assignment_def assignment_of_def)
    with True mid j3 that [of "mid c"] show ?thesis by auto
  next
    case False
    then have "d' = update_assignment j (enter_assignment_status PA_active None now) d3"
      using transition_row [OF steps(9) j3] by auto
    with mid j3 that [of "enter_assignment_status PA_active None now (mid c)"] show ?thesis
      by (auto simp: tget_update_assignment)
  qed
  show ?thesis
    by (rule rows [of a b b']) (use ij steps(1-4) b' in \<open>auto simp: d' get3 get2\<close>)
qed

text \<open>
  replacing a provider. A successful replacement retires the active assignment with the
  given reason, makes the replacement the active assignment of the same property, linked to
  the one it replaces, and leaves every other assignment as it was.
\<close>

theorem replace_assignment_effect:
  assumes "assignments_ok d" "replace_assignment d i j reason now = Inr d'"
  shows "\<exists>a b. i \<noteq> j \<and>
    tget pa_id i (provider_assignments d') = Some a \<and> pa_status a = PA_replaced \<and>
    pa_termination_reason a = Some reason \<and>
    tget pa_id j (provider_assignments d') = Some b \<and> pa_replaced_assignment_id b = Some i \<and>
    active_assignment d (pa_property_id b) = tget pa_id i (provider_assignments d) \<and>
    active_assignment d' (pa_property_id b) = Some b \<and>
    (\<forall>k. k \<noteq> i \<and> k \<noteq> j \<longrightarrow>
       tget pa_id k (provider_assignments d') = tget pa_id k (provider_assignments d))"
  using assms(2)
proof (cases rule: replace_rows)
  case (rows a b b')
  have only: "active_assignment e p = Some x"
    if "assignments_ok e" "tget pa_id k (provider_assignments e) = Some x"
      "pa_status x = PA_active" "pa_property_id x = p" for e k x p
  proof -
    from that have x: "x \<in> set (provider_assignments e)" by (auto dest: tget_Some_key)
    with that have "active_assignment e p \<noteq> None"
      by (auto simp: active_assignment_def select_first_None)
    then obtain y where y: "active_assignment e p = Some y" by auto
    then have "y \<in> set (provider_assignments e)" "pa_status y = PA_active" "pa_property_id y = p"
      by (auto simp: active_assignment_def dest: select_first_Some)
    with x that y show ?thesis
      using at_most_one_unique [of pa_property_id is_active "provider_assignments e" x y]
      by (auto simp: assignments_ok_def is_active_def)
  qed
  have "active_assignment d (pa_property_id b') = Some a"
    using only [OF assms(1) rows(2,3)] rows(10) by simp
  moreover have "active_assignment d' (pa_property_id b') = Some b'"
    using only [OF replace_keeps_ok [OF assms] rows(7,8)] by simp
  ultimately show ?thesis using rows by auto
qed

section \<open>Concrete provider operations\<close>

definition sample_routing_db :: database where
  "sample_routing_db = empty_db\<lparr>
     opportunities := [blank_opportunity\<lparr>op_id := 1, op_status := ''approved_for_property''\<rparr>]\<rparr>"

definition sample_profile :: profile_args where
  "sample_profile = \<lparr>pf_property_id = ''p1'', pf_opportunity_id = 1,
     pf_public_tracking_number = Some ''+15550100'', pf_public_contact_email = None,
     pf_recording_approved = False, pf_recording_retention_days = None\<rparr>"

definition sample_assignment :: "string \<Rightarrow> assignment_args" where
  "sample_assignment name = \<lparr>ag_property_id = ''p1'', ag_public_business_name = name,
     ag_provider_candidate_id = None, ag_destination_phone = Some ''+15550111'',
     ag_destination_email = Some (name @ ''@x.co''), ag_coverage = [],
     ag_response_expectation_minutes = None, ag_lead_acceptance_required = True\<rparr>"

definition sample_provider_ops :: "provider_op list" where
  "sample_provider_ops = [CreateProfile sample_profile, CreateAssignment (sample_assignment ''a''),
     CreateAssignment (sample_assignment ''b''), TransitionAssignment 1 PA_pilot None 5,
     TransitionAssignment 1 PA_active None 6]"

definition sample_providers_db :: database where
  "sample_providers_db = run_requests provider_step sample_routing_db sample_provider_ops"

lemma sample_routing_ok: "assignments_ok sample_routing_db"
  by (simp add: sample_routing_db_def assignments_ok_def empty_db_def keys_distinct_def)

theorem one_active_assignment_witness:
  "at_most_one pa_property_id is_active (provider_assignments sample_providers_db) \<and>
   map pa_status (provider_assignments sample_providers_db) = [PA_active, PA_candidate]"
proof
  show "at_most_one pa_property_id is_active (provider_assignments sample_providers_db)"
    using one_active_assignment [OF sample_routing_ok, of sample_provider_ops]
    unfolding Let_def sample_providers_db_def by blast
  show "map pa_status (provider_assignments sample_providers_db) = [PA_active, PA_candidate]"
    by code_simp
qed

theorem assignment_lifecycle_witness:
  "assignment_state (run_requests provider_step sample_providers_db
     [TransitionAssignment 1 PA_candidate None 7]) 1 \<noteq> Some PA_candidate"
proof -
  have "assignment_state sample_providers_db 1 = Some PA_active" by code_simp
  from assignment_lifecycle [OF this] show ?thesis by blast
qed

theorem routing_profile_idempotent_witness:
  "\<exists>r d'. create_routing_profile sample_routing_db sample_profile = Inr (r, d') \<and>
     create_routing_profile d' sample_profile = Inr (r, d')"
proof -
  have "\<exists>r d'. create_routing_profile sample_routing_db sample_profile = Inr (r, d')"
    by (rule not_isl_Inr_pair) code_simp
  then obtain r d' where "create_routing_profile sample_routing_db sample_profile = Inr (r, d')"
    by blast
  with routing_profile_idempotent [OF this, of "[]"] show ?thesis by auto
qed

theorem replace_assignment_effect_witness:
  "\<exists>d' b. replace_assignment sample_providers_db 1 2 ''moved away'' 9 = Inr d' \<and>
     tget pa_id 2 (provider_assignments d') = Some b \<and>
     active_assignment d' (pa_property_id b) = Some b"
proof -
  have "\<exists>d'. replace_assignment sample_providers_db 1 2 ''moved away'' 9 = Inr d'"
    by (rule not_isl_Inr) code_simp
  then obtain d' where d': "replace_assignment sample_providers_db 1 2 ''moved away'' 9 = Inr d'"
    by blast
  have "assignments_ok sample_providers_db"
    unfolding sample_providers_db_def by (rule provider_ops.run_inv [OF sample_routing_ok])
  from replace_assignment_effect [OF this d'] d' show ?thesis by blast
qed

end
