(* ===== verification/Lead_Intake.thy ===== *)
theory Lead_Intake
  imports Provider_Operations
begin

text \<open>
  Lead intake: the validated form (\<open>lead_routing/models.py\<close>), the privacy helpers it uses
  (\<open>lead_routing/privacy.py\<close>), the local spam assessor and the in-memory rate limiter
  (\<open>lead_routing/adapters.py\<close>), \<open>LeadRoutingService.submit\<close> and
  \<open>AnalyticsService.record\<close> (\<open>lead_routing/services.py\<close>).

  HMAC-SHA256 is the argument \<open>hmac\<close> (message and key to digest), \<open>uuid4\<close> values are
  arguments, delivery adapters appear by name. The rate limiter and the spam assessor are
  protocols of the code and arguments of \<open>submit\<close>.
\<close>

section \<open>Text helpers\<close>

definition normalize_text :: "string option \<Rightarrow> string option" where
  "normalize_text value = map_option (\<lambda>v. join_words (split_words v)) value"

text \<open>\<open>s.count(sub)\<close>: occurrences that do not overlap.\<close>

fun py_count :: "string \<Rightarrow> string \<Rightarrow> nat" where
  "py_count sub [] = 0"
| "py_count sub (c # s) =
     (if take (length sub) (c # s) = sub then 1 + py_count sub (drop (length sub - 1) s)
      else py_count sub s)"

definition before_at :: "string \<Rightarrow> string" where
  "before_at s = takeWhile (\<lambda>c. c \<noteq> CHR ''@'') s"

definition after_at :: "string \<Rightarrow> string" where
  "after_at s = drop 1 (dropWhile (\<lambda>c. c \<noteq> CHR ''@'') s)"

definition py_last :: "nat \<Rightarrow> string \<Rightarrow> string" where
  "py_last n s = drop (length s - n) s"

section \<open>Privacy helpers\<close>

definition SENSITIVE_KEYS :: "string list" where
  "SENSITIVE_KEYS =
     [''address'', ''api_key'', ''authorization'', ''contact_email'', ''contact_name'',
      ''contact_phone'', ''customer_email'', ''destination'', ''email'', ''full_name'', ''ip'',
      ''ip_address'', ''message'', ''name'', ''phone'', ''postal_code'', ''password'',
      ''remote_address'', ''secret'', ''token'', ''user_agent'']"

type_synonym keyed_hash = "string \<Rightarrow> string \<Rightarrow> string"

definition subject_fingerprint :: "keyed_hash \<Rightarrow> string option \<Rightarrow> string option \<Rightarrow> string \<Rightarrow> string" where
  "subject_fingerprint hmac email phone pepper =
     hmac (py_lower (py_strip (case email of None \<Rightarrow> [] | Some e \<Rightarrow> e)) @ ''|'' @
           py_strip (case phone of None \<Rightarrow> [] | Some p \<Rightarrow> p)) pepper"

fun redact_pii :: "json \<Rightarrow> json"
  and redact_items :: "jobj \<Rightarrow> jobj"
  and redact_list :: "json list \<Rightarrow> json list" where
  "redact_pii (JObj items) = JObj (redact_items items)"
| "redact_pii (JList xs) = JList (redact_list xs)"
| "redact_pii v = v"
| "redact_items [] = []"
| "redact_items ((k, v) # items) =
     (k, if py_lower k \<in> set SENSITIVE_KEYS then JStr ''<redacted>'' else redact_pii v) #
     redact_items items"
| "redact_list [] = []"
| "redact_list (x # xs) = redact_pii x # redact_list xs"

definition masked_destination :: "string \<Rightarrow> string" where
  "masked_destination destination =
     (if CHR ''@'' \<in> set destination
      then take 1 (before_at destination) @ ''***@'' @ after_at destination
      else let digits = filter is_py_digit destination
           in if digits \<noteq> [] then ''***'' @ py_last 4 digits else ''<configured>'')"

section \<open>Forms\<close>

record lead_form =
  lf_property_id :: string
  lf_name :: string
  lf_email :: "string option"
  lf_phone :: "string option"
  lf_postal_code :: "string option"
  lf_message :: "string option"
  lf_consent_accepted :: bool
  lf_consent_text_version :: string
  lf_referral_disclosure_acknowledged :: bool
  lf_referral_disclosure_version :: string
  lf_idempotency_key :: string
  lf_honeypot :: string

definition is_key_char :: "char \<Rightarrow> bool" where
  "is_key_char c =
     (let n = (of_char c :: nat)
      in (65 \<le> n \<and> n \<le> 90) \<or> (97 \<le> n \<and> n \<le> 122) \<or> (48 \<le> n \<and> n \<le> 57) \<or>
         c \<in> set ''_.:-'')"

definition opt_at_most :: "nat \<Rightarrow> string option \<Rightarrow> bool" where
  "opt_at_most n s \<longleftrightarrow> (case s of None \<Rightarrow> True | Some t \<Rightarrow> length t \<le> n)"

text \<open>The pattern \<open>[^@\s]+@[^@\s]+\.[^@\s]+\<close> on the whole string.\<close>

definition email_pattern :: "string \<Rightarrow> bool" where
  "email_pattern s \<longleftrightarrow>
     list_all (\<lambda>c. \<not> is_py_space c) s \<and> CHR ''@'' \<in> set s \<and> before_at s \<noteq> [] \<and>
     CHR ''@'' \<notin> set (after_at s) \<and> CHR ''.'' \<in> set (butlast (drop 1 (after_at s)))"

definition validate_email :: "string option \<Rightarrow> routing_error + string option" where
  "validate_email value =
     (case value of
        None \<Rightarrow> Inr None
      | Some v \<Rightarrow>
          if py_strip v = [] then Inr None
          else guarded [raise_if (\<not> email_pattern (py_lower (py_strip v)))
                 (RoutingValidationError ''email'')]
               (Inr (Some (py_lower (py_strip v)))))"

definition validate_phone :: "string option \<Rightarrow> routing_error + string option" where
  "validate_phone value =
     (case value of
        None \<Rightarrow> Inr None
      | Some v \<Rightarrow>
          if py_strip v = [] then Inr None
          else let digits = filter is_py_digit v
               in guarded [raise_if (\<not> len_between 10 15 digits) (RoutingValidationError ''phone'')]
                    (Inr (Some (''+'' @ digits))))"

definition form_fields_ok :: "lead_form \<Rightarrow> bool" where
  "form_fields_ok f \<longleftrightarrow>
     len_between 1 120 (lf_property_id f) \<and> list_all is_key_char (lf_property_id f) \<and>
     len_between 1 120 (lf_name f) \<and> opt_at_most 254 (lf_email f) \<and>
     opt_at_most 40 (lf_phone f) \<and> opt_at_most 20 (lf_postal_code f) \<and>
     opt_at_most 2000 (lf_message f) \<and> len_between 1 80 (lf_consent_text_version f) \<and>
     len_between 1 80 (lf_referral_disclosure_version f) \<and>
     len_between 12 128 (lf_idempotency_key f) \<and> list_all is_key_char (lf_idempotency_key f) \<and>
     length (lf_honeypot f) \<le> 200"

text \<open>
  Building a \<open>LeadForm\<close>: field constraints on the raw values, field validators, then the
  model validator. One \<open>ValidationError\<close> stands for the collected errors.
\<close>

definition validate_lead_form :: "lead_form \<Rightarrow> routing_error + lead_form" where
  "validate_lead_form raw =
     guarded [raise_if (\<not> form_fields_ok raw) (RoutingValidationError ''fields'')]
     (and_then (validate_email (lf_email raw)) (\<lambda>email.
      and_then (validate_phone (lf_phone raw)) (\<lambda>phone.
      guarded [
        raise_if (email = None \<and> phone = None) (RoutingValidationError ''contact''),
        raise_if (\<not> lf_consent_accepted raw) (RoutingValidationError ''consent''),
        raise_if (\<not> lf_referral_disclosure_acknowledged raw) (RoutingValidationError ''disclosure'')]
      (Inr (raw\<lparr>lf_name := join_words (split_words (lf_name raw)),
              lf_message := normalize_text (lf_message raw),
              lf_email := email, lf_phone := phone\<rparr>)))))"

record request_context =
  rc_remote_address :: "string option"
  rc_user_agent :: "string option"
  rc_request_id :: string
  rc_received_at :: instant

record lead_policy =
  lp_dedupe_window_minutes :: int
  lp_rate_limit_count :: int
  lp_rate_limit_window_seconds :: int
  lp_maximum_delivery_attempts :: int
  lp_delivery_retry_base_seconds :: rat
  lp_delivery_retry_max_seconds :: rat
  lp_retention_days :: int
  lp_recording_enabled :: bool
  lp_recording_retention_days :: "int option"
  lp_consent_text :: string
  lp_consent_text_version :: string
  lp_referral_disclosure_text :: string
  lp_referral_disclosure_version :: string
  lp_pii_hash_pepper :: string

definition policy_valid :: "lead_policy \<Rightarrow> bool" where
  "policy_valid p \<longleftrightarrow>
     1 \<le> lp_dedupe_window_minutes p \<and> lp_dedupe_window_minutes p \<le> 10080 \<and>
     1 \<le> lp_rate_limit_count p \<and> lp_rate_limit_count p \<le> 1000 \<and>
     1 \<le> lp_rate_limit_window_seconds p \<and> lp_rate_limit_window_seconds p \<le> 86400 \<and>
     1 \<le> lp_maximum_delivery_attempts p \<and> lp_maximum_delivery_attempts p \<le> 10 \<and>
     0 < lp_delivery_retry_base_seconds p \<and> lp_delivery_retry_base_seconds p \<le> 86400 \<and>
     0 < lp_delivery_retry_max_seconds p \<and> lp_delivery_retry_max_seconds p \<le> 604800 \<and>
     1 \<le> lp_retention_days p \<and> lp_retention_days p \<le> 3650 \<and>
     (case lp_recording_retention_days p of None \<Rightarrow> True | Some n \<Rightarrow> 1 \<le> n \<and> n \<le> 3650) \<and>
     len_between 10 2000 (lp_consent_text p) \<and> len_between 1 80 (lp_consent_text_version p) \<and>
     len_between 10 2000 (lp_referral_disclosure_text p) \<and>
     len_between 1 80 (lp_referral_disclosure_version p) \<and>
     16 \<le> length (lp_pii_hash_pepper p) \<and>
     \<not> (lp_recording_enabled p \<and> lp_recording_retention_days p = None)"

section \<open>Spam assessment and rate limiting\<close>

record spam_result =
  sm_score :: rat
  sm_disposition :: string
  sm_signals :: "string list"
  sm_assessor_version :: string

definition local_assess :: "lead_form \<Rightarrow> request_context \<Rightarrow> spam_result" where
  "local_assess form context =
     (let honey = lf_honeypot form \<noteq> [];
          links = (case lf_message form of
                     None \<Rightarrow> False | Some m \<Rightarrow> 3 \<le> py_count ''http'' (py_lower m));
          missing = \<not> truthy_str (rc_remote_address context);
          score = (if honey then 1 else 0) + (if links then 1 / 2 else 0) +
                  (if missing then 1 / 10 else (0 :: rat))
      in \<lparr>sm_score = min score 1,
          sm_disposition = (if 9 / 10 \<le> score then ''block''
                            else if 1 / 2 \<le> score then ''review'' else ''allow''),
          sm_signals = (if honey then [''honeypot_populated''] else []) @
            (if links then [''excessive_links''] else []) @
            (if missing then [''missing_remote_address''] else []),
          sm_assessor_version = ''local-v1''\<rparr>)"

type_synonym limiter = "string \<Rightarrow> instant list"

definition limiter_allow ::
  "instant \<Rightarrow> limiter \<Rightarrow> string \<Rightarrow> int \<Rightarrow> int \<Rightarrow> bool \<times> limiter" where
  "limiter_allow now store key limit window_seconds =
     (let cutoff = now - window_seconds * 1000000;
          events = dropWhile (\<lambda>t. t < cutoff) (store key)
      in if limit \<le> int (length events) then (False, store(key := events))
         else (True, store(key := events @ [now])))"

section \<open>Submission\<close>

record lead_submission_result =
  lr_lead_id :: string
  lr_status :: lead_status
  lr_idempotent_replay :: bool
  lr_duplicate :: bool
  lr_delivery_ids :: "string list"

text \<open>What \<open>LeadRoutingService\<close> is constructed with, and the fresh identifiers of a submission.\<close>

record 'l intake =
  in_policy :: lead_policy
  in_adapters :: "delivery_channel \<Rightarrow> string option"
  in_assess :: "lead_form \<Rightarrow> request_context \<Rightarrow> spam_result"
  in_allow :: "'l \<Rightarrow> string \<Rightarrow> int \<Rightarrow> int \<Rightarrow> bool \<times> 'l"
  in_hmac :: keyed_hash

record submit_ids =
  si_lead_id :: string
  si_delivery_id :: "delivery_channel \<Rightarrow> string"

fun delivery_channel_value :: "delivery_channel \<Rightarrow> string" where
  "delivery_channel_value DC_email = ''email''"
| "delivery_channel_value DC_phone = ''phone''"

definition find_lead :: "database \<Rightarrow> string \<Rightarrow> string \<Rightarrow> lead option" where
  "find_lead d property_id key =
     select_first (\<lambda>l. ld_property_id l = property_id \<and> ld_idempotency_key l = key) (leads d)"

definition delivery_ids :: "database \<Rightarrow> string \<Rightarrow> string list" where
  "delivery_ids d lead_id =
     map pd_id (filter (\<lambda>r. pd_lead_id r = lead_id) (provider_deliveries d))"

definition replay_result :: "database \<Rightarrow> lead \<Rightarrow> lead_submission_result" where
  "replay_result d l = \<lparr>lr_lead_id = ld_id l, lr_status = ld_status l, lr_idempotent_replay = True,
     lr_duplicate = False, lr_delivery_ids = delivery_ids d (ld_id l)\<rparr>"

definition routable_channels ::
  "(delivery_channel \<Rightarrow> string option) \<Rightarrow> provider_assignment option \<Rightarrow>
   (delivery_channel \<times> string \<times> string) list" where
  "routable_channels adapters assignment =
     (case assignment of
        None \<Rightarrow> []
      | Some a \<Rightarrow> concat (map (\<lambda>(channel, destination).
          case (destination, adapters channel) of
            (Some x, Some name) \<Rightarrow> if x \<noteq> [] then [(channel, x, name)] else []
          | _ \<Rightarrow> [])
          [(DC_email, pa_destination_email a), (DC_phone, pa_destination_phone a)]))"

definition submission_status ::
  "spam_result \<Rightarrow> provider_assignment option \<Rightarrow> (delivery_channel \<times> string \<times> string) list \<Rightarrow>
   lead_status" where
  "submission_status assessment assignment channels =
     (if sm_disposition assessment = ''block'' then LS_spam
      else if assignment = None \<or> channels = [] then LS_delivery_failed else LS_routing)"

definition intake_lead_event :: "string \<Rightarrow> string \<Rightarrow> string \<Rightarrow> instant \<Rightarrow> database \<Rightarrow> database" where
  "intake_lead_event lead_id event_type event_key occurred_at d =
     (if select_first (\<lambda>e. le_lead_id e = lead_id \<and> le_event_key e = event_key) (lead_events d) \<noteq> None
      then d
      else d\<lparr>lead_events := lead_events d @
        [\<lparr>le_id = next_id le_id (lead_events d), le_lead_id = lead_id, le_event_type = event_type,
          le_event_key = event_key, le_truth_basis = ''observed'', le_source_type = ''system'',
          le_source_name = ''lead-routing'', le_occurred_at = occurred_at, le_payload = []\<rparr>]\<rparr>)"

definition new_delivery ::
  "lead_policy \<Rightarrow> request_context \<Rightarrow> submit_ids \<Rightarrow> int \<Rightarrow> delivery_channel \<times> string \<times> string \<Rightarrow>
   provider_delivery" where
  "new_delivery policy context ids assignment_id c =
     (case c of (channel, destination, adapter_name) \<Rightarrow>
       \<lparr>pd_id = si_delivery_id ids channel, pd_lead_id = si_lead_id ids,
         pd_provider_assignment_id = assignment_id,
         pd_delivery_key = si_lead_id ids @ '':'' @ py_str_int assignment_id @ '':'' @
           delivery_channel_value channel,
         pd_channel = channel, pd_destination_reference = masked_destination destination,
         pd_adapter_name = adapter_name, pd_provider_message_id = None, pd_status = DS_pending,
         pd_attempt_count = 0, pd_max_attempts = lp_maximum_delivery_attempts policy,
         pd_next_attempt_at = Some (rc_received_at context), pd_worker_id = None,
         pd_lease_token = None, pd_claimed_at = None, pd_heartbeat_at = None,
         pd_lease_expires_at = None, pd_last_error_code = None, pd_last_error_summary = None,
         pd_delivered_at = None, pd_completed_at = None\<rparr>)"

definition subject_hash :: "'l intake \<Rightarrow> lead_form \<Rightarrow> string" where
  "subject_hash env form = subject_fingerprint (in_hmac env) (lf_email form) (lf_phone form)
     (lp_pii_hash_pepper (in_policy env))"

definition dedupe_hash :: "'l intake \<Rightarrow> lead_form \<Rightarrow> string" where
  "dedupe_hash env form = in_hmac env (lf_property_id form @ ''|'' @ subject_hash env form)
     (lp_pii_hash_pepper (in_policy env))"

definition request_fingerprint :: "'l intake \<Rightarrow> lead_form \<Rightarrow> request_context \<Rightarrow> string" where
  "request_fingerprint env form context =
     in_hmac env (lf_property_id form @ ''|'' @
       (case str_or (rc_remote_address context) (Some ''unknown'') of Some a \<Rightarrow> a | None \<Rightarrow> []))
       (lp_pii_hash_pepper (in_policy env))"

definition new_lead ::
  "'l intake \<Rightarrow> lead_form \<Rightarrow> request_context \<Rightarrow> submit_ids \<Rightarrow> routing_profile \<Rightarrow>
   provider_assignment option \<Rightarrow> lead_status \<Rightarrow> lead" where
  "new_lead env form context ids profile assignment status =
     \<lparr>ld_id = si_lead_id ids, ld_property_id = lf_property_id form,
       ld_opportunity_id = rp_opportunity_id profile,
       ld_provider_assignment_id = map_option pa_id assignment, ld_channel = LC_form,
       ld_status = status, ld_name = lf_name form, ld_email = lf_email form,
       ld_phone = lf_phone form, ld_postal_code = lf_postal_code form,
       ld_message = lf_message form, ld_idempotency_key = lf_idempotency_key form,
       ld_dedupe_hash = dedupe_hash env form, ld_subject_hash = subject_hash env form,
       ld_received_at = rc_received_at context, ld_pii_deleted_at = None,
       ld_retention_expires_at =
         rc_received_at context + timedelta_days (lp_retention_days (in_policy env))\<rparr>"

text \<open>The rows one accepted submission adds, in one transaction.\<close>

definition store_submission ::
  "'l intake \<Rightarrow> lead_form \<Rightarrow> request_context \<Rightarrow> submit_ids \<Rightarrow> routing_profile \<Rightarrow>
   provider_assignment option \<Rightarrow> spam_result \<Rightarrow> database \<Rightarrow> database" where
  "store_submission env form context ids profile assignment assessment d =
     (let policy = in_policy env;
          channels = routable_channels (in_adapters env) assignment;
          status = submission_status assessment assignment channels;
          d1 = d\<lparr>leads := leads d @ [new_lead env form context ids profile assignment status],
                 consent_records := consent_records d @
                   [\<lparr>cr_id = next_id cr_id (consent_records d), cr_lead_id = si_lead_id ids,
                      cr_consent_granted = lf_consent_accepted form,
                      cr_consent_text = lp_consent_text policy,
                      cr_consent_text_version = lp_consent_text_version policy,
                      cr_referral_disclosure_acknowledged = lf_referral_disclosure_acknowledged form,
                      cr_referral_disclosure_text = lp_referral_disclosure_text policy,
                      cr_referral_disclosure_version = lp_referral_disclosure_version policy,
                      cr_captured_at = rc_received_at context,
                      cr_request_fingerprint = request_fingerprint env form context,
                      cr_proof_metadata = [(''request_id'', JStr (rc_request_id context))]\<rparr>],
                 spam_assessments := spam_assessments d @
                   [\<lparr>sa_id = next_id sa_id (spam_assessments d), sa_lead_id = si_lead_id ids,
                      sa_score = sm_score assessment, sa_disposition = sm_disposition assessment,
                      sa_signals = sm_signals assessment,
                      sa_assessor_version = sm_assessor_version assessment\<rparr>]\<rparr>;
          d2 = intake_lead_event (si_lead_id ids) ''form_submit'' (''form:'' @ lf_idempotency_key form)
                 (rc_received_at context) d1
      in if status = LS_routing
         then (case assignment of
                 None \<Rightarrow> d2
               | Some a \<Rightarrow> d2\<lparr>provider_deliveries := provider_deliveries d2 @
                   map (new_delivery policy context ids (pa_id a)) channels\<rparr>)
         else d2)"

definition find_duplicate :: "'l intake \<Rightarrow> database \<Rightarrow> lead_form \<Rightarrow> request_context \<Rightarrow> lead option" where
  "find_duplicate env d form context =
     (let cutoff = rc_received_at context - timedelta_minutes (lp_dedupe_window_minutes (in_policy env))
      in select_first (\<lambda>l. ld_property_id l = lf_property_id form \<and>
           ld_dedupe_hash l = dedupe_hash env form \<and> cutoff \<le> ld_received_at l \<and>
           ld_pii_deleted_at l = None) (leads d))"

type_synonym operator_alert = "string \<times> string \<times> string"

text \<open>
  \<open>submit\<close> reads from \<open>seen\<close>, what the session's selects returned, and writes to \<open>d\<close>,
  the committed database at the time of its flush: they differ when another submission
  commits in between, and the unique constraints then raise the \<open>IntegrityError\<close> that
  \<open>_idempotency_winner\<close> handles. The limiter keeps its state in memory, whatever becomes
  of the transaction. The second component of a result is the operator alert, if any.
  \<open>commit_submission\<close> is the part from the spam assessment on; \<open>ids_clash\<close> says that a
  generated identifier violates a primary key.
\<close>

definition ids_clash ::
  "database \<Rightarrow> submit_ids \<Rightarrow> lead_status \<Rightarrow> (delivery_channel \<times> string \<times> string) list \<Rightarrow> bool" where
  "ids_clash d ids status channels \<longleftrightarrow>
     tget ld_id (si_lead_id ids) (leads d) \<noteq> None \<or>
     status = LS_routing \<and>
       (\<not> distinct (map (\<lambda>c. si_delivery_id ids (fst c)) channels) \<or>
        list_ex (\<lambda>c. tget pd_id (si_delivery_id ids (fst c)) (provider_deliveries d) \<noteq> None) channels)"

definition commit_submission ::
  "'l intake \<Rightarrow> database \<Rightarrow> database \<Rightarrow> lead_form \<Rightarrow> request_context \<Rightarrow> submit_ids \<Rightarrow>
   routing_profile \<Rightarrow>
   (routing_error + lead_submission_result \<times> operator_alert option) \<times> database" where
  "commit_submission env seen d form context ids profile =
     (let assessment = in_assess env form context;
          assignment = active_assignment seen (lf_property_id form);
          channels = routable_channels (in_adapters env) assignment;
          status = submission_status assessment assignment channels
      in case find_lead d (lf_property_id form) (lf_idempotency_key form) of
           Some winner \<Rightarrow> (Inr (replay_result d winner, None), d)
         | None \<Rightarrow>
             if ids_clash d ids status channels
             then (Inl RoutingIntegrityError, d)
             else (let d' = store_submission env form context ids profile assignment assessment d
                   in (Inr (\<lparr>lr_lead_id = si_lead_id ids, lr_status = status,
                              lr_idempotent_replay = False, lr_duplicate = False,
                              lr_delivery_ids = (if status = LS_routing
                                then delivery_ids d' (si_lead_id ids) else [])\<rparr>,
                            if status = LS_delivery_failed
                            then Some (lf_property_id form, si_lead_id ids,
                              if assignment = None then ''no_active_provider''
                              else ''no_configured_delivery_channel'')
                            else None), d')))"

definition submit ::
  "'l intake \<Rightarrow> database \<Rightarrow> database \<Rightarrow> 'l \<Rightarrow> lead_form \<Rightarrow> request_context \<Rightarrow> submit_ids \<Rightarrow>
   (routing_error + lead_submission_result \<times> operator_alert option) \<times> database \<times> 'l" where
  "submit env seen d limiter form context ids =
     (case find_lead seen (lf_property_id form) (lf_idempotency_key form) of
        Some l \<Rightarrow> (Inr (replay_result seen l, None), d, limiter)
      | None \<Rightarrow>
     (case select_first (\<lambda>p. rp_property_id p = lf_property_id form \<and> rp_active p)
             (routing_profiles seen) of
        None \<Rightarrow> (Inl (LeadRoutingError ''routing_profile_not_found''), d, limiter)
      | Some profile \<Rightarrow>
     if lf_consent_text_version form \<noteq> lp_consent_text_version (in_policy env)
     then (Inl (LeadRoutingError ''stale_consent_text_version''), d, limiter)
     else if lf_referral_disclosure_version form \<noteq> lp_referral_disclosure_version (in_policy env)
     then (Inl (LeadRoutingError ''stale_referral_disclosure_version''), d, limiter)
     else (case in_allow env limiter (request_fingerprint env form context)
                  (lp_rate_limit_count (in_policy env)) (lp_rate_limit_window_seconds (in_policy env)) of
        (allowed, limiter') \<Rightarrow>
     if \<not> allowed then (Inl (RateLimitExceeded ''lead_rate_limit_exceeded''), d, limiter')
     else (case find_duplicate env seen form context of
        Some l \<Rightarrow> (Inr (\<lparr>lr_lead_id = ld_id l, lr_status = ld_status l, lr_idempotent_replay = False,
                     lr_duplicate = True, lr_delivery_ids = delivery_ids seen (ld_id l)\<rparr>, None), d, limiter')
      | None \<Rightarrow> (case commit_submission env seen d form context ids profile of
                   (result, d') \<Rightarrow> (result, d', limiter'))))))"

text \<open>The context that is logged for a request.\<close>

definition request_log_context :: "lead_form \<Rightarrow> request_context \<Rightarrow> json" where
  "request_log_context form context =
     redact_pii (JObj [(''property_id'', JStr (lf_property_id form)),
       (''idempotency_key'', JStr (lf_idempotency_key form)),
       (''request_id'', JStr (rc_request_id context)),
       (''remote_address'', opt_str (rc_remote_address context)),
       (''email'', opt_str (lf_email form)), (''phone'', opt_str (lf_phone form))])"

section \<open>Analytics\<close>

record analytics_input =
  ai_property_id :: string
  ai_event_type :: analytics_event_type
  ai_source_type :: analytics_source_type
  ai_source_name :: string
  ai_source_event_id :: string
  ai_truth_basis :: truth_basis
  ai_lead_id :: "string option"
  ai_occurred_at :: instant
  ai_value_usd :: "rat option"
  ai_payload :: jobj

definition validate_analytics :: "analytics_input \<Rightarrow> bool" where
  "validate_analytics e \<longleftrightarrow>
     len_between 1 120 (ai_property_id e) \<and> len_between 1 120 (ai_source_name e) \<and>
     len_between 1 160 (ai_source_event_id e) \<and>
     (case ai_value_usd e of None \<Rightarrow> True | Some v \<Rightarrow> 0 \<le> v) \<and>
     (ai_truth_basis e = TB_provider_reported \<longrightarrow> ai_source_type e = AS_provider) \<and>
     (ai_truth_basis e = TB_operator_verified \<longrightarrow> ai_source_type e = AS_operator) \<and>
     (ai_event_type e = AE_revenue \<longrightarrow> ai_value_usd e \<noteq> None)"

definition OUTCOME_EVENT_TYPES :: "analytics_event_type list" where
  "OUTCOME_EVENT_TYPES =
     [AE_qualified_lead, AE_provider_acceptance, AE_appointment, AE_won_job, AE_lost_job, AE_revenue]"

definition new_analytics_event :: "database \<Rightarrow> analytics_input \<Rightarrow> analytics_event" where
  "new_analytics_event d e =
     \<lparr>ae_id = next_id ae_id (analytics_events d), ae_property_id = ai_property_id e,
       ae_lead_id = ai_lead_id e, ae_event_type = ai_event_type e,
       ae_truth_basis = ai_truth_basis e, ae_source_type = ai_source_type e,
       ae_source_name = ai_source_name e, ae_source_event_id = ai_source_event_id e,
       ae_occurred_at = ai_occurred_at e, ae_value_usd = ai_value_usd e,
       ae_payload = redact_items (ai_payload e)\<rparr>"

definition find_analytics :: "database \<Rightarrow> analytics_input \<Rightarrow> analytics_event option" where
  "find_analytics d e =
     select_first (\<lambda>r. ae_source_name r = ai_source_name e \<and>
       ae_source_event_id r = ai_source_event_id e) (analytics_events d)"

definition mirrored_outcomes :: "database \<Rightarrow> analytics_input \<Rightarrow> lead_outcome list" where
  "mirrored_outcomes d e =
     (case ai_lead_id e of
        None \<Rightarrow> []
      | Some lead_id \<Rightarrow>
          if ai_event_type e \<in> set OUTCOME_EVENT_TYPES
          then [\<lparr>lo_id = next_id lo_id (lead_outcomes d), lo_lead_id = lead_id,
                  lo_outcome_type = ai_event_type e, lo_truth_basis = ai_truth_basis e,
                  lo_source_type = ai_source_type e, lo_source_name = ai_source_name e,
                  lo_source_event_id = ai_source_event_id e, lo_occurred_at = ai_occurred_at e,
                  lo_value_usd = ai_value_usd e, lo_notes = None\<rparr>]
          else [])"

text \<open>\<open>AnalyticsService.record\<close>, after the event was built (and so validated).\<close>

definition record_analytics ::
  "database \<Rightarrow> analytics_input \<Rightarrow> routing_error + (analytics_event \<times> database)" where
  "record_analytics d e =
     guarded [raise_if (\<not> validate_analytics e) (RoutingValidationError ''analytics_event'')]
     (case find_analytics d e of
        Some existing \<Rightarrow> Inr (existing, d)
      | None \<Rightarrow>
          guarded [
            raise_if (case ai_lead_id e of
                None \<Rightarrow> False
              | Some i \<Rightarrow> (case tget ld_id i (leads d) of
                    None \<Rightarrow> True | Some l \<Rightarrow> ld_property_id l \<noteq> ai_property_id e))
              (LeadRoutingError ''analytics_lead_property_mismatch'')]
          (Inr (new_analytics_event d e,
             d\<lparr>analytics_events := analytics_events d @ [new_analytics_event d e],
               lead_outcomes := lead_outcomes d @ mirrored_outcomes d e\<rparr>)))"

section \<open>Redaction and masking\<close>

fun redacted :: "json \<Rightarrow> bool"
  and redacted_items :: "jobj \<Rightarrow> bool"
  and redacted_list :: "json list \<Rightarrow> bool" where
  "redacted (JObj items) = redacted_items items"
| "redacted (JList xs) = redacted_list xs"
| "redacted v = True"
| "redacted_items [] = True"
| "redacted_items ((k, v) # items) \<longleftrightarrow>
     (if py_lower k \<in> set SENSITIVE_KEYS then v = JStr ''<redacted>'' else redacted v) \<and>
     redacted_items items"
| "redacted_list [] = True"
| "redacted_list (x # xs) \<longleftrightarrow> redacted x \<and> redacted_list xs"

lemma redact_pii_redacted:
  "redacted (redact_pii v)" "redacted_items (redact_items items)" "redacted_list (redact_list xs)"
  by (induction v and items and xs rule: redact_pii_redact_items_redact_list.induct) auto

lemma redacted_fixpoint:
  "redacted v \<Longrightarrow> redact_pii v = v" "redacted_items items \<Longrightarrow> redact_items items = items"
  "redacted_list xs \<Longrightarrow> redact_list xs = xs"
  by (induction v and items and xs rule: redacted_redacted_items_redacted_list.induct)
    (auto split: if_splits)

lemma redact_items_keys: "map fst (redact_items items) = map fst items"
  by (induction items) auto

text \<open>
  redaction. At every depth of a redacted payload each sensitive key holds the
  placeholder, redacting again changes nothing, the keys are kept, and the logged context of
  a request is redacted.
\<close>

theorem redaction_complete:
  "redacted (redact_pii v) \<and> redact_pii (redact_pii v) = redact_pii v \<and>
   map fst (redact_items items) = map fst items \<and> redacted (request_log_context form context)"
proof -
  have "redacted (request_log_context form context)"
    unfolding request_log_context_def by (rule redact_pii_redacted)
  then show ?thesis
    by (simp add: redact_pii_redacted redact_items_keys redacted_fixpoint)
qed

section \<open>Rate limiting\<close>

text \<open>The requests under one key, with the times at which they were allowed.\<close>

fun allowed_times :: "limiter \<Rightarrow> string \<Rightarrow> int \<Rightarrow> int \<Rightarrow> instant list \<Rightarrow> instant list" where
  "allowed_times store key limit window [] = []"
| "allowed_times store key limit window (t # ts) =
     (case limiter_allow t store key limit window of
        (ok, store') \<Rightarrow> (if ok then [t] else []) @ allowed_times store' key limit window ts)"

lemma dropWhile_sorted_filter:
  fixes xs :: "instant list"
  shows "sorted xs \<Longrightarrow> dropWhile (\<lambda>t. t < c) xs = filter (\<lambda>t. c \<le> t) xs"
  by (induction xs) (auto intro!: filter_True [symmetric])

lemma length_filter_mono:
  "(\<And>x. x \<in> set xs \<Longrightarrow> P x \<Longrightarrow> Q x) \<Longrightarrow> length (filter P xs) \<le> length (filter Q xs)"
  by (induction xs) (auto intro: le_SucI)

text \<open>
  The bound at every allowed request, with the history before: \<open>past\<close> is what was allowed,
  the store keeps the part of it after a cutoff \<open>c\<close>.
\<close>

lemma allowed_prefix_bound:
  assumes "sorted (past @ ts)" "0 \<le> window" "store key = filter (\<lambda>x. c \<le> x) past"
    and "\<And>t. t \<in> set ts \<Longrightarrow> c \<le> t - window * 1000000"
    and "allowed_times store key limit window ts = xs @ t # ys"
  shows "int (length (filter (\<lambda>x. t - window * 1000000 \<le> x) (past @ xs @ [t]))) \<le> limit"
  using assms
proof (induction ts arbitrary: past store c xs)
  case Nil
  then show ?case by simp
next
  case (Cons u ts)
  let ?W = "window * 1000000"
  let ?live = "filter (\<lambda>x. u - ?W \<le> x) past"
  have W: "0 \<le> ?W" using Cons.prems(2) by simp
  have srt: "sorted past" "sorted (past @ ts)" "\<forall>x \<in> set ts. u \<le> x" "\<forall>x \<in> set past. x \<le> u"
    using Cons.prems(1) by (auto simp: sorted_append)
  have "dropWhile (\<lambda>x. x < u - ?W) (store key) = filter (\<lambda>x. u - ?W \<le> x) (store key)"
    unfolding Cons.prems(3) by (rule dropWhile_sorted_filter) (simp add: sorted_wrt_filter srt)
  also have "\<dots> = ?live"
    unfolding Cons.prems(3) using Cons.prems(4) [of u] by (auto intro!: filter_cong)
  finally have live: "dropWhile (\<lambda>x. x < u - ?W) (store key) = ?live" .
  have later: "u - ?W \<le> x - ?W" if "x \<in> set ts" for x using srt(3) that by simp
  show ?case
  proof (cases "limit \<le> int (length ?live)")
    case True
    then have "allowed_times store key limit window (u # ts) =
        allowed_times (store(key := ?live)) key limit window ts"
      by (simp add: limiter_allow_def Let_def live)
    with Cons.prems(5) show ?thesis
      by (intro Cons.IH [OF srt(2) Cons.prems(2) _ later]) auto
  next
    case False
    let ?store = "store(key := ?live @ [u])"
    have A: "u # allowed_times ?store key limit window ts = xs @ t # ys"
      using False Cons.prems(5) by (simp add: limiter_allow_def Let_def live)
    show ?thesis
    proof (cases xs)
      case Nil
      with A have "t = u" by simp
      with Nil False W show ?thesis by simp
    next
      case (Cons x xs')
      with A have xs: "x = u" "allowed_times ?store key limit window ts = xs' @ t # ys" by auto
      have "sorted ((past @ [u]) @ ts)" using Cons.prems(1) by simp
      moreover have "?store key = filter (\<lambda>x. u - ?W \<le> x) (past @ [u])" using W by simp
      ultimately have "int (length (filter (\<lambda>x. t - ?W \<le> x) ((past @ [u]) @ xs' @ [t]))) \<le> limit"
        by (rule Cons.IH [OF _ Cons.prems(2) _ later xs(2)])
      then show ?thesis by (simp only: Cons xs(1) append_assoc append_Cons append_Nil)
    qed
  qed
qed

lemma allowed_times_subset: "set (allowed_times store key limit window ts) \<subseteq> set ts"
  by (induction ts arbitrary: store) (auto split: prod.splits if_splits)

text \<open>
  sliding-window rate limit. When the clock does not run backwards, the in-memory limiter
  allows at most \<open>limit\<close> requests of a key in any closed interval as long as its window.
\<close>

theorem rate_limiter_window:
  assumes "sorted ts" "0 \<le> window" "0 \<le> limit"
  shows "int (length (filter (\<lambda>x. a \<le> x \<and> x \<le> a + window * 1000000)
    (allowed_times (\<lambda>_. []) key limit window ts))) \<le> limit"
proof -
  let ?A = "allowed_times (\<lambda>_. []) key limit window ts"
  let ?in = "\<lambda>x. a \<le> x \<and> x \<le> a + window * 1000000"
  show ?thesis
  proof (cases "\<exists>x \<in> set ?A. ?in x")
    case False
    then show ?thesis using assms(3) by (simp add: filter_empty_conv)
  next
    case True
    obtain xs t ys where A: "?A = xs @ t # ys" "?in t" "\<forall>y \<in> set ys. \<not> ?in y"
      using split_list_last_prop [OF True] by (elim exE conjE) (rule that; simp)
    obtain c where c: "\<And>u. u \<in> set ts \<Longrightarrow> c \<le> u - window * 1000000"
    proof (cases "ts = []")
      case True
      then show ?thesis using that by simp
    next
      case False
      then show ?thesis using that [of "hd ts - window * 1000000"] assms(1) by (cases ts) auto
    qed
    have "filter ?in ?A = filter ?in (xs @ [t])"
      unfolding A(1) using A(3) by (simp add: filter_empty_conv)
    then have "int (length (filter ?in ?A)) \<le>
        int (length (filter (\<lambda>x. t - window * 1000000 \<le> x) ([] @ xs @ [t])))"
      unfolding append_Nil of_nat_le_iff using A(2) by (simp only:) (rule length_filter_mono, linarith)
    also have "\<dots> \<le> limit"
      by (rule allowed_prefix_bound [OF _ assms(2) _ c A(1)]) (simp_all add: assms(1))
    finally show ?thesis .
  qed
qed

theorem rate_limiter_window_witness:
  "int (length (filter (\<lambda>x. 0 \<le> x \<and> x \<le> 0 + 1 * 1000000)
     (allowed_times (\<lambda>_. []) ''k'' 2 1 [0, 10, 20, 1500000]))) \<le> 2"
  by (rule rate_limiter_window) simp_all

section \<open>Histories of submissions\<close>

text \<open>
  A submission with the raw form, the rows its session saw before the flush, and the limiter
  state; a form that does not validate never reaches \<open>submit\<close>.
\<close>

datatype 'l intake_op =
  Submission "'l intake" database 'l lead_form request_context submit_ids

fun intake_step :: "database \<Rightarrow> 'l intake_op \<Rightarrow> routing_error + database" where
  "intake_step d (Submission env seen limiter raw context ids) =
     and_then (validate_lead_form raw) (\<lambda>form.
       case submit env seen d limiter form context ids of
         (Inl e, _) \<Rightarrow> Inl e | (Inr _, d', _) \<Rightarrow> Inr d')"

lemma submit_cases:
  assumes "submit env seen d limiter form context ids = (Inr (r, al), d', limiter')"
  obtains (replay) l where
    "find_lead seen (lf_property_id form) (lf_idempotency_key form) = Some l"
    "r = replay_result seen l" "d' = d"
  | (duplicate) l where
    "find_duplicate env seen form context = Some l" "lr_lead_id r = ld_id l" "lr_duplicate r" "d' = d"
  | (winner) l where
    "find_lead d (lf_property_id form) (lf_idempotency_key form) = Some l"
    "r = replay_result d l" "d' = d"
  | (stored) profile where
    "rp_property_id profile = lf_property_id form" "rp_active profile"
    "lf_consent_text_version form = lp_consent_text_version (in_policy env)"
    "lf_referral_disclosure_version form = lp_referral_disclosure_version (in_policy env)"
    "find_lead d (lf_property_id form) (lf_idempotency_key form) = None"
    "\<not> ids_clash d ids (lr_status r)
       (routable_channels (in_adapters env) (active_assignment seen (lf_property_id form)))"
    "d' = store_submission env form context ids profile
       (active_assignment seen (lf_property_id form)) (in_assess env form context) d"
    "lr_lead_id r = si_lead_id ids" "\<not> lr_duplicate r" "\<not> lr_idempotent_replay r"
    "lr_status r = submission_status (in_assess env form context)
       (active_assignment seen (lf_property_id form))
       (routable_channels (in_adapters env) (active_assignment seen (lf_property_id form)))"
proof (cases "find_lead seen (lf_property_id form) (lf_idempotency_key form)")
  case (Some l)
  then have "r = replay_result seen l" "d' = d" using assms by (simp_all add: submit_def)
  with Some show ?thesis by (rule replay)
next
  case None
  with assms obtain profile where
    p: "select_first (\<lambda>p. rp_property_id p = lf_property_id form \<and> rp_active p)
      (routing_profiles seen) = Some profile"
    by (auto simp: submit_def split: option.splits)
  obtain allowed limiter2 where a: "in_allow env limiter (request_fingerprint env form context)
      (lp_rate_limit_count (in_policy env)) (lp_rate_limit_window_seconds (in_policy env)) =
      (allowed, limiter2)" by (rule prod.exhaust)
  have versions: "lf_consent_text_version form = lp_consent_text_version (in_policy env)"
    "lf_referral_disclosure_version form = lp_referral_disclosure_version (in_policy env)" "allowed"
    using assms None p a by (simp_all add: submit_def split: if_splits)
  note submit = assms [unfolded submit_def None p a option.case prod.case if_False]
  show ?thesis
  proof (cases "find_duplicate env seen form context")
    case (Some l)
    with submit versions have "lr_lead_id r = ld_id l" "lr_duplicate r" "d' = d" by auto
    with Some show ?thesis by (rule duplicate)
  next
    case None
    with submit versions have
      c: "commit_submission env seen d form context ids profile = (Inr (r, al), d')"
      by (simp split: prod.splits)
    show ?thesis
    proof (cases "find_lead d (lf_property_id form) (lf_idempotency_key form)")
      case (Some l)
      with c have "r = replay_result d l" "d' = d" by (auto simp: commit_submission_def)
      with Some show ?thesis by (rule winner)
    next
      case None
      from select_first_Some [OF p] have "rp_property_id profile = lf_property_id form"
        "rp_active profile" by simp_all
      then show ?thesis
        by (rule stored [OF _ _ versions(1,2) None])
          (use c None in \<open>auto simp: commit_submission_def Let_def split: if_splits\<close>)
    qed
  qed
qed

lemma intake_event_frame [simp]:
  "leads (intake_lead_event i t k now d) = leads d"
  "consent_records (intake_lead_event i t k now d) = consent_records d"
  "provider_deliveries (intake_lead_event i t k now d) = provider_deliveries d"
  "provider_assignments (intake_lead_event i t k now d) = provider_assignments d"
  by (simp_all add: intake_lead_event_def)

text \<open>The tables after a stored submission.\<close>

lemma store_submission_tables:
  fixes env :: "'l intake" and form and cx and ids and profile and assignment and assessment and d
  defines "channels \<equiv> routable_channels (in_adapters env) assignment"
  defines "status \<equiv> submission_status assessment assignment channels"
  defines "d' \<equiv> store_submission env form cx ids profile assignment assessment d"
  shows "leads d' = leads d @ [new_lead env form cx ids profile assignment status]"
    and "\<exists>c. consent_records d' = consent_records d @ [c] \<and> cr_lead_id c = si_lead_id ids \<and>
      cr_consent_granted c = lf_consent_accepted form \<and>
      cr_referral_disclosure_acknowledged c = lf_referral_disclosure_acknowledged form \<and>
      cr_consent_text c = lp_consent_text (in_policy env) \<and>
      cr_consent_text_version c = lp_consent_text_version (in_policy env)"
    and "provider_deliveries d' = provider_deliveries d @
      (if status = LS_routing
       then map (new_delivery (in_policy env) cx ids (pa_id (the assignment))) channels else [])"
    and "provider_assignments d' = provider_assignments d"
  unfolding d'_def status_def channels_def
  by (simp_all add: store_submission_def Let_def split: option.splits)
    (auto simp: submission_status_def)

lemma select_first_append:
  "select_first P (xs @ ys) =
   (case select_first P xs of None \<Rightarrow> select_first P ys | Some r \<Rightarrow> Some r)"
  by (induction xs) (auto simp: select_first_def)

lemma find_lead_None:
  "find_lead d p k = None \<longleftrightarrow> (p, k) \<notin> (\<lambda>l. (ld_property_id l, ld_idempotency_key l)) ` set (leads d)"
  by (auto simp: find_lead_def select_first_None image_iff)

lemma find_lead_append:
  "leads d' = leads d @ ls \<Longrightarrow> find_lead d p k = Some l \<Longrightarrow> find_lead d' p k = Some l"
  by (simp add: find_lead_def select_first_append)

definition lead_consented :: "database \<Rightarrow> lead \<Rightarrow> bool" where
  "lead_consented d l \<longleftrightarrow> (\<exists>c \<in> set (consent_records d). cr_lead_id c = ld_id l \<and>
     cr_consent_granted c \<and> cr_referral_disclosure_acknowledged c)"

definition delivery_bound :: "database \<Rightarrow> provider_delivery \<Rightarrow> bool" where
  "delivery_bound d r \<longleftrightarrow> (\<exists>l \<in> set (leads d). ld_id l = pd_lead_id r \<and>
     ld_provider_assignment_id l = Some (pd_provider_assignment_id r))"

definition intake_ok :: "database \<Rightarrow> bool" where
  "intake_ok d \<longleftrightarrow>
     keys_distinct (\<lambda>l. (ld_property_id l, ld_idempotency_key l)) (leads d) \<and>
     keys_distinct ld_id (leads d) \<and> (\<forall>l \<in> set (leads d). lead_consented d l) \<and>
     (\<forall>r \<in> set (provider_deliveries d). delivery_bound d r)"

lemma validated_consent:
  "validate_lead_form raw = Inr form \<Longrightarrow>
   lf_consent_accepted form \<and> lf_referral_disclosure_acknowledged form"
  by (auto simp: validate_lead_form_def)

lemma store_submission_ok:
  assumes ok: "intake_ok d" and fresh: "tget ld_id (si_lead_id ids) (leads d) = None"
    "find_lead d (lf_property_id form) (lf_idempotency_key form) = None"
    and consent: "lf_consent_accepted form" "lf_referral_disclosure_acknowledged form"
  shows "intake_ok (store_submission env form context ids profile assignment assessment d)"
proof -
  let ?d = "store_submission env form context ids profile assignment assessment d"
  let ?ch = "routable_channels (in_adapters env) assignment"
  let ?st = "submission_status assessment assignment ?ch"
  let ?new = "new_lead env form context ids profile assignment ?st"
  note tables = store_submission_tables [of env form "context" ids profile assignment assessment d]
  have "lead_consented ?d l" if "l \<in> set (leads ?d)" for l
    using that ok tables(1,2) consent
    by (auto simp: lead_consented_def intake_ok_def new_lead_def)
  moreover have "delivery_bound ?d r" if r: "r \<in> set (provider_deliveries ?d)" for r
  proof (cases "r \<in> set (provider_deliveries d)")
    case True
    with ok tables(1) show ?thesis by (auto simp: intake_ok_def delivery_bound_def)
  next
    case False
    with r tables(3) have st: "?st = LS_routing"
      and "r \<in> set (map (new_delivery (in_policy env) context ids (pa_id (the assignment))) ?ch)"
      by (auto split: if_splits)
    then have "pd_lead_id r = ld_id ?new" "pd_provider_assignment_id r = pa_id (the assignment)"
      by (auto simp: new_delivery_def new_lead_def)
    moreover from st have "ld_provider_assignment_id ?new = Some (pa_id (the assignment))"
      by (cases assignment) (auto simp: new_lead_def submission_status_def split: if_splits)
    ultimately show ?thesis using tables(1) by (auto simp: delivery_bound_def)
  qed
  ultimately show ?thesis
    using ok fresh tables(1)
    by (auto simp: intake_ok_def keys_distinct_append find_lead_None tget_None_iff new_lead_def)
qed

lemma intake_step_Inr:
  assumes "intake_step d (Submission env seen limiter raw context ids) = Inr d'"
  obtains form r al limiter' where "validate_lead_form raw = Inr form"
    "submit env seen d limiter form context ids = (Inr (r, al), d', limiter')"
proof -
  from assms obtain form where form: "validate_lead_form raw = Inr form" by auto
  obtain res d1 l1 where res: "submit env seen d limiter form context ids = (res, d1, l1)"
    by (cases "submit env seen d limiter form context ids") auto
  with assms form obtain r al where "res = Inr (r, al)" "d1 = d'" by (cases res) auto
  with form res that show ?thesis by blast
qed

lemma intake_step_ok:
  assumes ok: "intake_ok d" and step: "intake_step d opn = Inr d'"
  shows "intake_ok d'"
proof (cases opn)
  case (Submission env seen limiter raw cx ids)
  with step obtain form r al limiter' where v: "validate_lead_form raw = Inr form"
    and s: "submit env seen d limiter form cx ids = (Inr (r, al), d', limiter')"
    by (metis intake_step_Inr)
  from s show ?thesis
  proof (cases rule: submit_cases)
    case (stored profile)
    then show ?thesis
      using ok validated_consent [OF v] by (auto simp: ids_clash_def intro: store_submission_ok)
  qed (use ok in auto)
qed

interpretation intake: request_machine intake_step intake_ok
  by unfold_locales (rule intake_step_ok)

lemma intake_step_appends:
  assumes "intake_step d opn = Inr d'"
  shows "\<exists>ls. leads d' = leads d @ ls"
proof (cases opn)
  case (Submission env seen limiter raw cx ids)
  with assms obtain form r al limiter' where
    s: "submit env seen d limiter form cx ids = (Inr (r, al), d', limiter')"
    by (metis intake_step_Inr)
  from s show ?thesis
    by (cases rule: submit_cases) (auto simp: store_submission_tables(1))
qed

lemma run_intake_appends: "\<exists>ls. leads (run_requests intake_step d ops) = leads d @ ls"
proof (induction ops arbitrary: d)
  case Nil
  then show ?case by simp
next
  case (Cons opn ops)
  show ?case
  proof (cases "intake_step d opn")
    case (Inl e)
    with Cons show ?thesis by simp
  next
    case (Inr d')
    then obtain xs where "leads d' = leads d @ xs" using intake_step_appends by blast
    moreover obtain ys where "leads (run_requests intake_step d' ops) = leads d' @ ys"
      using Cons by blast
    ultimately show ?thesis using Inr by simp
  qed
qed

section \<open>Properties of intake\<close>

text \<open>
  C6: one consented lead per request key. In every history of submissions, whatever rows
  their sessions saw before writing, each pair of property and idempotency key has at most
  one lead, every lead has a record of granted consent and acknowledged disclosure, and every
  delivery job belongs to a lead that is bound to the job's provider assignment.
\<close>

theorem leads_unique_and_consented:
  assumes "intake_ok d"
  shows "let d' = run_requests intake_step d ops in
    keys_distinct (\<lambda>l. (ld_property_id l, ld_idempotency_key l)) (leads d') \<and>
    (\<forall>l \<in> set (leads d'). \<exists>c \<in> set (consent_records d'). cr_lead_id c = ld_id l \<and>
       cr_consent_granted c \<and> cr_referral_disclosure_acknowledged c) \<and>
    (\<forall>r \<in> set (provider_deliveries d'). \<exists>l \<in> set (leads d'). ld_id l = pd_lead_id r \<and>
       ld_provider_assignment_id l = Some (pd_provider_assignment_id r))"
  using intake.run_inv [OF assms, of ops]
  by (simp add: Let_def intake_ok_def lead_consented_def delivery_bound_def)

lemma submit_finds_lead:
  assumes "submit env seen d limiter form context ids = (Inr (r, al), d', limiter')"
    and "leads d = leads seen @ ls" "\<not> lr_duplicate r"
  shows "\<exists>l. find_lead d' (lf_property_id form) (lf_idempotency_key form) = Some l \<and> ld_id l = lr_lead_id r"
  using assms(1)
proof (cases rule: submit_cases)
  case (replay l)
  with assms(2) show ?thesis by (auto simp: replay_result_def intro: find_lead_append)
next
  case (stored profile)
  then have "leads d' = leads d @ [new_lead env form context ids profile
      (active_assignment seen (lf_property_id form)) (lr_status r)]"
    by (simp add: store_submission_tables(1))
  with stored(5,8) show ?thesis
    by (simp add: find_lead_def select_first_append new_lead_def)
      (simp add: select_first_def)
qed (use assms(3) in \<open>auto simp: replay_result_def\<close>)

text \<open>
  replayed submissions. Once a submission has been answered with a lead (new or replayed,
  not a contact duplicate), every later submission with the same property and key, after any
  further submissions, is answered with the same lead, marked as a replay, and stores nothing.
\<close>

theorem submission_replay:
  assumes "submit env seen d limiter form context ids = (Inr (r, al), d', limiter')"
    and "leads d = leads seen @ ls" "\<not> lr_duplicate r"
    and "lf_property_id form2 = lf_property_id form" "lf_idempotency_key form2 = lf_idempotency_key form"
  shows "let d2 = run_requests intake_step d' ops in
    \<exists>r2. submit env2 d2 d2 limiter2 form2 context2 ids2 = (Inr (r2, None), d2, limiter2) \<and>
      lr_lead_id r2 = lr_lead_id r \<and> lr_idempotent_replay r2"
proof -
  obtain l where l: "find_lead d' (lf_property_id form) (lf_idempotency_key form) = Some l"
    "ld_id l = lr_lead_id r" using submit_finds_lead [OF assms(1-3)] by blast
  obtain ls' where "leads (run_requests intake_step d' ops) = leads d' @ ls'"
    using run_intake_appends by blast
  from find_lead_append [OF this l(1)] l(2) show ?thesis
    by (simp add: submit_def replay_result_def assms(4,5))
qed

lemma routable_channels_iff:
  "(c, x, n) \<in> set (routable_channels adapters (Some a)) \<longleftrightarrow>
   x \<noteq> [] \<and> adapters c = Some n \<and>
   (case c of DC_email \<Rightarrow> pa_destination_email a | DC_phone \<Rightarrow> pa_destination_phone a) = Some x"
  by (cases c) (auto simp: routable_channels_def split: option.splits if_splits)

lemma routable_channels_distinct: "distinct (map fst (routable_channels adapters assignment))"
  by (cases assignment) (auto simp: routable_channels_def split: option.splits)

text \<open>
  routing of a new lead. A stored submission adds exactly one lead. When it is neither
  blocked as spam nor without a provider it is bound to the active assignment of its
  property and gets one pending delivery job for each channel that has a destination and an
  adapter, whose destination is stored masked; otherwise no job is created.
\<close>

theorem submission_routes_lead:
  assumes "submit env seen d limiter form context ids = (Inr (r, al), d', limiter')"
    and "\<not> lr_duplicate r" "\<not> lr_idempotent_replay r"
  shows "\<exists>l. leads d' = leads d @ [l] \<and> ld_id l = lr_lead_id r \<and> ld_status l = lr_status r \<and>
    ld_received_at l = rc_received_at context \<and>
    (case lr_status r of
       LS_routing \<Rightarrow> \<exists>a new. active_assignment seen (lf_property_id form) = Some a \<and>
         ld_provider_assignment_id l = Some (pa_id a) \<and>
         sm_disposition (in_assess env form context) \<noteq> ''block'' \<and>
         provider_deliveries d' = provider_deliveries d @ new \<and> new \<noteq> [] \<and>
         distinct (map pd_channel new) \<and>
         (\<forall>p \<in> set new. pd_status p = DS_pending \<and> pd_attempt_count p = 0 \<and>
            pd_lead_id p = ld_id l \<and> pd_provider_assignment_id p = pa_id a) \<and>
         map (\<lambda>p. (pd_channel p, pd_destination_reference p, pd_adapter_name p)) new =
         map (\<lambda>(c, x, n). (c, masked_destination x, n)) (routable_channels (in_adapters env) (Some a))
     | LS_spam \<Rightarrow> sm_disposition (in_assess env form context) = ''block'' \<and>
         provider_deliveries d' = provider_deliveries d
     | LS_delivery_failed \<Rightarrow> provider_deliveries d' = provider_deliveries d \<and>
         routable_channels (in_adapters env) (active_assignment seen (lf_property_id form)) = []
     | _ \<Rightarrow> False)"
  using assms(1)
proof (cases rule: submit_cases)
  case (stored profile)
  let ?as = "active_assignment seen (lf_property_id form)"
  let ?ch = "routable_channels (in_adapters env) ?as"
  let ?l = "new_lead env form context ids profile ?as (lr_status r)"
  have leads: "leads d' = leads d @ [?l]"
    using stored(7,11) by (simp add: store_submission_tables(1))
  have del: "provider_deliveries d' = provider_deliveries d @
      (if lr_status r = LS_routing
       then map (new_delivery (in_policy env) context ids (pa_id (the ?as))) ?ch else [])"
    unfolding stored(7) store_submission_tables(3) stored(11) ..
  have lid: "ld_id ?l = lr_lead_id r" "ld_status ?l = lr_status r"
    "ld_received_at ?l = rc_received_at context" using stored(8) by (simp_all add: new_lead_def)
  consider (routing) a where "lr_status r = LS_routing" "?as = Some a" "?ch \<noteq> []"
      "sm_disposition (in_assess env form context) \<noteq> ''block''"
    | (spam) "lr_status r = LS_spam" "sm_disposition (in_assess env form context) = ''block''"
    | (failed) "lr_status r = LS_delivery_failed" "?ch = []"
    using stored(11) by (cases ?as) (auto simp: submission_status_def routable_channels_def split: if_splits)
  then show ?thesis
  proof cases
    case (routing a)
    let ?new = "map (new_delivery (in_policy env) context ids (pa_id a)) ?ch"
    have "map pd_channel ?new = map fst ?ch" by (auto simp: new_delivery_def)
    then have dist: "distinct (map pd_channel ?new)" by (simp only: routable_channels_distinct)
    have jobs: "\<forall>p \<in> set ?new. pd_status p = DS_pending \<and> pd_attempt_count p = 0 \<and>
        pd_lead_id p = ld_id ?l \<and> pd_provider_assignment_id p = pa_id a"
      "map (\<lambda>p. (pd_channel p, pd_destination_reference p, pd_adapter_name p)) ?new =
       map (\<lambda>(c, x, n). (c, masked_destination x, n)) ?ch"
      by (auto simp: new_delivery_def new_lead_def)
    have "ld_provider_assignment_id ?l = Some (pa_id a)" using routing(2) by (simp add: new_lead_def)
    moreover have "provider_deliveries d' = provider_deliveries d @ ?new"
      using del routing(1,2) by simp
    moreover have "?new \<noteq> []" using routing(3) by simp
    ultimately show ?thesis
      using leads lid routing(1,2,4) dist jobs unfolding routing(2) by auto
  qed (use leads lid del in auto)
qed (use assms(2,3) in \<open>auto simp: replay_result_def\<close>)

definition analytics_stored :: "database \<Rightarrow> analytics_input \<Rightarrow> analytics_event \<Rightarrow> bool" where
  "analytics_stored d e r \<longleftrightarrow> validate_analytics e \<and> find_analytics d e = Some r"

lemma record_analytics_Inr:
  assumes "record_analytics d e = Inr (r, d')"
  shows "validate_analytics e \<and>
    ((find_analytics d e = Some r \<and> d' = d) \<or>
     (find_analytics d e = None \<and> r = new_analytics_event d e \<and>
      d' = d\<lparr>analytics_events := analytics_events d @ [r],
             lead_outcomes := lead_outcomes d @ mirrored_outcomes d e\<rparr>))"
  using assms by (auto simp: record_analytics_def split: option.splits)

lemma find_analytics_append:
  "analytics_events d' = analytics_events d @ [r] \<Longrightarrow>
   find_analytics d' e = (case find_analytics d e of Some q \<Rightarrow> Some q | None \<Rightarrow>
     if ae_source_name r = ai_source_name e \<and> ae_source_event_id r = ai_source_event_id e
     then Some r else None)"
  by (simp add: find_analytics_def select_first_append) (simp add: select_first_def split: option.splits)

interpretation analytics: idempotent_store record_analytics analytics_stored
proof
  show "analytics_stored d' e r" if "record_analytics d e = Inr (r, d')" for d e r d'
    using record_analytics_Inr [OF that]
    by (auto simp: analytics_stored_def find_analytics_append new_analytics_event_def)
  show "record_analytics d e = Inr (r, d)" if "analytics_stored d e r" for d e r
    using that by (simp add: analytics_stored_def record_analytics_def guard_eval)
  show "analytics_stored d' x r" if "record_analytics d y = Inr (r', d')" "analytics_stored d x r"
    for d y r' d' x r
    using record_analytics_Inr [OF that(1)] that(2)
    by (auto simp: analytics_stored_def find_analytics_append)
qed

text \<open>
  Analytics events are idempotent. A recorded event has redacted payload and, when it is
  new, mirrors an outcome of its lead at most once; recording it again after any further
  events returns the first row and adds neither event nor outcome.
\<close>

theorem analytics_replay:
  assumes "record_analytics d e = Inr (r, d')"
  shows "(find_analytics d e = None \<longrightarrow> redacted_items (ae_payload r) \<and>
      analytics_events d' = analytics_events d @ [r] \<and>
      length (lead_outcomes d') = length (lead_outcomes d) +
        (if ai_lead_id e \<noteq> None \<and> ai_event_type e \<in> set OUTCOME_EVENT_TYPES then 1 else 0)) \<and>
    (let d2 = run_requests (\<lambda>d y. map_result snd (record_analytics d y)) d' ys
     in record_analytics d2 e = Inr (r, d2))"
  using record_analytics_Inr [OF assms] analytics.replay_after [OF assms, of ys]
  by (auto simp: Let_def new_analytics_event_def redact_pii_redacted mirrored_outcomes_def
      split: option.splits)

lemma validate_email_Inr:
  "validate_email v = Inr (Some e) \<Longrightarrow> email_pattern e \<and> (\<exists>t. v = Some t \<and> e = py_lower (py_strip t))"
  by (auto simp: validate_email_def split: option.splits if_splits)

lemma validate_phone_Inr:
  "validate_phone v = Inr (Some p) \<Longrightarrow>
   \<exists>ds. p = CHR ''+'' # ds \<and> list_all is_py_digit ds \<and> 10 \<le> length ds \<and> length ds \<le> 15"
  by (auto simp: validate_phone_def Let_def len_between_def list_all_iff split: option.splits if_splits)

text \<open>
  C37: validated forms. A form that validates has accepted consent and disclosure, an e-mail
  address of the required shape or a phone number of a plus sign and 10 to 15 digits, and
  the bounded key fields of the raw form; every other form is rejected.
\<close>

theorem validated_form_contact:
  assumes "validate_lead_form raw = Inr form"
  shows "lf_consent_accepted form \<and> lf_referral_disclosure_acknowledged form \<and>
    (lf_email form \<noteq> None \<or> lf_phone form \<noteq> None) \<and>
    (\<forall>e. lf_email form = Some e \<longrightarrow> email_pattern e) \<and>
    (\<forall>p. lf_phone form = Some p \<longrightarrow> (\<exists>ds. p = CHR ''+'' # ds \<and> list_all is_py_digit ds \<and>
       10 \<le> length ds \<and> length ds \<le> 15)) \<and>
    12 \<le> length (lf_idempotency_key form) \<and> length (lf_idempotency_key form) \<le> 128 \<and>
    list_all is_key_char (lf_idempotency_key form) \<and> lf_property_id form = lf_property_id raw"
proof -
  from assms obtain email phone where v: "form_fields_ok raw"
    "validate_email (lf_email raw) = Inr email" "validate_phone (lf_phone raw) = Inr phone"
    "\<not> (email = None \<and> phone = None)" "lf_consent_accepted raw"
    "lf_referral_disclosure_acknowledged raw"
    and f: "form = raw\<lparr>lf_name := join_words (split_words (lf_name raw)),
      lf_message := normalize_text (lf_message raw), lf_email := email, lf_phone := phone\<rparr>"
    by (auto simp: validate_lead_form_def)
  show ?thesis
    using v validate_email_Inr [of "lf_email raw"] validate_phone_Inr [of "lf_phone raw"]
    unfolding f by (auto simp: form_fields_ok_def len_between_def)
qed

section \<open>Concrete submissions\<close>

definition sample_policy :: lead_policy where
  "sample_policy = \<lparr>lp_dedupe_window_minutes = 60, lp_rate_limit_count = 5,
     lp_rate_limit_window_seconds = 300, lp_maximum_delivery_attempts = 3,
     lp_delivery_retry_base_seconds = 30, lp_delivery_retry_max_seconds = 3600,
     lp_retention_days = 365, lp_recording_enabled = False, lp_recording_retention_days = None,
     lp_consent_text = ''I consent to being contacted.'', lp_consent_text_version = ''consent-v1'',
     lp_referral_disclosure_text = ''This property may refer your request.'',
     lp_referral_disclosure_version = ''referral-v1'', lp_pii_hash_pepper = ''0123456789abcdef''\<rparr>"

definition sample_intake :: "limiter intake" where
  "sample_intake = \<lparr>in_policy = sample_policy,
     in_adapters = (\<lambda>c. Some (''fixture-'' @ delivery_channel_value c)), in_assess = local_assess,
     in_allow = limiter_allow 100, in_hmac = (\<lambda>v k. k @ v)\<rparr>"

definition sample_form :: lead_form where
  "sample_form = \<lparr>lf_property_id = ''p1'', lf_name = '' Ana  Lee '', lf_email = Some '' Ana@X.co '',
     lf_phone = None, lf_postal_code = None, lf_message = None, lf_consent_accepted = True,
     lf_consent_text_version = ''consent-v1'', lf_referral_disclosure_acknowledged = True,
     lf_referral_disclosure_version = ''referral-v1'', lf_idempotency_key = ''key-00000001'',
     lf_honeypot = []\<rparr>"

definition sample_context :: request_context where
  "sample_context = \<lparr>rc_remote_address = Some ''10.0.0.1'', rc_user_agent = None,
     rc_request_id = ''r1'', rc_received_at = 100\<rparr>"

definition sample_submit_ids :: submit_ids where
  "sample_submit_ids = \<lparr>si_lead_id = ''L1'', si_delivery_id = (\<lambda>c. ''D-'' @ delivery_channel_value c)\<rparr>"

definition sample_valid_form :: lead_form where
  "sample_valid_form = sample_form\<lparr>lf_name := ''Ana Lee'', lf_email := Some ''ana@x.co''\<rparr>"

definition sample_submission :: "limiter intake_op" where
  "sample_submission = Submission sample_intake sample_providers_db (\<lambda>_. []) sample_form
     sample_context sample_submit_ids"

definition sample_leads_db :: database where
  "sample_leads_db = run_requests intake_step sample_providers_db [sample_submission]"

lemma sample_form_valid: "validate_lead_form sample_form = Inr sample_valid_form"
  by code_simp

theorem validated_form_contact_witness:
  "lf_consent_accepted sample_valid_form \<and> email_pattern ''ana@x.co''"
proof -
  have "lf_email sample_valid_form = Some ''ana@x.co''" by (simp add: sample_valid_form_def)
  with validated_form_contact [OF sample_form_valid] show ?thesis by blast
qed

lemma sample_providers_intake_ok: "intake_ok sample_providers_db"
proof -
  have "leads sample_providers_db = []" "provider_deliveries sample_providers_db = []" by code_simp+
  then show ?thesis by (simp add: intake_ok_def keys_distinct_def)
qed

theorem leads_unique_and_consented_witness:
  "map ld_id (leads sample_leads_db) = [''L1''] \<and>
   (\<exists>c \<in> set (consent_records sample_leads_db). cr_lead_id c = ''L1'' \<and> cr_consent_granted c)"
proof -
  have ids: "map ld_id (leads sample_leads_db) = [''L1'']" by code_simp
  then obtain l where "l \<in> set (leads sample_leads_db)" "ld_id l = ''L1''" by auto
  with leads_unique_and_consented [OF sample_providers_intake_ok, of "[sample_submission]"]
  have "\<exists>c \<in> set (consent_records sample_leads_db). cr_lead_id c = ''L1'' \<and> cr_consent_granted c"
    unfolding Let_def sample_leads_db_def by metis
  with ids show ?thesis ..
qed

lemma sample_submit:
  "\<exists>r al d' limiter'. submit sample_intake sample_providers_db sample_providers_db (\<lambda>_. [])
     sample_valid_form sample_context sample_submit_ids = (Inr (r, al), d', limiter') \<and>
     \<not> lr_duplicate r \<and> \<not> lr_idempotent_replay r \<and> lr_status r = LS_routing \<and> lr_lead_id r = ''L1''"
proof -
  let ?s = "submit sample_intake sample_providers_db sample_providers_db (\<lambda>_. [])
     sample_valid_form sample_context sample_submit_ids"
  have "\<not> isl (fst ?s) \<and> \<not> lr_duplicate (fst (projr (fst ?s))) \<and>
     \<not> lr_idempotent_replay (fst (projr (fst ?s))) \<and> lr_status (fst (projr (fst ?s))) = LS_routing \<and>
     lr_lead_id (fst (projr (fst ?s))) = ''L1''"
    by code_simp
  then show ?thesis by (cases ?s; cases "fst ?s") auto
qed

theorem submission_routes_lead_witness:
  "\<exists>r al d' limiter' a. submit sample_intake sample_providers_db sample_providers_db (\<lambda>_. [])
     sample_valid_form sample_context sample_submit_ids = (Inr (r, al), d', limiter') \<and>
     active_assignment sample_providers_db ''p1'' = Some a \<and> lr_status r = LS_routing"
proof -
  obtain r al d' limiter' where s: "submit sample_intake sample_providers_db sample_providers_db (\<lambda>_. [])
     sample_valid_form sample_context sample_submit_ids = (Inr (r, al), d', limiter')"
    "\<not> lr_duplicate r" "\<not> lr_idempotent_replay r" "lr_status r = LS_routing"
    using sample_submit by blast
  have "lf_property_id sample_valid_form = ''p1''" by code_simp
  with submission_routes_lead [OF s(1-3)] s(1,4) show ?thesis by auto
qed

theorem submission_replay_witness:
  "\<exists>d' r2. submit sample_intake d' d' (\<lambda>_. []) sample_valid_form sample_context sample_submit_ids =
     (Inr (r2, None), d', (\<lambda>_. [])) \<and> lr_lead_id r2 = ''L1'' \<and> lr_idempotent_replay r2"
proof -
  obtain r al d' limiter' where s: "submit sample_intake sample_providers_db sample_providers_db (\<lambda>_. [])
     sample_valid_form sample_context sample_submit_ids = (Inr (r, al), d', limiter')"
    "\<not> lr_duplicate r" and id: "lr_lead_id r = ''L1''" using sample_submit by blast
  have "leads sample_providers_db = leads sample_providers_db @ []" by simp
  from submission_replay [OF s(1) this s(2) refl refl, where ops = "[]" and ?env2.0 = sample_intake
      and ?limiter2.0 = "\<lambda>_. []" and ?context2.0 = sample_context and ?ids2.0 = sample_submit_ids]
  show ?thesis unfolding Let_def run_requests.simps id by blast
qed

definition sample_event :: analytics_input where
  "sample_event = \<lparr>ai_property_id = ''p1'', ai_event_type = AE_revenue, ai_source_type = AS_provider,
     ai_source_name = ''crm'', ai_source_event_id = ''e1'', ai_truth_basis = TB_provider_reported,
     ai_lead_id = Some ''L1'', ai_occurred_at = 200, ai_value_usd = Some 120,
     ai_payload = [(''Email'', JStr ''ana@x.co'')]\<rparr>"

theorem analytics_replay_witness:
  "\<exists>r d'. record_analytics sample_leads_db sample_event = Inr (r, d') \<and>
     record_analytics d' sample_event = Inr (r, d')"
proof -
  have "\<exists>r d'. record_analytics sample_leads_db sample_event = Inr (r, d')"
    by (rule not_isl_Inr_pair) code_simp
  then obtain r d' where r: "record_analytics sample_leads_db sample_event = Inr (r, d')" by blast
  from analytics_replay [OF r, of "[]"] r show ?thesis by auto
qed

section \<open>Behaviours worth knowing\<close>

text \<open>
  A name of white space only satisfies the length constraint, which is checked on the raw
  value, and is stored as the empty string.
\<close>

lemma blank_name_accepted:
  "map_result lf_name (validate_lead_form (sample_form\<lparr>lf_name := ''   ''\<rparr>)) = Inr []"
  by code_simp

text \<open>
  Two e-mail destinations with the same first letter and domain have the same masked
  reference, and so do two phone numbers with the same last four digits: comparing references
  does not notice such a change of destination.
\<close>

lemma masked_destination_collides:
  "masked_destination ''ann@x.co'' = masked_destination ''abe@x.co''"
  "masked_destination ''+15550001234'' = masked_destination ''+19990001234''"
  by code_simp+

end
