(* ===== verification/Lead_Privacy.thy ===== *)
theory Lead_Privacy
  imports Lead_Intake
begin

text \<open>
  \<open>LeadPrivacyService\<close> of \<open>lead_routing/privacy.py\<close>: export of a lead under access control,
  deletion by anonymization, and retention. Deletion cancels the lead's unfinished delivery
  jobs, so the delivery worker of \<open>Lead_Delivery\<close> cannot send them.
\<close>

datatype lead_access_role = LA_operator | LA_privacy_admin | LA_provider | LA_analytics

record access_context =
  ax_actor_id :: string
  ax_role :: lead_access_role
  ax_provider_assignment_ids :: "int list"

definition authorize_lead :: "access_context \<Rightarrow> lead \<Rightarrow> routing_error option" where
  "authorize_lead access l =
     (if ax_role access \<in> set [LA_operator, LA_privacy_admin] then None
      else if ax_role access = LA_provider \<and>
        (case ld_provider_assignment_id l of
           None \<Rightarrow> False | Some i \<Rightarrow> i \<in> set (ax_provider_assignment_ids access))
      then None
      else Some (LeadAccessDenied ''lead_access_denied''))"

fun lead_status_value :: "lead_status \<Rightarrow> string" where
  "lead_status_value LS_received = ''received''"
| "lead_status_value LS_spam = ''spam''"
| "lead_status_value LS_routing = ''routing''"
| "lead_status_value LS_delivered = ''delivered''"
| "lead_status_value LS_delivery_failed = ''delivery_failed''"
| "lead_status_value LS_deleted = ''deleted''"

fun delivery_status_value :: "delivery_status \<Rightarrow> string" where
  "delivery_status_value DS_pending = ''pending''"
| "delivery_status_value DS_leased = ''leased''"
| "delivery_status_value DS_delivering = ''delivering''"
| "delivery_status_value DS_retrying = ''retrying''"
| "delivery_status_value DS_delivered = ''delivered''"
| "delivery_status_value DS_failed = ''failed''"
| "delivery_status_value DS_cancelled = ''cancelled''"
| "delivery_status_value DS_outcome_unknown = ''outcome_unknown''"

definition consent_export :: "consent_record \<Rightarrow> json" where
  "consent_export c =
     JObj [(''consent_granted'', JBool (cr_consent_granted c)),
       (''consent_text'', JStr (cr_consent_text c)),
       (''consent_text_version'', JStr (cr_consent_text_version c)),
       (''referral_disclosure_acknowledged'', JBool (cr_referral_disclosure_acknowledged c)),
       (''referral_disclosure_text'', JStr (cr_referral_disclosure_text c)),
       (''referral_disclosure_version'', JStr (cr_referral_disclosure_version c)),
       (''captured_at'', JTime (cr_captured_at c))]"

definition event_export :: "lead_event \<Rightarrow> json" where
  "event_export e =
     JObj [(''event_type'', JStr (le_event_type e)), (''truth_basis'', JStr (le_truth_basis e)),
       (''source_type'', JStr (le_source_type e)), (''occurred_at'', JTime (le_occurred_at e)),
       (''payload'', JObj (le_payload e))]"

definition delivery_export :: "provider_delivery \<Rightarrow> json" where
  "delivery_export r =
     JObj [(''channel'', JStr (delivery_channel_value (pd_channel r))),
       (''destination_reference'', JStr (pd_destination_reference r)),
       (''status'', JStr (delivery_status_value (pd_status r))),
       (''delivered_at'', opt_time (pd_delivered_at r))]"

definition lead_fields_export :: "lead \<Rightarrow> jobj" where
  "lead_fields_export l =
     [(''id'', JStr (ld_id l)), (''property_id'', JStr (ld_property_id l)),
      (''status'', JStr (lead_status_value (ld_status l))), (''name'', JStr (ld_name l)),
      (''email'', opt_str (ld_email l)), (''phone'', opt_str (ld_phone l)),
      (''postal_code'', opt_str (ld_postal_code l)), (''message'', opt_str (ld_message l)),
      (''received_at'', JTime (ld_received_at l)),
      (''pii_deleted_at'', opt_time (ld_pii_deleted_at l))]"

definition export_lead :: "database \<Rightarrow> string \<Rightarrow> access_context \<Rightarrow> routing_error + jobj" where
  "export_lead d lead_id access =
     and_then (require_some (LeadLookupError ''lead_not_found'') (tget ld_id lead_id (leads d)))
       (\<lambda>l. guarded [authorize_lead access l]
         (Inr [(''lead'', JObj (lead_fields_export l)),
           (''consent'', (case tget cr_lead_id lead_id (consent_records d) of
              None \<Rightarrow> JNull | Some c \<Rightarrow> consent_export c)),
           (''events'', JList (map event_export (sort_key le_occurred_at
              (filter (\<lambda>e. le_lead_id e = lead_id) (lead_events d))))),
           (''deliveries'', JList (map delivery_export
              (filter (\<lambda>r. pd_lead_id r = lead_id) (provider_deliveries d))))]))"

section \<open>Anonymization\<close>

definition deleted_key :: "string \<Rightarrow> string" where
  "deleted_key i = ''deleted:'' @ i"

definition anonymize_lead_row :: "instant \<Rightarrow> lead \<Rightarrow> lead" where
  "anonymize_lead_row timestamp l =
     l\<lparr>ld_name := ''[deleted]'', ld_email := None, ld_phone := None, ld_postal_code := None,
       ld_message := None, ld_idempotency_key := deleted_key (ld_id l),
       ld_dedupe_hash := deleted_key (ld_id l), ld_subject_hash := deleted_key (ld_id l),
       ld_status := LS_deleted, ld_pii_deleted_at := Some timestamp\<rparr>"

definition CANCELLABLE_STATUSES :: "delivery_status list" where
  "CANCELLABLE_STATUSES = [DS_pending, DS_leased, DS_delivering, DS_retrying]"

definition anonymize_delivery :: "instant \<Rightarrow> provider_delivery \<Rightarrow> provider_delivery" where
  "anonymize_delivery timestamp r =
     (let r1 = r\<lparr>pd_destination_reference := ''<deleted>'', pd_provider_message_id := None\<rparr>
      in if pd_status r \<in> set CANCELLABLE_STATUSES
         then r1\<lparr>pd_status := DS_cancelled, pd_next_attempt_at := None, pd_worker_id := None,
                pd_lease_token := None, pd_claimed_at := None, pd_heartbeat_at := None,
                pd_lease_expires_at := None, pd_completed_at := Some timestamp\<rparr>
         else r1)"

text \<open>The rows of one lead are rewritten; \<open>map_where\<close> is the loop over a select.\<close>

definition map_where :: "('r \<Rightarrow> bool) \<Rightarrow> ('r \<Rightarrow> 'r) \<Rightarrow> 'r list \<Rightarrow> 'r list" where
  "map_where P f rows = map (\<lambda>r. if P r then f r else r) rows"

definition anonymize :: "string \<Rightarrow> instant \<Rightarrow> database \<Rightarrow> database" where
  "anonymize lead_id timestamp d =
     d\<lparr>leads := tupd ld_id lead_id (anonymize_lead_row timestamp) (leads d),
       consent_records := tupd cr_lead_id lead_id
         (\<lambda>c. c\<lparr>cr_request_fingerprint := ''deleted'', cr_proof_metadata := []\<rparr>) (consent_records d),
       provider_deliveries := map_where (\<lambda>r. pd_lead_id r = lead_id) (anonymize_delivery timestamp)
         (provider_deliveries d),
       lead_outcomes := map_where (\<lambda>r. lo_lead_id r = lead_id)
         (\<lambda>r. r\<lparr>lo_notes := None, lo_source_event_id := deleted_key (py_str_int (lo_id r))\<rparr>)
         (lead_outcomes d),
       lead_events := map_where (\<lambda>r. le_lead_id r = lead_id)
         (\<lambda>r. r\<lparr>le_event_key := deleted_key (py_str_int (le_id r)), le_payload := []\<rparr>)
         (lead_events d),
       analytics_events := map_where (\<lambda>r. ae_lead_id r = Some lead_id)
         (\<lambda>r. r\<lparr>ae_lead_id := None, ae_source_event_id := deleted_key (py_str_int (ae_id r)),
              ae_payload := []\<rparr>)
         (analytics_events d)\<rparr>"

definition delete_lead ::
  "database \<Rightarrow> string \<Rightarrow> access_context \<Rightarrow> instant \<Rightarrow> routing_error + (bool \<times> database)" where
  "delete_lead d lead_id access now =
     guarded [raise_if (ax_role access \<notin> set [LA_operator, LA_privacy_admin])
         (LeadAccessDenied ''lead_deletion_requires_privileged_role'')]
       (case tget ld_id lead_id (leads d) of
          None \<Rightarrow> Inr (False, d)
        | Some l \<Rightarrow> Inr (True, anonymize lead_id now d))"

definition retention_expired :: "instant \<Rightarrow> lead \<Rightarrow> bool" where
  "retention_expired now l \<longleftrightarrow> ld_retention_expires_at l \<le> now \<and> ld_pii_deleted_at l = None"

definition enforce_retention :: "database \<Rightarrow> instant \<Rightarrow> string list \<times> database" where
  "enforce_retention d now =
     (let ids = map ld_id (filter (retention_expired now) (leads d))
      in (ids, fold (\<lambda>i. anonymize i now) ids d))"

section \<open>Lemmas\<close>

lemma fold_tupd:
  assumes "distinct ks" "\<And>r. key (f r) = key r"
  shows "fold (\<lambda>k. tupd key k f) ks rows = map (\<lambda>r. if key r \<in> set ks then f r else r) rows"
  using assms(1)
proof (induction ks arbitrary: rows)
  case (Cons k ks)
  then show ?case using assms(2) by (auto simp: tupd_def)
qed simp

lemma leads_fold_anonymize:
  "leads (fold (\<lambda>i. anonymize i now) ids d) =
   fold (\<lambda>i. tupd ld_id i (anonymize_lead_row now)) ids (leads d)"
  by (induction ids arbitrary: d) (simp_all add: anonymize_def)

lemma anonymize_lead_row_simps [simp]:
  "ld_id (anonymize_lead_row now l) = ld_id l"
  "ld_property_id (anonymize_lead_row now l) = ld_property_id l"
  "ld_pii_deleted_at (anonymize_lead_row now l) = Some now"
  "ld_provider_assignment_id (anonymize_lead_row now l) = ld_provider_assignment_id l"
  by (simp_all add: anonymize_lead_row_def)

lemma leads_enforce_retention:
  assumes "keys_distinct ld_id (leads d)"
  shows "leads (snd (enforce_retention d now)) =
    map (\<lambda>l. if retention_expired now l then anonymize_lead_row now l else l) (leads d)"
proof -
  let ?ids = "map ld_id (filter (retention_expired now) (leads d))"
  have "distinct ?ids" using assms by (simp add: keys_distinct_def distinct_map_filter)
  moreover have "ld_id l \<in> set ?ids \<longleftrightarrow> retention_expired now l" if "l \<in> set (leads d)" for l
    using that assms by (auto simp: keys_distinct_def distinct_map dest: inj_onD)
  ultimately show ?thesis
    by (simp add: enforce_retention_def Let_def leads_fold_anonymize fold_tupd cong: map_cong)
qed

definition pii_free :: "lead \<Rightarrow> bool" where
  "pii_free l \<longleftrightarrow> ld_name l = ''[deleted]'' \<and> ld_email l = None \<and> ld_phone l = None \<and>
     ld_postal_code l = None \<and> ld_message l = None \<and> ld_subject_hash l = deleted_key (ld_id l) \<and>
     ld_dedupe_hash l = deleted_key (ld_id l) \<and> ld_idempotency_key l = deleted_key (ld_id l) \<and>
     ld_status l = LS_deleted \<and> ld_pii_deleted_at l \<noteq> None"

lemma anonymize_pii_free [simp]: "pii_free (anonymize_lead_row now l)"
  by (simp add: pii_free_def anonymize_lead_row_def)

definition job_open :: "provider_delivery \<Rightarrow> bool" where
  "job_open r \<longleftrightarrow> pd_status r \<in> set CANCELLABLE_STATUSES"

lemma anonymize_delivery_simps [simp]:
  "pd_id (anonymize_delivery now r) = pd_id r"
  "pd_lead_id (anonymize_delivery now r) = pd_lead_id r"
  "\<not> job_open (anonymize_delivery now r)"
  "pd_destination_reference (anonymize_delivery now r) = ''<deleted>''"
  "pd_attempt_count (anonymize_delivery now r) = pd_attempt_count r"
  "pd_max_attempts (anonymize_delivery now r) = pd_max_attempts r"
  "pd_provider_assignment_id (anonymize_delivery now r) = pd_provider_assignment_id r"
  by (auto simp: anonymize_delivery_def Let_def job_open_def CANCELLABLE_STATUSES_def)

lemma set_map_where: "set (map_where P f rows) = {r \<in> set rows. \<not> P r} \<union> f ` {r \<in> set rows. P r}"
  by (auto simp: map_where_def)

lemma map_where_all:
  "(\<And>r. r \<in> set rows \<Longrightarrow> \<not> P r \<Longrightarrow> Q r) \<Longrightarrow> (\<And>r. r \<in> set rows \<Longrightarrow> P r \<Longrightarrow> Q (f r)) \<Longrightarrow>
   \<forall>r \<in> set (map_where P f rows). Q r"
  by (auto simp: map_where_def)

lemma anonymize_tables [simp]:
  "leads (anonymize i now d) = tupd ld_id i (anonymize_lead_row now) (leads d)"
  "provider_deliveries (anonymize i now d) =
     map_where (\<lambda>r. pd_lead_id r = i) (anonymize_delivery now) (provider_deliveries d)"
  "lead_events (anonymize i now d) = map_where (\<lambda>r. le_lead_id r = i)
     (\<lambda>r. r\<lparr>le_event_key := deleted_key (py_str_int (le_id r)), le_payload := []\<rparr>) (lead_events d)"
  "analytics_events (anonymize i now d) = map_where (\<lambda>r. ae_lead_id r = Some i)
     (\<lambda>r. r\<lparr>ae_lead_id := None, ae_source_event_id := deleted_key (py_str_int (ae_id r)),
          ae_payload := []\<rparr>) (analytics_events d)"
  "provider_assignments (anonymize i now d) = provider_assignments d"
  by (simp_all add: anonymize_def)

section \<open>Properties of deletion and retention\<close>

text \<open>
  deletion of a lead. Only an operator or a privacy administrator deletes a lead. After
  it, the lead's row holds no contact data and no key derived from it, its delivery jobs are
  finished and carry no destination, its events and outcomes carry no payload or source
  identifier, no analytics event refers to it, and the rows of other leads are unchanged.
\<close>

theorem delete_lead_removes_pii:
  assumes "delete_lead d lead_id access now = Inr (True, d')"
  shows "ax_role access \<in> {LA_operator, LA_privacy_admin} \<and>
    (\<exists>l. tget ld_id lead_id (leads d') = Some l \<and> pii_free l) \<and>
    (\<forall>r \<in> set (provider_deliveries d'). pd_lead_id r = lead_id \<longrightarrow>
       \<not> job_open r \<and> pd_destination_reference r = ''<deleted>'') \<and>
    (\<forall>e \<in> set (lead_events d'). le_lead_id e = lead_id \<longrightarrow> le_payload e = []) \<and>
    (\<forall>e \<in> set (analytics_events d'). ae_lead_id e \<noteq> Some lead_id) \<and>
    (\<forall>i. i \<noteq> lead_id \<longrightarrow> tget ld_id i (leads d') = tget ld_id i (leads d) \<and>
       filter (\<lambda>r. pd_lead_id r = i) (provider_deliveries d') =
       filter (\<lambda>r. pd_lead_id r = i) (provider_deliveries d))"
proof -
  from assms obtain l where l: "tget ld_id lead_id (leads d) = Some l"
    and role: "ax_role access \<in> {LA_operator, LA_privacy_admin}"
    and d': "d' = anonymize lead_id now d"
    by (auto simp: delete_lead_def split: option.splits)
  have row: "tget ld_id lead_id (leads d') = Some (anonymize_lead_row now l)"
    using l by (simp add: d' tget_tupd_if)
  have others: "filter (\<lambda>r. pd_lead_id r = i) (map_where (\<lambda>r. pd_lead_id r = lead_id)
      (anonymize_delivery now) rows) = filter (\<lambda>r. pd_lead_id r = i) rows" if "i \<noteq> lead_id" for i rows
    using that by (induction rows) (auto simp: map_where_def)
  show ?thesis
  proof (intro conjI)
    show "\<exists>l. tget ld_id lead_id (leads d') = Some l \<and> pii_free l" using row by simp
    show "\<forall>r \<in> set (provider_deliveries d'). pd_lead_id r = lead_id \<longrightarrow>
        \<not> job_open r \<and> pd_destination_reference r = ''<deleted>''"
      unfolding d' anonymize_tables by (rule map_where_all) simp_all
    show "\<forall>e \<in> set (lead_events d'). le_lead_id e = lead_id \<longrightarrow> le_payload e = []"
      unfolding d' anonymize_tables by (rule map_where_all) simp_all
    show "\<forall>e \<in> set (analytics_events d'). ae_lead_id e \<noteq> Some lead_id"
      unfolding d' anonymize_tables by (rule map_where_all) simp_all
    show "\<forall>i. i \<noteq> lead_id \<longrightarrow> tget ld_id i (leads d') = tget ld_id i (leads d) \<and>
        filter (\<lambda>r. pd_lead_id r = i) (provider_deliveries d') =
        filter (\<lambda>r. pd_lead_id r = i) (provider_deliveries d)"
      by (simp add: d' tget_tupd_if others)
  qed (fact role)
qed

text \<open>
  Retention. Enforcing retention anonymizes exactly the leads whose period has expired
  and that still hold data, returns their identifiers, leaves every other lead row unchanged,
  and is idempotent: a second run at the same instant returns nothing and changes nothing.
\<close>

theorem retention_enforced:
  assumes "keys_distinct ld_id (leads d)"
  shows "let d' = snd (enforce_retention d now) in
    fst (enforce_retention d now) = map ld_id (filter (retention_expired now) (leads d)) \<and>
    list_all2 (\<lambda>l l'. if retention_expired now l then pii_free l' \<and> ld_id l' = ld_id l else l' = l)
      (leads d) (leads d') \<and>
    (\<forall>l \<in> set (leads d'). ld_retention_expires_at l \<le> now \<longrightarrow> ld_pii_deleted_at l \<noteq> None) \<and>
    enforce_retention d' now = ([], d')"
proof -
  let ?d = "snd (enforce_retention d now)"
  have none: "\<not> retention_expired now (anonymize_lead_row now l)" for l
    by (simp add: retention_expired_def)
  have gone: "\<not> retention_expired now l" if "l \<in> set (leads ?d)" for l
    using that none unfolding leads_enforce_retention [OF assms] by (auto split: if_splits)
  then have "filter (retention_expired now) (leads ?d) = []" by (simp add: filter_empty_conv)
  then have again: "enforce_retention ?d now = ([], ?d)"
    by (simp add: enforce_retention_def [of ?d])
  have ids: "fst (enforce_retention d now) = map ld_id (filter (retention_expired now) (leads d))"
    by (simp add: enforce_retention_def Let_def)
  have rows: "list_all2 (\<lambda>l l'. if retention_expired now l then pii_free l' \<and> ld_id l' = ld_id l
      else l' = l) (leads d) (leads ?d)"
    unfolding leads_enforce_retention [OF assms] by (simp add: list_all2_map2 list_all2_same)
  have "\<forall>l \<in> set (leads ?d). ld_retention_expires_at l \<le> now \<longrightarrow> ld_pii_deleted_at l \<noteq> None"
    using gone by (auto simp: retention_expired_def)
  with again ids rows show ?thesis unfolding Let_def by blast
qed

text \<open>
  Access to leads. An export succeeds exactly when the lead exists and the caller is an
  operator, a privacy administrator, or a provider to one of whose assignments the lead is
  bound.
\<close>

theorem export_access:
  "(\<exists>x. export_lead d lead_id access = Inr x) =
   (\<exists>l. tget ld_id lead_id (leads d) = Some l \<and>
      (ax_role access \<in> {LA_operator, LA_privacy_admin} \<or>
       ax_role access = LA_provider \<and>
         (\<exists>i. ld_provider_assignment_id l = Some i \<and> i \<in> set (ax_provider_assignment_ids access))))"
  by (auto simp: export_lead_def authorize_lead_def split: option.splits if_splits)

section \<open>Concrete deletions\<close>

definition sample_operator :: access_context where
  "sample_operator = \<lparr>ax_actor_id = ''ops'', ax_role = LA_operator, ax_provider_assignment_ids = []\<rparr>"

theorem delete_lead_removes_pii_witness:
  "\<exists>d' l. delete_lead sample_leads_db ''L1'' sample_operator 500 = Inr (True, d') \<and>
     tget ld_id ''L1'' (leads d') = Some l \<and> pii_free l"
proof -
  let ?r = "delete_lead sample_leads_db ''L1'' sample_operator 500"
  have "\<not> isl ?r \<and> fst (projr ?r)" by code_simp
  then obtain d' where d': "?r = Inr (True, d')" by (cases ?r) auto
  with delete_lead_removes_pii [OF d'] show ?thesis by blast
qed

theorem retention_enforced_witness:
  "enforce_retention (snd (enforce_retention sample_leads_db (10 ^ 14))) (10 ^ 14) =
   ([], snd (enforce_retention sample_leads_db (10 ^ 14))) \<and>
   fst (enforce_retention sample_leads_db (10 ^ 14)) = [''L1'']"
proof
  have "keys_distinct ld_id (leads sample_leads_db)" by code_simp
  from retention_enforced [OF this, of "10 ^ 14"]
  show "enforce_retention (snd (enforce_retention sample_leads_db (10 ^ 14))) (10 ^ 14) =
    ([], snd (enforce_retention sample_leads_db (10 ^ 14)))"
    unfolding Let_def by blast
  show "fst (enforce_retention sample_leads_db (10 ^ 14)) = [''L1'']" by code_simp
qed

section \<open>Behaviours worth knowing\<close>

text \<open>
  Deletion rewrites the source identifier that makes analytics events idempotent: when a
  source delivers an event of a deleted lead again, it is recorded a second time, refers to
  the deleted lead, keeps its payload, and its revenue is counted twice.
\<close>

definition sample_redelivery :: "routing_error + (analytics_event \<times> database)" where
  "sample_redelivery =
     and_then (record_analytics sample_leads_db (sample_event\<lparr>ai_payload := [(''job'', JStr ''roof'')]\<rparr>))
       (\<lambda>(r, d1). and_then (delete_lead d1 ''L1'' sample_operator 500)
       (\<lambda>(b, d2). record_analytics d2 (sample_event\<lparr>ai_payload := [(''job'', JStr ''roof'')]\<rparr>)))"

lemma redelivery_after_deletion:
  "\<not> isl sample_redelivery \<and>
   map (\<lambda>r. (ae_lead_id r, ae_value_usd r, ae_payload r)) (analytics_events (snd (projr sample_redelivery))) =
     [(None, Some 120, []), (Some ''L1'', Some 120, [(''job'', JStr ''roof'')])]"
  by code_simp

text \<open>
  The key that replaces the idempotency key of a deleted lead is itself a valid idempotency
  key: a submission that uses it is answered with the deleted lead.
\<close>

lemma deleted_key_replays:
  "list_all is_key_char (deleted_key ''0b9c1d2e-0000-4000-8000-000000000000'') \<and>
   len_between 12 128 (deleted_key ''0b9c1d2e-0000-4000-8000-000000000000'')"
  by code_simp

end
