(* ===== verification/Lead_Delivery.thy ===== *)
theory Lead_Delivery
  imports Lead_Privacy
begin

text \<open>
  \<open>lead_routing/worker.py\<close>: durable workers that claim delivery jobs under a lease, validate
  them against the current assignment, call the delivery adapter, and record the result,
  retry with backoff or fail; recovery of the jobs of dead workers. The adapter's reply is an
  argument (\<open>delivery_reply\<close>); adapters appear by channel and name.
\<close>

definition CLAIMABLE_DELIVERY_STATUSES :: "delivery_status list" where
  "CLAIMABLE_DELIVERY_STATUSES = [DS_pending, DS_retrying]"

definition ACTIVE_DELIVERY_STATUSES :: "delivery_status list" where
  "ACTIVE_DELIVERY_STATUSES = [DS_leased, DS_delivering]"

definition NONTERMINAL_DELIVERY_STATUSES :: "delivery_status list" where
  "NONTERMINAL_DELIVERY_STATUSES = CLAIMABLE_DELIVERY_STATUSES @ ACTIVE_DELIVERY_STATUSES"

record delivery_lease =
  dl_delivery_id :: string
  dl_worker_id :: string
  dl_lease_token :: string

definition owns_delivery :: "provider_delivery \<Rightarrow> delivery_lease \<Rightarrow> bool" where
  "owns_delivery r lease \<longleftrightarrow> pd_status r \<in> set ACTIVE_DELIVERY_STATUSES \<and>
     pd_worker_id r = Some (dl_worker_id lease) \<and> pd_lease_token r = Some (dl_lease_token lease)"

definition clear_delivery_lease :: "provider_delivery \<Rightarrow> provider_delivery" where
  "clear_delivery_lease r =
     r\<lparr>pd_worker_id := None, pd_lease_token := None, pd_claimed_at := None,
       pd_heartbeat_at := None, pd_lease_expires_at := None\<rparr>"

definition update_delivery ::
  "string \<Rightarrow> (provider_delivery \<Rightarrow> provider_delivery) \<Rightarrow> database \<Rightarrow> database" where
  "update_delivery i f d = d\<lparr>provider_deliveries := tupd pd_id i f (provider_deliveries d)\<rparr>"

section \<open>Claiming\<close>

definition delivery_due :: "instant \<Rightarrow> provider_delivery \<Rightarrow> bool" where
  "delivery_due now r = (case pd_next_attempt_at r of None \<Rightarrow> True | Some t \<Rightarrow> t \<le> now)"

definition claimable_ids :: "database \<Rightarrow> instant \<Rightarrow> string list" where
  "claimable_ids d now =
     take 10 (map pd_id (sort_key (\<lambda>r. (null_low (pd_next_attempt_at r), pd_id r))
       (filter (\<lambda>r. pd_status r \<in> set CLAIMABLE_DELIVERY_STATUSES \<and> delivery_due now r)
         (provider_deliveries d))))"

definition claim_delivery_row ::
  "delivery_lease \<Rightarrow> rat \<Rightarrow> instant \<Rightarrow> provider_delivery \<Rightarrow> provider_delivery" where
  "claim_delivery_row lease lease_seconds now r =
     r\<lparr>pd_status := DS_leased, pd_worker_id := Some (dl_worker_id lease),
       pd_lease_token := Some (dl_lease_token lease), pd_claimed_at := Some now,
       pd_heartbeat_at := Some now,
       pd_lease_expires_at := Some (now + timedelta_seconds lease_seconds),
       pd_next_attempt_at := None\<rparr>"

text \<open>The conditional update of one candidate, with whether it matched the row.\<close>

definition try_claim_delivery ::
  "database \<Rightarrow> delivery_lease \<Rightarrow> rat \<Rightarrow> instant \<Rightarrow> bool \<times> database" where
  "try_claim_delivery d lease lease_seconds now =
     (case tget pd_id (dl_delivery_id lease) (provider_deliveries d) of
        None \<Rightarrow> (False, d)
      | Some r \<Rightarrow>
          if pd_status r \<in> set CLAIMABLE_DELIVERY_STATUSES \<and> delivery_due now r
          then (True, update_delivery (dl_delivery_id lease)
                  (claim_delivery_row lease lease_seconds now) d)
          else (False, d))"

fun claim_delivery_from ::
  "string list \<Rightarrow> database \<Rightarrow> string \<Rightarrow> (string \<Rightarrow> string) \<Rightarrow> rat \<Rightarrow> instant \<Rightarrow>
   delivery_lease option \<times> database" where
  "claim_delivery_from [] d worker_id token lease_seconds now = (None, d)"
| "claim_delivery_from (i # ids) d worker_id token lease_seconds now =
     (let lease = \<lparr>dl_delivery_id = i, dl_worker_id = worker_id, dl_lease_token = token i\<rparr>
      in case try_claim_delivery d lease lease_seconds now of
           (True, d') \<Rightarrow> (Some lease, d')
         | (False, _) \<Rightarrow> claim_delivery_from ids d worker_id token lease_seconds now)"

definition claim_next_delivery ::
  "database \<Rightarrow> string \<Rightarrow> (string \<Rightarrow> string) \<Rightarrow> rat \<Rightarrow> instant \<Rightarrow> delivery_lease option \<times> database" where
  "claim_next_delivery d worker_id token lease_seconds now =
     claim_delivery_from (claimable_ids d now) d worker_id token lease_seconds now"

definition heartbeat_delivery ::
  "database \<Rightarrow> delivery_lease \<Rightarrow> rat \<Rightarrow> instant \<Rightarrow> bool \<times> database" where
  "heartbeat_delivery d lease lease_seconds now =
     (case tget pd_id (dl_delivery_id lease) (provider_deliveries d) of
        None \<Rightarrow> (False, d)
      | Some r \<Rightarrow>
          if owns_delivery r lease
          then (True, update_delivery (dl_delivery_id lease)
                 (\<lambda>r. r\<lparr>pd_heartbeat_at := Some now,
                    pd_lease_expires_at := Some (now + timedelta_seconds lease_seconds)\<rparr>) d)
          else (False, d))"

section \<open>The lead's state\<close>

definition worker_lead_event ::
  "string \<Rightarrow> string \<Rightarrow> string \<Rightarrow> instant \<Rightarrow> database \<Rightarrow> database" where
  "worker_lead_event lead_id event_type event_key occurred_at d =
     (if select_first (\<lambda>e. le_lead_id e = lead_id \<and> le_event_key e = event_key) (lead_events d) \<noteq> None
      then d
      else d\<lparr>lead_events := lead_events d @
        [\<lparr>le_id = next_id le_id (lead_events d), le_lead_id = lead_id, le_event_type = event_type,
          le_event_key = event_key, le_truth_basis = ''observed'', le_source_type = ''system'',
          le_source_name = ''lead-delivery-worker'', le_occurred_at = occurred_at,
          le_payload = []\<rparr>]\<rparr>)"

definition set_lead_status :: "string \<Rightarrow> lead_status \<Rightarrow> database \<Rightarrow> database" where
  "set_lead_status lead_id status d =
     d\<lparr>leads := tupd ld_id lead_id (\<lambda>l. l\<lparr>ld_status := status\<rparr>) (leads d)\<rparr>"

text \<open>\<open>_refresh_lead_state\<close>: the result says whether every delivery of the lead has failed.\<close>

definition refresh_lead_state :: "string \<Rightarrow> instant \<Rightarrow> database \<Rightarrow> bool \<times> database" where
  "refresh_lead_state lead_id moment d =
     (case tget ld_id lead_id (leads d) of
        None \<Rightarrow> (False, d)
      | Some l \<Rightarrow>
          (let rows = filter (\<lambda>r. pd_lead_id r = lead_id) (provider_deliveries d)
           in if list_ex (\<lambda>r. pd_status r \<in> set NONTERMINAL_DELIVERY_STATUSES) rows
              then (False, set_lead_status lead_id LS_routing d)
              else if list_ex (\<lambda>r. pd_status r = DS_delivered) rows
              then (False, worker_lead_event lead_id ''provider_delivery'' (''delivery:'' @ lead_id) moment
                     (set_lead_status lead_id LS_delivered d))
              else (True, worker_lead_event lead_id ''delivery_failed''
                     (''delivery-failed:'' @ lead_id) moment
                     (set_lead_status lead_id LS_delivery_failed d))))"

definition fail_row :: "string \<Rightarrow> string \<Rightarrow> instant \<Rightarrow> provider_delivery \<Rightarrow> provider_delivery" where
  "fail_row error_code summary moment r =
     clear_delivery_lease (r\<lparr>pd_status := DS_failed, pd_last_error_code := Some error_code,
       pd_last_error_summary := Some summary, pd_completed_at := Some moment\<rparr>)"

definition fail_delivery ::
  "provider_delivery \<Rightarrow> string \<Rightarrow> string \<Rightarrow> instant \<Rightarrow> database \<Rightarrow> operator_alert option \<times> database" where
  "fail_delivery r error_code summary moment d =
     (let d1 = update_delivery (pd_id r) (fail_row error_code summary moment) d
      in case refresh_lead_state (pd_lead_id r) moment d1 of
           (lead_failed, d2) \<Rightarrow>
             (if \<not> lead_failed then None
              else map_option (\<lambda>l. (ld_property_id l, ld_id l, ''all_deliveries_failed''))
                     (tget ld_id (pd_lead_id r) (leads d2)), d2))"

section \<open>Starting a delivery\<close>

record delivery_request =
  dq_delivery_key :: string
  dq_property_id :: string
  dq_lead_id :: string
  dq_provider_assignment_id :: int
  dq_channel :: delivery_channel
  dq_destination :: string
  dq_contact_name :: string
  dq_contact_email :: "string option"
  dq_contact_phone :: "string option"
  dq_message :: "string option"

definition assignment_destination ::
  "provider_assignment option \<Rightarrow> delivery_channel \<Rightarrow> string option" where
  "assignment_destination assignment channel =
     (case assignment of
        None \<Rightarrow> None
      | Some a \<Rightarrow> (case channel of DC_email \<Rightarrow> pa_destination_email a
                               | DC_phone \<Rightarrow> pa_destination_phone a))"

definition delivery_error_code ::
  "database \<Rightarrow> (delivery_channel \<Rightarrow> string option) \<Rightarrow> provider_delivery \<Rightarrow> string option" where
  "delivery_error_code d adapters r =
     (let l = tget ld_id (pd_lead_id r) (leads d);
          a = tget pa_id (pd_provider_assignment_id r) (provider_assignments d);
          destination = assignment_destination a (pd_channel r)
      in first_error [
           raise_if (l = None) ''lead_not_found'',
           raise_if (a = None) ''provider_assignment_not_found'',
           raise_if (map_option pa_status a \<noteq> Some PA_active) ''provider_assignment_not_active'',
           raise_if (Option.bind l ld_provider_assignment_id \<noteq> map_option pa_id a)
             ''lead_assignment_mismatch'',
           raise_if (adapters (pd_channel r) \<noteq> Some (pd_adapter_name r))
             ''delivery_adapter_unavailable'',
           raise_if (destination = None) ''assignment_destination_unavailable'',
           raise_if (map_option masked_destination destination \<noteq> Some (pd_destination_reference r))
             ''assignment_destination_changed''])"

definition new_routing_attempt :: "database \<Rightarrow> provider_delivery \<Rightarrow> int \<Rightarrow> instant \<Rightarrow> routing_attempt" where
  "new_routing_attempt d r attempt_number now =
     \<lparr>ra_id = next_id ra_id (routing_attempts d), ra_lead_id = pd_lead_id r,
       ra_provider_assignment_id = pd_provider_assignment_id r, ra_channel = pd_channel r,
       ra_delivery_key = pd_delivery_key r, ra_attempt_number = attempt_number,
       ra_status = ''running'', ra_error_code = None, ra_error_summary = None,
       ra_started_at = now, ra_completed_at = None\<rparr>"

datatype begin_result =
  BeginSkipped | BeginFailed "operator_alert option" | BeginSend delivery_request int

text \<open>The first session of \<open>run_delivery_by_id\<close>.\<close>

definition begin_delivery ::
  "database \<Rightarrow> delivery_lease \<Rightarrow> (delivery_channel \<Rightarrow> string option) \<Rightarrow> instant \<Rightarrow>
   begin_result \<times> database" where
  "begin_delivery d lease adapters now =
     (case tget pd_id (dl_delivery_id lease) (provider_deliveries d) of
        None \<Rightarrow> (BeginSkipped, d)
      | Some r \<Rightarrow>
          if \<not> owns_delivery r lease then (BeginSkipped, d)
          else (case delivery_error_code d adapters r of
             Some code \<Rightarrow>
               (case fail_delivery r code
                       ''Delivery failed validation before the provider adapter was called.'' now d of
                  (alert, d') \<Rightarrow> (BeginFailed alert, d'))
           | None \<Rightarrow>
               (let n = pd_attempt_count r + 1;
                    l = the (tget ld_id (pd_lead_id r) (leads d));
                    a = tget pa_id (pd_provider_assignment_id r) (provider_assignments d);
                    d1 = update_delivery (pd_id r)
                      (\<lambda>r. r\<lparr>pd_attempt_count := n, pd_status := DS_delivering\<rparr>) d
                in (BeginSend \<lparr>dq_delivery_key = pd_delivery_key r,
                       dq_property_id = ld_property_id l, dq_lead_id = ld_id l,
                       dq_provider_assignment_id = pd_provider_assignment_id r,
                       dq_channel = pd_channel r,
                       dq_destination = the (assignment_destination a (pd_channel r)),
                       dq_contact_name = ld_name l, dq_contact_email = ld_email l,
                       dq_contact_phone = ld_phone l, dq_message = ld_message l\<rparr> n,
                    d1\<lparr>routing_attempts := routing_attempts d1 @
                         [new_routing_attempt d r n now]\<rparr>))))"

section \<open>Finishing a delivery\<close>

text \<open>
  What \<open>adapter.deliver\<close> did: a \<open>RetryableDeliveryError\<close>, any other exception, or a
  \<open>DeliveryResult\<close> with its message id and the flags \<open>accepted\<close> and \<open>retryable\<close>.
\<close>

datatype delivery_reply =
  ReplyRetryableError | ReplyError | ReplyResult string bool bool

definition update_attempt ::
  "string \<Rightarrow> int \<Rightarrow> (routing_attempt \<Rightarrow> routing_attempt) \<Rightarrow> database \<Rightarrow> database" where
  "update_attempt key n f d =
     d\<lparr>routing_attempts := tupd (\<lambda>a. (ra_delivery_key a, ra_attempt_number a)) (key, n) f
       (routing_attempts d)\<rparr>"

definition close_attempt ::
  "string \<Rightarrow> string option \<Rightarrow> string option \<Rightarrow> instant \<Rightarrow> routing_attempt \<Rightarrow> routing_attempt" where
  "close_attempt status code summary moment a =
     a\<lparr>ra_status := status, ra_error_code := code, ra_error_summary := summary,
       ra_completed_at := Some moment\<rparr>"

definition delivery_retry_delay :: "int \<Rightarrow> rat \<Rightarrow> rat \<Rightarrow> rat" where
  "delivery_retry_delay attempt_count retry_base retry_max =
     min retry_max (retry_base * 2 ^ nat (max 0 (attempt_count - 1)))"

definition retry_row :: "instant \<Rightarrow> rat \<Rightarrow> rat \<Rightarrow> provider_delivery \<Rightarrow> provider_delivery" where
  "retry_row moment retry_base retry_max r =
     clear_delivery_lease (r\<lparr>pd_last_error_code := Some ''retryable_adapter_failure'',
       pd_last_error_summary := Some ''Delivery adapter reported a known transient failure.'',
       pd_status := DS_retrying,
       pd_next_attempt_at := Some (moment +
         timedelta_seconds (delivery_retry_delay (pd_attempt_count r) retry_base retry_max))\<rparr>)"

definition retry_or_fail ::
  "provider_delivery \<Rightarrow> int \<Rightarrow> instant \<Rightarrow> rat \<Rightarrow> rat \<Rightarrow> database \<Rightarrow>
   operator_alert option \<times> database" where
  "retry_or_fail r n moment retry_base retry_max d =
     (let d1 = update_attempt (pd_delivery_key r) n
                 (close_attempt ''retryable_failure'' (Some ''retryable_adapter_failure'')
                    (Some ''Delivery adapter reported a known transient failure.'') moment) d
      in if pd_max_attempts r \<le> pd_attempt_count r
         then fail_delivery r ''delivery_attempts_exhausted''
                ''Delivery exhausted its bounded retry allowance.'' moment d1
         else (None, snd (refresh_lead_state (pd_lead_id r) moment
                (update_delivery (pd_id r) (retry_row moment retry_base retry_max) d1))))"

definition delivered_row :: "string \<Rightarrow> instant \<Rightarrow> provider_delivery \<Rightarrow> provider_delivery" where
  "delivered_row message_id moment r =
     clear_delivery_lease (r\<lparr>pd_provider_message_id := Some message_id, pd_status := DS_delivered,
       pd_delivered_at := Some moment, pd_completed_at := Some moment, pd_last_error_code := None,
       pd_last_error_summary := None\<rparr>)"

text \<open>The second session of \<open>run_delivery_by_id\<close>, for the attempt number of the first.\<close>

definition finish_delivery ::
  "database \<Rightarrow> delivery_lease \<Rightarrow> int \<Rightarrow> delivery_reply \<Rightarrow> rat \<Rightarrow> rat \<Rightarrow> instant \<Rightarrow>
   operator_alert option \<times> database" where
  "finish_delivery d lease n reply retry_base retry_max moment =
     (case tget pd_id (dl_delivery_id lease) (provider_deliveries d) of
        None \<Rightarrow> (None, d)
      | Some r \<Rightarrow>
          if \<not> owns_delivery r lease \<or>
             tget (\<lambda>a. (ra_delivery_key a, ra_attempt_number a)) (pd_delivery_key r, n)
               (routing_attempts d) = None
          then (None, d)
          else (case reply of
             ReplyRetryableError \<Rightarrow> retry_or_fail r n moment retry_base retry_max d
           | ReplyError \<Rightarrow> fail_delivery r ''adapter_failure''
               ''Delivery adapter failed with a permanent error.'' moment
               (update_attempt (pd_delivery_key r) n
                  (close_attempt ''permanent_failure'' (Some ''adapter_failure'')
                     (Some ''Delivery adapter failed with a permanent error.'') moment) d)
           | ReplyResult message_id accepted retryable \<Rightarrow>
               if accepted
               then (None, snd (refresh_lead_state (pd_lead_id r) moment
                      (update_delivery (pd_id r) (delivered_row message_id moment)
                        (update_attempt (pd_delivery_key r) n
                          (\<lambda>a. a\<lparr>ra_status := ''succeeded'', ra_completed_at := Some moment\<rparr>) d))))
               else if retryable then retry_or_fail r n moment retry_base retry_max d
               else fail_delivery r ''provider_rejected_delivery''
                 ''The provider adapter rejected delivery.'' moment
                 (update_attempt (pd_delivery_key r) n
                    (close_attempt ''rejected'' (Some ''provider_rejected_delivery'')
                       (Some ''The provider adapter rejected delivery.'') moment) d)))"

section \<open>Recovery\<close>

definition stale_delivery :: "instant \<Rightarrow> instant \<Rightarrow> provider_delivery \<Rightarrow> bool" where
  "stale_delivery recovered_at cutoff r \<longleftrightarrow>
     pd_status r \<in> set ACTIVE_DELIVERY_STATUSES \<and>
     ((case pd_lease_expires_at r of None \<Rightarrow> True | Some t \<Rightarrow> t < recovered_at) \<or>
      (case pd_heartbeat_at r of None \<Rightarrow> True | Some t \<Rightarrow> t < cutoff))"

definition recover_delivery_row :: "instant \<Rightarrow> provider_delivery \<Rightarrow> provider_delivery" where
  "recover_delivery_row moment r =
     clear_delivery_lease
       (if pd_status r = DS_delivering
        then r\<lparr>pd_status := DS_outcome_unknown,
               pd_last_error_code := Some ''worker_lost_during_provider_call'',
               pd_last_error_summary := Some (''The worker lease expired after provider delivery began. ''
                 @ ''Automatic resend is blocked to prevent duplicate provider contact.''),
               pd_completed_at := Some moment\<rparr>
        else r\<lparr>pd_status := DS_retrying, pd_next_attempt_at := Some moment,
               pd_last_error_code := Some ''worker_lost_before_provider_call'',
               pd_last_error_summary := Some
                 ''The worker lease expired before provider delivery began; the job was requeued.''\<rparr>)"

text \<open>The running attempt with the greatest number, if the provider call had begun.\<close>

definition close_running_attempt :: "provider_delivery \<Rightarrow> instant \<Rightarrow> database \<Rightarrow> database" where
  "close_running_attempt r moment d =
     (case select_latest ra_attempt_number
             (\<lambda>a. ra_delivery_key a = pd_delivery_key r \<and> ra_status a = ''running'')
             (routing_attempts d) of
        None \<Rightarrow> d
      | Some a \<Rightarrow> update_attempt (pd_delivery_key r) (ra_attempt_number a)
          (close_attempt ''outcome_unknown'' (Some ''worker_lost_during_provider_call'')
            (Some (''The worker lease expired after provider delivery began. ''
                 @ ''Automatic resend is blocked to prevent duplicate provider contact.'')) moment) d)"

definition recover_delivery :: "instant \<Rightarrow> provider_delivery \<Rightarrow> database \<Rightarrow> database" where
  "recover_delivery moment r d =
     (let d1 = update_delivery (pd_id r) (recover_delivery_row moment) d;
          d2 = (if pd_status r = DS_delivering then close_running_attempt r moment d1 else d1)
      in snd (refresh_lead_state (pd_lead_id r) moment d2))"

definition recover_stale_deliveries :: "database \<Rightarrow> rat \<Rightarrow> instant \<Rightarrow> nat \<times> database" where
  "recover_stale_deliveries d stale_after_seconds recovered_at =
     (let cutoff = recovered_at - timedelta_seconds stale_after_seconds;
          rows = sort_key pd_id (filter (stale_delivery recovered_at cutoff) (provider_deliveries d))
      in (length rows, fold (recover_delivery recovered_at) rows d))"

text \<open>One turn of \<open>lead_delivery_worker_loop\<close> up to the claimed lease.\<close>

definition delivery_poll ::
  "database \<Rightarrow> string \<Rightarrow> (string \<Rightarrow> string) \<Rightarrow> rat \<Rightarrow> instant \<Rightarrow> delivery_lease option \<times> database" where
  "delivery_poll d worker_id token stale_after_seconds now =
     claim_next_delivery (snd (recover_stale_deliveries d stale_after_seconds now)) worker_id token
       stale_after_seconds now"

section \<open>Lemmas on the tables\<close>

lemma clear_delivery_lease_simps [simp]:
  "pd_id (clear_delivery_lease r) = pd_id r"
  "pd_lead_id (clear_delivery_lease r) = pd_lead_id r"
  "pd_status (clear_delivery_lease r) = pd_status r"
  "pd_attempt_count (clear_delivery_lease r) = pd_attempt_count r"
  "pd_max_attempts (clear_delivery_lease r) = pd_max_attempts r"
  "pd_lease_token (clear_delivery_lease r) = None"
  "\<not> owns_delivery (clear_delivery_lease r) lease"
  by (simp_all add: clear_delivery_lease_def owns_delivery_def)

lemma worker_lead_event_frame [simp]:
  "leads (worker_lead_event i t k m d) = leads d"
  "provider_deliveries (worker_lead_event i t k m d) = provider_deliveries d"
  by (simp_all add: worker_lead_event_def)

lemma update_attempt_frame [simp]:
  "leads (update_attempt key n f d) = leads d"
  "provider_deliveries (update_attempt key n f d) = provider_deliveries d"
  by (simp_all add: update_attempt_def)

lemma close_running_attempt_frame [simp]:
  "leads (close_running_attempt r m d) = leads d"
  "provider_deliveries (close_running_attempt r m d) = provider_deliveries d"
  by (simp_all add: close_running_attempt_def split: option.splits)

lemma update_delivery_frame [simp]:
  "leads (update_delivery i f d) = leads d"
  "provider_deliveries (update_delivery i f d) = tupd pd_id i f (provider_deliveries d)"
  by (simp_all add: update_delivery_def)

definition jobs_of :: "database \<Rightarrow> string \<Rightarrow> provider_delivery list" where
  "jobs_of d lead_id = filter (\<lambda>r. pd_lead_id r = lead_id) (provider_deliveries d)"

text \<open>The state a lead should show, as a function of its delivery jobs.\<close>

definition lead_view :: "provider_delivery list \<Rightarrow> lead_status" where
  "lead_view rows =
     (if list_ex job_open rows then LS_routing
      else if list_ex (\<lambda>r. pd_status r = DS_delivered) rows then LS_delivered
      else LS_delivery_failed)"

lemma job_open_nonterminal: "job_open r \<longleftrightarrow> pd_status r \<in> set NONTERMINAL_DELIVERY_STATUSES"
  by (auto simp: job_open_def CANCELLABLE_STATUSES_def NONTERMINAL_DELIVERY_STATUSES_def
      CLAIMABLE_DELIVERY_STATUSES_def ACTIVE_DELIVERY_STATUSES_def)

lemma refresh_deliveries [simp]:
  "provider_deliveries (snd (refresh_lead_state i m d)) = provider_deliveries d"
  by (simp add: refresh_lead_state_def set_lead_status_def Let_def split: option.splits)

lemma refresh_leads [simp]:
  "leads (snd (refresh_lead_state i m d)) =
   tupd ld_id i (\<lambda>l. l\<lparr>ld_status := lead_view (jobs_of d i)\<rparr>) (leads d)"
proof (cases "tget ld_id i (leads d)")
  case None
  then have "tupd ld_id i f (leads d) = leads d" for f
    by (intro tupd_id) (auto simp: tget_None_iff)
  with None show ?thesis by (simp add: refresh_lead_state_def)
next
  case (Some l)
  then show ?thesis
    by (simp add: refresh_lead_state_def set_lead_status_def Let_def lead_view_def jobs_of_def
        job_open_nonterminal [abs_def])
qed

lemma refresh_failed:
  "fst (refresh_lead_state i m d) \<longleftrightarrow>
   tget ld_id i (leads d) \<noteq> None \<and> lead_view (jobs_of d i) = LS_delivery_failed"
  by (auto simp: refresh_lead_state_def Let_def lead_view_def jobs_of_def
      job_open_nonterminal [abs_def] split: option.splits)

lemma fail_delivery_frame [simp]:
  "snd (fail_delivery r code summary m d) =
   snd (refresh_lead_state (pd_lead_id r) m
     (update_delivery (pd_id r) (fail_row code summary m) d))"
  by (simp add: fail_delivery_def Let_def split: prod.splits)

lemma tget_map:
  "(\<And>r. key (f r) = key r) \<Longrightarrow> tget key k (map f rows) = map_option f (tget key k rows)"
  by (induction rows) auto

section \<open>Histories of deliveries\<close>

text \<open>
  The worker loop runs a claimed lease once: \<open>run_delivery_by_id\<close> begins while the row is
  leased and finishes what it began. \<open>ClaimDelivery\<close> is the conditional update of one
  candidate; lead deletion, retention, submissions and assignment operations run between the
  steps of the workers.
\<close>

datatype 'l delivery_op =
  ClaimDelivery delivery_lease rat instant
| HeartbeatDelivery delivery_lease rat instant
| BeginDelivery delivery_lease "delivery_channel \<Rightarrow> string option" instant
| FinishDelivery delivery_lease int delivery_reply rat rat instant
| RecoverDeliveries rat instant
| DeleteLead string access_context instant
| EnforceRetention instant
| IntakeRequest "'l intake_op"

definition lease_phase :: "database \<Rightarrow> delivery_lease \<Rightarrow> delivery_status option" where
  "lease_phase d lease =
     map_option pd_status (tget pd_id (dl_delivery_id lease) (provider_deliveries d))"

fun delivery_step :: "database \<Rightarrow> 'l delivery_op \<Rightarrow> routing_error + database" where
  "delivery_step d (ClaimDelivery lease secs now) = Inr (snd (try_claim_delivery d lease secs now))"
| "delivery_step d (HeartbeatDelivery lease secs now) = Inr (snd (heartbeat_delivery d lease secs now))"
| "delivery_step d (BeginDelivery lease adapters now) =
     Inr (if lease_phase d lease = Some DS_leased then snd (begin_delivery d lease adapters now) else d)"
| "delivery_step d (FinishDelivery lease n reply retry_base retry_max now) =
     Inr (if lease_phase d lease = Some DS_delivering
          then snd (finish_delivery d lease n reply retry_base retry_max now) else d)"
| "delivery_step d (RecoverDeliveries secs now) = Inr (snd (recover_stale_deliveries d secs now))"
| "delivery_step d (DeleteLead lead_id access now) = map_result snd (delete_lead d lead_id access now)"
| "delivery_step d (EnforceRetention now) = Inr (snd (enforce_retention d now))"
| "delivery_step d (IntakeRequest opn) =
     (case opn of Submission env seen limiter raw context ids \<Rightarrow>
        if policy_valid (in_policy env) then intake_step d opn
        else Inl (RoutingValidationError ''policy''))"

section \<open>Leases on deliveries\<close>

definition holds_delivery :: "database \<Rightarrow> delivery_lease \<Rightarrow> bool" where
  "holds_delivery d l =
     (case tget pd_id (dl_delivery_id l) (provider_deliveries d) of
        None \<Rightarrow> False | Some r \<Rightarrow> owns_delivery r l)"

fun grants_delivery :: "'l delivery_op \<Rightarrow> delivery_lease \<Rightarrow> bool" where
  "grants_delivery (ClaimDelivery lease secs now) l \<longleftrightarrow> l = lease"
| "grants_delivery opn l \<longleftrightarrow> False"

definition job_no_gain :: "database \<Rightarrow> database \<Rightarrow> bool" where
  "job_no_gain d d' \<longleftrightarrow> (\<forall>l. holds_delivery d' l \<longrightarrow> holds_delivery d l)"

lemma job_no_gain_refl [simp]: "job_no_gain d d"
  by (simp add: job_no_gain_def)

lemma job_no_gain_trans: "job_no_gain a b \<Longrightarrow> job_no_gain b c \<Longrightarrow> job_no_gain a c"
  by (simp add: job_no_gain_def)

lemma job_no_gain_update:
  assumes "provider_deliveries d' = tupd pd_id i f (provider_deliveries d)"
    and "\<And>r. pd_id (f r) = pd_id r"
    and "\<And>r l. tget pd_id i (provider_deliveries d) = Some r \<Longrightarrow> owns_delivery (f r) l \<Longrightarrow>
      owns_delivery r l"
  shows "job_no_gain d d'"
  using assms by (auto simp: job_no_gain_def holds_delivery_def tget_tupd_if split: option.splits)

lemma job_rows_id [simp]:
  "pd_id (fail_row code summary m r) = pd_id r"
  "pd_id (retry_row m base mx r) = pd_id r"
  "pd_id (delivered_row i m r) = pd_id r"
  "pd_id (recover_delivery_row m r) = pd_id r"
  "pd_id (claim_delivery_row lease secs now r) = pd_id r"
  by (simp_all add: fail_row_def retry_row_def delivered_row_def recover_delivery_row_def
      claim_delivery_row_def)

lemma job_rows_not_owned [simp]:
  "\<not> owns_delivery (fail_row code summary m r) l"
  "\<not> owns_delivery (retry_row m base mx r) l"
  "\<not> owns_delivery (delivered_row i m r) l"
  "\<not> owns_delivery (recover_delivery_row m r) l"
  by (simp_all add: fail_row_def retry_row_def delivered_row_def recover_delivery_row_def)

text \<open>What a step of a worker does to the table of deliveries.\<close>

lemma begin_delivery_cases:
  assumes "lease_phase d lease = Some DS_leased"
  obtains (skipped) "begin_delivery d lease adapters now = (BeginSkipped, d)"
  | (failed) r code alert d' where
    "tget pd_id (dl_delivery_id lease) (provider_deliveries d) = Some r" "owns_delivery r lease"
    "pd_status r = DS_leased" "delivery_error_code d adapters r = Some code"
    "begin_delivery d lease adapters now = (BeginFailed alert, d')"
    "d' = snd (refresh_lead_state (pd_lead_id r) now (update_delivery (pd_id r)
       (fail_row code ''Delivery failed validation before the provider adapter was called.'' now) d))"
  | (sent) r request n d' where
    "tget pd_id (dl_delivery_id lease) (provider_deliveries d) = Some r" "owns_delivery r lease"
    "pd_status r = DS_leased" "delivery_error_code d adapters r = None"
    "begin_delivery d lease adapters now = (BeginSend request n, d')"
    "n = pd_attempt_count r + 1" "leads d' = leads d"
    "provider_deliveries d' = tupd pd_id (pd_id r)
       (\<lambda>r. r\<lparr>pd_attempt_count := n, pd_status := DS_delivering\<rparr>) (provider_deliveries d)"
proof -
  from assms obtain r where
    r: "tget pd_id (dl_delivery_id lease) (provider_deliveries d) = Some r" "pd_status r = DS_leased"
    by (auto simp: lease_phase_def)
  show ?thesis
  proof (cases "owns_delivery r lease")
    case False
    with r skipped show ?thesis by (simp add: begin_delivery_def)
  next
    case True
    show ?thesis
    proof (cases "delivery_error_code d adapters r")
      case None
      let ?b = "begin_delivery d lease adapters now"
      have "\<exists>request. fst ?b = BeginSend request (pd_attempt_count r + 1)"
        "leads (snd ?b) = leads d"
        "provider_deliveries (snd ?b) = tupd pd_id (pd_id r)
          (\<lambda>ra. ra\<lparr>pd_attempt_count := pd_attempt_count r + 1, pd_status := DS_delivering\<rparr>)
          (provider_deliveries d)"
        using r True None by (simp_all add: begin_delivery_def Let_def)
      then show ?thesis
        by (elim exE, intro sent [OF r(1) True r(2) None _ refl]) (auto simp: prod_eq_iff)
    next
      case (Some code)
      obtain alert d' where f: "fail_delivery r code
          ''Delivery failed validation before the provider adapter was called.'' now d = (alert, d')"
        by fastforce
      show ?thesis
      proof (rule failed [OF r(1) True r(2) Some])
        show "begin_delivery d lease adapters now = (BeginFailed alert, d')"
          using r True Some f by (simp add: begin_delivery_def)
        show "d' = snd (refresh_lead_state (pd_lead_id r) now (update_delivery (pd_id r)
            (fail_row code ''Delivery failed validation before the provider adapter was called.'' now) d))"
          using f fail_delivery_frame
            [of r code "''Delivery failed validation before the provider adapter was called.''" now d]
          by simp
      qed
    qed
  qed
qed

text \<open>A finished call rewrites the row by one of three functions and refreshes the lead.\<close>

definition settled_by ::
  "database \<Rightarrow> provider_delivery \<Rightarrow> instant \<Rightarrow> (provider_delivery \<Rightarrow> provider_delivery) \<Rightarrow> database \<Rightarrow>
   bool" where
  "settled_by d r m f d' \<longleftrightarrow> (\<exists>d1. leads d1 = leads d \<and> provider_deliveries d1 = provider_deliveries d \<and>
     d' = snd (refresh_lead_state (pd_lead_id r) m (update_delivery (pd_id r) f d1)))"

lemma settled_byI:
  "leads d1 = leads d \<Longrightarrow> provider_deliveries d1 = provider_deliveries d \<Longrightarrow>
   settled_by d r m f (snd (refresh_lead_state (pd_lead_id r) m (update_delivery (pd_id r) f d1)))"
  by (auto simp: settled_by_def)

inductive settlement ::
  "provider_delivery \<Rightarrow> instant \<Rightarrow> (provider_delivery \<Rightarrow> provider_delivery) \<Rightarrow> bool" for r m where
  settle_failed: "settlement r m (fail_row code summary m)"
| settle_delivered: "settlement r m (delivered_row i m)"
| settle_retry: "pd_attempt_count r < pd_max_attempts r \<Longrightarrow> settlement r m (retry_row m base mx)"

lemma settled_fail:
  "leads d1 = leads d \<Longrightarrow> provider_deliveries d1 = provider_deliveries d \<Longrightarrow>
   \<exists>f. settlement r m f \<and> settled_by d r m f (snd (fail_delivery r code summary m d1))"
  by (rule exI [of _ "fail_row code summary m"]) (simp add: settled_byI settlement.intros)

lemma settled_retry:
  "\<exists>f. settlement r m f \<and> settled_by d r m f (snd (retry_or_fail r n m base mx d))"
proof (cases "pd_max_attempts r \<le> pd_attempt_count r")
  case True
  then show ?thesis
    by (simp add: retry_or_fail_def Let_def settled_fail del: fail_delivery_frame)
next
  case False
  then have "settlement r m (retry_row m base mx)" by (simp add: settlement.intros)
  with False show ?thesis
    by (intro exI [of _ "retry_row m base mx"]) (simp add: retry_or_fail_def Let_def settled_byI)
qed

lemma finish_delivery_cases:
  assumes "lease_phase d lease = Some DS_delivering"
  obtains (skipped) "snd (finish_delivery d lease n reply base mx now) = d"
  | (finished) r f where
    "tget pd_id (dl_delivery_id lease) (provider_deliveries d) = Some r" "owns_delivery r lease"
    "pd_status r = DS_delivering" "settlement r now f"
    "settled_by d r now f (snd (finish_delivery d lease n reply base mx now))"
proof -
  from assms obtain r where
    r: "tget pd_id (dl_delivery_id lease) (provider_deliveries d) = Some r" "pd_status r = DS_delivering"
    by (auto simp: lease_phase_def)
  show ?thesis
  proof (cases "owns_delivery r lease \<and> tget (\<lambda>a. (ra_delivery_key a, ra_attempt_number a))
      (pd_delivery_key r, n) (routing_attempts d) \<noteq> None")
    case False
    with r skipped show ?thesis by (simp add: finish_delivery_def)
  next
    case True
    then obtain a where own: "owns_delivery r lease"
      and a: "tget (\<lambda>a. (ra_delivery_key a, ra_attempt_number a)) (pd_delivery_key r, n)
        (routing_attempts d) = Some a" by auto
    have delivered: "\<exists>f. settlement r now f \<and> settled_by d r now f
        (snd (refresh_lead_state (pd_lead_id r) now (update_delivery (pd_id r) (delivered_row i now) d1)))"
      if "leads d1 = leads d" "provider_deliveries d1 = provider_deliveries d" for i d1
      using that by (intro exI [of _ "delivered_row i now"])
        (simp add: settled_byI settlement.intros)
    have "\<exists>f. settlement r now f \<and>
        settled_by d r now f (snd (finish_delivery d lease n reply base mx now))"
      using r own a by (simp add: finish_delivery_def settled_retry settled_fail delivered
          split: delivery_reply.splits del: fail_delivery_frame)
    then show ?thesis by (auto intro: finished [OF r(1) own r(2)])
  qed
qed

lemma settled_tables:
  assumes "settled_by d r m f d'"
  shows "provider_deliveries d' = tupd pd_id (pd_id r) f (provider_deliveries d)"
    and "leads d' = tupd ld_id (pd_lead_id r)
      (\<lambda>l. l\<lparr>ld_status := lead_view (filter (\<lambda>x. pd_lead_id x = pd_lead_id r)
         (provider_deliveries d'))\<rparr>) (leads d)"
  using assms by (auto simp: settled_by_def jobs_of_def)

lemma settlement_not_owned: "settlement r m f \<Longrightarrow> \<not> owns_delivery (f x) l"
  by (auto elim: settlement.cases)

lemma settlement_id: "settlement r m f \<Longrightarrow> pd_id (f x) = pd_id x"
  by (auto elim: settlement.cases)

lemma no_gain_begin:
  assumes "lease_phase d lease = Some DS_leased"
  shows "job_no_gain d (snd (begin_delivery d lease adapters now))"
  using assms
proof (cases rule: begin_delivery_cases [where adapters = adapters and now = now])
  case (failed r code alert d')
  then show ?thesis by (auto intro: job_no_gain_update)
next
  case (sent r request n d')
  have own: "owns_delivery r l" if "owns_delivery (r\<lparr>pd_attempt_count := n, pd_status := DS_delivering\<rparr>) l" for l
    using that sent(3) by (simp add: owns_delivery_def ACTIVE_DELIVERY_STATUSES_def)
  have "pd_id r = dl_delivery_id lease" using tget_Some_key [OF sent(1)] by simp
  with sent(1) own have "job_no_gain d d'"
    by (intro job_no_gain_update [OF sent(8)]) auto
  with sent(5) show ?thesis by simp
qed simp

lemma no_gain_finish:
  assumes "lease_phase d lease = Some DS_delivering"
  shows "job_no_gain d (snd (finish_delivery d lease n reply base mx now))"
  using assms
proof (cases rule: finish_delivery_cases [where n = n and reply = reply and base = base and mx = mx
      and now = now])
  case (finished r f)
  show ?thesis
    by (rule job_no_gain_update [OF settled_tables(1) [OF finished(5)]])
      (use finished(4) in \<open>auto simp: settlement_id settlement_not_owned\<close>)
qed simp

lemma recover_delivery_tables:
  "provider_deliveries (recover_delivery m r d) =
     tupd pd_id (pd_id r) (recover_delivery_row m) (provider_deliveries d)"
  "leads (recover_delivery m r d) = tupd ld_id (pd_lead_id r)
     (\<lambda>l. l\<lparr>ld_status := lead_view (jobs_of (recover_delivery m r d) (pd_lead_id r))\<rparr>) (leads d)"
  by (simp_all add: recover_delivery_def Let_def jobs_of_def)

lemma no_gain_recover_rows: "job_no_gain d (fold (recover_delivery m) rows d)"
proof (induction rows arbitrary: d)
  case (Cons r rows)
  have "job_no_gain d (recover_delivery m r d)"
    by (rule job_no_gain_update [OF recover_delivery_tables(1)]) simp_all
  with Cons show ?case by (auto intro: job_no_gain_trans)
qed simp

lemma no_gain_recover_deliveries: "job_no_gain d (snd (recover_stale_deliveries d secs now))"
  by (simp add: recover_stale_deliveries_def Let_def no_gain_recover_rows)

lemma anonymize_not_owned: "owns_delivery (anonymize_delivery now r) l \<Longrightarrow> owns_delivery r l"
  by (auto simp: owns_delivery_def anonymize_delivery_def Let_def CANCELLABLE_STATUSES_def
      ACTIVE_DELIVERY_STATUSES_def split: if_splits)

lemma no_gain_anonymize: "job_no_gain d (anonymize i now d)"
  by (auto simp: job_no_gain_def holds_delivery_def map_where_def tget_map
      dest: anonymize_not_owned split: option.splits if_splits)

lemma no_gain_retention: "job_no_gain d (snd (enforce_retention d now))"
proof -
  have "job_no_gain d (fold (\<lambda>i. anonymize i now) ids d)" for ids
    by (induction ids arbitrary: d) (auto intro: job_no_gain_trans no_gain_anonymize)
  then show ?thesis by (simp add: enforce_retention_def Let_def)
qed

lemma new_delivery_pending [simp]:
  "pd_status (new_delivery policy cx ids i c) = DS_pending"
  "pd_lead_id (new_delivery policy cx ids i c) = si_lead_id ids"
  "pd_id (new_delivery policy cx ids i c) = si_delivery_id ids (fst c)"
  "pd_attempt_count (new_delivery policy cx ids i c) = 0"
  "pd_max_attempts (new_delivery policy cx ids i c) = lp_maximum_delivery_attempts policy"
  by (simp_all add: new_delivery_def split: prod.splits)

lemma intake_step_cases:
  assumes "intake_step d (Submission env seen limiter raw context ids) = Inr d'"
  obtains (same) "d' = d"
  | (stored) form profile assignment assessment where
    "d' = store_submission env form context ids profile assignment assessment d"
    "\<not> ids_clash d ids (submission_status assessment assignment
        (routable_channels (in_adapters env) assignment)) (routable_channels (in_adapters env) assignment)"
proof -
  from assms obtain form r al limiter' where
    "submit env seen d limiter form context ids = (Inr (r, al), d', limiter')"
    by (rule intake_step_Inr)
  then show ?thesis
    by (cases rule: submit_cases) (auto intro: same stored)
qed

lemma no_gain_append:
  assumes "provider_deliveries d' = provider_deliveries d @ new"
    and "\<And>r. r \<in> set new \<Longrightarrow> pd_status r = DS_pending"
  shows "job_no_gain d d'"
  using assms
  by (auto simp: job_no_gain_def holds_delivery_def tget_append owns_delivery_def
      ACTIVE_DELIVERY_STATUSES_def split: option.splits dest!: tget_Some_key)

lemma no_gain_intake: "intake_step d opn = Inr d' \<Longrightarrow> job_no_gain d d'"
proof (cases opn)
  case (Submission env seen limiter raw cx ids)
  assume "intake_step d opn = Inr d'"
  then have "intake_step d (Submission env seen limiter raw cx ids) = Inr d'"
    by (simp only: Submission)
  then show ?thesis
  proof (cases rule: intake_step_cases)
    case (stored form profile assignment assessment)
    then show ?thesis by (auto intro!: no_gain_append simp: store_submission_tables(3))
  qed simp
qed

lemma delivery_step_grant:
  assumes "delivery_step d opn = Inr d'" "holds_delivery d' l"
  shows "holds_delivery d l \<or>
    (grants_delivery opn l \<and> (\<forall>l'. dl_delivery_id l' = dl_delivery_id l \<longrightarrow> \<not> holds_delivery d l'))"
proof (cases opn)
  case (ClaimDelivery lease secs now)
  with assms show ?thesis
    by (auto simp: try_claim_delivery_def holds_delivery_def owns_delivery_def tget_tupd_if
        claim_delivery_row_def CLAIMABLE_DELIVERY_STATUSES_def ACTIVE_DELIVERY_STATUSES_def
        split: option.splits if_splits)
next
  case (HeartbeatDelivery lease secs now)
  with assms show ?thesis
    by (auto simp: heartbeat_delivery_def holds_delivery_def owns_delivery_def tget_tupd_if
        split: option.splits if_splits)
next
  case (IntakeRequest x)
  with assms no_gain_intake [of d x d'] show ?thesis
    by (auto simp: job_no_gain_def split: intake_op.splits if_splits)
next
  case (DeleteLead i access now)
  with assms no_gain_anonymize [of d i now] show ?thesis
    by (auto simp: job_no_gain_def delete_lead_def split: option.splits)
next
  case (BeginDelivery lease adapters now)
  with assms no_gain_begin [of d lease adapters now] show ?thesis
    by (auto simp: job_no_gain_def split: if_splits)
next
  case (FinishDelivery lease n reply base mx now)
  with assms no_gain_finish [of d lease n reply base mx now] show ?thesis
    by (auto simp: job_no_gain_def split: if_splits)
next
  case (RecoverDeliveries secs now)
  with assms no_gain_recover_deliveries [of d secs now] show ?thesis by (simp add: job_no_gain_def)
next
  case (EnforceRetention now)
  with assms no_gain_retention [of d now] show ?thesis by (simp add: job_no_gain_def)
qed

lemma holds_delivery_exclusive:
  "holds_delivery d l \<Longrightarrow> holds_delivery d l' \<Longrightarrow> dl_delivery_id l = dl_delivery_id l' \<Longrightarrow> l = l'"
  by (auto simp: holds_delivery_def owns_delivery_def split: option.splits)

interpretation delivery_leases: leases delivery_step holds_delivery dl_delivery_id grants_delivery
  by unfold_locales (auto intro: holds_delivery_exclusive dest: delivery_step_grant)

section \<open>The invariant of deliveries\<close>

fun DELIVERY_TRANSITIONS :: "delivery_status \<Rightarrow> delivery_status list" where
  "DELIVERY_TRANSITIONS DS_pending = [DS_leased, DS_cancelled]"
| "DELIVERY_TRANSITIONS DS_leased = [DS_delivering, DS_retrying, DS_failed, DS_cancelled]"
| "DELIVERY_TRANSITIONS DS_delivering =
     [DS_delivered, DS_retrying, DS_failed, DS_outcome_unknown, DS_cancelled]"
| "DELIVERY_TRANSITIONS DS_retrying = [DS_leased, DS_cancelled]"
| "DELIVERY_TRANSITIONS DS_delivered = []"
| "DELIVERY_TRANSITIONS DS_failed = []"
| "DELIVERY_TRANSITIONS DS_outcome_unknown = []"
| "DELIVERY_TRANSITIONS DS_cancelled = []"

definition job_state :: "database \<Rightarrow> string \<Rightarrow> delivery_status option" where
  "job_state d k = map_option pd_status (tget pd_id k (provider_deliveries d))"

definition delivery_row_ok :: "provider_delivery \<Rightarrow> bool" where
  "delivery_row_ok r \<longleftrightarrow> 0 \<le> pd_attempt_count r \<and> pd_attempt_count r \<le> pd_max_attempts r \<and>
     (pd_status r \<in> {DS_pending, DS_leased, DS_retrying} \<longrightarrow> pd_attempt_count r < pd_max_attempts r)"

definition lead_consistent :: "provider_delivery list \<Rightarrow> lead \<Rightarrow> bool" where
  "lead_consistent rows l =
     (if ld_pii_deleted_at l \<noteq> None then pii_free l \<and> \<not> list_ex job_open rows
      else if ld_status l = LS_spam then rows = []
      else ld_status l = lead_view rows)"

definition deliveries_ok :: "database \<Rightarrow> bool" where
  "deliveries_ok d \<longleftrightarrow>
     keys_distinct pd_id (provider_deliveries d) \<and> keys_distinct ld_id (leads d) \<and>
     (\<forall>r \<in> set (provider_deliveries d). delivery_row_ok r \<and> pd_lead_id r \<in> ld_id ` set (leads d)) \<and>
     (\<forall>l \<in> set (leads d). lead_consistent (jobs_of d (ld_id l)) l)"

definition job_path :: "delivery_status \<Rightarrow> delivery_status \<Rightarrow> bool" where
  "job_path s s' \<longleftrightarrow> (s, s') \<in> (graph_edges DELIVERY_TRANSITIONS)\<^sup>*"

definition deliveries_next :: "database \<Rightarrow> database \<Rightarrow> bool" where
  "deliveries_next d d' \<longleftrightarrow> deliveries_ok d' \<and>
     (\<forall>k s. job_state d k = Some s \<longrightarrow> (\<exists>s'. job_state d' k = Some s' \<and> job_path s s')) \<and>
     (\<forall>k l. tget ld_id k (leads d) = Some l \<longrightarrow> (\<exists>l'. tget ld_id k (leads d') = Some l' \<and>
        (ld_pii_deleted_at l \<noteq> None \<longrightarrow> ld_pii_deleted_at l' \<noteq> None)))"

lemma job_path_refl [simp]: "job_path s s"
  by (simp add: job_path_def)

lemma job_path_step: "s' \<in> set (DELIVERY_TRANSITIONS s) \<Longrightarrow> job_path s s'"
  unfolding job_path_def by (rule graph_edgesI)

lemma job_path_trans: "job_path a b \<Longrightarrow> job_path b c \<Longrightarrow> job_path a c"
  unfolding job_path_def by (rule rtrancl_trans)

lemma deliveries_next_refl: "deliveries_ok d \<Longrightarrow> deliveries_next d d"
  by (simp add: deliveries_next_def)

lemma deliveries_next_trans:
  assumes "deliveries_next a b" "deliveries_next b c"
  shows "deliveries_next a c"
proof -
  have "\<exists>s'. job_state c k = Some s' \<and> job_path s s'" if "job_state a k = Some s" for k s
    using that assms job_path_trans unfolding deliveries_next_def by metis
  moreover have "\<exists>l'. tget ld_id k (leads c) = Some l' \<and>
      (ld_pii_deleted_at l \<noteq> None \<longrightarrow> ld_pii_deleted_at l' \<noteq> None)"
    if "tget ld_id k (leads a) = Some l" for k l
    using that assms unfolding deliveries_next_def by metis
  ultimately show ?thesis using assms(2) by (simp add: deliveries_next_def)
qed

lemma jobs_of_map:
  assumes "provider_deliveries d' = map g (provider_deliveries d)" "\<And>r. pd_lead_id (g r) = pd_lead_id r"
  shows "jobs_of d' i = map g (jobs_of d i)"
  using assms by (simp add: jobs_of_def filter_map comp_def)

text \<open>Operations rewrite rows of both tables in place, or append.\<close>

lemma deliveries_next_map:
  assumes ok: "deliveries_ok d"
    and g: "provider_deliveries d' = map g (provider_deliveries d)"
      "\<And>r. pd_id (g r) = pd_id r" "\<And>r. pd_lead_id (g r) = pd_lead_id r"
      "\<And>r. r \<in> set (provider_deliveries d) \<Longrightarrow> delivery_row_ok r \<Longrightarrow>
         delivery_row_ok (g r) \<and> job_path (pd_status r) (pd_status (g r))"
    and h: "leads d' = map h (leads d)" "\<And>l. ld_id (h l) = ld_id l"
      "\<And>l. ld_pii_deleted_at l \<noteq> None \<Longrightarrow> ld_pii_deleted_at (h l) \<noteq> None"
      "\<And>l. l \<in> set (leads d) \<Longrightarrow> lead_consistent (jobs_of d (ld_id l)) l \<Longrightarrow>
         lead_consistent (map g (jobs_of d (ld_id l))) (h l)"
  shows "deliveries_next d d'"
proof -
  have ids: "map pd_id (provider_deliveries d') = map pd_id (provider_deliveries d)"
    "map ld_id (leads d') = map ld_id (leads d)"
    "ld_id ` set (leads d') = ld_id ` set (leads d)"
    by (simp_all add: g(1,2) h(1,2) image_image comp_def)
  have "delivery_row_ok r \<and> pd_lead_id r \<in> ld_id ` set (leads d')"
    if "r \<in> set (provider_deliveries d')" for r
    using that ok g unfolding ids(3) deliveries_ok_def by auto
  moreover have "lead_consistent (jobs_of d' (ld_id l)) l" if "l \<in> set (leads d')" for l
    using that ok h unfolding jobs_of_map [OF g(1,3)] deliveries_ok_def by auto
  ultimately have "deliveries_ok d'"
    using ok ids by (simp add: deliveries_ok_def keys_distinct_def)
  moreover have "\<exists>s'. job_state d' k = Some s' \<and> job_path s s'" if "job_state d k = Some s" for k s
    using that ok g(4) tget_Some_key [of pd_id k "provider_deliveries d"]
    by (auto simp: job_state_def g(1) tget_map g(2) deliveries_ok_def)
  moreover have "\<exists>l'. tget ld_id k (leads d') = Some l' \<and>
      (ld_pii_deleted_at l \<noteq> None \<longrightarrow> ld_pii_deleted_at l' \<noteq> None)"
    if "tget ld_id k (leads d) = Some l" for k l
    using that h(3) by (auto simp: h(1) tget_map h(2))
  ultimately show ?thesis by (simp add: deliveries_next_def)
qed

lemma deliveries_unique:
  "deliveries_ok d \<Longrightarrow> tget pd_id k (provider_deliveries d) = Some r \<Longrightarrow>
   x \<in> set (provider_deliveries d) \<Longrightarrow> pd_id x = k \<Longrightarrow> x = r"
  using tget_in_set [of pd_id "provider_deliveries d" x] by (auto simp: deliveries_ok_def)

lemma list_ex_map_same:
  "(\<And>x. x \<in> set xs \<Longrightarrow> P (g x) \<longleftrightarrow> P x) \<Longrightarrow> list_ex P (map g xs) \<longleftrightarrow> list_ex P xs"
  by (induction xs) auto

text \<open>A row changes without a change of its lead's view.\<close>

lemma deliveries_next_silent:
  assumes ok: "deliveries_ok d" and r: "tget pd_id k (provider_deliveries d) = Some r"
    and d': "provider_deliveries d' = tupd pd_id k f (provider_deliveries d)" "leads d' = leads d"
    and f: "\<And>x. pd_id (f x) = pd_id x" "\<And>x. pd_lead_id (f x) = pd_lead_id x"
      "delivery_row_ok r \<Longrightarrow> delivery_row_ok (f r)" "job_path (pd_status r) (pd_status (f r))"
      "job_open r" "job_open (f r)"
  shows "deliveries_next d d'"
proof (rule deliveries_next_map [OF ok, of d' "\<lambda>x. if pd_id x = k then f x else x" "\<lambda>l. l"])
  let ?g = "\<lambda>x. if pd_id x = k then f x else x"
  have same: "job_open (?g x) = job_open x" "pd_status (?g x) = DS_delivered \<longleftrightarrow> pd_status x = DS_delivered"
    if "x \<in> set (provider_deliveries d)" for x
    using that f(5,6) deliveries_unique [OF ok r that]
    by (auto simp: job_open_def CANCELLABLE_STATUSES_def)
  show "lead_consistent (map ?g (jobs_of d (ld_id l))) l"
    if "lead_consistent (jobs_of d (ld_id l)) l" for l
  proof -
    have "list_ex job_open (map ?g (jobs_of d (ld_id l))) = list_ex job_open (jobs_of d (ld_id l))"
      "list_ex (\<lambda>x. pd_status x = DS_delivered) (map ?g (jobs_of d (ld_id l))) =
       list_ex (\<lambda>x. pd_status x = DS_delivered) (jobs_of d (ld_id l))"
      by (rule list_ex_map_same, rule same, simp add: jobs_of_def)+
    then have "lead_view (map ?g (jobs_of d (ld_id l))) = lead_view (jobs_of d (ld_id l))"
      "list_ex job_open (map ?g (jobs_of d (ld_id l))) = list_ex job_open (jobs_of d (ld_id l))"
      by (simp_all only: lead_view_def)
    with that show ?thesis by (simp add: lead_consistent_def split: if_splits)
  qed
qed (use d' f deliveries_unique [OF ok r] in \<open>auto simp: tupd_def\<close>)

text \<open>A row changes and the view of its lead is refreshed.\<close>

lemma deliveries_next_settle:
  assumes ok: "deliveries_ok d" and r: "tget pd_id (pd_id r) (provider_deliveries d) = Some r"
    and d': "provider_deliveries d' = tupd pd_id (pd_id r) f (provider_deliveries d)"
      "leads d' = tupd ld_id (pd_lead_id r)
         (\<lambda>l. l\<lparr>ld_status := lead_view (jobs_of d' (pd_lead_id r))\<rparr>) (leads d)"
    and f: "\<And>x. pd_id (f x) = pd_id x" "\<And>x. pd_lead_id (f x) = pd_lead_id x"
      "delivery_row_ok r \<Longrightarrow> delivery_row_ok (f r)" "job_path (pd_status r) (pd_status (f r))"
      "job_open r"
  shows "deliveries_next d d'"
proof -
  let ?g = "\<lambda>x. if pd_id x = pd_id r then f x else x"
  let ?h = "\<lambda>l. if ld_id l = pd_lead_id r
     then l\<lparr>ld_status := lead_view (jobs_of d' (pd_lead_id r))\<rparr> else l"
  have g: "provider_deliveries d' = map ?g (provider_deliveries d)" by (simp add: d' tupd_def)
  have jobs: "jobs_of d' i = map ?g (jobs_of d i)" for i
    by (rule jobs_of_map [OF g]) (simp add: f(2))
  have own: "r \<in> set (jobs_of d (pd_lead_id r))"
    using tget_Some_key [OF r] by (simp add: jobs_of_def)
  show ?thesis
  proof (rule deliveries_next_map [OF ok g, of ?h])
    show "lead_consistent (map ?g (jobs_of d (ld_id l))) (?h l)"
      if c: "lead_consistent (jobs_of d (ld_id l)) l" for l
    proof (cases "ld_id l = pd_lead_id r")
      case True
      with c own f(5) have "ld_pii_deleted_at l = None" "ld_status l \<noteq> LS_spam"
        by (auto simp: lead_consistent_def list_ex_iff split: if_splits)
      with True show ?thesis by (auto simp: lead_consistent_def jobs lead_view_def)
    next
      case False
      have "pd_id x \<noteq> pd_id r" if "x \<in> set (jobs_of d (ld_id l))" for x
        using that False deliveries_unique [OF ok r, of x] by (auto simp: jobs_of_def)
      then have "map ?g (jobs_of d (ld_id l)) = jobs_of d (ld_id l)"
        by (intro map_idI) simp
      with c False show ?thesis by simp
    qed
  qed (use d' f deliveries_unique [OF ok r] in \<open>auto simp: tupd_def\<close>)
qed

section \<open>Every request keeps the invariant\<close>

lemma job_rows_lead [simp]:
  "pd_lead_id (fail_row code summary m r) = pd_lead_id r"
  "pd_lead_id (retry_row m base mx r) = pd_lead_id r"
  "pd_lead_id (delivered_row i m r) = pd_lead_id r"
  "pd_lead_id (recover_delivery_row m r) = pd_lead_id r"
  "pd_lead_id (claim_delivery_row lease secs now r) = pd_lead_id r"
  by (simp_all add: fail_row_def retry_row_def delivered_row_def recover_delivery_row_def
      claim_delivery_row_def)

lemma owned_open: "owns_delivery r lease \<Longrightarrow> job_open r"
  by (auto simp: owns_delivery_def job_open_def ACTIVE_DELIVERY_STATUSES_def CANCELLABLE_STATUSES_def)

lemma next_claim:
  assumes ok: "deliveries_ok d"
  shows "deliveries_next d (snd (try_claim_delivery d lease secs now))"
proof (cases "\<exists>r. tget pd_id (dl_delivery_id lease) (provider_deliveries d) = Some r \<and>
    pd_status r \<in> set CLAIMABLE_DELIVERY_STATUSES \<and> delivery_due now r")
  case True
  then obtain r where r: "tget pd_id (dl_delivery_id lease) (provider_deliveries d) = Some r"
    "pd_status r \<in> {DS_pending, DS_retrying}" "delivery_due now r"
    by (auto simp: CLAIMABLE_DELIVERY_STATUSES_def)
  have "deliveries_next d (update_delivery (dl_delivery_id lease) (claim_delivery_row lease secs now) d)"
  proof (rule deliveries_next_silent [OF ok r(1) update_delivery_frame(2,1)])
    show "job_path (pd_status r) (pd_status (claim_delivery_row lease secs now r))"
      using r(2) by (intro job_path_step) (auto simp: claim_delivery_row_def)
  qed (use r(2) in \<open>auto simp: claim_delivery_row_def delivery_row_ok_def job_open_def
         CANCELLABLE_STATUSES_def\<close>)
  with r True show ?thesis by (auto simp: try_claim_delivery_def)
next
  case False
  with ok show ?thesis
    by (auto simp: try_claim_delivery_def deliveries_next_refl split: option.splits)
qed

lemma next_heartbeat:
  assumes ok: "deliveries_ok d"
  shows "deliveries_next d (snd (heartbeat_delivery d lease secs now))"
proof (cases "holds_delivery d lease")
  case True
  then obtain r where r: "tget pd_id (dl_delivery_id lease) (provider_deliveries d) = Some r"
    "owns_delivery r lease" by (auto simp: holds_delivery_def split: option.splits)
  let ?f = "\<lambda>r. r\<lparr>pd_heartbeat_at := Some now,
                    pd_lease_expires_at := Some (now + timedelta_seconds secs)\<rparr>"
  have "deliveries_next d (update_delivery (dl_delivery_id lease) ?f d)"
    by (rule deliveries_next_silent [OF ok r(1) update_delivery_frame(2,1)])
      (use owned_open [OF r(2)] in \<open>auto simp: delivery_row_ok_def job_open_def\<close>)
  with r show ?thesis by (simp add: heartbeat_delivery_def)
next
  case False
  with ok show ?thesis
    by (auto simp: heartbeat_delivery_def holds_delivery_def deliveries_next_refl split: option.splits)
qed

lemma next_begin:
  assumes ok: "deliveries_ok d" and "lease_phase d lease = Some DS_leased"
  shows "deliveries_next d (snd (begin_delivery d lease adapters now))"
  using assms(2)
proof (cases rule: begin_delivery_cases [where adapters = adapters and now = now])
  case skipped
  with ok show ?thesis by (simp add: deliveries_next_refl)
next
  case (failed r code alert d')
  have r: "tget pd_id (pd_id r) (provider_deliveries d) = Some r"
    using failed(1) tget_Some_key [OF failed(1)] by simp
  have "deliveries_next d d'"
  proof (rule deliveries_next_settle [OF ok r])
    let ?msg = "''Delivery failed validation before the provider adapter was called.''"
    show "provider_deliveries d' = tupd pd_id (pd_id r) (fail_row code ?msg now) (provider_deliveries d)"
      using failed(6) by simp
    show "leads d' = tupd ld_id (pd_lead_id r)
        (\<lambda>l. l\<lparr>ld_status := lead_view (jobs_of d' (pd_lead_id r))\<rparr>) (leads d)"
      using failed(6) by (simp add: jobs_of_def)
    show "job_path (pd_status r) (pd_status (fail_row code ?msg now r))"
      using failed(3) by (intro job_path_step) (simp add: fail_row_def)
  qed (use owned_open [OF failed(2)] in \<open>auto simp: fail_row_def delivery_row_ok_def\<close>)
  with failed(5) show ?thesis by simp
next
  case (sent r request n d')
  have r: "tget pd_id (pd_id r) (provider_deliveries d) = Some r"
    using sent(1) tget_Some_key [OF sent(1)] by simp
  have "deliveries_next d d'"
  proof (rule deliveries_next_silent [OF ok r sent(8,7)])
    show "job_path (pd_status r) (pd_status (r\<lparr>pd_attempt_count := n, pd_status := DS_delivering\<rparr>))"
      using sent(3) by (intro job_path_step) simp
  qed (use owned_open [OF sent(2)] sent(3,6) in
      \<open>auto simp: delivery_row_ok_def job_open_def CANCELLABLE_STATUSES_def\<close>)
  with sent(5) show ?thesis by simp
qed

lemma settlement_row:
  assumes "settlement r m f" "pd_status r = DS_delivering"
  shows "pd_lead_id (f x) = pd_lead_id x" "delivery_row_ok r \<Longrightarrow> delivery_row_ok (f r)"
    "job_path (pd_status r) (pd_status (f r))"
proof -
  from assms show "job_path (pd_status r) (pd_status (f r))"
    by (intro job_path_step)
      (auto elim!: settlement.cases simp: fail_row_def delivered_row_def retry_row_def)
qed (use assms in \<open>auto elim!: settlement.cases
       simp: delivery_row_ok_def fail_row_def delivered_row_def retry_row_def\<close>)

lemma next_finish:
  assumes ok: "deliveries_ok d" and "lease_phase d lease = Some DS_delivering"
  shows "deliveries_next d (snd (finish_delivery d lease n reply base mx now))"
  using assms(2)
proof (cases rule: finish_delivery_cases [where n = n and reply = reply and base = base and mx = mx
      and now = now])
  case skipped
  with ok show ?thesis by (simp add: deliveries_next_refl)
next
  case (finished r f)
  have r: "tget pd_id (pd_id r) (provider_deliveries d) = Some r"
    using finished(1) tget_Some_key [OF finished(1)] by simp
  show ?thesis
    by (rule deliveries_next_settle [OF ok r settled_tables(1) [OF finished(5)]])
      (use finished settled_tables(2) [OF finished(5)] settlement_row [OF finished(4,3)] in
        \<open>simp_all add: jobs_of_def settlement_id settlement_row owned_open\<close>)
qed

lemma next_recover_row:
  assumes ok: "deliveries_ok d" and r: "tget pd_id (pd_id r) (provider_deliveries d) = Some r"
    and active: "pd_status r \<in> set ACTIVE_DELIVERY_STATUSES"
  shows "deliveries_next d (recover_delivery m r d)"
proof (rule deliveries_next_settle [OF ok r recover_delivery_tables])
  show "job_path (pd_status r) (pd_status (recover_delivery_row m r))"
    using active by (intro job_path_step)
      (auto simp: recover_delivery_row_def ACTIVE_DELIVERY_STATUSES_def)
qed (use active in \<open>auto simp: recover_delivery_row_def delivery_row_ok_def job_open_def
       ACTIVE_DELIVERY_STATUSES_def CANCELLABLE_STATUSES_def\<close>)

lemma next_recover_rows:
  assumes "deliveries_ok d" "distinct (map pd_id rows)"
    and "\<And>r. r \<in> set rows \<Longrightarrow> tget pd_id (pd_id r) (provider_deliveries d) = Some r \<and>
      pd_status r \<in> set ACTIVE_DELIVERY_STATUSES"
  shows "deliveries_next d (fold (recover_delivery m) rows d)"
  using assms
proof (induction rows arbitrary: d)
  case Nil
  then show ?case by (simp add: deliveries_next_refl)
next
  case (Cons r rows)
  let ?d = "recover_delivery m r d"
  have step: "deliveries_next d ?d" using Cons.prems by (intro next_recover_row) auto
  have "deliveries_next ?d (fold (recover_delivery m) rows ?d)"
  proof (rule Cons.IH)
    show "deliveries_ok ?d" using step by (simp add: deliveries_next_def)
    show "distinct (map pd_id rows)" using Cons.prems by simp
    show "tget pd_id (pd_id x) (provider_deliveries ?d) = Some x \<and>
        pd_status x \<in> set ACTIVE_DELIVERY_STATUSES" if "x \<in> set rows" for x
    proof -
      have "pd_id x \<noteq> pd_id r" using imageI [OF that, of pd_id] Cons.prems(2) by auto
      with that Cons.prems(3) [of x] show ?thesis
        by (simp add: recover_delivery_tables tget_tupd_if)
    qed
  qed
  with step show ?case by (auto intro: deliveries_next_trans)
qed

lemma next_recover:
  assumes ok: "deliveries_ok d"
  shows "deliveries_next d (snd (recover_stale_deliveries d secs now))"
proof -
  let ?rows = "sort_key pd_id (filter (stale_delivery now (now - timedelta_seconds secs))
    (provider_deliveries d))"
  have dist: "keys_distinct pd_id (provider_deliveries d)" using ok by (simp add: deliveries_ok_def)
  have "deliveries_next d (fold (recover_delivery now) ?rows d)"
  proof (rule next_recover_rows [OF ok])
    show "distinct (map pd_id ?rows)"
      using dist by (auto simp: keys_distinct_def distinct_map intro: inj_on_subset)
  qed (use tget_in_set [OF dist] in \<open>auto simp: stale_delivery_def\<close>)
  then show ?thesis by (simp add: recover_stale_deliveries_def Let_def)
qed

lemma anonymize_delivery_row:
  "delivery_row_ok r \<Longrightarrow> delivery_row_ok (anonymize_delivery now r)"
  "job_path (pd_status r) (pd_status (anonymize_delivery now r))"
proof -
  show "delivery_row_ok (anonymize_delivery now r)" if "delivery_row_ok r"
    using that by (auto simp: delivery_row_ok_def anonymize_delivery_def Let_def CANCELLABLE_STATUSES_def)
  show "job_path (pd_status r) (pd_status (anonymize_delivery now r))"
    by (cases "pd_status r") (auto simp: anonymize_delivery_def Let_def CANCELLABLE_STATUSES_def
        intro: job_path_step)
qed

lemma next_anonymize:
  assumes ok: "deliveries_ok d"
  shows "deliveries_next d (anonymize i now d)"
proof (rule deliveries_next_map [OF ok, of _ "\<lambda>r. if pd_lead_id r = i then anonymize_delivery now r else r"
      "\<lambda>l. if ld_id l = i then anonymize_lead_row now l else l"])
  let ?g = "\<lambda>r. if pd_lead_id r = i then anonymize_delivery now r else r"
  show "lead_consistent (map ?g (jobs_of d (ld_id l))) (if ld_id l = i then anonymize_lead_row now l else l)"
    if c: "lead_consistent (jobs_of d (ld_id l)) l" for l
  proof (cases "ld_id l = i")
    case True
    then show ?thesis by (auto simp: lead_consistent_def list_ex_iff jobs_of_def)
  next
    case False
    then have "map ?g (jobs_of d (ld_id l)) = jobs_of d (ld_id l)"
      by (intro map_idI) (auto simp: jobs_of_def)
    with c False show ?thesis by simp
  qed
qed (simp_all add: map_where_def tupd_def anonymize_delivery_row)

lemma next_retention:
  assumes "deliveries_ok d"
  shows "deliveries_next d (snd (enforce_retention d now))"
proof -
  have "deliveries_next d (fold (\<lambda>i. anonymize i now) ids d)" for ids
    using assms
  proof (induction ids arbitrary: d)
    case Nil
    then show ?case by (simp add: deliveries_next_refl)
  next
    case (Cons i ids)
    have step: "deliveries_next d (anonymize i now d)" using Cons.prems by (rule next_anonymize)
    then have "deliveries_next (anonymize i now d) (fold (\<lambda>i. anonymize i now) ids (anonymize i now d))"
      by (intro Cons.IH) (simp add: deliveries_next_def)
    with step show ?case by (auto intro: deliveries_next_trans)
  qed
  then show ?thesis by (simp add: enforce_retention_def Let_def)
qed

lemma next_append:
  assumes ok: "deliveries_ok d" and d': "leads d' = leads d @ [l]"
      "provider_deliveries d' = provider_deliveries d @ new"
    and fresh: "tget ld_id (ld_id l) (leads d) = None" "keys_distinct pd_id (provider_deliveries d')"
    and new: "\<And>r. r \<in> set new \<Longrightarrow> delivery_row_ok r \<and> pd_lead_id r = ld_id l"
    and l: "lead_consistent new l"
  shows "deliveries_next d d'"
proof -
  have none: "ld_id l \<notin> ld_id ` set (leads d)" using fresh(1) by (simp add: tget_None_iff)
  have "pd_lead_id r \<noteq> ld_id l" if "r \<in> set (provider_deliveries d)" for r
  proof -
    have "pd_lead_id r \<in> ld_id ` set (leads d)" using that ok by (simp add: deliveries_ok_def)
    with none show ?thesis by metis
  qed
  then have old: "jobs_of d (ld_id l) = []" by (simp add: jobs_of_def filter_empty_conv)
  have jobs: "jobs_of d' i = jobs_of d i @ (if i = ld_id l then new else [])" for i
    using new by (auto simp: jobs_of_def d'(2) filter_empty_conv filter_id_conv)
  have "lead_consistent (jobs_of d' (ld_id x)) x" if x: "x \<in> set (leads d')" for x
  proof (cases "x \<in> set (leads d)")
    case True
    then have "ld_id x \<noteq> ld_id l" using none by (metis imageI)
    with True ok show ?thesis by (simp add: jobs deliveries_ok_def)
  next
    case False
    with x l old show ?thesis by (simp add: jobs d'(1))
  qed
  moreover have "delivery_row_ok r \<and> pd_lead_id r \<in> ld_id ` set (leads d')"
    if "r \<in> set (provider_deliveries d')" for r
    using that ok new by (auto simp: d' deliveries_ok_def)
  moreover have "keys_distinct ld_id (leads d')"
    using ok none by (simp add: d'(1) deliveries_ok_def keys_distinct_append)
  ultimately have "deliveries_ok d'" using fresh(2) by (simp add: deliveries_ok_def)
  then show ?thesis
    by (auto simp: deliveries_next_def job_state_def d' tget_append split: option.splits)
qed

lemma submission_lead_consistent:
  assumes "status = submission_status assessment assignment channels"
  shows "lead_consistent (if status = LS_routing
      then map (new_delivery policy cx ids i) channels else [])
    (new_lead env form cx ids profile assignment status)"
  using assms
  by (cases channels) (auto simp: lead_consistent_def new_lead_def lead_view_def submission_status_def list_ex_iff
      job_open_def CANCELLABLE_STATUSES_def split: if_splits)

lemma next_store:
  assumes ok: "deliveries_ok d" and policy: "policy_valid (in_policy env)"
    and fresh: "\<not> ids_clash d ids (submission_status assessment assignment
        (routable_channels (in_adapters env) assignment)) (routable_channels (in_adapters env) assignment)"
  shows "deliveries_next d (store_submission env form cx ids profile assignment assessment d)"
proof -
  let ?ch = "routable_channels (in_adapters env) assignment"
  let ?st = "submission_status assessment assignment ?ch"
  let ?new = "if ?st = LS_routing
      then map (new_delivery (in_policy env) cx ids (pa_id (the assignment))) ?ch else []"
  let ?l = "new_lead env form cx ids profile assignment ?st"
  note tables = store_submission_tables [of env form cx ids profile assignment assessment d]
  have id: "ld_id ?l = si_lead_id ids" by (simp add: new_lead_def)
  show ?thesis
  proof (rule next_append [OF ok tables(1,3)])
    show "tget ld_id (ld_id ?l) (leads d) = None" using fresh id by (simp add: ids_clash_def)
    show "keys_distinct pd_id (provider_deliveries
        (store_submission env form cx ids profile assignment assessment d))"
    proof -
      have "distinct (map pd_id (provider_deliveries d))"
        using ok by (simp add: deliveries_ok_def keys_distinct_def)
      moreover have "distinct (map pd_id ?new)"
        using fresh by (simp add: ids_clash_def comp_def)
      moreover have "set (map pd_id (provider_deliveries d)) \<inter> set (map pd_id ?new) = {}"
        using fresh by (auto simp: ids_clash_def list_ex_iff tget_None_iff) force+
      ultimately show ?thesis unfolding tables(3) keys_distinct_def map_append distinct_append by blast
    qed
    show "delivery_row_ok r \<and> pd_lead_id r = ld_id ?l" if "r \<in> set ?new" for r
    proof -
      have "0 < lp_maximum_delivery_attempts (in_policy env)" using policy by (simp add: policy_valid_def)
      with that show ?thesis by (auto simp: new_lead_def delivery_row_ok_def split: if_splits)
    qed
  qed (rule submission_lead_consistent [OF refl])
qed

lemma next_intake:
  assumes ok: "deliveries_ok d" and step: "delivery_step d (IntakeRequest opn) = Inr d'"
  shows "deliveries_next d d'"
proof (cases opn)
  case (Submission env seen limiter raw cx ids)
  with step have "intake_step d (Submission env seen limiter raw cx ids) = Inr d'"
    and policy: "policy_valid (in_policy env)"
    by (auto split: if_splits simp del: intake_step.simps)
  then show ?thesis
  proof (cases rule: intake_step_cases)
    case same
    with ok show ?thesis by (simp add: deliveries_next_refl)
  next
    case (stored form profile assignment assessment)
    with next_store [OF ok policy] show ?thesis by simp
  qed
qed

lemma delivery_step_next:
  assumes ok: "deliveries_ok d" and step: "delivery_step d opn = Inr d'"
  shows "deliveries_next d d'"
proof (cases opn)
  case (ClaimDelivery lease secs now)
  with step next_claim [OF ok] show ?thesis by auto
next
  case (HeartbeatDelivery lease secs now)
  with step next_heartbeat [OF ok] show ?thesis by auto
next
  case (BeginDelivery lease adapters now)
  with step next_begin [OF ok] deliveries_next_refl [OF ok] show ?thesis by (auto split: if_splits)
next
  case (FinishDelivery lease n reply base mx now)
  with step next_finish [OF ok] deliveries_next_refl [OF ok] show ?thesis by (auto split: if_splits)
next
  case (RecoverDeliveries secs now)
  with step next_recover [OF ok] show ?thesis by auto
next
  case (DeleteLead i access now)
  with step next_anonymize [OF ok] deliveries_next_refl [OF ok] show ?thesis
    by (auto simp: delete_lead_def split: option.splits)
next
  case (EnforceRetention now)
  with step next_retention [OF ok] show ?thesis by auto
next
  case (IntakeRequest x)
  with step next_intake [OF ok] show ?thesis by simp
qed

interpretation deliveries: invariant_lifecycle delivery_step deliveries_ok job_state
  DELIVERY_TRANSITIONS
  by unfold_locales
    (use delivery_step_next in \<open>fastforce simp: deliveries_next_def job_path_def\<close>)+

section \<open>Properties of deliveries\<close>

lemma lost_lease_refused:
  assumes "\<not> holds_delivery d l"
  shows "begin_delivery d l adapters now = (BeginSkipped, d)"
    "finish_delivery d l n reply base mx now = (None, d)"
    "heartbeat_delivery d l secs now = (False, d)"
  using assms
  by (auto simp: holds_delivery_def begin_delivery_def finish_delivery_def heartbeat_delivery_def
      split: option.splits)

text \<open>
  delivery leases fence workers. A worker that does not hold the lease of a delivery job
  (it expired and was recovered, or the lead was deleted) never starts, finishes or
  heartbeats the job again, whatever other workers, recovery, deletion, retention and intake
  do meanwhile, unless a claim grants it exactly this lease; and two different leases never
  hold one job.
\<close>

theorem delivery_lease_fencing:
  assumes "\<not> holds_delivery d l" "\<forall>opn \<in> set ops. \<not> grants_delivery opn l"
  shows "let d' = run_requests delivery_step d ops in
    begin_delivery d' l adapters now = (BeginSkipped, d') \<and>
    finish_delivery d' l n reply base mx now = (None, d') \<and>
    heartbeat_delivery d' l secs now = (False, d') \<and>
    (\<forall>l1 l2. holds_delivery d' l1 \<longrightarrow> holds_delivery d' l2 \<longrightarrow>
       dl_delivery_id l1 = dl_delivery_id l2 \<longrightarrow> l1 = l2)"
proof -
  have "\<not> holds_delivery (run_requests delivery_step d ops) l"
    by (rule delivery_leases.fenced) (use assms in auto)
  then show ?thesis
    by (simp add: Let_def lost_lease_refused delivery_leases.exclusive)
qed

text \<open>
  C7: a finished delivery is never sent again. Once a job is delivered, failed, cancelled or
  of unknown outcome (its worker was lost during the provider call), it stays so through every
  later history; no worker can claim it and none can start it.
\<close>

theorem delivery_never_resent:
  assumes "deliveries_ok d" "job_state d k = Some s"
    and "s \<in> {DS_delivered, DS_failed, DS_outcome_unknown, DS_cancelled}"
    and "dl_delivery_id lease = k"
  shows "let d' = run_requests delivery_step d ops in
    job_state d' k = Some s \<and> try_claim_delivery d' lease secs now = (False, d') \<and>
    begin_delivery d' lease adapters now = (BeginSkipped, d')"
proof -
  let ?d = "run_requests delivery_step d ops"
  have s: "job_state ?d k = Some s"
    by (rule deliveries.terminal_absorbing [OF assms(1,2)]) (use assms(3) in auto)
  then obtain r where r: "tget pd_id k (provider_deliveries ?d) = Some r" "pd_status r = s"
    by (auto simp: job_state_def)
  with assms(3,4) have "try_claim_delivery ?d lease secs now = (False, ?d)"
    by (auto simp: try_claim_delivery_def CLAIMABLE_DELIVERY_STATUSES_def)
  moreover from r assms(3,4) have "\<not> holds_delivery ?d lease"
    by (auto simp: holds_delivery_def owns_delivery_def ACTIVE_DELIVERY_STATUSES_def)
  ultimately show ?thesis using s by (simp add: Let_def lost_lease_refused)
qed

text \<open>
  attempts are bounded. Through every history of claims, deliveries, recoveries and
  submissions no job is attempted more often than its limit, so the adapter is never called
  with an attempt number above it.
\<close>

theorem delivery_attempts_bounded:
  assumes "deliveries_ok d"
  shows "let d' = run_requests delivery_step d ops in
    (\<forall>r \<in> set (provider_deliveries d'). pd_attempt_count r \<le> pd_max_attempts r) \<and>
    (\<forall>lease adapters now q n d2. lease_phase d' lease = Some DS_leased \<longrightarrow>
       begin_delivery d' lease adapters now = (BeginSend q n, d2) \<longrightarrow>
       (\<exists>r \<in> set (provider_deliveries d'). pd_id r = dl_delivery_id lease \<and>
          n = pd_attempt_count r + 1 \<and> n \<le> pd_max_attempts r))"
proof -
  let ?d = "run_requests delivery_step d ops"
  have rows: "delivery_row_ok r" if "r \<in> set (provider_deliveries ?d)" for r
    using that deliveries.run_inv [OF assms, of ops] by (simp add: deliveries_ok_def)
  have "\<exists>r \<in> set (provider_deliveries ?d). pd_id r = dl_delivery_id lease \<and>
      n = pd_attempt_count r + 1 \<and> n \<le> pd_max_attempts r"
    if "lease_phase ?d lease = Some DS_leased"
      "begin_delivery ?d lease adapters now = (BeginSend q n, d2)" for lease adapters now q n d2
    using that(1)
  proof (cases rule: begin_delivery_cases [where adapters = adapters and now = now])
    case (sent r request m d')
    with that(2) tget_Some_key [OF sent(1)] rows [of r] show ?thesis
      by (intro bexI [of _ r]) (auto simp: delivery_row_ok_def)
  qed (use that(2) in auto)
  with rows show ?thesis by (auto simp: Let_def delivery_row_ok_def)
qed

text \<open>
  C9: a lead's status refines the state of its jobs. In every history of worker steps, deletions,
  retention and submissions the stored status of a lead that is neither deleted nor spam is the
  function \<open>lead_view\<close> of its delivery jobs: routing while one is open, delivered when none is open
  and one was delivered, failed otherwise. A deleted lead has the status deleted and no open job, and
  a spam lead has no jobs at all.
\<close>

theorem lead_status_refines_jobs:
  assumes "deliveries_ok d"
  shows "let d' = run_requests delivery_step d ops in
    \<forall>l \<in> set (leads d'). if ld_pii_deleted_at l \<noteq> None
      then ld_status l = LS_deleted \<and> \<not> list_ex job_open (jobs_of d' (ld_id l))
      else if ld_status l = LS_spam then jobs_of d' (ld_id l) = []
      else ld_status l = lead_view (jobs_of d' (ld_id l))"
  using deliveries.run_inv [OF assms, of ops]
  by (auto simp: Let_def deliveries_ok_def lead_consistent_def pii_free_def split: if_splits)

text \<open>What a started delivery was checked against.\<close>

lemma begin_send_checked:
  assumes "begin_delivery d lease adapters now = (BeginSend q n, d')"
  obtains r l a x where
    "tget pd_id (dl_delivery_id lease) (provider_deliveries d) = Some r" "owns_delivery r lease"
    "tget ld_id (pd_lead_id r) (leads d) = Some l" "dq_lead_id q = pd_lead_id r"
    "tget pa_id (pd_provider_assignment_id r) (provider_assignments d) = Some a"
    "pa_status a = PA_active" "ld_provider_assignment_id l = Some (pa_id a)"
    "adapters (pd_channel r) = Some (pd_adapter_name r)"
    "assignment_destination (Some a) (pd_channel r) = Some x" "dq_destination q = x"
    "masked_destination x = pd_destination_reference r" "dq_delivery_key q = pd_delivery_key r"
    "dq_contact_email q = ld_email l" "dq_contact_phone q = ld_phone l"
    "dq_provider_assignment_id q = pa_id a" "dq_property_id q = ld_property_id l"
proof -
  from assms obtain r where r: "tget pd_id (dl_delivery_id lease) (provider_deliveries d) = Some r"
    "owns_delivery r lease" and e: "delivery_error_code d adapters r = None"
    by (auto simp: begin_delivery_def split: option.splits if_splits prod.splits)
  from e obtain l a where l: "tget ld_id (pd_lead_id r) (leads d) = Some l"
    and a: "tget pa_id (pd_provider_assignment_id r) (provider_assignments d) = Some a"
    by (auto simp: delivery_error_code_def Let_def)
  from e l a obtain x where
    x: "pa_status a = PA_active" "ld_provider_assignment_id l = Some (pa_id a)"
      "adapters (pd_channel r) = Some (pd_adapter_name r)"
      "assignment_destination (Some a) (pd_channel r) = Some x"
      "masked_destination x = pd_destination_reference r"
    by (auto simp: delivery_error_code_def Let_def)
  have q: "dq_lead_id q = pd_lead_id r" "dq_destination q = x" "dq_delivery_key q = pd_delivery_key r"
    "dq_contact_email q = ld_email l" "dq_contact_phone q = ld_phone l"
    "dq_provider_assignment_id q = pa_id a" "dq_property_id q = ld_property_id l"
    using assms r e l a x tget_Some_key [OF l] tget_Some_key [OF a]
    by (auto simp: begin_delivery_def Let_def)
  show ?thesis by (rule that [OF r l q(1) a x(1-4) q(2) x(5) q(3-7)])
qed

text \<open>
  C10: contact data only goes to the provider it is meant for. A delivery is started only
  by the worker that holds the job's lease, for a stored lead that is bound to the job's
  assignment, while that assignment is active; the destination is the assignment's current
  one and its masked form is the one recorded when the job was created, and the request carries the
  lead's own contact data under the job's delivery key. (A changed destination with the same
  masked form is not noticed, see \<open>masked_destination_collides\<close>.)
\<close>

theorem delivery_sends_validated:
  assumes "begin_delivery d lease adapters now = (BeginSend q n, d')"
  shows "\<exists>r l a. tget pd_id (dl_delivery_id lease) (provider_deliveries d) = Some r \<and>
    owns_delivery r lease \<and> tget ld_id (dq_lead_id q) (leads d) = Some l \<and>
    tget pa_id (dq_provider_assignment_id q) (provider_assignments d) = Some a \<and>
    pa_status a = PA_active \<and> ld_provider_assignment_id l = Some (pa_id a) \<and>
    assignment_destination (Some a) (pd_channel r) = Some (dq_destination q) \<and>
    masked_destination (dq_destination q) = pd_destination_reference r \<and>
    dq_delivery_key q = pd_delivery_key r \<and> dq_contact_email q = ld_email l \<and>
    dq_contact_phone q = ld_phone l \<and> dq_property_id q = ld_property_id l"
proof -
  from assms obtain r l a x where
    *: "tget pd_id (dl_delivery_id lease) (provider_deliveries d) = Some r" "owns_delivery r lease"
    "tget ld_id (pd_lead_id r) (leads d) = Some l" "dq_lead_id q = pd_lead_id r"
    "tget pa_id (pd_provider_assignment_id r) (provider_assignments d) = Some a"
    "pa_status a = PA_active" "ld_provider_assignment_id l = Some (pa_id a)"
    "adapters (pd_channel r) = Some (pd_adapter_name r)"
    "assignment_destination (Some a) (pd_channel r) = Some x" "dq_destination q = x"
    "masked_destination x = pd_destination_reference r" "dq_delivery_key q = pd_delivery_key r"
    "dq_contact_email q = ld_email l" "dq_contact_phone q = ld_phone l"
    "dq_provider_assignment_id q = pa_id a" "dq_property_id q = ld_property_id l"
    by (rule begin_send_checked)
  moreover have "pa_id a = pd_provider_assignment_id r" using tget_Some_key [OF *(5)] by simp
  ultimately show ?thesis by auto
qed

lemma deletion_kept:
  assumes "deliveries_ok d" "tget ld_id i (leads d) = Some l" "ld_pii_deleted_at l \<noteq> None"
  shows "\<exists>l'. tget ld_id i (leads (run_requests delivery_step d ops)) = Some l' \<and>
    ld_pii_deleted_at l' \<noteq> None"
  using assms
proof (induction ops arbitrary: d l)
  case Nil
  then show ?case by simp
next
  case (Cons opn ops)
  show ?case
  proof (cases "delivery_step d opn")
    case (Inl e)
    with Cons show ?thesis by simp
  next
    case (Inr d')
    have next_d: "deliveries_next d d'" by (rule delivery_step_next [OF Cons.prems(1) Inr])
    with Cons.prems(2,3) obtain l' where
      "tget ld_id i (leads d') = Some l'" "ld_pii_deleted_at l' \<noteq> None"
      unfolding deliveries_next_def by blast
    with next_d Inr Cons.IH [of d' l'] show ?thesis by (simp add: deliveries_next_def)
  qed
qed

text \<open>
  C8: a deleted lead is never sent. After a lead is deleted, in every later history
  its row holds no contact data, and no delivery that is started is for it.
\<close>

theorem deleted_lead_never_sent:
  assumes "deliveries_ok d" "delete_lead d i access t = Inr (True, d1)"
  shows "let d' = run_requests delivery_step d1 ops in
    (\<exists>l. tget ld_id i (leads d') = Some l \<and> pii_free l) \<and>
    (\<forall>lease adapters now q n d2. begin_delivery d' lease adapters now = (BeginSend q n, d2) \<longrightarrow>
       dq_lead_id q \<noteq> i)"
proof -
  let ?d = "run_requests delivery_step d1 ops"
  from assms(2) obtain l where l: "tget ld_id i (leads d) = Some l" and d1: "d1 = anonymize i t d"
    by (auto simp: delete_lead_def split: option.splits)
  have ok1: "deliveries_ok d1" using next_anonymize [OF assms(1)] by (simp add: d1 deliveries_next_def)
  have "tget ld_id i (leads d1) = Some (anonymize_lead_row t l)"
    using l by (simp add: d1 tget_tupd_if)
  with deletion_kept [OF ok1, of i "anonymize_lead_row t l" ops] obtain l' where
    l': "tget ld_id i (leads ?d) = Some l'" "ld_pii_deleted_at l' \<noteq> None" by auto
  have ok: "deliveries_ok ?d" by (rule deliveries.run_inv [OF ok1])
  with l' tget_Some_key [OF l'(1)] have c: "lead_consistent (jobs_of ?d i) l'"
    by (auto simp: deliveries_ok_def)
  then have free: "pii_free l'" and closed: "\<not> list_ex job_open (jobs_of ?d i)"
    using l'(2) by (auto simp: lead_consistent_def)
  have "dq_lead_id q \<noteq> i" if "begin_delivery ?d lease adapters now = (BeginSend q n, d2)"
    for lease adapters now q n d2
  proof -
    from that obtain r where
      r: "tget pd_id (dl_delivery_id lease) (provider_deliveries ?d) = Some r"
        "owns_delivery r lease" "dq_lead_id q = pd_lead_id r" by (rule begin_send_checked)
    with closed owned_open [OF r(2)] tget_Some_key [OF r(1)] show ?thesis
      by (auto simp: jobs_of_def list_ex_iff)
  qed
  with l'(1) free show ?thesis unfolding Let_def by blast
qed

lemma claim_from_head:
  assumes "try_claim_delivery d \<lparr>dl_delivery_id = i, dl_worker_id = w, dl_lease_token = token i\<rparr> secs now =
    (True, d')"
  shows "claim_delivery_from (i # ids) d w token secs now =
    (Some \<lparr>dl_delivery_id = i, dl_worker_id = w, dl_lease_token = token i\<rparr>, d')"
  using assms by (simp add: Let_def)

text \<open>
  due jobs are claimed. A poll hands out a lease exactly when a pending or retrying job
  is due; the leased job was due, is the first in the order of the next attempt and the
  identifier, and is held under the returned lease afterwards.
\<close>

theorem due_delivery_claimed:
  assumes "keys_distinct pd_id (provider_deliveries d)"
  shows "case claim_next_delivery d w token secs now of
      (None, d') \<Rightarrow> d' = d \<and> (\<forall>r \<in> set (provider_deliveries d).
        \<not> (pd_status r \<in> {DS_pending, DS_retrying} \<and> delivery_due now r))
    | (Some lease, d') \<Rightarrow> holds_delivery d' lease \<and>
        (\<exists>r \<in> set (provider_deliveries d). pd_id r = dl_delivery_id lease \<and>
           pd_status r \<in> {DS_pending, DS_retrying} \<and> delivery_due now r \<and>
           (\<forall>x \<in> set (provider_deliveries d). pd_status x \<in> {DS_pending, DS_retrying} \<longrightarrow>
              delivery_due now x \<longrightarrow>
              (null_low (pd_next_attempt_at r), pd_id r) \<le> (null_low (pd_next_attempt_at x), pd_id x)))"
proof -
  let ?due = "\<lambda>r. pd_status r \<in> {DS_pending, DS_retrying} \<and> delivery_due now r"
  let ?key = "\<lambda>r. (null_low (pd_next_attempt_at r), pd_id r)"
  let ?rows = "sort_key ?key (filter ?due (provider_deliveries d))"
  have ids: "claimable_ids d now = take 10 (map pd_id ?rows)"
    by (simp add: claimable_ids_def CLAIMABLE_DELIVERY_STATUSES_def)
  show ?thesis
  proof (cases ?rows)
    case Nil
    then have "set ?rows = {}" by simp
    then have "\<forall>r \<in> set (provider_deliveries d). \<not> ?due r" by (simp add: filter_empty_conv)
    with Nil show ?thesis by (simp add: claim_next_delivery_def ids)
  next
    case (Cons r rows)
    then have "r \<in> set ?rows" by simp
    then have r: "r \<in> set (provider_deliveries d)" "?due r" by simp_all
    have "sorted (map ?key (r # rows))" unfolding Cons [symmetric] by (rule sorted_sort_key)
    then have first: "?key r \<le> ?key x" if "x \<in> set (provider_deliveries d)" "?due x" for x
    proof -
      have "x \<in> set (r # rows)" using that unfolding Cons [symmetric] by simp
      with \<open>sorted (map ?key (r # rows))\<close> show ?thesis by auto
    qed
    let ?lease = "\<lparr>dl_delivery_id = pd_id r, dl_worker_id = w, dl_lease_token = token (pd_id r)\<rparr>"
    let ?d = "update_delivery (pd_id r) (claim_delivery_row ?lease secs now) d"
    have get: "tget pd_id (pd_id r) (provider_deliveries d) = Some r"
      by (rule tget_in_set [OF assms r(1)])
    with r(2) have "try_claim_delivery d ?lease secs now = (True, ?d)"
      by (auto simp: try_claim_delivery_def CLAIMABLE_DELIVERY_STATUSES_def)
    moreover have "claimable_ids d now = pd_id r # take 9 (map pd_id rows)"
      unfolding ids Cons by simp
    ultimately have "claim_next_delivery d w token secs now = (Some ?lease, ?d)"
      by (simp add: claim_next_delivery_def claim_from_head del: claim_delivery_from.simps)
    moreover have "holds_delivery ?d ?lease"
      using get by (simp add: holds_delivery_def tget_tupd_if claim_delivery_row_def owns_delivery_def
          ACTIVE_DELIVERY_STATUSES_def)
    ultimately show ?thesis using r first by auto
  qed
qed

section \<open>A concrete delivery\<close>

definition sample_delivery_lease :: delivery_lease where
  "sample_delivery_lease =
     \<lparr>dl_delivery_id = ''D-email'', dl_worker_id = ''w1'', dl_lease_token = ''t1''\<rparr>"

definition claimed_leads_db :: database where
  "claimed_leads_db = snd (try_claim_delivery sample_leads_db sample_delivery_lease 30 (10 ^ 12))"

definition lost_delivery_db :: database where
  "lost_delivery_db = run_requests delivery_step claimed_leads_db
     [BeginDelivery sample_delivery_lease (in_adapters sample_intake) (10 ^ 12) :: limiter delivery_op,
      RecoverDeliveries 30 (2 * 10 ^ 12)]"

text \<open>One evaluation of the sample: the claim, the deletion, and a lease lost to recovery.\<close>

lemma sample_deliveries_evaluate:
  "let s = sample_leads_db;
       c = snd (try_claim_delivery s sample_delivery_lease 30 (10 ^ 12));
       l = run_requests delivery_step c
         [BeginDelivery sample_delivery_lease (in_adapters sample_intake) (10 ^ 12) :: limiter delivery_op,
          RecoverDeliveries 30 (2 * 10 ^ 12)];
       r = delete_lead c ''L1'' sample_operator 500
   in deliveries_ok s \<and> deliveries_ok c \<and> deliveries_ok l \<and> keys_distinct pd_id (provider_deliveries s) \<and>
      fst (claim_next_delivery s ''w1'' (\<lambda>_. ''t1'') 30 (10 ^ 12)) = Some sample_delivery_lease \<and>
      \<not> holds_delivery l sample_delivery_lease \<and> job_state l ''D-email'' = Some DS_outcome_unknown \<and>
      map (\<lambda>l. (ld_id l, ld_pii_deleted_at l, ld_status l)) (leads l) = [(''L1'', None, LS_routing)] \<and>
      (case fst (begin_delivery c sample_delivery_lease (in_adapters sample_intake) 0) of
         BeginSend q n \<Rightarrow> dq_destination q = ''a@x.co'' | _ \<Rightarrow> False) \<and>
      \<not> isl r \<and> fst (projr r)"
  by code_simp

lemmas sample_deliveries = sample_deliveries_evaluate
  [unfolded Let_def, folded claimed_leads_db_def, folded lost_delivery_db_def]

lemma sample_leads_ok: "deliveries_ok sample_leads_db"
  using sample_deliveries by blast

theorem delivery_lease_fencing_witness:
  "heartbeat_delivery lost_delivery_db sample_delivery_lease 30 0 = (False, lost_delivery_db)"
proof -
  have "\<not> holds_delivery lost_delivery_db sample_delivery_lease" using sample_deliveries by blast
  from delivery_lease_fencing [OF this, of "[]"] show ?thesis by (simp add: Let_def)
qed

theorem delivery_attempts_bounded_witness:
  "list_all (\<lambda>r. pd_attempt_count r \<le> pd_max_attempts r) (provider_deliveries lost_delivery_db)"
proof -
  have "deliveries_ok claimed_leads_db" using sample_deliveries by blast
  from delivery_attempts_bounded [OF this] show ?thesis
    unfolding Let_def lost_delivery_db_def list_all_iff by blast
qed

theorem due_delivery_claimed_witness:
  "holds_delivery (snd (claim_next_delivery sample_leads_db ''w1'' (\<lambda>_. ''t1'') 30 (10 ^ 12)))
     sample_delivery_lease"
proof -
  have "keys_distinct pd_id (provider_deliveries sample_leads_db)" using sample_deliveries by blast
  note claimed = due_delivery_claimed [OF this, where w = "''w1''" and token = "\<lambda>_. ''t1''"
      and secs = 30 and now = "10 ^ 12"]
  have "fst (claim_next_delivery sample_leads_db ''w1'' (\<lambda>_. ''t1'') 30 (10 ^ 12)) =
    Some sample_delivery_lease" using sample_deliveries by blast
  with claimed show ?thesis by (auto split: prod.splits)
qed

theorem delivery_never_resent_witness:
  "job_state lost_delivery_db ''D-email'' = Some DS_outcome_unknown \<and>
   begin_delivery lost_delivery_db sample_delivery_lease (in_adapters sample_intake) 0 =
     (BeginSkipped, lost_delivery_db)"
proof -
  have "deliveries_ok lost_delivery_db"
    "job_state lost_delivery_db ''D-email'' = Some DS_outcome_unknown" using sample_deliveries by blast+
  from delivery_never_resent [OF this, of sample_delivery_lease "[]"] show ?thesis
    by (simp add: Let_def sample_delivery_lease_def)
qed

theorem lead_status_refines_jobs_witness:
  "map ld_status (leads lost_delivery_db) = [LS_routing] \<and>
   lead_view (jobs_of lost_delivery_db ''L1'') = LS_routing"
proof -
  have ok: "deliveries_ok lost_delivery_db" using sample_deliveries by blast
  have l: "map (\<lambda>l. (ld_id l, ld_pii_deleted_at l, ld_status l)) (leads lost_delivery_db) =
    [(''L1'', None, LS_routing)]" using sample_deliveries by blast
  then obtain l where "leads lost_delivery_db = [l]" "ld_id l = ''L1''" "ld_status l = LS_routing"
    "ld_pii_deleted_at l = None" by (cases "leads lost_delivery_db") auto
  with lead_status_refines_jobs [OF ok, of "[]"] show ?thesis by (simp add: Let_def)
qed

theorem delivery_sends_validated_witness:
  "\<exists>q n d' r. begin_delivery claimed_leads_db sample_delivery_lease (in_adapters sample_intake) 0 =
     (BeginSend q n, d') \<and> owns_delivery r sample_delivery_lease \<and> dq_destination q = ''a@x.co''"
proof -
  let ?b = "begin_delivery claimed_leads_db sample_delivery_lease (in_adapters sample_intake) 0"
  have "case fst ?b of BeginSend q n \<Rightarrow> dq_destination q = ''a@x.co'' | _ \<Rightarrow> False" using sample_deliveries by blast
  then obtain q n where q: "fst ?b = BeginSend q n" "dq_destination q = ''a@x.co''"
    by (auto split: begin_result.splits)
  then have b: "?b = (BeginSend q n, snd ?b)" by (simp add: prod_eq_iff)
  from delivery_sends_validated [OF b] q(2) b show ?thesis by blast
qed

theorem deleted_lead_never_sent_witness:
  "\<exists>d1 l. delete_lead claimed_leads_db ''L1'' sample_operator 500 = Inr (True, d1) \<and>
     tget ld_id ''L1'' (leads d1) = Some l \<and> pii_free l"
proof -
  let ?r = "delete_lead claimed_leads_db ''L1'' sample_operator 500"
  have ok: "deliveries_ok claimed_leads_db" using sample_deliveries by blast
  have "\<not> isl ?r \<and> fst (projr ?r)" using sample_deliveries by blast
  then obtain d1 where d1: "?r = Inr (True, d1)" by (cases ?r) auto
  with deleted_lead_never_sent [OF ok d1, of "[]"] show ?thesis by (auto simp: Let_def)
qed

section \<open>Failures found by recovery\<close>

text \<open>
  Recovery discards the result of \<open>_refresh_lead_state\<close>: when the last open job of a lead
  becomes \<open>outcome_unknown\<close>, the lead is \<open>delivery_failed\<close> but, unlike in \<open>_fail_delivery\<close>, no
  operator alert is produced for it (the sample lead has one job left here).
\<close>

definition single_job_db :: database where
  "single_job_db = claimed_leads_db\<lparr>provider_deliveries :=
     filter (\<lambda>r. pd_id r = ''D-email'') (provider_deliveries claimed_leads_db)\<rparr>"

lemma recovery_fails_lead_silently:
  "let d1 = snd (begin_delivery single_job_db sample_delivery_lease (in_adapters sample_intake) 0);
       d2 = snd (recover_stale_deliveries d1 30 (2 * 10 ^ 12))
   in map ld_status (leads d2) = [LS_delivery_failed] \<and>
      fst (refresh_lead_state ''L1'' 0 d2) \<and>
      fst (finish_delivery d1 sample_delivery_lease 1 ReplyError 30 3600 0) =
        Some (''p1'', ''L1'', ''all_deliveries_failed'')"
  by code_simp

end
