(* ===== verification/Property_Requests.thy ===== *)
theory Property_Requests
  imports Lead_Intake
begin

text \<open>
  \<open>property_workflow/models.py\<close>: the requests of the property workflow and their validators.
  A validator returns the normalized request or \<open>WorkflowValidationError\<close>, where the code
  raises pydantic's \<open>ValidationError\<close>. Dictionaries are association lists.
\<close>

datatype workflow_error =
  PropertyWorkflowError string jobj
| WorkflowValidationError string
| WorkflowRoutingError routing_error
| WorkflowAdapterError string
| WorkflowIntegrityError
| WorkflowAssertionError

text \<open>\<open>token in text\<close>.\<close>

definition py_contains :: "string \<Rightarrow> string \<Rightarrow> bool" where
  "py_contains token text \<longleftrightarrow> 0 < py_count token text"

text \<open>\<open>value\<close> is truthy: no null, no false, no zero and nothing empty.\<close>

fun json_truthy :: "json \<Rightarrow> bool" where
  "json_truthy JNull = False"
| "json_truthy (JBool b) = b"
| "json_truthy (JNum n) = (n \<noteq> 0)"
| "json_truthy (JStr s) = (s \<noteq> [])"
| "json_truthy (JTime t) = True"
| "json_truthy (JList xs) = (xs \<noteq> [])"
| "json_truthy (JObj d) = (d \<noteq> [])"

definition get_truthy :: "jobj \<Rightarrow> string \<Rightarrow> bool" where
  "get_truthy d k = (case jget d k of None \<Rightarrow> False | Some v \<Rightarrow> json_truthy v)"

section \<open>Properties and domains\<close>

record property_create_request =
  pq_neutral_brand :: string
  pq_property_id :: "string option"
  pq_public_tracking_number :: "string option"
  pq_public_contact_email :: "string option"
  pq_analytics_config :: jobj

definition is_lower_alnum :: "char \<Rightarrow> bool" where
  "is_lower_alnum c =
     (let n = (of_char c :: nat) in (97 \<le> n \<and> n \<le> 122) \<or> (48 \<le> n \<and> n \<le> 57))"

text \<open>The pattern \<open>^[a-z0-9][a-z0-9-]*$\<close>.\<close>

fun property_id_pattern :: "string \<Rightarrow> bool" where
  "property_id_pattern [] = False"
| "property_id_pattern (c # s) = (is_lower_alnum c \<and> list_all (\<lambda>x. is_lower_alnum x \<or> x = CHR ''-'') s)"

definition normalize_brand :: "string \<Rightarrow> workflow_error + string" where
  "normalize_brand value =
     (let normalized = join_words (split_words value)
      in guarded [raise_if (list_ex (\<lambda>token. py_contains token (py_lower normalized))
             [''official'', ''licensed contractor'', ''government''])
           (WorkflowValidationError ''neutral_brand'')]
         (Inr normalized))"

definition validate_public_email :: "string option \<Rightarrow> workflow_error + string option" where
  "validate_public_email value =
     (case value of
        None \<Rightarrow> Inr None
      | Some v \<Rightarrow>
          guarded [raise_if (\<not> email_pattern (py_lower (py_strip v)))
              (WorkflowValidationError ''public_contact_email'')]
            (Inr (Some (py_lower (py_strip v)))))"

definition validate_property_create ::
  "property_create_request \<Rightarrow> workflow_error + property_create_request" where
  "validate_property_create raw =
     guarded [
       raise_if (\<not> len_between 3 160 (pq_neutral_brand raw)) (WorkflowValidationError ''neutral_brand''),
       raise_if (case pq_property_id raw of
                   None \<Rightarrow> False
                 | Some i \<Rightarrow> \<not> len_between 3 120 i \<or> \<not> property_id_pattern i)
         (WorkflowValidationError ''property_id''),
       raise_if (\<not> opt_at_most 40 (pq_public_tracking_number raw))
         (WorkflowValidationError ''public_tracking_number''),
       raise_if (\<not> opt_at_most 254 (pq_public_contact_email raw))
         (WorkflowValidationError ''public_contact_email'')]
     (and_then (normalize_brand (pq_neutral_brand raw)) (\<lambda>brand.
      and_then (validate_public_email (pq_public_contact_email raw)) (\<lambda>email.
      Inr (raw\<lparr>pq_neutral_brand := brand, pq_public_contact_email := email\<rparr>))))"

text \<open>A field of an update is \<open>None\<close> when it is not in \<open>model_fields_set\<close>.\<close>

record property_update_request =
  uq_neutral_brand :: "string option option"
  uq_public_tracking_number :: "string option option"
  uq_public_contact_email :: "string option option"
  uq_analytics_config :: "jobj option option"
  uq_reason :: string

definition validate_property_update ::
  "property_update_request \<Rightarrow> workflow_error + property_update_request" where
  "validate_property_update raw =
     guarded [
       raise_if (case uq_neutral_brand raw of Some (Some b) \<Rightarrow> \<not> len_between 3 160 b | _ \<Rightarrow> False)
         (WorkflowValidationError ''neutral_brand''),
       raise_if (case uq_public_tracking_number raw of Some t \<Rightarrow> \<not> opt_at_most 40 t | _ \<Rightarrow> False)
         (WorkflowValidationError ''public_tracking_number''),
       raise_if (case uq_public_contact_email raw of Some e \<Rightarrow> \<not> opt_at_most 254 e | _ \<Rightarrow> False)
         (WorkflowValidationError ''public_contact_email''),
       raise_if (\<not> len_between 3 500 (uq_reason raw)) (WorkflowValidationError ''reason'')]
     (Inr raw)"

record domain_generation_request =
  gq_limit :: int
  gq_tlds :: "string list"

definition is_lower_letter :: "char \<Rightarrow> bool" where
  "is_lower_letter c = (let n = (of_char c :: nat) in 97 \<le> n \<and> n \<le> 122)"

definition normalize_tld :: "string \<Rightarrow> string" where
  "normalize_tld value = dropWhile (\<lambda>c. c = CHR ''.'') (py_lower (py_strip value))"

definition valid_tld :: "string \<Rightarrow> bool" where
  "valid_tld item \<longleftrightarrow> len_between 2 12 item \<and> list_all is_lower_letter item"

text \<open>\<open>list(dict.fromkeys(xs))\<close>: first occurrences in order.\<close>

fun first_occurrences :: "'a list \<Rightarrow> 'a list" where
  "first_occurrences [] = []"
| "first_occurrences (x # xs) = x # filter (\<lambda>y. y \<noteq> x) (first_occurrences xs)"

definition validate_domain_generation ::
  "domain_generation_request \<Rightarrow> workflow_error + domain_generation_request" where
  "validate_domain_generation raw =
     guarded [
       raise_if (\<not> (1 \<le> gq_limit raw \<and> gq_limit raw \<le> 20)) (WorkflowValidationError ''limit''),
       raise_if (\<not> list_all (\<lambda>v. valid_tld (normalize_tld v)) (gq_tlds raw))
         (WorkflowValidationError ''tlds'')]
     (Inr (raw\<lparr>gq_tlds := first_occurrences (map normalize_tld (gq_tlds raw))\<rparr>))"

record manual_registration_request =
  mq_external_reference :: string
  mq_registrar_name :: string
  mq_expected_dns_records :: "(string \<times> string) list"

definition valid_manual_registration :: "manual_registration_request \<Rightarrow> bool" where
  "valid_manual_registration r \<longleftrightarrow>
     len_between 3 240 (mq_external_reference r) \<and> len_between 2 120 (mq_registrar_name r)"

record dns_verification_request =
  vq_observed_records :: "(string \<times> string) list"
  vq_evidence_reference :: string

definition valid_dns_verification :: "dns_verification_request \<Rightarrow> bool" where
  "valid_dns_verification r \<longleftrightarrow> len_between 3 500 (vq_evidence_reference r)"

section \<open>Assets and providers\<close>

record asset_create_request =
  aq_asset_type :: string
  aq_local_path :: "string option"
  aq_source_provider :: string
  aq_source_url :: "string option"
  aq_attribution :: "string option"
  aq_license_metadata :: jobj
  aq_alt_text :: string
  aq_content_sha256 :: "string option"

definition is_hex_lower :: "char \<Rightarrow> bool" where
  "is_hex_lower c = (let n = (of_char c :: nat) in (97 \<le> n \<and> n \<le> 102) \<or> (48 \<le> n \<and> n \<le> 57))"

definition valid_asset_create :: "asset_create_request \<Rightarrow> bool" where
  "valid_asset_create r \<longleftrightarrow>
     len_between 2 80 (aq_asset_type r) \<and> opt_at_most 1000 (aq_local_path r) \<and>
     len_between 2 120 (aq_source_provider r) \<and> opt_at_most 2000 (aq_source_url r) \<and>
     opt_at_most 1000 (aq_attribution r) \<and> len_between 3 500 (aq_alt_text r) \<and>
     (case aq_content_sha256 r of None \<Rightarrow> True
        | Some h \<Rightarrow> length h = 64 \<and> list_all is_hex_lower h) \<and>
     \<not> (aq_local_path r = None \<and> aq_source_url r = None) \<and> aq_license_metadata r \<noteq> []"

record provider_assignment_input =
  iq_provider_candidate_id :: "int option"
  iq_public_business_name :: string
  iq_destination_phone :: "string option"
  iq_destination_email :: "string option"
  iq_logo_asset_id :: "int option"
  iq_hours :: jobj
  iq_service_radius :: jobj
  iq_credentials :: "jobj list"
  iq_license_numbers :: "jobj list"
  iq_approved_claims :: "jobj list"
  iq_attributed_testimonials :: "jobj list"
  iq_provider_photos :: "int list"
  iq_claims_review_reason :: string

definition valid_provider_input :: "provider_assignment_input \<Rightarrow> bool" where
  "valid_provider_input r \<longleftrightarrow>
     len_between 2 240 (iq_public_business_name r) \<and> opt_at_most 40 (iq_destination_phone r) \<and>
     opt_at_most 254 (iq_destination_email r) \<and> len_between 8 1000 (iq_claims_review_reason r) \<and>
     \<not> (iq_destination_phone r = None \<and> iq_destination_email r = None) \<and>
     list_all (\<lambda>t. get_truthy t ''source'' \<and> get_truthy t ''attribution'')
       (iq_attributed_testimonials r) \<and>
     list_all (\<lambda>c. get_truthy c ''source'') (iq_credentials r @ iq_license_numbers r)"

section \<open>Site configurations, builds and deployments\<close>

record site_config_input =
  sq_brand :: jobj
  sq_service :: jobj
  sq_market :: jobj
  sq_pricing_guidance :: jobj
  sq_service_process :: "jobj list"
  sq_faqs :: "jobj list"
  sq_local_considerations :: "jobj list"
  sq_provider_details :: jobj
  sq_referral_disclosure :: string
  sq_calls_to_action :: "jobj list"
  sq_asset_ids :: "int list"
  sq_metadata :: jobj
  sq_analytics :: jobj
  sq_form_routing :: jobj
  sq_change_reason :: string

text \<open>
  \<open>str(metadata.get(key, "")).strip()\<close> is not empty. Only a string can have an empty text;
  the text of every other value is not blank.
\<close>

definition metadata_text :: "jobj \<Rightarrow> string \<Rightarrow> bool" where
  "metadata_text d k =
     (case jget d k of None \<Rightarrow> False | Some (JStr s) \<Rightarrow> py_strip s \<noteq> [] | Some _ \<Rightarrow> True)"

text \<open>
  The prohibited phrases are searched in the text of the whole dumped model, whose spelling
  (\<open>str\<close> of nested dictionaries) is the argument \<open>serialized\<close>.
\<close>

definition validate_site_config ::
  "(site_config_input \<Rightarrow> string) \<Rightarrow> site_config_input \<Rightarrow> workflow_error + site_config_input" where
  "validate_site_config serialized raw =
     (let disclosure = join_words (split_words (sq_referral_disclosure raw));
          r = raw\<lparr>sq_referral_disclosure := disclosure\<rparr>
      in guarded [
        raise_if (\<not> len_between 40 2000 (sq_referral_disclosure raw) \<or>
            \<not> py_contains ''referral'' (py_lower disclosure) \<or>
            \<not> py_contains ''independent'' (py_lower disclosure))
          (WorkflowValidationError ''referral_disclosure''),
        raise_if (\<not> len_between 3 1000 (sq_change_reason raw)) (WorkflowValidationError ''change_reason''),
        raise_if (sq_service_process raw = []) (WorkflowValidationError ''service_process''),
        raise_if (sq_faqs raw = []) (WorkflowValidationError ''faqs''),
        raise_if (sq_calls_to_action raw = []) (WorkflowValidationError ''calls_to_action''),
        raise_if (\<not> metadata_text (sq_metadata raw) ''title'' \<or>
            \<not> metadata_text (sq_metadata raw) ''description'')
          (WorkflowValidationError ''metadata''),
        raise_if (list_ex (\<lambda>item. py_contains item (py_lower (serialized r)))
            [CHR 0x22 # ''@type'' @ [CHR 0x22] @ '': '' @ [CHR 0x22] @ ''localbusiness'' @ [CHR 0x22],
             CHR 0x27 # ''@type'' @ [CHR 0x27] @ '': '' @ [CHR 0x27] @ ''localbusiness'' @ [CHR 0x27],
             ''guaranteed ranking'', ''best contractor in''])
          (WorkflowValidationError ''prohibited_claim'')]
      (Inr r))"

record compliance_review_request =
  cq_approved :: bool
  cq_checklist :: "(string \<times> bool) list"
  cq_notes :: string

record deployment_request =
  eq_environment :: build_environment
  eq_operator_confirmation :: bool
  eq_confirmation_reason :: string
  eq_neutral_pilot_mode :: bool
  eq_neutral_pilot_reason :: string

record rollback_request =
  bq_target_deployment_id :: int
  bq_operator_confirmation :: bool
  bq_reason :: string

section \<open>Lemmas\<close>

lemma set_first_occurrences [simp]: "set (first_occurrences xs) = set xs"
  by (induction xs) auto

lemma distinct_first_occurrences [simp]: "distinct (first_occurrences xs)"
  by (induction xs) auto

text \<open>
  The length of a brand is checked before it is normalized: a brand of blanks passes and is
  stored empty, after which every update of the contact address is refused, because it
  validates the stored brand again.
\<close>

lemma blank_brand_accepted:
  "map_result pq_neutral_brand (validate_property_create
     \<lparr>pq_neutral_brand = ''    '', pq_property_id = None, pq_public_tracking_number = None,
       pq_public_contact_email = None, pq_analytics_config = []\<rparr>) = Inr []"
  by code_simp

end
