(* ===== verification/Property_Workflow.thy ===== *)
theory Property_Workflow
  imports Property_Requests
begin

text \<open>
  \<open>property_workflow/services.py\<close>: properties of approved opportunities, their domains,
  assets, providers, site configurations, builds, compliance reviews, deployments and
  rollbacks. The hash of a JSON value, the static site builder, the deployment adapter and
  the clock are arguments. Files written beside a deployment are results of the operations
  (\<open>runtime_write\<close>).
\<close>

definition REQUIRED_COMPLIANCE_CHECKS :: "string list" where
  "REQUIRED_COMPLIANCE_CHECKS = [''accessibility'', ''content_accuracy'', ''privacy'',
     ''provider_claims'', ''referral_disclosure'', ''structured_data'']"

abbreviation workflow_fails :: "string \<Rightarrow> workflow_error" where
  "workflow_fails code \<equiv> PropertyWorkflowError code []"

fun dash_runs :: "bool \<Rightarrow> string \<Rightarrow> string" where
  "dash_runs in_run [] = []"
| "dash_runs in_run (c # s) =
     (if is_lower_alnum c then c # dash_runs False s
      else if in_run then dash_runs True s else CHR ''-'' # dash_runs True s)"

definition strip_dashes :: "string \<Rightarrow> string" where
  "strip_dashes s =
     rev (dropWhile (\<lambda>c. c = CHR ''-'') (rev (dropWhile (\<lambda>c. c = CHR ''-'') s)))"

definition slug :: "string \<Rightarrow> string" where
  "slug value = strip_dashes (dash_runs False (py_lower value))"

definition check_human :: "review_actor \<Rightarrow> workflow_error option" where
  "check_human actor = raise_if (actor_role actor = RR_system) (workflow_fails ''human_operator_required'')"

definition check_reviewer :: "review_actor \<Rightarrow> workflow_error option" where
  "check_reviewer actor =
     raise_if (actor_role actor \<notin> set [RR_reviewer, RR_admin]) (workflow_fails ''reviewer_role_required'')"

definition check_operator :: "review_actor \<Rightarrow> workflow_error option" where
  "check_operator actor =
     raise_if (actor_role actor \<notin> set [RR_operator, RR_admin]) (workflow_fails ''operator_role_required'')"

section \<open>Rows by identifier\<close>

definition property_of :: "database \<Rightarrow> string \<Rightarrow> workflow_error + property_row" where
  "property_of d i = require_some (workflow_fails ''property_not_found'') (tget pr_id i (properties_tbl d))"

definition candidate_of :: "database \<Rightarrow> int \<Rightarrow> workflow_error + domain_candidate" where
  "candidate_of d i =
     require_some (workflow_fails ''domain_candidate_not_found'') (tget dc_id i (domain_candidates d))"

definition registration_of :: "database \<Rightarrow> int \<Rightarrow> workflow_error + domain_registration" where
  "registration_of d i =
     require_some (workflow_fails ''domain_registration_not_found'') (tget dr_id i (domain_registrations d))"

definition workflow_assignment :: "database \<Rightarrow> int \<Rightarrow> workflow_error + provider_assignment" where
  "workflow_assignment d i =
     require_some (workflow_fails ''provider_assignment_not_found'') (tget pa_id i (provider_assignments d))"

definition config_of :: "database \<Rightarrow> int \<Rightarrow> workflow_error + site_config" where
  "config_of d i = require_some (workflow_fails ''site_config_not_found'') (tget sc_id i (site_configs d))"

definition build_of :: "database \<Rightarrow> int \<Rightarrow> workflow_error + site_build" where
  "build_of d i = require_some (workflow_fails ''site_build_not_found'') (tget sb_id i (site_builds d))"

definition workflow_profile :: "database \<Rightarrow> string \<Rightarrow> workflow_error + routing_profile" where
  "workflow_profile d property_id =
     require_some (workflow_fails ''routing_profile_not_found'') (profile_of d property_id)"

definition verified_registration :: "database \<Rightarrow> string \<Rightarrow> domain_registration option" where
  "verified_registration d property_id =
     select_latest dr_id (\<lambda>r. dr_property_id r = property_id \<and> dr_status r = RS_dns_verified)
       (domain_registrations d)"

definition approved_compliance :: "database \<Rightarrow> int \<Rightarrow> compliance_review option" where
  "approved_compliance d build_id =
     select_latest cm_id (\<lambda>r. cm_site_build_id r = build_id \<and> cm_status r = CM_approved)
       (compliance_reviews d)"

section \<open>Versions of a property\<close>

fun property_status_value :: "property_status \<Rightarrow> string" where
  "property_status_value PS_draft = ''draft''"
| "property_status_value PS_staging = ''staging''"
| "property_status_value PS_production = ''production''"
| "property_status_value PS_archived = ''archived''"

definition property_payload :: "property_row \<Rightarrow> jobj" where
  "property_payload row =
     [(''id'', JStr (pr_id row)), (''opportunity_id'', JNum (of_int (pr_opportunity_id row))),
      (''neutral_brand'', JStr (pr_neutral_brand row)), (''domain'', opt_str (pr_domain row)),
      (''service_family_id'', JNum (of_int (pr_service_family_id row))),
      (''market_id'', JNum (of_int (pr_market_id row))),
      (''public_tracking_number'', opt_str (pr_public_tracking_number row)),
      (''public_contact_email'', opt_str (pr_public_contact_email row)),
      (''status'', JStr (property_status_value (pr_status row))),
      (''active_site_config_version'', opt_num (pr_active_site_config_version row)),
      (''analytics_config'', JObj (pr_analytics_config row)),
      (''current_version'', JNum (of_int (pr_current_version row)))]"

text \<open>The unique constraint on property and version raises on a second snapshot.\<close>

definition snapshot ::
  "(json \<Rightarrow> string) \<Rightarrow> database \<Rightarrow> property_row \<Rightarrow> review_actor \<Rightarrow> string \<Rightarrow> workflow_error + database" where
  "snapshot json_hash d prop actor reason =
     guarded [raise_if (select_first (\<lambda>v. pv_property_id v = pr_id prop \<and>
           pv_version v = pr_current_version prop) (property_versions d) \<noteq> None) WorkflowIntegrityError]
     (Inr (d\<lparr>property_versions := property_versions d @
        [\<lparr>pv_id = next_id pv_id (property_versions d), pv_property_id = pr_id prop,
          pv_version = pr_current_version prop, pv_snapshot = property_payload prop,
          pv_snapshot_sha256 = json_hash (JObj (property_payload prop)),
          pv_changed_by = actor_id actor, pv_change_reason = reason\<rparr>]\<rparr>))"

definition set_property :: "property_row \<Rightarrow> database \<Rightarrow> database" where
  "set_property row d = d\<lparr>properties_tbl := tupd pr_id (pr_id row) (\<lambda>_. row) (properties_tbl d)\<rparr>"

section \<open>Properties\<close>

definition new_property ::
  "opportunity \<Rightarrow> property_create_request \<Rightarrow> property_row" where
  "new_property op request =
     \<lparr>pr_id = (case str_or (pq_property_id request) None of
          Some i \<Rightarrow> i
        | None \<Rightarrow> ''property-'' @ py_str_int (op_id op) @ ''-'' @ take 70 (slug (pq_neutral_brand request))),
       pr_opportunity_id = op_id op, pr_neutral_brand = pq_neutral_brand request, pr_domain = None,
       pr_service_family_id = op_service_family_id op, pr_market_id = op_market_id op,
       pr_public_tracking_number = pq_public_tracking_number request,
       pr_public_contact_email = pq_public_contact_email request, pr_status = PS_draft,
       pr_active_site_config_version = None, pr_analytics_config = pq_analytics_config request,
       pr_current_version = 1\<rparr>"

definition create_property ::
  "(json \<Rightarrow> string) \<Rightarrow> database \<Rightarrow> int \<Rightarrow> property_create_request \<Rightarrow> review_actor \<Rightarrow>
   workflow_error + (property_row \<times> database)" where
  "create_property json_hash d opportunity_id request actor =
     guarded [check_human actor]
     (case require_property_approval d opportunity_id of
        Inl e \<Rightarrow> Inl (workflow_fails (review_error_code e))
      | Inr op \<Rightarrow>
          (case select_first (\<lambda>p. pr_opportunity_id p = opportunity_id) (properties_tbl d) of
             Some existing \<Rightarrow> Inl (PropertyWorkflowError ''opportunity_already_has_property''
                                 [(''property_id'', JStr (pr_id existing))])
           | None \<Rightarrow>
               (let row = new_property op request
                in guarded [raise_if (tget pr_id (pr_id row) (properties_tbl d) \<noteq> None)
                     (workflow_fails ''property_identifier_conflict'')]
                   (case create_routing_profile (d\<lparr>properties_tbl := properties_tbl d @ [row]\<rparr>)
                       \<lparr>pf_property_id = pr_id row, pf_opportunity_id = op_id op,
                         pf_public_tracking_number = pr_public_tracking_number row,
                         pf_public_contact_email = pr_public_contact_email row,
                         pf_recording_approved = False, pf_recording_retention_days = None\<rparr> of
                      Inl e \<Rightarrow> Inl (WorkflowRoutingError e)
                    | Inr (_, d1) \<Rightarrow> and_then (snapshot json_hash d1 row actor
                        ''Initial approved-opportunity property configuration.'') (\<lambda>d2. Inr (row, d2))))))"

definition contact_probe :: "string \<Rightarrow> string option \<Rightarrow> property_create_request" where
  "contact_probe brand email =
     \<lparr>pq_neutral_brand = brand, pq_property_id = None, pq_public_tracking_number = None,
       pq_public_contact_email = email, pq_analytics_config = []\<rparr>"

definition updated_brand :: "property_update_request \<Rightarrow> property_row \<Rightarrow> workflow_error + property_row" where
  "updated_brand request row =
     (case uq_neutral_brand request of
        Some (Some b) \<Rightarrow> map_result (\<lambda>q. row\<lparr>pr_neutral_brand := pq_neutral_brand q\<rparr>)
                          (validate_property_create (contact_probe b None))
      | _ \<Rightarrow> Inr row)"

definition updated_contact :: "property_update_request \<Rightarrow> property_row \<Rightarrow> workflow_error + property_row" where
  "updated_contact request row =
     (let row1 = (case uq_public_tracking_number request of
                    None \<Rightarrow> row | Some t \<Rightarrow> row\<lparr>pr_public_tracking_number := t\<rparr>)
      in case uq_public_contact_email request of
           None \<Rightarrow> Inr row1
         | Some e \<Rightarrow> map_result (\<lambda>q. row1\<lparr>pr_public_contact_email := pq_public_contact_email q\<rparr>)
                      (validate_property_create (contact_probe (pr_neutral_brand row1) e)))"

definition updated_analytics :: "property_update_request \<Rightarrow> property_row \<Rightarrow> property_row" where
  "updated_analytics request row =
     (case uq_analytics_config request of
        Some (Some c) \<Rightarrow> row\<lparr>pr_analytics_config := c\<rparr> | _ \<Rightarrow> row)"

definition update_property ::
  "(json \<Rightarrow> string) \<Rightarrow> database \<Rightarrow> string \<Rightarrow> property_update_request \<Rightarrow> review_actor \<Rightarrow>
   workflow_error + (property_row \<times> database)" where
  "update_property json_hash d property_id request actor =
     guarded [check_human actor]
     (and_then (property_of d property_id) (\<lambda>row0.
      and_then (updated_brand request row0) (\<lambda>row1.
      and_then (updated_contact request row1) (\<lambda>row2.
      let row3 = updated_analytics request row2
      in and_then (workflow_profile d property_id) (\<lambda>_.
         let row = row3\<lparr>pr_current_version := pr_current_version row3 + 1\<rparr>;
             d1 = update_profile property_id
               (\<lambda>p. p\<lparr>rp_public_tracking_number := pr_public_tracking_number row,
                     rp_public_contact_email := pr_public_contact_email row\<rparr>) (set_property row d)
         in and_then (snapshot json_hash d1 row actor (uq_reason request)) (\<lambda>d2. Inr (row, d2)))))))"

section \<open>Domains\<close>

definition split_comma_first :: "string \<Rightarrow> string" where
  "split_comma_first s = takeWhile (\<lambda>c. c \<noteq> CHR '','') s"

definition candidate_stems :: "string \<Rightarrow> string \<Rightarrow> string \<Rightarrow> string list" where
  "candidate_stems brand service_slug city_slug =
     [brand, city_slug @ ''-'' @ service_slug, service_slug @ ''-'' @ city_slug,
      city_slug @ ''-'' @ service_slug @ ''-guide'', service_slug @ ''-help-'' @ city_slug,
      city_slug @ ''-service-connect'']"

definition candidate_domains ::
  "property_row \<Rightarrow> service_family \<Rightarrow> market \<Rightarrow> domain_generation_request \<Rightarrow> string list" where
  "candidate_domains row service mkt request =
     (let city = hd (if mk_cities mkt \<noteq> [] then mk_cities mkt else [split_comma_first (mk_display_name mkt)]);
          stems = candidate_stems (slug (pr_neutral_brand row)) (slug (sf_display_name service)) (slug city)
      in take (nat (gq_limit request))
           (concat (map (\<lambda>stem. map (\<lambda>tld. stem @ ''.'' @ tld) (gq_tlds request)) stems)))"

definition new_candidate :: "database \<Rightarrow> string \<Rightarrow> string \<Rightarrow> domain_candidate" where
  "new_candidate d property_id domain =
     \<lparr>dc_id = next_id dc_id (domain_candidates d), dc_property_id = property_id, dc_domain = domain,
       dc_status = CS_generated, dc_generation_method = ''local-deterministic-v1'',
       dc_availability_status = DA_unchecked, dc_availability_checked_at = None,
       dc_availability_evidence = [], dc_decision_by = None, dc_decision_reason = None,
       dc_decided_at = None\<rparr>"

definition find_candidate :: "database \<Rightarrow> string \<Rightarrow> string \<Rightarrow> domain_candidate option" where
  "find_candidate d property_id domain =
     select_first (\<lambda>c. dc_property_id c = property_id \<and> dc_domain c = domain) (domain_candidates d)"

text \<open>
  The rows that are missing in \<open>seen\<close> are added one after the other; the flush fails on the
  unique constraint when a domain is added twice.
\<close>

fun add_candidates :: "database \<Rightarrow> database \<Rightarrow> string \<Rightarrow> string list \<Rightarrow> workflow_error + database" where
  "add_candidates seen d property_id [] = Inr d"
| "add_candidates seen d property_id (x # xs) =
     (if find_candidate seen property_id x \<noteq> None then add_candidates seen d property_id xs
      else if find_candidate d property_id x \<noteq> None then Inl WorkflowIntegrityError
      else add_candidates seen
             (d\<lparr>domain_candidates := domain_candidates d @ [new_candidate d property_id x]\<rparr>)
             property_id xs)"

definition generate_domain_candidates ::
  "database \<Rightarrow> string \<Rightarrow> domain_generation_request \<Rightarrow> workflow_error + (string list \<times> database)" where
  "generate_domain_candidates d property_id request =
     and_then (property_of d property_id) (\<lambda>row.
     and_then (require_some WorkflowAssertionError (tget op_id (pr_opportunity_id row) (opportunities d)))
       (\<lambda>op.
     and_then (require_some WorkflowAssertionError (tget sf_id (op_service_family_id op) (service_families d)))
       (\<lambda>service.
     and_then (require_some WorkflowAssertionError (tget mk_id (op_market_id op) (markets d))) (\<lambda>mkt.
     let domains = candidate_domains row service mkt request
     in map_result (\<lambda>d'. (domains, d')) (add_candidates d d property_id domains)))))"

definition decide_domain_candidate ::
  "database \<Rightarrow> int \<Rightarrow> bool \<Rightarrow> string \<Rightarrow> review_actor \<Rightarrow> instant \<Rightarrow> workflow_error + database" where
  "decide_domain_candidate d candidate_id shortlist reason actor now =
     guarded [check_human actor]
     (and_then (candidate_of d candidate_id) (\<lambda>_.
      Inr (d\<lparr>domain_candidates := tupd dc_id candidate_id
        (\<lambda>c. c\<lparr>dc_status := (if shortlist then CS_shortlisted else CS_rejected),
              dc_decision_by := Some (actor_id actor), dc_decision_reason := Some reason,
              dc_decided_at := Some now\<rparr>) (domain_candidates d)\<rparr>)))"

record availability_evidence =
  ve_status :: domain_availability
  ve_provider :: string
  ve_evidence :: jobj

definition check_domain_availability ::
  "database \<Rightarrow> int \<Rightarrow> (string \<Rightarrow> availability_evidence) \<Rightarrow> instant \<Rightarrow> workflow_error + database" where
  "check_domain_availability d candidate_id check now =
     and_then (candidate_of d candidate_id) (\<lambda>candidate.
     let evidence = check (dc_domain candidate)
     in Inr (d\<lparr>domain_candidates := tupd dc_id candidate_id
          (\<lambda>c. c\<lparr>dc_availability_status := ve_status evidence, dc_availability_checked_at := Some now,
                dc_availability_evidence :=
                  jmerge [(''provider'', JStr (ve_provider evidence))] (ve_evidence evidence)\<rparr>)
          (domain_candidates d)\<rparr>))"

definition new_registration ::
  "database \<Rightarrow> domain_candidate \<Rightarrow> string \<Rightarrow> review_actor \<Rightarrow> instant \<Rightarrow> domain_registration" where
  "new_registration d candidate reason actor now =
     \<lparr>dr_id = next_id dr_id (domain_registrations d), dr_property_id = dc_property_id candidate,
       dr_domain_candidate_id = dc_id candidate, dr_domain = dc_domain candidate,
       dr_registrar_name = ''manual'', dr_status = RS_purchase_approved, dr_purchase_approved = True,
       dr_purchase_approved_by = actor_id actor, dr_purchase_approval_reason = reason,
       dr_purchase_approved_at = now, dr_external_reference = None, dr_registered_at = None,
       dr_expected_dns_records = [], dr_observed_dns_records = [], dr_dns_evidence_reference = None,
       dr_dns_verified_at = None, dr_dns_verified_by = None\<rparr>"

definition approve_domain_purchase ::
  "database \<Rightarrow> int \<Rightarrow> bool \<Rightarrow> string \<Rightarrow> review_actor \<Rightarrow> bool \<Rightarrow> instant \<Rightarrow>
   workflow_error + (domain_registration \<times> database)" where
  "approve_domain_purchase d candidate_id explicit_approval reason actor can_purchase now =
     guarded [check_operator actor]
     (and_then (candidate_of d candidate_id) (\<lambda>candidate.
      guarded [
        raise_if (dc_status candidate \<noteq> CS_shortlisted) (workflow_fails ''domain_must_be_shortlisted''),
        raise_if (dc_availability_status candidate \<noteq> DA_available)
          (workflow_fails ''domain_must_have_available_evidence''),
        raise_if (\<not> explicit_approval) (workflow_fails ''explicit_domain_purchase_approval_required''),
        raise_if can_purchase (workflow_fails ''automatic_domain_purchase_is_disabled'')]
      (case select_first (\<lambda>r. dr_domain_candidate_id r = dc_id candidate) (domain_registrations d) of
         Some existing \<Rightarrow> Inr (existing, d)
       | None \<Rightarrow>
           (let registration = new_registration d candidate reason actor now
            in guarded [raise_if (select_first (\<lambda>r. dr_domain r = dc_domain candidate)
                   (domain_registrations d) \<noteq> None) WorkflowIntegrityError]
               (Inr (registration, d\<lparr>domain_registrations := domain_registrations d @ [registration]\<rparr>))))))"

definition update_registration ::
  "int \<Rightarrow> (domain_registration \<Rightarrow> domain_registration) \<Rightarrow> database \<Rightarrow> database" where
  "update_registration i f d = d\<lparr>domain_registrations := tupd dr_id i f (domain_registrations d)\<rparr>"

definition record_manual_registration ::
  "database \<Rightarrow> int \<Rightarrow> manual_registration_request \<Rightarrow> review_actor \<Rightarrow> instant \<Rightarrow> workflow_error + database" where
  "record_manual_registration d registration_id request actor now =
     guarded [check_operator actor]
     (and_then (registration_of d registration_id) (\<lambda>row.
      guarded [raise_if (\<not> dr_purchase_approved row) (workflow_fails ''domain_purchase_was_not_approved'')]
      (Inr (update_registration registration_id
         (\<lambda>r. r\<lparr>dr_external_reference := Some (mq_external_reference request),
               dr_registrar_name := mq_registrar_name request,
               dr_expected_dns_records := mq_expected_dns_records request,
               dr_registered_at := Some now, dr_status := RS_manually_registered\<rparr>) d))))"

definition dns_mismatch :: "(string \<times> string) list \<Rightarrow> (string \<times> string) list \<Rightarrow> (string \<times> string) list" where
  "dns_mismatch expected observed = filter (\<lambda>(k, v). map_of observed k \<noteq> Some v) expected"

definition verified_row ::
  "dns_verification_request \<Rightarrow> review_actor \<Rightarrow> instant \<Rightarrow> domain_registration \<Rightarrow> domain_registration" where
  "verified_row request actor now r =
     r\<lparr>dr_observed_dns_records := vq_observed_records request,
       dr_dns_evidence_reference := Some (vq_evidence_reference request),
       dr_dns_verified_at := Some now, dr_dns_verified_by := Some (actor_id actor),
       dr_status := RS_dns_verified\<rparr>"

definition verify_dns ::
  "(json \<Rightarrow> string) \<Rightarrow> database \<Rightarrow> int \<Rightarrow> dns_verification_request \<Rightarrow> review_actor \<Rightarrow> instant \<Rightarrow>
   workflow_error + database" where
  "verify_dns json_hash d registration_id request actor now =
     guarded [check_operator actor]
     (and_then (registration_of d registration_id) (\<lambda>row.
      let mismatch = dns_mismatch (dr_expected_dns_records row) (vq_observed_records request)
      in guarded [
        raise_if (dr_status row \<noteq> RS_manually_registered)
          (workflow_fails ''dns_verification_requires_manual_registration''),
        raise_if (dr_expected_dns_records row = []) (workflow_fails ''expected_dns_records_required''),
        raise_if (mismatch \<noteq> []) (PropertyWorkflowError ''dns_records_do_not_match''
          [(''mismatch'', JObj (map (\<lambda>(k, v). (k, JStr v)) mismatch))])]
      (and_then (property_of d (dr_property_id row)) (\<lambda>prop0.
       let prop = prop0\<lparr>pr_domain := Some (dr_domain row),
                        pr_current_version := pr_current_version prop0 + 1\<rparr>
       in guarded [raise_if (list_ex (\<lambda>p. pr_id p \<noteq> pr_id prop \<and> pr_domain p = Some (dr_domain row))
              (properties_tbl d)) WorkflowIntegrityError]
          (snapshot json_hash
             (set_property prop (update_registration registration_id (verified_row request actor now) d))
             prop actor ''Verified manually registered domain and DNS records.'')))))"

section \<open>Assets and providers\<close>

definition create_asset ::
  "database \<Rightarrow> string \<Rightarrow> asset_create_request \<Rightarrow> workflow_error + (asset \<times> database)" where
  "create_asset d property_id request =
     and_then (property_of d property_id) (\<lambda>_.
     let row = \<lparr>ast_id = next_id ast_id (assets d), ast_property_id = property_id,
           ast_asset_type = aq_asset_type request, ast_local_path = aq_local_path request,
           ast_source_provider = aq_source_provider request, ast_source_url = aq_source_url request,
           ast_attribution = aq_attribution request, ast_license_metadata = aq_license_metadata request,
           ast_alt_text = aq_alt_text request, ast_content_sha256 = aq_content_sha256 request,
           ast_approved = False, ast_approved_by = None, ast_approval_reason = None,
           ast_approved_at = None\<rparr>
     in Inr (row, d\<lparr>assets := assets d @ [row]\<rparr>))"

definition review_asset ::
  "database \<Rightarrow> int \<Rightarrow> bool \<Rightarrow> string \<Rightarrow> review_actor \<Rightarrow> instant \<Rightarrow> workflow_error + database" where
  "review_asset d asset_id approved reason actor now =
     guarded [check_reviewer actor]
     (and_then (require_some (workflow_fails ''asset_not_found'') (tget ast_id asset_id (assets d))) (\<lambda>_.
      Inr (d\<lparr>assets := tupd ast_id asset_id
        (\<lambda>a. a\<lparr>ast_approved := approved, ast_approved_by := Some (actor_id actor),
              ast_approval_reason := Some reason, ast_approved_at := Some now\<rparr>) (assets d)\<rparr>)))"

definition approved_asset :: "database \<Rightarrow> string \<Rightarrow> int \<Rightarrow> asset option" where
  "approved_asset d property_id asset_id =
     (case tget ast_id asset_id (assets d) of
        None \<Rightarrow> None
      | Some a \<Rightarrow> if ast_property_id a = property_id \<and> ast_approved a then Some a else None)"

definition asset_detail :: "int \<Rightarrow> jobj" where
  "asset_detail asset_id = [(''asset_id'', JNum (of_int asset_id))]"

definition reviewed_assignment ::
  "provider_assignment_input \<Rightarrow> review_actor \<Rightarrow> instant \<Rightarrow> provider_assignment \<Rightarrow> provider_assignment" where
  "reviewed_assignment request actor now a =
     a\<lparr>pa_logo_asset_id := iq_logo_asset_id request, pa_hours := iq_hours request,
       pa_service_radius := iq_service_radius request, pa_credentials := iq_credentials request,
       pa_license_numbers := iq_license_numbers request, pa_approved_claims := iq_approved_claims request,
       pa_attributed_testimonials := iq_attributed_testimonials request,
       pa_provider_photos := iq_provider_photos request,
       pa_claims_reviewed_by := Some (actor_id actor), pa_claims_reviewed_at := Some now,
       pa_claims_review_reason := Some (iq_claims_review_reason request)\<rparr>"

fun provider_error :: "routing_error \<Rightarrow> workflow_error" where
  "provider_error (ProviderAssignmentError code) = workflow_fails code"
| "provider_error e = WorkflowRoutingError e"

definition create_provider_assignment ::
  "database \<Rightarrow> string \<Rightarrow> provider_assignment_input \<Rightarrow> review_actor \<Rightarrow> instant \<Rightarrow>
   workflow_error + (provider_assignment \<times> database)" where
  "create_provider_assignment d property_id request actor now =
     guarded [check_reviewer actor]
     (and_then (property_of d property_id) (\<lambda>_.
      guarded (raise_if (case iq_provider_candidate_id request of
                  None \<Rightarrow> False | Some i \<Rightarrow> tget pc_id i (provider_candidates d) = None)
                (workflow_fails ''provider_candidate_not_found'') #
               map (\<lambda>i. raise_if (approved_asset d property_id i = None)
                      (PropertyWorkflowError ''provider_asset_must_be_approved'' (asset_detail i)))
                 (iq_provider_photos request @
                  (case iq_logo_asset_id request of None \<Rightarrow> [] | Some i \<Rightarrow> [i])))
      (case create_assignment d
          \<lparr>ag_property_id = property_id, ag_public_business_name = iq_public_business_name request,
            ag_provider_candidate_id = iq_provider_candidate_id request,
            ag_destination_phone = iq_destination_phone request,
            ag_destination_email = iq_destination_email request,
            ag_coverage = iq_service_radius request, ag_response_expectation_minutes = None,
            ag_lead_acceptance_required = True\<rparr> of
         Inl e \<Rightarrow> Inl (provider_error e)
       | Inr (row, d1) \<Rightarrow> Inr (reviewed_assignment request actor now row,
           update_assignment (pa_id row) (reviewed_assignment request actor now) d1))))"

text \<open>The runtime files: what is written, and beside which deployment.\<close>

definition provider_runtime_payload :: "provider_assignment option \<Rightarrow> jobj" where
  "provider_runtime_payload assignment =
     (case assignment of
        None \<Rightarrow> []
      | Some a \<Rightarrow>
          [(''assignment_id'', JNum (of_int (pa_id a))),
           (''public_business_name'', JStr (pa_public_business_name a)), (''hours'', JObj (pa_hours a)),
           (''service_radius'', JObj (pa_service_radius a)),
           (''approved_claims'', JList (map JObj (pa_approved_claims a))),
           (''credentials'', JList (map JObj (pa_credentials a))),
           (''license_numbers'', JList (map JObj (pa_license_numbers a))),
           (''logo_asset_id'', opt_num (pa_logo_asset_id a)),
           (''provider_photos'', JList (map (\<lambda>i. JNum (of_int i)) (pa_provider_photos a))),
           (''claims_reviewed_at'', opt_time (pa_claims_reviewed_at a))])"

type_synonym runtime_write = "string \<times> jobj"

definition is_file_url :: "string \<Rightarrow> bool" where
  "is_file_url url \<longleftrightarrow> py_lower (take 5 url) = ''file:''"

definition update_provider_runtime ::
  "database \<Rightarrow> string \<Rightarrow> provider_assignment option \<Rightarrow> runtime_write list" where
  "update_provider_runtime d property_id assignment =
     map (\<lambda>x. (dp_url x, provider_runtime_payload assignment))
       (filter (\<lambda>x. dp_property_id x = property_id \<and> dp_status x = DP_deployed \<and> dp_local_only x \<and>
          is_file_url (dp_url x)) (deployments d))"

definition activate_provider ::
  "database \<Rightarrow> int \<Rightarrow> string \<Rightarrow> review_actor \<Rightarrow> instant \<Rightarrow>
   workflow_error + (runtime_write list \<times> database)" where
  "activate_provider d assignment_id reason actor now =
     guarded [check_operator actor]
     (and_then (workflow_assignment d assignment_id) (\<lambda>row.
      guarded [raise_if (pa_claims_reviewed_at row = None) (workflow_fails ''provider_claims_require_review'')]
      (case and_then (if pa_status row = PA_candidate
                      then transition_assignment d assignment_id PA_pilot None now else Inr d)
              (\<lambda>d1. transition_assignment d1 assignment_id PA_active None now) of
         Inl e \<Rightarrow> Inl (provider_error e)
       | Inr d2 \<Rightarrow>
           (let d3 = update_assignment assignment_id
                  (\<lambda>a. a\<lparr>pa_activation_approved_by := Some (actor_id actor),
                        pa_activation_reason := Some reason\<rparr>) d2
            in Inr (update_provider_runtime d3 (pa_property_id row)
                      (tget pa_id assignment_id (provider_assignments d3)), d3)))))"

definition replace_provider ::
  "database \<Rightarrow> string \<Rightarrow> int \<Rightarrow> string \<Rightarrow> review_actor \<Rightarrow> instant \<Rightarrow>
   workflow_error + (runtime_write list \<times> database)" where
  "replace_provider d property_id replacement_id reason actor now =
     guarded [check_operator actor]
     (case active_assignment d property_id of
        None \<Rightarrow> Inl (workflow_fails ''active_provider_assignment_not_found'')
      | Some current \<Rightarrow>
          and_then (workflow_assignment d replacement_id) (\<lambda>replacement.
          guarded [raise_if (pa_claims_reviewed_at replacement = None)
            (workflow_fails ''replacement_claims_require_review'')]
          (case replace_assignment d (pa_id current) replacement_id reason now of
             Inl e \<Rightarrow> Inl (provider_error e)
           | Inr d1 \<Rightarrow>
               (let d2 = update_assignment replacement_id
                      (\<lambda>a. a\<lparr>pa_activation_approved_by := Some (actor_id actor),
                            pa_activation_reason := Some reason,
                            pa_replacement_approved_by := Some (actor_id actor)\<rparr>) d1
                in Inr (update_provider_runtime d2 property_id
                          (tget pa_id replacement_id (provider_assignments d2)), d2)))))"

section \<open>Site configurations\<close>

definition site_config_payload :: "site_config_input \<Rightarrow> jobj" where
  "site_config_payload r =
     [(''brand'', JObj (sq_brand r)), (''service'', JObj (sq_service r)), (''market'', JObj (sq_market r)),
      (''pricing_guidance'', JObj (sq_pricing_guidance r)),
      (''service_process'', JList (map JObj (sq_service_process r))),
      (''faqs'', JList (map JObj (sq_faqs r))),
      (''local_considerations'', JList (map JObj (sq_local_considerations r))),
      (''provider_details'', JObj (sq_provider_details r)),
      (''referral_disclosure'', JStr (sq_referral_disclosure r)),
      (''calls_to_action'', JList (map JObj (sq_calls_to_action r))),
      (''asset_ids'', JList (map (\<lambda>i. JNum (of_int i)) (sq_asset_ids r))),
      (''metadata'', JObj (sq_metadata r)), (''analytics'', JObj (sq_analytics r)),
      (''form_routing'', JObj (sq_form_routing r))]"

definition asset_error :: "database \<Rightarrow> string \<Rightarrow> int \<Rightarrow> workflow_error option" where
  "asset_error d property_id asset_id =
     (case tget ast_id asset_id (assets d) of
        None \<Rightarrow> Some (PropertyWorkflowError ''asset_not_found'' (asset_detail asset_id))
      | Some a \<Rightarrow>
          if ast_property_id a \<noteq> property_id
          then Some (PropertyWorkflowError ''asset_not_found'' (asset_detail asset_id))
          else raise_if (\<not> ast_approved a)
                 (PropertyWorkflowError ''site_config_requires_approved_assets'' (asset_detail asset_id)))"

text \<open>An \<open>assignment_id\<close> that is not an integer finds no assignment.\<close>

definition detail_assignment :: "database \<Rightarrow> jobj \<Rightarrow> provider_assignment option" where
  "detail_assignment d details =
     (case jget details ''assignment_id'' of
        Some (JNum q) \<Rightarrow> if of_int (floor q) = q then tget pa_id (floor q) (provider_assignments d) else None
      | _ \<Rightarrow> None)"

definition provider_content_error :: "database \<Rightarrow> string \<Rightarrow> jobj \<Rightarrow> workflow_error option" where
  "provider_content_error d property_id details =
     raise_if (details \<noteq> [] \<and>
         (case detail_assignment d details of
            None \<Rightarrow> True
          | Some a \<Rightarrow> pa_property_id a \<noteq> property_id \<or> pa_claims_reviewed_at a = None))
       (workflow_fails ''provider_details_require_reviewed_assignment'')"

definition latest_config_version :: "database \<Rightarrow> string \<Rightarrow> int" where
  "latest_config_version d property_id =
     (case select_latest sc_version (\<lambda>c. sc_property_id c = property_id) (site_configs d) of
        None \<Rightarrow> 0 | Some c \<Rightarrow> sc_version c)"

definition create_site_config ::
  "(json \<Rightarrow> string) \<Rightarrow> database \<Rightarrow> string \<Rightarrow> site_config_input \<Rightarrow> review_actor \<Rightarrow>
   workflow_error + (site_config \<times> database)" where
  "create_site_config json_hash d property_id request actor =
     guarded [check_human actor]
     (and_then (property_of d property_id) (\<lambda>prop0.
      guarded (map (asset_error d property_id) (sq_asset_ids request) @
               [provider_content_error d property_id (sq_provider_details request)])
      (let payload = site_config_payload request;
           row = \<lparr>sc_id = next_id sc_id (site_configs d), sc_property_id = property_id,
             sc_version = latest_config_version d property_id + 1, sc_status = SC_draft,
             sc_schema_version = ''site-config-v1'', sc_config_payload = payload,
             sc_config_sha256 = json_hash (JObj payload), sc_created_by = actor_id actor,
             sc_change_reason = sq_change_reason request, sc_approved_by = None,
             sc_approval_reason = None, sc_approved_at = None\<rparr>;
           prop = prop0\<lparr>pr_current_version := pr_current_version prop0 + 1\<rparr>
       in and_then (snapshot json_hash
            (set_property prop (d\<lparr>site_configs := site_configs d @ [row]\<rparr>)) prop actor
            (''Created SiteConfig version '' @ py_str_int (sc_version row) @ ''.''))
            (\<lambda>d'. Inr (row, d')))))"

definition review_config_row ::
  "site_config \<Rightarrow> bool \<Rightarrow> string \<Rightarrow> review_actor \<Rightarrow> instant \<Rightarrow> site_config \<Rightarrow> site_config" where
  "review_config_row row approved reason actor now c =
     (if sc_id c = sc_id row
      then c\<lparr>sc_status := (if approved then SC_approved else SC_draft),
             sc_approved_by := Some (actor_id actor), sc_approval_reason := Some reason,
             sc_approved_at := Some now\<rparr>
      else if approved \<and> sc_property_id c = sc_property_id row \<and> sc_status c = SC_approved
      then c\<lparr>sc_status := SC_superseded\<rparr>
      else c)"

definition review_site_config ::
  "database \<Rightarrow> int \<Rightarrow> bool \<Rightarrow> string \<Rightarrow> review_actor \<Rightarrow> instant \<Rightarrow> workflow_error + database" where
  "review_site_config d config_id approved reason actor now =
     guarded [check_reviewer actor]
     (and_then (config_of d config_id) (\<lambda>row.
      let d1 = d\<lparr>site_configs := map (review_config_row row approved reason actor now) (site_configs d)\<rparr>
      in if approved
         then map_result (\<lambda>prop. set_property
                (prop\<lparr>pr_active_site_config_version := Some (sc_version row)\<rparr>) d1)
                (property_of d (sc_property_id row))
         else Inr d1))"

section \<open>Builds and compliance\<close>

record build_artifact =
  ba_checksum :: string
  ba_output_path :: string
  ba_manifest :: "(string \<times> string) list"
  ba_validation :: jobj
  ba_total_bytes :: int

definition asset_entry :: "asset \<Rightarrow> json" where
  "asset_entry a = JObj [(''id'', JNum (of_int (ast_id a))), (''asset_type'', JStr (ast_asset_type a)),
     (''source_provider'', JStr (ast_source_provider a)), (''source_url'', opt_str (ast_source_url a)),
     (''attribution'', opt_str (ast_attribution a)), (''license_metadata'', JObj (ast_license_metadata a)),
     (''alt_text'', JStr (ast_alt_text a)), (''content_sha256'', opt_str (ast_content_sha256 a)),
     (''approved_by'', opt_str (ast_approved_by a))]"

fun payload_asset_ids :: "json option \<Rightarrow> int list" where
  "payload_asset_ids (Some (JList xs)) =
     concat (map (\<lambda>x. case x of JNum q \<Rightarrow> [floor q] | _ \<Rightarrow> []) xs)"
| "payload_asset_ids _ = []"

fun asset_provenance :: "database \<Rightarrow> string \<Rightarrow> int list \<Rightarrow> workflow_error + json list" where
  "asset_provenance d property_id [] = Inr []"
| "asset_provenance d property_id (i # ids) =
     (case approved_asset d property_id i of
        None \<Rightarrow> Inl (PropertyWorkflowError ''site_config_requires_approved_assets'' (asset_detail i))
      | Some a \<Rightarrow> map_result (\<lambda>xs. asset_entry a # xs) (asset_provenance d property_id ids))"

definition new_build ::
  "database \<Rightarrow> site_config \<Rightarrow> build_environment \<Rightarrow> string \<Rightarrow> build_artifact \<Rightarrow> site_build" where
  "new_build d config environment builder_version artifact =
     \<lparr>sb_id = next_id sb_id (site_builds d), sb_property_id = sc_property_id config,
       sb_site_config_id = sc_id config, sb_environment = environment,
       sb_builder_version = builder_version, sb_build_sha256 = ba_checksum artifact,
       sb_output_path = ba_output_path artifact,
       sb_status = (if get_truthy (ba_validation artifact) ''passed'' then ''passed'' else ''failed''),
       sb_file_count = int (length (ba_manifest artifact)), sb_total_bytes = ba_total_bytes artifact,
       sb_validation_report = ba_validation artifact, sb_manifest = ba_manifest artifact\<rparr>"

definition BUILDER_VERSION :: string where
  "BUILDER_VERSION = ''deterministic-static-v1''"

text \<open>The build of this configuration with the same content, or a new row.\<close>

definition store_build ::
  "database \<Rightarrow> site_config \<Rightarrow> build_environment \<Rightarrow> build_artifact \<Rightarrow> site_build \<times> database" where
  "store_build d config environment artifact =
     (case select_first (\<lambda>b. sb_site_config_id b = sc_id config \<and> sb_environment b = environment \<and>
             sb_build_sha256 b = ba_checksum artifact) (site_builds d) of
        Some existing \<Rightarrow> (existing, d)
      | None \<Rightarrow>
          (let row = new_build d config environment BUILDER_VERSION artifact
           in (row, d\<lparr>site_builds := site_builds d @ [row]\<rparr>)))"

definition build_site ::
  "(jobj \<Rightarrow> string option \<Rightarrow> build_environment \<Rightarrow> build_artifact) \<Rightarrow> database \<Rightarrow> int \<Rightarrow>
   build_environment \<Rightarrow> workflow_error + (site_build \<times> database)" where
  "build_site build_static_site d config_id environment =
     and_then (config_of d config_id) (\<lambda>config.
     and_then (property_of d (sc_property_id config)) (\<lambda>prop.
     guarded [
       raise_if (environment = BE_production \<and> sc_status config \<noteq> SC_approved)
         (workflow_fails ''production_build_requires_approved_config''),
       raise_if (environment = BE_production \<and> pr_domain prop = None)
         (workflow_fails ''production_build_requires_verified_domain'')]
     (and_then (asset_provenance d (sc_property_id config)
         (payload_asset_ids (jget (sc_config_payload config) ''asset_ids''))) (\<lambda>provenance.
      let artifact = build_static_site
            (jmerge (sc_config_payload config) [(''asset_provenance'', JList provenance)])
            (pr_domain prop) environment
      in Inr (store_build d config environment artifact)))))"

definition missing_checks :: "(string \<times> bool) list \<Rightarrow> string list" where
  "missing_checks checklist = sort (filter (\<lambda>k. map_of checklist k = None) REQUIRED_COMPLIANCE_CHECKS)"

definition failed_checks :: "(string \<times> bool) list \<Rightarrow> string list" where
  "failed_checks checklist =
     sort (filter (\<lambda>k. map_of checklist k \<noteq> Some True) REQUIRED_COMPLIANCE_CHECKS)"

definition review_compliance ::
  "database \<Rightarrow> int \<Rightarrow> compliance_review_request \<Rightarrow> review_actor \<Rightarrow> instant \<Rightarrow>
   workflow_error + (compliance_review \<times> database)" where
  "review_compliance d build_id request actor now =
     guarded [check_reviewer actor]
     (and_then (build_of d build_id) (\<lambda>build.
      let missing = missing_checks (cq_checklist request);
          failed = failed_checks (cq_checklist request)
      in guarded [
        raise_if (cq_approved request \<and> (missing \<noteq> [] \<or> failed \<noteq> []))
          (PropertyWorkflowError ''compliance_checklist_incomplete''
            [(''missing'', JList (map JStr missing)), (''failed'', JList (map JStr failed))]),
        raise_if (cq_approved request \<and> \<not> get_truthy (sb_validation_report build) ''passed'')
          (workflow_fails ''failed_build_cannot_pass_compliance'')]
      (let row = \<lparr>cm_id = next_id cm_id (compliance_reviews d), cm_property_id = sb_property_id build,
             cm_site_config_id = sb_site_config_id build, cm_site_build_id = sb_id build,
             cm_status = (if cq_approved request then CM_approved else CM_rejected),
             cm_checklist = cq_checklist request, cm_validation_snapshot = sb_validation_report build,
             cm_reviewer_user_id = actor_id actor, cm_notes = cq_notes request, cm_reviewed_at = now\<rparr>
       in Inr (row, d\<lparr>compliance_reviews := compliance_reviews d @ [row]\<rparr>))))"

section \<open>Deployments\<close>

definition deployment_gates ::
  "database \<Rightarrow> property_row \<Rightarrow> site_build \<Rightarrow> deployment_request \<Rightarrow>
   workflow_error + (string \<times> bool) list" where
  "deployment_gates d prop build request =
     and_then (config_of d (sb_site_config_id build)) (\<lambda>config.
     and_then (workflow_profile d (pr_id prop)) (\<lambda>profile.
     let op = tget op_id (pr_opportunity_id prop) (opportunities d);
         registration = verified_registration d (pr_id prop);
         active = active_assignment d (pr_id prop);
         compliance = approved_compliance d (sb_id build);
         neutral_pilot = (eq_neutral_pilot_mode request \<and> py_strip (eq_neutral_pilot_reason request) \<noteq> [])
     in Inr [
       (''approved_opportunity'', map_option op_status op = Some ''approved_for_property''),
       (''approved_site_config'', sc_status config = SC_approved),
       (''passing_build'', sb_status build = ''passed'' \<and> get_truthy (sb_validation_report build) ''passed''),
       (''active_provider_or_neutral_pilot'', active \<noteq> None \<or> neutral_pilot),
       (''provider_claims_reviewed'', neutral_pilot \<or>
          (case active of None \<Rightarrow> False | Some a \<Rightarrow> pa_claims_reviewed_at a \<noteq> None)),
       (''compliance_approved'', compliance \<noteq> None),
       (''domain_and_dns_verified'', (case registration of None \<Rightarrow> False
          | Some r \<Rightarrow> pr_domain prop = Some (dr_domain r))),
       (''routing_healthy'', (case rp_routing_health_status profile of None \<Rightarrow> False
          | Some s \<Rightarrow> s \<in> set [''healthy'', ''active'', ''ok''])),
       (''analytics_verified'', jget (pr_analytics_config prop) ''verified'' = Some (JBool True)),
       (''operator_confirmation'', eq_operator_confirmation request \<and>
          py_strip (eq_confirmation_reason request) \<noteq> []),
       (''local_fail_closed_adapter'', True)]))"

definition failed_gates :: "(string \<times> bool) list \<Rightarrow> string list" where
  "failed_gates gates = sort (map fst (filter (\<lambda>(k, passed). \<not> passed) gates))"

text \<open>What a deployment adapter's \<open>deploy\<close> returns; it may raise.\<close>

record deployment_result =
  lr_url :: string
  lr_adapter_name :: string
  lr_local_only :: bool

fun environment_value :: "build_environment \<Rightarrow> string" where
  "environment_value BE_preview = ''preview''"
| "environment_value BE_staging = ''staging''"
| "environment_value BE_production = ''production''"

text \<open>The path below the deployment root.\<close>

definition deployment_path :: "string \<Rightarrow> build_environment \<Rightarrow> string \<Rightarrow> string" where
  "deployment_path property_id environment sha =
     property_id @ ''/'' @ environment_value environment @ ''/'' @ sha"

record deployment_adapter =
  da_public_capable :: bool
  da_deploy :: "string \<Rightarrow> string \<Rightarrow> string + deployment_result"

definition current_deployment :: "database \<Rightarrow> string \<Rightarrow> build_environment \<Rightarrow> deployment option" where
  "current_deployment d property_id environment =
     select_latest dp_id (\<lambda>x. dp_property_id x = property_id \<and> dp_environment x = environment \<and>
       dp_status x = DP_deployed) (deployments d)"

definition retire_deployment :: "deployment option \<Rightarrow> database \<Rightarrow> database" where
  "retire_deployment prior d =
     (case prior of
        None \<Rightarrow> d
      | Some p \<Rightarrow> d\<lparr>deployments := tupd dp_id (dp_id p) (\<lambda>x. x\<lparr>dp_status := DP_rolled_back\<rparr>)
                    (deployments d)\<rparr>)"

definition deployed_status :: "build_environment \<Rightarrow> property_row \<Rightarrow> property_row" where
  "deployed_status environment prop =
     (case environment of
        BE_staging \<Rightarrow> prop\<lparr>pr_status := PS_staging\<rparr>
      | BE_production \<Rightarrow> prop\<lparr>pr_status := PS_production\<rparr>
      | BE_preview \<Rightarrow> prop)"

definition new_deployment ::
  "database \<Rightarrow> property_row \<Rightarrow> site_build \<Rightarrow> deployment_request \<Rightarrow> (string \<times> bool) list \<Rightarrow>
   deployment_result \<Rightarrow> review_actor \<Rightarrow> instant \<Rightarrow> deployment" where
  "new_deployment d prop build request gates result actor now =
     \<lparr>dp_id = next_id dp_id (deployments d), dp_property_id = pr_id prop, dp_site_build_id = sb_id build,
       dp_domain_registration_id = map_option dr_id (verified_registration d (pr_id prop)),
       dp_provider_assignment_id = map_option pa_id (active_assignment d (pr_id prop)),
       dp_compliance_review_id = map_option cm_id (approved_compliance d (sb_id build)),
       dp_previous_deployment_id =
         map_option dp_id (current_deployment d (pr_id prop) (eq_environment request)),
       dp_rollback_of_deployment_id = None, dp_environment = eq_environment request,
       dp_adapter_name = lr_adapter_name result, dp_status = DP_deployed, dp_url = lr_url result,
       dp_local_only = lr_local_only result, dp_operator_user_id = actor_id actor,
       dp_operator_confirmation = eq_operator_confirmation request,
       dp_confirmation_reason = eq_confirmation_reason request,
       dp_neutral_pilot_mode = eq_neutral_pilot_mode request,
       dp_gate_snapshot = map (\<lambda>(k, b). (k, JBool b)) gates, dp_deployed_at = now\<rparr>"

definition deploy ::
  "database \<Rightarrow> int \<Rightarrow> deployment_request \<Rightarrow> review_actor \<Rightarrow> deployment_adapter \<Rightarrow> instant \<Rightarrow>
   workflow_error + (deployment \<times> runtime_write list \<times> database)" where
  "deploy d build_id request actor adapter now =
     guarded [check_operator actor]
     (and_then (build_of d build_id) (\<lambda>build.
      guarded [raise_if (sb_environment build \<noteq> eq_environment request)
        (workflow_fails ''deployment_environment_build_mismatch'')]
      (and_then (property_of d (sb_property_id build)) (\<lambda>prop.
       guarded [raise_if (da_public_capable adapter) (workflow_fails ''public_deployment_adapter_not_approved'')]
       (and_then (deployment_gates d prop build request) (\<lambda>gates.
        guarded [raise_if (eq_environment request = BE_production \<and> failed_gates gates \<noteq> [])
          (PropertyWorkflowError ''production_deployment_gates_failed''
            [(''failed_gates'', JList (map JStr (failed_gates gates)))])]
        (let prior = current_deployment d (pr_id prop) (eq_environment request);
             destination = deployment_path (pr_id prop) (eq_environment request) (sb_build_sha256 build)
         in case da_deploy adapter (sb_output_path build) destination of
              Inl e \<Rightarrow> Inl (WorkflowAdapterError e)
            | Inr result \<Rightarrow>
                (let row = new_deployment d prop build request gates result actor now;
                     d1 = retire_deployment prior d;
                     d2 = d1\<lparr>deployments := deployments d1 @ [row]\<rparr>
                 in Inr (row,
                      [(destination, provider_runtime_payload (active_assignment d (pr_id prop)))],
                      set_property (deployed_status (eq_environment request) prop) d2)))))))))"

definition rollback_row ::
  "database \<Rightarrow> deployment \<Rightarrow> deployment \<Rightarrow> site_build \<Rightarrow> rollback_request \<Rightarrow> deployment_result \<Rightarrow>
   review_actor \<Rightarrow> instant \<Rightarrow> deployment" where
  "rollback_row d target current build request result actor now =
     \<lparr>dp_id = next_id dp_id (deployments d), dp_property_id = dp_property_id target,
       dp_site_build_id = sb_id build, dp_domain_registration_id = dp_domain_registration_id target,
       dp_provider_assignment_id = map_option pa_id (active_assignment d (dp_property_id target)),
       dp_compliance_review_id = dp_compliance_review_id target,
       dp_previous_deployment_id = Some (dp_id current),
       dp_rollback_of_deployment_id = Some (dp_id current), dp_environment = BE_production,
       dp_adapter_name = lr_adapter_name result, dp_status = DP_deployed, dp_url = lr_url result,
       dp_local_only = True, dp_operator_user_id = actor_id actor, dp_operator_confirmation = True,
       dp_confirmation_reason = bq_reason request,
       dp_neutral_pilot_mode = dp_neutral_pilot_mode target,
       dp_gate_snapshot = [(''rollback_target_verified'', JBool True), (''operator_confirmation'', JBool True)],
       dp_deployed_at = now\<rparr>"

definition rollback ::
  "database \<Rightarrow> string \<Rightarrow> rollback_request \<Rightarrow> review_actor \<Rightarrow> deployment_adapter \<Rightarrow> instant \<Rightarrow>
   workflow_error + (deployment \<times> runtime_write list \<times> database)" where
  "rollback d property_id request actor adapter now =
     guarded [check_operator actor,
       raise_if (\<not> bq_operator_confirmation request)
         (workflow_fails ''rollback_operator_confirmation_required'')]
     (case tget dp_id (bq_target_deployment_id request) (deployments d) of
        None \<Rightarrow> Inl (workflow_fails ''rollback_target_not_found'')
      | Some target \<Rightarrow>
          guarded [
            raise_if (dp_property_id target \<noteq> property_id) (workflow_fails ''rollback_target_not_found''),
            raise_if (dp_environment target \<noteq> BE_production)
              (workflow_fails ''rollback_target_must_be_production'')]
          (case current_deployment d property_id BE_production of
             None \<Rightarrow> Inl (workflow_fails ''rollback_requires_different_active_deployment'')
           | Some current \<Rightarrow>
               guarded [raise_if (dp_id current = dp_id target)
                 (workflow_fails ''rollback_requires_different_active_deployment'')]
               (and_then (build_of d (dp_site_build_id target)) (\<lambda>build.
                guarded [raise_if (da_public_capable adapter)
                  (workflow_fails ''public_deployment_adapter_not_approved'')]
                (let destination = deployment_path property_id BE_production (sb_build_sha256 build)
                 in case da_deploy adapter (sb_output_path build) destination of
                      Inl e \<Rightarrow> Inl (WorkflowAdapterError e)
                    | Inr result \<Rightarrow>
                        (let row = rollback_row d target current build request result actor now;
                             d1 = retire_deployment (Some current) d
                         in Inr (row,
                              [(destination, provider_runtime_payload (active_assignment d property_id))],
                              d1\<lparr>deployments := deployments d1 @ [row]\<rparr>)))))))"

end
