(* ===== verification/Property_History.thy ===== *)
theory Property_History
  imports Property_Workflow
begin

text \<open>
  Histories of property-workflow requests, the invariant they keep, and what a production
  deployment and a rollback guarantee.
\<close>

record workflow_env =
  we_hash :: "json \<Rightarrow> string"
  we_build :: "jobj \<Rightarrow> string option \<Rightarrow> build_environment \<Rightarrow> build_artifact"
  we_serialized :: "site_config_input \<Rightarrow> string"

datatype workflow_op =
  CreateProperty int property_create_request review_actor
| UpdateProperty string property_update_request review_actor
| GenerateDomains string domain_generation_request
| DecideDomain int bool string review_actor instant
| CheckDomain int "string \<Rightarrow> availability_evidence" instant
| ApprovePurchase int bool string review_actor bool instant
| RecordRegistration int manual_registration_request review_actor instant
| VerifyDns int dns_verification_request review_actor instant
| CreateAsset string asset_create_request
| ReviewAsset int bool string review_actor instant
| CreateProvider string provider_assignment_input review_actor instant
| ActivateProvider int string review_actor instant
| ReplaceProvider string int string review_actor instant
| CreateSiteConfig string site_config_input review_actor
| ReviewSiteConfig int bool string review_actor instant
| BuildSite int build_environment
| ReviewCompliance int compliance_review_request review_actor instant
| Deploy int deployment_request review_actor deployment_adapter instant
| Rollback string rollback_request review_actor deployment_adapter instant
| ProviderRequest provider_op

text \<open>Operations of \<open>ProviderOperationsService\<close> run between the requests of the workflow.\<close>

fun workflow_step :: "workflow_env \<Rightarrow> database \<Rightarrow> workflow_op \<Rightarrow> workflow_error + database" where
  "workflow_step env d (CreateProperty i raw actor) =
     and_then (validate_property_create raw) (\<lambda>r. map_result snd (create_property (we_hash env) d i r actor))"
| "workflow_step env d (UpdateProperty i raw actor) =
     and_then (validate_property_update raw) (\<lambda>r. map_result snd (update_property (we_hash env) d i r actor))"
| "workflow_step env d (GenerateDomains i raw) =
     and_then (validate_domain_generation raw) (\<lambda>r. map_result snd (generate_domain_candidates d i r))"
| "workflow_step env d (DecideDomain i shortlist reason actor now) =
     decide_domain_candidate d i shortlist reason actor now"
| "workflow_step env d (CheckDomain i check now) = check_domain_availability d i check now"
| "workflow_step env d (ApprovePurchase i explicit reason actor can_purchase now) =
     map_result snd (approve_domain_purchase d i explicit reason actor can_purchase now)"
| "workflow_step env d (RecordRegistration i r actor now) = record_manual_registration d i r actor now"
| "workflow_step env d (VerifyDns i r actor now) = verify_dns (we_hash env) d i r actor now"
| "workflow_step env d (CreateAsset i r) =
     guarded [raise_if (\<not> valid_asset_create r) (WorkflowValidationError ''asset'')]
       (map_result snd (create_asset d i r))"
| "workflow_step env d (ReviewAsset i approved reason actor now) = review_asset d i approved reason actor now"
| "workflow_step env d (CreateProvider i r actor now) =
     guarded [raise_if (\<not> valid_provider_input r) (WorkflowValidationError ''provider_assignment'')]
       (map_result snd (create_provider_assignment d i r actor now))"
| "workflow_step env d (ActivateProvider i reason actor now) =
     map_result snd (activate_provider d i reason actor now)"
| "workflow_step env d (ReplaceProvider pid i reason actor now) =
     map_result snd (replace_provider d pid i reason actor now)"
| "workflow_step env d (CreateSiteConfig i raw actor) =
     and_then (validate_site_config (we_serialized env) raw)
       (\<lambda>r. map_result snd (create_site_config (we_hash env) d i r actor))"
| "workflow_step env d (ReviewSiteConfig i approved reason actor now) =
     review_site_config d i approved reason actor now"
| "workflow_step env d (BuildSite i environment) =
     map_result snd (build_site (we_build env) d i environment)"
| "workflow_step env d (ReviewCompliance i r actor now) =
     map_result snd (review_compliance d i r actor now)"
| "workflow_step env d (Deploy i r actor adapter now) =
     map_result (\<lambda>x. snd (snd x)) (deploy d i r actor adapter now)"
| "workflow_step env d (Rollback pid r actor adapter now) =
     map_result (\<lambda>x. snd (snd x)) (rollback d pid r actor adapter now)"
| "workflow_step env d (ProviderRequest opn) =
     (case provider_step d opn of Inl e \<Rightarrow> Inl (WorkflowRoutingError e) | Inr d' \<Rightarrow> Inr d')"

section \<open>The invariant\<close>

text \<open>The versions of a property are numbered without gaps up to its current version.\<close>

definition versions_ok :: "property_row list \<Rightarrow> property_version list \<Rightarrow> bool" where
  "versions_ok ps vs \<longleftrightarrow> keys_distinct pr_id ps \<and>
     (\<forall>p \<in> set ps. 1 \<le> pr_current_version p \<and>
        map pv_version (filter (\<lambda>v. pv_property_id v = pr_id p) vs) = [1..pr_current_version p]) \<and>
     (\<forall>v \<in> set vs. pv_property_id v \<in> pr_id ` set ps)"

definition config_approved :: "site_config \<Rightarrow> bool" where
  "config_approved c \<longleftrightarrow> sc_status c = SC_approved"

definition configs_ok :: "site_config list \<Rightarrow> bool" where
  "configs_ok cs \<longleftrightarrow> keys_distinct sc_id cs \<and> at_most_one sc_property_id config_approved cs"

definition compliance_row_ok :: "compliance_review \<Rightarrow> bool" where
  "compliance_row_ok c \<longleftrightarrow> (cm_status c = CM_approved \<longrightarrow>
     (\<forall>k \<in> set REQUIRED_COMPLIANCE_CHECKS. map_of (cm_checklist c) k = Some True) \<and>
     get_truthy (cm_validation_snapshot c) ''passed'')"

definition compliance_ok :: "compliance_review list \<Rightarrow> bool" where
  "compliance_ok cs \<longleftrightarrow> (\<forall>c \<in> set cs. compliance_row_ok c)"

definition is_deployed :: "deployment \<Rightarrow> bool" where
  "is_deployed x \<longleftrightarrow> dp_status x = DP_deployed"

definition deployment_slot :: "deployment \<Rightarrow> string \<times> build_environment" where
  "deployment_slot x = (dp_property_id x, dp_environment x)"

definition reviewed_release :: "compliance_review list \<Rightarrow> deployment \<Rightarrow> bool" where
  "reviewed_release cs x \<longleftrightarrow> (dp_environment x = BE_production \<longrightarrow>
     dp_operator_confirmation x \<and>
     (\<exists>c \<in> set cs. dp_compliance_review_id x = Some (cm_id c) \<and> cm_status c = CM_approved \<and>
        cm_site_build_id c = dp_site_build_id x))"

definition deployments_ok :: "compliance_review list \<Rightarrow> deployment list \<Rightarrow> bool" where
  "deployments_ok cs ds \<longleftrightarrow> keys_distinct dp_id ds \<and> at_most_one deployment_slot is_deployed ds \<and>
     (\<forall>x \<in> set ds. reviewed_release cs x)"

definition registration_row_ok :: "domain_registration \<Rightarrow> bool" where
  "registration_row_ok r \<longleftrightarrow> dr_purchase_approved r \<and>
     (dr_status r = RS_dns_verified \<longrightarrow> dr_expected_dns_records r \<noteq> [] \<and>
        dns_mismatch (dr_expected_dns_records r) (dr_observed_dns_records r) = [] \<and>
        dr_dns_verified_by r \<noteq> None)"

definition registrations_ok :: "domain_registration list \<Rightarrow> bool" where
  "registrations_ok rs \<longleftrightarrow> keys_distinct dr_id rs \<and> (\<forall>r \<in> set rs. registration_row_ok r)"

definition workflow_ok :: "database \<Rightarrow> bool" where
  "workflow_ok d \<longleftrightarrow> versions_ok (properties_tbl d) (property_versions d) \<and>
     configs_ok (site_configs d) \<and> compliance_ok (compliance_reviews d) \<and>
     deployments_ok (compliance_reviews d) (deployments d) \<and>
     registrations_ok (domain_registrations d)"

lemma workflow_okI:
  "versions_ok (properties_tbl d) (property_versions d) \<Longrightarrow> configs_ok (site_configs d) \<Longrightarrow>
   compliance_ok (compliance_reviews d) \<Longrightarrow> deployments_ok (compliance_reviews d) (deployments d) \<Longrightarrow>
   registrations_ok (domain_registrations d) \<Longrightarrow> workflow_ok d"
  by (simp add: workflow_ok_def)

lemma workflow_okD:
  assumes "workflow_ok d"
  shows "versions_ok (properties_tbl d) (property_versions d)" "configs_ok (site_configs d)"
    "compliance_ok (compliance_reviews d)" "deployments_ok (compliance_reviews d) (deployments d)"
    "registrations_ok (domain_registrations d)"
  using assms by (simp_all add: workflow_ok_def)

section \<open>Lemmas on the tables\<close>

lemma at_most_one_by_key:
  assumes "keys_distinct key rows"
    and "\<And>x y. x \<in> set rows \<Longrightarrow> y \<in> set rows \<Longrightarrow> P x \<Longrightarrow> P y \<Longrightarrow> grp x = grp y \<Longrightarrow> key x = key y"
  shows "at_most_one grp P rows"
  using assms
proof (induction rows)
  case (Cons a rows)
  have "grp x \<noteq> grp a" if "P a" "x \<in> set rows" "P x" for x
  proof
    assume "grp x = grp a"
    with that Cons.prems(2) [of x a] have "key a = key x" by simp
    with that Cons.prems(1) show False by (auto simp: keys_distinct_def image_iff)
  qed
  with Cons show ?case by (auto simp: at_most_one_Cons keys_distinct_def)
qed simp

lemma versions_new:
  assumes ok: "versions_ok ps vs" and fresh: "tget pr_id (pr_id p) ps = None" "pr_current_version p = 1"
    and v: "pv_property_id v = pr_id p" "pv_version v = 1"
  shows "versions_ok (ps @ [p]) (vs @ [v])"
proof -
  have new: "pr_id p \<notin> pr_id ` set ps" using fresh by (simp add: tget_None_iff)
  have none: "filter (\<lambda>v. pv_property_id v = pr_id p) vs = []"
    using ok new unfolding versions_ok_def filter_empty_conv by metis
  have other: "pr_id q \<noteq> pr_id p" if "q \<in> set ps" for q using new that by (metis imageI)
  have "1 \<le> pr_current_version q \<and>
      map pv_version (filter (\<lambda>v. pv_property_id v = pr_id q) (vs @ [v])) = [1..pr_current_version q]"
    if "q \<in> set (ps @ [p])" for q
  proof (cases "q = p")
    case True
    with fresh v none show ?thesis by simp
  next
    case False
    with that have "q \<in> set ps" by simp
    with ok v other [of q] show ?thesis by (simp add: versions_ok_def)
  qed
  with ok new v show ?thesis by (auto simp: versions_ok_def keys_distinct_append)
qed

lemma versions_bump:
  assumes ok: "versions_ok ps vs" and p0: "tget pr_id (pr_id p) ps = Some p0"
    and p: "pr_current_version p = pr_current_version p0 + 1"
    and v: "pv_property_id v = pr_id p" "pv_version v = pr_current_version p"
  shows "versions_ok (tupd pr_id (pr_id p) (\<lambda>_. p) ps) (vs @ [v])"
proof -
  have mem: "p0 \<in> set ps" "pr_id p0 = pr_id p" using tget_Some_key [OF p0] by simp_all
  have ids: "map pr_id (tupd pr_id (pr_id p) (\<lambda>_. p) ps) = map pr_id ps"
    by (auto simp: tupd_def)
  then have image: "pr_id ` set (tupd pr_id (pr_id p) (\<lambda>_. p) ps) = pr_id ` set ps"
    by (metis list.set_map)
  have "1 \<le> pr_current_version q \<and>
      map pv_version (filter (\<lambda>v. pv_property_id v = pr_id q) (vs @ [v])) = [1..pr_current_version q]"
    if "q \<in> set (tupd pr_id (pr_id p) (\<lambda>_. p) ps)" for q
  proof (cases "pr_id q = pr_id p")
    case True
    with that have "q = p" by (auto simp: set_tupd)
    moreover from ok mem have "1 \<le> pr_current_version p0"
      "map pv_version (filter (\<lambda>v. pv_property_id v = pr_id p) vs) = [1..pr_current_version p0]"
      unfolding versions_ok_def by metis+
    ultimately show ?thesis using p v by (simp add: upto_rec2)
  next
    case False
    with that have "q \<in> set ps" by (auto simp: set_tupd)
    with ok False v show ?thesis by (simp add: versions_ok_def)
  qed
  moreover have "pv_property_id v \<in> pr_id ` set ps" using mem v by (metis imageI)
  ultimately show ?thesis
    using ok unfolding versions_ok_def image keys_distinct_def ids by auto
qed

lemma versions_keep:
  assumes ok: "versions_ok ps vs" and p0: "tget pr_id (pr_id p) ps = Some p0"
    and p: "pr_current_version p = pr_current_version p0"
  shows "versions_ok (tupd pr_id (pr_id p) (\<lambda>_. p) ps) vs"
proof -
  have mem: "p0 \<in> set ps" "pr_id p0 = pr_id p" using tget_Some_key [OF p0] by simp_all
  have ids: "map pr_id (tupd pr_id (pr_id p) (\<lambda>_. p) ps) = map pr_id ps" by (auto simp: tupd_def)
  then have image: "pr_id ` set (tupd pr_id (pr_id p) (\<lambda>_. p) ps) = pr_id ` set ps"
    by (metis list.set_map)
  have "1 \<le> pr_current_version q \<and>
      map pv_version (filter (\<lambda>v. pv_property_id v = pr_id q) vs) = [1..pr_current_version q]"
    if "q \<in> set (tupd pr_id (pr_id p) (\<lambda>_. p) ps)" for q
  proof (cases "pr_id q = pr_id p")
    case True
    with that have "q = p" by (auto simp: set_tupd)
    with ok mem p show ?thesis unfolding versions_ok_def by metis
  next
    case False
    with that have "q \<in> set ps" by (auto simp: set_tupd)
    with ok show ?thesis by (simp add: versions_ok_def)
  qed
  with ok show ?thesis unfolding versions_ok_def image keys_distinct_def ids by auto
qed

lemma configs_append:
  "configs_ok cs \<Longrightarrow> sc_status c = SC_draft \<Longrightarrow> sc_id c = next_id sc_id cs \<Longrightarrow> configs_ok (cs @ [c])"
  by (simp add: configs_ok_def keys_distinct_append at_most_one_append config_approved_def next_id_fresh)

lemma configs_review:
  assumes ok: "configs_ok cs" and row: "tget sc_id i cs = Some row"
  shows "configs_ok (map (review_config_row row approved reason actor now) cs)"
proof -
  let ?f = "review_config_row row approved reason actor now"
  have keep: "sc_id (?f c) = sc_id c" "sc_property_id (?f c) = sc_property_id c" for c
    by (simp_all add: review_config_row_def)
  have ids: "keys_distinct sc_id (map ?f cs)"
    using ok keep by (simp add: configs_ok_def keys_distinct_def comp_def)
  have unique: "sc_id x = sc_id y"
    if "x \<in> set cs" "y \<in> set cs" "config_approved (?f x)" "config_approved (?f y)"
      "sc_property_id x = sc_property_id y" for x y
  proof -
    have row_in: "row \<in> set cs" using tget_Some_key [OF row] by simp
    have same: "c = row" if "c \<in> set cs" "sc_id c = sc_id row" for c
      using ok that row_in tget_in_set [of sc_id cs] by (metis configs_ok_def option.inject)
    have old: "x = y" if "config_approved x" "config_approved y"
      using that \<open>x \<in> set cs\<close> \<open>y \<in> set cs\<close> \<open>sc_property_id x = sc_property_id y\<close> ok
      by (auto simp: configs_ok_def intro: at_most_one_unique)
    have app: "config_approved (?f c) \<longleftrightarrow> (if sc_id c = sc_id row then approved
        else config_approved c \<and> \<not> (approved \<and> sc_property_id c = sc_property_id row))" for c
      by (auto simp: review_config_row_def config_approved_def)
    have one: "sc_id b = sc_id row"
      if "a \<in> set cs" "sc_id a = sc_id row" "config_approved (?f a)" "config_approved (?f b)"
        "sc_property_id a = sc_property_id b" for a b
      using that same [OF that(1,2)] unfolding app by (auto split: if_splits)
    show ?thesis
    proof (cases "sc_id x = sc_id row \<or> sc_id y = sc_id row")
      case True
      then show ?thesis
      proof
        assume "sc_id x = sc_id row"
        with one [OF that(1) this that(3-5)] show ?thesis by simp
      next
        assume "sc_id y = sc_id row"
        with one [OF that(2) this that(4,3) that(5) [symmetric]] show ?thesis by simp
      qed
    next
      case False
      with that(3,4) old show ?thesis unfolding app by simp
    qed
  qed
  have "at_most_one sc_property_id config_approved (map ?f cs)"
  proof (rule at_most_one_by_key [OF ids])
    fix x y
    assume "x \<in> set (map ?f cs)" "y \<in> set (map ?f cs)" and app: "config_approved x" "config_approved y"
      and same: "sc_property_id x = sc_property_id y"
    then obtain a b where "a \<in> set cs" "x = ?f a" "b \<in> set cs" "y = ?f b" by auto
    with app same unique [of a b] keep show "sc_id x = sc_id y" by simp
  qed
  with ids show ?thesis by (simp add: configs_ok_def)
qed

lemma deployments_add:
  assumes ok: "deployments_ok cs ds"
    and retired: "ds' = (case prior of None \<Rightarrow> ds
      | Some p \<Rightarrow> tupd dp_id (dp_id p) (\<lambda>x. x\<lparr>dp_status := DP_rolled_back\<rparr>) ds)"
    and prior: "select_latest dp_id (\<lambda>x. dp_property_id x = dp_property_id r \<and>
        dp_environment x = dp_environment r \<and> dp_status x = DP_deployed) ds = prior"
    and r: "dp_id r = next_id dp_id ds" "reviewed_release cs r"
  shows "deployments_ok cs (ds' @ [r])"
proof -
  let ?g = "\<lambda>x. if prior \<noteq> None \<and> dp_id x = dp_id (the prior) then x\<lparr>dp_status := DP_rolled_back\<rparr> else x"
  have ds': "ds' = map ?g ds" using retired by (auto simp: tupd_def split: option.splits)
  have ids: "map dp_id ds' = map dp_id ds" by (simp add: ds' comp_def)
  then have image: "dp_id ` set ds' = dp_id ` set ds" by (metis list.set_map)
  have amo: "at_most_one deployment_slot is_deployed ds'"
    unfolding ds' by (rule at_most_one_shrink)
      (use ok in \<open>auto simp: deployments_ok_def deployment_slot_def is_deployed_def split: if_splits\<close>)
  have free: "deployment_slot x \<noteq> deployment_slot r" if x: "x \<in> set ds'" "is_deployed x" for x
  proof
    assume slot: "deployment_slot x = deployment_slot r"
    from x obtain y where y: "y \<in> set ds" "x = ?g y" by (auto simp: ds')
    have yd: "dp_status y = DP_deployed" "deployment_slot y = deployment_slot r"
      using x(2) y slot by (auto simp: is_deployed_def deployment_slot_def split: if_splits)
    then obtain p where p: "prior = Some p"
      using y(1) prior by (cases prior) (auto simp: select_latest_None deployment_slot_def)
    from select_latest_Some [OF prior [unfolded p]] have
      "p \<in> set ds" "is_deployed p" "deployment_slot p = deployment_slot r"
      by (simp_all add: is_deployed_def deployment_slot_def)
    with yd y(1) ok have "y = p"
      by (auto simp: deployments_ok_def is_deployed_def intro: at_most_one_unique)
    with p y(2) x(2) show False by (simp add: is_deployed_def)
  qed
  have rel: "reviewed_release cs x" if "x \<in> set ds'" for x
    using that ok by (auto simp: ds' deployments_ok_def reviewed_release_def)
  have fresh: "dp_id r \<notin> dp_id ` set ds'" unfolding image r(1) by (rule next_id_fresh)
  have "keys_distinct dp_id ds'" using ok unfolding keys_distinct_def ids by (simp add: deployments_ok_def keys_distinct_def)
  with amo free rel fresh r(2) show ?thesis
    by (auto simp: deployments_ok_def keys_distinct_append at_most_one_append)
qed

lemma deployments_review:
  "deployments_ok cs ds \<Longrightarrow> deployments_ok (cs @ [c]) ds"
  by (auto simp: deployments_ok_def reviewed_release_def)

lemma registrations_update:
  assumes "registrations_ok rs" "tget dr_id i rs = Some r" "\<And>x. dr_id (f x) = dr_id x"
    and "registration_row_ok r \<Longrightarrow> registration_row_ok (f r)"
  shows "registrations_ok (tupd dr_id i f rs)"
proof -
  have "x = r" if "x \<in> set rs" "dr_id x = i" for x
    using that assms(1,2) tget_in_set [of dr_id rs x] by (simp add: registrations_ok_def)
  with assms show ?thesis
    by (auto simp: registrations_ok_def keys_distinct_tupd set_tupd)
qed

section \<open>Every request keeps the invariant\<close>

lemma snapshot_Inr:
  assumes "snapshot h d prop actor reason = Inr d'"
  obtains v where "d' = d\<lparr>property_versions := property_versions d @ [v]\<rparr>"
    "pv_property_id v = pr_id prop" "pv_version v = pr_current_version prop"
  using assms by (auto simp: snapshot_def)

lemma set_property_frame [simp]:
  "properties_tbl (set_property p d) = tupd pr_id (pr_id p) (\<lambda>_. p) (properties_tbl d)"
  "property_versions (set_property p d) = property_versions d"
  "site_configs (set_property p d) = site_configs d"
  "compliance_reviews (set_property p d) = compliance_reviews d"
  "deployments (set_property p d) = deployments d"
  "domain_registrations (set_property p d) = domain_registrations d"
  by (simp_all add: set_property_def)

lemma provider_tables_frame [simp]:
  "properties_tbl (update_assignment i f d) = properties_tbl d"
  "property_versions (update_assignment i f d) = property_versions d"
  "site_configs (update_assignment i f d) = site_configs d"
  "compliance_reviews (update_assignment i f d) = compliance_reviews d"
  "deployments (update_assignment i f d) = deployments d"
  "domain_registrations (update_assignment i f d) = domain_registrations d"
  "properties_tbl (update_profile j g d) = properties_tbl d"
  "property_versions (update_profile j g d) = property_versions d"
  "site_configs (update_profile j g d) = site_configs d"
  "compliance_reviews (update_profile j g d) = compliance_reviews d"
  "deployments (update_profile j g d) = deployments d"
  "domain_registrations (update_profile j g d) = domain_registrations d"
  by (simp_all add: update_assignment_def update_profile_def)

text \<open>The tables of the invariant are the same.\<close>

definition same_workflow :: "database \<Rightarrow> database \<Rightarrow> bool" where
  "same_workflow d d' \<longleftrightarrow> properties_tbl d' = properties_tbl d \<and>
     property_versions d' = property_versions d \<and> site_configs d' = site_configs d \<and>
     compliance_reviews d' = compliance_reviews d \<and> deployments d' = deployments d \<and>
     domain_registrations d' = domain_registrations d"

lemma same_workflow_ok: "same_workflow d d' \<Longrightarrow> workflow_ok d \<Longrightarrow> workflow_ok d'"
  by (simp add: same_workflow_def workflow_ok_def)

lemma same_workflow_refl [simp]: "same_workflow d d"
  by (simp add: same_workflow_def)

lemma same_workflow_trans: "same_workflow a b \<Longrightarrow> same_workflow b c \<Longrightarrow> same_workflow a c"
  by (simp add: same_workflow_def)

lemma same_workflow_assignment [simp]: "same_workflow d (update_assignment i f d)"
  by (simp add: same_workflow_def)

lemma same_workflow_transition:
  "transition_assignment d i target reason now = Inr d' \<Longrightarrow> same_workflow d d'"
  by (auto simp: transition_assignment_def split: if_splits)

lemma same_workflow_replace:
  assumes "replace_assignment d i j reason now = Inr d'"
  shows "same_workflow d d'"
  using assms
  by (auto simp: replace_assignment_def Let_def same_workflow_def split: if_splits
      dest!: same_workflow_transition)

lemma bump_ok:
  assumes ok: "workflow_ok d" and before: "tget pr_id (pr_id p) (properties_tbl d) = Some before"
    and p: "pr_current_version p = pr_current_version before + 1"
    and d1: "properties_tbl d1 = tupd pr_id (pr_id p) (\<lambda>_. p) (properties_tbl d)"
      "property_versions d1 = property_versions d"
      "compliance_reviews d1 = compliance_reviews d" "deployments d1 = deployments d"
      "configs_ok (site_configs d1)" "registrations_ok (domain_registrations d1)"
    and snap: "snapshot h d1 p actor reason = Inr d'"
  shows "workflow_ok d'"
proof -
  from snap obtain v where d': "d' = d1\<lparr>property_versions := property_versions d1 @ [v]\<rparr>"
    and v: "pv_property_id v = pr_id p" "pv_version v = pr_current_version p"
    by (rule snapshot_Inr)
  from versions_bump [OF workflow_okD(1) [OF ok] before p v] show ?thesis
    using workflow_okD(2-) [OF ok] by (intro workflow_okI) (simp_all add: d' d1)
qed

lemma profile_creation_frame:
  "create_routing_profile d x = Inr (r, d') \<Longrightarrow> \<exists>ps. d' = d\<lparr>routing_profiles := ps\<rparr>"
  by (cases d) (auto simp: create_routing_profile_def split: option.splits sum.splits)

lemma ok_create_property:
  assumes ok: "workflow_ok d" and step: "create_property h d i r actor = Inr (row, d')"
  shows "workflow_ok d'"
proof -
  from step obtain op y d1 x where
    fresh: "tget pr_id (pr_id row) (properties_tbl d) = None" and row: "row = new_property op r"
    and prof: "create_routing_profile (d\<lparr>properties_tbl := properties_tbl d @ [row]\<rparr>) x = Inr (y, d1)"
    and snap: "snapshot h d1 row actor ''Initial approved-opportunity property configuration.'' = Inr d'"
    by (auto simp: create_property_def Let_def split: sum.splits option.splits)
  from profile_creation_frame [OF prof] obtain ps where
    d1: "d1 = d\<lparr>properties_tbl := properties_tbl d @ [row], routing_profiles := ps\<rparr>" by auto
  from snap obtain v where d': "d' = d1\<lparr>property_versions := property_versions d1 @ [v]\<rparr>"
    and v: "pv_property_id v = pr_id row" "pv_version v = pr_current_version row"
    by (rule snapshot_Inr)
  have one: "pr_current_version row = 1" by (simp add: row new_property_def)
  from versions_new [OF workflow_okD(1) [OF ok] fresh one] v one show ?thesis
    using workflow_okD(2-) [OF ok] by (intro workflow_okI) (simp_all add: d' d1)
qed

lemma updated_rows:
  "updated_brand q row = Inr row' \<Longrightarrow>
     pr_id row' = pr_id row \<and> pr_current_version row' = pr_current_version row"
  "updated_contact q row = Inr row' \<Longrightarrow>
     pr_id row' = pr_id row \<and> pr_current_version row' = pr_current_version row"
  by (auto simp: updated_brand_def updated_contact_def Let_def split: option.splits)

lemma updated_analytics_simps [simp]:
  "pr_id (updated_analytics r row) = pr_id row"
  "pr_current_version (updated_analytics r row) = pr_current_version row"
  "pr_public_tracking_number (updated_analytics r row) = pr_public_tracking_number row"
  "pr_public_contact_email (updated_analytics r row) = pr_public_contact_email row"
  by (simp_all add: updated_analytics_def split: option.splits)

lemma ok_update_property:
  assumes ok: "workflow_ok d" and step: "update_property h d i r actor = Inr (row, d')"
  shows "workflow_ok d'"
proof -
  from step obtain row0 row1 row2 p where p0: "property_of d i = Inr row0"
    and rows: "updated_brand r row0 = Inr row1" "updated_contact r row1 = Inr row2"
    and row: "row = (updated_analytics r row2)
        \<lparr>pr_current_version := pr_current_version (updated_analytics r row2) + 1\<rparr>"
    and snap: "snapshot h (update_profile i
          (\<lambda>p. p\<lparr>rp_public_tracking_number := pr_public_tracking_number row,
                rp_public_contact_email := pr_public_contact_email row\<rparr>) (set_property row d))
        row actor (uq_reason r) = Inr d'"
    by (auto simp: update_property_def Let_def)
  have id: "pr_id row = pr_id row0" "pr_current_version row = pr_current_version row0 + 1"
    using updated_rows(1) [OF rows(1)] updated_rows(2) [OF rows(2)]
    by (simp_all add: row)
  have get: "tget pr_id i (properties_tbl d) = Some row0" using p0 by (simp add: property_of_def)
  with id tget_Some_key [OF get] have "tget pr_id (pr_id row) (properties_tbl d) = Some row0" by simp
  from bump_ok [OF ok this id(2) _ _ _ _ _ _ snap] show ?thesis
    using workflow_okD [OF ok] by simp
qed

lemma ok_verify_dns:
  assumes ok: "workflow_ok d" and step: "verify_dns h d i r actor now = Inr d'"
  shows "workflow_ok d'"
proof -
  from step obtain row prop0 where reg: "tget dr_id i (domain_registrations d) = Some row"
    and exp: "dr_expected_dns_records row \<noteq> []"
      "dns_mismatch (dr_expected_dns_records row) (vq_observed_records r) = []"
    and p0: "tget pr_id (dr_property_id row) (properties_tbl d) = Some prop0"
    and snap: "snapshot h (set_property
        (prop0\<lparr>pr_domain := Some (dr_domain row), pr_current_version := pr_current_version prop0 + 1\<rparr>)
        (update_registration i (verified_row r actor now) d))
        (prop0\<lparr>pr_domain := Some (dr_domain row), pr_current_version := pr_current_version prop0 + 1\<rparr>)
        actor ''Verified manually registered domain and DNS records.'' = Inr d'"
    by (auto simp: verify_dns_def registration_of_def property_of_def Let_def)
  have "registrations_ok (tupd dr_id i (verified_row r actor now) (domain_registrations d))"
    by (rule registrations_update [OF workflow_okD(5) [OF ok] reg])
      (use exp in \<open>auto simp: verified_row_def registration_row_ok_def\<close>)
  then show ?thesis
    using workflow_okD [OF ok] p0 tget_Some_key [OF p0]
    by (intro bump_ok [OF ok, where before = prop0, OF _ _ _ _ _ _ _ _ snap])
      (simp_all add: update_registration_def)
qed

lemma ok_create_config:
  assumes ok: "workflow_ok d" and step: "create_site_config h d i r actor = Inr (row, d')"
  shows "workflow_ok d'"
proof -
  from step obtain prop0 where p0: "tget pr_id i (properties_tbl d) = Some prop0"
    and row: "sc_status row = SC_draft" "sc_id row = next_id sc_id (site_configs d)"
    and snap: "snapshot h (set_property (prop0\<lparr>pr_current_version := pr_current_version prop0 + 1\<rparr>)
        (d\<lparr>site_configs := site_configs d @ [row]\<rparr>))
        (prop0\<lparr>pr_current_version := pr_current_version prop0 + 1\<rparr>) actor
        (''Created SiteConfig version '' @ py_str_int (sc_version row) @ ''.'') = Inr d'"
    by (auto simp: create_site_config_def property_of_def Let_def)
  from configs_append [OF workflow_okD(2) [OF ok] row] show ?thesis
    using workflow_okD [OF ok] p0 tget_Some_key [OF p0]
    by (intro bump_ok [OF ok, where before = prop0, OF _ _ _ _ _ _ _ _ snap]) simp_all
qed

lemma ok_review_config:
  assumes ok: "workflow_ok d" and step: "review_site_config d i approved reason actor now = Inr d'"
  shows "workflow_ok d'"
proof -
  from step obtain row where row: "tget sc_id i (site_configs d) = Some row"
    by (auto simp: review_site_config_def config_of_def)
  let ?cs = "map (review_config_row row approved reason actor now) (site_configs d)"
  have cs: "configs_ok ?cs" by (rule configs_review [OF workflow_okD(2) [OF ok] row])
  show ?thesis
  proof (cases approved)
    case True
    with step row obtain p where p: "tget pr_id (sc_property_id row) (properties_tbl d) = Some p"
      and d': "d' = set_property (p\<lparr>pr_active_site_config_version := Some (sc_version row)\<rparr>)
        (d\<lparr>site_configs := ?cs\<rparr>)"
      by (auto simp: review_site_config_def config_of_def property_of_def Let_def)
    have "versions_ok (tupd pr_id (pr_id p)
        (\<lambda>_. p\<lparr>pr_active_site_config_version := Some (sc_version row)\<rparr>) (properties_tbl d))
        (property_versions d)"
      using versions_keep [OF workflow_okD(1) [OF ok],
          of "p\<lparr>pr_active_site_config_version := Some (sc_version row)\<rparr>" p]
        p tget_Some_key [OF p] by simp
    with cs workflow_okD(3-) [OF ok] show ?thesis by (intro workflow_okI) (simp_all add: d')
  next
    case False
    with step row have "d' = d\<lparr>site_configs := ?cs\<rparr>"
      by (auto simp: review_site_config_def config_of_def Let_def)
    with cs workflow_okD [OF ok] show ?thesis by (intro workflow_okI) simp_all
  qed
qed

lemma same_add_candidates:
  "add_candidates seen d i xs = Inr d' \<Longrightarrow> same_workflow d d'"
proof (induction xs arbitrary: d)
  case (Cons x xs)
  have "same_workflow d (d\<lparr>domain_candidates := cs\<rparr>)" for cs by (simp add: same_workflow_def)
  with Cons show ?case by (auto split: if_splits intro: same_workflow_trans)
qed simp

lemma ok_approve_purchase:
  assumes ok: "workflow_ok d"
    and step: "approve_domain_purchase d i explicit reason actor cp now = Inr (row, d')"
  shows "workflow_ok d'"
proof -
  from step consider "d' = d"
    | c where "row = new_registration d c reason actor now"
      "d' = d\<lparr>domain_registrations := domain_registrations d @ [row]\<rparr>"
    by (auto simp: approve_domain_purchase_def Let_def split: option.splits)
  then show ?thesis
  proof cases
    case 1
    with ok show ?thesis by simp
  next
    case (2 c)
    have "registrations_ok (domain_registrations d @ [row])"
      using workflow_okD(5) [OF ok]
      by (simp add: registrations_ok_def keys_distinct_append 2(1) new_registration_def next_id_fresh
          registration_row_ok_def)
    with workflow_okD [OF ok] show ?thesis by (intro workflow_okI) (simp_all add: 2(2))
  qed
qed

lemma ok_record_registration:
  assumes ok: "workflow_ok d" and step: "record_manual_registration d i r actor now = Inr d'"
  shows "workflow_ok d'"
proof -
  let ?f = "\<lambda>x. x\<lparr>dr_external_reference := Some (mq_external_reference r),
     dr_registrar_name := mq_registrar_name r, dr_expected_dns_records := mq_expected_dns_records r,
     dr_registered_at := Some now, dr_status := RS_manually_registered\<rparr>"
  from step obtain row where reg: "tget dr_id i (domain_registrations d) = Some row"
    and d': "d' = update_registration i ?f d"
    by (auto simp: record_manual_registration_def registration_of_def)
  have "registrations_ok (tupd dr_id i ?f (domain_registrations d))"
    by (rule registrations_update [OF workflow_okD(5) [OF ok] reg])
      (auto simp: registration_row_ok_def)
  with workflow_okD [OF ok] show ?thesis
    by (intro workflow_okI) (simp_all add: d' update_registration_def)
qed

lemma same_create_provider:
  "create_provider_assignment d i r actor now = Inr (row, d') \<Longrightarrow> same_workflow d d'"
  by (auto simp: create_provider_assignment_def create_assignment_def same_workflow_def
      split: sum.splits)

lemma same_activate:
  assumes "activate_provider d i reason actor now = Inr (w, d')"
  shows "same_workflow d d'"
proof -
  from assms obtain row where row: "workflow_assignment d i = Inr row"
    by (auto simp: activate_provider_def)
  let ?t = "and_then (if pa_status row = PA_candidate
      then transition_assignment d i PA_pilot None now else Inr d)
    (\<lambda>d1. transition_assignment d1 i PA_active None now)"
  obtain d2 where t: "?t = Inr d2" using assms row by (cases ?t) (auto simp: activate_provider_def)
  with assms row have "same_workflow d2 d'"
    by (auto simp: activate_provider_def Let_def)
  moreover from t have "same_workflow d d2"
    by (auto split: if_splits dest!: same_workflow_transition intro: same_workflow_trans)
  ultimately show ?thesis by (rule same_workflow_trans [rotated])
qed

lemma same_replace:
  assumes "replace_provider d pid i reason actor now = Inr (w, d')"
  shows "same_workflow d d'"
proof -
  from assms obtain current where c: "active_assignment d pid = Some current"
    by (auto simp: replace_provider_def split: option.splits)
  let ?t = "replace_assignment d (pa_id current) i reason now"
  obtain d2 where t: "?t = Inr d2" using assms c by (cases ?t) (auto simp: replace_provider_def)
  with assms c have "same_workflow d2 d'" by (auto simp: replace_provider_def Let_def)
  with same_workflow_replace [OF t] show ?thesis by (rule same_workflow_trans)
qed

lemma same_build:
  assumes "build_site b d i environment = Inr (row, d')"
  shows "same_workflow d d'"
proof -
  have "same_workflow d (snd (store_build d c e x))" for c e x
    by (simp add: store_build_def Let_def same_workflow_def split: option.splits)
  moreover from assms obtain c x where "store_build d c environment x = (row, d')"
    by (auto simp: build_site_def Let_def)
  ultimately show ?thesis by (metis snd_conv)
qed

lemma missing_checks_Nil: "failed_checks cs = [] \<Longrightarrow> \<forall>k \<in> set REQUIRED_COMPLIANCE_CHECKS. map_of cs k = Some True"
  unfolding failed_checks_def
  by (metis (mono_tags, lifting) filter_empty_conv set_empty set_sort)

lemma ok_review_compliance:
  assumes ok: "workflow_ok d" and step: "review_compliance d i r actor now = Inr (row, d')"
  shows "workflow_ok d'"
proof -
  from step have d': "d' = d\<lparr>compliance_reviews := compliance_reviews d @ [row]\<rparr>"
    by (auto simp: review_compliance_def Let_def)
  have "compliance_row_ok row"
    using step missing_checks_Nil
    by (auto simp: review_compliance_def Let_def compliance_row_ok_def split: if_splits)
  with workflow_okD [OF ok] show ?thesis
    by (intro workflow_okI) (auto simp: d' compliance_ok_def intro: deployments_review)
qed

text \<open>What a deployment that succeeds has checked and written.\<close>

lemma deploy_Inr:
  assumes "deploy d i r actor adapter now = Inr (row, w, d')"
  obtains build pr gates res where
    "build_of d i = Inr build" "property_of d (sb_property_id build) = Inr pr"
    "sb_environment build = eq_environment r" "actor_role actor \<in> {RR_operator, RR_admin}"
    "deployment_gates d pr build r = Inr gates"
    "eq_environment r = BE_production \<longrightarrow> failed_gates gates = []"
    "row = new_deployment d pr build r gates res actor now"
    "d' = set_property (deployed_status (eq_environment r) pr)
       ((retire_deployment (current_deployment d (pr_id pr) (eq_environment r)) d)
        \<lparr>deployments := deployments (retire_deployment
            (current_deployment d (pr_id pr) (eq_environment r)) d) @ [row]\<rparr>)"
    "\<not> da_public_capable adapter"
proof -
  from assms obtain build pr gates where
    b: "build_of d i = Inr build" "property_of d (sb_property_id build) = Inr pr"
      "sb_environment build = eq_environment r" "deployment_gates d pr build r = Inr gates"
    by (auto simp: deploy_def)
  from assms b obtain res where
    res: "da_deploy adapter (sb_output_path build)
        (deployment_path (pr_id pr) (eq_environment r) (sb_build_sha256 build)) = Inr res"
    by (auto simp: deploy_def Let_def split: sum.splits)
  note defs = deploy_def Let_def check_operator_def
  have "actor_role actor \<in> {RR_operator, RR_admin}" using assms by (auto simp: defs)
  moreover have "eq_environment r = BE_production \<longrightarrow> failed_gates gates = []"
    using assms b by (auto simp: defs)
  moreover have "\<not> da_public_capable adapter" using assms b by (auto simp: defs)
  moreover have "row = new_deployment d pr build r gates res actor now"
    using assms b res by (auto simp: defs)
  moreover have "d' = set_property (deployed_status (eq_environment r) pr)
       ((retire_deployment (current_deployment d (pr_id pr) (eq_environment r)) d)
        \<lparr>deployments := deployments (retire_deployment
            (current_deployment d (pr_id pr) (eq_environment r)) d) @ [row]\<rparr>)"
    using assms b res by (auto simp: defs)
  ultimately show ?thesis using b by (intro that) auto
qed

lemma failed_gates_Nil: "failed_gates gates = [] \<Longrightarrow> list_all snd gates"
proof -
  assume "failed_gates gates = []"
  then have "filter (\<lambda>(k, passed). \<not> passed) gates = []"
    unfolding failed_gates_def by (metis (no_types, lifting) list.map_disc_iff set_empty set_sort)
  then show ?thesis by (auto simp: filter_empty_conv list_all_iff)
qed

lemma production_gates:
  assumes "deployment_gates d prop build r = Inr gates" "failed_gates gates = []"
  shows "\<exists>op config profile reg c.
    tget op_id (pr_opportunity_id prop) (opportunities d) = Some op \<and>
    op_status op = ''approved_for_property'' \<and>
    config_of d (sb_site_config_id build) = Inr config \<and> sc_status config = SC_approved \<and>
    sb_status build = ''passed'' \<and> get_truthy (sb_validation_report build) ''passed'' \<and>
    approved_compliance d (sb_id build) = Some c \<and>
    verified_registration d (pr_id prop) = Some reg \<and> pr_domain prop = Some (dr_domain reg) \<and>
    profile_of d (pr_id prop) = Some profile \<and>
    rp_routing_health_status profile \<in> {Some ''healthy'', Some ''active'', Some ''ok''} \<and>
    jget (pr_analytics_config prop) ''verified'' = Some (JBool True) \<and>
    eq_operator_confirmation r \<and> py_strip (eq_confirmation_reason r) \<noteq> [] \<and>
    ((\<exists>a. active_assignment d (pr_id prop) = Some a \<and> pa_claims_reviewed_at a \<noteq> None) \<or>
     (eq_neutral_pilot_mode r \<and> py_strip (eq_neutral_pilot_reason r) \<noteq> []))"
proof -
  have gate: "list_all snd gates" by (rule failed_gates_Nil [OF assms(2)])
  from assms(1) obtain config profile where
    cp: "config_of d (sb_site_config_id build) = Inr config" "profile_of d (pr_id prop) = Some profile"
    by (auto simp: deployment_gates_def workflow_profile_def)
  show ?thesis
    using gate cp assms(1)
    by (auto simp: deployment_gates_def workflow_profile_def Let_def split: option.splits)
qed

lemma deployed_status_frame [simp]:
  "pr_id (deployed_status e p) = pr_id p"
  "pr_current_version (deployed_status e p) = pr_current_version p"
  by (simp_all add: deployed_status_def split: build_environment.splits)

lemma retire_frame [simp]:
  "properties_tbl (retire_deployment p d) = properties_tbl d"
  "property_versions (retire_deployment p d) = property_versions d"
  "site_configs (retire_deployment p d) = site_configs d"
  "compliance_reviews (retire_deployment p d) = compliance_reviews d"
  "domain_registrations (retire_deployment p d) = domain_registrations d"
  "deployments (retire_deployment p d) = (case p of None \<Rightarrow> deployments d
     | Some q \<Rightarrow> tupd dp_id (dp_id q) (\<lambda>x. x\<lparr>dp_status := DP_rolled_back\<rparr>) (deployments d))"
  by (simp_all add: retire_deployment_def split: option.splits)

lemma ok_deploy:
  assumes ok: "workflow_ok d" and step: "deploy d i r actor adapter now = Inr (row, w, d')"
  shows "workflow_ok d'"
proof -
  from step obtain build pr gates res where
    b: "build_of d i = Inr build" "property_of d (sb_property_id build) = Inr pr"
      "deployment_gates d pr build r = Inr gates"
      "eq_environment r = BE_production \<longrightarrow> failed_gates gates = []"
    and row: "row = new_deployment d pr build r gates res actor now"
    and d': "d' = set_property (deployed_status (eq_environment r) pr)
       ((retire_deployment (current_deployment d (pr_id pr) (eq_environment r)) d)
        \<lparr>deployments := deployments (retire_deployment
            (current_deployment d (pr_id pr) (eq_environment r)) d) @ [row]\<rparr>)"
    by (rule deploy_Inr) (rule that; assumption)
  have pr: "tget pr_id (pr_id pr) (properties_tbl d) = Some pr"
    using b(2) tget_Some_key [of pr_id "sb_property_id build" "properties_tbl d" pr]
    by (simp add: property_of_def)
  have release: "reviewed_release (compliance_reviews d) row"
  proof (cases "eq_environment r = BE_production")
    case True
    from production_gates [OF b(3) b(4) [rule_format, OF True]] obtain c where
      c: "approved_compliance d (sb_id build) = Some c" and conf: "eq_operator_confirmation r" by blast
    from select_latest_Some [OF c [unfolded approved_compliance_def]] c conf show ?thesis
      by (auto simp: reviewed_release_def row new_deployment_def)
  next
    case False
    then show ?thesis by (simp add: reviewed_release_def row new_deployment_def)
  qed
  have "deployments_ok (compliance_reviews d) (deployments (retire_deployment
      (current_deployment d (pr_id pr) (eq_environment r)) d) @ [row])"
    by (rule deployments_add [OF workflow_okD(4) [OF ok], where r = row])
      (use release in \<open>simp_all add: row new_deployment_def current_deployment_def\<close>)
  moreover have "versions_ok (tupd pr_id (pr_id pr) (\<lambda>_. deployed_status (eq_environment r) pr)
      (properties_tbl d)) (property_versions d)"
    using versions_keep [OF workflow_okD(1) [OF ok], of "deployed_status (eq_environment r) pr" pr] pr
    by simp
  ultimately show ?thesis
    using workflow_okD [OF ok] by (intro workflow_okI) (simp_all add: d')
qed

lemma rollback_Inr:
  assumes "rollback d pid r actor adapter now = Inr (row, w, d')"
  obtains target current build res where
    "tget dp_id (bq_target_deployment_id r) (deployments d) = Some target" "dp_property_id target = pid"
    "dp_environment target = BE_production" "current_deployment d pid BE_production = Some current"
    "dp_id current \<noteq> dp_id target" "build_of d (dp_site_build_id target) = Inr build"
    "actor_role actor \<in> {RR_operator, RR_admin}" "bq_operator_confirmation r"
    "row = rollback_row d target current build r res actor now"
    "d' = (retire_deployment (Some current) d)
       \<lparr>deployments := deployments (retire_deployment (Some current) d) @ [row]\<rparr>"
proof -
  from assms obtain target current build where
    b: "tget dp_id (bq_target_deployment_id r) (deployments d) = Some target" "dp_property_id target = pid"
      "dp_environment target = BE_production" "current_deployment d pid BE_production = Some current"
      "dp_id current \<noteq> dp_id target" "build_of d (dp_site_build_id target) = Inr build"
      "bq_operator_confirmation r"
    by (auto simp: rollback_def split: option.splits)
  from assms b obtain res where
    res: "da_deploy adapter (sb_output_path build)
        (deployment_path pid BE_production (sb_build_sha256 build)) = Inr res"
    by (auto simp: rollback_def Let_def split: sum.splits)
  note defs = rollback_def Let_def check_operator_def
  have "actor_role actor \<in> {RR_operator, RR_admin}" using assms by (auto simp: defs)
  moreover have "row = rollback_row d target current build r res actor now"
    using assms b res by (auto simp: defs)
  moreover have "d' = (retire_deployment (Some current) d)
       \<lparr>deployments := deployments (retire_deployment (Some current) d) @ [row]\<rparr>"
    using assms b res by (auto simp: defs)
  ultimately show ?thesis using b by (intro that) auto
qed

lemma ok_rollback:
  assumes ok: "workflow_ok d" and step: "rollback d pid r actor adapter now = Inr (row, w, d')"
  shows "workflow_ok d'"
proof -
  from step obtain target current build res where
    t: "tget dp_id (bq_target_deployment_id r) (deployments d) = Some target" "dp_property_id target = pid"
      "dp_environment target = BE_production" "current_deployment d pid BE_production = Some current"
    and build: "build_of d (dp_site_build_id target) = Inr build"
    and row: "row = rollback_row d target current build r res actor now"
    and d': "d' = (retire_deployment (Some current) d)
       \<lparr>deployments := deployments (retire_deployment (Some current) d) @ [row]\<rparr>"
    by (rule rollback_Inr) (rule that; assumption)
  have id: "sb_id build = dp_site_build_id target"
    using build tget_Some_key [of sb_id] by (auto simp: build_of_def)
  have "reviewed_release (compliance_reviews d) target"
    using workflow_okD(4) [OF ok] tget_Some_key [OF t(1)] by (auto simp: deployments_ok_def)
  with t(3) id have release: "reviewed_release (compliance_reviews d) row"
    by (simp add: reviewed_release_def row rollback_row_def)
  have "deployments_ok (compliance_reviews d) (deployments (retire_deployment (Some current) d) @ [row])"
    by (rule deployments_add [OF workflow_okD(4) [OF ok], where r = row])
      (use release t in \<open>simp_all add: row rollback_row_def current_deployment_def\<close>)
  with workflow_okD [OF ok] show ?thesis by (intro workflow_okI) (simp_all add: d')
qed

lemma same_provider_step:
  assumes "provider_step d opn = Inr d'"
  shows "same_workflow d d'"
proof (cases opn)
  case (CreateProfile x)
  with assms profile_creation_frame show ?thesis by (fastforce simp: same_workflow_def)
next
  case (CreateAssignment x)
  with assms show ?thesis by (auto simp: create_assignment_def same_workflow_def)
next
  case (ConfigureCallRouting pid name conf now)
  with assms show ?thesis
    by (auto simp: configure_call_routing_def Let_def same_workflow_def split: option.splits)
next
  case (CheckCallRouting pid health)
  with assms show ?thesis by (auto simp: check_call_routing_health_def same_workflow_def)
qed (use assms same_workflow_transition same_workflow_replace in auto)

lemma workflow_step_ok:
  assumes ok: "workflow_ok d" and step: "workflow_step env d opn = Inr d'"
  shows "workflow_ok d'"
proof (cases opn)
  case (CreateProperty i raw actor)
  with step ok_create_property [OF ok] show ?thesis by auto
next
  case (UpdateProperty i raw actor)
  with step ok_update_property [OF ok] show ?thesis by auto
next
  case (GenerateDomains i raw)
  with step have "same_workflow d d'"
    by (auto simp: generate_domain_candidates_def Let_def dest: same_add_candidates)
  with ok show ?thesis by (rule same_workflow_ok [rotated])
next
  case (DecideDomain i shortlist reason actor now)
  with step have "same_workflow d d'" by (auto simp: decide_domain_candidate_def same_workflow_def)
  with ok show ?thesis by (rule same_workflow_ok [rotated])
next
  case (CheckDomain i check now)
  with step have "same_workflow d d'"
    by (auto simp: check_domain_availability_def Let_def same_workflow_def)
  with ok show ?thesis by (rule same_workflow_ok [rotated])
next
  case (ApprovePurchase i explicit reason actor cp now)
  with step ok_approve_purchase [OF ok] show ?thesis by auto
next
  case (RecordRegistration i r actor now)
  with step ok_record_registration [OF ok] show ?thesis by auto
next
  case (VerifyDns i r actor now)
  with step ok_verify_dns [OF ok] show ?thesis by auto
next
  case (CreateAsset i r)
  with step have "same_workflow d d'" by (auto simp: create_asset_def Let_def same_workflow_def)
  with ok show ?thesis by (rule same_workflow_ok [rotated])
next
  case (ReviewAsset i approved reason actor now)
  with step have "same_workflow d d'" by (auto simp: review_asset_def same_workflow_def)
  with ok show ?thesis by (rule same_workflow_ok [rotated])
next
  case (CreateProvider i r actor now)
  with step have "same_workflow d d'" by (auto dest: same_create_provider)
  with ok show ?thesis by (rule same_workflow_ok [rotated])
next
  case (ActivateProvider i reason actor now)
  with step have "same_workflow d d'" by (auto dest: same_activate)
  with ok show ?thesis by (rule same_workflow_ok [rotated])
next
  case (ReplaceProvider pid i reason actor now)
  with step have "same_workflow d d'" by (auto dest: same_replace)
  with ok show ?thesis by (rule same_workflow_ok [rotated])
next
  case (CreateSiteConfig i raw actor)
  with step ok_create_config [OF ok] show ?thesis by auto
next
  case (ReviewSiteConfig i approved reason actor now)
  with step ok_review_config [OF ok] show ?thesis by auto
next
  case (BuildSite i environment)
  with step have "same_workflow d d'" by (auto dest: same_build)
  with ok show ?thesis by (rule same_workflow_ok [rotated])
next
  case (ReviewCompliance i r actor now)
  with step ok_review_compliance [OF ok] show ?thesis by auto
next
  case (Deploy i r actor adapter now)
  with step ok_deploy [OF ok] show ?thesis by auto
next
  case (Rollback pid r actor adapter now)
  with step ok_rollback [OF ok] show ?thesis by auto
next
  case (ProviderRequest x)
  with step have "same_workflow d d'" by (auto dest: same_provider_step split: sum.splits)
  with ok show ?thesis by (rule same_workflow_ok [rotated])
qed

interpretation workflow: request_machine "workflow_step env" workflow_ok for env
  by unfold_locales (rule workflow_step_ok)

section \<open>Properties of the property workflow\<close>

text \<open>
  C11: production releases are gated. In every history, a production deployment that
  succeeds was started by an operator with a local adapter, an explicit confirmation and a
  reason, for an opportunity that is still approved, an approved configuration, a build that
  passed validation and a compliance review of this very build in which every required check
  is true, for the property's own domain, whose expected DNS records were all observed, with a
  routing profile reported healthy, active or ok, verified analytics, and a reviewed active provider or a reasoned neutral pilot.
\<close>

theorem production_release_gated:
  assumes "workflow_ok d0" "d = run_requests (workflow_step env) d0 ops"
    and "deploy d i r actor adapter now = Inr (row, w, d')" "eq_environment r = BE_production"
  shows "actor_role actor \<in> {RR_operator, RR_admin} \<and> \<not> da_public_capable adapter \<and>
    eq_operator_confirmation r \<and> py_strip (eq_confirmation_reason r) \<noteq> [] \<and>
    (\<exists>build prp op config c reg. build_of d i = Inr build \<and> sb_environment build = BE_production \<and>
      property_of d (sb_property_id build) = Inr prp \<and>
      tget op_id (pr_opportunity_id prp) (opportunities d) = Some op \<and>
      op_status op = ''approved_for_property'' \<and>
      config_of d (sb_site_config_id build) = Inr config \<and> sc_status config = SC_approved \<and>
      sb_status build = ''passed'' \<and>
      c \<in> set (compliance_reviews d) \<and> cm_status c = CM_approved \<and> cm_site_build_id c = sb_id build \<and>
      list_all (\<lambda>k. map_of (cm_checklist c) k = Some True) REQUIRED_COMPLIANCE_CHECKS \<and>
      reg \<in> set (domain_registrations d) \<and> dr_property_id reg = pr_id prp \<and>
      pr_domain prp = Some (dr_domain reg) \<and> dr_purchase_approved reg \<and>
      dr_expected_dns_records reg \<noteq> [] \<and>
      dns_mismatch (dr_expected_dns_records reg) (dr_observed_dns_records reg) = [] \<and>
      (\<exists>profile. profile_of d (pr_id prp) = Some profile \<and>
         rp_routing_health_status profile \<in> {Some ''healthy'', Some ''active'', Some ''ok''}) \<and>
      jget (pr_analytics_config prp) ''verified'' = Some (JBool True) \<and>
      ((\<exists>a. active_assignment d (pr_id prp) = Some a \<and> pa_claims_reviewed_at a \<noteq> None) \<or>
       (eq_neutral_pilot_mode r \<and> py_strip (eq_neutral_pilot_reason r) \<noteq> [])))"
proof -
  have ok: "workflow_ok d" unfolding assms(2) by (rule workflow.run_inv [OF assms(1)])
  from assms(3) obtain build prp gates where
    b: "build_of d i = Inr build" "property_of d (sb_property_id build) = Inr prp"
      "sb_environment build = eq_environment r" "actor_role actor \<in> {RR_operator, RR_admin}"
      "deployment_gates d prp build r = Inr gates"
      "eq_environment r = BE_production \<longrightarrow> failed_gates gates = []" "\<not> da_public_capable adapter"
    by (rule deploy_Inr) (rule that; assumption)
  from production_gates [OF b(5) b(6) [rule_format, OF assms(4)]] obtain op config profile reg c where
    g: "tget op_id (pr_opportunity_id prp) (opportunities d) = Some op"
      "op_status op = ''approved_for_property''"
      "config_of d (sb_site_config_id build) = Inr config" "sc_status config = SC_approved"
      "sb_status build = ''passed''" "approved_compliance d (sb_id build) = Some c"
      "verified_registration d (pr_id prp) = Some reg" "pr_domain prp = Some (dr_domain reg)"
      "jget (pr_analytics_config prp) ''verified'' = Some (JBool True)"
      "eq_operator_confirmation r" "py_strip (eq_confirmation_reason r) \<noteq> []"
      "(\<exists>a. active_assignment d (pr_id prp) = Some a \<and> pa_claims_reviewed_at a \<noteq> None) \<or>
       (eq_neutral_pilot_mode r \<and> py_strip (eq_neutral_pilot_reason r) \<noteq> [])"
      "profile_of d (pr_id prp) = Some profile \<and>
       rp_routing_health_status profile \<in> {Some ''healthy'', Some ''active'', Some ''ok''}"
    by blast
  from select_latest_Some [OF g(6) [unfolded approved_compliance_def]] have
    c: "c \<in> set (compliance_reviews d)" "cm_status c = CM_approved" "cm_site_build_id c = sb_id build"
    by simp_all
  from select_latest_Some [OF g(7) [unfolded verified_registration_def]] have
    reg: "reg \<in> set (domain_registrations d)" "dr_property_id reg = pr_id prp" "dr_status reg = RS_dns_verified"
    by simp_all
  have checks: "list_all (\<lambda>k. map_of (cm_checklist c) k = Some True) REQUIRED_COMPLIANCE_CHECKS"
    using workflow_okD(3) [OF ok] c by (simp add: compliance_ok_def compliance_row_ok_def list_all_iff)
  have dns: "dr_purchase_approved reg" "dr_expected_dns_records reg \<noteq> []"
    "dns_mismatch (dr_expected_dns_records reg) (dr_observed_dns_records reg) = []"
    using workflow_okD(5) [OF ok] reg by (auto simp: registrations_ok_def registration_row_ok_def)
  have "sb_environment build = BE_production" using b(3) assms(4) by simp
  with b(1,2,4,7) g(1-5,8-13) c reg(1,2) checks dns show ?thesis by blast
qed

text \<open>
  C12: one live release, always reviewed. In every history of the workflow, each property and
  environment has at most one deployed release and each property at most one approved
  configuration, and every production release, rollbacks included, carries an operator's
  confirmation and an approved compliance review of exactly the build it serves.
\<close>

theorem one_live_release:
  assumes "workflow_ok d"
  shows "let d' = run_requests (workflow_step env) d ops in
    at_most_one (\<lambda>x. (dp_property_id x, dp_environment x)) (\<lambda>x. dp_status x = DP_deployed) (deployments d') \<and>
    at_most_one sc_property_id (\<lambda>c. sc_status c = SC_approved) (site_configs d') \<and>
    (\<forall>x \<in> set (deployments d'). dp_environment x = BE_production \<longrightarrow> dp_operator_confirmation x \<and>
       (\<exists>c \<in> set (compliance_reviews d'). dp_compliance_review_id x = Some (cm_id c) \<and>
          cm_status c = CM_approved \<and> cm_site_build_id c = dp_site_build_id x \<and>
          list_all (\<lambda>k. map_of (cm_checklist c) k = Some True) REQUIRED_COMPLIANCE_CHECKS))"
proof -
  let ?d = "run_requests (workflow_step env) d ops"
  have ok: "workflow_ok ?d" by (rule workflow.run_inv [OF assms])
  have "deployment_slot = (\<lambda>x. (dp_property_id x, dp_environment x))"
    "is_deployed = (\<lambda>x. dp_status x = DP_deployed)" "config_approved = (\<lambda>c. sc_status c = SC_approved)"
    by (auto simp: deployment_slot_def is_deployed_def config_approved_def)
  moreover note workflow_okD [OF ok]
  ultimately show ?thesis
    by (auto simp: Let_def deployments_ok_def configs_ok_def reviewed_release_def compliance_ok_def
        compliance_row_ok_def list_all_iff) blast
qed

text \<open>
  the version history of a property is complete. In every history of the workflow, the
  snapshots of a property are numbered from one to its current version, in order and without
  gaps or repetitions, and every snapshot belongs to a property.
\<close>

theorem property_versions_gapless:
  assumes "workflow_ok d"
  shows "let d' = run_requests (workflow_step env) d ops in
    (\<forall>p \<in> set (properties_tbl d').
       map pv_version (filter (\<lambda>v. pv_property_id v = pr_id p) (property_versions d')) =
       [1..pr_current_version p]) \<and>
    (\<forall>v \<in> set (property_versions d'). pv_property_id v \<in> pr_id ` set (properties_tbl d'))"
  using workflow_okD(1) [OF workflow.run_inv [OF assms, of env ops]]
  by (simp add: Let_def versions_ok_def)

text \<open>
  rollback restores a reviewed release. A rollback needs an operator's confirmation; it
  serves the build of an earlier production deployment of the same property again under that
  deployment's compliance review, makes it the property's only live production release, and
  keeps the release it replaced as rolled back.
\<close>

theorem rollback_restores_release:
  assumes "workflow_ok d" "rollback d pid r actor adapter now = Inr (row, w, d')"
  shows "actor_role actor \<in> {RR_operator, RR_admin} \<and> bq_operator_confirmation r \<and>
    current_deployment d' pid BE_production = Some row \<and>
    (\<exists>target current c. tget dp_id (bq_target_deployment_id r) (deployments d) = Some target \<and>
       dp_property_id target = pid \<and> dp_environment target = BE_production \<and>
       dp_site_build_id row = dp_site_build_id target \<and>
       current_deployment d pid BE_production = Some current \<and> dp_id current \<noteq> dp_id target \<and>
       dp_rollback_of_deployment_id row = Some (dp_id current) \<and>
       tget dp_id (dp_id current) (deployments d') = Some (current\<lparr>dp_status := DP_rolled_back\<rparr>) \<and>
       c \<in> set (compliance_reviews d) \<and> dp_compliance_review_id row = Some (cm_id c) \<and>
       cm_status c = CM_approved \<and> cm_site_build_id c = dp_site_build_id row)"
proof -
  from assms(2) obtain target current build res where
    t: "tget dp_id (bq_target_deployment_id r) (deployments d) = Some target" "dp_property_id target = pid"
      "dp_environment target = BE_production" "current_deployment d pid BE_production = Some current"
      "dp_id current \<noteq> dp_id target" "build_of d (dp_site_build_id target) = Inr build"
      "actor_role actor \<in> {RR_operator, RR_admin}" "bq_operator_confirmation r"
    and row: "row = rollback_row d target current build r res actor now"
    and d': "d' = (retire_deployment (Some current) d)
       \<lparr>deployments := deployments (retire_deployment (Some current) d) @ [row]\<rparr>"
    by (rule rollback_Inr)
  have ok': "workflow_ok d'" by (rule ok_rollback [OF assms])
  have cur: "current \<in> set (deployments d)"
    using select_latest_Some [OF t(4) [unfolded current_deployment_def]] by simp
  have ids: "keys_distinct dp_id (deployments d)" using workflow_okD(4) [OF assms(1)] by (simp add: deployments_ok_def)
  have get: "tget dp_id (dp_id current) (deployments d) = Some current" by (rule tget_in_set [OF ids cur])
  have old: "tget dp_id (dp_id current) (deployments d') = Some (current\<lparr>dp_status := DP_rolled_back\<rparr>)"
    using get by (simp add: d' tget_append tget_tupd_if)
  have build_id: "sb_id build = dp_site_build_id target"
    using t(6) tget_Some_key [of sb_id] by (auto simp: build_of_def)
  have fields: "dp_site_build_id row = dp_site_build_id target" "dp_property_id row = pid"
    "dp_environment row = BE_production" "dp_status row = DP_deployed"
    "dp_rollback_of_deployment_id row = Some (dp_id current)"
    "dp_compliance_review_id row = dp_compliance_review_id target"
    using t(2) by (simp_all add: row rollback_row_def build_id)
  have "current_deployment d' pid BE_production = Some row"
  proof (cases "current_deployment d' pid BE_production")
    case None
    have "row \<in> set (deployments d')" by (simp add: d')
    with None fields show ?thesis by (auto simp: current_deployment_def select_latest_None)
  next
    case (Some x)
    from select_latest_Some [OF this [unfolded current_deployment_def]] have
      "x \<in> set (deployments d')" "is_deployed x" "deployment_slot x = deployment_slot row"
      using fields by (simp_all add: is_deployed_def deployment_slot_def)
    moreover have "row \<in> set (deployments d')" "is_deployed row"
      using fields by (simp_all add: d' is_deployed_def)
    ultimately have "x = row"
      using workflow_okD(4) [OF ok'] by (auto simp: deployments_ok_def intro: at_most_one_unique)
    with Some show ?thesis by simp
  qed
  moreover have "reviewed_release (compliance_reviews d) target"
    using workflow_okD(4) [OF assms(1)] tget_Some_key [OF t(1)] by (auto simp: deployments_ok_def)
  then obtain c where "c \<in> set (compliance_reviews d)" "dp_compliance_review_id row = Some (cm_id c)"
    "cm_status c = CM_approved" "cm_site_build_id c = dp_site_build_id row"
    using t(3) fields by (auto simp: reviewed_release_def)
  ultimately show ?thesis using t fields old by blast
qed

section \<open>Domain candidates\<close>

text \<open>
  domain generation fails for a brand that names city and service. The stems of
  the candidates are not compared with each other: when the slug of the brand is the
  city-service stem, the first two candidates are the same domain, and unless it is a
  candidate already, generating two or more candidates under one top-level domain violates
  the unique constraint and raises.
\<close>

theorem domain_generation_collides:
  assumes "property_of d pid = Inr row"
    and "tget op_id (pr_opportunity_id row) (opportunities d) = Some op"
    and "tget sf_id (op_service_family_id op) (service_families d) = Some service"
    and "tget mk_id (op_market_id op) (markets d) = Some mkt" "mk_cities mkt = city # cities"
    and "slug (pr_neutral_brand row) = slug city @ ''-'' @ slug (sf_display_name service)"
    and "gq_tlds request = [tld]" "2 \<le> gq_limit request"
    and "find_candidate d pid (slug (pr_neutral_brand row) @ ''.'' @ tld) = None"
  shows "generate_domain_candidates d pid request = Inl WorkflowIntegrityError"
proof -
  let ?x = "slug (pr_neutral_brand row) @ ''.'' @ tld"
  obtain n where n: "nat (gq_limit request) = Suc (Suc n)"
    using assms(8) by (metis Suc_le_D Suc_1 nat_le_iff nat_numeral of_nat_numeral add_2_eq_Suc le_Suc_ex nat_mono)
  obtain rest where "candidate_domains row service mkt request = ?x # ?x # rest"
    using assms(5-7) by (simp add: candidate_domains_def Let_def candidate_stems_def n)
  moreover have "find_candidate (d\<lparr>domain_candidates := domain_candidates d @ [new_candidate d pid ?x]\<rparr>)
      pid ?x \<noteq> None"
    by (auto simp: find_candidate_def select_first_None new_candidate_def)
  ultimately show ?thesis
    using assms(1-4,9) by (simp add: generate_domain_candidates_def Let_def map_result_def)
qed

section \<open>A concrete release\<close>

definition sample_env :: workflow_env where
  "sample_env = \<lparr>we_hash = (\<lambda>_. ''h''),
     we_build = (\<lambda>_ _ _. \<lparr>ba_checksum = ''c1'', ba_output_path = ''out'', ba_manifest = [],
       ba_validation = [(''passed'', JBool True)], ba_total_bytes = 10\<rparr>),
     we_serialized = (\<lambda>_. [])\<rparr>"

definition sample_admin :: review_actor where
  "sample_admin = \<lparr>actor_id = ''ada'', actor_role = RR_admin\<rparr>"

definition sample_property_db :: database where
  "sample_property_db = sample_routing_db\<lparr>
     service_families := [blank_service_family\<lparr>sf_id := 0, sf_display_name := ''Plumbing''\<rparr>],
     markets := [blank_market\<lparr>mk_id := 0, mk_cities := [''Austin'']\<rparr>]\<rparr>"

definition sample_property_request :: "string \<Rightarrow> property_create_request" where
  "sample_property_request brand = \<lparr>pq_neutral_brand = brand, pq_property_id = Some ''p-1'',
     pq_public_tracking_number = None, pq_public_contact_email = None,
     pq_analytics_config = [(''verified'', JBool True)]\<rparr>"

definition sample_config_input :: site_config_input where
  "sample_config_input = \<lparr>sq_brand = [], sq_service = [], sq_market = [], sq_pricing_guidance = [],
     sq_service_process = [[]], sq_faqs = [[]], sq_local_considerations = [], sq_provider_details = [],
     sq_referral_disclosure = ''An independent referral service for local work.'',
     sq_calls_to_action = [[]], sq_asset_ids = [],
     sq_metadata = [(''title'', JStr ''t''), (''description'', JStr ''d'')], sq_analytics = [],
     sq_form_routing = [], sq_change_reason = ''first''\<rparr>"

definition sample_release_request :: deployment_request where
  "sample_release_request = \<lparr>eq_environment = BE_production, eq_operator_confirmation = True,
     eq_confirmation_reason = ''ready'', eq_neutral_pilot_mode = True, eq_neutral_pilot_reason = ''pilot''\<rparr>"

definition sample_adapter :: deployment_adapter where
  "sample_adapter = \<lparr>da_public_capable = False,
     da_deploy = (\<lambda>source path. Inr \<lparr>lr_url = ''file:///x'', lr_adapter_name = ''local'', lr_local_only = True\<rparr>)\<rparr>"

definition sample_workflow_ops :: "workflow_op list" where
  "sample_workflow_ops = [
     CreateProperty 1 (sample_property_request ''Blue Pipe'') sample_admin,
     GenerateDomains ''p-1'' \<lparr>gq_limit = 2, gq_tlds = [''com'']\<rparr>,
     DecideDomain 1 True ''good'' sample_admin 1,
     CheckDomain 1 (\<lambda>_. \<lparr>ve_status = DA_available, ve_provider = ''f'', ve_evidence = []\<rparr>) 2,
     ApprovePurchase 1 True ''approved'' sample_admin False 3,
     RecordRegistration 1 \<lparr>mq_external_reference = ''ref'', mq_registrar_name = ''manual'',
       mq_expected_dns_records = [(''A'', ''1.2.3.4'')]\<rparr> sample_admin 4,
     VerifyDns 1 \<lparr>vq_observed_records = [(''A'', ''1.2.3.4'')], vq_evidence_reference = ''dig''\<rparr> sample_admin 5,
     CreateSiteConfig ''p-1'' sample_config_input sample_admin,
     ReviewSiteConfig 1 True ''reviewed'' sample_admin 6,
     BuildSite 1 BE_production,
     ReviewCompliance 1 \<lparr>cq_approved = True,
       cq_checklist = map (\<lambda>k. (k, True)) REQUIRED_COMPLIANCE_CHECKS, cq_notes = ''complete''\<rparr> sample_admin 7,
     ProviderRequest (CheckCallRouting ''p-1''
       (\<lambda>_. \<lparr>rh_healthy = True, rh_status = ''healthy'', rh_checked_at = 8\<rparr>))]"

definition ready_db :: database where
  "ready_db = run_requests (workflow_step sample_env) sample_property_db sample_workflow_ops"

definition released_db :: database where
  "released_db = run_requests (workflow_step sample_env) ready_db
     [Deploy 1 sample_release_request sample_admin sample_adapter 9,
      Deploy 1 sample_release_request sample_admin sample_adapter 10]"

text \<open>
  One evaluation of the sample history and of what follows it: two deployments, a rollback, and
  the rejection and withdrawal of earlier approvals.
\<close>

definition sample_rollback :: rollback_request where
  "sample_rollback = \<lparr>bq_target_deployment_id = 1, bq_operator_confirmation = True, bq_reason = ''regression''\<rparr>"

lemma sample_history_evaluates:
  "let d = ready_db;
       e = run_requests (workflow_step sample_env) d
         [Deploy 1 sample_release_request sample_admin sample_adapter 9,
          Deploy 1 sample_release_request sample_admin sample_adapter 10];
       f = run_requests (workflow_step sample_env) d
         [ReviewCompliance 1 \<lparr>cq_approved = False, cq_checklist = [], cq_notes = ''withdrawn''\<rparr> sample_admin 20];
       g = run_requests (workflow_step sample_env) d [ReviewSiteConfig 1 False ''not any more'' sample_admin 20]
   in \<not> isl (deploy d 1 sample_release_request sample_admin sample_adapter 9) \<and>
      map pv_version (property_versions d) = [1, 2, 3] \<and> map pr_current_version (properties_tbl d) = [3] \<and>
      map dp_status (deployments e) = [DP_rolled_back, DP_deployed] \<and>
      \<not> isl (rollback e ''p-1'' sample_rollback sample_admin sample_adapter 11) \<and>
      map cm_status (compliance_reviews f) = [CM_approved, CM_rejected] \<and>
      \<not> isl (deploy f 1 sample_release_request sample_admin sample_adapter 21) \<and>
      map sc_status (site_configs g) = [SC_draft] \<and>
      map pr_active_site_config_version (properties_tbl g) = [Some 1]"
  by code_simp

lemmas sample_history = sample_history_evaluates [unfolded Let_def, folded released_db_def]

lemma sample_property_ok: "workflow_ok sample_property_db"
  by (simp add: sample_property_db_def sample_routing_db_def empty_db_def workflow_ok_def versions_ok_def
      configs_ok_def compliance_ok_def deployments_ok_def registrations_ok_def keys_distinct_def)

theorem production_release_gated_witness:
  "\<exists>row w d'. deploy ready_db 1 sample_release_request sample_admin sample_adapter 9 = Inr (row, w, d') \<and>
     (\<exists>c \<in> set (compliance_reviews ready_db). cm_status c = CM_approved \<and>
        list_all (\<lambda>k. map_of (cm_checklist c) k = Some True) REQUIRED_COMPLIANCE_CHECKS)"
proof -
  let ?r = "deploy ready_db 1 sample_release_request sample_admin sample_adapter 9"
  have "\<not> isl ?r" using sample_history by blast
  then obtain row w d' where r: "?r = Inr (row, w, d')" by (cases ?r) auto
  have "eq_environment sample_release_request = BE_production" by (simp add: sample_release_request_def)
  from production_release_gated [OF sample_property_ok ready_db_def r this] r show ?thesis by blast
qed

theorem one_live_release_witness:
  "map dp_status (deployments released_db) = [DP_rolled_back, DP_deployed] \<and>
   at_most_one sc_property_id (\<lambda>c. sc_status c = SC_approved) (site_configs released_db)"
proof
  have ok: "workflow_ok ready_db" unfolding ready_db_def by (rule workflow.run_inv [OF sample_property_ok])
  from one_live_release [OF ok] show "at_most_one sc_property_id (\<lambda>c. sc_status c = SC_approved)
      (site_configs released_db)" unfolding Let_def released_db_def by blast
  show "map dp_status (deployments released_db) = [DP_rolled_back, DP_deployed]" using sample_history by blast
qed

theorem property_versions_gapless_witness:
  "map pv_version (property_versions ready_db) = [1, 2, 3] \<and>
   (\<exists>p \<in> set (properties_tbl ready_db). pr_current_version p = 3 \<and>
      map pv_version (filter (\<lambda>v. pv_property_id v = pr_id p) (property_versions ready_db)) = [1..3])"
proof
  show "map pv_version (property_versions ready_db) = [1, 2, 3]" using sample_history by blast
  have "map pr_current_version (properties_tbl ready_db) = [3]" using sample_history by blast
  then obtain p where p: "p \<in> set (properties_tbl ready_db)" "pr_current_version p = 3" by auto
  with property_versions_gapless [OF sample_property_ok, of sample_env sample_workflow_ops]
  show "\<exists>p \<in> set (properties_tbl ready_db). pr_current_version p = 3 \<and>
      map pv_version (filter (\<lambda>v. pv_property_id v = pr_id p) (property_versions ready_db)) = [1..3]"
    unfolding Let_def ready_db_def [symmetric] by metis
qed

theorem rollback_restores_release_witness:
  "\<exists>row w d'. rollback released_db ''p-1'' sample_rollback sample_admin sample_adapter 11 = Inr (row, w, d') \<and>
     current_deployment d' ''p-1'' BE_production = Some row"
proof -
  let ?r = "rollback released_db ''p-1'' sample_rollback sample_admin sample_adapter 11"
  have "\<not> isl ?r" using sample_history by blast
  then obtain row w d' where r: "?r = Inr (row, w, d')" by (cases ?r) auto
  have "workflow_ok released_db"
    unfolding released_db_def ready_db_def
    by (intro workflow.run_inv sample_property_ok)
  from rollback_restores_release [OF this r] r show ?thesis by blast
qed

definition collision_db :: database where
  "collision_db = run_requests (workflow_step sample_env) sample_property_db
     [CreateProperty 1 (sample_property_request ''Austin Plumbing'') sample_admin]"

theorem domain_generation_collides_witness:
  "generate_domain_candidates collision_db ''p-1'' \<lparr>gq_limit = 6, gq_tlds = [''com'']\<rparr> =
     Inl WorkflowIntegrityError"
proof -
  let ?row = "projr (property_of collision_db ''p-1'')"
  let ?op = "the (tget op_id (pr_opportunity_id ?row) (opportunities collision_db))"
  let ?service = "the (tget sf_id (op_service_family_id ?op) (service_families collision_db))"
  let ?mkt = "the (tget mk_id (op_market_id ?op) (markets collision_db))"
  have "let d = collision_db; x = property_of d ''p-1''; row = projr x;
       o' = tget op_id (pr_opportunity_id row) (opportunities d);
       sf = tget sf_id (op_service_family_id (the o')) (service_families d);
       mk = tget mk_id (op_market_id (the o')) (markets d)
     in \<not> isl x \<and> o' \<noteq> None \<and> sf \<noteq> None \<and> mk \<noteq> None \<and> mk_cities (the mk) = [''Austin''] \<and>
       slug (pr_neutral_brand row) = slug ''Austin'' @ ''-'' @ slug (sf_display_name (the sf)) \<and>
       find_candidate d ''p-1'' (slug (pr_neutral_brand row) @ ''.'' @ ''com'') = None"
    by code_simp
  then have "property_of collision_db ''p-1'' = Inr ?row"
    "tget op_id (pr_opportunity_id ?row) (opportunities collision_db) = Some ?op"
    "tget sf_id (op_service_family_id ?op) (service_families collision_db) = Some ?service"
    "tget mk_id (op_market_id ?op) (markets collision_db) = Some ?mkt"
    "mk_cities ?mkt = ''Austin'' # []"
    "slug (pr_neutral_brand ?row) = slug ''Austin'' @ ''-'' @ slug (sf_display_name ?service)"
    "find_candidate collision_db ''p-1'' (slug (pr_neutral_brand ?row) @ ''.'' @ ''com'') = None"
    unfolding Let_def by auto
  from domain_generation_collides [OF this(1-6) _ _ this(7)] show ?thesis by simp
qed

section \<open>Behaviours worth knowing\<close>

text \<open>
  An approval outlives a later rejection: the compliance gate looks for an approved review
  of the build, and not at its latest review.
\<close>

lemma rejected_after_approval_deploys:
  "let d = run_requests (workflow_step sample_env) ready_db
       [ReviewCompliance 1 \<lparr>cq_approved = False, cq_checklist = [], cq_notes = ''withdrawn''\<rparr> sample_admin 20]
   in map cm_status (compliance_reviews d) = [CM_approved, CM_rejected] \<and>
      \<not> isl (deploy d 1 sample_release_request sample_admin sample_adapter 21)"
  unfolding Let_def using sample_history by blast

text \<open>
  Withdrawing the approval of a configuration leaves the property's active configuration
  version pointing at it.
\<close>

lemma withdrawn_config_stays_active:
  "let d = run_requests (workflow_step sample_env) ready_db
       [ReviewSiteConfig 1 False ''not any more'' sample_admin 20]
   in map sc_status (site_configs d) = [SC_draft] \<and>
      map pr_active_site_config_version (properties_tbl d) = [Some 1]"
  unfolding Let_def using sample_history by blast

end
