(* ===== verification/Outcomes.thy ===== *)
theory Outcomes
  imports Lead_Privacy
begin

text \<open>
  \<open>outcomes/services.py\<close> and \<open>outcomes/models.py\<close>: immutable property decisions, imported
  outcomes with their truth basis, deletion and retention, descriptive calibration reports,
  and the guard that only records reviews of scoring changes. The source adapter's records
  and the clock are arguments.
\<close>

datatype outcome_error =
  OutcomeIntegrityError string
| AutomaticScoringChangeProhibited string
| OutcomePermissionError string
| OutcomeLookupError string
| OutcomeValidationError string
| OutcomeConstraintError

section \<open>Requests\<close>

record decision_input =
  di_property_id :: string
  di_opportunity_id :: int
  di_full_score_id :: int
  di_evidence_snapshot_id :: int
  di_selected_at :: instant
  di_service_family_slug :: string
  di_market_size_band :: string
  di_evidence_quality :: string
  di_validated_opportunity_cost_usd :: rat

definition valid_decision_input :: "decision_input \<Rightarrow> bool" where
  "valid_decision_input x \<longleftrightarrow>
     len_between 1 120 (di_property_id x) \<and> 0 < di_opportunity_id x \<and> 0 < di_full_score_id x \<and>
     0 < di_evidence_snapshot_id x \<and> len_between 1 120 (di_service_family_slug x) \<and>
     len_between 1 80 (di_market_size_band x) \<and> len_between 1 40 (di_evidence_quality x) \<and>
     0 \<le> di_validated_opportunity_cost_usd x"

record outcome_record =
  or_property_id :: string
  or_period_date :: calendar_date
  or_source_type :: outcome_source_type
  or_source_name :: string
  or_source_record_id :: string
  or_truth_basis :: truth_basis
  or_confidence :: string
  or_impressions :: int
  or_clicks :: int
  or_average_position :: "rat option"
  or_organic_sessions :: int
  or_calls :: int
  or_forms :: int
  or_qualified_leads :: int
  or_appointments :: int
  or_won_jobs :: int
  or_reported_revenue :: rat
  or_indexed_at :: "instant option"
  or_provider_suitability_score :: "rat option"
  or_addressable_market_score :: "rat option"
  or_metadata :: jobj

definition score_ok :: "rat option \<Rightarrow> bool" where
  "score_ok s \<longleftrightarrow> (case s of None \<Rightarrow> True | Some v \<Rightarrow> 0 \<le> v \<and> v \<le> 100)"

definition valid_outcome_record :: "outcome_record \<Rightarrow> bool" where
  "valid_outcome_record x \<longleftrightarrow>
     len_between 1 120 (or_property_id x) \<and> len_between 1 120 (or_source_name x) \<and>
     len_between 1 160 (or_source_record_id x) \<and>
     or_confidence x \<in> set [''high'', ''medium'', ''low'', ''insufficient''] \<and>
     0 \<le> or_impressions x \<and> 0 \<le> or_clicks x \<and>
     (case or_average_position x of None \<Rightarrow> True | Some p \<Rightarrow> 0 \<le> p) \<and>
     0 \<le> or_organic_sessions x \<and> 0 \<le> or_calls x \<and> 0 \<le> or_forms x \<and> 0 \<le> or_qualified_leads x \<and>
     0 \<le> or_appointments x \<and> 0 \<le> or_won_jobs x \<and> 0 \<le> or_reported_revenue x \<and>
     score_ok (or_provider_suitability_score x) \<and> score_ok (or_addressable_market_score x) \<and>
     (or_truth_basis x = TB_provider_reported \<longrightarrow> or_source_type x = OS_provider) \<and>
     (or_truth_basis x = TB_operator_verified \<longrightarrow> or_source_type x = OS_operator) \<and>
     \<not> (0 < or_reported_revenue x \<and> or_truth_basis x = TB_estimated)"

section \<open>Decisions\<close>

definition decision_of :: "database \<Rightarrow> string \<Rightarrow> property_decision option" where
  "decision_of d property_id =
     select_first (\<lambda>r. dn_property_id r = property_id) (property_decisions d)"

definition evidence_errors ::
  "database \<Rightarrow> decision_input \<Rightarrow> full_opportunity_score option \<Rightarrow> json_artifact option \<Rightarrow>
   outcome_error option list" where
  "evidence_errors d x score evidence =
     (let fails = (\<lambda>b code. raise_if b (OutcomeIntegrityError code));
          scan = Option.bind evidence ja_scan_run_id
      in [fails (map_option fs_opportunity_id score \<noteq> Some (di_opportunity_id x))
            ''score_does_not_match_opportunity'',
          fails (Option.bind evidence ja_opportunity_id \<noteq> Some (di_opportunity_id x))
            ''evidence_does_not_match_opportunity'',
          fails (scan = None) ''evidence_is_missing_scan_lineage'',
          fails (scan \<noteq> map_option fs_scan_run_id score) ''score_and_evidence_scan_mismatch'',
          fails (map_option ja_kind evidence \<notin> set [Some ''scan_result'', Some ''evidence_snapshot''])
            ''artifact_is_not_an_evidence_snapshot'',
          fails (map_option ja_kind evidence = Some ''scan_result'' \<and>
              Option.bind evidence (\<lambda>e. jget (ja_payload e) ''assessment_type'') \<noteq> Some (JStr ''full''))
            ''property_decision_requires_full_evidence''])"

definition new_decision ::
  "database \<Rightarrow> decision_input \<Rightarrow> full_opportunity_score \<Rightarrow> property_decision" where
  "new_decision d x score =
     \<lparr>dn_id = next_id dn_id (property_decisions d), dn_property_id = di_property_id x,
       dn_opportunity_id = di_opportunity_id x, dn_scan_run_id = fs_scan_run_id score,
       dn_full_score_id = di_full_score_id x, dn_evidence_snapshot_id = di_evidence_snapshot_id x,
       dn_score_version_at_selection = fs_scoring_version score, dn_selected_at = di_selected_at x,
       dn_service_family_slug = di_service_family_slug x, dn_market_size_band = di_market_size_band x,
       dn_evidence_quality = di_evidence_quality x,
       dn_validated_opportunity_cost_usd = di_validated_opportunity_cost_usd x,
       dn_selection_context =
         [(''full_score_total'', JNum (fs_total_score score)),
          (''full_score_confidence'', JStr (fs_confidence score)),
          (''scan_run_id'', JNum (of_int (fs_scan_run_id score))),
          (''component_scores'', (case jget (fs_payload score) ''component_scores'' of
              None \<Rightarrow> JObj [] | Some v \<Rightarrow> v))]\<rparr>"

definition record_decision ::
  "database \<Rightarrow> decision_input \<Rightarrow> outcome_error + (property_decision \<times> database)" where
  "record_decision d x =
     (case decision_of d (di_property_id x) of
        Some existing \<Rightarrow>
          guarded [raise_if ((dn_opportunity_id existing, dn_full_score_id existing,
                 dn_evidence_snapshot_id existing) \<noteq>
                (di_opportunity_id x, di_full_score_id x, di_evidence_snapshot_id x))
              (OutcomeIntegrityError ''property_decision_is_immutable'')]
            (Inr (existing, d))
      | None \<Rightarrow>
          (case require_property_approval d (di_opportunity_id x) of
             Inl e \<Rightarrow> Inl (OutcomeIntegrityError (review_error_code e))
           | Inr op \<Rightarrow>
               (let score = tget fs_id (di_full_score_id x) (full_opportunity_scores d);
                    evidence = tget ja_id (di_evidence_snapshot_id x) (json_artifacts d)
                in guarded (evidence_errors d x score evidence)
                   (let row = new_decision d x (the score)
                    in Inr (row, d\<lparr>property_decisions := property_decisions d @ [row]\<rparr>)))))"

section \<open>Outcomes\<close>

definition find_outcome :: "database \<Rightarrow> int \<Rightarrow> string \<Rightarrow> string \<Rightarrow> property_outcome option" where
  "find_outcome d decision_id source_name source_record_id =
     select_first (\<lambda>r. oc_property_decision_id r = decision_id \<and> oc_source_name r = source_name \<and>
       oc_source_record_id r = source_record_id) (property_outcomes d)"

text \<open>\<open>redact_pii\<close> of a dictionary is a dictionary.\<close>

definition redacted_metadata :: "jobj \<Rightarrow> jobj" where
  "redacted_metadata m = (case redact_pii (JObj m) of JObj r \<Rightarrow> r | _ \<Rightarrow> [])"

definition new_outcome ::
  "database \<Rightarrow> property_decision \<Rightarrow> outcome_record \<Rightarrow> instant \<Rightarrow> property_outcome" where
  "new_outcome d decision x now =
     \<lparr>oc_id = next_id oc_id (property_outcomes d), oc_property_decision_id = dn_id decision,
       oc_period_date = or_period_date x, oc_source_type = or_source_type x,
       oc_source_name = or_source_name x, oc_source_record_id = or_source_record_id x,
       oc_truth_basis = or_truth_basis x, oc_confidence = or_confidence x,
       oc_impressions = or_impressions x, oc_clicks = or_clicks x,
       oc_average_position = or_average_position x, oc_organic_sessions = or_organic_sessions x,
       oc_calls = or_calls x, oc_forms = or_forms x, oc_qualified_leads = or_qualified_leads x,
       oc_appointments = or_appointments x, oc_won_jobs = or_won_jobs x,
       oc_reported_revenue = or_reported_revenue x, oc_indexed_at = or_indexed_at x,
       oc_provider_suitability_score = or_provider_suitability_score x,
       oc_addressable_market_score = or_addressable_market_score x,
       oc_metadata_payload = redacted_metadata (or_metadata x), oc_imported_at = now\<rparr>"

definition outcome_errors :: "property_decision \<Rightarrow> outcome_record \<Rightarrow> outcome_error option list" where
  "outcome_errors decision x =
     [raise_if (or_period_date x < date_of (dn_selected_at decision))
        (OutcomeIntegrityError ''outcome_precedes_property_selection''),
      raise_if (case or_indexed_at x of None \<Rightarrow> False
                | Some t \<Rightarrow> date_of t < date_of (dn_selected_at decision))
        (OutcomeIntegrityError ''indexing_precedes_property_selection'')]"

definition ingest ::
  "database \<Rightarrow> outcome_record \<Rightarrow> instant \<Rightarrow> outcome_error + (property_outcome \<times> database)" where
  "ingest d x now =
     (case decision_of d (or_property_id x) of
        None \<Rightarrow> Inl (OutcomeIntegrityError ''property_decision_not_found'')
      | Some decision \<Rightarrow>
          guarded (outcome_errors decision x)
          (case find_outcome d (dn_id decision) (or_source_name x) (or_source_record_id x) of
             Some existing \<Rightarrow> Inr (existing, d)
           | None \<Rightarrow>
               (let row = new_outcome d decision x now
                in Inr (row, d\<lparr>property_outcomes := property_outcomes d @ [row]\<rparr>))))"

text \<open>The records of an adapter named \<open>name\<close>; one that fails rolls the whole collection back.\<close>

fun collect_from ::
  "database \<Rightarrow> string \<Rightarrow> outcome_record list \<Rightarrow> instant \<Rightarrow>
   outcome_error + (property_outcome list \<times> database)" where
  "collect_from d name [] now = Inr ([], d)"
| "collect_from d name (x # xs) now =
     guarded [raise_if (or_source_name x \<noteq> name) (OutcomeIntegrityError ''adapter_source_name_mismatch'')]
     (and_then (ingest d x now) (\<lambda>(row, d1).
      map_result (\<lambda>(rows, d2). (row # rows, d2)) (collect_from d1 name xs now)))"

fun outcome_source_value :: "outcome_source_type \<Rightarrow> string" where
  "outcome_source_value OS_search_console = ''search_console''"
| "outcome_source_value OS_web_analytics = ''web_analytics''"
| "outcome_source_value OS_call_tracking = ''call_tracking''"
| "outcome_source_value OS_form_submission = ''form_submission''"
| "outcome_source_value OS_provider = ''provider''"
| "outcome_source_value OS_operator = ''operator''"

fun truth_basis_value :: "truth_basis \<Rightarrow> string" where
  "truth_basis_value TB_observed = ''observed''"
| "truth_basis_value TB_provider_reported = ''provider_reported''"
| "truth_basis_value TB_operator_verified = ''operator_verified''"
| "truth_basis_value TB_estimated = ''estimated''"

text \<open>The ISO text of a date is kept as the instant of its midnight.\<close>

definition date_json :: "calendar_date \<Rightarrow> json" where
  "date_json x = JTime (timedelta_days x)"

definition opt_rat :: "rat option \<Rightarrow> json" where
  "opt_rat q = (case q of None \<Rightarrow> JNull | Some v \<Rightarrow> JNum v)"

definition outcome_payload :: "property_outcome \<Rightarrow> json" where
  "outcome_payload r = JObj
     [(''period_date'', date_json (oc_period_date r)),
      (''source_type'', JStr (outcome_source_value (oc_source_type r))),
      (''source_name'', JStr (oc_source_name r)), (''source_record_id'', JStr (oc_source_record_id r)),
      (''truth_basis'', JStr (truth_basis_value (oc_truth_basis r))),
      (''confidence'', JStr (oc_confidence r)), (''impressions'', JNum (of_int (oc_impressions r))),
      (''clicks'', JNum (of_int (oc_clicks r))), (''average_position'', opt_rat (oc_average_position r)),
      (''organic_sessions'', JNum (of_int (oc_organic_sessions r))), (''calls'', JNum (of_int (oc_calls r))),
      (''forms'', JNum (of_int (oc_forms r))), (''qualified_leads'', JNum (of_int (oc_qualified_leads r))),
      (''appointments'', JNum (of_int (oc_appointments r))), (''won_jobs'', JNum (of_int (oc_won_jobs r))),
      (''reported_revenue'', JNum (oc_reported_revenue r))]"

definition export_property :: "database \<Rightarrow> string \<Rightarrow> access_context \<Rightarrow> outcome_error + jobj" where
  "export_property d property_id access =
     guarded [raise_if (ax_role access \<notin> set [LA_operator, LA_privacy_admin, LA_analytics])
         (OutcomePermissionError ''outcome_export_access_denied'')]
     (case decision_of d property_id of
        None \<Rightarrow> Inl (OutcomeLookupError ''property_decision_not_found'')
      | Some r \<Rightarrow> Inr
          [(''decision'', JObj
             [(''property_id'', JStr (dn_property_id r)),
              (''opportunity_id'', JNum (of_int (dn_opportunity_id r))),
              (''scan_run_id'', JNum (of_int (dn_scan_run_id r))),
              (''full_score_id'', JNum (of_int (dn_full_score_id r))),
              (''score_version_at_selection'', JStr (dn_score_version_at_selection r)),
              (''evidence_snapshot_id'', JNum (of_int (dn_evidence_snapshot_id r))),
              (''selected_at'', JTime (dn_selected_at r))]),
           (''outcomes'', JList (map outcome_payload
              (sort_key (\<lambda>x. (oc_period_date x, oc_id x))
                (filter (\<lambda>x. oc_property_decision_id x = dn_id r) (property_outcomes d)))))])"

definition delete_imported_source ::
  "database \<Rightarrow> string \<Rightarrow> string \<Rightarrow> access_context \<Rightarrow> outcome_error + (nat \<times> database)" where
  "delete_imported_source d property_id source_name access =
     guarded [raise_if (ax_role access \<noteq> LA_privacy_admin)
         (OutcomePermissionError ''outcome_deletion_requires_privacy_admin'')]
     (case decision_of d property_id of
        None \<Rightarrow> Inr (0, d)
      | Some r \<Rightarrow>
          (let gone = (\<lambda>x. oc_property_decision_id x = dn_id r \<and> oc_source_name x = source_name)
           in Inr (length (filter gone (property_outcomes d)),
                d\<lparr>property_outcomes := filter (\<lambda>x. \<not> gone x) (property_outcomes d)\<rparr>)))"

definition enforce_outcome_retention ::
  "database \<Rightarrow> calendar_date \<Rightarrow> access_context \<Rightarrow> outcome_error + (nat \<times> database)" where
  "enforce_outcome_retention d before access =
     guarded [raise_if (ax_role access \<noteq> LA_privacy_admin)
         (OutcomePermissionError ''outcome_retention_requires_privacy_admin'')]
     (Inr (length (filter (\<lambda>x. oc_period_date x < before) (property_outcomes d)),
        d\<lparr>property_outcomes := filter (\<lambda>x. \<not> oc_period_date x < before) (property_outcomes d)\<rparr>))"

section \<open>Scoring change reviews\<close>

record scoring_change_proposal =
  sp_proposal_id :: string
  sp_current_version :: string
  sp_proposed_version :: string
  sp_initiated_by :: string
  sp_reviewer_id :: "string option"
  sp_benchmark_run_id :: "string option"
  sp_benchmark_passed :: bool
  sp_rationale :: string

definition valid_proposal :: "scoring_change_proposal \<Rightarrow> bool" where
  "valid_proposal p \<longleftrightarrow>
     len_between 1 120 (sp_proposal_id p) \<and> len_between 1 80 (sp_current_version p) \<and>
     len_between 1 80 (sp_proposed_version p) \<and> len_between 1 120 (sp_initiated_by p) \<and>
     opt_at_most 120 (sp_reviewer_id p) \<and> opt_at_most 120 (sp_benchmark_run_id p) \<and>
     len_between 10 2000 (sp_rationale p)"

definition authorize_manual_review ::
  "database \<Rightarrow> scoring_change_proposal \<Rightarrow> outcome_error + (scoring_change_review \<times> database)" where
  "authorize_manual_review d p =
     guarded [
       raise_if (py_lower (sp_initiated_by p) \<in> set [''automatic'', ''system'', ''calibration_report''])
         (AutomaticScoringChangeProhibited ''automatic_scoring_changes_are_prohibited''),
       raise_if (\<not> sp_benchmark_passed p \<or> sp_benchmark_run_id p = None)
         (OutcomeIntegrityError ''passing_benchmark_is_required''),
       raise_if (sp_reviewer_id p = None) (OutcomeIntegrityError ''reviewer_approval_is_required''),
       raise_if (sp_current_version p = sp_proposed_version p)
         (OutcomeIntegrityError ''proposed_version_must_change''),
       raise_if (select_first (\<lambda>r. sg_proposal_id r = sp_proposal_id p) (scoring_change_reviews d) \<noteq> None)
         OutcomeConstraintError]
     (let row = \<lparr>sg_id = next_id sg_id (scoring_change_reviews d), sg_proposal_id = sp_proposal_id p,
            sg_current_version = sp_current_version p, sg_proposed_version = sp_proposed_version p,
            sg_initiated_by = sp_initiated_by p, sg_reviewer_id = the (sp_reviewer_id p),
            sg_benchmark_run_id = the (sp_benchmark_run_id p), sg_benchmark_passed = True,
            sg_rationale = sp_rationale p, sg_authorized_for_manual_application = True,
            sg_applied_automatically = False\<rparr>
      in Inr (row, d\<lparr>scoring_change_reviews := scoring_change_reviews d @ [row]\<rparr>))"

end
