(* ===== verification/Calibration_Reports.thy ===== *)
theory Calibration_Reports
  imports Outcomes
begin

text \<open>
  \<open>CalibrationReportService.generate\<close> of \<open>outcomes/services.py\<close>: the totals per truth basis,
  the facts of each selected property, the Pearson correlations, the segment summaries and
  the stored report. The square root of \<open>_pearson\<close> is the real one, so a coefficient is a
  real number until it is rounded to four decimals.
\<close>

section \<open>Totals\<close>

type_synonym outcome_totals = "(string \<times> rat) list"

definition measure_keys :: "(string \<times> (property_outcome \<Rightarrow> rat)) list" where
  "measure_keys =
     [(''impressions'', \<lambda>r. of_int (oc_impressions r)), (''clicks'', \<lambda>r. of_int (oc_clicks r)),
      (''organic_sessions'', \<lambda>r. of_int (oc_organic_sessions r)), (''calls'', \<lambda>r. of_int (oc_calls r)),
      (''forms'', \<lambda>r. of_int (oc_forms r)), (''qualified_leads'', \<lambda>r. of_int (oc_qualified_leads r)),
      (''appointments'', \<lambda>r. of_int (oc_appointments r)), (''won_jobs'', \<lambda>r. of_int (oc_won_jobs r)),
      (''reported_revenue'', \<lambda>r. oc_reported_revenue r)]"

text \<open>\<open>getattr(row, key)\<close> for the keys of the totals.\<close>

definition row_measure :: "string \<Rightarrow> property_outcome \<Rightarrow> rat" where
  "row_measure key r = (case map_of measure_keys key of None \<Rightarrow> 0 | Some f \<Rightarrow> f r)"

definition empty_totals :: outcome_totals where
  "empty_totals = map (\<lambda>(key, f). (key, 0)) measure_keys"

definition add_totals :: "outcome_totals \<Rightarrow> property_outcome \<Rightarrow> outcome_totals" where
  "add_totals target r = map (\<lambda>(key, v). (key, v + row_measure key r)) target"

record basis_totals =
  observed_totals :: outcome_totals
  reported_totals :: outcome_totals
  operator_verified_totals :: outcome_totals
  estimated_totals :: outcome_totals

definition no_totals :: basis_totals where
  "no_totals = \<lparr>observed_totals = empty_totals, reported_totals = empty_totals,
     operator_verified_totals = empty_totals, estimated_totals = empty_totals\<rparr>"

fun totals_of :: "truth_basis \<Rightarrow> basis_totals \<Rightarrow> outcome_totals" where
  "totals_of TB_observed t = observed_totals t"
| "totals_of TB_provider_reported t = reported_totals t"
| "totals_of TB_operator_verified t = operator_verified_totals t"
| "totals_of TB_estimated t = estimated_totals t"

definition add_row :: "property_outcome \<Rightarrow> basis_totals \<Rightarrow> basis_totals" where
  "add_row r t =
     (case oc_truth_basis r of
        TB_observed \<Rightarrow> t\<lparr>observed_totals := add_totals (observed_totals t) r\<rparr>
      | TB_provider_reported \<Rightarrow> t\<lparr>reported_totals := add_totals (reported_totals t) r\<rparr>
      | TB_operator_verified \<Rightarrow> t\<lparr>operator_verified_totals := add_totals (operator_verified_totals t) r\<rparr>
      | TB_estimated \<Rightarrow> t\<lparr>estimated_totals := add_totals (estimated_totals t) r\<rparr>)"

section \<open>Facts of a property\<close>

definition growth :: "rat \<Rightarrow> rat \<Rightarrow> rat option" where
  "growth v0 v1 =
     (if v0 \<le> 0 then (if v1 \<le> 0 then None else Some 1) else Some ((v1 - v0) / v0))"

definition fmean :: "rat list \<Rightarrow> rat" where
  "fmean xs = sum_list xs / of_nat (length xs)"

definition present :: "'a option list \<Rightarrow> 'a list" where
  "present xs = List.map_filter id xs"

definition mean_optional :: "rat option list \<Rightarrow> rat option" where
  "mean_optional values = (if present values = [] then None else Some (fmean (present values)))"

definition verified :: "property_outcome \<Rightarrow> bool" where
  "verified r \<longleftrightarrow> oc_truth_basis r \<in> set [TB_observed, TB_operator_verified]"

text \<open>
  A number stored in a payload. The component scores and the total of a full score are
  numbers or null.
\<close>

definition json_number :: "json option \<Rightarrow> rat option" where
  "json_number v = (case v of Some (JNum q) \<Rightarrow> Some q | _ \<Rightarrow> None)"

definition component_scores :: "property_decision \<Rightarrow> jobj" where
  "component_scores r =
     (case jget (dn_selection_context r) ''component_scores'' of Some (JObj m) \<Rightarrow> m | _ \<Rightarrow> [])"

record property_facts =
  pf_decision :: property_decision
  pf_score :: rat
  pf_indexing_days :: "rat option"
  pf_impression_growth :: "rat option"
  pf_top_10 :: rat
  pf_lead_volume :: rat
  pf_won_jobs :: rat
  pf_provider_suitability :: "rat option"
  pf_addressable_market :: "rat option"

definition facts_of :: "property_decision \<Rightarrow> property_outcome list \<Rightarrow> property_facts" where
  "facts_of decision rows =
     (let verified_rows = filter verified rows;
          indexed_dates = present (map oc_indexed_at verified_rows);
          positions = present (map oc_average_position verified_rows);
          ordered = sort_key oc_period_date verified_rows
      in \<lparr>pf_decision = decision,
          pf_score = (case json_number (jget (dn_selection_context decision) ''full_score_total'') of
            None \<Rightarrow> 0 | Some s \<Rightarrow> s),
          pf_indexing_days = map_option
            (\<lambda>t. of_int (date_of t - date_of (dn_selected_at decision))) (list_min indexed_dates),
          pf_impression_growth =
            (if ordered = [] then None
             else growth (of_int (oc_impressions (hd ordered))) (of_int (oc_impressions (last ordered)))),
          pf_top_10 = (case list_min positions of None \<Rightarrow> 0 | Some p \<Rightarrow> if p \<le> 10 then 1 else 0),
          pf_lead_volume = of_int (sum_list (map oc_qualified_leads verified_rows)),
          pf_won_jobs = of_int (sum_list (map oc_won_jobs verified_rows)),
          pf_provider_suitability = mean_optional (map oc_provider_suitability_score rows),
          pf_addressable_market = mean_optional (map oc_addressable_market_score rows)\<rparr>)"

section \<open>Correlations\<close>

definition pearson :: "(rat \<times> rat) list \<Rightarrow> real option" where
  "pearson pairs =
     (if length pairs < 2 then None
      else let xs = map fst pairs; ys = map snd pairs;
               x_mean = fmean xs; y_mean = fmean ys;
               numerator = sum_list (map (\<lambda>(x, y). (x - x_mean) * (y - y_mean)) pairs);
               x_sum = sum_list (map (\<lambda>x. (x - x_mean) ^ 2) xs);
               y_sum = sum_list (map (\<lambda>y. (y - y_mean) ^ 2) ys);
               denominator = sqrt (of_rat (x_sum * y_sum))
           in if denominator = 0 then None else Some (of_rat numerator / denominator))"

text \<open>\<open>round(coefficient, 4)\<close>, ties to even.\<close>

definition round_coefficient :: "real \<Rightarrow> rat" where
  "round_coefficient c =
     (let x = c * 10000; f = floor x; frac = x - of_int f;
          k = (if frac < 1 / 2 then f else if 1 / 2 < frac then f + 1
               else if even f then f else f + 1)
      in of_int k / 10000)"

record correlation_result =
  co_metric :: string
  co_sample_size :: nat
  co_coefficient :: "rat option"
  co_sufficient_sample :: bool
  co_interpretation :: string

definition sample_pairs ::
  "property_facts list \<Rightarrow> (property_facts \<Rightarrow> rat option) \<Rightarrow> (property_facts \<Rightarrow> rat option) \<Rightarrow>
   (rat \<times> rat) list" where
  "sample_pairs items x_key y_key =
     present (map (\<lambda>item. case (x_key item, y_key item) of
        (Some x, Some y) \<Rightarrow> Some (x, y) | _ \<Rightarrow> None) items)"

definition correlation ::
  "property_facts list \<Rightarrow> string \<Rightarrow> (property_facts \<Rightarrow> rat option) \<Rightarrow>
   (property_facts \<Rightarrow> rat option) \<Rightarrow> nat \<Rightarrow> correlation_result" where
  "correlation items metric x_key y_key minimum_sample =
     (let pairs = sample_pairs items x_key y_key;
          coefficient = pearson pairs;
          sufficient = minimum_sample \<le> length pairs
      in \<lparr>co_metric = metric, co_sample_size = length pairs,
          co_coefficient = map_option round_coefficient coefficient,
          co_sufficient_sample = sufficient,
          co_interpretation =
            (if \<not> sufficient then ''insufficient_sample''
             else if coefficient = None then ''no_variance''
             else ''descriptive_correlation_only'')\<rparr>)"

section \<open>Segments\<close>

record segment_summary =
  se_segment :: string
  se_property_count :: nat
  se_average_selection_score :: rat
  se_qualified_leads :: int
  se_won_jobs :: int

definition segment :: "property_facts list \<Rightarrow> (property_decision \<Rightarrow> string) \<Rightarrow> segment_summary list" where
  "segment items decision_field =
     map (\<lambda>key. let group = filter (\<lambda>item. decision_field (pf_decision item) = key) items
          in \<lparr>se_segment = key, se_property_count = length group,
              se_average_selection_score = py_round 3 (fmean (map pf_score group)),
              se_qualified_leads = floor (sum_list (map pf_lead_volume group)),
              se_won_jobs = floor (sum_list (map pf_won_jobs group))\<rparr>)
       (sort (remdups (map (\<lambda>item. decision_field (pf_decision item)) items)))"

section \<open>Reports\<close>

record report_request =
  rq_start_date :: calendar_date
  rq_end_date :: calendar_date
  rq_minimum_correlation_sample :: nat

definition valid_report_request :: "report_request \<Rightarrow> bool" where
  "valid_report_request q \<longleftrightarrow>
     3 \<le> rq_minimum_correlation_sample q \<and> rq_minimum_correlation_sample q \<le> 1000 \<and>
     rq_start_date q \<le> rq_end_date q"

record calibration_result =
  cr_report_id :: int
  cr_report_version :: string
  cr_generated_at :: instant
  cr_start_date :: calendar_date
  cr_end_date :: calendar_date
  cr_property_count :: nat
  cr_totals :: basis_totals
  cr_correlations :: "correlation_result list"
  cr_segment_summaries :: "(string \<times> segment_summary list) list"
  cr_cost_per_validated_opportunity_usd :: "rat option"
  cr_warnings :: "string list"
  cr_scoring_changes_applied :: bool

definition period_rows :: "database \<Rightarrow> report_request \<Rightarrow> property_outcome list" where
  "period_rows d q =
     filter (\<lambda>r. rq_start_date q \<le> oc_period_date r \<and> oc_period_date r \<le> rq_end_date q)
       (property_outcomes d)"

definition rows_of :: "property_outcome list \<Rightarrow> property_decision \<Rightarrow> property_outcome list" where
  "rows_of outcome_rows decision = filter (\<lambda>r. oc_property_decision_id r = dn_id decision) outcome_rows"

text \<open>The loop over the decisions; a decision with no rows in the period is skipped.\<close>

fun collect_facts ::
  "property_outcome list \<Rightarrow> property_decision list \<Rightarrow> basis_totals \<Rightarrow>
   basis_totals \<times> property_facts list" where
  "collect_facts outcome_rows [] totals = (totals, [])"
| "collect_facts outcome_rows (decision # decisions) totals =
     (let rows = rows_of outcome_rows decision
      in if rows = [] then collect_facts outcome_rows decisions totals
         else let (totals', items) = collect_facts outcome_rows decisions (fold add_row rows totals)
              in (totals', facts_of decision rows # items))"

definition component_names :: "property_facts list \<Rightarrow> string list" where
  "component_names items =
     sort (remdups (concat (map (\<lambda>item. map fst (component_scores (pf_decision item))) items)))"

definition report_correlations :: "property_facts list \<Rightarrow> nat \<Rightarrow> correlation_result list" where
  "report_correlations items minimum =
     [correlation items ''score_vs_indexing_time'' (Some \<circ> pf_score) pf_indexing_days minimum,
      correlation items ''score_vs_impression_growth'' (Some \<circ> pf_score) pf_impression_growth minimum,
      correlation items ''score_vs_top_10_achievement'' (Some \<circ> pf_score) (Some \<circ> pf_top_10) minimum,
      correlation items ''provider_suitability_vs_tenant_conversion'' pf_provider_suitability
        (Some \<circ> pf_won_jobs) minimum,
      correlation items ''addressable_market_vs_lead_demand'' pf_addressable_market
        (Some \<circ> pf_lead_volume) minimum] @
     map (\<lambda>name. correlation items (''component_'' @ name @ ''_vs_lead_volume'')
        (\<lambda>item. json_number (jget (component_scores (pf_decision item)) name))
        (Some \<circ> pf_lead_volume) minimum) (component_names items)"

definition cost_per_validated :: "property_facts list \<Rightarrow> rat option" where
  "cost_per_validated items =
     (let validated_count = length (filter (\<lambda>item. 0 < pf_lead_volume item) items);
          total_cost = sum_list (map (dn_validated_opportunity_cost_usd \<circ> pf_decision) items)
      in if validated_count = 0 then None
         else Some (py_round 4 (total_cost / of_nat validated_count)))"

definition report_warnings :: "correlation_result list \<Rightarrow> string list" where
  "report_warnings correlations =
     [''Reports are descriptive. Correlation does not establish causation.'',
      ''No scoring weights were changed or applied by this report.''] @
     (if list_ex (\<lambda>c. \<not> co_sufficient_sample c) correlations
      then [''One or more comparisons are below the configured minimum sample size.''] else [])"

definition totals_json :: "outcome_totals \<Rightarrow> json" where
  "totals_json t = JObj (map (\<lambda>(key, v). (key, JNum v)) t)"

definition correlation_json :: "correlation_result \<Rightarrow> json" where
  "correlation_json c = JObj
     [(''metric'', JStr (co_metric c)), (''sample_size'', JNum (of_nat (co_sample_size c))),
      (''coefficient'', opt_rat (co_coefficient c)),
      (''sufficient_sample'', JBool (co_sufficient_sample c)),
      (''interpretation'', JStr (co_interpretation c))]"

definition segment_json :: "segment_summary \<Rightarrow> json" where
  "segment_json s = JObj
     [(''segment'', JStr (se_segment s)), (''property_count'', JNum (of_nat (se_property_count s))),
      (''average_selection_score'', JNum (se_average_selection_score s)),
      (''qualified_leads'', JNum (of_int (se_qualified_leads s))),
      (''won_jobs'', JNum (of_int (se_won_jobs s)))]"

text \<open>\<open>report.model_dump(mode="json")\<close>, taken before the report has its id.\<close>

definition report_dump :: "calibration_result \<Rightarrow> jobj" where
  "report_dump c =
     [(''report_id'', JNull), (''report_version'', JStr (cr_report_version c)),
      (''generated_at'', JTime (cr_generated_at c)),
      (''start_date'', date_json (cr_start_date c)), (''end_date'', date_json (cr_end_date c)),
      (''property_count'', JNum (of_nat (cr_property_count c))),
      (''observed_totals'', totals_json (observed_totals (cr_totals c))),
      (''reported_totals'', totals_json (reported_totals (cr_totals c))),
      (''operator_verified_totals'', totals_json (operator_verified_totals (cr_totals c))),
      (''estimated_totals'', totals_json (estimated_totals (cr_totals c))),
      (''correlations'', JList (map correlation_json (cr_correlations c))),
      (''segment_summaries'',
         JObj (map (\<lambda>(key, ss). (key, JList (map segment_json ss))) (cr_segment_summaries c))),
      (''cost_per_validated_opportunity_usd'', opt_rat (cr_cost_per_validated_opportunity_usd c)),
      (''warnings'', JList (map JStr (cr_warnings c))),
      (''scoring_changes_applied'', JBool (cr_scoring_changes_applied c))]"

definition generate ::
  "database \<Rightarrow> report_request \<Rightarrow> instant \<Rightarrow> calibration_result \<times> database" where
  "generate d q now =
     (let (totals, items) = collect_facts (period_rows d q) (property_decisions d) no_totals;
          correlations = report_correlations items (rq_minimum_correlation_sample q);
          report = \<lparr>cr_report_id = next_id cb_id (calibration_reports d),
            cr_report_version = ''calibration-v1'', cr_generated_at = now,
            cr_start_date = rq_start_date q, cr_end_date = rq_end_date q,
            cr_property_count = length items, cr_totals = totals,
            cr_correlations = correlations,
            cr_segment_summaries =
              [(''service_family'', segment items dn_service_family_slug),
               (''market_size'', segment items dn_market_size_band),
               (''evidence_quality'', segment items dn_evidence_quality)],
            cr_cost_per_validated_opportunity_usd = cost_per_validated items,
            cr_warnings = report_warnings correlations, cr_scoring_changes_applied = False\<rparr>;
          stored = \<lparr>cb_id = cr_report_id report, cb_report_version = ''calibration-v1'',
            cb_start_date = rq_start_date q, cb_end_date = rq_end_date q,
            cb_property_count = of_nat (length items), cb_payload = report_dump report,
            cb_generated_at = now\<rparr>
      in (report, d\<lparr>calibration_reports := calibration_reports d @ [stored]\<rparr>))"

section \<open>Coefficients\<close>

text \<open>The Cauchy-Schwarz inequality for the two columns of a sample.\<close>

lemma sum_shifted_squares:
  "sum_list (map (\<lambda>(a, b). (a - t * b) ^ 2) ps) =
     sum_list (map (\<lambda>(a, b). a ^ 2) ps) - 2 * t * sum_list (map (\<lambda>(a, b). a * b) ps) +
     t ^ 2 * sum_list (map (\<lambda>(a, b). b ^ 2) (ps :: ('a::linordered_field \<times> 'a) list))"
  by (induction ps) (auto simp: algebra_simps power2_eq_square)

lemma sum_squares_nonneg:
  "0 \<le> sum_list (map (\<lambda>x. (f x :: 'a::linordered_field) ^ 2) xs)"
  by (rule sum_list_nonneg) auto

lemma sum_squares_zero:
  "sum_list (map (\<lambda>x. (f x :: 'a::linordered_field) ^ 2) xs) = 0 \<Longrightarrow> x \<in> set xs \<Longrightarrow> f x = 0"
  by (subst (asm) sum_list_nonneg_eq_0_iff) auto

lemma minimum_nonneg:
  fixes A B S :: "'a::linordered_field"
  assumes "0 < B" "0 \<le> A - 2 * (S / B) * S + (S / B) ^ 2 * B"
  shows "S ^ 2 \<le> A * B"
  using assms by (simp add: power2_eq_square field_simps)

lemma cauchy_schwarz_list:
  fixes ps :: "('a::linordered_field \<times> 'a) list"
  shows "(sum_list (map (\<lambda>(a, b). a * b) ps)) ^ 2
     \<le> sum_list (map (\<lambda>(a, b). a ^ 2) ps) * sum_list (map (\<lambda>(a, b). b ^ 2) ps)"
proof -
  let ?A = "sum_list (map (\<lambda>(a, b). a ^ 2) ps)" and ?B = "sum_list (map (\<lambda>(a, b). b ^ 2) ps)"
    and ?S = "sum_list (map (\<lambda>(a, b). a * b) ps)"
  show ?thesis
  proof (cases "?B = 0")
    case True
    then have "\<And>p. p \<in> set ps \<Longrightarrow> snd p = 0"
      using sum_squares_zero [of snd ps] by (simp add: case_prod_unfold)
    then have "map (\<lambda>(a, b). a * b) ps = map (\<lambda>_. 0) ps" by (auto simp: case_prod_unfold)
    then have "?S = sum_list (map (\<lambda>_. 0) ps)" by (rule arg_cong)
    then have "?S = 0" by simp
    then show ?thesis using True by simp
  next
    case False
    then have pos: "0 < ?B" using sum_squares_nonneg [of snd ps] by (simp add: case_prod_unfold)
    have "0 \<le> sum_list (map (\<lambda>(a, b). (a - ?S / ?B * b) ^ 2) ps)"
      using sum_squares_nonneg [of "\<lambda>p. fst p - ?S / ?B * snd p" ps] by (simp add: case_prod_unfold)
    then show ?thesis by (intro minimum_nonneg [OF pos]) (simp only: sum_shifted_squares)
  qed
qed

lemma pearson_bounds:
  assumes "pearson pairs = Some c"
  shows "\<bar>c\<bar> \<le> 1"
proof -
  define u where "u = fmean (map fst pairs)"
  define v where "v = fmean (map snd pairs)"
  define n where "n = sum_list (map (\<lambda>(x, y). (x - u) * (y - v)) pairs)"
  define X where "X = sum_list (map (\<lambda>x. (x - u) ^ 2) (map fst pairs))"
  define Y where "Y = sum_list (map (\<lambda>y. (y - v) ^ 2) (map snd pairs))"
  let ?s = "sqrt (of_rat (X * Y))"
  from assms have c: "?s \<noteq> 0" "c = of_rat n / ?s"
    by (auto simp: pearson_def Let_def u_def v_def n_def X_def Y_def split: if_splits)
  have "n ^ 2 \<le> X * Y"
    using cauchy_schwarz_list [of "map (\<lambda>(x, y). (x - u, y - v)) pairs"]
    by (simp add: n_def X_def Y_def case_prod_unfold comp_def)
  then have "(of_rat n :: real) ^ 2 \<le> of_rat (X * Y)"
    by (metis of_rat_less_eq of_rat_power)
  then have "\<bar>of_rat n\<bar> \<le> ?s" by (metis real_sqrt_abs real_sqrt_le_mono)
  moreover from this c(1) have "0 < ?s" by linarith
  ultimately show ?thesis by (simp add: c(2))
qed

lemma round_coefficient_bounds:
  assumes "\<bar>c\<bar> \<le> 1"
  shows "\<bar>round_coefficient c\<bar> \<le> 1"
proof -
  let ?x = "c * 10000" let ?f = "floor ?x"
  from assms have x: "-10000 \<le> ?x" "?x \<le> 10000" by (simp_all add: abs_le_iff)
  then have f: "-10000 \<le> ?f" "?f \<le> 10000" by (simp_all add: le_floor_iff floor_le_iff)
  have up: "?f + 1 \<le> 10000" if "\<not> ?x - of_int ?f < 1 / 2"
  proof (rule ccontr)
    assume "\<not> ?f + 1 \<le> 10000"
    with f(2) have "?f = 10000" by linarith
    then have "of_int ?f = (10000 :: real)" by simp
    with that x(2) show False by linarith
  qed
  define k where "k = (if ?x - of_int ?f < 1 / 2 then ?f else if 1 / 2 < ?x - of_int ?f then ?f + 1
    else if even ?f then ?f else ?f + 1)"
  have k: "-10000 \<le> k" "k \<le> 10000" using f up unfolding k_def by (smt (verit))+
  have "round_coefficient c = of_int k / 10000"
    by (simp add: round_coefficient_def k_def Let_def)
  moreover have "- 10000 \<le> (of_int k :: rat)" "(of_int k :: rat) \<le> 10000"
    using k by (metis of_int_le_iff of_int_minus of_int_numeral, metis of_int_le_iff of_int_numeral)
  ultimately show ?thesis by (simp add: abs_le_iff field_simps)
qed

lemma coefficient_bounded:
  "co_coefficient (correlation items metric x_key y_key minimum) = Some v \<Longrightarrow> \<bar>v\<bar> \<le> 1"
  using pearson_bounds round_coefficient_bounds by (auto simp: correlation_def Let_def)

lemma correlation_sufficient:
  "co_sufficient_sample (correlation items metric x_key y_key minimum) \<longleftrightarrow>
     minimum \<le> co_sample_size (correlation items metric x_key y_key minimum)"
  by (simp add: correlation_def Let_def)

lemma report_correlation_cases:
  assumes "c \<in> set (report_correlations items minimum)"
  obtains metric x_key y_key where "c = correlation items metric x_key y_key minimum"
  using assms unfolding report_correlations_def by auto

lemma generate_fields:
  assumes "collect_facts (period_rows d q) (property_decisions d) no_totals = (totals, items)"
  shows "cr_totals (fst (generate d q now)) = totals"
    and "cr_correlations (fst (generate d q now)) =
      report_correlations items (rq_minimum_correlation_sample q)"
    and "cr_warnings (fst (generate d q now)) =
      report_warnings (report_correlations items (rq_minimum_correlation_sample q))"
  using assms by (simp_all add: generate_def Let_def)

text \<open>
  C15: Every correlation of a calibration report is a number between -1 and 1 or absent, it is
  only called descriptive when it is present and its sample reaches the requested minimum, and
  the report warns about small samples exactly when one of its correlations has one.
\<close>

theorem report_correlations_sound:
  "let report = fst (generate d q now); minimum = rq_minimum_correlation_sample q
   in list_all (\<lambda>c.
        (case co_coefficient c of None \<Rightarrow> True | Some v \<Rightarrow> -1 \<le> v \<and> v \<le> 1) \<and>
        (co_sufficient_sample c \<longleftrightarrow> minimum \<le> co_sample_size c) \<and>
        (co_interpretation c = ''descriptive_correlation_only'' \<longleftrightarrow>
           minimum \<le> co_sample_size c \<and> co_coefficient c \<noteq> None)) (cr_correlations report) \<and>
      (''One or more comparisons are below the configured minimum sample size.''
           \<in> set (cr_warnings report) \<longleftrightarrow>
         list_ex (\<lambda>c. co_sample_size c < minimum) (cr_correlations report))"
proof -
  obtain totals items where
    run: "collect_facts (period_rows d q) (property_decisions d) no_totals = (totals, items)"
    by fastforce
  let ?cs = "report_correlations items (rq_minimum_correlation_sample q)"
  have each: "(case co_coefficient c of None \<Rightarrow> True | Some v \<Rightarrow> -1 \<le> v \<and> v \<le> 1) \<and>
      (co_sufficient_sample c \<longleftrightarrow> rq_minimum_correlation_sample q \<le> co_sample_size c) \<and>
      (co_interpretation c = ''descriptive_correlation_only'' \<longleftrightarrow>
         rq_minimum_correlation_sample q \<le> co_sample_size c \<and> co_coefficient c \<noteq> None)"
    if "c \<in> set ?cs" for c
  proof -
    from that obtain metric x_key y_key where
      c: "c = correlation items metric x_key y_key (rq_minimum_correlation_sample q)"
      by (rule report_correlation_cases)
    show ?thesis using coefficient_bounded [of items metric x_key y_key "rq_minimum_correlation_sample q"]
      unfolding c by (auto simp: correlation_def Let_def abs_le_iff split: option.splits)
  qed
  have "list_ex (\<lambda>c. \<not> co_sufficient_sample c) ?cs \<longleftrightarrow>
      list_ex (\<lambda>c. co_sample_size c < rq_minimum_correlation_sample q) ?cs"
    using each by (simp add: list_ex_iff not_le cong: bex_cong)
  then show ?thesis
    using each by (simp add: generate_fields [OF run] Let_def list_all_iff report_warnings_def)
qed

section \<open>Totals by truth basis\<close>

lemma totals_of_add_row:
  "totals_of b (add_row r t) =
     (if oc_truth_basis r = b then add_totals (totals_of b t) r else totals_of b t)"
  by (cases b; cases "oc_truth_basis r") (simp_all add: add_row_def)

lemma map_of_add_totals:
  "map_of (add_totals t r) key = map_option (\<lambda>v. v + row_measure key r) (map_of t key)"
  by (induction t) (auto simp: add_totals_def)

lemma totals_of_fold:
  "map_of (totals_of b (fold add_row rows t)) key =
     map_option (\<lambda>v. v + sum_rows (\<lambda>r. oc_truth_basis r = b) (row_measure key) rows)
       (map_of (totals_of b t) key)"
  by (induction rows arbitrary: t)
    (auto simp: totals_of_add_row map_of_add_totals option.map_comp comp_def add.assoc option.map_ident)

lemma sum_rows_filter: "sum_rows P v (filter Q xs) = sum_rows (\<lambda>r. Q r \<and> P r) v xs"
  by (induction xs) auto

lemma sum_rows_split:
  "\<not> (\<exists>r \<in> set xs. P r \<and> Q r) \<Longrightarrow>
   sum_rows P v xs + sum_rows Q v xs = sum_rows (\<lambda>r. P r \<or> Q r) v xs"
  by (induction xs) auto

lemma totals_of_collect:
  assumes "keys_distinct dn_id decisions"
  shows "map_of (totals_of b (fst (collect_facts outcome_rows decisions t))) key =
    map_option (\<lambda>v. v + sum_rows (\<lambda>r. oc_property_decision_id r \<in> dn_id ` set decisions \<and>
       oc_truth_basis r = b) (row_measure key) outcome_rows) (map_of (totals_of b t) key)"
  using assms
proof (induction decisions arbitrary: t)
  case Nil
  have "sum_rows (\<lambda>_. False) v xs = 0" for v and xs :: "property_outcome list"
    by (induction xs) auto
  then show ?case by (simp add: option.map_ident)
next
  case (Cons decision decisions)
  let ?rows = "rows_of outcome_rows decision"
  have fresh: "dn_id decision \<notin> dn_id ` set decisions" and dist: "keys_distinct dn_id decisions"
    using Cons.prems by (auto simp: keys_distinct_def)
  have step: "fst (collect_facts outcome_rows (decision # decisions) t) =
      fst (collect_facts outcome_rows decisions (fold add_row ?rows t))"
    by (simp add: Let_def case_prod_unfold)
  have "sum_rows (\<lambda>r. oc_truth_basis r = b) (row_measure key) ?rows +
      sum_rows (\<lambda>r. oc_property_decision_id r \<in> dn_id ` set decisions \<and> oc_truth_basis r = b)
        (row_measure key) outcome_rows =
      sum_rows (\<lambda>r. oc_property_decision_id r \<in> dn_id ` set (decision # decisions) \<and>
        oc_truth_basis r = b) (row_measure key) outcome_rows"
    unfolding rows_of_def sum_rows_filter
    by (subst sum_rows_split) (use fresh in \<open>auto intro!: sum_rows_cong\<close>)
  then show ?case
    unfolding step Cons.IH [OF dist] totals_of_fold option.map_comp comp_def
    by (simp add: add.assoc)
qed

lemma map_of_no_totals:
  "map_of (totals_of b no_totals) key = (if key \<in> set (map fst measure_keys) then Some 0 else None)"
  by (cases b) (simp_all add: no_totals_def empty_totals_def measure_keys_def)

text \<open>
  Reports never mix truth bases: the totals a report gives under a basis are, for each of
  the nine measures, the sum over exactly the rows of that basis whose period lies in the
  requested range and which belong to a recorded decision, each counted once.
\<close>

theorem report_totals_by_truth_basis:
  assumes "keys_distinct dn_id (property_decisions d)"
    and "key \<in> set (map fst measure_keys)"
  shows "map_of (totals_of b (cr_totals (fst (generate d q now)))) key =
    Some (sum_rows (\<lambda>r. oc_truth_basis r = b \<and> rq_start_date q \<le> oc_period_date r \<and>
        oc_period_date r \<le> rq_end_date q \<and> oc_property_decision_id r \<in> dn_id ` set (property_decisions d))
      (row_measure key) (property_outcomes d))"
proof -
  obtain totals items where
    run: "collect_facts (period_rows d q) (property_decisions d) no_totals = (totals, items)"
    by fastforce
  have "map_of (totals_of b totals) key =
      Some (sum_rows (\<lambda>r. oc_property_decision_id r \<in> dn_id ` set (property_decisions d) \<and>
        oc_truth_basis r = b) (row_measure key) (period_rows d q))"
    using totals_of_collect [OF assms(1), of b "period_rows d q" no_totals key] assms(2)
    unfolding run map_of_no_totals by simp
  also have "sum_rows (\<lambda>r. oc_property_decision_id r \<in> dn_id ` set (property_decisions d) \<and>
        oc_truth_basis r = b) (row_measure key) (period_rows d q) =
      sum_rows (\<lambda>r. oc_truth_basis r = b \<and> rq_start_date q \<le> oc_period_date r \<and>
        oc_period_date r \<le> rq_end_date q \<and> oc_property_decision_id r \<in> dn_id ` set (property_decisions d))
      (row_measure key) (property_outcomes d)"
    unfolding period_rows_def sum_rows_filter by (rule sum_rows_cong) auto
  finally show ?thesis unfolding generate_fields(1) [OF run] .
qed

definition sample_report_db :: database where
  "sample_report_db = empty_db\<lparr>property_decisions := [blank_property_decision\<lparr>dn_id := 1\<rparr>],
     property_outcomes := [
       blank_property_outcome\<lparr>oc_id := 1, oc_property_decision_id := 1, oc_period_date := 3,
         oc_truth_basis := TB_observed, oc_clicks := 4\<rparr>,
       blank_property_outcome\<lparr>oc_id := 2, oc_property_decision_id := 1, oc_period_date := 4,
         oc_truth_basis := TB_estimated, oc_clicks := 900\<rparr>]\<rparr>"

definition sample_report_request :: report_request where
  "sample_report_request = \<lparr>rq_start_date = 0, rq_end_date = 10, rq_minimum_correlation_sample = 3\<rparr>"

theorem report_totals_by_truth_basis_witness:
  "map_of (totals_of TB_observed (cr_totals (fst (generate sample_report_db sample_report_request 20))))
     ''clicks'' = Some 4"
proof -
  let ?d = sample_report_db and ?q = sample_report_request
  have "keys_distinct dn_id (property_decisions ?d)"
    by (simp add: sample_report_db_def keys_distinct_def)
  moreover have "''clicks'' \<in> set (map fst measure_keys)" by (simp add: measure_keys_def)
  ultimately have "map_of (totals_of TB_observed (cr_totals (fst (generate ?d ?q 20)))) ''clicks'' =
    Some (sum_rows (\<lambda>r. oc_truth_basis r = TB_observed \<and> rq_start_date ?q \<le> oc_period_date r \<and>
        oc_period_date r \<le> rq_end_date ?q \<and> oc_property_decision_id r \<in> dn_id ` set (property_decisions ?d))
      (row_measure ''clicks'') (property_outcomes ?d))"
    by (rule report_totals_by_truth_basis)
  also have "\<dots> = Some 4" by code_simp
  finally show ?thesis .
qed

end
