(* ===== verification/Outcome_History.thy ===== *)
theory Outcome_History
  imports Calibration_Reports "HOL-Library.Multiset"
begin

text \<open>
  Sequences of the operations of \<open>outcomes/services.py\<close>: the invariant that every outcome
  joins back to the evidence and score its property was selected on, the idempotent imports,
  the round trip of an import through the export, and what the scoring guard can record.
\<close>

section \<open>Case rules\<close>

lemma record_decision_Inr:
  assumes "record_decision d x = Inr (row, d')"
  obtains (replay) "decision_of d (di_property_id x) = Some row" "d' = d"
      "(dn_opportunity_id row, dn_full_score_id row, dn_evidence_snapshot_id row) =
        (di_opportunity_id x, di_full_score_id x, di_evidence_snapshot_id x)"
  | (fresh) score evidence op where "decision_of d (di_property_id x) = None"
      "require_property_approval d (di_opportunity_id x) = Inr op"
      "tget fs_id (di_full_score_id x) (full_opportunity_scores d) = Some score"
      "tget ja_id (di_evidence_snapshot_id x) (json_artifacts d) = Some evidence"
      "fs_opportunity_id score = di_opportunity_id x"
      "ja_opportunity_id evidence = Some (di_opportunity_id x)"
      "ja_scan_run_id evidence = Some (fs_scan_run_id score)"
      "ja_kind evidence \<in> {''scan_result'', ''evidence_snapshot''}"
      "ja_kind evidence = ''scan_result'' \<longrightarrow> jget (ja_payload evidence) ''assessment_type'' = Some (JStr ''full'')"
      "row = new_decision d x score"
      "d' = d\<lparr>property_decisions := property_decisions d @ [row]\<rparr>"
proof (cases "decision_of d (di_property_id x)")
  case (Some existing)
  with assms show ?thesis by (intro replay) (auto simp: record_decision_def)
next
  case None
  with assms obtain op where op: "require_property_approval d (di_opportunity_id x) = Inr op"
    by (auto simp: record_decision_def split: sum.splits)
  let ?score = "tget fs_id (di_full_score_id x) (full_opportunity_scores d)"
  let ?evidence = "tget ja_id (di_evidence_snapshot_id x) (json_artifacts d)"
  from assms None op have ok: "first_error (evidence_errors d x ?score ?evidence) = None"
    by (auto simp: record_decision_def Let_def)
  then obtain score evidence where "?score = Some score" "?evidence = Some evidence"
    by (cases ?score; cases ?evidence) (auto simp: evidence_errors_def Let_def)
  with assms None op ok show ?thesis
    by (intro fresh [of op score evidence]) (auto simp: record_decision_def evidence_errors_def Let_def)
qed

lemma ingest_Inr:
  assumes "ingest d x now = Inr (row, d')"
  obtains (replay) decision where "decision_of d (or_property_id x) = Some decision"
      "first_error (outcome_errors decision x) = None"
      "find_outcome d (dn_id decision) (or_source_name x) (or_source_record_id x) = Some row" "d' = d"
  | (fresh) decision where "decision_of d (or_property_id x) = Some decision"
      "first_error (outcome_errors decision x) = None"
      "find_outcome d (dn_id decision) (or_source_name x) (or_source_record_id x) = None"
      "row = new_outcome d decision x now"
      "d' = d\<lparr>property_outcomes := property_outcomes d @ [row]\<rparr>"
  using assms by (auto simp: ingest_def Let_def split: option.splits)

lemma authorize_Inr:
  assumes "authorize_manual_review d p = Inr (row, d')"
  shows "d' = d\<lparr>scoring_change_reviews := scoring_change_reviews d @ [row]\<rparr>"
    and "sg_applied_automatically row = False" "sg_benchmark_passed row"
    and "sg_current_version row \<noteq> sg_proposed_version row"
    and "py_lower (sg_initiated_by row) \<notin> {''automatic'', ''system'', ''calibration_report''}"
    and "sp_reviewer_id p = Some (sg_reviewer_id row)"
    and "sp_benchmark_run_id p = Some (sg_benchmark_run_id row)"
    and "sg_proposal_id row \<notin> sg_proposal_id ` set (scoring_change_reviews d)"
  using assms by (auto simp: authorize_manual_review_def Let_def select_first_None image_iff)

section \<open>Idempotent imports\<close>

definition decision_stored :: "database \<Rightarrow> decision_input \<Rightarrow> property_decision \<Rightarrow> bool" where
  "decision_stored d x r \<longleftrightarrow> decision_of d (di_property_id x) = Some r \<and>
     (dn_opportunity_id r, dn_full_score_id r, dn_evidence_snapshot_id r) =
     (di_opportunity_id x, di_full_score_id x, di_evidence_snapshot_id x)"

lemma select_first_single: "select_first P [r] = (if P r then Some r else None)"
  by (simp add: select_first_def)

interpretation decisions: idempotent_store record_decision decision_stored
proof unfold_locales
  fix d x r d'
  assume "record_decision d x = Inr (r, d')"
  then show "decision_stored d' x r"
    by (cases rule: record_decision_Inr)
      (auto simp: decision_stored_def decision_of_def select_first_append select_first_single
        new_decision_def)
next
  fix d x r
  assume "decision_stored d x r"
  then show "record_decision d x = Inr (r, d)"
    by (auto simp: decision_stored_def record_decision_def)
next
  fix d y r' d' x r
  assume "record_decision d y = Inr (r', d')" "decision_stored d x r"
  then show "decision_stored d' x r"
    by (cases rule: record_decision_Inr) (auto simp: decision_stored_def decision_of_def select_first_append)
qed

definition outcome_stored :: "database \<Rightarrow> outcome_record \<times> instant \<Rightarrow> property_outcome \<Rightarrow> bool" where
  "outcome_stored d p r \<longleftrightarrow>
     (case decision_of d (or_property_id (fst p)) of
        None \<Rightarrow> False
      | Some decision \<Rightarrow> first_error (outcome_errors decision (fst p)) = None \<and>
          find_outcome d (dn_id decision) (or_source_name (fst p)) (or_source_record_id (fst p)) = Some r)"

interpretation outcome_imports: idempotent_store "\<lambda>d (x, now). ingest d x now" outcome_stored
proof unfold_locales
  fix d r d' and p :: "outcome_record \<times> instant"
  assume "(case p of (x, now) \<Rightarrow> ingest d x now) = Inr (r, d')"
  then have "ingest d (fst p) (snd p) = Inr (r, d')" by (simp add: case_prod_unfold)
  then show "outcome_stored d' p r"
    by (cases rule: ingest_Inr)
      (auto simp: outcome_stored_def decision_of_def find_outcome_def select_first_append
        select_first_single new_outcome_def)
next
  fix d r and p :: "outcome_record \<times> instant"
  assume "outcome_stored d p r"
  then show "(case p of (x, now) \<Rightarrow> ingest d x now) = Inr (r, d)"
    by (cases p) (auto simp: outcome_stored_def ingest_def guarded_def split: option.splits)
next
  fix d r' d' r and y p :: "outcome_record \<times> instant"
  assume "(case y of (x, now) \<Rightarrow> ingest d x now) = Inr (r', d')" and st: "outcome_stored d p r"
  then have "ingest d (fst y) (snd y) = Inr (r', d')" by (simp add: case_prod_unfold)
  then show "outcome_stored d' p r" using st
    by (cases rule: ingest_Inr)
      (auto simp: outcome_stored_def decision_of_def find_outcome_def select_first_append
        split: option.splits)
qed

section \<open>Requests\<close>

datatype outcome_op =
  RecordDecision decision_input
| Ingest outcome_record instant
| CollectFrom string "outcome_record list" instant
| DeleteImportedSource string string access_context
| EnforceOutcomeRetention calendar_date access_context
| GenerateReport report_request instant
| AuthorizeManualReview scoring_change_proposal

definition outcome_step :: "database \<Rightarrow> outcome_op \<Rightarrow> outcome_error + database" where
  "outcome_step d opn =
     (let invalid = (\<lambda>b. raise_if (\<not> b) (OutcomeValidationError ''validation'')) in
      case opn of
        RecordDecision x \<Rightarrow> guarded [invalid (valid_decision_input x)] (map_result snd (record_decision d x))
      | Ingest x now \<Rightarrow> guarded [invalid (valid_outcome_record x)] (map_result snd (ingest d x now))
      | CollectFrom name xs now \<Rightarrow>
          guarded [invalid (list_all valid_outcome_record xs)] (map_result snd (collect_from d name xs now))
      | DeleteImportedSource property_id source_name access \<Rightarrow>
          map_result snd (delete_imported_source d property_id source_name access)
      | EnforceOutcomeRetention before access \<Rightarrow> map_result snd (enforce_outcome_retention d before access)
      | GenerateReport q now \<Rightarrow> guarded [invalid (valid_report_request q)] (Inr (snd (generate d q now)))
      | AuthorizeManualReview p \<Rightarrow>
          guarded [invalid (valid_proposal p)] (map_result snd (authorize_manual_review d p)))"

section \<open>Lineage\<close>

text \<open>What a decision was selected on: a score and an evidence artifact of one scan.\<close>

definition decision_lineage :: "database \<Rightarrow> property_decision \<Rightarrow> bool" where
  "decision_lineage d r \<longleftrightarrow>
     (\<exists>score evidence. tget fs_id (dn_full_score_id r) (full_opportunity_scores d) = Some score \<and>
        tget ja_id (dn_evidence_snapshot_id r) (json_artifacts d) = Some evidence \<and>
        fs_opportunity_id score = dn_opportunity_id r \<and> fs_scan_run_id score = dn_scan_run_id r \<and>
        fs_scoring_version score = dn_score_version_at_selection r \<and>
        ja_opportunity_id evidence = Some (dn_opportunity_id r) \<and>
        ja_scan_run_id evidence = Some (dn_scan_run_id r))"

text \<open>The rules \<open>PropertyOutcomeRecord.validate_source_truth\<close> states.\<close>

definition truthful :: "property_outcome \<Rightarrow> bool" where
  "truthful r \<longleftrightarrow>
     (oc_truth_basis r = TB_provider_reported \<longrightarrow> oc_source_type r = OS_provider) \<and>
     (oc_truth_basis r = TB_operator_verified \<longrightarrow> oc_source_type r = OS_operator) \<and>
     (oc_truth_basis r = TB_estimated \<longrightarrow> oc_reported_revenue r = 0)"

definition outcome_lineage :: "database \<Rightarrow> property_outcome \<Rightarrow> bool" where
  "outcome_lineage d r \<longleftrightarrow>
     (\<exists>decision \<in> set (property_decisions d). dn_id decision = oc_property_decision_id r \<and>
        date_of (dn_selected_at decision) \<le> oc_period_date r)"

definition outcome_key :: "property_outcome \<Rightarrow> int \<times> string \<times> string" where
  "outcome_key r = (oc_property_decision_id r, oc_source_name r, oc_source_record_id r)"

definition human_reviewed :: "scoring_change_review \<Rightarrow> bool" where
  "human_reviewed r \<longleftrightarrow> \<not> sg_applied_automatically r \<and> sg_benchmark_passed r \<and>
     sg_current_version r \<noteq> sg_proposed_version r \<and>
     py_lower (sg_initiated_by r) \<notin> {''automatic'', ''system'', ''calibration_report''}"

definition descriptive_report :: "calibration_report \<Rightarrow> bool" where
  "descriptive_report r \<longleftrightarrow> jget (cb_payload r) ''scoring_changes_applied'' = Some (JBool False)"

definition outcomes_ok :: "database \<Rightarrow> bool" where
  "outcomes_ok d \<longleftrightarrow>
     keys_distinct dn_id (property_decisions d) \<and> keys_distinct dn_property_id (property_decisions d) \<and>
     list_all (decision_lineage d) (property_decisions d) \<and>
     keys_distinct outcome_key (property_outcomes d) \<and>
     list_all (\<lambda>r. outcome_lineage d r \<and> truthful r) (property_outcomes d) \<and>
     list_all human_reviewed (scoring_change_reviews d) \<and>
     list_all descriptive_report (calibration_reports d)"

lemma decision_of_None:
  "decision_of d p = None \<longleftrightarrow> p \<notin> dn_property_id ` set (property_decisions d)"
  by (auto simp: decision_of_def select_first_None)

lemma decision_of_Some:
  "decision_of d p = Some r \<Longrightarrow> r \<in> set (property_decisions d) \<and> dn_property_id r = p"
  by (auto simp: decision_of_def dest: select_first_Some)

lemma find_outcome_None:
  "find_outcome d i s k = None \<longleftrightarrow> (i, s, k) \<notin> outcome_key ` set (property_outcomes d)"
  by (auto simp: find_outcome_def select_first_None outcome_key_def)

lemma record_decision_ok:
  assumes "outcomes_ok d" "record_decision d x = Inr (row, d')"
  shows "outcomes_ok d'"
  using assms(2)
proof (cases rule: record_decision_Inr)
  case replay
  with assms(1) show ?thesis by simp
next
  case (fresh score evidence op)
  let ?d = "d\<lparr>property_decisions := property_decisions d @ [row]\<rparr>"
  have keys: "dn_id row = next_id dn_id (property_decisions d)" "dn_property_id row = di_property_id x"
    using fresh by (simp_all add: new_decision_def)
  have "decision_lineage ?d row" using fresh by (simp add: decision_lineage_def new_decision_def)
  moreover have "decision_lineage ?d r \<longleftrightarrow> decision_lineage d r" for r
    by (simp add: decision_lineage_def)
  moreover have "outcome_lineage d r \<Longrightarrow> outcome_lineage ?d r" for r
    by (auto simp: outcome_lineage_def)
  moreover have "dn_property_id row \<notin> dn_property_id ` set (property_decisions d)"
    using fresh(1) keys by (simp add: decision_of_None)
  moreover have "dn_id row \<notin> dn_id ` set (property_decisions d)"
    using keys next_id_fresh [of dn_id "property_decisions d"] by simp
  ultimately show ?thesis
    using assms(1) unfolding fresh(11) outcomes_ok_def
    by (auto simp: keys_distinct_append list_all_iff)
qed

lemma ingest_ok:
  assumes "outcomes_ok d" "valid_outcome_record x" "ingest d x now = Inr (row, d')"
  shows "outcomes_ok d'"
  using assms(3)
proof (cases rule: ingest_Inr)
  case (replay decision)
  with assms(1) show ?thesis by simp
next
  case (fresh decision)
  let ?d = "d\<lparr>property_outcomes := property_outcomes d @ [row]\<rparr>"
  have "outcome_key row = (dn_id decision, or_source_name x, or_source_record_id x)"
    using fresh by (simp add: new_outcome_def outcome_key_def)
  then have "outcome_key row \<notin> outcome_key ` set (property_outcomes d)"
    using fresh(3) by (simp add: find_outcome_None)
  moreover have "outcome_lineage ?d row"
    using fresh decision_of_Some [OF fresh(1)]
    by (auto simp: outcome_lineage_def new_outcome_def outcome_errors_def)
  moreover have "truthful row"
    using fresh(4) assms(2) by (auto simp: truthful_def new_outcome_def valid_outcome_record_def)
  moreover have "outcome_lineage ?d r \<longleftrightarrow> outcome_lineage d r" "decision_lineage ?d q \<longleftrightarrow> decision_lineage d q"
    for r q by (simp_all add: outcome_lineage_def decision_lineage_def)
  ultimately show ?thesis
    using assms(1) unfolding fresh(5) outcomes_ok_def
    by (auto simp: keys_distinct_append list_all_iff)
qed

lemma collect_from_ok:
  "outcomes_ok d \<Longrightarrow> list_all valid_outcome_record xs \<Longrightarrow> collect_from d name xs now = Inr (rows, d') \<Longrightarrow>
   outcomes_ok d'"
proof (induction xs arbitrary: d rows)
  case Nil
  then show ?case by simp
next
  case (Cons x xs)
  from Cons.prems(3) obtain row d1 rest where
    "ingest d x now = Inr (row, d1)" "collect_from d1 name xs now = Inr (rest, d')"
    by (auto simp: split: prod.splits)
  with Cons show ?case by (auto intro: ingest_ok)
qed

lemma outcomes_ok_filter:
  assumes "outcomes_ok d"
  shows "outcomes_ok (d\<lparr>property_outcomes := filter P (property_outcomes d)\<rparr>)"
proof -
  have "outcome_lineage (d\<lparr>property_outcomes := rows\<rparr>) r \<longleftrightarrow> outcome_lineage d r"
    "decision_lineage (d\<lparr>property_outcomes := rows\<rparr>) q \<longleftrightarrow> decision_lineage d q" for rows r q
    by (simp_all add: outcome_lineage_def decision_lineage_def)
  with assms show ?thesis
    by (auto simp: outcomes_ok_def list_all_iff keys_distinct_def distinct_map_filter)
qed

lemma generate_database:
  "\<exists>row. snd (generate d q now) = d\<lparr>calibration_reports := calibration_reports d @ [row]\<rparr> \<and>
     descriptive_report row"
  by (auto simp: generate_def Let_def case_prod_unfold descriptive_report_def report_dump_def)

lemma outcomes_ok_frame:
  "outcomes_ok (d\<lparr>calibration_reports := rs\<rparr>) \<longleftrightarrow>
     outcomes_ok (d\<lparr>calibration_reports := []\<rparr>) \<and> list_all descriptive_report rs"
  "outcomes_ok (d\<lparr>scoring_change_reviews := ss\<rparr>) \<longleftrightarrow>
     outcomes_ok (d\<lparr>scoring_change_reviews := []\<rparr>) \<and> list_all human_reviewed ss"
  by (auto simp: outcomes_ok_def decision_lineage_def [abs_def] outcome_lineage_def)

lemma generate_ok:
  assumes "outcomes_ok d"
  shows "outcomes_ok (snd (generate d q now))"
proof -
  obtain row where "snd (generate d q now) = d\<lparr>calibration_reports := calibration_reports d @ [row]\<rparr>"
    "descriptive_report row"
    using generate_database by blast
  then show ?thesis
    using assms outcomes_ok_frame(1) [where d = d and rs = "calibration_reports d"]
      outcomes_ok_frame(1) [where d = d and rs = "calibration_reports d @ [row]"] by simp
qed

lemma authorize_ok:
  assumes "outcomes_ok d" "authorize_manual_review d p = Inr (row, d')"
  shows "outcomes_ok d'"
proof -
  have "human_reviewed row" using authorize_Inr [OF assms(2)] by (simp add: human_reviewed_def)
  then show ?thesis
    using assms(1) outcomes_ok_frame(2) [where d = d and ss = "scoring_change_reviews d"]
      outcomes_ok_frame(2) [where d = d and ss = "scoring_change_reviews d @ [row]"]
    by (simp add: authorize_Inr(1) [OF assms(2)])
qed

interpretation outcomes: request_machine outcome_step outcomes_ok
proof
  fix d opn d'
  assume ok: "outcomes_ok d" and step: "outcome_step d opn = Inr d'"
  then show "outcomes_ok d'"
    by (cases opn)
      (auto simp: outcome_step_def delete_imported_source_def enforce_outcome_retention_def Let_def
        intro: record_decision_ok ingest_ok collect_from_ok outcomes_ok_filter generate_ok authorize_ok
        split: option.splits)
qed

section \<open>What the operations leave alone\<close>

text \<open>The tables of the discovery and review components, which a report or a guard may read.\<close>

definition discovery_view where
  "discovery_view d = (opportunities d, full_opportunity_scores d, json_artifacts d, scan_runs d)"

lemma ingest_frame:
  assumes "ingest d x now = Inr (row, d')"
  shows "discovery_view d' = discovery_view d" "property_decisions d' = property_decisions d"
  using assms by (auto elim!: ingest_Inr simp: discovery_view_def)

lemma collect_from_frame:
  "collect_from d name xs now = Inr (rows, d') \<Longrightarrow>
     discovery_view d' = discovery_view d \<and> property_decisions d' = property_decisions d"
proof (induction xs arbitrary: d rows)
  case Nil
  then show ?case by simp
next
  case (Cons x xs)
  from Cons.prems obtain row d1 rest where
    "ingest d x now = Inr (row, d1)" "collect_from d1 name xs now = Inr (rest, d')"
    by (auto split: prod.splits)
  with Cons.IH ingest_frame show ?case by metis
qed

lemma outcome_step_frame:
  assumes "outcome_step d opn = Inr d'"
  shows "discovery_view d' = discovery_view d"
    and "\<exists>rows. property_decisions d' = property_decisions d @ rows"
proof -
  have "discovery_view d' = discovery_view d \<and> (\<exists>rows. property_decisions d' = property_decisions d @ rows)"
  proof (cases opn)
    case (RecordDecision x)
    with assms obtain row where "record_decision d x = Inr (row, d')" by (auto simp: outcome_step_def Let_def)
    then show ?thesis by (cases rule: record_decision_Inr) (auto simp: discovery_view_def)
  next
    case (Ingest x now)
    with assms obtain row where "ingest d x now = Inr (row, d')" by (auto simp: outcome_step_def Let_def)
    from ingest_frame [OF this] show ?thesis by simp
  next
    case (CollectFrom name xs now)
    with assms obtain rows where "collect_from d name xs now = Inr (rows, d')"
      by (auto simp: outcome_step_def Let_def)
    from collect_from_frame [OF this] show ?thesis by simp
  next
    case (GenerateReport q now)
    with assms have "d' = snd (generate d q now)" by (simp add: outcome_step_def Let_def)
    with generate_database [of d q now] show ?thesis by (auto simp: discovery_view_def)
  next
    case (AuthorizeManualReview p)
    with assms obtain row where "authorize_manual_review d p = Inr (row, d')"
      by (auto simp: outcome_step_def Let_def)
    from authorize_Inr(1) [OF this] show ?thesis by (simp add: discovery_view_def)
  qed (use assms in \<open>auto simp: outcome_step_def delete_imported_source_def
      enforce_outcome_retention_def discovery_view_def Let_def split: option.splits\<close>)
  then show "discovery_view d' = discovery_view d"
    "\<exists>rows. property_decisions d' = property_decisions d @ rows" by auto
qed

lemma outcome_run_frame:
  "discovery_view (run_requests outcome_step d ops) = discovery_view d \<and>
   (\<exists>rows. property_decisions (run_requests outcome_step d ops) = property_decisions d @ rows)"
proof (induction ops arbitrary: d)
  case Nil
  then show ?case by simp
next
  case (Cons opn ops)
  show ?case
  proof (cases "outcome_step d opn")
    case (Inl e)
    with Cons show ?thesis by simp
  next
    case (Inr d')
    with Cons [of d'] outcome_step_frame [OF Inr] show ?thesis by auto
  qed
qed

section \<open>Properties\<close>

text \<open>
  C13: Whatever sequence of decisions, imports, collections, deletions, retention runs, reports
  and reviews is processed, every stored outcome joins back to the decision its property was
  selected by, to the full score and the evidence artifact of one scan of that opportunity
  with the scoring version of the selection, lies on or after the selection date, and keeps
  the rules of its truth basis: provider-reported facts come from the provider,
  operator-verified ones from the operator, and estimates carry no revenue.
\<close>

theorem outcomes_trace_to_evidence:
  assumes "outcomes_ok d" and "d' = run_requests outcome_step d ops"
    and "r \<in> set (property_outcomes d')"
  shows "truthful r \<and> (\<exists>decision \<in> set (property_decisions d'). \<exists>score evidence.
      dn_id decision = oc_property_decision_id r \<and>
      date_of (dn_selected_at decision) \<le> oc_period_date r \<and>
      tget fs_id (dn_full_score_id decision) (full_opportunity_scores d') = Some score \<and>
      tget ja_id (dn_evidence_snapshot_id decision) (json_artifacts d') = Some evidence \<and>
      fs_opportunity_id score = dn_opportunity_id decision \<and>
      fs_scoring_version score = dn_score_version_at_selection decision \<and>
      ja_opportunity_id evidence = Some (dn_opportunity_id decision) \<and>
      ja_scan_run_id evidence = Some (fs_scan_run_id score))"
proof -
  have ok: "outcomes_ok d'" unfolding assms(2) by (rule outcomes.run_inv [OF assms(1)])
  with assms(3) have "outcome_lineage d' r" by (simp add: outcomes_ok_def list_all_iff)
  then obtain decision where dec: "decision \<in> set (property_decisions d')"
    "dn_id decision = oc_property_decision_id r" "date_of (dn_selected_at decision) \<le> oc_period_date r"
    by (auto simp: outcome_lineage_def)
  from ok dec(1) have "decision_lineage d' decision" by (simp add: outcomes_ok_def list_all_iff)
  then obtain score evidence where
    "tget fs_id (dn_full_score_id decision) (full_opportunity_scores d') = Some score"
    "tget ja_id (dn_evidence_snapshot_id decision) (json_artifacts d') = Some evidence"
    "fs_opportunity_id score = dn_opportunity_id decision"
    "fs_scoring_version score = dn_score_version_at_selection decision"
    "ja_opportunity_id evidence = Some (dn_opportunity_id decision)"
    "ja_scan_run_id evidence = Some (fs_scan_run_id score)"
    unfolding decision_lineage_def by auto
  moreover have "truthful r" using ok assms(3) by (simp add: outcomes_ok_def list_all_iff)
  ultimately show ?thesis using dec by blast
qed

text \<open>
  A recorded property decision is immutable: no sequence of outcome operations changes or
  removes it, and none of them writes an opportunity, a score, an evidence artifact or a scan.
\<close>

theorem decision_immutable:
  assumes "decision_of d property_id = Some r"
  shows "decision_of (run_requests outcome_step d ops) property_id = Some r"
    and "discovery_view (run_requests outcome_step d ops) = discovery_view d"
proof -
  from outcome_run_frame [of d ops] obtain rows where
    rows: "property_decisions (run_requests outcome_step d ops) = property_decisions d @ rows" by blast
  show "decision_of (run_requests outcome_step d ops) property_id = Some r"
    using assms by (simp add: decision_of_def rows select_first_append)
  show "discovery_view (run_requests outcome_step d ops) = discovery_view d"
    using outcome_run_frame by blast
qed

definition import_step :: "database \<Rightarrow> outcome_record \<times> instant \<Rightarrow> outcome_error + database" where
  "import_step d p = map_result snd (case p of (x, now) \<Rightarrow> ingest d x now)"

text \<open>The exported form of a record, from its own fields.\<close>

definition record_payload :: "outcome_record \<Rightarrow> json" where
  "record_payload x = JObj
     [(''period_date'', date_json (or_period_date x)),
      (''source_type'', JStr (outcome_source_value (or_source_type x))),
      (''source_name'', JStr (or_source_name x)), (''source_record_id'', JStr (or_source_record_id x)),
      (''truth_basis'', JStr (truth_basis_value (or_truth_basis x))),
      (''confidence'', JStr (or_confidence x)), (''impressions'', JNum (of_int (or_impressions x))),
      (''clicks'', JNum (of_int (or_clicks x))), (''average_position'', opt_rat (or_average_position x)),
      (''organic_sessions'', JNum (of_int (or_organic_sessions x))), (''calls'', JNum (of_int (or_calls x))),
      (''forms'', JNum (of_int (or_forms x))), (''qualified_leads'', JNum (of_int (or_qualified_leads x))),
      (''appointments'', JNum (of_int (or_appointments x))), (''won_jobs'', JNum (of_int (or_won_jobs x))),
      (''reported_revenue'', JNum (or_reported_revenue x))]"

text \<open>
  C14: Import and export are inverse on outcomes: after an import of a record whose source
  identity is new, the export of the property lists exactly the outcomes it listed before and
  this record, with every exported field as it was submitted; importing the record again,
  whatever else was imported in between, returns the stored row and changes nothing.
\<close>

theorem import_export_roundtrip:
  assumes "export_property d (or_property_id x) access = Inr [dec, (''outcomes'', JList before)]"
    and "ingest d x now = Inr (row, d')" and "d' \<noteq> d"
  shows "(\<exists>after. export_property d' (or_property_id x) access = Inr [dec, (''outcomes'', JList after)] \<and>
      mset after = add_mset (record_payload x) (mset before)) \<and>
    ingest (run_requests import_step d' ys) x later = Inr (row, run_requests import_step d' ys)"
proof -
  from assms(2,3) obtain decision where
    new: "decision_of d (or_property_id x) = Some decision" "row = new_outcome d decision x now"
      "d' = d\<lparr>property_outcomes := property_outcomes d @ [row]\<rparr>"
    by (cases rule: ingest_Inr) auto
  let ?mine = "\<lambda>r. oc_property_decision_id r = dn_id decision"
  let ?key = "\<lambda>r. (oc_period_date r, oc_id r)"
  have same: "decision_of d' p = decision_of d p" for p by (simp add: new(3) decision_of_def)
  have row: "?mine row" "outcome_payload row = record_payload x"
    by (simp_all add: new(2) new_outcome_def outcome_payload_def record_payload_def)
  have role: "ax_role access \<in> set [LA_operator, LA_privacy_admin, LA_analytics]"
    and bef: "before = map outcome_payload (sort_key ?key (filter ?mine (property_outcomes d)))"
    using assms(1) new(1) by (auto simp: export_property_def)
  let ?after = "map outcome_payload (sort_key ?key (filter ?mine (property_outcomes d')))"
  have "export_property d' (or_property_id x) access = Inr [dec, (''outcomes'', JList ?after)]"
    using assms(1) role unfolding export_property_def same new(1) by (auto simp: guarded_def raise_if_def)
  moreover have "mset ?after = add_mset (record_payload x) (mset before)"
    by (simp add: bef new(3) row)
  ultimately have listed: "\<exists>after. export_property d' (or_property_id x) access =
      Inr [dec, (''outcomes'', JList after)] \<and> mset after = add_mset (record_payload x) (mset before)"
    by blast
  have "outcome_stored d' (x, now) row"
    using outcome_imports.put_stored [of d "(x, now)" row d'] assms(2) by simp
  then have "outcome_stored d' (x, later) row" unfolding outcome_stored_def fst_conv .
  from outcome_imports.run_stored [OF this, of ys]
  have "outcome_stored (run_requests import_step d' ys) (x, later) row" by (simp add: import_step_def [abs_def])
  from outcome_imports.put_replay [OF this]
  have "ingest (run_requests import_step d' ys) x later = Inr (row, run_requests import_step d' ys)"
    by simp
  with listed show ?thesis ..
qed

section \<open>Witnesses\<close>

definition sample_outcome_db :: database where
  "sample_outcome_db = empty_db\<lparr>
     opportunities := [blank_opportunity\<lparr>op_id := 1, op_status := ''approved_for_property''\<rparr>],
     full_opportunity_scores := [blank_full_opportunity_score\<lparr>fs_id := 5, fs_scan_run_id := 9,
       fs_opportunity_id := 1, fs_scoring_version := ''v1'', fs_total_score := 70\<rparr>],
     json_artifacts := [blank_json_artifact\<lparr>ja_id := 7, ja_opportunity_id := Some 1,
       ja_scan_run_id := Some 9, ja_kind := ''evidence_snapshot''\<rparr>]\<rparr>"

definition sample_decision_input :: decision_input where
  "sample_decision_input = \<lparr>di_property_id = ''P1'', di_opportunity_id = 1, di_full_score_id = 5,
     di_evidence_snapshot_id = 7, di_selected_at = 0, di_service_family_slug = ''plumbing'',
     di_market_size_band = ''small'', di_evidence_quality = ''high'',
     di_validated_opportunity_cost_usd = 12\<rparr>"

definition sample_outcome_record :: "string \<Rightarrow> outcome_record" where
  "sample_outcome_record source_id = \<lparr>or_property_id = ''P1'', or_period_date = 3,
     or_source_type = OS_search_console, or_source_name = ''console'', or_source_record_id = source_id,
     or_truth_basis = TB_observed, or_confidence = ''high'', or_impressions = 40, or_clicks = 4,
     or_average_position = Some 8, or_organic_sessions = 3, or_calls = 1, or_forms = 0,
     or_qualified_leads = 1, or_appointments = 0, or_won_jobs = 0, or_reported_revenue = 0,
     or_indexed_at = None, or_provider_suitability_score = None, or_addressable_market_score = None,
     or_metadata = []\<rparr>"

definition sample_outcome_ops :: "outcome_op list" where
  "sample_outcome_ops = [RecordDecision sample_decision_input, Ingest (sample_outcome_record ''s1'') 900]"

definition sample_decided_db :: database where
  "sample_decided_db = snd (projr (record_decision sample_outcome_db sample_decision_input))"

definition sample_selected_db :: database where
  "sample_selected_db = snd (projr (ingest sample_decided_db (sample_outcome_record ''s1'') 900))"

lemma sample_outcome_ok: "outcomes_ok sample_outcome_db"
  by (simp add: outcomes_ok_def sample_outcome_db_def empty_db_def keys_distinct_def)

lemma sample_selected_run:
  "sample_selected_db = run_requests outcome_step sample_outcome_db sample_outcome_ops"
proof -
  let ?r = "record_decision sample_outcome_db sample_decision_input"
  let ?i = "ingest sample_decided_db (sample_outcome_record ''s1'') 900"
  have valid: "valid_decision_input sample_decision_input"
    "valid_outcome_record (sample_outcome_record ''s1'')" by code_simp+
  have "\<not> isl ?r" "\<not> isl ?i" by code_simp+
  then obtain r i d where "?r = Inr (r, sample_decided_db)" "?i = Inr (i, sample_selected_db)"
    unfolding sample_decided_db_def sample_selected_db_def
    by (metis not_isl_Inr_pair snd_conv sum.sel(2))
  with valid show ?thesis
    by (simp add: sample_outcome_ops_def outcome_step_def guarded_def map_result_def Let_def raise_if_def)
qed

theorem outcomes_trace_to_evidence_witness:
  "\<exists>r. property_outcomes sample_selected_db = [r] \<and> truthful r \<and>
     (\<exists>decision \<in> set (property_decisions sample_selected_db).
        dn_id decision = oc_property_decision_id r \<and> date_of (dn_selected_at decision) \<le> oc_period_date r)"
proof -
  have "length (property_outcomes sample_selected_db) = 1" by code_simp
  then obtain r where r: "property_outcomes sample_selected_db = [r]"
    by (cases "property_outcomes sample_selected_db") auto
  then have "r \<in> set (property_outcomes sample_selected_db)" by simp
  from outcomes_trace_to_evidence [OF sample_outcome_ok sample_selected_run this] r
  show ?thesis by blast
qed

theorem decision_immutable_witness:
  "\<exists>r. decision_of (run_requests outcome_step sample_selected_db
       [DeleteImportedSource ''P1'' ''console'' \<lparr>ax_actor_id = ''a'', ax_role = LA_privacy_admin,
         ax_provider_assignment_ids = []\<rparr>]) ''P1'' = Some r \<and> dn_full_score_id r = 5"
proof -
  have "(case decision_of sample_selected_db ''P1'' of None \<Rightarrow> False | Some r \<Rightarrow> dn_full_score_id r = 5)"
    by code_simp
  then obtain r where r: "decision_of sample_selected_db ''P1'' = Some r" "dn_full_score_id r = 5"
    by (auto split: option.splits)
  with decision_immutable(1) [OF r(1)] show ?thesis by blast
qed

theorem import_export_roundtrip_witness:
  "\<exists>dec after d'. export_property d' ''P1'' \<lparr>ax_actor_id = ''a'', ax_role = LA_operator,
       ax_provider_assignment_ids = []\<rparr> = Inr [dec, (''outcomes'', JList after)] \<and>
     mset after = add_mset (record_payload (sample_outcome_record ''s2''))
       {#record_payload (sample_outcome_record ''s1'')#}"
proof -
  let ?x = "sample_outcome_record ''s2''"
  let ?a = "\<lparr>ax_actor_id = ''a'', ax_role = LA_operator, ax_provider_assignment_ids = []\<rparr>"
  let ?i = "ingest sample_selected_db ?x 950"
  have run: "\<not> isl ?i" "length (property_outcomes (snd (projr ?i))) = 2"
      "length (property_outcomes sample_selected_db) = 1" by code_simp+
  then obtain row d' where i: "?i = Inr (row, d')" using not_isl_Inr_pair by blast
  with run(2,3) have other: "d' \<noteq> sample_selected_db" by auto
  have p: "or_property_id ?x = ''P1''" by (simp add: sample_outcome_record_def)
  have e: "export_property sample_selected_db (or_property_id ?x) ?a =
      Inr [hd (projr (export_property sample_selected_db (or_property_id ?x) ?a)),
        (''outcomes'', JList [record_payload (sample_outcome_record ''s1'')])]" by code_simp
  from import_export_roundtrip [OF e i other] show ?thesis unfolding p mset.simps by blast
qed

end
