(* ===== verification/Discovery_Text.thy ===== *)
theory Discovery_Text
  imports Prelude "HOL-Library.While_Combinator"
begin

text \<open>
  The text helpers of the discovery pipeline: \<open>slugify\<close> of \<open>domain/models.py\<close> with its
  replacement loop, the token functions built on it, the parts of \<open>urllib.parse.urlparse\<close> the
  sources read, and the normalised domains and queries. Characters are those of Latin-1.
\<close>

section \<open>Slugs\<close>

definition is_alnum :: "char \<Rightarrow> bool" where
  "is_alnum c =
     (let n = (of_char c :: nat)
      in (48 \<le> n \<and> n \<le> 57) \<or> (65 \<le> n \<and> n \<le> 90) \<or> (97 \<le> n \<and> n \<le> 122) \<or>
         n \<in> set [170, 178, 179, 181, 185, 186, 188, 189, 190] \<or>
         (192 \<le> n \<and> n \<noteq> 215 \<and> n \<noteq> 247))"

definition dash :: char where
  "dash = CHR ''-''"

definition slug_char :: "char \<Rightarrow> char" where
  "slug_char c = (if is_alnum c then char_lower c else dash)"

text \<open>\<open>"--" in slug\<close> and \<open>slug.replace("--", "-")\<close>.\<close>

fun has_double :: "string \<Rightarrow> bool" where
  "has_double (a # b # s) \<longleftrightarrow> (a = dash \<and> b = dash) \<or> has_double (b # s)"
| "has_double s \<longleftrightarrow> False"

fun replace_double :: "string \<Rightarrow> string" where
  "replace_double (a # b # s) =
     (if a = dash \<and> b = dash then dash # replace_double s else a # replace_double (b # s))"
| "replace_double s = s"

lemma length_replace_double: "length (replace_double s) \<le> length s"
  by (induction s rule: replace_double.induct) auto

lemma length_replace_double_less: "has_double s \<Longrightarrow> length (replace_double s) < length s"
proof (induction s rule: replace_double.induct)
  case (1 a b s)
  then show ?case using length_replace_double [of s] by (cases "a = dash \<and> b = dash") auto
qed auto

text \<open>The loop \<open>while "--" in slug\<close>.\<close>

function collapse :: "string \<Rightarrow> string" where
  "collapse s = (if has_double s then collapse (replace_double s) else s)"
  by auto
termination
  by (relation "measure length") (auto intro: length_replace_double_less)

declare collapse.simps [simp del]

definition strip_dashes :: "string \<Rightarrow> string" where
  "strip_dashes s = rev (dropWhile (\<lambda>c. c = dash) (rev (dropWhile (\<lambda>c. c = dash) s)))"

definition slugify :: "string \<Rightarrow> string" where
  "slugify value = strip_dashes (collapse (map slug_char (py_strip value)))"

text \<open>\<open>slugify(value).replace("-", " ").split()\<close>.\<close>

definition dash_to_space :: "string \<Rightarrow> string" where
  "dash_to_space s = map (\<lambda>c. if c = dash then CHR '' '' else c) s"

definition slug_tokens :: "string \<Rightarrow> string list" where
  "slug_tokens value = split_words (dash_to_space (slugify value))"

definition normalized_phrase :: "string \<Rightarrow> string" where
  "normalized_phrase value = dash_to_space (slugify value)"

definition normalize_keyword :: "string \<Rightarrow> string" where
  "normalize_keyword value = join_words (slug_tokens value)"

section \<open>Strings\<close>

definition in_text :: "string \<Rightarrow> string \<Rightarrow> bool" where
  "in_text needle s \<longleftrightarrow> list_ex (\<lambda>n. take (length needle) (drop n s) = needle) [0..<Suc (length s)]"

definition starts_with :: "string \<Rightarrow> string \<Rightarrow> bool" where
  "starts_with p s \<longleftrightarrow> take (length p) s = p"

definition ends_with :: "string \<Rightarrow> string \<Rightarrow> bool" where
  "ends_with p s \<longleftrightarrow> starts_with (rev p) (rev s)"

definition remove_prefix :: "string \<Rightarrow> string \<Rightarrow> string" where
  "remove_prefix p s = (if starts_with p s then drop (length p) s else s)"

text \<open>\<open>domain.lower().removeprefix("www.").strip()\<close>.\<close>

definition normalize_domain :: "string \<Rightarrow> string" where
  "normalize_domain domain = py_strip (remove_prefix ''www.'' (py_lower domain))"

text \<open>
  \<open>" ".join(value.casefold().split())\<close>; in Latin-1 case folding differs from lower case in
  the sharp s and the micro sign only.
\<close>

definition casefold :: "string \<Rightarrow> string" where
  "casefold s = concat (map (\<lambda>c. if of_char c = (223 :: nat) then ''ss'' else [char_lower c]) s)"

definition normalize_query :: "string \<Rightarrow> string" where
  "normalize_query value = join_words (split_words (casefold value))"

section \<open>URLs\<close>

text \<open>
  \<open>urlparse(url)\<close>: leading control characters and blanks are dropped, tabs and line ends
  removed; a scheme is a letter and letters, digits, \<open>+\<close>, \<open>-\<close>, \<open>.\<close> before the first colon;
  \<open>netloc\<close> is what follows \<open>//\<close> up to \<open>/\<close>, \<open>?\<close> or \<open>#\<close>; \<open>path\<close> is the rest up to \<open>#\<close> and
  \<open>?\<close>, less the parameters after a semicolon of its last segment for the schemes that have
  them. The \<open>ValueError\<close> of an unbalanced bracket in \<open>netloc\<close> is outside the model.
\<close>

definition ascii_letter :: "char \<Rightarrow> bool" where
  "ascii_letter c = (let n = (of_char c :: nat) in (65 \<le> n \<and> n \<le> 90) \<or> (97 \<le> n \<and> n \<le> 122))"

definition scheme_char :: "char \<Rightarrow> bool" where
  "scheme_char c \<longleftrightarrow> ascii_letter c \<or> (let n = (of_char c :: nat) in 48 \<le> n \<and> n \<le> 57) \<or> c \<in> set ''+-.''"

definition clean_url :: "string \<Rightarrow> string" where
  "clean_url url =
     filter (\<lambda>c. of_char c \<notin> set [9 :: nat, 10, 13]) (dropWhile (\<lambda>c. of_char c \<le> (32 :: nat)) url)"

definition url_scheme :: "string \<Rightarrow> string" where
  "url_scheme url =
     (let scheme = takeWhile (\<lambda>c. c \<noteq> CHR '':'') url
      in if length scheme < length url \<and> scheme \<noteq> [] \<and> ascii_letter (hd scheme) \<and>
            list_all scheme_char scheme
         then scheme else [])"

definition after_scheme :: "string \<Rightarrow> string" where
  "after_scheme url = (if url_scheme url = [] then url else drop (Suc (length (url_scheme url))) url)"

definition url_netloc :: "string \<Rightarrow> string" where
  "url_netloc url =
     (let rest = after_scheme (clean_url url)
      in if starts_with ''//'' rest then takeWhile (\<lambda>c. c \<notin> set ''/?#'') (drop 2 rest) else [])"

definition uses_params :: "string list" where
  "uses_params = [[], ''ftp'', ''hdl'', ''prospero'', ''http'', ''https'', ''shttp'', ''rtsp'', ''rtsps'',
     ''sip'', ''sips'', ''mms'', ''sftp'', ''tel'']"

definition split_params :: "string \<Rightarrow> string" where
  "split_params path =
     (let tail = rev (takeWhile (\<lambda>c. c \<noteq> CHR ''/'') (rev path))
      in take (length path - length tail) path @ takeWhile (\<lambda>c. c \<noteq> CHR '';'') tail)"

definition url_path :: "string \<Rightarrow> string" where
  "url_path url =
     (let rest = after_scheme (clean_url url);
          tail = (if starts_with ''//'' rest then dropWhile (\<lambda>c. c \<notin> set ''/?#'') (drop 2 rest) else rest);
          path = takeWhile (\<lambda>c. c \<notin> set ''?#'') tail
      in if py_lower (url_scheme (clean_url url)) \<in> set uses_params then split_params path else path)"

section \<open>What a slug is\<close>

text \<open>The maximal runs of characters other than dashes.\<close>

fun dash_pieces :: "string \<Rightarrow> string list" where
  "dash_pieces [] = []"
| "dash_pieces (c # s) =
     (if c = dash then dash_pieces s
      else case s of
        [] \<Rightarrow> [[c]]
      | b # t \<Rightarrow> if b = dash then [c] # dash_pieces s
          else (case dash_pieces s of [] \<Rightarrow> [[c]] | w # ws \<Rightarrow> (c # w) # ws))"

fun join_dash :: "string list \<Rightarrow> string" where
  "join_dash [] = []"
| "join_dash [w] = w"
| "join_dash (w # ws) = w @ dash # join_dash ws"

lemma dash_pieces_cong:
  assumes "dash_pieces s = dash_pieces t" "s \<noteq> []" "t \<noteq> []" "(hd s = dash) = (hd t = dash)"
  shows "dash_pieces (c # s) = dash_pieces (c # t)"
  using assms by (cases s; cases t) auto

lemma replace_double_Cons: "\<exists>t. replace_double (b # s) = b # t"
  by (cases s) auto

lemma dash_pieces_replace: "dash_pieces (replace_double s) = dash_pieces s"
proof (induction s rule: replace_double.induct)
  case (1 a b s)
  show ?case
  proof (cases "a = dash \<and> b = dash")
    case True
    then show ?thesis using 1 by simp
  next
    case False
    from replace_double_Cons obtain t where t: "replace_double (b # s) = b # t" by blast
    have step: "replace_double (a # b # s) = a # b # t" using False t by auto
    have "dash_pieces (b # t) = dash_pieces (b # s)" using 1(2) [OF False] by (simp only: t)
    then show ?thesis unfolding step by (rule dash_pieces_cong) simp_all
  qed
qed auto

lemma dash_pieces_collapse: "dash_pieces (collapse s) = dash_pieces s"
  by (induction s rule: collapse.induct) (subst collapse.simps, simp add: dash_pieces_replace)

lemma not_double_collapse: "\<not> has_double (collapse s)"
  by (induction s rule: collapse.induct) (subst collapse.simps, simp)

lemma dash_pieces_drop: "dash_pieces (dropWhile (\<lambda>c. c = dash) s) = dash_pieces s"
  by (induction s) auto

lemma dash_pieces_Cons: "c \<noteq> dash \<Longrightarrow> dash_pieces (c # s) =
    (case s of [] \<Rightarrow> [[c]] | b # t \<Rightarrow> if b = dash then [c] # dash_pieces s
       else (case dash_pieces s of [] \<Rightarrow> [[c]] | w # ws \<Rightarrow> (c # w) # ws))"
  by simp

lemma dash_pieces_snoc_dash: "dash_pieces (s @ [dash]) = dash_pieces s"
  by (induction s) (auto split: list.splits)

lemma dash_pieces_rstrip:
  "dash_pieces (rev (dropWhile (\<lambda>c. c = dash) s)) = dash_pieces (rev s)"
  by (induction s) (auto simp: dash_pieces_snoc_dash)

lemma dash_pieces_strip: "dash_pieces (strip_dashes s) = dash_pieces s"
  by (simp add: strip_dashes_def dash_pieces_rstrip dash_pieces_drop)

lemma slugify_pieces: "dash_pieces (slugify value) = dash_pieces (map slug_char (py_strip value))"
  by (simp add: slugify_def dash_pieces_strip dash_pieces_collapse)

text \<open>A string without doubled, leading and trailing dashes is the join of its pieces.\<close>

lemma has_double_iff: "has_double s \<longleftrightarrow> (\<exists>u v. s = u @ dash # dash # v)"
proof (induction s rule: has_double.induct)
  case (1 a b s)
  show ?case
  proof
    assume "has_double (a # b # s)"
    then consider "a = dash" "b = dash" | "has_double (b # s)" by auto
    then show "\<exists>u v. a # b # s = u @ dash # dash # v"
    proof cases
      case 1
      then show ?thesis by (intro exI [of _ "[]"] exI [of _ s]) simp
    next
      case 2
      with "1.IH" obtain u v where "b # s = u @ dash # dash # v" by blast
      then show ?thesis by (intro exI [of _ "a # u"] exI [of _ v]) simp
    qed
  next
    assume "\<exists>u v. a # b # s = u @ dash # dash # v"
    then obtain u v where uv: "a # b # s = u @ dash # dash # v" by blast
    show "has_double (a # b # s)"
    proof (cases u)
      case Nil
      with uv show ?thesis by simp
    next
      case (Cons x u')
      with uv have "b # s = u' @ dash # dash # v" by simp
      with "1.IH" have "has_double (b # s)" by blast
      then show ?thesis by simp
    qed
  qed
qed (auto simp: append_eq_Cons_conv Cons_eq_append_conv)

lemma has_double_strip: "has_double (strip_dashes s) \<Longrightarrow> has_double s"
proof -
  define t where "t = dropWhile (\<lambda>c. c = dash) s"
  have "s = takeWhile (\<lambda>c. c = dash) s @ t" by (simp add: t_def)
  moreover have "t = rev (dropWhile (\<lambda>c. c = dash) (rev t)) @ rev (takeWhile (\<lambda>c. c = dash) (rev t))"
    by (metis rev_append rev_rev_ident takeWhile_dropWhile_id)
  ultimately obtain p q where "s = p @ strip_dashes s @ q"
    unfolding strip_dashes_def t_def by metis
  then show "has_double (strip_dashes s) \<Longrightarrow> has_double s"
    unfolding has_double_iff by (metis append.assoc append_Cons)
qed

lemma strip_dashes_ends:
  assumes "strip_dashes s \<noteq> []"
  shows "hd (strip_dashes s) \<noteq> dash" "last (strip_dashes s) \<noteq> dash"
proof -
  define t where "t = dropWhile (\<lambda>c. c = dash) s"
  let ?r = "dropWhile (\<lambda>c. c = dash) (rev t)"
  have r: "strip_dashes s = rev ?r" by (simp add: strip_dashes_def t_def)
  with assms have ne: "?r \<noteq> []" by auto
  from hd_dropWhile [OF this] show "last (strip_dashes s) \<noteq> dash" unfolding r last_rev .
  have "t = rev ?r @ rev (takeWhile (\<lambda>c. c = dash) (rev t))"
    by (metis rev_append rev_rev_ident takeWhile_dropWhile_id)
  then have "hd t = hd (rev ?r)" "t \<noteq> []" using ne by (metis hd_append2 rev_is_Nil_conv, auto)
  moreover from \<open>t \<noteq> []\<close> have "hd t \<noteq> dash" unfolding t_def by (rule hd_dropWhile)
  ultimately show "hd (strip_dashes s) \<noteq> dash" by (simp add: r)
qed

lemma join_dash_Cons: "ws \<noteq> [] \<Longrightarrow> join_dash (w # ws) = w @ dash # join_dash ws"
  by (cases ws) auto

lemma dash_pieces_Nil: "dash_pieces s = [] \<longleftrightarrow> (\<forall>c \<in> set s. c = dash)"
  by (induction s) (auto split: list.splits if_splits)

lemma join_dash_pieces:
  "\<not> has_double s \<Longrightarrow> s \<noteq> [] \<Longrightarrow> hd s \<noteq> dash \<Longrightarrow> last s \<noteq> dash \<Longrightarrow> join_dash (dash_pieces s) = s"
proof (induction s rule: length_induct)
  case (1 s)
  then obtain c t where s: "s = c # t" "c \<noteq> dash" by (cases s) auto
  show ?case
  proof (cases t)
    case Nil
    with s show ?thesis by simp
  next
    case (Cons b u)
    show ?thesis
    proof (cases "b = dash")
      case True
      with 1 s Cons have u: "u \<noteq> []" "hd u \<noteq> dash" "\<not> has_double u" "last u \<noteq> dash"
        by (auto split: if_splits) (cases u; auto)+
      with 1 s Cons have "join_dash (dash_pieces u) = u" by simp
      moreover have "dash_pieces u \<noteq> []" unfolding dash_pieces_Nil using u(1,2) hd_in_set by blast
      ultimately show ?thesis using s Cons True by (simp add: join_dash_Cons)
    next
      case False
      have "\<not> has_double t" "t \<noteq> []" "hd t \<noteq> dash" "last t \<noteq> dash" "length t < length s"
        using 1 s Cons False by (auto split: if_splits)
      with 1(1) have "join_dash (dash_pieces t) = t" by blast
      moreover have "dash_pieces t \<noteq> []" unfolding dash_pieces_Nil using Cons False by simp
      ultimately show ?thesis using s Cons False
        by (cases "dash_pieces t"; cases "tl (dash_pieces t)") (auto simp: join_dash_Cons)
    qed
  qed
qed

lemma starts_with_single: "starts_with [c] s \<longleftrightarrow> s \<noteq> [] \<and> hd s = c"
  by (cases s) (auto simp: starts_with_def)

lemma ends_with_single: "ends_with [c] s \<longleftrightarrow> s \<noteq> [] \<and> last s = c"
  by (cases s rule: rev_cases) (auto simp: ends_with_def starts_with_single)

lemma slugify_join: "slugify v = join_dash (dash_pieces (map slug_char (py_strip v)))"
proof (cases "slugify v = []")
  case True
  then have "dash_pieces (map slug_char (py_strip v)) = []"
    using slugify_pieces [of v] by simp
  with True show ?thesis by simp
next
  case False
  have "\<not> has_double (slugify v)"
    using has_double_strip not_double_collapse unfolding slugify_def by blast
  moreover have "hd (slugify v) \<noteq> dash" "last (slugify v) \<noteq> dash"
    using False strip_dashes_ends unfolding slugify_def by blast+
  ultimately have "join_dash (dash_pieces (slugify v)) = slugify v"
    using False by (intro join_dash_pieces)
  then show ?thesis by (simp only: slugify_pieces)
qed

text \<open>The loop that the sources write, as the library's while combinator.\<close>

lemma collapse_while: "while_option has_double replace_double s = Some (collapse s)"
proof (induction s rule: collapse.induct)
  case (1 s)
  show ?case
  proof (cases "has_double s")
    case True
    then show ?thesis using 1 by (subst while_option_unfold, subst collapse.simps) simp
  next
    case False
    then show ?thesis by (subst while_option_unfold, subst collapse.simps) simp
  qed
qed

text \<open>
  C39: The loop of \<open>slugify\<close> that replaces doubled dashes ends on every string, and the slug
  is then the lower-case runs of letters and digits of the value joined by single dashes: it
  has no doubled, leading or trailing dash.
\<close>

theorem slugify_terminates:
  "\<exists>t. while_option has_double replace_double (map slug_char (py_strip v)) = Some t \<and>
     slugify v = strip_dashes t \<and>
     slugify v = join_dash (dash_pieces (map slug_char (py_strip v))) \<and>
     \<not> has_double (slugify v) \<and> \<not> starts_with [dash] (slugify v) \<and>
     \<not> ends_with [dash] (slugify v)"
proof -
  have "\<not> has_double (slugify v)"
    using has_double_strip not_double_collapse unfolding slugify_def by blast
  moreover have "\<not> starts_with [dash] (slugify v) \<and> \<not> ends_with [dash] (slugify v)"
  proof (cases "slugify v = []")
    case True
    then show ?thesis by (simp add: starts_with_def ends_with_def)
  next
    case False
    then have "hd (slugify v) \<noteq> dash" "last (slugify v) \<noteq> dash"
      using strip_dashes_ends unfolding slugify_def by blast+
    then show ?thesis using False by (simp add: starts_with_single ends_with_single)
  qed
  ultimately show ?thesis using collapse_while slugify_join slugify_def by metis
qed

end
