(* ===== verification/Discovery_Models.thy ===== *)
theory Discovery_Models
  imports Discovery_Text "HOL-Library.List_Lexorder" "HOL-Library.Char_ord"
begin

text \<open>
  The value objects of \<open>domain/models.py\<close> that the discovery pipeline passes between its
  stages. Fields that only carry text for display are left out where a record says so.
\<close>

datatype confidence = CF_insufficient | CF_low | CF_medium | CF_high

text \<open>\<open>CONFIDENCE_RANK\<close> of the scorer.\<close>

fun confidence_rank :: "confidence \<Rightarrow> nat" where
  "confidence_rank CF_insufficient = 0"
| "confidence_rank CF_low = 1"
| "confidence_rank CF_medium = 2"
| "confidence_rank CF_high = 3"

instantiation confidence :: linorder
begin

definition less_eq_confidence :: "confidence \<Rightarrow> confidence \<Rightarrow> bool" where
  "less_eq_confidence a b \<longleftrightarrow> confidence_rank a \<le> confidence_rank b"

definition less_confidence :: "confidence \<Rightarrow> confidence \<Rightarrow> bool" where
  "less_confidence a b \<longleftrightarrow> confidence_rank a < confidence_rank b"

instance
proof
  fix a b :: confidence
  show "a \<le> b \<Longrightarrow> b \<le> a \<Longrightarrow> a = b"
    by (cases a; cases b) (simp_all add: less_eq_confidence_def)
qed (auto simp: less_eq_confidence_def less_confidence_def)

end

lemma confidence_order [simp]:
  "CF_insufficient \<le> c" "c \<le> CF_high"
  "CF_low \<le> CF_insufficient \<longleftrightarrow> False" "CF_medium \<le> CF_low \<longleftrightarrow> False"
  "CF_high \<le> CF_medium \<longleftrightarrow> False" "CF_low \<le> CF_medium" "CF_medium \<le> CF_insufficient \<longleftrightarrow> False"
  "CF_high \<le> CF_insufficient \<longleftrightarrow> False" "CF_high \<le> CF_low \<longleftrightarrow> False"
  by (cases c; simp add: less_eq_confidence_def)+

record service_spec =
  sv_display_name :: string
  sv_description :: string
  sv_seed_queries :: "string list"
  sv_negative_terms :: "string list"
  sv_intent_modifiers :: "string list"
  sv_negative_product_terms :: "string list"
  sv_provider_categories :: "string list"

record market_spec =
  mt_display_name :: string
  mt_country_code :: string
  mt_state :: "string option"
  mt_cities :: "string list"
  mt_postal_codes :: "string list"
  mt_latitude :: "rat option"
  mt_longitude :: "rat option"
  mt_population :: "int option"
  mt_reference_population :: "int option"
  mt_resolution_metadata :: jobj

record keyword_metric =
  kw_keyword :: string
  kw_canonical_keyword :: string
  kw_intent :: string
  kw_search_volume :: "int option"
  kw_cpc :: "rat option"
  kw_paid_competition :: "rat option"
  kw_monthly_history :: "int list"
  kw_source :: string
  kw_source_timestamp :: instant
  kw_market_granularity :: string
  kw_included :: bool
  kw_excluded_reason :: "string option"

record serp_entry =
  sx_order :: int
  sx_result_type :: string
  sx_url :: string
  sx_domain :: string
  sx_title :: string
  sx_description :: string
  sx_classification :: string
  sx_is_local_provider :: bool
  sx_is_directory :: bool
  sx_is_national_brand :: bool
  sx_is_lead_generation_site :: bool
  sx_classification_confidence :: "rat option"
  sx_classifier_version :: string
  sx_matched_rules :: "string list"
  sx_manual_override :: "string option"

record serp_page =
  sn_query :: string
  sn_captured_at :: instant
  sn_features_present :: "string list"
  sn_results :: "serp_entry list"

record serp_observation =
  ob_query :: string
  ob_position :: int
  ob_url :: string
  ob_observed_at :: instant

record competitor =
  cx_url :: string
  cx_domain :: string
  cx_referring_domains :: "int option"
  cx_backlinks :: "int option"
  cx_authority :: "rat option"
  cx_domain_referring_domains :: "int option"
  cx_domain_backlinks :: "int option"
  cx_domain_authority :: "rat option"
  cx_page_relevance_score :: "rat option"
  cx_local_relevance :: "rat option"
  cx_page_type :: string
  cx_relevance_signals :: jobj
  cx_representative_query :: "string option"
  cx_serp_position :: "int option"
  cx_serp_observations :: "serp_observation list"

text \<open>A signal of \<open>suitability_signals\<close>: its numbers and its method.\<close>

record suitability_signal =
  sl_normalized :: rat
  sl_method :: string
  sl_weight :: rat
  sl_weighted_score :: rat

record provider_listing =
  px_name :: string
  px_website :: "string option"
  px_phone :: "string option"
  px_email :: "string option"
  px_contact_form_url :: "string option"
  px_address :: "string option"
  px_service_area :: "string option"
  px_category :: "string option"
  px_categories :: "string list"
  px_latitude :: "rat option"
  px_longitude :: "rat option"
  px_rating :: "rat option"
  px_review_count :: "int option"
  px_business_status :: string
  px_contact_confidence :: "rat option"
  px_suitability_score :: "rat option"
  px_suitability_reasons :: "string list"
  px_suitability_signals :: "(string \<times> suitability_signal) list"

text \<open>\<open>CompetitorMetric.preserve_aggregate_compatibility\<close>: the totals and the domain-level fields fill each other.\<close>

definition or_else :: "'a option \<Rightarrow> 'a option \<Rightarrow> 'a option" where
  "or_else a b = (case a of None \<Rightarrow> b | Some x \<Rightarrow> Some x)"

definition preserve_aggregate_compatibility :: "competitor \<Rightarrow> competitor" where
  "preserve_aggregate_compatibility c =
     (let c1 = c\<lparr>cx_domain_referring_domains := or_else (cx_domain_referring_domains c) (cx_referring_domains c),
          cx_domain_backlinks := or_else (cx_domain_backlinks c) (cx_backlinks c),
          cx_domain_authority := or_else (cx_domain_authority c) (cx_authority c)\<rparr>
      in c1\<lparr>cx_referring_domains := or_else (cx_referring_domains c1) (cx_domain_referring_domains c1),
          cx_backlinks := or_else (cx_backlinks c1) (cx_domain_backlinks c1),
          cx_authority := or_else (cx_authority c1) (cx_domain_authority c1)\<rparr>)"

section \<open>Arithmetic shared by the scoring services\<close>

definition clamp :: "rat \<Rightarrow> rat \<Rightarrow> rat \<Rightarrow> rat" where
  "clamp lo hi x = max lo (min hi x)"

definition or_zero :: "rat option \<Rightarrow> rat" where
  "or_zero v = (case v of None \<Rightarrow> 0 | Some q \<Rightarrow> q)"

definition rat_of :: "int option \<Rightarrow> rat" where
  "rat_of v = (case v of None \<Rightarrow> 0 | Some n \<Rightarrow> of_int n)"

definition max_default :: "rat \<Rightarrow> rat list \<Rightarrow> rat" where
  "max_default d xs = (case xs of [] \<Rightarrow> d | x # ys \<Rightarrow> fold max ys x)"

text \<open>\<open>statistics.mean\<close>, and \<open>statistics.median\<close> of a list that is not empty.\<close>

definition py_mean :: "rat list \<Rightarrow> rat" where
  "py_mean xs = sum_list xs / of_nat (length xs)"

definition py_median :: "rat list \<Rightarrow> rat" where
  "py_median xs =
     (let s = sort xs; n = length s
      in if odd n then s ! (n div 2) else (s ! (n div 2 - 1) + s ! (n div 2)) / 2)"

text \<open>\<open>len(part) / max(1, len(whole))\<close>.\<close>

definition share :: "nat \<Rightarrow> nat \<Rightarrow> rat" where
  "share part whole = of_nat part / of_nat (max 1 whole)"

lemma share_nonneg [simp]: "0 \<le> share part whole"
  by (simp add: share_def)

lemma share_le_1: "part \<le> whole \<Longrightarrow> share part whole \<le> 1"
  by (simp add: share_def divide_le_eq le_max_iff_disj)

lemma clamp_bounds: "lo \<le> hi \<Longrightarrow> lo \<le> clamp lo hi x \<and> clamp lo hi x \<le> hi"
  by (simp add: clamp_def)

lemma py_round_mono: "x \<le> y \<Longrightarrow> py_round n x \<le> py_round n y"
  by (simp add: py_round_def divide_right_mono round_half_even_mono mult_right_mono)

lemma py_round_int [simp]: "py_round n (of_int k) = of_int k"
proof -
  have "of_int k * 10 ^ n = (of_int (k * 10 ^ n) :: rat)" by simp
  then have "round_half_even (of_int k * 10 ^ n) = k * 10 ^ n" using round_half_even_of_int by metis
  then show ?thesis by (simp add: py_round_def)
qed

lemma py_round_numeral [simp]:
  "py_round n 0 = 0" "py_round n 1 = 1" "py_round n (numeral w) = numeral w"
  using py_round_int [of n 0] py_round_int [of n 1] py_round_int [of n "numeral w"] by simp_all

lemma py_round_between: "of_int a \<le> x \<Longrightarrow> x \<le> of_int b \<Longrightarrow> of_int a \<le> py_round n x \<and> py_round n x \<le> of_int b"
  using py_round_mono [of "of_int a" x n] py_round_mono [of x "of_int b" n] by simp

lemma py_round_0_1: "0 \<le> x \<Longrightarrow> x \<le> 1 \<Longrightarrow> 0 \<le> py_round n x \<and> py_round n x \<le> 1"
  using py_round_between [of 0 x 1 n] by simp

lemma py_round_idem: "py_round n (py_round n x) = py_round n x"
  by (simp add: py_round_def)

lemma round_half_even_error: "\<bar>of_int (round_half_even x) - x\<bar> \<le> 1 / 2"
proof -
  have "of_int (floor x) \<le> x" "x < of_int (floor x) + 1" by linarith+
  then show ?thesis by (auto simp: round_half_even_def Let_def abs_le_iff)
qed

lemma py_round_error: "\<bar>py_round n x - x\<bar> \<le> 1 / (2 * 10 ^ n)"
proof -
  have "py_round n x - x = (of_int (round_half_even (x * 10 ^ n)) - x * 10 ^ n) / 10 ^ n"
    by (simp add: py_round_def diff_divide_distrib)
  then have "\<bar>py_round n x - x\<bar> = \<bar>of_int (round_half_even (x * 10 ^ n)) - x * 10 ^ n\<bar> / 10 ^ n"
    by (simp add: abs_divide)
  also have "\<dots> \<le> (1 / 2) / 10 ^ n"
    by (rule divide_right_mono [OF round_half_even_error]) simp
  finally show ?thesis by simp
qed

end
