(* ===== verification/Demand.thy ===== *)
theory Demand
  imports Discovery_Models "HOL-Library.Multiset" "HOL-Library.Option_ord"
begin

text \<open>
  \<open>services/demand.py\<close> and \<open>services/demand_estimation.py\<close>: national and provider-reported
  local search demand of a set of keyword metrics, and the population-share estimate of the
  demand of a market. The display texts of factors and limitations and the echoed keyword list
  are left out.
\<close>

section \<open>Estimation\<close>

record estimation_inputs =
  ei_national_service_demand :: rat
  ei_market_population :: "rat option"
  ei_reference_population :: "rat option"

text \<open>\<open>_positive_number\<close>: the first value that is a positive number and no bool.\<close>

fun positive_number :: "json option list \<Rightarrow> rat option" where
  "positive_number [] = None"
| "positive_number (v # vs) =
     (case v of Some (JNum q) \<Rightarrow> if 0 < q then Some q else positive_number vs
      | _ \<Rightarrow> positive_number vs)"

definition json_int :: "int option \<Rightarrow> json option" where
  "json_int n = map_option (\<lambda>k. JNum (of_int k)) n"

definition from_market :: "rat \<Rightarrow> market_spec \<Rightarrow> estimation_inputs" where
  "from_market national m =
     \<lparr>ei_national_service_demand = national,
       ei_market_population = positive_number
         [json_int (mt_population m), jget (mt_resolution_metadata m) ''population''],
       ei_reference_population = positive_number
         [json_int (mt_reference_population m),
          jget (mt_resolution_metadata m) ''country_population'',
          jget (mt_resolution_metadata m) ''reference_population'',
          jget (mt_resolution_metadata m) ''national_population'']\<rparr>"

record estimation_factor =
  ef_name :: string
  ef_value :: "rat option"
  ef_unit :: string
  ef_used :: bool
  ef_source :: string

record demand_estimate =
  es_value :: "rat option"
  es_method :: string
  es_formula_version :: "string option"
  es_confidence :: string
  es_factors :: "estimation_factor list"

definition nonzero :: "rat \<Rightarrow> rat option" where
  "nonzero q = (if q = 0 then None else Some q)"

definition required_factors :: "estimation_inputs \<Rightarrow> estimation_factor list" where
  "required_factors i =
     [\<lparr>ef_name = ''national_service_demand'', ef_value = nonzero (ei_national_service_demand i),
        ef_unit = ''monthly_searches'', ef_used = (0 < ei_national_service_demand i),
        ef_source = ''keyword_metrics''\<rparr>,
      \<lparr>ef_name = ''market_population'', ef_value = ei_market_population i, ef_unit = ''people'',
        ef_used = (ei_market_population i \<noteq> None), ef_source = ''offline_us_geography''\<rparr>,
      \<lparr>ef_name = ''reference_population'', ef_value = ei_reference_population i, ef_unit = ''people'',
        ef_used = (ei_reference_population i \<noteq> None), ef_source = ''offline_us_geography''\<rparr>]"

definition estimate :: "estimation_inputs \<Rightarrow> demand_estimate" where
  "estimate i =
     (case (ei_market_population i, ei_reference_population i) of
        (Some population, Some reference) \<Rightarrow>
          if ei_national_service_demand i \<le> 0
          then \<lparr>es_value = None, es_method = ''not_estimated'', es_formula_version = None,
                 es_confidence = ''none'', es_factors = required_factors i\<rparr>
          else let population_share = population / reference
               in \<lparr>es_value = Some (py_round 2 (ei_national_service_demand i * population_share)),
                   es_method = ''population_share_from_country_volume'',
                   es_formula_version = Some ''population_share_v2'', es_confidence = ''low'',
                   es_factors = required_factors i @
                     [\<lparr>ef_name = ''population_share'', ef_value = Some (py_round 8 population_share),
                       ef_unit = ''ratio'', ef_used = True, ef_source = ''population_share_v2''\<rparr>]\<rparr>
      | _ \<Rightarrow> \<lparr>es_value = None, es_method = ''not_estimated'', es_formula_version = None,
               es_confidence = ''none'', es_factors = required_factors i\<rparr>)"

text \<open>\<open>build_market_demand_estimator\<close>: the name must be that of the only estimator.\<close>

definition build_market_demand_estimator :: "string option \<Rightarrow> (estimation_inputs \<Rightarrow> demand_estimate) option" where
  "build_market_demand_estimator name =
     (let n = (if truthy_str name then the name else ''population_share'')
      in if py_lower (py_strip n) = ''population_share'' then Some estimate else None)"

section \<open>Analysis\<close>

definition HIGH_INTENTS :: "string list" where
  "HIGH_INTENTS = [''transactional'', ''commercial'']"

definition NATIONAL_GRANULARITIES :: "string list" where
  "NATIONAL_GRANULARITIES = [''country'', ''national'']"

definition LOCAL_GRANULARITIES :: "string list" where
  "LOCAL_GRANULARITIES = [''city'', ''postal_code'', ''county'', ''metro'', ''market'', ''local'']"

definition granularity_of :: "keyword_metric \<Rightarrow> string" where
  "granularity_of m = (if kw_market_granularity m = [] then ''unknown'' else kw_market_granularity m)"

definition volume_of :: "keyword_metric \<Rightarrow> int" where
  "volume_of m = (case kw_search_volume m of None \<Rightarrow> 0 | Some v \<Rightarrow> v)"

definition add_volume :: "keyword_metric \<Rightarrow> (string \<times> int) list \<Rightarrow> (string \<times> int) list" where
  "add_volume m out =
     (let g = py_lower (granularity_of m)
      in dict_put g ((case map_of out g of None \<Rightarrow> 0 | Some v \<Rightarrow> v) + volume_of m) out)"

definition volume_by_granularity :: "keyword_metric list \<Rightarrow> (string \<times> int) list" where
  "volume_by_granularity metrics = sort_key fst (fold add_volume metrics [])"

definition volume_in :: "string list \<Rightarrow> (string \<times> int) list \<Rightarrow> int" where
  "volume_in names volumes = sum_list (map snd (filter (\<lambda>p. fst p \<in> set names) volumes))"

definition provider_local_confidence :: "string list \<Rightarrow> string" where
  "provider_local_confidence granularities =
     (let local = filter (\<lambda>g. g \<in> set LOCAL_GRANULARITIES) granularities
      in if local \<noteq> [] \<and> list_all (\<lambda>g. g \<in> set [''city'', ''postal_code'', ''local'']) local
         then ''high'' else ''medium'')"

record seasonality =
  sy_available :: bool
  sy_peak_to_average_ratio :: "rat option"
  sy_monthly_average :: "rat option"
  sy_months_observed :: "nat option"

definition month_totals :: "int list list \<Rightarrow> rat list" where
  "month_totals history =
     map (\<lambda>i. of_int (sum_list (map (\<lambda>row. row ! i) (filter (\<lambda>row. i < length row) history))))
       [0..<fold max (map length history) 0]"

definition seasonality_of :: "int list list \<Rightarrow> seasonality" where
  "seasonality_of history =
     (if history = [] then \<lparr>sy_available = False, sy_peak_to_average_ratio = None,
          sy_monthly_average = None, sy_months_observed = None\<rparr>
      else let totals = month_totals history;
               monthly_average = (if totals = [] then 0 else py_mean totals);
               peak_ratio = (if monthly_average = 0 then None
                  else Some (max_default 0 totals / monthly_average))
           in \<lparr>sy_available = True,
               sy_peak_to_average_ratio = (case peak_ratio of None \<Rightarrow> None
                 | Some q \<Rightarrow> if q = 0 then None else Some (py_round 3 q)),
               sy_monthly_average = Some (py_round 2 monthly_average),
               sy_months_observed = Some (length totals)\<rparr>)"

record demand_model =
  dm_raw_keyword_volume :: int
  dm_raw_volume_granularity :: string
  dm_raw_volume_by_granularity :: "(string \<times> int) list"
  dm_national_service_demand :: "int option"
  dm_provider_reported_local_demand :: "int option"
  dm_service_attractiveness_demand :: "int option"
  dm_service_demand_kind :: string
  dm_estimated_market_demand :: "rat option"
  dm_market_demand_kind :: string
  dm_market_estimation_method :: string
  dm_market_estimation_confidence :: string
  dm_market_estimator :: string
  dm_market_estimation_formula_version :: "string option"
  dm_market_estimation_factors :: "estimation_factor list"
  dm_high_intent_keyword_count :: nat
  dm_high_intent_share :: rat
  dm_seasonality :: seasonality
  dm_demand_source :: "string list"

definition nonzero_int :: "int \<Rightarrow> int option" where
  "nonzero_int n = (if n = 0 then None else Some n)"

definition analyze_demand :: "keyword_metric list \<Rightarrow> market_spec \<Rightarrow> demand_model" where
  "analyze_demand metrics market =
     (let included = filter kw_included metrics;
          granularities = sort (remdups (map granularity_of included));
          volumes = volume_by_granularity included;
          national_volume = volume_in NATIONAL_GRANULARITIES volumes;
          provider_local_volume = volume_in LOCAL_GRANULARITIES volumes;
          high_intent = filter (\<lambda>m. kw_intent m \<in> set HIGH_INTENTS) included;
          history = map kw_monthly_history (filter (\<lambda>m. kw_monthly_history m \<noteq> []) included);
          estimation = estimate (from_market (of_int national_volume) market);
          measured = (provider_local_volume \<noteq> 0);
          kind = (if measured then ''measured_local''
                  else if es_value estimation \<noteq> None then ''estimated_local'' else ''missing'')
      in \<lparr>dm_raw_keyword_volume = sum_list (map volume_of included),
          dm_raw_volume_granularity = (case granularities of [] \<Rightarrow> ''none'' | [g] \<Rightarrow> g | _ \<Rightarrow> ''mixed''),
          dm_raw_volume_by_granularity = volumes,
          dm_national_service_demand = nonzero_int national_volume,
          dm_provider_reported_local_demand = nonzero_int provider_local_volume,
          dm_service_attractiveness_demand = nonzero_int national_volume,
          dm_service_demand_kind =
            (if national_volume \<noteq> 0 then ''provider_reported_national'' else ''missing''),
          dm_estimated_market_demand =
            (if measured then Some (of_int provider_local_volume) else es_value estimation),
          dm_market_demand_kind = kind,
          dm_market_estimation_method =
            (if measured then ''provider_reported_local_volume'' else es_method estimation),
          dm_market_estimation_confidence =
            (if measured then provider_local_confidence granularities else es_confidence estimation),
          dm_market_estimator = ''population_share'',
          dm_market_estimation_formula_version =
            (if kind = ''estimated_local'' then es_formula_version estimation else None),
          dm_market_estimation_factors = (if measured then [] else es_factors estimation),
          dm_high_intent_keyword_count = length high_intent,
          dm_high_intent_share = py_round 3 (share (length high_intent) (length included)),
          dm_seasonality = seasonality_of history,
          dm_demand_source = sort (remdups (map kw_source included))\<rparr>)"

section \<open>Volumes\<close>

text \<open>The volume of the metrics of some granularities, without the dictionary.\<close>

definition metric_volume :: "string list \<Rightarrow> keyword_metric list \<Rightarrow> int" where
  "metric_volume names ms =
     sum_list (map volume_of (filter (\<lambda>m. py_lower (granularity_of m) \<in> set names) ms))"

lemma volume_in_dict_put:
  "distinct (map fst d) \<Longrightarrow> volume_in names (dict_put k v d) = volume_in names d +
     (if k \<in> set names then v - (case map_of d k of None \<Rightarrow> 0 | Some x \<Rightarrow> x) else 0)"
proof (induction d)
  case Nil
  then show ?case by (simp add: volume_in_def)
next
  case (Cons p d)
  then show ?case by (cases p) (auto simp: volume_in_def)
qed

lemma add_volume_step:
  assumes "distinct (map fst d)"
  shows "distinct (map fst (add_volume m d))"
    and "volume_in names (add_volume m d) = volume_in names d +
      (if py_lower (granularity_of m) \<in> set names then volume_of m else 0)"
  using assms by (simp_all add: add_volume_def Let_def map_fst_dict_put volume_in_dict_put)

lemma volume_in_fold:
  "distinct (map fst d) \<Longrightarrow>
   volume_in names (fold add_volume ms d) = volume_in names d + metric_volume names ms"
  by (induction ms arbitrary: d) (auto simp: add_volume_step metric_volume_def)

lemma volume_in_sort: "volume_in names (sort_key fst d) = volume_in names d"
proof -
  have "mset (filter (\<lambda>p. fst p \<in> set names) (sort_key fst d)) = mset (filter (\<lambda>p. fst p \<in> set names) d)"
    by (simp add: mset_filter)
  moreover have "sum_list (map snd xs) = sum_mset (image_mset snd (mset xs))" for xs :: "(string \<times> int) list"
    by (simp add: sum_mset_sum_list flip: mset_map)
  ultimately show ?thesis by (simp only: volume_in_def)
qed

lemma volume_in_by_granularity: "volume_in names (volume_by_granularity ms) = metric_volume names ms"
  using volume_in_fold [of "[]" names ms]
  by (simp add: volume_by_granularity_def volume_in_sort) (simp add: volume_in_def)

section \<open>Bounds\<close>

lemma estimate_value:
  assumes "es_value (estimate i) = Some v"
  obtains population reference where "ei_market_population i = Some population"
    "ei_reference_population i = Some reference" "0 < ei_national_service_demand i"
    "v = py_round 2 (ei_national_service_demand i * (population / reference))"
    "es_confidence (estimate i) = ''low''"
  using assms by (auto simp: estimate_def Let_def split: option.splits if_splits)

lemma positive_number_pos: "positive_number vs = Some q \<Longrightarrow> 0 < q"
  by (induction vs rule: positive_number.induct) (auto split: option.splits json.splits if_splits)

lemma estimate_bounds:
  assumes "es_value (estimate (from_market (of_int national) market)) = Some v"
  shows "0 \<le> v"
    and "ei_market_population (from_market (of_int national) market) \<le>
        ei_reference_population (from_market (of_int national) market) \<Longrightarrow> v \<le> of_int national"
proof -
  let ?i = "from_market (of_int national) market"
  obtain p q where pq: "ei_market_population ?i = Some p" "ei_reference_population ?i = Some q"
      "0 < ei_national_service_demand ?i"
      "v = py_round 2 (ei_national_service_demand ?i * (p / q))"
    using assms by (rule estimate_value)
  have "\<exists>vs. ei_market_population ?i = positive_number vs" "\<exists>vs. ei_reference_population ?i = positive_number vs"
    unfolding from_market_def estimation_inputs.simps by blast+
  then have pos: "0 < p" "0 < q" using pq(1,2) positive_number_pos by metis+
  have n: "ei_national_service_demand ?i = of_int national" by (simp add: from_market_def)
  show "0 \<le> v" using py_round_mono [of 0 "ei_national_service_demand ?i * (p / q)" 2] pos pq(3,4) by simp
  assume "ei_market_population ?i \<le> ei_reference_population ?i"
  then have "p \<le> q" using pq by simp
  then have "of_int national * (p / q) \<le> of_int national"
    using pos pq(3) n by (simp add: divide_le_eq mult_le_cancel_left)
  from py_round_mono [OF this, of 2] show "v \<le> of_int national" using pq(4) n by simp
qed

lemma metric_volume_nonneg: "list_all (\<lambda>m. 0 \<le> volume_of m) ms \<Longrightarrow> 0 \<le> metric_volume names ms"
  unfolding metric_volume_def by (rule sum_list_nonneg) (auto simp: list_all_iff)

lemma analyze_demand_market:
  assumes "local = metric_volume LOCAL_GRANULARITIES (filter kw_included metrics)"
    and "national = metric_volume NATIONAL_GRANULARITIES (filter kw_included metrics)"
  shows "dm_estimated_market_demand (analyze_demand metrics market) =
      (if local \<noteq> 0 then Some (of_int local) else es_value (estimate (from_market (of_int national) market)))"
    and "dm_market_demand_kind (analyze_demand metrics market) =
      (if local \<noteq> 0 then ''measured_local''
       else if es_value (estimate (from_market (of_int national) market)) \<noteq> None then ''estimated_local''
       else ''missing'')"
    and "dm_market_estimation_confidence (analyze_demand metrics market) =
      (if local \<noteq> 0 then provider_local_confidence (sort (remdups (map granularity_of (filter kw_included metrics))))
       else es_confidence (estimate (from_market (of_int national) market)))"
  by (simp_all add: analyze_demand_def Let_def volume_in_by_granularity assms)

text \<open>
  The demand of a market is the volume the provider measured locally whenever there is
  any, and only then may its confidence be better than low; otherwise it is the estimate from
  the national volume, which is never negative, and never exceeds the national volume when the
  population of the market does not exceed the reference population; it is missing exactly
  when neither exists.
\<close>

theorem market_demand_precedence:
  assumes "list_all (\<lambda>m. 0 \<le> volume_of m) metrics"
    and "dm = analyze_demand metrics market"
    and "local = metric_volume LOCAL_GRANULARITIES (filter kw_included metrics)"
    and "national = metric_volume NATIONAL_GRANULARITIES (filter kw_included metrics)"
    and "inputs = from_market (of_int national) market"
  shows "(0 < local \<longrightarrow> dm_market_demand_kind dm = ''measured_local'' \<and>
            dm_estimated_market_demand dm = Some (of_int local)) \<and>
     (local = 0 \<longrightarrow> dm_market_estimation_confidence dm \<in> {''low'', ''none''} \<and>
        (case dm_estimated_market_demand dm of
           None \<Rightarrow> dm_market_demand_kind dm = ''missing''
         | Some v \<Rightarrow> dm_market_demand_kind dm = ''estimated_local'' \<and> 0 \<le> v \<and>
             (ei_market_population inputs \<le> ei_reference_population inputs \<longrightarrow> v \<le> of_int national))) \<and>
     (case dm_estimated_market_demand dm of None \<Rightarrow> True | Some v \<Rightarrow> 0 \<le> v)"
proof -
  have inc: "list_all (\<lambda>m. 0 \<le> volume_of m) (filter kw_included metrics)"
    using assms(1) by (auto simp: list_all_iff)
  have local: "0 \<le> local" unfolding assms(3) by (rule metric_volume_nonneg [OF inc])
  note fields = analyze_demand_market [OF assms(3,4), of market]
  have est: "0 \<le> v" "ei_market_population inputs \<le> ei_reference_population inputs \<Longrightarrow> v \<le> of_int national"
    if "es_value (estimate inputs) = Some v" for v
    using estimate_bounds [of national market v] that unfolding assms(5) by auto
  have conf: "es_confidence (estimate inputs) \<in> {''low'', ''none''}"
    by (simp add: estimate_def Let_def split: option.splits)
  show ?thesis
  proof (cases "local = 0")
    case True
    then show ?thesis unfolding assms(2) using fields conf est
      by (auto simp: assms(5) split: option.splits)
  next
    case False
    then show ?thesis unfolding assms(2) using fields local by simp
  qed
qed

definition sample_metric :: keyword_metric where
  "sample_metric = \<lparr>kw_keyword = ''boiler repair'', kw_canonical_keyword = ''boiler repair'',
     kw_intent = ''transactional'', kw_search_volume = Some 1000, kw_cpc = Some 12,
     kw_paid_competition = Some (1 / 2), kw_monthly_history = [900, 1100], kw_source = ''live'',
     kw_source_timestamp = 0, kw_market_granularity = ''country'', kw_included = True,
     kw_excluded_reason = None\<rparr>"

definition sample_market_spec :: market_spec where
  "sample_market_spec = \<lparr>mt_display_name = ''Austin'', mt_country_code = ''US'', mt_state = Some ''TX'',
     mt_cities = [''Austin''], mt_postal_codes = [''78701''], mt_latitude = None, mt_longitude = None,
     mt_population = Some 100, mt_reference_population = Some 2000, mt_resolution_metadata = []\<rparr>"

theorem market_demand_precedence_witness:
  "dm_estimated_market_demand (analyze_demand [sample_metric] sample_market_spec) = Some 50 \<and>
   dm_market_demand_kind (analyze_demand [sample_metric] sample_market_spec) = ''estimated_local''"
proof -
  have vol: "list_all (\<lambda>m. 0 \<le> volume_of m) [sample_metric]" by code_simp
  have zero: "metric_volume LOCAL_GRANULARITIES (filter kw_included [sample_metric]) = 0" by code_simp
  have est: "dm_estimated_market_demand (analyze_demand [sample_metric] sample_market_spec) = Some 50"
    by code_simp
  from market_demand_precedence [OF vol refl refl refl refl, of sample_market_spec] zero est
  show ?thesis by simp
qed

end
