(* ===== verification/Provider_Suitability.thy ===== *)
theory Provider_Suitability
  imports Discovery_Models
begin

text \<open>
  \<open>services/providers.py\<close>: the five signals of a provider listing, its suitability score and
  the summary of a set of listings. The \<open>providers\<close> section of \<open>config/scoring.yaml\<close> is an
  argument. Distances are real numbers; the echoed inputs of the signals are left out.
\<close>

record providers_config =
  vc_suitable_threshold :: rat
  vc_quality_sample_size :: int
  vc_inactive_score_cap :: rat
  vc_signal_weights :: "(string \<times> rat) list"
  vc_status_scores :: "(string \<times> rat) list"
  vc_full_credit_distance_km :: rat
  vc_max_distance_km :: rat
  vc_service_area_match_score :: rat
  vc_address_match_score :: rat
  vc_website_strength :: rat
  vc_phone_strength :: rat
  vc_email_strength :: rat
  vc_contact_form_strength :: rat
  vc_unknown_confidence :: rat
  vc_confidence_floor :: rat
  vc_rating_share :: rat
  vc_review_count_share :: rat
  vc_review_saturation_count :: int
  vc_ideal_min :: int
  vc_ideal_max :: int
  vc_oversupply_count :: int

section \<open>Text\<close>

definition ignored_tokens :: "string list" where
  "ignored_tokens = [''and'', ''company'', ''contractor'', ''contractors'', ''service'', ''services'', ''the'']"

definition meaningful_tokens :: "string \<Rightarrow> string list" where
  "meaningful_tokens v =
     remdups (filter (\<lambda>t. 1 < length t \<and> t \<notin> set ignored_tokens) (slug_tokens v))"

definition token_coverage :: "string \<Rightarrow> string \<Rightarrow> rat" where
  "token_coverage v expected =
     (let vs = meaningful_tokens v; es = meaningful_tokens expected
      in if vs = [] \<or> es = [] then 0
         else of_nat (length (filter (\<lambda>t. t \<in> set vs) es)) / of_nat (length es))"

fun unique_strings_from :: "string list \<Rightarrow> string list \<Rightarrow> string list" where
  "unique_strings_from seen [] = []"
| "unique_strings_from seen (v # vs) =
     (let normalized = py_strip v; key = py_lower normalized
      in if normalized = [] \<or> key \<in> set seen then unique_strings_from seen vs
         else normalized # unique_strings_from (key # seen) vs)"

definition unique_strings :: "string list \<Rightarrow> string list" where
  "unique_strings vs = unique_strings_from [] vs"

definition market_text_match :: "string \<Rightarrow> market_spec \<Rightarrow> rat" where
  "market_text_match v m =
     (let normalized = normalized_phrase v; display = normalized_phrase (mt_display_name m)
      in if normalized = [] then 0
         else if list_ex (\<lambda>p. in_text (normalized_phrase p) normalized) (mt_postal_codes m) then 1
         else if list_ex (\<lambda>c. in_text (normalized_phrase c) normalized) (mt_cities m) then 1
         else if display \<noteq> [] \<and> in_text display normalized then 1 else 0)"

section \<open>Signals\<close>

definition signal :: "rat \<Rightarrow> string \<Rightarrow> suitability_signal" where
  "signal v how = \<lparr>sl_normalized = v, sl_method = how, sl_weight = 0, sl_weighted_score = 0\<rparr>"

definition service_fit :: "provider_listing \<Rightarrow> service_spec \<Rightarrow> suitability_signal" where
  "service_fit p s =
     (let provider_categories = unique_strings
            ((case px_category p of None \<Rightarrow> [] | Some c \<Rightarrow> c) # px_categories p);
          configured = unique_strings (sv_provider_categories s);
          exact = list_ex (\<lambda>c. normalized_phrase c \<in> set (map normalized_phrase configured)) provider_categories;
          configured_similarity = max_default 0
            (concat (map (\<lambda>c. map (token_coverage c) configured) provider_categories));
          labels = sv_display_name s # sv_seed_queries s @ configured;
          provider_text = join_words (px_name p # provider_categories);
          fallback_similarity = max_default 0 (map (token_coverage provider_text) labels);
          normalized = max configured_similarity (fallback_similarity * (65 / 100))
      in if exact then signal 1 ''configured_provider_category_exact''
         else signal (py_round 3 (min normalized 1))
           (if fallback_similarity * (65 / 100) \<le> configured_similarity \<and> 0 < configured_similarity
            then ''configured_provider_category_overlap''
            else if 0 < fallback_similarity then ''service_language_overlap'' else ''no_service_evidence''))"

definition radians :: "rat \<Rightarrow> real" where
  "radians x = of_rat x * pi / 180"

definition distance_km :: "rat option \<Rightarrow> rat option \<Rightarrow> rat option \<Rightarrow> rat option \<Rightarrow> real option" where
  "distance_km latitude longitude market_latitude market_longitude =
     (case (latitude, longitude, market_latitude, market_longitude) of
        (Some a, Some b, Some c, Some d) \<Rightarrow>
          (let lat1 = radians a; lon1 = radians b; lat2 = radians c; lon2 = radians d;
               delta_lat = lat2 - lat1; delta_lon = lon2 - lon1;
               haversine = sin (delta_lat / 2) ^ 2 + cos lat1 * cos lat2 * sin (delta_lon / 2) ^ 2
           in Some (63710088 / 10000 * 2 * arcsin (sqrt haversine)))
      | _ \<Rightarrow> None)"

definition distance_score :: "providers_config \<Rightarrow> real \<Rightarrow> real" where
  "distance_score cfg distance =
     (let full_credit = of_rat (vc_full_credit_distance_km cfg);
          maximum = max full_credit (of_rat (vc_max_distance_km cfg))
      in if distance \<le> full_credit then 1 else if maximum \<le> distance then 0
         else 1 - (distance - full_credit) / (maximum - full_credit))"

text \<open>\<open>max\<close> on pairs of a score and a method, and \<open>round\<close> of a real number.\<close>

fun best_candidate :: "(real \<times> string) list \<Rightarrow> (real \<times> string) \<Rightarrow> real \<times> string" where
  "best_candidate [] b = b"
| "best_candidate ((v, how) # cs) (w, best) =
     (if w < v \<or> (w = v \<and> best < how) then best_candidate cs (v, how) else best_candidate cs (w, best))"

definition round_real :: "nat \<Rightarrow> real \<Rightarrow> rat" where
  "round_real n x =
     (let y = x * 10 ^ n; f = floor y; d = y - of_int f
      in of_int (if d < 1 / 2 then f else if 1 / 2 < d then f + 1 else if even f then f else f + 1) / 10 ^ n)"

definition geographic_fit :: "provider_listing \<Rightarrow> market_spec \<Rightarrow> providers_config \<Rightarrow> suitability_signal" where
  "geographic_fit p m cfg =
     (let area = market_text_match (case px_service_area p of None \<Rightarrow> [] | Some s \<Rightarrow> s) m;
          address = market_text_match (case px_address p of None \<Rightarrow> [] | Some s \<Rightarrow> s) m;
          candidates =
            (case distance_km (px_latitude p) (px_longitude p) (mt_latitude m) (mt_longitude m) of
               None \<Rightarrow> [] | Some distance \<Rightarrow> [(distance_score cfg distance, ''coordinate_distance'')]) @
            (if area \<noteq> 0 then [(of_rat (area * vc_service_area_match_score cfg), ''verified_service_area'')] else []) @
            (if address \<noteq> 0 then [(of_rat (address * vc_address_match_score cfg), ''listing_address'')] else []);
          (normalized, how) = (case candidates of [] \<Rightarrow> (0, ''no_geographic_evidence'')
             | c # cs \<Rightarrow> best_candidate cs c)
      in signal (round_real 3 (min (max normalized 0) 1)) how)"

definition status_value :: "string \<Rightarrow> providers_config \<Rightarrow> rat" where
  "status_value status cfg =
     (let s = py_lower (py_strip status); name = (if s = [] then ''unknown'' else s);
          scores = vc_status_scores cfg;
          v = (case map_of scores name of Some q \<Rightarrow> q
               | None \<Rightarrow> (case map_of scores ''unknown'' of Some q \<Rightarrow> q | None \<Rightarrow> 0))
      in min (max v 0) 1)"

definition status_fit :: "provider_listing \<Rightarrow> providers_config \<Rightarrow> suitability_signal" where
  "status_fit p cfg =
     (let v = status_value (px_business_status p) cfg
      in signal (py_round 3 v)
        (if 1 \<le> v then ''confirmed_operating'' else if 0 < v then ''status_uncertain''
         else ''inactive_or_closed''))"

definition channels :: "provider_listing \<Rightarrow> providers_config \<Rightarrow> (rat \<times> bool) list" where
  "channels p cfg = [(vc_website_strength cfg, truthy_str (px_website p)),
     (vc_phone_strength cfg, truthy_str (px_phone p)), (vc_email_strength cfg, truthy_str (px_email p)),
     (vc_contact_form_strength cfg, truthy_str (px_contact_form_url p))]"

definition contactability :: "provider_listing \<Rightarrow> providers_config \<Rightarrow> suitability_signal" where
  "contactability p cfg =
     (let strength = max_default 0 (map fst (filter snd (channels p cfg)));
          conf = (case px_contact_confidence p of
                  Some c \<Rightarrow> min (max c 0) 1 | None \<Rightarrow> vc_unknown_confidence cfg);
          confidence_floor = min (max (vc_confidence_floor cfg) 0) 1;
          reliability = confidence_floor + (1 - confidence_floor) * conf
      in signal (py_round 3 (min (strength * reliability) 1))
        (if strength \<noteq> 0 then ''strongest_channel_adjusted_by_confidence'' else ''no_contact_channel''))"

definition reputation :: "provider_listing \<Rightarrow> providers_config \<Rightarrow> suitability_signal" where
  "reputation p cfg =
     (let rating_score = (case px_rating p of None \<Rightarrow> 0 | Some r \<Rightarrow> min (max r 0) 5 / 5);
          saturation = vc_review_saturation_count cfg;
          review_score = (case px_review_count p of None \<Rightarrow> 0
             | Some n \<Rightarrow> of_int (min (max n 0) saturation) / of_int (max 1 saturation));
          normalized = rating_score * vc_rating_share cfg + review_score * vc_review_count_share cfg
      in signal (py_round 3 (min normalized 1))
        (if px_rating p \<noteq> None \<or> px_review_count p \<noteq> None then ''rating_and_review_evidence''
         else ''no_reputation_evidence''))"

section \<open>Scores\<close>

definition weight_of :: "providers_config \<Rightarrow> string \<Rightarrow> rat" where
  "weight_of cfg name = (case map_of (vc_signal_weights cfg) name of None \<Rightarrow> 0 | Some w \<Rightarrow> max 0 w)"

definition signals_of ::
  "provider_listing \<Rightarrow> service_spec \<Rightarrow> market_spec \<Rightarrow> providers_config \<Rightarrow> (string \<times> suitability_signal) list" where
  "signals_of p s m cfg =
     [(''service_fit'', service_fit p s), (''geographic_fit'', geographic_fit p m cfg),
      (''status_certainty'', status_fit p cfg), (''contactability'', contactability p cfg),
      (''reputation'', reputation p cfg)]"

definition fixed_2 :: "rat \<Rightarrow> string" where
  "fixed_2 x =
     (let k = nat (round_half_even (x * 100))
      in nat_digits (k div 100) @ ''.'' @ nat_digits (k div 10 mod 10) @ nat_digits (k mod 10))"

definition score_provider ::
  "provider_listing \<Rightarrow> service_spec \<Rightarrow> market_spec \<Rightarrow> providers_config \<Rightarrow> provider_listing" where
  "score_provider p s m cfg =
     (let signals = signals_of p s m cfg;
          total = sum_list (map (\<lambda>(name, g). sl_normalized g * weight_of cfg name) signals);
          inactive = (sl_normalized (status_fit p cfg) \<le> 0);
          capped = (if inactive then min total (vc_inactive_score_cap cfg) else total)
      in p\<lparr>px_suitability_score := Some (py_round 2 (min (max capped 0) 100)),
           px_suitability_reasons :=
             map (\<lambda>(name, g). name @ '':'' @ fixed_2 (sl_normalized g) @ '':'' @ sl_method g) signals @
             (if inactive then [''inactive_status_cap_applied''] else []),
           px_suitability_signals :=
             map (\<lambda>(name, g). (name, g\<lparr>sl_weight := weight_of cfg name,
               sl_weighted_score := py_round 2 (sl_normalized g * weight_of cfg name)\<rparr>)) signals\<rparr>)"

definition score_provider_suitability ::
  "provider_listing list \<Rightarrow> service_spec \<Rightarrow> market_spec \<Rightarrow> providers_config \<Rightarrow> provider_listing list" where
  "score_provider_suitability providers s m cfg = map (\<lambda>p. score_provider p s m cfg) providers"

section \<open>Summary\<close>

definition score_of :: "provider_listing \<Rightarrow> rat" where
  "score_of p = or_zero (px_suitability_score p)"

definition suitable :: "providers_config \<Rightarrow> provider_listing \<Rightarrow> bool" where
  "suitable cfg p \<longleftrightarrow> vc_suitable_threshold cfg \<le> score_of p \<and> 0 < status_value (px_business_status p) cfg"

definition by_score :: "provider_listing list \<Rightarrow> provider_listing list" where
  "by_score ps = sort_key (\<lambda>p. - score_of p) ps"

definition average_signal :: "provider_listing list \<Rightarrow> string \<Rightarrow> rat" where
  "average_signal ps name =
     py_round 3 (sum_list (map (\<lambda>p. case map_of (px_suitability_signals p) name of
         None \<Rightarrow> 0 | Some g \<Rightarrow> sl_normalized g) ps) / of_nat (max 1 (length ps)))"

record provider_summary =
  su_provider_count :: nat
  su_suitable_provider_count :: nat
  su_suitable_provider_share :: rat
  su_suitable_threshold :: rat
  su_median_suitable_provider_score :: "rat option"
  su_average_top_suitable_provider_score :: rat
  su_top_suitable_sample_size :: nat
  su_raw_average_suitability_score :: rat
  su_suitable_average_signal_scores :: "(string \<times> rat) list"
  su_raw_average_signal_scores :: "(string \<times> rat) list"
  su_top_suitable_providers :: "provider_listing list"
  su_raw_top_providers :: "provider_listing list"

definition provider_suitability_summary ::
  "provider_listing list \<Rightarrow> providers_config \<Rightarrow> provider_summary" where
  "provider_suitability_summary providers cfg =
     (let suitable_providers = by_score (filter (suitable cfg) providers);
          scores = map score_of suitable_providers;
          raw = map score_of providers;
          sample = nat (max 1 (vc_quality_sample_size cfg));
          top = take sample scores;
          names = map fst (vc_signal_weights cfg)
      in \<lparr>su_provider_count = length providers,
          su_suitable_provider_count = length suitable_providers,
          su_suitable_provider_share = py_round 4 (share (length suitable_providers) (length providers)),
          su_suitable_threshold = vc_suitable_threshold cfg,
          su_median_suitable_provider_score = (if scores = [] then None else Some (py_round 2 (py_median scores))),
          su_average_top_suitable_provider_score = py_round 2 (sum_list top / of_nat (max 1 (length top))),
          su_top_suitable_sample_size = sample,
          su_raw_average_suitability_score = py_round 2 (sum_list raw / of_nat (max 1 (length raw))),
          su_suitable_average_signal_scores = map (\<lambda>n. (n, average_signal suitable_providers n)) names,
          su_raw_average_signal_scores = map (\<lambda>n. (n, average_signal providers n)) names,
          su_top_suitable_providers = take sample suitable_providers,
          su_raw_top_providers = take sample (by_score providers)\<rparr>)"

section \<open>Bounds\<close>

text \<open>What a configuration must keep for the signals to be shares of one.\<close>

definition valid_providers_config :: "providers_config \<Rightarrow> bool" where
  "valid_providers_config cfg \<longleftrightarrow>
     0 \<le> vc_website_strength cfg \<and> 0 \<le> vc_phone_strength cfg \<and> 0 \<le> vc_email_strength cfg \<and>
     0 \<le> vc_contact_form_strength cfg \<and> 0 \<le> vc_unknown_confidence cfg \<and>
     0 \<le> vc_rating_share cfg \<and> 0 \<le> vc_review_count_share cfg \<and> 0 \<le> vc_review_saturation_count cfg"

lemma max_default_nonneg: "list_all (\<lambda>x. 0 \<le> x) xs \<Longrightarrow> 0 \<le> max_default 0 xs"
  by (cases xs) (auto simp: max_default_def intro: order_trans [OF _ fold_max_ge(1)])

lemma token_coverage_nonneg: "0 \<le> token_coverage v e"
  by (simp add: token_coverage_def Let_def)

lemma signal_fields [simp]: "sl_normalized (signal v how) = v" "sl_method (signal v how) = how"
  by (simp_all add: signal_def)

lemma round_min_1: "0 \<le> x \<Longrightarrow> 0 \<le> py_round n (min x 1) \<and> py_round n (min x 1) \<le> 1"
  by (rule py_round_0_1) auto

lemma round_real_0_1:
  assumes "0 \<le> x" "x \<le> 1"
  shows "0 \<le> round_real n x \<and> round_real n x \<le> 1"
proof -
  let ?y = "x * 10 ^ n" let ?f = "floor ?y"
  have y: "0 \<le> ?y" "?y \<le> 10 ^ n" using assms by (simp_all add: mult_left_le_one_le)
  have f: "0 \<le> ?f" "?f \<le> 10 ^ n"
    using y by (simp, metis floor_le_iff floor_of_int of_int_1 of_int_numeral of_int_power floor_mono)
  have up: "?f + 1 \<le> 10 ^ n" if "\<not> ?y - of_int ?f < 1 / 2"
  proof (rule ccontr)
    assume "\<not> ?f + 1 \<le> 10 ^ n"
    with f(2) have "?f = 10 ^ n" by linarith
    then have "of_int ?f = (10 ^ n :: real)" by simp
    with that y(2) show False by linarith
  qed
  define k where "k = (if ?y - of_int ?f < 1 / 2 then ?f else if 1 / 2 < ?y - of_int ?f then ?f + 1
    else if even ?f then ?f else ?f + 1)"
  have k: "0 \<le> k" "k \<le> 10 ^ n" using f up unfolding k_def by (smt (verit))+
  have "round_real n x = of_int k / 10 ^ n" by (simp add: round_real_def k_def Let_def)
  moreover have "(of_int k :: rat) \<le> 10 ^ n" using k(2) by (metis of_int_le_iff of_int_numeral of_int_power)
  ultimately show ?thesis using k(1) by (simp add: divide_le_eq)
qed

lemma service_fit_bounds: "0 \<le> sl_normalized (service_fit p s) \<and> sl_normalized (service_fit p s) \<le> 1"
proof -
  have "0 \<le> max_default 0 (concat (map (\<lambda>c. map (token_coverage c) es) cs))" for es cs
    by (rule max_default_nonneg) (auto simp: list_all_iff token_coverage_nonneg)
  then have "0 \<le> max (max_default 0 (concat (map (\<lambda>c. map (token_coverage c) es) cs))) y" for es cs y
    by (meson max.coboundedI1)
  then show ?thesis using round_min_1 by (simp add: service_fit_def Let_def)
qed

lemma geographic_fit_bounds:
  "0 \<le> sl_normalized (geographic_fit p m cfg) \<and> sl_normalized (geographic_fit p m cfg) \<le> 1"
  by (simp add: geographic_fit_def Let_def case_prod_unfold round_real_0_1)

lemma status_fit_bounds: "0 \<le> sl_normalized (status_fit p cfg) \<and> sl_normalized (status_fit p cfg) \<le> 1"
  by (simp add: status_fit_def Let_def status_value_def py_round_0_1)

lemma contactability_bounds:
  assumes "valid_providers_config cfg"
  shows "0 \<le> sl_normalized (contactability p cfg) \<and> sl_normalized (contactability p cfg) \<le> 1"
proof -
  let ?strength = "max_default 0 (map fst (filter snd (channels p cfg)))"
  let ?conf = "case px_contact_confidence p of Some c \<Rightarrow> min (max c 0) 1 | None \<Rightarrow> vc_unknown_confidence cfg"
  let ?floor = "min (max (vc_confidence_floor cfg) 0) 1"
  have "0 \<le> ?strength"
    using assms by (intro max_default_nonneg) (auto simp: list_all_iff channels_def valid_providers_config_def)
  moreover have "0 \<le> ?conf" using assms by (auto simp: valid_providers_config_def split: option.splits)
  moreover have "0 \<le> ?floor" "0 \<le> 1 - ?floor" by auto
  ultimately have "0 \<le> ?strength * (?floor + (1 - ?floor) * ?conf)"
    by (intro mult_nonneg_nonneg add_nonneg_nonneg)
  from round_min_1 [OF this, of 3] show ?thesis unfolding contactability_def Let_def signal_fields .
qed

lemma reputation_bounds:
  assumes "valid_providers_config cfg"
  shows "0 \<le> sl_normalized (reputation p cfg) \<and> sl_normalized (reputation p cfg) \<le> 1"
proof -
  let ?rating = "case px_rating p of None \<Rightarrow> 0 | Some r \<Rightarrow> min (max r 0) 5 / 5"
  let ?sat = "vc_review_saturation_count cfg"
  let ?review = "case px_review_count p of None \<Rightarrow> (0 :: rat)
     | Some n \<Rightarrow> of_int (min (max n 0) ?sat) / of_int (max 1 ?sat)"
  have "0 \<le> ?rating" by (auto split: option.splits)
  moreover have "0 \<le> ?review" using assms by (auto simp: valid_providers_config_def split: option.splits)
  ultimately have "0 \<le> ?rating * vc_rating_share cfg + ?review * vc_review_count_share cfg"
    using assms by (intro add_nonneg_nonneg mult_nonneg_nonneg) (auto simp: valid_providers_config_def)
  from round_min_1 [OF this, of 3] show ?thesis unfolding reputation_def Let_def signal_fields .
qed

text \<open>The \<open>providers\<close> section of \<open>config/scoring.yaml\<close>.\<close>

definition default_providers_config :: providers_config where
  "default_providers_config =
     \<lparr>vc_suitable_threshold = 55, vc_quality_sample_size = 5, vc_inactive_score_cap = 40,
       vc_signal_weights = [(''service_fit'', 30), (''geographic_fit'', 25), (''status_certainty'', 15),
         (''contactability'', 20), (''reputation'', 10)],
       vc_status_scores = [(''open'', 1), (''closed_now'', 1), (''active'', 1), (''operational'', 1),
         (''unknown'', 1 / 4), (''temporarily_closed'', 0), (''closed'', 0), (''closed_forever'', 0),
         (''permanently_closed'', 0)],
       vc_full_credit_distance_km = 25, vc_max_distance_km = 100, vc_service_area_match_score = 1,
       vc_address_match_score = 85 / 100, vc_website_strength = 3 / 10, vc_phone_strength = 85 / 100,
       vc_email_strength = 1, vc_contact_form_strength = 9 / 10, vc_unknown_confidence = 1 / 2,
       vc_confidence_floor = 3 / 4, vc_rating_share = 7 / 10, vc_review_count_share = 3 / 10,
       vc_review_saturation_count = 100, vc_ideal_min = 2, vc_ideal_max = 8, vc_oversupply_count = 14\<rparr>"

lemma score_provider_fields:
  "px_business_status (score_provider p s m cfg) = px_business_status p"
  "map fst (px_suitability_signals (score_provider p s m cfg)) = map fst (signals_of p s m cfg)"
  "map (sl_normalized \<circ> snd) (px_suitability_signals (score_provider p s m cfg)) =
     map (sl_normalized \<circ> snd) (signals_of p s m cfg)"
  by (simp_all add: score_provider_def Let_def comp_def case_prod_unfold)

lemma score_provider_score:
  "score_of (score_provider p s m cfg) =
     (let total = sum_list (map (\<lambda>(name, g). sl_normalized g * weight_of cfg name) (signals_of p s m cfg))
      in py_round 2 (clamp 0 100 (if sl_normalized (status_fit p cfg) \<le> 0
           then min total (vc_inactive_score_cap cfg) else total)))"
proof -
  have "min (max x 0) 100 = clamp 0 100 x" for x :: rat by (simp add: clamp_def min_def max_def)
  then show ?thesis by (simp add: score_provider_def score_of_def or_zero_def Let_def)
qed

lemma signals_bounded:
  assumes "valid_providers_config cfg" "(name, g) \<in> set (signals_of p s m cfg)"
  shows "0 \<le> sl_normalized g \<and> sl_normalized g \<le> 1"
  using assms(2) service_fit_bounds [of p s] geographic_fit_bounds [of p m cfg] status_fit_bounds [of p cfg]
    contactability_bounds [OF assms(1), of p] reputation_bounds [OF assms(1), of p]
  by (auto simp: signals_of_def)

text \<open>
  With a sane configuration every signal of a scored provider is a share between 0 and 1
  and its suitability score lies between 0 and 100; a provider whose status counts nothing is
  scored at most the inactive cap, is marked, and is never counted as suitable, whatever its
  other signals are.
\<close>

theorem provider_score_bounded:
  assumes "valid_providers_config cfg" and "0 \<le> vc_inactive_score_cap cfg" "vc_inactive_score_cap cfg \<le> 100"
    and "p' = score_provider p s m cfg"
  shows "0 \<le> score_of p' \<and> score_of p' \<le> 100 \<and>
     list_all (\<lambda>(name, g). 0 \<le> sl_normalized g \<and> sl_normalized g \<le> 1) (px_suitability_signals p') \<and>
     (status_value (px_business_status p) cfg = 0 \<longrightarrow>
        score_of p' \<le> py_round 2 (vc_inactive_score_cap cfg) \<and>
        last (px_suitability_reasons p') = ''inactive_status_cap_applied'' \<and> \<not> suitable cfg p')"
proof -
  have score: "0 \<le> score_of p' \<and> score_of p' \<le> 100"
    unfolding assms(4) score_provider_score Let_def
    using clamp_bounds [of 0 100] py_round_between [of 0 _ 100 2] by fastforce
  have "list_all (\<lambda>v. 0 \<le> v \<and> v \<le> 1) (map (sl_normalized \<circ> snd) (signals_of p s m cfg))"
    using signals_bounded [OF assms(1)] by (fastforce simp: list_all_iff)
  then have sig: "list_all (\<lambda>(name, g). 0 \<le> sl_normalized g \<and> sl_normalized g \<le> 1) (px_suitability_signals p')"
    unfolding assms(4) score_provider_fields(3) [symmetric] by (auto simp: list_all_iff)
  have "score_of p' \<le> py_round 2 (vc_inactive_score_cap cfg) \<and>
      last (px_suitability_reasons p') = ''inactive_status_cap_applied'' \<and> \<not> suitable cfg p'"
    if "status_value (px_business_status p) cfg = 0"
  proof -
    have zero: "sl_normalized (status_fit p cfg) = 0" using that by (simp add: status_fit_def Let_def)
    have "clamp 0 100 (min x (vc_inactive_score_cap cfg)) \<le> vc_inactive_score_cap cfg" for x
      using assms(2,3) by (simp add: clamp_def min_def max_def)
    from py_round_mono [OF this, of 2]
    have "score_of p' \<le> py_round 2 (vc_inactive_score_cap cfg)"
      unfolding assms(4) score_provider_score Let_def zero by simp
    moreover have "last (px_suitability_reasons p') = ''inactive_status_cap_applied''"
      unfolding assms(4) by (simp add: score_provider_def Let_def zero)
    moreover have "\<not> suitable cfg p'"
      unfolding assms(4) by (simp add: suitable_def score_provider_fields that)
    ultimately show ?thesis by blast
  qed
  with score sig show ?thesis by blast
qed

definition blank_listing :: provider_listing where
  "blank_listing = \<lparr>px_name = [], px_website = None, px_phone = None, px_email = None,
     px_contact_form_url = None, px_address = None, px_service_area = None, px_category = None,
     px_categories = [], px_latitude = None, px_longitude = None, px_rating = None, px_review_count = None,
     px_business_status = ''unknown'', px_contact_confidence = None, px_suitability_score = None,
     px_suitability_reasons = [], px_suitability_signals = []\<rparr>"

definition sample_service_spec :: service_spec where
  "sample_service_spec = \<lparr>sv_display_name = ''Boiler Repair'', sv_description = [], sv_seed_queries = [''boiler repair''],
     sv_negative_terms = [], sv_intent_modifiers = [], sv_negative_product_terms = [],
     sv_provider_categories = [''Plumber'']\<rparr>"

definition sample_city_spec :: market_spec where
  "sample_city_spec = \<lparr>mt_display_name = ''Austin'', mt_country_code = ''US'', mt_state = Some ''TX'',
     mt_cities = [''Austin''], mt_postal_codes = [''78701''], mt_latitude = None, mt_longitude = None,
     mt_population = Some 100, mt_reference_population = Some 2000, mt_resolution_metadata = []\<rparr>"

definition sample_closed_listing :: provider_listing where
  "sample_closed_listing = blank_listing\<lparr>px_name := ''Acme'', px_category := Some ''Plumber'',
     px_business_status := '' Closed '', px_phone := Some ''1'', px_address := Some ''Austin''\<rparr>"

theorem provider_score_bounded_witness:
  "let p' = score_provider sample_closed_listing sample_service_spec sample_city_spec default_providers_config
   in score_of p' \<le> 40 \<and> \<not> suitable default_providers_config p'"
proof -
  have valid: "valid_providers_config default_providers_config" "0 \<le> vc_inactive_score_cap default_providers_config"
    "vc_inactive_score_cap default_providers_config \<le> 100" by code_simp+
  have "status_value (px_business_status sample_closed_listing) default_providers_config = 0"
    "py_round 2 (vc_inactive_score_cap default_providers_config) = 40" by code_simp+
  with provider_score_bounded [OF valid refl, of sample_closed_listing sample_service_spec sample_city_spec]
  show ?thesis by (simp add: Let_def)
qed

section \<open>Supply\<close>

lemma mean_ge: "xs \<noteq> [] \<Longrightarrow> (\<And>x. x \<in> set xs \<Longrightarrow> t \<le> x) \<Longrightarrow> (t::rat) \<le> sum_list xs / of_nat (length xs)"
proof -
  assume ne: "xs \<noteq> []" and all: "\<And>x. x \<in> set xs \<Longrightarrow> t \<le> x"
  have "of_nat (length ys) * t \<le> sum_list ys" if "\<And>x. x \<in> set ys \<Longrightarrow> t \<le> x" for ys
    using that by (induction ys) (auto simp: algebra_simps add_mono)
  from this [of xs] all ne show ?thesis by (simp add: le_divide_eq mult.commute)
qed

lemma median_ge:
  assumes "xs \<noteq> []" "\<And>x. x \<in> set xs \<Longrightarrow> t \<le> x"
  shows "t \<le> py_median xs"
proof -
  have nth: "t \<le> sort xs ! i" if "i < length xs" for i
    using assms(2) that by (metis length_sort nth_mem set_sort)
  have "length xs div 2 < length xs" "length xs div 2 - 1 < length xs" using assms(1) by (cases xs; simp)+
  then show ?thesis using nth [of "length xs div 2"] nth [of "length xs div 2 - 1"]
    by (simp add: py_median_def Let_def field_simps)
qed

text \<open>
  The summary counts as suitable exactly the active providers at or above the threshold;
  when there are some, the average of its top sample and their median are not below the
  threshold, and the sample it lists is ordered by falling score.
\<close>

theorem summary_quality:
  assumes "sm = provider_suitability_summary providers cfg"
  shows "su_suitable_provider_count sm = length (filter (suitable cfg) providers) \<and>
     0 \<le> su_suitable_provider_share sm \<and> su_suitable_provider_share sm \<le> 1 \<and>
     sorted_wrt (\<ge>) (map score_of (su_top_suitable_providers sm)) \<and>
     list_all (suitable cfg) (su_top_suitable_providers sm) \<and>
     (0 < su_suitable_provider_count sm \<longrightarrow>
        py_round 2 (vc_suitable_threshold cfg) \<le> su_average_top_suitable_provider_score sm \<and>
        (case su_median_suitable_provider_score sm of None \<Rightarrow> False
         | Some q \<Rightarrow> py_round 2 (vc_suitable_threshold cfg) \<le> q))"
proof -
  define ps where "ps = by_score (filter (suitable cfg) providers)"
  define n where "n = nat (max 1 (vc_quality_sample_size cfg))"
  have n: "0 < n" by (simp add: n_def)
  have set: "set ps = {p \<in> set providers. suitable cfg p}" by (simp add: ps_def by_score_def)
  have len: "length ps = length (filter (suitable cfg) providers)" by (simp add: ps_def by_score_def)
  have ge: "vc_suitable_threshold cfg \<le> x" if "x \<in> set (map score_of ps)" for x
    using that by (auto simp: set suitable_def)
  have "sorted (map (\<lambda>p. - score_of p) ps)" by (simp add: ps_def by_score_def)
  then have "sorted_wrt (\<ge>) (map score_of ps)" by (simp add: sorted_wrt_map)
  then have sorted: "sorted_wrt (\<ge>) (map score_of (take n ps))" by (metis sorted_wrt_take take_map)
  have share: "0 \<le> py_round 4 (share (length ps) (length providers)) \<and>
      py_round 4 (share (length ps) (length providers)) \<le> 1"
    using len by (intro py_round_0_1) (auto intro: share_le_1)
  have quality: "py_round 2 (vc_suitable_threshold cfg) \<le>
        py_round 2 (sum_list (take n (map score_of ps)) / of_nat (max 1 (length (take n (map score_of ps))))) \<and>
      py_round 2 (vc_suitable_threshold cfg) \<le> py_round 2 (py_median (map score_of ps))" if "ps \<noteq> []"
  proof -
    let ?top = "take n (map score_of ps)"
    have top: "?top \<noteq> []" using that n by simp
    then have "max 1 (length ?top) = length ?top" by (cases ?top) auto
    moreover have "vc_suitable_threshold cfg \<le> sum_list ?top / of_nat (length ?top)"
      using top ge by (intro mean_ge) (auto dest: in_set_takeD)
    moreover have "vc_suitable_threshold cfg \<le> py_median (map score_of ps)"
      using that ge by (intro median_ge) auto
    ultimately show ?thesis by (simp add: py_round_mono)
  qed
  show ?thesis
    unfolding assms provider_suitability_summary_def Let_def ps_def [symmetric] n_def [symmetric]
    using len set sorted share quality by (auto simp: list_all_iff dest: in_set_takeD)
qed

theorem summary_quality_witness:
  "55 \<le> su_average_top_suitable_provider_score (provider_suitability_summary
     [blank_listing\<lparr>px_business_status := ''open'', px_suitability_score := Some 80\<rparr>,
      blank_listing\<lparr>px_business_status := ''closed'', px_suitability_score := Some 90\<rparr>]
     default_providers_config)"
proof -
  let ?sm = "provider_suitability_summary
     [blank_listing\<lparr>px_business_status := ''open'', px_suitability_score := Some 80\<rparr>,
      blank_listing\<lparr>px_business_status := ''closed'', px_suitability_score := Some 90\<rparr>]
     default_providers_config"
  have "0 < su_suitable_provider_count ?sm" "py_round 2 (vc_suitable_threshold default_providers_config) = 55"
    by code_simp+
  with summary_quality [OF refl, of "[blank_listing\<lparr>px_business_status := ''open'', px_suitability_score := Some 80\<rparr>,
      blank_listing\<lparr>px_business_status := ''closed'', px_suitability_score := Some 90\<rparr>]" default_providers_config]
  show ?thesis by simp
qed

end
