(* ===== verification/Serp_Classification.thy ===== *)
theory Serp_Classification
  imports Discovery_Models
begin

text \<open>
  \<open>scoring/serp.py\<close>: the ordered rules that classify a search result. The rules of
  \<open>config/serp_classification.yaml\<close> are an argument; the evidence payload of a match is left
  out.
\<close>

record classifier_rule =
  ru_id :: string
  ru_classification :: string
  ru_confidence :: "rat option"
  ru_domains :: "string list"
  ru_domain_suffixes :: "string list"
  ru_text_contains :: "string list"
  ru_service_terms :: "string list"
  ru_business_identity_terms :: "string list"

record classifier_config =
  clf_version :: string
  clf_rules :: "classifier_rule list"

definition stop_words :: "string list" where
  "stop_words = [''a'', ''and'', ''at'', ''best'', ''for'', ''in'', ''near'', ''of'', ''the'', ''to'', ''us'',
     ''usa'', ''www'']"

definition important_tokens :: "string \<Rightarrow> string list" where
  "important_tokens v =
     remdups (filter (\<lambda>t. 1 < length t \<and> t \<notin> set stop_words) (slug_tokens v))"

definition overlap :: "string list \<Rightarrow> string list \<Rightarrow> string list" where
  "overlap xs ys = filter (\<lambda>x. x \<in> set ys) (remdups xs)"

definition market_tokens :: "market_spec \<Rightarrow> string list" where
  "market_tokens m =
     remdups (concat (map important_tokens
       ([mt_display_name m, (case mt_state m of None \<Rightarrow> [] | Some s \<Rightarrow> s), mt_country_code m] @
        mt_cities m @ mt_postal_codes m)))"

definition business_terms :: "string list" where
  "business_terms = [''co'', ''company'', ''contractors'', ''pros'', ''service'', ''services'', ''plumbing'',
     ''roofing'', ''hvac'', ''repair'']"

definition business_like_domain :: "string \<Rightarrow> bool" where
  "business_like_domain domain \<longleftrightarrow>
     overlap (split_words (map (\<lambda>c. if c \<in> set ''.-'' then CHR '' '' else c) domain)) business_terms \<noteq> []"

definition provider_domain :: "provider_listing \<Rightarrow> string option" where
  "provider_domain p =
     (if truthy_str (px_website p)
      then let site = the (px_website p)
           in Some (normalize_domain (if url_netloc site = [] then site else url_netloc site))
      else None)"

definition domain_matches :: "string \<Rightarrow> string \<Rightarrow> bool" where
  "domain_matches domain item \<longleftrightarrow> domain = item \<or> ends_with (CHR ''.'' # item) domain"

definition provider_matches :: "string \<Rightarrow> string list \<Rightarrow> provider_listing \<Rightarrow> bool" where
  "provider_matches domain result_tokens p \<longleftrightarrow>
     (case provider_domain p of None \<Rightarrow> False | Some pd \<Rightarrow> pd \<noteq> [] \<and> domain_matches domain pd) \<or>
     (let name_tokens = important_tokens (px_name p)
      in name_tokens \<noteq> [] \<and>
         6 / 10 \<le> share (length (overlap result_tokens name_tokens)) (length name_tokens))"

definition provider_listing_match :: "string \<Rightarrow> serp_entry \<Rightarrow> provider_listing list \<Rightarrow> bool" where
  "provider_listing_match domain r providers \<longleftrightarrow>
     (let tokens = important_tokens (sx_title r @ '' '' @ sx_description r @ '' '' @ domain)
      in list_ex (provider_matches domain tokens) providers)"

definition rule_matches :: "classifier_rule \<Rightarrow> string \<Rightarrow> string \<Rightarrow> bool" where
  "rule_matches rule domain text \<longleftrightarrow>
     list_ex (\<lambda>item. domain_matches domain (py_lower item)) (ru_domains rule) \<or>
     list_ex (\<lambda>item. ends_with (py_lower item) domain) (ru_domain_suffixes rule) \<or>
     list_ex (\<lambda>term. in_text (py_lower term) text) (ru_text_contains rule)"

definition local_provider_match ::
  "classifier_rule \<Rightarrow> serp_entry \<Rightarrow> string \<Rightarrow> string \<Rightarrow> service_spec option \<Rightarrow> market_spec option \<Rightarrow>
   provider_listing list \<Rightarrow> bool" where
  "local_provider_match rule r domain text service market providers \<longleftrightarrow>
     (case (service, market) of
        (Some s, Some m) \<Rightarrow>
          (let service_tokens = concat (map important_tokens (sv_display_name s # sv_seed_queries s));
               result_tokens = important_tokens text;
               terms = map py_lower (filter (\<lambda>t. py_strip t \<noteq> []) (ru_service_terms rule));
               identity = filter (\<lambda>t. in_text t text) (map py_lower (ru_business_identity_terms rule))
           in (overlap result_tokens service_tokens \<noteq> [] \<or> overlap result_tokens terms \<noteq> []) \<and>
              overlap result_tokens (market_tokens m) \<noteq> [] \<and>
              (provider_listing_match domain r providers \<or> identity \<noteq> [] \<or> business_like_domain domain))
      | _ \<Rightarrow> False)"

definition with_classification ::
  "classifier_config \<Rightarrow> serp_entry \<Rightarrow> string \<Rightarrow> rat \<Rightarrow> string list \<Rightarrow> serp_entry" where
  "with_classification cfg r c conf rules =
     r\<lparr>sx_classification := c, sx_is_local_provider := (c = ''local_provider''),
       sx_is_directory := (c = ''directory''), sx_is_national_brand := (c = ''national_brand''),
       sx_is_lead_generation_site := (c = ''lead_generator''),
       sx_classification_confidence := Some (py_round 2 conf),
       sx_classifier_version := clf_version cfg, sx_matched_rules := rules\<rparr>"

text \<open>\<open>float(rule.get("confidence") or 0.5)\<close>: an absent or zero confidence is one half.\<close>

definition rule_confidence :: "classifier_rule \<Rightarrow> rat" where
  "rule_confidence rule = (case ru_confidence rule of None \<Rightarrow> 1 / 2 | Some v \<Rightarrow> if v = 0 then 1 / 2 else v)"

definition rule_applies ::
  "classifier_rule \<Rightarrow> serp_entry \<Rightarrow> string \<Rightarrow> string \<Rightarrow> service_spec option \<Rightarrow> market_spec option \<Rightarrow>
   provider_listing list \<Rightarrow> bool" where
  "rule_applies rule r domain text service market providers \<longleftrightarrow>
     (if ru_classification rule = ''local_provider''
      then local_provider_match rule r domain text service market providers
      else rule_matches rule domain text)"

definition result_domain :: "serp_entry \<Rightarrow> string" where
  "result_domain r = normalize_domain (if sx_domain r = [] then url_netloc (sx_url r) else sx_domain r)"

definition result_text :: "serp_entry \<Rightarrow> string" where
  "result_text r =
     py_lower (join_words [sx_title r, sx_description r, py_lower (url_path (sx_url r)), result_domain r])"

definition classify_result ::
  "classifier_config \<Rightarrow> serp_entry \<Rightarrow> service_spec option \<Rightarrow> market_spec option \<Rightarrow>
   provider_listing list \<Rightarrow> serp_entry" where
  "classify_result cfg r service market providers =
     (if truthy_str (sx_manual_override r)
      then with_classification cfg r (the (sx_manual_override r)) 1 [''manual_override'']
      else
        (case find (\<lambda>rule. rule_applies rule r (result_domain r) (result_text r) service market providers)
            (clf_rules cfg) of
           Some rule \<Rightarrow> with_classification cfg r (ru_classification rule) (rule_confidence rule) [ru_id rule]
         | None \<Rightarrow> with_classification cfg r ''unknown'' (35 / 100) []))"

section \<open>Properties\<close>

lemma with_classification_frame:
  "sx_order (with_classification cfg r c conf rules) = sx_order r"
  "sx_url (with_classification cfg r c conf rules) = sx_url r"
  "sx_manual_override (with_classification cfg r c conf rules) = sx_manual_override r"
  "sx_classification (with_classification cfg r c conf rules) = c"
  by (simp_all add: with_classification_def)

lemma rule_applies_frame:
  "rule_applies rule (with_classification cfg r c conf rules) domain text service market providers =
   rule_applies rule r domain text service market providers"
  by (simp add: rule_applies_def local_provider_match_def provider_listing_match_def
      with_classification_def split: option.splits)

lemma result_text_frame:
  "result_domain (with_classification cfg r c conf rules) = result_domain r"
  "result_text (with_classification cfg r c conf rules) = result_text r"
  by (simp_all add: result_domain_def result_text_def with_classification_def)

lemma with_classification_twice:
  "with_classification cfg (with_classification cfg r c conf rules) c' conf' rules' =
   with_classification cfg r c' conf' rules'"
  by (simp add: with_classification_def)

text \<open>
  Classification of a search result is decided by the manual override alone when there is
  one, otherwise by the first rule that applies, and it is unknown when none applies; a result
  is flagged for at most one of the four kinds, exactly for the one it is classified as; and
  classifying a result again gives the same result.
\<close>

theorem classify_result_sound:
  "(let c = classify_result cfg r service market providers;
        applies = (\<lambda>rule. rule_applies rule r (result_domain r) (result_text r) service market providers)
    in sx_classification c =
         (if truthy_str (sx_manual_override r) then the (sx_manual_override r)
          else case filter applies (clf_rules cfg) of [] \<Rightarrow> ''unknown'' | rule # _ \<Rightarrow> ru_classification rule) \<and>
       sx_is_local_provider c = (sx_classification c = ''local_provider'') \<and>
       sx_is_directory c = (sx_classification c = ''directory'') \<and>
       sx_is_national_brand c = (sx_classification c = ''national_brand'') \<and>
       sx_is_lead_generation_site c = (sx_classification c = ''lead_generator'') \<and>
       length (filter id [sx_is_local_provider c, sx_is_directory c, sx_is_national_brand c,
         sx_is_lead_generation_site c]) \<le> 1 \<and>
       classify_result cfg c service market providers = c)"
proof -
  let ?c = "classify_result cfg r service market providers"
  have "\<exists>k conf rules. ?c = with_classification cfg r k conf rules"
    unfolding classify_result_def by (auto split: option.split)
  then obtain k conf rules where c: "?c = with_classification cfg r k conf rules" by blast
  have again: "classify_result cfg ?c service market providers = ?c"
    unfolding c unfolding classify_result_def rule_applies_frame result_text_frame
      with_classification_frame with_classification_twice
    using c unfolding classify_result_def by (auto split: option.splits)
  have first: "find P xs = (case filter P xs of [] \<Rightarrow> None | x # _ \<Rightarrow> Some x)" for P and xs :: "classifier_rule list"
    by (induction xs) auto
  have kind: "sx_classification ?c =
      (if truthy_str (sx_manual_override r) then the (sx_manual_override r)
       else case filter (\<lambda>rule. rule_applies rule r (result_domain r) (result_text r) service market providers)
         (clf_rules cfg) of [] \<Rightarrow> ''unknown'' | rule # _ \<Rightarrow> ru_classification rule)"
    by (simp add: classify_result_def first with_classification_frame split: list.splits)
  have flags: "sx_is_local_provider ?c = (sx_classification ?c = ''local_provider'')"
    "sx_is_directory ?c = (sx_classification ?c = ''directory'')"
    "sx_is_national_brand ?c = (sx_classification ?c = ''national_brand'')"
    "sx_is_lead_generation_site ?c = (sx_classification ?c = ''lead_generator'')"
    unfolding c by (simp_all add: with_classification_def)
  then show ?thesis unfolding Let_def using kind again by auto
qed

end
