(* ===== verification/Competitor_Selection.thy ===== *)
theory Competitor_Selection
  imports Serp_Classification "HOL-Library.Product_Lexorder"
begin

text \<open>
  \<open>services/competitors.py\<close>: the organic observations of each domain over all result pages,
  the choice of the competitor pages to pay for, and the enrichment of competitor metrics with
  what the pages show.
\<close>

datatype competitor_error = ObservationPositionInvalid

section \<open>Observations\<close>

fun distinct_by :: "('a \<Rightarrow> 'k) \<Rightarrow> 'k list \<Rightarrow> 'a list \<Rightarrow> 'a list" where
  "distinct_by key seen [] = []"
| "distinct_by key seen (x # xs) =
     (if key x \<in> set seen then distinct_by key seen xs else x # distinct_by key (key x # seen) xs)"

definition organic_entries :: "serp_page list \<Rightarrow> (serp_page \<times> serp_entry) list" where
  "organic_entries pages =
     filter (\<lambda>(pg, r). result_domain r \<noteq> [])
       (concat (map (\<lambda>pg. map (\<lambda>r. (pg, r)) (filter (\<lambda>r. sx_result_type r = ''organic'') (sn_results pg))) pages))"

definition entry_key :: "serp_page \<times> serp_entry \<Rightarrow> string \<times> string \<times> int \<times> string" where
  "entry_key e = (case e of (pg, r) \<Rightarrow> (result_domain r, sn_query pg, sx_order r, sx_url r))"

definition observation_of :: "serp_page \<times> serp_entry \<Rightarrow> serp_observation" where
  "observation_of e = (case e of (pg, r) \<Rightarrow>
     \<lparr>ob_query = sn_query pg, ob_position = sx_order r, ob_url = sx_url r, ob_observed_at = sn_captured_at pg\<rparr>)"

definition observation_sort_key :: "serp_observation \<Rightarrow> int \<times> string \<times> string" where
  "observation_sort_key o' = (ob_position o', ob_query o', ob_url o')"

definition observations_of :: "(serp_page \<times> serp_entry) list \<Rightarrow> string \<Rightarrow> serp_observation list" where
  "observations_of entries domain =
     sort_key observation_sort_key
       (map observation_of (filter (\<lambda>(pg, r). result_domain r = domain) entries))"

text \<open>
  The dictionary is a list of domains in the order they were first seen with their sorted
  observations; \<open>CompetitorSerpObservation\<close> refuses a position below one.
\<close>

definition serp_observations_by_domain ::
  "serp_page list \<Rightarrow> competitor_error + (string \<times> serp_observation list) list" where
  "serp_observations_by_domain pages =
     (let entries = distinct_by entry_key [] (organic_entries pages);
          domains = distinct_by id [] (map (\<lambda>(pg, r). result_domain r) entries)
      in guarded [raise_if (list_ex (\<lambda>(pg, r). sx_order r < 1) entries) ObservationPositionInvalid]
         (Inr (map (\<lambda>domain. (domain, observations_of entries domain)) domains)))"

definition min_observation :: "serp_observation list \<Rightarrow> serp_observation" where
  "min_observation os = hd (sort_key observation_sort_key os)"

definition select_competitor_urls :: "serp_page list \<Rightarrow> nat \<Rightarrow> competitor_error + string list" where
  "select_competitor_urls pages limit =
     map_result (\<lambda>observations.
       map ob_url (take limit (sort_key observation_sort_key (map (min_observation \<circ> snd) observations))))
       (serp_observations_by_domain pages)"

section \<open>Enrichment\<close>

definition COMPETITOR_ARCHETYPES :: "string list" where
  "COMPETITOR_ARCHETYPES = [''directory'', ''marketplace'', ''lead_generator'', ''national_brand'',
     ''local_provider'', ''informational_publisher'', ''government_or_nonprofit'']"

definition page_results :: "serp_page list \<Rightarrow> ((string \<times> int \<times> string) \<times> serp_entry) list" where
  "page_results pages =
     concat (map (\<lambda>pg. map (\<lambda>r. ((sn_query pg, sx_order r, sx_url r), r))
       (filter (\<lambda>r. sx_result_type r = ''organic'') (sn_results pg))) pages)"

text \<open>A later result with the same key replaces an earlier one.\<close>

definition result_by_observation ::
  "serp_page list \<Rightarrow> serp_observation \<Rightarrow> serp_entry option" where
  "result_by_observation pages o' =
     map_of (rev (page_results pages)) (ob_query o', ob_position o', ob_url o')"

definition competitor_domain :: "competitor \<Rightarrow> string" where
  "competitor_domain c = normalize_domain (if cx_domain c = [] then url_netloc (cx_url c) else cx_domain c)"

definition token_match :: "string list \<Rightarrow> string list \<Rightarrow> rat" where
  "token_match tokens expected =
     share (length (overlap expected tokens)) (length (remdups expected))"

definition opt_json_str :: "string option \<Rightarrow> json" where
  "opt_json_str s = (case s of None \<Rightarrow> JNull | Some t \<Rightarrow> JStr t)"

definition enrich_competitor ::
  "(string \<times> serp_observation list) list \<Rightarrow> serp_page list \<Rightarrow> service_spec \<Rightarrow> market_spec \<Rightarrow>
   competitor \<Rightarrow> competitor" where
  "enrich_competitor by_domain pages service market c =
     (let observations = (case map_of by_domain (competitor_domain c) of None \<Rightarrow> [] | Some os \<Rightarrow> os);
          representative = (if observations = [] then None else Some (min_observation observations));
          result = Option.bind representative (result_by_observation pages);
          service_tokens = slug_tokens (sv_display_name service);
          market_tokens = slug_tokens (mt_display_name market) @ concat (map slug_tokens (mt_cities market));
          tokens = slug_tokens (join_words [cx_url c, cx_domain c,
            (case result of None \<Rightarrow> [] | Some r \<Rightarrow> sx_title r),
            (case result of None \<Rightarrow> [] | Some r \<Rightarrow> sx_description r)]);
          service_match = token_match tokens service_tokens;
          market_match = token_match tokens market_tokens;
          page_type0 = (case result of None \<Rightarrow> cx_page_type c | Some r \<Rightarrow> sx_classification r);
          page_type = (if cx_page_type c \<noteq> ''unknown'' \<and> page_type0 = ''unknown'' then cx_page_type c else page_type0);
          archetype = (if page_type \<in> set COMPETITOR_ARCHETYPES then page_type else ''unknown'')
      in c\<lparr>cx_page_type := page_type,
           cx_page_relevance_score := Some (py_round 3 (max (or_zero (cx_page_relevance_score c)) service_match)),
           cx_local_relevance := Some (py_round 3 (max (or_zero (cx_local_relevance c)) market_match)),
           cx_relevance_signals :=
             [(''serp_classification'', opt_json_str (map_option sx_classification result)),
              (''competitor_archetype'', JStr archetype),
              (''service_token_match'', JNum (py_round 3 service_match)),
              (''market_token_match'', JNum (py_round 3 market_match)),
              (''is_directory_aggregator'', JBool (archetype = ''directory'')),
              (''is_marketplace'', JBool (archetype = ''marketplace'')),
              (''is_lead_generator'', JBool (archetype = ''lead_generator'')),
              (''is_national_service_brand'', JBool (archetype = ''national_brand'')),
              (''classification_confidence'',
                 (case Option.bind result sx_classification_confidence of None \<Rightarrow> JNull | Some q \<Rightarrow> JNum q))],
           cx_representative_query := map_option ob_query representative,
           cx_serp_position := map_option ob_position representative,
           cx_serp_observations := observations\<rparr>)"

definition enrich_competitors ::
  "competitor list \<Rightarrow> serp_page list \<Rightarrow> service_spec \<Rightarrow> market_spec \<Rightarrow>
   competitor_error + competitor list" where
  "enrich_competitors competitors pages service market =
     map_result (\<lambda>by_domain. map (enrich_competitor by_domain pages service market)
         (distinct_by competitor_domain [] (filter (\<lambda>c. competitor_domain c \<noteq> []) competitors)))
       (serp_observations_by_domain pages)"

section \<open>Properties\<close>

lemma set_distinct_by: "set (distinct_by key seen xs) \<subseteq> set xs"
  by (induction key seen xs rule: distinct_by.induct) auto

lemma keys_distinct_by: "key ` set (distinct_by key seen xs) = key ` set xs - set seen"
  by (induction key seen xs rule: distinct_by.induct) auto

lemma distinct_distinct_by:
  "distinct (map key (distinct_by key seen xs))"
proof (induction key seen xs rule: distinct_by.induct)
  case (2 key seen x xs)
  have "key x \<notin> key ` set (distinct_by key (key x # seen) xs)" by (simp add: keys_distinct_by)
  with 2 show ?case by auto
qed simp

lemma observations_by_domain_Inr:
  assumes "serp_observations_by_domain pages = Inr by_domain"
  defines "entries \<equiv> distinct_by entry_key [] (organic_entries pages)"
  shows "distinct (map fst by_domain)"
    and "set (map fst by_domain) = result_domain ` snd ` set (organic_entries pages)"
    and "(domain, os) \<in> set by_domain \<Longrightarrow> os = observations_of entries domain \<and> os \<noteq> []"
proof -
  let ?domains = "distinct_by id [] (map (\<lambda>(pg, r). result_domain r) entries)"
  have by_domain: "by_domain = map (\<lambda>domain. (domain, observations_of entries domain)) ?domains"
    using assms(1) by (simp add: serp_observations_by_domain_def entries_def Let_def)
  have fst: "map fst by_domain = ?domains" unfolding by_domain by (simp add: comp_def)
  show "distinct (map fst by_domain)" unfolding fst using distinct_distinct_by [of id] by simp
  have doms: "set ?domains = result_domain ` snd ` set entries"
    using keys_distinct_by [of id "[]" "map (\<lambda>(pg, r). result_domain r) entries"]
    by (simp add: case_prod_unfold image_image)
  have "entry_key ` set entries = entry_key ` set (organic_entries pages)"
    unfolding entries_def by (simp add: keys_distinct_by)
  then have "fst ` entry_key ` set entries = fst ` entry_key ` set (organic_entries pages)" by simp
  then have "result_domain ` snd ` set entries = result_domain ` snd ` set (organic_entries pages)"
    by (simp add: image_image entry_key_def case_prod_unfold)
  then show "set (map fst by_domain) = result_domain ` snd ` set (organic_entries pages)"
    unfolding fst doms .
  assume mem: "(domain, os) \<in> set by_domain"
  then have os: "os = observations_of entries domain" "domain \<in> set ?domains" unfolding by_domain by auto
  then obtain e where "e \<in> set entries" "result_domain (snd e) = domain" unfolding doms by auto
  then have "observation_of e \<in> set (observations_of entries domain)"
    by (force simp: observations_of_def case_prod_unfold)
  then have "observations_of entries domain \<noteq> []" by auto
  with os show "os = observations_of entries domain \<and> os \<noteq> []" by simp
qed

lemma insort_key_map: "insort_key k (f x) (map f xs) = map f (insort_key (k \<circ> f) x xs)"
  by (induction xs) auto

lemma sort_key_map: "sort_key k (map f xs) = map f (sort_key (k \<circ> f) xs)"
  by (induction xs) (simp_all add: insort_key_map comp_def)

lemma min_observation_least:
  assumes "o' \<in> set os"
  shows "min_observation os \<in> set os" "observation_sort_key (min_observation os) \<le> observation_sort_key o'"
proof -
  let ?s = "sort_key observation_sort_key os"
  have ne: "?s \<noteq> []" using assms by (metis length_0_conv length_pos_if_in_set length_sort less_irrefl)
  then show "min_observation os \<in> set os" unfolding min_observation_def by (metis hd_in_set set_sort)
  have "sorted (map observation_sort_key ?s)" by simp
  then have "\<forall>x \<in> set ?s. observation_sort_key (hd ?s) \<le> observation_sort_key x"
    using ne by (cases ?s) auto
  then show "observation_sort_key (min_observation os) \<le> observation_sort_key o'"
    using assms by (simp add: min_observation_def)
qed

lemma take_sorted_least:
  assumes "sorted (map k xs)" "x \<in> set (take n xs)" "y \<in> set xs - set (take n xs)"
  shows "k x \<le> k y"
proof -
  from assms(3) have "y \<in> set (drop n xs)" by (metis Diff_iff Un_iff append_take_drop_id set_append)
  moreover have "sorted (map k (take n xs) @ map k (drop n xs))"
    using assms(1) by (metis append_take_drop_id map_append)
  ultimately show ?thesis using assms(2) by (auto simp: sorted_append)
qed

text \<open>
  The competitor pages that are paid for are the best observation, by position, query and
  address, of as many distinct domains as the limit allows, best first: no domain that was left
  out has a better observation than one that was chosen, and the address chosen for a domain
  is its best.
\<close>

theorem competitor_urls_best:
  assumes "serp_observations_by_domain pages = Inr by_domain"
    and "select_competitor_urls pages limit = Inr urls"
  shows "\<exists>chosen. urls = map (\<lambda>(domain, os). ob_url (min_observation os)) chosen \<and>
     length chosen = min limit (length by_domain) \<and> distinct (map fst chosen) \<and> set chosen \<subseteq> set by_domain \<and>
     sorted (map (\<lambda>(domain, os). observation_sort_key (min_observation os)) chosen) \<and>
     list_all (\<lambda>(domain, os). list_all (\<lambda>o'. observation_sort_key (min_observation os) \<le> observation_sort_key o') os) chosen \<and>
     list_all (\<lambda>e. list_all (\<lambda>c. observation_sort_key (min_observation (snd c)) \<le>
         observation_sort_key (min_observation (snd e))) chosen) (filter (\<lambda>e. e \<notin> set chosen) by_domain)"
proof -
  let ?k = "observation_sort_key \<circ> (min_observation \<circ> snd)"
  let ?sorted = "sort_key ?k by_domain"
  define chosen where "chosen = take limit ?sorted"
  have "urls = map ob_url (take limit (map (min_observation \<circ> snd) ?sorted))"
    using assms by (simp add: select_competitor_urls_def sort_key_map)
  then have urls: "urls = map (\<lambda>(domain, os). ob_url (min_observation os)) chosen"
    by (simp add: chosen_def take_map case_prod_unfold)
  have sub: "set chosen \<subseteq> set by_domain" unfolding chosen_def by (metis set_sort set_take_subset)
  have "inj_on fst (set by_domain)" "distinct by_domain"
    using observations_by_domain_Inr(1) [OF assms(1)] by (simp_all add: distinct_map)
  then have dist: "distinct (map fst chosen)"
    using sub by (simp add: distinct_map chosen_def inj_on_subset)
  have sorted: "sorted (map ?k ?sorted)" by simp
  then have "sorted (map ?k chosen)" unfolding chosen_def by (metis sorted_wrt_take take_map)
  then have order: "sorted (map (\<lambda>(domain, os). observation_sort_key (min_observation os)) chosen)"
    by (simp add: comp_def case_prod_unfold)
  have rest: "?k c \<le> ?k e" if "c \<in> set chosen" "e \<in> set by_domain" "e \<notin> set chosen" for c e
    using take_sorted_least [OF sorted, of c limit e] that by (simp add: chosen_def)
  show ?thesis
    using urls dist sub order rest min_observation_least(2)
    by (intro exI [of _ chosen]) (auto simp: list_all_iff chosen_def)
qed

definition sample_entry :: "int \<Rightarrow> string \<Rightarrow> serp_entry" where
  "sample_entry position domain = \<lparr>sx_order = position, sx_result_type = ''organic'',
     sx_url = ''https://'' @ domain @ ''/a'', sx_domain = domain, sx_title = [], sx_description = [],
     sx_classification = ''unknown'', sx_is_local_provider = False, sx_is_directory = False,
     sx_is_national_brand = False, sx_is_lead_generation_site = False, sx_classification_confidence = None,
     sx_classifier_version = [], sx_matched_rules = [], sx_manual_override = None\<rparr>"

definition sample_page :: "string \<Rightarrow> serp_entry list \<Rightarrow> serp_page" where
  "sample_page query results = \<lparr>sn_query = query, sn_captured_at = 0, sn_features_present = [], sn_results = results\<rparr>"

definition sample_pages :: "serp_page list" where
  "sample_pages =
     [sample_page ''boiler'' [sample_entry 1 ''a.com'', sample_entry 2 ''www.b.com'', sample_entry 3 ''c.com''],
      sample_page ''boilers'' [sample_entry 1 ''b.com'', sample_entry 2 ''c.com'']]"

theorem competitor_urls_best_witness:
  "\<exists>urls. select_competitor_urls sample_pages 2 = Inr urls \<and> length urls = 2 \<and>
     urls = [''https://a.com/a'', ''https://b.com/a'']"
proof -
  have run: "select_competitor_urls sample_pages 2 = Inr [''https://a.com/a'', ''https://b.com/a'']" by code_simp
  have "\<not> isl (serp_observations_by_domain sample_pages)" by code_simp
  then obtain by_domain where "serp_observations_by_domain sample_pages = Inr by_domain"
    using not_isl_Inr by blast
  from competitor_urls_best [OF this run] run show ?thesis by auto
qed

end
