(* ===== verification/Keyword_Weights.thy ===== *)
theory Keyword_Weights
  imports Demand Provider_Suitability Competitor_Selection
begin

text \<open>
  The helpers of \<open>scoring/score.py\<close> that weigh search queries and competitors: the evidence a
  query draws from the keyword metrics, the exposure of a competitor over its observations and
  the merge of competitor records of one domain.
\<close>

datatype scoring_error =
  ScoringKeyError string
| ScoringZeroDivision
| ScoringValueError

section \<open>Configuration\<close>

record keyword_weighting =
  wt_demand_share :: rat
  wt_commercial_share :: rat
  wt_minimum_weight :: rat
  wt_unmatched_keyword_weight :: rat

record competitors_config =
  cc_weak_referring_domains :: rat
  cc_strong_referring_domains :: rat
  cc_unknown_referring_domains_weakness :: rat
  cc_relevance_threat_strength :: rat
  cc_service_relevance_weight :: rat
  cc_local_relevance_weight :: rat
  cc_interaction_relevance_weight :: rat
  cc_unpositioned_weight :: rat
  cc_serp_position_weights :: "(int \<times> rat) list"
  cc_archetype_weakness_adjustments :: "(string \<times> rat) list"

section \<open>Evidence of a query\<close>

record keyword_evidence =
  ke_query :: string
  ke_matched_keyword :: "string option"
  ke_search_volume :: "int option"
  ke_cpc :: "rat option"
  ke_demand_signal :: "rat option"
  ke_commercial_signal :: "rat option"
  ke_keyword_weight :: rat
  ke_weight_basis :: string

text \<open>\<open>setdefault\<close>: the first metric with a keyword or canonical keyword wins.\<close>

definition metrics_by_query :: "keyword_metric list \<Rightarrow> string \<Rightarrow> keyword_metric option" where
  "metrics_by_query metrics q =
     map_of (concat (map (\<lambda>m. [(normalize_query (kw_keyword m), m), (normalize_query (kw_canonical_keyword m), m)])
       metrics)) (normalize_query q)"

definition weighted_signals ::
  "keyword_weighting \<Rightarrow> rat \<Rightarrow> rat \<Rightarrow> keyword_metric \<Rightarrow> (rat \<times> rat) list" where
  "weighted_signals cfg max_volume max_cpc m =
     (case kw_search_volume m of None \<Rightarrow> []
      | Some v \<Rightarrow> if 0 < max_volume then [(wt_demand_share cfg, of_int v / max_volume)] else []) @
     (case kw_cpc m of None \<Rightarrow> []
      | Some c \<Rightarrow> if 0 < max_cpc then [(wt_commercial_share cfg, c / max_cpc)] else [])"

definition raw_weight :: "(rat \<times> rat) list \<Rightarrow> rat" where
  "raw_weight signals = sum_list (map (\<lambda>(w, x). w * x) signals) / sum_list (map fst signals)"

definition evidence_of ::
  "keyword_weighting \<Rightarrow> rat \<Rightarrow> rat \<Rightarrow> string \<Rightarrow> keyword_metric option \<Rightarrow> keyword_evidence" where
  "evidence_of cfg max_volume max_cpc q matched =
     (case matched of
        None \<Rightarrow> \<lparr>ke_query = q, ke_matched_keyword = None, ke_search_volume = None, ke_cpc = None,
          ke_demand_signal = None, ke_commercial_signal = None,
          ke_keyword_weight = wt_unmatched_keyword_weight cfg, ke_weight_basis = ''unmatched_keyword''\<rparr>
      | Some m \<Rightarrow>
          (let signals = weighted_signals cfg max_volume max_cpc m;
               weight = (if signals = [] then wt_unmatched_keyword_weight cfg
                  else max (wt_minimum_weight cfg) (raw_weight signals))
           in \<lparr>ke_query = q, ke_matched_keyword = Some (kw_keyword m), ke_search_volume = kw_search_volume m,
               ke_cpc = kw_cpc m,
               ke_demand_signal = Option.bind (kw_search_volume m) (\<lambda>v.
                 if 0 < max_volume then Some (py_round 4 (of_int v / max_volume)) else None),
               ke_commercial_signal = Option.bind (kw_cpc m) (\<lambda>c.
                 if 0 < max_cpc then Some (py_round 4 (c / max_cpc)) else None),
               ke_keyword_weight = py_round 4 weight,
               ke_weight_basis = (if signals = [] then ''matched_without_weighting_metrics''
                 else ''relative_demand_and_commercial_value'')\<rparr>))"

definition query_keyword_evidence ::
  "string list \<Rightarrow> keyword_metric list \<Rightarrow> keyword_weighting \<Rightarrow> scoring_error + keyword_evidence list" where
  "query_keyword_evidence queries metrics cfg =
     (let matched = map (metrics_by_query metrics) queries;
          hits = List.map_filter id matched;
          max_volume = max_default 0 (map of_int (List.map_filter kw_search_volume hits));
          max_cpc = max_default 0 (List.map_filter kw_cpc hits)
      in guarded [raise_if (list_ex (\<lambda>m. let signals = weighted_signals cfg max_volume max_cpc m
             in signals \<noteq> [] \<and> sum_list (map fst signals) = 0) hits) ScoringZeroDivision]
         (Inr (map (\<lambda>(q, m). evidence_of cfg max_volume max_cpc q m) (zip queries matched))))"

section \<open>Competitors of one domain\<close>

definition merge_domain :: "competitor \<Rightarrow> string" where
  "merge_domain c =
     py_strip (remove_prefix ''www.'' (py_lower
       (if cx_domain c \<noteq> [] then cx_domain c
        else if url_netloc (cx_url c) \<noteq> [] then url_netloc (cx_url c) else cx_url c)))"

text \<open>\<open>min\<close> by \<open>(position is None, position or 0)\<close>: of two equal ones the first.\<close>

definition position_rank :: "competitor \<Rightarrow> bool \<times> int" where
  "position_rank c = (cx_serp_position c = None, (case cx_serp_position c of None \<Rightarrow> 0 | Some n \<Rightarrow> n))"

definition observation_key :: "serp_observation \<Rightarrow> string \<times> int \<times> string" where
  "observation_key o' = (ob_query o', ob_position o', ob_url o')"

definition merge_observations :: "serp_observation list \<Rightarrow> serp_observation list \<Rightarrow> serp_observation list" where
  "merge_observations xs ys =
     sort_key observation_sort_key (map snd (dict_of (map (\<lambda>o'. (observation_key o', o')) (xs @ ys))))"

definition merge_competitors :: "competitor \<Rightarrow> competitor \<Rightarrow> competitor" where
  "merge_competitors existing c =
     (let chosen = (if position_rank existing \<le> position_rank c then existing else c);
          os = merge_observations (cx_serp_observations existing) (cx_serp_observations c);
          merged = chosen\<lparr>cx_serp_observations := os\<rparr>
      in if os = [] then merged
         else merged\<lparr>cx_representative_query := Some (ob_query (hd os)), cx_serp_position := Some (ob_position (hd os))\<rparr>)"

definition add_competitor :: "competitor \<Rightarrow> (string \<times> competitor) list \<Rightarrow> (string \<times> competitor) list" where
  "add_competitor c by_domain =
     (let domain = merge_domain c
      in case map_of by_domain domain of
           None \<Rightarrow> dict_put domain c by_domain
         | Some existing \<Rightarrow> dict_put domain (merge_competitors existing c) by_domain)"

definition unique_domain_competitors :: "competitor list \<Rightarrow> competitor list" where
  "unique_domain_competitors cs = map snd (fold add_competitor cs [])"

section \<open>Exposure\<close>

definition competitor_position_weight :: "int option \<Rightarrow> competitors_config \<Rightarrow> rat" where
  "competitor_position_weight position cfg =
     (case position of
        None \<Rightarrow> cc_unpositioned_weight cfg
      | Some n \<Rightarrow> (case map_of (cc_serp_position_weights cfg) n of
          Some w \<Rightarrow> w
        | None \<Rightarrow> (case list_min (map snd (cc_serp_position_weights cfg)) of None \<Rightarrow> 0 | Some w \<Rightarrow> w)))"

text \<open>\<open>min\<close> of an empty table of weights raises.\<close>

definition position_weight_missing :: "int option \<Rightarrow> competitors_config \<Rightarrow> bool" where
  "position_weight_missing position cfg \<longleftrightarrow> position \<noteq> None \<and> cc_serp_position_weights cfg = []"

record exposure =
  ex_query :: "string option"
  ex_position :: "int option"
  ex_url :: string
  ex_keyword_weight :: rat
  ex_position_weight :: rat
  ex_exposure_weight :: rat

definition observed_positions :: "competitor \<Rightarrow> (string option \<times> int option \<times> string) list" where
  "observed_positions c =
     (if cx_serp_observations c = [] then [(cx_representative_query c, cx_serp_position c, cx_url c)]
      else map (\<lambda>o'. (Some (ob_query o'), Some (ob_position o'), ob_url o')) (cx_serp_observations c))"

text \<open>The evidence of the last query with the same normal form, as in a dict comprehension.\<close>

definition evidence_by_query :: "keyword_evidence list \<Rightarrow> string \<Rightarrow> keyword_evidence option" where
  "evidence_by_query evidence q =
     map_of (rev (map (\<lambda>e. (normalize_query (ke_query e), e)) evidence)) (normalize_query q)"

definition competitor_exposures ::
  "competitor \<Rightarrow> competitors_config \<Rightarrow> keyword_evidence list \<Rightarrow> rat \<Rightarrow> exposure list" where
  "competitor_exposures c cfg evidence unmatched_keyword_weight =
     map (\<lambda>(q, position, url).
       let found = (if truthy_str q then evidence_by_query evidence (the q) else None);
           keyword_weight = max (1 / 10000)
             (case found of None \<Rightarrow> unmatched_keyword_weight | Some e \<Rightarrow> ke_keyword_weight e);
           position_weight = competitor_position_weight position cfg
       in \<lparr>ex_query = q, ex_position = position, ex_url = url, ex_keyword_weight = py_round 4 keyword_weight,
           ex_position_weight = py_round 4 position_weight,
           ex_exposure_weight = py_round 4 (keyword_weight * position_weight)\<rparr>)
     (observed_positions c)"

definition domain_exposure_weight :: "exposure list \<Rightarrow> rat" where
  "domain_exposure_weight es = sum_list (map ex_exposure_weight es)"

section \<open>One competitor per domain\<close>

lemma set_dict_put: "distinct (map fst d) \<Longrightarrow> set (dict_put k v d) = insert (k, v) {p \<in> set d. fst p \<noteq> k}"
  by (induction d) force+

lemma dict_of_keys: "fst ` set (dict_of items) = fst ` set items"
proof -
  have "fst ` set (fold (\<lambda>(k, v). dict_put k v) items d) = fst ` set d \<union> fst ` set items" for d
    by (induction items arbitrary: d) (simp_all add: keys_dict_put case_prod_unfold)
  then show ?thesis by (simp add: dict_of_def)
qed

lemma set_dict_of: "set (dict_of items) \<subseteq> set items"
proof -
  have step: "set (dict_put k v d) \<subseteq> insert (k, v) (set d)" for k v and d :: "('a \<times> 'b) list"
    by (induction d) (auto split: if_splits)
  have "set (fold (\<lambda>(k, v). dict_put k v) items d) \<subseteq> set d \<union> set items" for d
  proof (induction items arbitrary: d)
    case (Cons p items)
    from Cons [of "dict_put (fst p) (snd p) d"] step [of "fst p" "snd p" d] show ?case
      by (auto simp: case_prod_unfold)
  qed simp
  from this [of "[]"] show ?thesis by (simp add: dict_of_def)
qed

lemma merge_observations_keys:
  "observation_key ` set (merge_observations xs ys) = observation_key ` set xs \<union> observation_key ` set ys"
proof -
  let ?items = "map (\<lambda>o'. (observation_key o', o')) (xs @ ys)"
  have "fst p = observation_key (snd p)" if "p \<in> set (dict_of ?items)" for p
    using that set_dict_of [of ?items] by auto
  then have "observation_key ` snd ` set (dict_of ?items) = fst ` set (dict_of ?items)"
    unfolding image_image by (intro image_cong) auto
  also have "\<dots> = observation_key ` (set xs \<union> set ys)" by (simp add: dict_of_keys image_image image_Un)
  finally show ?thesis by (simp add: merge_observations_def image_Un)
qed

lemma merge_competitors_fields:
  "cx_serp_observations (merge_competitors a b) =
     merge_observations (cx_serp_observations a) (cx_serp_observations b)"
  "cx_domain (merge_competitors a b) = cx_domain (if position_rank a \<le> position_rank b then a else b)"
  "cx_url (merge_competitors a b) = cx_url (if position_rank a \<le> position_rank b then a else b)"
  by (simp_all add: merge_competitors_def Let_def)

lemma merge_domain_merge: "merge_domain a = d \<Longrightarrow> merge_domain b = d \<Longrightarrow> merge_domain (merge_competitors a b) = d"
proof -
  assume dom: "merge_domain a = d" "merge_domain b = d"
  have "merge_domain (merge_competitors a b) = merge_domain (if position_rank a \<le> position_rank b then a else b)"
    by (simp only: merge_domain_def merge_competitors_fields)
  with dom show ?thesis by simp
qed

definition competitors_ok :: "(string \<times> competitor) list \<Rightarrow> bool" where
  "competitors_ok d \<longleftrightarrow> distinct (map fst d) \<and> list_all (\<lambda>(k, c). merge_domain c = k) d"

text \<open>The observations a domain has in a list of competitors.\<close>

fun observed :: "string \<Rightarrow> competitor list \<Rightarrow> (string \<times> int \<times> string) set" where
  "observed k [] = {}"
| "observed k (c # cs) =
     (if merge_domain c = k then observation_key ` set (cx_serp_observations c) else {}) \<union> observed k cs"

lemma observed_append: "observed k (xs @ ys) = observed k xs \<union> observed k ys"
  by (induction xs) auto

lemma competitors_ok_Cons:
  "competitors_ok ((k, c) # d) \<longleftrightarrow> merge_domain c = k \<and> k \<notin> fst ` set d \<and> competitors_ok d"
  by (auto simp: competitors_ok_def)

lemma observed_lookup:
  "competitors_ok d \<Longrightarrow> observed k (map snd d) =
     (case map_of d k of None \<Rightarrow> {} | Some x \<Rightarrow> observation_key ` set (cx_serp_observations x))"
proof (induction d)
  case (Cons p d)
  obtain k0 c0 where p: "p = (k0, c0)" by (cases p)
  with Cons have c0: "merge_domain c0 = k0" "k0 \<notin> fst ` set d" and
    IH: "observed k (map snd d) =
      (case map_of d k of None \<Rightarrow> {} | Some x \<Rightarrow> observation_key ` set (cx_serp_observations x))"
    by (auto simp: competitors_ok_Cons)
  show ?case
  proof (cases "k0 = k")
    case True
    with c0 have "map_of d k = None" by (simp add: map_of_eq_None_iff)
    with True p c0 IH show ?thesis by simp
  next
    case False
    with p c0 IH show ?thesis by simp
  qed
qed simp

lemma competitors_ok_put:
  "competitors_ok d \<Longrightarrow> merge_domain e = k \<Longrightarrow> competitors_ok (dict_put k e d)"
proof (induction d)
  case (Cons p d)
  obtain k0 c0 where p: "p = (k0, c0)" by (cases p)
  with Cons show ?case by (cases "k0 = k") (simp_all add: competitors_ok_Cons keys_dict_put)
qed (simp add: competitors_ok_def)

lemma add_competitor_step:
  assumes "competitors_ok d"
  shows "competitors_ok (add_competitor c d)"
    and "fst ` set (add_competitor c d) = insert (merge_domain c) (fst ` set d)"
    and "observed k (map snd (add_competitor c d)) = observed k (c # map snd d)"
proof -
  let ?k = "merge_domain c"
  define e where "e = (case map_of d ?k of None \<Rightarrow> c | Some x \<Rightarrow> merge_competitors x c)"
  have add: "add_competitor c d = dict_put ?k e d"
    by (simp add: add_competitor_def e_def Let_def split: option.splits)
  have dom: "merge_domain e = ?k"
  proof (cases "map_of d ?k")
    case (Some x)
    then have "(?k, x) \<in> set d" by (rule map_of_SomeD)
    then have "merge_domain x = ?k" using assms by (auto simp: competitors_ok_def list_all_iff)
    with Some show ?thesis by (simp add: e_def merge_domain_merge)
  qed (simp add: e_def)
  show ok: "competitors_ok (add_competitor c d)" unfolding add by (rule competitors_ok_put [OF assms dom])
  show "fst ` set (add_competitor c d) = insert ?k (fst ` set d)" unfolding add by (rule keys_dict_put)
  have "map_of (add_competitor c d) k = (if k = ?k then Some e else map_of d k)" unfolding add by simp
  then show "observed k (map snd (add_competitor c d)) = observed k (c # map snd d)"
    unfolding observed_lookup [OF ok] observed.simps observed_lookup [OF assms]
    by (auto simp: e_def merge_competitors_fields merge_observations_keys split: option.splits)
qed

lemma add_competitors_fold:
  "competitors_ok d \<Longrightarrow> competitors_ok (fold add_competitor cs d) \<and>
     fst ` set (fold add_competitor cs d) = merge_domain ` set cs \<union> fst ` set d \<and>
     observed k (map snd (fold add_competitor cs d)) = observed k cs \<union> observed k (map snd d)"
proof (induction cs arbitrary: d)
  case (Cons c cs)
  then show ?case using Cons.IH [OF add_competitor_step(1) [OF Cons.prems]]
      add_competitor_step(2,3) [OF Cons.prems] by auto
qed simp

text \<open>
  The scorer sees one competitor per domain: after the merge the domains are distinct, they
  are the domains of the supplied competitors, and each domain keeps exactly the observed
  positions that all its records had together.
\<close>

theorem competitors_merged_by_domain:
  "distinct (map merge_domain (unique_domain_competitors cs)) \<and>
   merge_domain ` set (unique_domain_competitors cs) = merge_domain ` set cs \<and>
   (\<forall>k. observed k (unique_domain_competitors cs) = observed k cs)"
proof -
  let ?d = "fold add_competitor cs []"
  have run: "competitors_ok ?d" "fst ` set ?d = merge_domain ` set cs"
    "\<And>k. observed k (map snd ?d) = observed k cs"
    using add_competitors_fold [of "[]" cs] by (auto simp: competitors_ok_def)
  have keys: "map merge_domain (map snd ?d) = map fst ?d"
    using run(1) by (auto simp: competitors_ok_def list_all_iff)
  have "merge_domain ` set (map snd ?d) = set (map merge_domain (map snd ?d))" by (simp only: set_map)
  also have "\<dots> = merge_domain ` set cs" unfolding keys using run(2) by simp
  finally have domains: "merge_domain ` set (map snd ?d) = merge_domain ` set cs" .
  have "distinct (map merge_domain (map snd ?d))" unfolding keys using run(1) by (simp add: competitors_ok_def)
  with domains run(3) show ?thesis unfolding unique_domain_competitors_def by blast
qed

end
