(* ===== verification/Scoring.thy ===== *)
theory Scoring
  imports Keyword_Weights
begin

text \<open>
  \<open>OpportunityScorer\<close> of \<open>scoring/score.py\<close>: the six weighted components with the steps that
  explain them, the penalties and caps for missing evidence, and the confidence model. The
  configuration \<open>config/scoring.yaml\<close> is an argument and the clock is one too. The sentences
  for display and the echoed inputs of the steps are left out.
\<close>

section \<open>Configuration\<close>

record organic_config =
  og_serp_position_weights :: "(int \<times> rat) list"
  og_keyword_weighting :: keyword_weighting
  og_directory_penalty :: rat
  og_marketplace_penalty :: rat
  og_national_brand_penalty :: rat
  og_lead_generator_penalty :: rat
  og_informational_publisher_penalty :: rat
  og_unknown_penalty :: rat
  og_shopping_product_penalty :: rat
  og_shopping_product_result_types :: "string list"
  og_local_pack_penalty :: rat
  og_ads_top_penalty :: rat

record demand_config =
  dk_service_attractiveness_share :: rat
  dk_market_attractiveness_share :: rat
  dk_national_strong_volume :: rat
  dk_measured_strong_volume :: rat
  dk_measured_maximum_credit :: rat
  dk_estimated_strong_volume :: rat
  dk_estimated_maximum_credit :: rat

record confidence_config =
  cn_high :: rat
  cn_medium :: rat
  cn_low :: rat
  cn_keyword_max_age_days :: rat
  cn_serp_max_age_days :: rat
  cn_representative_serp_target :: int
  cn_competitor_sample_target :: int
  cn_provider_sample_target :: int
  cn_maximum_unknown_serp_share_for_high :: rat
  cn_source_mode_penalties :: "(string \<times> rat) list"
  cn_missing_field :: rat
  cn_missing_local_demand :: rat
  cn_low_confidence_market_estimate :: rat
  cn_medium_confidence_market_evidence :: rat
  cn_stale_keyword_metrics :: rat
  cn_stale_serps :: rat
  cn_limited_serp_sample :: rat
  cn_limited_competitor_sample :: rat
  cn_limited_provider_sample :: rat
  cn_unknown_serp_classification :: rat

record scoring_config =
  sk_version :: string
  sk_demand_weight :: rat
  sk_commercial_weight :: rat
  sk_competitor_weight :: rat
  sk_organic_weight :: rat
  sk_provider_weight :: rat
  sk_completeness_weight :: rat
  sk_missing_data_penalty_max :: rat
  sk_missing_data_penalties :: "(string \<times> rat) list"
  sk_missing_evidence_score_caps :: "(string \<times> rat) list"
  sk_expected_groups :: int
  sk_demand :: demand_config
  sk_confidence :: confidence_config
  sk_strong_cpc :: rat
  sk_strong_paid_competition :: rat
  sk_cpc_share :: rat
  sk_paid_competition_share :: rat
  sk_high_intent_share :: rat
  sk_competitors :: competitors_config
  sk_organic_click :: organic_config
  sk_providers :: providers_config

section \<open>Components\<close>

definition bounded :: "rat \<Rightarrow> rat \<Rightarrow> rat" where
  "bounded v maximum = py_round 2 (max 0 (min maximum v))"

record calculation_step =
  st_label :: string
  st_points :: rat

record component_detail =
  cd_score :: rat
  cd_maximum_score :: rat
  cd_steps :: "calculation_step list"

definition step :: "string \<Rightarrow> rat \<Rightarrow> calculation_step" where
  "step label points = \<lparr>st_label = label, st_points = points\<rparr>"

text \<open>A step that is only listed when it moves the score by at least a ten-thousandth.\<close>

definition step_if :: "string \<Rightarrow> rat \<Rightarrow> calculation_step list" where
  "step_if label points = (if 1 / 10000 \<le> \<bar>points\<bar> then [step label (py_round 4 points)] else [])"

subsection \<open>Demand\<close>

record demand_inputs =
  dx_service_score :: rat
  dx_market_score :: rat
  dx_service_weight :: rat
  dx_market_weight :: rat
  dx_market_score_cap :: rat
  dx_market_evidence_type :: string

definition market_demand_evidence_type :: "demand_model \<Rightarrow> string" where
  "market_demand_evidence_type dm =
     (if dm_market_demand_kind dm = ''measured_local'' then ''measured_local''
      else if dm_market_demand_kind dm = ''estimated_local''
      then (if dm_market_estimator dm = ''population_share'' then ''population_estimated'' else ''estimated_local'')
      else ''missing'')"

definition total_demand_share :: "demand_config \<Rightarrow> rat" where
  "total_demand_share c = max 0 (dk_service_attractiveness_share c) + max 0 (dk_market_attractiveness_share c)"

definition service_weight :: "scoring_config \<Rightarrow> rat" where
  "service_weight cfg = sk_demand_weight cfg *
     (max 0 (dk_service_attractiveness_share (sk_demand cfg)) / total_demand_share (sk_demand cfg))"

definition market_weight :: "scoring_config \<Rightarrow> rat" where
  "market_weight cfg = sk_demand_weight cfg *
     (max 0 (dk_market_attractiveness_share (sk_demand cfg)) / total_demand_share (sk_demand cfg))"

definition service_score :: "scoring_config \<Rightarrow> demand_model \<Rightarrow> rat" where
  "service_score cfg dm =
     bounded (rat_of (dm_service_attractiveness_demand dm) /
         max 1 (dk_national_strong_volume (sk_demand cfg)) * service_weight cfg) (service_weight cfg)"

definition market_score_cap :: "scoring_config \<Rightarrow> demand_model \<Rightarrow> rat" where
  "market_score_cap cfg dm = market_weight cfg *
     min 1 (max 0 (if market_demand_evidence_type dm = ''measured_local''
       then dk_measured_maximum_credit (sk_demand cfg) else dk_estimated_maximum_credit (sk_demand cfg)))"

definition market_score :: "scoring_config \<Rightarrow> demand_model \<Rightarrow> rat" where
  "market_score cfg dm =
     bounded (or_zero (dm_estimated_market_demand dm) /
         max (1 / 100) (if market_demand_evidence_type dm = ''measured_local''
           then dk_measured_strong_volume (sk_demand cfg) else dk_estimated_strong_volume (sk_demand cfg)) *
         market_weight cfg) (market_score_cap cfg dm)"

text \<open>Without any share the inputs lack the keys of the detail: \<open>None\<close>.\<close>

definition demand_evidence :: "scoring_config \<Rightarrow> demand_model \<Rightarrow> rat \<times> demand_inputs option" where
  "demand_evidence cfg dm =
     (if total_demand_share (sk_demand cfg) \<le> 0 then (0, None)
      else (bounded (service_score cfg dm + market_score cfg dm) (sk_demand_weight cfg),
        Some \<lparr>dx_service_score = service_score cfg dm, dx_market_score = market_score cfg dm,
          dx_service_weight = py_round 2 (service_weight cfg), dx_market_weight = py_round 2 (market_weight cfg),
          dx_market_score_cap = py_round 2 (market_score_cap cfg dm),
          dx_market_evidence_type = market_demand_evidence_type dm\<rparr>))"

definition demand_component_detail ::
  "scoring_config \<Rightarrow> rat \<Rightarrow> demand_inputs option \<Rightarrow> scoring_error + component_detail" where
  "demand_component_detail cfg score inputs =
     (case inputs of
        None \<Rightarrow> Inl (ScoringKeyError ''service_attractiveness_demand'')
      | Some i \<Rightarrow> Inr \<lparr>cd_score = score, cd_maximum_score = sk_demand_weight cfg,
          cd_steps = [step ''Service attractiveness'' (dx_service_score i),
            step ''Market attractiveness'' (dx_market_score i)]\<rparr>)"

subsection \<open>Commercial value\<close>

definition total_signal_share :: "scoring_config \<Rightarrow> rat" where
  "total_signal_share cfg =
     max 0 (sk_cpc_share cfg) + max 0 (sk_paid_competition_share cfg) + max 0 (sk_high_intent_share cfg)"

definition signal_budget :: "scoring_config \<Rightarrow> rat \<Rightarrow> rat" where
  "signal_budget cfg configured =
     sk_commercial_weight cfg *
       (if 0 < total_signal_share cfg then max 0 configured / total_signal_share cfg else 0)"

definition cpc_points :: "scoring_config \<Rightarrow> rat \<Rightarrow> rat" where
  "cpc_points cfg avg_cpc =
     min (max (avg_cpc / max 1 (sk_strong_cpc cfg)) 0) 1 * signal_budget cfg (sk_cpc_share cfg)"

definition competition_points :: "scoring_config \<Rightarrow> rat \<Rightarrow> rat" where
  "competition_points cfg avg_paid_competition =
     min (max (avg_paid_competition / max (1 / 100) (sk_strong_paid_competition cfg)) 0) 1 *
       signal_budget cfg (sk_paid_competition_share cfg)"

definition intent_points :: "scoring_config \<Rightarrow> nat \<Rightarrow> nat \<Rightarrow> rat" where
  "intent_points cfg high_intent_count scored_keyword_count =
     min (max (share high_intent_count scored_keyword_count) 0) 1 * signal_budget cfg (sk_high_intent_share cfg)"

definition commercial_raw :: "scoring_config \<Rightarrow> rat \<Rightarrow> rat \<Rightarrow> nat \<Rightarrow> nat \<Rightarrow> rat" where
  "commercial_raw cfg avg_cpc avg_paid_competition high_intent_count scored_keyword_count =
     cpc_points cfg avg_cpc + competition_points cfg avg_paid_competition +
     intent_points cfg high_intent_count scored_keyword_count"

text \<open>The step that records a clamp of a raw score to the weight of its component.\<close>

definition boundary_step :: "string \<Rightarrow> rat \<Rightarrow> rat \<Rightarrow> calculation_step list" where
  "boundary_step label weight raw_score = step_if label (max 0 (min weight raw_score) - raw_score)"

definition commercial_value ::
  "scoring_config \<Rightarrow> rat \<Rightarrow> rat \<Rightarrow> nat \<Rightarrow> nat \<Rightarrow> rat \<times> component_detail" where
  "commercial_value cfg avg_cpc avg_paid_competition high_intent_count scored_keyword_count =
     (let weight = sk_commercial_weight cfg;
          raw_score = commercial_raw cfg avg_cpc avg_paid_competition high_intent_count scored_keyword_count;
          score = bounded raw_score weight
      in (score, \<lparr>cd_score = score, cd_maximum_score = weight,
            cd_steps = [step ''Advertiser value'' (py_round 4 (cpc_points cfg avg_cpc)),
              step ''Paid competition'' (py_round 4 (competition_points cfg avg_paid_competition)),
              step ''Commercial intent'' (py_round 4 (intent_points cfg high_intent_count scored_keyword_count))] @
              boundary_step ''Component cap'' weight raw_score\<rparr>))"

subsection \<open>Competitor weakness\<close>

definition text_of :: "json option \<Rightarrow> string" where
  "text_of v = (case v of Some (JStr s) \<Rightarrow> s | _ \<Rightarrow> [])"

definition archetype_of :: "competitor \<Rightarrow> string" where
  "archetype_of c =
     (let a = text_of (jget (cx_relevance_signals c) ''competitor_archetype'')
      in if a \<noteq> [] then a else if cx_page_type c \<noteq> [] then cx_page_type c else ''unknown'')"

text \<open>The weakness of one competitor: link baseline, relevance deduction, archetype adjustment.\<close>

record weakness =
  wk_archetype :: string
  wk_base :: rat
  wk_relevance_deduction :: rat
  wk_archetype_adjustment :: rat
  wk_exposure :: rat

definition wk_raw :: "weakness \<Rightarrow> rat" where
  "wk_raw w = wk_base w + wk_relevance_deduction w + wk_archetype_adjustment w"

definition wk_normalized :: "weakness \<Rightarrow> rat" where
  "wk_normalized w = max 0 (min 1 (wk_raw w))"

definition link_weakness :: "competitors_config \<Rightarrow> int option \<Rightarrow> rat" where
  "link_weakness cfg ref_domains =
     (let weak = cc_weak_referring_domains cfg; strong = cc_strong_referring_domains cfg
      in case ref_domains of
           None \<Rightarrow> cc_unknown_referring_domains_weakness cfg
         | Some n \<Rightarrow> 1 - min (max (of_int n - weak) 0) (strong - weak) / max 1 (strong - weak))"

definition direct_relevance :: "competitors_config \<Rightarrow> competitor \<Rightarrow> rat" where
  "direct_relevance cfg c =
     (let ws = max 0 (cc_service_relevance_weight cfg); wl = max 0 (cc_local_relevance_weight cfg);
          wi = max 0 (cc_interaction_relevance_weight cfg); total = ws + wl + wi;
          norm = (\<lambda>w. if 0 < total then w / total else 0);
          service = max 0 (min 1 (case cx_page_relevance_score c of None \<Rightarrow> 1 / 2 | Some q \<Rightarrow> q));
          local = max 0 (min 1 (or_zero (cx_local_relevance c)))
      in norm ws * service + norm wl * local + norm wi * (service * local))"

definition weakness_of ::
  "competitors_config \<Rightarrow> keyword_evidence list \<Rightarrow> rat \<Rightarrow> competitor \<Rightarrow> weakness" where
  "weakness_of cfg evidence unmatched c =
     (let base = link_weakness cfg (cx_referring_domains c);
          archetype = archetype_of c
      in \<lparr>wk_archetype = archetype, wk_base = base,
          wk_relevance_deduction = - (base * (cc_relevance_threat_strength cfg * direct_relevance cfg c)),
          wk_archetype_adjustment =
            (case map_of (cc_archetype_weakness_adjustments cfg) archetype of None \<Rightarrow> 0 | Some a \<Rightarrow> a),
          wk_exposure = domain_exposure_weight (competitor_exposures c cfg evidence unmatched)\<rparr>)"

text \<open>The representative queries are appended one by one, each checked against the list so far.\<close>

definition observation_queries :: "competitor list \<Rightarrow> string list" where
  "observation_queries cs =
     fold (\<lambda>c queries. if cx_serp_observations c = [] \<and> truthy_str (cx_representative_query c) \<and>
          the (cx_representative_query c) \<notin> set queries
        then queries @ [the (cx_representative_query c)] else queries) cs
       (distinct_by id [] (concat (map (\<lambda>c. map ob_query (cx_serp_observations c)) cs)))"

definition weighted :: "(weakness \<Rightarrow> rat) \<Rightarrow> weakness list \<Rightarrow> rat" where
  "weighted f ws = sum_list (map (\<lambda>w. f w * wk_exposure w) ws)"

fun title_from :: "bool \<Rightarrow> string \<Rightarrow> string" where
  "title_from boundary [] = []"
| "title_from boundary (c # s) =
     (let n = (of_char c :: nat); letter = ascii_letter c \<or> (192 \<le> n \<and> n \<noteq> 215 \<and> n \<noteq> 247)
      in (if boundary \<and> ((97 \<le> n \<and> n \<le> 122) \<or> (224 \<le> n \<and> n \<le> 254 \<and> n \<noteq> 247)) then char_of (n - 32)
          else if boundary then c else char_lower c) # title_from (\<not> letter) s)"

definition underscore_title :: "string \<Rightarrow> string" where
  "underscore_title s = title_from True (map (\<lambda>c. if c = CHR ''_'' then CHR '' '' else c) s)"

definition archetype_steps :: "rat \<Rightarrow> rat \<Rightarrow> weakness list \<Rightarrow> calculation_step list" where
  "archetype_steps total_exposure weight ws =
     List.map_filter (\<lambda>a.
        let adjustment = weighted wk_archetype_adjustment (filter (\<lambda>w. wk_archetype w = a) ws)
        in if \<bar>adjustment\<bar> < 1 / 10000 then None
           else Some (step (underscore_title a @ '' adjustment'') (py_round 4 (adjustment / total_exposure * weight))))
       (sort (remdups (map wk_archetype ws)))"

definition competitor_weakness ::
  "scoring_config \<Rightarrow> competitor list \<Rightarrow> keyword_metric list \<Rightarrow> scoring_error + (rat \<times> component_detail)" where
  "competitor_weakness cfg supplied metrics =
     (let weight = sk_competitor_weight cfg; c = sk_competitors cfg;
          weighting = og_keyword_weighting (sk_organic_click cfg);
          cs = unique_domain_competitors supplied
      in if cs = [] then Inr (0, \<lparr>cd_score = 0, cd_maximum_score = weight,
             cd_steps = [step ''Missing competitor evidence'' 0]\<rparr>)
         else and_then (query_keyword_evidence (observation_queries cs) metrics weighting) (\<lambda>evidence.
           let ws = map (weakness_of c evidence (wt_unmatched_keyword_weight weighting)) cs;
               total_exposure = sum_list (map wk_exposure ws);
               mean_of = (\<lambda>v. v / total_exposure * weight);
               score = bounded (mean_of (weighted wk_normalized ws)) weight
           in guarded [
                raise_if (list_ex (\<lambda>x. position_weight_missing (cx_serp_position x) c \<or>
                    list_ex (\<lambda>(q, position, url). position_weight_missing position c)
                      (observed_positions x)) cs) ScoringValueError,
                raise_if (total_exposure = 0) ScoringZeroDivision]
              (Inr (score, \<lparr>cd_score = score, cd_maximum_score = weight,
                cd_steps = [step ''Link weakness baseline'' (py_round 4 (mean_of (weighted wk_base ws))),
                  step ''Direct relevance threat'' (py_round 4 (mean_of (weighted wk_relevance_deduction ws)))] @
                  archetype_steps total_exposure weight ws @
                  step_if ''Boundary adjustment''
                    (mean_of (weighted wk_normalized ws - weighted wk_raw ws))\<rparr>))))"

subsection \<open>Organic click availability\<close>

definition organic_results :: "serp_page list \<Rightarrow> serp_entry list" where
  "organic_results pages = concat (map (\<lambda>pg. filter (\<lambda>r. sx_result_type r = ''organic'') (sn_results pg)) pages)"

definition weighted_serp_feature_share ::
  "serp_page list \<Rightarrow> keyword_evidence list \<Rightarrow> (serp_page \<Rightarrow> bool) \<Rightarrow> rat" where
  "weighted_serp_feature_share pages evidence pred =
     (let total_weight = sum_list (map ke_keyword_weight evidence)
      in if total_weight \<le> 0 then 0
         else sum_list (map (\<lambda>(pg, e). ke_keyword_weight e) (filter (\<lambda>(pg, e). pred pg) (zip pages evidence)))
           / total_weight)"

definition has_shopping :: "organic_config \<Rightarrow> serp_page \<Rightarrow> bool" where
  "has_shopping cfg pg \<longleftrightarrow>
     list_ex (\<lambda>t. t \<in> set (map py_lower (sn_features_present pg) @ map (py_lower \<circ> sx_result_type) (sn_results pg)))
       (map py_lower (og_shopping_product_result_types cfg))"

definition classification_penalties :: "organic_config \<Rightarrow> (string \<times> rat) list" where
  "classification_penalties cfg =
     [(''directory'', og_directory_penalty cfg), (''marketplace'', og_marketplace_penalty cfg),
      (''national_brand'', og_national_brand_penalty cfg), (''lead_generator'', og_lead_generator_penalty cfg),
      (''informational_publisher'', og_informational_publisher_penalty cfg), (''unknown'', og_unknown_penalty cfg)]"

definition position_weight :: "organic_config \<Rightarrow> int \<Rightarrow> rat" where
  "position_weight cfg position =
     (case map_of (og_serp_position_weights cfg) position of None \<Rightarrow> 0 | Some w \<Rightarrow> w)"

text \<open>The weight of the organic results of a classification, over all pages.\<close>

definition classification_weight ::
  "organic_config \<Rightarrow> serp_page list \<Rightarrow> keyword_evidence list \<Rightarrow> string \<Rightarrow> rat" where
  "classification_weight cfg pages evidence classification =
     sum_list (map (\<lambda>(pg, e). sum_list (map (\<lambda>r. ke_keyword_weight e * position_weight cfg (sx_order r))
         (filter (\<lambda>r. sx_result_type r = ''organic'' \<and> sx_classification r = classification) (sn_results pg))))
       (zip pages evidence))"

text \<open>\<open>_serp_composition\<close> and \<open>_serp_result_type_composition\<close>: counts in order of appearance.\<close>

definition count_names :: "string list \<Rightarrow> (string \<times> nat) list" where
  "count_names names = map (\<lambda>n. (n, length (filter (\<lambda>m. m = n) names))) (distinct_by id [] names)"

definition name_or_unknown :: "string \<Rightarrow> string" where
  "name_or_unknown s = (if s = [] then ''unknown'' else s)"

definition serp_composition :: "serp_entry list \<Rightarrow> (string \<times> nat) list" where
  "serp_composition results = count_names (map (name_or_unknown \<circ> sx_classification) results)"

definition serp_result_type_composition :: "serp_entry list \<Rightarrow> (string \<times> nat) list" where
  "serp_result_type_composition results = count_names (map (name_or_unknown \<circ> sx_result_type) results)"

definition count_of :: "string \<Rightarrow> (string \<times> nat) list \<Rightarrow> nat" where
  "count_of n counts = (case map_of counts n of None \<Rightarrow> 0 | Some k \<Rightarrow> k)"

definition result_capacity :: "organic_config \<Rightarrow> keyword_evidence list \<Rightarrow> rat" where
  "result_capacity cfg evidence =
     sum_list (map snd (og_serp_position_weights cfg)) * sum_list (map ke_keyword_weight evidence)"

definition class_deduction ::
  "organic_config \<Rightarrow> serp_page list \<Rightarrow> keyword_evidence list \<Rightarrow> string \<times> rat \<Rightarrow> rat" where
  "class_deduction cfg pages evidence kp =
     classification_weight cfg pages evidence (fst kp) / result_capacity cfg evidence * snd kp"

text \<open>The displacement of shopping results, local packs and top advertisements.\<close>

definition feature_deductions ::
  "organic_config \<Rightarrow> serp_page list \<Rightarrow> keyword_evidence list \<Rightarrow> (string \<times> rat \<times> rat) list" where
  "feature_deductions cfg pages evidence =
     [(''Shopping/product displacement'', weighted_serp_feature_share pages evidence (has_shopping cfg),
         og_shopping_product_penalty cfg),
      (''Local-pack displacement'',
         weighted_serp_feature_share pages evidence (\<lambda>pg. ''local_pack'' \<in> set (sn_features_present pg)),
         og_local_pack_penalty cfg),
      (''Top-ad displacement'',
         weighted_serp_feature_share pages evidence (\<lambda>pg. ''ads_top'' \<in> set (sn_features_present pg)),
         og_ads_top_penalty cfg)]"

definition availability :: "organic_config \<Rightarrow> serp_page list \<Rightarrow> keyword_evidence list \<Rightarrow> rat" where
  "availability cfg pages evidence =
     1 - sum_list (map (class_deduction cfg pages evidence) (classification_penalties cfg))
       - sum_list (map (\<lambda>(label, present, penalty). present * penalty) (feature_deductions cfg pages evidence))"

definition class_steps ::
  "organic_config \<Rightarrow> rat \<Rightarrow> serp_page list \<Rightarrow> keyword_evidence list \<Rightarrow> calculation_step list" where
  "class_steps cfg weight pages evidence =
     map (\<lambda>kp. step (underscore_title (fst kp) @ '' displacement'')
         (py_round 4 (- (class_deduction cfg pages evidence kp * weight))))
       (filter (\<lambda>kp. count_of (fst kp) (serp_composition (organic_results pages)) \<noteq> 0) (classification_penalties cfg))"

definition feature_steps ::
  "organic_config \<Rightarrow> rat \<Rightarrow> serp_page list \<Rightarrow> keyword_evidence list \<Rightarrow> calculation_step list" where
  "feature_steps cfg weight pages evidence =
     map (\<lambda>(label, present, penalty). step label (py_round 4 (- (present * penalty * weight))))
       (filter (\<lambda>(label, present, penalty). present \<noteq> 0) (feature_deductions cfg pages evidence))"

definition organic_click_availability ::
  "scoring_config \<Rightarrow> serp_page list \<Rightarrow> keyword_metric list \<Rightarrow>
   scoring_error + (rat \<times> component_detail \<times> rat)" where
  "organic_click_availability cfg pages metrics =
     (let weight = sk_organic_weight cfg; c = sk_organic_click cfg
      in if organic_results pages = [] then Inr (0, \<lparr>cd_score = 0, cd_maximum_score = weight,
             cd_steps = [step ''Missing SERP evidence'' 0]\<rparr>, 0)
         else and_then (query_keyword_evidence (map sn_query pages) metrics (og_keyword_weighting c)) (\<lambda>evidence.
           let raw_score = availability c pages evidence * weight;
               score = bounded raw_score weight
           in guarded [raise_if (result_capacity c evidence = 0) ScoringZeroDivision]
              (Inr (score, \<lparr>cd_score = score, cd_maximum_score = weight,
                cd_steps = step ''Available organic-click baseline'' weight # class_steps c weight pages evidence @
                  feature_steps c weight pages evidence @ boundary_step ''Component boundary'' weight raw_score\<rparr>,
                py_round 4 (classification_weight c pages evidence ''unknown'' / result_capacity c evidence)))))"

subsection \<open>Provider suitability\<close>

definition base_supply_fit :: "providers_config \<Rightarrow> nat \<Rightarrow> rat" where
  "base_supply_fit c n = min (of_nat n / of_int (max 1 (vc_ideal_min c))) 1"

definition supply_multiplier :: "providers_config \<Rightarrow> nat \<Rightarrow> rat" where
  "supply_multiplier c n =
     (if vc_oversupply_count c < int n then 72 / 100 else if vc_ideal_max c < int n then 88 / 100 else 1)"

definition supply_points :: "scoring_config \<Rightarrow> nat \<Rightarrow> rat" where
  "supply_points cfg n = base_supply_fit (sk_providers cfg) n * (65 / 100) * sk_provider_weight cfg"

definition supply_adjustment :: "scoring_config \<Rightarrow> nat \<Rightarrow> rat" where
  "supply_adjustment cfg n =
     (base_supply_fit (sk_providers cfg) n * supply_multiplier (sk_providers cfg) n -
      base_supply_fit (sk_providers cfg) n) * (65 / 100) * sk_provider_weight cfg"

definition quality_points :: "scoring_config \<Rightarrow> provider_summary \<Rightarrow> rat" where
  "quality_points cfg summary =
     su_average_top_suitable_provider_score summary / 100 * (35 / 100) * sk_provider_weight cfg"

definition provider_suitability :: "scoring_config \<Rightarrow> provider_listing list \<Rightarrow> rat \<times> component_detail" where
  "provider_suitability cfg providers =
     (let weight = sk_provider_weight cfg;
          summary = provider_suitability_summary providers (sk_providers cfg);
          n = su_suitable_provider_count summary;
          score = bounded (supply_points cfg n + supply_adjustment cfg n + quality_points cfg summary) weight
      in if providers = [] then (0, \<lparr>cd_score = 0, cd_maximum_score = weight,
             cd_steps = [step ''Missing provider evidence'' 0]\<rparr>)
         else (score, \<lparr>cd_score = score, cd_maximum_score = weight,
             cd_steps = step ''Suitable provider supply'' (py_round 4 (supply_points cfg n)) #
               step_if ''Supply saturation adjustment'' (supply_adjustment cfg n) @
               [step ''Top suitable provider quality'' (py_round 4 (quality_points cfg summary))]\<rparr>))"

subsection \<open>Completeness, penalties and caps\<close>

definition completeness_raw :: "scoring_config \<Rightarrow> string list \<Rightarrow> rat" where
  "completeness_raw cfg missing =
     sk_completeness_weight cfg * (1 - of_nat (length missing) / of_int (max 1 (sk_expected_groups cfg)))"

definition data_completeness :: "scoring_config \<Rightarrow> string list \<Rightarrow> rat \<times> component_detail" where
  "data_completeness cfg missing =
     (let weight = sk_completeness_weight cfg;
          score = bounded (completeness_raw cfg missing) weight
      in (score, \<lparr>cd_score = score, cd_maximum_score = weight,
            cd_steps = [step ''Expected evidence baseline'' weight,
              step ''Missing evidence groups'' (py_round 4
                (- (weight * of_nat (length missing) / of_int (max 1 (sk_expected_groups cfg)))))] @
              boundary_step ''Component boundary'' weight (completeness_raw cfg missing)\<rparr>))"

definition missing_fields ::
  "keyword_metric list \<Rightarrow> serp_page list \<Rightarrow> competitor list \<Rightarrow> provider_listing list \<Rightarrow> demand_model \<Rightarrow> string list" where
  "missing_fields metrics pages competitors providers dm =
     (if metrics = [] then [''keyword_metrics''] else []) @
     (if dm_estimated_market_demand dm = None then [''local_demand''] else []) @
     (if pages = [] then [''serp_snapshots''] else []) @
     (if competitors = [] then [''competitor_metrics''] else []) @
     (if providers = [] then [''provider_candidates''] else []) @
     (if metrics \<noteq> [] \<and> list_all (\<lambda>m. kw_cpc m = None) metrics then [''keyword_cpc''] else []) @
     (if pages \<noteq> [] \<and> list_all (\<lambda>pg. sn_results pg = []) pages then [''serp_results''] else [])"

definition raw_penalty :: "scoring_config \<Rightarrow> string \<Rightarrow> rat" where
  "raw_penalty cfg f = max 0 (case map_of (sk_missing_data_penalties cfg) f of None \<Rightarrow> 0 | Some p \<Rightarrow> p)"

definition penalty_scale :: "scoring_config \<Rightarrow> string list \<Rightarrow> rat" where
  "penalty_scale cfg missing =
     (let raw_total = sum_list (map (raw_penalty cfg) missing)
      in if sk_missing_data_penalty_max cfg < raw_total \<and> 0 < raw_total
         then sk_missing_data_penalty_max cfg / raw_total else 1)"

definition missing_data_penalties :: "scoring_config \<Rightarrow> string list \<Rightarrow> (string \<times> rat) list" where
  "missing_data_penalties cfg missing =
     (if missing = [] then []
      else map (\<lambda>f. (f, py_round 2 (raw_penalty cfg f * penalty_scale cfg missing)))
        (filter (\<lambda>f. 0 < raw_penalty cfg f) missing))"

definition evidence_status :: "string list \<Rightarrow> string \<Rightarrow> string" where
  "evidence_status missing assessment_type =
     (if assessment_type = ''preliminary'' then ''preliminary''
      else if ''competitor_metrics'' \<in> set missing then ''unusable''
      else if missing \<noteq> [] then ''partial'' else ''complete'')"

definition missing_evidence_score_cap :: "scoring_config \<Rightarrow> string list \<Rightarrow> string \<Rightarrow> rat option" where
  "missing_evidence_score_cap cfg missing assessment_type =
     (if assessment_type = ''preliminary'' then None
      else list_min (List.map_filter (map_of (sk_missing_evidence_score_caps cfg)) missing))"

section \<open>Confidence\<close>

definition source_mode :: "keyword_metric list \<Rightarrow> string option \<Rightarrow> string" where
  "source_mode metrics explicit_mode =
     (if truthy_str explicit_mode then py_lower (py_strip (the explicit_mode))
      else let mentions = (\<lambda>word. list_ex (\<lambda>m. in_text word (py_lower (kw_source m))) metrics)
           in if mentions ''fixture'' then ''fixture'' else if mentions ''sandbox'' then ''sandbox''
              else if mentions ''replay'' then ''replay'' else ''unknown'')"

definition oldest_age_days :: "instant \<Rightarrow> instant list \<Rightarrow> rat option" where
  "oldest_age_days now timestamps =
     list_max (map (\<lambda>t. max 0 (of_int (now - t) / 86400000000)) timestamps)"

definition older_than :: "rat option \<Rightarrow> rat \<Rightarrow> bool" where
  "older_than age limit \<longleftrightarrow> (case age of None \<Rightarrow> False | Some a \<Rightarrow> limit < a)"

record confidence_inputs =
  ci_missing :: "string list"
  ci_metrics :: "keyword_metric list"
  ci_pages :: "serp_page list"
  ci_competitors :: "competitor list"
  ci_providers :: "provider_listing list"
  ci_demand :: demand_model
  ci_source_mode :: "string option"
  ci_assessment_type :: string
  ci_unknown_serp_share :: rat
  ci_now :: instant

text \<open>A factor of the model: its name, the points it deducts and the level it caps at.\<close>

type_synonym confidence_factor = "string \<times> rat \<times> confidence option"

definition missing_factors :: "confidence_config \<Rightarrow> confidence_inputs \<Rightarrow> confidence_factor list" where
  "missing_factors cfg i =
     (let ordinary = filter (\<lambda>f. f \<noteq> ''local_demand'') (ci_missing i)
      in if ordinary = [] then []
         else [(''missing_evidence'', of_nat (length ordinary) * cn_missing_field cfg, None)])"

definition demand_factors :: "confidence_config \<Rightarrow> confidence_inputs \<Rightarrow> confidence_factor list" where
  "demand_factors cfg i =
     (if dm_estimated_market_demand (ci_demand i) = None
      then [(''missing_local_demand'', cn_missing_local_demand cfg, Some CF_low)]
      else if dm_market_estimation_confidence (ci_demand i) = ''low''
      then [(''low_confidence_market_estimate'', cn_low_confidence_market_estimate cfg, Some CF_medium)]
      else if dm_market_estimation_confidence (ci_demand i) = ''medium''
      then [(''medium_confidence_market_evidence'', cn_medium_confidence_market_evidence cfg, None)] else [])"

definition source_factors :: "confidence_config \<Rightarrow> confidence_inputs \<Rightarrow> confidence_factor list" where
  "source_factors cfg i =
     (let mode = source_mode (ci_metrics i) (ci_source_mode i);
          penalties = cn_source_mode_penalties cfg;
          penalty = (case map_of penalties mode of Some p \<Rightarrow> p
            | None \<Rightarrow> (case map_of penalties ''unknown'' of Some p \<Rightarrow> p | None \<Rightarrow> 0))
      in [(mode @ ''_source'', penalty,
           if mode = ''fixture'' then Some CF_low else if mode = ''sandbox'' then Some CF_medium else None)])"

definition stale_factors :: "confidence_config \<Rightarrow> confidence_inputs \<Rightarrow> confidence_factor list" where
  "stale_factors cfg i =
     (if older_than (oldest_age_days (ci_now i) (map kw_source_timestamp (ci_metrics i))) (cn_keyword_max_age_days cfg)
      then [(''stale_keyword_metrics'', cn_stale_keyword_metrics cfg, Some CF_medium)] else []) @
     (if older_than (oldest_age_days (ci_now i) (map sn_captured_at (ci_pages i))) (cn_serp_max_age_days cfg)
      then [(''stale_serps'', cn_stale_serps cfg, Some CF_medium)] else [])"

definition classification_factors :: "confidence_config \<Rightarrow> confidence_inputs \<Rightarrow> confidence_factor list" where
  "classification_factors cfg i =
     (if cn_maximum_unknown_serp_share_for_high cfg < ci_unknown_serp_share i
      then [(''unknown_serp_classification'', cn_unknown_serp_classification cfg * ci_unknown_serp_share i,
             Some CF_medium)] else [])"

definition sample_factor :: "string \<Rightarrow> nat \<Rightarrow> int \<Rightarrow> rat \<Rightarrow> confidence_factor list" where
  "sample_factor factor actual target max_deduction =
     (if target \<le> 0 \<or> target \<le> int actual then []
      else [(factor, max_deduction * (of_int (target - int actual) / of_int target), Some CF_medium)])"

definition sample_factors :: "confidence_config \<Rightarrow> confidence_inputs \<Rightarrow> confidence_factor list" where
  "sample_factors cfg i =
     sample_factor ''limited_serp_sample'' (length (ci_pages i)) (cn_representative_serp_target cfg)
       (cn_limited_serp_sample cfg) @
     sample_factor ''limited_competitor_sample'' (length (ci_competitors i)) (cn_competitor_sample_target cfg)
       (cn_limited_competitor_sample cfg) @
     sample_factor ''limited_provider_sample'' (length (ci_providers i)) (cn_provider_sample_target cfg)
       (cn_limited_provider_sample cfg)"

text \<open>The caps of the assessment deduct nothing.\<close>

definition assessment_factors :: "confidence_inputs \<Rightarrow> confidence_factor list" where
  "assessment_factors i =
     (let preliminary = (ci_assessment_type i = ''preliminary'')
      in (if ''competitor_metrics'' \<in> set (ci_missing i) \<and> \<not> preliminary
          then [(''competitor_metrics'', 0, Some CF_insufficient)] else []) @
         (if (''serp_snapshots'' \<in> set (ci_missing i) \<or> ''serp_results'' \<in> set (ci_missing i)) \<and> \<not> preliminary
          then [(''serp'', 0, Some CF_low)] else []) @
         (if preliminary then [(''preliminary'', 0, Some CF_medium)] else []))"

definition confidence_factors :: "confidence_config \<Rightarrow> confidence_inputs \<Rightarrow> confidence_factor list" where
  "confidence_factors cfg i =
     missing_factors cfg i @ demand_factors cfg i @ source_factors cfg i @ stale_factors cfg i @
     classification_factors cfg i @ sample_factors cfg i @ assessment_factors i"

definition deductions_of :: "confidence_factor list \<Rightarrow> (string \<times> rat) list" where
  "deductions_of fs = map (\<lambda>(n, p, c). (n, py_round 2 p)) (filter (\<lambda>(n, p, c). 0 < p) fs)"

definition caps_of :: "confidence_factor list \<Rightarrow> confidence list" where
  "caps_of fs = List.map_filter (\<lambda>(n, p, c). c) fs"

definition confidence_points :: "confidence_factor list \<Rightarrow> rat" where
  "confidence_points fs =
     py_round 2 (max 0 (min 100 (100 - sum_list (map (\<lambda>(n, p, c). max 0 p) fs))))"

definition level_of :: "confidence_config \<Rightarrow> rat \<Rightarrow> confidence" where
  "level_of cfg score =
     (if cn_high cfg \<le> score then CF_high else if cn_medium cfg \<le> score then CF_medium
      else if cn_low cfg \<le> score then CF_low else CF_insufficient)"

definition apply_cap :: "confidence \<Rightarrow> confidence \<Rightarrow> confidence" where
  "apply_cap cap_level c = (if confidence_rank cap_level < confidence_rank c then cap_level else c)"

record confidence_result =
  rs_confidence :: confidence
  rs_score :: rat
  rs_deductions :: "(string \<times> rat) list"
  rs_caps :: "confidence list"

definition confidence_of :: "confidence_config \<Rightarrow> confidence_inputs \<Rightarrow> confidence_result" where
  "confidence_of cfg i =
     (let fs = confidence_factors cfg i; score = confidence_points fs
      in \<lparr>rs_confidence = fold apply_cap (caps_of fs) (level_of cfg score), rs_score = score,
          rs_deductions = deductions_of fs, rs_caps = caps_of fs\<rparr>)"

section \<open>The score\<close>

record opportunity_score =
  os_total_score :: rat
  os_uncapped_total_score :: rat
  os_evidence_status :: string
  os_score_cap :: "rat option"
  os_component_scores :: "(string \<times> rat) list"
  os_component_details :: "(string \<times> component_detail) list"
  os_missing_data_penalties :: "(string \<times> rat) list"
  os_scoring_version :: string
  os_confidence :: confidence
  os_missing_fields :: "string list"
  os_assumptions :: "string list"

definition assumptions_of :: "keyword_metric list \<Rightarrow> demand_model \<Rightarrow> string list" where
  "assumptions_of metrics dm =
     (if metrics = [] then [''No keyword metrics were available.'']
      else (if list_ex (\<lambda>m. in_text ''fixture'' (kw_source m)) metrics
            then [''Fixture data is synthetic and should only be used for workflow testing.''] else []) @
        [if dm_national_service_demand dm \<noteq> None
         then (if dm_estimated_market_demand dm = None
               then ''National keyword volume supports service attractiveness only; no market-level demand value was available.''
               else ''Market demand is estimated from national keyword volume and population share; it is not provider-measured city demand.'')
         else ''Provider-local keyword volume supports market attractiveness only; no independent national volume was available for service attractiveness.''])"

definition mean_or_zero :: "rat list \<Rightarrow> rat" where
  "mean_or_zero xs = (if xs = [] then 0 else py_mean xs)"

definition final_total :: "rat \<Rightarrow> rat option \<Rightarrow> rat" where
  "final_total uncapped score_cap =
     (case score_cap of None \<Rightarrow> uncapped | Some c \<Rightarrow> py_round 2 (min uncapped c))"

text \<open>The end of \<open>score\<close>: from the scored components to the opportunity score.\<close>

definition score_result ::
  "scoring_config \<Rightarrow> instant \<Rightarrow> keyword_metric list \<Rightarrow> serp_page list \<Rightarrow> competitor list \<Rightarrow>
   provider_listing list \<Rightarrow> string option \<Rightarrow> string \<Rightarrow> keyword_metric list \<Rightarrow> demand_model \<Rightarrow> string list \<Rightarrow>
   component_detail \<Rightarrow> rat \<times> component_detail \<Rightarrow> rat \<times> component_detail \<Rightarrow>
   rat \<times> component_detail \<times> rat \<Rightarrow> opportunity_score" where
  "score_result cfg now metrics pages competitors providers mode assessment_type scored dm missing
     demand_detail cv cw oc =
     (let demand = fst (demand_evidence cfg dm);
          (commercial, commercial_detail) = cv;
          (competitor, competitor_detail) = cw;
          (organic, organic_detail, unknown_share) = oc;
          (provider, provider_detail) = provider_suitability cfg providers;
          (completeness, completeness_detail) = data_completeness cfg missing;
          penalties = missing_data_penalties cfg missing;
          total_points = demand + commercial + competitor + organic + provider + completeness
            - sum_list (map snd penalties);
          conf = confidence_of (sk_confidence cfg)
            \<lparr>ci_missing = missing, ci_metrics = scored, ci_pages = pages, ci_competitors = competitors,
              ci_providers = providers, ci_demand = dm, ci_source_mode = mode,
              ci_assessment_type = assessment_type, ci_unknown_serp_share = unknown_share, ci_now = now\<rparr>;
          score_cap = missing_evidence_score_cap cfg missing assessment_type;
          uncapped = py_round 2 (max 0 total_points)
      in \<lparr>os_total_score = final_total uncapped score_cap, os_uncapped_total_score = uncapped,
          os_evidence_status = evidence_status missing assessment_type, os_score_cap = score_cap,
          os_component_scores =
            [(''demand_evidence'', demand), (''commercial_value'', commercial),
             (''competitor_weakness'', competitor), (''organic_click_availability'', organic),
             (''provider_suitability'', provider), (''data_completeness'', completeness)],
          os_component_details =
            [(''demand_evidence'', demand_detail), (''commercial_value'', commercial_detail),
             (''competitor_weakness'', competitor_detail), (''organic_click_availability'', organic_detail),
             (''provider_suitability'', provider_detail), (''data_completeness'', completeness_detail)],
          os_missing_data_penalties = penalties, os_scoring_version = sk_version cfg,
          os_confidence = rs_confidence conf, os_missing_fields = missing,
          os_assumptions = assumptions_of metrics dm\<rparr>)"

definition score_opportunity ::
  "scoring_config \<Rightarrow> instant \<Rightarrow> keyword_metric list \<Rightarrow> serp_page list \<Rightarrow> competitor list \<Rightarrow>
   provider_listing list \<Rightarrow> market_spec \<Rightarrow> string option \<Rightarrow> string \<Rightarrow> scoring_error + opportunity_score" where
  "score_opportunity cfg now metrics pages competitors providers market mode assessment_type =
     (let scored = filter kw_included metrics;
          dm = analyze_demand scored market;
          missing = missing_fields scored pages competitors providers dm;
          high_intent = filter (\<lambda>m. kw_intent m \<in> set HIGH_INTENTS) scored;
          avg_cpc = mean_or_zero (List.map_filter kw_cpc scored);
          avg_paid = mean_or_zero (List.map_filter kw_paid_competition scored);
          (demand, demand_inputs) = demand_evidence cfg dm
      in and_then (demand_component_detail cfg demand demand_inputs) (\<lambda>demand_detail.
         let cv = commercial_value cfg avg_cpc avg_paid (length high_intent) (length scored)
         in and_then (competitor_weakness cfg competitors scored) (\<lambda>cw.
            and_then (organic_click_availability cfg pages scored) (\<lambda>oc.
            Inr (score_result cfg now metrics pages competitors providers mode assessment_type scored dm missing
              demand_detail cv cw oc)))))"

end
