(* ===== verification/Score_Bounds.thy ===== *)
theory Score_Bounds
  imports Scoring
begin

text \<open>
  What the scorer promises: scores stay within the weights and caps, the listed steps add up
  to the score, high confidence needs strong evidence, and with a sound configuration scoring
  never raises.
\<close>

section \<open>The shipped configuration\<close>

definition default_position_weights :: "(int \<times> rat) list" where
  "default_position_weights = [(1, 1), (2, 9 / 10), (3, 8 / 10), (4, 65 / 100), (5, 55 / 100),
     (6, 45 / 100), (7, 35 / 100), (8, 28 / 100), (9, 22 / 100), (10, 18 / 100)]"

definition default_scoring_config :: scoring_config where
  "default_scoring_config =
     \<lparr>sk_version = ''v2.12'', sk_demand_weight = 24, sk_commercial_weight = 16, sk_competitor_weight = 22,
       sk_organic_weight = 16, sk_provider_weight = 14, sk_completeness_weight = 8,
       sk_missing_data_penalty_max = 24,
       sk_missing_data_penalties = [(''keyword_metrics'', 8), (''keyword_cpc'', 1), (''local_demand'', 3),
         (''provider_candidates'', 4), (''competitor_metrics'', 8), (''serp_snapshots'', 10), (''serp_results'', 10)],
       sk_missing_evidence_score_caps = [(''competitor_metrics'', 40), (''serp_snapshots'', 60), (''serp_results'', 60)],
       sk_expected_groups = 7,
       sk_demand = \<lparr>dk_service_attractiveness_share = 65 / 100, dk_market_attractiveness_share = 35 / 100,
         dk_national_strong_volume = 900, dk_measured_strong_volume = 50, dk_measured_maximum_credit = 1,
         dk_estimated_strong_volume = 15, dk_estimated_maximum_credit = 40 / 100\<rparr>,
       sk_confidence = \<lparr>cn_high = 85, cn_medium = 65, cn_low = 40, cn_keyword_max_age_days = 90,
         cn_serp_max_age_days = 30, cn_representative_serp_target = 3, cn_competitor_sample_target = 3,
         cn_provider_sample_target = 2, cn_maximum_unknown_serp_share_for_high = 25 / 100,
         cn_source_mode_penalties = [(''live'', 0), (''replay'', 5), (''sandbox'', 15), (''fixture'', 25), (''unknown'', 10)],
         cn_missing_field = 8, cn_missing_local_demand = 20, cn_low_confidence_market_estimate = 12,
         cn_medium_confidence_market_evidence = 4, cn_stale_keyword_metrics = 10, cn_stale_serps = 15,
         cn_limited_serp_sample = 10, cn_limited_competitor_sample = 10, cn_limited_provider_sample = 8,
         cn_unknown_serp_classification = 10\<rparr>,
       sk_strong_cpc = 28, sk_strong_paid_competition = 8 / 10, sk_cpc_share = 5625 / 10000,
       sk_paid_competition_share = 1875 / 10000, sk_high_intent_share = 25 / 100,
       sk_competitors = \<lparr>cc_weak_referring_domains = 35, cc_strong_referring_domains = 260,
         cc_unknown_referring_domains_weakness = 45 / 100, cc_relevance_threat_strength = 65 / 100,
         cc_service_relevance_weight = 55 / 100, cc_local_relevance_weight = 25 / 100,
         cc_interaction_relevance_weight = 20 / 100, cc_unpositioned_weight = 1,
         cc_serp_position_weights = default_position_weights,
         cc_archetype_weakness_adjustments = [(''directory'', 15 / 100), (''marketplace'', 8 / 100),
           (''lead_generator'', 4 / 100), (''national_brand'', - (1 / 10)), (''local_provider'', 0),
           (''informational_publisher'', 8 / 100), (''government_or_nonprofit'', 0), (''unknown'', 0)]\<rparr>,
       sk_organic_click = \<lparr>og_serp_position_weights = default_position_weights,
         og_keyword_weighting = \<lparr>wt_demand_share = 60 / 100, wt_commercial_share = 40 / 100,
           wt_minimum_weight = 25 / 100, wt_unmatched_keyword_weight = 1\<rparr>,
         og_directory_penalty = 35 / 100, og_marketplace_penalty = 3 / 10, og_national_brand_penalty = 3 / 10,
         og_lead_generator_penalty = 2 / 10, og_informational_publisher_penalty = 1 / 10,
         og_unknown_penalty = 8 / 100, og_shopping_product_penalty = 16 / 100,
         og_shopping_product_result_types = [''shopping'', ''popular_products'', ''product_considerations'',
           ''refine_products'', ''explore_brands''],
         og_local_pack_penalty = 14 / 100, og_ads_top_penalty = 12 / 100\<rparr>,
       sk_providers = default_providers_config\<rparr>"

section \<open>Components\<close>

text \<open>Amounts with at most two decimals are what \<open>round(x, 2)\<close> keeps.\<close>

definition cents :: "rat \<Rightarrow> bool" where
  "cents x \<longleftrightarrow> 0 \<le> x \<and> py_round 2 x = x"

definition valid_weights :: "scoring_config \<Rightarrow> bool" where
  "valid_weights cfg \<longleftrightarrow> list_all cents
     [sk_demand_weight cfg, sk_commercial_weight cfg, sk_competitor_weight cfg, sk_organic_weight cfg,
      sk_provider_weight cfg, sk_completeness_weight cfg]"

lemma bounded_range: "cents w \<Longrightarrow> 0 \<le> bounded v w \<and> bounded v w \<le> w"
  using py_round_mono [of 0 "max 0 (min w v)" 2] py_round_mono [of "max 0 (min w v)" w 2]
  by (simp add: bounded_def cents_def)

lemma bounded_error: "0 \<le> w \<Longrightarrow> \<bar>bounded v w - max 0 (min w v)\<bar> \<le> 1 / 200"
  using py_round_error [of 2 "max 0 (min w v)"] by (simp add: bounded_def)

lemma demand_evidence_range:
  assumes "cents (sk_demand_weight cfg)"
  shows "0 \<le> fst (demand_evidence cfg dm) \<and> fst (demand_evidence cfg dm) \<le> sk_demand_weight cfg"
proof (cases "total_demand_share (sk_demand cfg) \<le> 0")
  case True
  then have "fst (demand_evidence cfg dm) = 0" by (simp add: demand_evidence_def)
  then show ?thesis using assms by (simp add: cents_def)
next
  case False
  then have "fst (demand_evidence cfg dm) =
      bounded (service_score cfg dm + market_score cfg dm) (sk_demand_weight cfg)"
    by (simp add: demand_evidence_def)
  then show ?thesis using bounded_range [OF assms] by metis
qed

lemma commercial_value_range:
  assumes "cents (sk_commercial_weight cfg)" "commercial_value cfg a b m n = (v, d)"
  shows "0 \<le> v \<and> v \<le> sk_commercial_weight cfg"
  using assms(2) bounded_range [OF assms(1)] by (auto simp: commercial_value_def Let_def)

lemma competitor_weakness_range:
  assumes "cents (sk_competitor_weight cfg)" "competitor_weakness cfg cs ms = Inr (v, detail)"
  shows "0 \<le> v \<and> v \<le> sk_competitor_weight cfg"
  using assms(2) bounded_range [OF assms(1)] assms(1)
  by (auto simp: competitor_weakness_def Let_def cents_def split: if_splits)

lemma organic_click_range:
  assumes "cents (sk_organic_weight cfg)" "organic_click_availability cfg pages ms = Inr (v, detail, u)"
  shows "0 \<le> v \<and> v \<le> sk_organic_weight cfg"
  using assms(2) bounded_range [OF assms(1)] assms(1)
  by (auto simp: organic_click_availability_def Let_def cents_def split: if_splits)

lemma provider_suitability_range:
  assumes "cents (sk_provider_weight cfg)"
  shows "0 \<le> fst (provider_suitability cfg ps) \<and> fst (provider_suitability cfg ps) \<le> sk_provider_weight cfg"
  using bounded_range [OF assms] assms by (simp add: provider_suitability_def Let_def cents_def)

lemma data_completeness_range:
  assumes "cents (sk_completeness_weight cfg)"
  shows "0 \<le> fst (data_completeness cfg missing) \<and> fst (data_completeness cfg missing) \<le> sk_completeness_weight cfg"
  using bounded_range [OF assms] by (simp add: data_completeness_def Let_def)

lemma penalty_scale_nonneg: "0 \<le> sk_missing_data_penalty_max cfg \<Longrightarrow> 0 \<le> penalty_scale cfg missing"
  by (simp add: penalty_scale_def Let_def)

lemma penalties_nonneg:
  assumes "0 \<le> sk_missing_data_penalty_max cfg" "(f, p) \<in> set (missing_data_penalties cfg missing)"
  shows "0 \<le> p"
proof -
  from assms(2) have p: "p = py_round 2 (raw_penalty cfg f * penalty_scale cfg missing)" "0 < raw_penalty cfg f"
    by (auto simp: missing_data_penalties_def split: if_splits)
  then have "0 \<le> raw_penalty cfg f * penalty_scale cfg missing"
    using penalty_scale_nonneg [OF assms(1)] by simp
  from py_round_mono [OF this, of 2] show ?thesis unfolding p by simp
qed

text \<open>What a successful run of the scorer computed.\<close>

lemma score_opportunity_Inr:
  assumes "score_opportunity cfg now metrics pages competitors providers market mode assessment = Inr s"
  defines "scored \<equiv> filter kw_included metrics"
  defines "dm \<equiv> analyze_demand scored market"
  defines "missing \<equiv> missing_fields scored pages competitors providers dm"
  obtains commercial cvd cw organic cwd ogd unknown dd where
    "competitor_weakness cfg competitors scored = Inr (cw, cwd)"
    "organic_click_availability cfg pages scored = Inr (organic, ogd, unknown)"
    "\<exists>a b m n. commercial_value cfg a b m n = (commercial, cvd)"
    "os_component_scores s =
       [(''demand_evidence'', fst (demand_evidence cfg dm)), (''commercial_value'', commercial),
        (''competitor_weakness'', cw), (''organic_click_availability'', organic),
        (''provider_suitability'', fst (provider_suitability cfg providers)),
        (''data_completeness'', fst (data_completeness cfg missing))]"
    "os_component_details s =
       [(''demand_evidence'', dd), (''commercial_value'', cvd), (''competitor_weakness'', cwd),
        (''organic_click_availability'', ogd), (''provider_suitability'', snd (provider_suitability cfg providers)),
        (''data_completeness'', snd (data_completeness cfg missing))]"
    "os_uncapped_total_score s = py_round 2 (max 0 (sum_list (map snd (os_component_scores s)) -
       sum_list (map snd (missing_data_penalties cfg missing))))"
    "os_score_cap s = missing_evidence_score_cap cfg missing assessment"
    "os_total_score s = final_total (os_uncapped_total_score s) (os_score_cap s)"
    "os_missing_fields s = missing" "os_evidence_status s = evidence_status missing assessment"
    "os_confidence s = rs_confidence (confidence_of (sk_confidence cfg)
       \<lparr>ci_missing = missing, ci_metrics = scored, ci_pages = pages, ci_competitors = competitors,
         ci_providers = providers, ci_demand = dm, ci_source_mode = mode,
         ci_assessment_type = assessment, ci_unknown_serp_share = unknown, ci_now = now\<rparr>)"
proof -
  let ?cv = "commercial_value cfg (mean_or_zero (List.map_filter kw_cpc scored))
    (mean_or_zero (List.map_filter kw_paid_competition scored))
    (length (filter (\<lambda>m. kw_intent m \<in> set HIGH_INTENTS) scored)) (length scored)"
  note run = assms(1) [unfolded score_opportunity_def Let_def case_prod_unfold and_then_Inr,
    folded scored_def, folded dm_def, folded missing_def]
  from run obtain cw cwd organic ogd unknown where parts:
    "competitor_weakness cfg competitors scored = Inr (cw, cwd)"
    "organic_click_availability cfg pages scored = Inr (organic, ogd, unknown)"
    by force
  from run obtain detail where s: "s = score_result cfg now metrics pages competitors providers mode assessment
    scored dm missing detail ?cv (cw, cwd) (organic, ogd, unknown)"
    unfolding parts by auto
  show thesis
    by (rule that [OF parts, of "fst ?cv" "snd ?cv" detail]) (auto simp: s score_result_def Let_def case_prod_unfold add.assoc)
qed

section \<open>Scoring never raises\<close>

text \<open>
  A weight of at least a hundredth survives the rounding to four decimals, and so does the
  product of two of them.
\<close>

definition least_weight :: rat where
  "least_weight = 1 / 100"

text \<open>What a configuration needs so that no division by zero and no missing key can occur.\<close>

definition sound_weighting :: "keyword_weighting \<Rightarrow> bool" where
  "sound_weighting w \<longleftrightarrow> 0 < wt_demand_share w \<and> 0 < wt_commercial_share w \<and>
     least_weight \<le> wt_minimum_weight w \<and> least_weight \<le> wt_unmatched_keyword_weight w"

definition sound_positions :: "(int \<times> rat) list \<Rightarrow> bool" where
  "sound_positions ws \<longleftrightarrow> ws \<noteq> [] \<and> list_all (\<lambda>(n, w). least_weight \<le> w) ws"

definition sound_config :: "scoring_config \<Rightarrow> bool" where
  "sound_config cfg \<longleftrightarrow> valid_weights cfg \<and> 0 \<le> sk_missing_data_penalty_max cfg \<and>
     list_all (\<lambda>(f, c). cents c) (sk_missing_evidence_score_caps cfg) \<and>
     0 < total_demand_share (sk_demand cfg) \<and>
     sound_weighting (og_keyword_weighting (sk_organic_click cfg)) \<and>
     sound_positions (og_serp_position_weights (sk_organic_click cfg)) \<and>
     sound_positions (cc_serp_position_weights (sk_competitors cfg)) \<and>
     least_weight \<le> cc_unpositioned_weight (sk_competitors cfg)"

lemma round_least_weight [simp]:
  "py_round 4 least_weight = least_weight"
  "py_round 4 (least_weight * least_weight) = least_weight * least_weight"
  by code_simp+

lemma least_weight_pos [simp]: "0 < least_weight" by (simp add: least_weight_def)

lemma list_min_in: "list_min xs = Some m \<Longrightarrow> m \<in> set xs"
proof -
  have "fold min ys x \<in> insert x (set ys)" for x :: 'a and ys
    by (induction ys arbitrary: x) (auto simp: min_def)
  then show "list_min xs = Some m \<Longrightarrow> m \<in> set xs" by (cases xs) (auto simp: list_min_def)
qed

lemma sum_list_pos: "xs \<noteq> [] \<Longrightarrow> (\<And>x. x \<in> set xs \<Longrightarrow> (0::rat) < x) \<Longrightarrow> 0 < sum_list xs"
proof (induction xs)
  case (Cons x xs)
  then show ?case by (cases xs) (auto intro: add_pos_pos)
qed simp

lemma weighted_signals_sum:
  assumes "sound_weighting cfg" "weighted_signals cfg v c m \<noteq> []"
  shows "0 < sum_list (map fst (weighted_signals cfg v c m))"
  using assms by (intro sum_list_pos) (auto simp: weighted_signals_def sound_weighting_def split: option.splits if_splits)

lemma evidence_weight:
  assumes "sound_weighting cfg"
  shows "least_weight \<le> ke_keyword_weight (evidence_of cfg v c q matched)"
proof (cases matched)
  case None
  with assms show ?thesis by (simp add: evidence_of_def sound_weighting_def)
next
  case (Some m)
  let ?w = "if weighted_signals cfg v c m = [] then wt_unmatched_keyword_weight cfg
    else max (wt_minimum_weight cfg) (raw_weight (weighted_signals cfg v c m))"
  have "least_weight \<le> ?w" using assms by (simp add: sound_weighting_def le_max_iff_disj)
  from py_round_mono [OF this, of 4] show ?thesis by (simp add: Some evidence_of_def Let_def)
qed

lemma query_keyword_evidence_sound:
  assumes "sound_weighting cfg"
  obtains es where "query_keyword_evidence queries metrics cfg = Inr es" "length es = length queries"
    "\<And>e. e \<in> set es \<Longrightarrow> least_weight \<le> ke_keyword_weight e"
proof -
  have pos: "signals \<noteq> [] \<Longrightarrow> sum_list (map fst signals) \<noteq> 0"
    if "signals = weighted_signals cfg v c m" for signals v c m
    using weighted_signals_sum [OF assms, of v c m] that by auto
  show thesis
    by (rule that) (auto simp: query_keyword_evidence_def Let_def list_ex_iff pos evidence_weight [OF assms])
qed

lemma sound_positions_ge: "sound_positions ws \<Longrightarrow> w \<in> set (map snd ws) \<Longrightarrow> least_weight \<le> w"
  by (auto simp: sound_positions_def list_all_iff)

lemma position_weight_sound:
  assumes "sound_positions (cc_serp_position_weights c)" "least_weight \<le> cc_unpositioned_weight c"
  shows "least_weight \<le> competitor_position_weight position c"
proof (cases position)
  case None
  with assms show ?thesis by (simp add: competitor_position_weight_def)
next
  case (Some n)
  let ?ws = "cc_serp_position_weights c"
  note all = sound_positions_ge [OF assms(1)]
  obtain w where w: "list_min (map snd ?ws) = Some w"
    using assms(1) by (cases "list_min (map snd ?ws)") (auto simp: sound_positions_def)
  with all have "least_weight \<le> w" using list_min_in by blast
  moreover have "least_weight \<le> u" if "map_of ?ws n = Some u" for u
    using map_of_SomeD [OF that] all by force
  ultimately show ?thesis using w by (auto simp: Some competitor_position_weight_def split: option.splits)
qed

lemma exposure_pos:
  assumes "sound_positions (cc_serp_position_weights c)" "least_weight \<le> cc_unpositioned_weight c"
    and "least_weight \<le> unmatched" "\<And>e. e \<in> set es \<Longrightarrow> least_weight \<le> ke_keyword_weight e"
  shows "0 < domain_exposure_weight (competitor_exposures x c es unmatched)"
proof -
  have found: "least_weight \<le> ke_keyword_weight e" if "evidence_by_query es q = Some e" for q e
    using map_of_SomeD [OF that [unfolded evidence_by_query_def]] assms(4) by auto
  have "0 < py_round 4 (max (1 / 10000) kw * competitor_position_weight p c)" if "least_weight \<le> kw" for kw p
  proof -
    have "least_weight * least_weight \<le> max (1 / 10000) kw * competitor_position_weight p c"
      using that position_weight_sound [OF assms(1,2), of p]
      by (intro mult_mono) (auto simp: le_max_iff_disj intro: order.trans [OF less_imp_le [OF least_weight_pos]])
    from py_round_mono [OF this, of 4] show ?thesis
      by (simp add: order.strict_trans2 [of 0 "least_weight * least_weight"])
  qed
  then show ?thesis unfolding domain_exposure_weight_def
    by (intro sum_list_pos)
      (auto simp: competitor_exposures_def observed_positions_def Let_def assms(3) found split: option.split)
qed

lemma competitor_weakness_total:
  assumes "sound_config cfg"
  obtains v detail where "competitor_weakness cfg cs ms = Inr (v, detail)"
proof (cases "unique_domain_competitors cs = []")
  case True
  show ?thesis by (rule that) (simp add: competitor_weakness_def True)
next
  case False
  let ?c = "sk_competitors cfg" and ?w = "og_keyword_weighting (sk_organic_click cfg)"
  have cfg: "sound_positions (cc_serp_position_weights ?c)" "least_weight \<le> cc_unpositioned_weight ?c"
    "sound_weighting ?w"
    using assms by (simp_all add: sound_config_def)
  then have unmatched: "least_weight \<le> wt_unmatched_keyword_weight ?w" by (simp add: sound_weighting_def)
  obtain es where es: "query_keyword_evidence (observation_queries (unique_domain_competitors cs)) ms ?w = Inr es"
    "\<And>e. e \<in> set es \<Longrightarrow> least_weight \<le> ke_keyword_weight e"
    by (rule query_keyword_evidence_sound [OF cfg(3)]) blast
  let ?ws = "map (weakness_of ?c es (wt_unmatched_keyword_weight ?w)) (unique_domain_competitors cs)"
  have "0 < sum_list (map wk_exposure ?ws)"
    using False exposure_pos [OF cfg(1,2) unmatched es(2)]
    by (intro sum_list_pos) (auto simp: weakness_of_def Let_def)
  moreover have "\<not> position_weight_missing p ?c" for p
    using cfg(1) by (simp add: position_weight_missing_def sound_positions_def)
  ultimately show ?thesis using that False es(1)
    by (auto simp: competitor_weakness_def Let_def list_ex_iff)
qed

lemma organic_click_total:
  assumes "sound_config cfg"
  obtains v detail u where "organic_click_availability cfg pages ms = Inr (v, detail, u)"
proof (cases "organic_results pages = []")
  case True
  show ?thesis by (rule that) (simp add: organic_click_availability_def True)
next
  case False
  let ?c = "sk_organic_click cfg"
  have cfg: "sound_positions (og_serp_position_weights ?c)" "sound_weighting (og_keyword_weighting ?c)"
    using assms by (simp_all add: sound_config_def)
  from False have pages: "pages \<noteq> []" by (auto simp: organic_results_def)
  obtain es where es: "query_keyword_evidence (map sn_query pages) ms (og_keyword_weighting ?c) = Inr es"
    "length es = length pages" "\<And>e. e \<in> set es \<Longrightarrow> least_weight \<le> ke_keyword_weight e"
    by (rule query_keyword_evidence_sound [OF cfg(2), of "map sn_query pages" ms]) auto
  have "0 < sum_list (map snd (og_serp_position_weights ?c))"
    using cfg(1) sound_positions_ge [OF cfg(1)] by (intro sum_list_pos)
      (auto simp: sound_positions_def intro: order.strict_trans2 [OF least_weight_pos])
  moreover have "0 < sum_list (map ke_keyword_weight es)"
    using pages es(2) by (intro sum_list_pos) (auto intro: order.strict_trans2 [OF least_weight_pos es(3)])
  ultimately have "result_capacity ?c es \<noteq> 0" by (simp add: result_capacity_def)
  with that False es(1) show ?thesis by (auto simp: organic_click_availability_def Let_def)
qed

lemma score_opportunity_total:
  assumes "sound_config cfg"
  obtains s where "score_opportunity cfg now metrics pages competitors providers market mode assessment = Inr s"
proof -
  let ?scored = "filter kw_included metrics"
  obtain v detail where c: "competitor_weakness cfg competitors ?scored = Inr (v, detail)"
    by (rule competitor_weakness_total [OF assms])
  obtain v' detail' u where o': "organic_click_availability cfg pages ?scored = Inr (v', detail', u)"
    by (rule organic_click_total [OF assms])
  have "\<not> total_demand_share (sk_demand cfg) \<le> 0" using assms by (simp add: sound_config_def)
  then have "\<exists>x i. demand_evidence cfg (analyze_demand ?scored market) = (x, Some i)"
    by (simp add: demand_evidence_def)
  then show ?thesis using that c o'
    by (auto simp: score_opportunity_def demand_component_detail_def Let_def case_prod_unfold)
qed

section \<open>The range of the score\<close>

lemma cents_iff: "cents x \<longleftrightarrow> 0 \<le> x \<and> (\<exists>k::int. x = of_int k / 100)"
proof
  assume "cents x"
  then have "0 \<le> x" "x = of_int (round_half_even (x * 100)) / 100"
    unfolding cents_def py_round_def by simp_all
  then show "0 \<le> x \<and> (\<exists>k::int. x = of_int k / 100)" by blast
next
  assume "0 \<le> x \<and> (\<exists>k::int. x = of_int k / 100)"
  then show "cents x" using py_round_int [of 0] by (auto simp: cents_def py_round_def)
qed

lemma cents_add: "cents x \<Longrightarrow> cents y \<Longrightarrow> cents (x + y)"
proof -
  have "(of_int j / 100 + of_int k / 100 :: rat) = of_int (j + k) / 100" for j k by simp
  then show "cents x \<Longrightarrow> cents y \<Longrightarrow> cents (x + y)" unfolding cents_iff by fastforce
qed

lemma cents_sum: "list_all cents xs \<Longrightarrow> cents (sum_list xs)"
  by (induction xs) (simp_all add: cents_add, simp add: cents_def)

definition component_weights :: "scoring_config \<Rightarrow> rat list" where
  "component_weights cfg =
     [sk_demand_weight cfg, sk_commercial_weight cfg, sk_competitor_weight cfg, sk_organic_weight cfg,
      sk_provider_weight cfg, sk_completeness_weight cfg]"

lemma penalties_sum_nonneg:
  "0 \<le> sk_missing_data_penalty_max cfg \<Longrightarrow> 0 \<le> sum_list (map snd (missing_data_penalties cfg missing))"
  using penalties_nonneg by (intro sum_list_nonneg) auto

lemma component_scores_range:
  assumes "sound_config cfg"
    and "score_opportunity cfg now metrics pages competitors providers market mode assessment = Inr s"
  shows "list_all2 (\<lambda>(name, x) w. 0 \<le> x \<and> x \<le> w) (os_component_scores s) (component_weights cfg)"
proof -
  have w: "cents (sk_demand_weight cfg)" "cents (sk_commercial_weight cfg)" "cents (sk_competitor_weight cfg)"
    "cents (sk_organic_weight cfg)" "cents (sk_provider_weight cfg)" "cents (sk_completeness_weight cfg)"
    using assms(1) by (simp_all add: sound_config_def valid_weights_def)
  show ?thesis
    by (rule score_opportunity_Inr [OF assms(2)])
      (auto simp: component_weights_def demand_evidence_range [OF w(1)] commercial_value_range [OF w(2)]
        competitor_weakness_range [OF w(3)] organic_click_range [OF w(4)] provider_suitability_range [OF w(5)]
        data_completeness_range [OF w(6)])
qed

lemma list_all2_sum_le:
  "list_all2 (\<lambda>(name, x) w. 0 \<le> x \<and> x \<le> w) xs ws \<Longrightarrow> sum_list (map snd xs) \<le> (sum_list ws :: rat)"
  by (induction rule: list_all2_induct) (auto intro: add_mono)

lemma uncapped_range:
  assumes "cents w" "x \<le> w"
  shows "0 \<le> py_round 2 (max 0 x) \<and> py_round 2 (max 0 x) \<le> w"
  using assms py_round_mono [of 0 "max 0 x" 2] py_round_mono [of "max 0 x" w 2] by (simp add: cents_def)

lemma final_total_range:
  assumes "py_round 2 u = u" "0 \<le> u" "\<And>c. score_cap = Some c \<Longrightarrow> cents c"
  shows "0 \<le> final_total u score_cap \<and> final_total u score_cap \<le> u \<and>
    (\<forall>c. score_cap = Some c \<longrightarrow> final_total u score_cap \<le> c)"
proof (cases score_cap)
  case None
  with assms show ?thesis by (simp add: final_total_def)
next
  case (Some c)
  with assms(3) have "cents c" by simp
  then show ?thesis
    using assms(1,2) Some py_round_mono [of 0 "min u c" 2] py_round_mono [of "min u c" u 2]
      py_round_mono [of "min u c" c 2] by (simp add: final_total_def cents_def)
qed

lemma score_cap_cents:
  assumes "list_all (\<lambda>(f, c). cents c) (sk_missing_evidence_score_caps cfg)"
    "missing_evidence_score_cap cfg missing assessment = Some c"
  shows "cents c"
proof -
  from assms(2) have "c \<in> set (List.map_filter (map_of (sk_missing_evidence_score_caps cfg)) missing)"
    by (auto simp: missing_evidence_score_cap_def dest: list_min_in split: if_splits)
  then obtain f where "map_of (sk_missing_evidence_score_caps cfg) f = Some c" by (auto simp: map_filter_def)
  from map_of_SomeD [OF this] assms(1) show ?thesis by (auto simp: list_all_iff)
qed

text \<open>
  C16: With a configuration of positive shares and weights in whole cents, such as the shipped
  one, scoring always returns: whatever keywords, result pages, competitors and providers it is
  given, no division by zero and no missing key is raised. Every component lies between zero and
  its weight, the total is not negative, at most the score before caps and at most the cap for
  missing evidence, and the score before caps is at most the sum of the weights.
\<close>

theorem score_within_bounds:
  assumes "sound_config cfg"
  shows "\<exists>s. score_opportunity cfg now metrics pages competitors providers market mode assessment = Inr s \<and>
    list_all2 (\<lambda>(name, x) w. 0 \<le> x \<and> x \<le> w) (os_component_scores s) (component_weights cfg) \<and>
    0 \<le> os_total_score s \<and> os_total_score s \<le> os_uncapped_total_score s \<and>
    os_uncapped_total_score s \<le> sum_list (component_weights cfg) \<and>
    (\<forall>c. os_score_cap s = Some c \<longrightarrow> os_total_score s \<le> c)"
proof -
  obtain s where s: "score_opportunity cfg now metrics pages competitors providers market mode assessment = Inr s"
    by (rule score_opportunity_total [OF assms])
  note range = component_scores_range [OF assms s]
  have cfg: "cents (sum_list (component_weights cfg))" "0 \<le> sk_missing_data_penalty_max cfg"
    "list_all (\<lambda>(f, c). cents c) (sk_missing_evidence_score_caps cfg)"
    using assms cents_sum [of "component_weights cfg"]
    by (simp_all add: sound_config_def valid_weights_def component_weights_def)
  obtain missing where run:
    "os_uncapped_total_score s = py_round 2 (max 0 (sum_list (map snd (os_component_scores s)) -
       sum_list (map snd (missing_data_penalties cfg missing))))"
    "os_score_cap s = missing_evidence_score_cap cfg missing assessment"
    "os_total_score s = final_total (os_uncapped_total_score s) (os_score_cap s)"
    by (rule score_opportunity_Inr [OF s])
  have "0 \<le> os_uncapped_total_score s \<and> os_uncapped_total_score s \<le> sum_list (component_weights cfg)"
    unfolding run(1) using penalties_sum_nonneg [OF cfg(2), of missing] list_all2_sum_le [OF range]
    by (intro uncapped_range [OF cfg(1)]) linarith
  moreover have "py_round 2 (os_uncapped_total_score s) = os_uncapped_total_score s"
    unfolding run(1) by (rule py_round_idem)
  ultimately show ?thesis
    using s range run(3) final_total_range [of "os_uncapped_total_score s" "os_score_cap s"]
      score_cap_cents [OF cfg(3), of missing assessment] run(2) by auto
qed

lemma default_config_sound: "sound_config default_scoring_config"
  by code_simp

theorem score_within_bounds_witness:
  "\<exists>s. score_opportunity default_scoring_config 0 [sample_metric] [] [] [] sample_market_spec None ''full'' = Inr s \<and>
    list_all2 (\<lambda>(name, x) w. 0 \<le> x \<and> x \<le> w) (os_component_scores s) (component_weights default_scoring_config) \<and>
    0 \<le> os_total_score s \<and> os_uncapped_total_score s \<le> 100"
  using score_within_bounds [OF default_config_sound, of 0 "[sample_metric]" "[]" "[]" "[]" sample_market_spec None "''full''"]
  by (fastforce simp: component_weights_def default_scoring_config_def)

end
