(* ===== verification/Score_Confidence.thy ===== *)
theory Score_Confidence
  imports Score_Bounds
begin

text \<open>
  The confidence of a score and the explanation of its components: a high confidence rules out
  every weak kind of evidence, the listed steps add up to the score of their component, and the
  demand shares that make scoring raise.
\<close>

section \<open>Confidence\<close>

lemma apply_cap_min: "apply_cap c d = min c d"
  by (cases c; cases d) (simp_all add: apply_cap_def min_def)

lemma fold_caps_le:
  "fold apply_cap caps level \<le> level" "c \<in> set caps \<Longrightarrow> fold apply_cap caps level \<le> c"
proof -
  have eq: "fold apply_cap caps level = fold min caps level" by (rule fold_cong) (auto simp: apply_cap_min)
  show "fold apply_cap caps level \<le> level" "c \<in> set caps \<Longrightarrow> fold apply_cap caps level \<le> c"
    unfolding eq by (rule fold_min_le, erule fold_min_le)
qed

lemma high_top: "CF_high \<le> c \<longleftrightarrow> c = CF_high"
  by (cases c) simp_all

text \<open>The factors that cap the level below high.\<close>

definition capped :: "confidence_factor list \<Rightarrow> bool" where
  "capped fs \<longleftrightarrow> list_ex (\<lambda>(n, p, c). c \<noteq> None \<and> c \<noteq> Some CF_high) fs"

lemma capped_append [simp]: "capped (xs @ ys) \<longleftrightarrow> capped xs \<or> capped ys"
  by (simp add: capped_def)

lemma high_not_capped:
  assumes "rs_confidence (confidence_of cfg i) = CF_high"
  shows "\<not> capped (confidence_factors cfg i)" "cn_high cfg \<le> confidence_points (confidence_factors cfg i)"
proof -
  let ?fs = "confidence_factors cfg i"
  have high: "fold apply_cap (caps_of ?fs) (level_of cfg (confidence_points ?fs)) = CF_high"
    using assms by (simp add: confidence_of_def Let_def)
  have "c = CF_high" if "c \<in> set (caps_of ?fs)" for c
    using fold_caps_le(2) [OF that, of "level_of cfg (confidence_points ?fs)"] by (simp add: high high_top)
  then show "\<not> capped ?fs" by (fastforce simp: capped_def caps_of_def map_filter_def list_ex_iff)
  have "level_of cfg (confidence_points ?fs) = CF_high"
    using fold_caps_le(1) [of "caps_of ?fs" "level_of cfg (confidence_points ?fs)"] by (simp add: high high_top)
  then show "cn_high cfg \<le> confidence_points ?fs" by (simp add: level_of_def split: if_splits)
qed

lemma capped_demand:
  "capped (demand_factors cfg i) \<longleftrightarrow> dm_estimated_market_demand (ci_demand i) = None \<or>
     dm_market_estimation_confidence (ci_demand i) = ''low''"
  by (auto simp: capped_def demand_factors_def)

lemma capped_source:
  "capped (source_factors cfg i) \<longleftrightarrow> source_mode (ci_metrics i) (ci_source_mode i) \<in> {''fixture'', ''sandbox''}"
  by (simp add: capped_def source_factors_def Let_def)

definition age_days :: "instant \<Rightarrow> instant \<Rightarrow> rat" where
  "age_days now t = of_int (now - t) / 86400000000"

lemma not_older:
  assumes "\<not> older_than (oldest_age_days now ts) limit" "t \<in> set ts"
  shows "age_days now t \<le> limit"
proof -
  let ?ages = "map (\<lambda>t. max 0 (age_days now t)) ts"
  obtain m where m: "list_max ?ages = Some m" using assms(2) by (cases "list_max ?ages") auto
  then have "max 0 (age_days now t) \<le> m" using assms(2) by (intro list_max_ge [OF m]) simp
  moreover have "oldest_age_days now ts = Some m" using m unfolding oldest_age_days_def age_days_def .
  then have "m \<le> limit" using assms(1) by (simp add: older_than_def)
  ultimately show ?thesis by simp
qed

lemma not_capped_stale:
  assumes "\<not> capped (stale_factors cfg i)"
  shows "\<forall>m \<in> set (ci_metrics i). age_days (ci_now i) (kw_source_timestamp m) \<le> cn_keyword_max_age_days cfg"
    "\<forall>pg \<in> set (ci_pages i). age_days (ci_now i) (sn_captured_at pg) \<le> cn_serp_max_age_days cfg"
  using assms by (auto simp: capped_def stale_factors_def split: if_splits intro!: not_older)

lemma capped_classification:
  "capped (classification_factors cfg i) \<longleftrightarrow>
     cn_maximum_unknown_serp_share_for_high cfg < ci_unknown_serp_share i"
  by (simp add: capped_def classification_factors_def)

lemma capped_sample: "capped (sample_factor f n target p) \<longleftrightarrow> 0 < target \<and> int n < target"
  by (auto simp: capped_def sample_factor_def)

lemma capped_assessment:
  "capped (assessment_factors i) \<longleftrightarrow> ci_assessment_type i = ''preliminary'' \<or>
     list_ex (\<lambda>f. f \<in> set (ci_missing i)) [''competitor_metrics'', ''serp_snapshots'', ''serp_results'']"
  by (auto simp: capped_def assessment_factors_def Let_def)

text \<open>
  C17: A score is reported with high confidence only on strong evidence: market demand is known
  and not a low-confidence estimate, the data come neither from fixtures nor from the sandbox (replayed and
  unlabelled data only cost points and can still reach high confidence), no
  keyword metric and no result page is older than its limit, the unclassified share of the
  results is within its limit, the samples of result pages, competitors and providers reach
  their targets, the assessment is not preliminary, and competitors and results are present.
\<close>

theorem high_confidence_requires_evidence:
  assumes "score_opportunity cfg now metrics pages competitors providers market mode assessment = Inr s"
    and "os_confidence s = CF_high"
  shows "let scored = filter kw_included metrics; dm = analyze_demand scored market; c = sk_confidence cfg in
    dm_estimated_market_demand dm \<noteq> None \<and> dm_market_estimation_confidence dm \<noteq> ''low'' \<and>
    source_mode scored mode \<notin> {''fixture'', ''sandbox''} \<and>
    (\<forall>m \<in> set scored. age_days now (kw_source_timestamp m) \<le> cn_keyword_max_age_days c) \<and>
    (\<forall>pg \<in> set pages. age_days now (sn_captured_at pg) \<le> cn_serp_max_age_days c) \<and>
    (\<forall>v d u. organic_click_availability cfg pages scored = Inr (v, d, u) \<longrightarrow>
       u \<le> cn_maximum_unknown_serp_share_for_high c) \<and>
    cn_representative_serp_target c \<le> int (length pages) \<and>
    cn_competitor_sample_target c \<le> int (length competitors) \<and>
    cn_provider_sample_target c \<le> int (length providers) \<and>
    assessment \<noteq> ''preliminary'' \<and> competitors \<noteq> [] \<and> (\<exists>pg \<in> set pages. sn_results pg \<noteq> [])"
proof -
  let ?scored = "filter kw_included metrics"
  let ?dm = "analyze_demand ?scored market"
  let ?missing = "missing_fields ?scored pages competitors providers ?dm"
  obtain v d u where organic: "organic_click_availability cfg pages ?scored = Inr (v, d, u)"
    and conf: "os_confidence s = rs_confidence (confidence_of (sk_confidence cfg)
       \<lparr>ci_missing = ?missing, ci_metrics = ?scored, ci_pages = pages, ci_competitors = competitors,
         ci_providers = providers, ci_demand = ?dm, ci_source_mode = mode,
         ci_assessment_type = assessment, ci_unknown_serp_share = u, ci_now = now\<rparr>)"
    by (rule score_opportunity_Inr [OF assms(1)])
  let ?i = "\<lparr>ci_missing = ?missing, ci_metrics = ?scored, ci_pages = pages, ci_competitors = competitors,
         ci_providers = providers, ci_demand = ?dm, ci_source_mode = mode,
         ci_assessment_type = assessment, ci_unknown_serp_share = u, ci_now = now\<rparr>"
  have fs: "\<not> capped (confidence_factors (sk_confidence cfg) ?i)"
    by (rule high_not_capped(1)) (simp add: conf [symmetric] assms(2))
  then have parts: "\<not> capped (demand_factors (sk_confidence cfg) ?i)" "\<not> capped (source_factors (sk_confidence cfg) ?i)"
    "\<not> capped (stale_factors (sk_confidence cfg) ?i)" "\<not> capped (classification_factors (sk_confidence cfg) ?i)"
    "\<not> capped (sample_factors (sk_confidence cfg) ?i)" "\<not> capped (assessment_factors ?i)"
    by (simp_all add: confidence_factors_def)
  have missing: "assessment \<noteq> ''preliminary''" "''competitor_metrics'' \<notin> set ?missing"
    "''serp_snapshots'' \<notin> set ?missing" "''serp_results'' \<notin> set ?missing"
    using parts(6) by (auto simp: capped_assessment)
  then have present: "competitors \<noteq> []" "pages \<noteq> []" "\<exists>pg \<in> set pages. sn_results pg \<noteq> []"
    by (auto simp: missing_fields_def list_all_iff split: if_splits)
  have samples: "cn_representative_serp_target (sk_confidence cfg) \<le> int (length pages)"
    "cn_competitor_sample_target (sk_confidence cfg) \<le> int (length competitors)"
    "cn_provider_sample_target (sk_confidence cfg) \<le> int (length providers)"
    using parts(5) by (auto simp: sample_factors_def capped_sample)
  from parts(1,2,4) not_capped_stale [OF parts(3)] samples missing(1) present organic
  show ?thesis by (simp add: Let_def capped_demand capped_source capped_classification not_less)
qed

lemma unknown_share_zero:
  assumes "organic_click_availability cfg pages metrics = Inr (v, d, u)"
    "list_all (\<lambda>r. sx_classification r \<noteq> ''unknown'') (organic_results pages)"
  shows "u = 0"
proof -
  have none: "filter (\<lambda>r. sx_result_type r = ''organic'' \<and> sx_classification r = ''unknown'') (sn_results pg) = []"
    if "pg \<in> set pages" for pg
    using assms(2) that by (force simp: organic_results_def list_all_iff filter_empty_conv)
  have "classification_weight (sk_organic_click cfg) pages es ''unknown'' = 0" for es
  proof -
    have "map (\<lambda>(pg, e). sum_list (map (\<lambda>r. ke_keyword_weight e * position_weight (sk_organic_click cfg) (sx_order r))
        (filter (\<lambda>r. sx_result_type r = ''organic'' \<and> sx_classification r = ''unknown'') (sn_results pg))))
      (zip pages es) = map (\<lambda>x. 0) (zip pages es)"
      by (rule map_cong) (auto simp: none dest!: set_zip_leftD)
    from arg_cong [OF this, of sum_list] show ?thesis
      unfolding classification_weight_def by (simp only: sum_list_0)
  qed
  then show ?thesis using assms(1)
    by (auto simp: organic_click_availability_def Let_def split: if_splits)
qed

definition sample_local_metric :: keyword_metric where
  "sample_local_metric = sample_metric\<lparr>kw_search_volume := Some 60, kw_market_granularity := ''city''\<rparr>"

definition sample_rival :: "string \<Rightarrow> int \<Rightarrow> competitor" where
  "sample_rival domain position = \<lparr>cx_url = ''https://'' @ domain @ ''/'', cx_domain = domain,
     cx_referring_domains = Some 20, cx_backlinks = None, cx_authority = None,
     cx_domain_referring_domains = Some 20, cx_domain_backlinks = None, cx_domain_authority = None,
     cx_page_relevance_score = Some (1 / 2), cx_local_relevance = Some 0, cx_page_type = ''directory'',
     cx_relevance_signals = [], cx_representative_query = Some ''boiler repair'',
     cx_serp_position = Some position, cx_serp_observations = []\<rparr>"

definition sample_ranked_page :: "string \<Rightarrow> serp_page" where
  "sample_ranked_page query =
     sample_page query [(sample_entry 1 ''a.com'')\<lparr>sx_classification := ''local_provider''\<rparr>]"

definition sample_listings :: "provider_listing list" where
  "sample_listings = [sample_closed_listing, sample_closed_listing\<lparr>px_name := ''Best''\<rparr>]"

definition sample_rivals :: "competitor list" where
  "sample_rivals = [sample_rival ''a.com'' 1, sample_rival ''b.com'' 2, sample_rival ''c.com'' 3]"

definition sample_ranked_pages :: "serp_page list" where
  "sample_ranked_pages = map sample_ranked_page [''boiler repair'', ''boiler'', ''boilers'']"

theorem high_confidence_requires_evidence_witness:
  "\<exists>s. score_opportunity default_scoring_config 86400000000 [sample_local_metric] sample_ranked_pages
      sample_rivals sample_listings sample_market_spec (Some ''live'') ''full'' = Inr s \<and>
    os_confidence s = CF_high \<and> source_mode [sample_local_metric] (Some ''live'') \<notin> {''fixture'', ''sandbox''} \<and>
    cn_provider_sample_target (sk_confidence default_scoring_config) \<le> int (length sample_listings)"
proof -
  obtain s where s: "score_opportunity default_scoring_config 86400000000 [sample_local_metric] sample_ranked_pages
      sample_rivals sample_listings sample_market_spec (Some ''live'') ''full'' = Inr s"
    by (rule score_opportunity_total [OF default_config_sound])
  have scored: "filter kw_included [sample_local_metric] = [sample_local_metric]" by code_simp
  have classified: "list_all (\<lambda>r. sx_classification r \<noteq> ''unknown'') (organic_results sample_ranked_pages)"
    by code_simp
  have "os_confidence s = CF_high"
    using s
  proof (rule score_opportunity_Inr)
    fix v d u'
    assume "organic_click_availability default_scoring_config sample_ranked_pages
        (filter kw_included [sample_local_metric]) = Inr (v, d, u')"
    then have u': "u' = 0" by (rule unknown_share_zero [OF _ classified])
    show ?thesis if "os_confidence s = rs_confidence (confidence_of (sk_confidence default_scoring_config)
       \<lparr>ci_missing = missing_fields (filter kw_included [sample_local_metric]) sample_ranked_pages sample_rivals
           sample_listings (analyze_demand (filter kw_included [sample_local_metric]) sample_market_spec),
         ci_metrics = filter kw_included [sample_local_metric], ci_pages = sample_ranked_pages,
         ci_competitors = sample_rivals, ci_providers = sample_listings,
         ci_demand = analyze_demand (filter kw_included [sample_local_metric]) sample_market_spec,
         ci_source_mode = Some ''live'', ci_assessment_type = ''full'', ci_unknown_serp_share = u',
         ci_now = 86400000000\<rparr>)"
      unfolding that u' by code_simp
  qed
  with high_confidence_requires_evidence [OF s this, unfolded scored Let_def] s show ?thesis by blast
qed

section \<open>The steps explain the score\<close>

definition steps_sum :: "calculation_step list \<Rightarrow> rat" where
  "steps_sum steps = sum_list (map st_points steps)"

definition explains :: "component_detail \<Rightarrow> rat \<Rightarrow> bool" where
  "explains d v \<longleftrightarrow> \<bar>steps_sum (cd_steps d) - v\<bar> \<le> 1 / 100"

lemma steps_sum_simps [simp]:
  "steps_sum [] = 0" "steps_sum (step l p # ss) = p + steps_sum ss"
  "steps_sum (ss @ ts) = steps_sum ss + steps_sum ts"
  by (simp_all add: steps_sum_def step_def)

lemma round4_error: "\<bar>py_round 4 x - x\<bar> \<le> 1 / 20000"
  using py_round_error [of 4 x] by simp

lemma step_if_error: "\<bar>steps_sum (step_if label p) - p\<bar> \<le> 1 / 10000"
  using round4_error [of p] by (simp add: step_if_def)

lemma rounded_steps_error:
  "\<bar>steps_sum (map (\<lambda>x. step (l x) (py_round 4 (f x))) xs) - sum_list (map f xs)\<bar> \<le> of_nat (length xs) / 20000"
proof (induction xs)
  case (Cons x xs)
  have "of_nat (length (x # xs)) / 20000 = of_nat (length xs) / 20000 + (1 / 20000 :: rat)"
    by (simp add: add_divide_distrib)
  then show ?case using Cons round4_error [of "f x"] by (simp only: list.map steps_sum_simps sum_list.Cons)
qed simp

text \<open>The boundary step makes up what the clamp takes away, so only rounding remains.\<close>

lemma boundary_explains:
  assumes "\<bar>p - raw\<bar> \<le> 1 / 1000" "0 \<le> w"
  shows "\<bar>p + steps_sum (boundary_step l w raw) - bounded raw w\<bar> \<le> 1 / 100"
  using assms(1) step_if_error [of l "max 0 (min w raw) - raw"] bounded_error [OF assms(2), of raw]
  unfolding boundary_step_def by linarith

lemma commercial_steps:
  assumes "0 \<le> sk_commercial_weight cfg" "commercial_value cfg a b m n = (v, d)"
  shows "explains d v"
proof -
  let ?p = "py_round 4 (cpc_points cfg a) + py_round 4 (competition_points cfg b) + py_round 4 (intent_points cfg m n)"
  have "\<bar>?p - commercial_raw cfg a b m n\<bar> \<le> 1 / 1000"
    using round4_error [of "cpc_points cfg a"] round4_error [of "competition_points cfg b"]
      round4_error [of "intent_points cfg m n"] unfolding commercial_raw_def by linarith
  from boundary_explains [OF this assms(1), of "''Component cap''"] assms(2) show ?thesis
    by (auto simp: explains_def commercial_value_def Let_def add.assoc)
qed

lemma completeness_steps:
  assumes "0 \<le> sk_completeness_weight cfg" "data_completeness cfg missing = (v, d)"
  shows "explains d v"
proof -
  let ?w = "sk_completeness_weight cfg"
  let ?loss = "- (?w * of_nat (length missing) / of_int (max 1 (sk_expected_groups cfg)))"
  have "completeness_raw cfg missing = ?w + ?loss" by (simp add: completeness_raw_def algebra_simps)
  then have "\<bar>?w + py_round 4 ?loss - completeness_raw cfg missing\<bar> \<le> 1 / 1000"
    using round4_error [of ?loss] by linarith
  from boundary_explains [OF this assms(1), of "''Component boundary''"] assms(2) show ?thesis
    by (auto simp: explains_def data_completeness_def Let_def add.assoc)
qed

lemma count_names_0: "count_of n (count_names names) = 0 \<longleftrightarrow> n \<notin> set names"
  using keys_distinct_by [of id "[]" names]
  by (auto simp: count_of_def count_names_def map_of_map_restrict restrict_map_def filter_empty_conv)

lemma sum_list_filter_0:
  "(\<And>x. x \<in> set xs \<Longrightarrow> \<not> P x \<Longrightarrow> f x = (0::rat)) \<Longrightarrow> sum_list (map f (filter P xs)) = sum_list (map f xs)"
  by (induction xs) auto

lemma classification_weight_0:
  assumes "count_of k (serp_composition (organic_results pages)) = 0" "k \<noteq> []"
  shows "classification_weight cfg pages es k = 0"
proof -
  have none: "filter (\<lambda>r. sx_result_type r = ''organic'' \<and> sx_classification r = k) (sn_results pg) = []"
    if "pg \<in> set pages" for pg
    using assms that
    by (force simp: serp_composition_def count_names_0 organic_results_def name_or_unknown_def filter_empty_conv)
  have "map (\<lambda>(pg, e). sum_list (map (\<lambda>r. ke_keyword_weight e * position_weight cfg (sx_order r))
      (filter (\<lambda>r. sx_result_type r = ''organic'' \<and> sx_classification r = k) (sn_results pg))))
    (zip pages es) = map (\<lambda>x. 0) (zip pages es)"
    by (rule map_cong) (auto simp: none dest!: set_zip_leftD)
  from arg_cong [OF this, of sum_list] show ?thesis
    unfolding classification_weight_def by (simp only: sum_list_0)
qed

lemma class_steps_error:
  "\<bar>steps_sum (class_steps cfg w pages es) +
     w * sum_list (map (class_deduction cfg pages es) (classification_penalties cfg))\<bar> \<le> 6 / 20000"
proof -
  let ?kps = "filter (\<lambda>kp. count_of (fst kp) (serp_composition (organic_results pages)) \<noteq> 0) (classification_penalties cfg)"
  let ?f = "\<lambda>kp. - (class_deduction cfg pages es kp * w)"
  have "sum_list (map ?f ?kps) = sum_list (map ?f (classification_penalties cfg))"
    by (rule sum_list_filter_0)
      (auto simp: class_deduction_def classification_penalties_def classification_weight_0)
  also have "\<dots> = - (w * sum_list (map (class_deduction cfg pages es) (classification_penalties cfg)))"
    by (simp add: classification_penalties_def algebra_simps)
  finally have total: "sum_list (map ?f ?kps) = \<dots>" .
  have "length ?kps \<le> 6"
    using length_filter_le [of _ "classification_penalties cfg"] by (simp add: classification_penalties_def)
  then have "of_nat (length ?kps) / 20000 \<le> (6 / 20000 :: rat)" by simp
  with rounded_steps_error [of "\<lambda>kp. underscore_title (fst kp) @ '' displacement''" ?f ?kps] show ?thesis
    unfolding class_steps_def total by linarith
qed

lemma feature_steps_error:
  "\<bar>steps_sum (feature_steps cfg w pages es) +
     w * sum_list (map (\<lambda>(label, present, penalty). present * penalty) (feature_deductions cfg pages es))\<bar> \<le> 3 / 20000"
proof -
  let ?fs = "filter (\<lambda>x. fst (snd x) \<noteq> 0) (feature_deductions cfg pages es)"
  let ?f = "\<lambda>x. - (fst (snd x) * snd (snd x) * w)"
  have "sum_list (map ?f ?fs) = sum_list (map ?f (feature_deductions cfg pages es))"
    by (rule sum_list_filter_0) auto
  also have "\<dots> = - (w * sum_list (map (\<lambda>x. fst (snd x) * snd (snd x)) (feature_deductions cfg pages es)))"
    by (simp add: feature_deductions_def algebra_simps)
  finally have total: "sum_list (map ?f ?fs) = \<dots>" .
  have "length ?fs \<le> 3"
    using length_filter_le [of _ "feature_deductions cfg pages es"] by (simp add: feature_deductions_def)
  then have "of_nat (length ?fs) / 20000 \<le> (3 / 20000 :: rat)" by simp
  with rounded_steps_error [of fst ?f ?fs] show ?thesis
    unfolding feature_steps_def case_prod_unfold total by linarith
qed

lemma organic_steps:
  assumes "0 \<le> sk_organic_weight cfg" "organic_click_availability cfg pages ms = Inr (v, d, u)"
  shows "explains d v"
proof (cases "organic_results pages = []")
  case True
  then show ?thesis using assms(2) by (auto simp: explains_def organic_click_availability_def Let_def)
next
  case False
  let ?w = "sk_organic_weight cfg" and ?c = "sk_organic_click cfg"
  obtain es where d: "cd_steps d = step ''Available organic-click baseline'' ?w # class_steps ?c ?w pages es @
      feature_steps ?c ?w pages es @ boundary_step ''Component boundary'' ?w (availability ?c pages es * ?w)"
    "v = bounded (availability ?c pages es * ?w) ?w"
    using assms(2) False by (auto simp: organic_click_availability_def Let_def)
  let ?p = "?w + steps_sum (class_steps ?c ?w pages es) + steps_sum (feature_steps ?c ?w pages es)"
  have "availability ?c pages es * ?w = ?w - ?w * sum_list (map (class_deduction ?c pages es) (classification_penalties ?c))
      - ?w * sum_list (map (\<lambda>(label, present, penalty). present * penalty) (feature_deductions ?c pages es))"
    by (simp add: availability_def algebra_simps)
  then have "\<bar>?p - availability ?c pages es * ?w\<bar> \<le> 1 / 1000"
    using class_steps_error [of ?c ?w pages es] feature_steps_error [of ?c ?w pages es] by linarith
  from boundary_explains [OF this assms(1), of "''Component boundary''"] show ?thesis
    by (simp add: explains_def d add.assoc)
qed

text \<open>
  C38: The listed steps explain the score. For commercial value, organic click availability and
  data completeness, the points of the steps add up to the score of the component to the cent,
  whatever was deducted, clamped or left out of the list.
\<close>

theorem steps_explain_scores:
  assumes "sound_config cfg"
  shows "\<exists>s. score_opportunity cfg now metrics pages competitors providers market mode assessment = Inr s \<and>
    (\<forall>name \<in> {''commercial_value'', ''organic_click_availability'', ''data_completeness''}.
       \<exists>v d. map_of (os_component_scores s) name = Some v \<and> map_of (os_component_details s) name = Some d \<and>
         explains d v)"
proof -
  have w: "0 \<le> sk_commercial_weight cfg" "0 \<le> sk_organic_weight cfg" "0 \<le> sk_completeness_weight cfg"
    using assms by (simp_all add: sound_config_def valid_weights_def cents_def)
  obtain s where s: "score_opportunity cfg now metrics pages competitors providers market mode assessment = Inr s"
    by (rule score_opportunity_total [OF assms])
  show ?thesis
    by (rule score_opportunity_Inr [OF s], rule exI [of _ s])
      (auto simp: s commercial_steps [OF w(1)] organic_steps [OF w(2)] completeness_steps [OF w(3) surjective_pairing])
qed

theorem steps_explain_scores_witness:
  "\<exists>s v d. score_opportunity default_scoring_config 0 [sample_metric] [] [] [] sample_market_spec None ''full'' = Inr s \<and>
    map_of (os_component_scores s) ''data_completeness'' = Some v \<and>
    map_of (os_component_details s) ''data_completeness'' = Some d \<and> explains d v"
  using steps_explain_scores [OF default_config_sound, of 0 "[sample_metric]" "[]" "[]" "[]" sample_market_spec
    None "''full''"] by blast

section \<open>Demand shares\<close>

text \<open>
  C40: When both demand shares of the configuration are zero or negative, the demand component
  returns a score of zero early, without the inputs its explanation reads, so scoring any
  opportunity raises a key error instead of giving a score without demand points.
\<close>

theorem zero_demand_shares_raise:
  assumes "dk_service_attractiveness_share (sk_demand cfg) \<le> 0" "dk_market_attractiveness_share (sk_demand cfg) \<le> 0"
  shows "score_opportunity cfg now metrics pages competitors providers market mode assessment =
    Inl (ScoringKeyError ''service_attractiveness_demand'')"
proof -
  have "demand_evidence cfg dm = (0, None)" for dm
    using assms by (simp add: demand_evidence_def total_demand_share_def)
  then show ?thesis by (simp add: score_opportunity_def demand_component_detail_def Let_def)
qed

theorem zero_demand_shares_raise_witness:
  "let cfg = default_scoring_config\<lparr>sk_demand := (sk_demand default_scoring_config)
       \<lparr>dk_service_attractiveness_share := 0, dk_market_attractiveness_share := 0\<rparr>\<rparr>
   in score_opportunity cfg 0 [] [] [] [] sample_market_spec None ''full'' =
        Inl (ScoringKeyError ''service_attractiveness_demand'')"
  unfolding Let_def by (rule zero_demand_shares_raise) simp_all

end
