(* ===== verification/Evidence_Quality.thy ===== *)
theory Evidence_Quality
  imports Score_Confidence
begin

text \<open>
  \<open>services/evidence_quality.py\<close>: the relevance checks on the collected evidence and what a
  warning or a failure does to the score. The hash of the configuration file is left out.
\<close>

section \<open>Data\<close>

record quality_config =
  qc_version :: string
  qc_minimum_keyword_service_relevance_share :: rat
  qc_minimum_representative_query_relevance_share :: rat
  qc_minimum_provider_service_relevance_share :: rat
  qc_minimum_provider_geographic_relevance_share :: rat
  qc_minimum_full_competitor_count :: nat
  qc_maximum_unknown_serp_share :: rat
  qc_unusable_score_cap :: rat
  qc_generic_service_tokens :: "string list"

definition valid_quality_config :: "quality_config \<Rightarrow> bool" where
  "valid_quality_config c \<longleftrightarrow>
     list_all (\<lambda>x. 0 \<le> x \<and> x \<le> 1)
       [qc_minimum_keyword_service_relevance_share c, qc_minimum_representative_query_relevance_share c,
        qc_minimum_provider_service_relevance_share c, qc_minimum_provider_geographic_relevance_share c,
        qc_maximum_unknown_serp_share c] \<and>
     1 \<le> qc_minimum_full_competitor_count c \<and> 0 \<le> qc_unusable_score_cap c \<and> qc_unusable_score_cap c \<le> 100"

definition default_quality_config :: quality_config where
  "default_quality_config = \<lparr>qc_version = ''v1'', qc_minimum_keyword_service_relevance_share = 60 / 100,
     qc_minimum_representative_query_relevance_share = 67 / 100,
     qc_minimum_provider_service_relevance_share = 20 / 100,
     qc_minimum_provider_geographic_relevance_share = 50 / 100, qc_minimum_full_competitor_count = 3,
     qc_maximum_unknown_serp_share = 60 / 100, qc_unusable_score_cap = 35,
     qc_generic_service_tokens = [''company'', ''contractor'', ''emergency'', ''installation'', ''local'',
       ''near'', ''repair'', ''replacement'', ''service'', ''services'']\<rparr>"

datatype severity = SV_warning | SV_error

record quality_issue =
  qi_code :: string
  qi_stage :: string
  qi_severity :: severity
  qi_message :: string
  qi_observed :: json
  qi_required :: json

datatype quality_status = QS_pass | QS_warning | QS_fail

record quality_assessment =
  qa_version :: string
  qa_status :: quality_status
  qa_service_relevance_tokens :: "string list"
  qa_measurements :: jobj
  qa_issues :: "quality_issue list"

definition usable :: "quality_assessment \<Rightarrow> bool" where
  "usable a \<longleftrightarrow> qa_status a \<noteq> QS_fail"

section \<open>Shares\<close>

text \<open>The tokens as a list without duplicates; only membership and the sorted list are used.\<close>

definition service_tokens :: "service_spec \<Rightarrow> string list \<Rightarrow> string list" where
  "service_tokens service generic =
     (let tokens = remdups (filter (\<lambda>t. 3 \<le> length t \<and> t \<notin> set generic)
        (concat (map slug_tokens (sv_display_name service # sv_description service #
          sv_seed_queries service @ sv_provider_categories service))))
      in if tokens \<noteq> [] then tokens
         else remdups (filter (\<lambda>t. 3 \<le> length t) (slug_tokens (sv_display_name service))))"

definition relevant_text :: "string list \<Rightarrow> string \<Rightarrow> bool" where
  "relevant_text tokens v \<longleftrightarrow> list_ex (\<lambda>t. t \<in> set tokens) (slug_tokens v)"

definition text_relevance_share :: "string list \<Rightarrow> string list \<Rightarrow> rat" where
  "text_relevance_share values tokens =
     (if values = [] \<or> tokens = [] then 0
      else of_nat (length (filter (relevant_text tokens) values)) / of_nat (length values))"

definition credible :: "string \<Rightarrow> rat \<Rightarrow> provider_listing \<Rightarrow> bool" where
  "credible name minimum p \<longleftrightarrow>
     (case map_of (px_suitability_signals p) name of None \<Rightarrow> False | Some g \<Rightarrow> minimum \<le> sl_normalized g)"

definition provider_signal_share :: "provider_listing list \<Rightarrow> string \<Rightarrow> rat \<Rightarrow> rat" where
  "provider_signal_share providers name minimum =
     (if providers = [] then 0
      else of_nat (length (filter (credible name minimum) providers)) / of_nat (length providers))"

definition unknown_serp_share :: "serp_page list \<Rightarrow> rat" where
  "unknown_serp_share pages =
     (let results = organic_results pages
      in if results = [] then 1
         else of_nat (length (filter (\<lambda>r. sx_classification r = ''unknown'') results)) / of_nat (length results))"

text \<open>\<open>f"{x:.0%}"\<close>.\<close>

definition percent :: "rat \<Rightarrow> string" where
  "percent x = py_str_int (round_half_even (x * 100)) @ ''%''"

section \<open>Assessment\<close>

definition minimum_share_issue ::
  "string \<Rightarrow> string \<Rightarrow> rat \<Rightarrow> rat \<Rightarrow> string \<Rightarrow> severity \<Rightarrow> quality_issue list" where
  "minimum_share_issue code stage found required noun severity =
     (if required \<le> found then []
      else [\<lparr>qi_code = code, qi_stage = stage, qi_severity = severity,
        qi_message = ''Only '' @ percent found @ '' of '' @ noun @ '' match the configured service; at least '' @
          percent required @ '' are required.'',
        qi_observed = JNum (py_round 4 found), qi_required = JNum required\<rparr>])"

definition quality_issues ::
  "quality_config \<Rightarrow> service_spec \<Rightarrow> keyword_metric list \<Rightarrow> serp_page list \<Rightarrow> competitor list \<Rightarrow>
   provider_listing list \<Rightarrow> string \<Rightarrow> bool \<Rightarrow> quality_issue list" where
  "quality_issues c service metrics pages competitors providers assessment_type service_configured =
     (let tokens = service_tokens service (qc_generic_service_tokens c);
          unknown_share = unknown_serp_share pages
      in minimum_share_issue ''keyword_service_relevance'' ''keyword_metrics''
           (text_relevance_share (map kw_keyword (filter kw_included metrics)) tokens)
           (qc_minimum_keyword_service_relevance_share c) ''included keyword metrics'' SV_error @
         minimum_share_issue ''representative_query_relevance'' ''serp''
           (text_relevance_share (map sn_query pages) tokens)
           (qc_minimum_representative_query_relevance_share c) ''representative SERP queries'' SV_error @
         (if providers = [] then []
          else minimum_share_issue ''provider_service_relevance'' ''provider_discovery''
              (provider_signal_share providers ''service_fit'' (35 / 100))
              (qc_minimum_provider_service_relevance_share c) ''provider listings with credible service fit'' SV_error @
            minimum_share_issue ''provider_geographic_relevance'' ''provider_discovery''
              (provider_signal_share providers ''geographic_fit'' (50 / 100))
              (qc_minimum_provider_geographic_relevance_share c)
              ''provider listings with credible geographic fit'' SV_warning) @
         (if qc_maximum_unknown_serp_share c < unknown_share
          then [\<lparr>qi_code = ''serp_classification_coverage'', qi_stage = ''serp'', qi_severity = SV_warning,
            qi_message = percent unknown_share @
              '' of organic results remain unclassified; organic-click confidence is limited.'',
            qi_observed = JNum (py_round 4 unknown_share), qi_required = JNum (qc_maximum_unknown_serp_share c)\<rparr>]
          else []) @
         (if assessment_type = ''full'' \<and> length competitors < qc_minimum_full_competitor_count c
          then [\<lparr>qi_code = ''competitor_sample_coverage'', qi_stage = ''competitors'', qi_severity = SV_error,
            qi_message = ''A full assessment has '' @ py_str_int (int (length competitors)) @
              '' enriched competitors; at least '' @ py_str_int (int (qc_minimum_full_competitor_count c)) @
              '' are required.'',
            qi_observed = JNum (of_nat (length competitors)),
            qi_required = JNum (of_nat (qc_minimum_full_competitor_count c))\<rparr>]
          else []) @
         (if assessment_type = ''full'' \<and> \<not> service_configured
          then [\<lparr>qi_code = ''unconfigured_service'', qi_stage = ''service_resolution'', qi_severity = SV_error,
            qi_message = ''Full assessments require an authoritative configured service definition with keyword '' @
              ''and provider-category rules.'',
            qi_observed = JStr ''draft'', qi_required = JStr ''configured''\<rparr>]
          else []))"

definition status_of_issues :: "quality_issue list \<Rightarrow> quality_status" where
  "status_of_issues issues =
     (if list_ex (\<lambda>i. qi_severity i = SV_error) issues then QS_fail
      else if issues \<noteq> [] then QS_warning else QS_pass)"

definition assess ::
  "quality_config \<Rightarrow> service_spec \<Rightarrow> keyword_metric list \<Rightarrow> serp_page list \<Rightarrow> competitor list \<Rightarrow>
   provider_listing list \<Rightarrow> string \<Rightarrow> bool \<Rightarrow> quality_assessment" where
  "assess c service metrics pages competitors providers assessment_type service_configured =
     (let tokens = service_tokens service (qc_generic_service_tokens c);
          issues = quality_issues c service metrics pages competitors providers assessment_type service_configured
      in \<lparr>qa_version = qc_version c, qa_status = status_of_issues issues,
          qa_service_relevance_tokens = sort tokens,
          qa_measurements =
            [(''keyword_service_relevance_share'', JNum (py_round 4
                (text_relevance_share (map kw_keyword (filter kw_included metrics)) tokens))),
             (''representative_query_relevance_share'', JNum (py_round 4
                (text_relevance_share (map sn_query pages) tokens))),
             (''provider_service_relevance_share'', JNum (py_round 4
                (provider_signal_share providers ''service_fit'' (35 / 100)))),
             (''provider_geographic_relevance_share'', JNum (py_round 4
                (provider_signal_share providers ''geographic_fit'' (50 / 100)))),
             (''unknown_serp_share'', JNum (py_round 4 (unknown_serp_share pages))),
             (''competitor_count'', JNum (of_nat (length competitors))),
             (''provider_count'', JNum (of_nat (length providers))),
             (''organic_result_count'', JNum (of_nat (length (organic_results pages)))),
             (''service_configured'', JBool service_configured)],
          qa_issues = issues\<rparr>)"

text \<open>A cap of zero is falsy, so it is replaced by the cap for unusable evidence.\<close>

definition apply_to_score :: "quality_config \<Rightarrow> opportunity_score \<Rightarrow> quality_assessment \<Rightarrow> opportunity_score" where
  "apply_to_score c s a =
     (let assumptions = os_assumptions s @ map qi_message (qa_issues a); limit = qc_unusable_score_cap c
      in case qa_status a of
           QS_pass \<Rightarrow> s
         | QS_warning \<Rightarrow> s\<lparr>os_confidence := (if os_confidence s = CF_high then CF_medium else os_confidence s),
             os_assumptions := assumptions\<rparr>
         | QS_fail \<Rightarrow> s\<lparr>os_total_score := py_round 2 (min (os_total_score s) limit),
             os_score_cap := Some (min (case os_score_cap s of None \<Rightarrow> limit
               | Some x \<Rightarrow> if x = 0 then limit else x) limit),
             os_evidence_status := ''unusable'', os_confidence := CF_insufficient, os_assumptions := assumptions\<rparr>)"

section \<open>What the assessment guarantees\<close>

lemma minimum_share_issue_simps:
  "minimum_share_issue code stage found required noun sev = [] \<longleftrightarrow> required \<le> found"
  "list_ex (\<lambda>i. qi_severity i = SV_error) (minimum_share_issue code stage found required noun sev) \<longleftrightarrow>
     found < required \<and> sev = SV_error"
  by (auto simp: minimum_share_issue_def)

lemma usable_iff:
  "usable (assess c service metrics pages competitors providers atype configured) \<longleftrightarrow>
     \<not> list_ex (\<lambda>i. qi_severity i = SV_error)
       (quality_issues c service metrics pages competitors providers atype configured)"
  by (simp add: usable_def assess_def Let_def status_of_issues_def)

lemma status_pass: "status_of_issues issues = QS_pass \<longleftrightarrow> issues = []"
  by (cases issues) (simp_all add: status_of_issues_def)

lemma apply_to_score_cases:
  assumes "0 \<le> qc_unusable_score_cap c" "py_round 2 (os_total_score s) = os_total_score s"
  shows "os_component_scores (apply_to_score c s a) = os_component_scores s"
    "os_total_score (apply_to_score c s a) \<le> os_total_score s"
    "os_confidence (apply_to_score c s a) \<le> os_confidence s"
    "\<not> usable a \<Longrightarrow> os_total_score (apply_to_score c s a) \<le> py_round 2 (qc_unusable_score_cap c) \<and>
       os_confidence (apply_to_score c s a) = CF_insufficient \<and>
       os_evidence_status (apply_to_score c s a) = ''unusable''"
    "os_confidence (apply_to_score c s a) = CF_high \<longleftrightarrow> os_confidence s = CF_high \<and> qa_status a = QS_pass"
  using assms py_round_mono [of "min (os_total_score s) (qc_unusable_score_cap c)" "os_total_score s" 2]
    py_round_mono [of "min (os_total_score s) (qc_unusable_score_cap c)" "qc_unusable_score_cap c" 2]
  by (cases "qa_status a"; simp add: apply_to_score_def usable_def Let_def)+

text \<open>
  C21: The quality check on the evidence. A scan is unusable exactly when too few of its included
  keywords or representative queries name the service, when it has listings of which too few fit
  the service, or when a full assessment has too few competitors or no configured service. An
  unusable scan ends at or below the cap, with insufficient confidence and the status unusable;
  no check ever raises a score or its confidence or touches its components; and the confidence
  stays high only if it was high and, besides, the listings fit the market and enough results
  are classified.
\<close>

theorem quality_gate:
  assumes "valid_quality_config c" "py_round 2 (os_total_score s) = os_total_score s"
    and "tokens = service_tokens service (qc_generic_service_tokens c)"
    and "a = assess c service metrics pages competitors providers assessment configured"
    and "s' = apply_to_score c s a"
  shows "(usable a \<longleftrightarrow>
       qc_minimum_keyword_service_relevance_share c \<le>
         text_relevance_share (map kw_keyword (filter kw_included metrics)) tokens \<and>
       qc_minimum_representative_query_relevance_share c \<le> text_relevance_share (map sn_query pages) tokens \<and>
       (providers = [] \<or> qc_minimum_provider_service_relevance_share c \<le>
         provider_signal_share providers ''service_fit'' (35 / 100)) \<and>
       (assessment \<noteq> ''full'' \<or> qc_minimum_full_competitor_count c \<le> length competitors \<and> configured)) \<and>
     (usable a \<or> os_total_score s' \<le> py_round 2 (qc_unusable_score_cap c) \<and>
       os_confidence s' = CF_insufficient \<and> os_evidence_status s' = ''unusable'') \<and>
     os_total_score s' \<le> os_total_score s \<and> os_confidence s' \<le> os_confidence s \<and>
     os_component_scores s' = os_component_scores s \<and>
     (os_confidence s' = CF_high \<longleftrightarrow> os_confidence s = CF_high \<and> usable a \<and>
       (providers = [] \<or> qc_minimum_provider_geographic_relevance_share c \<le>
         provider_signal_share providers ''geographic_fit'' (50 / 100)) \<and>
       unknown_serp_share pages \<le> qc_maximum_unknown_serp_share c)"
proof -
  let ?issues = "quality_issues c service metrics pages competitors providers assessment configured"
  have "0 \<le> qc_unusable_score_cap c" using assms(1) by (simp add: valid_quality_config_def)
  note applied = apply_to_score_cases [OF this assms(2), of a, folded assms(5)]
  have use: "usable a \<longleftrightarrow>
       qc_minimum_keyword_service_relevance_share c \<le>
         text_relevance_share (map kw_keyword (filter kw_included metrics)) tokens \<and>
       qc_minimum_representative_query_relevance_share c \<le> text_relevance_share (map sn_query pages) tokens \<and>
       (providers = [] \<or> qc_minimum_provider_service_relevance_share c \<le>
         provider_signal_share providers ''service_fit'' (35 / 100)) \<and>
       (assessment \<noteq> ''full'' \<or> qc_minimum_full_competitor_count c \<le> length competitors \<and> configured)"
    unfolding assms(4) usable_iff
    by (auto simp: quality_issues_def Let_def minimum_share_issue_simps assms(3) not_less)
  have "qa_status a = QS_pass \<longleftrightarrow> ?issues = []" by (simp add: assms(4) assess_def Let_def status_pass)
  also have "\<dots> \<longleftrightarrow> usable a \<and>
       (providers = [] \<or> qc_minimum_provider_geographic_relevance_share c \<le>
         provider_signal_share providers ''geographic_fit'' (50 / 100)) \<and>
       unknown_serp_share pages \<le> qc_maximum_unknown_serp_share c"
    unfolding use by (auto simp: quality_issues_def Let_def minimum_share_issue_simps assms(3) not_less)
  finally have pass: "qa_status a = QS_pass \<longleftrightarrow> \<dots>" .
  show ?thesis using use applied pass by blast
qed

definition sample_score :: opportunity_score where
  "sample_score = \<lparr>os_total_score = 725 / 10, os_uncapped_total_score = 725 / 10, os_evidence_status = ''complete'',
     os_score_cap = None, os_component_scores = [], os_component_details = [], os_missing_data_penalties = [],
     os_scoring_version = ''v2.12'', os_confidence = CF_high, os_missing_fields = [], os_assumptions = []\<rparr>"

theorem quality_gate_witness:
  "let a = assess default_quality_config sample_service_spec [sample_metric] sample_pages [] [] ''full'' True;
       s' = apply_to_score default_quality_config sample_score a
   in \<not> usable a \<and> os_total_score s' \<le> 35 \<and> os_confidence s' = CF_insufficient"
proof -
  have ok: "valid_quality_config default_quality_config" "py_round 2 (os_total_score sample_score) = os_total_score sample_score"
    by code_simp+
  have few: "\<not> usable (assess default_quality_config sample_service_spec [sample_metric] sample_pages [] [] ''full'' True)"
    by code_simp
  have cap_value: "py_round 2 (qc_unusable_score_cap default_quality_config) = 35" by code_simp
  from quality_gate [OF ok refl refl refl, of sample_service_spec "[sample_metric]" sample_pages "[]" "[]" "''full''" True]
    few cap_value show ?thesis unfolding Let_def by simp
qed

text \<open>
  A configured cap of zero for missing evidence is falsy: a failed check records the larger cap
  for unusable evidence in its place.
\<close>

lemma zero_cap_forgotten:
  assumes "os_score_cap s = Some 0" "qa_status a = QS_fail"
  shows "os_score_cap (apply_to_score c s a) = Some (qc_unusable_score_cap c)"
  using assms by (simp add: apply_to_score_def Let_def)

end
