(* ===== verification/Keyword_Planning.thy ===== *)
theory Keyword_Planning
  imports Demand "HOL-Library.Multiset"
begin

text \<open>
  \<open>services/keywords.py\<close>: seeds, the filter of suggested keywords, and the clustering, ranking
  and selection of keyword metrics. The reason texts are values of a datatype, with the numbers
  they show unformatted. \<open>difflib.SequenceMatcher\<close> of the standard library is modelled as far as
  \<open>ratio\<close> goes.
\<close>

section \<open>Similarity of two keys\<close>

text \<open>Characters of a long second string that are too frequent to start a match.\<close>

definition popular :: "string \<Rightarrow> char list" where
  "popular b =
     (let n = length b in if 200 \<le> n
      then filter (\<lambda>c. n div 100 + 1 < length (filter (\<lambda>x. x = c) b)) (remdups b) else [])"

fun common_prefix :: "(char \<Rightarrow> bool) \<Rightarrow> string \<Rightarrow> string \<Rightarrow> nat" where
  "common_prefix ok (x # a) (y # b) = (if x = y \<and> ok y then Suc (common_prefix ok a b) else 0)"
| "common_prefix ok _ _ = 0"

text \<open>
  \<open>find_longest_match\<close>: over the ends \<open>i\<close> and \<open>j\<close> of runs, in order, the first longest run of
  characters that are not popular; the run is then extended over popular characters.
\<close>

definition run_ending :: "char list \<Rightarrow> string \<Rightarrow> string \<Rightarrow> nat \<Rightarrow> nat \<Rightarrow> nat" where
  "run_ending pop a b i j = common_prefix (\<lambda>c. c \<notin> set pop) (rev (take (Suc i) a)) (rev (take (Suc j) b))"

definition best_run :: "char list \<Rightarrow> string \<Rightarrow> string \<Rightarrow> nat \<times> nat \<times> nat" where
  "best_run pop a b =
     fold (\<lambda>(i, j) (bi, bj, size). let k = run_ending pop a b i j
         in if size < k then (Suc i - k, Suc j - k, k) else (bi, bj, size))
       (List.product [0..<length a] [0..<length b]) (0, 0, 0)"

definition longest_match :: "char list \<Rightarrow> string \<Rightarrow> string \<Rightarrow> nat \<times> nat \<times> nat" where
  "longest_match pop a b =
     (let (i, j, k) = best_run pop a b;
          left = common_prefix (\<lambda>_. True) (rev (take i a)) (rev (take j b));
          right = common_prefix (\<lambda>_. True) (drop (i + k) a) (drop (j + k) b)
      in (i - left, j - left, left + k + right))"

lemma common_prefix_le: "common_prefix ok a b \<le> length a" "common_prefix ok a b \<le> length b"
  by (induction ok a b rule: common_prefix.induct) auto

lemma best_run_bounds:
  "best_run pop a b = (i, j, k) \<Longrightarrow> i + k \<le> length a \<and> j + k \<le> length b"
proof -
  let ?ok = "\<lambda>(i, j, k). i + k \<le> length a \<and> j + k \<le> length b"
  have run: "run_ending pop a b x y \<le> Suc x \<and> run_ending pop a b x y \<le> Suc y" for x y
    using common_prefix_le [of _ "rev (take (Suc x) a)" "rev (take (Suc y) b)"]
    by (force simp: run_ending_def intro: order.trans)
  have step: "fold (\<lambda>(i, j) (bi, bj, size). let k = run_ending pop a b i j
         in if size < k then (Suc i - k, Suc j - k, k) else (bi, bj, size)) ps m = (i, j, k) \<Longrightarrow>
     ?ok m \<Longrightarrow> set ps \<subseteq> {..<length a} \<times> {..<length b} \<Longrightarrow> ?ok (i, j, k)" for ps m
  proof (induction ps arbitrary: m)
    case (Cons p ps)
    obtain x y where p: "p = (x, y)" by (cases p)
    obtain bi bj size where m: "m = (bi, bj, size)" by (cases m)
    let ?k = "run_ending pop a b x y"
    show ?case
    proof (rule Cons.IH)
      show "fold (\<lambda>(i, j) (bi, bj, size). let k = run_ending pop a b i j
         in if size < k then (Suc i - k, Suc j - k, k) else (bi, bj, size)) ps
         (if size < ?k then (Suc x - ?k, Suc y - ?k, ?k) else m) = (i, j, k)"
        using Cons.prems(1) by (simp add: p m Let_def split: if_splits)
      show "?ok (if size < ?k then (Suc x - ?k, Suc y - ?k, ?k) else m)"
        using Cons.prems(2,3) run [of x y] by (auto simp: p m)
      show "set ps \<subseteq> {..<length a} \<times> {..<length b}" using Cons.prems(3) by simp
    qed
  qed simp
  show "best_run pop a b = (i, j, k) \<Longrightarrow> i + k \<le> length a \<and> j + k \<le> length b"
    using step [of "List.product [0..<length a] [0..<length b]" "(0, 0, 0)"]
    unfolding best_run_def by fastforce
qed

lemma longest_match_bounds:
  assumes "longest_match pop a b = (i, j, k)"
  shows "i + k \<le> length a" "j + k \<le> length b"
proof -
  obtain x y z where run: "best_run pop a b = (x, y, z)" by (cases "best_run pop a b")
  note bounds = best_run_bounds [OF run]
  let ?l = "common_prefix (\<lambda>_. True) (rev (take x a)) (rev (take y b))"
  let ?r = "common_prefix (\<lambda>_. True) (drop (x + z) a) (drop (y + z) b)"
  have "?l \<le> x" "?l \<le> y" "?r \<le> length a - (x + z)" "?r \<le> length b - (y + z)"
    using common_prefix_le [of "\<lambda>_. True" "rev (take x a)" "rev (take y b)"]
      common_prefix_le [of "\<lambda>_. True" "drop (x + z) a" "drop (y + z) b"] bounds by auto
  with bounds assms show "i + k \<le> length a" "j + k \<le> length b"
    by (auto simp: longest_match_def run Let_def)
qed

text \<open>The total size of the matching blocks: the longest match and, recursively, both sides of it.\<close>

function matches :: "char list \<Rightarrow> string \<Rightarrow> string \<Rightarrow> nat" where
  "matches pop a b =
     (let (i, j, k) = longest_match pop a b
      in if k = 0 then 0
         else k + matches pop (take i a) (take j b) + matches pop (drop (i + k) a) (drop (j + k) b))"
  by auto
termination
proof (relation "measure (\<lambda>(pop, a, b). length a)")
  show "((pop, take i a, take j b), pop, a, b) \<in> measure (\<lambda>(pop, a, b). length a)"
    if "x = longest_match pop a b" "(i, y) = x" "(j, k) = y" "k \<noteq> 0" for pop a b x i y j k
    using that longest_match_bounds(1) [of pop a b i j k] by auto
  show "((pop, drop (i + k) a, drop (j + k) b), pop, a, b) \<in> measure (\<lambda>(pop, a, b). length a)"
    if "x = longest_match pop a b" "(i, y) = x" "(j, k) = y" "k \<noteq> 0" for pop a b x i y j k
    using that longest_match_bounds(1) [of pop a b i j k] by auto
qed simp

declare matches.simps [simp del]

definition similarity_ratio :: "string \<Rightarrow> string \<Rightarrow> rat" where
  "similarity_ratio a b =
     (if length a + length b = 0 then 1
      else 2 * of_nat (matches (popular b) a b) / of_nat (length a + length b))"

section \<open>Data\<close>

record keyword_candidate =
  kc_keyword :: string
  kc_source :: string
  kc_included :: bool
  kc_excluded_reason :: "string option"

record keyword_cluster =
  kl_representative_keyword :: string
  kl_keywords :: "string list"
  kl_dedupe_method :: string
  kl_combined_volume :: "int option"

datatype decision_reason =
  Reason string
| Value_reason rat string rat int

record keyword_decision =
  kd_keyword :: string
  kd_canonical_keyword :: string
  kd_decision :: string
  kd_reason :: decision_reason
  kd_rank :: "nat option"
  kd_representative :: bool
  kd_cluster_id :: "string option"
  kd_intent :: "string option"
  kd_search_volume :: "int option"
  kd_cpc :: "rat option"
  kd_granularity :: "string option"
  kd_ranking_score :: "rat option"

record keyword_candidate_plan =
  kp_candidates :: "keyword_candidate list"
  kp_included_keywords :: "string list"
  kp_decisions :: "keyword_decision list"

record keyword_metric_plan =
  mp_metrics :: "keyword_metric list"
  mp_scoring_metrics :: "keyword_metric list"
  mp_selected_serp_keywords :: "string list"
  mp_clusters :: "keyword_cluster list"
  mp_decisions :: "keyword_decision list"

section \<open>Candidates\<close>

definition TRANSACTIONAL_INTENTS :: "string list" where
  "TRANSACTIONAL_INTENTS = [''transactional'', ''commercial'']"

definition LOCAL_MODIFIER_TOKENS :: "string list" where
  "LOCAL_MODIFIER_TOKENS = [''near'', ''me'', ''nearby'', ''local'', ''in'']"

definition DEFAULT_AD_HOC_INTENT_MODIFIERS :: "string list" where
  "DEFAULT_AD_HOC_INTENT_MODIFIERS = [''repair'', ''replacement'', ''installation'', ''emergency'']"

definition DEFAULT_NEGATIVE_PRODUCT_TERMS :: "string list" where
  "DEFAULT_NEGATIVE_PRODUCT_TERMS = [''parts'', ''kit'', ''manual'', ''lowes'', ''home depot'']"

definition list_or :: "'a list \<Rightarrow> 'a list \<Rightarrow> 'a list" where
  "list_or xs ys = (if xs = [] then ys else xs)"

definition service_keyword_terms :: "service_spec \<Rightarrow> string list \<times> string list" where
  "service_keyword_terms service =
     (list_or (sv_intent_modifiers service) DEFAULT_AD_HOC_INTENT_MODIFIERS,
      sv_negative_terms service @ list_or (sv_negative_product_terms service) DEFAULT_NEGATIVE_PRODUCT_TERMS)"

fun dedupe_from :: "string list \<Rightarrow> string list \<Rightarrow> string list" where
  "dedupe_from seen [] = []"
| "dedupe_from seen (v # vs) =
     (let normalized = join_words (split_words (py_lower v))
      in if normalized \<noteq> [] \<and> normalized \<notin> set seen then normalized # dedupe_from (normalized # seen) vs
         else dedupe_from seen vs)"

definition dedupe_strings :: "string list \<Rightarrow> string list" where
  "dedupe_strings values = dedupe_from [] values"

definition service_seed_keywords :: "service_spec \<Rightarrow> string list" where
  "service_seed_keywords service =
     (let base = py_lower (sv_display_name service)
      in dedupe_strings (list_or (sv_seed_queries service) [base] @
           map (\<lambda>modifier. base @ '' '' @ modifier) (fst (service_keyword_terms service))))"

definition padded :: "string \<Rightarrow> string" where
  "padded s = '' '' @ s @ '' ''"

definition matching_negative :: "string \<Rightarrow> string list \<Rightarrow> string option" where
  "matching_negative canonical negatives =
     List.find (\<lambda>t. in_text (padded t) (padded canonical)) negatives"

definition candidate_decision :: "keyword_candidate \<Rightarrow> string \<Rightarrow> string \<Rightarrow> string \<Rightarrow> keyword_decision" where
  "candidate_decision c canonical decision reason =
     \<lparr>kd_keyword = kc_keyword c, kd_canonical_keyword = canonical, kd_decision = decision,
      kd_reason = Reason reason, kd_rank = None, kd_representative = False, kd_cluster_id = None,
      kd_intent = None, kd_search_volume = None, kd_cpc = None, kd_granularity = None, kd_ranking_score = None\<rparr>"

text \<open>What happens to one candidate; an empty matching term is falsy.\<close>

definition decide_candidate ::
  "string list \<Rightarrow> string list \<Rightarrow> keyword_candidate \<Rightarrow> keyword_candidate \<times> keyword_decision" where
  "decide_candidate negatives seen c =
     (let canonical = normalize_keyword (kc_keyword c);
          exclude = (\<lambda>decision reason. (c\<lparr>kc_included := False, kc_excluded_reason := Some reason\<rparr>,
            candidate_decision c canonical decision reason));
          negative = matching_negative canonical negatives
      in if canonical = [] then exclude ''excluded_negative'' ''empty_keyword''
         else if truthy_str negative then exclude ''excluded_negative'' (''negative_term:'' @ the negative)
         else if canonical \<in> set seen then exclude ''excluded_duplicate'' ''duplicate_exact''
         else (c\<lparr>kc_included := True, kc_excluded_reason := None\<rparr>,
               candidate_decision c canonical ''candidate'' ''included_candidate''))"

fun plan_from :: "string list \<Rightarrow> string list \<Rightarrow> keyword_candidate list \<Rightarrow>
    (keyword_candidate \<times> keyword_decision) list" where
  "plan_from negatives seen [] = []"
| "plan_from negatives seen (c # cs) =
     (let d = decide_candidate negatives seen c
      in d # plan_from negatives
        (if kc_included (fst d) then normalize_keyword (kc_keyword c) # seen else seen) cs)"

definition plan_keyword_candidates :: "keyword_candidate list \<Rightarrow> string list \<Rightarrow> keyword_candidate_plan" where
  "plan_keyword_candidates candidates negative_terms =
     (let negatives = map normalize_keyword (filter (\<lambda>t. py_strip t \<noteq> []) negative_terms);
          decided = plan_from negatives [] candidates
      in \<lparr>kp_candidates = map fst decided,
          kp_included_keywords = map kc_keyword (filter kc_included (map fst decided)),
          kp_decisions = map snd decided\<rparr>)"

definition dedupe_and_filter_keywords :: "keyword_candidate list \<Rightarrow> string list \<Rightarrow> keyword_candidate list" where
  "dedupe_and_filter_keywords candidates negative_terms =
     kp_candidates (plan_keyword_candidates candidates negative_terms)"

section \<open>Clusters\<close>

definition keyword_market_tokens :: "market_spec \<Rightarrow> string list" where
  "keyword_market_tokens market =
     remdups (concat (map (\<lambda>v. split_words (normalize_keyword v))
       ([mt_display_name market, (case mt_state market of None \<Rightarrow> [] | Some s \<Rightarrow> s), mt_country_code market] @
        mt_cities market)))"

definition singularize :: "string \<Rightarrow> string" where
  "singularize token =
     (if 4 < length token \<and> ends_with ''ies'' token then take (length token - 3) token @ ''y''
      else if 3 < length token \<and> ends_with ''s'' token then butlast token
      else token)"

definition cluster_tokens :: "string \<Rightarrow> market_spec \<Rightarrow> string list" where
  "cluster_tokens keyword market =
     map singularize (filter (\<lambda>t. t \<notin> set LOCAL_MODIFIER_TOKENS \<and> t \<notin> set (keyword_market_tokens market))
       (split_words (normalize_keyword keyword)))"

definition cluster_key :: "string \<Rightarrow> market_spec \<Rightarrow> string" where
  "cluster_key keyword market = join_words (cluster_tokens keyword market)"

definition token_overlap :: "string list \<Rightarrow> string list \<Rightarrow> rat" where
  "token_overlap left right =
     of_nat (length (filter (\<lambda>t. t \<in> set right) left)) / of_nat (max 1 (max (length left) (length right)))"

definition same_cluster :: "string \<Rightarrow> string \<Rightarrow> bool" where
  "same_cluster key existing \<longleftrightarrow>
     (let key_tokens = remdups (split_words key); existing_tokens = remdups (split_words existing)
      in set key_tokens = set existing_tokens \<or>
         (key_tokens \<noteq> [] \<and> existing_tokens \<noteq> [] \<and> 9 / 10 \<le> token_overlap key_tokens existing_tokens) \<or>
         92 / 100 \<le> similarity_ratio key existing)"

definition matching_cluster_key :: "string \<Rightarrow> (string \<times> keyword_metric list) list \<Rightarrow> string option" where
  "matching_cluster_key key grouped = List.find (same_cluster key) (map fst grouped)"

definition keyword_or_canonical :: "keyword_metric \<Rightarrow> string" where
  "keyword_or_canonical m = (if kw_canonical_keyword m \<noteq> [] then kw_canonical_keyword m else kw_keyword m)"

definition add_to_cluster ::
  "market_spec \<Rightarrow> keyword_metric \<Rightarrow> (string \<times> keyword_metric list) list \<Rightarrow> (string \<times> keyword_metric list) list" where
  "add_to_cluster market m grouped =
     (let key = cluster_key (keyword_or_canonical m) market;
          matched = matching_cluster_key key grouped;
          k = (if truthy_str matched then the matched else key)
      in dict_put k ((case map_of grouped k of None \<Rightarrow> [] | Some ms \<Rightarrow> ms) @ [m]) grouped)"

definition group_metrics :: "market_spec \<Rightarrow> keyword_metric list \<Rightarrow> (string \<times> keyword_metric list) list" where
  "group_metrics market metrics = fold (add_to_cluster market) metrics []"

section \<open>Ranking\<close>

definition local_modifier_quality :: "string \<Rightarrow> market_spec \<Rightarrow> rat" where
  "local_modifier_quality canonical market =
     (let tokens = split_words canonical
      in if ''near'' \<in> set tokens \<and> ''me'' \<in> set tokens then 80 / 100
         else if list_ex (\<lambda>t. t \<in> set (keyword_market_tokens market)) tokens then 1 else 45 / 100)"

definition metric_value_score :: "service_spec \<Rightarrow> market_spec \<Rightarrow> keyword_metric \<Rightarrow> rat" where
  "metric_value_score service market m =
     (let canonical = normalize_keyword (keyword_or_canonical m);
          tokens = remdups (split_words canonical);
          names = remdups (split_words (normalize_keyword (sv_display_name service)));
          relevance = of_nat (length (filter (\<lambda>t. t \<in> set names) tokens)) / of_nat (max 1 (length names));
          intent = (if kw_intent m \<in> set TRANSACTIONAL_INTENTS then 1 else 25 / 100);
          cpc = min (or_zero (kw_cpc m) / 30) 1;
          volume = min (rat_of (kw_search_volume m) / 1000) 1
      in relevance * 40 + intent * 25 + cpc * 18 + volume * 12 + local_modifier_quality canonical market * 5)"

definition by_value :: "service_spec \<Rightarrow> market_spec \<Rightarrow> keyword_metric list \<Rightarrow> keyword_metric list" where
  "by_value service market ms = sort_key (\<lambda>m. - metric_value_score service market m) ms"

definition keyword_cluster_id :: "string \<Rightarrow> string" where
  "keyword_cluster_id keyword = ''kw:'' @ slugify keyword"

definition decision_reason_of :: "service_spec \<Rightarrow> market_spec \<Rightarrow> keyword_metric \<Rightarrow> decision_reason" where
  "decision_reason_of service market m =
     Value_reason (metric_value_score service market m) (kw_intent m) (or_zero (kw_cpc m)) (volume_of m)"

text \<open>The largest volume of a cluster, with an unknown volume counted as zero.\<close>

definition cluster_volume :: "keyword_metric list \<Rightarrow> int" where
  "cluster_volume ms = (case map volume_of ms of [] \<Rightarrow> 0 | v # vs \<Rightarrow> fold max vs v)"

definition metric_decision :: "service_spec \<Rightarrow> market_spec \<Rightarrow> keyword_metric \<Rightarrow> keyword_decision" where
  "metric_decision service market m =
     \<lparr>kd_keyword = kw_keyword m, kd_canonical_keyword = normalize_keyword (kw_canonical_keyword m),
      kd_decision = [], kd_reason = Reason [], kd_rank = None, kd_representative = False,
      kd_cluster_id = None, kd_intent = Some (kw_intent m), kd_search_volume = kw_search_volume m,
      kd_cpc = kw_cpc m, kd_granularity = Some (kw_market_granularity m),
      kd_ranking_score = Some (py_round 2 (metric_value_score service market m))\<rparr>"

definition representative_of :: "service_spec \<Rightarrow> market_spec \<Rightarrow> keyword_metric list \<Rightarrow> keyword_metric" where
  "representative_of service market ms = hd (by_value service market ms)"

definition cluster_of :: "service_spec \<Rightarrow> market_spec \<Rightarrow> keyword_metric list \<Rightarrow> keyword_cluster" where
  "cluster_of service market ms =
     \<lparr>kl_representative_keyword = kw_keyword (representative_of service market ms),
      kl_keywords = map kw_keyword (by_value service market ms),
      kl_dedupe_method = (if 1 < length ms then ''close_variant'' else ''exact''),
      kl_combined_volume = Some (cluster_volume ms)\<rparr>"

definition scoring_metric :: "service_spec \<Rightarrow> market_spec \<Rightarrow> keyword_metric list \<Rightarrow> keyword_metric" where
  "scoring_metric service market ms =
     (representative_of service market ms)\<lparr>kw_included := True, kw_search_volume := Some (cluster_volume ms)\<rparr>"

definition grouped_variant ::
  "service_spec \<Rightarrow> market_spec \<Rightarrow> keyword_metric \<Rightarrow> keyword_metric \<Rightarrow> keyword_metric \<times> keyword_decision" where
  "grouped_variant service market representative m =
     (let reason = ''grouped_with:'' @ kw_keyword representative
      in (m\<lparr>kw_included := False, kw_excluded_reason := Some reason\<rparr>,
          (metric_decision service market m)\<lparr>kd_decision := ''grouped_variant'', kd_reason := Reason reason,
             kd_cluster_id := Some (keyword_cluster_id (kw_keyword representative))\<rparr>))"

definition cluster_variants ::
  "service_spec \<Rightarrow> market_spec \<Rightarrow> keyword_metric list \<Rightarrow> (keyword_metric \<times> keyword_decision) list" where
  "cluster_variants service market ms =
     map (grouped_variant service market (representative_of service market ms)) (tl (by_value service market ms))"

definition ranked_decision ::
  "service_spec \<Rightarrow> market_spec \<Rightarrow> string list \<Rightarrow> nat \<times> keyword_metric \<Rightarrow> keyword_decision" where
  "ranked_decision service market selected rm =
     (let m = snd rm; is_representative = (kw_keyword m \<in> set selected)
      in (metric_decision service market m)\<lparr>
          kd_decision := (if is_representative then ''representative'' else ''included_scoring''),
          kd_reason := decision_reason_of service market m, kd_rank := Some (fst rm),
          kd_representative := is_representative, kd_cluster_id := Some (keyword_cluster_id (kw_keyword m))\<rparr>)"

definition rank_and_cluster_keyword_metrics ::
  "keyword_metric list \<Rightarrow> service_spec \<Rightarrow> market_spec \<Rightarrow> int \<Rightarrow> keyword_decision list \<Rightarrow> keyword_metric_plan" where
  "rank_and_cluster_keyword_metrics metrics service market selected_limit existing_decisions =
     (let groups = map snd (group_metrics market metrics);
          variants = concat (map (cluster_variants service market) groups);
          ranked = by_value service market (map (scoring_metric service market) groups);
          selected = map kw_keyword (take (nat selected_limit) ranked)
      in \<lparr>mp_metrics = map (\<lambda>m. m\<lparr>kw_included := True\<rparr>) ranked @ map fst variants,
          mp_scoring_metrics = ranked, mp_selected_serp_keywords = selected,
          mp_clusters = sort_key kl_representative_keyword (map (cluster_of service market) groups),
          mp_decisions = existing_decisions @ map snd variants @
            map (ranked_decision service market selected) (enumerate 1 ranked)\<rparr>)"

section \<open>The plan of candidates\<close>

lemma decide_candidate_included:
  "kc_included (fst (decide_candidate negatives seen c)) \<longleftrightarrow>
     normalize_keyword (kc_keyword c) \<noteq> [] \<and>
     \<not> truthy_str (matching_negative (normalize_keyword (kc_keyword c)) negatives) \<and>
     normalize_keyword (kc_keyword c) \<notin> set seen"
  by (simp add: decide_candidate_def Let_def)

lemma decide_candidate_keyword [simp]: "kc_keyword (fst (decide_candidate negatives seen c)) = kc_keyword c"
  by (simp add: decide_candidate_def Let_def)

lemma decide_candidate_reason:
  "kc_excluded_reason (fst (decide_candidate negatives seen c)) = None \<longleftrightarrow>
     kc_included (fst (decide_candidate negatives seen c))"
  by (simp add: decide_candidate_def Let_def)

definition acceptable :: "string list \<Rightarrow> string \<Rightarrow> bool" where
  "acceptable negatives k \<longleftrightarrow> k \<noteq> [] \<and> \<not> truthy_str (matching_negative k negatives)"

definition included_keys :: "string list \<Rightarrow> string list \<Rightarrow> keyword_candidate list \<Rightarrow> string list" where
  "included_keys negatives seen cs =
     map (\<lambda>c. normalize_keyword (kc_keyword c)) (filter kc_included (map fst (plan_from negatives seen cs)))"

lemma included_keys_simps:
  "included_keys negatives seen [] = []"
  "included_keys negatives seen (c # cs) =
     (let k = normalize_keyword (kc_keyword c)
      in if acceptable negatives k \<and> k \<notin> set seen then k # included_keys negatives (k # seen) cs
         else included_keys negatives seen cs)"
  by (simp_all add: included_keys_def Let_def decide_candidate_included acceptable_def)

lemma set_included_keys:
  "set (included_keys negatives seen cs) =
     {k \<in> (\<lambda>c. normalize_keyword (kc_keyword c)) ` set cs. acceptable negatives k} - set seen"
  by (induction cs arbitrary: seen) (auto simp: included_keys_simps Let_def)

lemma distinct_included_keys: "distinct (included_keys negatives seen cs)"
  by (induction cs arbitrary: seen) (auto simp: included_keys_simps Let_def set_included_keys)

lemma plan_from_keywords:
  "map kc_keyword (map fst (plan_from negatives seen cs)) = map kc_keyword cs"
  "list_all (\<lambda>c. (kc_excluded_reason c = None) = kc_included c) (map fst (plan_from negatives seen cs))"
  by (induction cs arbitrary: seen) (simp_all add: Let_def decide_candidate_reason)

text \<open>
  Planning suggested keywords keeps every candidate in place, each either included without
  a reason or excluded with one; no two included keywords have the same canonical form; and the
  canonical forms included are exactly those of the candidates that are not empty and contain
  no negative term as a run of whole words.
\<close>

theorem candidate_plan_sound:
  "let plan = plan_keyword_candidates candidates negative_terms;
       negatives = map normalize_keyword (filter (\<lambda>t. py_strip t \<noteq> []) negative_terms)
   in map kc_keyword (kp_candidates plan) = map kc_keyword candidates \<and>
      list_all (\<lambda>c. (kc_excluded_reason c = None) = kc_included c) (kp_candidates plan) \<and>
      distinct (map normalize_keyword (kp_included_keywords plan)) \<and>
      normalize_keyword ` set (kp_included_keywords plan) =
        {k \<in> (normalize_keyword \<circ> kc_keyword) ` set candidates. acceptable negatives k}"
proof -
  let ?n = "map normalize_keyword (filter (\<lambda>t. py_strip t \<noteq> []) negative_terms)"
  let ?plan = "plan_keyword_candidates candidates negative_terms"
  have keys: "map normalize_keyword (kp_included_keywords ?plan) = included_keys ?n [] candidates"
    by (simp add: plan_keyword_candidates_def included_keys_def Let_def comp_def)
  then have "normalize_keyword ` set (kp_included_keywords ?plan) = set (included_keys ?n [] candidates)"
    by (metis set_map)
  then show ?thesis using keys distinct_included_keys [of ?n "[]" candidates] plan_from_keywords [of ?n "[]" candidates]
    by (simp add: set_included_keys plan_keyword_candidates_def Let_def comp_def)
qed

section \<open>The plan of metrics\<close>

lemma mset_dict_put_append:
  "mset (concat (map snd (dict_put k ((case map_of d k of None \<Rightarrow> [] | Some ms \<Rightarrow> ms) @ [m]) d))) =
     add_mset m (mset (concat (map snd d)))"
  by (induction d) auto

lemma add_to_cluster_mset:
  "mset (concat (map snd (add_to_cluster market m grouped))) = add_mset m (mset (concat (map snd grouped)))"
  unfolding add_to_cluster_def Let_def by (rule mset_dict_put_append)

lemma group_metrics_mset: "mset (concat (map snd (group_metrics market ms))) = mset ms"
proof -
  have "mset (concat (map snd (fold (add_to_cluster market) ms d))) = mset ms + mset (concat (map snd d))" for d
    by (induction ms arbitrary: d) (simp_all add: add_to_cluster_mset del: mset_concat)
  from this [of "[]"] show ?thesis by (simp add: group_metrics_def)
qed

lemma dict_put_nonempty:
  "list_all (\<lambda>p. snd p \<noteq> []) d \<Longrightarrow> v \<noteq> [] \<Longrightarrow> list_all (\<lambda>p. snd p \<noteq> []) (dict_put k v d)"
  by (induction d) auto

lemma group_metrics_nonempty: "ms' \<in> set (map snd (group_metrics market ms)) \<Longrightarrow> ms' \<noteq> []"
proof -
  have "list_all (\<lambda>p. snd p \<noteq> []) d \<Longrightarrow> list_all (\<lambda>p. snd p \<noteq> []) (fold (add_to_cluster market) ms d)" for d
    by (induction ms arbitrary: d) (simp_all add: add_to_cluster_def Let_def dict_put_nonempty)
  from this [of "[]"] show "ms' \<in> set (map snd (group_metrics market ms)) \<Longrightarrow> ms' \<noteq> []"
    by (auto simp: group_metrics_def list_all_iff)
qed

lemma mset_by_value [simp]: "mset (by_value service market ms) = mset ms"
  by (simp add: by_value_def)

lemma by_value_nonempty: "ms \<noteq> [] \<Longrightarrow> by_value service market ms \<noteq> []"
  by (metis mset_by_value mset_zero_iff)

lemma by_value_sorted:
  "sorted_wrt (\<ge>) (map (metric_value_score service market) (by_value service market ms))"
proof -
  have "sorted (map (\<lambda>m. - metric_value_score service market m) (by_value service market ms))"
    by (simp add: by_value_def)
  then show ?thesis by (simp add: sorted_map sorted_wrt_map)
qed

text \<open>The best member of a cluster by value represents it.\<close>

lemma representative_best:
  assumes "m \<in> set ms"
  shows "metric_value_score service market m \<le>
    metric_value_score service market (representative_of service market ms)"
proof -
  have "by_value service market ms \<noteq> []" using assms by_value_nonempty [of ms service market] by fastforce
  then obtain r rs where v: "by_value service market ms = r # rs" by (cases "by_value service market ms") auto
  have "m \<in> set (by_value service market ms)" using assms by (metis mset_by_value set_mset_mset)
  with by_value_sorted [of service market ms] show ?thesis by (auto simp: v representative_of_def)
qed

text \<open>What clustering never changes of a metric.\<close>

definition identity_of :: "keyword_metric \<Rightarrow> keyword_metric" where
  "identity_of m = m\<lparr>kw_included := True, kw_search_volume := None, kw_excluded_reason := None\<rparr>"

lemma cluster_identity:
  assumes "ms \<noteq> []"
  shows "add_mset (identity_of (scoring_metric service market ms))
      (image_mset identity_of (mset (map fst (cluster_variants service market ms)))) =
    image_mset identity_of (mset ms)"
proof -
  obtain r rs where v: "by_value service market ms = r # rs"
    using by_value_nonempty [OF assms] by (cases "by_value service market ms") auto
  have "map identity_of (map fst (cluster_variants service market ms)) = map identity_of rs"
    by (simp add: cluster_variants_def v grouped_variant_def identity_of_def Let_def)
  then have "image_mset identity_of (mset (map fst (cluster_variants service market ms))) = image_mset identity_of (mset rs)"
    by (metis mset_map)
  moreover have "identity_of (scoring_metric service market ms) = identity_of r"
    by (simp add: scoring_metric_def representative_of_def v identity_of_def)
  moreover have "mset ms = add_mset r (mset rs)" by (metis v mset_by_value mset.simps(2))
  ultimately show ?thesis by simp
qed

lemma clusters_identity:
  assumes "\<And>ms. ms \<in> set groups \<Longrightarrow> ms \<noteq> []"
  shows "image_mset identity_of (mset (map (scoring_metric service market) groups @
      map fst (concat (map (cluster_variants service market) groups)))) =
    image_mset identity_of (mset (concat groups))"
  using assms
proof (induction groups)
  case (Cons ms groups)
  have "ms \<noteq> []" using Cons.prems by simp
  note ms = cluster_identity [OF this, of service market]
  let ?f = "scoring_metric service market" and ?g = "cluster_variants service market"
  have "image_mset identity_of (mset (map ?f (ms # groups) @ map fst (concat (map ?g (ms # groups))))) =
      add_mset (identity_of (?f ms)) (image_mset identity_of (mset (map fst (?g ms)))) +
      image_mset identity_of (mset (map ?f groups @ map fst (concat (map ?g groups))))"
    by (simp only: list.map concat.simps map_append mset_append image_mset_union mset.simps image_mset_add_mset
      union_mset_add_mset_left union_mset_add_mset_right append_Cons union_ac)
  also have "\<dots> = image_mset identity_of (mset ms) + image_mset identity_of (mset (concat groups))"
    unfolding ms using Cons.IH Cons.prems by (metis list.set_intros(2))
  finally show ?case by (simp only: concat.simps mset_append image_mset_union)
qed simp

lemma mset_concat_map_cong: "mset xs = mset ys \<Longrightarrow> mset (concat (map f xs)) = mset (concat (map f ys))"
proof -
  have "mset (concat (map f zs)) = sum_mset (image_mset (\<lambda>x. mset (f x)) (mset zs))" for zs
    by (induction zs) simp_all
  then show "mset xs = mset ys \<Longrightarrow> mset (concat (map f xs)) = mset (concat (map f ys))" by simp
qed

lemma mset_concat_cong: "(\<And>x. mset (f (h x)) = mset (g x)) \<Longrightarrow>
    mset (concat (map f (map h xs))) = mset (concat (map g xs))"
  by (induction xs) simp_all

text \<open>
  C22: Clustering loses and invents nothing: the metrics of the plan are the supplied ones up to
  the inclusion flag, its reason and the volume of a representative; every keyword stands in
  exactly one cluster; the included metrics are one for each cluster, with the keyword of its
  representative, the first of its keywords, and its combined volume, in falling order of value; and
  the queries selected for result pages are the first ones of that order.
\<close>

theorem keyword_plan_partition:
  "let plan = rank_and_cluster_keyword_metrics metrics service market limit decisions
   in image_mset identity_of (mset (mp_metrics plan)) = image_mset identity_of (mset metrics) \<and>
      mset (concat (map kl_keywords (mp_clusters plan))) = mset (map kw_keyword metrics) \<and>
      filter kw_included (mp_metrics plan) = mp_scoring_metrics plan \<and>
      length (mp_scoring_metrics plan) = length (mp_clusters plan) \<and>
      image_mset (\<lambda>m. (kw_keyword m, kw_search_volume m)) (mset (mp_scoring_metrics plan)) =
        image_mset (\<lambda>c. (kl_representative_keyword c, kl_combined_volume c)) (mset (mp_clusters plan)) \<and>
      list_all (\<lambda>c. kl_keywords c \<noteq> [] \<and> kl_representative_keyword c = hd (kl_keywords c)) (mp_clusters plan) \<and>
      sorted_wrt (\<ge>) (map (metric_value_score service market) (mp_scoring_metrics plan)) \<and>
      mp_selected_serp_keywords plan = take (nat limit) (map kw_keyword (mp_scoring_metrics plan))"
proof -
  let ?plan = "rank_and_cluster_keyword_metrics metrics service market limit decisions"
  let ?groups = "map snd (group_metrics market metrics)"
  let ?scoring = "map (scoring_metric service market) ?groups"
  let ?variants = "map fst (concat (map (cluster_variants service market) ?groups))"
  have ranked: "mp_scoring_metrics ?plan = by_value service market ?scoring"
    by (simp add: rank_and_cluster_keyword_metrics_def Let_def)
  have inc: "kw_included m" if "m \<in> set (by_value service market ?scoring)" for m
  proof -
    from that have "m \<in> set ?scoring" by (metis mset_by_value set_mset_mset)
    then show ?thesis by (auto simp: scoring_metric_def)
  qed
  then have same: "map (\<lambda>m. m\<lparr>kw_included := True\<rparr>) (by_value service market ?scoring) = by_value service market ?scoring"
    by (intro map_idI) simp
  have metrics: "mp_metrics ?plan = by_value service market ?scoring @ ?variants"
    unfolding rank_and_cluster_keyword_metrics_def Let_def by (simp only: keyword_metric_plan.simps same)
  have out: "\<not> kw_included m" if "m \<in> set ?variants" for m
    using that by (auto simp: cluster_variants_def grouped_variant_def Let_def)
  have included: "filter kw_included (mp_metrics ?plan) = mp_scoring_metrics ?plan"
    unfolding metrics ranked filter_append using inc out by (simp add: filter_empty_conv del: set_map)
  have "image_mset identity_of (mset (mp_metrics ?plan)) = image_mset identity_of (mset (?scoring @ ?variants))"
    unfolding metrics by simp
  also have "\<dots> = image_mset identity_of (mset (concat ?groups))"
    by (rule clusters_identity) (rule group_metrics_nonempty)
  also have "\<dots> = image_mset identity_of (mset metrics)" by (simp only: group_metrics_mset)
  finally have kept: "image_mset identity_of (mset (mp_metrics ?plan)) = image_mset identity_of (mset metrics)" .
  have clusters: "mset (mp_clusters ?plan) = mset (map (cluster_of service market) ?groups)"
    by (simp add: rank_and_cluster_keyword_metrics_def Let_def)
  have "mset (concat (map kl_keywords (mp_clusters ?plan))) =
      mset (concat (map kl_keywords (map (cluster_of service market) ?groups)))"
    by (rule mset_concat_map_cong [OF clusters])
  also have "\<dots> = mset (concat (map (map kw_keyword) ?groups))"
    by (rule mset_concat_cong) (simp add: cluster_of_def)
  also have "\<dots> = mset (map kw_keyword metrics)"
    unfolding map_concat [symmetric] by (simp only: mset_map group_metrics_mset)
  finally have words: "mset (concat (map kl_keywords (mp_clusters ?plan))) = mset (map kw_keyword metrics)" .
  have sizes: "length (mp_scoring_metrics ?plan) = length (mp_clusters ?plan)"
    by (simp add: rank_and_cluster_keyword_metrics_def by_value_def Let_def)
  have representatives: "image_mset (\<lambda>m. (kw_keyword m, kw_search_volume m)) (mset (mp_scoring_metrics ?plan)) =
      image_mset (\<lambda>c. (kl_representative_keyword c, kl_combined_volume c)) (mset (mp_clusters ?plan))"
    unfolding ranked clusters mset_by_value mset_map multiset.map_comp
    by (rule image_mset_cong) (simp add: scoring_metric_def cluster_of_def)
  have first: "list_all (\<lambda>c. kl_keywords c \<noteq> [] \<and> kl_representative_keyword c = hd (kl_keywords c)) (mp_clusters ?plan)"
    unfolding list_all_iff
  proof
    fix c assume "c \<in> set (mp_clusters ?plan)"
    then have "c \<in> set (map (cluster_of service market) ?groups)" using clusters by (metis set_mset_mset)
    then obtain g where g: "g \<in> set ?groups" "c = cluster_of service market g" by auto
    have "by_value service market g \<noteq> []"
      using group_metrics_nonempty [OF g(1)] mset_by_value [of service market g] by (metis mset_zero_iff)
    then show "kl_keywords c \<noteq> [] \<and> kl_representative_keyword c = hd (kl_keywords c)"
      by (simp add: g(2) cluster_of_def representative_of_def hd_map)
  qed
  have chosen: "mp_selected_serp_keywords ?plan = take (nat limit) (map kw_keyword (mp_scoring_metrics ?plan))"
    by (simp add: rank_and_cluster_keyword_metrics_def Let_def take_map)
  show ?thesis unfolding Let_def
    using kept words included sizes representatives first chosen
    by (simp only: ranked by_value_sorted simp_thms)
qed

text \<open>The similarity of two keys is a share: the matching blocks fit into both keys.\<close>

lemma matches_le: "matches pop a b \<le> length a \<and> matches pop a b \<le> length b"
proof (induction pop a b rule: matches.induct)
  case (1 pop a b)
  obtain i j k where m: "longest_match pop a b = (i, j, k)" by (cases "longest_match pop a b")
  show ?case
  proof (cases "k = 0")
    case True
    then show ?thesis by (subst (1 2) matches.simps) (simp add: m)
  next
    case False
    from 1 [OF m [symmetric] refl refl False] longest_match_bounds [OF m] False show ?thesis
      by (subst (1 2) matches.simps) (auto simp: m)
  qed
qed

lemma similarity_ratio_range: "0 \<le> similarity_ratio a b \<and> similarity_ratio a b \<le> 1"
proof -
  have "2 * matches (popular b) a b \<le> length a + length b" using matches_le [of "popular b" a b] by linarith
  then have "2 * (of_nat (matches (popular b) a b) :: rat) \<le> of_nat (length a + length b)"
    by (metis of_nat_le_iff of_nat_mult of_nat_numeral)
  then show ?thesis by (auto simp: similarity_ratio_def divide_le_eq)
qed

text \<open>A keyword whose volume is unknown is scored as one with a measured volume of zero.\<close>

lemma unknown_volume_zero:
  "kw_search_volume m = None \<Longrightarrow> kw_search_volume (scoring_metric service market [m]) = Some 0"
  by (simp add: scoring_metric_def cluster_volume_def volume_of_def)

end
