(* ===== verification/Geography.thy ===== *)
theory Geography
  imports Keyword_Planning "HOL-Library.Product_Lexorder"
begin

text \<open>
  The offline geography index (\<open>services/us_geography.py\<close>) and the resolution of a location text
  to a market (\<open>services/locations.py\<close>). The read-only SQLite database is a pair of tables; its
  queries are written out as comprehensions followed by the sorting of their \<open>ORDER BY\<close>, where rows
  that the clause does not order keep the order of the tables.
\<close>

section \<open>States and texts\<close>

definition STATE_ABBREVIATIONS :: "(string \<times> string) list" where
  "STATE_ABBREVIATIONS =
    [(''alabama'', ''AL''), (''alaska'', ''AK''), (''arizona'', ''AZ''), (''arkansas'', ''AR''),
     (''california'', ''CA''), (''colorado'', ''CO''), (''connecticut'', ''CT''),
     (''delaware'', ''DE''), (''district of columbia'', ''DC''), (''florida'', ''FL''),
     (''georgia'', ''GA''), (''hawaii'', ''HI''), (''idaho'', ''ID''), (''illinois'', ''IL''),
     (''indiana'', ''IN''), (''iowa'', ''IA''), (''kansas'', ''KS''), (''kentucky'', ''KY''),
     (''louisiana'', ''LA''), (''maine'', ''ME''), (''maryland'', ''MD''),
     (''massachusetts'', ''MA''), (''michigan'', ''MI''), (''minnesota'', ''MN''),
     (''mississippi'', ''MS''), (''missouri'', ''MO''), (''montana'', ''MT''),
     (''nebraska'', ''NE''), (''nevada'', ''NV''), (''new hampshire'', ''NH''),
     (''new jersey'', ''NJ''), (''new mexico'', ''NM''), (''new york'', ''NY''),
     (''north carolina'', ''NC''), (''north dakota'', ''ND''), (''ohio'', ''OH''),
     (''oklahoma'', ''OK''), (''oregon'', ''OR''), (''pennsylvania'', ''PA''),
     (''rhode island'', ''RI''), (''south carolina'', ''SC''), (''south dakota'', ''SD''),
     (''tennessee'', ''TN''), (''texas'', ''TX''), (''utah'', ''UT''), (''vermont'', ''VT''),
     (''virginia'', ''VA''), (''washington'', ''WA''), (''west virginia'', ''WV''),
     (''wisconsin'', ''WI''), (''wyoming'', ''WY'')]"

text \<open>
  Upper case of the Latin-1 letters. The three characters whose upper case is not one such letter
  (sharp s, y with diaeresis, the micro sign) occur in no state or country code and are kept.
\<close>

definition char_upper :: "char \<Rightarrow> char" where
  "char_upper c =
     (let n = (of_char c :: nat)
      in if (97 \<le> n \<and> n \<le> 122) \<or> (224 \<le> n \<and> n \<le> 254 \<and> n \<noteq> 247)
         then char_of (n - 32) else c)"

definition py_upper :: "string \<Rightarrow> string" where
  "py_upper s = map char_upper s"

text \<open>\<open>str.title\<close> on the state names, which are lower-case words separated by blanks.\<close>

fun title_from :: "bool \<Rightarrow> string \<Rightarrow> string" where
  "title_from start [] = []"
| "title_from start (c # cs) = (if start then char_upper c else c) # title_from (c = CHR '' '') cs"

definition py_title :: "string \<Rightarrow> string" where
  "py_title s = title_from True s"

definition STATE_NAMES :: "(string \<times> string) list" where
  "STATE_NAMES = map (\<lambda>(name, abbreviation). (abbreviation, py_title name)) STATE_ABBREVIATIONS"

lemma STATE_NAMES_code [code]:
  "STATE_NAMES =
    [(''AL'', ''Alabama''), (''AK'', ''Alaska''), (''AZ'', ''Arizona''), (''AR'', ''Arkansas''),
     (''CA'', ''California''), (''CO'', ''Colorado''), (''CT'', ''Connecticut''),
     (''DE'', ''Delaware''), (''DC'', ''District Of Columbia''), (''FL'', ''Florida''),
     (''GA'', ''Georgia''), (''HI'', ''Hawaii''), (''ID'', ''Idaho''), (''IL'', ''Illinois''),
     (''IN'', ''Indiana''), (''IA'', ''Iowa''), (''KS'', ''Kansas''), (''KY'', ''Kentucky''),
     (''LA'', ''Louisiana''), (''ME'', ''Maine''), (''MD'', ''Maryland''),
     (''MA'', ''Massachusetts''), (''MI'', ''Michigan''), (''MN'', ''Minnesota''),
     (''MS'', ''Mississippi''), (''MO'', ''Missouri''), (''MT'', ''Montana''),
     (''NE'', ''Nebraska''), (''NV'', ''Nevada''), (''NH'', ''New Hampshire''),
     (''NJ'', ''New Jersey''), (''NM'', ''New Mexico''), (''NY'', ''New York''),
     (''NC'', ''North Carolina''), (''ND'', ''North Dakota''), (''OH'', ''Ohio''),
     (''OK'', ''Oklahoma''), (''OR'', ''Oregon''), (''PA'', ''Pennsylvania''),
     (''RI'', ''Rhode Island''), (''SC'', ''South Carolina''), (''SD'', ''South Dakota''),
     (''TN'', ''Tennessee''), (''TX'', ''Texas''), (''UT'', ''Utah''), (''VT'', ''Vermont''),
     (''VA'', ''Virginia''), (''WA'', ''Washington''), (''WV'', ''West Virginia''),
     (''WI'', ''Wisconsin''), (''WY'', ''Wyoming'')]"
  by code_simp

definition lower_alnum :: "char \<Rightarrow> bool" where
  "lower_alnum c = (let n = (of_char c :: nat) in (48 \<le> n \<and> n \<le> 57) \<or> (97 \<le> n \<and> n \<le> 122))"

definition normalize_location :: "string \<Rightarrow> string" where
  "normalize_location v =
     join_words (split_words (map (\<lambda>c. if lower_alnum c then c else CHR '' '') (py_lower v)))"

text \<open>Words are popped off the end while they name the country; the list is kept reversed.\<close>

definition without_country :: "string list \<Rightarrow> string list" where
  "without_country tokens =
     rev (dropWhile (\<lambda>t. t \<in> {''us'', ''usa'', ''united'', ''states'', ''america''}) (rev tokens))"

definition states_by_words :: "(string \<times> string) list" where
  "states_by_words = sort_key (\<lambda>p. - int (length (split_words (fst p)))) STATE_ABBREVIATIONS"

definition last_words :: "nat \<Rightarrow> string list \<Rightarrow> string list" where
  "last_words n tokens = drop (length tokens - n) tokens"

definition parse_city_state :: "string \<Rightarrow> string \<times> string option" where
  "parse_city_state v =
     (let tokens = without_country (split_words (normalize_location v))
      in if tokens = [] then ([], None)
         else if py_upper (last tokens) \<in> fst ` set STATE_NAMES
         then (join_words (butlast tokens), Some (py_upper (last tokens)))
         else (case List.find (\<lambda>p. last_words (length (split_words (fst p))) tokens = split_words (fst p))
                      states_by_words of
                 Some p \<Rightarrow> (join_words (take (length tokens - length (split_words (fst p))) tokens), Some (snd p))
               | None \<Rightarrow> (join_words tokens, None)))"

section \<open>The index\<close>

record us_geography_record =
  ug_id :: string
  ug_kind :: string
  ug_city :: string
  ug_state :: string
  ug_postal_code :: "string option"
  ug_county :: string
  ug_county_fips :: string
  ug_metro :: string
  ug_metro_code :: "string option"
  ug_metro_type :: string
  ug_latitude :: rat
  ug_longitude :: rat
  ug_population :: int
  ug_reference_population :: int
  ug_households :: "int option"
  ug_housing_units :: "int option"
  ug_owner_occupied_units :: "int option"
  ug_median_year_built :: "int option"
  ug_public_data_year :: int
  ug_aliases :: "string list"
  ug_postal_codes :: "string list"
  ug_boundary_radius_km :: rat
  ug_land_area_sq_km :: rat
  ug_source_geoid :: string
  ug_dataset_version :: string

record us_geography_match =
  um_record :: us_geography_record
  um_confidence :: rat
  um_match_reason :: string
  um_matched_alias :: string

text \<open>The rows of \<open>geography_aliases\<close> and the two tables.\<close>

record geography_alias =
  ga_alias_norm :: string
  ga_geography_id :: string
  ga_alias :: string
  ga_priority :: int

record us_geography_index =
  gi_geographies :: "us_geography_record list"
  gi_aliases :: "geography_alias list"

definition index_get :: "us_geography_index \<Rightarrow> string \<Rightarrow> us_geography_record option" where
  "index_get idx i = tget ug_id i (gi_geographies idx)"

definition match_score :: "string \<Rightarrow> string \<Rightarrow> bool \<Rightarrow> rat \<times> string" where
  "match_score query alias state_supplied =
     (let state_bonus = (if state_supplied then 2 / 100 else 0)
      in if query = alias
         then (min 1 (97 / 100 + state_bonus), if state_supplied then ''exact_city_state'' else ''exact_city'')
         else if starts_with query alias then (min (95 / 100) (88 / 100 + state_bonus), ''city_prefix'')
         else (let query_tokens = remdups (split_words query);
                   overlap = of_nat (length (filter (\<lambda>t. t \<in> set (split_words alias)) query_tokens)) /
                     of_nat (max 1 (length query_tokens))
               in (min (89 / 100) (max (similarity_ratio query alias) (overlap * (85 / 100)) + state_bonus),
                   ''fuzzy_city'')))"

text \<open>
  The query of \<open>search\<close>. A pattern is a normalized text followed by a percent sign, so \<open>LIKE\<close>, which
  ignores the case of ASCII letters, is a test for a prefix of the alias in lower case.
\<close>

definition like_prefix :: "string \<Rightarrow> string \<Rightarrow> bool" where
  "like_prefix p s = starts_with p (py_lower s)"

definition alias_rank :: "string \<Rightarrow> string \<Rightarrow> nat" where
  "alias_rank normalized a = (if a = normalized then 0 else if like_prefix normalized a then 1 else 2)"

definition alias_rows ::
  "us_geography_index \<Rightarrow> string \<Rightarrow> string option \<Rightarrow> (geography_alias \<times> us_geography_record) list" where
  "alias_rows idx normalized state =
     filter (\<lambda>(a, g). ug_kind g = ''city'' \<and> (case state of None \<Rightarrow> True | Some s \<Rightarrow> ug_state g = s) \<and>
         (ga_alias_norm a = normalized \<or> like_prefix normalized (ga_alias_norm a) \<or>
          like_prefix (take 2 normalized) (ga_alias_norm a)))
       (concat (map (\<lambda>a. map (Pair a) (filter (\<lambda>g. ug_id g = ga_geography_id a) (gi_geographies idx)))
          (gi_aliases idx)))"

definition ordered_rows ::
  "us_geography_index \<Rightarrow> string \<Rightarrow> string option \<Rightarrow> (geography_alias \<times> us_geography_record) list" where
  "ordered_rows idx normalized state =
     take 400 (sort_key (\<lambda>(a, g). (alias_rank normalized (ga_alias_norm a), - ga_priority a, - ug_population g))
       (alias_rows idx normalized state))"

definition match_of_row ::
  "string \<Rightarrow> bool \<Rightarrow> geography_alias \<times> us_geography_record \<Rightarrow> us_geography_match" where
  "match_of_row normalized state_supplied row =
     (let (score, reason) = match_score normalized (ga_alias_norm (fst row)) state_supplied
      in \<lparr>um_record = snd row, um_confidence = score, um_match_reason = reason,
          um_matched_alias = ga_alias (fst row)\<rparr>)"

text \<open>The dictionary \<open>best\<close>, keyed by the id of the geography.\<close>

definition keep_best ::
  "us_geography_match \<Rightarrow> (string \<times> us_geography_match) list \<Rightarrow> (string \<times> us_geography_match) list" where
  "keep_best m best =
     (if um_confidence m < 55 / 100 then best
      else case map_of best (ug_id (um_record m)) of
        None \<Rightarrow> dict_put (ug_id (um_record m)) m best
      | Some existing \<Rightarrow>
          if um_confidence existing < um_confidence m then dict_put (ug_id (um_record m)) m best else best)"

fun best_matches ::
  "us_geography_match list \<Rightarrow> (string \<times> us_geography_match) list \<Rightarrow> (string \<times> us_geography_match) list" where
  "best_matches [] best = best"
| "best_matches (m # ms) best = best_matches ms (keep_best m best)"

text \<open>\<open>sorted(..., reverse=True)\<close> keeps the order of equal keys.\<close>

definition sorted_down :: "('a \<Rightarrow> 'k::linorder) \<Rightarrow> 'a list \<Rightarrow> 'a list" where
  "sorted_down key xs = rev (sort_key key (rev xs))"

definition zip_query :: "string \<Rightarrow> string option" where
  "zip_query cleaned =
     (let digit = (\<lambda>c. (48::nat) \<le> of_char c \<and> of_char c \<le> (57::nat))
      in if length cleaned \<in> {5, 10} \<and> list_all digit (take 5 cleaned) \<and>
            (drop 5 cleaned = [] \<or> hd (drop 5 cleaned) = CHR ''-'' \<and> list_all digit (drop 6 cleaned))
         then Some (take 5 cleaned) else None)"

definition search_zip :: "us_geography_index \<Rightarrow> string \<Rightarrow> us_geography_match list" where
  "search_zip idx postal_code =
     (case select_first (\<lambda>g. ug_postal_code g = Some postal_code) (gi_geographies idx) of
        None \<Rightarrow> []
      | Some g \<Rightarrow> [\<lparr>um_record = g, um_confidence = 1, um_match_reason = ''exact_zip'',
          um_matched_alias = postal_code\<rparr>])"

definition search_city :: "us_geography_index \<Rightarrow> string \<Rightarrow> string option \<Rightarrow> us_geography_match list" where
  "search_city idx normalized state =
     sorted_down (\<lambda>m. (um_confidence m, ug_population (um_record m), ug_city (um_record m)))
       (map snd (best_matches (map (match_of_row normalized (state \<noteq> None)) (ordered_rows idx normalized state)) []))"

definition index_search :: "us_geography_index \<Rightarrow> string \<Rightarrow> nat \<Rightarrow> us_geography_match list" where
  "index_search idx query limit =
     (let cleaned = py_strip query
      in if cleaned = [] then []
         else case zip_query cleaned of
           Some postal_code \<Rightarrow> search_zip idx postal_code
         | None \<Rightarrow>
             (let (city_query, state) = parse_city_state cleaned; normalized = normalize_location city_query
              in if length normalized < 2 then [] else take limit (search_city idx normalized state)))"

definition list_markets ::
  "us_geography_index \<Rightarrow> string \<Rightarrow> string list \<Rightarrow> int \<Rightarrow> us_geography_record list" where
  "list_markets idx kind states minimum_population =
     (let normalized_states = filter (\<lambda>s. s \<in> fst ` set STATE_NAMES) (map (py_upper \<circ> py_strip) states)
      in sort_key (\<lambda>g. (- ug_population g, ug_state g, ug_city g))
           (filter (\<lambda>g. ug_kind g = kind \<and> max 1 minimum_population \<le> ug_population g \<and>
              (normalized_states = [] \<or> ug_state g \<in> set normalized_states)) (gi_geographies idx)))"

section \<open>Markets\<close>

datatype location_type = LT_city | LT_postal_code | LT_county | LT_metro | LT_market

fun location_type_value :: "location_type \<Rightarrow> string" where
  "location_type_value LT_city = ''city''"
| "location_type_value LT_postal_code = ''postal_code''"
| "location_type_value LT_county = ''county''"
| "location_type_value LT_metro = ''metro''"
| "location_type_value LT_market = ''market''"

text \<open>The fields of \<open>Market\<close> beyond those the evidence services read.\<close>

record market_model = market_spec +
  mm_id :: string
  mm_slug :: string
  mm_type :: location_type
  mm_county :: "string option"
  mm_county_fips :: "string option"
  mm_metro :: "string option"
  mm_metro_code :: "string option"
  mm_aliases :: "string list"
  mm_boundary_radius_km :: "rat option"
  mm_geography_id :: "string option"
  mm_geography_dataset_version :: "string option"
  mm_provider_location_code :: "string option"
  mm_provider_location_name :: "string option"

record location_candidate =
  lo_id :: string
  lo_label :: string
  lo_type :: location_type
  lo_country :: string
  lo_state :: string
  lo_city :: string
  lo_postal_code :: "string option"
  lo_county :: string
  lo_county_fips :: string
  lo_metro :: string
  lo_metro_code :: "string option"
  lo_latitude :: rat
  lo_longitude :: rat
  lo_population :: int
  lo_reference_population :: int
  lo_aliases :: "string list"
  lo_postal_codes :: "string list"
  lo_boundary_radius_km :: rat
  lo_geography_id :: string
  lo_geography_dataset_version :: string
  lo_provider_location_code :: "string option"
  lo_provider_location_name :: "string option"
  lo_source :: string
  lo_confidence :: rat
  lo_match_reason :: string
  lo_resolution_metadata :: jobj

definition infer_provider_location_name :: "string \<Rightarrow> string \<Rightarrow> string" where
  "infer_provider_location_name city state =
     city @ '','' @ (case map_of STATE_NAMES (py_upper state) of None \<Rightarrow> state | Some name \<Rightarrow> name) @
     '',United States''"

definition slug_or_id :: "string \<Rightarrow> string \<Rightarrow> string" where
  "slug_or_id slug i = (if slug \<noteq> [] then slug else slugify i)"

definition to_market :: "location_candidate \<Rightarrow> market_model" where
  "to_market c =
     \<lparr>mt_display_name = lo_label c, mt_country_code = lo_country c, mt_state = Some (lo_state c),
      mt_cities = [lo_city c], mt_postal_codes = lo_postal_codes c,
      mt_latitude = Some (lo_latitude c), mt_longitude = Some (lo_longitude c),
      mt_population = Some (lo_population c), mt_reference_population = Some (lo_reference_population c),
      mt_resolution_metadata = jmerge (lo_resolution_metadata c)
        [(''selected_location_id'', JStr (lo_geography_id c)), (''selected_location_source'', JStr (lo_source c)),
         (''selected_location_confidence'', JNum (lo_confidence c)),
         (''selected_location_match_reason'', JStr (lo_match_reason c)),
         (''dataforseo_mapping_status'', JStr (if truthy_str (lo_provider_location_code c)
            then ''provider_code'' else ''inferred_provider_name''))],
      mm_id = slugify (lo_geography_id c),
      mm_slug = slug_or_id (slugify (lo_geography_id c)) (slugify (lo_geography_id c)),
      mm_type = lo_type c, mm_county = Some (lo_county c), mm_county_fips = Some (lo_county_fips c),
      mm_metro = Some (lo_metro c), mm_metro_code = lo_metro_code c, mm_aliases = lo_aliases c,
      mm_boundary_radius_km = Some (lo_boundary_radius_km c), mm_geography_id = Some (lo_geography_id c),
      mm_geography_dataset_version = Some (lo_geography_dataset_version c),
      mm_provider_location_code = lo_provider_location_code c,
      mm_provider_location_name = str_or (lo_provider_location_name c)
        (Some (infer_provider_location_name (lo_city c) (lo_state c)))\<rparr>"

definition candidate_postal_codes :: "us_geography_record \<Rightarrow> string list" where
  "candidate_postal_codes r =
     (if ug_kind r = ''postal_code'' \<and> truthy_str (ug_postal_code r)
      then [the (ug_postal_code r)] else ug_postal_codes r)"

definition candidate_from_record ::
  "us_geography_record \<Rightarrow> rat \<Rightarrow> string \<Rightarrow> string \<Rightarrow> location_candidate" where
  "candidate_from_record r confidence match_reason matched_alias =
     (let is_zip = (ug_kind r = ''postal_code''); place = ug_city r @ '', '' @ ug_state r @ '', US''
      in \<lparr>lo_id = ug_id r,
          lo_label = (if is_zip then ''ZIP '' @ (case ug_postal_code r of None \<Rightarrow> ''None'' | Some z \<Rightarrow> z) @
             '' - '' @ place else place),
          lo_type = (if is_zip then LT_postal_code else LT_city), lo_country = ''US'',
          lo_state = ug_state r, lo_city = ug_city r, lo_postal_code = ug_postal_code r,
          lo_county = ug_county r, lo_county_fips = ug_county_fips r, lo_metro = ug_metro r,
          lo_metro_code = ug_metro_code r, lo_latitude = ug_latitude r, lo_longitude = ug_longitude r,
          lo_population = ug_population r, lo_reference_population = ug_reference_population r,
          lo_aliases = ug_aliases r, lo_postal_codes = candidate_postal_codes r,
          lo_boundary_radius_km = ug_boundary_radius_km r, lo_geography_id = ug_id r,
          lo_geography_dataset_version = ug_dataset_version r, lo_provider_location_code = None,
          lo_provider_location_name = Some (infer_provider_location_name (ug_city r) (ug_state r)),
          lo_source = ''offline_us_geography'', lo_confidence = confidence, lo_match_reason = match_reason,
          lo_resolution_metadata =
            [(''geography_source_geoid'', JStr (ug_source_geoid r)),
             (''geography_dataset_version'', JStr (ug_dataset_version r)),
             (''matched_alias'', JStr matched_alias), (''county'', JStr (ug_county r)),
             (''county_fips'', JStr (ug_county_fips r)), (''metro'', JStr (ug_metro r)),
             (''metro_code'', opt_str (ug_metro_code r)), (''population'', JNum (of_int (ug_population r))),
             (''reference_population'', JNum (of_int (ug_reference_population r))),
             (''boundary_radius_km'', JNum (ug_boundary_radius_km r)),
             (''boundary_method'', JStr ''area_equivalent_radius''),
             (''land_area_sq_km'', JNum (ug_land_area_sq_km r))]\<rparr>)"

definition candidate_from_match :: "us_geography_match \<Rightarrow> location_candidate" where
  "candidate_from_match m =
     candidate_from_record (um_record m) (um_confidence m) (um_match_reason m) (um_matched_alias m)"

definition market_from_geography_record :: "us_geography_record \<Rightarrow> market_model" where
  "market_from_geography_record r =
     to_market (candidate_from_record r 1 ''canonical_geography_record'' (ug_city r))"

definition COUNTRY_ALIASES :: "(string \<times> string) list" where
  "COUNTRY_ALIASES = [(''us'', ''US''), (''usa'', ''US''), (''u s'', ''US''), (''united states'', ''US''),
     (''united states of america'', ''US'')]"

definition normalize_country :: "string \<Rightarrow> string" where
  "normalize_country v =
     (let cleaned = join_words (split_words (map (\<lambda>c. if c = CHR ''.'' then CHR '' '' else c) (py_lower v)));
          code = take 2 (py_upper (py_strip v))
      in case map_of COUNTRY_ALIASES cleaned of Some c \<Rightarrow> c | None \<Rightarrow> if code = [] then ''US'' else code)"

text \<open>
  Errors: those of the index, and those of the resolution, which carry the candidates to choose
  from. The index is absent when its database file is missing.
\<close>

datatype geography_error =
  IndexMissing | NotUnitedStates | NotLinked | NotInIndex | StaleField string | UnknownState string

datatype resolution_error =
  UnsupportedCountry | IndexUnavailable | SelectionGone | Unresolved | Ambiguous "location_candidate list"

definition search_locations :: "us_geography_index \<Rightarrow> string \<Rightarrow> string \<Rightarrow> nat \<Rightarrow> location_candidate list" where
  "search_locations idx query country limit =
     (if normalize_country country \<noteq> ''US'' \<or> length (py_strip query) < 2 then []
      else map candidate_from_match (index_search idx query limit))"

definition exact_reason :: "string \<Rightarrow> bool" where
  "exact_reason reason = (reason \<in> {''exact_zip'', ''exact_city_state'', ''exact_city''})"

definition resolve_text :: "us_geography_index \<Rightarrow> string \<Rightarrow> string \<Rightarrow> resolution_error + market_model" where
  "resolve_text idx location_text country =
     (let candidates = search_locations idx location_text country 12;
          exact = filter (\<lambda>c. exact_reason (lo_match_reason c)) candidates
      in if candidates = [] then Inl Unresolved
         else if length exact = 1 then Inr (to_market (hd exact))
         else Inl (Ambiguous candidates))"

definition resolve_market_for_scan ::
  "us_geography_index option \<Rightarrow> string \<Rightarrow> string \<Rightarrow> location_candidate option \<Rightarrow> resolution_error + market_model" where
  "resolve_market_for_scan index location_text country selected_location =
     (let normalized_country = normalize_country country
      in if normalized_country \<noteq> ''US'' then Inl UnsupportedCountry
         else case index of None \<Rightarrow> Inl IndexUnavailable
         | Some idx \<Rightarrow>
             (case selected_location of
                None \<Rightarrow> resolve_text idx location_text normalized_country
              | Some s \<Rightarrow>
                  (case index_get idx (lo_geography_id s) of
                     None \<Rightarrow> Inl SelectionGone
                   | Some r \<Rightarrow> Inr (to_market
                       (candidate_from_record r 1 ''selected_canonical_location'' (lo_label s))))))"

text \<open>\<open>validate_market_against_index\<close>: the fields of the market must be those of the record.\<close>

definition numeric_stale :: "rat option \<Rightarrow> rat \<Rightarrow> bool" where
  "numeric_stale actual expected = (case actual of None \<Rightarrow> True | Some v \<Rightarrow> 1 / 10000 < \<bar>v - expected\<bar>)"

definition market_mismatches :: "market_model \<Rightarrow> us_geography_record \<Rightarrow> geography_error option list" where
  "market_mismatches m r =
     [raise_if (location_type_value (mm_type m) \<noteq> ug_kind r) (StaleField ''type''),
      raise_if (mt_state m \<noteq> Some (ug_state r)) (StaleField ''state''),
      raise_if (mt_cities m \<noteq> [ug_city r]) (StaleField ''cities''),
      raise_if (mt_postal_codes m \<noteq> candidate_postal_codes r) (StaleField ''postal_codes''),
      raise_if (mm_county m \<noteq> Some (ug_county r)) (StaleField ''county''),
      raise_if (mm_county_fips m \<noteq> Some (ug_county_fips r)) (StaleField ''county_fips''),
      raise_if (mm_metro m \<noteq> Some (ug_metro r)) (StaleField ''metro''),
      raise_if (mm_metro_code m \<noteq> ug_metro_code r) (StaleField ''metro_code''),
      raise_if (mm_aliases m \<noteq> ug_aliases r) (StaleField ''aliases''),
      raise_if (mm_geography_dataset_version m \<noteq> Some (ug_dataset_version r)) (StaleField ''geography_dataset_version''),
      raise_if (numeric_stale (mt_latitude m) (ug_latitude r)) (StaleField ''latitude''),
      raise_if (numeric_stale (mt_longitude m) (ug_longitude r)) (StaleField ''longitude''),
      raise_if (numeric_stale (map_option of_int (mt_population m)) (of_int (ug_population r))) (StaleField ''population''),
      raise_if (numeric_stale (map_option of_int (mt_reference_population m)) (of_int (ug_reference_population r)))
        (StaleField ''reference_population''),
      raise_if (numeric_stale (mm_boundary_radius_km m) (ug_boundary_radius_km r)) (StaleField ''boundary_radius_km'')]"

definition provider_name_error :: "market_model \<Rightarrow> us_geography_record \<Rightarrow> geography_error option" where
  "provider_name_error m r =
     (if truthy_str (mm_provider_location_code m) then None
      else case map_of STATE_NAMES (ug_state r) of
        None \<Rightarrow> Some (UnknownState (ug_state r))
      | Some name \<Rightarrow> raise_if (mm_provider_location_name m \<noteq> Some (ug_city r @ '','' @ name @ '',United States''))
          (StaleField ''provider_location_name''))"

definition validate_market_against_index ::
  "us_geography_index option \<Rightarrow> market_model \<Rightarrow> geography_error + us_geography_record" where
  "validate_market_against_index index m =
     guarded [raise_if (py_upper (mt_country_code m) \<noteq> ''US'') NotUnitedStates,
              raise_if (\<not> truthy_str (mm_geography_id m)) NotLinked]
     (and_then (require_some IndexMissing index) (\<lambda>idx.
      and_then (require_some NotInIndex (index_get idx (the (mm_geography_id m)))) (\<lambda>r.
      guarded (market_mismatches m r @ [provider_name_error m r]) (Inr r))))"

section \<open>A resolved market is valid\<close>

definition index_ok :: "us_geography_index \<Rightarrow> bool" where
  "index_ok idx \<longleftrightarrow> keys_distinct ug_id (gi_geographies idx) \<and>
     list_all (\<lambda>g. ug_id g \<noteq> [] \<and> ug_kind g \<in> {''city'', ''postal_code''} \<and>
       ug_state g \<in> fst ` set STATE_NAMES) (gi_geographies idx)"

lemma state_codes_upper: "s \<in> fst ` set STATE_NAMES \<Longrightarrow> py_upper s = s"
proof -
  have "list_all (\<lambda>p. py_upper (fst p) = fst p) STATE_NAMES" by code_simp
  then show "s \<in> fst ` set STATE_NAMES \<Longrightarrow> py_upper s = s" by (auto simp: list_all_iff)
qed

lemma infer_provider_location_name:
  assumes "s \<in> fst ` set STATE_NAMES"
  obtains name where "map_of STATE_NAMES s = Some name"
    "infer_provider_location_name city s = city @ '','' @ name @ '',United States''"
proof -
  from assms obtain name where name: "map_of STATE_NAMES s = Some name"
    by (metis map_of_eq_None_iff not_None_eq)
  then have "infer_provider_location_name city s = city @ '','' @ name @ '',United States''"
    by (simp add: infer_provider_location_name_def state_codes_upper [OF assms])
  then show thesis using that name by blast
qed

lemma candidate_market_fields:
  "mt_country_code (to_market (candidate_from_record r c reason alias)) = ''US''"
  "mm_geography_id (to_market (candidate_from_record r c reason alias)) = Some (ug_id r)"
  by (simp_all add: to_market_def candidate_from_record_def Let_def)

lemma candidate_market_matches:
  "ug_kind r \<in> {''city'', ''postal_code''} \<Longrightarrow>
     first_error (market_mismatches (to_market (candidate_from_record r c reason alias)) r @ [None]) = None"
  by (auto simp: market_mismatches_def to_market_def candidate_from_record_def Let_def numeric_stale_def)

lemma candidate_market_validates:
  assumes "index_ok idx" "r \<in> set (gi_geographies idx)"
  shows "validate_market_against_index (Some idx) (to_market (candidate_from_record r c reason alias)) = Inr r"
proof -
  let ?m = "to_market (candidate_from_record r c reason alias)"
  from assms have r: "ug_id r \<noteq> []" "ug_kind r \<in> {''city'', ''postal_code''}" "ug_state r \<in> fst ` set STATE_NAMES"
    and get: "index_get idx (ug_id r) = Some r"
    by (auto simp: index_ok_def list_all_iff index_get_def tget_in_set)
  obtain name where name: "map_of STATE_NAMES (ug_state r) = Some name"
    "infer_provider_location_name (ug_city r) (ug_state r) = ug_city r @ '','' @ name @ '',United States''"
    using infer_provider_location_name [OF r(3)] by blast
  then have "provider_name_error ?m r = None"
    by (simp add: provider_name_error_def to_market_def candidate_from_record_def Let_def str_or_def truthy_str_def)
  with candidate_market_matches [OF r(2)]
  have "first_error (market_mismatches ?m r @ [provider_name_error ?m r]) = None" by simp
  moreover have "py_upper ''US'' = ''US''" by code_simp
  ultimately show ?thesis using r(1) get
    by (simp add: validate_market_against_index_def candidate_market_fields truthy_str_def)
qed

section \<open>Searching\<close>

lemma set_sorted_down [simp]: "set (sorted_down key xs) = set xs"
  by (simp add: sorted_down_def)

lemma mset_sorted_down [simp]: "mset (sorted_down key xs) = mset xs"
  by (simp add: sorted_down_def)

lemma sorted_down_desc: "sorted_wrt (\<lambda>x y. key y \<le> key x) (sorted_down key xs)"
  using sorted_sort_key [of key "rev xs"] by (simp add: sorted_down_def sorted_map sorted_wrt_rev)

text \<open>Where the elements with a property come first, cutting the list commutes with selecting them.\<close>

lemma filter_take_prefix:
  "sorted_wrt (\<lambda>x y. P y \<longrightarrow> P x) xs \<Longrightarrow> filter P (take n xs) = take n (filter P xs)"
proof (induction xs arbitrary: n)
  case (Cons x xs)
  then show ?case by (cases n) (auto simp: filter_empty_conv dest: in_set_takeD)
qed simp

lemma map_of_keep_best:
  "map_of (keep_best x best) i = Some m \<Longrightarrow>
     map_of best i = Some m \<or> m = x \<and> ug_id (um_record x) = i \<and> 55 / 100 \<le> um_confidence x"
  by (auto simp: keep_best_def split: if_splits option.splits)

lemma keep_best_at_least:
  "map_of best i = Some e \<Longrightarrow> \<exists>e'. map_of (keep_best x best) i = Some e' \<and> um_confidence e \<le> um_confidence e'"
  by (auto simp: keep_best_def split: option.splits)

lemma keep_best_covers:
  "55 / 100 \<le> um_confidence x \<Longrightarrow>
     \<exists>e. map_of (keep_best x best) (ug_id (um_record x)) = Some e \<and> um_confidence x \<le> um_confidence e"
  by (auto simp: keep_best_def split: option.splits)

lemma distinct_keep_best: "distinct (map fst best) \<Longrightarrow> distinct (map fst (keep_best x best))"
  by (auto simp: keep_best_def map_fst_dict_put split: option.splits)

lemma map_of_best_matches:
  "map_of (best_matches ms best) i = Some m \<Longrightarrow>
     map_of best i = Some m \<or> m \<in> set ms \<and> ug_id (um_record m) = i \<and> 55 / 100 \<le> um_confidence m"
proof (induction ms arbitrary: best)
  case (Cons x ms)
  from Cons(2) have "map_of (best_matches ms (keep_best x best)) i = Some m" by simp
  from Cons(1) [OF this] map_of_keep_best [of x best i m] show ?case by auto
qed simp

lemma best_matches_at_least:
  "map_of best i = Some e \<Longrightarrow> \<exists>e'. map_of (best_matches ms best) i = Some e' \<and> um_confidence e \<le> um_confidence e'"
proof (induction ms arbitrary: best e)
  case (Cons x ms)
  from keep_best_at_least [OF Cons(2)] obtain e1
    where e1: "map_of (keep_best x best) i = Some e1" "um_confidence e \<le> um_confidence e1" by blast
  from Cons(1) [OF e1(1)] e1(2) show ?case by (auto intro: order_trans)
qed simp

lemma best_matches_covers:
  "m \<in> set ms \<Longrightarrow> 55 / 100 \<le> um_confidence m \<Longrightarrow>
     \<exists>e. map_of (best_matches ms best) (ug_id (um_record m)) = Some e \<and> um_confidence m \<le> um_confidence e"
proof (induction ms arbitrary: best)
  case (Cons x ms)
  show ?case
  proof (cases "m \<in> set ms")
    case True
    then show ?thesis using Cons(1) Cons(3) by simp
  next
    case False
    then have "m = x" using Cons(2) by simp
    with keep_best_covers [OF Cons(3)] obtain e
      where e: "map_of (keep_best x best) (ug_id (um_record m)) = Some e" "um_confidence m \<le> um_confidence e" by blast
    from best_matches_at_least [OF e(1), of ms] e(2) show ?thesis by (auto intro: order_trans)
  qed
qed simp

lemma distinct_best_matches: "distinct (map fst best) \<Longrightarrow> distinct (map fst (best_matches ms best))"
  by (induction ms arbitrary: best) (simp_all add: distinct_keep_best)

lemma starts_with_self [simp]: "starts_with s s"
  by (simp add: starts_with_def)

definition top_score :: rat where
  "top_score = 97 / 100"

lemma match_score_exact:
  "top_score \<le> fst (match_score q a st) \<longleftrightarrow> q = a"
  "exact_reason (snd (match_score q a st)) \<longleftrightarrow> q = a"
proof -
  have fuzzy: "min (89 / 100) x \<le> (95 / 100 :: rat)" for x
    by (rule order_trans [OF min.cobounded1]) simp
  have "fst (match_score q a st) \<le> 95 / 100" if "q \<noteq> a"
    unfolding match_score_def Let_def using that fuzzy by (cases "starts_with q a") (simp_all only: if_False if_True fst_conv min.cobounded1)
  moreover have "97 / 100 \<le> fst (match_score q q st)" by (simp add: match_score_def Let_def)
  ultimately show "top_score \<le> fst (match_score q a st) \<longleftrightarrow> q = a" unfolding top_score_def by fastforce
  show "exact_reason (snd (match_score q a st)) \<longleftrightarrow> q = a"
    by (auto simp: match_score_def Let_def exact_reason_def)
qed

lemma match_score_range: "fst (match_score q a st) \<le> 1"
  by (auto simp: match_score_def Let_def)

lemma match_of_row_simps [simp]:
  "um_record (match_of_row n st row) = snd row"
  "um_confidence (match_of_row n st row) = fst (match_score n (ga_alias_norm (fst row)) st)"
  "um_match_reason (match_of_row n st row) = snd (match_score n (ga_alias_norm (fst row)) st)"
  by (simp_all add: match_of_row_def case_prod_beta Let_def)

lemma set_search_city:
  assumes "m \<in> set (search_city idx normalized state)"
  shows "\<exists>row \<in> set (ordered_rows idx normalized state). m = match_of_row normalized (state \<noteq> None) row"
    "55 / 100 \<le> um_confidence m"
proof -
  let ?best = "best_matches (map (match_of_row normalized (state \<noteq> None)) (ordered_rows idx normalized state)) []"
  from assms obtain i where "(i, m) \<in> set ?best" by (auto simp: search_city_def)
  then have "map_of ?best i = Some m" using distinct_best_matches [of "[]"] by simp
  from map_of_best_matches [OF this]
  show "\<exists>row \<in> set (ordered_rows idx normalized state). m = match_of_row normalized (state \<noteq> None) row"
    "55 / 100 \<le> um_confidence m" by auto
qed

lemma distinct_search_city: "distinct (map (ug_id \<circ> um_record) (search_city idx normalized state))"
proof -
  let ?best = "best_matches (map (match_of_row normalized (state \<noteq> None)) (ordered_rows idx normalized state)) []"
  have keys: "distinct (map fst ?best)" by (rule distinct_best_matches) simp
  have "ug_id (um_record (snd p)) = fst p" if "p \<in> set ?best" for p
    using map_of_best_matches [of _ "[]" "fst p" "snd p"] keys that by (metis map_of_is_SomeI map_of.simps(1) option.distinct(1) prod.collapse)
  then have "map (ug_id \<circ> um_record) (map snd ?best) = map fst ?best" by simp
  with keys have "distinct (map (ug_id \<circ> um_record) (map snd ?best))" by (simp only:)
  moreover have "mset (map (ug_id \<circ> um_record) (search_city idx normalized state)) =
      mset (map (ug_id \<circ> um_record) (map snd ?best))"
    by (simp only: search_city_def mset_map [of "ug_id \<circ> um_record"] mset_sorted_down)
  ultimately show ?thesis using mset_eq_imp_distinct_iff by blast
qed

lemma search_city_covers:
  assumes "row \<in> set (ordered_rows idx normalized state)"
    "55 / 100 \<le> fst (match_score normalized (ga_alias_norm (fst row)) (state \<noteq> None))"
  shows "\<exists>m \<in> set (search_city idx normalized state). ug_id (um_record m) = ug_id (snd row) \<and>
    fst (match_score normalized (ga_alias_norm (fst row)) (state \<noteq> None)) \<le> um_confidence m"
proof -
  let ?ms = "map (match_of_row normalized (state \<noteq> None)) (ordered_rows idx normalized state)"
  from best_matches_covers [of "match_of_row normalized (state \<noteq> None) row" ?ms "[]"] assms
  obtain e where e: "map_of (best_matches ?ms []) (ug_id (snd row)) = Some e"
    "fst (match_score normalized (ga_alias_norm (fst row)) (state \<noteq> None)) \<le> um_confidence e" by auto
  from map_of_best_matches [OF e(1)] have "ug_id (um_record e) = ug_id (snd row)" by simp
  moreover from map_of_SomeD [OF e(1)] have "e \<in> set (search_city idx normalized state)"
    by (force simp: search_city_def)
  ultimately show ?thesis using e(2) by blast
qed

lemma set_ordered_rows:
  "row \<in> set (ordered_rows idx normalized state) \<Longrightarrow> row \<in> set (alias_rows idx normalized state)"
  by (auto simp: ordered_rows_def dest: in_set_takeD)

lemma set_alias_rows:
  "(a, g) \<in> set (alias_rows idx normalized state) \<longleftrightarrow>
     a \<in> set (gi_aliases idx) \<and> g \<in> set (gi_geographies idx) \<and> ug_id g = ga_geography_id a \<and>
     ug_kind g = ''city'' \<and> (case state of None \<Rightarrow> True | Some s \<Rightarrow> ug_state g = s) \<and>
     (ga_alias_norm a = normalized \<or> like_prefix normalized (ga_alias_norm a) \<or>
      like_prefix (take 2 normalized) (ga_alias_norm a))"
  by (auto simp: alias_rows_def)

definition exact_row :: "string \<Rightarrow> geography_alias \<times> us_geography_record \<Rightarrow> bool" where
  "exact_row normalized row \<longleftrightarrow> ga_alias_norm (fst row) = normalized"

lemma exact_rows_kept:
  assumes "length (filter (exact_row normalized) (alias_rows idx normalized state)) \<le> 400"
    "row \<in> set (alias_rows idx normalized state)" "exact_row normalized row"
  shows "row \<in> set (ordered_rows idx normalized state)"
proof -
  let ?key = "\<lambda>(a, g). (alias_rank normalized (ga_alias_norm a), - ga_priority a, - ug_population g)"
  let ?rows = "sort_key ?key (alias_rows idx normalized state)"
  have "sorted_wrt (\<lambda>x y. ?key x \<le> ?key y) ?rows"
    using sorted_sort_key [of ?key] by (simp add: sorted_map)
  then have "sorted_wrt (\<lambda>x y. exact_row normalized y \<longrightarrow> exact_row normalized x) ?rows"
    by (rule sorted_wrt_mono_rel [rotated]) (auto simp: exact_row_def alias_rank_def split: if_splits)
  then have "filter (exact_row normalized) (take 400 ?rows) = take 400 (filter (exact_row normalized) ?rows)"
    by (rule filter_take_prefix)
  also have "\<dots> = filter (exact_row normalized) ?rows"
    using assms(1) by (simp add: filter_sort)
  finally have "set (filter (exact_row normalized) (take 400 ?rows)) = set (filter (exact_row normalized) ?rows)"
    by simp
  with assms(2,3) show ?thesis by (auto simp: ordered_rows_def)
qed

lemma search_city_record:
  assumes "m \<in> set (search_city idx normalized state)"
  shows "um_record m \<in> set (gi_geographies idx)"
proof -
  from set_search_city(1) [OF assms] obtain a g
    where "(a, g) \<in> set (ordered_rows idx normalized state)" "um_record m = g" by auto
  then show ?thesis by (auto dest!: set_ordered_rows simp: set_alias_rows)
qed

lemma search_zip_record: "m \<in> set (search_zip idx z) \<Longrightarrow> um_record m \<in> set (gi_geographies idx)"
  by (auto simp: search_zip_def split: option.splits dest: select_first_Some [OF sym])

lemma index_search_record: "m \<in> set (index_search idx query limit) \<Longrightarrow> um_record m \<in> set (gi_geographies idx)"
  by (auto simp: index_search_def Let_def dest: search_zip_record search_city_record in_set_takeD
      split: if_splits option.splits prod.splits)

lemma search_locations_candidate:
  "c \<in> set (search_locations idx query country limit) \<Longrightarrow>
     \<exists>r \<in> set (gi_geographies idx). \<exists>q reason alias. c = candidate_from_record r q reason alias"
  by (auto simp: search_locations_def candidate_from_match_def dest: index_search_record split: if_splits)

lemma resolve_text_candidate:
  assumes "resolve_text idx text country = Inr m"
  obtains c where "c \<in> set (search_locations idx text country 12)" "exact_reason (lo_match_reason c)" "m = to_market c"
proof -
  let ?exact = "filter (\<lambda>c. exact_reason (lo_match_reason c)) (search_locations idx text country 12)"
  from assms have one: "length ?exact = 1" "m = to_market (hd ?exact)"
    by (auto simp: resolve_text_def Let_def split: if_splits)
  then have "hd ?exact \<in> set ?exact" by (cases ?exact) auto
  with one(2) show thesis using that by auto
qed

text \<open>
  A market that location resolution returns is the market of one geography of the index,
  and the validation that planning performs against the same index accepts it and gives that
  geography back, whether the location was typed or selected. A selection keeps its geography.
\<close>

theorem resolved_market_validates:
  assumes "index_ok idx" "resolve_market_for_scan (Some idx) location_text country selected_location = Inr m"
  shows "\<exists>r \<in> set (gi_geographies idx). mm_geography_id m = Some (ug_id r) \<and>
      validate_market_against_index (Some idx) m = Inr r \<and>
      (case selected_location of None \<Rightarrow> True | Some s \<Rightarrow> ug_id r = lo_geography_id s)"
proof (cases selected_location)
  case None
  with assms(2) have "resolve_text idx location_text ''US'' = Inr m"
    by (auto simp: resolve_market_for_scan_def Let_def split: if_splits)
  then obtain c where c: "c \<in> set (search_locations idx location_text ''US'' 12)" "m = to_market c"
    by (rule resolve_text_candidate)
  from search_locations_candidate [OF c(1)] c(2) None show ?thesis
    using candidate_market_validates [OF assms(1)] candidate_market_fields(2) by fastforce
next
  case (Some s)
  with assms(2) obtain r where r: "index_get idx (lo_geography_id s) = Some r"
    "m = to_market (candidate_from_record r 1 ''selected_canonical_location'' (lo_label s))"
    by (auto simp: resolve_market_for_scan_def Let_def split: if_splits option.splits)
  then have "r \<in> set (gi_geographies idx)" "ug_id r = lo_geography_id s"
    by (auto simp: index_get_def dest: tget_Some_key)
  with r(2) Some show ?thesis
    using candidate_market_validates [OF assms(1)] candidate_market_fields(2) by fastforce
qed

section \<open>Ambiguous locations\<close>

definition exact_cities :: "us_geography_index \<Rightarrow> string \<Rightarrow> string option \<Rightarrow> us_geography_record set" where
  "exact_cities idx normalized state =
     {g \<in> set (gi_geographies idx). ug_kind g = ''city'' \<and> (case state of None \<Rightarrow> True | Some s \<Rightarrow> ug_state g = s) \<and>
        (\<exists>a \<in> set (gi_aliases idx). ga_geography_id a = ug_id g \<and> ga_alias_norm a = normalized)}"

definition exact_match :: "us_geography_match \<Rightarrow> bool" where
  "exact_match m = exact_reason (um_match_reason m)"

lemma exact_match_iff:
  assumes "m \<in> set (search_city idx normalized state)"
  shows "exact_match m \<longleftrightarrow> top_score \<le> um_confidence m"
  using set_search_city(1) [OF assms] by (auto simp: exact_match_def match_score_exact)

lemma exact_search_city:
  assumes "keys_distinct ug_id (gi_geographies idx)"
    and "length (filter (exact_row normalized) (alias_rows idx normalized state)) \<le> 400"
  shows "um_record ` set (filter exact_match (search_city idx normalized state)) = exact_cities idx normalized state"
proof (intro equalityI subsetI)
  fix g
  assume "g \<in> um_record ` set (filter exact_match (search_city idx normalized state))"
  then obtain m where m: "m \<in> set (search_city idx normalized state)" "exact_match m" "g = um_record m" by auto
  from set_search_city(1) [OF m(1)] m(2,3) obtain a
    where "(a, g) \<in> set (ordered_rows idx normalized state)" "ga_alias_norm a = normalized"
    by (auto simp: exact_match_def match_score_exact)
  then show "g \<in> exact_cities idx normalized state"
    using set_ordered_rows by (fastforce simp: set_alias_rows exact_cities_def)
next
  fix g
  assume g: "g \<in> exact_cities idx normalized state"
  then obtain a where "a \<in> set (gi_aliases idx)" "ga_geography_id a = ug_id g" and norm: "ga_alias_norm a = normalized"
    by (auto simp: exact_cities_def)
  with g have a: "(a, g) \<in> set (alias_rows idx normalized state)" "ga_alias_norm a = normalized"
    by (simp_all add: exact_cities_def set_alias_rows)
  then have "(a, g) \<in> set (ordered_rows idx normalized state)"
    using exact_rows_kept [OF assms(2)] by (simp add: exact_row_def)
  moreover have high: "top_score \<le> fst (match_score normalized (ga_alias_norm a) (state \<noteq> None))"
    using a(2) match_score_exact(1) by metis
  moreover have "55 / 100 \<le> top_score" by (simp add: top_score_def)
  ultimately obtain m where m: "m \<in> set (search_city idx normalized state)" "ug_id (um_record m) = ug_id g"
    "fst (match_score normalized (ga_alias_norm a) (state \<noteq> None)) \<le> um_confidence m"
    using search_city_covers [of "(a, g)" idx normalized state] by (metis fst_conv order_trans snd_conv)
  have "um_record m = g"
    using assms(1) m(2) search_city_record [OF m(1)] g by (auto simp: exact_cities_def keys_distinct_def distinct_map inj_on_def)
  moreover have "exact_match m" using high m(3) exact_match_iff [OF m(1)] by simp
  ultimately show "g \<in> um_record ` set (filter exact_match (search_city idx normalized state))"
    using m(1) by auto
qed

lemma exact_matches_first:
  "filter exact_match (take n (search_city idx normalized state)) =
     take n (filter exact_match (search_city idx normalized state))"
proof (rule filter_take_prefix)
  let ?xs = "search_city idx normalized state"
  let ?key = "\<lambda>m. (um_confidence m, ug_population (um_record m), ug_city (um_record m))"
  have "sorted_wrt (\<lambda>x y. ?key y \<le> ?key x) ?xs" unfolding search_city_def by (rule sorted_down_desc)
  then show "sorted_wrt (\<lambda>x y. exact_match y \<longrightarrow> exact_match x) ?xs"
    by (rule sorted_wrt_mono_rel [rotated]) (auto simp: exact_match_iff)
qed


lemma unique_exact_city:
  assumes "keys_distinct ug_id (gi_geographies idx)"
    and "length (filter (exact_row normalized) (alias_rows idx normalized state)) \<le> 400"
  shows "length (filter exact_match (search_city idx normalized state)) = 1 \<longleftrightarrow>
    (\<exists>r. exact_cities idx normalized state = {r})"
proof -
  let ?exact = "filter exact_match (search_city idx normalized state)"
  have "distinct (map (ug_id \<circ> um_record) ?exact)"
    using distinct_search_city distinct_map_filter by blast
  then have "distinct (map um_record ?exact)" by (simp add: distinct_map inj_on_def)
  then have "length ?exact = card (exact_cities idx normalized state)"
    using distinct_card exact_search_city [OF assms] by (metis length_map set_map)
  then show ?thesis by (simp add: card_1_singleton_iff)
qed

text \<open>
  C31: A typed city is resolved exactly when it is unambiguous: if precisely one geography of the
  index (in the state, when the text names one) has an alias equal to the normalized city name,
  its market is returned; with several such geographies, or none, the resolution raises instead
  of choosing one, although only the twelve best matches are looked at. The premise on the
  length says that the exact aliases fit in the 400 rows the query fetches.
\<close>

theorem text_resolution_unambiguous:
  assumes "keys_distinct ug_id (gi_geographies idx)" "normalize_country country = ''US''"
    and "zip_query (py_strip location_text) = None" "2 \<le> length (py_strip location_text)"
    and "parse_city_state (py_strip location_text) = (city, state)"
    and "normalized = normalize_location city" "2 \<le> length normalized"
    and "length (filter (exact_row normalized) (alias_rows idx normalized state)) \<le> 400"
  shows "case resolve_market_for_scan (Some idx) location_text country None of
      Inl e \<Rightarrow> \<not> (\<exists>r. exact_cities idx normalized state = {r})
    | Inr m \<Rightarrow> \<exists>r. exact_cities idx normalized state = {r} \<and> mm_geography_id m = Some (ug_id r)"
proof -
  let ?hits = "search_city idx normalized state"
  let ?exact = "filter exact_match ?hits"
  have "py_strip location_text \<noteq> []" using assms(4) by auto
  then have "index_search idx location_text 12 = take 12 ?hits"
    using assms(3,5-7) by (simp add: index_search_def Let_def)
  moreover have us: "normalize_country ''US'' = ''US''" by code_simp
  ultimately have found: "search_locations idx location_text ''US'' 12 = map candidate_from_match (take 12 ?hits)"
    using assms(4) by (simp add: search_locations_def)
  have "filter (\<lambda>c. exact_reason (lo_match_reason c)) (map candidate_from_match (take 12 ?hits)) =
      map candidate_from_match (filter exact_match (take 12 ?hits))"
    by (simp add: filter_map comp_def exact_match_def [abs_def] candidate_from_match_def candidate_from_record_def Let_def)
  then have selected: "filter (\<lambda>c. exact_reason (lo_match_reason c)) (search_locations idx location_text ''US'' 12) =
      map candidate_from_match (take 12 ?exact)"
    by (simp only: found exact_matches_first)
  have unique: "length ?exact = 1 \<longleftrightarrow> (\<exists>r. exact_cities idx normalized state = {r})"
    by (rule unique_exact_city [OF assms(1,8)])
  show ?thesis
  proof (cases "length ?exact = 1")
    case True
    then obtain m where m: "?exact = [m]" by (metis One_nat_def length_0_conv length_Suc_conv)
    then have "search_locations idx location_text ''US'' 12 \<noteq> []"
      using selected by (metis filter.simps(1) list.discI list.simps(9) take_Suc_Cons numeral_eq_Suc)
    with selected m have "resolve_market_for_scan (Some idx) location_text country None =
        Inr (to_market (candidate_from_match m))"
      by (simp add: resolve_market_for_scan_def resolve_text_def Let_def assms(2))
    moreover have "exact_cities idx normalized state = {um_record m}"
      using exact_search_city [OF assms(1,8)] m by simp
    ultimately show ?thesis by (simp add: candidate_from_match_def candidate_market_fields)
  next
    case False
    then have "length (take 12 ?exact) \<noteq> 1" by simp
    with selected have "\<exists>e. resolve_market_for_scan (Some idx) location_text country None = Inl e"
      by (simp add: resolve_market_for_scan_def resolve_text_def Let_def assms(2))
    with False unique show ?thesis by auto
  qed
qed


section \<open>A small index\<close>

definition sample_city :: "string \<Rightarrow> string \<Rightarrow> string \<Rightarrow> int \<Rightarrow> us_geography_record" where
  "sample_city i city state people =
     \<lparr>ug_id = i, ug_kind = ''city'', ug_city = city, ug_state = state, ug_postal_code = None,
      ug_county = ''Travis'', ug_county_fips = ''48453'', ug_metro = ''Austin'', ug_metro_code = Some ''12420'',
      ug_metro_type = ''metro'', ug_latitude = 30, ug_longitude = - 97, ug_population = people,
      ug_reference_population = 330000000, ug_households = Some 400, ug_housing_units = Some 450,
      ug_owner_occupied_units = Some 200, ug_median_year_built = Some 1980, ug_public_data_year = 2023,
      ug_aliases = [city], ug_postal_codes = [''78701''], ug_boundary_radius_km = 15,
      ug_land_area_sq_km = 800, ug_source_geoid = ''4805000'', ug_dataset_version = ''v1''\<rparr>"

definition sample_alias :: "string \<Rightarrow> string \<Rightarrow> string \<Rightarrow> geography_alias" where
  "sample_alias key i name =
     \<lparr>ga_alias_norm = key, ga_geography_id = i, ga_alias = name, ga_priority = 10\<rparr>"

definition sample_index :: us_geography_index where
  "sample_index =
     \<lparr>gi_geographies = [sample_city ''tx-austin'' ''Austin'' ''TX'' 950000,
        sample_city ''mn-austin'' ''Austin'' ''MN'' 26000, sample_city ''tx-waco'' ''Waco'' ''TX'' 140000],
      gi_aliases = [sample_alias ''austin'' ''tx-austin'' ''Austin'', sample_alias ''austin'' ''mn-austin'' ''Austin'',
        sample_alias ''waco'' ''tx-waco'' ''Waco'']\<rparr>"

definition sample_place :: "resolution_error + market_model" where
  "sample_place = resolve_market_for_scan (Some sample_index) ''Austin, TX'' ''USA'' None"

lemma sample_index_evaluates:
  "index_ok sample_index" "isl sample_place \<longleftrightarrow> False"
  "normalize_country ''USA'' = ''US''" "zip_query (py_strip ''Austin, TX'') = None"
  "parse_city_state (py_strip ''Austin, TX'') = (''austin'', Some ''TX'')"
  "normalize_location ''austin'' = ''austin''" "length (py_strip ''Austin, TX'') = 10"
  "length (filter (exact_row ''austin'') (alias_rows sample_index ''austin'' (Some ''TX''))) = 1"
  by code_simp+

lemma resolved_sample_place:
  "\<exists>r \<in> set (gi_geographies sample_index). mm_geography_id (projr sample_place) = Some (ug_id r) \<and>
     validate_market_against_index (Some sample_index) (projr sample_place) = Inr r"
proof -
  have "resolve_market_for_scan (Some sample_index) ''Austin, TX'' ''USA'' None = Inr (projr sample_place)"
    using sample_index_evaluates(2) by (cases sample_place) (auto simp: sample_place_def)
  from resolved_market_validates [OF sample_index_evaluates(1) this] show ?thesis by auto
qed

theorem text_resolution_unambiguous_witness:
  "\<exists>r. exact_cities sample_index ''austin'' (Some ''TX'') = {r} \<and>
     mm_geography_id (projr sample_place) = Some (ug_id r)"
proof -
  have "keys_distinct ug_id (gi_geographies sample_index)" using sample_index_evaluates(1) by (simp add: index_ok_def)
  from text_resolution_unambiguous [OF this sample_index_evaluates(3,4) _ sample_index_evaluates(5)
      sample_index_evaluates(6) [symmetric]] sample_index_evaluates(2,7,8)
  show ?thesis by (cases sample_place) (auto simp: sample_place_def)
qed

text \<open>A list of states that are all unknown filters nothing; the API rejects such lists beforehand.\<close>

lemma unknown_states_select_all:
  "list_markets idx kind [''ZZ''] n = list_markets idx kind [] n"
proof -
  have "filter (\<lambda>s. s \<in> fst ` set STATE_NAMES) (map (py_upper \<circ> py_strip) [''ZZ'']) = []" by code_simp
  then show ?thesis by (simp add: list_markets_def)
qed

end
