(* ===== verification/Repositories.thy ===== *)
theory Repositories
  imports Geography Interfaces Samples
begin

text \<open>
  \<open>repositories.py\<close>: services, markets and opportunities in the database. A service or market is
  found again by its slug and overwritten, an opportunity by its pair of keys. Reading a row back
  parses the type of a market, which is the only field that can fail.
\<close>

section \<open>Services and markets\<close>

record service_model = service_spec +
  se_id :: string
  se_slug :: string
  se_regulated :: bool
  se_enabled :: bool

definition fill_service :: "service_model \<Rightarrow> service_family \<Rightarrow> service_family" where
  "fill_service s row =
     row\<lparr>sf_display_name := sv_display_name s, sf_description := sv_description s,
         sf_seed_queries := sv_seed_queries s, sf_negative_terms := sv_negative_terms s,
         sf_intent_modifiers := sv_intent_modifiers s, sf_negative_product_terms := sv_negative_product_terms s,
         sf_provider_categories := sv_provider_categories s, sf_regulated := se_regulated s,
         sf_enabled := se_enabled s\<rparr>"

definition new_service :: "int \<Rightarrow> string \<Rightarrow> string \<Rightarrow> service_family" where
  "new_service i slug display_name =
     \<lparr>sf_id = i, sf_slug = slug, sf_display_name = display_name, sf_description = [], sf_seed_queries = [],
      sf_negative_terms = [], sf_intent_modifiers = [], sf_negative_product_terms = [],
      sf_provider_categories = [], sf_regulated = False, sf_enabled = True\<rparr>"

definition upsert_service :: "database \<Rightarrow> service_model \<Rightarrow> service_family \<times> database" where
  "upsert_service d s =
     (let slug = (if se_slug s \<noteq> [] then se_slug s else se_id s);
          (row, d1) = (case select_first (\<lambda>r. sf_slug r = slug) (service_families d) of
            Some row \<Rightarrow> (row, d)
          | None \<Rightarrow> (let row = new_service (next_id sf_id (service_families d)) slug (sv_display_name s)
                     in (row, d\<lparr>service_families := service_families d @ [row]\<rparr>)))
      in (fill_service s row, d1\<lparr>service_families := tupd sf_id (sf_id row) (fill_service s) (service_families d1)\<rparr>))"

definition fill_market :: "market_model \<Rightarrow> market \<Rightarrow> market" where
  "fill_market m row =
     row\<lparr>mk_display_name := mt_display_name m, mk_type := location_type_value (mm_type m),
         mk_country_code := mt_country_code m, mk_state := mt_state m, mk_cities := mt_cities m,
         mk_postal_codes := mt_postal_codes m, mk_county := mm_county m, mk_county_fips := mm_county_fips m,
         mk_metro := mm_metro m, mk_metro_code := mm_metro_code m, mk_latitude := mt_latitude m,
         mk_longitude := mt_longitude m, mk_population := mt_population m,
         mk_reference_population := mt_reference_population m, mk_aliases := mm_aliases m,
         mk_boundary_radius_km := mm_boundary_radius_km m, mk_geography_id := mm_geography_id m,
         mk_geography_dataset_version := mm_geography_dataset_version m,
         mk_provider_location_code := mm_provider_location_code m,
         mk_provider_location_name := mm_provider_location_name m,
         mk_resolution_metadata := mt_resolution_metadata m\<rparr>"

definition new_market :: "int \<Rightarrow> string \<Rightarrow> string \<Rightarrow> market" where
  "new_market i slug display_name =
     \<lparr>mk_id = i, mk_slug = slug, mk_display_name = display_name, mk_type = ''city'', mk_country_code = ''US'',
      mk_state = None, mk_cities = [], mk_postal_codes = [], mk_county = None, mk_county_fips = None,
      mk_metro = None, mk_metro_code = None, mk_latitude = None, mk_longitude = None, mk_population = None,
      mk_reference_population = None, mk_aliases = [], mk_boundary_radius_km = None, mk_geography_id = None,
      mk_geography_dataset_version = None, mk_provider_location_code = None,
      mk_provider_location_name = None, mk_resolution_metadata = []\<rparr>"

definition market_slug :: "market_model \<Rightarrow> string" where
  "market_slug m = (if mm_slug m \<noteq> [] then mm_slug m else mm_id m)"

definition upsert_market :: "database \<Rightarrow> market_model \<Rightarrow> market \<times> database" where
  "upsert_market d m =
     (let (row, d1) = (case select_first (\<lambda>r. mk_slug r = market_slug m) (markets d) of
            Some row \<Rightarrow> (row, d)
          | None \<Rightarrow> (let row = new_market (next_id mk_id (markets d)) (market_slug m) (mt_display_name m)
                     in (row, d\<lparr>markets := markets d @ [row]\<rparr>)))
      in (fill_market m row, d1\<lparr>markets := tupd mk_id (mk_id row) (fill_market m) (markets d1)\<rparr>))"

definition location_type_of :: "string \<Rightarrow> location_type option" where
  "location_type_of v =
     List.find (\<lambda>t. location_type_value t = v) [LT_city, LT_postal_code, LT_county, LT_metro, LT_market]"

definition market_from_orm :: "market \<Rightarrow> market_model option" where
  "market_from_orm row =
     map_option (\<lambda>t.
       \<lparr>mt_display_name = mk_display_name row, mt_country_code = mk_country_code row, mt_state = mk_state row,
        mt_cities = mk_cities row, mt_postal_codes = mk_postal_codes row, mt_latitude = mk_latitude row,
        mt_longitude = mk_longitude row, mt_population = mk_population row,
        mt_reference_population = mk_reference_population row, mt_resolution_metadata = mk_resolution_metadata row,
        mm_id = mk_slug row, mm_slug = slug_or_id (mk_slug row) (mk_slug row), mm_type = t,
        mm_county = mk_county row, mm_county_fips = mk_county_fips row, mm_metro = mk_metro row,
        mm_metro_code = mk_metro_code row, mm_aliases = mk_aliases row,
        mm_boundary_radius_km = mk_boundary_radius_km row, mm_geography_id = mk_geography_id row,
        mm_geography_dataset_version = mk_geography_dataset_version row,
        mm_provider_location_code = mk_provider_location_code row,
        mm_provider_location_name = mk_provider_location_name row\<rparr>) (location_type_of (mk_type row))"

definition service_from_orm :: "service_family \<Rightarrow> service_model" where
  "service_from_orm row =
     \<lparr>sv_display_name = sf_display_name row, sv_description = sf_description row,
      sv_seed_queries = sf_seed_queries row, sv_negative_terms = sf_negative_terms row,
      sv_intent_modifiers = sf_intent_modifiers row, sv_negative_product_terms = sf_negative_product_terms row,
      sv_provider_categories = sf_provider_categories row, se_id = sf_slug row,
      se_slug = slug_or_id (sf_slug row) (sf_slug row), se_regulated = sf_regulated row,
      se_enabled = sf_enabled row\<rparr>"

section \<open>Opportunities and artifacts\<close>

definition new_opportunity :: "int \<Rightarrow> int \<Rightarrow> int \<Rightarrow> opportunity" where
  "new_opportunity i service_id market_id =
     \<lparr>op_id = i, op_service_family_id = service_id, op_market_id = market_id, op_status = ''discovered'',
      op_latest_score = None, op_score_version = None, op_confidence = None, op_missing_data_flags = [],
      op_approved_at = None, op_owner_user_id = None, op_review_version = 0\<rparr>"

definition opportunity_for :: "database \<Rightarrow> int \<Rightarrow> int \<Rightarrow> opportunity option" where
  "opportunity_for d service_id market_id =
     select_first (\<lambda>r. op_service_family_id r = service_id \<and> op_market_id r = market_id) (opportunities d)"

definition get_or_create_opportunity ::
  "database \<Rightarrow> service_family \<Rightarrow> market \<Rightarrow> opportunity \<times> database" where
  "get_or_create_opportunity d s m =
     (case opportunity_for d (sf_id s) (mk_id m) of
        Some row \<Rightarrow> (row, d)
      | None \<Rightarrow> (let row = new_opportunity (next_id op_id (opportunities d)) (sf_id s) (mk_id m)
                 in (row, d\<lparr>opportunities := opportunities d @ [row]\<rparr>)))"

definition save_artifact ::
  "database \<Rightarrow> int option \<Rightarrow> string \<Rightarrow> jobj \<Rightarrow> int option \<Rightarrow> json_artifact \<times> database" where
  "save_artifact d opportunity_id kind payload scan_run_id =
     (let row = \<lparr>ja_id = next_id ja_id (json_artifacts d), ja_opportunity_id = opportunity_id,
        ja_scan_run_id = scan_run_id, ja_kind = kind, ja_payload = payload\<rparr>
      in (row, d\<lparr>json_artifacts := json_artifacts d @ [row]\<rparr>))"

section \<open>Reading back\<close>

lemma location_type_roundtrip [simp]: "location_type_of (location_type_value t) = Some t"
  by (cases t) (simp_all add: location_type_of_def)

lemma fill_market_key [simp]: "mk_id (fill_market m row) = mk_id row" "mk_slug (fill_market m row) = mk_slug row"
  by (simp_all add: fill_market_def)

lemma market_from_fill:
  "market_from_orm (fill_market m row) =
     Some (m\<lparr>mm_id := mk_slug row, mm_slug := slug_or_id (mk_slug row) (mk_slug row)\<rparr>)"
  by (simp add: market_from_orm_def fill_market_def)

definition market_keys_ok :: "database \<Rightarrow> bool" where
  "market_keys_ok d \<longleftrightarrow> keys_distinct mk_id (markets d) \<and> keys_distinct mk_slug (markets d)"

text \<open>
  Writing a market: the row is found under its slug, holds the fields of the market, and the rows of
  other slugs are the same as before.
\<close>

lemma upsert_market_row:
  assumes "market_keys_ok d" "upsert_market d m = (row, d')"
  shows "market_keys_ok d'" "tget mk_slug (market_slug m) (markets d') = Some row"
    "\<exists>row0. row = fill_market m row0 \<and> mk_slug row0 = market_slug m"
    "slug \<noteq> market_slug m \<Longrightarrow> tget mk_slug slug (markets d') = tget mk_slug slug (markets d)"
proof -
  obtain row0 rows where step: "row = fill_market m row0" "row0 \<in> set rows" "mk_slug row0 = market_slug m"
    "markets d' = tupd mk_id (mk_id row0) (fill_market m) rows"
    and keys: "keys_distinct mk_id rows" "keys_distinct mk_slug rows"
    and others: "slug \<noteq> market_slug m \<Longrightarrow> tget mk_slug slug rows = tget mk_slug slug (markets d)"
  proof (cases "select_first (\<lambda>r. mk_slug r = market_slug m) (markets d)")
    case None
    let ?row = "new_market (next_id mk_id (markets d)) (market_slug m) (mt_display_name m)"
    have new: "mk_id ?row = next_id mk_id (markets d)" "mk_slug ?row = market_slug m" by (simp_all add: new_market_def)
    show ?thesis
    proof (rule that [of ?row "markets d @ [?row]"])
      show "row = fill_market m ?row" "markets d' = tupd mk_id (mk_id ?row) (fill_market m) (markets d @ [?row])"
        using assms(2) None by (auto simp: upsert_market_def Let_def)
      show "keys_distinct mk_id (markets d @ [?row])" "keys_distinct mk_slug (markets d @ [?row])"
        using assms(1) None next_id_fresh [of mk_id "markets d"]
        by (auto simp: market_keys_ok_def keys_distinct_def new select_first_None)
      show "slug \<noteq> market_slug m \<Longrightarrow> tget mk_slug slug (markets d @ [?row]) = tget mk_slug slug (markets d)"
        by (simp add: tget_append new split: option.splits)
    qed (simp_all add: new)
  next
    case (Some row0)
    have "row = fill_market m row0" "markets d' = tupd mk_id (mk_id row0) (fill_market m) (markets d)"
      using assms(2) Some by (auto simp: upsert_market_def)
    with select_first_Some [OF Some] show ?thesis
      using assms(1) that [of row0 "markets d"] by (simp add: market_keys_ok_def)
  qed
  have keep: "map mk_slug (markets d') = map mk_slug rows" "map mk_id (markets d') = map mk_id rows"
    by (simp_all add: step(4) tupd_def)
  then show "market_keys_ok d'" using keys by (simp add: market_keys_ok_def keys_distinct_def)
  show "\<exists>row0. row = fill_market m row0 \<and> mk_slug row0 = market_slug m" using step by blast
  have "row \<in> set (markets d')" using step(1,2) by (auto simp: step(4) tupd_def)
  then have "tget mk_slug (mk_slug row) (markets d') = Some row"
    using keys(2) keep(1) by (intro tget_in_set) (simp_all add: keys_distinct_def)
  then show "tget mk_slug (market_slug m) (markets d') = Some row" using step(1,3) by simp
  show "tget mk_slug slug (markets d') = tget mk_slug slug (markets d)" if other: "slug \<noteq> market_slug m"
  proof -
    have "mk_id r = mk_id row0 \<longrightarrow> r = row0" if "r \<in> set rows" for r
      using that step(2) keys(1) by (auto simp: keys_distinct_def distinct_map inj_on_def)
    then have "tget mk_slug slug (tupd mk_id (mk_id row0) (fill_market m) rows) = tget mk_slug slug rows"
      using other step(3) by (induction rows) (auto simp: tupd_def tget_def)
    with step(4) others [OF other] show ?thesis by simp
  qed
qed

definition upsert_markets :: "database \<Rightarrow> market_model list \<Rightarrow> database" where
  "upsert_markets d ms = fold (\<lambda>m d. snd (upsert_market d m)) ms d"

lemma upsert_markets_other:
  "market_keys_ok d \<Longrightarrow> slug \<notin> market_slug ` set ms \<Longrightarrow>
     tget mk_slug slug (markets (upsert_markets d ms)) = tget mk_slug slug (markets d)"
proof (induction ms arbitrary: d)
  case (Cons m ms)
  obtain row d' where up: "upsert_market d m = (row, d')" by force
  with Cons(2,3) have "market_keys_ok d'" "tget mk_slug slug (markets d') = tget mk_slug slug (markets d)"
    using upsert_market_row by auto
  with Cons(1) [of d'] Cons(3) up show ?case by (simp add: upsert_markets_def)
qed (simp add: upsert_markets_def)

lemma validate_ignores_ids:
  "validate_market_against_index index (m\<lparr>mm_id := a, mm_slug := b\<rparr>) = validate_market_against_index index m"
proof -
  have "market_mismatches (m\<lparr>mm_id := a, mm_slug := b\<rparr>) r = market_mismatches m r" for r
    by (simp add: market_mismatches_def)
  moreover have "provider_name_error (m\<lparr>mm_id := a, mm_slug := b\<rparr>) r = provider_name_error m r" for r
    by (cases "truthy_str (mm_provider_location_code m)"; cases "map_of STATE_NAMES (ug_state r)")
      (simp_all add: provider_name_error_def)
  ultimately show ?thesis by (simp add: validate_market_against_index_def)
qed

text \<open>
  C30: A market that was resolved from a text or a selection, stored, and read back after any
  number of other markets were stored under other slugs is accepted by the validation that
  planning performs: it is found under its slug and validates to the geography it came from.
\<close>

theorem stored_market_validates:
  assumes "index_ok idx" "market_keys_ok d"
    and "resolve_market_for_scan (Some idx) location_text country selected_location = Inr m"
    and "upsert_market d m = (row, d')" "market_slug m \<notin> market_slug ` set others"
  shows "\<exists>m'. tget mk_slug (market_slug m) (markets (upsert_markets d' others)) = Some row \<and>
      market_from_orm row = Some m' \<and>
      (\<exists>r \<in> set (gi_geographies idx). validate_market_against_index (Some idx) m' = Inr r \<and>
         mm_geography_id m = Some (ug_id r))"
proof -
  from upsert_market_row(1-3) [OF assms(2,4)] obtain row0
    where stored: "market_keys_ok d'" "tget mk_slug (market_slug m) (markets d') = Some row" "row = fill_market m row0"
    by blast
  from resolved_market_validates [OF assms(1,3)] stored(2,3) upsert_markets_other [OF stored(1) assms(5)]
  show ?thesis by (auto simp: market_from_fill validate_ignores_ids)
qed

section \<open>One opportunity per service and market\<close>

definition create_opportunity ::
  "database \<Rightarrow> service_family \<times> market \<Rightarrow> unit + (opportunity \<times> database)" where
  "create_opportunity d x = Inr (get_or_create_opportunity d (fst x) (snd x))"

lemma get_or_create_found:
  assumes "get_or_create_opportunity d s m = (row, d')"
  shows "opportunity_for d' (sf_id s) (mk_id m) = Some row"
proof (cases "opportunity_for d (sf_id s) (mk_id m)")
  case None
  with assms show ?thesis
    by (auto simp: get_or_create_opportunity_def opportunity_for_def new_opportunity_def select_first_def
        find_append_case Let_def)
next
  case (Some r)
  with assms show ?thesis by (simp add: get_or_create_opportunity_def)
qed

lemma get_or_create_frame:
  "get_or_create_opportunity d s m = (row', d') \<Longrightarrow> opportunity_for d i j = Some row \<Longrightarrow> opportunity_for d' i j = Some row"
  by (auto simp: get_or_create_opportunity_def opportunity_for_def select_first_def Let_def find_append_case split: option.splits)

interpretation opportunity_store: idempotent_store create_opportunity
  "\<lambda>d x r. opportunity_for d (sf_id (fst x)) (mk_id (snd x)) = Some r"
proof unfold_locales
  show "create_opportunity d x = Inr (r, d') \<Longrightarrow> opportunity_for d' (sf_id (fst x)) (mk_id (snd x)) = Some r" for d x r d'
    by (auto simp: create_opportunity_def dest: get_or_create_found)
  show "opportunity_for d (sf_id (fst x)) (mk_id (snd x)) = Some r \<Longrightarrow> create_opportunity d x = Inr (r, d)" for d x r
    by (simp add: create_opportunity_def get_or_create_opportunity_def)
  show "create_opportunity d y = Inr (r', d') \<Longrightarrow> opportunity_for d (sf_id (fst x)) (mk_id (snd x)) = Some r \<Longrightarrow>
      opportunity_for d' (sf_id (fst x)) (mk_id (snd x)) = Some r" for d y r' d' x r
    by (auto simp: create_opportunity_def dest: get_or_create_frame)
qed

text \<open>Asking again for the opportunity of a pair returns the row of the first request.\<close>

lemma opportunity_created_once:
  assumes "get_or_create_opportunity d s m = (row, d')"
  shows "create_opportunity (run_requests (\<lambda>d y. map_result snd (create_opportunity d y)) d' ys) (s, m) =
    Inr (row, run_requests (\<lambda>d y. map_result snd (create_opportunity d y)) d' ys)"
  by (rule opportunity_store.replay_after [of d]) (simp add: create_opportunity_def assms)

theorem stored_market_validates_witness:
  "\<exists>row d' m'. upsert_market empty_db (projr sample_place) = (row, d') \<and> market_from_orm row = Some m' \<and>
     (\<exists>r \<in> set (gi_geographies sample_index). validate_market_against_index (Some sample_index) m' = Inr r \<and>
        mm_geography_id (projr sample_place) = Some (ug_id r))"
proof -
  have place: "resolve_market_for_scan (Some sample_index) ''Austin, TX'' ''USA'' None = Inr (projr sample_place)"
    using sample_index_evaluates(2) by (cases sample_place) (auto simp: sample_place_def)
  obtain row d' where up: "upsert_market empty_db (projr sample_place) = (row, d')" by force
  have "market_keys_ok empty_db" by (simp add: market_keys_ok_def empty_db_def keys_distinct_def)
  from stored_market_validates [OF sample_index_evaluates(1) this place up, of "[]"] up show ?thesis by auto
qed

end
