(* ===== verification/Blob_Store.thy ===== *)
theory Blob_Store
  imports Discovery_Text
begin

text \<open>
  \<open>storage/blobs.py\<close>: immutable blobs under safe keys. The interface \<open>BlobStore\<close> is the locale
  \<open>blob_store\<close>, interpreted on \<open>FilesystemBlobStore\<close>, whose state is the files and directories
  under its root. Contents are of any type \<open>'b\<close>; SHA-256 is an argument. The store on S3 goes
  through a third-party client and is not modelled.
\<close>

section \<open>Errors and results\<close>

datatype blob_error = BlobStoreError | ImmutableBlobError | BlobOSError

record blob_info =
  bi_key :: string
  bi_checksum :: string
  bi_size_bytes :: nat
  bi_content_type :: string

section \<open>Keys\<close>

text \<open>
  \<open>PurePosixPath(key)\<close>: the parts between slashes, where empty parts and single dots are
  dropped, before the check for unsafe parts sees them.
\<close>

fun split_slash :: "string \<Rightarrow> string \<Rightarrow> string list" where
  "split_slash part [] = [rev part]"
| "split_slash part (c # s) =
     (if c = CHR ''/'' then rev part # split_slash [] s else split_slash (c # part) s)"

definition posix_parts :: "string \<Rightarrow> string list" where
  "posix_parts key = filter (\<lambda>p. p \<noteq> [] \<and> p \<noteq> ''.'') (split_slash [] key)"

definition safe_relative_key :: "string \<Rightarrow> blob_error + string list" where
  "safe_relative_key key =
     (if key = [] \<or> starts_with ''/'' key \<or> list_ex (\<lambda>p. p \<in> set [[], ''.'', ''..'']) (posix_parts key)
      then Inl BlobStoreError else Inr (posix_parts key))"

section \<open>The store on a file system\<close>

record 'b fs_store =
  fs_files :: "(string list \<times> 'b) list"
  fs_dirs :: "string list list"

definition is_dir :: "'b fs_store \<Rightarrow> string list \<Rightarrow> bool" where
  "is_dir st p \<longleftrightarrow> p = [] \<or> p \<in> set (fs_dirs st)"

definition path_exists :: "'b fs_store \<Rightarrow> string list \<Rightarrow> bool" where
  "path_exists st p \<longleftrightarrow> is_dir st p \<or> map_of (fs_files st) p \<noteq> None"

definition parents :: "string list \<Rightarrow> string list list" where
  "parents p = map (\<lambda>n. take n p) [1..<length p]"

text \<open>\<open>checksum\<close> opens the file: a directory or a missing file raises.\<close>

definition fs_checksum :: "('b \<Rightarrow> string) \<Rightarrow> 'b fs_store \<Rightarrow> string list \<Rightarrow> blob_error + string" where
  "fs_checksum sha256 st p =
     (if is_dir st p then Inl BlobOSError
      else case map_of (fs_files st) p of None \<Rightarrow> Inl BlobOSError | Some data \<Rightarrow> Inr (sha256 data))"

text \<open>\<open>path.parent.mkdir(parents=True, exist_ok=True)\<close>: a file in the way raises.\<close>

definition make_parents :: "'b fs_store \<Rightarrow> string list \<Rightarrow> blob_error + 'b fs_store" where
  "make_parents st p =
     (if list_ex (\<lambda>q. map_of (fs_files st) q \<noteq> None) (parents p) then Inl BlobOSError
      else Inr (st\<lparr>fs_dirs := fs_dirs st @ filter (\<lambda>q. q \<notin> set (fs_dirs st)) (parents p)\<rparr>))"

text \<open>
  \<open>put\<close>: another process may create the file between the check of \<open>seen\<close> and the link of the
  written temporary file into \<open>st\<close>; the link fails when the path exists by then.
\<close>

definition fs_put ::
  "('b \<Rightarrow> string) \<Rightarrow> ('b \<Rightarrow> nat) \<Rightarrow> 'b fs_store \<Rightarrow> 'b fs_store \<Rightarrow> string \<Rightarrow> 'b \<Rightarrow> string \<Rightarrow>
   blob_error + (blob_info \<times> 'b fs_store)" where
  "fs_put sha256 len seen st key data content_type =
     and_then (safe_relative_key key) (\<lambda>p.
       let expected = sha256 data;
           info = \<lparr>bi_key = key, bi_checksum = expected, bi_size_bytes = len data, bi_content_type = content_type\<rparr>
       in if path_exists seen p
          then and_then (fs_checksum sha256 seen p) (\<lambda>actual.
            if actual \<noteq> expected then Inl ImmutableBlobError
            else Inr (info\<lparr>bi_size_bytes := (case map_of (fs_files seen) p of None \<Rightarrow> 0 | Some x \<Rightarrow> len x)\<rparr>, st))
          else and_then (make_parents st p) (\<lambda>st'.
            if path_exists st' p
            then and_then (fs_checksum sha256 st' p) (\<lambda>actual.
              if actual \<noteq> expected then Inl ImmutableBlobError else Inr (info, st'))
            else Inr (info, st'\<lparr>fs_files := fs_files st' @ [(p, data)]\<rparr>)))"

definition fs_get :: "'b fs_store \<Rightarrow> string \<Rightarrow> blob_error + 'b" where
  "fs_get st key =
     and_then (safe_relative_key key) (\<lambda>p.
       if is_dir st p then Inl BlobOSError
       else case map_of (fs_files st) p of None \<Rightarrow> Inl BlobOSError | Some data \<Rightarrow> Inr data)"

definition fs_exists :: "'b fs_store \<Rightarrow> string \<Rightarrow> blob_error + bool" where
  "fs_exists st key =
     and_then (safe_relative_key key) (\<lambda>p. Inr (\<not> is_dir st p \<and> map_of (fs_files st) p \<noteq> None))"

definition fs_delete :: "'b fs_store \<Rightarrow> string \<Rightarrow> blob_error + 'b fs_store" where
  "fs_delete st key =
     and_then (safe_relative_key key) (\<lambda>p.
       if is_dir st p then Inl BlobOSError
       else Inr (st\<lparr>fs_files := filter (\<lambda>f. fst f \<noteq> p) (fs_files st)\<rparr>))"

section \<open>The interface\<close>

text \<open>A sequence of writes; one that raises writes nothing.\<close>

fun put_all ::
  "('s \<Rightarrow> string \<Rightarrow> 'b \<Rightarrow> string \<Rightarrow> blob_error + (blob_info \<times> 's)) \<Rightarrow> 's \<Rightarrow> (string \<times> 'b \<times> string) list \<Rightarrow> 's" where
  "put_all put s [] = s"
| "put_all put s ((k, x, t) # ps) =
     (case put s k x t of Inl e \<Rightarrow> put_all put s ps | Inr (i, s') \<Rightarrow> put_all put s' ps)"

text \<open>
  What the users of a store rely on: a key that can be read keeps its content through every
  later \<open>put\<close>, and a successful \<open>put\<close> makes content of the same checksum readable.
\<close>

locale blob_store =
  fixes put :: "'s \<Rightarrow> string \<Rightarrow> 'b \<Rightarrow> string \<Rightarrow> blob_error + (blob_info \<times> 's)"
    and get :: "'s \<Rightarrow> string \<Rightarrow> blob_error + 'b"
    and sha256 :: "'b \<Rightarrow> string"
    and len :: "'b \<Rightarrow> nat"
    and inv :: "'s \<Rightarrow> bool"
  assumes put_inv: "inv s \<Longrightarrow> put s k x t = Inr (i, s') \<Longrightarrow> inv s'"
    and put_keeps: "inv s \<Longrightarrow> put s k x t = Inr (i, s') \<Longrightarrow> get s k' = Inr y \<Longrightarrow> get s' k' = Inr y"
    and put_get: "inv s \<Longrightarrow> put s k x t = Inr (i, s') \<Longrightarrow> \<exists>y. get s' k = Inr y \<and> sha256 y = sha256 x \<and> bi_size_bytes i = len y"
    and put_only: "inv s \<Longrightarrow> put s k x t = Inr (i, s') \<Longrightarrow> get s' k' = Inr y \<Longrightarrow> get s k' = Inr y \<or> y = x"
    and put_info: "put s k x t = Inr (i, s') \<Longrightarrow> bi_checksum i = sha256 x \<and> bi_content_type i = t"
begin

lemma put_all_keeps: "inv s \<Longrightarrow> get s k = Inr y \<Longrightarrow> get (put_all put s ps) k = Inr y"
proof (induction ps arbitrary: s)
  case (Cons p ps)
  obtain k' x t where p: "p = (k', x, t)" by (cases p)
  show ?case
  proof (cases "put s k' x t")
    case (Inl e)
    with Cons show ?thesis by (simp add: p)
  next
    case (Inr r)
    then obtain i s' where r: "put s k' x t = Inr (i, s')" by (cases r) auto
    with Cons put_inv put_keeps show ?thesis by (auto simp: p)
  qed
qed simp

end

section \<open>The file system keeps the contract\<close>

definition fs_ok :: "'b fs_store \<Rightarrow> bool" where
  "fs_ok st \<longleftrightarrow> list_all (\<lambda>f. \<not> is_dir st (fst f)) (fs_files st)"

definition fs_put_alone ::
  "('b \<Rightarrow> string) \<Rightarrow> ('b \<Rightarrow> nat) \<Rightarrow> 'b fs_store \<Rightarrow> string \<Rightarrow> 'b \<Rightarrow> string \<Rightarrow> blob_error + (blob_info \<times> 'b fs_store)" where
  "fs_put_alone sha256 len st key data content_type = fs_put sha256 len st st key data content_type"

lemma make_parents_Inr:
  assumes "make_parents st p = Inr st'"
  shows "fs_files st' = fs_files st" "is_dir st' q \<longleftrightarrow> is_dir st q \<or> q \<in> set (parents p)"
    "q \<in> set (parents p) \<Longrightarrow> map_of (fs_files st) q = None"
  using assms by (auto simp: make_parents_def is_dir_def list_ex_iff split: if_splits)

lemma make_parents_ok: "fs_ok st \<Longrightarrow> make_parents st p = Inr st' \<Longrightarrow> fs_ok st'"
proof -
  assume ok: "fs_ok st" and made: "make_parents st p = Inr st'"
  have "fst f \<notin> set (parents p)" if "f \<in> set (fs_files st)" for f
    using that make_parents_Inr(3) [OF made, of "fst f"] by (auto simp: map_of_eq_None_iff)
  with ok show "fs_ok st'" by (auto simp: fs_ok_def list_all_iff make_parents_Inr [OF made])
qed

text \<open>What a successful write did: it found the content, lost the race to the same content, or wrote.\<close>

definition fs_written where
  "fs_written sha256 len seen st p x i st' \<longleftrightarrow>
     (\<exists>y. st' = st \<and> map_of (fs_files seen) p = Some y \<and> sha256 y = sha256 x \<and> \<not> is_dir seen p \<and>
        bi_size_bytes i = len y) \<or>
     (\<exists>st1. \<not> path_exists seen p \<and> make_parents st p = Inr st1 \<and> bi_size_bytes i = (len x :: nat) \<and>
        (st' = st1 \<and> \<not> is_dir st1 p \<and> (\<exists>y. map_of (fs_files st1) p = Some y \<and> sha256 y = sha256 x) \<or>
         \<not> path_exists st1 p \<and> st' = st1\<lparr>fs_files := fs_files st1 @ [(p, x)]\<rparr>))"

text \<open>Whatever another process wrote in between, a write never changes what can be read.\<close>

lemma fs_put_Inr:
  assumes "fs_put sha256 len seen st key x t = Inr (i, st')"
  obtains p where "safe_relative_key key = Inr p" "bi_checksum i = sha256 x" "bi_content_type i = t"
    "fs_written sha256 len seen st p x i st'"
proof -
  from assms obtain p where p: "safe_relative_key key = Inr p" by (auto simp: fs_put_def)
  show thesis
    by (rule that [OF p])
      (use assms p in \<open>auto simp: fs_written_def fs_put_def fs_checksum_def Let_def split: if_splits option.splits\<close>)
qed

lemma fs_put_ok: "fs_ok st \<Longrightarrow> fs_put sha256 len seen st key x t = Inr (i, st') \<Longrightarrow> fs_ok st'"
proof (erule fs_put_Inr)
  fix p
  assume ok: "fs_ok st" and run:
    "fs_written sha256 len seen st p x i st'"
  have "fs_ok (st1\<lparr>fs_files := fs_files st1 @ [(p, x)]\<rparr>)" if "fs_ok st1" "\<not> path_exists st1 p" for st1
    using that by (auto simp: fs_ok_def path_exists_def is_dir_def list_all_iff)
  with run ok make_parents_ok [OF ok] show "fs_ok st'" unfolding fs_written_def by blast
qed

lemma fs_put_keeps:
  assumes "fs_ok st" "fs_put sha256 len seen st key x t = Inr (i, st')" "fs_get st k = Inr y"
  shows "fs_get st' k = Inr y"
proof -
  from assms(3) obtain q where q: "safe_relative_key k = Inr q" "\<not> is_dir st q" "map_of (fs_files st) q = Some y"
    by (auto simp: fs_get_def split: if_splits option.splits)
  have read: "fs_get s k = Inr y" if "\<not> is_dir s q" "map_of (fs_files s) q = Some y" for s
    using that q(1) by (simp add: fs_get_def)
  show ?thesis
  proof (rule fs_put_Inr [OF assms(2)])
    fix p
    assume run: "fs_written sha256 len seen st p x i st'"
    have made: "\<not> is_dir st1 q \<and> map_of (fs_files st1) q = Some y" if "make_parents st p = Inr st1" for st1
      using q make_parents_Inr [OF that] by auto
    have "\<not> is_dir (st1\<lparr>fs_files := fs_files st1 @ [(p, x)]\<rparr>) q \<and>
        map_of (fs_files (st1\<lparr>fs_files := fs_files st1 @ [(p, x)]\<rparr>)) q = Some y"
      if "make_parents st p = Inr st1" for st1
      using made [OF that] by (simp add: is_dir_def map_add_Some_iff)
    with run made q read show ?thesis unfolding fs_written_def by blast
  qed
qed

lemma parents_strict: "p \<notin> set (parents p)"
proof
  assume "p \<in> set (parents p)"
  then obtain n where n: "n < length p" "p = take n p" by (auto simp: parents_def)
  from n(1) arg_cong [OF n(2), of length] show False unfolding length_take by linarith
qed

lemma fs_put_get:
  assumes "fs_ok st" "fs_put sha256 len st st key x t = Inr (i, st')"
  shows "\<exists>y. fs_get st' key = Inr y \<and> sha256 y = sha256 x \<and> bi_size_bytes i = len y"
proof (rule fs_put_Inr [OF assms(2)])
  fix p
  assume p: "safe_relative_key key = Inr p" and run: "fs_written sha256 len st st p x i st'"
  have read: "fs_get s key = Inr y" if "\<not> is_dir s p" "map_of (fs_files s) p = Some y" for s and y
    using that p by (simp add: fs_get_def)
  have "\<not> is_dir (st1\<lparr>fs_files := fs_files st1 @ [(p, x)]\<rparr>) p \<and>
      map_of (fs_files (st1\<lparr>fs_files := fs_files st1 @ [(p, x)]\<rparr>)) p = Some x" if "\<not> path_exists st1 p" for st1
    using that by (simp add: path_exists_def is_dir_def map_add_def)
  moreover have "\<not> path_exists st1 p" if "\<not> path_exists st p" "make_parents st p = Inr st1" for st1
    using that parents_strict [of p] by (simp add: path_exists_def make_parents_Inr)
  ultimately show ?thesis using run read unfolding fs_written_def by (metis path_exists_def option.distinct(1))
qed

lemma fs_put_only:
  assumes "fs_ok st" "fs_put sha256 len seen st key x t = Inr (i, st')" "fs_get st' k = Inr y"
  shows "fs_get st k = Inr y \<or> y = x"
proof -
  have files: "(fs_files st' = fs_files st \<or> (\<exists>p. fs_files st' = fs_files st @ [(p, x)])) \<and>
      (is_dir st q \<longrightarrow> is_dir st' q)" for q
  proof (rule fs_put_Inr [OF assms(2)])
    fix p
    assume "fs_written sha256 len seen st p x i st'"
    then consider "st' = st" | st1 where "make_parents st p = Inr st1" "st' = st1"
      | st1 where "make_parents st p = Inr st1" "st' = st1\<lparr>fs_files := fs_files st1 @ [(p, x)]\<rparr>"
      unfolding fs_written_def by blast
    then show ?thesis
    proof cases
      case (2 st1)
      then show ?thesis using make_parents_Inr(1,2) [OF 2(1)] by simp
    next
      case (3 st1)
      then show ?thesis using make_parents_Inr(1,2) [OF 3(1)] by (simp add: is_dir_def)
    qed simp
  qed
  from assms(3) obtain q where q: "safe_relative_key k = Inr q" "\<not> is_dir st' q" "map_of (fs_files st') q = Some y"
    by (auto simp: fs_get_def split: if_splits option.splits)
  have "fs_get st k = Inr y" if "map_of (fs_files st) q = Some y"
    using that q files [of q] by (simp add: fs_get_def)
  then show ?thesis using q(3) files [of q] by (auto simp: map_add_Some_iff split: if_splits)
qed

interpretation fs: blob_store "fs_put_alone sha256 len" fs_get sha256 len fs_ok
  for sha256 :: "'b \<Rightarrow> string" and len :: "'b \<Rightarrow> nat"
proof unfold_locales
  fix s :: "'b fs_store" and s' k x t i k' y
  assume put: "fs_put_alone sha256 len s k x t = Inr (i, s')"
  note run = put [unfolded fs_put_alone_def]
  show "fs_ok s \<Longrightarrow> fs_ok s'" by (rule fs_put_ok [OF _ run])
  show "fs_ok s \<Longrightarrow> fs_get s k' = Inr y \<Longrightarrow> fs_get s' k' = Inr y" by (rule fs_put_keeps [OF _ run])
  show "fs_ok s \<Longrightarrow> \<exists>y. fs_get s' k = Inr y \<and> sha256 y = sha256 x \<and> bi_size_bytes i = len y" by (rule fs_put_get [OF _ run])
  show "fs_ok s \<Longrightarrow> fs_get s' k' = Inr y \<Longrightarrow> fs_get s k' = Inr y \<or> y = x" by (rule fs_put_only [OF _ run])
  show "bi_checksum i = sha256 x \<and> bi_content_type i = t" by (rule fs_put_Inr [OF run]) simp
qed

text \<open>
  The check for unsafe parts never sees a single dot, since a path drops it: a dot is accepted
  as a key and stands for the root directory.
\<close>

lemma dot_is_accepted: "safe_relative_key ''.'' = Inr [] \<and> fs_put sha256 len st st ''.'' x t = Inl BlobOSError"
  by (simp add: safe_relative_key_def posix_parts_def starts_with_def fs_put_def path_exists_def is_dir_def
      fs_checksum_def Let_def)

text \<open>A key that is accepted has no part that leads upwards, so it stays below the root.\<close>

lemma accepted_key_below_root: "safe_relative_key k = Inr p \<Longrightarrow> ''..'' \<notin> set p \<and> \<not> starts_with ''/'' k"
  by (auto simp: safe_relative_key_def list_ex_iff split: if_splits)

text \<open>
  C20: Blobs are immutable. Content that can be read under a key is read unchanged after any
  sequence of writes, and also after a write whose check ran against an older state of the
  store: a write to an existing key is either refused or changes nothing.
\<close>

theorem blobs_immutable:
  assumes "fs_ok st" "fs_get st k = Inr y"
  shows "fs_get (put_all (fs_put_alone sha256 len) st writes) k = Inr y \<and>
    (\<forall>seen key x t i st'. fs_put sha256 len seen st key x t = Inr (i, st') \<longrightarrow> fs_get st' k = Inr y)"
  using fs.put_all_keeps [OF assms] fs_put_keeps [OF assms(1) _ assms(2)] by blast

theorem blobs_immutable_witness:
  "fs_get (put_all (fs_put_alone id length) \<lparr>fs_files = [([''a'', ''b''], ''old'')], fs_dirs = [[''a'']]\<rparr>
     [(''a/b'', ''new'', ''text''), (''a//c'', ''x'', ''text'')]) ''a/./b'' = Inr ''old''"
proof -
  let ?st = "\<lparr>fs_files = [([''a'', ''b''], ''old'')], fs_dirs = [[''a'']]\<rparr>"
  have "fs_ok ?st" "fs_get ?st ''a/./b'' = Inr ''old''" by code_simp+
  from blobs_immutable [OF this] show ?thesis by blast
qed

end
