(* ===== verification/Response_Cache.thy ===== *)
theory Response_Cache
  imports Blob_Store Interfaces "HOL-Library.Char_ord" "HOL-Library.List_Lexorder" "HOL-Library.Countable"
begin

text \<open>
  \<open>services/cache.py\<close>: the cache of raw provider responses, with rows that are never changed and
  one pointer per cache key. The store of blobs is a pair of functions; the JSON module and
  SHA-256 are arguments: \<open>ce_encode\<close> and \<open>ce_decode\<close> are \<open>json.dumps\<close> with sorted keys and
  \<open>json.loads\<close>, \<open>ce_sha256\<close> the digest of encoded bytes, \<open>ce_text\<close> the text of a normalized request and
  \<open>ce_text_hash\<close> the digest of the text a cache key is made from.
\<close>

section \<open>Payloads\<close>

definition SENSITIVE_PAYLOAD_KEYS :: "string list" where
  "SENSITIVE_PAYLOAD_KEYS = [''authorization'', ''auth'', ''api_key'', ''api_token'', ''password'', ''login'',
     ''dataforseo_login'', ''dataforseo_password'']"

fun sanitize_payload :: "json \<Rightarrow> json"
  and sanitize_items :: "jobj \<Rightarrow> jobj"
  and sanitize_list :: "json list \<Rightarrow> json list" where
  "sanitize_payload (JObj items) = JObj (sanitize_items items)"
| "sanitize_payload (JList xs) = JList (sanitize_list xs)"
| "sanitize_payload v = v"
| "sanitize_items [] = []"
| "sanitize_items ((k, v) # items) =
     (k, if py_lower k \<in> set SENSITIVE_PAYLOAD_KEYS then JStr ''<redacted>'' else sanitize_payload v) #
     sanitize_items items"
| "sanitize_list [] = []"
| "sanitize_list (x # xs) = sanitize_payload x # sanitize_list xs"

text \<open>
  \<open>normalize_request\<close>: encoding with sorted keys and decoding again sorts every object. The
  datetimes that \<open>default=str\<close> would spell out do not occur in requests; they are kept.
\<close>

fun sort_json :: "json \<Rightarrow> json"
  and sort_items :: "jobj \<Rightarrow> jobj"
  and sort_elems :: "json list \<Rightarrow> json list" where
  "sort_json (JObj items) = JObj (sort_key fst (sort_items items))"
| "sort_json (JList xs) = JList (sort_elems xs)"
| "sort_json v = v"
| "sort_items [] = []"
| "sort_items ((k, v) # items) = (k, sort_json v) # sort_items items"
| "sort_elems [] = []"
| "sort_elems (x # xs) = sort_json x # sort_elems xs"

definition normalize_request :: "json \<Rightarrow> json" where
  "normalize_request params = sort_json params"

record 'b cache_env =
  ce_encode :: "json \<Rightarrow> 'b"
  ce_decode :: "'b \<Rightarrow> json option"
  ce_len :: "'b \<Rightarrow> nat"
  ce_sha256 :: "'b \<Rightarrow> string"
  ce_text :: "json \<Rightarrow> string"
  ce_text_hash :: "string \<Rightarrow> string"

definition key_text :: "'b cache_env \<Rightarrow> string \<Rightarrow> string \<Rightarrow> json \<Rightarrow> string \<Rightarrow> string \<Rightarrow> string" where
  "key_text env provider endpoint params api_version response_shape_version =
     provider @ '':'' @ endpoint @ '':'' @ api_version @ '':'' @ response_shape_version @ '':'' @
     ce_text env (normalize_request params)"

definition cache_key :: "'b cache_env \<Rightarrow> string \<Rightarrow> string \<Rightarrow> json \<Rightarrow> string \<Rightarrow> string \<Rightarrow> string" where
  "cache_key env provider endpoint params api_version response_shape_version =
     ce_text_hash env (key_text env provider endpoint params api_version response_shape_version)"

definition checksum_payload :: "'b cache_env \<Rightarrow> json \<Rightarrow> string" where
  "checksum_payload env payload = ce_sha256 env (ce_encode env payload)"

definition ttl_for_endpoint :: "string \<Rightarrow> int option" where
  "ttl_for_endpoint endpoint =
     (if in_text ''/locations/'' endpoint then Some (timedelta_days 90)
      else if in_text ''keyword_suggestions'' endpoint then Some (timedelta_days 30)
      else if in_text ''historical_search_volume'' endpoint then Some (timedelta_days 30)
      else if in_text ''business_listings'' endpoint then Some (timedelta_days 10)
      else if in_text ''backlinks'' endpoint then Some (timedelta_days 45)
      else if in_text ''/serp/'' endpoint then None
      else Some (timedelta_days 30))"

section \<open>Rows\<close>

record raw_response =
  rr_id :: int
  rr_cache_key :: string
  rr_provider :: string
  rr_endpoint :: string
  rr_parameters :: json
  rr_api_version :: string
  rr_response_shape_version :: string
  rr_response_json :: json
  rr_sanitized :: bool
  rr_status_code :: "int option"
  rr_request_time :: instant
  rr_response_time :: instant
  rr_cost_usd :: rat
  rr_provider_task_id :: "string option"
  rr_provider_request_id :: "string option"
  rr_source_scan_run_id :: "int option"
  rr_checksum :: string
  rr_expires_at :: "instant option"
  rr_object_key :: "string option"
  rr_storage_backend :: "string option"
  rr_content_type :: "string option"
  rr_size_bytes :: "nat option"
  rr_encryption_status :: string
  rr_blob_created_at :: "instant option"

record cache_entry =
  re_cache_key :: string
  re_raw_api_response_id :: int

record cache_db =
  raw_responses :: "raw_response list"
  cache_entries :: "cache_entry list"

definition RAW_RESPONSE_CONTENT_TYPE :: string where
  "RAW_RESPONSE_CONTENT_TYPE = ''application/json''"

definition is_object :: "json \<Rightarrow> bool" where
  "is_object v = (case v of JObj _ \<Rightarrow> True | _ \<Rightarrow> False)"

section \<open>Reading\<close>

text \<open>\<open>None\<close> is the \<open>RawResponseIntegrityError\<close> of a blob that is missing, damaged or not an object.\<close>

definition raw_response_payload ::
  "'b cache_env \<Rightarrow> (string \<Rightarrow> blob_error + 'b) \<Rightarrow> raw_response \<Rightarrow> json option" where
  "raw_response_payload env get row =
     (let checked = (\<lambda>payload. if rr_checksum row \<noteq> [] \<and> rr_checksum row \<noteq> checksum_payload env payload
            then None else Some payload)
      in case rr_object_key row of
           None \<Rightarrow> checked (rr_response_json row)
         | Some object_key \<Rightarrow>
             (case get object_key of
                Inl e \<Rightarrow> None
              | Inr encoded \<Rightarrow>
                  if rr_size_bytes row \<noteq> None \<and> rr_size_bytes row \<noteq> Some (ce_len env encoded) then None
                  else case ce_decode env encoded of
                         None \<Rightarrow> None
                       | Some decoded \<Rightarrow> if \<not> is_object decoded then None else checked decoded))"

datatype cache_lookup =
  CacheInvalid string
| CacheValid raw_response json

definition lookup_cached_response ::
  "'b cache_env \<Rightarrow> (string \<Rightarrow> blob_error + 'b) \<Rightarrow> cache_db \<Rightarrow> string \<Rightarrow> instant \<Rightarrow> cache_lookup" where
  "lookup_cached_response env get d key now =
     (case tget re_cache_key key (cache_entries d) of
        None \<Rightarrow> CacheInvalid ''missing_cache_pointer''
      | Some pointer \<Rightarrow>
          (case tget rr_id (re_raw_api_response_id pointer) (raw_responses d) of
             None \<Rightarrow> CacheInvalid ''missing_response_metadata''
           | Some row \<Rightarrow>
               if rr_cache_key row \<noteq> key then CacheInvalid ''cache_key_mismatch''
               else if cache_key env (rr_provider row) (rr_endpoint row) (normalize_request (rr_parameters row))
                   (rr_api_version row) (rr_response_shape_version row) \<noteq> key
               then CacheInvalid ''response_metadata_mismatch''
               else if \<not> rr_sanitized row then CacheInvalid ''unsanitized_response''
               else if rr_checksum row = [] then CacheInvalid ''missing_checksum''
               else if rr_object_key row = None \<and> \<not> is_object (rr_response_json row)
               then CacheInvalid ''invalid_inline_response_metadata''
               else if (case rr_expires_at row of None \<Rightarrow> False | Some t \<Rightarrow> t \<le> now) then CacheInvalid ''expired''
               else if rr_object_key row \<noteq> None \<and> (\<not> truthy_str (rr_storage_backend row) \<or>
                   rr_content_type row \<noteq> Some RAW_RESPONSE_CONTENT_TYPE \<or> rr_size_bytes row = None \<or>
                   rr_blob_created_at row = None)
               then CacheInvalid ''incomplete_blob_metadata''
               else case raw_response_payload env get row of
                      None \<Rightarrow> CacheInvalid ''response_integrity_failure''
                    | Some payload \<Rightarrow> CacheValid row payload))"

definition valid_cached_response ::
  "'b cache_env \<Rightarrow> (string \<Rightarrow> blob_error + 'b) \<Rightarrow> cache_db \<Rightarrow> string \<Rightarrow> instant \<Rightarrow> bool" where
  "valid_cached_response env get d key now =
     (case lookup_cached_response env get d key now of CacheValid _ _ \<Rightarrow> True | _ \<Rightarrow> False)"

definition current_raw_response :: "cache_db \<Rightarrow> string \<Rightarrow> raw_response option" where
  "current_raw_response d key =
     (case tget re_cache_key key (cache_entries d) of
        None \<Rightarrow> None
      | Some pointer \<Rightarrow>
          (case tget rr_id (re_raw_api_response_id pointer) (raw_responses d) of
             None \<Rightarrow> None | Some row \<Rightarrow> if rr_cache_key row \<noteq> key then None else Some row))"

section \<open>Writing\<close>

record response_cache =
  rc_provider :: string
  rc_api_version :: string
  rc_response_shape_version :: string
  rc_uses_blobs :: bool
  rc_storage_backend :: "string option"
  rc_encryption_status :: string

record cache_write =
  cw_endpoint :: string
  cw_params :: json
  cw_response :: json
  cw_status_code :: int
  cw_cost_usd :: rat
  cw_provider_task_id :: "string option"
  cw_provider_request_id :: "string option"
  cw_source_scan_run_id :: "int option"

datatype cache_error = CacheBlobError blob_error | RawResponseIntegrityError

type_synonym ('b, 's) blob_put = "'s \<Rightarrow> string \<Rightarrow> 'b \<Rightarrow> string \<Rightarrow> blob_error + (blob_info \<times> 's)"

definition own_cache_key :: "'b cache_env \<Rightarrow> response_cache \<Rightarrow> string \<Rightarrow> json \<Rightarrow> string" where
  "own_cache_key env c endpoint params =
     cache_key env (rc_provider c) endpoint (normalize_request params) (rc_api_version c)
       (rc_response_shape_version c)"

definition object_key_of :: "response_cache \<Rightarrow> string \<Rightarrow> string" where
  "object_key_of c checksum =
     ''raw-responses/'' @ rc_provider c @ ''/'' @ take 2 checksum @ ''/'' @ checksum @ ''.json''"

text \<open>The row of a response, inline or with its blob.\<close>

definition inline_row ::
  "'b cache_env \<Rightarrow> response_cache \<Rightarrow> int \<Rightarrow> instant \<Rightarrow> cache_write \<Rightarrow> raw_response" where
  "inline_row env c row_id now w =
     (let normalized = normalize_request (cw_params w); payload = sanitize_payload (cw_response w)
      in \<lparr>rr_id = row_id, rr_cache_key = own_cache_key env c (cw_endpoint w) normalized,
          rr_provider = rc_provider c, rr_endpoint = cw_endpoint w, rr_parameters = normalized,
          rr_api_version = rc_api_version c, rr_response_shape_version = rc_response_shape_version c,
          rr_response_json = payload, rr_sanitized = True, rr_status_code = Some (cw_status_code w),
          rr_request_time = now, rr_response_time = now, rr_cost_usd = cw_cost_usd w,
          rr_provider_task_id = cw_provider_task_id w, rr_provider_request_id = cw_provider_request_id w,
          rr_source_scan_run_id = cw_source_scan_run_id w, rr_checksum = checksum_payload env payload,
          rr_expires_at = map_option (\<lambda>ttl. now + ttl) (ttl_for_endpoint (cw_endpoint w)),
          rr_object_key = None, rr_storage_backend = None, rr_content_type = None, rr_size_bytes = None,
          rr_encryption_status = ''not_applicable'', rr_blob_created_at = None\<rparr>)"

definition blob_row :: "response_cache \<Rightarrow> instant \<Rightarrow> blob_info \<Rightarrow> raw_response \<Rightarrow> raw_response" where
  "blob_row c now info row =
     row\<lparr>rr_response_json := JObj [], rr_object_key := Some (object_key_of c (rr_checksum row)),
       rr_storage_backend := rc_storage_backend c, rr_content_type := Some (bi_content_type info),
       rr_size_bytes := Some (bi_size_bytes info), rr_encryption_status := rc_encryption_status c,
       rr_blob_created_at := Some now\<rparr>"

definition point_to :: "raw_response \<Rightarrow> cache_db \<Rightarrow> cache_db" where
  "point_to row d =
     d\<lparr>raw_responses := raw_responses d @ [row],
       cache_entries :=
         (case tget re_cache_key (rr_cache_key row) (cache_entries d) of
            None \<Rightarrow> cache_entries d @ [\<lparr>re_cache_key = rr_cache_key row, re_raw_api_response_id = rr_id row\<rparr>]
          | Some _ \<Rightarrow> tupd re_cache_key (rr_cache_key row) (\<lambda>e. e\<lparr>re_raw_api_response_id := rr_id row\<rparr>)
              (cache_entries d))\<rparr>"

definition cache_set ::
  "'b cache_env \<Rightarrow> ('b, 's) blob_put \<Rightarrow> response_cache \<Rightarrow> cache_db \<Rightarrow> 's \<Rightarrow> instant \<Rightarrow> cache_write \<Rightarrow>
   cache_error + (string \<times> cache_db \<times> 's)" where
  "cache_set env put c d st now w =
     (let row = inline_row env c (next_id rr_id (raw_responses d)) now w;
          payload = sanitize_payload (cw_response w)
      in if \<not> rc_uses_blobs c then Inr (rr_cache_key row, point_to row d, st)
         else case put st (object_key_of c (rr_checksum row)) (ce_encode env payload) RAW_RESPONSE_CONTENT_TYPE of
                Inl e \<Rightarrow> Inl (CacheBlobError e)
              | Inr (info, st') \<Rightarrow>
                  if bi_checksum info \<noteq> rr_checksum row then Inl RawResponseIntegrityError
                  else Inr (rr_cache_key row, point_to (blob_row c now info row) d, st'))"

section \<open>Sanitized payloads\<close>

text \<open>No value under a sensitive key, at any depth.\<close>

fun payload_clean :: "json \<Rightarrow> bool"
  and items_clean :: "jobj \<Rightarrow> bool"
  and elems_clean :: "json list \<Rightarrow> bool" where
  "payload_clean (JObj items) = items_clean items"
| "payload_clean (JList xs) = elems_clean xs"
| "payload_clean _ = True"
| "items_clean [] = True"
| "items_clean ((k, v) # items) \<longleftrightarrow>
     (if py_lower k \<in> set SENSITIVE_PAYLOAD_KEYS then v = JStr ''<redacted>'' else payload_clean v) \<and>
     items_clean items"
| "elems_clean [] = True"
| "elems_clean (x # xs) \<longleftrightarrow> payload_clean x \<and> elems_clean xs"

lemma sanitize_clean:
  "payload_clean (sanitize_payload v)" "items_clean (sanitize_items items)" "elems_clean (sanitize_list xs)"
  by (induction v and items and xs rule: sanitize_payload_sanitize_items_sanitize_list.induct) auto

definition field_clean :: "string \<times> json \<Rightarrow> bool" where
  "field_clean f \<longleftrightarrow>
     (if py_lower (fst f) \<in> set SENSITIVE_PAYLOAD_KEYS then snd f = JStr ''<redacted>'' else payload_clean (snd f))"

lemma items_clean_iff: "items_clean items \<longleftrightarrow> (\<forall>f \<in> set items. field_clean f)"
proof (induction items)
  case (Cons f items)
  have "items_clean (f # items) \<longleftrightarrow> field_clean f \<and> items_clean items" by (cases f) (simp add: field_clean_def)
  with Cons show ?case by simp
qed simp

lemma items_clean_sort [simp]: "items_clean (sort_key fst items) \<longleftrightarrow> items_clean items"
  by (simp add: items_clean_iff)

lemma sort_items_map: "sort_items items = map (\<lambda>(k, v). (k, sort_json v)) items"
  by (induction items) auto

lemma sort_elems_map: "sort_elems xs = map sort_json xs"
  by (induction xs) auto

lemma sort_clean:
  "payload_clean v \<Longrightarrow> payload_clean (sort_json v)" "items_clean items \<Longrightarrow> items_clean (sort_items items)"
  "elems_clean xs \<Longrightarrow> elems_clean (sort_elems xs)"
  by (induction v and items and xs rule: sort_json_sort_items_sort_elems.induct) (auto split: if_splits)

lemma insort_key_map_pair: "insort_key fst (k, f v) (map (\<lambda>(k, v). (k, f v)) xs) =
    map (\<lambda>(k, v). (k, f v)) (insort_key fst (k, v) xs)"
  by (induction xs) auto

lemma sort_key_map_pair:
  "sort_key fst (map (\<lambda>(k, v). (k, f v)) xs) = map (\<lambda>(k, v). (k, f v)) (sort_key fst xs)"
  by (induction xs) (auto simp: insort_key_map_pair)

lemma sort_json_idem:
  "sort_json (sort_json v) = sort_json v" "sort_items (sort_items items) = sort_items items"
  "sort_elems (sort_elems xs) = sort_elems xs"
proof (induction v and items and xs rule: sort_json_sort_items_sort_elems.induct)
  case (1 items)
  have "sort_items (sort_key fst xs) = sort_key fst (sort_items xs)" for xs
    by (simp only: sort_items_map sort_key_map_pair)
  then show ?case using 1 by (simp add: sort_key_id_if_sorted)
qed auto

section \<open>What a lookup returns\<close>

text \<open>The documented behaviour of \<open>json\<close> and the idealisation of SHA-256.\<close>

definition codec_ok :: "'b cache_env \<Rightarrow> bool" where
  "codec_ok env \<longleftrightarrow>
     (\<forall>j. ce_decode env (ce_encode env j) = Some (sort_json j) \<and> ce_encode env (sort_json j) = ce_encode env j) \<and>
     inj (ce_sha256 env) \<and> (\<forall>x. ce_sha256 env x \<noteq> [])"

lemma codec_okD:
  assumes "codec_ok env"
  shows "ce_decode env (ce_encode env j) = Some (sort_json j)" "checksum_payload env (sort_json j) = checksum_payload env j"
    "ce_sha256 env x = ce_sha256 env y \<Longrightarrow> x = y" "checksum_payload env j \<noteq> []"
  using assms by (auto simp: codec_ok_def checksum_payload_def dest: injD)

lemma lookup_Valid:
  assumes "lookup_cached_response env get d key now = CacheValid row payload"
  shows "row \<in> set (raw_responses d)" "rr_cache_key row = key" "rr_sanitized row"
    "rr_checksum row = checksum_payload env payload" "\<forall>t. rr_expires_at row = Some t \<longrightarrow> now < t"
    "cache_key env (rr_provider row) (rr_endpoint row) (rr_parameters row) (rr_api_version row)
       (rr_response_shape_version row) = key"
    "payload = rr_response_json row \<or> (\<exists>k x. get k = Inr x \<and> ce_decode env x = Some payload)"
  using assms
  by (auto simp: lookup_cached_response_def raw_response_payload_def Let_def cache_key_def key_text_def normalize_request_def
      sort_json_idem split: option.splits if_splits sum.splits dest: tget_Some_key)

lemma point_to_lookup:
  assumes "keys_distinct re_cache_key (cache_entries d)" "rr_id row \<notin> rr_id ` set (raw_responses d)"
  shows "\<exists>e. tget re_cache_key (rr_cache_key row) (cache_entries (point_to row d)) = Some e \<and>
      tget rr_id (re_raw_api_response_id e) (raw_responses (point_to row d)) = Some row"
proof -
  have row: "tget rr_id (rr_id row) (raw_responses d) = None" by (simp add: tget_None_iff assms(2))
  show ?thesis
    by (cases "tget re_cache_key (rr_cache_key row) (cache_entries d)")
      (auto simp: point_to_def tget_append tget_tupd_if row)
qed

text \<open>A stored row is found again as long as it has not expired and its payload can be read.\<close>

lemma lookup_of_row:
  assumes "tget re_cache_key key (cache_entries d) = Some e"
    and "tget rr_id (re_raw_api_response_id e) (raw_responses d) = Some row"
    and "rr_cache_key row = key" "cache_key env (rr_provider row) (rr_endpoint row) (rr_parameters row)
       (rr_api_version row) (rr_response_shape_version row) = key"
    and "rr_sanitized row" "rr_checksum row \<noteq> []"
    and "rr_object_key row = None \<longrightarrow> is_object (rr_response_json row)"
    and "rr_object_key row \<noteq> None \<longrightarrow> truthy_str (rr_storage_backend row) \<and>
      rr_content_type row = Some RAW_RESPONSE_CONTENT_TYPE \<and> rr_size_bytes row \<noteq> None \<and> rr_blob_created_at row \<noteq> None"
    and "raw_response_payload env get row = Some payload"
  shows "lookup_cached_response env get d key now =
    (if \<exists>t. rr_expires_at row = Some t \<and> t \<le> now then CacheInvalid ''expired'' else CacheValid row payload)"
proof -
  have key: "cache_key env (rr_provider row) (rr_endpoint row) (normalize_request (rr_parameters row))
      (rr_api_version row) (rr_response_shape_version row) = key"
    using assms(4) by (simp add: cache_key_def key_text_def normalize_request_def sort_json_idem)
  show ?thesis using assms key
    by (cases "rr_object_key row"; cases "rr_expires_at row") (auto simp: lookup_cached_response_def)
qed

lemma inline_row_key:
  "cache_key env (rr_provider (inline_row env c i now w)) (rr_endpoint (inline_row env c i now w))
     (rr_parameters (inline_row env c i now w)) (rr_api_version (inline_row env c i now w))
     (rr_response_shape_version (inline_row env c i now w)) = rr_cache_key (inline_row env c i now w)"
  by (simp add: inline_row_def Let_def own_cache_key_def cache_key_def key_text_def normalize_request_def sort_json_idem)

lemma is_object_sanitize: "is_object (sanitize_payload v) = is_object v" "is_object (sort_json v) = is_object v"
  by (cases v; simp add: is_object_def)+

text \<open>What the users of a blob store get from the cache, whatever the store is.\<close>

definition stored_payload :: "response_cache \<Rightarrow> cache_write \<Rightarrow> json" where
  "stored_payload c w =
     (if rc_uses_blobs c then sort_json (sanitize_payload (cw_response w)) else sanitize_payload (cw_response w))"

definition expiry :: "instant \<Rightarrow> cache_write \<Rightarrow> instant option" where
  "expiry now w = map_option (\<lambda>ttl. now + ttl) (ttl_for_endpoint (cw_endpoint w))"

context blob_store
begin

lemma cache_set_lookup:
  assumes env: "codec_ok env" "ce_sha256 env = sha256" "ce_len env = len"
    and "inv st" "is_object (cw_response w)" "rc_uses_blobs c \<longrightarrow> truthy_str (rc_storage_backend c)"
    and "keys_distinct re_cache_key (cache_entries d)"
    and run: "cache_set env put c d st now w = Inr (key, d', st')"
  shows "\<exists>row. rr_expires_at row = expiry now w \<and> lookup_cached_response env (get (put_all put st' writes)) d' key later =
    (if \<exists>t. expiry now w = Some t \<and> t \<le> later then CacheInvalid ''expired''
     else CacheValid row (stored_payload c w))"
proof -
  let ?row = "inline_row env c (next_id rr_id (raw_responses d)) now w"
  let ?payload = "sanitize_payload (cw_response w)"
  have fields: "rr_expires_at ?row = expiry now w" "rr_response_json ?row = ?payload" "rr_sanitized ?row"
    "rr_checksum ?row = checksum_payload env ?payload" "rr_object_key ?row = None"
    "rr_id ?row \<notin> rr_id ` set (raw_responses d)"
    using next_id_fresh [of rr_id "raw_responses d"] by (simp_all add: inline_row_def Let_def expiry_def)
  note sum_ok = codec_okD(4) [OF env(1), of ?payload]
  show ?thesis
  proof (cases "rc_uses_blobs c")
    case False
    with run have d': "key = rr_cache_key ?row" "d' = point_to ?row d" by (simp_all add: cache_set_def Let_def)
    obtain e where e: "tget re_cache_key (rr_cache_key ?row) (cache_entries d') = Some e"
      "tget rr_id (re_raw_api_response_id e) (raw_responses d') = Some ?row"
      using point_to_lookup [OF assms(7) fields(6)] unfolding d' by blast
    have "raw_response_payload env g ?row = Some ?payload" for g
      by (simp add: raw_response_payload_def fields Let_def)
    from lookup_of_row [OF e refl inline_row_key fields(3) _ _ _ this] False show ?thesis
      by (intro exI [of _ ?row]) (simp add: d' fields stored_payload_def assms(5) is_object_sanitize sum_ok)
  next
    case True
    let ?k = "object_key_of c (rr_checksum ?row)"
    from run True obtain info where info: "put st ?k (ce_encode env ?payload) RAW_RESPONSE_CONTENT_TYPE = Inr (info, st')"
      "key = rr_cache_key ?row" "d' = point_to (blob_row c now info ?row) d"
      by (auto simp: cache_set_def Let_def split: sum.splits if_splits)
    let ?r = "blob_row c now info ?row"
    have r: "rr_cache_key ?r = rr_cache_key ?row" "rr_provider ?r = rr_provider ?row" "rr_endpoint ?r = rr_endpoint ?row"
      "rr_parameters ?r = rr_parameters ?row" "rr_api_version ?r = rr_api_version ?row" "rr_sanitized ?r"
      "rr_response_shape_version ?r = rr_response_shape_version ?row" "rr_checksum ?r = rr_checksum ?row"
      "rr_id ?r = rr_id ?row" "rr_expires_at ?r = expiry now w" "rr_object_key ?r = Some ?k"
      "rr_size_bytes ?r = Some (bi_size_bytes info)" "rr_content_type ?r = Some RAW_RESPONSE_CONTENT_TYPE"
      "truthy_str (rr_storage_backend ?r)" "rr_blob_created_at ?r \<noteq> None"
      using assms(6) True put_info [OF info(1)] by (simp_all add: blob_row_def fields)
    obtain y where y: "get st' ?k = Inr y" "sha256 y = sha256 (ce_encode env ?payload)" "bi_size_bytes info = len y"
      using put_get [OF assms(4) info(1)] by blast
    have "y = ce_encode env ?payload" using codec_okD(3) [OF env(1)] y(2) env(2) by simp
    with y put_all_keeps [OF put_inv [OF assms(4) info(1)] y(1)] have
      "get (put_all put st' writes) ?k = Inr (ce_encode env ?payload)" by simp
    then have payload: "raw_response_payload env (get (put_all put st' writes)) ?r = Some (sort_json ?payload)"
      using codec_okD [OF env(1)] y(3) \<open>y = _\<close> env(3) assms(5)
      by (simp add: raw_response_payload_def r fields is_object_sanitize Let_def)
    obtain e where e: "tget re_cache_key (rr_cache_key ?row) (cache_entries d') = Some e"
      "tget rr_id (re_raw_api_response_id e) (raw_responses d') = Some ?r"
      using point_to_lookup [OF assms(7), of ?r] fields(6) unfolding info r by blast
    from lookup_of_row [OF e r(1) _ r(6) _ _ _ payload] True inline_row_key [of env c _ now w] show ?thesis
      by (intro exI [of _ ?r]) (simp add: info r fields stored_payload_def sum_ok)
  qed
qed

end

section \<open>The cache on a file system\<close>

text \<open>
  C19: What is stored is found again. With a response that is a JSON object, looking up the key a
  write returned gives the sanitized response, its keys sorted when it went through a blob,
  after any further blob writes and as long as the time to live of its endpoint has not passed;
  from then on the lookup says it expired. (\<open>json.loads\<close> undoes \<open>json.dumps\<close>, and SHA-256 does not
  collide.)
\<close>

theorem cache_roundtrip:
  assumes "codec_ok env" "fs_ok st" "keys_distinct re_cache_key (cache_entries d)" "is_object (cw_response w)"
    and "rc_uses_blobs c \<longrightarrow> truthy_str (rc_storage_backend c)"
    and "cache_set env (fs_put_alone (ce_sha256 env) (ce_len env)) c d st now w = Inr (key, d', st')"
  shows "\<exists>row. rr_expires_at row = expiry now w \<and>
    lookup_cached_response env (fs_get (put_all (fs_put_alone (ce_sha256 env) (ce_len env)) st' writes)) d' key later =
      (if \<exists>t. expiry now w = Some t \<and> t \<le> later then CacheInvalid ''expired''
       else CacheValid row (stored_payload c w))"
  by (rule fs.cache_set_lookup [OF assms(1) refl refl assms(2,4,5,3,6)])

datatype cache_op = CacheSet response_cache instant cache_write

fun cache_step ::
  "'b cache_env \<Rightarrow> cache_db \<times> 'b fs_store \<Rightarrow> cache_op \<Rightarrow> cache_error + (cache_db \<times> 'b fs_store)" where
  "cache_step env (d, st) (CacheSet c now w) =
     and_then (cache_set env (fs_put_alone (ce_sha256 env) (ce_len env)) c d st now w) (\<lambda>(key, s). Inr s)"

definition cache_inv :: "'b cache_env \<Rightarrow> cache_db \<times> 'b fs_store \<Rightarrow> bool" where
  "cache_inv env s \<longleftrightarrow> codec_ok env \<and> fs_ok (snd s) \<and> keys_distinct re_cache_key (cache_entries (fst s)) \<and>
     (\<forall>row \<in> set (raw_responses (fst s)). payload_clean (rr_response_json row)) \<and>
     (\<forall>k x j. fs_get (snd s) k = Inr x \<longrightarrow> ce_decode env x = Some j \<longrightarrow> payload_clean j)"

lemma point_to_rows: "raw_responses (point_to row d) = raw_responses d @ [row]"
  by (simp add: point_to_def)

lemma point_to_distinct:
  assumes "keys_distinct re_cache_key (cache_entries d)"
  shows "keys_distinct re_cache_key (cache_entries (point_to row d))"
proof (cases "tget re_cache_key (rr_cache_key row) (cache_entries d)")
  case None
  then have "map re_cache_key (cache_entries (point_to row d)) = map re_cache_key (cache_entries d) @ [rr_cache_key row]"
    by (simp add: point_to_def)
  with assms None show ?thesis by (simp add: keys_distinct_def tget_None_iff)
next
  case (Some e)
  then have "map re_cache_key (cache_entries (point_to row d)) = map re_cache_key (cache_entries d)"
    by (simp add: point_to_def tupd_def)
  with assms show ?thesis by (simp add: keys_distinct_def)
qed

lemma cache_step_inv:
  assumes "cache_inv env s" "cache_step env s opn = Inr s'"
  shows "cache_inv env s'"
proof -
  obtain d st where s: "s = (d, st)" by (cases s)
  obtain c now w where opn: "opn = CacheSet c now w" by (cases opn)
  let ?put = "fs_put_alone (ce_sha256 env) (ce_len env)"
  let ?row = "inline_row env c (next_id rr_id (raw_responses d)) now w"
  let ?x = "ce_encode env (sanitize_payload (cw_response w))"
  have ok: "codec_ok env" "fs_ok st" "keys_distinct re_cache_key (cache_entries d)"
    "\<forall>row \<in> set (raw_responses d). payload_clean (rr_response_json row)"
    "\<forall>k x j. fs_get st k = Inr x \<longrightarrow> ce_decode env x = Some j \<longrightarrow> payload_clean j"
    using assms(1) by (simp_all add: cache_inv_def s)
  have row: "payload_clean (rr_response_json ?row)" by (simp add: inline_row_def Let_def sanitize_clean)
  have new: "payload_clean j" if "ce_decode env ?x = Some j" for j
    using that codec_okD(1) [OF ok(1)] by (auto simp: sort_clean sanitize_clean)
  from assms(2) consider "s' = (point_to ?row d, st)"
    | info st' where "?put st (object_key_of c (rr_checksum ?row)) ?x RAW_RESPONSE_CONTENT_TYPE = Inr (info, st')"
      "s' = (point_to (blob_row c now info ?row) d, st')"
    by (auto simp: s opn cache_set_def Let_def split: if_splits sum.splits)
  then show ?thesis
  proof cases
    case 1
    with ok row show ?thesis by (auto simp: cache_inv_def point_to_rows point_to_distinct)
  next
    case (2 info st')
    have "payload_clean j" if "fs_get st' k = Inr x" "ce_decode env x = Some j" for k x j
      using fs.put_only [OF ok(2) 2(1) that(1)] that(2) ok(5) new by blast
    moreover have "payload_clean (rr_response_json (blob_row c now info ?row))" by (simp add: blob_row_def)
    ultimately show ?thesis using ok fs.put_inv [OF ok(2) 2(1)]
      by (auto simp: cache_inv_def 2(2) point_to_rows point_to_distinct)
  qed
qed

interpretation cache_machine: request_machine "cache_step env" "cache_inv env" for env :: "'b cache_env"
  by unfold_locales (rule cache_step_inv)

section \<open>What a key identifies\<close>

text \<open>
  Texts of different requests differ and SHA-256 does not collide. The parts of a key are joined by
  colons, so they can be told apart when provider, endpoint and versions contain none, as the names,
  the paths and the versions in use.
\<close>

definition keys_identify :: "'b cache_env \<Rightarrow> bool" where
  "keys_identify env \<longleftrightarrow> inj (ce_text_hash env) \<and>
     (\<forall>j j'. ce_text env (sort_json j) = ce_text env (sort_json j') \<longrightarrow> sort_json j = sort_json j')"

definition plain_parts :: "string \<Rightarrow> string \<Rightarrow> string \<Rightarrow> string \<Rightarrow> bool" where
  "plain_parts provider endpoint api_version shape_version \<longleftrightarrow>
     list_all (\<lambda>part. CHR '':'' \<notin> set part) [provider, endpoint, api_version, shape_version]"

definition plain_row :: "raw_response \<Rightarrow> bool" where
  "plain_row row = plain_parts (rr_provider row) (rr_endpoint row) (rr_api_version row) (rr_response_shape_version row)"

fun plain_write :: "cache_op \<Rightarrow> bool" where
  "plain_write (CacheSet c now w) =
     plain_parts (rc_provider c) (cw_endpoint w) (rc_api_version c) (rc_response_shape_version c)"

lemma colon_split:
  "CHR '':'' \<notin> set a \<Longrightarrow> CHR '':'' \<notin> set b \<Longrightarrow> a @ '':'' @ x = b @ '':'' @ y \<longleftrightarrow> a = b \<and> x = y"
proof (induction a arbitrary: b)
  case Nil
  then show ?case by (cases b) auto
next
  case (Cons c a)
  then show ?case by (cases b) auto
qed

lemma cache_key_identifies:
  assumes "keys_identify env" "plain_parts p e v sv" "plain_parts p' e' v' sv'"
    and "cache_key env p e params v sv = cache_key env p' e' params' v' sv'"
  shows "p = p' \<and> e = e' \<and> v = v' \<and> sv = sv' \<and> normalize_request params = normalize_request params'"
proof -
  have texts: "key_text env p e params v sv = key_text env p' e' params' v' sv'"
    using assms(1,4) by (auto simp: keys_identify_def cache_key_def dest: injD)
  have plain: "CHR '':'' \<notin> set p" "CHR '':'' \<notin> set e" "CHR '':'' \<notin> set v" "CHR '':'' \<notin> set sv"
    "CHR '':'' \<notin> set p'" "CHR '':'' \<notin> set e'" "CHR '':'' \<notin> set v'" "CHR '':'' \<notin> set sv'"
    using assms(2,3) by (simp_all add: plain_parts_def)
  from texts [unfolded key_text_def] have parts: "p = p'" "e = e'" "v = v'" "sv = sv'"
    "ce_text env (normalize_request params) = ce_text env (normalize_request params')"
    by (simp_all only: colon_split [OF plain(1,5)] colon_split [OF plain(2,6)] colon_split [OF plain(3,7)]
        colon_split [OF plain(4,8)] simp_thms)
  with assms(1) show ?thesis unfolding keys_identify_def normalize_request_def by blast
qed

lemma cache_step_plain:
  assumes "\<forall>row \<in> set (raw_responses (fst s)). plain_row row" "plain_write opn" "cache_step env s opn = Inr s'"
  shows "\<forall>row \<in> set (raw_responses (fst s')). plain_row row"
proof -
  obtain d st where s: "s = (d, st)" by (cases s)
  obtain c now w where opn: "opn = CacheSet c now w" by (cases opn)
  let ?row = "inline_row env c (next_id rr_id (raw_responses d)) now w"
  have new: "plain_row ?row" "plain_row (blob_row c now info ?row)" for info
    using assms(2) by (simp_all add: opn plain_row_def inline_row_def blob_row_def Let_def)
  from assms(3) have "raw_responses (fst s') = raw_responses d @ [?row] \<or>
      (\<exists>info. raw_responses (fst s') = raw_responses d @ [blob_row c now info ?row])"
    by (auto simp: s opn cache_set_def Let_def point_to_rows split: if_splits sum.splits)
  with new assms(1) show ?thesis by (auto simp: s)
qed

lemma plain_run:
  "\<forall>row \<in> set (raw_responses (fst s)). plain_row row \<Longrightarrow> list_all plain_write ops \<Longrightarrow>
   \<forall>row \<in> set (raw_responses (fst (run_requests (cache_step env) s ops))). plain_row row"
proof (induction ops arbitrary: s)
  case (Cons opn ops)
  show ?case
  proof (cases "cache_step env s opn")
    case (Inl e)
    with Cons show ?thesis by simp
  next
    case (Inr s')
    with Cons.IH [OF cache_step_plain [OF Cons.prems(1) _ Inr]] Cons.prems(2) show ?thesis by simp
  qed
qed simp

text \<open>
  C18: In every history of cached responses, inline or in blobs, a lookup that succeeds returns a
  payload in which every value under a sensitive key is redacted at any depth, from a row of
  exactly that key whose provider, endpoint, parameters and versions hash to it, whose checksum
  is the payload's, and which has not expired. When digests and request texts do not collide and
  provider, endpoint and versions contain no colon, the row was stored for the very provider,
  endpoint, versions and normalized parameters that are looked up.
\<close>

theorem cached_payloads_sound:
  assumes "cache_inv env s"
  shows "let s' = run_requests (cache_step env) s ops in
    \<forall>key now row payload. lookup_cached_response env (fs_get (snd s')) (fst s') key now = CacheValid row payload \<longrightarrow>
      payload_clean payload \<and> row \<in> set (raw_responses (fst s')) \<and>
      cache_key env (rr_provider row) (rr_endpoint row) (rr_parameters row) (rr_api_version row)
        (rr_response_shape_version row) = key \<and>
      rr_checksum row = checksum_payload env payload \<and> (\<forall>t. rr_expires_at row = Some t \<longrightarrow> now < t) \<and>
      (\<forall>p e params v sv. key = cache_key env p e params v sv \<and> keys_identify env \<and> plain_parts p e v sv \<and>
          (\<forall>row \<in> set (raw_responses (fst s)). plain_row row) \<and> list_all plain_write ops \<longrightarrow>
         rr_provider row = p \<and> rr_endpoint row = e \<and> rr_api_version row = v \<and>
         rr_response_shape_version row = sv \<and> normalize_request (rr_parameters row) = normalize_request params)"
proof -
  let ?s = "run_requests (cache_step env) s ops"
  have inv: "cache_inv env ?s" by (rule cache_machine.run_inv [OF assms])
  have main: "payload_clean payload \<and> row \<in> set (raw_responses (fst ?s)) \<and>
      cache_key env (rr_provider row) (rr_endpoint row) (rr_parameters row) (rr_api_version row)
        (rr_response_shape_version row) = key \<and>
      rr_checksum row = checksum_payload env payload \<and> (\<forall>t. rr_expires_at row = Some t \<longrightarrow> now < t)"
    if "lookup_cached_response env (fs_get (snd ?s)) (fst ?s) key now = CacheValid row payload" for key now row payload
    using lookup_Valid [OF that] inv unfolding cache_inv_def by blast
  have same: "rr_provider row = p \<and> rr_endpoint row = e \<and> rr_api_version row = v \<and>
      rr_response_shape_version row = sv \<and> normalize_request (rr_parameters row) = normalize_request params"
    if found: "lookup_cached_response env (fs_get (snd ?s)) (fst ?s) key now = CacheValid row payload"
      and h: "key = cache_key env p e params v sv \<and> keys_identify env \<and> plain_parts p e v sv \<and>
        (\<forall>row \<in> set (raw_responses (fst s)). plain_row row) \<and> list_all plain_write ops"
    for key now row payload p e params v sv
  proof -
    from main [OF found] plain_run [of s ops env] h have "plain_parts (rr_provider row) (rr_endpoint row)
        (rr_api_version row) (rr_response_shape_version row)"
      unfolding plain_row_def by blast
    with main [OF found] h show ?thesis by (intro cache_key_identifies [where env = env]) auto
  qed
  show ?thesis unfolding Let_def using main same by blast
qed

section \<open>A concrete response\<close>

text \<open>Sorted payloads as their own bytes, with a digest that does not collide.\<close>

instance json :: countable
  by countable_datatype

definition sample_codec :: "json cache_env" where
  "sample_codec = \<lparr>ce_encode = sort_json, ce_decode = Some, ce_len = (\<lambda>_. 0),
     ce_sha256 = (\<lambda>j. replicate (Suc (to_nat j)) CHR ''a''),
     ce_text = (\<lambda>j. replicate (to_nat j) CHR ''a''), ce_text_hash = (\<lambda>text. text)\<rparr>"

lemma sample_codec_ok: "codec_ok sample_codec"
  by (auto simp: codec_ok_def sample_codec_def sort_json_idem inj_on_def dest: arg_cong [of _ _ length])

definition sample_response_cache :: response_cache where
  "sample_response_cache = \<lparr>rc_provider = ''dataforseo'', rc_api_version = ''v3'', rc_response_shape_version = ''v1'',
     rc_uses_blobs = False, rc_storage_backend = None, rc_encryption_status = ''not_encrypted''\<rparr>"

definition sample_write :: cache_write where
  "sample_write = \<lparr>cw_endpoint = ''/v3/backlinks/summary/live'', cw_params = JObj [],
     cw_response = JObj [(''a'', JList [JObj [(''Password'', JStr ''x'')]])], cw_status_code = 200, cw_cost_usd = 0,
     cw_provider_task_id = None, cw_provider_request_id = None, cw_source_scan_run_id = None\<rparr>"

definition empty_cache :: cache_db where
  "empty_cache = \<lparr>raw_responses = [], cache_entries = []\<rparr>"

definition empty_store :: "json fs_store" where
  "empty_store = \<lparr>fs_files = [], fs_dirs = []\<rparr>"

lemma sample_write_facts:
  "stored_payload sample_response_cache sample_write =
     JObj [(''a'', JList [JObj [(''Password'', JStr ''<redacted>'')]])]"
  "expiry 0 sample_write = Some (timedelta_days 45)"
  by code_simp+

theorem cache_roundtrip_witness:
  "\<exists>key d' row. cache_set sample_codec (fs_put_alone (ce_sha256 sample_codec) (ce_len sample_codec))
      sample_response_cache empty_cache empty_store 0 sample_write = Inr (key, d', empty_store) \<and>
    lookup_cached_response sample_codec (fs_get empty_store) d' key 1 =
      CacheValid row (JObj [(''a'', JList [JObj [(''Password'', JStr ''<redacted>'')]])])"
proof -
  obtain key d' where run: "cache_set sample_codec (fs_put_alone (ce_sha256 sample_codec) (ce_len sample_codec))
      sample_response_cache empty_cache empty_store 0 sample_write = Inr (key, d', empty_store)"
    by (simp add: cache_set_def sample_response_cache_def Let_def)
  have ok: "fs_ok empty_store" "keys_distinct re_cache_key (cache_entries empty_cache)" "is_object (cw_response sample_write)"
    "rc_uses_blobs sample_response_cache \<longrightarrow> truthy_str (rc_storage_backend sample_response_cache)"
    by code_simp+
  from cache_roundtrip [OF sample_codec_ok ok run, of "[]" 1] run show ?thesis
    by (auto simp: sample_write_facts timedelta_days_def)
qed

lemma sample_codec_identifies: "keys_identify sample_codec"
  by (auto simp: keys_identify_def sample_codec_def inj_on_def dest: arg_cong [of _ _ length])

theorem cached_payloads_sound_witness:
  "let s = run_requests (cache_step sample_codec) (empty_cache, empty_store)
        [CacheSet sample_response_cache 0 sample_write];
     key = cache_key sample_codec ''dataforseo'' ''/v3/backlinks/summary/live'' (JObj []) ''v3'' ''v1'' in
   \<exists>row payload. lookup_cached_response sample_codec (fs_get (snd s)) (fst s) key 1 = CacheValid row payload \<and>
     payload_clean payload \<and> rr_endpoint row = ''/v3/backlinks/summary/live''"
proof -
  let ?ops = "[CacheSet sample_response_cache 0 sample_write]"
  let ?s = "run_requests (cache_step sample_codec) (empty_cache, empty_store) ?ops"
  let ?key = "cache_key sample_codec ''dataforseo'' ''/v3/backlinks/summary/live'' (JObj []) ''v3'' ''v1''"
  have "fs_get empty_store k \<noteq> Inr x" for k x
    by (simp add: fs_get_def empty_store_def split: sum.splits)
  then have inv: "cache_inv sample_codec (empty_cache, empty_store)"
    by (simp add: cache_inv_def sample_codec_ok fs_ok_def keys_distinct_def empty_cache_def empty_store_def)
  have plain: "plain_parts ''dataforseo'' ''/v3/backlinks/summary/live'' ''v3'' ''v1''"
    "\<forall>row \<in> set (raw_responses (fst (empty_cache, empty_store))). plain_row row" "list_all plain_write ?ops"
    by (simp_all add: plain_parts_def empty_cache_def sample_response_cache_def sample_write_def)
  obtain key d' where run: "cache_set sample_codec (fs_put_alone (ce_sha256 sample_codec) (ce_len sample_codec))
      sample_response_cache empty_cache empty_store 0 sample_write = Inr (key, d', empty_store)"
    by (simp add: cache_set_def sample_response_cache_def Let_def)
  have key: "key = ?key" using run
    by (auto simp: cache_set_def sample_response_cache_def Let_def inline_row_def own_cache_key_def sample_write_def
        cache_key_def key_text_def normalize_request_def)
  have ok: "fs_ok empty_store" "keys_distinct re_cache_key (cache_entries empty_cache)" "is_object (cw_response sample_write)"
    "rc_uses_blobs sample_response_cache \<longrightarrow> truthy_str (rc_storage_backend sample_response_cache)"
    by code_simp+
  have s: "?s = (d', empty_store)" using run by simp
  from fs.cache_set_lookup [OF sample_codec_ok refl refl ok(1,3,4,2) run, of "[]" 1] obtain row payload where
    found: "lookup_cached_response sample_codec (fs_get empty_store) d' ?key 1 = CacheValid row payload"
    by (auto simp: sample_write_facts timedelta_days_def key)
  note sound = cached_payloads_sound [OF inv, of ?ops, unfolded Let_def s fst_conv snd_conv, rule_format, OF found]
  have "payload_clean payload" using sound by blast
  moreover have "rr_endpoint row = ''/v3/backlinks/summary/live''"
    using sound sample_codec_identifies plain [unfolded fst_conv] by blast
  ultimately have "payload_clean payload \<and> rr_endpoint row = ''/v3/backlinks/summary/live''" ..
  with found show ?thesis unfolding Let_def s fst_conv snd_conv by blast
qed

text \<open>
  The result pages of a query, the evidence that ages fastest, are the only responses without a
  time to live: once cached they are returned for ever.
\<close>

lemma serp_cache_never_expires:
  "expiry now (w\<lparr>cw_endpoint := ''/v3/serp/google/organic/live/advanced''\<rparr>) = None"
  by (simp add: expiry_def, code_simp)

end
