(* ===== verification/Planning.thy ===== *)
theory Planning
  imports Repositories Response_Cache Live_Client Batch_Plans
begin

text \<open>
  \<open>planning.py\<close>: the plan of the paid calls of a scan, its costs and the reasons that block it,
  with the location payloads of \<open>integrations/dataforseo/live.py\<close>. The cache the planner looks
  into is the one of \<open>Response_Cache\<close>; without a session there are no hits.
\<close>

section \<open>Numbers as text\<close>

text \<open>\<open>f"{x:.6f}"\<close> and \<open>f"{x:g}"\<close>.\<close>

definition pad_left :: "nat \<Rightarrow> string \<Rightarrow> string" where
  "pad_left n s = replicate (n - length s) (CHR ''0'') @ s"

text \<open>The decimal digits of an integer that is not negative.\<close>

function int_digits :: "int \<Rightarrow> string" where
  "int_digits n = (if n < 10 then [char_of (48 + n)] else int_digits (n div 10) @ [char_of (48 + n mod 10)])"
  by auto
termination by (relation "measure nat") auto

declare int_digits.simps [simp del]

definition fixed_text :: "nat \<Rightarrow> rat \<Rightarrow> string" where
  "fixed_text decimals x =
     (let scaled = round_half_even (\<bar>x\<bar> * 10 ^ decimals)
      in (if x < 0 then ''-'' else '''') @ int_digits (scaled div 10 ^ decimals) @
         (if decimals = 0 then '''' else ''.'' @ pad_left decimals (int_digits (scaled mod 10 ^ decimals))))"

definition trim_zeros :: "string \<Rightarrow> string" where
  "trim_zeros s =
     (if CHR ''.'' \<in> set s
      then rev (let r = dropWhile (\<lambda>c. c = CHR ''0'') (rev s) in if r \<noteq> [] \<and> hd r = CHR ''.'' then tl r else r)
      else s)"

definition decimal_exponent :: "rat \<Rightarrow> int" where
  "decimal_exponent x =
     (if 1 \<le> x then int (length (int_digits \<lfloor>x\<rfloor>)) - 1
      else - int (length (int_digits (\<lceil>1 / x\<rceil> - 1))))"

definition shift_decimal :: "int \<Rightarrow> rat \<Rightarrow> rat" where
  "shift_decimal k x = (if 0 \<le> k then x * 10 ^ nat k else x / 10 ^ nat (- k))"

definition general_text :: "rat \<Rightarrow> string" where
  "general_text x =
     (if x = 0 then ''0''
      else (let e0 = decimal_exponent \<bar>x\<bar>; m0 = round_half_even (shift_decimal (5 - e0) \<bar>x\<bar>);
                e = (if m0 = 1000000 then e0 + 1 else e0)
            in if - 4 \<le> e \<and> e < 6 then trim_zeros (fixed_text (nat (5 - e)) x)
               else (if x < 0 then ''-'' else '''') @
                 trim_zeros (fixed_text 5 (of_int (if m0 = 1000000 then 100000 else m0) / 100000)) @
                 ''e'' @ (if e < 0 then ''-'' else ''+'') @ pad_left 2 (int_digits \<bar>e\<bar>)))"

text \<open>
  \<open>int(text)\<close> on an ASCII text: surrounding blanks, a sign, and digits that single underscores
  may separate.
\<close>

fun digit_run :: "bool \<Rightarrow> string \<Rightarrow> nat \<Rightarrow> nat option" where
  "digit_run after_digit [] n = (if after_digit then Some n else None)"
| "digit_run after_digit (c # cs) n =
     (if (48::nat) \<le> of_char c \<and> of_char c \<le> (57::nat) then digit_run True cs (10 * n + (of_char c - 48))
      else if c = CHR ''_'' \<and> after_digit then digit_run False cs n else None)"

definition py_int :: "string \<Rightarrow> int option" where
  "py_int s =
     (case py_strip s of
        [] \<Rightarrow> None
      | c # cs \<Rightarrow> if c = CHR ''-'' then map_option (\<lambda>n. - int n) (digit_run False cs 0)
          else map_option int (digit_run False (if c = CHR ''+'' then cs else c # cs) 0))"

section \<open>Location payloads\<close>

datatype planning_error =
  BadScanProfile | PlanGeographyError geography_error | PlanDataForSEOError | BadLocationCode

definition positive_radius :: "market_model \<Rightarrow> bool" where
  "positive_radius m = (case mm_boundary_radius_km m of None \<Rightarrow> False | Some r \<Rightarrow> 0 < r)"

definition coordinate_text :: "market_model \<Rightarrow> string \<Rightarrow> string" where
  "coordinate_text m radius =
     fixed_text 6 (the (mt_latitude m)) @ '','' @ fixed_text 6 (the (mt_longitude m)) @ '','' @ radius"

definition serp_radius_meters :: "rat \<Rightarrow> int" where
  "serp_radius_meters km = max 200 (min 199999 (round_half_even (km * 1000)))"

definition serp_location_payload :: "market_model \<Rightarrow> planning_error + jobj" where
  "serp_location_payload m =
     (if mt_latitude m \<noteq> None \<and> mt_longitude m \<noteq> None
      then if \<not> positive_radius m then Inl PlanDataForSEOError
           else Inr [(''location_coordinate'', JStr (coordinate_text m
             (int_digits (serp_radius_meters (the (mm_boundary_radius_km m))))))]
      else if truthy_str (mm_provider_location_code m)
      then (case py_int (the (mm_provider_location_code m)) of
              None \<Rightarrow> Inl BadLocationCode
            | Some n \<Rightarrow> Inr [(''location_code'', JNum (of_int n))])
      else if truthy_str (mm_provider_location_name m)
      then Inr [(''location_name'', JStr (the (mm_provider_location_name m)))]
      else Inr [(''location_name'', JStr (mt_display_name m))])"

definition business_listings_location_payload :: "market_model \<Rightarrow> string \<Rightarrow> planning_error + jobj" where
  "business_listings_location_payload m api_environment =
     (if api_environment = ''sandbox'' then Inr []
      else if mt_latitude m = None \<or> mt_longitude m = None \<or> \<not> positive_radius m then Inl PlanDataForSEOError
      else Inr [(''location_coordinate'',
        JStr (coordinate_text m (general_text (the (mm_boundary_radius_km m)))))])"

definition us_labs_location_code :: int where
  "us_labs_location_code = 2840"

definition labs_location_payload :: "market_model \<Rightarrow> jobj" where
  "labs_location_payload m =
     (if py_upper (mt_country_code m) = ''US'' then [(''location_code'', JNum (of_int us_labs_location_code))]
      else [(''location_name'', JStr (py_upper (mt_country_code m)))])"

section \<open>The plan\<close>

record planned_api_call =
  pc_planned_request_id :: string
  pc_provider :: string
  pc_endpoint :: string
  pc_request_parameters :: json
  pc_cache_key :: string
  pc_cache_hit :: bool
  pc_request_known :: bool
  pc_estimated_cost_usd :: usd
  pc_required :: bool
  pc_stage :: string

datatype block_reason =
  LiveCallsDisabled | PaidCallsDisabled | ProductionDisabled | FullScansDisabled
| CostAboveMaximum usd usd | TooManyRequests nat int

record api_scan_plan =
  pl_scan_profile :: string
  pl_planned_calls :: "planned_api_call list"
  pl_cache_hit_count :: nat
  pl_paid_call_count :: nat
  pl_cached_cost_usd :: usd
  pl_estimated_uncached_cost_usd :: usd
  pl_maximum_allowed_cost_usd :: usd
  pl_maximum_request_count :: int
  pl_confirmation_required :: bool
  pl_blocked :: bool
  pl_block_reason :: "block_reason option"

datatype data_mode = DM_fixture | DM_live | DM_replay

text \<open>
  What the planner looks at besides the settings: the geography index, and with a session the
  cache, its blobs and the time.
\<close>

record 'b planning_env =
  pe_index :: "us_geography_index option"
  pe_cache_env :: "'b cache_env"
  pe_session :: "(cache_db \<times> (string \<Rightarrow> blob_error + 'b) \<times> instant) option"

definition plan_cache_hit :: "'b planning_env \<Rightarrow> string \<Rightarrow> bool" where
  "plan_cache_hit env key =
     (case pe_session env of
        None \<Rightarrow> False
      | Some (d, get, now) \<Rightarrow> valid_cached_response (pe_cache_env env) get d key now)"

definition plan_request_id :: "nat \<Rightarrow> string" where
  "plan_request_id n = ''req-'' @ pad_left 3 (nat_digits n)"

record call_spec =
  cs_endpoint :: string
  cs_stage :: string
  cs_task :: jobj
  cs_cost :: usd
  cs_required :: bool
  cs_request_known :: bool

definition append_call ::
  "'b planning_env \<Rightarrow> string \<Rightarrow> planned_api_call list \<Rightarrow> call_spec \<Rightarrow> planned_api_call list" where
  "append_call env provider planned c =
     (let params = JObj [(''tasks'', JList [JObj (cs_task c)])];
          normalized = normalize_request params;
          key = cache_key (pe_cache_env env) provider (cs_endpoint c) normalized ''v3'' ''v1''
      in planned @ [\<lparr>pc_planned_request_id = plan_request_id (length planned + 1), pc_provider = provider,
           pc_endpoint = cs_endpoint c, pc_request_parameters = normalized, pc_cache_key = key,
           pc_cache_hit = (cs_request_known c \<and> plan_cache_hit env key), pc_request_known = cs_request_known c,
           pc_estimated_cost_usd = cs_cost c, pc_required = cs_required c, pc_stage = cs_stage c\<rparr>])"

definition scan_profile_of :: "string \<Rightarrow> planning_error + string" where
  "scan_profile_of v =
     (let profile = py_strip (py_lower v)
      in if profile \<in> {''testing'', ''full''} then Inr profile else Inl BadScanProfile)"

definition live_switch_block_reason :: "settings \<Rightarrow> string \<Rightarrow> block_reason option" where
  "live_switch_block_reason s profile =
     (if \<not> allow_live_api_calls s then Some LiveCallsDisabled
      else if paid_call_kill_switch s then Some PaidCallsDisabled
      else if normalize_dataforseo_environment s = ''production'' \<and> \<not> allow_production_dataforseo s
      then Some ProductionDisabled
      else if profile = ''full'' \<and> \<not> allow_full_scans s then Some FullScansDisabled
      else None)"

definition paid_cost :: "settings \<Rightarrow> usd \<Rightarrow> usd" where
  "paid_cost s cost = (if normalize_dataforseo_environment s = ''sandbox'' then 0 else cost)"

definition keyword_specs :: "settings \<Rightarrow> string \<Rightarrow> service_spec \<Rightarrow> market_model \<Rightarrow> call_spec list" where
  "keyword_specs s profile service m =
     map (\<lambda>seed. \<lparr>cs_endpoint = ''/v3/dataforseo_labs/google/keyword_suggestions/live'',
         cs_stage = ''keyword_discovery'',
         cs_task = jmerge [(''keyword'', JStr seed), (''language_code'', JStr ''en''),
           (''limit'', JNum (if profile = ''testing'' then 10 else 20)), (''include_seed_keyword'', JBool True)]
           (labs_location_payload m),
         cs_cost = paid_cost s (12 / 1000), cs_required = True, cs_request_known = True\<rparr>)
       (take (if profile = ''testing'' then 1 else 3) (service_seed_keywords service))"

definition metrics_spec :: "settings \<Rightarrow> call_spec" where
  "metrics_spec s =
     \<lparr>cs_endpoint = ''/v3/dataforseo_labs/google/historical_search_volume/live'', cs_stage = ''keyword_metrics'',
      cs_task = [(''keywords'', JList [JStr ''<from keyword discovery>'']), (''language_code'', JStr ''en''),
        (''location_code'', JNum (of_int us_labs_location_code))],
      cs_cost = paid_cost s (12 / 1000), cs_required = True, cs_request_known = False\<rparr>"

definition serp_specs :: "settings \<Rightarrow> string \<Rightarrow> jobj \<Rightarrow> call_spec list" where
  "serp_specs s profile location =
     map (\<lambda>slot. \<lparr>cs_endpoint = ''/v3/serp/google/organic/live/advanced'', cs_stage = ''serp'',
         cs_task = jmerge [(''keyword'', JStr (''<representative keyword '' @ nat_digits (slot + 1) @ ''>'')),
           (''language_code'', JStr ''en''), (''device'', JStr ''desktop''), (''depth'', JNum 10)] location,
         cs_cost = paid_cost s (2 / 1000), cs_required = True, cs_request_known = False\<rparr>)
       [0..<(if profile = ''testing'' then 1 else 3)]"

definition competitor_specs :: "settings \<Rightarrow> string \<Rightarrow> call_spec list" where
  "competitor_specs s profile =
     map (\<lambda>slot. \<lparr>cs_endpoint = ''/v3/backlinks/summary/live'', cs_stage = ''competitors'',
         cs_task = [(''target'', JStr (''<organic competitor domain '' @ nat_digits (slot + 1) @ ''>'')),
           (''include_subdomains'', JBool True)],
         cs_cost = paid_cost s (2 / 100), cs_required = False, cs_request_known = False\<rparr>)
       [0..<(if profile = ''testing'' then 0 else 5)]"

definition provider_task :: "string \<Rightarrow> service_spec \<Rightarrow> market_model \<Rightarrow> jobj \<Rightarrow> jobj" where
  "provider_task profile service m location =
     (let task = jmerge [(''language_code'', JStr ''en''), (''limit'', JNum (if profile = ''testing'' then 5 else 10)),
            (''filters'', JList [JStr ''address_info.country_code'', JStr ''='', JStr (py_upper (mt_country_code m))]),
            (''description'', JStr (sv_display_name service @ '' '' @ mt_display_name m))] location
      in if sv_provider_categories service \<noteq> []
         then jset ''categories'' (JList (map JStr (take 10 (sv_provider_categories service)))) task else task)"

definition provider_spec :: "settings \<Rightarrow> jobj \<Rightarrow> call_spec" where
  "provider_spec s task =
     \<lparr>cs_endpoint = ''/v3/business_data/business_listings/search/live'', cs_stage = ''provider_discovery'',
      cs_task = task, cs_cost = paid_cost s (1 / 100), cs_required = True, cs_request_known = True\<rparr>"

text \<open>
  The planner asks for the location of the result pages while it plans them and for the location
  of the listings afterwards, so the first of the two that fails is the error.
\<close>

definition planned_specs ::
  "settings \<Rightarrow> string \<Rightarrow> service_spec \<Rightarrow> market_model \<Rightarrow> planning_error + call_spec list" where
  "planned_specs s profile service m =
     and_then (serp_location_payload m) (\<lambda>serp.
     and_then (business_listings_location_payload m (normalize_dataforseo_environment s)) (\<lambda>listings.
     Inr (keyword_specs s profile service m @ [metrics_spec s] @ serp_specs s profile serp @
          competitor_specs s profile @ [provider_spec s (provider_task profile service m listings)])))"

definition summarize_plan :: "settings \<Rightarrow> string \<Rightarrow> planned_api_call list \<Rightarrow> api_scan_plan" where
  "summarize_plan s profile planned =
     (let uncached = sum_list (map pc_estimated_cost_usd (filter (\<lambda>c. \<not> pc_cache_hit c) planned));
          cached = sum_list (map pc_estimated_cost_usd (filter pc_cache_hit planned));
          over_budget = max_scan_cost_usd s < uncached;
          over_request_limit = max_scan_requests s < int (length planned)
      in \<lparr>pl_scan_profile = profile, pl_planned_calls = planned,
          pl_cache_hit_count = length (filter pc_cache_hit planned),
          pl_paid_call_count = length (filter (\<lambda>c. \<not> pc_cache_hit c \<and> 0 < pc_estimated_cost_usd c) planned),
          pl_cached_cost_usd = cached, pl_estimated_uncached_cost_usd = uncached,
          pl_maximum_allowed_cost_usd = max_scan_cost_usd s, pl_maximum_request_count = max_scan_requests s,
          pl_confirmation_required = (0 < uncached), pl_blocked = (over_budget \<or> over_request_limit),
          pl_block_reason = (if over_budget then Some (CostAboveMaximum uncached (max_scan_cost_usd s))
            else if over_request_limit then Some (TooManyRequests (length planned) (max_scan_requests s))
            else None)\<rparr>)"

definition empty_plan :: "settings \<Rightarrow> string \<Rightarrow> block_reason option \<Rightarrow> api_scan_plan" where
  "empty_plan s profile reason =
     \<lparr>pl_scan_profile = profile, pl_planned_calls = [], pl_cache_hit_count = 0, pl_paid_call_count = 0,
      pl_cached_cost_usd = 0, pl_estimated_uncached_cost_usd = 0,
      pl_maximum_allowed_cost_usd = max_scan_cost_usd s, pl_maximum_request_count = max_scan_requests s,
      pl_confirmation_required = False, pl_blocked = (reason \<noteq> None), pl_block_reason = reason\<rparr>"

definition build_scan_plan ::
  "settings \<Rightarrow> 'b planning_env \<Rightarrow> data_mode \<Rightarrow> service_spec \<Rightarrow> market_model \<Rightarrow> string option \<Rightarrow>
   planning_error + api_scan_plan" where
  "build_scan_plan s env mode service m requested_profile =
     and_then (scan_profile_of (the (str_or requested_profile (Some (live_scan_depth s))))) (\<lambda>profile.
     if mode \<noteq> DM_live then Inr (empty_plan s profile None)
     else case live_switch_block_reason s profile of
       Some reason \<Rightarrow> Inr (empty_plan s profile (Some reason))
     | None \<Rightarrow>
         (case validate_market_against_index (pe_index env) m of
            Inl e \<Rightarrow> Inl (PlanGeographyError e)
          | Inr r \<Rightarrow>
              and_then (planned_specs s profile service m) (\<lambda>specs.
              Inr (summarize_plan s profile (foldl (append_call env (dataforseo_provider_name s)) [] specs)))))"

section \<open>The calls of a plan\<close>

lemma append_call_simps:
  "length (append_call env provider planned c) = Suc (length planned)"
  "map pc_planned_request_id (append_call env provider planned c) =
     map pc_planned_request_id planned @ [plan_request_id (length planned + 1)]"
  "map pc_estimated_cost_usd (append_call env provider planned c) =
     map pc_estimated_cost_usd planned @ [cs_cost c]"
  by (simp_all add: append_call_def Let_def)

lemma append_calls:
  "length (foldl (append_call env provider) planned specs) = length planned + length specs"
  "map pc_estimated_cost_usd (foldl (append_call env provider) planned specs) =
     map pc_estimated_cost_usd planned @ map cs_cost specs"
  "map pc_planned_request_id planned = map plan_request_id [1..<length planned + 1] \<Longrightarrow>
     map pc_planned_request_id (foldl (append_call env provider) planned specs) =
       map plan_request_id [1..<length planned + length specs + 1]"
  by (induction specs arbitrary: planned) (simp_all add: append_call_simps)

definition hit_justified :: "'b planning_env \<Rightarrow> planned_api_call \<Rightarrow> bool" where
  "hit_justified env c \<longleftrightarrow>
     pc_cache_key c = cache_key (pe_cache_env env) (pc_provider c) (pc_endpoint c) (pc_request_parameters c) ''v3'' ''v1'' \<and>
     (pc_cache_hit c \<longrightarrow> pc_request_known c \<and> plan_cache_hit env (pc_cache_key c))"

lemma append_calls_justified:
  "list_all (hit_justified env) planned \<Longrightarrow> list_all (hit_justified env) (foldl (append_call env provider) planned specs)"
  by (induction specs arbitrary: planned) (simp_all add: append_call_def hit_justified_def Let_def)

lemma sum_list_split: "sum_list (map f (filter P xs)) + sum_list (map f (filter (\<lambda>x. \<not> P x) xs)) = sum_list (map f (xs :: 'c list) :: rat list)"
  by (induction xs) (simp_all add: algebra_simps)

lemma build_scan_plan_live:
  assumes "build_scan_plan s env DM_live service m requested_profile = Inr p"
  obtains (switched_off) profile reason where "pl_scan_profile p = profile" "live_switch_block_reason s profile = Some reason"
      "p = empty_plan s profile (Some reason)"
  | (planned) profile r specs where "pl_scan_profile p = profile" "live_switch_block_reason s profile = None"
      "validate_market_against_index (pe_index env) m = Inr r"
      "planned_specs s profile service m = Inr specs"
      "p = summarize_plan s profile (foldl (append_call env (dataforseo_provider_name s)) [] specs)"
proof -
  from assms obtain profile where profile: "scan_profile_of (the (str_or requested_profile (Some (live_scan_depth s)))) = Inr profile"
    and rest: "(case live_switch_block_reason s profile of
       Some reason \<Rightarrow> Inr (empty_plan s profile (Some reason))
     | None \<Rightarrow>
         (case validate_market_against_index (pe_index env) m of
            Inl e \<Rightarrow> Inl (PlanGeographyError e)
          | Inr r \<Rightarrow>
              and_then (planned_specs s profile service m) (\<lambda>specs.
              Inr (summarize_plan s profile (foldl (append_call env (dataforseo_provider_name s)) [] specs))))) = Inr p"
    by (auto simp: build_scan_plan_def)
  have names: "pl_scan_profile (empty_plan s profile x) = profile" "pl_scan_profile (summarize_plan s profile cs) = profile"
    for x cs by (simp_all add: empty_plan_def summarize_plan_def Let_def)
  show thesis
  proof (cases "live_switch_block_reason s profile")
    case None
    with rest obtain r specs where "validate_market_against_index (pe_index env) m = Inr r"
      "planned_specs s profile service m = Inr specs"
      "p = summarize_plan s profile (foldl (append_call env (dataforseo_provider_name s)) [] specs)"
      by (auto split: sum.splits)
    with None names show thesis using planned by metis
  next
    case (Some reason)
    with rest have "p = empty_plan s profile (Some reason)" by simp
    with names Some show thesis using switched_off by metis
  qed
qed

lemma planned_specs_shape:
  assumes "planned_specs s profile service m = Inr specs" "profile = ''testing'' \<or> profile = ''full''"
  shows "length specs \<le> (if profile = ''testing'' then 4 else 13)"
    "sum_list (map cs_cost specs) \<le> paid_cost s (if profile = ''testing'' then 36 / 1000 else 164 / 1000)"
    "list_all (\<lambda>c. 0 \<le> cs_cost c) specs"
proof -
  obtain serp listings where specs: "specs = keyword_specs s profile service m @ [metrics_spec s] @ serp_specs s profile serp @
          competitor_specs s profile @ [provider_spec s (provider_task profile service m listings)]"
    using assms(1) by (auto simp: planned_specs_def)
  let ?k = "length (keyword_specs s profile service m)"
  have k: "?k \<le> (if profile = ''testing'' then 1 else 3)" by (simp add: keyword_specs_def)
  have costs: "map cs_cost (keyword_specs s profile service m) = replicate ?k (paid_cost s (12 / 1000))"
    "map cs_cost (serp_specs s profile serp) = replicate (if profile = ''testing'' then 1 else 3) (paid_cost s (2 / 1000))"
    "map cs_cost (competitor_specs s profile) = replicate (if profile = ''testing'' then 0 else 5) (paid_cost s (2 / 100))"
    by (simp_all add: keyword_specs_def serp_specs_def competitor_specs_def map_replicate_const comp_def)
  show "length specs \<le> (if profile = ''testing'' then 4 else 13)"
    using k by (cases "profile = ''testing''") (simp_all add: specs serp_specs_def competitor_specs_def)
  have "sum_list (map cs_cost (keyword_specs s profile service m)) \<le> (if profile = ''testing'' then 1 else 3) * paid_cost s (12 / 1000)"
    using k by (auto simp: costs(1) sum_list_replicate paid_cost_def split: if_splits)
  moreover have "sum_list (map cs_cost (serp_specs s profile serp)) = (if profile = ''testing'' then 1 else 3) * paid_cost s (2 / 1000)"
    "sum_list (map cs_cost (competitor_specs s profile)) = (if profile = ''testing'' then 0 else 5) * paid_cost s (2 / 100)"
    by (simp_all add: costs(2,3) sum_list_replicate)
  moreover have "sum_list (map cs_cost specs) = sum_list (map cs_cost (keyword_specs s profile service m)) +
      paid_cost s (12 / 1000) + sum_list (map cs_cost (serp_specs s profile serp)) +
      sum_list (map cs_cost (competitor_specs s profile)) + paid_cost s (1 / 100)"
    by (simp add: specs metrics_spec_def provider_spec_def)
  ultimately show "sum_list (map cs_cost specs) \<le> paid_cost s (if profile = ''testing'' then 36 / 1000 else 164 / 1000)"
    by (auto simp: paid_cost_def split: if_split_asm)
  show "list_all (\<lambda>c. 0 \<le> cs_cost c) specs"
    by (auto simp: specs keyword_specs_def serp_specs_def competitor_specs_def metrics_spec_def provider_spec_def
        paid_cost_def list_all_iff)
qed


lemma build_scan_plan_profile:
  assumes "build_scan_plan s env mode service m requested_profile = Inr p"
  shows "pl_scan_profile p = ''testing'' \<or> pl_scan_profile p = ''full''"
proof -
  from assms obtain profile where "scan_profile_of (the (str_or requested_profile (Some (live_scan_depth s)))) = Inr profile"
    and "pl_scan_profile p = profile"
    by (auto simp: build_scan_plan_def empty_plan_def summarize_plan_def Let_def split: if_splits option.splits sum.splits)
  then show ?thesis by (auto simp: scan_profile_of_def Let_def split: if_splits)
qed

lemma summarize_plan_costs:
  "pl_estimated_uncached_cost_usd (summarize_plan s profile cs) + pl_cached_cost_usd (summarize_plan s profile cs) =
     sum_list (map pc_estimated_cost_usd cs)"
  using sum_list_split [of pc_estimated_cost_usd pc_cache_hit cs] by (simp add: summarize_plan_def Let_def algebra_simps)

lemma plan_request_ids_distinct: "n \<le> 13 \<Longrightarrow> distinct (map plan_request_id [1..<n + 1])"
proof -
  assume "n \<le> 13"
  moreover have "distinct (map plan_request_id [1..<14])" by code_simp
  ultimately show ?thesis by (auto simp: distinct_map inj_on_def)
qed

text \<open>
  C23: A live plan that is not blocked respects the policy: live calls are allowed, the kill switch
  is off, production and full scans are enabled when they are asked for; its market is one of the
  geography index as it stands; the cost of the calls that no cache entry answers is within the
  scan's maximum, the number of calls within theirs; and every call that is counted as a cache hit
  is a fully known request for which the cache holds a valid response under its key.
\<close>

theorem plan_within_policy:
  assumes "build_scan_plan s env DM_live service m requested_profile = Inr p" "\<not> pl_blocked p"
  shows "allow_live_api_calls s \<and> \<not> paid_call_kill_switch s \<and>
      (normalize_dataforseo_environment s \<noteq> ''production'' \<or> allow_production_dataforseo s) \<and>
      (pl_scan_profile p = ''testing'' \<or> allow_full_scans s) \<and>
      (\<exists>r. validate_market_against_index (pe_index env) m = Inr r) \<and>
      sum_list (map pc_estimated_cost_usd (filter (\<lambda>c. \<not> pc_cache_hit c) (pl_planned_calls p))) \<le> max_scan_cost_usd s \<and>
      int (length (pl_planned_calls p)) \<le> max_scan_requests s \<and>
      list_all (hit_justified env) (pl_planned_calls p)"
  using assms(1)
proof (cases rule: build_scan_plan_live)
  case (switched_off profile reason)
  with assms(2) show ?thesis by (simp add: empty_plan_def)
next
  case (planned profile r specs)
  let ?calls = "foldl (append_call env (dataforseo_provider_name s)) [] specs"
  have "list_all (hit_justified env) ?calls" by (rule append_calls_justified) simp
  moreover have "\<not> max_scan_cost_usd s < sum_list (map pc_estimated_cost_usd (filter (\<lambda>c. \<not> pc_cache_hit c) ?calls))"
    "\<not> max_scan_requests s < int (length ?calls)" "pl_planned_calls p = ?calls"
    using assms(2) by (simp_all add: planned(5) summarize_plan_def Let_def)
  moreover have "pl_scan_profile p = ''testing'' \<or> allow_full_scans s"
    "allow_live_api_calls s" "\<not> paid_call_kill_switch s"
    "normalize_dataforseo_environment s \<noteq> ''production'' \<or> allow_production_dataforseo s"
    using planned(2) build_scan_plan_profile [OF assms(1)] planned(1)
    by (auto simp: live_switch_block_reason_def split: if_splits)
  ultimately show ?thesis using planned(3) by simp
qed

text \<open>
  The size of a plan. A testing plan has at most four calls and costs at most 3.6 cents, a full
  plan at most thirteen calls and 16.4 cents, cached calls included, and nothing in the sandbox.
  The two costs add up to the estimates of all calls, none negative, and the request ids are
  distinct and numbered in order, so that each call can be recognised in the ledger.
\<close>

theorem plan_bounded:
  assumes "build_scan_plan s env DM_live service m requested_profile = Inr p"
  shows "length (pl_planned_calls p) \<le> (if pl_scan_profile p = ''testing'' then 4 else 13) \<and>
      pl_estimated_uncached_cost_usd p + pl_cached_cost_usd p =
        sum_list (map pc_estimated_cost_usd (pl_planned_calls p)) \<and>
      pl_estimated_uncached_cost_usd p + pl_cached_cost_usd p \<le>
        paid_cost s (if pl_scan_profile p = ''testing'' then 36 / 1000 else 164 / 1000) \<and>
      list_all (\<lambda>c. 0 \<le> pc_estimated_cost_usd c) (pl_planned_calls p) \<and>
      map pc_planned_request_id (pl_planned_calls p) = map plan_request_id [1..<length (pl_planned_calls p) + 1] \<and>
      distinct (map pc_planned_request_id (pl_planned_calls p))"
  using assms
proof (cases rule: build_scan_plan_live)
  case (switched_off profile reason)
  then show ?thesis by (simp add: empty_plan_def paid_cost_def)
next
  case (planned profile r specs)
  let ?calls = "foldl (append_call env (dataforseo_provider_name s)) [] specs"
  have calls: "pl_planned_calls p = ?calls"
    by (simp add: planned(5) summarize_plan_def Let_def)
  have "profile = ''testing'' \<or> profile = ''full''" using build_scan_plan_profile [OF assms] planned(1) by simp
  note shape = planned_specs_shape [OF planned(4) this]
  have costs: "map pc_estimated_cost_usd ?calls = map cs_cost specs" and len: "length ?calls = length specs"
    by (simp_all add: append_calls)
  have "list_all (\<lambda>c. 0 \<le> pc_estimated_cost_usd c) ?calls"
    using shape(3) costs by (metis list.pred_map list_all_cong comp_def)
  moreover have ids: "map pc_planned_request_id ?calls = map plan_request_id [1..<length ?calls + 1]"
    using append_calls(3) [of "[]"] by (simp add: append_calls)
  moreover have "length ?calls \<le> 13" using shape(1) len by (simp split: if_splits)
  then have "distinct (map pc_planned_request_id ?calls)" unfolding ids by (rule plan_request_ids_distinct)
  moreover have "pl_estimated_uncached_cost_usd p + pl_cached_cost_usd p = sum_list (map pc_estimated_cost_usd ?calls)"
    using planned(5) summarize_plan_costs by metis
  ultimately show ?thesis using shape(1,2) len costs calls planned(1) by simp
qed

lemma cached_cost_nonneg:
  assumes "build_scan_plan s env DM_live service m requested_profile = Inr p"
  shows "0 \<le> pl_cached_cost_usd p"
  using assms
proof (cases rule: build_scan_plan_live)
  case (planned profile r specs)
  have "0 \<le> sum_list (map pc_estimated_cost_usd (filter pc_cache_hit (pl_planned_calls p)))"
    using plan_bounded [OF assms] by (intro sum_list_nonneg) (auto simp: list_all_iff)
  then show ?thesis using planned(5) by (simp add: summarize_plan_def Let_def)
qed (simp add: empty_plan_def)

text \<open>With limits at least as large as the largest plan, only the switches block.\<close>

lemma plan_blocked_by_switches_only:
  assumes "build_scan_plan s env DM_live service m requested_profile = Inr p"
    and "164 / 1000 \<le> max_scan_cost_usd s" "13 \<le> max_scan_requests s"
  shows "pl_blocked p \<longleftrightarrow> live_switch_block_reason s (pl_scan_profile p) \<noteq> None"
  using assms(1)
proof (cases rule: build_scan_plan_live)
  case (switched_off profile reason)
  then show ?thesis by (simp add: empty_plan_def)
next
  case (planned profile r specs)
  have "pl_estimated_uncached_cost_usd p \<le> max_scan_cost_usd s" "int (length (pl_planned_calls p)) \<le> max_scan_requests s"
    using plan_bounded [OF assms(1)] cached_cost_nonneg [OF assms(1)] assms(2,3)
    by (auto simp: paid_cost_def split: if_splits)
  then show ?thesis using planned(1,2,5) by (simp add: summarize_plan_def Let_def not_less)
qed

section \<open>The planner of the batches\<close>

text \<open>
  The planning loop of \<open>create_batch_plan\<close> with this planner. A batch request for which planning
  raises fails and stores nothing, exactly as one with a blocked plan; the planner therefore reports
  a raise as blocked. \<open>dump\<close> is the serialization of a plan by its model class.
\<close>

definition data_mode_of :: "string \<Rightarrow> data_mode option" where
  "data_mode_of v = map_of [(''fixture'', DM_fixture), (''live'', DM_live), (''replay'', DM_replay)] v"

definition refused_plan :: scan_plan where
  "refused_plan = \<lparr>sp_blocked = True, sp_estimated_uncached_cost_usd = 0, sp_payload = []\<rparr>"

definition batch_planner ::
  "settings \<Rightarrow> (database \<Rightarrow> 'b planning_env) \<Rightarrow> (api_scan_plan \<Rightarrow> jobj) \<Rightarrow> planner" where
  "batch_planner s env_of dump d mode profile op =
     (case (tget sf_id (op_service_family_id op) (service_families d),
            Option.bind (tget mk_id (op_market_id op) (markets d)) market_from_orm, data_mode_of mode) of
        (Some service, Some m, Some dm) \<Rightarrow>
          (case build_scan_plan s (env_of d) dm (service_spec.truncate (service_from_orm service)) m (Some profile) of
             Inl e \<Rightarrow> refused_plan
           | Inr p \<Rightarrow> \<lparr>sp_blocked = pl_blocked p,
               sp_estimated_uncached_cost_usd = pl_estimated_uncached_cost_usd p, sp_payload = dump p\<rparr>)
      | _ \<Rightarrow> refused_plan)"

lemma build_scan_plan_cost:
  assumes "build_scan_plan s env dm service m requested_profile = Inr p" "\<not> pl_blocked p"
  shows "dm = DM_live \<and> pl_estimated_uncached_cost_usd p \<le> max_scan_cost_usd s \<and>
      pl_estimated_uncached_cost_usd p \<le> 164 / 1000 \<or> pl_estimated_uncached_cost_usd p = 0"
proof (cases "dm = DM_live")
  case True
  then have live: "build_scan_plan s env DM_live service m requested_profile = Inr p" using assms(1) by simp
  have "pl_estimated_uncached_cost_usd p \<le> max_scan_cost_usd s"
    using live
  proof (cases rule: build_scan_plan_live)
    case (switched_off profile reason)
    then show ?thesis using assms(2) by (simp add: empty_plan_def)
  next
    case (planned profile r specs)
    then show ?thesis using assms(2) by (simp add: summarize_plan_def Let_def not_less)
  qed
  moreover have "0 \<le> pl_cached_cost_usd p" by (rule cached_cost_nonneg [OF live])
  ultimately show ?thesis
    using plan_bounded [OF live] True by (auto simp: paid_cost_def split: if_splits)
next
  case False
  then show ?thesis using assms(1) by (auto simp: build_scan_plan_def empty_plan_def)
qed

lemma batch_planner_cost:
  assumes "\<not> sp_blocked (batch_planner s env_of dump d mode profile op)" "0 \<le> max_scan_cost_usd s"
  shows "sp_estimated_uncached_cost_usd (batch_planner s env_of dump d mode profile op) \<le> min (max_scan_cost_usd s) (164 / 1000)"
  using assms build_scan_plan_cost
  by (fastforce simp: batch_planner_def refused_plan_def split: option.splits sum.splits)

lemma plan_opportunities_plans:
  "plan_opportunities plan_of d template r ops = Inr plans \<Longrightarrow> x \<in> set plans \<Longrightarrow>
     snd x = plan_of d (bq_data_mode r) (bq_scan_profile r) (fst x) \<and> \<not> sp_blocked (snd x)"
  by (induction ops arbitrary: plans) auto

lemma add_batch_items_new:
  "add_batch_items profile bid now plans d = Inr d' \<Longrightarrow> i \<in> set (batch_scan_plan_items d') \<Longrightarrow>
     i \<in> set (batch_scan_plan_items d) \<or>
     (\<exists>x \<in> set plans. bi_estimated_cost_usd i = sp_estimated_uncached_cost_usd (snd x) \<and> bi_batch_plan_id i = bid)"
proof (induction plans arbitrary: d)
  case (Cons x plans)
  let ?d1 = "d\<lparr>batch_scan_plan_items := batch_scan_plan_items d @
      [new_batch_item (next_id bi_id (batch_scan_plan_items d)) bid x]\<rparr>"
  from Cons.prems(1) obtain d2 where "add_batch_items profile bid now plans d2 = Inr d'"
    "batch_scan_plan_items d2 = batch_scan_plan_items ?d1"
    by (auto simp: Let_def transition_system_batch_frame split: if_splits)
  with Cons.IH [of d2] Cons.prems(2) show ?case by (auto simp: new_batch_item_def)
qed simp

lemma add_batch_items_plans:
  "add_batch_items profile bid now plans d = Inr d' \<Longrightarrow> batch_scan_plans d' = batch_scan_plans d"
proof (induction plans arbitrary: d)
  case (Cons x plans)
  then show ?case by (fastforce simp: Let_def transition_system_batch_frame split: if_splits)
qed simp

lemma create_batch_plan_plans:
  assumes "create_batch_plan plan_of d r actor now = Inr (bid, d')"
  obtains template rows plans where "plan_opportunities plan_of d template r rows = Inr plans"
    "length rows = length (bq_opportunity_ids r)" "total_planned_cost plans \<le> bq_aggregate_budget_usd r"
    "add_batch_items (bq_scan_profile r) bid now plans (d\<lparr>batch_scan_plans :=
       batch_scan_plans d @ [new_batch bid r actor (total_planned_cost plans)]\<rparr>) = Inr d'"
  using assms by (auto simp: create_batch_plan_def Let_def not_less)

lemma plan_opportunities_length: "plan_opportunities plan_of d template r ops = Inr plans \<Longrightarrow> length plans = length ops"
  by (induction ops arbitrary: plans) auto

text \<open>
  C24: Batches planned by the scan planner. Every item that a new batch gets is estimated within the
  maximum of a single scan and at 16.4 cents at most, so the estimate of the whole batch is within
  its budget and within that amount per selected opportunity, whatever the cache and the geography
  index hold.
\<close>

theorem planned_batch_within_scan_limit:
  assumes "0 \<le> max_scan_cost_usd s"
    and "create_batch_plan (batch_planner s env_of dump) d r actor now = Inr (bid, d')"
  shows "(\<forall>i \<in> set (batch_scan_plan_items d'). i \<in> set (batch_scan_plan_items d) \<or>
        bi_batch_plan_id i = bid \<and> bi_estimated_cost_usd i \<le> min (max_scan_cost_usd s) (164 / 1000)) \<and>
      (\<exists>b \<in> set (batch_scan_plans d'). bp_id b = bid \<and>
        bp_aggregate_estimated_cost_usd b \<le> bq_aggregate_budget_usd r \<and>
        bp_aggregate_estimated_cost_usd b \<le>
          of_nat (length (bq_opportunity_ids r)) * min (max_scan_cost_usd s) (164 / 1000))"
  using assms(2)
proof (rule create_batch_plan_plans)
  fix template rows plans
  let ?limit = "min (max_scan_cost_usd s) (164 / 1000)"
  let ?batch = "new_batch bid r actor (total_planned_cost plans)"
  assume plans: "plan_opportunities (batch_planner s env_of dump) d template r rows = Inr plans"
    "length rows = length (bq_opportunity_ids r)" "total_planned_cost plans \<le> bq_aggregate_budget_usd r"
    and add: "add_batch_items (bq_scan_profile r) bid now plans
      (d\<lparr>batch_scan_plans := batch_scan_plans d @ [?batch]\<rparr>) = Inr d'"
  have cost: "sp_estimated_uncached_cost_usd (snd x) \<le> ?limit" if "x \<in> set plans" for x
    using plan_opportunities_plans [OF plans(1) that] batch_planner_cost [OF _ assms(1)] by metis
  have items: "i \<in> set (batch_scan_plan_items d) \<or> bi_batch_plan_id i = bid \<and> bi_estimated_cost_usd i \<le> ?limit"
    if "i \<in> set (batch_scan_plan_items d')" for i
    using add_batch_items_new [OF add that] cost by fastforce
  have "total_planned_cost plans \<le> of_nat (length plans) * ?limit"
    using cost unfolding total_planned_cost_def
    by (induction plans) (simp_all add: algebra_simps add_mono)
  also have "length plans = length (bq_opportunity_ids r)" using plan_opportunities_length [OF plans(1)] plans(2) by simp
  finally have "total_planned_cost plans \<le> of_nat (length (bq_opportunity_ids r)) * ?limit" .
  moreover have "?batch \<in> set (batch_scan_plans d')" using add_batch_items_plans [OF add] by simp
  moreover have "bp_id ?batch = bid" "bp_aggregate_estimated_cost_usd ?batch = total_planned_cost plans"
    by (simp_all add: new_batch_def)
  ultimately show ?thesis using items plans(3) by (intro conjI ballI bexI [of _ ?batch]) simp_all
qed

section \<open>A sample plan\<close>

definition planning_settings :: settings where
  "planning_settings = default_settings\<lparr>allow_live_api_calls := True\<rparr>"

definition planning_service :: service_spec where
  "planning_service = \<lparr>sv_display_name = ''Plumber'', sv_description = [], sv_seed_queries = [''plumber''],
     sv_negative_terms = [], sv_intent_modifiers = [], sv_negative_product_terms = [],
     sv_provider_categories = [''plumber'']\<rparr>"

definition planning_market :: market_model where
  "planning_market = market_from_geography_record (sample_city ''tx-waco'' ''Waco'' ''TX'' 140000)"

definition planning_env :: "json planning_env" where
  "planning_env = \<lparr>pe_index = Some sample_index,
     pe_cache_env = \<lparr>ce_encode = (\<lambda>j. j), ce_decode = Some, ce_len = (\<lambda>_. 0), ce_sha256 = (\<lambda>_. []),
       ce_text = (\<lambda>_. []), ce_text_hash = (\<lambda>text. text)\<rparr>,
     pe_session = None\<rparr>"

lemma number_texts:
  "fixed_text 6 (- 9774306 / 100000) = ''-97.743060''" "general_text 15 = ''15''"
  "general_text (123456789 / 10000000) = ''12.3457''" "general_text (1234567) = ''1.23457e+06''"
  "general_text (1234 / 100000000) = ''1.234e-05''" "general_text (9999996 / 10) = ''1e+06''"
  "py_int '' +1_024 '' = Some 1024" "py_int ''1__0'' = None"
  by code_simp+

lemma planning_market_valid: "\<exists>r. validate_market_against_index (Some sample_index) planning_market = Inr r"
proof -
  have "sample_city ''tx-waco'' ''Waco'' ''TX'' 140000 \<in> set (gi_geographies sample_index)"
    by (simp add: sample_index_def)
  from candidate_market_validates [OF sample_index_evaluates(1) this] show ?thesis
    unfolding planning_market_def market_from_geography_record_def by blast
qed

lemma sample_plan_built:
  "\<exists>p. build_scan_plan planning_settings planning_env DM_live planning_service planning_market None = Inr p \<and>
     \<not> pl_blocked p \<and> pl_scan_profile p = ''testing''"
proof -
  have ev: "scan_profile_of (the (str_or None (Some (live_scan_depth planning_settings)))) = Inr ''testing''"
    "live_switch_block_reason planning_settings ''testing'' = None"
    "isl (planned_specs planning_settings ''testing'' planning_service planning_market) \<longleftrightarrow> False"
    "164 / 1000 \<le> max_scan_cost_usd planning_settings" "13 \<le> max_scan_requests planning_settings"
    by code_simp+
  obtain r where r: "validate_market_against_index (pe_index planning_env) planning_market = Inr r"
    using planning_market_valid by (auto simp: planning_env_def)
  obtain specs where "planned_specs planning_settings ''testing'' planning_service planning_market = Inr specs"
    using ev(3) not_isl_Inr by blast
  then obtain p where p: "build_scan_plan planning_settings planning_env DM_live planning_service planning_market None = Inr p"
    "p = summarize_plan planning_settings ''testing''
      (foldl (append_call planning_env (dataforseo_provider_name planning_settings)) [] specs)"
    using ev(1,2) r by (simp add: build_scan_plan_def)
  then have "pl_scan_profile p = ''testing''" by (simp add: summarize_plan_def Let_def)
  with plan_blocked_by_switches_only [OF p(1) ev(4,5)] ev(2) p(1) show ?thesis by simp
qed

theorem plan_within_policy_witness:
  "\<exists>p. build_scan_plan planning_settings planning_env DM_live planning_service planning_market None = Inr p \<and>
     list_all (hit_justified planning_env) (pl_planned_calls p) \<and>
     int (length (pl_planned_calls p)) \<le> max_scan_requests planning_settings"
  using sample_plan_built plan_within_policy by blast

theorem plan_bounded_witness:
  "\<exists>p. build_scan_plan planning_settings planning_env DM_live planning_service planning_market None = Inr p \<and>
     length (pl_planned_calls p) \<le> 4 \<and> distinct (map pc_planned_request_id (pl_planned_calls p))"
proof -
  obtain p where p: "build_scan_plan planning_settings planning_env DM_live planning_service planning_market None = Inr p"
    "pl_scan_profile p = ''testing''" using sample_plan_built by blast
  from plan_bounded [OF p(1)] p show ?thesis by auto
qed

definition planning_db :: database where
  "planning_db = sample_batch_db\<lparr>markets := [blank_market\<lparr>mk_id := 3, mk_type := ''city''\<rparr>]\<rparr>"

theorem planned_batch_within_scan_limit_witness:
  "\<exists>bid d'. create_batch_plan (batch_planner default_settings (\<lambda>_. planning_env) (\<lambda>_. [])) planning_db
      sample_batch_request sample_actor 10 = Inr (bid, d') \<and>
    (\<exists>b \<in> set (batch_scan_plans d'). bp_id b = bid \<and> bp_aggregate_estimated_cost_usd b \<le> 164 / 1000)"
proof -
  have "\<exists>bid d'. create_batch_plan (batch_planner default_settings (\<lambda>_. planning_env) (\<lambda>_. [])) planning_db
      sample_batch_request sample_actor 10 = Inr (bid, d')"
    by (rule not_isl_Inr_pair) code_simp
  then obtain bid d' where run: "create_batch_plan (batch_planner default_settings (\<lambda>_. planning_env) (\<lambda>_. []))
      planning_db sample_batch_request sample_actor 10 = Inr (bid, d')" by blast
  have "0 \<le> max_scan_cost_usd default_settings" "length (bq_opportunity_ids sample_batch_request) = 1"
    by code_simp+
  with planned_batch_within_scan_limit [OF _ run] run show ?thesis by fastforce
qed

end
