(* ===== verification/Public_Data.thy ===== *)
theory Public_Data
  imports Interfaces "HOL-Library.Product_Lexorder" "HOL-Library.List_Lexorder" "HOL-Library.Char_ord" "HOL-Library.Countable"
begin

text \<open>
  \<open>public_data/models.py\<close> and \<open>public_data/store.py\<close>: the store of public datasets. A release is
  staged, installed as an immutable directory, registered, activated and possibly rolled back; the
  registry names the active version of each dataset and every version that was ever registered.
  The lock makes each operation that writes the registry atomic, so such an operation is one step;
  a stage that dies between installing the directory and registering it is a step of its own, and
  so is damage to the records of an installed release. Encoding, decoding and hashing the records
  of a release are parameters. Version names are single path components, so a directory is keyed by
  its dataset and version.
\<close>

section \<open>Data\<close>

datatype dataset_kind = DK_acs | DK_cbp | DK_nes | DK_noaa | DK_fema

definition dataset_kinds :: "dataset_kind list" where
  "dataset_kinds = [DK_acs, DK_cbp, DK_nes, DK_noaa, DK_fema]"

datatype dataset_status = DS_staged | DS_active | DS_superseded

record dataset_record =
  dr_geography_id :: string
  dr_source_geoid :: string
  dr_geography_level :: string
  dr_values :: "(string \<times> rat option) list"
  dr_dimensions :: "(string \<times> string) list"

definition record_identity :: "dataset_record \<Rightarrow> string \<times> string \<times> (string \<times> string) list" where
  "record_identity r = (dr_geography_id r, dr_source_geoid r, sort (dr_dimensions r))"

record dataset_release =
  rl_dataset :: dataset_kind
  rl_version :: string
  rl_data_year :: int
  rl_release_date :: calendar_date
  rl_source_url :: string
  rl_source_name :: string
  rl_license :: string
  rl_source_sha256 :: "string option"
  rl_source_bytes :: "int option"
  rl_source_format :: "string option"
  rl_source_content_type :: "string option"
  rl_source_etag :: "string option"
  rl_source_last_modified :: "string option"
  rl_acquisition_method :: "string option"
  rl_geographic_granularity :: "string list"
  rl_refresh_cadence :: string
  rl_retrieved_at :: instant
  rl_adapter :: string
  rl_notes :: string

record dataset_manifest =
  dm_release :: dataset_release
  dm_status :: dataset_status
  dm_record_count :: nat
  dm_content_sha256 :: string
  dm_staged_at :: instant
  dm_activated_at :: "instant option"

record dataset_registration =
  rg_active_version :: "string option"
  rg_activation_history :: "string list"
  rg_versions :: "(string \<times> dataset_manifest) list"

definition empty_registration :: dataset_registration where
  "empty_registration = \<lparr>rg_active_version = None, rg_activation_history = [], rg_versions = []\<rparr>"

text \<open>An installed directory: its manifest and its records file, either of which may be missing.\<close>

record 'b release_dir =
  dd_manifest :: "dataset_manifest option"
  dd_records :: "'b option"

record 'b public_store =
  ps_registry :: "(dataset_kind \<times> dataset_registration) list"
  ps_dirs :: "((dataset_kind \<times> string) \<times> 'b release_dir) list"

record 'b data_codec =
  de_encode :: "dataset_record list \<Rightarrow> 'b"
  de_parse :: "'b \<Rightarrow> dataset_record list option"
  de_sha256 :: "'b \<Rightarrow> string"

datatype public_data_error = DatasetValidationError string | DatasetNotFoundError | ManifestMissing

definition registration_of :: "'b public_store \<Rightarrow> dataset_kind \<Rightarrow> dataset_registration" where
  "registration_of st ds = (case map_of (ps_registry st) ds of Some rg \<Rightarrow> rg | None \<Rightarrow> empty_registration)"

definition put_registration :: "dataset_kind \<Rightarrow> dataset_registration \<Rightarrow> 'b public_store \<Rightarrow> 'b public_store" where
  "put_registration ds rg st = st\<lparr>ps_registry := dict_put ds rg (ps_registry st)\<rparr>"

section \<open>Validation\<close>

definition validate_release_directory ::
  "'b data_codec \<Rightarrow> 'b release_dir option \<Rightarrow> dataset_manifest \<Rightarrow> public_data_error + unit" where
  "validate_release_directory codec dir expected =
     (case (Option.bind dir dd_manifest, Option.bind dir dd_records) of
        (Some disk, Some content) \<Rightarrow>
          guarded
           [raise_if (rl_dataset (dm_release disk) \<noteq> rl_dataset (dm_release expected)) (DatasetValidationError ''kind''),
            raise_if (rl_version (dm_release disk) \<noteq> rl_version (dm_release expected)) (DatasetValidationError ''version''),
            raise_if (dm_release disk \<noteq> dm_release expected) (DatasetValidationError ''provenance''),
            raise_if (dm_content_sha256 disk \<noteq> dm_content_sha256 expected) (DatasetValidationError ''manifest checksum''),
            raise_if (dm_record_count disk \<noteq> dm_record_count expected) (DatasetValidationError ''registry count''),
            raise_if (de_sha256 codec content \<noteq> dm_content_sha256 expected) (DatasetValidationError ''checksum'')]
           (case de_parse codec content of
              None \<Rightarrow> Inl (DatasetValidationError ''record'')
            | Some records \<Rightarrow>
                guarded [raise_if (length records \<noteq> dm_record_count expected) (DatasetValidationError ''count'')] (Inr ()))
      | _ \<Rightarrow> Inl (DatasetValidationError ''incomplete''))"

definition release_dir_of :: "'b public_store \<Rightarrow> dataset_kind \<Rightarrow> string \<Rightarrow> 'b release_dir option" where
  "release_dir_of st ds v = map_of (ps_dirs st) (ds, v)"

definition validate_registered ::
  "'b data_codec \<Rightarrow> 'b public_store \<Rightarrow> dataset_kind \<Rightarrow> string \<Rightarrow> public_data_error + dataset_manifest" where
  "validate_registered codec st ds v =
     and_then (require_some DatasetNotFoundError (map_of (rg_versions (registration_of st ds)) v)) (\<lambda>m.
     and_then (validate_release_directory codec (release_dir_of st ds v) m) (\<lambda>_. Inr m))"

section \<open>Staging\<close>

definition write_validated_records ::
  "'b data_codec \<Rightarrow> dataset_record list \<Rightarrow> public_data_error + (nat \<times> 'b)" where
  "write_validated_records codec records =
     guarded [raise_if (\<not> distinct (map record_identity records)) (DatasetValidationError ''duplicate''),
              raise_if (records = []) (DatasetValidationError ''empty'')]
       (Inr (length records, de_encode codec records))"

definition register_staged :: "dataset_manifest \<Rightarrow> 'b public_store \<Rightarrow> 'b public_store" where
  "register_staged m st =
     (let ds = rl_dataset (dm_release m); rg = registration_of st ds
      in put_registration ds (rg\<lparr>rg_versions := dict_put (rl_version (dm_release m)) m (rg_versions rg)\<rparr>) st)"

definition recoverable_release :: "dataset_manifest \<Rightarrow> dataset_manifest \<Rightarrow> bool" where
  "recoverable_release disk candidate \<longleftrightarrow>
     (dm_release disk)\<lparr>rl_retrieved_at := 0\<rparr> = (dm_release candidate)\<lparr>rl_retrieved_at := 0\<rparr> \<and>
     dm_content_sha256 disk = dm_content_sha256 candidate \<and> dm_record_count disk = dm_record_count candidate"

definition install_dir :: "dataset_manifest \<Rightarrow> 'b \<Rightarrow> 'b public_store \<Rightarrow> 'b public_store" where
  "install_dir m content st =
     st\<lparr>ps_dirs := dict_put (rl_dataset (dm_release m), rl_version (dm_release m))
        \<lparr>dd_manifest = Some m, dd_records = Some content\<rparr> (ps_dirs st)\<rparr>"

definition commit_staged ::
  "'b data_codec \<Rightarrow> 'b public_store \<Rightarrow> dataset_manifest \<Rightarrow> 'b \<Rightarrow>
   public_data_error + (dataset_manifest \<times> 'b public_store)" where
  "commit_staged codec st m content =
     (let ds = rl_dataset (dm_release m); v = rl_version (dm_release m)
      in case release_dir_of st ds v of
           None \<Rightarrow> Inr (m, register_staged m (install_dir m content st))
         | Some dir \<Rightarrow>
             and_then (require_some ManifestMissing (dd_manifest dir)) (\<lambda>disk.
             guarded [raise_if (\<not> recoverable_release disk m) (DatasetValidationError ''immutable'')]
             (and_then (validate_release_directory codec (Some dir) disk) (\<lambda>_.
              case map_of (rg_versions (registration_of st ds)) v of
                Some existing \<Rightarrow> Inr (existing, st)
              | None \<Rightarrow> Inr (disk, register_staged disk st)))))"

definition staged_manifest :: "'b data_codec \<Rightarrow> dataset_release \<Rightarrow> nat \<Rightarrow> 'b \<Rightarrow> instant \<Rightarrow> dataset_manifest" where
  "staged_manifest codec release n content now =
     \<lparr>dm_release = release, dm_status = DS_staged, dm_record_count = n,
      dm_content_sha256 = de_sha256 codec content, dm_staged_at = now, dm_activated_at = None\<rparr>"

definition prepare_stage ::
  "'b data_codec \<Rightarrow> dataset_release \<Rightarrow> dataset_record list \<Rightarrow> instant \<Rightarrow>
   public_data_error + (dataset_manifest \<times> 'b)" where
  "prepare_stage codec release records now =
     guarded [raise_if (rl_source_sha256 release = None) (DatasetValidationError ''source checksum'')]
     (and_then (write_validated_records codec records) (\<lambda>(n, content).
      let m = staged_manifest codec release n content now
      in and_then (validate_release_directory codec (Some \<lparr>dd_manifest = Some m, dd_records = Some content\<rparr>) m)
           (\<lambda>_. Inr (m, content))))"

definition stage ::
  "'b data_codec \<Rightarrow> 'b public_store \<Rightarrow> dataset_release \<Rightarrow> dataset_record list \<Rightarrow> instant \<Rightarrow>
   public_data_error + (dataset_manifest \<times> 'b public_store)" where
  "stage codec st release records now =
     and_then (prepare_stage codec release records now) (\<lambda>(m, content). commit_staged codec st m content)"

text \<open>The process stops after the rename and before the registry is written.\<close>

definition stage_interrupted ::
  "'b data_codec \<Rightarrow> 'b public_store \<Rightarrow> dataset_release \<Rightarrow> dataset_record list \<Rightarrow> instant \<Rightarrow>
   public_data_error + 'b public_store" where
  "stage_interrupted codec st release records now =
     and_then (prepare_stage codec release records now) (\<lambda>(m, content).
       case release_dir_of st (rl_dataset release) (rl_version release) of
         None \<Rightarrow> Inr (install_dir m content st)
       | Some dir \<Rightarrow> Inr st)"

section \<open>Activation and rollback\<close>

definition activated_registration :: "dataset_registration \<Rightarrow> string \<Rightarrow> dataset_manifest \<Rightarrow> instant \<Rightarrow> dataset_registration" where
  "activated_registration rg v m now =
     (let superseded = (case rg_active_version rg of
            None \<Rightarrow> rg_versions rg
          | Some previous \<Rightarrow>
              (case map_of (rg_versions rg) previous of
                 None \<Rightarrow> rg_versions rg
               | Some p \<Rightarrow> dict_put previous (p\<lparr>dm_status := DS_superseded\<rparr>) (rg_versions rg)))
      in rg\<lparr>rg_versions := dict_put v (m\<lparr>dm_status := DS_active, dm_activated_at := Some now\<rparr>) superseded,
            rg_active_version := Some v,
            rg_activation_history := filter (\<lambda>u. u \<noteq> v) (rg_activation_history rg) @ [v]\<rparr>)"

definition activate ::
  "'b data_codec \<Rightarrow> 'b public_store \<Rightarrow> dataset_kind \<Rightarrow> string \<Rightarrow> instant \<Rightarrow>
   public_data_error + (dataset_manifest \<times> 'b public_store)" where
  "activate codec st ds v now =
     and_then (validate_registered codec st ds v) (\<lambda>m.
     let rg = registration_of st ds
     in if rg_active_version rg = Some v then Inr (m, st)
        else Inr (m\<lparr>dm_status := DS_active, dm_activated_at := Some now\<rparr>,
               put_registration ds (activated_registration rg v m now) st))"

definition rollback_candidates :: "dataset_registration \<Rightarrow> string list" where
  "rollback_candidates rg = filter (\<lambda>v. Some v \<noteq> rg_active_version rg) (rev (rg_activation_history rg))"

definition rollback_release ::
  "'b data_codec \<Rightarrow> 'b public_store \<Rightarrow> dataset_kind \<Rightarrow> instant \<Rightarrow>
   public_data_error + (dataset_manifest \<times> 'b public_store)" where
  "rollback_release codec st ds now =
     (case rollback_candidates (registration_of st ds) of
        [] \<Rightarrow> Inl DatasetNotFoundError
      | v # _ \<Rightarrow> activate codec st ds v now)"

section \<open>Reading\<close>

definition active_manifest :: "'b public_store \<Rightarrow> dataset_kind \<Rightarrow> dataset_manifest option" where
  "active_manifest st ds =
     (let rg = registration_of st ds in Option.bind (rg_active_version rg) (map_of (rg_versions rg)))"

definition selects_record :: "string option \<Rightarrow> string option \<Rightarrow> dataset_record \<Rightarrow> bool" where
  "selects_record geography_id source_geoid r \<longleftrightarrow>
     (case geography_id of None \<Rightarrow> True | Some g \<Rightarrow> dr_geography_id r = g) \<and>
     (case source_geoid of None \<Rightarrow> True | Some g \<Rightarrow> dr_source_geoid r = g)"

definition active_records ::
  "'b data_codec \<Rightarrow> 'b public_store \<Rightarrow> dataset_kind \<Rightarrow> string option \<Rightarrow> string option \<Rightarrow>
   public_data_error + dataset_record list" where
  "active_records codec st ds geography_id source_geoid =
     (case active_manifest st ds of
        None \<Rightarrow> Inr []
      | Some m \<Rightarrow>
          and_then (validate_registered codec st ds (rl_version (dm_release m))) (\<lambda>_.
          case Option.bind (Option.bind (release_dir_of st ds (rl_version (dm_release m))) dd_records) (de_parse codec) of
            None \<Rightarrow> Inl (DatasetValidationError ''record'')
          | Some records \<Rightarrow> Inr (filter (selects_record geography_id source_geoid) records)))"

record age_warning =
  aw_dataset :: dataset_kind
  aw_version :: string
  aw_age_days :: int
  aw_threshold :: int

record public_data_snapshot =
  sn_geography_id :: string
  sn_records :: "(dataset_kind \<times> dataset_record list) list"
  sn_manifests :: "(dataset_kind \<times> dataset_manifest) list"
  sn_warnings :: "age_warning list"

definition age_warnings :: "(dataset_kind \<times> int) list \<Rightarrow> calendar_date \<Rightarrow> dataset_kind \<Rightarrow> dataset_manifest \<Rightarrow> age_warning list" where
  "age_warnings warning_age_days today ds m =
     (let age = today - rl_release_date (dm_release m)
      in case map_of warning_age_days ds of
           None \<Rightarrow> []
         | Some threshold \<Rightarrow> if threshold < age
             then [\<lparr>aw_dataset = ds, aw_version = rl_version (dm_release m), aw_age_days = age, aw_threshold = threshold\<rparr>]
             else [])"

definition geography_records ::
  "'b data_codec \<Rightarrow> 'b public_store \<Rightarrow> dataset_kind \<Rightarrow> string \<Rightarrow> string option \<Rightarrow> public_data_error + dataset_record list" where
  "geography_records codec st ds geography_id county_fips =
     and_then (active_records codec st ds (Some geography_id) None) (\<lambda>own.
     if ds \<in> {DK_cbp, DK_nes} \<and> truthy_str county_fips
     then map_result (\<lambda>county. own @ filter (\<lambda>r. record_identity r \<notin> record_identity ` set own) county)
            (active_records codec st ds None county_fips)
     else Inr own)"

fun snapshot_from ::
  "'b data_codec \<Rightarrow> 'b public_store \<Rightarrow> string \<Rightarrow> string option \<Rightarrow> (dataset_kind \<times> int) list \<Rightarrow> calendar_date \<Rightarrow>
   dataset_kind list \<Rightarrow> public_data_snapshot \<Rightarrow> public_data_error + public_data_snapshot" where
  "snapshot_from codec st g county_fips ages today [] sn = Inr sn"
| "snapshot_from codec st g county_fips ages today (ds # kinds) sn =
     (case active_manifest st ds of
        None \<Rightarrow> snapshot_from codec st g county_fips ages today kinds sn
      | Some m \<Rightarrow>
          and_then (geography_records codec st ds g county_fips) (\<lambda>records.
          snapshot_from codec st g county_fips ages today kinds
            (sn\<lparr>sn_records := sn_records sn @ [(ds, records)], sn_manifests := sn_manifests sn @ [(ds, m)],
                sn_warnings := sn_warnings sn @ age_warnings ages today ds m\<rparr>)))"

definition snapshot ::
  "'b data_codec \<Rightarrow> 'b public_store \<Rightarrow> string \<Rightarrow> string option \<Rightarrow> (dataset_kind \<times> int) list \<Rightarrow> calendar_date \<Rightarrow>
   public_data_error + public_data_snapshot" where
  "snapshot codec st g county_fips ages today =
     snapshot_from codec st g county_fips ages today dataset_kinds
       \<lparr>sn_geography_id = g, sn_records = [], sn_manifests = [], sn_warnings = []\<rparr>"

section \<open>Histories\<close>

datatype 'b data_op =
  StageRelease dataset_release "dataset_record list" instant
| StageInterrupted dataset_release "dataset_record list" instant
| ActivateRelease dataset_kind string instant
| RollbackRelease dataset_kind instant
| DamageRecords dataset_kind string "'b option"

definition damage_records :: "dataset_kind \<Rightarrow> string \<Rightarrow> 'b option \<Rightarrow> 'b public_store \<Rightarrow> 'b public_store" where
  "damage_records ds v content st =
     (case release_dir_of st ds v of
        None \<Rightarrow> st
      | Some dir \<Rightarrow> st\<lparr>ps_dirs := dict_put (ds, v) (dir\<lparr>dd_records := content\<rparr>) (ps_dirs st)\<rparr>)"

fun data_step :: "'b data_codec \<Rightarrow> 'b public_store \<Rightarrow> 'b data_op \<Rightarrow> public_data_error + 'b public_store" where
  "data_step codec st (StageRelease release records now) = map_result snd (stage codec st release records now)"
| "data_step codec st (StageInterrupted release records now) = stage_interrupted codec st release records now"
| "data_step codec st (ActivateRelease ds v now) = map_result snd (activate codec st ds v now)"
| "data_step codec st (RollbackRelease ds now) = map_result snd (rollback_release codec st ds now)"
| "data_step codec st (DamageRecords ds v content) = Inr (damage_records ds v content st)"

definition empty_public_store :: "'b public_store" where
  "empty_public_store = \<lparr>ps_registry = [], ps_dirs = []\<rparr>"

section \<open>What every history keeps\<close>

definition verified :: "'b data_codec \<Rightarrow> dataset_manifest \<Rightarrow> bool" where
  "verified codec m \<longleftrightarrow> (\<exists>rs. dm_content_sha256 m = de_sha256 codec (de_encode codec rs) \<and>
     dm_record_count m = length rs \<and> distinct (map record_identity rs))"

definition status_in :: "dataset_registration \<Rightarrow> string \<Rightarrow> dataset_status" where
  "status_in rg v =
     (if rg_active_version rg = Some v then DS_active
      else if v \<in> set (rg_activation_history rg) then DS_superseded else DS_staged)"

definition manifest_ok :: "'b data_codec \<Rightarrow> dataset_kind \<Rightarrow> dataset_registration \<Rightarrow> string \<Rightarrow> dataset_manifest \<Rightarrow> bool" where
  "manifest_ok codec ds rg v m \<longleftrightarrow>
     rl_dataset (dm_release m) = ds \<and> rl_version (dm_release m) = v \<and> dm_status m = status_in rg v \<and>
     (dm_activated_at m = None) = (v \<notin> set (rg_activation_history rg)) \<and> verified codec m"

definition active_is_last :: "dataset_registration \<Rightarrow> bool" where
  "active_is_last rg \<longleftrightarrow> distinct (rg_activation_history rg) \<and>
     rg_active_version rg = (if rg_activation_history rg = [] then None else Some (last (rg_activation_history rg)))"

definition registration_ok :: "'b data_codec \<Rightarrow> dataset_kind \<Rightarrow> dataset_registration \<Rightarrow> bool" where
  "registration_ok codec ds rg \<longleftrightarrow>
     distinct (map fst (rg_versions rg)) \<and> active_is_last rg \<and>
     set (rg_activation_history rg) \<subseteq> fst ` set (rg_versions rg) \<and>
     (\<forall>v m. map_of (rg_versions rg) v = Some m \<longrightarrow> manifest_ok codec ds rg v m)"

definition dirs_ok :: "'b public_store \<Rightarrow> bool" where
  "dirs_ok st \<longleftrightarrow> (\<forall>ds v dir m. release_dir_of st ds v = Some dir \<longrightarrow> dd_manifest dir = Some m \<longrightarrow>
     rl_dataset (dm_release m) = ds \<and> rl_version (dm_release m) = v \<and> dm_status m = DS_staged \<and> dm_activated_at m = None)"

definition registered_dirs :: "'b public_store \<Rightarrow> bool" where
  "registered_dirs st \<longleftrightarrow> (\<forall>ds v. map_of (rg_versions (registration_of st ds)) v \<noteq> None \<longrightarrow> release_dir_of st ds v \<noteq> None)"

definition public_data_ok :: "'b data_codec \<Rightarrow> 'b public_store \<Rightarrow> bool" where
  "public_data_ok codec st \<longleftrightarrow> dirs_ok st \<and> registered_dirs st \<and> (\<forall>ds. registration_ok codec ds (registration_of st ds))"

text \<open>Two manifests of the same content.\<close>

definition same_release :: "dataset_manifest \<Rightarrow> dataset_manifest \<Rightarrow> bool" where
  "same_release m n \<longleftrightarrow> dm_release m = dm_release n \<and> dm_content_sha256 m = dm_content_sha256 n \<and>
     dm_record_count m = dm_record_count n \<and> dm_staged_at m = dm_staged_at n"

lemma same_release_refl [simp]: "same_release m m"
  by (simp add: same_release_def)

lemma same_release_trans: "same_release a b \<Longrightarrow> same_release b c \<Longrightarrow> same_release a c"
  by (simp add: same_release_def)

lemma registration_of_put [simp]:
  "registration_of (put_registration ds rg st) ds' = (if ds' = ds then rg else registration_of st ds')"
  "release_dir_of (put_registration ds rg st) ds' v = release_dir_of st ds' v"
  by (simp_all add: registration_of_def put_registration_def release_dir_of_def)

lemma registration_of_install [simp]: "registration_of (install_dir m content st) ds = registration_of st ds"
  by (simp add: registration_of_def install_dir_def)

lemma release_dir_of_install [simp]:
  "release_dir_of (install_dir m content st) ds v =
     (if ds = rl_dataset (dm_release m) \<and> v = rl_version (dm_release m)
      then Some \<lparr>dd_manifest = Some m, dd_records = Some content\<rparr> else release_dir_of st ds v)"
  by (auto simp: release_dir_of_def install_dir_def)

lemma active_registered:
  assumes "registration_ok codec ds rg" "rg_active_version rg = Some v"
  shows "v \<in> set (rg_activation_history rg)" "\<exists>m. map_of (rg_versions rg) v = Some m"
proof -
  from assms show "v \<in> set (rg_activation_history rg)"
    by (auto simp: registration_ok_def active_is_last_def split: if_splits)
  with assms(1) show "\<exists>m. map_of (rg_versions rg) v = Some m"
    by (metis (no_types, lifting) map_of_eq_None_iff not_None_eq registration_ok_def subsetD)
qed

lemma register_ok:
  assumes "registration_ok codec ds rg" "rl_dataset (dm_release m) = ds" "dm_status m = DS_staged"
    and "dm_activated_at m = None" "verified codec m" "map_of (rg_versions rg) (rl_version (dm_release m)) = None"
  shows "registration_ok codec ds (rg\<lparr>rg_versions := dict_put (rl_version (dm_release m)) m (rg_versions rg)\<rparr>)"
proof -
  have "rl_version (dm_release m) \<notin> set (rg_activation_history rg)"
    using assms(1,6) by (auto simp: registration_ok_def map_of_eq_None_iff)
  moreover from this have "rg_active_version rg \<noteq> Some (rl_version (dm_release m))"
    using active_registered(1) [OF assms(1)] by blast
  ultimately show ?thesis using assms
    by (auto simp: registration_ok_def active_is_last_def manifest_ok_def status_in_def distinct_keys_dict_put
        keys_dict_put)
qed

lemma map_of_activated:
  assumes "registration_ok codec ds rg" "rg_active_version rg \<noteq> Some v"
  shows "map_of (rg_versions (activated_registration rg v m now)) u =
    (if u = v then Some (m\<lparr>dm_status := DS_active, dm_activated_at := Some now\<rparr>)
     else if rg_active_version rg = Some u then map_option (\<lambda>p. p\<lparr>dm_status := DS_superseded\<rparr>) (map_of (rg_versions rg) u)
     else map_of (rg_versions rg) u)"
  using assms active_registered(2) [OF assms(1)]
  by (auto simp: activated_registration_def Let_def split: option.splits)

lemma activated_simps [simp]:
  "rg_active_version (activated_registration rg v m now) = Some v"
  "rg_activation_history (activated_registration rg v m now) = filter (\<lambda>u. u \<noteq> v) (rg_activation_history rg) @ [v]"
  by (simp_all add: activated_registration_def Let_def)

lemma activated_ok:
  assumes ok: "registration_ok codec ds rg" and "rg_active_version rg \<noteq> Some v" "map_of (rg_versions rg) v = Some m"
  shows "registration_ok codec ds (activated_registration rg v m now)"
proof -
  let ?rg = "activated_registration rg v m now"
  have versions: "distinct (map fst (rg_versions rg))" "active_is_last rg"
    "set (rg_activation_history rg) \<subseteq> fst ` set (rg_versions rg)"
    and manifests: "\<And>u n. map_of (rg_versions rg) u = Some n \<Longrightarrow> manifest_ok codec ds rg u n"
    using ok by (auto simp: registration_ok_def)
  have "distinct (map fst (rg_versions ?rg))" "fst ` set (rg_versions rg) \<subseteq> fst ` set (rg_versions ?rg)"
    using versions(1) by (auto simp: activated_registration_def Let_def distinct_keys_dict_put keys_dict_put split: option.splits)
  moreover have "v \<in> fst ` set (rg_versions ?rg)" by (simp add: activated_registration_def Let_def keys_dict_put)
  moreover have "active_is_last ?rg" using versions(2) by (simp add: active_is_last_def)
  moreover have "manifest_ok codec ds ?rg u n" if got: "map_of (rg_versions ?rg) u = Some n" for u n
  proof -
    consider "u = v" "n = m\<lparr>dm_status := DS_active, dm_activated_at := Some now\<rparr>"
      | p where "u \<noteq> v" "rg_active_version rg = Some u" "map_of (rg_versions rg) u = Some p" "n = p\<lparr>dm_status := DS_superseded\<rparr>"
      | "u \<noteq> v" "rg_active_version rg \<noteq> Some u" "map_of (rg_versions rg) u = Some n"
      using got map_of_activated [OF ok assms(2), of m now u]
      by (cases "u = v"; cases "rg_active_version rg = Some u") auto
    then show ?thesis
    proof cases
      case 1
      then show ?thesis using manifests [OF assms(3)] by (simp add: manifest_ok_def status_in_def verified_def)
    next
      case 2
      then show ?thesis using manifests [OF 2(3)] active_registered(1) [OF ok 2(2)]
        by (simp add: manifest_ok_def status_in_def verified_def)
    next
      case 3
      then show ?thesis using manifests [OF 3(3)] by (auto simp: manifest_ok_def status_in_def)
    qed
  qed
  ultimately show ?thesis using versions(3) by (auto simp: registration_ok_def)
qed

text \<open>The steps.\<close>

lemma prepare_stage_Inr:
  assumes "prepare_stage codec release records now = Inr (m, content)"
  shows "m = staged_manifest codec release (length records) content now" "content = de_encode codec records"
    "verified codec m" "rl_dataset (dm_release m) = rl_dataset release" "rl_version (dm_release m) = rl_version release"
    "dm_status m = DS_staged" "dm_activated_at m = None"
  using assms by (auto simp: prepare_stage_def write_validated_records_def Let_def staged_manifest_def verified_def)

lemma install_ok:
  assumes "public_data_ok codec st" "dm_status m = DS_staged" "dm_activated_at m = None"
  shows "public_data_ok codec (install_dir m content st)"
  using assms by (auto simp: public_data_ok_def dirs_ok_def registered_dirs_def split: if_splits)

lemma registration_of_register [simp]:
  "registration_of (register_staged m st) ds =
     (let rg = registration_of st ds
      in if ds = rl_dataset (dm_release m)
         then rg\<lparr>rg_versions := dict_put (rl_version (dm_release m)) m (rg_versions rg)\<rparr> else rg)"
  "release_dir_of (register_staged m st) ds v = release_dir_of st ds v"
  by (simp_all add: register_staged_def Let_def)

lemma register_staged_ok:
  assumes ok: "public_data_ok codec st" and m: "dm_status m = DS_staged" "dm_activated_at m = None" "verified codec m"
    and new: "map_of (rg_versions (registration_of st (rl_dataset (dm_release m)))) (rl_version (dm_release m)) = None"
    and dir: "release_dir_of st (rl_dataset (dm_release m)) (rl_version (dm_release m)) \<noteq> None"
  shows "public_data_ok codec (register_staged m st)"
proof -
  have "registration_ok codec ds (registration_of (register_staged m st) ds)" for ds
    using ok register_ok [OF _ refl m new] by (auto simp: public_data_ok_def Let_def)
  moreover have "registered_dirs (register_staged m st)" "dirs_ok (register_staged m st)"
    using ok dir by (auto simp: public_data_ok_def registered_dirs_def dirs_ok_def Let_def split: if_splits)
  ultimately show ?thesis by (simp add: public_data_ok_def)
qed

lemma commit_staged_ok:
  assumes ok: "public_data_ok codec st" and m: "dm_status m = DS_staged" "dm_activated_at m = None" "verified codec m"
    and run: "commit_staged codec st m content = Inr (m', st')"
  shows "public_data_ok codec st'"
proof (cases "release_dir_of st (rl_dataset (dm_release m)) (rl_version (dm_release m))")
  case None
  then have new: "map_of (rg_versions (registration_of st (rl_dataset (dm_release m)))) (rl_version (dm_release m)) = None"
    using ok unfolding public_data_ok_def registered_dirs_def by blast
  from None run have "st' = register_staged m (install_dir m content st)"
    by (auto simp: commit_staged_def Let_def)
  with register_staged_ok [OF install_ok [OF ok m(1,2)] m] new show ?thesis by simp
next
  case (Some dir)
  let ?versions = "rg_versions (registration_of st (rl_dataset (dm_release m)))"
  from Some run obtain disk where disk: "dd_manifest dir = Some disk" "recoverable_release disk m"
    and rest: "(case map_of ?versions (rl_version (dm_release m)) of
        Some existing \<Rightarrow> Inr (existing, st) | None \<Rightarrow> Inr (disk, register_staged disk st)) = (Inr (m', st') :: public_data_error + _)"
    by (auto simp: commit_staged_def Let_def)
  from disk(1) Some ok have key: "rl_dataset (dm_release disk) = rl_dataset (dm_release m)"
      "rl_version (dm_release disk) = rl_version (dm_release m)" "dm_status disk = DS_staged" "dm_activated_at disk = None"
    unfolding public_data_ok_def dirs_ok_def by blast+
  have "verified codec disk" using m(3) disk(2) by (simp add: verified_def recoverable_release_def)
  show ?thesis
  proof (cases "map_of ?versions (rl_version (dm_release m))")
    case None
    with rest have "st' = register_staged disk st" by auto
    with register_staged_ok [OF ok key(3,4) \<open>verified codec disk\<close>] None Some key(1,2) show ?thesis by simp
  next
    case (Some existing)
    with rest ok show ?thesis by simp
  qed
qed

lemma activate_cases:
  assumes "activate codec st ds v now = Inr (m, st')"
  obtains (same) "st' = st" "rg_active_version (registration_of st ds) = Some v" "active_manifest st ds = Some m"
  | (switched) m0 where "rg_active_version (registration_of st ds) \<noteq> Some v"
      "map_of (rg_versions (registration_of st ds)) v = Some m0" "validate_registered codec st ds v = Inr m0"
      "m = m0\<lparr>dm_status := DS_active, dm_activated_at := Some now\<rparr>"
      "st' = put_registration ds (activated_registration (registration_of st ds) v m0 now) st"
proof -
  obtain m0 where m0: "validate_registered codec st ds v = Inr m0"
    and rest: "(if rg_active_version (registration_of st ds) = Some v then Inr (m0, st)
        else Inr (m0\<lparr>dm_status := DS_active, dm_activated_at := Some now\<rparr>,
          put_registration ds (activated_registration (registration_of st ds) v m0 now) st)) = (Inr (m, st') :: public_data_error + _)"
    using assms by (cases "validate_registered codec st ds v") (simp_all add: activate_def Let_def)
  from m0 have found: "map_of (rg_versions (registration_of st ds)) v = Some m0"
    by (auto simp: validate_registered_def)
  show thesis
  proof (cases "rg_active_version (registration_of st ds) = Some v")
    case True
    with rest found show thesis using same by (simp add: active_manifest_def Let_def)
  next
    case False
    with rest found m0 show thesis using switched by simp
  qed
qed

lemma activate_ok:
  assumes ok: "public_data_ok codec st" and run: "activate codec st ds v now = Inr (m, st')"
  shows "public_data_ok codec st'"
  using run
proof (cases rule: activate_cases)
  case same
  with ok show ?thesis by simp
next
  case (switched m0)
  let ?rg = "activated_registration (registration_of st ds) v m0 now"
  have rg: "registration_ok codec ds (registration_of st ds)" using ok by (simp add: public_data_ok_def)
  have "registration_ok codec ds ?rg" by (rule activated_ok [OF rg switched(1,2)])
  moreover have "map_of (rg_versions (registration_of st ds)) u \<noteq> None" if "map_of (rg_versions ?rg) u \<noteq> None" for u
    using that map_of_activated [OF rg switched(1), of m0 now u] switched(2) by (auto split: if_splits)
  ultimately show ?thesis
    using ok switched(5) by (auto simp: public_data_ok_def registered_dirs_def dirs_ok_def)
qed

lemma rollback_activates:
  "rollback_release codec st ds now = Inr (m, st') \<Longrightarrow> \<exists>v. activate codec st ds v now = Inr (m, st')"
  by (auto simp: rollback_release_def split: list.splits)

lemma damage_ok:
  assumes "public_data_ok codec st"
  shows "public_data_ok codec (damage_records ds v content st)"
proof (cases "release_dir_of st ds v")
  case None
  then show ?thesis using assms by (simp add: damage_records_def)
next
  case (Some dir)
  have "registration_of (damage_records ds v content st) ds' = registration_of st ds'" for ds'
    using Some by (simp add: damage_records_def registration_of_def)
  moreover have "release_dir_of (damage_records ds v content st) ds' u =
      (if ds' = ds \<and> u = v then Some (dir\<lparr>dd_records := content\<rparr>) else release_dir_of st ds' u)" for ds' u
    using Some by (auto simp: damage_records_def release_dir_of_def)
  ultimately show ?thesis using assms Some by (auto simp: public_data_ok_def dirs_ok_def registered_dirs_def split: if_splits)
qed

lemma data_step_ok:
  assumes "public_data_ok codec st" "data_step codec st opn = Inr st'"
  shows "public_data_ok codec st'"
proof (cases opn)
  case (StageRelease release records now)
  with assms(2) obtain m content m' where "prepare_stage codec release records now = Inr (m, content)"
    "commit_staged codec st m content = Inr (m', st')" by (auto simp: stage_def)
  with prepare_stage_Inr assms(1) commit_staged_ok show ?thesis by metis
next
  case (StageInterrupted release records now)
  with assms(2) obtain m content where "prepare_stage codec release records now = Inr (m, content)"
    "st' = install_dir m content st \<or> st' = st" by (auto simp: stage_interrupted_def split: option.splits)
  with prepare_stage_Inr assms(1) install_ok show ?thesis by metis
next
  case (ActivateRelease ds v now)
  with assms activate_ok show ?thesis by auto
next
  case (RollbackRelease ds now)
  with assms(2) rollback_activates activate_ok [OF assms(1)] show ?thesis by fastforce
next
  case (DamageRecords ds v content)
  with assms damage_ok show ?thesis by auto
qed

lemma empty_public_store_ok: "public_data_ok codec empty_public_store"
  by (simp add: public_data_ok_def dirs_ok_def registered_dirs_def registration_of_def empty_public_store_def
      release_dir_of_def empty_registration_def registration_ok_def active_is_last_def)

interpretation public_data: request_machine "data_step codec" "public_data_ok codec" for codec
  by unfold_locales (rule data_step_ok)

section \<open>Releases\<close>

text \<open>A registered version keeps its release, checksum and count.\<close>

definition versions_of :: "'b public_store \<Rightarrow> dataset_kind \<Rightarrow> (string \<times> dataset_manifest) list" where
  "versions_of st ds = rg_versions (registration_of st ds)"

definition kept_version :: "'b public_store \<Rightarrow> dataset_kind \<Rightarrow> string \<times> dataset_manifest \<Rightarrow> bool" where
  "kept_version st ds vm =
     (case map_of (versions_of st ds) (fst vm) of None \<Rightarrow> False | Some m' \<Rightarrow> same_release (snd vm) m')"

lemma register_staged_keeps:
  assumes "map_of (versions_of st (rl_dataset (dm_release n))) (rl_version (dm_release n)) = None"
    and "map_of (versions_of st ds) v = Some m"
  shows "map_of (versions_of (register_staged n st) ds) v = Some m"
  using assms by (auto simp: versions_of_def Let_def)

lemma commit_staged_keeps:
  assumes ok: "public_data_ok codec st" and run: "commit_staged codec st n content = Inr (n', st')"
    and found: "map_of (versions_of st ds) v = Some m"
  shows "map_of (versions_of st' ds) v = Some m"
proof (cases "release_dir_of st (rl_dataset (dm_release n)) (rl_version (dm_release n))")
  case None
  then have "map_of (versions_of st (rl_dataset (dm_release n))) (rl_version (dm_release n)) = None"
    using ok unfolding public_data_ok_def registered_dirs_def versions_of_def by blast
  moreover from None run have "st' = register_staged n (install_dir n content st)"
    by (auto simp: commit_staged_def Let_def)
  ultimately show ?thesis using found by (auto simp: versions_of_def Let_def)
next
  case (Some dir)
  with run obtain disk where disk: "dd_manifest dir = Some disk"
    and rest: "(case map_of (versions_of st (rl_dataset (dm_release n))) (rl_version (dm_release n)) of
        Some existing \<Rightarrow> Inr (existing, st) | None \<Rightarrow> Inr (disk, register_staged disk st)) = (Inr (n', st') :: public_data_error + _)"
    by (auto simp: commit_staged_def versions_of_def Let_def)
  from disk Some ok have key: "rl_dataset (dm_release disk) = rl_dataset (dm_release n)"
      "rl_version (dm_release disk) = rl_version (dm_release n)"
    unfolding public_data_ok_def dirs_ok_def by blast+
  show ?thesis
  proof (cases "map_of (versions_of st (rl_dataset (dm_release n))) (rl_version (dm_release n))")
    case None
    with rest have "st' = register_staged disk st" by auto
    with register_staged_keeps [of st disk] None key found show ?thesis by simp
  next
    case (Some existing)
    with rest found show ?thesis by simp
  qed
qed

lemma activate_keeps:
  assumes ok: "public_data_ok codec st" and run: "activate codec st ds v now = Inr (n, st')"
    and found: "map_of (versions_of st ds') u = Some m"
  shows "\<exists>m'. map_of (versions_of st' ds') u = Some m' \<and> same_release m m'"
  using run
proof (cases rule: activate_cases)
  case same
  with found show ?thesis by simp
next
  case (switched m0)
  have rg: "registration_ok codec ds (registration_of st ds)" using ok by (simp add: public_data_ok_def)
  show ?thesis
    using found switched(2,5) map_of_activated [OF rg switched(1), of m0 now u]
    by (cases "ds' = ds"; cases "u = v"; cases "rg_active_version (registration_of st ds) = Some u")
      (auto simp: versions_of_def same_release_def)
qed

lemma data_step_keeps:
  assumes "public_data_ok codec st" "data_step codec st opn = Inr st'" "map_of (versions_of st ds) v = Some m"
  shows "\<exists>m'. map_of (versions_of st' ds) v = Some m' \<and> same_release m m'"
proof (cases opn)
  case (StageRelease release records now)
  with assms(2) obtain n content n' where "commit_staged codec st n content = Inr (n', st')" by (auto simp: stage_def)
  from commit_staged_keeps [OF assms(1) this assms(3)] show ?thesis by auto
next
  case (StageInterrupted release records now)
  with assms(2) obtain n content where "st' = install_dir n content st \<or> st' = st"
    by (auto simp: stage_interrupted_def split: option.splits)
  with assms(3) show ?thesis by (auto simp: versions_of_def)
next
  case (ActivateRelease d u now)
  with assms(2) obtain n where "activate codec st d u now = Inr (n, st')" by auto
  from activate_keeps [OF assms(1) this assms(3)] show ?thesis .
next
  case (RollbackRelease d now)
  with assms(2) rollback_activates obtain n u where "activate codec st d u now = Inr (n, st')" by fastforce
  from activate_keeps [OF assms(1) this assms(3)] show ?thesis .
next
  case (DamageRecords d u content)
  with assms(2) have "versions_of st' ds = versions_of st ds"
    by (auto simp: damage_records_def versions_of_def registration_of_def split: option.splits)
  with assms(3) show ?thesis by simp
qed

lemma run_keeps_versions:
  "public_data_ok codec st \<Longrightarrow> map_of (versions_of st ds) v = Some m \<Longrightarrow>
     \<exists>m'. map_of (versions_of (run_requests (data_step codec) st ops) ds) v = Some m' \<and> same_release m m'"
proof (induction ops arbitrary: st m)
  case (Cons opn ops)
  show ?case
  proof (cases "data_step codec st opn")
    case (Inl e)
    then show ?thesis using Cons by simp
  next
    case (Inr st')
    with Cons.prems data_step_keeps data_step_ok obtain m1 where m1: "public_data_ok codec st'"
      "map_of (versions_of st' ds) v = Some m1" "same_release m m1" by metis
    from Cons.IH [OF m1(1,2)] m1(3) Inr show ?thesis by (auto intro: same_release_trans)
  qed
qed simp

definition store_after :: "'b data_codec \<Rightarrow> 'b data_op list \<Rightarrow> 'b public_store" where
  "store_after codec ops = run_requests (data_step codec) empty_public_store ops"

lemma store_after_ok: "public_data_ok codec (store_after codec ops)"
  unfolding store_after_def by (rule public_data.run_inv [OF empty_public_store_ok])

text \<open>
  C25: Releases are immutable and one per dataset is active. In every history of stages, interrupted
  stages, activations, rollbacks and damage to the records files of releases, whose directories and
  manifests stay, the active version of a dataset is the last of
  its activation history, whose entries are distinct and registered; the active version alone has
  the status active, the other versions of the history are superseded and all others staged; and a
  version once registered keeps its release, checksum and record count through every later history.
  (What a lost directory or an altered manifest does is shown by \<open>lost_release_replaced\<close> and
  \<open>altered_manifest_recovered\<close>.)
\<close>

theorem public_releases_sound:
  "active_is_last (registration_of (store_after codec ops) ds) \<and>
    set (rg_activation_history (registration_of (store_after codec ops) ds)) \<subseteq> fst ` set (versions_of (store_after codec ops) ds) \<and>
    list_all (\<lambda>(v, m). dm_status m = status_in (registration_of (store_after codec ops) ds) v \<and>
       rl_dataset (dm_release m) = ds \<and> rl_version (dm_release m) = v) (versions_of (store_after codec ops) ds) \<and>
    list_all (kept_version (store_after codec (ops @ later)) ds) (versions_of (store_after codec ops) ds)"
proof -
  let ?st = "store_after codec ops"
  have ok: "public_data_ok codec ?st" by (rule store_after_ok)
  then have rg: "registration_ok codec ds (registration_of ?st ds)" by (simp add: public_data_ok_def)
  then have found: "map_of (versions_of ?st ds) v = Some m" if "(v, m) \<in> set (versions_of ?st ds)" for v m
    using that by (simp add: versions_of_def registration_ok_def)
  have "list_all (\<lambda>(v, m). dm_status m = status_in (registration_of ?st ds) v \<and>
       rl_dataset (dm_release m) = ds \<and> rl_version (dm_release m) = v) (versions_of ?st ds)"
    using rg found by (auto simp: list_all_iff registration_ok_def manifest_ok_def versions_of_def)
  moreover have "list_all (kept_version (store_after codec (ops @ later)) ds) (versions_of ?st ds)"
    using run_keeps_versions [OF ok found, of _ _ later]
    by (fastforce simp: list_all_iff kept_version_def store_after_def run_requests_append)
  ultimately show ?thesis using rg by (auto simp: registration_ok_def versions_of_def)
qed


section \<open>Serving and rolling back\<close>

definition data_codec_ok :: "'b data_codec \<Rightarrow> bool" where
  "data_codec_ok codec \<longleftrightarrow> (\<forall>rs. de_parse codec (de_encode codec rs) = Some rs) \<and>
     (\<forall>b rs. de_sha256 codec b = de_sha256 codec (de_encode codec rs) \<longrightarrow> b = de_encode codec rs)"

text \<open>
  C26: Only verified content is served. Whatever happened to the files, when records of a dataset
  are read they are a selection of exactly the records that were staged under the active manifest:
  their number and checksum are the registered ones and their identities are distinct. Reading a
  damaged release fails instead. Records can be decoded, and the hash does not collide with an
  encoding.
\<close>

theorem served_records_verified:
  assumes "data_codec_ok codec" "active_manifest (store_after codec ops) ds = Some m"
    and "active_records codec (store_after codec ops) ds geography_id source_geoid = Inr records"
  shows "dm_status m = DS_active \<and> (\<exists>rs. records = filter (selects_record geography_id source_geoid) rs \<and>
      dm_content_sha256 m = de_sha256 codec (de_encode codec rs) \<and> dm_record_count m = length rs \<and>
      distinct (map record_identity rs))"
proof -
  let ?st = "store_after codec ops"
  let ?v = "rl_version (dm_release m)"
  have rg: "registration_ok codec ds (registration_of ?st ds)"
    using store_after_ok [of codec ops] by (simp add: public_data_ok_def)
  from assms(2) obtain v where v: "rg_active_version (registration_of ?st ds) = Some v"
    "map_of (rg_versions (registration_of ?st ds)) v = Some m"
    by (auto simp: active_manifest_def Let_def bind_eq_Some_conv)
  with rg have m: "manifest_ok codec ds (registration_of ?st ds) v m" by (simp add: registration_ok_def)
  then have "?v = v" by (simp add: manifest_ok_def)
  from m obtain rs where rs: "dm_content_sha256 m = de_sha256 codec (de_encode codec rs)"
    "dm_record_count m = length rs" "distinct (map record_identity rs)"
    by (auto simp: manifest_ok_def verified_def)
  from assms(2,3) obtain m' where "validate_registered codec ?st ds v = Inr m'"
    and served: "(case Option.bind (Option.bind (release_dir_of ?st ds v) dd_records) (de_parse codec) of
            None \<Rightarrow> Inl (DatasetValidationError ''record'')
          | Some records \<Rightarrow> Inr (filter (selects_record geography_id source_geoid) records)) = Inr records"
    by (auto simp: active_records_def \<open>?v = v\<close>)
  then have "validate_release_directory codec (release_dir_of ?st ds v) m = Inr ()"
    using v(2) by (auto simp: validate_registered_def)
  then obtain content where content: "Option.bind (release_dir_of ?st ds v) dd_records = Some content"
    "de_sha256 codec content = dm_content_sha256 m"
    by (auto simp: validate_release_directory_def split: option.splits)
  with rs(1) assms(1) have "content = de_encode codec rs" by (simp add: data_codec_ok_def)
  with assms(1) have "de_parse codec content = Some rs" by (simp add: data_codec_ok_def)
  with served content(1) have "records = filter (selects_record geography_id source_geoid) rs" by simp
  moreover have "dm_status m = DS_active" using m v(1) by (simp add: manifest_ok_def status_in_def)
  ultimately show ?thesis using rs by blast
qed

lemma rollback_candidates_last:
  assumes "active_is_last rg" "rollback_candidates rg = u # rest"
  obtains older v where "rg_activation_history rg = older @ [u, v]" "rg_active_version rg = Some v" "rest = rev older"
proof -
  from assms have "rg_activation_history rg \<noteq> []" by (auto simp: rollback_candidates_def)
  then obtain h v where h: "rg_activation_history rg = h @ [v]" by (metis append_butlast_last_id)
  with assms(1) have v: "rg_active_version rg = Some v" "v \<notin> set h" by (auto simp: active_is_last_def)
  then have "filter (\<lambda>w. Some w \<noteq> rg_active_version rg) (rev h) = rev h" by (intro filter_True) auto
  with h v assms(2) have "rev h = u # rest" by (simp add: rollback_candidates_def)
  then have "h = rev rest @ [u]" by (metis rev_rev_ident rev.simps(2))
  with h v(1) show thesis using that [of "rev rest" v] by simp
qed

text \<open>
  C27: Rolling back activates the release that was active before the current one. After it the two
  have changed places at the end of the activation history, so a second rollback brings the newer
  release back; no other dataset changes, and the roll-back succeeds only when the older release
  still validates on disk.
\<close>

theorem rollback_restores_previous:
  assumes "rollback_release codec (store_after codec ops) ds now = Inr (m, st')"
  shows "\<exists>older u v. rg_activation_history (registration_of (store_after codec ops) ds) = older @ [u, v] \<and>
      rg_active_version (registration_of (store_after codec ops) ds) = Some v \<and>
      rg_active_version (registration_of st' ds) = Some u \<and>
      rg_activation_history (registration_of st' ds) = older @ [v, u] \<and>
      rollback_candidates (registration_of st' ds) = v # rev older \<and>
      active_manifest st' ds = Some m \<and> rl_version (dm_release m) = u \<and>
      (\<exists>m0. validate_registered codec (store_after codec ops) ds u = Inr m0 \<and> same_release m0 m) \<and>
      (\<forall>ds'. ds' \<noteq> ds \<longrightarrow> registration_of st' ds' = registration_of (store_after codec ops) ds')"
proof -
  let ?st = "store_after codec ops"
  let ?rg = "registration_of ?st ds"
  have rg: "registration_ok codec ds ?rg" using store_after_ok [of codec ops] by (simp add: public_data_ok_def)
  from assms obtain u rest where cands: "rollback_candidates ?rg = u # rest" and act: "activate codec ?st ds u now = Inr (m, st')"
    by (auto simp: rollback_release_def split: list.splits)
  have last: "active_is_last ?rg" using rg by (simp add: registration_ok_def)
  from rollback_candidates_last [OF last cands] obtain older v
    where h: "rg_activation_history ?rg = older @ [u, v]" "rg_active_version ?rg = Some v" by metis
  with last have distinct: "u \<noteq> v" "u \<notin> set older" "v \<notin> set older" by (auto simp: active_is_last_def)
  from act show ?thesis
  proof (cases rule: activate_cases)
    case same
    with h distinct show ?thesis by simp
  next
    case (switched m0)
    let ?rg' = "activated_registration ?rg u m0 now"
    have filt: "filter (\<lambda>w. w \<noteq> u) older = older" using distinct by (intro filter_True) auto
    have hist: "rg_activation_history ?rg' = older @ [v, u]" using h distinct filt by simp
    have "filter (\<lambda>w. w \<noteq> u) (rev older) = rev older" using distinct by (intro filter_True) auto
    then have "rollback_candidates ?rg' = v # rev older" using distinct by (simp add: rollback_candidates_def h(1) filt)
    moreover have "map_of (rg_versions ?rg') u = Some m"
      using map_of_activated [OF rg switched(1), of m0 now u] switched(4) by simp
    moreover have "rl_version (dm_release m0) = u"
      using rg switched(2) by (simp add: registration_ok_def manifest_ok_def)
    ultimately show ?thesis
      using switched(3,4,5) h hist by (auto simp: active_manifest_def Let_def same_release_def)
  qed
qed


section \<open>A small store\<close>

type_synonym record_fields =
  "string \<times> string \<times> string \<times> (string \<times> rat option) list \<times> (string \<times> string) list"

definition fields_of :: "dataset_record \<Rightarrow> record_fields" where
  "fields_of r = (dr_geography_id r, dr_source_geoid r, dr_geography_level r, dr_values r, dr_dimensions r)"

fun of_fields :: "record_fields \<Rightarrow> dataset_record" where
  "of_fields (g, s, l, vs, ds) = \<lparr>dr_geography_id = g, dr_source_geoid = s, dr_geography_level = l,
     dr_values = vs, dr_dimensions = ds\<rparr>"

definition fields_codec :: "record_fields list data_codec" where
  "fields_codec = \<lparr>de_encode = map fields_of, de_parse = (\<lambda>b. Some (map of_fields b)),
     de_sha256 = (\<lambda>b. replicate (to_nat b) CHR ''a'')\<rparr>"

lemma fields_codec_ok: "data_codec_ok fields_codec"
proof -
  have "of_fields (fields_of r) = r" for r by (simp add: fields_of_def)
  then show ?thesis
    by (auto simp: data_codec_ok_def fields_codec_def comp_def dest: arg_cong [of _ _ length])
qed

definition sample_release :: "string \<Rightarrow> dataset_release" where
  "sample_release v = \<lparr>rl_dataset = DK_cbp, rl_version = v, rl_data_year = 2022, rl_release_date = 19000,
     rl_source_url = ''https://census.gov'', rl_source_name = ''CBP'', rl_license = ''public'',
     rl_source_sha256 = Some ''0'', rl_source_bytes = None, rl_source_format = None, rl_source_content_type = None,
     rl_source_etag = None, rl_source_last_modified = None, rl_acquisition_method = None,
     rl_geographic_granularity = [''county''], rl_refresh_cadence = ''yearly'', rl_retrieved_at = 0,
     rl_adapter = ''cbp'', rl_notes = []\<rparr>"

definition sample_record :: "rat \<Rightarrow> dataset_record" where
  "sample_record n = \<lparr>dr_geography_id = ''county:48453'', dr_source_geoid = ''48453'', dr_geography_level = ''county'',
     dr_values = [(''establishments'', Some n)], dr_dimensions = [(''naics_code'', ''238220'')]\<rparr>"

definition sample_data_ops :: "'b data_op list" where
  "sample_data_ops = [StageRelease (sample_release ''v1'') [sample_record 40] 1, ActivateRelease DK_cbp ''v1'' 2,
     StageRelease (sample_release ''v2'') [sample_record 41] 3, ActivateRelease DK_cbp ''v2'' 4]"

lemma validates_encoding:
  "data_codec_ok codec \<Longrightarrow> dm_content_sha256 m = de_sha256 codec (de_encode codec records) \<Longrightarrow>
     dm_record_count m = length records \<Longrightarrow> dm_release n = dm_release m \<Longrightarrow>
     dm_content_sha256 n = dm_content_sha256 m \<Longrightarrow> dm_record_count n = dm_record_count m \<Longrightarrow>
     validate_release_directory codec (Some \<lparr>dd_manifest = Some n, dd_records = Some (de_encode codec records)\<rparr>) m = Inr ()"
  by (simp add: validate_release_directory_def data_codec_ok_def)

lemma stage_new_release:
  assumes "data_codec_ok codec" "release_dir_of st (rl_dataset release) (rl_version release) = None"
    and "rl_source_sha256 release \<noteq> None" "records \<noteq> []" "distinct (map record_identity records)"
    and "m = staged_manifest codec release (length records) (de_encode codec records) now"
  shows "stage codec st release records now = Inr (m, register_staged m (install_dir m (de_encode codec records) st))"
proof -
  have m: "dm_release m = release" "dm_content_sha256 m = de_sha256 codec (de_encode codec records)"
    "dm_record_count m = length records" using assms(6) by (simp_all add: staged_manifest_def)
  have "prepare_stage codec release records now = Inr (m, de_encode codec records)"
    using assms(3-6) validates_encoding [OF assms(1) m(2,3) refl refl refl]
    by (simp add: prepare_stage_def write_validated_records_def Let_def)
  with assms(2) m(1) show ?thesis by (simp add: stage_def commit_staged_def Let_def)
qed

lemma activate_new_release:
  assumes "data_codec_ok codec" "map_of (rg_versions (registration_of st ds)) v = Some m"
    and "release_dir_of st ds v = Some \<lparr>dd_manifest = Some n, dd_records = Some (de_encode codec records)\<rparr>"
    and "dm_content_sha256 m = de_sha256 codec (de_encode codec records)" "dm_record_count m = length records"
    and "dm_release n = dm_release m" "dm_content_sha256 n = dm_content_sha256 m" "dm_record_count n = dm_record_count m"
    and "rg_active_version (registration_of st ds) \<noteq> Some v"
  shows "activate codec st ds v now = Inr (m\<lparr>dm_status := DS_active, dm_activated_at := Some now\<rparr>,
    put_registration ds (activated_registration (registration_of st ds) v m now) st)"
  using assms validates_encoding [OF assms(1,4-8)]
  by (simp add: activate_def validate_registered_def Let_def)

definition sample_manifest :: "'b data_codec \<Rightarrow> string \<Rightarrow> rat \<Rightarrow> instant \<Rightarrow> dataset_manifest" where
  "sample_manifest codec v n now = staged_manifest codec (sample_release v) 1 (de_encode codec [sample_record n]) now"

definition sample_registration :: "'b data_codec \<Rightarrow> dataset_registration" where
  "sample_registration codec = \<lparr>rg_active_version = Some ''v2'', rg_activation_history = [''v1'', ''v2''],
     rg_versions = [(''v1'', (sample_manifest codec ''v1'' 40 1)\<lparr>dm_status := DS_superseded, dm_activated_at := Some 2\<rparr>),
       (''v2'', (sample_manifest codec ''v2'' 41 3)\<lparr>dm_status := DS_active, dm_activated_at := Some 4\<rparr>)]\<rparr>"

definition sample_dirs :: "'b data_codec \<Rightarrow> ((dataset_kind \<times> string) \<times> 'b release_dir) list" where
  "sample_dirs codec =
     [((DK_cbp, ''v1''), \<lparr>dd_manifest = Some (sample_manifest codec ''v1'' 40 1), dd_records = Some (de_encode codec [sample_record 40])\<rparr>),
      ((DK_cbp, ''v2''), \<lparr>dd_manifest = Some (sample_manifest codec ''v2'' 41 3), dd_records = Some (de_encode codec [sample_record 41])\<rparr>)]"

lemmas store_eval = map_result_def registration_of_def empty_registration_def put_registration_def register_staged_def install_dir_def
  release_dir_of_def activated_registration_def Let_def

lemma sample_store:
  assumes "data_codec_ok codec"
  shows "store_after codec sample_data_ops = \<lparr>ps_registry = [(DK_cbp, sample_registration codec)], ps_dirs = sample_dirs codec\<rparr>"
proof -
  have m: "sample_manifest codec v n now = staged_manifest codec (sample_release v) (length [sample_record n])
      (de_encode codec [sample_record n]) now" for v n now by (simp add: sample_manifest_def)
  have r: "rl_dataset (sample_release v) = DK_cbp" "rl_version (sample_release v) = v" "rl_source_sha256 (sample_release v) \<noteq> None"
    for v by (simp_all add: sample_release_def)
  have sm: "dm_release (sample_manifest codec v n now) = sample_release v"
    "dm_content_sha256 (sample_manifest codec v n now) = de_sha256 codec (de_encode codec [sample_record n])"
    "dm_record_count (sample_manifest codec v n now) = length [sample_record n]"
    for v n now by (simp_all add: sample_manifest_def staged_manifest_def)
  note stage = stage_new_release [OF assms _ r(3) _ _ m, simplified r sm, simplified]
  note activate = activate_new_release [OF assms _ _ sm(2,3)]
  show ?thesis
    by (simp add: store_after_def sample_data_ops_def empty_public_store_def stage activate store_eval r sm
        sample_registration_def sample_dirs_def)
qed

lemma sample_store_simps:
  assumes "data_codec_ok codec"
  shows "registration_of (store_after codec sample_data_ops) DK_cbp = sample_registration codec"
    "release_dir_of (store_after codec sample_data_ops) DK_cbp ''v1'' =
       Some \<lparr>dd_manifest = Some (sample_manifest codec ''v1'' 40 1), dd_records = Some (de_encode codec [sample_record 40])\<rparr>"
    "release_dir_of (store_after codec sample_data_ops) DK_cbp ''v2'' =
       Some \<lparr>dd_manifest = Some (sample_manifest codec ''v2'' 41 3), dd_records = Some (de_encode codec [sample_record 41])\<rparr>"
  by (simp_all add: sample_store [OF assms] registration_of_def release_dir_of_def sample_dirs_def)

lemma sample_manifest_simps:
  "dm_release (sample_manifest codec v n now) = sample_release v"
  "dm_content_sha256 (sample_manifest codec v n now) = de_sha256 codec (de_encode codec [sample_record n])"
  "dm_record_count (sample_manifest codec v n now) = 1"
  "rl_version (sample_release v) = v"
  by (simp_all add: sample_manifest_def staged_manifest_def sample_release_def)

theorem served_records_verified_witness:
  "\<exists>m. active_manifest (store_after fields_codec sample_data_ops) DK_cbp = Some m \<and>
     active_records fields_codec (store_after fields_codec sample_data_ops) DK_cbp None (Some ''48453'') = Inr [sample_record 41] \<and>
     dm_status m = DS_active"
proof -
  let ?st = "store_after fields_codec sample_data_ops"
  let ?m = "(sample_manifest fields_codec ''v2'' 41 3)\<lparr>dm_status := DS_active, dm_activated_at := Some 4\<rparr>"
  have m: "active_manifest ?st DK_cbp = Some ?m"
    by (simp add: active_manifest_def sample_store_simps [OF fields_codec_ok] sample_registration_def Let_def)
  have "validate_registered fields_codec ?st DK_cbp ''v2'' = Inr ?m"
    using validates_encoding [OF fields_codec_ok, of ?m "[sample_record 41]" "sample_manifest fields_codec ''v2'' 41 3"]
    by (simp add: validate_registered_def sample_store_simps [OF fields_codec_ok] sample_registration_def sample_manifest_simps)
  moreover have "de_parse fields_codec (de_encode fields_codec [sample_record 41]) = Some [sample_record 41]"
    using fields_codec_ok by (simp add: data_codec_ok_def)
  ultimately have records: "active_records fields_codec ?st DK_cbp None (Some ''48453'') = Inr [sample_record 41]"
    by (simp add: active_records_def m sample_manifest_simps sample_store_simps [OF fields_codec_ok]
        selects_record_def sample_record_def)
  from served_records_verified [OF fields_codec_ok m records] m records show ?thesis by blast
qed

theorem rollback_restores_previous_witness:
  "\<exists>m st'. rollback_release fields_codec (store_after fields_codec sample_data_ops) DK_cbp 5 = Inr (m, st') \<and>
     rg_active_version (registration_of st' DK_cbp) = Some ''v1'' \<and>
     rg_activation_history (registration_of st' DK_cbp) = [''v2'', ''v1'']"
proof -
  let ?st = "store_after fields_codec sample_data_ops"
  let ?m = "(sample_manifest fields_codec ''v1'' 40 1)\<lparr>dm_status := DS_superseded, dm_activated_at := Some 2\<rparr>"
  have "\<exists>r. activate fields_codec ?st DK_cbp ''v1'' 5 = Inr r"
    using activate_new_release [OF fields_codec_ok, of ?st DK_cbp "''v1''" ?m "sample_manifest fields_codec ''v1'' 40 1"
        "[sample_record 40]" 5]
    by (simp add: sample_store_simps [OF fields_codec_ok] sample_registration_def sample_manifest_simps)
  moreover have "rollback_candidates (registration_of ?st DK_cbp) = [''v1'']"
    by (simp add: sample_store_simps [OF fields_codec_ok] sample_registration_def rollback_candidates_def)
  ultimately obtain m st' where run: "rollback_release fields_codec ?st DK_cbp 5 = Inr (m, st')"
    by (auto simp: rollback_release_def)
  from rollback_restores_previous [OF run] run show ?thesis
    by (auto simp: sample_store_simps [OF fields_codec_ok] sample_registration_def)
qed

section \<open>Damage beyond the records files\<close>

text \<open>
  A lost directory is staged again as if the release were new, whatever the registry says of it. Here
  the active release is overwritten by different records of the same version: the immutable release
  changes, and the version that is still active in the registration has the status staged.
\<close>

definition lose_release :: "dataset_kind \<Rightarrow> string \<Rightarrow> 'b public_store \<Rightarrow> 'b public_store" where
  "lose_release ds v st = st\<lparr>ps_dirs := filter (\<lambda>(k, dir). k \<noteq> (ds, v)) (ps_dirs st)\<rparr>"

lemma lost_release_replaced:
  assumes "data_codec_ok codec"
  shows "\<exists>m st'. stage codec (lose_release DK_cbp ''v2'' (store_after codec sample_data_ops))
      (sample_release ''v2'') [sample_record 42] 9 = Inr (m, st') \<and>
    rg_active_version (registration_of st' DK_cbp) = Some ''v2'' \<and> active_manifest st' DK_cbp = Some m \<and>
    dm_status m = DS_staged \<and> dm_content_sha256 m = de_sha256 codec (de_encode codec [sample_record 42])"
proof -
  let ?st = "lose_release DK_cbp ''v2'' (store_after codec sample_data_ops)"
  let ?m = "sample_manifest codec ''v2'' 42 9"
  have r: "rl_dataset (sample_release ''v2'') = DK_cbp" "rl_version (sample_release ''v2'') = ''v2''"
    "rl_source_sha256 (sample_release ''v2'') \<noteq> None" by (simp_all add: sample_release_def)
  have st: "?st = \<lparr>ps_registry = [(DK_cbp, sample_registration codec)],
      ps_dirs = filter (\<lambda>(k, dir). k \<noteq> (DK_cbp, ''v2'')) (sample_dirs codec)\<rparr>"
    by (simp add: lose_release_def sample_store [OF assms])
  have gone: "release_dir_of ?st (rl_dataset (sample_release ''v2'')) (rl_version (sample_release ''v2'')) = None"
    by (simp add: st release_dir_of_def sample_dirs_def r)
  have stage: "stage codec ?st (sample_release ''v2'') [sample_record 42] 9 =
      Inr (?m, register_staged ?m (install_dir ?m (de_encode codec [sample_record 42]) ?st))"
    by (rule stage_new_release [OF assms gone r(3)]) (simp_all add: sample_manifest_def)
  moreover have "registration_of (register_staged ?m (install_dir ?m (de_encode codec [sample_record 42]) ?st)) DK_cbp =
      (sample_registration codec)\<lparr>rg_versions := dict_put ''v2'' ?m (rg_versions (sample_registration codec))\<rparr>"
    by (simp add: st register_staged_def install_dir_def put_registration_def registration_of_def sample_manifest_simps r Let_def)
  ultimately show ?thesis
    by (simp add: active_manifest_def Let_def sample_registration_def sample_manifest_def staged_manifest_def)
qed

text \<open>
  Recovery registers the manifest it finds on disk. Its release, checksum and count are compared with
  those of the new attempt, its status and its dates are not: a manifest that was altered to say
  \<open>active\<close> is registered as active although no version is.
\<close>

definition altered_store :: "'b data_codec \<Rightarrow> 'b public_store" where
  "altered_store codec = \<lparr>ps_registry = [], ps_dirs = [((DK_cbp, ''v1''),
     \<lparr>dd_manifest = Some ((sample_manifest codec ''v1'' 40 1)\<lparr>dm_status := DS_active\<rparr>),
      dd_records = Some (de_encode codec [sample_record 40])\<rparr>)]\<rparr>"

lemma altered_manifest_recovered:
  assumes "data_codec_ok codec"
  shows "\<exists>m st'. stage codec (altered_store codec) (sample_release ''v1'') [sample_record 40] 9 = Inr (m, st') \<and>
    map_of (rg_versions (registration_of st' DK_cbp)) ''v1'' = Some m \<and> dm_status m = DS_active \<and>
    rg_active_version (registration_of st' DK_cbp) = None"
proof -
  let ?disk = "(sample_manifest codec ''v1'' 40 1)\<lparr>dm_status := DS_active\<rparr>"
  let ?m = "sample_manifest codec ''v1'' 40 9"
  have r: "rl_dataset (sample_release ''v1'') = DK_cbp" "rl_version (sample_release ''v1'') = ''v1''"
    "rl_source_sha256 (sample_release ''v1'') \<noteq> None" by (simp_all add: sample_release_def)
  have valid: "validate_release_directory codec (Some \<lparr>dd_manifest = Some n, dd_records = Some (de_encode codec [sample_record 40])\<rparr>) m = Inr ()"
    if "n \<in> {?disk, ?m}" "m \<in> {?disk, ?m}" for n m
    by (rule validates_encoding [OF assms]) (use that in \<open>auto simp: sample_manifest_simps\<close>)
  have prepared: "prepare_stage codec (sample_release ''v1'') [sample_record 40] 9 = Inr (?m, de_encode codec [sample_record 40])"
    using valid [of ?m ?m]
    by (simp add: prepare_stage_def write_validated_records_def r Let_def sample_manifest_def)
  have "commit_staged codec (altered_store codec) ?m (de_encode codec [sample_record 40]) =
      Inr (?disk, register_staged ?disk (altered_store codec))"
    using valid [of ?disk ?disk]
    by (simp add: commit_staged_def sample_manifest_simps r Let_def altered_store_def release_dir_of_def
        recoverable_release_def registration_of_def empty_registration_def)
  then have "stage codec (altered_store codec) (sample_release ''v1'') [sample_record 40] 9 =
      Inr (?disk, register_staged ?disk (altered_store codec))"
    by (simp add: stage_def prepared)
  moreover have "registration_of (register_staged ?disk (altered_store codec)) DK_cbp =
      empty_registration\<lparr>rg_versions := [(''v1'', ?disk)]\<rparr>"
    by (simp add: store_eval altered_store_def sample_manifest_simps r)
  ultimately show ?thesis by (simp add: empty_registration_def)
qed

end
