(* ===== verification/Market_Prefilter.thy ===== *)
theory Market_Prefilter
  imports Repositories Provider_Suitability Public_Data
begin

text \<open>
  \<open>services/market_prefilter.py\<close> with \<open>public_data/naics.py\<close>: the zero-cost assessment of the
  addressable market of a service in a geography, from the offline index and the activated public
  datasets, and the ranking of markets by it. The natural logarithm of a log signal is the real one,
  so a normalized signal is a real number until its points are rounded. The sentences of an
  assessment (rationales, limitations, explanation) are left out.
\<close>

section \<open>Profiles\<close>

datatype signal_direction = Higher | Ideal_range
datatype signal_transform = Linear | Log

record ideal_range =
  ir_minimum :: rat
  ir_maximum :: rat
  ir_hard_minimum :: rat
  ir_hard_maximum :: rat

definition valid_ideal_range :: "ideal_range \<Rightarrow> bool" where
  "valid_ideal_range r \<longleftrightarrow> 0 \<le> ir_minimum r \<and> 0 \<le> ir_maximum r \<and> 0 \<le> ir_hard_minimum r \<and> 0 \<le> ir_hard_maximum r \<and>
     ir_hard_minimum r \<le> ir_minimum r \<and> ir_minimum r \<le> ir_maximum r \<and> ir_maximum r \<le> ir_hard_maximum r"

record signal_profile =
  sg_weight :: rat
  sg_source_dataset :: dataset_kind
  sg_expected_direction :: signal_direction
  sg_transform :: signal_transform
  sg_strong_value :: "rat option"
  sg_ideal_range :: "ideal_range option"
  sg_maximum_credit :: rat

definition valid_signal_profile :: "signal_profile \<Rightarrow> bool" where
  "valid_signal_profile p \<longleftrightarrow> 0 < sg_weight p \<and> sg_weight p \<le> 1 \<and> 0 < sg_maximum_credit p \<and> sg_maximum_credit p \<le> 1 \<and>
     (case sg_strong_value p of None \<Rightarrow> True | Some v \<Rightarrow> 0 < v) \<and>
     (case sg_ideal_range p of None \<Rightarrow> True | Some r \<Rightarrow> valid_ideal_range r) \<and>
     (case sg_expected_direction p of
        Higher \<Rightarrow> sg_strong_value p \<noteq> None \<and> sg_ideal_range p = None
      | Ideal_range \<Rightarrow> sg_ideal_range p \<noteq> None \<and> sg_strong_value p = None)"

record market_profile =
  mp_service_family_id :: string
  mp_profile_version :: int
  mp_legacy_profile_name :: string
  mp_target_household_signal :: string
  mp_minimum_evidence_coverage :: rat
  mp_signals :: "(string \<times> signal_profile) list"

definition signal_weights :: "market_profile \<Rightarrow> rat" where
  "signal_weights p = sum_list (map (sg_weight \<circ> snd) (mp_signals p))"

text \<open>\<open>math.isclose(total, 1.0, abs_tol=0.0001)\<close>, with its default relative tolerance.\<close>

definition close_to_one :: "rat \<Rightarrow> bool" where
  "close_to_one t \<longleftrightarrow> \<bar>t - 1\<bar> \<le> max (1 / 1000000000 * max \<bar>t\<bar> 1) (1 / 10000)"

definition valid_market_profile :: "market_profile \<Rightarrow> bool" where
  "valid_market_profile p \<longleftrightarrow> 1 \<le> mp_profile_version p \<and>
     mp_target_household_signal p \<in> {''households'', ''owner_occupied_units''} \<and>
     0 \<le> mp_minimum_evidence_coverage p \<and> mp_minimum_evidence_coverage p \<le> 1 \<and>
     distinct (map fst (mp_signals p)) \<and> list_all (valid_signal_profile \<circ> snd) (mp_signals p) \<and>
     close_to_one (signal_weights p)"

record market_config =
  ac_assessment_version :: string
  ac_minimum_population :: int
  ac_maximum_results :: nat
  ac_advance_to_testing :: rat
  ac_review :: rat
  ac_profiles :: "(string \<times> market_profile) list"

definition valid_market_config :: "market_config \<Rightarrow> bool" where
  "valid_market_config c \<longleftrightarrow> 1 \<le> ac_minimum_population c \<and> 1 \<le> ac_maximum_results c \<and> ac_maximum_results c \<le> 10000 \<and>
     0 \<le> ac_review c \<and> ac_review c < ac_advance_to_testing c \<and> ac_advance_to_testing c \<le> 100 \<and>
     map_of (ac_profiles c) ''generic_local_service'' \<noteq> None \<and>
     list_all (\<lambda>(i, p). mp_service_family_id p = i \<and> valid_market_profile p) (ac_profiles c)"

section \<open>Reviewed industry codes\<close>

datatype naics_relationship = Exact_code | Broad_parent | Adjacent
datatype mapping_confidence = MC_high | MC_medium | MC_low

record naics_mapping =
  nm_code :: string
  nm_relationship :: naics_relationship
  nm_confidence :: mapping_confidence

fun relationship_weight :: "naics_relationship \<Rightarrow> rat" where
  "relationship_weight Exact_code = 1"
| "relationship_weight Broad_parent = 55 / 100"
| "relationship_weight Adjacent = 25 / 100"

fun mapping_confidence_weight :: "mapping_confidence \<Rightarrow> rat" where
  "mapping_confidence_weight MC_high = 1"
| "mapping_confidence_weight MC_medium = 75 / 100"
| "mapping_confidence_weight MC_low = 50 / 100"

definition evidence_weight :: "naics_mapping \<Rightarrow> rat" where
  "evidence_weight m = relationship_weight (nm_relationship m) * mapping_confidence_weight (nm_confidence m)"

record service_naics =
  sm_service_family_id :: string
  sm_mappings :: "naics_mapping list"

record naics_registry =
  nr_registry_version :: string
  nr_services :: "service_naics list"

definition for_service :: "naics_registry \<Rightarrow> string \<Rightarrow> service_naics option" where
  "for_service r i = tget sm_service_family_id i (nr_services r)"

section \<open>Signals\<close>

record provenance =
  pv_source_version :: "string option"
  pv_data_year :: "int option"
  pv_release_date :: "calendar_date option"

type_synonym signals = "(string \<times> rat option) list"

definition signal_of :: "signals \<Rightarrow> string \<Rightarrow> rat option" where
  "signal_of signals name = Option.bind (map_of signals name) (\<lambda>v. v)"

definition embedded_signals :: "us_geography_record \<Rightarrow> signals" where
  "embedded_signals r =
     [(''population'', Some (of_int (ug_population r))),
      (''households'', map_option of_int (ug_households r)),
      (''housing_units'', map_option of_int (ug_housing_units r)),
      (''owner_occupied_units'', map_option of_int (ug_owner_occupied_units r)),
      (''homeownership_rate'', (case (ug_owner_occupied_units r, ug_households r) of
         (Some occupied, Some households) \<Rightarrow>
           if 0 < households then Some (of_int occupied / of_int households) else None
       | _ \<Rightarrow> None)),
      (''housing_age'', map_option (\<lambda>y. of_int (max 0 (ug_public_data_year r - y))) (ug_median_year_built r)),
      (''median_year_built'', map_option of_int (ug_median_year_built r)),
      (''household_density'', (case ug_households r of None \<Rightarrow> None
         | Some households \<Rightarrow> if 0 < ug_land_area_sq_km r then Some (of_int households / ug_land_area_sq_km r) else None)),
      (''detached_housing_share'', None), (''median_household_income'', None), (''purchasing_power'', None),
      (''storm_exposure'', None), (''hazard_exposure'', None)]"

definition embedded_provenance :: "us_geography_record \<Rightarrow> (string \<times> provenance) list" where
  "embedded_provenance r =
     map (\<lambda>name. (name, \<lparr>pv_source_version = Some (ug_dataset_version r), pv_data_year = Some (ug_public_data_year r),
        pv_release_date = None\<rparr>))
       [''population'', ''households'', ''housing_units'', ''owner_occupied_units'', ''homeownership_rate'',
        ''housing_age'', ''median_year_built'', ''household_density'']"

definition manifest_provenance :: "dataset_manifest option \<Rightarrow> provenance" where
  "manifest_provenance m =
     (case m of None \<Rightarrow> \<lparr>pv_source_version = None, pv_data_year = None, pv_release_date = None\<rparr>
      | Some m \<Rightarrow> \<lparr>pv_source_version = Some (rl_version (dm_release m)), pv_data_year = Some (rl_data_year (dm_release m)),
          pv_release_date = Some (rl_release_date (dm_release m))\<rparr>)"

definition snapshot_records :: "public_data_snapshot \<Rightarrow> dataset_kind \<Rightarrow> dataset_record list" where
  "snapshot_records sn ds = (case map_of (sn_records sn) ds of None \<Rightarrow> [] | Some rs \<Rightarrow> rs)"

type_synonym signal_state = "signals \<times> (string \<times> provenance) list"

definition overlay_measure :: "provenance \<Rightarrow> string \<times> rat option \<Rightarrow> signal_state \<Rightarrow> signal_state" where
  "overlay_measure source mv st = (dict_put (fst mv) (snd mv) (fst st), dict_put (fst mv) source (snd st))"

definition overlay_dataset :: "public_data_snapshot \<Rightarrow> dataset_kind \<Rightarrow> signal_state \<Rightarrow> signal_state" where
  "overlay_dataset sn ds st =
     fold (overlay_measure (manifest_provenance (map_of (sn_manifests sn) ds)))
       (concat (map dr_values (snapshot_records sn ds))) st"

text \<open>\<open>int(x)\<close> of a number.\<close>

definition truncate_number :: "rat \<Rightarrow> int" where
  "truncate_number x = (if 0 \<le> x then \<lfloor>x\<rfloor> else \<lceil>x\<rceil>)"

definition derive_ownership :: "signals \<Rightarrow> signals" where
  "derive_ownership signals =
     (if signal_of signals ''homeownership_rate'' \<noteq> None then signals
      else case (signal_of signals ''households'', signal_of signals ''owner_occupied_units'') of
        (Some households, Some occupied) \<Rightarrow>
          if households \<noteq> 0 then dict_put ''homeownership_rate'' (Some (occupied / households)) signals else signals
      | _ \<Rightarrow> signals)"

definition derive_age :: "us_geography_record \<Rightarrow> signals \<Rightarrow> signals" where
  "derive_age r signals =
     (case (signal_of signals ''housing_age'', signal_of signals ''median_year_built'') of
        (None, Some y) \<Rightarrow> dict_put ''housing_age'' (Some (of_int (max 0 (ug_public_data_year r - truncate_number y)))) signals
      | _ \<Rightarrow> signals)"

definition derive_density :: "us_geography_record \<Rightarrow> signals \<Rightarrow> signals" where
  "derive_density r signals =
     (case (signal_of signals ''household_density'', signal_of signals ''households'') of
        (None, Some households) \<Rightarrow> dict_put ''household_density''
           (if 0 < ug_land_area_sq_km r then Some (households / ug_land_area_sq_km r) else None) signals
      | _ \<Rightarrow> signals)"

definition derive_purchasing_power :: "signal_state \<Rightarrow> signal_state" where
  "derive_purchasing_power st =
     (if signal_of (fst st) ''purchasing_power'' \<noteq> None then st
      else (dict_put ''purchasing_power'' (signal_of (fst st) ''median_household_income'') (fst st),
            case map_of (snd st) ''median_household_income'' of
              None \<Rightarrow> snd st | Some source \<Rightarrow> dict_put ''purchasing_power'' source (snd st)))"

definition market_signals :: "us_geography_record \<Rightarrow> public_data_snapshot \<Rightarrow> signal_state" where
  "market_signals r sn =
     (let (signals, sources) = fold (overlay_dataset sn) [DK_acs, DK_noaa, DK_fema] (embedded_signals r, embedded_provenance r)
      in derive_purchasing_power (derive_density r (derive_age r (derive_ownership signals)), sources))"

section \<open>Provider density\<close>

record provider_density =
  pd_target_households :: "int option"
  pd_employer_raw :: "rat option"
  pd_nonemployer_raw :: "rat option"
  pd_employer_weighted :: "rat option"
  pd_nonemployer_weighted :: "rat option"
  pd_employer_density :: "rat option"
  pd_nonemployer_density :: "rat option"
  pd_combined_supply_density :: "rat option"
  pd_supply_band :: string
  pd_data_confidence :: string
  pd_used_codes :: "string list"

text \<open>A row counts when its code is mapped and its measure is present.\<close>

definition industry_row :: "naics_mapping list \<Rightarrow> string \<Rightarrow> dataset_record \<Rightarrow> (naics_mapping \<times> rat) option" where
  "industry_row mappings measured r =
     (case (tget nm_code (case map_of (dr_dimensions r) ''naics_code'' of None \<Rightarrow> [] | Some c \<Rightarrow> c) mappings,
            Option.bind (map_of (dr_values r) measured) (\<lambda>v. v)) of
        (Some m, Some v) \<Rightarrow> Some (m, v)
      | _ \<Rightarrow> None)"

definition industry_rows :: "naics_mapping list \<Rightarrow> string \<Rightarrow> dataset_record list \<Rightarrow> (naics_mapping \<times> rat) list" where
  "industry_rows mappings measured records = List.map_filter (industry_row mappings measured) records"

definition aggregate_industry_records ::
  "dataset_record list \<Rightarrow> naics_mapping list \<Rightarrow> string \<Rightarrow> rat option \<times> rat option \<times> string list" where
  "aggregate_industry_records records mappings measured =
     (let rows = industry_rows mappings measured records
      in if rows = [] then (None, None, [])
         else (Some (py_round 3 (sum_list (map snd rows))),
               Some (py_round 3 (sum_list (map (\<lambda>(m, v). v * evidence_weight m) rows))),
               map (nm_code \<circ> fst) rows))"

definition density :: "rat option \<Rightarrow> int option \<Rightarrow> rat option" where
  "density v households =
     (case (v, households) of
        (Some x, Some h) \<Rightarrow> if h \<le> 0 then None else Some (py_round 3 (x * 10000 / of_int h))
      | _ \<Rightarrow> None)"

definition supply_band :: "rat option \<Rightarrow> ideal_range option \<Rightarrow> string" where
  "supply_band v r =
     (case (v, r) of
        (Some x, Some b) \<Rightarrow>
          if ir_minimum b \<le> x \<and> x \<le> ir_maximum b then ''ideal''
          else if x < ir_minimum b then ''undersupplied'' else ''oversupplied''
      | _ \<Rightarrow> ''unknown'')"

definition data_confidence_of :: "naics_mapping list \<Rightarrow> rat option \<Rightarrow> bool \<Rightarrow> string" where
  "data_confidence_of used combined both =
     (if combined = None then ''insufficient''
      else if used \<noteq> [] \<and> list_all (\<lambda>m. nm_confidence m = MC_high \<and> nm_relationship m = Exact_code) used \<and> both
      then ''high''
      else if list_all (\<lambda>m. nm_confidence m \<noteq> MC_low) used then ''medium'' else ''low'')"

definition provider_density_of ::
  "public_data_snapshot \<Rightarrow> market_profile \<Rightarrow> signals \<Rightarrow> service_naics option \<Rightarrow> provider_density" where
  "provider_density_of sn profile signals service_mapping =
     (let target = (case signal_of signals (mp_target_household_signal profile) of None \<Rightarrow> None
            | Some v \<Rightarrow> if 0 < v then Some (truncate_number v) else None);
          mappings = (case service_mapping of None \<Rightarrow> [] | Some s \<Rightarrow> sm_mappings s);
          (cbp_raw, cbp_weighted, cbp_used) = aggregate_industry_records (snapshot_records sn DK_cbp) mappings ''establishments'';
          (nes_raw, nes_weighted, nes_used) =
            aggregate_industry_records (snapshot_records sn DK_nes) mappings ''nonemployer_businesses'';
          employer = density cbp_weighted target; nonemployer = density nes_weighted target;
          available = List.map_filter (\<lambda>d. d) [employer, nonemployer];
          combined = (if available = [] then None else Some (py_round 3 (sum_list available)));
          used = filter (\<lambda>m. nm_code m \<in> set (cbp_used @ nes_used)) mappings
      in \<lparr>pd_target_households = target, pd_employer_raw = cbp_raw, pd_nonemployer_raw = nes_raw,
          pd_employer_weighted = cbp_weighted, pd_nonemployer_weighted = nes_weighted,
          pd_employer_density = employer, pd_nonemployer_density = nonemployer,
          pd_combined_supply_density = combined,
          pd_supply_band = supply_band combined
            (Option.bind (map_of (mp_signals profile) ''combined_supply_density'') sg_ideal_range),
          pd_data_confidence = data_confidence_of used combined (cbp_weighted \<noteq> None \<and> nes_weighted \<noteq> None),
          pd_used_codes = map nm_code used\<rparr>)"

section \<open>Assessment\<close>

definition ideal_credit :: "ideal_range \<Rightarrow> rat \<Rightarrow> rat" where
  "ideal_credit b v =
     (if ir_minimum b \<le> v \<and> v \<le> ir_maximum b then 1
      else if v < ir_minimum b
      then (let span = ir_minimum b - ir_hard_minimum b in if 0 < span then max 0 ((v - ir_hard_minimum b) / span) else 0)
      else (let span = ir_hard_maximum b - ir_maximum b in if 0 < span then max 0 ((ir_hard_maximum b - v) / span) else 0))"

definition normalize_signal :: "rat \<Rightarrow> signal_profile \<Rightarrow> real" where
  "normalize_signal v p =
     (let safe = max 0 v
      in case sg_expected_direction p of
           Ideal_range \<Rightarrow> (case sg_ideal_range p of None \<Rightarrow> 0 | Some b \<Rightarrow> of_rat (ideal_credit b safe))
         | Higher \<Rightarrow>
             (let strong = (case sg_strong_value p of None \<Rightarrow> 1 | Some s \<Rightarrow> if s = 0 then 1 else s)
              in case sg_transform p of
                   Log \<Rightarrow> min 1 (ln (1 + of_rat safe) / ln (1 + of_rat strong))
                 | Linear \<Rightarrow> of_rat (min 1 (safe / strong))))"

record signal_evidence =
  se_signal :: string
  se_raw_value :: "rat option"
  se_normalized_value :: "rat option"
  se_configured_weight :: rat
  se_points :: rat
  se_source :: "provenance option"

definition signal_points :: "signal_profile \<Rightarrow> rat \<Rightarrow> rat" where
  "signal_points p v =
     round_real 2 (normalize_signal v p * of_rat (sg_maximum_credit p) * of_rat (sg_weight p) * 100)"

definition evidence_of :: "signal_state \<Rightarrow> string \<times> signal_profile \<Rightarrow> signal_evidence" where
  "evidence_of st np =
     (let v = signal_of (fst st) (fst np); p = snd np
      in \<lparr>se_signal = fst np, se_raw_value = v,
          se_normalized_value = map_option (\<lambda>x. round_real 4 (normalize_signal x p)) v,
          se_configured_weight = sg_weight p,
          se_points = (case v of None \<Rightarrow> 0 | Some x \<Rightarrow> signal_points p x),
          se_source = map_of (snd st) (fst np)\<rparr>)"

definition supply_provenance :: "public_data_snapshot \<Rightarrow> provenance" where
  "supply_provenance sn =
     (let ms = List.map_filter (map_of (sn_manifests sn)) [DK_cbp, DK_nes]; rs = map dm_release ms;
          kind = (\<lambda>r. if rl_dataset r = DK_cbp then ''cbp'' else ''nes'');
          names = map (\<lambda>r. kind r @ '':'' @ rl_version r) rs
      in \<lparr>pv_source_version = (case names of [] \<Rightarrow> None | [a] \<Rightarrow> Some a | a # b # _ \<Rightarrow> Some (a @ ''+'' @ b)),
          pv_data_year = list_min (map rl_data_year rs), pv_release_date = list_max (map rl_release_date rs)\<rparr>)"

definition with_supply :: "public_data_snapshot \<Rightarrow> provider_density \<Rightarrow> signal_state \<Rightarrow> signal_state" where
  "with_supply sn d st =
     (let put = (\<lambda>name v (signals, sources). (dict_put name v signals, dict_put name (supply_provenance sn) sources))
      in put ''combined_supply_density'' (pd_combined_supply_density d)
           (put ''nonemployer_businesses_per_10000'' (pd_nonemployer_density d)
             (put ''employer_establishments_per_10000'' (pd_employer_density d) st)))"

definition assessment_confidence :: "rat \<Rightarrow> age_warning list \<Rightarrow> string \<Rightarrow> string" where
  "assessment_confidence coverage warnings provider_confidence =
     (if coverage < 1 / 2 then ''insufficient''
      else if 9 / 10 \<le> coverage \<and> warnings = [] \<and> provider_confidence \<in> {''high'', ''medium''} then ''high''
      else if 65 / 100 \<le> coverage \<and> warnings = [] then ''medium'' else ''low'')"

record market_assessment =
  as_assessment_version :: string
  as_service_family_id :: string
  as_service_profile :: string
  as_profile_version :: int
  as_location :: location_candidate
  as_score :: "rat option"
  as_rank :: "nat option"
  as_recommendation :: string
  as_confidence :: string
  as_evidence_coverage :: rat
  as_component_scores :: "(string \<times> rat) list"
  as_evidence :: "signal_evidence list"
  as_provider_density :: provider_density
  as_missing_signals :: "string list"
  as_dataset_versions :: "(dataset_kind \<times> string) list"
  as_warnings :: "age_warning list"

text \<open>\<open>AssessmentInvalid\<close> is the refusal of the result class of a score or coverage out of range.\<close>

datatype prefilter_error = PrefilterDataError public_data_error | AssessmentInvalid

definition profile_for_service :: "market_config \<Rightarrow> string \<Rightarrow> string \<times> market_profile" where
  "profile_for_service c i =
     (case map_of (ac_profiles c) i of
        Some p \<Rightarrow> (i, p)
      | None \<Rightarrow> (''generic_local_service'', the (map_of (ac_profiles c) ''generic_local_service'')))"

definition recommendation_of :: "market_config \<Rightarrow> rat option \<Rightarrow> string" where
  "recommendation_of c score =
     (case score of
        None \<Rightarrow> ''insufficient_evidence''
      | Some s \<Rightarrow> if ac_advance_to_testing c \<le> s then ''advance_to_testing''
          else if ac_review c \<le> s then ''review'' else ''defer'')"

definition coverage_of :: "signal_state \<Rightarrow> market_profile \<Rightarrow> rat" where
  "coverage_of st p =
     py_round 4 (sum_list (map (sg_weight \<circ> snd) (filter (\<lambda>np. signal_of (fst st) (fst np) \<noteq> None) (mp_signals p))))"

definition assess_signals ::
  "market_config \<Rightarrow> naics_registry \<Rightarrow> string \<Rightarrow> us_geography_record \<Rightarrow> public_data_snapshot \<Rightarrow>
   prefilter_error + market_assessment" where
  "assess_signals c registry service_id r sn =
     (let (profile_id, profile) = profile_for_service c service_id;
          st = market_signals r sn;
          d = provider_density_of sn profile (fst st) (for_service registry profile_id);
          st' = with_supply sn d st;
          evidence = map (evidence_of st') (mp_signals profile);
          coverage = coverage_of st' profile;
          score = (if mp_minimum_evidence_coverage profile \<le> coverage
                   then Some (py_round 2 (sum_list (map se_points evidence))) else None);
          versions = map (\<lambda>(ds, m). (ds, rl_version (dm_release m))) (sn_manifests sn)
      in guarded [raise_if (case score of None \<Rightarrow> False | Some s \<Rightarrow> s < 0 \<or> 100 < s) AssessmentInvalid,
                  raise_if (coverage < 0 \<or> 1 < coverage) AssessmentInvalid]
           (Inr \<lparr>as_assessment_version = ac_assessment_version c, as_service_family_id = profile_id,
             as_service_profile = mp_legacy_profile_name profile, as_profile_version = mp_profile_version profile,
             as_location = candidate_from_record r 1 ''addressable_market_public_data'' (ug_city r),
             as_score = score, as_rank = None, as_recommendation = recommendation_of c score,
             as_confidence = assessment_confidence coverage (sn_warnings sn) (pd_data_confidence d),
             as_evidence_coverage = coverage,
             as_component_scores = map (\<lambda>e. (se_signal e, se_points e)) evidence, as_evidence = evidence,
             as_provider_density = d,
             as_missing_signals = map se_signal (filter (\<lambda>e. se_raw_value e = None) evidence),
             as_dataset_versions = (if DK_acs \<in> fst ` set versions then versions else versions @ [(DK_acs, ug_dataset_version r)]),
             as_warnings = sn_warnings sn\<rparr>))"

text \<open>What the prefilter is built with: the index, the registry, the store and the catalog's ages.\<close>

record 'b market_prefilter =
  mf_index :: us_geography_index
  mf_config :: market_config
  mf_registry :: naics_registry
  mf_codec :: "'b data_codec"
  mf_store :: "'b public_store"
  mf_warning_age_days :: "(dataset_kind \<times> int) list"
  mf_today :: calendar_date

definition assess_record :: "'b market_prefilter \<Rightarrow> string \<Rightarrow> us_geography_record \<Rightarrow> prefilter_error + market_assessment" where
  "assess_record f service_id r =
     (case snapshot (mf_codec f) (mf_store f) (ug_id r) (Some (ug_county_fips r)) (mf_warning_age_days f) (mf_today f) of
        Inl e \<Rightarrow> Inl (PrefilterDataError e)
      | Inr sn \<Rightarrow> assess_signals (mf_config f) (mf_registry f) service_id r sn)"

section \<open>Ranking\<close>

definition assessment_sort_key :: "market_assessment \<Rightarrow> rat \<times> rat \<times> int \<times> string" where
  "assessment_sort_key a =
     (case as_score a of None \<Rightarrow> - 1 | Some s \<Rightarrow> s, as_evidence_coverage a, lo_population (as_location a),
      lo_label (as_location a))"

record market_batch =
  mb_candidate_count :: nat
  mb_scored_count :: nat
  mb_returned_count :: nat
  mb_assessments :: "market_assessment list"

fun assess_records :: "'b market_prefilter \<Rightarrow> string \<Rightarrow> us_geography_record list \<Rightarrow> prefilter_error + market_assessment list" where
  "assess_records f service_id [] = Inr []"
| "assess_records f service_id (r # rs) =
     and_then (assess_record f service_id r) (\<lambda>a. map_result (\<lambda>as. a # as) (assess_records f service_id rs))"

definition bounded_limit :: "market_config \<Rightarrow> int option \<Rightarrow> nat" where
  "bounded_limit c limit =
     nat (max 1 (min (case limit of None \<Rightarrow> int (ac_maximum_results c) | Some l \<Rightarrow> l) (int (ac_maximum_results c))))"

definition ranked :: "market_assessment list \<Rightarrow> market_assessment list" where
  "ranked as = map (\<lambda>(rank, a). a\<lparr>as_rank := Some rank\<rparr>) (List.enumerate 1 as)"

definition assess_batch ::
  "'b market_prefilter \<Rightarrow> string \<Rightarrow> us_geography_record list \<Rightarrow> int option \<Rightarrow> prefilter_error + market_batch" where
  "assess_batch f service_id records limit =
     and_then (assess_records f service_id records) (\<lambda>assessments.
     let selected = take (bounded_limit (mf_config f) limit) (sorted_down assessment_sort_key assessments)
     in Inr \<lparr>mb_candidate_count = length records,
         mb_scored_count = length (filter (\<lambda>a. as_score a \<noteq> None) assessments),
         mb_returned_count = length selected, mb_assessments = ranked selected\<rparr>)"

definition rank_markets ::
  "'b market_prefilter \<Rightarrow> string \<Rightarrow> string list \<Rightarrow> string \<Rightarrow> int \<Rightarrow> int option \<Rightarrow>
   prefilter_error + (market_assessment list \<times> nat)" where
  "rank_markets f service_id states geography_kind limit minimum_population =
     (let least = max 1 (case minimum_population of None \<Rightarrow> ac_minimum_population (mf_config f) | Some n \<Rightarrow> n)
      in map_result (\<lambda>b. (mb_assessments b, mb_candidate_count b))
           (assess_batch f service_id (list_markets (mf_index f) geography_kind states least) (Some limit)))"

definition assess_geography_ids ::
  "'b market_prefilter \<Rightarrow> string \<Rightarrow> string list \<Rightarrow> int option \<Rightarrow> prefilter_error + market_batch" where
  "assess_geography_ids f service_id ids limit =
     assess_batch f service_id (List.map_filter (index_get (mf_index f)) ids) limit"

definition assess_market ::
  "'b market_prefilter \<Rightarrow> string \<Rightarrow> market_model \<Rightarrow> prefilter_error + market_assessment option" where
  "assess_market f service_id m =
     (if \<not> truthy_str (mm_geography_id m) then Inr None
      else case index_get (mf_index f) (the (mm_geography_id m)) of
        None \<Rightarrow> Inr None
      | Some r \<Rightarrow> map_result Some (assess_record f service_id r))"

section \<open>Bounds\<close>

lemma round_real_bound:
  assumes "0 \<le> x" "x \<le> of_int a / 10 ^ n"
  shows "0 \<le> round_real n x \<and> round_real n x \<le> of_int a / 10 ^ n"
proof -
  let ?y = "x * 10 ^ n" let ?f = "floor ?y"
  have y: "0 \<le> ?y" "?y \<le> of_int a" using assms by (simp_all add: pos_le_divide_eq)
  then have f: "0 \<le> ?f" "?f \<le> a" by (simp, metis floor_mono floor_of_int)
  have up: "?f + 1 \<le> a" if "1 / 2 \<le> ?y - of_int ?f"
  proof (rule ccontr)
    assume "\<not> ?f + 1 \<le> a"
    with f(2) have "?f = a" by simp
    with that y(2) show False by simp
  qed
  define k where "k = (if ?y - of_int ?f < 1 / 2 then ?f else if 1 / 2 < ?y - of_int ?f then ?f + 1
    else if even ?f then ?f else ?f + 1)"
  have k: "0 \<le> k" "k \<le> a" using f up unfolding k_def by (smt (verit))+
  have "round_real n x = of_int k / 10 ^ n" by (simp add: round_real_def k_def Let_def)
  moreover have "(of_int k :: rat) / 10 ^ n \<le> of_int a / 10 ^ n" using k(2) by (simp add: divide_right_mono)
  ultimately show ?thesis using k(1) by simp
qed

lemma ideal_credit_bounds: "valid_ideal_range b \<Longrightarrow> 0 \<le> ideal_credit b v \<and> ideal_credit b v \<le> 1"
  by (auto simp: ideal_credit_def valid_ideal_range_def Let_def divide_le_eq)

lemma normalize_signal_bounds:
  assumes "valid_signal_profile p"
  shows "0 \<le> normalize_signal v p \<and> normalize_signal v p \<le> 1"
proof (cases "sg_expected_direction p")
  case Higher
  with assms obtain s where s: "sg_strong_value p = Some s" "0 < s"
    by (auto simp: valid_signal_profile_def split: option.splits)
  have ratio: "0 \<le> min 1 (max 0 v / s)" "min 1 (max 0 v / s) \<le> 1" using s(2) by simp_all
  have "0 < (of_rat s :: real)" using s(2) by simp
  then have pos: "0 < ln (1 + (of_rat s :: real))" "0 \<le> ln (1 + (of_rat (max 0 v) :: real))"
    by (intro ln_gt_zero ln_ge_zero; simp)+
  then have "0 \<le> ln (1 + of_rat (max 0 v)) / ln (1 + (of_rat s :: real))" by simp
  moreover have "(0 :: real) \<le> of_rat (min 1 (max 0 v / s))" "of_rat (min 1 (max 0 v / s)) \<le> (1 :: real)"
    using ratio by (simp_all only: zero_le_of_rat_iff of_rat_le_1_iff)
  ultimately show ?thesis using Higher s by (cases "sg_transform p") (simp_all add: normalize_signal_def Let_def)
next
  case Ideal_range
  with assms obtain b where b: "sg_ideal_range p = Some b" "valid_ideal_range b"
    by (auto simp: valid_signal_profile_def split: option.splits)
  show ?thesis using Ideal_range b(1) ideal_credit_bounds [OF b(2)] by (simp add: normalize_signal_def Let_def)
qed

text \<open>Weights to four decimals whose sum is exactly one, as in the profiles that are shipped.\<close>

definition exact_weights :: "market_profile \<Rightarrow> bool" where
  "exact_weights p \<longleftrightarrow> signal_weights p = 1 \<and> list_all (\<lambda>np. py_round 4 (sg_weight (snd np)) = sg_weight (snd np)) (mp_signals p)"

lemma signal_points_bounds:
  assumes "valid_signal_profile p" "py_round 4 (sg_weight p) = sg_weight p"
  shows "0 \<le> signal_points p v \<and> signal_points p v \<le> sg_weight p * 100"
proof -
  define k where "k = round_half_even (sg_weight p * 10000)"
  have k: "sg_weight p = of_int k / 10000" using assms(2) by (simp add: py_round_def k_def)
  have p: "0 < sg_weight p" "0 < sg_maximum_credit p" "sg_maximum_credit p \<le> 1"
    using assms(1) by (simp_all add: valid_signal_profile_def)
  define x where "x = normalize_signal v p * (of_rat (sg_maximum_credit p) :: real)"
  define w where "w = (of_rat (sg_weight p) :: real)"
  have x: "0 \<le> x" "x \<le> 1"
    using normalize_signal_bounds [OF assms(1), of v] p(2,3) by (simp_all add: x_def mult_le_one)
  have w: "w = of_int k / 10000" "0 \<le> w" using p(1) by (simp_all add: w_def k of_rat_divide)
  have "x * w \<le> w" using x w(2) by (rule mult_left_le_one_le [rotated]) 
  then have "x * w * 100 \<le> w * 100" by simp
  also have "w * 100 = of_int k / 10 ^ 2" by (simp add: w(1))
  finally have "x * w * 100 \<le> of_int k / 10 ^ 2" "0 \<le> x * w * 100" using x(1) w(2) by simp_all
  from round_real_bound [OF this(2,1)] have "0 \<le> signal_points p v \<and> signal_points p v \<le> of_int k / 10 ^ 2"
    by (simp add: signal_points_def x_def w_def)
  then show ?thesis by (simp add: k)
qed

lemma profile_for_service_valid:
  assumes "valid_market_config c" "list_all (exact_weights \<circ> snd) (ac_profiles c)"
  shows "valid_market_profile (snd (profile_for_service c i))" "exact_weights (snd (profile_for_service c i))"
proof -
  obtain k where "map_of (ac_profiles c) k = Some (snd (profile_for_service c i))"
    using assms(1) by (cases "map_of (ac_profiles c) i")
      (auto simp: profile_for_service_def valid_market_config_def)
  then have "(k, snd (profile_for_service c i)) \<in> set (ac_profiles c)" by (rule map_of_SomeD)
  with assms show "valid_market_profile (snd (profile_for_service c i))" "exact_weights (snd (profile_for_service c i))"
    by (auto simp: valid_market_config_def list_all_iff)
qed

definition component_ok :: "signal_evidence \<Rightarrow> bool" where
  "component_ok e \<longleftrightarrow> 0 \<le> se_points e \<and> se_points e \<le> se_configured_weight e * 100 \<and>
     (se_raw_value e = None \<longrightarrow> se_points e = 0)"

lemma evidence_of_ok:
  assumes "valid_market_profile p" "exact_weights p" "np \<in> set (mp_signals p)"
  shows "component_ok (evidence_of st np)" "se_configured_weight (evidence_of st np) = sg_weight (snd np)"
    "\<exists>k :: int. se_points (evidence_of st np) = of_int k / 100"
proof -
  have np: "valid_signal_profile (snd np)" "py_round 4 (sg_weight (snd np)) = sg_weight (snd np)"
    using assms by (auto simp: valid_market_profile_def exact_weights_def list_all_iff)
  then have "0 \<le> sg_weight (snd np)" by (simp add: valid_signal_profile_def)
  then show "component_ok (evidence_of st np)"
    using signal_points_bounds [OF np] by (auto simp: component_ok_def evidence_of_def Let_def split: option.splits)
  show "se_configured_weight (evidence_of st np) = sg_weight (snd np)" by (simp add: evidence_of_def Let_def)
  have points: "\<exists>k :: int. signal_points (snd np) v = of_int k / 100" for v
    by (auto simp: signal_points_def round_real_def Let_def)
  show "\<exists>k :: int. se_points (evidence_of st np) = of_int k / 100"
  proof (cases "signal_of (fst st) (fst np)")
    case None
    then have "se_points (evidence_of st np) = of_int 0 / 100" by (simp add: evidence_of_def Let_def)
    then show ?thesis by blast
  next
    case (Some x)
    then show ?thesis using points [of x] by (simp add: evidence_of_def Let_def)
  qed
qed

lemma sum_list_mono_map: "(\<And>x. x \<in> set xs \<Longrightarrow> f x \<le> (g x :: rat)) \<Longrightarrow> sum_list (map f xs) \<le> sum_list (map g xs)"
  by (rule sum_list_mono)

lemma sum_of_cents:
  assumes "\<And>x. x \<in> set xs \<Longrightarrow> \<exists>k :: int. f x = of_int k / (of_int d :: rat)"
  shows "\<exists>k :: int. sum_list (map f xs) = of_int k / of_int d"
  using assms
proof (induction xs)
  case Nil
  have "(0 :: rat) = of_int 0 / of_int d" by simp
  then show ?case by (metis list.simps(8) sum_list.Nil)
next
  case (Cons x xs)
  then obtain k l :: int where "f x = of_int k / of_int d" "sum_list (map f xs) = of_int l / of_int d"
    by (metis list.set_intros)
  then have "sum_list (map f (x # xs)) = of_int (k + l) / of_int d" by (simp add: add_divide_distrib)
  then show ?case by blast
qed

lemma sum_filter_le: "(\<And>x. x \<in> set xs \<Longrightarrow> (0 :: rat) \<le> f x) \<Longrightarrow> sum_list (map f (filter P xs)) \<le> sum_list (map f xs)"
  by (induction xs) (auto intro: add_increasing)

lemma coverage_bounds:
  assumes "valid_market_profile p" "exact_weights p"
  shows "0 \<le> coverage_of st p" "coverage_of st p \<le> 1"
proof -
  let ?known = "filter (\<lambda>np. signal_of (fst st) (fst np) \<noteq> None) (mp_signals p)"
  have pos: "0 \<le> sg_weight (snd np)" if "np \<in> set (mp_signals p)" for np
    using assms(1) that by (auto simp: valid_market_profile_def list_all_iff valid_signal_profile_def)
  have "sum_list (map (sg_weight \<circ> snd) ?known) \<le> sum_list (map (sg_weight \<circ> snd) (mp_signals p))"
    using pos by (intro sum_filter_le) simp
  also have "\<dots> = 1" using assms(2) by (simp add: exact_weights_def signal_weights_def)
  finally have "sum_list (map (sg_weight \<circ> snd) ?known) \<le> 1" .
  moreover have "0 \<le> sum_list (map (sg_weight \<circ> snd) ?known)" using pos by (intro sum_list_nonneg) auto
  ultimately show "0 \<le> coverage_of st p" "coverage_of st p \<le> 1"
    unfolding coverage_of_def using py_round_0_1 by blast+
qed

lemma evidence_total:
  assumes "valid_market_profile p" "exact_weights p"
  shows "0 \<le> sum_list (map se_points (map (evidence_of st) (mp_signals p)))"
    "sum_list (map se_points (map (evidence_of st) (mp_signals p))) \<le> 100"
    "py_round 2 (sum_list (map se_points (map (evidence_of st) (mp_signals p)))) =
       sum_list (map se_points (map (evidence_of st) (mp_signals p)))"
proof -
  let ?points = "\<lambda>np. se_points (evidence_of st np)"
  have ok: "0 \<le> ?points np" "?points np \<le> sg_weight (snd np) * 100" if "np \<in> set (mp_signals p)" for np
    using evidence_of_ok(1,2) [OF assms that, of st] by (simp_all add: component_ok_def)
  show "0 \<le> sum_list (map se_points (map (evidence_of st) (mp_signals p)))"
    using ok(1) by (intro sum_list_nonneg) auto
  have "sum_list (map ?points (mp_signals p)) \<le> sum_list (map (\<lambda>np. sg_weight (snd np) * 100) (mp_signals p))"
    using ok(2) by (rule sum_list_mono_map)
  also have "\<dots> = 100"
    using assms(2) by (simp add: exact_weights_def signal_weights_def sum_list_mult_const comp_def)
  finally show "sum_list (map se_points (map (evidence_of st) (mp_signals p))) \<le> 100" by (simp add: comp_def)
  have "\<exists>k :: int. sum_list (map ?points (mp_signals p)) = of_int k / of_int 100"
    by (rule sum_of_cents) (use evidence_of_ok(3) [OF assms, of _ st] in simp)
  then obtain k :: int where "sum_list (map ?points (mp_signals p)) = of_int k / 100" by auto
  then show "py_round 2 (sum_list (map se_points (map (evidence_of st) (mp_signals p)))) =
       sum_list (map se_points (map (evidence_of st) (mp_signals p)))"
    by (simp add: comp_def py_round_def)
qed

text \<open>
  C28: Assessments are sound. With profiles whose weights are exact to four decimals, every snapshot
  of public data gives an assessment: each signal earns between zero and its weight in points and
  nothing when it is unknown, the score is the sum of the points and lies between 0 and 100, and it
  is given exactly when the share of known evidence reaches the profile's minimum; without a score
  the recommendation is that the evidence is insufficient. High confidence needs nine tenths of the
  evidence, no outdated dataset and industry counts that are not of low confidence.
\<close>

theorem market_assessment_sound:
  assumes "valid_market_config c" "list_all (exact_weights \<circ> snd) (ac_profiles c)"
  shows "\<exists>a. assess_signals c registry service_id r sn = Inr a \<and>
      list_all component_ok (as_evidence a) \<and>
      map se_signal (as_evidence a) = map fst (mp_signals (snd (profile_for_service c service_id))) \<and>
      0 \<le> as_evidence_coverage a \<and> as_evidence_coverage a \<le> 1 \<and>
      (case as_score a of
         None \<Rightarrow> as_evidence_coverage a < mp_minimum_evidence_coverage (snd (profile_for_service c service_id)) \<and>
           as_recommendation a = ''insufficient_evidence''
       | Some s \<Rightarrow> mp_minimum_evidence_coverage (snd (profile_for_service c service_id)) \<le> as_evidence_coverage a \<and>
           s = sum_list (map se_points (as_evidence a)) \<and> 0 \<le> s \<and> s \<le> 100 \<and>
           (as_recommendation a = ''advance_to_testing'' \<longleftrightarrow> ac_advance_to_testing c \<le> s)) \<and>
      (as_confidence a = ''high'' \<longrightarrow> 9 / 10 \<le> as_evidence_coverage a \<and> sn_warnings sn = [] \<and>
         pd_data_confidence (as_provider_density a) \<in> {''high'', ''medium''})"
proof -
  obtain i profile where profile: "profile_for_service c service_id = (i, profile)" by force
  with profile_for_service_valid [OF assms, of service_id] have p: "valid_market_profile profile" "exact_weights profile"
    by simp_all
  define d where "d = provider_density_of sn profile (fst (market_signals r sn)) (for_service registry i)"
  define st where "st = with_supply sn d (market_signals r sn)"
  let ?evidence = "map (evidence_of st) (mp_signals profile)"
  let ?total = "sum_list (map se_points ?evidence)"
  define score where "score = (if mp_minimum_evidence_coverage profile \<le> coverage_of st profile then Some ?total else None)"
  note total = evidence_total [OF p, of st]
  have in_range: "\<not> (case score of None \<Rightarrow> False | Some s \<Rightarrow> s < 0 \<or> 100 < s)"
    "\<not> (coverage_of st profile < 0 \<or> 1 < coverage_of st profile)"
    using total coverage_bounds [OF p, of st] by (simp_all add: score_def not_less)
  have "\<exists>a. assess_signals c registry service_id r sn = Inr a \<and> as_evidence a = ?evidence \<and>
      as_evidence_coverage a = coverage_of st profile \<and> as_score a = score \<and>
      as_recommendation a = recommendation_of c score \<and> as_provider_density a = d \<and>
      as_confidence a = assessment_confidence (coverage_of st profile) (sn_warnings sn) (pd_data_confidence d)"
    unfolding assess_signals_def profile prod.case Let_def d_def [symmetric] st_def [symmetric] total(3)
      score_def [symmetric]
    using in_range by simp
  then obtain a where a: "assess_signals c registry service_id r sn = Inr a" "as_evidence a = ?evidence"
      "as_evidence_coverage a = coverage_of st profile" "as_score a = score"
      "as_recommendation a = recommendation_of c score" "as_provider_density a = d"
      "as_confidence a = assessment_confidence (coverage_of st profile) (sn_warnings sn) (pd_data_confidence d)" by blast
  have "list_all component_ok ?evidence" using evidence_of_ok(1) [OF p] by (simp add: list_all_iff)
  moreover have "map se_signal ?evidence = map fst (mp_signals profile)"
    by (simp add: evidence_of_def Let_def)
  moreover have "as_confidence a = ''high'' \<longrightarrow> 9 / 10 \<le> as_evidence_coverage a \<and> sn_warnings sn = [] \<and>
      pd_data_confidence (as_provider_density a) \<in> {''high'', ''medium''}"
    by (simp add: a(3,6,7) assessment_confidence_def)
  ultimately show ?thesis
    using a total coverage_bounds [OF p, of st] profile
    by (intro exI [of _ a]) (simp add: score_def recommendation_of_def not_le)
qed

section \<open>The ranking\<close>

lemma assess_records_Inr:
  "assess_records f i rs = Inr as \<longleftrightarrow> map Inr as = map (assess_record f i) rs"
proof (induction rs arbitrary: as)
  case (Cons r rs)
  show ?case
  proof (cases "assess_record f i r")
    case (Inl e)
    then show ?thesis by (cases as) simp_all
  next
    case (Inr a)
    then show ?thesis using Cons.IH
      by (cases as; cases "assess_records f i rs") (auto simp: map_result_def)
  qed
qed auto

lemma assess_signals_unranked: "assess_signals c registry i r sn = Inr a \<Longrightarrow> as_rank a = None"
  unfolding assess_signals_def Let_def case_prod_unfold guarded_Inr sum.inject
  by (elim conjE) (erule subst, simp only: market_assessment.select_convs)

lemma assess_record_unranked: "assess_record f i r = Inr a \<Longrightarrow> as_rank a = None"
  by (simp add: assess_record_def assess_signals_unranked split: sum.splits)

lemma ranked_length: "length (ranked as) = length as"
  by (simp add: ranked_def)

lemma ranked_ranks: "map as_rank (ranked as) = map Some [1..<length as + 1]"
proof -
  have "map as_rank (ranked as) = map (Some \<circ> fst) (List.enumerate 1 as)"
    by (simp add: ranked_def comp_def case_prod_unfold)
  also have "\<dots> = map Some (map fst (List.enumerate 1 as))" by (simp only: map_map)
  finally show ?thesis by (simp only: map_fst_enumerate add.commute [of 1])
qed

lemma map_ranked:
  assumes "\<And>n a. f (a\<lparr>as_rank := n\<rparr>) = f a"
  shows "map f (ranked as) = map f as"
proof -
  have "map f (ranked as) = map (f \<circ> snd) (List.enumerate 1 as)"
    by (simp add: ranked_def comp_def case_prod_unfold assms)
  also have "\<dots> = map f (map snd (List.enumerate 1 as))" by (simp only: map_map)
  finally show ?thesis by (simp only: map_snd_enumerate)
qed

lemma ranked_keys: "map assessment_sort_key (ranked as) = map assessment_sort_key as"
  by (rule map_ranked) (simp add: assessment_sort_key_def)

lemma ranked_unranked:
  assumes "list_all (\<lambda>a. as_rank a = None) as"
  shows "map (\<lambda>a. a\<lparr>as_rank := None\<rparr>) (ranked as) = as"
proof -
  have "map (\<lambda>a. a\<lparr>as_rank := None\<rparr>) (ranked as) = map (\<lambda>a. a\<lparr>as_rank := None\<rparr>) as"
    by (rule map_ranked) simp
  also have "\<dots> = as"
    using assms by (intro map_idI) (auto simp: list_all_iff intro: market_assessment.equality)
  finally show ?thesis .
qed

lemma sorted_wrt_take_drop:
  "sorted_wrt R xs \<Longrightarrow> x \<in> set (take n xs) \<Longrightarrow> y \<in> set (drop n xs) \<Longrightarrow> R x y"
  using sorted_wrt_append [of R "take n xs" "drop n xs"] by simp

text \<open>
  C29: The ranking of markets. A batch assesses every record it is given, and returns the best of the
  assessments, as many as the limit and the configured maximum allow, with ranks from one upwards in
  falling order of score, then evidence, then population; nothing it leaves out is better than
  anything it returns, and no assessment is changed beyond its rank.
\<close>

theorem market_ranking_best:
  assumes "assess_batch f service_id records limit = Inr b"
  shows "\<exists>assessments rest. map Inr assessments = map (assess_record f service_id) records \<and>
      mset assessments = mset (map (\<lambda>a. a\<lparr>as_rank := None\<rparr>) (mb_assessments b)) + mset rest \<and>
      (\<forall>x \<in> set rest. \<forall>a \<in> set (mb_assessments b). assessment_sort_key x \<le> assessment_sort_key a) \<and>
      sorted_wrt (\<ge>) (map assessment_sort_key (mb_assessments b)) \<and>
      map as_rank (mb_assessments b) = map Some [1..<mb_returned_count b + 1] \<and>
      mb_returned_count b = min (bounded_limit (mf_config f) limit) (length records) \<and>
      mb_candidate_count b = length records"
proof -
  from assms obtain assessments where all: "map Inr assessments = map (assess_record f service_id) records"
    and b: "mb_assessments b = ranked (take (bounded_limit (mf_config f) limit) (sorted_down assessment_sort_key assessments))"
      "mb_returned_count b = length (take (bounded_limit (mf_config f) limit) (sorted_down assessment_sort_key assessments))"
      "mb_candidate_count b = length records"
    by (auto simp: assess_batch_def Let_def assess_records_Inr)
  let ?n = "bounded_limit (mf_config f) limit" let ?sorted = "sorted_down assessment_sort_key assessments"
  let ?rest = "drop ?n ?sorted"
  have len: "length assessments = length records" using arg_cong [OF all, of length] by simp
  have "as_rank a = None" if "a \<in> set assessments" for a
  proof -
    from that have "Inr a \<in> set (map (assess_record f service_id) records)" unfolding all [symmetric] by simp
    then obtain r where "assess_record f service_id r = Inr a" by auto
    then show ?thesis by (rule assess_record_unranked)
  qed
  then have unranked: "list_all (\<lambda>a. as_rank a = None) (take ?n ?sorted)"
    by (auto simp: list_all_iff dest: in_set_takeD)
  have sorted: "sorted_wrt (\<lambda>x y. assessment_sort_key y \<le> assessment_sort_key x) ?sorted" by (rule sorted_down_desc)
  have "mset assessments = mset (take ?n ?sorted) + mset ?rest"
    by (metis append_take_drop_id mset_append mset_sorted_down)
  then have "mset assessments = mset (map (\<lambda>a. a\<lparr>as_rank := None\<rparr>) (mb_assessments b)) + mset ?rest"
    by (simp only: b(1) ranked_unranked [OF unranked])
  moreover have "assessment_sort_key x \<le> assessment_sort_key a" if "x \<in> set ?rest" "a \<in> set (mb_assessments b)" for x a
  proof -
    have "map assessment_sort_key (mb_assessments b) = map assessment_sort_key (take ?n ?sorted)"
      by (simp only: b(1) ranked_keys)
    with that(2) have "assessment_sort_key a \<in> set (map assessment_sort_key (take ?n ?sorted))"
      by (metis image_eqI list.set_map)
    then obtain a' where "a' \<in> set (take ?n ?sorted)" "assessment_sort_key a = assessment_sort_key a'" by auto
    with sorted_wrt_take_drop [OF sorted _ that(1)] show ?thesis by simp
  qed
  moreover have "sorted_wrt (\<ge>) (map assessment_sort_key (mb_assessments b))"
    unfolding b(1) ranked_keys using sorted_wrt_take [OF sorted, of ?n] by (simp add: sorted_wrt_map)
  moreover have "length ?sorted = length records" using len by (simp add: sorted_down_def)
  ultimately show ?thesis using all b len by (intro exI [of _ assessments] exI [of _ ?rest]) (simp add: ranked_length ranked_ranks)
qed

section \<open>A small prefilter\<close>

definition sample_signal :: "rat \<Rightarrow> rat \<Rightarrow> signal_profile" where
  "sample_signal weight strong = \<lparr>sg_weight = weight, sg_source_dataset = DK_acs, sg_expected_direction = Higher,
     sg_transform = Log, sg_strong_value = Some strong, sg_ideal_range = None, sg_maximum_credit = 1\<rparr>"

definition sample_profile :: "(string \<times> signal_profile) list \<Rightarrow> market_profile" where
  "sample_profile signals = \<lparr>mp_service_family_id = ''generic_local_service'', mp_profile_version = 1,
     mp_legacy_profile_name = ''home_services'', mp_target_household_signal = ''households'',
     mp_minimum_evidence_coverage = 75 / 100, mp_signals = signals\<rparr>"

definition sample_market_config :: "(string \<times> signal_profile) list \<Rightarrow> market_config" where
  "sample_market_config signals = \<lparr>ac_assessment_version = ''v2'', ac_minimum_population = 5000, ac_maximum_results = 500,
     ac_advance_to_testing = 65, ac_review = 45, ac_profiles = [(''generic_local_service'', sample_profile signals)]\<rparr>"

definition generic_signals :: "(string \<times> signal_profile) list" where
  "generic_signals = [(''population'', sample_signal (30 / 100) 300000), (''households'', sample_signal (30 / 100) 120000),
     (''housing_units'', sample_signal (20 / 100) 140000), (''household_density'', sample_signal (20 / 100) 1200)]"

definition sample_registry :: naics_registry where
  "sample_registry = \<lparr>nr_registry_version = ''v1'', nr_services = []\<rparr>"

definition no_public_data :: "string \<Rightarrow> public_data_snapshot" where
  "no_public_data g = \<lparr>sn_geography_id = g, sn_records = [], sn_manifests = [], sn_warnings = []\<rparr>"

definition sample_prefilter :: "record_fields list market_prefilter" where
  "sample_prefilter = \<lparr>mf_index = sample_index, mf_config = sample_market_config generic_signals,
     mf_registry = sample_registry, mf_codec = fields_codec, mf_store = empty_public_store,
     mf_warning_age_days = [], mf_today = 20000\<rparr>"

lemma sample_market_config_ok:
  "valid_market_config (sample_market_config generic_signals)"
  "list_all (exact_weights \<circ> snd) (ac_profiles (sample_market_config generic_signals))"
  by code_simp+

theorem market_assessment_sound_witness:
  "\<exists>a. assess_signals (sample_market_config generic_signals) sample_registry ''plumbing''
       (sample_city ''tx-waco'' ''Waco'' ''TX'' 140000) (no_public_data ''tx-waco'') = Inr a \<and>
     list_all component_ok (as_evidence a) \<and> as_evidence_coverage a \<le> 1"
  using market_assessment_sound [OF sample_market_config_ok] by blast

lemma sample_snapshot: "snapshot codec empty_public_store g county ages today = Inr (no_public_data g)"
  by (simp add: snapshot_def dataset_kinds_def active_manifest_def registration_of_def empty_public_store_def
      empty_registration_def no_public_data_def Let_def)

lemma sample_assessed: "\<exists>a. assess_record sample_prefilter ''plumbing'' r = Inr a"
proof -
  obtain i p where p: "profile_for_service (sample_market_config generic_signals) ''plumbing'' = (i, p)" by force
  note valid = profile_for_service_valid [OF sample_market_config_ok, of "''plumbing''", unfolded p snd_conv]
  show ?thesis
    using evidence_total [OF valid] coverage_bounds [OF valid]
    unfolding assess_record_def sample_prefilter_def market_prefilter.simps sample_snapshot sum.case
      assess_signals_def p prod.case Let_def case_prod_unfold
    by (simp add: not_less)
qed

theorem market_ranking_best_witness:
  "\<exists>b. assess_batch sample_prefilter ''plumbing'' (gi_geographies sample_index) (Some 2) = Inr b \<and>
     map as_rank (mb_assessments b) = [Some 1, Some 2]"
proof -
  have "\<exists>as. assess_records sample_prefilter ''plumbing'' rs = Inr as" for rs
  proof (induction rs)
    case (Cons r rs)
    obtain a where "assess_record sample_prefilter ''plumbing'' r = Inr a" using sample_assessed by blast
    then show ?case using Cons by (auto simp: map_result_def)
  qed simp
  then obtain b where b: "assess_batch sample_prefilter ''plumbing'' (gi_geographies sample_index) (Some 2) = Inr b"
    by (fastforce simp: assess_batch_def Let_def)
  have "min (bounded_limit (mf_config sample_prefilter) (Some 2)) (length (gi_geographies sample_index)) = 2"
    by (simp add: bounded_limit_def sample_prefilter_def sample_market_config_def sample_index_def)
  with market_ranking_best [OF b] b show ?thesis by (auto simp: numeral_2_eq_2)
qed

text \<open>
  Two weaknesses. A derived signal that the embedded data gives keeps its value when an activated
  release replaces the counts it is derived from. And weights that add up to one only within the
  tolerance of the profile's validation make the assessment of a market with full evidence raise.
\<close>

definition acs_snapshot :: public_data_snapshot where
  "acs_snapshot = (no_public_data ''tx-waco'')\<lparr>sn_records := [(DK_acs,
     [(sample_record 1)\<lparr>dr_values := [(''households'', Some 1000), (''owner_occupied_units'', Some 900)]\<rparr>])]\<rparr>"

lemma embedded_rate_kept:
  "let signals = fst (market_signals (sample_city ''tx-waco'' ''Waco'' ''TX'' 140000) acs_snapshot)
   in signal_of signals ''households'' = Some 1000 \<and> signal_of signals ''owner_occupied_units'' = Some 900 \<and>
      signal_of signals ''homeownership_rate'' = Some (1 / 2)"
  by code_simp

definition loose_signals :: "(string \<times> signal_profile) list" where
  "loose_signals = [(''population'', sample_signal (5 / 10) 300000), (''households'', sample_signal (50008 / 100000) 120000)]"

lemma signal_of_dict_put: "signal_of (dict_put k v signals) n = (if k = n then v else signal_of signals n)"
  by (simp add: signal_of_def map_of_dict_put)

lemma guarded_last: "b \<Longrightarrow> guarded [raise_if a e, raise_if b e] x = Inl e"
  by (simp add: guard_eval)

lemma loose_weights_raise:
  "valid_market_config (sample_market_config loose_signals)"
  "assess_signals (sample_market_config loose_signals) sample_registry ''plumbing''
     (sample_city ''tx-waco'' ''Waco'' ''TX'' 140000) (no_public_data ''tx-waco'') = Inl AssessmentInvalid"
proof -
  show "valid_market_config (sample_market_config loose_signals)" by code_simp
  have p: "profile_for_service (sample_market_config loose_signals) ''plumbing'' =
      (''generic_local_service'', sample_profile loose_signals)"
    by code_simp
  have c: "1 < coverage_of (with_supply (no_public_data ''tx-waco'') d
      (market_signals (sample_city ''tx-waco'' ''Waco'' ''TX'' 140000) (no_public_data ''tx-waco'')))
      (sample_profile loose_signals)" for d
  proof -
    have "signal_of (fst (market_signals (sample_city ''tx-waco'' ''Waco'' ''TX'' 140000) (no_public_data ''tx-waco''))) ''population'' \<noteq> None"
      "signal_of (fst (market_signals (sample_city ''tx-waco'' ''Waco'' ''TX'' 140000) (no_public_data ''tx-waco''))) ''households'' \<noteq> None"
      by code_simp+
    moreover have "1 < py_round 4 (12501 / 12500)" by code_simp
    ultimately show ?thesis
      by (simp add: coverage_of_def with_supply_def case_prod_unfold signal_of_dict_put sample_profile_def
          loose_signals_def sample_signal_def Let_def)
  qed
  show "assess_signals (sample_market_config loose_signals) sample_registry ''plumbing''
     (sample_city ''tx-waco'' ''Waco'' ''TX'' 140000) (no_public_data ''tx-waco'') = Inl AssessmentInvalid"
    unfolding assess_signals_def p prod.case Let_def case_prod_unfold
    by (rule guarded_last) (simp add: c)
qed

end
