(* ===== verification/Spec2Isabelle.thy ===== *)
theory Spec2Isabelle
  imports Billing Call_Sessions Batch_Plans Scan_Worker Lead_Delivery Property_History Outcome_History
    Evidence_Quality Keyword_Planning Planning Market_Prefilter
begin

text \<open>
  A model of the rank-and-rent engine under \<open>src/src/rank_rent\<close>: a service that finds local
  search markets, pays a data provider for evidence under strict cost controls, lets reviewers
  approve opportunities, runs scans on durable workers, and routes leads to providers.

  \<^bold>\<open>How the parts interact.\<close> The HTTP API and the workers share one relational database.
  A reviewer confirms a batch plan, which queues scan runs; a scan worker claims a queued run
  under a lease and runs the pipeline, whose provider client records every paid call as an
  attempt, reserves its cost in the daily usage buckets before the network is touched and
  settles it afterwards; qualification and billing reconciliation open and close the gate for
  production calls. An approved opportunity becomes a property with a routing profile, provider assignments, a
  domain, a reviewed site and gated deployments;
  lead intake stores consented leads and delivery jobs for the active assignment, and delivery
  workers send them under leases until they are delivered, fail or the lead is deleted.

  \<^bold>\<open>Model.\<close>
  \<^item> \<open>Prelude\<close>: instants, Python strings, JSON payloads, tables as lists of rows, guards and
    results (\<open>Inl\<close> of an exception), lemmas on them.
  \<^item> \<open>Interfaces\<close>: the contracts shared by components, as locales: \<open>request_machine\<close>
    (requests keep an invariant), \<open>lifecycle\<close> (rows move along a state graph), \<open>leases\<close>
    (exclusive ownership by token), \<open>idempotent_store\<close> (replays return the stored row), and
    \<open>blob_store\<close> of \<open>Blob_Store\<close> (what is put can be got back). Each
    is interpreted in the theories of its providers.
  \<^item> \<open>Schema\<close>, \<open>Samples\<close>: the mapped classes (\<open>db/orm.py\<close> and the \<open>orm.py\<close> of each package)
    as records, one \<open>database\<close> record of all tables, blank rows for examples.
  \<^item> \<open>App_Settings\<close> (\<open>settings.py\<close>), \<open>Scan_Leases\<close> (\<open>services/scan_leases.py\<close>).
  \<^item> \<open>Qualification\<close>, \<open>Billing\<close>, \<open>Cost_Controls\<close> (\<open>services/qualification.py\<close>,
    \<open>services/billing.py\<close>, \<open>services/cost_controls.py\<close>): who may spend and how it is counted.
  \<^item> \<open>Live_Client\<close> (\<open>integrations/dataforseo/live.py\<close>): the path of one paid request, and the abstract
    histories of attempts; \<open>Call_Sessions\<close>: the same clients in their database sessions, each on the
    row it holds in memory while recovery and operators commit, simulated by the abstract histories
    as long as recovery leaves the attempts of live sessions alone.
  \<^item> \<open>Opportunity_Review\<close>, \<open>Batch_Plans\<close> (\<open>opportunity_review\<close>): review states, approval,
    overrides; templates and batches.
  \<^item> \<open>Scan_Worker\<close> (\<open>services/scan_worker.py\<close>): leases, retries, recovery, cancellation.
  \<^item> \<open>Provider_Operations\<close>, \<open>Lead_Intake\<close> (\<open>lead_routing/services.py\<close>): profiles, assignments,
    submissions, analytics; \<open>Lead_Privacy\<close> (\<open>privacy.py\<close>): export, deletion, retention;
    \<open>Lead_Delivery\<close> (\<open>worker.py\<close>): the durable delivery workers.
  \<^item> \<open>Property_Requests\<close> (\<open>property_workflow/models.py\<close>), \<open>Property_Workflow\<close>
    (\<open>property_workflow/services.py\<close>), \<open>Property_History\<close>: properties, domains, site
    configurations, builds, compliance reviews, deployments and rollbacks, and histories of them.
  \<^item> \<open>Outcomes\<close>, \<open>Calibration_Reports\<close>, \<open>Outcome_History\<close> (\<open>outcomes/services.py\<close>): immutable
    selection decisions, imported outcomes, descriptive reports, the scoring-change guard, and
    histories of them.
  \<^item> \<open>Discovery_Text\<close>, \<open>Discovery_Models\<close> (\<open>domain/models.py\<close>): slugs, domains, addresses and the
    evidence records; \<open>Serp_Classification\<close> (\<open>scoring/serp.py\<close>); \<open>Demand\<close>
    (\<open>services/demand.py\<close>, \<open>demand_estimation.py\<close>); \<open>Provider_Suitability\<close>
    (\<open>services/providers.py\<close>); \<open>Competitor_Selection\<close> (\<open>services/competitors.py\<close>).
  \<^item> \<open>Keyword_Weights\<close>, \<open>Scoring\<close> (\<open>scoring/score.py\<close>): the weighted evidence and the score of
    an opportunity; \<open>Score_Bounds\<close>, \<open>Score_Confidence\<close>: its range, steps and confidence;
    \<open>Evidence_Quality\<close> (\<open>services/evidence_quality.py\<close>): when the evidence is unusable.
  \<^item> \<open>Keyword_Planning\<close> (\<open>services/keywords.py\<close>): seeds, clusters and queried keywords.
  \<^item> \<open>Blob_Store\<close> (\<open>storage/blobs.py\<close>), \<open>Response_Cache\<close> (\<open>services/cache.py\<close>): stored provider
    responses, redacted and verified by checksum.
  \<^item> \<open>Geography\<close> (\<open>services/us_geography.py\<close>, \<open>locations.py\<close>): the offline index and the
    resolution of a typed location; \<open>Repositories\<close> (\<open>repositories.py\<close>): markets, services and
    opportunities as rows; \<open>Planning\<close> (\<open>planning.py\<close>): the calls and costs of a scan plan, which
    is also the planner of \<open>Batch_Plans\<close>.
  \<^item> \<open>Public_Data\<close> (\<open>public_data/store.py\<close>): immutable releases of public datasets, activation and
    rollback; \<open>Market_Prefilter\<close> (\<open>services/market_prefilter.py\<close>, \<open>public_data/naics.py\<close>): the
    zero-cost assessment and ranking of markets.

  Every operation is a function from the database (and the instants, random values and
  identifiers it draws) to a result; an exception carries no database because sessions roll
  back on it, except in the provider client, whose handlers commit. Histories are lists of
  requests run by \<open>run_requests\<close>; a refused request leaves the database as it was. Python
  floats and Decimals are rationals; datetimes are integers of microseconds. Unique
  constraints and conditional updates are part of the operations that rely on them.

  \<^bold>\<open>Results.\<close> The lemmas of each component show that its operations keep its invariant and
  what they return on every branch; the theorems named in the components state: the ledger of
  paid calls balances while recovery and live sessions do not meet, and stays within the limits, production calls need an open gate, review
  and assignment states follow their graphs, approval needs complete evidence, batches stay in
  budget, leases fence workers and stale work is recovered, attempts are bounded, submissions
  are idempotent and consented, payloads are redacted, a delivery is sent to the active
  provider only and never again once it is finished, deleted leads are never sent, and the
  status of a lead that is neither deleted nor spam is a function of its delivery jobs; production releases pass every gate, one
  release is live at a time, and the version history of a property is complete; outcomes join
  back to the evidence their property was selected on, reports keep truth bases apart and give
  correlations between -1 and 1, and exports return what was imported; a score is always
  returned under a sound configuration, lies within its weights and caps, is explained by its
  steps and is called certain only on strong evidence; a cached response is served only
  unexpired, redacted and intact; a plan that is not blocked obeys every switch and limit; a
  typed location is resolved only when it is unambiguous, and a stored market stays valid; a
  public dataset is served as it was registered or not at all; markets are assessed within their
  weights and ranked best first.

  \<^bold>\<open>Bounds.\<close> The loops of the model are structural recursions over rows or requests, and the
  loop of \<open>slugify\<close> and the recursion on decimal digits are shown to end, so no fuel is used.

  \<^bold>\<open>Not modelled.\<close> The network and the parsing of provider replies, the S3 client, HTML
  rendering, observability, request authentication, the API and command line, the adapters that
  read external dataset files and the script that builds the geography database, the lock file
  and atomic writes of the public-data registry, the calibration benchmark, the sentences and
  echoed inputs of a score. HMAC, SHA-256, JSON text, \<open>uuid4\<close>, the clock and the provider's
  replies are arguments of the definitions that use them.
\<close>

end
